(* ===== verification/Prelude.thy ===== *)
theory Prelude
  imports Main
    "HOL-Library.Char_ord" "HOL-Library.List_Lexorder" "HOL-Library.Product_Lexorder"
begin

text \<open>
  The base of the development: the error type and result type of the modelled Python code, the
  insertion-ordered dictionary, and the lemma collections the components share.

  \<^item> A Python exception is a value of \<open>py_error\<close>; a call that may raise has type \<open>'a result\<close>,
    with \<open>Inl\<close> for the exception.
  \<^item> A Python \<open>dict\<close> is an association list in insertion order: assigning to a present key
    keeps its place, assigning to a new key appends it. The interface \<open>keyed_store\<close> states what
    the clients of such a dictionary rely on.
\<close>

named_theorems dict_simps \<open>lookup laws of the ordered dictionary\<close>
named_theorems inv_intros \<open>operations that keep a component's invariant\<close>

section \<open>Exceptions as values\<close>

datatype py_error =
    ValueError string
  | KeyError string
  | IndexError
  | TypeError string
  | RuntimeError string
  | OSError string
  | AssertionError
  | RecursionError
  | OverflowError string
  | AuthError string
  | AttributeError string

type_synonym 'a result = "py_error + 'a"

definition res_bind :: "'a result \<Rightarrow> ('a \<Rightarrow> 'b result) \<Rightarrow> 'b result" where
  "res_bind m f = (case m of Inl e \<Rightarrow> Inl e | Inr x \<Rightarrow> f x)"

lemma res_bind_simps [simp]:
  "res_bind (Inl e) f = Inl e"
  "res_bind (Inr x) f = f x"
  by (simp_all add: res_bind_def)

lemma res_bind_Inr_iff:
  "res_bind m f = Inr y \<longleftrightarrow> (\<exists>x. m = Inr x \<and> f x = Inr y)"
  by (cases m) auto

lemma res_bind_Inl_iff:
  "res_bind m f = Inl e \<longleftrightarrow> m = Inl e \<or> (\<exists>x. m = Inr x \<and> f x = Inl e)"
  by (cases m) auto

lemma res_bind_assoc:
  "res_bind (res_bind m f) g = res_bind m (\<lambda>x. res_bind (f x) g)"
  by (cases m) auto

definition is_ok :: "'a result \<Rightarrow> bool" where
  "is_ok r = (case r of Inl _ \<Rightarrow> False | Inr _ \<Rightarrow> True)"

lemma is_ok_simps [simp]: "is_ok (Inl e) = False" "is_ok (Inr x) = True"
  by (simp_all add: is_ok_def)

lemma is_ok_iff: "is_ok r \<longleftrightarrow> (\<exists>x. r = Inr x)"
  by (cases r) auto

text \<open>A loop that stops at the first exception.\<close>

fun res_each :: "('a \<Rightarrow> unit result) \<Rightarrow> 'a list \<Rightarrow> unit result" where
  "res_each f [] = Inr ()"
| "res_each f (x # xs) = res_bind (f x) (\<lambda>_. res_each f xs)"

fun res_map :: "('a \<Rightarrow> 'b result) \<Rightarrow> 'a list \<Rightarrow> 'b list result" where
  "res_map f [] = Inr []"
| "res_map f (x # xs) =
     res_bind (f x) (\<lambda>y. res_bind (res_map f xs) (\<lambda>ys. Inr (y # ys)))"

lemma res_each_ok_iff: "res_each f xs = Inr () \<longleftrightarrow> (\<forall>x \<in> set xs. is_ok (f x))"
  by (induction xs) (auto simp: res_bind_Inr_iff is_ok_iff)

lemma res_map_ok_iff:
  "res_map f xs = Inr ys \<longleftrightarrow> list_all2 (\<lambda>x y. f x = Inr y) xs ys"
  by (induction xs arbitrary: ys) (auto simp: res_bind_Inr_iff list_all2_Cons1)

lemma res_map_length: "res_map f xs = Inr ys \<Longrightarrow> length ys = length xs"
  by (auto simp: res_map_ok_iff dest: list_all2_lengthD)

section \<open>Dictionaries in insertion order\<close>

type_synonym ('k, 'v) pydict = "('k \<times> 'v) list"

definition dict_get :: "('k, 'v) pydict \<Rightarrow> 'k \<Rightarrow> 'v option" where
  "dict_get d k = map_of d k"

fun dict_set :: "'k \<Rightarrow> 'v \<Rightarrow> ('k, 'v) pydict \<Rightarrow> ('k, 'v) pydict" where
  "dict_set k v [] = [(k, v)]"
| "dict_set k v ((k', v') # d) =
     (if k' = k then (k, v) # d else (k', v') # dict_set k v d)"

definition dict_pop :: "'k \<Rightarrow> ('k, 'v) pydict \<Rightarrow> ('k, 'v) pydict" where
  "dict_pop k d = filter (\<lambda>(k', _). k' \<noteq> k) d"

definition dict_has :: "('k, 'v) pydict \<Rightarrow> 'k \<Rightarrow> bool" where
  "dict_has d k \<longleftrightarrow> k \<in> set (map fst d)"

definition dict_keys :: "('k, 'v) pydict \<Rightarrow> 'k list" where
  "dict_keys d = map fst d"

definition dict_values :: "('k, 'v) pydict \<Rightarrow> 'v list" where
  "dict_values d = map snd d"

definition dict_setdefault :: "'k \<Rightarrow> 'v \<Rightarrow> ('k, 'v) pydict \<Rightarrow> ('k, 'v) pydict" where
  "dict_setdefault k v d = (if dict_has d k then d else d @ [(k, v)])"

definition dict_update :: "('k, 'v) pydict \<Rightarrow> ('k, 'v) pydict \<Rightarrow> ('k, 'v) pydict" where
  "dict_update d e = fold (\<lambda>(k, v) acc. dict_set k v acc) e d"

definition dict_wf :: "('k, 'v) pydict \<Rightarrow> bool" where
  "dict_wf d \<longleftrightarrow> distinct (map fst d)"

lemma dict_get_simps [simp]:
  "dict_get [] k = None"
  "dict_get ((k', v) # d) k = (if k' = k then Some v else dict_get d k)"
  by (simp_all add: dict_get_def)

lemma dict_has_simps [simp]:
  "dict_has [] k = False"
  "dict_has ((k', v) # d) k = (k' = k \<or> dict_has d k)"
  by (auto simp: dict_has_def)

lemma dict_keys_simps [simp]:
  "dict_keys [] = []"
  "dict_keys ((k, v) # d) = k # dict_keys d"
  by (simp_all add: dict_keys_def)

lemma dict_values_simps [simp]:
  "dict_values [] = []"
  "dict_values ((k, v) # d) = v # dict_values d"
  by (simp_all add: dict_values_def)

lemma dict_pop_simps [simp]:
  "dict_pop k [] = []"
  "dict_pop k ((k', v) # d) = (if k' = k then dict_pop k d else (k', v) # dict_pop k d)"
  by (simp_all add: dict_pop_def)

lemma dict_has_iff: "dict_has d k \<longleftrightarrow> dict_get d k \<noteq> None"
  by (induction d) auto

lemma dict_keys_set: "k \<in> set (dict_keys d) \<longleftrightarrow> dict_has d k"
  by (simp add: dict_keys_def dict_has_def)

lemma dict_get_set [dict_simps, simp]:
  "dict_get (dict_set k v d) k' = (if k' = k then Some v else dict_get d k')"
  by (induction d) auto

lemma dict_get_pop [dict_simps, simp]:
  "dict_get (dict_pop k d) k' = (if k' = k then None else dict_get d k')"
  by (induction d) auto

lemma dict_get_append:
  "dict_get (d @ e) k = (case dict_get d k of None \<Rightarrow> dict_get e k | Some v \<Rightarrow> Some v)"
  by (induction d) auto

lemma dict_get_setdefault [dict_simps, simp]:
  "dict_get (dict_setdefault k v d) k' =
     (if k' = k then Some (case dict_get d k of None \<Rightarrow> v | Some w \<Rightarrow> w) else dict_get d k')"
  by (auto simp: dict_setdefault_def dict_has_iff dict_get_append split: option.splits)

lemma dict_keys_set_op:
  "dict_keys (dict_set k v d) = (if dict_has d k then dict_keys d else dict_keys d @ [k])"
  by (induction d) auto

lemma dict_set_keys: "set (dict_keys (dict_set k v d)) = insert k (set (dict_keys d))"
  by (auto simp: dict_keys_set dict_has_iff split: if_splits)

lemma dict_pop_keys: "set (dict_keys (dict_pop k d)) = set (dict_keys d) - {k}"
  by (auto simp: dict_keys_set dict_has_iff split: if_splits)

lemma dict_wf_Nil [simp, intro]: "dict_wf []"
  by (simp add: dict_wf_def)

lemma dict_wf_set [simp, inv_intros]: "dict_wf d \<Longrightarrow> dict_wf (dict_set k v d)"
  by (simp add: dict_wf_def dict_keys_set_op[unfolded dict_keys_def] dict_has_def)

lemma dict_wf_pop [simp, inv_intros]: "dict_wf d \<Longrightarrow> dict_wf (dict_pop k d)"
  by (auto simp: dict_wf_def dict_pop_def distinct_map intro: inj_on_subset)

lemma dict_get_in_set: "dict_get d k = Some v \<Longrightarrow> (k, v) \<in> set d"
  by (simp add: dict_get_def map_of_SomeD)

lemma dict_wf_get: "dict_wf d \<Longrightarrow> (k, v) \<in> set d \<Longrightarrow> dict_get d k = Some v"
  by (simp add: dict_wf_def dict_get_def)

lemma dict_set_set: "set (dict_set k v d) \<subseteq> insert (k, v) (set d)"
  by (induction d) (auto split: if_splits)

lemma dict_pop_set: "set (dict_pop k d) \<subseteq> set d"
  by (auto simp: dict_pop_def)

lemma dict_set_other: "dict_wf d \<Longrightarrow> (k', v') \<in> set (dict_set k v d) \<Longrightarrow> k' \<noteq> k \<Longrightarrow> (k', v') \<in> set d"
  by (induction d) (auto split: if_splits simp: dict_wf_def)

lemma dict_set_absent: "\<not> dict_has d k \<Longrightarrow> dict_set k v d = d @ [(k, v)]"
  by (induction d) auto

lemma dict_length_set: "length (dict_set k v d) = (if dict_has d k then length d else Suc (length d))"
  by (induction d) auto

lemma dict_get_map_values:
  "dict_get (map (\<lambda>(k, v). (k, f k v)) d) k = map_option (f k) (dict_get d k)"
  by (induction d) auto

lemma dict_keys_map_values: "dict_keys (map (\<lambda>(k, v). (k, f k v)) d) = dict_keys d"
  by (induction d) auto

lemma dict_get_filter:
  "dict_wf d \<Longrightarrow>
   dict_get (filter (\<lambda>(k, v). p v) d) k =
     (case dict_get d k of None \<Rightarrow> None | Some v \<Rightarrow> if p v then Some v else None)"
proof (induction d)
  case Nil
  then show ?case by simp
next
  case (Cons kv d)
  obtain k' v' where kv: "kv = (k', v')" by (cases kv)
  from Cons.prems have wf: "dict_wf d" and fresh: "k' \<notin> fst ` set d"
    by (auto simp: dict_wf_def kv)
  have absent: "dict_get d k' = None"
    using fresh by (auto simp: dict_get_def map_of_eq_None_iff)
  show ?case
    using Cons.IH[OF wf] absent by (auto simp: kv split: option.splits)
qed

section \<open>The dictionary interface\<close>

text \<open>
  What a component relies on when it keeps its records in a dictionary: assignment and removal
  act on one key only, and both keep the keys distinct.
\<close>

locale keyed_store =
  fixes look :: "'m \<Rightarrow> 'k \<Rightarrow> 'v option"
    and put :: "'k \<Rightarrow> 'v \<Rightarrow> 'm \<Rightarrow> 'm"
    and drop_key :: "'k \<Rightarrow> 'm \<Rightarrow> 'm"
    and ok :: "'m \<Rightarrow> bool"
  assumes look_put: "look (put k v m) k' = (if k' = k then Some v else look m k')"
    and look_drop: "look (drop_key k m) k' = (if k' = k then None else look m k')"
    and ok_put: "ok m \<Longrightarrow> ok (put k v m)"
    and ok_drop: "ok m \<Longrightarrow> ok (drop_key k m)"
begin

lemma look_put_same: "look (put k v m) k = Some v"
  by (simp add: look_put)

lemma look_put_other: "k' \<noteq> k \<Longrightarrow> look (put k v m) k' = look m k'"
  by (simp add: look_put)

lemma drop_put: "look (drop_key k (put k v m)) k' = look (drop_key k m) k'"
  by (simp add: look_put look_drop)

lemma put_put: "look (put k w (put k v m)) k' = look (put k w m) k'"
  by (simp add: look_put)

lemma put_commute:
  "k \<noteq> k' \<Longrightarrow> look (put k v (put k' v' m)) j = look (put k' v' (put k v m)) j"
  by (simp add: look_put)

lemma fold_put_other:
  "k \<notin> fst ` set kvs \<Longrightarrow> look (fold (\<lambda>(j, v). put j v) kvs m) k = look m k"
  by (induction kvs arbitrary: m) (auto simp: look_put)

lemma fold_drop:
  "look (fold drop_key ks m) k = (if k \<in> set ks then None else look m k)"
  by (induction ks arbitrary: m) (auto simp: look_drop)

lemma ok_fold_drop: "ok m \<Longrightarrow> ok (fold drop_key ks m)"
  by (induction ks arbitrary: m) (auto intro: ok_drop)

end

interpretation pd: keyed_store dict_get dict_set dict_pop dict_wf
  by unfold_locales auto

lemma dict_get_update:
  "dict_wf e \<Longrightarrow> dict_get (dict_update d e) k =
     (case dict_get e k of None \<Rightarrow> dict_get d k | Some v \<Rightarrow> Some v)"
proof (induction e arbitrary: d)
  case Nil
  then show ?case by (simp add: dict_update_def)
next
  case (Cons kv e)
  obtain k' v' where kv: "kv = (k', v')" by (cases kv)
  from Cons.prems have wf: "dict_wf e" and fresh: "k' \<notin> fst ` set e"
    by (auto simp: dict_wf_def kv)
  have "dict_get e k' = None"
    using fresh by (auto simp: dict_get_def map_of_eq_None_iff)
  moreover have "dict_update d (kv # e) = dict_update (dict_set k' v' d) e"
    by (simp add: dict_update_def kv)
  ultimately show ?case
    using Cons.IH[OF wf, of "dict_set k' v' d"] by (auto simp: kv split: option.splits)
qed

section \<open>Generic list lemmas\<close>

lemma find_SomeD: "List.find p xs = Some x \<Longrightarrow> x \<in> set xs \<and> p x"
  by (induction xs) (auto split: if_splits)

lemma sort_key_stable_first:
  assumes "sort_key f xs = y # ys" and "x \<in> set xs"
  shows "f y \<le> f x"
proof -
  have "sorted (map f (y # ys))" by (metis assms(1) sorted_sort_key)
  moreover have "x \<in> set (y # ys)" by (metis assms set_sort)
  ultimately show ?thesis by (auto simp: sorted_wrt_map)
qed

end
