(* ===== verification/PyValue.thy ===== *)
theory PyValue
  imports Prelude
begin

text \<open>
  The values and the standard-library operations of Python that the modelled code uses.

  \<^item> A \<open>string\<close> holds the code points 0 to 255, one \<open>char\<close> each; whitespace, letter case and
    \<open>isalnum\<close> follow Python's tables on that range.
  \<^item> \<open>pyval\<close> is a value of type \<open>Any\<close> as it comes out of a JSON document: None, booleans, unbounded
    integers, strings, lists and string-keyed dictionaries. Floating-point numbers are not values
    of the model.
  \<^item> A \<open>str\<close>-valued \<open>Enum\<close> is a datatype of class \<open>enum\<close> whose members are listed in the source's
    order, with its \<open>value\<close> function; \<open>enum_parse\<close> is the call \<open>E(text)\<close>. The locale \<open>str_enum\<close>
    states the laws every such enumeration has.
\<close>

section \<open>Characters and strings\<close>

definition code_point :: "char \<Rightarrow> nat" where
  "code_point c = of_char c"

definition is_space :: "char \<Rightarrow> bool" where
  "is_space c =
     (let n = code_point c
      in 9 \<le> n \<and> n \<le> 13 \<or> 28 \<le> n \<and> n \<le> 32 \<or> n = 133 \<or> n = 160)"

definition is_digit :: "char \<Rightarrow> bool" where
  "is_digit c = (48 \<le> code_point c \<and> code_point c \<le> 57)"

definition is_alnum :: "char \<Rightarrow> bool" where
  "is_alnum c =
     (let n = code_point c
      in is_digit c \<or> 65 \<le> n \<and> n \<le> 90 \<or> 97 \<le> n \<and> n \<le> 122
         \<or> n \<in> {170, 178, 179, 181, 185, 186, 188, 189, 190}
         \<or> 192 \<le> n \<and> n \<le> 255 \<and> n \<noteq> 215 \<and> n \<noteq> 247)"

definition lower_char :: "char \<Rightarrow> char" where
  "lower_char c =
     (let n = code_point c
      in if 65 \<le> n \<and> n \<le> 90 \<or> 192 \<le> n \<and> n \<le> 222 \<and> n \<noteq> 215 then char_of (n + 32) else c)"

definition str_lower :: "string \<Rightarrow> string" where
  "str_lower s = map lower_char s"

definition lstrip_by :: "(char \<Rightarrow> bool) \<Rightarrow> string \<Rightarrow> string" where
  "lstrip_by p s = dropWhile p s"

definition rstrip_by :: "(char \<Rightarrow> bool) \<Rightarrow> string \<Rightarrow> string" where
  "rstrip_by p s = rev (dropWhile p (rev s))"

definition str_strip :: "string \<Rightarrow> string" where
  "str_strip s = rstrip_by is_space (lstrip_by is_space s)"

definition startswith :: "string \<Rightarrow> string \<Rightarrow> bool" where
  "startswith s p = (take (length p) s = p)"

definition endswith :: "string \<Rightarrow> string \<Rightarrow> bool" where
  "endswith s p = startswith (rev s) (rev p)"

text \<open>Evaluation of the string operations on literals.\<close>

lemmas string_eval = str_lower_def str_strip_def lstrip_by_def rstrip_by_def is_space_def
  is_digit_def is_alnum_def lower_char_def code_point_def startswith_def endswith_def Let_def

text \<open>\<open>s.replace(old, new)\<close> for a non-empty \<open>old\<close>.\<close>

fun str_replace :: "string \<Rightarrow> string \<Rightarrow> string \<Rightarrow> string" where
  "str_replace old new [] = []"
| "str_replace old new (c # cs) =
     (if old \<noteq> [] \<and> startswith (c # cs) old
      then new @ str_replace old new (drop (length old - 1) cs)
      else c # str_replace old new cs)"

fun split_on :: "char \<Rightarrow> string \<Rightarrow> string list" where
  "split_on c [] = [[]]"
| "split_on c (x # xs) =
     (if x = c then [] # split_on c xs
      else (case split_on c xs of [] \<Rightarrow> [[x]] | y # ys \<Rightarrow> (x # y) # ys))"

fun str_join :: "string \<Rightarrow> string list \<Rightarrow> string" where
  "str_join sep [] = []"
| "str_join sep [x] = x"
| "str_join sep (x # y # ys) = x @ sep @ str_join sep (y # ys)"

abbreviation newline :: char where
  "newline \<equiv> CHR 0x0A"

abbreviation carriage_return :: char where
  "carriage_return \<equiv> CHR 0x0D"

lemma startswith_append [simp]: "startswith (p @ s) p"
  by (simp add: startswith_def)

lemma startswith_iff: "startswith s p \<longleftrightarrow> (\<exists>t. s = p @ t)"
  by (metis append_take_drop_id startswith_append startswith_def)

lemma rstrip_by_idem: "rstrip_by p (rstrip_by p s) = rstrip_by p s"
  by (simp add: rstrip_by_def dropWhile_idem)

lemma lstrip_by_hd: "lstrip_by p s = [] \<or> \<not> p (hd (lstrip_by p s))"
  unfolding lstrip_by_def by (metis hd_dropWhile)

lemma rstrip_by_hd:
  assumes "s = [] \<or> \<not> p (hd s)"
  shows "rstrip_by p s = [] \<or> hd (rstrip_by p s) = hd s"
proof (cases s)
  case Nil
  then show ?thesis by (simp add: rstrip_by_def)
next
  case (Cons c cs)
  with assms have "\<not> p c" by simp
  then have "dropWhile p (rev cs @ [c]) = dropWhile p (rev cs) @ [c]"
    by (simp add: dropWhile_append)
  then show ?thesis by (simp add: rstrip_by_def Cons)
qed

lemma str_strip_idem [simp]: "str_strip (str_strip s) = str_strip s"
proof -
  let ?t = "lstrip_by is_space s"
  have hd: "?t = [] \<or> \<not> is_space (hd ?t)" by (rule lstrip_by_hd)
  have "rstrip_by is_space ?t = [] \<or> \<not> is_space (hd (rstrip_by is_space ?t))"
  proof (cases "?t = []")
    case True
    then show ?thesis by (simp add: rstrip_by_def)
  next
    case False
    with rstrip_by_hd[of ?t is_space, OF hd] hd show ?thesis by auto
  qed
  then have "lstrip_by is_space (rstrip_by is_space ?t) = rstrip_by is_space ?t"
    by (cases "rstrip_by is_space ?t") (simp_all add: lstrip_by_def)
  then show ?thesis by (simp add: str_strip_def rstrip_by_idem)
qed

lemma str_strip_Nil [simp]: "str_strip [] = []"
  by (simp add: str_strip_def lstrip_by_def rstrip_by_def)

lemma split_on_nonempty [simp]: "split_on c s \<noteq> []"
  by (induction s) (auto split: list.splits)

lemma join_split: "str_join [c] (split_on c s) = s"
proof (induction s)
  case Nil
  then show ?case by simp
next
  case (Cons x xs)
  obtain y ys where sp: "split_on c xs = y # ys"
    by (cases "split_on c xs") auto
  show ?case
  proof (cases "x = c")
    case True
    with Cons sp show ?thesis by simp
  next
    case False
    with Cons sp show ?thesis by (cases ys) auto
  qed
qed

lemma split_on_no_sep: "c \<notin> set s \<Longrightarrow> split_on c s = [s]"
  by (induction s) auto

lemma split_on_append:
  "c \<notin> set s \<Longrightarrow> split_on c (s @ c # t) = s # split_on c t"
  by (induction s) auto

lemma split_join:
  "xs \<noteq> [] \<Longrightarrow> \<forall>x \<in> set xs. c \<notin> set x \<Longrightarrow> split_on c (str_join [c] xs) = xs"
proof (induction "[c]" xs rule: str_join.induct)
  case 1
  then show ?case by simp
next
  case (2 x)
  then show ?case by (simp add: split_on_no_sep)
next
  case (3 x y ys)
  then show ?case by (simp add: split_on_append)
qed

lemma split_on_parts: "x \<in> set (split_on c s) \<Longrightarrow> c \<notin> set x"
proof (induction s arbitrary: x)
  case Nil
  then show ?case by simp
next
  case (Cons a s)
  obtain y ys where sp: "split_on c s = y # ys"
    by (cases "split_on c s") auto
  with Cons show ?case by (auto split: if_splits)
qed

section \<open>Numbers as text\<close>

fun nat_str :: "nat \<Rightarrow> string" where
  "nat_str n = (if n < 10 then [char_of (48 + n)] else nat_str (n div 10) @ [char_of (48 + n mod 10)])"

declare nat_str.simps [simp del]

definition int_str :: "int \<Rightarrow> string" where
  "int_str i = (if i < 0 then CHR ''-'' # nat_str (nat (- i)) else nat_str (nat i))"

text \<open>\<open>int(text)\<close>: surrounding whitespace, a sign, decimal digits with single underscores
  between them; None is the \<open>ValueError\<close>.\<close>

fun digits_value :: "nat \<Rightarrow> string \<Rightarrow> nat option" where
  "digits_value acc [] = Some acc"
| "digits_value acc (c # cs) =
     (if is_digit c then digits_value (10 * acc + (code_point c - 48)) cs
      else if c = CHR ''_'' then
        (case cs of [] \<Rightarrow> None
         | d # ds \<Rightarrow> if is_digit d then digits_value (10 * acc + (code_point d - 48)) ds else None)
      else None)"

definition parse_digits :: "string \<Rightarrow> nat option" where
  "parse_digits s =
     (case s of [] \<Rightarrow> None | c # cs \<Rightarrow> if is_digit c then digits_value 0 s else None)"

definition parse_int :: "string \<Rightarrow> int option" where
  "parse_int text =
     (case str_strip text of
        [] \<Rightarrow> None
      | c # cs \<Rightarrow>
          if c = CHR ''-'' then map_option (\<lambda>n. - int n) (parse_digits cs)
          else if c = CHR ''+'' then map_option int (parse_digits cs)
          else map_option int (parse_digits (c # cs)))"

section \<open>Values of type Any\<close>

datatype pyval =
    PNone
  | PBool bool
  | PInt int
  | PStr string
  | PList "pyval list"
  | PDict "(string \<times> pyval) list"

type_synonym pyobj = "(string, pyval) pydict"

fun truthy :: "pyval \<Rightarrow> bool" where
  "truthy PNone = False"
| "truthy (PBool b) = b"
| "truthy (PInt i) = (i \<noteq> 0)"
| "truthy (PStr s) = (s \<noteq> [])"
| "truthy (PList xs) = (xs \<noteq> [])"
| "truthy (PDict d) = (d \<noteq> [])"

text \<open>The expression \<open>a or b\<close>.\<close>

definition py_or :: "pyval \<Rightarrow> pyval \<Rightarrow> pyval" where
  "py_or a b = (if truthy a then a else b)"

text \<open>\<open>d.get(k)\<close>, with None for a missing key, and \<open>d.get(k, default)\<close>.\<close>

definition pget :: "pyobj \<Rightarrow> string \<Rightarrow> pyval" where
  "pget d k = (case dict_get d k of None \<Rightarrow> PNone | Some v \<Rightarrow> v)"

definition pget_or :: "pyobj \<Rightarrow> string \<Rightarrow> pyval \<Rightarrow> pyval" where
  "pget_or d k dflt = (case dict_get d k of None \<Rightarrow> dflt | Some v \<Rightarrow> v)"

definition hex_digit :: "nat \<Rightarrow> char" where
  "hex_digit n = (if n < 10 then char_of (48 + n) else char_of (87 + n))"

definition repr_char :: "char \<Rightarrow> char \<Rightarrow> string" where
  "repr_char quote c =
     (let n = code_point c
      in if c = quote \<or> c = CHR 0x5C then [CHR 0x5C, c]
         else if n = 10 then [CHR 0x5C, CHR ''n'']
         else if n = 13 then [CHR 0x5C, CHR ''r'']
         else if n = 9 then [CHR 0x5C, CHR ''t'']
         else if n < 32 \<or> 127 \<le> n \<and> n \<le> 160 \<or> n = 173
           then [CHR 0x5C, CHR ''x'', hex_digit (n div 16), hex_digit (n mod 16)]
         else [c])"

definition str_repr :: "string \<Rightarrow> string" where
  "str_repr s =
     (let quote = (if CHR 0x27 \<in> set s \<and> CHR 0x22 \<notin> set s then CHR 0x22 else CHR 0x27)
      in [quote] @ concat (map (repr_char quote) s) @ [quote])"

fun py_repr :: "pyval \<Rightarrow> string"
  and repr_items :: "pyval list \<Rightarrow> string list"
  and repr_pairs :: "(string \<times> pyval) list \<Rightarrow> string list" where
  "py_repr PNone = ''None''"
| "py_repr (PBool b) = (if b then ''True'' else ''False'')"
| "py_repr (PInt i) = int_str i"
| "py_repr (PStr s) = str_repr s"
| "py_repr (PList xs) = ''['' @ str_join '', '' (repr_items xs) @ '']''"
| "py_repr (PDict d) = ''{'' @ str_join '', '' (repr_pairs d) @ ''}''"
| "repr_items [] = []"
| "repr_items (x # xs) = py_repr x # repr_items xs"
| "repr_pairs [] = []"
| "repr_pairs ((k, v) # d) = (str_repr k @ '': '' @ py_repr v) # repr_pairs d"

definition py_str :: "pyval \<Rightarrow> string" where
  "py_str v = (case v of PStr s \<Rightarrow> s | _ \<Rightarrow> py_repr v)"

text \<open>The common coercion \<open>str(v or "")\<close>.\<close>

definition str_or_empty :: "pyval \<Rightarrow> string" where
  "str_or_empty v = (if truthy v then py_str v else [])"

text \<open>\<open>int(v)\<close> of a JSON value: the error is \<open>TypeError\<close> or \<open>ValueError\<close>.\<close>

definition py_int :: "pyval \<Rightarrow> int result" where
  "py_int v =
     (case v of
        PInt i \<Rightarrow> Inr i
      | PBool b \<Rightarrow> Inr (if b then 1 else 0)
      | PStr s \<Rightarrow> (case parse_int s of
                    None \<Rightarrow> Inl (ValueError ''invalid literal for int() with base 10'')
                  | Some i \<Rightarrow> Inr i)
      | _ \<Rightarrow> Inl (TypeError ''int() argument must be a string or a number''))"

definition opt_val :: "string option \<Rightarrow> pyval" where
  "opt_val x = (case x of None \<Rightarrow> PNone | Some s \<Rightarrow> PStr s)"

lemma opt_val_simps [simp]: "opt_val None = PNone" "opt_val (Some s) = PStr s"
  by (simp_all add: opt_val_def)

lemma py_str_simps [simp]:
  "py_str (PStr s) = s"
  "py_str PNone = ''None''"
  "py_str (PInt i) = int_str i"
  by (simp_all add: py_str_def)

lemma str_or_empty_simps [simp]:
  "str_or_empty PNone = []"
  "str_or_empty (PStr s) = s"
  by (auto simp: str_or_empty_def)

text \<open>\<open>str(x or "")\<close> for \<open>x : str | None\<close>.\<close>

definition opt_str :: "string option \<Rightarrow> string" where
  "opt_str x = (case x of None \<Rightarrow> [] | Some s \<Rightarrow> s)"

lemma opt_str_simps [simp]: "opt_str None = []" "opt_str (Some s) = s"
  by (simp_all add: opt_str_def)

text \<open>\<open>x or None\<close> for a string.\<close>

definition str_opt :: "string \<Rightarrow> string option" where
  "str_opt s = (if s = [] then None else Some s)"

section \<open>Canonical JSON\<close>

text \<open>\<open>json.dumps(v, ensure_ascii=False, sort_keys=True, separators=(",", ":"))\<close>.\<close>

definition json_char :: "char \<Rightarrow> string" where
  "json_char c =
     (let n = code_point c
      in if n = 34 \<or> n = 92 then [CHR 0x5C, c]
         else if n = 10 then [CHR 0x5C, CHR ''n'']
         else if n = 13 then [CHR 0x5C, CHR ''r'']
         else if n = 9 then [CHR 0x5C, CHR ''t'']
         else if n = 8 then [CHR 0x5C, CHR ''b'']
         else if n = 12 then [CHR 0x5C, CHR ''f'']
         else if n < 32
           then [CHR 0x5C, CHR ''u'', CHR ''0'', CHR ''0'', hex_digit (n div 16), hex_digit (n mod 16)]
         else [c])"

definition json_str :: "string \<Rightarrow> string" where
  "json_str s = [CHR 0x22] @ concat (map json_char s) @ [CHR 0x22]"

fun json_dumps :: "pyval \<Rightarrow> string"
  and json_items :: "pyval list \<Rightarrow> string list"
  and json_pairs :: "(string \<times> pyval) list \<Rightarrow> (string \<times> string) list" where
  "json_dumps PNone = ''null''"
| "json_dumps (PBool b) = (if b then ''true'' else ''false'')"
| "json_dumps (PInt i) = int_str i"
| "json_dumps (PStr s) = json_str s"
| "json_dumps (PList xs) = ''['' @ str_join '','' (json_items xs) @ '']''"
| "json_dumps (PDict d) =
     ''{'' @ str_join '','' (map (\<lambda>(k, t). json_str k @ '':'' @ t) (sort_key fst (json_pairs d))) @ ''}''"
| "json_items [] = []"
| "json_items (x # xs) = json_dumps x # json_items xs"
| "json_pairs [] = []"
| "json_pairs ((k, v) # d) = (k, json_dumps v) # json_pairs d"

section \<open>String enumerations\<close>

definition enum_parse :: "('a::enum \<Rightarrow> string) \<Rightarrow> string \<Rightarrow> 'a option" where
  "enum_parse val s = List.find (\<lambda>x. val x = s) Enum.enum"

definition enum_of :: "('a::enum \<Rightarrow> string) \<Rightarrow> string \<Rightarrow> 'a result" where
  "enum_of val s =
     (case enum_parse val s of
        None \<Rightarrow> Inl (ValueError (str_repr s @ '' is not a valid member''))
      | Some x \<Rightarrow> Inr x)"

text \<open>
  What the code relies on when it stores an enumeration as its text and reads it back: distinct
  members have distinct texts.
\<close>

locale str_enum =
  fixes val :: "'a::enum \<Rightarrow> string"
  assumes val_inj: "val x = val y \<Longrightarrow> x = y"
begin

lemma parse_val: "enum_parse val (val x) = Some x"
proof -
  obtain y where y: "List.find (\<lambda>y. val y = val x) Enum.enum = Some y"
    using enum_class.enum_UNIV
    by (cases "List.find (\<lambda>y. val y = val x) Enum.enum") (auto simp: find_None_iff)
  then have "val y = val x" by (auto dest: find_SomeD)
  with y show ?thesis by (auto simp: enum_parse_def dest: val_inj)
qed

lemma parse_SomeD: "enum_parse val s = Some x \<Longrightarrow> val x = s"
  by (auto simp: enum_parse_def dest: find_SomeD)

lemma parse_iff: "enum_parse val s = Some x \<longleftrightarrow> s = val x"
  using parse_val parse_SomeD by auto

lemma of_val: "enum_of val (val x) = Inr x"
  by (simp add: enum_of_def parse_val)

lemma of_Inr_iff: "enum_of val s = Inr x \<longleftrightarrow> s = val x"
  by (cases "enum_parse val s") (auto simp: enum_of_def parse_iff parse_val dest: val_inj)

lemma of_unknown: "(\<exists>e. enum_of val s = Inl e) \<longleftrightarrow> s \<notin> range val"
  by (cases "enum_of val s") (auto simp: of_Inr_iff of_val)

end

lemma str_enum_distinct:
  fixes val :: "'a::enum \<Rightarrow> string"
  assumes "distinct (map val Enum.enum)"
  shows "str_enum val"
proof
  fix x y :: 'a
  assume "val x = val y"
  moreover have "inj_on val (set Enum.enum)"
    using assms by (simp add: distinct_map)
  ultimately show "x = y"
    by (simp add: UNIV_enum[symmetric] inj_on_def)
qed

end
