(* ===== verification/RuntimeEnums.thy ===== *)
theory RuntimeEnums
  imports PyValue
begin

text \<open>
  The string enumerations of \<open>src/reuleauxcoder/domain/agent_runtime/models.py\<close>, in the order of
  the file. Each has its datatype, its \<open>value\<close> function and the instance of class \<open>enum\<close> that
  lists the members in the source's order (the order in which Python iterates over the class);
  the interpretation of \<open>str_enum\<close> gives the laws of \<open>E(text)\<close>. A member \<open>Class.NAME\<close> is
  written \<open>Prefix_NAME\<close>, one prefix per class.
\<close>

datatype executor_type =
    Exec_REULEAUXCODER | Exec_FAKE | Exec_CODEX | Exec_CLAUDE | Exec_GEMINI

fun executor_type_value :: "executor_type \<Rightarrow> string" where
  "executor_type_value Exec_REULEAUXCODER = ''reuleauxcoder''"
| "executor_type_value Exec_FAKE = ''fake''"
| "executor_type_value Exec_CODEX = ''codex''"
| "executor_type_value Exec_CLAUDE = ''claude''"
| "executor_type_value Exec_GEMINI = ''gemini''"

lemma UNIV_executor_type: "(UNIV :: executor_type set) =
    {Exec_REULEAUXCODER, Exec_FAKE, Exec_CODEX, Exec_CLAUDE, Exec_GEMINI}"
  by (auto intro: executor_type.exhaust)

instantiation executor_type :: enum
begin

definition enum_executor_type :: "executor_type list" where
  "enum_executor_type =
    [Exec_REULEAUXCODER, Exec_FAKE, Exec_CODEX, Exec_CLAUDE, Exec_GEMINI]"

definition enum_all_executor_type :: "(executor_type \<Rightarrow> bool) \<Rightarrow> bool" where
  "enum_all_executor_type p = list_all p (enum_class.enum :: executor_type list)"

definition enum_ex_executor_type :: "(executor_type \<Rightarrow> bool) \<Rightarrow> bool" where
  "enum_ex_executor_type p = list_ex p (enum_class.enum :: executor_type list)"

instance
  by intro_classes
    (auto simp: enum_executor_type_def enum_all_executor_type_def enum_ex_executor_type_def UNIV_executor_type)

end

interpretation executor_type_enum: str_enum executor_type_value
  by (rule str_enum_distinct) code_simp

datatype execution_location =
    Loc_REMOTE_SERVER | Loc_LOCAL_WORKSPACE | Loc_DAEMON_WORKTREE

fun execution_location_value :: "execution_location \<Rightarrow> string" where
  "execution_location_value Loc_REMOTE_SERVER = ''remote_server''"
| "execution_location_value Loc_LOCAL_WORKSPACE = ''local_workspace''"
| "execution_location_value Loc_DAEMON_WORKTREE = ''daemon_worktree''"

lemma UNIV_execution_location: "(UNIV :: execution_location set) =
    {Loc_REMOTE_SERVER, Loc_LOCAL_WORKSPACE, Loc_DAEMON_WORKTREE}"
  by (auto intro: execution_location.exhaust)

instantiation execution_location :: enum
begin

definition enum_execution_location :: "execution_location list" where
  "enum_execution_location =
    [Loc_REMOTE_SERVER, Loc_LOCAL_WORKSPACE, Loc_DAEMON_WORKTREE]"

definition enum_all_execution_location :: "(execution_location \<Rightarrow> bool) \<Rightarrow> bool" where
  "enum_all_execution_location p = list_all p (enum_class.enum :: execution_location list)"

definition enum_ex_execution_location :: "(execution_location \<Rightarrow> bool) \<Rightarrow> bool" where
  "enum_ex_execution_location p = list_ex p (enum_class.enum :: execution_location list)"

instance
  by intro_classes
    (auto simp: enum_execution_location_def enum_all_execution_location_def enum_ex_execution_location_def UNIV_execution_location)

end

interpretation execution_location_enum: str_enum execution_location_value
  by (rule str_enum_distinct) code_simp

datatype worker_kind =
    Worker_LOCAL_PEER | Worker_SERVER_WORKER | Worker_SANDBOX_WORKER

fun worker_kind_value :: "worker_kind \<Rightarrow> string" where
  "worker_kind_value Worker_LOCAL_PEER = ''local_peer''"
| "worker_kind_value Worker_SERVER_WORKER = ''server_worker''"
| "worker_kind_value Worker_SANDBOX_WORKER = ''sandbox_worker''"

lemma UNIV_worker_kind: "(UNIV :: worker_kind set) =
    {Worker_LOCAL_PEER, Worker_SERVER_WORKER, Worker_SANDBOX_WORKER}"
  by (auto intro: worker_kind.exhaust)

instantiation worker_kind :: enum
begin

definition enum_worker_kind :: "worker_kind list" where
  "enum_worker_kind =
    [Worker_LOCAL_PEER, Worker_SERVER_WORKER, Worker_SANDBOX_WORKER]"

definition enum_all_worker_kind :: "(worker_kind \<Rightarrow> bool) \<Rightarrow> bool" where
  "enum_all_worker_kind p = list_all p (enum_class.enum :: worker_kind list)"

definition enum_ex_worker_kind :: "(worker_kind \<Rightarrow> bool) \<Rightarrow> bool" where
  "enum_ex_worker_kind p = list_ex p (enum_class.enum :: worker_kind list)"

instance
  by intro_classes
    (auto simp: enum_worker_kind_def enum_all_worker_kind_def enum_ex_worker_kind_def UNIV_worker_kind)

end

interpretation worker_kind_enum: str_enum worker_kind_value
  by (rule str_enum_distinct) code_simp

datatype model_request_origin =
    Origin_SERVER | Origin_SERVER_WORKER_CLI | Origin_LOCAL_CLI

fun model_request_origin_value :: "model_request_origin \<Rightarrow> string" where
  "model_request_origin_value Origin_SERVER = ''server''"
| "model_request_origin_value Origin_SERVER_WORKER_CLI = ''server_worker_cli''"
| "model_request_origin_value Origin_LOCAL_CLI = ''local_cli''"

lemma UNIV_model_request_origin: "(UNIV :: model_request_origin set) =
    {Origin_SERVER, Origin_SERVER_WORKER_CLI, Origin_LOCAL_CLI}"
  by (auto intro: model_request_origin.exhaust)

instantiation model_request_origin :: enum
begin

definition enum_model_request_origin :: "model_request_origin list" where
  "enum_model_request_origin =
    [Origin_SERVER, Origin_SERVER_WORKER_CLI, Origin_LOCAL_CLI]"

definition enum_all_model_request_origin :: "(model_request_origin \<Rightarrow> bool) \<Rightarrow> bool" where
  "enum_all_model_request_origin p = list_all p (enum_class.enum :: model_request_origin list)"

definition enum_ex_model_request_origin :: "(model_request_origin \<Rightarrow> bool) \<Rightarrow> bool" where
  "enum_ex_model_request_origin p = list_ex p (enum_class.enum :: model_request_origin list)"

instance
  by intro_classes
    (auto simp: enum_model_request_origin_def enum_all_model_request_origin_def enum_ex_model_request_origin_def UNIV_model_request_origin)

end

interpretation model_request_origin_enum: str_enum model_request_origin_value
  by (rule str_enum_distinct) code_simp

datatype worktree_role =
    Role_SOURCE | Role_TARGET

fun worktree_role_value :: "worktree_role \<Rightarrow> string" where
  "worktree_role_value Role_SOURCE = ''source''"
| "worktree_role_value Role_TARGET = ''target''"

lemma UNIV_worktree_role: "(UNIV :: worktree_role set) =
    {Role_SOURCE, Role_TARGET}"
  by (auto intro: worktree_role.exhaust)

instantiation worktree_role :: enum
begin

definition enum_worktree_role :: "worktree_role list" where
  "enum_worktree_role =
    [Role_SOURCE, Role_TARGET]"

definition enum_all_worktree_role :: "(worktree_role \<Rightarrow> bool) \<Rightarrow> bool" where
  "enum_all_worktree_role p = list_all p (enum_class.enum :: worktree_role list)"

definition enum_ex_worktree_role :: "(worktree_role \<Rightarrow> bool) \<Rightarrow> bool" where
  "enum_ex_worktree_role p = list_ex p (enum_class.enum :: worktree_role list)"

instance
  by intro_classes
    (auto simp: enum_worktree_role_def enum_all_worktree_role_def enum_ex_worktree_role_def UNIV_worktree_role)

end

interpretation worktree_role_enum: str_enum worktree_role_value
  by (rule str_enum_distinct) code_simp

datatype publish_policy =
    Publish_NEVER | Publish_BRANCH | Publish_PR

fun publish_policy_value :: "publish_policy \<Rightarrow> string" where
  "publish_policy_value Publish_NEVER = ''never''"
| "publish_policy_value Publish_BRANCH = ''branch''"
| "publish_policy_value Publish_PR = ''pr''"

lemma UNIV_publish_policy: "(UNIV :: publish_policy set) =
    {Publish_NEVER, Publish_BRANCH, Publish_PR}"
  by (auto intro: publish_policy.exhaust)

instantiation publish_policy :: enum
begin

definition enum_publish_policy :: "publish_policy list" where
  "enum_publish_policy =
    [Publish_NEVER, Publish_BRANCH, Publish_PR]"

definition enum_all_publish_policy :: "(publish_policy \<Rightarrow> bool) \<Rightarrow> bool" where
  "enum_all_publish_policy p = list_all p (enum_class.enum :: publish_policy list)"

definition enum_ex_publish_policy :: "(publish_policy \<Rightarrow> bool) \<Rightarrow> bool" where
  "enum_ex_publish_policy p = list_ex p (enum_class.enum :: publish_policy list)"

instance
  by intro_classes
    (auto simp: enum_publish_policy_def enum_all_publish_policy_def enum_ex_publish_policy_def UNIV_publish_policy)

end

interpretation publish_policy_enum: str_enum publish_policy_value
  by (rule str_enum_distinct) code_simp

datatype trigger_mode =
    Trigger_INTERACTIVE_CHAT | Trigger_ISSUE_TASK | Trigger_ENVIRONMENT_CONFIG

fun trigger_mode_value :: "trigger_mode \<Rightarrow> string" where
  "trigger_mode_value Trigger_INTERACTIVE_CHAT = ''interactive_chat''"
| "trigger_mode_value Trigger_ISSUE_TASK = ''issue_task''"
| "trigger_mode_value Trigger_ENVIRONMENT_CONFIG = ''environment_config''"

lemma UNIV_trigger_mode: "(UNIV :: trigger_mode set) =
    {Trigger_INTERACTIVE_CHAT, Trigger_ISSUE_TASK, Trigger_ENVIRONMENT_CONFIG}"
  by (auto intro: trigger_mode.exhaust)

instantiation trigger_mode :: enum
begin

definition enum_trigger_mode :: "trigger_mode list" where
  "enum_trigger_mode =
    [Trigger_INTERACTIVE_CHAT, Trigger_ISSUE_TASK, Trigger_ENVIRONMENT_CONFIG]"

definition enum_all_trigger_mode :: "(trigger_mode \<Rightarrow> bool) \<Rightarrow> bool" where
  "enum_all_trigger_mode p = list_all p (enum_class.enum :: trigger_mode list)"

definition enum_ex_trigger_mode :: "(trigger_mode \<Rightarrow> bool) \<Rightarrow> bool" where
  "enum_ex_trigger_mode p = list_ex p (enum_class.enum :: trigger_mode list)"

instance
  by intro_classes
    (auto simp: enum_trigger_mode_def enum_all_trigger_mode_def enum_ex_trigger_mode_def UNIV_trigger_mode)

end

interpretation trigger_mode_enum: str_enum trigger_mode_value
  by (rule str_enum_distinct) code_simp

datatype agent_run_source =
    Source_CHAT | Source_DELEGATION | Source_TASKFLOW | Source_ENVIRONMENT |
    Source_CAPABILITY_INGEST | Source_MANUAL

fun agent_run_source_value :: "agent_run_source \<Rightarrow> string" where
  "agent_run_source_value Source_CHAT = ''chat''"
| "agent_run_source_value Source_DELEGATION = ''delegation''"
| "agent_run_source_value Source_TASKFLOW = ''taskflow''"
| "agent_run_source_value Source_ENVIRONMENT = ''environment''"
| "agent_run_source_value Source_CAPABILITY_INGEST = ''capability_ingest''"
| "agent_run_source_value Source_MANUAL = ''manual''"

lemma UNIV_agent_run_source: "(UNIV :: agent_run_source set) =
    {Source_CHAT, Source_DELEGATION, Source_TASKFLOW, Source_ENVIRONMENT,
    Source_CAPABILITY_INGEST, Source_MANUAL}"
  by (auto intro: agent_run_source.exhaust)

instantiation agent_run_source :: enum
begin

definition enum_agent_run_source :: "agent_run_source list" where
  "enum_agent_run_source =
    [Source_CHAT, Source_DELEGATION, Source_TASKFLOW, Source_ENVIRONMENT,
    Source_CAPABILITY_INGEST, Source_MANUAL]"

definition enum_all_agent_run_source :: "(agent_run_source \<Rightarrow> bool) \<Rightarrow> bool" where
  "enum_all_agent_run_source p = list_all p (enum_class.enum :: agent_run_source list)"

definition enum_ex_agent_run_source :: "(agent_run_source \<Rightarrow> bool) \<Rightarrow> bool" where
  "enum_ex_agent_run_source p = list_ex p (enum_class.enum :: agent_run_source list)"

instance
  by intro_classes
    (auto simp: enum_agent_run_source_def enum_all_agent_run_source_def enum_ex_agent_run_source_def UNIV_agent_run_source)

end

interpretation agent_run_source_enum: str_enum agent_run_source_value
  by (rule str_enum_distinct) code_simp

datatype artifact_type =
    Artifact_BRANCH | Artifact_PULL_REQUEST | Artifact_TRANSCRIPT | Artifact_LOG |
    Artifact_DIFF | Artifact_TEST_RESULT | Artifact_FINAL_REPORT | Artifact_REPORT |
    Artifact_COMMENT | Artifact_DOCUMENT | Artifact_PLAN

fun artifact_type_value :: "artifact_type \<Rightarrow> string" where
  "artifact_type_value Artifact_BRANCH = ''branch''"
| "artifact_type_value Artifact_PULL_REQUEST = ''pull_request''"
| "artifact_type_value Artifact_TRANSCRIPT = ''transcript''"
| "artifact_type_value Artifact_LOG = ''log''"
| "artifact_type_value Artifact_DIFF = ''diff''"
| "artifact_type_value Artifact_TEST_RESULT = ''test_result''"
| "artifact_type_value Artifact_FINAL_REPORT = ''final_report''"
| "artifact_type_value Artifact_REPORT = ''report''"
| "artifact_type_value Artifact_COMMENT = ''comment''"
| "artifact_type_value Artifact_DOCUMENT = ''document''"
| "artifact_type_value Artifact_PLAN = ''plan''"

lemma UNIV_artifact_type: "(UNIV :: artifact_type set) =
    {Artifact_BRANCH, Artifact_PULL_REQUEST, Artifact_TRANSCRIPT, Artifact_LOG, Artifact_DIFF,
    Artifact_TEST_RESULT, Artifact_FINAL_REPORT, Artifact_REPORT, Artifact_COMMENT,
    Artifact_DOCUMENT, Artifact_PLAN}"
  by (auto intro: artifact_type.exhaust)

instantiation artifact_type :: enum
begin

definition enum_artifact_type :: "artifact_type list" where
  "enum_artifact_type =
    [Artifact_BRANCH, Artifact_PULL_REQUEST, Artifact_TRANSCRIPT, Artifact_LOG, Artifact_DIFF,
    Artifact_TEST_RESULT, Artifact_FINAL_REPORT, Artifact_REPORT, Artifact_COMMENT,
    Artifact_DOCUMENT, Artifact_PLAN]"

definition enum_all_artifact_type :: "(artifact_type \<Rightarrow> bool) \<Rightarrow> bool" where
  "enum_all_artifact_type p = list_all p (enum_class.enum :: artifact_type list)"

definition enum_ex_artifact_type :: "(artifact_type \<Rightarrow> bool) \<Rightarrow> bool" where
  "enum_ex_artifact_type p = list_ex p (enum_class.enum :: artifact_type list)"

instance
  by intro_classes
    (auto simp: enum_artifact_type_def enum_all_artifact_type_def enum_ex_artifact_type_def UNIV_artifact_type)

end

interpretation artifact_type_enum: str_enum artifact_type_value
  by (rule str_enum_distinct) code_simp

datatype artifact_status =
    AStatus_NONE | AStatus_GENERATED | AStatus_BRANCH_CREATED | AStatus_PUSHED |
    AStatus_PR_CREATED | AStatus_PR_REVIEWING | AStatus_PR_CHANGES_REQUESTED |
    AStatus_PR_APPROVED | AStatus_MERGED | AStatus_CLOSED | AStatus_FAILED

fun artifact_status_value :: "artifact_status \<Rightarrow> string" where
  "artifact_status_value AStatus_NONE = ''none''"
| "artifact_status_value AStatus_GENERATED = ''generated''"
| "artifact_status_value AStatus_BRANCH_CREATED = ''branch_created''"
| "artifact_status_value AStatus_PUSHED = ''pushed''"
| "artifact_status_value AStatus_PR_CREATED = ''pr_created''"
| "artifact_status_value AStatus_PR_REVIEWING = ''pr_reviewing''"
| "artifact_status_value AStatus_PR_CHANGES_REQUESTED = ''pr_changes_requested''"
| "artifact_status_value AStatus_PR_APPROVED = ''pr_approved''"
| "artifact_status_value AStatus_MERGED = ''merged''"
| "artifact_status_value AStatus_CLOSED = ''closed''"
| "artifact_status_value AStatus_FAILED = ''failed''"

lemma UNIV_artifact_status: "(UNIV :: artifact_status set) =
    {AStatus_NONE, AStatus_GENERATED, AStatus_BRANCH_CREATED, AStatus_PUSHED, AStatus_PR_CREATED,
    AStatus_PR_REVIEWING, AStatus_PR_CHANGES_REQUESTED, AStatus_PR_APPROVED, AStatus_MERGED,
    AStatus_CLOSED, AStatus_FAILED}"
  by (auto intro: artifact_status.exhaust)

instantiation artifact_status :: enum
begin

definition enum_artifact_status :: "artifact_status list" where
  "enum_artifact_status =
    [AStatus_NONE, AStatus_GENERATED, AStatus_BRANCH_CREATED, AStatus_PUSHED, AStatus_PR_CREATED,
    AStatus_PR_REVIEWING, AStatus_PR_CHANGES_REQUESTED, AStatus_PR_APPROVED, AStatus_MERGED,
    AStatus_CLOSED, AStatus_FAILED]"

definition enum_all_artifact_status :: "(artifact_status \<Rightarrow> bool) \<Rightarrow> bool" where
  "enum_all_artifact_status p = list_all p (enum_class.enum :: artifact_status list)"

definition enum_ex_artifact_status :: "(artifact_status \<Rightarrow> bool) \<Rightarrow> bool" where
  "enum_ex_artifact_status p = list_ex p (enum_class.enum :: artifact_status list)"

instance
  by intro_classes
    (auto simp: enum_artifact_status_def enum_all_artifact_status_def enum_ex_artifact_status_def UNIV_artifact_status)

end

interpretation artifact_status_enum: str_enum artifact_status_value
  by (rule str_enum_distinct) code_simp

datatype merge_status =
    Merge_PENDING_USER | Merge_MERGED_BY_USER | Merge_CLOSED

fun merge_status_value :: "merge_status \<Rightarrow> string" where
  "merge_status_value Merge_PENDING_USER = ''pending_user''"
| "merge_status_value Merge_MERGED_BY_USER = ''merged_by_user''"
| "merge_status_value Merge_CLOSED = ''closed''"

lemma UNIV_merge_status: "(UNIV :: merge_status set) =
    {Merge_PENDING_USER, Merge_MERGED_BY_USER, Merge_CLOSED}"
  by (auto intro: merge_status.exhaust)

instantiation merge_status :: enum
begin

definition enum_merge_status :: "merge_status list" where
  "enum_merge_status =
    [Merge_PENDING_USER, Merge_MERGED_BY_USER, Merge_CLOSED]"

definition enum_all_merge_status :: "(merge_status \<Rightarrow> bool) \<Rightarrow> bool" where
  "enum_all_merge_status p = list_all p (enum_class.enum :: merge_status list)"

definition enum_ex_merge_status :: "(merge_status \<Rightarrow> bool) \<Rightarrow> bool" where
  "enum_ex_merge_status p = list_ex p (enum_class.enum :: merge_status list)"

instance
  by intro_classes
    (auto simp: enum_merge_status_def enum_all_merge_status_def enum_ex_merge_status_def UNIV_merge_status)

end

interpretation merge_status_enum: str_enum merge_status_value
  by (rule str_enum_distinct) code_simp

datatype agent_run_status =
    Run_QUEUED | Run_DISPATCHED | Run_RUNNING | Run_WAITING | Run_COMPLETED | Run_FAILED |
    Run_CANCELLED | Run_BLOCKED

fun agent_run_status_value :: "agent_run_status \<Rightarrow> string" where
  "agent_run_status_value Run_QUEUED = ''queued''"
| "agent_run_status_value Run_DISPATCHED = ''dispatched''"
| "agent_run_status_value Run_RUNNING = ''running''"
| "agent_run_status_value Run_WAITING = ''waiting''"
| "agent_run_status_value Run_COMPLETED = ''completed''"
| "agent_run_status_value Run_FAILED = ''failed''"
| "agent_run_status_value Run_CANCELLED = ''cancelled''"
| "agent_run_status_value Run_BLOCKED = ''blocked''"

lemma UNIV_agent_run_status: "(UNIV :: agent_run_status set) =
    {Run_QUEUED, Run_DISPATCHED, Run_RUNNING, Run_WAITING, Run_COMPLETED, Run_FAILED,
    Run_CANCELLED, Run_BLOCKED}"
  by (auto intro: agent_run_status.exhaust)

instantiation agent_run_status :: enum
begin

definition enum_agent_run_status :: "agent_run_status list" where
  "enum_agent_run_status =
    [Run_QUEUED, Run_DISPATCHED, Run_RUNNING, Run_WAITING, Run_COMPLETED, Run_FAILED,
    Run_CANCELLED, Run_BLOCKED]"

definition enum_all_agent_run_status :: "(agent_run_status \<Rightarrow> bool) \<Rightarrow> bool" where
  "enum_all_agent_run_status p = list_all p (enum_class.enum :: agent_run_status list)"

definition enum_ex_agent_run_status :: "(agent_run_status \<Rightarrow> bool) \<Rightarrow> bool" where
  "enum_ex_agent_run_status p = list_ex p (enum_class.enum :: agent_run_status list)"

instance
  by intro_classes
    (auto simp: enum_agent_run_status_def enum_all_agent_run_status_def enum_ex_agent_run_status_def UNIV_agent_run_status)

end

interpretation agent_run_status_enum: str_enum agent_run_status_value
  by (rule str_enum_distinct) code_simp

datatype agent_run_mainline_state =
    Main_EXECUTING | Main_CONTINUABLE | Main_WAITING_FEEDBACK | Main_CLOSED | Main_CANCELLED |
    Main_FAILED | Main_BLOCKED | Main_UNRECOVERABLE

fun agent_run_mainline_state_value :: "agent_run_mainline_state \<Rightarrow> string" where
  "agent_run_mainline_state_value Main_EXECUTING = ''executing''"
| "agent_run_mainline_state_value Main_CONTINUABLE = ''continuable''"
| "agent_run_mainline_state_value Main_WAITING_FEEDBACK = ''waiting_feedback''"
| "agent_run_mainline_state_value Main_CLOSED = ''closed''"
| "agent_run_mainline_state_value Main_CANCELLED = ''cancelled''"
| "agent_run_mainline_state_value Main_FAILED = ''failed''"
| "agent_run_mainline_state_value Main_BLOCKED = ''blocked''"
| "agent_run_mainline_state_value Main_UNRECOVERABLE = ''unrecoverable''"

lemma UNIV_agent_run_mainline_state: "(UNIV :: agent_run_mainline_state set) =
    {Main_EXECUTING, Main_CONTINUABLE, Main_WAITING_FEEDBACK, Main_CLOSED, Main_CANCELLED,
    Main_FAILED, Main_BLOCKED, Main_UNRECOVERABLE}"
  by (auto intro: agent_run_mainline_state.exhaust)

instantiation agent_run_mainline_state :: enum
begin

definition enum_agent_run_mainline_state :: "agent_run_mainline_state list" where
  "enum_agent_run_mainline_state =
    [Main_EXECUTING, Main_CONTINUABLE, Main_WAITING_FEEDBACK, Main_CLOSED, Main_CANCELLED,
    Main_FAILED, Main_BLOCKED, Main_UNRECOVERABLE]"

definition enum_all_agent_run_mainline_state :: "(agent_run_mainline_state \<Rightarrow> bool) \<Rightarrow> bool" where
  "enum_all_agent_run_mainline_state p = list_all p (enum_class.enum :: agent_run_mainline_state list)"

definition enum_ex_agent_run_mainline_state :: "(agent_run_mainline_state \<Rightarrow> bool) \<Rightarrow> bool" where
  "enum_ex_agent_run_mainline_state p = list_ex p (enum_class.enum :: agent_run_mainline_state list)"

instance
  by intro_classes
    (auto simp: enum_agent_run_mainline_state_def enum_all_agent_run_mainline_state_def enum_ex_agent_run_mainline_state_def UNIV_agent_run_mainline_state)

end

interpretation agent_run_mainline_state_enum: str_enum agent_run_mainline_state_value
  by (rule str_enum_distinct) code_simp

datatype agent_run_waiting_reason =
    Wait_SERVER_PROCESSING | Wait_USER_APPROVAL | Wait_USER_INPUT | Wait_AGENT_CALL |
    Wait_WORKER_RECONNECT | Wait_SCHEDULED_RESUME | Wait_ADMIN_ACTION

fun agent_run_waiting_reason_value :: "agent_run_waiting_reason \<Rightarrow> string" where
  "agent_run_waiting_reason_value Wait_SERVER_PROCESSING = ''server_processing''"
| "agent_run_waiting_reason_value Wait_USER_APPROVAL = ''user_approval''"
| "agent_run_waiting_reason_value Wait_USER_INPUT = ''user_input''"
| "agent_run_waiting_reason_value Wait_AGENT_CALL = ''agent_call''"
| "agent_run_waiting_reason_value Wait_WORKER_RECONNECT = ''worker_reconnect''"
| "agent_run_waiting_reason_value Wait_SCHEDULED_RESUME = ''scheduled_resume''"
| "agent_run_waiting_reason_value Wait_ADMIN_ACTION = ''admin_action''"

lemma UNIV_agent_run_waiting_reason: "(UNIV :: agent_run_waiting_reason set) =
    {Wait_SERVER_PROCESSING, Wait_USER_APPROVAL, Wait_USER_INPUT, Wait_AGENT_CALL,
    Wait_WORKER_RECONNECT, Wait_SCHEDULED_RESUME, Wait_ADMIN_ACTION}"
  by (auto intro: agent_run_waiting_reason.exhaust)

instantiation agent_run_waiting_reason :: enum
begin

definition enum_agent_run_waiting_reason :: "agent_run_waiting_reason list" where
  "enum_agent_run_waiting_reason =
    [Wait_SERVER_PROCESSING, Wait_USER_APPROVAL, Wait_USER_INPUT, Wait_AGENT_CALL,
    Wait_WORKER_RECONNECT, Wait_SCHEDULED_RESUME, Wait_ADMIN_ACTION]"

definition enum_all_agent_run_waiting_reason :: "(agent_run_waiting_reason \<Rightarrow> bool) \<Rightarrow> bool" where
  "enum_all_agent_run_waiting_reason p = list_all p (enum_class.enum :: agent_run_waiting_reason list)"

definition enum_ex_agent_run_waiting_reason :: "(agent_run_waiting_reason \<Rightarrow> bool) \<Rightarrow> bool" where
  "enum_ex_agent_run_waiting_reason p = list_ex p (enum_class.enum :: agent_run_waiting_reason list)"

instance
  by intro_classes
    (auto simp: enum_agent_run_waiting_reason_def enum_all_agent_run_waiting_reason_def enum_ex_agent_run_waiting_reason_def UNIV_agent_run_waiting_reason)

end

interpretation agent_run_waiting_reason_enum: str_enum agent_run_waiting_reason_value
  by (rule str_enum_distinct) code_simp

datatype agent_run_resume_policy =
    Resume_AUTOMATIC | Resume_USER_ACTION | Resume_EXTERNAL_EVENT | Resume_MANUAL_ADMIN

fun agent_run_resume_policy_value :: "agent_run_resume_policy \<Rightarrow> string" where
  "agent_run_resume_policy_value Resume_AUTOMATIC = ''automatic''"
| "agent_run_resume_policy_value Resume_USER_ACTION = ''user_action''"
| "agent_run_resume_policy_value Resume_EXTERNAL_EVENT = ''external_event''"
| "agent_run_resume_policy_value Resume_MANUAL_ADMIN = ''manual_admin''"

lemma UNIV_agent_run_resume_policy: "(UNIV :: agent_run_resume_policy set) =
    {Resume_AUTOMATIC, Resume_USER_ACTION, Resume_EXTERNAL_EVENT, Resume_MANUAL_ADMIN}"
  by (auto intro: agent_run_resume_policy.exhaust)

instantiation agent_run_resume_policy :: enum
begin

definition enum_agent_run_resume_policy :: "agent_run_resume_policy list" where
  "enum_agent_run_resume_policy =
    [Resume_AUTOMATIC, Resume_USER_ACTION, Resume_EXTERNAL_EVENT, Resume_MANUAL_ADMIN]"

definition enum_all_agent_run_resume_policy :: "(agent_run_resume_policy \<Rightarrow> bool) \<Rightarrow> bool" where
  "enum_all_agent_run_resume_policy p = list_all p (enum_class.enum :: agent_run_resume_policy list)"

definition enum_ex_agent_run_resume_policy :: "(agent_run_resume_policy \<Rightarrow> bool) \<Rightarrow> bool" where
  "enum_ex_agent_run_resume_policy p = list_ex p (enum_class.enum :: agent_run_resume_policy list)"

instance
  by intro_classes
    (auto simp: enum_agent_run_resume_policy_def enum_all_agent_run_resume_policy_def enum_ex_agent_run_resume_policy_def UNIV_agent_run_resume_policy)

end

interpretation agent_run_resume_policy_enum: str_enum agent_run_resume_policy_value
  by (rule str_enum_distinct) code_simp

datatype agent_run_activation_input_kind =
    Input_USER_REQUEST | Input_SERVER_FEEDBACK | Input_USER_FEEDBACK | Input_USER_APPROVAL |
    Input_AGENT_FEEDBACK | Input_SCHEDULED_RESUME | Input_ADMIN_RESUME

fun agent_run_activation_input_kind_value :: "agent_run_activation_input_kind \<Rightarrow> string" where
  "agent_run_activation_input_kind_value Input_USER_REQUEST = ''user_request''"
| "agent_run_activation_input_kind_value Input_SERVER_FEEDBACK = ''server_feedback''"
| "agent_run_activation_input_kind_value Input_USER_FEEDBACK = ''user_feedback''"
| "agent_run_activation_input_kind_value Input_USER_APPROVAL = ''user_approval''"
| "agent_run_activation_input_kind_value Input_AGENT_FEEDBACK = ''agent_feedback''"
| "agent_run_activation_input_kind_value Input_SCHEDULED_RESUME = ''scheduled_resume''"
| "agent_run_activation_input_kind_value Input_ADMIN_RESUME = ''admin_resume''"

lemma UNIV_agent_run_activation_input_kind: "(UNIV :: agent_run_activation_input_kind set) =
    {Input_USER_REQUEST, Input_SERVER_FEEDBACK, Input_USER_FEEDBACK, Input_USER_APPROVAL,
    Input_AGENT_FEEDBACK, Input_SCHEDULED_RESUME, Input_ADMIN_RESUME}"
  by (auto intro: agent_run_activation_input_kind.exhaust)

instantiation agent_run_activation_input_kind :: enum
begin

definition enum_agent_run_activation_input_kind :: "agent_run_activation_input_kind list" where
  "enum_agent_run_activation_input_kind =
    [Input_USER_REQUEST, Input_SERVER_FEEDBACK, Input_USER_FEEDBACK, Input_USER_APPROVAL,
    Input_AGENT_FEEDBACK, Input_SCHEDULED_RESUME, Input_ADMIN_RESUME]"

definition enum_all_agent_run_activation_input_kind :: "(agent_run_activation_input_kind \<Rightarrow> bool) \<Rightarrow> bool" where
  "enum_all_agent_run_activation_input_kind p = list_all p (enum_class.enum :: agent_run_activation_input_kind list)"

definition enum_ex_agent_run_activation_input_kind :: "(agent_run_activation_input_kind \<Rightarrow> bool) \<Rightarrow> bool" where
  "enum_ex_agent_run_activation_input_kind p = list_ex p (enum_class.enum :: agent_run_activation_input_kind list)"

instance
  by intro_classes
    (auto simp: enum_agent_run_activation_input_kind_def enum_all_agent_run_activation_input_kind_def enum_ex_agent_run_activation_input_kind_def UNIV_agent_run_activation_input_kind)

end

interpretation agent_run_activation_input_kind_enum: str_enum agent_run_activation_input_kind_value
  by (rule str_enum_distinct) code_simp

datatype agent_run_activation_status =
    Act_QUEUED | Act_DISPATCHED | Act_RUNNING | Act_WAITING | Act_COMPLETED | Act_FAILED |
    Act_CANCELLED | Act_BLOCKED

fun agent_run_activation_status_value :: "agent_run_activation_status \<Rightarrow> string" where
  "agent_run_activation_status_value Act_QUEUED = ''queued''"
| "agent_run_activation_status_value Act_DISPATCHED = ''dispatched''"
| "agent_run_activation_status_value Act_RUNNING = ''running''"
| "agent_run_activation_status_value Act_WAITING = ''waiting''"
| "agent_run_activation_status_value Act_COMPLETED = ''completed''"
| "agent_run_activation_status_value Act_FAILED = ''failed''"
| "agent_run_activation_status_value Act_CANCELLED = ''cancelled''"
| "agent_run_activation_status_value Act_BLOCKED = ''blocked''"

lemma UNIV_agent_run_activation_status: "(UNIV :: agent_run_activation_status set) =
    {Act_QUEUED, Act_DISPATCHED, Act_RUNNING, Act_WAITING, Act_COMPLETED, Act_FAILED,
    Act_CANCELLED, Act_BLOCKED}"
  by (auto intro: agent_run_activation_status.exhaust)

instantiation agent_run_activation_status :: enum
begin

definition enum_agent_run_activation_status :: "agent_run_activation_status list" where
  "enum_agent_run_activation_status =
    [Act_QUEUED, Act_DISPATCHED, Act_RUNNING, Act_WAITING, Act_COMPLETED, Act_FAILED,
    Act_CANCELLED, Act_BLOCKED]"

definition enum_all_agent_run_activation_status :: "(agent_run_activation_status \<Rightarrow> bool) \<Rightarrow> bool" where
  "enum_all_agent_run_activation_status p = list_all p (enum_class.enum :: agent_run_activation_status list)"

definition enum_ex_agent_run_activation_status :: "(agent_run_activation_status \<Rightarrow> bool) \<Rightarrow> bool" where
  "enum_ex_agent_run_activation_status p = list_ex p (enum_class.enum :: agent_run_activation_status list)"

instance
  by intro_classes
    (auto simp: enum_agent_run_activation_status_def enum_all_agent_run_activation_status_def enum_ex_agent_run_activation_status_def UNIV_agent_run_activation_status)

end

interpretation agent_run_activation_status_enum: str_enum agent_run_activation_status_value
  by (rule str_enum_distinct) code_simp

datatype agent_run_activation_state =
    AState_QUEUED | AState_DISPATCHED | AState_RUNNING | AState_WAITING_SERVER |
    AState_WAITING_USER | AState_COMPLETED | AState_FAILED | AState_CANCELLED | AState_BLOCKED

fun agent_run_activation_state_value :: "agent_run_activation_state \<Rightarrow> string" where
  "agent_run_activation_state_value AState_QUEUED = ''queued''"
| "agent_run_activation_state_value AState_DISPATCHED = ''dispatched''"
| "agent_run_activation_state_value AState_RUNNING = ''running''"
| "agent_run_activation_state_value AState_WAITING_SERVER = ''waiting_server''"
| "agent_run_activation_state_value AState_WAITING_USER = ''waiting_user''"
| "agent_run_activation_state_value AState_COMPLETED = ''completed''"
| "agent_run_activation_state_value AState_FAILED = ''failed''"
| "agent_run_activation_state_value AState_CANCELLED = ''cancelled''"
| "agent_run_activation_state_value AState_BLOCKED = ''blocked''"

lemma UNIV_agent_run_activation_state: "(UNIV :: agent_run_activation_state set) =
    {AState_QUEUED, AState_DISPATCHED, AState_RUNNING, AState_WAITING_SERVER, AState_WAITING_USER,
    AState_COMPLETED, AState_FAILED, AState_CANCELLED, AState_BLOCKED}"
  by (auto intro: agent_run_activation_state.exhaust)

instantiation agent_run_activation_state :: enum
begin

definition enum_agent_run_activation_state :: "agent_run_activation_state list" where
  "enum_agent_run_activation_state =
    [AState_QUEUED, AState_DISPATCHED, AState_RUNNING, AState_WAITING_SERVER, AState_WAITING_USER,
    AState_COMPLETED, AState_FAILED, AState_CANCELLED, AState_BLOCKED]"

definition enum_all_agent_run_activation_state :: "(agent_run_activation_state \<Rightarrow> bool) \<Rightarrow> bool" where
  "enum_all_agent_run_activation_state p = list_all p (enum_class.enum :: agent_run_activation_state list)"

definition enum_ex_agent_run_activation_state :: "(agent_run_activation_state \<Rightarrow> bool) \<Rightarrow> bool" where
  "enum_ex_agent_run_activation_state p = list_ex p (enum_class.enum :: agent_run_activation_state list)"

instance
  by intro_classes
    (auto simp: enum_agent_run_activation_state_def enum_all_agent_run_activation_state_def enum_ex_agent_run_activation_state_def UNIV_agent_run_activation_state)

end

interpretation agent_run_activation_state_enum: str_enum agent_run_activation_state_value
  by (rule str_enum_distinct) code_simp

datatype agent_run_feedback_source =
    FSource_SERVER | FSource_USER | FSource_AGENT | FSource_SYSTEM | FSource_ADMIN

fun agent_run_feedback_source_value :: "agent_run_feedback_source \<Rightarrow> string" where
  "agent_run_feedback_source_value FSource_SERVER = ''server''"
| "agent_run_feedback_source_value FSource_USER = ''user''"
| "agent_run_feedback_source_value FSource_AGENT = ''agent''"
| "agent_run_feedback_source_value FSource_SYSTEM = ''system''"
| "agent_run_feedback_source_value FSource_ADMIN = ''admin''"

lemma UNIV_agent_run_feedback_source: "(UNIV :: agent_run_feedback_source set) =
    {FSource_SERVER, FSource_USER, FSource_AGENT, FSource_SYSTEM, FSource_ADMIN}"
  by (auto intro: agent_run_feedback_source.exhaust)

instantiation agent_run_feedback_source :: enum
begin

definition enum_agent_run_feedback_source :: "agent_run_feedback_source list" where
  "enum_agent_run_feedback_source =
    [FSource_SERVER, FSource_USER, FSource_AGENT, FSource_SYSTEM, FSource_ADMIN]"

definition enum_all_agent_run_feedback_source :: "(agent_run_feedback_source \<Rightarrow> bool) \<Rightarrow> bool" where
  "enum_all_agent_run_feedback_source p = list_all p (enum_class.enum :: agent_run_feedback_source list)"

definition enum_ex_agent_run_feedback_source :: "(agent_run_feedback_source \<Rightarrow> bool) \<Rightarrow> bool" where
  "enum_ex_agent_run_feedback_source p = list_ex p (enum_class.enum :: agent_run_feedback_source list)"

instance
  by intro_classes
    (auto simp: enum_agent_run_feedback_source_def enum_all_agent_run_feedback_source_def enum_ex_agent_run_feedback_source_def UNIV_agent_run_feedback_source)

end

interpretation agent_run_feedback_source_enum: str_enum agent_run_feedback_source_value
  by (rule str_enum_distinct) code_simp

datatype agent_run_feedback_kind =
    FKind_CANDIDATE_VALIDATION_FAILED | FKind_CANDIDATE_READY | FKind_APPROVAL_RESOLVED |
    FKind_USER_MESSAGE | FKind_AGENT_CALL_RESULT | FKind_AGENT_CALL_FAILED |
    FKind_ENVIRONMENT_EVENT | FKind_RETRY_INSTRUCTION

fun agent_run_feedback_kind_value :: "agent_run_feedback_kind \<Rightarrow> string" where
  "agent_run_feedback_kind_value FKind_CANDIDATE_VALIDATION_FAILED = ''candidate_validation_failed''"
| "agent_run_feedback_kind_value FKind_CANDIDATE_READY = ''candidate_ready''"
| "agent_run_feedback_kind_value FKind_APPROVAL_RESOLVED = ''approval_resolved''"
| "agent_run_feedback_kind_value FKind_USER_MESSAGE = ''user_message''"
| "agent_run_feedback_kind_value FKind_AGENT_CALL_RESULT = ''agent_call_result''"
| "agent_run_feedback_kind_value FKind_AGENT_CALL_FAILED = ''agent_call_failed''"
| "agent_run_feedback_kind_value FKind_ENVIRONMENT_EVENT = ''environment_event''"
| "agent_run_feedback_kind_value FKind_RETRY_INSTRUCTION = ''retry_instruction''"

lemma UNIV_agent_run_feedback_kind: "(UNIV :: agent_run_feedback_kind set) =
    {FKind_CANDIDATE_VALIDATION_FAILED, FKind_CANDIDATE_READY, FKind_APPROVAL_RESOLVED,
    FKind_USER_MESSAGE, FKind_AGENT_CALL_RESULT, FKind_AGENT_CALL_FAILED,
    FKind_ENVIRONMENT_EVENT, FKind_RETRY_INSTRUCTION}"
  by (auto intro: agent_run_feedback_kind.exhaust)

instantiation agent_run_feedback_kind :: enum
begin

definition enum_agent_run_feedback_kind :: "agent_run_feedback_kind list" where
  "enum_agent_run_feedback_kind =
    [FKind_CANDIDATE_VALIDATION_FAILED, FKind_CANDIDATE_READY, FKind_APPROVAL_RESOLVED,
    FKind_USER_MESSAGE, FKind_AGENT_CALL_RESULT, FKind_AGENT_CALL_FAILED,
    FKind_ENVIRONMENT_EVENT, FKind_RETRY_INSTRUCTION]"

definition enum_all_agent_run_feedback_kind :: "(agent_run_feedback_kind \<Rightarrow> bool) \<Rightarrow> bool" where
  "enum_all_agent_run_feedback_kind p = list_all p (enum_class.enum :: agent_run_feedback_kind list)"

definition enum_ex_agent_run_feedback_kind :: "(agent_run_feedback_kind \<Rightarrow> bool) \<Rightarrow> bool" where
  "enum_ex_agent_run_feedback_kind p = list_ex p (enum_class.enum :: agent_run_feedback_kind list)"

instance
  by intro_classes
    (auto simp: enum_agent_run_feedback_kind_def enum_all_agent_run_feedback_kind_def enum_ex_agent_run_feedback_kind_def UNIV_agent_run_feedback_kind)

end

interpretation agent_run_feedback_kind_enum: str_enum agent_run_feedback_kind_value
  by (rule str_enum_distinct) code_simp

datatype agent_run_feedback_visibility =
    FVis_INTERNAL | FVis_USER_VISIBLE | FVis_AUDIT_ONLY

fun agent_run_feedback_visibility_value :: "agent_run_feedback_visibility \<Rightarrow> string" where
  "agent_run_feedback_visibility_value FVis_INTERNAL = ''internal''"
| "agent_run_feedback_visibility_value FVis_USER_VISIBLE = ''user_visible''"
| "agent_run_feedback_visibility_value FVis_AUDIT_ONLY = ''audit_only''"

lemma UNIV_agent_run_feedback_visibility: "(UNIV :: agent_run_feedback_visibility set) =
    {FVis_INTERNAL, FVis_USER_VISIBLE, FVis_AUDIT_ONLY}"
  by (auto intro: agent_run_feedback_visibility.exhaust)

instantiation agent_run_feedback_visibility :: enum
begin

definition enum_agent_run_feedback_visibility :: "agent_run_feedback_visibility list" where
  "enum_agent_run_feedback_visibility =
    [FVis_INTERNAL, FVis_USER_VISIBLE, FVis_AUDIT_ONLY]"

definition enum_all_agent_run_feedback_visibility :: "(agent_run_feedback_visibility \<Rightarrow> bool) \<Rightarrow> bool" where
  "enum_all_agent_run_feedback_visibility p = list_all p (enum_class.enum :: agent_run_feedback_visibility list)"

definition enum_ex_agent_run_feedback_visibility :: "(agent_run_feedback_visibility \<Rightarrow> bool) \<Rightarrow> bool" where
  "enum_ex_agent_run_feedback_visibility p = list_ex p (enum_class.enum :: agent_run_feedback_visibility list)"

instance
  by intro_classes
    (auto simp: enum_agent_run_feedback_visibility_def enum_all_agent_run_feedback_visibility_def enum_ex_agent_run_feedback_visibility_def UNIV_agent_run_feedback_visibility)

end

interpretation agent_run_feedback_visibility_enum: str_enum agent_run_feedback_visibility_value
  by (rule str_enum_distinct) code_simp

datatype activation_steer_source =
    SSource_USER | SSource_ADMIN | SSource_SYSTEM

fun activation_steer_source_value :: "activation_steer_source \<Rightarrow> string" where
  "activation_steer_source_value SSource_USER = ''user''"
| "activation_steer_source_value SSource_ADMIN = ''admin''"
| "activation_steer_source_value SSource_SYSTEM = ''system''"

lemma UNIV_activation_steer_source: "(UNIV :: activation_steer_source set) =
    {SSource_USER, SSource_ADMIN, SSource_SYSTEM}"
  by (auto intro: activation_steer_source.exhaust)

instantiation activation_steer_source :: enum
begin

definition enum_activation_steer_source :: "activation_steer_source list" where
  "enum_activation_steer_source =
    [SSource_USER, SSource_ADMIN, SSource_SYSTEM]"

definition enum_all_activation_steer_source :: "(activation_steer_source \<Rightarrow> bool) \<Rightarrow> bool" where
  "enum_all_activation_steer_source p = list_all p (enum_class.enum :: activation_steer_source list)"

definition enum_ex_activation_steer_source :: "(activation_steer_source \<Rightarrow> bool) \<Rightarrow> bool" where
  "enum_ex_activation_steer_source p = list_ex p (enum_class.enum :: activation_steer_source list)"

instance
  by intro_classes
    (auto simp: enum_activation_steer_source_def enum_all_activation_steer_source_def enum_ex_activation_steer_source_def UNIV_activation_steer_source)

end

interpretation activation_steer_source_enum: str_enum activation_steer_source_value
  by (rule str_enum_distinct) code_simp

datatype activation_steer_status =
    Steer_QUEUED | Steer_DELIVERING | Steer_DELIVERED | Steer_FAILED | Steer_CANCELLED

fun activation_steer_status_value :: "activation_steer_status \<Rightarrow> string" where
  "activation_steer_status_value Steer_QUEUED = ''queued''"
| "activation_steer_status_value Steer_DELIVERING = ''delivering''"
| "activation_steer_status_value Steer_DELIVERED = ''delivered''"
| "activation_steer_status_value Steer_FAILED = ''failed''"
| "activation_steer_status_value Steer_CANCELLED = ''cancelled''"

lemma UNIV_activation_steer_status: "(UNIV :: activation_steer_status set) =
    {Steer_QUEUED, Steer_DELIVERING, Steer_DELIVERED, Steer_FAILED, Steer_CANCELLED}"
  by (auto intro: activation_steer_status.exhaust)

instantiation activation_steer_status :: enum
begin

definition enum_activation_steer_status :: "activation_steer_status list" where
  "enum_activation_steer_status =
    [Steer_QUEUED, Steer_DELIVERING, Steer_DELIVERED, Steer_FAILED, Steer_CANCELLED]"

definition enum_all_activation_steer_status :: "(activation_steer_status \<Rightarrow> bool) \<Rightarrow> bool" where
  "enum_all_activation_steer_status p = list_all p (enum_class.enum :: activation_steer_status list)"

definition enum_ex_activation_steer_status :: "(activation_steer_status \<Rightarrow> bool) \<Rightarrow> bool" where
  "enum_ex_activation_steer_status p = list_ex p (enum_class.enum :: activation_steer_status list)"

instance
  by intro_classes
    (auto simp: enum_activation_steer_status_def enum_all_activation_steer_status_def enum_ex_activation_steer_status_def UNIV_activation_steer_status)

end

interpretation activation_steer_status_enum: str_enum activation_steer_status_value
  by (rule str_enum_distinct) code_simp

datatype agent_run_relation_type =
    Rel_AGENT_CALL_EPHEMERAL | Rel_AGENT_CALL_PERSISTENT | Rel_BRANCH | Rel_FORK | Rel_REVIEW |
    Rel_DIAGNOSTIC_PROBE

fun agent_run_relation_type_value :: "agent_run_relation_type \<Rightarrow> string" where
  "agent_run_relation_type_value Rel_AGENT_CALL_EPHEMERAL = ''agent_call_ephemeral''"
| "agent_run_relation_type_value Rel_AGENT_CALL_PERSISTENT = ''agent_call_persistent''"
| "agent_run_relation_type_value Rel_BRANCH = ''branch''"
| "agent_run_relation_type_value Rel_FORK = ''fork''"
| "agent_run_relation_type_value Rel_REVIEW = ''review''"
| "agent_run_relation_type_value Rel_DIAGNOSTIC_PROBE = ''diagnostic_probe''"

lemma UNIV_agent_run_relation_type: "(UNIV :: agent_run_relation_type set) =
    {Rel_AGENT_CALL_EPHEMERAL, Rel_AGENT_CALL_PERSISTENT, Rel_BRANCH, Rel_FORK, Rel_REVIEW,
    Rel_DIAGNOSTIC_PROBE}"
  by (auto intro: agent_run_relation_type.exhaust)

instantiation agent_run_relation_type :: enum
begin

definition enum_agent_run_relation_type :: "agent_run_relation_type list" where
  "enum_agent_run_relation_type =
    [Rel_AGENT_CALL_EPHEMERAL, Rel_AGENT_CALL_PERSISTENT, Rel_BRANCH, Rel_FORK, Rel_REVIEW,
    Rel_DIAGNOSTIC_PROBE]"

definition enum_all_agent_run_relation_type :: "(agent_run_relation_type \<Rightarrow> bool) \<Rightarrow> bool" where
  "enum_all_agent_run_relation_type p = list_all p (enum_class.enum :: agent_run_relation_type list)"

definition enum_ex_agent_run_relation_type :: "(agent_run_relation_type \<Rightarrow> bool) \<Rightarrow> bool" where
  "enum_ex_agent_run_relation_type p = list_ex p (enum_class.enum :: agent_run_relation_type list)"

instance
  by intro_classes
    (auto simp: enum_agent_run_relation_type_def enum_all_agent_run_relation_type_def enum_ex_agent_run_relation_type_def UNIV_agent_run_relation_type)

end

interpretation agent_run_relation_type_enum: str_enum agent_run_relation_type_value
  by (rule str_enum_distinct) code_simp

datatype agent_run_relation_status =
    RStatus_ACTIVE | RStatus_COMPLETED | RStatus_FAILED | RStatus_CANCELLED | RStatus_UNAVAILABLE

fun agent_run_relation_status_value :: "agent_run_relation_status \<Rightarrow> string" where
  "agent_run_relation_status_value RStatus_ACTIVE = ''active''"
| "agent_run_relation_status_value RStatus_COMPLETED = ''completed''"
| "agent_run_relation_status_value RStatus_FAILED = ''failed''"
| "agent_run_relation_status_value RStatus_CANCELLED = ''cancelled''"
| "agent_run_relation_status_value RStatus_UNAVAILABLE = ''unavailable''"

lemma UNIV_agent_run_relation_status: "(UNIV :: agent_run_relation_status set) =
    {RStatus_ACTIVE, RStatus_COMPLETED, RStatus_FAILED, RStatus_CANCELLED, RStatus_UNAVAILABLE}"
  by (auto intro: agent_run_relation_status.exhaust)

instantiation agent_run_relation_status :: enum
begin

definition enum_agent_run_relation_status :: "agent_run_relation_status list" where
  "enum_agent_run_relation_status =
    [RStatus_ACTIVE, RStatus_COMPLETED, RStatus_FAILED, RStatus_CANCELLED, RStatus_UNAVAILABLE]"

definition enum_all_agent_run_relation_status :: "(agent_run_relation_status \<Rightarrow> bool) \<Rightarrow> bool" where
  "enum_all_agent_run_relation_status p = list_all p (enum_class.enum :: agent_run_relation_status list)"

definition enum_ex_agent_run_relation_status :: "(agent_run_relation_status \<Rightarrow> bool) \<Rightarrow> bool" where
  "enum_ex_agent_run_relation_status p = list_ex p (enum_class.enum :: agent_run_relation_status list)"

instance
  by intro_classes
    (auto simp: enum_agent_run_relation_status_def enum_all_agent_run_relation_status_def enum_ex_agent_run_relation_status_def UNIV_agent_run_relation_status)

end

interpretation agent_run_relation_status_enum: str_enum agent_run_relation_status_value
  by (rule str_enum_distinct) code_simp

datatype agent_thread_binding_lifetime =
    Life_SESSION | Life_RUN

fun agent_thread_binding_lifetime_value :: "agent_thread_binding_lifetime \<Rightarrow> string" where
  "agent_thread_binding_lifetime_value Life_SESSION = ''session''"
| "agent_thread_binding_lifetime_value Life_RUN = ''run''"

lemma UNIV_agent_thread_binding_lifetime: "(UNIV :: agent_thread_binding_lifetime set) =
    {Life_SESSION, Life_RUN}"
  by (auto intro: agent_thread_binding_lifetime.exhaust)

instantiation agent_thread_binding_lifetime :: enum
begin

definition enum_agent_thread_binding_lifetime :: "agent_thread_binding_lifetime list" where
  "enum_agent_thread_binding_lifetime =
    [Life_SESSION, Life_RUN]"

definition enum_all_agent_thread_binding_lifetime :: "(agent_thread_binding_lifetime \<Rightarrow> bool) \<Rightarrow> bool" where
  "enum_all_agent_thread_binding_lifetime p = list_all p (enum_class.enum :: agent_thread_binding_lifetime list)"

definition enum_ex_agent_thread_binding_lifetime :: "(agent_thread_binding_lifetime \<Rightarrow> bool) \<Rightarrow> bool" where
  "enum_ex_agent_thread_binding_lifetime p = list_ex p (enum_class.enum :: agent_thread_binding_lifetime list)"

instance
  by intro_classes
    (auto simp: enum_agent_thread_binding_lifetime_def enum_all_agent_thread_binding_lifetime_def enum_ex_agent_thread_binding_lifetime_def UNIV_agent_thread_binding_lifetime)

end

interpretation agent_thread_binding_lifetime_enum: str_enum agent_thread_binding_lifetime_value
  by (rule str_enum_distinct) code_simp

datatype agent_thread_binding_status =
    TBind_ACTIVE | TBind_CLOSED | TBind_UNAVAILABLE

fun agent_thread_binding_status_value :: "agent_thread_binding_status \<Rightarrow> string" where
  "agent_thread_binding_status_value TBind_ACTIVE = ''active''"
| "agent_thread_binding_status_value TBind_CLOSED = ''closed''"
| "agent_thread_binding_status_value TBind_UNAVAILABLE = ''unavailable''"

lemma UNIV_agent_thread_binding_status: "(UNIV :: agent_thread_binding_status set) =
    {TBind_ACTIVE, TBind_CLOSED, TBind_UNAVAILABLE}"
  by (auto intro: agent_thread_binding_status.exhaust)

instantiation agent_thread_binding_status :: enum
begin

definition enum_agent_thread_binding_status :: "agent_thread_binding_status list" where
  "enum_agent_thread_binding_status =
    [TBind_ACTIVE, TBind_CLOSED, TBind_UNAVAILABLE]"

definition enum_all_agent_thread_binding_status :: "(agent_thread_binding_status \<Rightarrow> bool) \<Rightarrow> bool" where
  "enum_all_agent_thread_binding_status p = list_all p (enum_class.enum :: agent_thread_binding_status list)"

definition enum_ex_agent_thread_binding_status :: "(agent_thread_binding_status \<Rightarrow> bool) \<Rightarrow> bool" where
  "enum_ex_agent_thread_binding_status p = list_ex p (enum_class.enum :: agent_thread_binding_status list)"

instance
  by intro_classes
    (auto simp: enum_agent_thread_binding_status_def enum_all_agent_thread_binding_status_def enum_ex_agent_thread_binding_status_def UNIV_agent_thread_binding_status)

end

interpretation agent_thread_binding_status_enum: str_enum agent_thread_binding_status_value
  by (rule str_enum_distinct) code_simp

datatype session_run_binding_status =
    SBind_ACTIVE | SBind_CLOSED | SBind_DELETED

fun session_run_binding_status_value :: "session_run_binding_status \<Rightarrow> string" where
  "session_run_binding_status_value SBind_ACTIVE = ''active''"
| "session_run_binding_status_value SBind_CLOSED = ''closed''"
| "session_run_binding_status_value SBind_DELETED = ''deleted''"

lemma UNIV_session_run_binding_status: "(UNIV :: session_run_binding_status set) =
    {SBind_ACTIVE, SBind_CLOSED, SBind_DELETED}"
  by (auto intro: session_run_binding_status.exhaust)

instantiation session_run_binding_status :: enum
begin

definition enum_session_run_binding_status :: "session_run_binding_status list" where
  "enum_session_run_binding_status =
    [SBind_ACTIVE, SBind_CLOSED, SBind_DELETED]"

definition enum_all_session_run_binding_status :: "(session_run_binding_status \<Rightarrow> bool) \<Rightarrow> bool" where
  "enum_all_session_run_binding_status p = list_all p (enum_class.enum :: session_run_binding_status list)"

definition enum_ex_session_run_binding_status :: "(session_run_binding_status \<Rightarrow> bool) \<Rightarrow> bool" where
  "enum_ex_session_run_binding_status p = list_ex p (enum_class.enum :: session_run_binding_status list)"

instance
  by intro_classes
    (auto simp: enum_session_run_binding_status_def enum_all_session_run_binding_status_def enum_ex_session_run_binding_status_def UNIV_session_run_binding_status)

end

interpretation session_run_binding_status_enum: str_enum session_run_binding_status_value
  by (rule str_enum_distinct) code_simp

datatype agent_thread_workdir_policy =
    Workdir_INHERIT_MAIN

fun agent_thread_workdir_policy_value :: "agent_thread_workdir_policy \<Rightarrow> string" where
  "agent_thread_workdir_policy_value Workdir_INHERIT_MAIN = ''inherit_main''"

lemma UNIV_agent_thread_workdir_policy: "(UNIV :: agent_thread_workdir_policy set) =
    {Workdir_INHERIT_MAIN}"
  by (auto intro: agent_thread_workdir_policy.exhaust)

instantiation agent_thread_workdir_policy :: enum
begin

definition enum_agent_thread_workdir_policy :: "agent_thread_workdir_policy list" where
  "enum_agent_thread_workdir_policy =
    [Workdir_INHERIT_MAIN]"

definition enum_all_agent_thread_workdir_policy :: "(agent_thread_workdir_policy \<Rightarrow> bool) \<Rightarrow> bool" where
  "enum_all_agent_thread_workdir_policy p = list_all p (enum_class.enum :: agent_thread_workdir_policy list)"

definition enum_ex_agent_thread_workdir_policy :: "(agent_thread_workdir_policy \<Rightarrow> bool) \<Rightarrow> bool" where
  "enum_ex_agent_thread_workdir_policy p = list_ex p (enum_class.enum :: agent_thread_workdir_policy list)"

instance
  by intro_classes
    (auto simp: enum_agent_thread_workdir_policy_def enum_all_agent_thread_workdir_policy_def enum_ex_agent_thread_workdir_policy_def UNIV_agent_thread_workdir_policy)

end

interpretation agent_thread_workdir_policy_enum: str_enum agent_thread_workdir_policy_value
  by (rule str_enum_distinct) code_simp

datatype agent_callable_exposure =
    Expose_DIRECT | Expose_DEFERRED | Expose_HIDDEN | Expose_SYSTEM_ONLY

fun agent_callable_exposure_value :: "agent_callable_exposure \<Rightarrow> string" where
  "agent_callable_exposure_value Expose_DIRECT = ''direct''"
| "agent_callable_exposure_value Expose_DEFERRED = ''deferred''"
| "agent_callable_exposure_value Expose_HIDDEN = ''hidden''"
| "agent_callable_exposure_value Expose_SYSTEM_ONLY = ''system-only''"

lemma UNIV_agent_callable_exposure: "(UNIV :: agent_callable_exposure set) =
    {Expose_DIRECT, Expose_DEFERRED, Expose_HIDDEN, Expose_SYSTEM_ONLY}"
  by (auto intro: agent_callable_exposure.exhaust)

instantiation agent_callable_exposure :: enum
begin

definition enum_agent_callable_exposure :: "agent_callable_exposure list" where
  "enum_agent_callable_exposure =
    [Expose_DIRECT, Expose_DEFERRED, Expose_HIDDEN, Expose_SYSTEM_ONLY]"

definition enum_all_agent_callable_exposure :: "(agent_callable_exposure \<Rightarrow> bool) \<Rightarrow> bool" where
  "enum_all_agent_callable_exposure p = list_all p (enum_class.enum :: agent_callable_exposure list)"

definition enum_ex_agent_callable_exposure :: "(agent_callable_exposure \<Rightarrow> bool) \<Rightarrow> bool" where
  "enum_ex_agent_callable_exposure p = list_ex p (enum_class.enum :: agent_callable_exposure list)"

instance
  by intro_classes
    (auto simp: enum_agent_callable_exposure_def enum_all_agent_callable_exposure_def enum_ex_agent_callable_exposure_def UNIV_agent_callable_exposure)

end

interpretation agent_callable_exposure_enum: str_enum agent_callable_exposure_value
  by (rule str_enum_distinct) code_simp

datatype agent_callable_authorization_status =
    Auth_ALLOWED | Auth_REQUIRES_APPROVAL | Auth_DENIED | Auth_UNAVAILABLE

fun agent_callable_authorization_status_value :: "agent_callable_authorization_status \<Rightarrow> string" where
  "agent_callable_authorization_status_value Auth_ALLOWED = ''allowed''"
| "agent_callable_authorization_status_value Auth_REQUIRES_APPROVAL = ''requires_approval''"
| "agent_callable_authorization_status_value Auth_DENIED = ''denied''"
| "agent_callable_authorization_status_value Auth_UNAVAILABLE = ''unavailable''"

lemma UNIV_agent_callable_authorization_status: "(UNIV :: agent_callable_authorization_status set) =
    {Auth_ALLOWED, Auth_REQUIRES_APPROVAL, Auth_DENIED, Auth_UNAVAILABLE}"
  by (auto intro: agent_callable_authorization_status.exhaust)

instantiation agent_callable_authorization_status :: enum
begin

definition enum_agent_callable_authorization_status :: "agent_callable_authorization_status list" where
  "enum_agent_callable_authorization_status =
    [Auth_ALLOWED, Auth_REQUIRES_APPROVAL, Auth_DENIED, Auth_UNAVAILABLE]"

definition enum_all_agent_callable_authorization_status :: "(agent_callable_authorization_status \<Rightarrow> bool) \<Rightarrow> bool" where
  "enum_all_agent_callable_authorization_status p = list_all p (enum_class.enum :: agent_callable_authorization_status list)"

definition enum_ex_agent_callable_authorization_status :: "(agent_callable_authorization_status \<Rightarrow> bool) \<Rightarrow> bool" where
  "enum_ex_agent_callable_authorization_status p = list_ex p (enum_class.enum :: agent_callable_authorization_status list)"

instance
  by intro_classes
    (auto simp: enum_agent_callable_authorization_status_def enum_all_agent_callable_authorization_status_def enum_ex_agent_callable_authorization_status_def UNIV_agent_callable_authorization_status)

end

interpretation agent_callable_authorization_status_enum: str_enum agent_callable_authorization_status_value
  by (rule str_enum_distinct) code_simp

end
