(* ===== verification/Coercions.thy ===== *)
theory Coercions
  imports RuntimeEnums
begin

text \<open>
  The coercion helpers of \<open>src/reuleauxcoder/domain/agent_runtime/models.py\<close> through which every
  configuration document passes, and the status projections of the same file: the activation state
  and the mainline state that a run status and a waiting reason stand for.
\<close>

section \<open>Normalising configuration values\<close>

definition string_list :: "pyval \<Rightarrow> string list" where
  "string_list value =
     (case value of
        PList items \<Rightarrow> map py_str (filter (\<lambda>item. str_strip (py_str item) \<noteq> []) items)
      | PNone \<Rightarrow> []
      | _ \<Rightarrow> if value = PStr [] then [] else [py_str value])"

definition string_dict :: "pyval \<Rightarrow> (string, string) pydict" where
  "string_dict value =
     (case value of
        PDict items \<Rightarrow>
          map (\<lambda>(key, val). (key, py_str val))
            (filter (\<lambda>(key, val). str_strip key \<noteq> [] \<and> val \<noteq> PNone) items)
      | _ \<Rightarrow> [])"

definition dict_value :: "pyval \<Rightarrow> pyobj" where
  "dict_value value = (case value of PDict d \<Rightarrow> d | _ \<Rightarrow> [])"

definition dict_list :: "pyval \<Rightarrow> pyobj list" where
  "dict_list value =
     (case value of
        PList items \<Rightarrow> concat (map (\<lambda>item. case item of PDict d \<Rightarrow> [d] | _ \<Rightarrow> []) items)
      | _ \<Rightarrow> [])"

definition positive_int_or_none :: "pyval \<Rightarrow> int option" where
  "positive_int_or_none value =
     (if value = PNone \<or> value = PStr [] then None
      else case py_int value of
             Inl _ \<Rightarrow> None
           | Inr parsed \<Rightarrow> if 0 < parsed then Some parsed else None)"

fun dedupe_from :: "string list \<Rightarrow> string list \<Rightarrow> string list" where
  "dedupe_from seen [] = []"
| "dedupe_from seen (value # vals) =
     (let item = str_strip value
      in if item = [] \<or> item \<in> set seen then dedupe_from seen vals
         else item # dedupe_from (item # seen) vals)"

definition dedupe_strings :: "string list \<Rightarrow> string list" where
  "dedupe_strings vals = dedupe_from [] vals"

fun string_choices_from ::
  "string list \<Rightarrow> string \<Rightarrow> string list \<Rightarrow> pyval list \<Rightarrow> string list result" where
  "string_choices_from allowed field_name acc [] = Inr acc"
| "string_choices_from allowed field_name acc (raw_item # raw_items) =
     (let item = str_lower (str_strip (py_str raw_item))
      in if item = [] then string_choices_from allowed field_name acc raw_items
         else if item \<notin> set allowed then
           Inl (ValueError (field_name @ '' contains unsupported value '' @ item @
                            ''; allowed values: '' @ str_join '', '' (sort allowed)))
         else string_choices_from allowed field_name
                (if item \<in> set acc then acc else acc @ [item]) raw_items)"

definition string_choices ::
  "pyval \<Rightarrow> string list \<Rightarrow> string \<Rightarrow> string list \<Rightarrow> string list result" where
  "string_choices value allowed field_name dflt =
     (case value of
        PNone \<Rightarrow> Inr dflt
      | PStr _ \<Rightarrow> string_choices_from allowed field_name [] [value]
      | PList vals \<Rightarrow> string_choices_from allowed field_name [] vals
      | _ \<Rightarrow> Inl (ValueError (field_name @ '' must be a string or list of strings'')))"

definition choice :: "pyval \<Rightarrow> string list \<Rightarrow> string \<Rightarrow> string" where
  "choice value allowed fallback =
     (let txt = str_lower (str_strip (str_or_empty value))
      in if txt \<in> set allowed then txt else fallback)"

definition bool_value :: "pyval \<Rightarrow> bool \<Rightarrow> bool" where
  "bool_value value fallback =
     (case value of
        PNone \<Rightarrow> fallback
      | PStr s \<Rightarrow> str_lower (str_strip s) \<notin> {''0'', ''false'', ''no'', ''off''}
      | _ \<Rightarrow> truthy value)"

definition secret_keys :: "string list" where
  "secret_keys = [''secret'', ''secrets'', ''api_key'', ''api_keys'', ''token'', ''tokens'']"

definition reject_plaintext_secret_container :: "pyobj \<Rightarrow> string \<Rightarrow> unit result" where
  "reject_plaintext_secret_container data owner =
     (if list_ex (\<lambda>(key, _). str_lower (str_strip key) \<in> set secret_keys) data
      then Inl (ValueError (owner @
             '' must reference secrets through credential_refs, not plaintext secrets''))
      else Inr ())"

definition runtime_worker_kind ::
  "pyval \<Rightarrow> execution_location \<Rightarrow> pyobj \<Rightarrow> worker_kind result" where
  "runtime_worker_kind value execution_location sandbox =
     (let txt = str_strip (str_or_empty value)
      in if txt \<noteq> [] then enum_of worker_kind_value txt
         else if sandbox \<noteq> [] then Inr Worker_SANDBOX_WORKER
         else if execution_location = Loc_LOCAL_WORKSPACE then Inr Worker_LOCAL_PEER
         else Inr Worker_SERVER_WORKER)"

definition runtime_model_request_origin ::
  "pyval \<Rightarrow> executor_type \<Rightarrow> worker_kind \<Rightarrow> model_request_origin result" where
  "runtime_model_request_origin value executor worker_kind =
     (let txt = str_strip (str_or_empty value)
      in if txt \<noteq> [] then enum_of model_request_origin_value txt
         else if executor \<in> {Exec_CODEX, Exec_CLAUDE, Exec_GEMINI} then
           (if worker_kind = Worker_LOCAL_PEER then Inr Origin_LOCAL_CLI
            else Inr Origin_SERVER_WORKER_CLI)
         else Inr Origin_SERVER)"

text \<open>\<open>_optional_enum\<close> on a text.\<close>

definition optional_enum :: "('a::enum \<Rightarrow> string) \<Rightarrow> pyval \<Rightarrow> 'a option result" where
  "optional_enum val value =
     (if value = PNone \<or> value = PStr [] then Inr None
      else res_bind (enum_of val (py_str value)) (\<lambda>x. Inr (Some x)))"

section \<open>Laws of the coercions\<close>

lemma dict_value_PDict [simp]: "dict_value (PDict d) = d"
  by (simp add: dict_value_def)

lemma dict_value_PNone [simp]: "dict_value PNone = []"
  by (simp add: dict_value_def)

lemma string_list_PStr_list:
  "\<forall>s \<in> set xs. str_strip s \<noteq> [] \<Longrightarrow> string_list (PList (map PStr xs)) = xs"
  by (induction xs) (auto simp: string_list_def)

lemma string_list_default [simp]:
  "string_list (PList []) = []" "string_list PNone = []"
  by (simp_all add: string_list_def)

lemma string_dict_PStr_dict:
  "\<forall>k \<in> set (dict_keys d). str_strip k \<noteq> [] \<Longrightarrow>
   string_dict (PDict (map (\<lambda>(k, v). (k, PStr v)) d)) = d"
  by (induction d) (auto simp: string_dict_def)

lemma string_dict_default [simp]: "string_dict (PDict []) = []" "string_dict PNone = []"
  by (simp_all add: string_dict_def)

lemma positive_int_roundtrip [simp]: "0 < n \<Longrightarrow> positive_int_or_none (PInt n) = Some n"
  by (simp add: positive_int_or_none_def py_int_def)

lemma positive_int_none [simp]: "positive_int_or_none PNone = None"
  by (simp add: positive_int_or_none_def)

lemma positive_int_positive: "positive_int_or_none v = Some n \<Longrightarrow> 0 < n"
  by (auto simp: positive_int_or_none_def split: if_splits sum.splits)

lemma dedupe_from_set:
  "set (dedupe_from seen vals) = {s \<in> str_strip ` set vals. s \<noteq> [] \<and> s \<notin> set seen}"
  by (induction seen vals rule: dedupe_from.induct) (auto simp: Let_def)

lemma dedupe_from_distinct: "distinct (dedupe_from seen vals)"
  by (induction seen vals rule: dedupe_from.induct) (auto simp: Let_def dedupe_from_set)

lemma dedupe_strings_set:
  "set (dedupe_strings vals) = {s \<in> str_strip ` set vals. s \<noteq> []}"
  by (simp add: dedupe_strings_def dedupe_from_set)

lemma dedupe_strings_distinct: "distinct (dedupe_strings vals)"
  by (simp add: dedupe_strings_def dedupe_from_distinct)

lemma dedupe_from_fixed:
  "distinct vals \<Longrightarrow> \<forall>s \<in> set vals. str_strip s = s \<and> s \<noteq> [] \<Longrightarrow> set seen \<inter> set vals = {} \<Longrightarrow>
   dedupe_from seen vals = vals"
  by (induction seen vals rule: dedupe_from.induct) (auto simp: Let_def)

lemma dedupe_strings_idem: "dedupe_strings (dedupe_strings vals) = dedupe_strings vals"
  unfolding dedupe_strings_def [of "dedupe_strings vals"]
  by (rule dedupe_from_fixed) (auto simp: dedupe_strings_distinct dedupe_strings_set)

lemma string_choices_from_ok:
  "string_choices_from allowed nm acc raws = Inr out \<Longrightarrow> distinct acc \<Longrightarrow> set acc \<subseteq> set allowed \<Longrightarrow>
   distinct out \<and> set out \<subseteq> set allowed \<and> set acc \<subseteq> set out"
proof (induction raws arbitrary: acc)
  case Nil
  then show ?case by simp
next
  case (Cons r raws)
  let ?item = "str_lower (str_strip (py_str r))"
  let ?acc = "if ?item \<in> set acc then acc else acc @ [?item]"
  show ?case
  proof (cases "?item = []")
    case True
    with Cons show ?thesis by (simp add: Let_def)
  next
    case False
    with Cons.prems(1) have ok: "?item \<in> set allowed"
      and rec: "string_choices_from allowed nm ?acc raws = Inr out"
      by (auto simp: Let_def split: if_splits)
    have "distinct ?acc" "set ?acc \<subseteq> set allowed" using Cons.prems ok by auto
    from Cons.IH[OF rec this] show ?thesis by (auto split: if_splits)
  qed
qed

lemma string_choices_sound:
  assumes "string_choices value allowed nm dflt = Inr out"
    and "distinct dflt" and "set dflt \<subseteq> set allowed"
  shows "distinct out \<and> set out \<subseteq> set allowed"
  using assms string_choices_from_ok[of allowed nm "[]" _ out]
  by (auto simp: string_choices_def simp del: string_choices_from.simps split: pyval.splits)

lemma choice_in: "fallback \<in> set allowed \<Longrightarrow> choice value allowed fallback \<in> set allowed"
  by (simp add: choice_def Let_def)

lemma reject_secrets_ok:
  "reject_plaintext_secret_container data owner = Inr () \<longleftrightarrow>
   (\<forall>k \<in> set (dict_keys data). str_lower (str_strip k) \<notin> set secret_keys)"
  by (force simp: reject_plaintext_secret_container_def list_ex_iff dict_keys_def)

lemma bool_value_simps [simp]:
  "bool_value PNone b = b" "bool_value (PBool c) b = c"
  by (simp_all add: bool_value_def)

section \<open>Status projections\<close>

definition agent_run_activation_state_for_status ::
  "agent_run_status option \<Rightarrow> agent_run_waiting_reason option \<Rightarrow> agent_run_activation_state" where
  "agent_run_activation_state_for_status status waiting_reason =
     (case (case status of None \<Rightarrow> Run_QUEUED | Some st \<Rightarrow> st) of
        Run_QUEUED \<Rightarrow> AState_QUEUED
      | Run_DISPATCHED \<Rightarrow> AState_DISPATCHED
      | Run_RUNNING \<Rightarrow> AState_RUNNING
      | Run_WAITING \<Rightarrow>
          (if waiting_reason \<in> {Some Wait_USER_APPROVAL, Some Wait_USER_INPUT}
           then AState_WAITING_USER else AState_WAITING_SERVER)
      | Run_COMPLETED \<Rightarrow> AState_COMPLETED
      | Run_FAILED \<Rightarrow> AState_FAILED
      | Run_CANCELLED \<Rightarrow> AState_CANCELLED
      | Run_BLOCKED \<Rightarrow> AState_BLOCKED)"

definition agent_run_mainline_state_for_status ::
  "agent_run_status option \<Rightarrow> agent_run_waiting_reason option \<Rightarrow> agent_run_mainline_state" where
  "agent_run_mainline_state_for_status status waiting_reason =
     (let status_value = (case status of None \<Rightarrow> Run_QUEUED | Some st \<Rightarrow> st)
      in if status_value \<in> {Run_QUEUED, Run_DISPATCHED, Run_RUNNING} then Main_EXECUTING
         else if status_value = Run_WAITING then
           (if waiting_reason \<in> {Some Wait_USER_APPROVAL, Some Wait_USER_INPUT}
            then Main_WAITING_FEEDBACK else Main_EXECUTING)
         else if status_value = Run_COMPLETED then Main_CONTINUABLE
         else if status_value = Run_FAILED then Main_FAILED
         else if status_value = Run_CANCELLED then Main_CANCELLED
         else if status_value = Run_BLOCKED then Main_BLOCKED
         else Main_EXECUTING)"

text \<open>Statuses with no further activation of their own.\<close>

definition terminal_status :: "agent_run_status \<Rightarrow> bool" where
  "terminal_status st \<longleftrightarrow> st \<in> {Run_COMPLETED, Run_FAILED, Run_CANCELLED, Run_BLOCKED}"

lemma mainline_executing_iff:
  "agent_run_mainline_state_for_status (Some st) wr = Main_EXECUTING \<longleftrightarrow>
   \<not> terminal_status st \<and>
   (st = Run_WAITING \<longrightarrow> wr \<notin> {Some Wait_USER_APPROVAL, Some Wait_USER_INPUT})"
  by (cases st) (auto simp: agent_run_mainline_state_for_status_def terminal_status_def)

lemma projections_agree:
  "agent_run_mainline_state_for_status (Some st) wr = Main_WAITING_FEEDBACK \<longleftrightarrow>
   agent_run_activation_state_for_status (Some st) wr = AState_WAITING_USER"
  by (cases st)
    (auto simp: agent_run_mainline_state_for_status_def agent_run_activation_state_for_status_def)

end
