(* ===== verification/ConfigModels.thy ===== *)
theory ConfigModels
  imports Coercions
begin

text \<open>
  The configuration records of \<open>src/reuleauxcoder/domain/agent_runtime/models.py\<close> with their
  \<open>from_dict\<close> and \<open>to_dict\<close> operations: the dispatch, prompt, model and memory parts of an agent,
  the runtime profile, and the agent configuration that contains them. A configuration document is
  a \<open>pyval\<close>; reading one may raise, so the readers of the compound records return a result.
  The round-trip lemmas say which configurations survive being written and read back.
\<close>

definition put_if :: "bool \<Rightarrow> string \<Rightarrow> pyval \<Rightarrow> pyobj \<Rightarrow> pyobj" where
  "put_if c k v d = (if c then dict_set k v d else d)"

lemma dict_get_put_if [dict_simps, simp]:
  "dict_get (put_if c k v d) k' = (if c \<and> k' = k then Some v else dict_get d k')"
  by (simp add: put_if_def)

lemma dict_keys_put_if [dict_simps]:
  "set (dict_keys (put_if c k v d)) = (if c then insert k (set (dict_keys d)) else set (dict_keys d))"
  by (simp add: put_if_def dict_set_keys)

lemma keys_put_if_subset:
  "k \<in> set ks \<Longrightarrow> set (dict_keys d) \<subseteq> set ks \<Longrightarrow> set (dict_keys (put_if c k v d)) \<subseteq> set ks"
  by (auto simp: dict_keys_put_if split: if_splits)

lemma dict_set_nonempty [simp]: "dict_set k v d \<noteq> []"
  by (cases d) (auto split: if_splits)

lemma put_if_Nil_iff [simp]: "put_if c k v d = [] \<longleftrightarrow> \<not> c \<and> d = []"
  by (simp add: put_if_def)

definition strs :: "string list \<Rightarrow> pyval" where
  "strs xs = PList (map PStr xs)"

definition str_pairs :: "(string, string) pydict \<Rightarrow> pyval" where
  "str_pairs d = PDict (map (\<lambda>(k, v). (k, PStr v)) d)"

definition nonblank :: "string \<Rightarrow> bool" where
  "nonblank s \<longleftrightarrow> str_strip s \<noteq> []"

lemma nonblank_Nil [simp]: "\<not> nonblank []"
  by (simp add: nonblank_def)

lemma string_list_strs [simp]: "list_all nonblank xs \<Longrightarrow> string_list (strs xs) = xs"
  by (simp add: strs_def string_list_PStr_list list_all_iff nonblank_def)

lemma string_dict_pairs [simp]:
  "list_all nonblank (dict_keys d) \<Longrightarrow> string_dict (str_pairs d) = d"
  by (simp add: str_pairs_def string_dict_PStr_dict list_all_iff nonblank_def)

section \<open>Dispatch, prompt, model and memory parts\<close>

record agent_dispatch_config =
  dp_profile :: string
  dp_examples :: "string list"
  dp_avoid :: "string list"

definition agent_dispatch_from_dict :: "pyval \<Rightarrow> agent_dispatch_config" where
  "agent_dispatch_from_dict v =
     (case v of
        PDict data \<Rightarrow>
          \<lparr>dp_profile = str_or_empty (pget_or data ''profile'' (PStr [])),
           dp_examples = string_list (pget_or data ''examples'' (PList [])),
           dp_avoid = string_list (pget_or data ''avoid'' (PList []))\<rparr>
      | _ \<Rightarrow> \<lparr>dp_profile = [], dp_examples = [], dp_avoid = []\<rparr>)"

definition agent_dispatch_to_dict :: "agent_dispatch_config \<Rightarrow> pyobj" where
  "agent_dispatch_to_dict c =
     put_if (dp_avoid c \<noteq> []) ''avoid'' (strs (dp_avoid c))
     (put_if (dp_examples c \<noteq> []) ''examples'' (strs (dp_examples c))
     (put_if (dp_profile c \<noteq> []) ''profile'' (PStr (dp_profile c)) []))"

record agent_prompt_config =
  pr_agent_md :: "string option"
  pr_system_append :: string

definition agent_prompt_from_dict :: "pyval \<Rightarrow> agent_prompt_config" where
  "agent_prompt_from_dict v =
     (case v of
        PDict data \<Rightarrow>
          \<lparr>pr_agent_md = (if pget data ''agent_md'' \<noteq> PNone
                          then Some (py_str (pget data ''agent_md'')) else None),
           pr_system_append = str_or_empty (pget_or data ''system_append'' (PStr []))\<rparr>
      | _ \<Rightarrow> \<lparr>pr_agent_md = None, pr_system_append = []\<rparr>)"

definition agent_prompt_to_dict :: "agent_prompt_config \<Rightarrow> pyobj" where
  "agent_prompt_to_dict c =
     put_if (pr_system_append c \<noteq> []) ''system_append'' (PStr (pr_system_append c))
     (put_if (opt_str (pr_agent_md c) \<noteq> []) ''agent_md'' (opt_val (pr_agent_md c)) [])"

record agent_model_config =
  md_provider :: string
  md_model :: string
  md_display_name :: string
  md_parameters :: pyobj

definition agent_model_from_dict :: "pyval \<Rightarrow> agent_model_config" where
  "agent_model_from_dict v =
     (case v of
        PDict data \<Rightarrow>
          \<lparr>md_provider = py_str (py_or (pget data ''provider'')
              (py_or (pget data ''provider_id'') (py_or (pget data ''providerId'') (PStr [])))),
           md_model = py_str (py_or (pget data ''model'')
              (py_or (pget data ''model_id'') (py_or (pget data ''modelId'') (PStr [])))),
           md_display_name = py_str (py_or (pget data ''display_name'')
              (py_or (pget data ''displayName'') (PStr []))),
           md_parameters = dict_value (pget_or data ''parameters'' (PDict []))\<rparr>
      | _ \<Rightarrow> \<lparr>md_provider = [], md_model = [], md_display_name = [], md_parameters = []\<rparr>)"

definition agent_model_configured :: "agent_model_config \<Rightarrow> bool" where
  "agent_model_configured c \<longleftrightarrow> md_provider c \<noteq> [] \<and> md_model c \<noteq> []"

definition agent_model_to_dict :: "agent_model_config \<Rightarrow> pyobj" where
  "agent_model_to_dict c =
     put_if (md_parameters c \<noteq> []) ''parameters'' (PDict (md_parameters c))
     (put_if (md_display_name c \<noteq> []) ''display_name'' (PStr (md_display_name c))
     (put_if (md_model c \<noteq> []) ''model'' (PStr (md_model c))
     (put_if (md_provider c \<noteq> []) ''provider'' (PStr (md_provider c)) [])))"

record agent_memory_policy =
  mp_enabled :: bool
  mp_primary_provider :: string
  mp_read_providers :: "string list"
  mp_inject :: bool
  mp_capture :: bool
  mp_token_budget :: "int option"
  mp_scope_mode :: string
  mp_expose_tools :: bool

definition agent_memory_default :: agent_memory_policy where
  "agent_memory_default =
     \<lparr>mp_enabled = True, mp_primary_provider = [], mp_read_providers = [], mp_inject = True,
      mp_capture = True, mp_token_budget = None, mp_scope_mode = ''isolated'',
      mp_expose_tools = False\<rparr>"

definition agent_memory_from_dict :: "pyval \<Rightarrow> agent_memory_policy result" where
  "agent_memory_from_dict v =
     (case v of
        PDict data \<Rightarrow>
          res_bind (if pget data ''token_budget'' = PNone then Inr None
                    else res_bind (py_int (pget data ''token_budget'')) (\<lambda>n. Inr (Some n)))
            (\<lambda>token_budget. Inr
              \<lparr>mp_enabled = bool_value (pget data ''enabled'') True,
               mp_primary_provider = str_strip (str_or_empty (pget_or data ''primary_provider'' (PStr []))),
               mp_read_providers = string_list (pget_or data ''read_providers'' (PList [])),
               mp_inject = bool_value (pget data ''inject'') True,
               mp_capture = bool_value (pget data ''capture'') True,
               mp_token_budget = token_budget,
               mp_scope_mode = py_str (py_or (pget_or data ''scope_mode'' (PStr ''isolated''))
                                             (PStr ''isolated'')),
               mp_expose_tools = bool_value (pget data ''expose_tools'') False\<rparr>)
      | _ \<Rightarrow> Inr agent_memory_default)"

definition agent_memory_to_dict :: "agent_memory_policy \<Rightarrow> pyobj" where
  "agent_memory_to_dict c =
     put_if (mp_expose_tools c) ''expose_tools'' (PBool (mp_expose_tools c))
     (put_if (mp_scope_mode c \<noteq> ''isolated'') ''scope_mode'' (PStr (mp_scope_mode c))
     (put_if (mp_token_budget c \<noteq> None) ''token_budget''
        (case mp_token_budget c of None \<Rightarrow> PNone | Some n \<Rightarrow> PInt n)
     (put_if (\<not> mp_capture c) ''capture'' (PBool (mp_capture c))
     (put_if (\<not> mp_inject c) ''inject'' (PBool (mp_inject c))
     (put_if (mp_read_providers c \<noteq> []) ''read_providers'' (strs (mp_read_providers c))
     (put_if (mp_primary_provider c \<noteq> []) ''primary_provider'' (PStr (mp_primary_provider c))
     (put_if (\<not> mp_enabled c) ''enabled'' (PBool (mp_enabled c)) [])))))))"

text \<open>\<open>part.to_dict()\<close> is stored only when non-empty; reading the missing part gives the default.\<close>

definition stored_part :: "pyobj \<Rightarrow> pyval" where
  "stored_part d = (if d = [] then PNone else PDict d)"

lemma stored_part_read:
  "agent_dispatch_from_dict (stored_part d) = agent_dispatch_from_dict (PDict d)"
  "agent_prompt_from_dict (stored_part d) = agent_prompt_from_dict (PDict d)"
  "agent_model_from_dict (stored_part d) = agent_model_from_dict (PDict d)"
  "agent_memory_from_dict (stored_part d) = agent_memory_from_dict (PDict d)"
  by (simp_all add: stored_part_def agent_dispatch_from_dict_def agent_prompt_from_dict_def
      agent_model_from_dict_def agent_memory_from_dict_def agent_memory_default_def
      pget_def pget_or_def py_or_def)

lemma dispatch_roundtrip:
  assumes "list_all nonblank (dp_examples c)" "list_all nonblank (dp_avoid c)"
  shows "agent_dispatch_from_dict (stored_part (agent_dispatch_to_dict c)) = c"
  unfolding stored_part_read using assms
  by (cases c) (simp add: agent_dispatch_from_dict_def agent_dispatch_to_dict_def pget_or_def)

lemma prompt_roundtrip:
  assumes "pr_agent_md c \<noteq> Some []"
  shows "agent_prompt_from_dict (stored_part (agent_prompt_to_dict c)) = c"
  unfolding stored_part_read using assms
  by (cases c; cases "pr_agent_md c")
    (auto simp: agent_prompt_from_dict_def agent_prompt_to_dict_def pget_def pget_or_def)

lemma model_roundtrip:
  "agent_model_from_dict (stored_part (agent_model_to_dict c)) = c"
  unfolding stored_part_read
  by (cases c) (simp add: agent_model_from_dict_def agent_model_to_dict_def
      pget_def pget_or_def py_or_def)

lemma memory_roundtrip:
  assumes "list_all nonblank (mp_read_providers c)" "mp_scope_mode c \<noteq> []"
    "str_strip (mp_primary_provider c) = mp_primary_provider c"
  shows "agent_memory_from_dict (stored_part (agent_memory_to_dict c)) = Inr c"
  unfolding stored_part_read using assms
  by (cases c; cases "mp_token_budget c")
    (simp_all add: agent_memory_from_dict_def agent_memory_to_dict_def
      pget_def pget_or_def py_or_def py_int_def)

lemmas part_roundtrips = dispatch_roundtrip prompt_roundtrip model_roundtrip memory_roundtrip

end
