(* ===== verification/AgentConfigs.thy ===== *)
theory AgentConfigs
  imports ConfigModels
begin

text \<open>
  \<open>RuntimeProfileConfig\<close> and \<open>AgentConfig\<close> of
  \<open>src/reuleauxcoder/domain/agent_runtime/models.py\<close>: their readers with every validation that
  raises, their writers, and what a written configuration reads back as.
\<close>

section \<open>Runtime profiles\<close>

record runtime_profile =
  rp_id :: string
  rp_executor :: executor_type
  rp_execution_location :: execution_location
  rp_worker_kind :: worker_kind
  rp_model_request_origin :: model_request_origin
  rp_worktree_role :: worktree_role
  rp_publish_policy :: publish_policy
  rp_model :: string
  rp_command :: "string option"
  rp_args :: "string list"
  rp_env :: "(string, string) pydict"
  rp_runtime_home_policy :: string
  rp_approval_mode :: string
  rp_config_isolation :: string
  rp_timeout_sec :: "int option"
  rp_step_timeout_sec :: "int option"
  rp_credential_refs :: "(string, string) pydict"
  rp_mcp :: pyobj
  rp_sandbox :: pyobj

definition runtime_profile_from_dict :: "string \<Rightarrow> pyval \<Rightarrow> runtime_profile result" where
  "runtime_profile_from_dict profile_id v =
     (let data = dict_value v in
      res_bind (reject_plaintext_secret_container data ''runtime profile'') (\<lambda>_.
      res_bind (enum_of executor_type_value
                  (py_str (pget_or data ''executor'' (PStr ''reuleauxcoder'')))) (\<lambda>executor.
      res_bind (enum_of execution_location_value
                  (py_str (pget_or data ''execution_location'' (PStr ''remote_server''))))
        (\<lambda>execution_location.
      let sandbox = dict_value (pget_or data ''sandbox'' (PDict [])) in
      res_bind (runtime_worker_kind (pget data ''worker_kind'') execution_location sandbox)
        (\<lambda>worker_kind.
      res_bind (runtime_model_request_origin (pget data ''model_request_origin'')
                  executor worker_kind) (\<lambda>origin.
      res_bind (enum_of worktree_role_value
                  (py_str (pget_or data ''worktree_role'' (PStr ''target'')))) (\<lambda>role.
      res_bind (enum_of publish_policy_value
                  (py_str (pget_or data ''publish_policy'' (PStr ''never'')))) (\<lambda>publish. Inr
        \<lparr>rp_id = profile_id,
         rp_executor = executor,
         rp_execution_location = execution_location,
         rp_worker_kind = worker_kind,
         rp_model_request_origin = origin,
         rp_worktree_role = role,
         rp_publish_policy = publish,
         rp_model = str_or_empty (pget_or data ''model'' (PStr [])),
         rp_command = (if pget data ''command'' \<noteq> PNone
                       then Some (py_str (pget data ''command'')) else None),
         rp_args = string_list (pget_or data ''args'' (PList [])),
         rp_env = string_dict (pget_or data ''env'' (PDict [])),
         rp_runtime_home_policy = str_or_empty (pget_or data ''runtime_home_policy'' (PStr [])),
         rp_approval_mode = str_or_empty (pget_or data ''approval_mode'' (PStr [])),
         rp_config_isolation = str_or_empty (pget_or data ''config_isolation'' (PStr [])),
         rp_timeout_sec = positive_int_or_none (pget data ''timeout_sec''),
         rp_step_timeout_sec = positive_int_or_none (pget data ''step_timeout_sec''),
         rp_credential_refs = string_dict (pget_or data ''credential_refs'' (PDict [])),
         rp_mcp = dict_value (pget_or data ''mcp'' (PDict [])),
         rp_sandbox = sandbox\<rparr>))))))))"

definition opt_int :: "int option \<Rightarrow> pyval" where
  "opt_int x = (case x of None \<Rightarrow> PNone | Some n \<Rightarrow> PInt n)"

lemma opt_int_simps [simp]: "opt_int None = PNone" "opt_int (Some n) = PInt n"
  by (simp_all add: opt_int_def)

definition runtime_profile_to_dict :: "runtime_profile \<Rightarrow> pyobj" where
  "runtime_profile_to_dict p =
     put_if (rp_sandbox p \<noteq> [] \<or> rp_worker_kind p = Worker_SANDBOX_WORKER)
       ''sandbox'' (PDict (rp_sandbox p))
     (put_if (rp_mcp p \<noteq> []) ''mcp'' (PDict (rp_mcp p))
     (put_if (rp_credential_refs p \<noteq> []) ''credential_refs'' (str_pairs (rp_credential_refs p))
     (put_if (rp_step_timeout_sec p \<noteq> None) ''step_timeout_sec'' (opt_int (rp_step_timeout_sec p))
     (put_if (rp_timeout_sec p \<noteq> None) ''timeout_sec'' (opt_int (rp_timeout_sec p))
     (put_if (rp_config_isolation p \<noteq> []) ''config_isolation'' (PStr (rp_config_isolation p))
     (put_if (rp_approval_mode p \<noteq> []) ''approval_mode'' (PStr (rp_approval_mode p))
     (put_if (rp_runtime_home_policy p \<noteq> []) ''runtime_home_policy'' (PStr (rp_runtime_home_policy p))
     (put_if (rp_env p \<noteq> []) ''env'' (str_pairs (rp_env p))
     (put_if (rp_args p \<noteq> []) ''args'' (strs (rp_args p))
     (put_if (rp_model p \<noteq> []) ''model'' (PStr (rp_model p))
     (put_if (rp_command p \<noteq> None) ''command'' (opt_val (rp_command p))
       [(''executor'', PStr (executor_type_value (rp_executor p))),
        (''execution_location'', PStr (execution_location_value (rp_execution_location p))),
        (''worker_kind'', PStr (worker_kind_value (rp_worker_kind p))),
        (''model_request_origin'', PStr (model_request_origin_value (rp_model_request_origin p))),
        (''worktree_role'', PStr (worktree_role_value (rp_worktree_role p))),
        (''publish_policy'', PStr (publish_policy_value (rp_publish_policy p)))])))))))))))"

definition runtime_profile_wf :: "runtime_profile \<Rightarrow> bool" where
  "runtime_profile_wf p \<longleftrightarrow>
     list_all nonblank (rp_args p) \<and>
     list_all nonblank (dict_keys (rp_env p)) \<and>
     list_all nonblank (dict_keys (rp_credential_refs p)) \<and>
     (case rp_timeout_sec p of None \<Rightarrow> True | Some n \<Rightarrow> 0 < n) \<and>
     (case rp_step_timeout_sec p of None \<Rightarrow> True | Some n \<Rightarrow> 0 < n)"

text \<open>Members of the enumerations that are stored as texts are never blank.\<close>

lemma worker_kind_clean [simp]:
  "str_strip (worker_kind_value w) = worker_kind_value w" "worker_kind_value w \<noteq> []"
  by (cases w; simp add: str_lower_def str_strip_def lstrip_by_def rstrip_by_def is_space_def lower_char_def code_point_def Let_def)+

lemma origin_clean [simp]:
  "str_strip (model_request_origin_value x) = model_request_origin_value x"
  "model_request_origin_value x \<noteq> []"
  by (cases x; simp add: str_lower_def str_strip_def lstrip_by_def rstrip_by_def is_space_def lower_char_def code_point_def Let_def)+

lemma stored_worker_kind [simp]:
  "runtime_worker_kind (PStr (worker_kind_value w)) loc sb = Inr w"
  by (simp add: runtime_worker_kind_def worker_kind_enum.of_val)

lemma stored_origin [simp]:
  "runtime_model_request_origin (PStr (model_request_origin_value x)) ex wk = Inr x"
  by (simp add: runtime_model_request_origin_def model_request_origin_enum.of_val)

definition runtime_profile_key_names :: "string list" where
  "runtime_profile_key_names =
     [''sandbox'', ''mcp'', ''credential_refs'', ''step_timeout_sec'', ''timeout_sec'',
      ''config_isolation'', ''approval_mode'', ''runtime_home_policy'', ''env'', ''args'', ''model'',
      ''command'', ''executor'', ''execution_location'', ''worker_kind'', ''model_request_origin'',
      ''worktree_role'', ''publish_policy'']"

lemma runtime_profile_keys:
  "set (dict_keys (runtime_profile_to_dict p)) \<subseteq> set runtime_profile_key_names"
  unfolding runtime_profile_to_dict_def
  by (intro keys_put_if_subset) (simp_all add: runtime_profile_key_names_def)

lemma no_secret_key:
  "list_all (\<lambda>k. str_lower (str_strip k) \<notin> set secret_keys) runtime_profile_key_names"
  unfolding runtime_profile_key_names_def list.pred_inject secret_keys_def
  by (intro conjI; simp add: str_lower_def str_strip_def lstrip_by_def rstrip_by_def is_space_def
      lower_char_def code_point_def Let_def)

lemma runtime_profile_no_secret:
  "reject_plaintext_secret_container (runtime_profile_to_dict p) owner = Inr ()"
  using runtime_profile_keys[of p] no_secret_key by (auto simp: reject_secrets_ok list_all_iff)

lemma runtime_profile_reads:
  "pget_or (runtime_profile_to_dict p) ''executor'' v = PStr (executor_type_value (rp_executor p))"
  "pget_or (runtime_profile_to_dict p) ''execution_location'' v =
     PStr (execution_location_value (rp_execution_location p))"
  "pget (runtime_profile_to_dict p) ''worker_kind'' = PStr (worker_kind_value (rp_worker_kind p))"
  "pget (runtime_profile_to_dict p) ''model_request_origin'' =
     PStr (model_request_origin_value (rp_model_request_origin p))"
  "pget_or (runtime_profile_to_dict p) ''worktree_role'' v =
     PStr (worktree_role_value (rp_worktree_role p))"
  "pget_or (runtime_profile_to_dict p) ''publish_policy'' v =
     PStr (publish_policy_value (rp_publish_policy p))"
  "str_or_empty (pget_or (runtime_profile_to_dict p) ''model'' (PStr [])) = rp_model p"
  "str_or_empty (pget_or (runtime_profile_to_dict p) ''runtime_home_policy'' (PStr [])) =
     rp_runtime_home_policy p"
  "str_or_empty (pget_or (runtime_profile_to_dict p) ''approval_mode'' (PStr [])) =
     rp_approval_mode p"
  "str_or_empty (pget_or (runtime_profile_to_dict p) ''config_isolation'' (PStr [])) =
     rp_config_isolation p"
  "pget (runtime_profile_to_dict p) ''command'' = opt_val (rp_command p)"
  "pget (runtime_profile_to_dict p) ''timeout_sec'' = opt_int (rp_timeout_sec p)"
  "pget (runtime_profile_to_dict p) ''step_timeout_sec'' = opt_int (rp_step_timeout_sec p)"
  "dict_value (pget_or (runtime_profile_to_dict p) ''mcp'' (PDict [])) = rp_mcp p"
  "dict_value (pget_or (runtime_profile_to_dict p) ''sandbox'' (PDict [])) = rp_sandbox p"
  by (auto simp: runtime_profile_to_dict_def pget_def pget_or_def)

lemma runtime_profile_list_reads:
  assumes "runtime_profile_wf p"
  shows "string_list (pget_or (runtime_profile_to_dict p) ''args'' (PList [])) = rp_args p"
    "string_dict (pget_or (runtime_profile_to_dict p) ''env'' (PDict [])) = rp_env p"
    "string_dict (pget_or (runtime_profile_to_dict p) ''credential_refs'' (PDict [])) =
       rp_credential_refs p"
  using assms by (auto simp: runtime_profile_to_dict_def pget_or_def runtime_profile_wf_def)

lemma runtime_profile_roundtrip_lemma:
  assumes "runtime_profile_wf p"
  shows "runtime_profile_from_dict (rp_id p) (PDict (runtime_profile_to_dict p)) = Inr p"
proof -
  have opts: "positive_int_or_none (opt_int (rp_timeout_sec p)) = rp_timeout_sec p"
    "positive_int_or_none (opt_int (rp_step_timeout_sec p)) = rp_step_timeout_sec p"
    "(if opt_val (rp_command p) \<noteq> PNone then Some (py_str (opt_val (rp_command p))) else None) =
       rp_command p"
    using assms by (auto simp: runtime_profile_wf_def opt_int_def opt_val_def split: option.splits)
  show ?thesis
    unfolding runtime_profile_from_dict_def Let_def dict_value_PDict runtime_profile_no_secret
      runtime_profile_reads runtime_profile_list_reads[OF assms] py_str_simps opts
    by (simp add: executor_type_enum.of_val execution_location_enum.of_val
        worktree_role_enum.of_val publish_policy_enum.of_val)
qed

text \<open>Every accepted profile is usable: its timeouts are positive and its arguments non-blank.\<close>

lemma runtime_profile_accepted:
  assumes "runtime_profile_from_dict pid v = Inr p"
  shows "(\<forall>n. rp_timeout_sec p = Some n \<longrightarrow> 0 < n)" "(\<forall>n. rp_step_timeout_sec p = Some n \<longrightarrow> 0 < n)"
    "rp_id p = pid"
    "\<forall>k \<in> set (dict_keys (dict_value v)). str_lower (str_strip k) \<notin> set secret_keys"
  using assms reject_secrets_ok[of "dict_value v" "''runtime profile''"]
  by (auto simp: runtime_profile_from_dict_def Let_def res_bind_Inr_iff dest: positive_int_positive)

section \<open>Agents\<close>

definition agent_visibilities :: "string list" where
  "agent_visibilities = [''user'', ''system'', ''internal'']"

definition agent_callable_scopes :: "string list" where
  "agent_callable_scopes = [''ephemeral'', ''persistent'']"

record agent_config =
  ag_id :: string
  ag_name :: string
  ag_description :: string
  ag_role :: string
  ag_entrypoint :: bool
  ag_visibility :: string
  ag_chat_entrypoint :: bool
  ag_callable_scopes :: "string list"
  ag_taskflow_eligible :: bool
  ag_system_flow_only :: "string list"
  ag_runtime_profile :: string
  ag_dispatch :: agent_dispatch_config
  ag_capability_refs :: "string list"
  ag_model :: agent_model_config
  ag_prompt :: agent_prompt_config
  ag_memory :: agent_memory_policy
  ag_max_concurrent_tasks :: "int option"
  ag_credential_refs :: "(string, string) pydict"

definition removed_agent_fields :: "string list" where
  "removed_agent_fields =
     [''capabilities'', ''callable_modes'', ''delegable'', ''mcp'', ''skills'', ''dispatch_tags'']"

definition default_callable_scopes :: "string \<Rightarrow> string list" where
  "default_callable_scopes visibility =
     (if visibility = ''user'' then [''ephemeral'', ''persistent''] else [])"

definition agent_config_from_dict :: "string \<Rightarrow> pyval \<Rightarrow> agent_config result" where
  "agent_config_from_dict agent_id v =
     (let data = dict_value v;
          removed_fields = filter (dict_has data) removed_agent_fields
      in
      res_bind (reject_plaintext_secret_container data ''agent config'') (\<lambda>_.
      if removed_fields \<noteq> [] then
        Inl (ValueError (''agent config fields '' @ str_join '', '' (sort removed_fields) @
          '' were removed; use callable_scopes for Agent invocation scopes, '' @
          ''dispatch.profile/examples/avoid for Agent routing profile, '' @
          ''and capability_refs for capability packages''))
      else
      res_bind (if pget data ''max_concurrent_tasks'' = PNone then Inr None
                else res_bind (py_int (pget data ''max_concurrent_tasks'')) (\<lambda>n. Inr (Some n)))
        (\<lambda>max_concurrent_tasks.
      let visibility = choice (pget data ''visibility'') agent_visibilities ''user'';
          user_visible = (visibility = ''user'');
          entrypoint = truthy (pget_or data ''entrypoint'' (PBool False));
          chat_entrypoint =
            bool_value (pget_or data ''chat_entrypoint'' (pget data ''entrypoint'')) entrypoint
      in
      res_bind (string_choices (pget data ''callable_scopes'') agent_callable_scopes
                  ''agent config callable_scopes''
                  (if user_visible then [''ephemeral'', ''persistent''] else []))
        (\<lambda>scopes.
      res_bind (agent_memory_from_dict (pget data ''memory'')) (\<lambda>memory. Inr
        \<lparr>ag_id = agent_id,
         ag_name = str_or_empty (pget_or data ''name'' (PStr [])),
         ag_description = str_or_empty (pget_or data ''description'' (PStr [])),
         ag_role = str_or_empty (pget_or data ''role'' (PStr [])),
         ag_entrypoint = entrypoint,
         ag_visibility = visibility,
         ag_chat_entrypoint = chat_entrypoint,
         ag_callable_scopes = scopes,
         ag_taskflow_eligible = bool_value (pget data ''taskflow_eligible'') user_visible,
         ag_system_flow_only = string_list (pget_or data ''system_flow_only'' (PList [])),
         ag_runtime_profile = str_or_empty (pget_or data ''runtime_profile'' (PStr [])),
         ag_dispatch = agent_dispatch_from_dict (pget data ''dispatch''),
         ag_capability_refs = string_list (pget_or data ''capability_refs'' (PList [])),
         ag_model = agent_model_from_dict (pget data ''model''),
         ag_prompt = agent_prompt_from_dict (pget data ''prompt''),
         ag_memory = memory,
         ag_max_concurrent_tasks = max_concurrent_tasks,
         ag_credential_refs = string_dict (pget_or data ''credential_refs'' (PDict []))\<rparr>)))))"

text \<open>The dataclass's \<open>__post_init__\<close>, run on every constructed configuration; \<open>scopes\<close> is the
  constructor's \<open>callable_scopes\<close> argument, None for the default.\<close>

definition agent_config_post_init ::
  "string list option \<Rightarrow> agent_config \<Rightarrow> agent_config result" where
  "agent_config_post_init scopes c =
     (let visibility = choice (PStr (ag_visibility c)) agent_visibilities ''user''
      in case scopes of
           None \<Rightarrow> Inr (c\<lparr>ag_visibility := visibility,
                          ag_callable_scopes := default_callable_scopes visibility\<rparr>)
         | Some given \<Rightarrow>
             res_bind (string_choices (strs given) agent_callable_scopes
                         ''agent config callable_scopes'' [])
               (\<lambda>out. Inr (c\<lparr>ag_visibility := visibility, ag_callable_scopes := out\<rparr>)))"

definition agent_config_load :: "string \<Rightarrow> pyval \<Rightarrow> agent_config result" where
  "agent_config_load agent_id v =
     res_bind (agent_config_from_dict agent_id v)
       (\<lambda>c. agent_config_post_init (Some (ag_callable_scopes c)) c)"

definition agent_config_to_dict :: "agent_config \<Rightarrow> pyobj" where
  "agent_config_to_dict c =
     (let dispatch = agent_dispatch_to_dict (ag_dispatch c);
          model = agent_model_to_dict (ag_model c);
          prompt = agent_prompt_to_dict (ag_prompt c);
          memory = agent_memory_to_dict (ag_memory c)
      in
      put_if (ag_credential_refs c \<noteq> []) ''credential_refs'' (str_pairs (ag_credential_refs c))
      (put_if (ag_max_concurrent_tasks c \<noteq> None) ''max_concurrent_tasks''
         (opt_int (ag_max_concurrent_tasks c))
      (put_if (memory \<noteq> []) ''memory'' (PDict memory)
      (put_if (prompt \<noteq> []) ''prompt'' (PDict prompt)
      (put_if (model \<noteq> []) ''model'' (PDict model)
      (put_if (ag_capability_refs c \<noteq> []) ''capability_refs'' (strs (ag_capability_refs c))
      (put_if (dispatch \<noteq> []) ''dispatch'' (PDict dispatch)
      (put_if (ag_runtime_profile c \<noteq> []) ''runtime_profile'' (PStr (ag_runtime_profile c))
      (put_if (ag_system_flow_only c \<noteq> []) ''system_flow_only'' (strs (ag_system_flow_only c))
      (put_if (ag_taskflow_eligible c \<noteq> (ag_visibility c = ''user'')) ''taskflow_eligible''
         (PBool (ag_taskflow_eligible c))
      (put_if (ag_callable_scopes c \<noteq> default_callable_scopes (ag_visibility c))
         ''callable_scopes'' (strs (ag_callable_scopes c))
      (put_if (ag_chat_entrypoint c) ''chat_entrypoint'' (PBool (ag_chat_entrypoint c))
      (put_if (ag_entrypoint c) ''entrypoint'' (PBool (ag_entrypoint c))
      (put_if (ag_visibility c \<noteq> ''user'') ''visibility'' (PStr (ag_visibility c))
      (put_if (ag_role c \<noteq> []) ''role'' (PStr (ag_role c))
      (put_if (ag_description c \<noteq> []) ''description'' (PStr (ag_description c))
      (put_if (ag_name c \<noteq> []) ''name'' (PStr (ag_name c)) [])))))))))))))))))"

definition user_visible :: "agent_config \<Rightarrow> bool" where
  "user_visible c \<longleftrightarrow> ag_visibility c = ''user''"

definition can_call_ephemeral :: "agent_config \<Rightarrow> bool" where
  "can_call_ephemeral c \<longleftrightarrow> user_visible c \<and> ''ephemeral'' \<in> set (ag_callable_scopes c)"

definition can_call_persistent :: "agent_config \<Rightarrow> bool" where
  "can_call_persistent c \<longleftrightarrow> user_visible c \<and> ''persistent'' \<in> set (ag_callable_scopes c)"

definition can_run_taskflow :: "agent_config \<Rightarrow> bool" where
  "can_run_taskflow c \<longleftrightarrow> user_visible c \<and> ag_taskflow_eligible c"

definition allows_system_flow :: "agent_config \<Rightarrow> string \<Rightarrow> bool" where
  "allows_system_flow c flow \<longleftrightarrow> str_strip flow \<in> set (ag_system_flow_only c)"

text \<open>What a loaded configuration satisfies, and what \<open>to_dict\<close> relies on to be readable.\<close>

definition agent_config_wf :: "agent_config \<Rightarrow> bool" where
  "agent_config_wf c \<longleftrightarrow>
     ag_visibility c \<in> set agent_visibilities \<and>
     distinct (ag_callable_scopes c) \<and> set (ag_callable_scopes c) \<subseteq> set agent_callable_scopes \<and>
     list_all nonblank (ag_system_flow_only c) \<and> list_all nonblank (ag_capability_refs c) \<and>
     list_all nonblank (dict_keys (ag_credential_refs c)) \<and>
     list_all nonblank (dp_examples (ag_dispatch c)) \<and> list_all nonblank (dp_avoid (ag_dispatch c)) \<and>
     pr_agent_md (ag_prompt c) \<noteq> Some [] \<and>
     list_all nonblank (mp_read_providers (ag_memory c)) \<and> mp_scope_mode (ag_memory c) \<noteq> [] \<and>
     str_strip (mp_primary_provider (ag_memory c)) = mp_primary_provider (ag_memory c)"

section \<open>What a written agent configuration reads back as\<close>

lemma string_choices_from_fixed:
  assumes "\<forall>x \<in> set allowed. str_lower (str_strip x) = x \<and> x \<noteq> []"
  shows "distinct (acc @ xs) \<Longrightarrow> set xs \<subseteq> set allowed \<Longrightarrow>
    string_choices_from allowed nm acc (map PStr xs) = Inr (acc @ xs)"
  using assms by (induction xs arbitrary: acc) (auto simp: Let_def)

lemma scopes_clean:
  "\<forall>x \<in> set agent_callable_scopes. str_lower (str_strip x) = x \<and> x \<noteq> []"
  by (simp add: agent_callable_scopes_def string_eval)

lemma string_choices_scopes:
  assumes "distinct xs" and "set xs \<subseteq> set agent_callable_scopes"
  shows "string_choices (strs xs) agent_callable_scopes nm dflt = Inr xs"
  using string_choices_from_fixed[OF scopes_clean, of "[]" xs] assms
  by (simp add: string_choices_def strs_def)

lemma choice_visibility:
  "vis \<in> set agent_visibilities \<Longrightarrow> choice (PStr vis) agent_visibilities ''user'' = vis"
  by (auto simp: agent_visibilities_def choice_def string_eval)

lemma choice_visibility_absent: "choice PNone agent_visibilities ''user'' = ''user''"
  by (simp add: agent_visibilities_def choice_def string_eval)

definition agent_config_key_names :: "string list" where
  "agent_config_key_names =
     [''credential_refs'', ''max_concurrent_tasks'', ''memory'', ''prompt'', ''model'',
      ''capability_refs'', ''dispatch'', ''runtime_profile'', ''system_flow_only'',
      ''taskflow_eligible'', ''callable_scopes'', ''chat_entrypoint'', ''entrypoint'',
      ''visibility'', ''role'', ''description'', ''name'']"

lemma agent_config_keys:
  "set (dict_keys (agent_config_to_dict c)) \<subseteq> set agent_config_key_names"
  unfolding agent_config_to_dict_def Let_def
  by (intro keys_put_if_subset) (simp_all add: agent_config_key_names_def)

lemma agent_config_clean_keys:
  "list_all (\<lambda>k. str_lower (str_strip k) \<notin> set secret_keys \<and> k \<notin> set removed_agent_fields)
     agent_config_key_names"
  unfolding agent_config_key_names_def list.pred_inject secret_keys_def removed_agent_fields_def
  by (intro conjI; simp add: string_eval)

lemma agent_config_no_secret:
  "reject_plaintext_secret_container (agent_config_to_dict c) owner = Inr ()"
  using agent_config_keys[of c] agent_config_clean_keys by (auto simp: reject_secrets_ok list_all_iff)

lemma agent_config_no_removed:
  "filter (dict_has (agent_config_to_dict c)) removed_agent_fields = []"
  using agent_config_keys[of c] agent_config_clean_keys
  by (auto simp: filter_empty_conv list_all_iff dict_keys_set[symmetric])

lemma agent_config_part_reads:
  "pget (agent_config_to_dict c) ''dispatch'' = stored_part (agent_dispatch_to_dict (ag_dispatch c))"
  "pget (agent_config_to_dict c) ''model'' = stored_part (agent_model_to_dict (ag_model c))"
  "pget (agent_config_to_dict c) ''prompt'' = stored_part (agent_prompt_to_dict (ag_prompt c))"
  "pget (agent_config_to_dict c) ''memory'' = stored_part (agent_memory_to_dict (ag_memory c))"
  by (auto simp: agent_config_to_dict_def Let_def pget_def stored_part_def)

lemma agent_config_text_reads:
  "str_or_empty (pget_or (agent_config_to_dict c) ''name'' (PStr [])) = ag_name c"
  "str_or_empty (pget_or (agent_config_to_dict c) ''description'' (PStr [])) = ag_description c"
  "str_or_empty (pget_or (agent_config_to_dict c) ''role'' (PStr [])) = ag_role c"
  "str_or_empty (pget_or (agent_config_to_dict c) ''runtime_profile'' (PStr [])) = ag_runtime_profile c"
  "pget (agent_config_to_dict c) ''max_concurrent_tasks'' = opt_int (ag_max_concurrent_tasks c)"
  by (auto simp: agent_config_to_dict_def Let_def pget_def pget_or_def)

lemma agent_config_flag_reads:
  "truthy (pget_or (agent_config_to_dict c) ''entrypoint'' (PBool False)) = ag_entrypoint c"
  "bool_value (pget_or (agent_config_to_dict c) ''chat_entrypoint''
      (pget (agent_config_to_dict c) ''entrypoint'')) (ag_entrypoint c) =
   (ag_chat_entrypoint c \<or> ag_entrypoint c)"
  "bool_value (pget (agent_config_to_dict c) ''taskflow_eligible'') (ag_visibility c = ''user'') =
   ag_taskflow_eligible c"
  by (auto simp: agent_config_to_dict_def Let_def pget_def pget_or_def)

lemma agent_config_list_reads:
  assumes "agent_config_wf c"
  shows "string_list (pget_or (agent_config_to_dict c) ''system_flow_only'' (PList [])) =
      ag_system_flow_only c"
    "string_list (pget_or (agent_config_to_dict c) ''capability_refs'' (PList [])) =
      ag_capability_refs c"
    "string_dict (pget_or (agent_config_to_dict c) ''credential_refs'' (PDict [])) =
      ag_credential_refs c"
  using assms by (auto simp: agent_config_to_dict_def Let_def pget_or_def agent_config_wf_def)

lemma agent_config_visibility_read:
  assumes "agent_config_wf c"
  shows "choice (pget (agent_config_to_dict c) ''visibility'') agent_visibilities ''user'' =
    ag_visibility c"
proof -
  have "pget (agent_config_to_dict c) ''visibility'' =
    (if ag_visibility c = ''user'' then PNone else PStr (ag_visibility c))"
    by (auto simp: agent_config_to_dict_def Let_def pget_def)
  with assms show ?thesis
    by (simp add: agent_config_wf_def choice_visibility choice_visibility_absent)
qed

lemma agent_config_scopes_read:
  assumes "agent_config_wf c"
  shows "string_choices (pget (agent_config_to_dict c) ''callable_scopes'') agent_callable_scopes nm
      (default_callable_scopes (ag_visibility c)) = Inr (ag_callable_scopes c)"
proof -
  have "pget (agent_config_to_dict c) ''callable_scopes'' =
    (if ag_callable_scopes c = default_callable_scopes (ag_visibility c) then PNone
     else strs (ag_callable_scopes c))"
    by (auto simp: agent_config_to_dict_def Let_def pget_def)
  with assms show ?thesis
    by (simp add: agent_config_wf_def string_choices_scopes)
      (simp add: string_choices_def)
qed

lemma agent_config_reload_lemma:
  assumes wf: "agent_config_wf c"
  shows "agent_config_load (ag_id c) (PDict (agent_config_to_dict c)) =
    Inr (c\<lparr>ag_chat_entrypoint := ag_chat_entrypoint c \<or> ag_entrypoint c\<rparr>)"
proof -
  let ?c = "c\<lparr>ag_chat_entrypoint := ag_chat_entrypoint c \<or> ag_entrypoint c\<rparr>"
  have maxi: "(if opt_int x = PNone then Inr None
      else res_bind (py_int (opt_int x)) (\<lambda>n. Inr (Some n))) = Inr x" for x :: "int option"
    by (cases x) (simp_all add: py_int_def)
  have parts:
    "agent_dispatch_from_dict (stored_part (agent_dispatch_to_dict (ag_dispatch c))) = ag_dispatch c"
    "agent_model_from_dict (stored_part (agent_model_to_dict (ag_model c))) = ag_model c"
    "agent_prompt_from_dict (stored_part (agent_prompt_to_dict (ag_prompt c))) = ag_prompt c"
    "agent_memory_from_dict (stored_part (agent_memory_to_dict (ag_memory c))) = Inr (ag_memory c)"
    using wf by (simp_all add: agent_config_wf_def part_roundtrips)
  have "agent_config_from_dict (ag_id c) (PDict (agent_config_to_dict c)) = Inr ?c"
    unfolding agent_config_from_dict_def Let_def dict_value_PDict agent_config_no_secret
      agent_config_no_removed agent_config_part_reads agent_config_text_reads
      agent_config_visibility_read[OF wf] agent_config_flag_reads agent_config_list_reads[OF wf]
      default_callable_scopes_def[symmetric] agent_config_scopes_read[OF wf] parts maxi
    by simp
  moreover have "agent_config_post_init (Some (ag_callable_scopes ?c)) ?c = Inr ?c"
    using wf by (simp add: agent_config_post_init_def agent_config_wf_def Let_def
        choice_visibility string_choices_scopes)
  ultimately show ?thesis by (simp add: agent_config_load_def)
qed

lemma user_is_visibility: "''user'' \<in> set agent_visibilities"
  by (simp add: agent_visibilities_def)

lemma agent_config_loaded:
  assumes "agent_config_load aid v = Inr c"
  shows "ag_visibility c \<in> set agent_visibilities"
    and "distinct (ag_callable_scopes c) \<and> set (ag_callable_scopes c) \<subseteq> set agent_callable_scopes"
proof -
  from assms obtain c0 out where
    out: "string_choices (strs (ag_callable_scopes c0)) agent_callable_scopes
      ''agent config callable_scopes'' [] = Inr out"
    and c: "c = c0\<lparr>ag_visibility := choice (PStr (ag_visibility c0)) agent_visibilities ''user'',
      ag_callable_scopes := out\<rparr>"
    by (auto simp: agent_config_load_def agent_config_post_init_def Let_def res_bind_Inr_iff)
  show "ag_visibility c \<in> set agent_visibilities"
    using choice_in[OF user_is_visibility] by (simp add: c)
  show "distinct (ag_callable_scopes c) \<and> set (ag_callable_scopes c) \<subseteq> set agent_callable_scopes"
    using string_choices_sound[OF out] by (simp add: c)
qed

section \<open>Properties\<close>

text \<open>A runtime profile that is written to its dictionary and read back is the same profile.\<close>

theorem runtime_profile_roundtrip:
  assumes "runtime_profile_wf p"
  shows "runtime_profile_from_dict (rp_id p) (PDict (runtime_profile_to_dict p)) = Inr p"
  using assms by (rule runtime_profile_roundtrip_lemma)

definition demo_profile :: runtime_profile where
  "demo_profile =
     (case runtime_profile_from_dict ''p1'' (PDict [(''executor'', PStr ''codex''),
         (''execution_location'', PStr ''local_workspace''), (''args'', PList [PStr ''-x'']),
         (''timeout_sec'', PInt 60)]) of Inr p \<Rightarrow> p)"

lemma runtime_profile_roundtrip_witness:
  "rp_worker_kind demo_profile = Worker_LOCAL_PEER \<and>
   runtime_profile_from_dict ''p1'' (PDict (runtime_profile_to_dict demo_profile)) = Inr demo_profile"
proof -
  have "runtime_profile_wf demo_profile" "rp_id demo_profile = ''p1''"
    "rp_worker_kind demo_profile = Worker_LOCAL_PEER"
    by code_simp+
  with runtime_profile_roundtrip show ?thesis by metis
qed

text \<open>An agent configuration that is written to its dictionary and loaded again is the same,
  except that an agent with \<open>entrypoint\<close> set comes back with \<open>chat_entrypoint\<close> set as well.\<close>

theorem agent_config_reload:
  assumes "agent_config_wf c"
  shows "agent_config_load (ag_id c) (PDict (agent_config_to_dict c)) =
    Inr (c\<lparr>ag_chat_entrypoint := ag_chat_entrypoint c \<or> ag_entrypoint c\<rparr>)"
  using assms by (rule agent_config_reload_lemma)

definition demo_agent :: agent_config where
  "demo_agent =
     (case agent_config_load ''a1'' (PDict [(''entrypoint'', PBool True),
         (''chat_entrypoint'', PBool False)]) of Inr c \<Rightarrow> c)"

lemma agent_config_reload_witness:
  "\<not> ag_chat_entrypoint demo_agent \<and>
   agent_config_load ''a1'' (PDict (agent_config_to_dict demo_agent)) =
     Inr (demo_agent\<lparr>ag_chat_entrypoint := True\<rparr>)"
proof -
  have d: "agent_config_wf demo_agent" "ag_id demo_agent = ''a1''" "\<not> ag_chat_entrypoint demo_agent"
    "ag_entrypoint demo_agent"
    by code_simp+
  show ?thesis using agent_config_reload[OF d(1)] d(2-4) by simp
qed

text \<open>A runtime profile with a plaintext secret is refused, and an accepted one has only
  positive time limits.\<close>

theorem runtime_profile_accepts_safely:
  assumes "runtime_profile_from_dict pid v = Inr p"
  shows "(\<forall>k \<in> set (dict_keys (dict_value v)). str_lower (str_strip k) \<notin> set secret_keys) \<and>
    (\<forall>n. rp_timeout_sec p = Some n \<longrightarrow> 0 < n) \<and> (\<forall>n. rp_step_timeout_sec p = Some n \<longrightarrow> 0 < n)"
  using runtime_profile_accepted[OF assms] by blast

lemma runtime_profile_accepts_safely_witness:
  "rp_timeout_sec demo_profile = Some 60 \<and> 0 < (60 :: int)"
proof -
  have "runtime_profile_from_dict ''p1'' (PDict [(''executor'', PStr ''codex''),
         (''execution_location'', PStr ''local_workspace''), (''args'', PList [PStr ''-x'']),
         (''timeout_sec'', PInt 60)]) = Inr demo_profile"
    by code_simp
  moreover have "rp_timeout_sec demo_profile = Some 60" by code_simp
  ultimately show ?thesis using runtime_profile_accepts_safely by blast
qed

end
