(* ===== verification/RunRecords.thy ===== *)
theory RunRecords
  imports Coercions
begin

text \<open>
  The lifecycle records of an agent run, from
  \<open>src/reuleauxcoder/domain/agent_runtime/models.py\<close> (\<open>AgentRun\<close>, \<open>AgentRunActivation\<close>,
  \<open>ActivationSteer\<close>, \<open>AgentRunFeedback\<close>, \<open>AgentRunRelation\<close>, the bindings and the artifacts, with
  the validation their \<open>__post_init__\<close> methods do), and the pure functions on them at the top of
  \<open>src/labrastro_server/services/agent_runtime/control_plane.py\<close>: the dictionary views that are put
  into events, the activation identifiers, and the state changes of a run.
\<close>

section \<open>Records\<close>

record agent_run =
  ar_id :: string
  ar_agent_id :: string
  ar_kind :: string
  ar_owner_session_run_id :: string
  ar_source :: agent_run_source
  ar_trigger_mode :: trigger_mode
  ar_status :: agent_run_status
  ar_mainline_state :: agent_run_mainline_state
  ar_activation_state :: agent_run_activation_state
  ar_waiting_reason :: "agent_run_waiting_reason option"
  ar_resume_policy :: "agent_run_resume_policy option"
  ar_runtime_profile_id :: "string option"
  ar_executor :: "executor_type option"
  ar_execution_location :: "execution_location option"
  ar_worktree_role :: "worktree_role option"
  ar_publish_policy :: "publish_policy option"
  ar_workdir :: "string option"
  ar_workspace_ref :: "string option"
  ar_executor_session_id :: "string option"
  ar_current_activation_id :: "string option"
  ar_sandbox_id :: "string option"
  ar_sandbox_session_id :: "string option"
  ar_retention_scope :: string
  ar_cleanup_policy :: string
  ar_terminal_result :: pyobj
  ar_failure_reason :: "string option"
  ar_cancel_reason :: "string option"
  ar_metadata :: pyobj

definition metadata_activation_keys :: "string list" where
  "metadata_activation_keys =
     [''current_activation_id'', ''current_activation_seq'', ''current_activation_input_kind'',
      ''current_activation_input_payload'', ''current_activation_prompt'',
      ''previous_activation_id'']"

definition metadata_forbidden_keys :: "string list" where
  "metadata_forbidden_keys =
     [''agent_run_source'', ''assignment_id'', ''branch_name'', ''call_agent_mode'',
      ''called_by_agent_run_id'', ''comment_id'', ''created_by_activation_id'',
      ''dispatch_decision_id'', ''issue_id'', ''lifecycle_event'', ''lifecycle_handler_type'',
      ''lifecycle_hook_id'', ''lifecycle_hook_source'', ''mention_id'', ''parent_session_id'',
      ''parent_task_id'', ''parent_turn_id'', ''pr_id'', ''pr_url'', ''purpose_key'',
      ''relation_type'', ''task_run_id'', ''trigger_source'', ''trigger_comment_id'',
      ''workflow_id'', ''workflow_node_id''] @ metadata_activation_keys"

text \<open>The \<open>__post_init__\<close> of a run: the states not given follow from the status, and the metadata
  may not carry identity fields.\<close>

definition agent_run_post_init ::
  "agent_run_mainline_state option \<Rightarrow> agent_run_activation_state option \<Rightarrow> agent_run
    \<Rightarrow> agent_run result" where
  "agent_run_post_init mainline astate task =
     (let task = task\<lparr>
            ar_mainline_state := (case mainline of Some m \<Rightarrow> m
              | None \<Rightarrow> agent_run_mainline_state_for_status (Some (ar_status task))
                         (ar_waiting_reason task)),
            ar_activation_state := (case astate of Some a \<Rightarrow> a
              | None \<Rightarrow> agent_run_activation_state_for_status (Some (ar_status task))
                         (ar_waiting_reason task))\<rparr>;
          forbidden = sort (filter (\<lambda>k. k \<in> set metadata_forbidden_keys) (dict_keys (ar_metadata task)))
      in if forbidden \<noteq> [] then
           Inl (ValueError (''AgentRun.metadata cannot store taskflow or external business '' @
                            ''identity fields: '' @ str_join '', '' forbidden))
         else Inr task)"

definition is_terminal :: "agent_run \<Rightarrow> bool" where
  "is_terminal task \<longleftrightarrow> ar_status task \<in> {Run_COMPLETED, Run_FAILED, Run_CANCELLED, Run_BLOCKED}"

record agent_run_activation =
  ac_id :: string
  ac_agent_run_id :: string
  ac_seq :: int
  ac_input_kind :: agent_run_activation_input_kind
  ac_input_payload :: pyobj
  ac_prompt :: string
  ac_status :: agent_run_activation_status
  ac_output :: "string option"
  ac_result_payload :: pyobj
  ac_worker_id :: "string option"
  ac_request_id :: "string option"
  ac_started_at :: "string option"
  ac_ended_at :: "string option"
  ac_metadata :: pyobj

record activation_steer =
  st_id :: string
  st_activation_id :: string
  st_source :: activation_steer_source
  st_payload :: pyobj
  st_created_at :: "string option"
  st_delivered_at :: "string option"
  st_status :: activation_steer_status
  st_metadata :: pyobj

record agent_run_feedback =
  fb_id :: string
  fb_agent_run_id :: string
  fb_source :: agent_run_feedback_source
  fb_kind :: agent_run_feedback_kind
  fb_payload :: pyobj
  fb_created_at :: "string option"
  fb_consumed_by_activation_id :: "string option"
  fb_visibility :: agent_run_feedback_visibility
  fb_requires_activation :: bool
  fb_metadata :: pyobj

record agent_run_relation =
  rl_id :: string
  rl_owner_agent_run_id :: string
  rl_related_agent_run_id :: string
  rl_relation_type :: agent_run_relation_type
  rl_relation_scope :: string
  rl_created_by_activation_id :: "string option"
  rl_status :: agent_run_relation_status
  rl_payload :: pyobj
  rl_metadata :: pyobj

definition relation_metadata_forbidden_keys :: "string list" where
  "relation_metadata_forbidden_keys =
     [''conversation_scope'', ''wait'', ''thread_key'', ''thread_summary'', ''parent_session_id'',
      ''parent_turn_id'', ''workspace_root'', ''lifecycle_hook_id'', ''source_agent_run_id'',
      ''target_agent_run_id'', ''base_session_item_id'', ''base_git_ref'', ''base_tree_ref'',
      ''branch_name'', ''branch_git_ref'', ''branch_worktree_ref'', ''fork_workspace_ref'',
      ''source_owner_session_run_id'', ''target_owner_session_run_id'', ''provenance_status'',
      ''reuse_live_executor_session'', ''permission_recompute_policy'', ''cleanup_policy'',
      ''runtime_root'', ''source_workspace_root'']"

definition relation_payload_required_keys :: "agent_run_relation_type \<Rightarrow> string list" where
  "relation_payload_required_keys rt =
     (case rt of
        Rel_AGENT_CALL_EPHEMERAL \<Rightarrow> [''conversation_scope'', ''wait'']
      | Rel_AGENT_CALL_PERSISTENT \<Rightarrow>
          [''conversation_scope'', ''wait'', ''thread_key'', ''thread_summary'']
      | Rel_BRANCH \<Rightarrow>
          [''source_agent_run_id'', ''target_agent_run_id'', ''base_session_item_id'',
           ''base_git_ref'', ''base_tree_ref'', ''branch_name'', ''branch_git_ref'',
           ''branch_worktree_ref'', ''permission_recompute_policy'',
           ''reuse_live_executor_session'', ''cleanup_policy'', ''runtime_root'',
           ''source_workspace_root'']
      | Rel_FORK \<Rightarrow>
          [''source_agent_run_id'', ''target_agent_run_id'', ''base_session_item_id'',
           ''fork_workspace_ref'', ''target_owner_session_run_id'',
           ''permission_recompute_policy'', ''reuse_live_executor_session'', ''cleanup_policy'',
           ''provenance_status'']
      | Rel_REVIEW \<Rightarrow> [''review_kind'']
      | Rel_DIAGNOSTIC_PROBE \<Rightarrow> [''probe_kind''])"

definition validate_relation_payload :: "agent_run_relation_type \<Rightarrow> pyobj \<Rightarrow> unit result" where
  "validate_relation_payload relation_type payload =
     (let required = relation_payload_required_keys relation_type;
          missing = sort (filter (\<lambda>key. pget payload key = PNone) required);
          blank = sort (filter (\<lambda>key. key \<noteq> ''reuse_live_executor_session''
                                 \<and> str_or_empty (pget payload key) = []) required);
          type_text = agent_run_relation_type_value relation_type
      in
      if missing \<noteq> [] then
        Inl (ValueError (''AgentRunRelation.payload missing required '' @ type_text @
                         '' fields: '' @ str_join '', '' missing))
      else if relation_type \<in> {Rel_AGENT_CALL_EPHEMERAL, Rel_AGENT_CALL_PERSISTENT} \<and>
              str_or_empty (pget payload ''conversation_scope'') \<noteq>
                (if relation_type = Rel_AGENT_CALL_PERSISTENT then ''persistent'' else ''ephemeral'')
      then Inl (ValueError (''AgentRunRelation.payload conversation_scope must match '' @ type_text))
      else if relation_type \<in> {Rel_AGENT_CALL_EPHEMERAL, Rel_AGENT_CALL_PERSISTENT} \<and>
              pget payload ''wait'' \<notin> {PBool True, PBool False}
      then Inl (ValueError ''AgentRunRelation.payload wait must be boolean'')
      else if relation_type \<in> {Rel_BRANCH, Rel_FORK} \<and> blank \<noteq> [] then
        Inl (ValueError (''AgentRunRelation.payload missing required '' @ type_text @
                         '' fields: '' @ str_join '', '' blank))
      else if relation_type \<in> {Rel_BRANCH, Rel_FORK} \<and>
              pget payload ''reuse_live_executor_session'' \<noteq> PBool False
      then Inl (ValueError ''AgentRunRelation.payload reuse_live_executor_session must be false'')
      else if relation_type = Rel_FORK \<and>
              str_or_empty (pget payload ''provenance_status'')
                \<notin> {''visible'', ''redacted'', ''unavailable''}
      then Inl (ValueError (''AgentRunRelation.payload provenance_status must be visible, '' @
                            ''redacted, or unavailable''))
      else Inr ())"

definition relation_post_init :: "agent_run_relation \<Rightarrow> agent_run_relation result" where
  "relation_post_init r =
     (let r = r\<lparr>rl_relation_scope := (if rl_relation_scope r = [] then ''session''
                                      else rl_relation_scope r)\<rparr>;
          forbidden = sort (filter (\<lambda>k. k \<in> set relation_metadata_forbidden_keys)
                              (dict_keys (rl_metadata r)))
      in if forbidden \<noteq> [] then
           Inl (ValueError (''AgentRunRelation.metadata cannot store relation decision fields: '' @
                            str_join '', '' forbidden))
         else res_bind (validate_relation_payload (rl_relation_type r) (rl_payload r)) (\<lambda>_. Inr r))"

record session_run_binding =
  sb_id :: string
  sb_session_run_id :: string
  sb_agent_run_id :: string
  sb_peer_id :: string
  sb_session_id :: string
  sb_branch_binding_id :: string
  sb_selected :: bool
  sb_parent_branch_binding_id :: string
  sb_base_session_item_id :: string
  sb_source_agent_run_id :: string
  sb_target_agent_run_id :: string
  sb_status :: session_run_binding_status
  sb_created_at :: "string option"
  sb_updated_at :: "string option"
  sb_metadata :: pyobj

definition session_run_binding_post_init :: "session_run_binding \<Rightarrow> session_run_binding" where
  "session_run_binding_post_init b =
     b\<lparr>sb_branch_binding_id := (if sb_branch_binding_id b = [] then sb_id b
                                else sb_branch_binding_id b),
       sb_target_agent_run_id := (if sb_target_agent_run_id b = [] then sb_agent_run_id b
                                  else sb_target_agent_run_id b)\<rparr>"

record agent_thread_binding =
  tb_id :: string
  tb_owner_session_run_id :: string
  tb_main_agent_run_id :: string
  tb_agent_id :: string
  tb_target_agent_run_id :: string
  tb_thread_key :: string
  tb_thread_summary :: string
  tb_binding_lifetime :: agent_thread_binding_lifetime
  tb_workdir_policy :: agent_thread_workdir_policy
  tb_visibility :: string
  tb_status :: agent_thread_binding_status
  tb_cleanup_policy :: string
  tb_created_at :: "string option"
  tb_updated_at :: "string option"
  tb_metadata :: pyobj

record task_artifact =
  tk_id :: string
  tk_task_id :: string
  tk_type :: artifact_type
  tk_status :: artifact_status
  tk_branch_name :: "string option"
  tk_pr_url :: "string option"
  tk_content :: "string option"
  tk_path :: "string option"
  tk_metadata :: pyobj
  tk_merge_status :: "merge_status option"
  tk_merged_by :: "string option"

definition task_artifact_post_init :: "task_artifact \<Rightarrow> task_artifact" where
  "task_artifact_post_init a =
     (if tk_merge_status a = None \<and> tk_type a = Artifact_PULL_REQUEST
      then a\<lparr>tk_merge_status := Some Merge_PENDING_USER\<rparr> else a)"

definition requires_user_merge :: "task_artifact \<Rightarrow> bool" where
  "requires_user_merge a \<longleftrightarrow>
     tk_type a = Artifact_PULL_REQUEST \<and> tk_status a \<notin> {AStatus_MERGED, AStatus_CLOSED} \<and>
     tk_merge_status a = Some Merge_PENDING_USER"

end
