(* ===== verification/RuntimePolicy.thy ===== *)
theory RuntimePolicy
  imports AgentConfigs RunRecords
begin

text \<open>
  The placement rules of agent runs, from
  \<open>src/labrastro_server/services/agent_runtime/runtime_policy.py\<close>: which worker kind and model
  request origin a runtime profile stands for, which combinations a run may use, and when a worker
  that asks for work may be given a run.

  The fields of the request that \<open>validate_agent_run_runtime_policy\<close> reads are its arguments; the
  executor and the origin are those the resolver has filled in. A feature set is the list of its
  elements (only membership is used), None when the worker sent no features.
\<close>

section \<open>Optional members\<close>

definition optional_member :: "('a::enum \<Rightarrow> string) \<Rightarrow> pyval \<Rightarrow> 'a option result" where
  "optional_member val v =
     (if v = PNone \<or> str_strip (py_str v) = [] then Inr None
      else res_bind (enum_of val (py_str v)) (\<lambda>x. Inr (Some x)))"

definition optional_worker_kind :: "pyval \<Rightarrow> worker_kind option result" where
  "optional_worker_kind = optional_member worker_kind_value"

definition optional_model_request_origin :: "pyval \<Rightarrow> model_request_origin option result" where
  "optional_model_request_origin = optional_member model_request_origin_value"

definition optional_worktree_role :: "pyval \<Rightarrow> worktree_role option result" where
  "optional_worktree_role = optional_member worktree_role_value"

definition optional_publish_policy :: "pyval \<Rightarrow> publish_policy option result" where
  "optional_publish_policy = optional_member publish_policy_value"

lemma optional_member_PNone [simp]: "optional_member val PNone = Inr None"
  by (simp add: optional_member_def)

section \<open>What a runtime profile stands for\<close>

definition worker_kind_for_runtime :: "pyobj \<Rightarrow> execution_location \<Rightarrow> worker_kind result" where
  "worker_kind_for_runtime raw_profile execution_location =
     res_bind (optional_worker_kind (pget raw_profile ''worker_kind'')) (\<lambda>explicit.
       case explicit of
         Some kind \<Rightarrow> Inr kind
       | None \<Rightarrow>
           if dict_value (pget raw_profile ''sandbox'') \<noteq> [] then Inr Worker_SANDBOX_WORKER
           else if execution_location = Loc_LOCAL_WORKSPACE then Inr Worker_LOCAL_PEER
           else Inr Worker_SERVER_WORKER)"

definition model_request_origin_for_runtime ::
  "pyobj \<Rightarrow> executor_type \<Rightarrow> worker_kind \<Rightarrow> model_request_origin result" where
  "model_request_origin_for_runtime raw_profile executor worker_kind =
     res_bind (optional_model_request_origin (pget raw_profile ''model_request_origin'')) (\<lambda>explicit.
       case explicit of
         Some origin \<Rightarrow> Inr origin
       | None \<Rightarrow>
           if executor \<in> {Exec_CODEX, Exec_CLAUDE, Exec_GEMINI} then
             (if worker_kind = Worker_LOCAL_PEER then Inr Origin_LOCAL_CLI
              else Inr Origin_SERVER_WORKER_CLI)
           else Inr Origin_SERVER)"

definition server_capable_worker :: "worker_kind \<Rightarrow> bool" where
  "server_capable_worker worker_kind \<longleftrightarrow> worker_kind \<in> {Worker_SERVER_WORKER, Worker_SANDBOX_WORKER}"

definition validate_runtime_profile_model_request_origin ::
  "executor_type \<Rightarrow> worker_kind \<Rightarrow> model_request_origin \<Rightarrow> unit result" where
  "validate_runtime_profile_model_request_origin executor worker_kind model_request_origin =
     (if executor \<in> {Exec_CODEX, Exec_CLAUDE, Exec_GEMINI} then
        (let expected = (if worker_kind = Worker_LOCAL_PEER then Origin_LOCAL_CLI
                         else Origin_SERVER_WORKER_CLI)
         in if model_request_origin \<noteq> expected then
              Inl (ValueError (executor_type_value executor @ '' runtime profile with '' @
                     worker_kind_value worker_kind @ '' must use model_request_origin='' @
                     model_request_origin_value expected))
            else Inr ())
      else if model_request_origin \<noteq> Origin_SERVER then
        Inl (ValueError (executor_type_value executor @
               '' runtime profile must use model_request_origin=server''))
      else Inr ())"

definition system_flow_for_source :: "agent_run_source \<Rightarrow> string" where
  "system_flow_for_source source =
     (if source = Source_ENVIRONMENT then ''environment_config''
      else if source = Source_CAPABILITY_INGEST then ''capability_ingest''
      else agent_run_source_value source)"

definition validate_agent_run_runtime_policy ::
  "executor_type \<Rightarrow> worker_kind option \<Rightarrow> execution_location option \<Rightarrow> model_request_origin \<Rightarrow>
   agent_run_source \<Rightarrow> string \<Rightarrow> agent_config option \<Rightarrow> unit result" where
  "validate_agent_run_runtime_policy executor request_worker_kind request_location
       model_request_origin source agent_id agent_config =
     (let worker_kind = (case request_worker_kind of Some k \<Rightarrow> k | None \<Rightarrow> Worker_SERVER_WORKER);
          location = (case request_location of Some l \<Rightarrow> l | None \<Rightarrow> Loc_REMOTE_SERVER)
      in res_bind (validate_runtime_profile_model_request_origin executor worker_kind
                     model_request_origin) (\<lambda>_.
         if source = Source_TASKFLOW \<and>
            (\<not> server_capable_worker worker_kind \<or> location = Loc_LOCAL_WORKSPACE)
         then Inl (ValueError ''Taskflow agent requires a server-capable runtime profile'')
         else if source = Source_CAPABILITY_INGEST \<and>
            (\<not> server_capable_worker worker_kind \<or> location = Loc_LOCAL_WORKSPACE)
         then Inl (ValueError
                ''capability package generation requires a server-capable runtime profile'')
         else if source = Source_ENVIRONMENT \<and>
            (worker_kind \<noteq> Worker_LOCAL_PEER \<or> location \<noteq> Loc_LOCAL_WORKSPACE)
         then Inl (ValueError ''environment configuration requires a local peer runtime profile'')
         else if source = Source_TASKFLOW \<and>
            (case agent_config of None \<Rightarrow> False | Some c \<Rightarrow> \<not> can_run_taskflow c)
         then Inl (ValueError (''agent '' @ agent_id @ '' is not eligible for Taskflow''))
         else Inr ()))"

section \<open>Matching a worker with a run\<close>

definition workspace_key :: "string option \<Rightarrow> string" where
  "workspace_key value =
     str_lower (rstrip_by (\<lambda>c. c = CHR ''/'')
       (str_replace [CHR 0x5C] ''/'' (str_strip (opt_str value))))"

definition worker_kind_from_features ::
  "string list option \<Rightarrow> execution_location \<Rightarrow> worker_kind option" where
  "worker_kind_from_features features location =
     (case features of
        None \<Rightarrow> None
      | Some fs \<Rightarrow>
          if fs = [] then None
          else case List.find (\<lambda>kind. ''worker_kind:'' @ worker_kind_value kind \<in> set fs) Enum.enum of
                 Some kind \<Rightarrow> Some kind
               | None \<Rightarrow>
                   if ''agent_runs.local_workspace'' \<in> set fs \<and> location = Loc_LOCAL_WORKSPACE
                   then Some Worker_LOCAL_PEER
                   else if location \<noteq> Loc_LOCAL_WORKSPACE \<and>
                           ''agent_runs.'' @ execution_location_value location \<in> set fs
                   then Some Worker_SERVER_WORKER
                   else None)"

text \<open>The workspace test that occurs twice in \<open>worker_matches_agent_run\<close>.\<close>

definition workspace_bound_to :: "agent_run \<Rightarrow> string" where
  "workspace_bound_to task = str_strip (str_or_empty (pget (ar_metadata task) ''workspace_root''))"

definition same_workspace :: "string \<Rightarrow> string option \<Rightarrow> bool" where
  "same_workspace bound_workspace workspace_root \<longleftrightarrow>
     opt_str workspace_root \<noteq> [] \<and>
     workspace_key (Some bound_workspace) = workspace_key workspace_root"

definition run_location :: "agent_run \<Rightarrow> execution_location" where
  "run_location task =
     (case ar_execution_location task of Some l \<Rightarrow> l | None \<Rightarrow> Loc_REMOTE_SERVER)"

definition expected_worker_kind :: "agent_run \<Rightarrow> worker_kind result" where
  "expected_worker_kind task =
     res_bind (optional_worker_kind (pget (ar_metadata task) ''worker_kind'')) (\<lambda>k.
       case k of
         Some kind \<Rightarrow> Inr kind
       | None \<Rightarrow> Inr (if run_location task = Loc_LOCAL_WORKSPACE then Worker_LOCAL_PEER
                      else Worker_SERVER_WORKER))"

definition worker_matches_agent_run ::
  "agent_run \<Rightarrow> worker_kind option \<Rightarrow> string list option \<Rightarrow> string option \<Rightarrow> bool result" where
  "worker_matches_agent_run task worker_kind features workspace_root =
     res_bind (expected_worker_kind task) (\<lambda>expected_worker.
     let location = run_location task;
         effective_worker = (case worker_kind of
             Some k \<Rightarrow> Some k
           | None \<Rightarrow> worker_kind_from_features features location);
         bound_workspace = workspace_bound_to task
     in
     if effective_worker \<noteq> None \<and> effective_worker \<noteq> Some expected_worker then Inr False
     else case features of
       None \<Rightarrow>
         if location = Loc_LOCAL_WORKSPACE \<and> bound_workspace \<noteq> []
         then Inr (same_workspace bound_workspace workspace_root)
         else Inr True
     | Some fs \<Rightarrow>
         if effective_worker = None then Inr False
         else if location = Loc_LOCAL_WORKSPACE then
           (if expected_worker \<noteq> Worker_LOCAL_PEER then Inr False
            else if ''agent_runs.local_workspace'' \<notin> set fs then Inr False
            else if bound_workspace \<noteq> [] then Inr (same_workspace bound_workspace workspace_root)
            else Inr True)
         else if expected_worker = Worker_SANDBOX_WORKER
           then Inr (effective_worker = Some Worker_SANDBOX_WORKER)
         else if expected_worker \<noteq> Worker_SERVER_WORKER then Inr False
         else Inr (''agent_runs.'' @ execution_location_value location \<in> set fs))"

section \<open>Facts about placement\<close>

lemma validate_origin_iff:
  "validate_runtime_profile_model_request_origin executor kind origin = Inr () \<longleftrightarrow>
   origin = (if executor \<in> {Exec_CODEX, Exec_CLAUDE, Exec_GEMINI}
             then if kind = Worker_LOCAL_PEER then Origin_LOCAL_CLI else Origin_SERVER_WORKER_CLI
             else Origin_SERVER)"
  by (simp add: validate_runtime_profile_model_request_origin_def Let_def)

lemma inferred_origin_valid_lemma:
  assumes "pget raw ''model_request_origin'' = PNone"
    and "model_request_origin_for_runtime raw executor kind = Inr origin"
  shows "validate_runtime_profile_model_request_origin executor kind origin = Inr ()"
  using assms
  by (auto simp: model_request_origin_for_runtime_def optional_model_request_origin_def
      validate_origin_iff split: if_splits)

lemma runtime_policy_ok_iff:
  "validate_agent_run_runtime_policy executor wk loc origin source aid cfg = Inr () \<longleftrightarrow>
   validate_runtime_profile_model_request_origin executor
     (case wk of Some k \<Rightarrow> k | None \<Rightarrow> Worker_SERVER_WORKER) origin = Inr () \<and>
   (source \<in> {Source_TASKFLOW, Source_CAPABILITY_INGEST} \<longrightarrow>
      wk \<noteq> Some Worker_LOCAL_PEER \<and> loc \<noteq> Some Loc_LOCAL_WORKSPACE) \<and>
   (source = Source_ENVIRONMENT \<longrightarrow>
      wk = Some Worker_LOCAL_PEER \<and> loc = Some Loc_LOCAL_WORKSPACE) \<and>
   (source = Source_TASKFLOW \<longrightarrow> (\<forall>c. cfg = Some c \<longrightarrow> can_run_taskflow c))"
  unfolding validate_agent_run_runtime_policy_def Let_def res_bind_Inr_iff
  by (cases wk; cases loc; cases cfg)
    (auto simp: server_capable_worker_def split: if_splits worker_kind.splits
      execution_location.splits intro: worker_kind.exhaust)

lemma worker_matches_features_iff:
  assumes "expected_worker_kind task = Inr expected"
  shows "worker_matches_agent_run task wk (Some fs) root = Inr True \<longleftrightarrow>
     (case wk of Some k \<Rightarrow> Some k | None \<Rightarrow> worker_kind_from_features (Some fs) (run_location task))
       = Some expected \<and>
     (if run_location task = Loc_LOCAL_WORKSPACE then
        expected = Worker_LOCAL_PEER \<and> ''agent_runs.local_workspace'' \<in> set fs \<and>
        (workspace_bound_to task \<noteq> [] \<longrightarrow> same_workspace (workspace_bound_to task) root)
      else expected = Worker_SANDBOX_WORKER \<or>
        expected = Worker_SERVER_WORKER \<and>
        ''agent_runs.'' @ execution_location_value (run_location task) \<in> set fs)"
  unfolding worker_matches_agent_run_def assms
  by (auto simp: Let_def)

lemma worker_matches_total:
  assumes "expected_worker_kind task = Inr expected"
  shows "\<exists>b. worker_matches_agent_run task wk features root = Inr b"
  unfolding worker_matches_agent_run_def assms
  by (auto simp: Let_def split: option.split)

lemma res_bind_return [simp]: "res_bind m Inr = m"
  by (cases m) auto

lemma worker_kind_copies_agree:
  assumes "str_strip (str_or_empty (pget raw ''worker_kind'')) = str_or_empty (pget raw ''worker_kind'')"
    and "truthy (pget raw ''worker_kind'') \<or> pget raw ''worker_kind'' \<in> {PNone, PStr []}"
  shows "runtime_worker_kind (pget raw ''worker_kind'') loc (dict_value (pget raw ''sandbox'')) =
         worker_kind_for_runtime raw loc"
proof (cases "truthy (pget raw ''worker_kind'')")
  case True
  then have "pget raw ''worker_kind'' \<noteq> PNone" by auto
  with True assms(1) show ?thesis
    by (auto simp: runtime_worker_kind_def worker_kind_for_runtime_def optional_worker_kind_def
        optional_member_def str_or_empty_def Let_def res_bind_assoc)
next
  case False
  with assms(2) have "pget raw ''worker_kind'' \<in> {PNone, PStr []}" by simp
  then show ?thesis
    by (auto simp: runtime_worker_kind_def worker_kind_for_runtime_def optional_worker_kind_def
        optional_member_def)
qed

section \<open>Properties\<close>

text \<open>The model request origin that is inferred for a profile without an explicit one is always
  accepted by the validation of the profile.\<close>

theorem inferred_origin_valid:
  assumes "pget raw ''model_request_origin'' = PNone"
    and "model_request_origin_for_runtime raw executor kind = Inr origin"
  shows "validate_runtime_profile_model_request_origin executor kind origin = Inr ()"
  using assms by (rule inferred_origin_valid_lemma)

lemma inferred_origin_valid_witness:
  "validate_runtime_profile_model_request_origin Exec_CODEX Worker_LOCAL_PEER Origin_LOCAL_CLI = Inr ()"
  by (rule inferred_origin_valid[of "[]"])
    (simp_all add: pget_def model_request_origin_for_runtime_def optional_model_request_origin_def)

text \<open>Runs are admitted exactly by the placement rules: the origin fits executor and worker,
  taskflow and package-ingest runs stay off local workspaces and local peers, environment runs are
  local only, and taskflow needs an eligible agent.\<close>

theorem runtime_policy_exact:
  "validate_agent_run_runtime_policy executor wk loc origin source aid cfg = Inr () \<longleftrightarrow>
   validate_runtime_profile_model_request_origin executor
     (case wk of Some k \<Rightarrow> k | None \<Rightarrow> Worker_SERVER_WORKER) origin = Inr () \<and>
   (source \<in> {Source_TASKFLOW, Source_CAPABILITY_INGEST} \<longrightarrow>
      wk \<noteq> Some Worker_LOCAL_PEER \<and> loc \<noteq> Some Loc_LOCAL_WORKSPACE) \<and>
   (source = Source_ENVIRONMENT \<longrightarrow>
      wk = Some Worker_LOCAL_PEER \<and> loc = Some Loc_LOCAL_WORKSPACE) \<and>
   (source = Source_TASKFLOW \<longrightarrow> (\<forall>c. cfg = Some c \<longrightarrow> can_run_taskflow c))"
  by (rule runtime_policy_ok_iff)

lemma runtime_policy_exact_witness:
  "validate_agent_run_runtime_policy Exec_FAKE (Some Worker_LOCAL_PEER) (Some Loc_LOCAL_WORKSPACE)
     Origin_SERVER Source_ENVIRONMENT ''a'' None = Inr ()"
  unfolding runtime_policy_exact by (simp add: validate_origin_iff)

text \<open>A worker that declares its features gets a run exactly when its kind is the one the run
  expects and its features cover the place of the run; on a local workspace it must also be the
  workspace the run is bound to.\<close>

theorem worker_match_exact:
  assumes "expected_worker_kind task = Inr expected"
  shows "worker_matches_agent_run task wk (Some fs) root = Inr True \<longleftrightarrow>
     (case wk of Some k \<Rightarrow> Some k | None \<Rightarrow> worker_kind_from_features (Some fs) (run_location task))
       = Some expected \<and>
     (if run_location task = Loc_LOCAL_WORKSPACE then
        expected = Worker_LOCAL_PEER \<and> ''agent_runs.local_workspace'' \<in> set fs \<and>
        (workspace_bound_to task \<noteq> [] \<longrightarrow> same_workspace (workspace_bound_to task) root)
      else expected = Worker_SANDBOX_WORKER \<or>
        expected = Worker_SERVER_WORKER \<and>
        ''agent_runs.'' @ execution_location_value (run_location task) \<in> set fs)"
  using assms by (rule worker_matches_features_iff)

end
