(* ===== verification/ExecutorMessages.thy ===== *)
theory ExecutorMessages
  imports RuntimePolicy
begin

text \<open>
  The messages between the control plane and an executor backend, from
  \<open>src/labrastro_server/services/agent_runtime/executor_backend.py\<close>: the run request, the stream
  events and the run result, with the dictionaries they are sent as. The request's \<open>event_sink\<close> is a
  callback outside the message and has no field here.
\<close>

section \<open>Stream events\<close>

datatype executor_event_type =
    Event_TEXT | Event_THINKING | Event_TOOL_USE | Event_TOOL_RESULT | Event_STATUS |
    Event_ERROR | Event_LOG | Event_USAGE | Event_RESULT | Event_LIFECYCLE_HOOK |
    Event_SESSION_RUN_START | Event_SESSION_RUN_END | Event_SESSION_RUN_EVENT |
    Event_AGENT_RELATION_COMPLETED

fun executor_event_type_value :: "executor_event_type \<Rightarrow> string" where
  "executor_event_type_value Event_TEXT = ''text''"
| "executor_event_type_value Event_THINKING = ''thinking''"
| "executor_event_type_value Event_TOOL_USE = ''tool_use''"
| "executor_event_type_value Event_TOOL_RESULT = ''tool_result''"
| "executor_event_type_value Event_STATUS = ''status''"
| "executor_event_type_value Event_ERROR = ''error''"
| "executor_event_type_value Event_LOG = ''log''"
| "executor_event_type_value Event_USAGE = ''usage''"
| "executor_event_type_value Event_RESULT = ''result''"
| "executor_event_type_value Event_LIFECYCLE_HOOK = ''lifecycle_hook''"
| "executor_event_type_value Event_SESSION_RUN_START = ''session_run_start''"
| "executor_event_type_value Event_SESSION_RUN_END = ''session_run_end''"
| "executor_event_type_value Event_SESSION_RUN_EVENT = ''session_run_event''"
| "executor_event_type_value Event_AGENT_RELATION_COMPLETED = ''agent_relation_completed''"

lemma UNIV_executor_event_type: "(UNIV :: executor_event_type set) =
    {Event_TEXT, Event_THINKING, Event_TOOL_USE, Event_TOOL_RESULT, Event_STATUS, Event_ERROR,
     Event_LOG, Event_USAGE, Event_RESULT, Event_LIFECYCLE_HOOK, Event_SESSION_RUN_START,
     Event_SESSION_RUN_END, Event_SESSION_RUN_EVENT, Event_AGENT_RELATION_COMPLETED}"
  by (auto intro: executor_event_type.exhaust)

instantiation executor_event_type :: enum
begin

definition enum_executor_event_type :: "executor_event_type list" where
  "enum_executor_event_type =
    [Event_TEXT, Event_THINKING, Event_TOOL_USE, Event_TOOL_RESULT, Event_STATUS, Event_ERROR,
     Event_LOG, Event_USAGE, Event_RESULT, Event_LIFECYCLE_HOOK, Event_SESSION_RUN_START,
     Event_SESSION_RUN_END, Event_SESSION_RUN_EVENT, Event_AGENT_RELATION_COMPLETED]"

definition enum_all_executor_event_type :: "(executor_event_type \<Rightarrow> bool) \<Rightarrow> bool" where
  "enum_all_executor_event_type p = list_all p (enum_class.enum :: executor_event_type list)"

definition enum_ex_executor_event_type :: "(executor_event_type \<Rightarrow> bool) \<Rightarrow> bool" where
  "enum_ex_executor_event_type p = list_ex p (enum_class.enum :: executor_event_type list)"

instance
  by intro_classes
    (auto simp: enum_executor_event_type_def enum_all_executor_event_type_def enum_ex_executor_event_type_def UNIV_executor_event_type)

end

interpretation executor_event_type_enum: str_enum executor_event_type_value
  by (rule str_enum_distinct) code_simp

record executor_event =
  ev_type :: executor_event_type
  ev_text :: "string option"
  ev_data :: pyobj

definition coerce_event_type :: "string \<Rightarrow> executor_event_type result" where
  "coerce_event_type txt = enum_of executor_event_type_value (str_replace ''-'' ''_'' txt)"

definition text_event :: "string \<Rightarrow> executor_event" where
  "text_event txt = \<lparr>ev_type = Event_TEXT, ev_text = Some txt, ev_data = []\<rparr>"

definition status_event :: "string \<Rightarrow> pyobj \<Rightarrow> executor_event" where
  "status_event status data =
     \<lparr>ev_type = Event_STATUS, ev_text = None,
      ev_data = dict_update [(''status'', PStr status)] data\<rparr>"

definition error_event :: "string \<Rightarrow> pyobj \<Rightarrow> executor_event" where
  "error_event message data = \<lparr>ev_type = Event_ERROR, ev_text = Some message, ev_data = data\<rparr>"

definition usage_event :: "pyobj \<Rightarrow> executor_event" where
  "usage_event data = \<lparr>ev_type = Event_USAGE, ev_text = None, ev_data = data\<rparr>"

definition log_event :: "string \<Rightarrow> string \<Rightarrow> pyobj \<Rightarrow> executor_event" where
  "log_event message level data =
     \<lparr>ev_type = Event_LOG, ev_text = Some message,
      ev_data = dict_update [(''level'', PStr level)] data\<rparr>"

definition session_run_start :: "string \<Rightarrow> pyobj \<Rightarrow> executor_event" where
  "session_run_start prompt data =
     \<lparr>ev_type = Event_SESSION_RUN_START, ev_text = None,
      ev_data = dict_update [(''prompt'', PStr prompt)] data\<rparr>"

definition session_run_end :: "string \<Rightarrow> bool \<Rightarrow> pyobj \<Rightarrow> executor_event" where
  "session_run_end response response_rendered data =
     \<lparr>ev_type = Event_SESSION_RUN_END, ev_text = None,
      ev_data = dict_update [(''response'', PStr response),
                             (''response_rendered'', PBool response_rendered)] data\<rparr>"

definition session_run_event :: "string \<Rightarrow> pyobj \<Rightarrow> executor_event" where
  "session_run_event event_type payload =
     \<lparr>ev_type = Event_SESSION_RUN_EVENT, ev_text = None,
      ev_data = [(''event_type'', PStr event_type), (''payload'', PDict payload)]\<rparr>"

definition tool_use_event :: "string \<Rightarrow> string option \<Rightarrow> pyobj \<Rightarrow> pyobj \<Rightarrow> executor_event" where
  "tool_use_event tool_name tool_call_id tool_args data =
     \<lparr>ev_type = Event_TOOL_USE, ev_text = None,
      ev_data = dict_update [(''tool_name'', PStr tool_name),
                             (''tool_call_id'', PStr (opt_str tool_call_id)),
                             (''input'', PDict tool_args)] data\<rparr>"

definition tool_result_event ::
  "string \<Rightarrow> string \<Rightarrow> string option \<Rightarrow> pyobj \<Rightarrow> executor_event" where
  "tool_result_event tool_name output tool_call_id data =
     \<lparr>ev_type = Event_TOOL_RESULT, ev_text = None,
      ev_data = dict_update [(''tool_name'', PStr tool_name),
                             (''tool_call_id'', PStr (opt_str tool_call_id)),
                             (''output'', PStr output)] data\<rparr>"

definition executor_event_to_dict :: "executor_event \<Rightarrow> pyobj" where
  "executor_event_to_dict e =
     [(''type'', PStr (executor_event_type_value (ev_type e))),
      (''text'', opt_val (ev_text e)),
      (''data'', PDict (ev_data e))]"

text \<open>\<open>str(d[k]) if d.get(k) is not None else None\<close>.\<close>

definition opt_text :: "pyval \<Rightarrow> string option" where
  "opt_text v = (if v = PNone then None else Some (py_str v))"

definition executor_event_from_dict :: "pyobj \<Rightarrow> executor_event result" where
  "executor_event_from_dict data =
     res_bind (coerce_event_type (py_str (pget_or data ''type'' (PStr ''status'')))) (\<lambda>type.
       Inr \<lparr>ev_type = type, ev_text = opt_text (pget data ''text''),
            ev_data = dict_value (pget data ''data'')\<rparr>)"

section \<open>Run requests\<close>

record executor_run_request =
  rq_task_id :: string
  rq_agent_id :: string
  rq_executor :: executor_type
  rq_prompt :: string
  rq_execution_location :: execution_location
  rq_runtime_profile_id :: "string option"
  rq_worker_kind :: "worker_kind option"
  rq_model_request_origin :: "model_request_origin option"
  rq_worktree_role :: "worktree_role option"
  rq_publish_policy :: "publish_policy option"
  rq_workdir :: "string option"
  rq_branch :: "string option"
  rq_model :: "string option"
  rq_executor_session_id :: "string option"
  rq_budget :: pyobj
  rq_metadata :: pyobj

text \<open>\<open>x.value if x else None\<close> for an optional member.\<close>

definition member_val :: "('a \<Rightarrow> string) \<Rightarrow> 'a option \<Rightarrow> pyval" where
  "member_val val x = (case x of None \<Rightarrow> PNone | Some m \<Rightarrow> PStr (val m))"

lemma member_val_simps [simp]:
  "member_val val None = PNone" "member_val val (Some m) = PStr (val m)"
  by (simp_all add: member_val_def)

definition executor_run_request_to_dict :: "executor_run_request \<Rightarrow> pyobj" where
  "executor_run_request_to_dict r =
     [(''agent_run_id'', PStr (rq_task_id r)),
      (''agent_id'', PStr (rq_agent_id r)),
      (''executor'', PStr (executor_type_value (rq_executor r))),
      (''prompt'', PStr (rq_prompt r)),
      (''execution_location'', PStr (execution_location_value (rq_execution_location r))),
      (''runtime_profile_id'', opt_val (rq_runtime_profile_id r)),
      (''worker_kind'', member_val worker_kind_value (rq_worker_kind r)),
      (''model_request_origin'', member_val model_request_origin_value (rq_model_request_origin r)),
      (''worktree_role'', member_val worktree_role_value (rq_worktree_role r)),
      (''publish_policy'', member_val publish_policy_value (rq_publish_policy r)),
      (''workdir'', opt_val (rq_workdir r)),
      (''branch'', opt_val (rq_branch r)),
      (''model'', opt_val (rq_model r)),
      (''executor_session_id'', opt_val (rq_executor_session_id r)),
      (''budget'', PDict (rq_budget r)),
      (''metadata'', PDict (rq_metadata r))]"

text \<open>\<open>d[k]\<close>, with \<open>KeyError\<close> for a missing key.\<close>

definition pitem :: "pyobj \<Rightarrow> string \<Rightarrow> pyval result" where
  "pitem d k = (case dict_get d k of None \<Rightarrow> Inl (KeyError k) | Some v \<Rightarrow> Inr v)"

text \<open>A field that is a member's text or None, and that the constructor turns into the member.\<close>

definition text_member :: "('a::enum \<Rightarrow> string) \<Rightarrow> pyval \<Rightarrow> 'a option result" where
  "text_member val v =
     (if v = PNone then Inr None else res_bind (enum_of val (py_str v)) (\<lambda>m. Inr (Some m)))"

definition executor_run_request_from_dict :: "pyobj \<Rightarrow> executor_run_request result" where
  "executor_run_request_from_dict data =
     res_bind (pitem data ''agent_run_id'') (\<lambda>task_id.
     res_bind (pitem data ''agent_id'') (\<lambda>agent_id.
     res_bind (pitem data ''executor'') (\<lambda>raw_executor.
     res_bind (enum_of executor_type_value (py_str raw_executor)) (\<lambda>executor.
     res_bind (enum_of execution_location_value
         (py_str (pget_or data ''execution_location'' (PStr ''local_workspace'')))) (\<lambda>location.
     res_bind (text_member worker_kind_value (pget data ''worker_kind'')) (\<lambda>worker_kind.
     res_bind (text_member model_request_origin_value (pget data ''model_request_origin''))
       (\<lambda>origin.
     res_bind (optional_worktree_role (pget data ''worktree_role'')) (\<lambda>role.
     res_bind (optional_publish_policy (pget data ''publish_policy'')) (\<lambda>policy.
       Inr \<lparr>rq_task_id = py_str task_id, rq_agent_id = py_str agent_id, rq_executor = executor,
            rq_prompt = str_or_empty (pget_or data ''prompt'' (PStr [])),
            rq_execution_location = location,
            rq_runtime_profile_id = opt_text (pget data ''runtime_profile_id''),
            rq_worker_kind = worker_kind, rq_model_request_origin = origin,
            rq_worktree_role = role, rq_publish_policy = policy,
            rq_workdir = opt_text (pget data ''workdir''),
            rq_branch = opt_text (pget data ''branch''),
            rq_model = opt_text (pget data ''model''),
            rq_executor_session_id = opt_text (pget data ''executor_session_id''),
            rq_budget = dict_value (pget data ''budget''),
            rq_metadata = dict_value (pget data ''metadata'')\<rparr>)))))))))"

section \<open>Run results\<close>

record executor_run_result =
  rr_task_id :: string
  rr_status :: string
  rr_output :: string
  rr_executor_session_id :: "string option"
  rr_events :: "executor_event list"
  rr_usage :: pyobj
  rr_artifacts :: "pyobj list"
  rr_error :: "string option"

definition run_succeeded :: "executor_run_result \<Rightarrow> bool" where
  "run_succeeded r \<longleftrightarrow> rr_status r = ''completed'' \<and> rr_error r = None"

definition executor_run_result_to_dict :: "executor_run_result \<Rightarrow> pyobj" where
  "executor_run_result_to_dict r =
     [(''agent_run_id'', PStr (rr_task_id r)),
      (''status'', PStr (rr_status r)),
      (''output'', PStr (rr_output r)),
      (''executor_session_id'', opt_val (rr_executor_session_id r)),
      (''events'', PList (map (\<lambda>e. PDict (executor_event_to_dict e)) (rr_events r))),
      (''usage'', PDict (rr_usage r)),
      (''error'', opt_val (rr_error r))]"

text \<open>Iterating over a value: a list gives its items, a text or a dictionary gives texts, anything
  else is a \<open>TypeError\<close>. Only the dictionaries among the items are used.\<close>

definition iter_dicts :: "pyval \<Rightarrow> pyobj list result" where
  "iter_dicts v =
     (case v of
        PList _ \<Rightarrow> Inr (dict_list v)
      | PStr _ \<Rightarrow> Inr []
      | PDict _ \<Rightarrow> Inr []
      | _ \<Rightarrow> Inl (TypeError ''object is not iterable''))"

definition executor_run_result_from_dict :: "pyobj \<Rightarrow> executor_run_result result" where
  "executor_run_result_from_dict data =
     res_bind (pitem data ''agent_run_id'') (\<lambda>task_id.
     res_bind (iter_dicts (pget_or data ''events'' (PList []))) (\<lambda>raw_events.
     res_bind (res_map executor_event_from_dict raw_events) (\<lambda>events.
     res_bind (iter_dicts (pget_or data ''artifacts'' (PList []))) (\<lambda>artifacts.
       Inr \<lparr>rr_task_id = py_str task_id,
            rr_status = py_str (pget_or data ''status'' (PStr [])),
            rr_output = str_or_empty (pget_or data ''output'' (PStr [])),
            rr_executor_session_id = opt_text (pget data ''executor_session_id''),
            rr_events = events,
            rr_usage = dict_value (pget_or data ''usage'' (PDict [])),
            rr_artifacts = artifacts,
            rr_error = opt_text (pget data ''error'')\<rparr>))))"

section \<open>Round trips\<close>

lemma opt_text_opt_val [simp]: "opt_text (opt_val x) = x"
  by (cases x) (simp_all add: opt_text_def)

lemma text_member_val:
  assumes "str_enum val"
  shows "text_member val (member_val val m) = Inr m"
  using str_enum.of_val[OF assms] by (cases m) (simp_all add: text_member_def)

lemma optional_member_val:
  assumes "str_enum val" and "\<And>x. str_strip (val x) \<noteq> []"
  shows "optional_member val (member_val val m) = Inr m"
  using assms(2) str_enum.of_val[OF assms(1)] by (cases m) (simp_all add: optional_member_def)

lemma worktree_role_nonblank: "str_strip (worktree_role_value x) \<noteq> []"
  by (cases x) (simp_all add: string_eval)

lemma publish_policy_nonblank: "str_strip (publish_policy_value x) \<noteq> []"
  by (cases x) (simp_all add: string_eval)

lemmas member_roundtrips =
  text_member_val[OF worker_kind_enum.str_enum_axioms]
  text_member_val[OF model_request_origin_enum.str_enum_axioms]
  optional_member_val[OF worktree_role_enum.str_enum_axioms worktree_role_nonblank,
    folded optional_worktree_role_def]
  optional_member_val[OF publish_policy_enum.str_enum_axioms publish_policy_nonblank,
    folded optional_publish_policy_def]

lemma request_roundtrip_lemma:
  "executor_run_request_from_dict (executor_run_request_to_dict r) = Inr r"
  by (simp add: executor_run_request_from_dict_def executor_run_request_to_dict_def pitem_def
      pget_def pget_or_def member_roundtrips executor_type_enum.of_val
      execution_location_enum.of_val)

lemma str_replace_id: "c \<notin> set s \<Longrightarrow> str_replace [c] new s = s"
  by (induction s) (auto simp: startswith_def)

lemma coerce_event_type_value: "coerce_event_type (executor_event_type_value t) = Inr t"
proof -
  have "CHR ''-'' \<notin> set (executor_event_type_value t)" by (cases t) simp_all
  then show ?thesis
    by (simp add: coerce_event_type_def str_replace_id executor_event_type_enum.of_val)
qed

lemma event_roundtrip_lemma: "executor_event_from_dict (executor_event_to_dict e) = Inr e"
  by (simp add: executor_event_from_dict_def executor_event_to_dict_def pget_def pget_or_def
      coerce_event_type_value)

lemma dict_list_PDicts: "dict_list (PList (map (\<lambda>e. PDict (f e)) es)) = map f es"
  by (induction es) (simp_all add: dict_list_def)

lemma res_map_inverse: "(\<And>x. g (f x) = Inr x) \<Longrightarrow> res_map g (map f xs) = Inr xs"
  by (induction xs) simp_all

lemma result_roundtrip_lemma:
  "executor_run_result_from_dict (executor_run_result_to_dict r) = Inr (r\<lparr>rr_artifacts := []\<rparr>)"
  by (simp add: executor_run_result_from_dict_def executor_run_result_to_dict_def pitem_def
      pget_def pget_or_def iter_dicts_def dict_list_PDicts res_map_inverse event_roundtrip_lemma
      dict_list_def[of "PList []"])

section \<open>Properties\<close>

text \<open>A run request that is sent to an executor as a dictionary arrives unchanged.\<close>

theorem executor_request_roundtrip:
  "executor_run_request_from_dict (executor_run_request_to_dict r) = Inr r"
  by (rule request_roundtrip_lemma)

text \<open>A run result that is sent as a dictionary arrives with its events, but without its
  artifacts.\<close>

theorem executor_result_roundtrip:
  "executor_run_result_from_dict (executor_run_result_to_dict r) = Inr (r\<lparr>rr_artifacts := []\<rparr>)"
  by (rule result_roundtrip_lemma)

end
