(* ===== verification/Scheduling.thy ===== *)
theory Scheduling
  imports RuntimePolicy
begin

text \<open>
  Three small services of \<open>src/labrastro_server/services/agent_runtime/\<close>: the choice of an agent for
  a taskflow run (\<open>scheduler.py\<close>), the lifecycle of a task and its artifacts (\<open>lifecycle.py\<close>), and
  the MCP and capability allowlists (\<open>policy.py\<close>).
\<close>

section \<open>Scheduler\<close>

record schedule_decision =
  sd_agent_id :: string
  sd_reason :: string

record agent_scheduler =
  sch_agents :: "(string, agent_config) pydict"
  sch_default_agent_id :: "string option"
  sch_running_tasks :: "agent_run list"

definition running_count :: "agent_scheduler \<Rightarrow> string \<Rightarrow> int" where
  "running_count sch agent_id =
     int (length (filter (\<lambda>task. ar_agent_id task = agent_id \<and>
       ar_status task \<in> {Run_DISPATCHED, Run_RUNNING, Run_WAITING}) (sch_running_tasks sch)))"

definition schedule_rank :: "agent_scheduler \<Rightarrow> agent_config \<Rightarrow> int \<times> int \<times> string" where
  "schedule_rank sch agent =
     (running_count sch (ag_id agent),
      (case ag_max_concurrent_tasks agent of None \<Rightarrow> 999999
       | Some n \<Rightarrow> if n = 0 then 999999 else n),
      ag_id agent)"

definition schedule_candidates :: "agent_scheduler \<Rightarrow> agent_config list" where
  "schedule_candidates sch = filter can_run_taskflow (dict_values (sch_agents sch))"

definition choose_agent :: "agent_scheduler \<Rightarrow> schedule_decision result" where
  "choose_agent sch =
     (let candidates = schedule_candidates sch;
          default_agent = (case sch_default_agent_id sch of None \<Rightarrow> None
                           | Some k \<Rightarrow> dict_get (sch_agents sch) k)
      in if candidates = [] \<and>
            (case default_agent of None \<Rightarrow> False | Some a \<Rightarrow> can_run_taskflow a)
         then Inr \<lparr>sd_agent_id = opt_str (sch_default_agent_id sch), sd_reason = ''default_agent''\<rparr>
         else case sort_key (schedule_rank sch) candidates of
           [] \<Rightarrow> Inl (ValueError ''no taskflow-eligible agent is configured'')
         | selected # _ \<Rightarrow>
             (case ag_max_concurrent_tasks selected of
                None \<Rightarrow> Inr \<lparr>sd_agent_id = ag_id selected, sd_reason = ''lowest_running_count''\<rparr>
              | Some limit \<Rightarrow>
                  if running_count sch (ag_id selected) \<ge> limit
                  then Inl (RuntimeError (''agent concurrency limit reached: '' @ ag_id selected))
                  else Inr \<lparr>sd_agent_id = ag_id selected, sd_reason = ''lowest_running_count''\<rparr>))"

lemma default_is_candidate:
  "dict_get (sch_agents sch) k = Some a \<Longrightarrow> can_run_taskflow a \<Longrightarrow> a \<in> set (schedule_candidates sch)"
  by (force simp: schedule_candidates_def dict_values_def dest: dict_get_in_set)

lemma sort_head:
  assumes "sort_key f xs = y # ys"
  shows "y \<in> set xs" and "x \<in> set xs \<Longrightarrow> f y \<le> f x"
  using assms sort_key_stable_first[OF assms, of x] set_sort[of f xs] by auto

lemma choose_agent_InrD:
  assumes "choose_agent sch = Inr d"
  obtains a where "a \<in> set (schedule_candidates sch)" and "sd_agent_id d = ag_id a"
    and "sd_reason d = ''lowest_running_count''"
    and "\<And>b. b \<in> set (schedule_candidates sch) \<Longrightarrow> schedule_rank sch a \<le> schedule_rank sch b"
    and "\<And>limit. ag_max_concurrent_tasks a = Some limit \<Longrightarrow> running_count sch (ag_id a) < limit"
proof -
  have no_default: "\<not> (schedule_candidates sch = [] \<and>
      (case (case sch_default_agent_id sch of None \<Rightarrow> None | Some k \<Rightarrow> dict_get (sch_agents sch) k)
       of None \<Rightarrow> False | Some a \<Rightarrow> can_run_taskflow a))"
    by (auto dest: default_is_candidate split: option.splits)
  show thesis
  proof (cases "sort_key (schedule_rank sch) (schedule_candidates sch)")
    case Nil
    then show thesis using assms no_default by (simp add: choose_agent_def Let_def)
  next
    case (Cons a as)
    have "sd_agent_id d = ag_id a \<and> sd_reason d = ''lowest_running_count'' \<and>
        (\<forall>limit. ag_max_concurrent_tasks a = Some limit \<longrightarrow> running_count sch (ag_id a) < limit)"
      using assms no_default Cons
      by (auto simp: choose_agent_def Let_def split: option.splits if_splits)
    with sort_head[OF Cons] show thesis by (intro that) auto
  qed
qed

lemma choose_agent_no_candidate:
  "schedule_candidates sch = [] \<longleftrightarrow>
   choose_agent sch = Inl (ValueError ''no taskflow-eligible agent is configured'')"
proof -
  have "schedule_candidates sch = [] \<Longrightarrow>
      \<not> (case (case sch_default_agent_id sch of None \<Rightarrow> None | Some k \<Rightarrow> dict_get (sch_agents sch) k)
         of None \<Rightarrow> False | Some a \<Rightarrow> can_run_taskflow a)"
    by (auto dest: default_is_candidate split: option.splits)
  then show ?thesis
    by (cases "sort_key (schedule_rank sch) (schedule_candidates sch)")
      (auto simp: choose_agent_def Let_def split: option.splits dest: arg_cong[where f = set])
qed

section \<open>Task and artifact lifecycle\<close>

datatype issue_status = Issue_OPEN | Issue_IN_REVIEW | Issue_DONE | Issue_BLOCKED

record task_lifecycle =
  tl_task :: agent_run
  tl_artifacts :: "(string, task_artifact) pydict"
  tl_issue_status :: issue_status

text \<open>\<open>AgentRun(id=..., agent_id=..., trigger_mode=ISSUE_TASK, status=QUEUED)\<close>: every other field
  has its default.\<close>

definition new_issue_run :: "string \<Rightarrow> string \<Rightarrow> agent_run" where
  "new_issue_run task_id agent_id =
     \<lparr>ar_id = task_id, ar_agent_id = agent_id, ar_kind = ''agent_run'',
      ar_owner_session_run_id = [], ar_source = Source_MANUAL, ar_trigger_mode = Trigger_ISSUE_TASK,
      ar_status = Run_QUEUED,
      ar_mainline_state = agent_run_mainline_state_for_status (Some Run_QUEUED) None,
      ar_activation_state = agent_run_activation_state_for_status (Some Run_QUEUED) None,
      ar_waiting_reason = None, ar_resume_policy = None, ar_runtime_profile_id = None,
      ar_executor = None, ar_execution_location = None, ar_worktree_role = None,
      ar_publish_policy = None, ar_workdir = None, ar_workspace_ref = None,
      ar_executor_session_id = None, ar_current_activation_id = None, ar_sandbox_id = None,
      ar_sandbox_session_id = None, ar_retention_scope = ''session'',
      ar_cleanup_policy = ''delete_with_owner_session'', ar_terminal_result = [],
      ar_failure_reason = None, ar_cancel_reason = None, ar_metadata = []\<rparr>"

definition task_lifecycle_create :: "string \<Rightarrow> string \<Rightarrow> task_lifecycle" where
  "task_lifecycle_create task_id agent_id =
     \<lparr>tl_task = new_issue_run task_id agent_id, tl_artifacts = [], tl_issue_status = Issue_OPEN\<rparr>"

definition attach_artifact ::
  "string \<Rightarrow> string \<Rightarrow> string \<Rightarrow> string option \<Rightarrow> string option \<Rightarrow> string option \<Rightarrow> string option \<Rightarrow>
   pyobj \<Rightarrow> task_lifecycle \<Rightarrow> (task_artifact \<times> task_lifecycle) result" where
  "attach_artifact artifact_id type_text status_text branch_name pr_url content path metadata st =
     res_bind (enum_of artifact_type_value type_text) (\<lambda>type.
     res_bind (enum_of artifact_status_value status_text) (\<lambda>status.
     let artifact = task_artifact_post_init
           \<lparr>tk_id = artifact_id, tk_task_id = ar_id (tl_task st), tk_type = type,
            tk_status = status, tk_branch_name = branch_name, tk_pr_url = pr_url,
            tk_content = content, tk_path = path, tk_metadata = metadata,
            tk_merge_status = None, tk_merged_by = None\<rparr>
     in Inr (artifact, st\<lparr>tl_artifacts := dict_set artifact_id artifact (tl_artifacts st)\<rparr>)))"

definition unmerged_pull_request :: "task_artifact \<Rightarrow> bool" where
  "unmerged_pull_request a \<longleftrightarrow>
     tk_type a = Artifact_PULL_REQUEST \<and> tk_status a \<notin> {AStatus_MERGED, AStatus_CLOSED}"

definition has_unmerged_pull_request :: "task_lifecycle \<Rightarrow> bool" where
  "has_unmerged_pull_request st = list_ex unmerged_pull_request (dict_values (tl_artifacts st))"

definition primary_pull_request_artifact :: "task_lifecycle \<Rightarrow> task_artifact option" where
  "primary_pull_request_artifact st =
     List.find (\<lambda>a. tk_type a = Artifact_PULL_REQUEST) (dict_values (tl_artifacts st))"

definition complete_task_lifecycle :: "string \<Rightarrow> task_lifecycle \<Rightarrow> task_lifecycle" where
  "complete_task_lifecycle output st =
     (let task = tl_task st
      in st\<lparr>tl_task := task\<lparr>ar_status := Run_COMPLETED,
              ar_mainline_state :=
                agent_run_mainline_state_for_status (Some Run_COMPLETED) (ar_waiting_reason task),
              ar_activation_state :=
                agent_run_activation_state_for_status (Some Run_COMPLETED) (ar_waiting_reason task),
              ar_terminal_result := [(''output'', PStr output)]\<rparr>,
            tl_issue_status := (if has_unmerged_pull_request st then Issue_IN_REVIEW
                                else Issue_DONE)\<rparr>)"

definition mark_artifact_merged :: "string \<Rightarrow> string \<Rightarrow> task_lifecycle \<Rightarrow> task_lifecycle result" where
  "mark_artifact_merged artifact_id actor_user_id st =
     (case dict_get (tl_artifacts st) artifact_id of
        None \<Rightarrow> Inl (KeyError artifact_id)
      | Some artifact \<Rightarrow>
          (let st = st\<lparr>tl_artifacts := dict_set artifact_id
                         (artifact\<lparr>tk_status := AStatus_MERGED,
                                   tk_merge_status := Some Merge_MERGED_BY_USER,
                                   tk_merged_by := Some actor_user_id\<rparr>) (tl_artifacts st)\<rparr>
           in Inr (if \<not> has_unmerged_pull_request st then st\<lparr>tl_issue_status := Issue_DONE\<rparr> else st)))"

definition create_followup_task_from_comment :: "string \<Rightarrow> string \<Rightarrow> task_lifecycle \<Rightarrow> agent_run" where
  "create_followup_task_from_comment comment_id agent_id st =
     new_issue_run (ar_id (tl_task st) @ '':'' @ comment_id) agent_id"

text \<open>Marking several artifacts, one call after the other.\<close>

fun mark_all_merged :: "string list \<Rightarrow> string \<Rightarrow> task_lifecycle \<Rightarrow> task_lifecycle result" where
  "mark_all_merged [] actor st = Inr st"
| "mark_all_merged (k # ks) actor st =
     res_bind (mark_artifact_merged k actor st) (mark_all_merged ks actor)"

lemma has_unmerged_iff:
  "dict_wf (tl_artifacts st) \<Longrightarrow>
   has_unmerged_pull_request st \<longleftrightarrow>
     (\<exists>k a. dict_get (tl_artifacts st) k = Some a \<and> unmerged_pull_request a)"
  by (force simp: has_unmerged_pull_request_def list_ex_iff dict_values_def
      dest: dict_wf_get dict_get_in_set)

text \<open>Between the completion of the task and the last merge the issue is in review exactly while a
  pull request is open.\<close>

definition review_state :: "task_lifecycle \<Rightarrow> bool" where
  "review_state st \<longleftrightarrow> dict_wf (tl_artifacts st) \<and>
     tl_issue_status st = (if has_unmerged_pull_request st then Issue_IN_REVIEW else Issue_DONE)"

lemma review_state_complete:
  "dict_wf (tl_artifacts st) \<Longrightarrow> review_state (complete_task_lifecycle output st)"
  by (simp add: review_state_def complete_task_lifecycle_def Let_def has_unmerged_pull_request_def)

lemma unmerged_merged_artifact [simp]:
  "\<not> unmerged_pull_request
     (a\<lparr>tk_status := AStatus_MERGED, tk_merge_status := m, tk_merged_by := b\<rparr>)"
  by (simp add: unmerged_pull_request_def)

lemma mark_artifact_mergedE:
  assumes "mark_artifact_merged k actor st = Inr st'"
  obtains a b where "dict_get (tl_artifacts st) k = Some a"
    and "tl_artifacts st' = dict_set k b (tl_artifacts st)" and "\<not> unmerged_pull_request b"
    and "tl_issue_status st' =
         (if has_unmerged_pull_request st' then tl_issue_status st else Issue_DONE)"
proof -
  obtain a where a: "dict_get (tl_artifacts st) k = Some a"
    using assms by (auto simp: mark_artifact_merged_def split: option.splits)
  have "tl_artifacts st' = dict_set k (a\<lparr>tk_status := AStatus_MERGED,
            tk_merge_status := Some Merge_MERGED_BY_USER, tk_merged_by := Some actor\<rparr>)
          (tl_artifacts st)"
    using assms a by (auto simp: mark_artifact_merged_def Let_def split: if_splits)
  moreover have "tl_issue_status st' =
         (if has_unmerged_pull_request st' then tl_issue_status st else Issue_DONE)"
    using assms a
    by (auto simp: mark_artifact_merged_def Let_def has_unmerged_pull_request_def split: if_splits)
  ultimately show thesis using that[OF a] unmerged_merged_artifact by blast
qed

lemma mark_artifact_merged_step:
  assumes "dict_wf (tl_artifacts st)"
    and "mark_artifact_merged k actor st = Inr st'"
  shows "dict_wf (tl_artifacts st')"
    and "(\<exists>a. dict_get (tl_artifacts st') j = Some a \<and> unmerged_pull_request a) \<longleftrightarrow>
         j \<noteq> k \<and> (\<exists>a. dict_get (tl_artifacts st) j = Some a \<and> unmerged_pull_request a)"
    and "tl_issue_status st' =
         (if has_unmerged_pull_request st' then tl_issue_status st else Issue_DONE)"
proof -
  obtain a b where a: "dict_get (tl_artifacts st) k = Some a"
    and st': "tl_artifacts st' = dict_set k b (tl_artifacts st)" and b: "\<not> unmerged_pull_request b"
    and iss: "tl_issue_status st' =
         (if has_unmerged_pull_request st' then tl_issue_status st else Issue_DONE)"
    using assms(2) by (rule mark_artifact_mergedE)
  show "dict_wf (tl_artifacts st')" using assms(1) by (simp add: st')
  show "(\<exists>a. dict_get (tl_artifacts st') j = Some a \<and> unmerged_pull_request a) \<longleftrightarrow>
         j \<noteq> k \<and> (\<exists>a. dict_get (tl_artifacts st) j = Some a \<and> unmerged_pull_request a)"
    using b by (simp add: st')
  show "tl_issue_status st' =
         (if has_unmerged_pull_request st' then tl_issue_status st else Issue_DONE)" by (rule iss)
qed

lemma review_state_mark:
  assumes "review_state st" and "mark_artifact_merged k actor st = Inr st'"
  shows "review_state st'"
proof -
  have wf: "dict_wf (tl_artifacts st)" using assms(1) by (simp add: review_state_def)
  note step = mark_artifact_merged_step[OF wf assms(2)]
  have "has_unmerged_pull_request st' \<Longrightarrow> has_unmerged_pull_request st"
    using step(2) by (auto simp: has_unmerged_iff wf step(1))
  with step(1,3) assms(1) show ?thesis by (auto simp: review_state_def)
qed

lemma mark_all_merged_review:
  assumes "review_state st" and "mark_all_merged ks actor st = Inr st'"
  shows "review_state st' \<and> (has_unmerged_pull_request st' \<longleftrightarrow>
     (\<exists>k a. k \<notin> set ks \<and> dict_get (tl_artifacts st) k = Some a \<and> unmerged_pull_request a))"
  using assms
proof (induction ks arbitrary: st)
  case Nil
  then show ?case by (auto simp: review_state_def has_unmerged_iff)
next
  case (Cons k ks)
  then obtain s1 where s1: "mark_artifact_merged k actor st = Inr s1"
    and rest: "mark_all_merged ks actor s1 = Inr st'"
    by (auto simp: res_bind_Inr_iff)
  have wf: "dict_wf (tl_artifacts st)" using Cons.prems(1) by (simp add: review_state_def)
  note step = mark_artifact_merged_step(2)[OF wf s1]
  from Cons.IH[OF review_state_mark[OF Cons.prems(1) s1] rest]
  show ?case using step by (auto 0 3)
qed

lemma mark_artifact_merged_keys:
  assumes "mark_artifact_merged k actor st = Inr st'"
  shows "set (dict_keys (tl_artifacts st')) = insert k (set (dict_keys (tl_artifacts st)))"
  using mark_artifact_mergedE[OF assms] by (metis dict_set_keys)

lemma mark_all_merged_ok:
  "set ks \<subseteq> set (dict_keys (tl_artifacts st)) \<Longrightarrow> \<exists>st'. mark_all_merged ks actor st = Inr st'"
proof (induction ks arbitrary: st)
  case Nil
  then show ?case by simp
next
  case (Cons k ks)
  then have "dict_get (tl_artifacts st) k \<noteq> None" by (simp add: dict_keys_set dict_has_iff)
  then obtain s1 where s1: "mark_artifact_merged k actor st = Inr s1"
    by (auto simp: mark_artifact_merged_def Let_def)
  with Cons.prems Cons.IH[of s1] mark_artifact_merged_keys[OF s1] show ?case by auto
qed

section \<open>Allowlists\<close>

definition server_names :: "pyval \<Rightarrow> string list" where
  "server_names value =
     (case value of
        PDict d \<Rightarrow>
          (case pget_or d ''servers'' (PDict []) of
             PDict servers \<Rightarrow> dict_keys servers
           | PList names \<Rightarrow> map py_str names
           | _ \<Rightarrow> [])
      | PList names \<Rightarrow> map py_str names
      | _ \<Rightarrow> [])"

definition render_for_agent ::
  "(string, pyobj) pydict \<Rightarrow> string list \<Rightarrow> pyval \<Rightarrow> (string, pyobj) pydict" where
  "render_for_agent platform_servers allowed_servers agent_mcp =
     fold (\<lambda>server effective.
         if server \<notin> set allowed_servers then effective
         else case dict_get platform_servers server of
             None \<Rightarrow> effective
           | Some cfg \<Rightarrow> dict_set server cfg effective)
       (server_names (py_or agent_mcp (PDict []))) []"

definition capability_allows :: "string list \<Rightarrow> string list \<Rightarrow> string \<Rightarrow> bool" where
  "capability_allows available granted package_id \<longleftrightarrow>
     package_id \<in> set available \<and> package_id \<in> set granted"

definition capability_explain_denial :: "string list \<Rightarrow> string list \<Rightarrow> string \<Rightarrow> string" where
  "capability_explain_denial available granted package_id =
     (if package_id \<notin> set available then ''capability package not available on platform''
      else if package_id \<notin> set granted then ''capability package not granted to agent''
      else ''capability package allowed'')"

lemma render_fold:
  "dict_get (fold (\<lambda>server effective.
         if server \<notin> set allowed then effective
         else case dict_get platform server of
             None \<Rightarrow> effective
           | Some cfg \<Rightarrow> dict_set server cfg effective) names acc) k =
   (if k \<in> set names \<and> k \<in> set allowed \<and> dict_get platform k \<noteq> None
    then dict_get platform k else dict_get acc k)"
  by (induction names arbitrary: acc) (auto split: option.splits)

lemma render_get:
  "dict_get (render_for_agent platform allowed mcp) k =
   (if k \<in> set (server_names (py_or mcp (PDict []))) \<and> k \<in> set allowed
    then dict_get platform k else None)"
  by (auto simp: render_for_agent_def render_fold)

section \<open>Properties\<close>

text \<open>The scheduler picks a taskflow-eligible agent that no other eligible agent precedes in the
  order of running tasks, configured limit and identifier, and that is below its own limit; the
  branch for the default agent is never taken.\<close>

theorem choose_agent_best:
  assumes "choose_agent sch = Inr d"
  shows "sd_reason d = ''lowest_running_count'' \<and>
    (\<exists>a \<in> set (schedule_candidates sch). sd_agent_id d = ag_id a \<and> can_run_taskflow a \<and>
      (\<forall>b \<in> set (schedule_candidates sch). schedule_rank sch a \<le> schedule_rank sch b) \<and>
      (\<forall>limit. ag_max_concurrent_tasks a = Some limit \<longrightarrow> running_count sch (ag_id a) < limit))"
proof -
  obtain a where "a \<in> set (schedule_candidates sch)" "sd_agent_id d = ag_id a"
    "sd_reason d = ''lowest_running_count''"
    "\<And>b. b \<in> set (schedule_candidates sch) \<Longrightarrow> schedule_rank sch a \<le> schedule_rank sch b"
    "\<And>limit. ag_max_concurrent_tasks a = Some limit \<Longrightarrow> running_count sch (ag_id a) < limit"
    using choose_agent_InrD[OF assms] by metis
  moreover from this(1) have "can_run_taskflow a" by (simp add: schedule_candidates_def)
  ultimately show ?thesis by blast
qed

definition demo_scheduler :: agent_scheduler where
  "demo_scheduler =
     (case agent_config_load ''a1'' (PDict [(''taskflow_eligible'', PBool True)]) of
        Inr c \<Rightarrow> \<lparr>sch_agents = [(''a1'', c)], sch_default_agent_id = Some ''a1'', sch_running_tasks = []\<rparr>)"

lemma choose_agent_best_witness:
  "sd_reason \<lparr>sd_agent_id = ''a1'', sd_reason = ''lowest_running_count''\<rparr> = ''lowest_running_count''"
proof -
  have "choose_agent demo_scheduler =
      Inr \<lparr>sd_agent_id = ''a1'', sd_reason = ''lowest_running_count''\<rparr>"
    by code_simp
  from choose_agent_best[OF this] show ?thesis by blast
qed

text \<open>After a task has completed, marking artifacts as merged closes the issue exactly when all
  its open pull requests are among them; until then it stays in review.\<close>

theorem merges_close_issue:
  assumes "dict_wf (tl_artifacts st)"
    and "mark_all_merged ks actor (complete_task_lifecycle output st) = Inr st'"
  shows "tl_issue_status st' =
    (if \<exists>k a. k \<notin> set ks \<and> dict_get (tl_artifacts st) k = Some a \<and> unmerged_pull_request a
     then Issue_IN_REVIEW else Issue_DONE)"
  using mark_all_merged_review[OF review_state_complete[OF assms(1)] assms(2)]
  by (simp add: review_state_def complete_task_lifecycle_def Let_def)

definition demo_lifecycle :: task_lifecycle where
  "demo_lifecycle =
     (case attach_artifact ''pr1'' ''pull_request'' ''generated'' None None None None []
        (task_lifecycle_create ''t1'' ''a1'') of Inr (_, st) \<Rightarrow> st)"

lemma merges_close_issue_witness:
  "tl_issue_status (complete_task_lifecycle ''ok'' demo_lifecycle) = Issue_IN_REVIEW \<and>
   tl_issue_status (projr (mark_all_merged [''pr1''] ''u''
     (complete_task_lifecycle ''ok'' demo_lifecycle))) = Issue_DONE"
proof -
  have wf: "dict_wf (tl_artifacts demo_lifecycle)" by code_simp
  have pr: "\<exists>a. tl_artifacts demo_lifecycle = [(''pr1'', a)] \<and> unmerged_pull_request a"
  proof (intro exI conjI)
    show "tl_artifacts demo_lifecycle = [(''pr1'', snd (hd (tl_artifacts demo_lifecycle)))]"
      by code_simp
    show "unmerged_pull_request (snd (hd (tl_artifacts demo_lifecycle)))" by code_simp
  qed
  obtain st' where "mark_all_merged [''pr1''] ''u''
      (complete_task_lifecycle ''ok'' demo_lifecycle) = Inr st'"
    using mark_all_merged_ok[of "[''pr1'']" "complete_task_lifecycle ''ok'' demo_lifecycle" "''u''"] pr
    by (auto simp: complete_task_lifecycle_def Let_def)
  with merges_close_issue[OF wf this] merges_close_issue[OF wf, of "[]" "''u''" "''ok''"] pr
  show ?thesis by auto
qed

text \<open>An instance of the exact matching rule of workers, for a run on a server.\<close>

lemma worker_match_exact_witness:
  "worker_matches_agent_run (new_issue_run ''t1'' ''a1'') None (Some [''agent_runs.remote_server'']) None
     = Inr True"
proof -
  have e: "expected_worker_kind (new_issue_run ''t1'' ''a1'') = Inr Worker_SERVER_WORKER"
    "worker_kind_from_features (Some [''agent_runs.remote_server''])
       (run_location (new_issue_run ''t1'' ''a1'')) = Some Worker_SERVER_WORKER"
    "run_location (new_issue_run ''t1'' ''a1'') = Loc_REMOTE_SERVER"
    by code_simp+
  show ?thesis unfolding worker_match_exact[OF e(1)] using e by simp
qed

end
