(* ===== verification/RunFunctions.thy ===== *)
theory RunFunctions
  imports ExecutorMessages Scheduling
begin

text \<open>
  The pure functions at the head of
  \<open>src/labrastro_server/services/agent_runtime/control_plane.py\<close>: steer payloads, executor session
  names, the state changes of a run, activation identifiers, the dictionary views put into events,
  binding identifiers and the feedback of an agent call.

  \<open>uuid4\<close> values and the current time are arguments. \<open>datetime.fromisoformat\<close> is an argument
  that yields the instant of a timestamp and whether it carries a timezone.
\<close>

section \<open>Steers\<close>

definition steer_item_types :: "string list" where
  "steer_item_types = [''text'', ''image_ref'', ''file_ref'', ''artifact_ref'', ''session_item_ref'']"

definition canonical_json :: "pyval \<Rightarrow> string" where
  "canonical_json value = json_dumps value"

definition validate_steer_item :: "pyval \<Rightarrow> unit result" where
  "validate_steer_item item =
     (case item of
        PDict d \<Rightarrow>
          if str_strip (str_or_empty (pget d ''type'')) \<notin> set steer_item_types
          then Inl (ValueError ''unsupported activation steer item type'') else Inr ()
      | _ \<Rightarrow> Inl (ValueError ''activation steer item must be an object''))"

definition validate_activation_steer_payload :: "pyval \<Rightarrow> unit result" where
  "validate_activation_steer_payload payload =
     (case payload of
        PDict d \<Rightarrow>
          (case pget d ''items'' of
             PList items \<Rightarrow>
               if items = [] then
                 Inl (ValueError ''activation steer payload requires non-empty items'')
               else res_each validate_steer_item items
           | _ \<Rightarrow> Inl (ValueError ''activation steer payload requires non-empty items''))
      | _ \<Rightarrow> Inl (ValueError ''activation steer payload must be an object''))"

definition normalize_activation_steer_metadata ::
  "pyobj \<Rightarrow> activation_steer_source \<Rightarrow> string \<Rightarrow> pyobj result" where
  "normalize_activation_steer_metadata metadata source fallback_key =
     (let idempotency_key = str_strip (py_str
            (py_or (py_or (pget metadata ''idempotency_key'') (pget metadata ''client_steer_id''))
               (PStr fallback_key)))
      in if idempotency_key = [] then
           Inl (ValueError ''activation steer idempotency_key is required'')
         else
           (let value = dict_set ''idempotency_key'' (PStr idempotency_key) metadata;
                value = dict_setdefault ''sender'' (PStr (activation_steer_source_value source)) value;
                sender = str_strip (py_str (py_or (pget value ''sender'')
                            (PStr (activation_steer_source_value source))))
            in Inr (dict_set ''sender''
                 (PStr (if sender = [] then activation_steer_source_value source else sender))
                 value)))"

definition activation_steer_idempotency_scope :: "pyobj \<Rightarrow> string \<times> string" where
  "activation_steer_idempotency_scope metadata =
     (str_strip (str_or_empty (pget metadata ''sender'')),
      str_strip (str_or_empty (pget metadata ''idempotency_key'')))"

lemma steer_payload_ok_iff:
  "validate_activation_steer_payload payload = Inr () \<longleftrightarrow>
   (\<exists>d items. payload = PDict d \<and> pget d ''items'' = PList items \<and> items \<noteq> [] \<and>
     (\<forall>item \<in> set items. \<exists>e. item = PDict e \<and>
        str_strip (str_or_empty (pget e ''type'')) \<in> set steer_item_types))"
proof -
  have item: "is_ok (validate_steer_item x) \<longleftrightarrow> (\<exists>e. x = PDict e \<and>
        str_strip (str_or_empty (pget e ''type'')) \<in> set steer_item_types)" for x
    by (cases x) (auto simp: validate_steer_item_def)
  show ?thesis
    by (cases payload)
      (auto simp: validate_activation_steer_payload_def res_each_ok_iff item split: pyval.splits)
qed

lemma steer_source_stripped [simp]:
  "str_strip (activation_steer_source_value s) = activation_steer_source_value s"
  "activation_steer_source_value s \<noteq> []"
  by (cases s; simp add: string_eval)+

lemma pget_set [simp]: "pget (dict_set k v d) k' = (if k' = k then v else pget d k')"
  by (simp add: pget_def)

lemma steer_metadata_lemma:
  assumes "normalize_activation_steer_metadata metadata source fallback = Inr value"
  shows "\<exists>sender key. pget value ''sender'' = PStr sender \<and> sender \<noteq> [] \<and> str_strip sender = sender \<and>
      pget value ''idempotency_key'' = PStr key \<and> key \<noteq> [] \<and> str_strip key = key"
  using assms
  by (auto simp: normalize_activation_steer_metadata_def Let_def pget_def split: if_splits)

lemma dict_set_same: "dict_get d k = Some v \<Longrightarrow> dict_set k v d = d"
  by (induction d) (auto split: if_splits)

lemma pget_Some: "pget d k = v \<Longrightarrow> v \<noteq> PNone \<Longrightarrow> dict_get d k = Some v"
  by (auto simp: pget_def split: option.splits)

lemma steer_metadata_idem:
  assumes "normalize_activation_steer_metadata metadata source fallback = Inr value"
  shows "normalize_activation_steer_metadata value source' fallback' = Inr value"
proof -
  from steer_metadata_lemma[OF assms] obtain sender key
    where s: "pget value ''sender'' = PStr sender" "sender \<noteq> []" "str_strip sender = sender"
      and k: "pget value ''idempotency_key'' = PStr key" "key \<noteq> []" "str_strip key = key" by blast
  have gets: "dict_get value ''sender'' = Some (PStr sender)"
    "dict_get value ''idempotency_key'' = Some (PStr key)"
    using s k by (auto intro: pget_Some)
  then have "dict_set ''idempotency_key'' (PStr key) value = value"
    "dict_set ''sender'' (PStr sender) value = value"
    by (auto intro: dict_set_same)
  moreover have "dict_setdefault ''sender'' x value = value" for x
    using gets by (simp add: dict_setdefault_def dict_has_iff)
  ultimately show ?thesis
    using s k by (simp add: normalize_activation_steer_metadata_def Let_def py_or_def)
qed

section \<open>Executor sessions\<close>

definition safe_char :: "char \<Rightarrow> char" where
  "safe_char ch = (if is_alnum ch \<or> ch \<in> set ''._-'' then ch else CHR ''-'')"

definition strip_dashes :: "string \<Rightarrow> string" where
  "strip_dashes s = rstrip_by (\<lambda>c. c = CHR ''-'') (lstrip_by (\<lambda>c. c = CHR ''-'') s)"

definition default_executor_session_id :: "string \<Rightarrow> string \<Rightarrow> string" where
  "default_executor_session_id fresh task_id =
     (let safe = strip_dashes (map safe_char (str_strip task_id))
      in ''labrastro-agent-run-'' @ (if safe = [] then fresh else safe))"

definition safe_binding_part :: "string \<Rightarrow> string" where
  "safe_binding_part value =
     (let safe = strip_dashes (map safe_char (str_strip value))
      in if safe = [] then ''default'' else safe)"

definition agent_thread_binding_id ::
  "string \<Rightarrow> string \<Rightarrow> string \<Rightarrow> string \<Rightarrow> string \<Rightarrow> string" where
  "agent_thread_binding_id owner_session_run_id main_agent_run_id agent_id thread_key
       binding_lifetime =
     ''agent-thread-binding:'' @ str_join '':''
       [safe_binding_part binding_lifetime,
        safe_binding_part (if owner_session_run_id = [] then main_agent_run_id
                           else owner_session_run_id),
        safe_binding_part main_agent_run_id,
        safe_binding_part agent_id,
        safe_binding_part thread_key]"

definition session_run_binding_id :: "string \<Rightarrow> string \<Rightarrow> string result" where
  "session_run_binding_id session_run_id branch_binding_id =
     (let normalized_branch_binding_id = str_strip branch_binding_id
      in if normalized_branch_binding_id = [] then
           Inl (ValueError ''branch_binding_id is required'')
         else Inr (''session-run-binding:'' @ str_join '':''
                [safe_binding_part session_run_id, safe_binding_part normalized_branch_binding_id]))"

lemma rstrip_by_subset: "set (rstrip_by p s) \<subseteq> set s"
  by (auto simp: rstrip_by_def dest: set_dropWhileD)

lemma lstrip_by_subset: "set (lstrip_by p s) \<subseteq> set s"
  by (auto simp: lstrip_by_def dest: set_dropWhileD)

lemma strip_dashes_subset: "set (strip_dashes s) \<subseteq> set s"
  unfolding strip_dashes_def using rstrip_by_subset lstrip_by_subset by (rule subset_trans)

lemma safe_char_safe: "is_alnum (safe_char c) \<or> safe_char c \<in> set ''._-''"
  by (simp add: safe_char_def)

lemma safe_binding_part_chars:
  assumes "c \<in> set (safe_binding_part s)"
  shows "is_alnum c \<or> c \<in> set ''._-''"
proof (cases "strip_dashes (map safe_char (str_strip s)) = []")
  case True
  then have "c \<in> set ''default''" using assms by (simp add: safe_binding_part_def Let_def)
  moreover have "list_all is_alnum ''default''" by code_simp
  ultimately show ?thesis by (simp only: list_all_iff) blast
next
  case False
  then have "c \<in> set (strip_dashes (map safe_char (str_strip s)))"
    using assms by (simp add: safe_binding_part_def Let_def)
  then have "c \<in> set (map safe_char (str_strip s))" using strip_dashes_subset by blast
  then obtain d where "c = safe_char d" by auto
  then show ?thesis using safe_char_safe[of d] by simp
qed

lemma safe_binding_part_no_colon: "CHR '':'' \<notin> set (safe_binding_part s)"
proof -
  have "\<not> (is_alnum (CHR '':'') \<or> CHR '':'' \<in> set ''._-'')" by code_simp
  with safe_binding_part_chars show ?thesis by blast
qed

lemma safe_binding_part_nonempty: "safe_binding_part s \<noteq> []"
  by (simp add: safe_binding_part_def Let_def)

text \<open>Two binding identifiers are equal exactly when their sanitised parts are.\<close>

lemma session_run_binding_id_eq:
  assumes "session_run_binding_id r b = Inr i" and "session_run_binding_id r' b' = Inr i"
  shows "safe_binding_part r = safe_binding_part r' \<and>
         safe_binding_part (str_strip b) = safe_binding_part (str_strip b')"
proof -
  have eq: "str_join '':'' [safe_binding_part r, safe_binding_part (str_strip b)] =
        str_join '':'' [safe_binding_part r', safe_binding_part (str_strip b')]"
    using assms by (auto simp: session_run_binding_id_def Let_def split: if_splits)
  have split: "split_on (CHR '':'') (str_join '':'' [safe_binding_part x, safe_binding_part y]) =
        [safe_binding_part x, safe_binding_part y]" for x y
    by (rule split_join) (simp_all add: safe_binding_part_no_colon)
  from arg_cong[OF eq, of "split_on (CHR '':'')"] show ?thesis unfolding split by simp
qed

section \<open>Properties\<close>

text \<open>Normalised steer metadata carries a trimmed, non-empty sender and idempotency key, and
  normalising it again, with any source and any fallback, changes nothing.\<close>

theorem steer_metadata_normal:
  assumes "normalize_activation_steer_metadata metadata source fallback = Inr value"
  shows "normalize_activation_steer_metadata value source' fallback' = Inr value \<and>
    fst (activation_steer_idempotency_scope value) \<noteq> [] \<and>
    snd (activation_steer_idempotency_scope value) \<noteq> []"
  using steer_metadata_idem[OF assms] steer_metadata_lemma[OF assms]
  by (auto simp: activation_steer_idempotency_scope_def)

lemma steer_metadata_normal_witness:
  "fst (activation_steer_idempotency_scope
     [(''idempotency_key'', PStr ''k''), (''sender'', PStr ''user'')]) \<noteq> []"
proof -
  have "normalize_activation_steer_metadata [(''idempotency_key'', PStr '' k '')]
      SSource_USER ''f'' = Inr [(''idempotency_key'', PStr ''k''), (''sender'', PStr ''user'')]"
    by code_simp
  from steer_metadata_normal[OF this, of SSource_USER "''f''"] show ?thesis by blast
qed

text \<open>Binding identifiers are not injective: different sessions and branches whose names differ
  only in characters outside letters, digits, dot, underscore and dash share one identifier.\<close>

theorem session_run_binding_id_collision:
  "session_run_binding_id ''a/b'' ''main'' = session_run_binding_id ''a:b'' ''main''"
  by code_simp

end
