(* ===== verification/RunViews.thy ===== *)
theory RunViews
  imports RunFunctions
begin

text \<open>
  The second half of the pure functions of
  \<open>src/labrastro_server/services/agent_runtime/control_plane.py\<close>: the dictionary views of the
  lifecycle records, the state changes of a run, activation identifiers, and the construction of
  activations and relations from requests.
\<close>

section \<open>Runs\<close>

definition public_agent_run_metadata :: "pyobj \<Rightarrow> pyobj" where
  "public_agent_run_metadata metadata =
     filter (\<lambda>(key, value). key \<notin> set metadata_activation_keys) metadata"

definition agent_run_to_dict :: "agent_run \<Rightarrow> pyobj" where
  "agent_run_to_dict task =
     [(''id'', PStr (ar_id task)),
      (''agent_run_id'', PStr (ar_id task)),
      (''agent_id'', PStr (ar_agent_id task)),
      (''kind'', PStr (ar_kind task)),
      (''owner_session_run_id'', PStr (ar_owner_session_run_id task)),
      (''source'', PStr (agent_run_source_value (ar_source task))),
      (''trigger_mode'', PStr (trigger_mode_value (ar_trigger_mode task))),
      (''status'', PStr (agent_run_status_value (ar_status task))),
      (''mainline_state'', PStr (agent_run_mainline_state_value (ar_mainline_state task))),
      (''activation_state'', PStr (agent_run_activation_state_value (ar_activation_state task))),
      (''waiting_reason'', member_val agent_run_waiting_reason_value (ar_waiting_reason task)),
      (''resume_policy'', member_val agent_run_resume_policy_value (ar_resume_policy task)),
      (''runtime_profile_id'', opt_val (ar_runtime_profile_id task)),
      (''executor'', member_val executor_type_value (ar_executor task)),
      (''execution_location'', member_val execution_location_value (ar_execution_location task)),
      (''worktree_role'', member_val worktree_role_value (ar_worktree_role task)),
      (''publish_policy'', member_val publish_policy_value (ar_publish_policy task)),
      (''current_executor_session_id'', opt_val (ar_executor_session_id task)),
      (''current_activation_id'', opt_val (ar_current_activation_id task)),
      (''workdir'', opt_val (ar_workdir task)),
      (''sandbox_id'', opt_val (ar_sandbox_id task)),
      (''sandbox_session_id'', opt_val (ar_sandbox_session_id task)),
      (''workspace_ref'', opt_val (ar_workspace_ref task)),
      (''retention_scope'', PStr (ar_retention_scope task)),
      (''cleanup_policy'', PStr (ar_cleanup_policy task)),
      (''failure_reason'', opt_val (ar_failure_reason task)),
      (''cancel_reason'', opt_val (ar_cancel_reason task)),
      (''budget'', PDict (dict_value (pget (ar_metadata task) ''budget''))),
      (''metadata'', PDict (public_agent_run_metadata (ar_metadata task)))]"

definition sync_agent_run_semantic_state :: "agent_run \<Rightarrow> agent_run" where
  "sync_agent_run_semantic_state task =
     task\<lparr>ar_mainline_state :=
            agent_run_mainline_state_for_status (Some (ar_status task)) (ar_waiting_reason task),
          ar_activation_state :=
            agent_run_activation_state_for_status (Some (ar_status task)) (ar_waiting_reason task)\<rparr>"

definition set_agent_run_status ::
  "agent_run_status \<Rightarrow> agent_run_waiting_reason option \<Rightarrow> agent_run_mainline_state option \<Rightarrow>
   agent_run_activation_state option \<Rightarrow> agent_run \<Rightarrow> agent_run" where
  "set_agent_run_status status waiting_reason mainline_state activation_state task =
     task\<lparr>ar_status := status, ar_waiting_reason := waiting_reason,
          ar_mainline_state := (case mainline_state of Some m \<Rightarrow> m
            | None \<Rightarrow> agent_run_mainline_state_for_status (Some status) waiting_reason),
          ar_activation_state := (case activation_state of Some a \<Rightarrow> a
            | None \<Rightarrow> agent_run_activation_state_for_status (Some status) waiting_reason)\<rparr>"

abbreviation set_status :: "agent_run_status \<Rightarrow> agent_run \<Rightarrow> agent_run" where
  "set_status status \<equiv> set_agent_run_status status None None None"

text \<open>A run is coherent when its two derived states are those of its status.\<close>

definition coherent :: "agent_run \<Rightarrow> bool" where
  "coherent task \<longleftrightarrow>
     ar_mainline_state task =
       agent_run_mainline_state_for_status (Some (ar_status task)) (ar_waiting_reason task) \<and>
     ar_activation_state task =
       agent_run_activation_state_for_status (Some (ar_status task)) (ar_waiting_reason task)"

lemma coherent_sync [simp, inv_intros]: "coherent (sync_agent_run_semantic_state task)"
  by (simp add: coherent_def sync_agent_run_semantic_state_def)

lemma coherent_set_status [simp, inv_intros]:
  "coherent (set_agent_run_status status wr None None task)"
  by (simp add: coherent_def set_agent_run_status_def)

lemma coherent_new [simp, inv_intros]: "coherent (new_issue_run task_id agent_id)"
  by (simp add: coherent_def new_issue_run_def)

definition terminal_output :: "agent_run \<Rightarrow> string" where
  "terminal_output task = str_or_empty (pget (ar_terminal_result task) ''output'')"

definition set_terminal_result :: "string option \<Rightarrow> agent_run \<Rightarrow> agent_run" where
  "set_terminal_result output task =
     task\<lparr>ar_terminal_result := [(''output'', PStr (opt_str output))]\<rparr>"

lemma terminal_output_set [simp]: "terminal_output (set_terminal_result out task) = opt_str out"
  by (simp add: terminal_output_def set_terminal_result_def pget_def)

lemma public_metadata_get:
  "dict_get (public_agent_run_metadata metadata) k =
   (if k \<in> set metadata_activation_keys then None else dict_get metadata k)"
  by (induction metadata) (auto simp: public_agent_run_metadata_def split: if_splits)

section \<open>Activation identifiers\<close>

definition activation_sep :: string where
  "activation_sep = '':activation:''"

definition activation_id_for_task :: "string \<Rightarrow> int \<Rightarrow> string" where
  "activation_id_for_task task_id seq = task_id @ activation_sep @ int_str seq"

text \<open>\<open>s.rsplit(sep, 1)[1]\<close>: what follows the last occurrence of \<open>sep\<close>, None when there is none.\<close>

fun after_last :: "string \<Rightarrow> string \<Rightarrow> string option" where
  "after_last sep [] = None"
| "after_last sep (c # cs) =
     (case after_last sep cs of
        Some t \<Rightarrow> Some t
      | None \<Rightarrow> if startswith (c # cs) sep then Some (drop (length sep) (c # cs)) else None)"

definition activation_seq_from_id :: "string option \<Rightarrow> int option" where
  "activation_seq_from_id activation_id =
     (case after_last activation_sep (str_strip (opt_str activation_id)) of
        None \<Rightarrow> None
      | Some tail \<Rightarrow> parse_int tail)"

lemma after_last_none: "CHR '':'' \<notin> set s \<Longrightarrow> after_last activation_sep s = None"
  by (induction s) (auto simp: activation_sep_def startswith_def)

lemma after_last_append:
  "after_last sep s = Some t \<Longrightarrow> after_last sep (x @ s) = Some t"
  by (induction x) auto

lemma after_last_sep:
  assumes "CHR '':'' \<notin> set s"
  shows "after_last activation_sep (activation_sep @ s) = Some s"
proof -
  have "\<not> startswith (CHR '':'' # s) activation_sep"
  proof
    assume "startswith (CHR '':'' # s) activation_sep"
    then obtain u where "CHR '':'' # s = activation_sep @ u" by (auto simp: startswith_iff)
    then have "s = ''activation:'' @ u" by (simp add: activation_sep_def)
    with assms show False by simp
  qed
  with after_last_none[OF assms] show ?thesis
    by (simp add: activation_sep_def startswith_def)
qed

lemma digits_value_snoc:
  "list_all is_digit xs \<Longrightarrow> is_digit c \<Longrightarrow>
   digits_value acc (xs @ [c]) =
     map_option (\<lambda>v. 10 * v + (code_point c - 48)) (digits_value acc xs)"
  by (induction xs arbitrary: acc) auto

lemma digit_char: "n < 10 \<Longrightarrow> code_point (char_of (48 + n)) = 48 + n"
  by (simp add: code_point_def)

lemma nat_str_digits:
  "list_all is_digit (nat_str n) \<and> nat_str n \<noteq> [] \<and> digits_value 0 (nat_str n) = Some n"
proof (induction n rule: nat_str.induct)
  case (1 n)
  show ?case
  proof (cases "n < 10")
    case True
    then show ?thesis by (subst nat_str.simps, simp add: nat_str.simps[of n] is_digit_def digit_char)
  next
    case False
    have d: "is_digit (char_of (48 + n mod 10))"
      "code_point (char_of (48 + n mod 10)) - 48 = n mod 10"
      by (simp_all add: is_digit_def digit_char)
    show ?thesis
      using 1[OF False] d
      by (simp add: nat_str.simps[of n] False digits_value_snoc del: digits_value.simps)
  qed
qed

lemma parse_digits_nat_str: "parse_digits (nat_str n) = Some n"
  using nat_str_digits[of n] by (cases "nat_str n") (auto simp: parse_digits_def)

lemma digit_not_space: "is_digit c \<Longrightarrow> \<not> is_space c"
  by (auto simp: is_digit_def is_space_def Let_def)

lemma strip_edges:
  assumes "s \<noteq> []" and "\<not> is_space (hd s)" and "\<not> is_space (last s)"
  shows "str_strip s = s"
proof -
  have "lstrip_by is_space s = s"
    using assms by (cases s) (simp_all add: lstrip_by_def)
  moreover have "rstrip_by is_space s = s"
    using assms by (cases s rule: rev_cases) (simp_all add: rstrip_by_def)
  ultimately show ?thesis by (simp add: str_strip_def)
qed

lemma nat_str_edges:
  "is_digit (hd (nat_str n))" "is_digit (last (nat_str n))"
  using nat_str_digits[of n] by (auto simp: list_all_iff)

lemma is_digit_minus: "\<not> is_digit (CHR ''-'')" "\<not> is_digit (CHR ''+'')" "\<not> is_digit (CHR '':'')"
  "\<not> is_space (CHR ''-'')" "\<not> is_space (CHR '':'')"
  by (code_simp)+

lemma parse_int_str: "parse_int (int_str i) = Some i"
proof (cases "i < 0")
  case True
  have "str_strip (int_str i) = int_str i"
    using True nat_str_digits[of "nat (- i)"] nat_str_edges[of "nat (- i)"]
    by (intro strip_edges) (auto simp: int_str_def is_digit_minus digit_not_space)
  then show ?thesis
    using True by (simp add: parse_int_def int_str_def parse_digits_nat_str)
next
  case False
  let ?s = "nat_str (nat i)"
  have "str_strip ?s = ?s"
    using nat_str_digits[of "nat i"] nat_str_edges[of "nat i"]
    by (intro strip_edges) (auto simp: digit_not_space)
  moreover obtain c cs where s: "?s = c # cs" using nat_str_digits[of "nat i"] by (cases ?s) auto
  moreover have "c \<noteq> CHR ''-''" "c \<noteq> CHR ''+''"
    using nat_str_digits[of "nat i"] is_digit_minus s by auto
  moreover have "parse_digits (c # cs) = Some (nat i)"
    using parse_digits_nat_str[of "nat i"] by (simp only: s)
  ultimately show ?thesis
    using False by (simp add: parse_int_def int_str_def)
qed

lemma int_str_edges:
  "int_str i \<noteq> []" "\<not> is_space (last (int_str i))" "CHR '':'' \<notin> set (int_str i)"
proof -
  have all: "list_all is_digit (nat_str n)" "nat_str n \<noteq> []" for n using nat_str_digits by auto
  show "int_str i \<noteq> []" using all by (simp add: int_str_def)
  show "\<not> is_space (last (int_str i))"
    using all nat_str_edges by (auto simp: int_str_def digit_not_space)
  show "CHR '':'' \<notin> set (int_str i)"
    using all is_digit_minus by (auto simp: int_str_def list_all_iff)
qed

lemma strip_suffix:
  assumes "s \<noteq> []" and "\<not> is_space (hd s)" and "\<not> is_space (last s)"
  shows "\<exists>x'. str_strip (x @ s) = x' @ s"
proof -
  have "\<exists>x'. lstrip_by is_space (x @ s) = x' @ s"
  proof (induction x)
    case Nil
    then show ?case using assms by (cases s) (simp_all add: lstrip_by_def)
  next
    case (Cons c x)
    then show ?case by (cases "is_space c") (auto simp: lstrip_by_def intro: exI[of _ "c # x"])
  qed
  then obtain x' where "lstrip_by is_space (x @ s) = x' @ s" by blast
  moreover have "rstrip_by is_space (x' @ s) = x' @ s"
    using assms by (cases s rule: rev_cases) (simp_all add: rstrip_by_def)
  ultimately show ?thesis by (auto simp: str_strip_def)
qed

lemma activation_seq_lemma:
  "activation_seq_from_id (Some (activation_id_for_task task_id seq)) = Some seq"
proof -
  let ?s = "activation_sep @ int_str seq"
  have "\<exists>x'. str_strip (task_id @ ?s) = x' @ ?s"
    using int_str_edges[of seq] is_digit_minus(5)
    by (intro strip_suffix) (simp_all add: activation_sep_def)
  then obtain x' where "str_strip (task_id @ ?s) = x' @ ?s" by blast
  moreover have "after_last activation_sep (x' @ ?s) = Some (int_str seq)"
    by (rule after_last_append) (rule after_last_sep, rule int_str_edges)
  ultimately show ?thesis
    by (simp add: activation_seq_from_id_def activation_id_for_task_def parse_int_str)
qed

section \<open>Activations\<close>

definition activation_status_for_task :: "agent_run \<Rightarrow> agent_run_activation_status" where
  "activation_status_for_task task =
     (case ar_status task of
        Run_QUEUED \<Rightarrow> Act_QUEUED
      | Run_DISPATCHED \<Rightarrow> Act_DISPATCHED
      | Run_RUNNING \<Rightarrow> Act_RUNNING
      | Run_WAITING \<Rightarrow> Act_WAITING
      | Run_COMPLETED \<Rightarrow> Act_COMPLETED
      | Run_FAILED \<Rightarrow> Act_FAILED
      | Run_CANCELLED \<Rightarrow> Act_CANCELLED
      | Run_BLOCKED \<Rightarrow> Act_BLOCKED)"

definition activation_status_for_result :: "executor_run_result \<Rightarrow> agent_run_activation_status" where
  "activation_status_for_result r =
     (if run_succeeded r then Act_COMPLETED
      else if rr_status r = ''cancelled'' then Act_CANCELLED
      else if rr_status r = ''blocked'' then Act_BLOCKED
      else Act_FAILED)"

text \<open>\<open>a or b\<close> for optional numbers and texts: 0 and the empty text count as absent.\<close>

definition int_or :: "int option \<Rightarrow> int option \<Rightarrow> int option" where
  "int_or a b = (if a = None \<or> a = Some 0 then b else a)"

definition text_or :: "string option \<Rightarrow> string \<Rightarrow> string" where
  "text_or a b = (if opt_str a = [] then b else opt_str a)"

definition activation_from_task ::
  "agent_run \<Rightarrow> string option \<Rightarrow> int option \<Rightarrow> agent_run_activation_input_kind option \<Rightarrow>
   pyobj \<Rightarrow> string option \<Rightarrow> agent_run_activation_status option \<Rightarrow> string option \<Rightarrow>
   string option \<Rightarrow> string option \<Rightarrow> pyobj \<Rightarrow> agent_run_activation" where
  "activation_from_task task activation_id seq input_kind input_payload prompt status request_id
       worker_id output result_payload =
     (let resolved_seq = (case int_or seq (int_or (activation_seq_from_id activation_id)
                (int_or (activation_seq_from_id (ar_current_activation_id task)) (Some 1))) of
            None \<Rightarrow> 1 | Some n \<Rightarrow> n);
          resolved_activation_id =
            text_or activation_id (text_or (ar_current_activation_id task)
              (activation_id_for_task (ar_id task) resolved_seq))
      in \<lparr>ac_id = resolved_activation_id,
          ac_agent_run_id = ar_id task,
          ac_seq = resolved_seq,
          ac_input_kind = (case input_kind of None \<Rightarrow> Input_USER_REQUEST | Some k \<Rightarrow> k),
          ac_input_payload = (if input_payload = []
             then [(''source'', PStr (agent_run_source_value (ar_source task)))]
             else input_payload),
          ac_prompt = opt_str prompt,
          ac_status = (case status of None \<Rightarrow> activation_status_for_task task | Some st \<Rightarrow> st),
          ac_output = Some (case output of None \<Rightarrow> terminal_output task | Some t \<Rightarrow> t),
          ac_result_payload = result_payload,
          ac_worker_id = worker_id,
          ac_request_id = request_id,
          ac_started_at = None,
          ac_ended_at = None,
          ac_metadata = [(''executor_session_id'', opt_val (ar_executor_session_id task)),
                         (''runtime_profile_id'', opt_val (ar_runtime_profile_id task))]\<rparr>)"

definition activation_with_runtime_state ::
  "agent_run_activation_status option \<Rightarrow> string option \<Rightarrow> string option \<Rightarrow> string option \<Rightarrow>
   pyobj option \<Rightarrow> agent_run_activation \<Rightarrow> agent_run_activation" where
  "activation_with_runtime_state status request_id worker_id output result_payload activation =
     activation\<lparr>
       ac_status := (case status of None \<Rightarrow> ac_status activation | Some st \<Rightarrow> st),
       ac_output := (case output of None \<Rightarrow> ac_output activation | Some t \<Rightarrow> Some t),
       ac_result_payload := (case result_payload of None \<Rightarrow> ac_result_payload activation
                             | Some p \<Rightarrow> p),
       ac_worker_id := (case worker_id of None \<Rightarrow> ac_worker_id activation | Some w \<Rightarrow> Some w),
       ac_request_id := (case request_id of None \<Rightarrow> ac_request_id activation | Some r \<Rightarrow> Some r)\<rparr>"

lemma activation_with_runtime_state_keeps [simp]:
  "ac_id (activation_with_runtime_state st rq w out rp a) = ac_id a"
  "ac_agent_run_id (activation_with_runtime_state st rq w out rp a) = ac_agent_run_id a"
  "ac_seq (activation_with_runtime_state st rq w out rp a) = ac_seq a"
  "ac_prompt (activation_with_runtime_state st rq w out rp a) = ac_prompt a"
  "ac_input_kind (activation_with_runtime_state st rq w out rp a) = ac_input_kind a"
  by (simp_all add: activation_with_runtime_state_def)

definition activation_to_dict :: "agent_run_activation \<Rightarrow> pyobj" where
  "activation_to_dict activation =
     [(''id'', PStr (ac_id activation)),
      (''activation_id'', PStr (ac_id activation)),
      (''agent_run_id'', PStr (ac_agent_run_id activation)),
      (''seq'', PInt (ac_seq activation)),
      (''input_kind'', PStr (agent_run_activation_input_kind_value (ac_input_kind activation))),
      (''input_payload'', PDict (ac_input_payload activation)),
      (''prompt'', PStr (ac_prompt activation)),
      (''status'', PStr (agent_run_activation_status_value (ac_status activation))),
      (''output'', opt_val (ac_output activation)),
      (''result_payload'', PDict (ac_result_payload activation)),
      (''worker_id'', opt_val (ac_worker_id activation)),
      (''request_id'', opt_val (ac_request_id activation)),
      (''started_at'', opt_val (ac_started_at activation)),
      (''ended_at'', opt_val (ac_ended_at activation)),
      (''metadata'', PDict (ac_metadata activation))]"

definition feedback_to_dict :: "agent_run_feedback \<Rightarrow> pyobj" where
  "feedback_to_dict feedback =
     [(''id'', PStr (fb_id feedback)),
      (''agent_run_id'', PStr (fb_agent_run_id feedback)),
      (''source'', PStr (agent_run_feedback_source_value (fb_source feedback))),
      (''kind'', PStr (agent_run_feedback_kind_value (fb_kind feedback))),
      (''payload'', PDict (fb_payload feedback)),
      (''created_at'', opt_val (fb_created_at feedback)),
      (''consumed_by_activation_id'', opt_val (fb_consumed_by_activation_id feedback)),
      (''visibility'', PStr (agent_run_feedback_visibility_value (fb_visibility feedback))),
      (''requires_activation'', PBool (fb_requires_activation feedback)),
      (''metadata'', PDict (fb_metadata feedback))]"

definition steer_to_dict :: "activation_steer \<Rightarrow> pyobj" where
  "steer_to_dict steer =
     [(''id'', PStr (st_id steer)),
      (''activation_id'', PStr (st_activation_id steer)),
      (''source'', PStr (activation_steer_source_value (st_source steer))),
      (''payload'', PDict (st_payload steer)),
      (''created_at'', opt_val (st_created_at steer)),
      (''delivered_at'', opt_val (st_delivered_at steer)),
      (''status'', PStr (activation_steer_status_value (st_status steer))),
      (''metadata'', PDict (st_metadata steer))]"

definition agent_thread_binding_to_dict :: "agent_thread_binding \<Rightarrow> pyobj" where
  "agent_thread_binding_to_dict b =
     [(''id'', PStr (tb_id b)),
      (''owner_session_run_id'', PStr (tb_owner_session_run_id b)),
      (''main_agent_run_id'', PStr (tb_main_agent_run_id b)),
      (''agent_id'', PStr (tb_agent_id b)),
      (''target_agent_run_id'', PStr (tb_target_agent_run_id b)),
      (''thread_key'', PStr (tb_thread_key b)),
      (''thread_summary'', PStr (tb_thread_summary b)),
      (''binding_lifetime'', PStr (agent_thread_binding_lifetime_value (tb_binding_lifetime b))),
      (''workdir_policy'', PStr (agent_thread_workdir_policy_value (tb_workdir_policy b))),
      (''visibility'', PStr (tb_visibility b)),
      (''status'', PStr (agent_thread_binding_status_value (tb_status b))),
      (''cleanup_policy'', PStr (tb_cleanup_policy b)),
      (''created_at'', opt_val (tb_created_at b)),
      (''updated_at'', opt_val (tb_updated_at b)),
      (''metadata'', PDict (tb_metadata b))]"

definition session_run_binding_to_dict :: "session_run_binding \<Rightarrow> pyobj" where
  "session_run_binding_to_dict b =
     [(''id'', PStr (sb_id b)),
      (''session_run_id'', PStr (sb_session_run_id b)),
      (''session_id'', PStr (sb_session_id b)),
      (''peer_id'', PStr (sb_peer_id b)),
      (''branch_binding_id'', PStr (sb_branch_binding_id b)),
      (''agent_run_id'', PStr (sb_agent_run_id b)),
      (''selected'', PBool (sb_selected b)),
      (''parent_branch_binding_id'', PStr (sb_parent_branch_binding_id b)),
      (''base_session_item_id'', PStr (sb_base_session_item_id b)),
      (''source_agent_run_id'', PStr (sb_source_agent_run_id b)),
      (''target_agent_run_id'', PStr (sb_target_agent_run_id b)),
      (''status'', PStr (session_run_binding_status_value (sb_status b))),
      (''created_at'', opt_val (sb_created_at b)),
      (''updated_at'', opt_val (sb_updated_at b)),
      (''metadata'', PDict (sb_metadata b))]"

definition artifact_to_dict :: "task_artifact \<Rightarrow> pyobj" where
  "artifact_to_dict a =
     [(''id'', PStr (tk_id a)),
      (''task_id'', PStr (tk_task_id a)),
      (''type'', PStr (artifact_type_value (tk_type a))),
      (''status'', PStr (artifact_status_value (tk_status a))),
      (''branch_name'', opt_val (tk_branch_name a)),
      (''pr_url'', opt_val (tk_pr_url a)),
      (''content'', opt_val (tk_content a)),
      (''path'', opt_val (tk_path a)),
      (''metadata'', PDict (tk_metadata a)),
      (''merge_status'', member_val merge_status_value (tk_merge_status a)),
      (''merged_by'', opt_val (tk_merged_by a))]"

definition worktree_branch_for_activation :: "agent_run_activation option \<Rightarrow> string" where
  "worktree_branch_for_activation activation =
     (case activation of None \<Rightarrow> []
      | Some a \<Rightarrow> str_strip (str_or_empty (pget (ac_input_payload a) ''worktree_branch'')))"

section \<open>Relations\<close>

definition relation_to_dict :: "agent_run_relation \<Rightarrow> pyobj" where
  "relation_to_dict r =
     [(''id'', PStr (rl_id r)),
      (''owner_agent_run_id'', PStr (rl_owner_agent_run_id r)),
      (''related_agent_run_id'', PStr (rl_related_agent_run_id r)),
      (''relation_type'', PStr (agent_run_relation_type_value (rl_relation_type r))),
      (''relation_scope'', PStr (rl_relation_scope r)),
      (''created_by_activation_id'', opt_val (rl_created_by_activation_id r)),
      (''status'', PStr (agent_run_relation_status_value (rl_status r))),
      (''payload'', PDict (rl_payload r)),
      (''metadata'', PDict (rl_metadata r))]"

definition text_or_val :: "pyval \<Rightarrow> string \<Rightarrow> string" where
  "text_or_val v dflt = (if truthy v then py_str v else dflt)"

definition relation_from_dict :: "pyobj \<Rightarrow> agent_run_relation result" where
  "relation_from_dict data =
     res_bind (enum_of agent_run_relation_type_value (str_or_empty (pget data ''relation_type'')))
       (\<lambda>relation_type.
     res_bind (enum_of agent_run_relation_status_value (text_or_val (pget data ''status'') ''active''))
       (\<lambda>status.
       relation_post_init
         \<lparr>rl_id = str_or_empty (pget data ''id''),
          rl_owner_agent_run_id = str_or_empty (pget data ''owner_agent_run_id''),
          rl_related_agent_run_id = str_or_empty (pget data ''related_agent_run_id''),
          rl_relation_type = relation_type,
          rl_relation_scope = text_or_val (pget data ''relation_scope'') ''session'',
          rl_created_by_activation_id = opt_text (pget data ''created_by_activation_id''),
          rl_status = status,
          rl_payload = dict_value (pget data ''payload''),
          rl_metadata = dict_value (pget data ''metadata'')\<rparr>))"

lemma relation_post_init_fixed: "relation_post_init r = Inr r' \<Longrightarrow> relation_post_init r' = Inr r'"
  by (auto simp: relation_post_init_def Let_def res_bind_Inr_iff split: if_splits)

lemma relation_post_init_scope: "relation_post_init r = Inr r' \<Longrightarrow> rl_relation_scope r' \<noteq> []"
  by (auto simp: relation_post_init_def Let_def res_bind_Inr_iff split: if_splits)

lemma relation_status_nonempty [simp]: "agent_run_relation_status_value s \<noteq> []"
  by (cases s) simp_all

lemma relation_roundtrip_lemma:
  assumes "relation_post_init r0 = Inr r"
  shows "relation_from_dict (relation_to_dict r) = Inr r"
proof -
  have "rl_relation_scope r \<noteq> []" using assms by (rule relation_post_init_scope)
  moreover have "relation_post_init r = Inr r" using assms by (rule relation_post_init_fixed)
  ultimately show ?thesis
    by (cases r) (simp add: relation_from_dict_def relation_to_dict_def pget_def text_or_val_def
        agent_run_relation_type_enum.of_val agent_run_relation_status_enum.of_val)
qed

section \<open>Properties\<close>

text \<open>The sequence number of an activation is recovered from its identifier, for every task
  identifier, also one that itself looks like an activation identifier.\<close>

theorem activation_id_roundtrip:
  "activation_seq_from_id (Some (activation_id_for_task task_id seq)) = Some seq"
  by (rule activation_seq_lemma)

text \<open>A validated relation that is written to its dictionary and read back is the same
  relation.\<close>

theorem relation_roundtrip:
  assumes "relation_post_init r0 = Inr r"
  shows "relation_from_dict (relation_to_dict r) = Inr r"
  using assms by (rule relation_roundtrip_lemma)

definition demo_relation :: agent_run_relation where
  "demo_relation =
     \<lparr>rl_id = ''r1'', rl_owner_agent_run_id = ''run1'', rl_related_agent_run_id = ''run2'',
      rl_relation_type = Rel_AGENT_CALL_EPHEMERAL, rl_relation_scope = ''session'',
      rl_created_by_activation_id = None, rl_status = RStatus_ACTIVE,
      rl_payload = [(''conversation_scope'', PStr ''ephemeral''), (''wait'', PBool True)],
      rl_metadata = []\<rparr>"

lemma relation_roundtrip_witness:
  "relation_from_dict (relation_to_dict demo_relation) = Inr demo_relation"
proof -
  have "relation_post_init demo_relation = Inr demo_relation" by code_simp
  then show ?thesis by (rule relation_roundtrip)
qed

end
