(* ===== verification/RunRequests.thy ===== *)
theory RunRequests
  imports RunViews
begin

text \<open>
  Requests, feedback and grants of \<open>src/labrastro_server/services/agent_runtime/control_plane.py\<close>:
  the validation of a submitted \<open>AgentRunRequest\<close>, the first activation and the relation it gives
  rise to, the normalised budget, the feedback that an agent call sends back to its caller, and the
  key and validity of a call grant.
\<close>

section \<open>Budgets\<close>

definition runtime_budget_fields :: "string list" where
  "runtime_budget_fields = [''token_budget'', ''max_turns'', ''max_tool_calls'', ''timeout_sec'']"

definition quoted :: "string \<Rightarrow> string" where
  "quoted s = [CHR 0x27] @ s @ [CHR 0x27]"

definition budget_not_positive :: "string \<Rightarrow> py_error" where
  "budget_not_positive field_name =
     ValueError (''AgentRun budget field '' @ quoted field_name @ '' must be a positive integer'')"

fun normalize_budget_items ::
  "(string, int) pydict \<Rightarrow> pyobj \<Rightarrow> (string, int) pydict result" where
  "normalize_budget_items acc [] = Inr acc"
| "normalize_budget_items acc ((key, raw) # items) =
     (let field_name = str_strip key
      in if field_name = [] then normalize_budget_items acc items
         else if field_name \<notin> set runtime_budget_fields then
           Inl (ValueError (''unsupported AgentRun budget field '' @ quoted field_name @
                ''; allowed: '' @ str_join '', '' (sort runtime_budget_fields)))
         else if raw = PNone \<or> raw = PStr [] then normalize_budget_items acc items
         else case py_int raw of
             Inl _ \<Rightarrow> Inl (budget_not_positive field_name)
           | Inr amount \<Rightarrow>
               if amount \<le> 0 then Inl (budget_not_positive field_name)
               else normalize_budget_items (dict_set field_name amount acc) items)"

definition normalize_agent_run_budget :: "pyval \<Rightarrow> (string, int) pydict result" where
  "normalize_agent_run_budget value =
     (if value = PNone \<or> value = PStr [] then Inr []
      else case value of
        PDict d \<Rightarrow> normalize_budget_items [] d
      | _ \<Rightarrow> Inl (ValueError ''AgentRun budget must be an object''))"

definition int_pairs :: "(string, int) pydict \<Rightarrow> pyobj" where
  "int_pairs d = map (\<lambda>(k, n). (k, PInt n)) d"

lemma budget_field_stripped: "f \<in> set runtime_budget_fields \<Longrightarrow> str_strip f = f \<and> f \<noteq> []"
  by (auto simp: runtime_budget_fields_def string_eval)

definition budget_ok :: "(string, int) pydict \<Rightarrow> bool" where
  "budget_ok b \<longleftrightarrow> dict_wf b \<and> (\<forall>(k, n) \<in> set b. k \<in> set runtime_budget_fields \<and> 0 < n)"

lemma budget_ok_set:
  "budget_ok b \<Longrightarrow> k \<in> set runtime_budget_fields \<Longrightarrow> 0 < n \<Longrightarrow> budget_ok (dict_set k n b)"
  using dict_set_set[of k n b] by (auto simp: budget_ok_def)

lemma normalize_budget_items_ok:
  "normalize_budget_items acc items = Inr b \<Longrightarrow> budget_ok acc \<Longrightarrow> budget_ok b"
proof (induction acc items rule: normalize_budget_items.induct)
  case (1 acc)
  then show ?case by simp
next
  case (2 acc key raw items)
  then show ?case
    by (auto simp: Let_def budget_ok_set split: if_splits sum.splits)
qed

lemma normalize_budget_lemma: "normalize_agent_run_budget value = Inr b \<Longrightarrow> budget_ok b"
  by (auto simp: normalize_agent_run_budget_def budget_ok_def[of "[]"]
      intro: normalize_budget_items_ok split: if_splits pyval.splits)

lemma normalize_budget_items_fixed:
  "budget_ok (acc @ b) \<Longrightarrow> normalize_budget_items acc (int_pairs b) = Inr (acc @ b)"
proof (induction b arbitrary: acc)
  case Nil
  then show ?case by (simp add: int_pairs_def)
next
  case (Cons kn b)
  obtain k n where kn: "kn = (k, n)" by (cases kn)
  have k: "k \<in> set runtime_budget_fields" "0 < n" "\<not> dict_has acc k"
    using Cons.prems by (auto simp: budget_ok_def kn dict_wf_def dict_has_def)
  have "budget_ok ((acc @ [kn]) @ b)" using Cons.prems by simp
  from Cons.IH[OF this] k budget_field_stripped[OF k(1)] show ?case
    by (simp add: int_pairs_def kn py_int_def dict_set_absent Let_def)
qed

lemma normalize_budget_idem_lemma:
  "budget_ok b \<Longrightarrow> normalize_agent_run_budget (PDict (int_pairs b)) = Inr b"
  using normalize_budget_items_fixed[of "[]" b] by (simp add: normalize_agent_run_budget_def)

section \<open>Requests\<close>

record agent_run_request =
  sq_agent_id :: string
  sq_prompt :: string
  sq_owner_session_run_id :: string
  sq_source :: agent_run_source
  sq_executor :: "executor_type option"
  sq_execution_location :: "execution_location option"
  sq_worker_kind :: "worker_kind option"
  sq_model_request_origin :: "model_request_origin option"
  sq_worktree_role :: "worktree_role option"
  sq_publish_policy :: "publish_policy option"
  sq_trigger_mode :: trigger_mode
  sq_runtime_profile_id :: "string option"
  sq_workdir :: "string option"
  sq_executor_session_id :: "string option"
  sq_model :: "string option"
  sq_sandbox_id :: "string option"
  sq_sandbox_session_id :: "string option"
  sq_workspace_ref :: "string option"
  sq_budget :: "(string, int) pydict"
  sq_metadata :: pyobj
  sq_relation :: "agent_run_relation option"

text \<open>The fields that the constructor takes as a member, a text or None.\<close>

record raw_request_fields =
  rf_source :: pyval
  rf_executor :: pyval
  rf_execution_location :: pyval
  rf_worker_kind :: pyval
  rf_model_request_origin :: pyval
  rf_worktree_role :: pyval
  rf_publish_policy :: pyval
  rf_budget :: pyval
  rf_trigger_mode :: pyval

definition coerce_source :: "pyval \<Rightarrow> agent_run_source result" where
  "coerce_source value =
     (if value = PNone \<or> str_strip (py_str value) = [] then Inr Source_MANUAL
      else enum_of agent_run_source_value (py_str value))"

definition coerce_executor :: "pyval \<Rightarrow> executor_type result" where
  "coerce_executor value =
     (if value = PNone \<or> str_strip (py_str value) = [] then Inr Exec_REULEAUXCODER
      else enum_of executor_type_value (py_str value))"

definition coerce_location :: "pyval \<Rightarrow> execution_location result" where
  "coerce_location value =
     (if value = PNone \<or> str_strip (py_str value) = [] then Inr Loc_LOCAL_WORKSPACE
      else enum_of execution_location_value (py_str value))"

definition optional_executor :: "pyval \<Rightarrow> executor_type option result" where
  "optional_executor = optional_member executor_type_value"

definition optional_location :: "pyval \<Rightarrow> execution_location option result" where
  "optional_location = optional_member execution_location_value"

definition agent_run_request_post_init ::
  "raw_request_fields \<Rightarrow> agent_run_request \<Rightarrow> agent_run_request result" where
  "agent_run_request_post_init raw r =
     res_bind (coerce_source (rf_source raw)) (\<lambda>source.
     res_bind (optional_executor (rf_executor raw)) (\<lambda>executor.
     res_bind (optional_location (rf_execution_location raw)) (\<lambda>location.
     res_bind (optional_worker_kind (rf_worker_kind raw)) (\<lambda>worker_kind.
     res_bind (optional_model_request_origin (rf_model_request_origin raw)) (\<lambda>origin.
     res_bind (optional_worktree_role (rf_worktree_role raw)) (\<lambda>role.
     res_bind (optional_publish_policy (rf_publish_policy raw)) (\<lambda>policy.
     res_bind (normalize_agent_run_budget (rf_budget raw)) (\<lambda>budget.
     res_bind (enum_of trigger_mode_value (py_str (rf_trigger_mode raw))) (\<lambda>trigger_mode.
     let forbidden_metadata =
           sort (filter (\<lambda>key. key \<in> set metadata_forbidden_keys) (dict_keys (sq_metadata r)))
     in if forbidden_metadata \<noteq> [] then
          Inl (ValueError (''AgentRunRequest.metadata cannot store AgentRun relation or '' @
                 ''external business identity fields: '' @ str_join '', '' forbidden_metadata))
        else Inr (r\<lparr>sq_source := source, sq_executor := executor,
                    sq_execution_location := location, sq_worker_kind := worker_kind,
                    sq_model_request_origin := origin, sq_worktree_role := role,
                    sq_publish_policy := policy, sq_budget := budget,
                    sq_trigger_mode := trigger_mode\<rparr>))))))))))"

definition ensure_reuleauxcoder_executor_session ::
  "string \<Rightarrow> string \<Rightarrow> agent_run_request \<Rightarrow> agent_run_request" where
  "ensure_reuleauxcoder_executor_session fresh task_id r =
     (if sq_executor r = Some Exec_REULEAUXCODER \<and> opt_str (sq_executor_session_id r) = []
      then r\<lparr>sq_executor_session_id := Some (default_executor_session_id fresh task_id)\<rparr>
      else r)"

definition activation_input_forbidden_business_keys :: "string list" where
  "activation_input_forbidden_business_keys =
     [''issue_id'', ''trigger_comment_id'', ''branch_name'', ''pr_url'', ''task_run_id'',
      ''taskflow_id'', ''workflow_id'', ''work_item_id'', ''goal_id'']"

definition validate_activation_input_payload :: "pyobj \<Rightarrow> unit result" where
  "validate_activation_input_payload input_payload =
     (let forbidden = sort (filter (\<lambda>key. key \<in> set activation_input_forbidden_business_keys)
                             (dict_keys input_payload))
      in if forbidden \<noteq> [] then
           Inl (ValueError (''AgentRunActivation.input_payload cannot store taskflow, GitHub, '' @
                  ''or external business identity fields: '' @ str_join '', '' forbidden))
         else Inr ())"

definition initial_activation_for_request ::
  "pyobj \<Rightarrow> string \<Rightarrow> agent_run_request \<Rightarrow> (pyobj \<times> agent_run_activation) result" where
  "initial_activation_for_request metadata task_id request =
     (let worktree_branch = str_strip (str_or_empty (pget_or metadata ''worktree_branch'' (PStr [])));
          input_payload =
            [(''source'', PStr (agent_run_source_value (sq_source request))),
             (''trigger_mode'', PStr (trigger_mode_value (sq_trigger_mode request)))] @
            (if worktree_branch = [] then [] else [(''worktree_branch'', PStr worktree_branch)])
      in res_bind (validate_activation_input_payload input_payload) (\<lambda>_.
         Inr (dict_pop ''worktree_branch'' metadata,
           \<lparr>ac_id = activation_id_for_task task_id 1, ac_agent_run_id = task_id, ac_seq = 1,
            ac_input_kind = Input_USER_REQUEST, ac_input_payload = input_payload,
            ac_prompt = sq_prompt request, ac_status = Act_QUEUED, ac_output = None,
            ac_result_payload = [], ac_worker_id = None, ac_request_id = None,
            ac_started_at = None, ac_ended_at = None,
            ac_metadata = [(''executor_session_id'', opt_val (sq_executor_session_id request)),
                           (''runtime_profile_id'', opt_val (sq_runtime_profile_id request))]\<rparr>)))"

lemma initial_activation_ok:
  "\<exists>metadata' a. initial_activation_for_request metadata task_id request = Inr (metadata', a) \<and>
     ac_id a = activation_id_for_task task_id 1 \<and> ac_agent_run_id a = task_id \<and> ac_seq a = 1 \<and>
     ac_status a = Act_QUEUED \<and> ac_prompt a = sq_prompt request \<and>
     metadata' = dict_pop ''worktree_branch'' metadata"
  by (simp add: initial_activation_for_request_def validate_activation_input_payload_def
      activation_input_forbidden_business_keys_def Let_def)

definition relation_from_submit_request ::
  "string \<Rightarrow> agent_run_request \<Rightarrow> agent_run_relation option result" where
  "relation_from_submit_request task_id request =
     (case sq_relation request of
        None \<Rightarrow> Inr None
      | Some relation \<Rightarrow>
          (let owner_agent_run_id = str_strip (rl_owner_agent_run_id relation);
               related_agent_run_id = str_strip (rl_related_agent_run_id relation);
               given_id = str_strip (rl_id relation);
               relation_id = (if given_id = [] then
                   ''relation:'' @ owner_agent_run_id @ '':'' @ task_id @ '':'' @
                   agent_run_relation_type_value (rl_relation_type relation)
                 else given_id)
           in if owner_agent_run_id = [] \<or> owner_agent_run_id = task_id then Inr None
              else if related_agent_run_id \<noteq> [] \<and> related_agent_run_id \<noteq> task_id then
                Inl (ValueError (''AgentRunRequest.relation.related_agent_run_id must match '' @
                       ''submitted AgentRun id''))
              else res_bind (relation_post_init
                     (relation\<lparr>rl_id := relation_id,
                               rl_owner_agent_run_id := owner_agent_run_id,
                               rl_related_agent_run_id := task_id\<rparr>)) (\<lambda>r. Inr (Some r))))"

lemma relation_post_init_keeps:
  "relation_post_init r = Inr r' \<Longrightarrow>
   rl_id r' = rl_id r \<and> rl_owner_agent_run_id r' = rl_owner_agent_run_id r \<and>
   rl_related_agent_run_id r' = rl_related_agent_run_id r \<and>
   rl_relation_type r' = rl_relation_type r"
  by (auto simp: relation_post_init_def Let_def res_bind_Inr_iff split: if_splits)

lemma submitted_relation_lemma:
  assumes "relation_from_submit_request task_id request = Inr (Some r)"
  shows "rl_related_agent_run_id r = task_id \<and> rl_owner_agent_run_id r \<noteq> [] \<and>
    rl_owner_agent_run_id r \<noteq> task_id \<and> rl_id r \<noteq> []"
  using assms
  by (auto simp: relation_from_submit_request_def Let_def res_bind_Inr_iff
      split: option.splits if_splits dest!: relation_post_init_keeps)

definition can_resume_from_parent :: "agent_run_request \<Rightarrow> agent_run \<Rightarrow> bool" where
  "can_resume_from_parent request parent \<longleftrightarrow>
     opt_str (ar_executor_session_id parent) \<noteq> [] \<and>
     sq_agent_id request = ar_agent_id parent \<and>
     sq_runtime_profile_id request = ar_runtime_profile_id parent \<and>
     sq_executor request = ar_executor parent \<and>
     sq_execution_location request = ar_execution_location parent \<and>
     workspace_key (sq_workdir request) = workspace_key (ar_workdir parent)"

section \<open>Agent calls\<close>

definition persistent_agent_call_metadata_reserved :: "string list" where
  "persistent_agent_call_metadata_reserved =
     [''agent_run_source'', ''relation_type'', ''called_by_agent_run_id'', ''call_agent_mode'',
      ''purpose_key'', ''thread_key'', ''thread_summary'', ''wait'', ''parent_session_id'',
      ''parent_turn_id'', ''workspace_root'']"

definition external_persistent_agent_metadata :: "pyobj \<Rightarrow> pyobj result" where
  "external_persistent_agent_metadata metadata =
     (let reserved = sort (filter (\<lambda>key. key \<in> set persistent_agent_call_metadata_reserved)
                            (dict_keys metadata))
      in if reserved \<noteq> [] then
           Inl (ValueError (''persistent Agent call metadata cannot override relation fields: '' @
                  str_join '', '' reserved))
         else Inr metadata)"

definition normalize_permission_recompute_policy :: "string option \<Rightarrow> string result" where
  "normalize_permission_recompute_policy value =
     (let policy = str_strip (text_or value ''recompute_or_reject'')
      in if policy \<notin> {''recompute_or_reject''} then
           Inl (ValueError ''permission_recompute_policy must be recompute_or_reject'')
         else Inr policy)"

definition normalize_relation_cleanup_policy :: "string option \<Rightarrow> string result" where
  "normalize_relation_cleanup_policy value =
     (let policy = str_strip (text_or value ''delete_with_owner_session'')
      in if policy \<notin> {''delete_with_owner_session''} then
           Inl (ValueError ''cleanup_policy must be delete_with_owner_session'')
         else Inr policy)"

definition require_relation_text :: "string option \<Rightarrow> string \<Rightarrow> string result" where
  "require_relation_text value field_name =
     (let txt = str_strip (opt_str value)
      in if txt = [] then Inl (ValueError (field_name @ '' is required'')) else Inr txt)"

text \<open>\<open>str.islower\<close> and \<open>str.isdigit\<close> of one character below code point 256.\<close>

definition is_lower :: "char \<Rightarrow> bool" where
  "is_lower c =
     (let n = code_point c
      in 97 \<le> n \<and> n \<le> 122 \<or> n \<in> {170, 181, 186} \<or> 223 \<le> n \<and> n \<le> 255 \<and> n \<noteq> 247)"

definition is_unicode_digit :: "char \<Rightarrow> bool" where
  "is_unicode_digit c = (is_digit c \<or> code_point c \<in> {178, 179, 185})"

definition valid_agent_thread_key :: "string \<Rightarrow> bool" where
  "valid_agent_thread_key value =
     list_all (\<lambda>ch. is_lower ch \<or> is_unicode_digit ch \<or> ch \<in> {CHR ''-'', CHR ''_''}) value"

definition waiting_reason_for_required_feedback ::
  "agent_run_feedback list \<Rightarrow> agent_run_waiting_reason option" where
  "waiting_reason_for_required_feedback feedbacks =
     (case List.find (\<lambda>f. fb_requires_activation f \<and>
              opt_str (fb_consumed_by_activation_id f) = []) feedbacks of
        None \<Rightarrow> None
      | Some f \<Rightarrow>
          if fb_kind f = FKind_USER_MESSAGE then Some Wait_USER_INPUT
          else if fb_kind f \<in> {FKind_AGENT_CALL_RESULT, FKind_AGENT_CALL_FAILED}
            then Some Wait_AGENT_CALL
          else Some Wait_SERVER_PROCESSING)"

definition agent_call_feedback_kind :: "agent_run \<Rightarrow> agent_run_feedback_kind" where
  "agent_call_feedback_kind task =
     (if ar_status task = Run_COMPLETED then FKind_AGENT_CALL_RESULT else FKind_AGENT_CALL_FAILED)"

definition agent_call_feedback_payload :: "agent_run \<Rightarrow> agent_run_relation \<Rightarrow> pyobj" where
  "agent_call_feedback_payload task relation =
     (let payload_data = rl_payload relation;
          given_scope = str_strip (str_or_empty (pget payload_data ''conversation_scope''));
          conversation_scope = (if given_scope \<noteq> [] then given_scope
             else if rl_relation_type relation = Rel_AGENT_CALL_PERSISTENT then ''persistent''
             else ''ephemeral'');
          status = agent_run_status_value (ar_status task);
          output = terminal_output task;
          completed = (ar_status task = Run_COMPLETED);
          payload =
            [(''agent_id'', PStr (ar_agent_id task)),
             (''target_agent_run_id'', PStr (ar_id task)),
             (''conversation_scope'', PStr conversation_scope),
             (''wait'', PBool (pget payload_data ''wait'' = PBool True)),
             (''thread_key'', PStr (str_or_empty (pget payload_data ''thread_key''))),
             (''status'', PStr status),
             (''summary'', PStr (if completed then output else [])),
             (''evidence_refs'', PList []),
             (''artifact_refs'', PList []),
             (''metrics'', PDict []),
             (''error_code'', PStr []),
             (''message'', PStr [])]
      in if completed then payload
         else dict_set ''message''
                (PStr (text_or (ar_failure_reason task) (if output = [] then status else output)))
                (dict_set ''error_code'' (PStr (text_or (ar_failure_reason task) status)) payload))"

definition agent_call_feedback_prompt :: "pyobj \<Rightarrow> string" where
  "agent_call_feedback_prompt payload =
     (let status = str_strip (str_or_empty (pget payload ''status''));
          agent_id = str_strip (str_or_empty (pget payload ''agent_id''));
          summary = str_strip (str_or_empty (py_or (pget payload ''summary'') (pget payload ''message'')))
      in ''Agent '' @ agent_id @ '' finished with status '' @ status @
         (if summary \<noteq> [] then '': '' @ summary else []))"

definition activation_can_resume_from_feedback :: "agent_run_activation option \<Rightarrow> bool" where
  "activation_can_resume_from_feedback activation \<longleftrightarrow>
     (case activation of None \<Rightarrow> True
      | Some a \<Rightarrow> ac_status a \<in> {Act_COMPLETED, Act_FAILED, Act_CANCELLED, Act_BLOCKED, Act_WAITING})"

definition agent_run_closes_session_run_binding :: "agent_run \<Rightarrow> bool" where
  "agent_run_closes_session_run_binding task \<longleftrightarrow> ar_status task \<in> {Run_FAILED, Run_CANCELLED}"

lemma run_status_value_nonempty [simp]: "agent_run_status_value s \<noteq> []"
  by (cases s) simp_all

lemma feedback_payload_lemma:
  "pget (agent_call_feedback_payload task relation) ''status'' =
     PStr (agent_run_status_value (ar_status task)) \<and>
   (if ar_status task = Run_COMPLETED
    then pget (agent_call_feedback_payload task relation) ''summary'' = PStr (terminal_output task) \<and>
         pget (agent_call_feedback_payload task relation) ''error_code'' = PStr [] \<and>
         pget (agent_call_feedback_payload task relation) ''message'' = PStr []
    else pget (agent_call_feedback_payload task relation) ''summary'' = PStr [] \<and>
         (\<exists>code msg. pget (agent_call_feedback_payload task relation) ''error_code'' = PStr code \<and>
            pget (agent_call_feedback_payload task relation) ''message'' = PStr msg \<and>
            code \<noteq> [] \<and> msg \<noteq> []))"
  by (simp add: agent_call_feedback_payload_def Let_def pget_def text_or_def)

section \<open>Call grants\<close>

record agent_call_grant =
  gr_user_id :: string
  gr_grant_scope :: string
  gr_main_agent_id :: string
  gr_target_agent_id :: string
  gr_conversation_scope :: string
  gr_capability_scope :: pyobj
  gr_target_config_version :: string
  gr_granted_at :: "string option"
  gr_expires_at :: "string option"
  gr_revoked_at :: "string option"
  gr_metadata :: pyobj

definition agent_call_grant_post_init :: "agent_call_grant \<Rightarrow> agent_call_grant result" where
  "agent_call_grant_post_init g =
     res_bind (string_choices (PList [PStr (gr_conversation_scope g)]) agent_callable_scopes
                 ''AgentCallGrant.conversation_scope'' []) (\<lambda>scopes.
       case scopes of [] \<Rightarrow> Inl IndexError
       | scope # _ \<Rightarrow> Inr (g\<lparr>gr_conversation_scope := scope\<rparr>))"

definition agent_call_grant_key ::
  "string \<Rightarrow> string \<Rightarrow> string \<Rightarrow> string \<Rightarrow> string \<Rightarrow> pyobj \<Rightarrow> string \<Rightarrow> string list" where
  "agent_call_grant_key user_id grant_scope main_agent_id target_agent_id conversation_scope
       capability_scope target_config_version =
     [str_strip user_id, str_strip grant_scope, str_strip main_agent_id, str_strip target_agent_id,
      str_strip conversation_scope, json_dumps (PDict capability_scope),
      str_strip target_config_version]"

type_synonym iso_clock = "string \<Rightarrow> (int \<times> bool) option"

definition agent_call_grant_is_active :: "iso_clock \<Rightarrow> int \<Rightarrow> agent_call_grant option \<Rightarrow> bool" where
  "agent_call_grant_is_active fromisoformat now grant =
     (case grant of None \<Rightarrow> False
      | Some g \<Rightarrow>
          if str_strip (opt_str (gr_revoked_at g)) \<noteq> [] then False
          else (let expires_at = str_strip (opt_str (gr_expires_at g))
                in if expires_at = [] then True
                   else case fromisoformat (str_replace ''Z'' ''+00:00'' expires_at) of
                       None \<Rightarrow> False
                     | Some (expires, aware) \<Rightarrow> expires > now))"

lemma grant_active_antimono:
  "agent_call_grant_is_active fromisoformat now g \<Longrightarrow> now' \<le> now \<Longrightarrow>
   agent_call_grant_is_active fromisoformat now' g"
  by (auto simp: agent_call_grant_is_active_def Let_def split: option.splits if_splits)

section \<open>Events and pull requests\<close>

record agent_run_event =
  e_task_id :: string
  e_seq :: nat
  e_type :: string
  e_payload :: pyobj

definition agent_run_event_to_dict :: "agent_run_event \<Rightarrow> pyobj" where
  "agent_run_event_to_dict e =
     [(''agent_run_id'', PStr (e_task_id e)), (''seq'', PInt (int (e_seq e))),
      (''type'', PStr (e_type e)), (''payload'', PDict (e_payload e))]"

record pr_artifact_result =
  pr_branch_name :: string
  pr_pr_url :: string
  pr_metadata :: pyobj

text \<open>The size of a text in UTF-8: two bytes for each character from code point 128 on.\<close>

definition utf8_length :: "string \<Rightarrow> int" where
  "utf8_length s = sum_list (map (\<lambda>c. if code_point c < 128 then 1 else 2) s)"

definition pr_create_or_update ::
  "string \<Rightarrow> agent_run \<Rightarrow> string \<Rightarrow> string option \<Rightarrow> pr_artifact_result" where
  "pr_create_or_update base_url task diff branch_name =
     \<lparr>pr_branch_name = text_or branch_name
        (''agent/'' @ ar_agent_id task @ ''/'' @ take 12 (ar_id task)),
      pr_pr_url = rstrip_by (\<lambda>c. c = CHR ''/'') base_url @ ''/'' @ ar_id task,
      pr_metadata = [(''diff_bytes'', PInt (utf8_length diff))]\<rparr>"

section \<open>Model bindings\<close>

definition agent_model_binding :: "pyobj \<Rightarrow> pyobj" where
  "agent_model_binding raw_agent =
     (let raw_model = dict_value (pget raw_agent ''model'');
          provider = str_strip (str_or_empty (pget raw_model ''provider''));
          model = str_strip (str_or_empty (pget raw_model ''model''));
          display_name = pget raw_model ''display_name'';
          parameters = dict_value (pget raw_model ''parameters'')
      in if provider = [] \<or> model = [] then []
         else [(''provider'', PStr provider), (''model'', PStr model)] @
           (if truthy display_name then [(''display_name'', PStr (py_str display_name))] else []) @
           (if parameters \<noteq> [] then [(''parameters'', PDict parameters)] else []))"

definition string_list_from :: "pyval \<Rightarrow> string list" where
  "string_list_from value =
     (case value of
        PList items \<Rightarrow> filter (\<lambda>s. str_strip s \<noteq> []) (map py_str items)
      | _ \<Rightarrow> if value = PNone \<or> value = PStr [] then [] else [py_str value])"

lemma string_list_copies_agree: "string_list_from v = string_list v"
  by (cases v) (auto simp: string_list_from_def string_list_def filter_map comp_def)

section \<open>Properties\<close>

text \<open>A normalised budget has known fields only, each once and with a positive amount, and
  normalising it again gives the same budget.\<close>

theorem budget_normal_form:
  assumes "normalize_agent_run_budget v = Inr b"
  shows "distinct (dict_keys b) \<and>
    (\<forall>(k, n) \<in> set b. k \<in> set runtime_budget_fields \<and> 0 < n) \<and>
    normalize_agent_run_budget (PDict (int_pairs b)) = Inr b"
proof -
  have "budget_ok b" using assms by (rule normalize_budget_lemma)
  then show ?thesis
    using normalize_budget_idem_lemma[of b] by (simp add: budget_ok_def dict_wf_def dict_keys_def)
qed

lemma budget_normal_form_witness:
  "normalize_agent_run_budget (PDict (int_pairs [(''max_turns'', 3)])) = Inr [(''max_turns'', 3)]"
proof -
  have "normalize_agent_run_budget (PDict [('' max_turns '', PStr ''3''), (''timeout_sec'', PNone)]) =
      Inr [(''max_turns'', 3)]"
    by code_simp
  from budget_normal_form[OF this] show ?thesis by blast
qed

text \<open>The relation recorded with a submitted run always relates a different owner to exactly the
  submitted run.\<close>

theorem submitted_relation_sound:
  assumes "relation_from_submit_request task_id request = Inr (Some r)"
  shows "rl_related_agent_run_id r = task_id \<and> rl_owner_agent_run_id r \<noteq> [] \<and>
    rl_owner_agent_run_id r \<noteq> task_id \<and> rl_id r \<noteq> []"
  using assms by (rule submitted_relation_lemma)

definition demo_submit :: agent_run_request where
  "demo_submit =
     \<lparr>sq_agent_id = ''a1'', sq_prompt = ''go'', sq_owner_session_run_id = [],
      sq_source = Source_MANUAL, sq_executor = None, sq_execution_location = None,
      sq_worker_kind = None, sq_model_request_origin = None, sq_worktree_role = None,
      sq_publish_policy = None, sq_trigger_mode = Trigger_ISSUE_TASK, sq_runtime_profile_id = None,
      sq_workdir = None, sq_executor_session_id = None, sq_model = None, sq_sandbox_id = None,
      sq_sandbox_session_id = None, sq_workspace_ref = None, sq_budget = [], sq_metadata = [],
      sq_relation = Some (demo_relation\<lparr>rl_related_agent_run_id := [], rl_id := []\<rparr>)\<rparr>"

lemma submitted_relation_sound_witness:
  "\<exists>r. relation_from_submit_request ''run2'' demo_submit = Inr (Some r) \<and>
     rl_related_agent_run_id r = ''run2''"
proof -
  have "is_ok (relation_from_submit_request ''run2'' demo_submit)"
    "projr (relation_from_submit_request ''run2'' demo_submit) \<noteq> None"
    by code_simp+
  then obtain r where "relation_from_submit_request ''run2'' demo_submit = Inr (Some r)"
    by (auto simp: is_ok_iff)
  with submitted_relation_sound[OF this] show ?thesis by blast
qed

text \<open>The feedback of an agent call reports the status of the called run; a completed call
  carries its output as summary and no error, any other carries no summary but an error code and a
  message.\<close>

theorem agent_call_feedback_reports:
  "pget (agent_call_feedback_payload task relation) ''status'' =
     PStr (agent_run_status_value (ar_status task)) \<and>
   (if ar_status task = Run_COMPLETED
    then pget (agent_call_feedback_payload task relation) ''summary'' = PStr (terminal_output task) \<and>
         pget (agent_call_feedback_payload task relation) ''error_code'' = PStr [] \<and>
         pget (agent_call_feedback_payload task relation) ''message'' = PStr []
    else pget (agent_call_feedback_payload task relation) ''summary'' = PStr [] \<and>
         (\<exists>code msg. pget (agent_call_feedback_payload task relation) ''error_code'' = PStr code \<and>
            pget (agent_call_feedback_payload task relation) ''message'' = PStr msg \<and>
            code \<noteq> [] \<and> msg \<noteq> []))"
  by (rule feedback_payload_lemma)

end
