(* ===== verification/TokenManager.thy ===== *)
theory TokenManager
  imports Coercions
begin

text \<open>
  The token store of the relay, from \<open>src/labrastro_server/relay/auth.py\<close>: one-time bootstrap tokens
  and short-lived peer tokens. The clock (\<open>time.time()\<close>) is the argument \<open>now\<close>, in integral ticks,
  and the random text of a new token (\<open>secrets.token_urlsafe\<close>) the argument \<open>fresh\<close>.

  The locale \<open>session_tokens\<close> states what the relay relies on (a token verifies from its issue or
  its last refresh until its time to live has passed, and never after it has been revoked) and
  derives the two facts about a session: regular heartbeats keep it alive, and a token that no longer
  verifies stays dead.
\<close>

section \<open>State and operations\<close>

record token_entry =
  te_token :: string
  te_expires_at :: int
  te_used :: bool
  te_peer_id :: "string option"
  te_claims :: pyobj

record token_manager =
  tm_bootstrap :: "(string, token_entry) pydict"
  tm_peers :: "(string, token_entry) pydict"

definition token_manager_init :: token_manager where
  "token_manager_init = \<lparr>tm_bootstrap = [], tm_peers = []\<rparr>"

definition issue_bootstrap_token ::
  "int \<Rightarrow> string \<Rightarrow> int \<Rightarrow> pyobj \<Rightarrow> token_manager \<Rightarrow> string \<times> token_manager" where
  "issue_bootstrap_token now fresh ttl_sec claims tm =
     (let token = ''bt_'' @ fresh;
          entry = \<lparr>te_token = token, te_expires_at = now + ttl_sec, te_used = False,
                   te_peer_id = None, te_claims = claims\<rparr>
      in (token, tm\<lparr>tm_bootstrap := dict_set token entry (tm_bootstrap tm)\<rparr>))"

definition consume_bootstrap_token ::
  "int \<Rightarrow> string \<Rightarrow> token_manager \<Rightarrow> pyobj option \<times> token_manager" where
  "consume_bootstrap_token now token tm =
     (case dict_get (tm_bootstrap tm) token of
        None \<Rightarrow> (None, tm)
      | Some entry \<Rightarrow>
          if te_used entry then (None, tm)
          else if now > te_expires_at entry then (None, tm)
          else (Some (te_claims entry),
                tm\<lparr>tm_bootstrap := dict_set token (entry\<lparr>te_used := True\<rparr>) (tm_bootstrap tm)\<rparr>))"

definition issue_peer_token ::
  "int \<Rightarrow> string \<Rightarrow> string \<Rightarrow> int \<Rightarrow> token_manager \<Rightarrow> string \<times> token_manager" where
  "issue_peer_token now fresh peer_id ttl_sec tm =
     (let token = ''pt_'' @ fresh;
          entry = \<lparr>te_token = token, te_expires_at = now + ttl_sec, te_used = False,
                   te_peer_id = Some peer_id, te_claims = []\<rparr>
      in (token, tm\<lparr>tm_peers := dict_set token entry (tm_peers tm)\<rparr>))"

definition verify_peer_token :: "int \<Rightarrow> string \<Rightarrow> token_manager \<Rightarrow> string option" where
  "verify_peer_token now token tm =
     (case dict_get (tm_peers tm) token of
        None \<Rightarrow> None
      | Some entry \<Rightarrow> if now > te_expires_at entry then None else te_peer_id entry)"

definition refresh_peer_token ::
  "int \<Rightarrow> string \<Rightarrow> int \<Rightarrow> token_manager \<Rightarrow> string option \<times> token_manager" where
  "refresh_peer_token now token ttl_sec tm =
     (case dict_get (tm_peers tm) token of
        None \<Rightarrow> (None, tm)
      | Some entry \<Rightarrow>
          if now > te_expires_at entry then (None, tm)
          else (te_peer_id entry,
                tm\<lparr>tm_peers := dict_set token (entry\<lparr>te_expires_at := now + ttl_sec\<rparr>)
                     (tm_peers tm)\<rparr>))"

definition revoke_peer_token :: "string \<Rightarrow> token_manager \<Rightarrow> token_manager" where
  "revoke_peer_token token tm = tm\<lparr>tm_peers := dict_pop token (tm_peers tm)\<rparr>"

definition mask_token :: "string \<Rightarrow> string" where
  "mask_token token =
     (if length token \<le> 12 then ''***''
      else take 6 token @ ''...'' @ drop (length token - 4) token)"

definition expired_keys :: "int \<Rightarrow> (string, token_entry) pydict \<Rightarrow> string list" where
  "expired_keys now store = map fst (filter (\<lambda>(k, v). now > te_expires_at v) store)"

definition prune_expired :: "int \<Rightarrow> token_manager \<Rightarrow> nat \<times> token_manager" where
  "prune_expired now tm =
     (let b = expired_keys now (tm_bootstrap tm);
          p = expired_keys now (tm_peers tm)
      in (length b + length p,
          tm\<lparr>tm_bootstrap := fold dict_pop b (tm_bootstrap tm),
             tm_peers := fold dict_pop p (tm_peers tm)\<rparr>))"

section \<open>Invariant\<close>

text \<open>Both stores have distinct keys, every peer token names a peer, and the two kinds of token
  cannot be confused.\<close>

definition token_manager_wf :: "token_manager \<Rightarrow> bool" where
  "token_manager_wf tm \<longleftrightarrow>
     dict_wf (tm_bootstrap tm) \<and> dict_wf (tm_peers tm) \<and>
     (\<forall>t e. dict_get (tm_peers tm) t = Some e \<longrightarrow> te_peer_id e \<noteq> None) \<and>
     (\<forall>t. dict_get (tm_bootstrap tm) t \<noteq> None \<longrightarrow> startswith t ''bt_'') \<and>
     (\<forall>t. dict_get (tm_peers tm) t \<noteq> None \<longrightarrow> startswith t ''pt_'')"

lemma token_manager_wf_init [simp]: "token_manager_wf token_manager_init"
  by (simp add: token_manager_wf_def token_manager_init_def)

lemma token_prefixes [simp]:
  "startswith (CHR ''b'' # CHR ''t'' # CHR ''_'' # s) ''bt_''"
  "startswith (CHR ''p'' # CHR ''t'' # CHR ''_'' # s) ''pt_''"
  by (simp_all add: startswith_def)

lemma issue_bootstrap_wf [inv_intros]:
  "token_manager_wf tm \<Longrightarrow> token_manager_wf (snd (issue_bootstrap_token now fresh ttl claims tm))"
  by (simp add: token_manager_wf_def issue_bootstrap_token_def Let_def)

lemma consume_wf [inv_intros]:
  "token_manager_wf tm \<Longrightarrow> token_manager_wf (snd (consume_bootstrap_token now token tm))"
  by (auto simp: token_manager_wf_def consume_bootstrap_token_def split: option.split)

lemma issue_peer_wf [inv_intros]:
  "token_manager_wf tm \<Longrightarrow> token_manager_wf (snd (issue_peer_token now fresh peer ttl tm))"
  by (simp add: token_manager_wf_def issue_peer_token_def Let_def)

lemma refresh_wf [inv_intros]:
  "token_manager_wf tm \<Longrightarrow> token_manager_wf (snd (refresh_peer_token now token ttl tm))"
  by (auto simp: token_manager_wf_def refresh_peer_token_def split: option.split)

lemma revoke_wf [inv_intros]:
  "token_manager_wf tm \<Longrightarrow> token_manager_wf (revoke_peer_token token tm)"
  by (simp add: token_manager_wf_def revoke_peer_token_def)

lemma expired_key_iff:
  "dict_wf d \<Longrightarrow>
   k \<in> set (expired_keys now d) \<longleftrightarrow> (\<exists>e. dict_get d k = Some e \<and> now > te_expires_at e)"
  by (force simp: expired_keys_def dest: dict_wf_get dict_get_in_set)

lemma prune_get_bootstrap:
  "dict_get (tm_bootstrap (snd (prune_expired now tm))) k =
   (if k \<in> set (expired_keys now (tm_bootstrap tm)) then None else dict_get (tm_bootstrap tm) k)"
  by (simp add: prune_expired_def Let_def pd.fold_drop)

lemma prune_get_peers:
  "dict_get (tm_peers (snd (prune_expired now tm))) k =
   (if k \<in> set (expired_keys now (tm_peers tm)) then None else dict_get (tm_peers tm) k)"
  by (simp add: prune_expired_def Let_def pd.fold_drop)

lemma prune_wf [inv_intros]:
  assumes "token_manager_wf tm"
  shows "token_manager_wf (snd (prune_expired now tm))"
proof -
  have "dict_wf (tm_bootstrap (snd (prune_expired now tm)))"
    "dict_wf (tm_peers (snd (prune_expired now tm)))"
    using assms by (simp_all add: token_manager_wf_def prune_expired_def Let_def pd.ok_fold_drop)
  then show ?thesis
    using assms by (auto simp: token_manager_wf_def prune_get_bootstrap prune_get_peers)
qed

section \<open>Sessions\<close>

locale session_tokens =
  fixes issue :: "int \<Rightarrow> 't \<Rightarrow> 'p \<Rightarrow> int \<Rightarrow> 's \<Rightarrow> 's"
    and verify :: "int \<Rightarrow> 't \<Rightarrow> 's \<Rightarrow> 'p option"
    and refresh :: "int \<Rightarrow> 't \<Rightarrow> int \<Rightarrow> 's \<Rightarrow> 's"
    and revoke :: "'t \<Rightarrow> 's \<Rightarrow> 's"
    and prune :: "int \<Rightarrow> 's \<Rightarrow> 's"
    and ok :: "'s \<Rightarrow> bool"
  assumes verify_issue:
      "verify now t (issue now0 t p ttl s) = (if now \<le> now0 + ttl then Some p else None)"
    and verify_issue_other: "t' \<noteq> t \<Longrightarrow> verify now t' (issue now0 t p ttl s) = verify now t' s"
    and verify_mono: "verify now t s = Some p \<Longrightarrow> now' \<le> now \<Longrightarrow> verify now' t s = Some p"
    and verify_refresh:
      "verify now0 t s = Some p \<Longrightarrow>
       verify now t (refresh now0 t ttl s) = (if now \<le> now0 + ttl then Some p else None)"
    and refresh_dead: "ok s \<Longrightarrow> verify now0 t s = None \<Longrightarrow> refresh now0 t ttl s = s"
    and verify_refresh_other: "t' \<noteq> t \<Longrightarrow> verify now t' (refresh now0 t ttl s) = verify now t' s"
    and verify_revoke:
      "verify now t' (revoke t s) = (if t' = t then None else verify now t' s)"
    and verify_prune: "ok s \<Longrightarrow> now0 \<le> now \<Longrightarrow> verify now t (prune now0 s) = verify now t s"
    and ok_issue: "ok s \<Longrightarrow> ok (issue now0 t p ttl s)"
    and ok_refresh: "ok s \<Longrightarrow> ok (refresh now0 t ttl s)"
    and ok_revoke: "ok s \<Longrightarrow> ok (revoke t s)"
    and ok_prune: "ok s \<Longrightarrow> ok (prune now0 s)"
begin

text \<open>The heartbeats of one peer, at the given times.\<close>

fun beats :: "'t \<Rightarrow> int \<Rightarrow> int list \<Rightarrow> 's \<Rightarrow> 's" where
  "beats t ttl [] s = s"
| "beats t ttl (now # nows) s = beats t ttl nows (refresh now t ttl s)"

fun regular :: "int \<Rightarrow> int \<Rightarrow> int list \<Rightarrow> bool" where
  "regular ttl start [] = True"
| "regular ttl start (now # nows) = (start \<le> now \<and> now \<le> start + ttl \<and> regular ttl now nows)"

lemma beats_keep_alive:
  assumes "\<And>now. verify now t s = (if now \<le> start + ttl then Some p else None)"
    and "regular ttl start nows"
  shows "verify now t (beats t ttl nows s) =
    (if now \<le> last (start # nows) + ttl then Some p else None)"
  using assms
proof (induction nows arbitrary: s start)
  case Nil
  then show ?case by simp
next
  case (Cons x nows)
  have "verify x t s = Some p" using Cons.prems by simp
  then have step: "\<And>now. verify now t (refresh x t ttl s) =
      (if now \<le> x + ttl then Some p else None)" by (rule verify_refresh)
  have "regular ttl x nows" using Cons.prems(2) by simp
  from Cons.IH[OF step this] show ?case by simp
qed

lemma session_alive:
  assumes "regular ttl start nows"
  shows "verify now t (beats t ttl nows (issue start t p ttl s)) =
    (if now \<le> last (start # nows) + ttl then Some p else None)"
  using assms by (intro beats_keep_alive) (simp_all add: verify_issue)

lemma dead_stays_dead:
  assumes "ok s" and "verify now t s = None"
  shows "now \<le> now' \<Longrightarrow> verify now' t (refresh now' t' ttl s) = None"
    and "now \<le> now' \<Longrightarrow> verify now' t (revoke t' s) = None"
    and "now \<le> now' \<Longrightarrow> verify now' t (prune now' s) = None"
    and "t' \<noteq> t \<Longrightarrow> now \<le> now' \<Longrightarrow> verify now' t (issue now' t' p ttl s) = None"
proof -
  have dead: "verify now' t s = None" if "now \<le> now'" for now'
    using assms(2) verify_mono[OF _ that, of t s] by (cases "verify now' t s") auto
  show "now \<le> now' \<Longrightarrow> verify now' t (refresh now' t' ttl s) = None"
    using dead refresh_dead[OF assms(1) dead] verify_refresh_other by (cases "t' = t") auto
  show "now \<le> now' \<Longrightarrow> verify now' t (revoke t' s) = None" using dead by (simp add: verify_revoke)
  show "now \<le> now' \<Longrightarrow> verify now' t (prune now' s) = None"
    using dead verify_prune[OF assms(1)] by simp
  show "t' \<noteq> t \<Longrightarrow> now \<le> now' \<Longrightarrow> verify now' t (issue now' t' p ttl s) = None"
    using dead verify_issue_other by auto
qed

end

lemma verify_iff:
  "verify_peer_token now t tm =
   Option.bind (dict_get (tm_peers tm) t) (\<lambda>e. if now > te_expires_at e then None else te_peer_id e)"
  by (simp add: verify_peer_token_def split: option.splits)

text \<open>The issue operation by the token it yields: \<open>fresh\<close> is the token without its prefix.\<close>

definition issue_at :: "int \<Rightarrow> string \<Rightarrow> string \<Rightarrow> int \<Rightarrow> token_manager \<Rightarrow> token_manager" where
  "issue_at now fresh peer ttl tm = snd (issue_peer_token now fresh peer ttl tm)"

definition verify_fresh :: "int \<Rightarrow> string \<Rightarrow> token_manager \<Rightarrow> string option" where
  "verify_fresh now fresh tm = verify_peer_token now (''pt_'' @ fresh) tm"

definition refresh_at :: "int \<Rightarrow> string \<Rightarrow> int \<Rightarrow> token_manager \<Rightarrow> token_manager" where
  "refresh_at now fresh ttl tm = snd (refresh_peer_token now (''pt_'' @ fresh) ttl tm)"

definition revoke_at :: "string \<Rightarrow> token_manager \<Rightarrow> token_manager" where
  "revoke_at fresh tm = revoke_peer_token (''pt_'' @ fresh) tm"

definition prune_at :: "int \<Rightarrow> token_manager \<Rightarrow> token_manager" where
  "prune_at now tm = snd (prune_expired now tm)"

lemmas session_ops = issue_at_def verify_fresh_def refresh_at_def revoke_at_def prune_at_def

interpretation sess: session_tokens issue_at verify_fresh refresh_at revoke_at prune_at token_manager_wf
proof
  fix now now0 now' ttl :: int and t t' p p' :: string and s :: token_manager
  show "verify_fresh now t (issue_at now0 t p ttl s) = (if now \<le> now0 + ttl then Some p else None)"
    by (simp add: session_ops verify_iff issue_peer_token_def Let_def)
  show "verify_fresh now t' (issue_at now0 t p ttl s) = verify_fresh now t' s" if "t' \<noteq> t"
    using that by (simp add: session_ops verify_iff issue_peer_token_def Let_def)
  show "verify_fresh now' t s = Some p" if "verify_fresh now t s = Some p" "now' \<le> now"
    using that by (auto simp: session_ops verify_peer_token_def split: option.splits if_splits)
  show "verify_fresh now t (refresh_at now0 t ttl s) = (if now \<le> now0 + ttl then Some p else None)"
    if "verify_fresh now0 t s = Some p"
    using that
    by (auto simp: session_ops verify_peer_token_def refresh_peer_token_def
        split: option.splits if_splits)
  show "refresh_at now0 t ttl s = s" if "token_manager_wf s" "verify_fresh now0 t s = None"
  proof (cases "dict_get (tm_peers s) (''pt_'' @ t)")
    case None
    then show ?thesis by (simp add: session_ops refresh_peer_token_def)
  next
    case (Some e)
    with that(1) have "te_peer_id e \<noteq> None" unfolding token_manager_wf_def by blast
    with Some that(2) show ?thesis
      by (simp add: session_ops verify_peer_token_def refresh_peer_token_def split: if_splits)
  qed
  show "verify_fresh now t' (refresh_at now0 t ttl s) = verify_fresh now t' s" if "t' \<noteq> t"
    using that by (auto simp: session_ops verify_iff refresh_peer_token_def split: option.splits)
  show "verify_fresh now t' (revoke_at t s) = (if t' = t then None else verify_fresh now t' s)"
    by (simp add: session_ops verify_iff revoke_peer_token_def)
  show "verify_fresh now t (prune_at now0 s) = verify_fresh now t s"
    if "token_manager_wf s" "now0 \<le> now"
    using that
    by (auto simp: session_ops verify_iff prune_get_peers expired_key_iff token_manager_wf_def
        split: bind_split)
qed (simp_all add: session_ops inv_intros)

section \<open>Histories of the token manager\<close>

datatype token_op =
    IssueBootstrap string int pyobj
  | Consume string
  | IssuePeer string string int
  | Refresh string int
  | Revoke string
  | Prune

fun token_step :: "int \<Rightarrow> token_op \<Rightarrow> token_manager \<Rightarrow> token_manager" where
  "token_step now (IssueBootstrap fresh ttl claims) tm = snd (issue_bootstrap_token now fresh ttl claims tm)"
| "token_step now (Consume token) tm = snd (consume_bootstrap_token now token tm)"
| "token_step now (IssuePeer fresh peer ttl) tm = snd (issue_peer_token now fresh peer ttl tm)"
| "token_step now (Refresh token ttl) tm = snd (refresh_peer_token now token ttl tm)"
| "token_step now (Revoke token) tm = revoke_peer_token token tm"
| "token_step now Prune tm = snd (prune_expired now tm)"

inductive token_reachable :: "token_manager \<Rightarrow> bool" where
  token_reachable_init: "token_reachable token_manager_init"
| token_reachable_step: "token_reachable tm \<Longrightarrow> token_reachable (token_step now op tm)"

lemma token_step_wf: "token_manager_wf tm \<Longrightarrow> token_manager_wf (token_step now op tm)"
  by (cases op) (simp_all add: inv_intros)

lemma token_reachable_wf: "token_reachable tm \<Longrightarrow> token_manager_wf tm"
  by (induction rule: token_reachable.induct) (auto intro: token_step_wf)

text \<open>A consumed bootstrap token is gone for good unless the generator repeats it.\<close>

definition token_spent :: "string \<Rightarrow> token_manager \<Rightarrow> bool" where
  "token_spent token tm \<longleftrightarrow>
     (\<forall>e. dict_get (tm_bootstrap tm) token = Some e \<longrightarrow> te_used e)"

definition reissues :: "string \<Rightarrow> token_op \<Rightarrow> bool" where
  "reissues token op \<longleftrightarrow> (\<exists>fresh ttl claims. op = IssueBootstrap fresh ttl claims \<and> token = ''bt_'' @ fresh)"

fun run_token_ops :: "(int \<times> token_op) list \<Rightarrow> token_manager \<Rightarrow> token_manager" where
  "run_token_ops [] tm = tm"
| "run_token_ops ((now, op) # ops) tm = run_token_ops ops (token_step now op tm)"

lemma consume_spends:
  "consume_bootstrap_token now token tm = (Some claims, tm') \<Longrightarrow> token_spent token tm'"
  by (auto simp: consume_bootstrap_token_def token_spent_def split: option.splits if_splits)

lemma spent_not_consumable:
  "token_spent token tm \<Longrightarrow> consume_bootstrap_token now token tm = (None, tm)"
  by (auto simp: consume_bootstrap_token_def token_spent_def split: option.splits)

lemma token_spent_step:
  assumes "token_spent token tm" and "\<not> reissues token op"
  shows "token_spent token (token_step now op tm)"
proof (cases op)
  case (IssueBootstrap fresh ttl claims)
  then show ?thesis
    using assms by (auto simp: token_spent_def reissues_def issue_bootstrap_token_def Let_def)
next
  case (Consume t)
  then show ?thesis
    using assms by (auto simp: token_spent_def consume_bootstrap_token_def split: option.splits)
next
  case (IssuePeer fresh peer ttl)
  then show ?thesis using assms by (simp add: token_spent_def issue_peer_token_def Let_def)
next
  case (Refresh t ttl)
  then show ?thesis
    using assms by (simp add: token_spent_def refresh_peer_token_def split: option.split)
next
  case (Revoke t)
  then show ?thesis using assms by (simp add: token_spent_def revoke_peer_token_def)
next
  case Prune
  then show ?thesis using assms by (simp add: token_spent_def prune_get_bootstrap)
qed

lemma token_spent_run:
  "token_spent token tm \<Longrightarrow> \<forall>(now, op) \<in> set ops. \<not> reissues token op \<Longrightarrow>
   token_spent token (run_token_ops ops tm)"
  by (induction ops tm rule: run_token_ops.induct) (auto intro: token_spent_step)

section \<open>Properties\<close>

text \<open>A peer whose heartbeats come at least once per time to live keeps its session: at every
  time up to the time to live after the last heartbeat the token verifies, and after that it does
  not.\<close>

theorem heartbeats_keep_session:
  assumes "sess.regular ttl start nows"
  shows "verify_peer_token now (''pt_'' @ fresh)
      (sess.beats fresh ttl nows (snd (issue_peer_token start fresh peer ttl tm))) =
    (if now \<le> last (start # nows) + ttl then Some peer else None)"
  using sess.session_alive[OF assms, of now fresh peer tm] by (simp add: issue_at_def verify_fresh_def)

lemma heartbeats_keep_session_witness:
  "verify_peer_token 200 ''pt_ab''
     (sess.beats ''ab'' 60 [50, 100, 150] (snd (issue_peer_token 0 ''ab'' ''p1'' 60 token_manager_init))) =
   Some ''p1''"
  using heartbeats_keep_session[of 60 0 "[50, 100, 150]" 200 "''ab''" "''p1''" token_manager_init]
  by simp

text \<open>A peer token that has expired cannot be brought back: neither a heartbeat nor a clean-up
  makes it verify again.\<close>

theorem expired_token_stays_dead:
  assumes "token_reachable tm" and "verify_peer_token now (''pt_'' @ fresh) tm = None"
    and "now \<le> now'"
  shows "verify_peer_token now' (''pt_'' @ fresh)
           (snd (refresh_peer_token now' (''pt_'' @ fresh) ttl tm)) = None \<and>
         verify_peer_token now' (''pt_'' @ fresh) (snd (prune_expired now' tm)) = None"
  using sess.dead_stays_dead(1)[OF token_reachable_wf[OF assms(1)], of now fresh now' fresh ttl]
    sess.dead_stays_dead(3)[OF token_reachable_wf[OF assms(1)], of now fresh now'] assms(2,3)
  by (simp add: session_ops)

lemma expired_token_stays_dead_witness:
  "verify_peer_token 100 ''pt_ab'' (snd (refresh_peer_token 100 ''pt_ab'' 60
     (token_step 0 (IssuePeer ''ab'' ''p1'' 60) token_manager_init))) = None"
proof -
  let ?tm = "token_step 0 (IssuePeer ''ab'' ''p1'' 60) token_manager_init"
  have "token_reachable ?tm" by (rule token_reachable_step[OF token_reachable_init])
  moreover have "verify_peer_token 61 (''pt_'' @ ''ab'') ?tm = None" by code_simp
  ultimately show ?thesis
    using expired_token_stays_dead[of ?tm 61 "''ab''" 100 60] by simp
qed

end
