(* ===== verification/PeerRegistry.thy ===== *)
theory PeerRegistry
  imports Coercions
begin

text \<open>
  The registry of connected peers, from \<open>src/labrastro_server/relay/peer_registry.py\<close>. The clock is
  the argument \<open>now\<close> and the fresh \<open>uuid4\<close> the argument \<open>peer_id\<close>. The opaque transport handle
  \<open>conn\<close> has no field; the values a client puts into its metadata keep the type \<open>Any\<close>.
\<close>

record peer_info =
  pi_peer_id :: string
  pi_connected_at :: int
  pi_last_seen_at :: int
  pi_features :: "pyval list"
  pi_cwd :: pyval
  pi_workspace_root :: pyval
  pi_status :: string
  pi_meta :: pyobj

record peer_registry =
  reg_peers :: "(string, peer_info) pydict"
  reg_timeout :: int

text \<open>\<open>list(v)\<close>: the items of a list, the characters of a text, the keys of a dictionary.\<close>

definition py_list :: "pyval \<Rightarrow> pyval list result" where
  "py_list v =
     (case v of
        PList xs \<Rightarrow> Inr xs
      | PStr s \<Rightarrow> Inr (map (\<lambda>c. PStr [c]) s)
      | PDict d \<Rightarrow> Inr (map PStr (dict_keys d))
      | _ \<Rightarrow> Inl (TypeError ''object is not iterable''))"

definition register_peer ::
  "int \<Rightarrow> string \<Rightarrow> pyobj \<Rightarrow> peer_registry \<Rightarrow> (string \<times> peer_registry) result" where
  "register_peer now peer_id meta reg =
     res_bind (if meta \<noteq> [] then py_list (pget_or meta ''features'' (PList [])) else Inr [])
       (\<lambda>features.
     let info = \<lparr>pi_peer_id = peer_id, pi_connected_at = now, pi_last_seen_at = now,
                 pi_features = features,
                 pi_cwd = (if meta \<noteq> [] then pget_or meta ''cwd'' (PStr ''.'') else PStr ''.''),
                 pi_workspace_root = (if meta \<noteq> [] then pget meta ''workspace_root'' else PNone),
                 pi_status = ''online'', pi_meta = meta\<rparr>
     in Inr (peer_id, reg\<lparr>reg_peers := dict_set peer_id info (reg_peers reg)\<rparr>))"

definition update_heartbeat :: "int \<Rightarrow> string \<Rightarrow> peer_registry \<Rightarrow> bool \<times> peer_registry" where
  "update_heartbeat now peer_id reg =
     (case dict_get (reg_peers reg) peer_id of
        None \<Rightarrow> (False, reg)
      | Some info \<Rightarrow>
          (True, reg\<lparr>reg_peers := dict_set peer_id
                       (info\<lparr>pi_last_seen_at := now, pi_status := ''online''\<rparr>) (reg_peers reg)\<rparr>))"

definition mark_disconnected ::
  "string \<Rightarrow> string \<Rightarrow> peer_registry \<Rightarrow> peer_info option \<times> peer_registry" where
  "mark_disconnected peer_id reason reg =
     (case dict_get (reg_peers reg) peer_id of
        None \<Rightarrow> (None, reg)
      | Some info \<Rightarrow>
          (let info = info\<lparr>pi_status := ''offline'',
                 pi_meta := dict_set ''disconnect_reason'' (PStr reason) (pi_meta info)\<rparr>
           in (Some info, reg\<lparr>reg_peers := dict_set peer_id info (reg_peers reg)\<rparr>)))"

definition get_peer :: "string \<Rightarrow> peer_registry \<Rightarrow> peer_info option" where
  "get_peer peer_id reg =
     (case dict_get (reg_peers reg) peer_id of
        None \<Rightarrow> None
      | Some info \<Rightarrow> if pi_status info \<noteq> ''online'' then None else Some info)"

definition get_any_peer :: "string \<Rightarrow> peer_registry \<Rightarrow> peer_info option" where
  "get_any_peer peer_id reg = dict_get (reg_peers reg) peer_id"

definition list_online :: "peer_registry \<Rightarrow> peer_info list" where
  "list_online reg = filter (\<lambda>p. pi_status p = ''online'') (dict_values (reg_peers reg))"

definition pick_default_peer :: "peer_registry \<Rightarrow> peer_info option" where
  "pick_default_peer reg =
     (case list_online reg of [] \<Rightarrow> None | p # _ \<Rightarrow> Some p)"

definition peer_is_stale :: "int \<Rightarrow> int \<Rightarrow> peer_info \<Rightarrow> bool" where
  "peer_is_stale now timeout info \<longleftrightarrow>
     pi_status info = ''online'' \<and> now - pi_last_seen_at info > timeout"

definition prune_stale :: "int \<Rightarrow> peer_registry \<Rightarrow> string list \<times> peer_registry" where
  "prune_stale now reg =
     (map fst (filter (\<lambda>(peer_id, info). peer_is_stale now (reg_timeout reg) info) (reg_peers reg)),
      reg\<lparr>reg_peers := map (\<lambda>(peer_id, info).
            (peer_id,
             if peer_is_stale now (reg_timeout reg) info
             then info\<lparr>pi_status := ''offline'',
                  pi_meta := dict_set ''disconnect_reason'' (PStr ''heartbeat_timeout'') (pi_meta info)\<rparr>
             else info)) (reg_peers reg)\<rparr>)"

definition remove_peer :: "string \<Rightarrow> peer_registry \<Rightarrow> bool \<times> peer_registry" where
  "remove_peer peer_id reg =
     (dict_has (reg_peers reg) peer_id, reg\<lparr>reg_peers := dict_pop peer_id (reg_peers reg)\<rparr>)"

section \<open>Invariant\<close>

definition peer_info_ok :: "string \<Rightarrow> peer_info \<Rightarrow> bool" where
  "peer_info_ok k info \<longleftrightarrow> pi_peer_id info = k \<and> pi_connected_at info \<le> pi_last_seen_at info \<and>
     (pi_status info = ''online'' \<or> pi_status info = ''offline'')"

definition peer_registry_wf :: "peer_registry \<Rightarrow> bool" where
  "peer_registry_wf reg \<longleftrightarrow> dict_wf (reg_peers reg) \<and>
     (\<forall>k info. dict_get (reg_peers reg) k = Some info \<longrightarrow> peer_info_ok k info)"

lemma peer_registry_wfD:
  "peer_registry_wf reg \<Longrightarrow> dict_get (reg_peers reg) k = Some info \<Longrightarrow> peer_info_ok k info"
  by (simp add: peer_registry_wf_def)

lemma peer_registry_wf_set:
  "peer_registry_wf reg \<Longrightarrow> peer_info_ok k info \<Longrightarrow>
   peer_registry_wf (reg\<lparr>reg_peers := dict_set k info (reg_peers reg)\<rparr>)"
  by (simp add: peer_registry_wf_def)

lemma register_wf [inv_intros]:
  "peer_registry_wf reg \<Longrightarrow> register_peer now peer_id meta reg = Inr (p, reg') \<Longrightarrow> peer_registry_wf reg'"
  unfolding register_peer_def res_bind_Inr_iff Let_def
  by (elim exE conjE) (auto intro!: peer_registry_wf_set simp: peer_info_ok_def)

text \<open>The clock does not run backwards: \<open>now\<close> is not before any recorded time.\<close>

definition registry_before :: "int \<Rightarrow> peer_registry \<Rightarrow> bool" where
  "registry_before now reg \<longleftrightarrow>
     (\<forall>k info. dict_get (reg_peers reg) k = Some info \<longrightarrow> pi_last_seen_at info \<le> now)"

lemma heartbeat_wf [inv_intros]:
  "peer_registry_wf reg \<Longrightarrow> registry_before now reg \<Longrightarrow>
   peer_registry_wf (snd (update_heartbeat now peer_id reg))"
  by (cases "dict_get (reg_peers reg) peer_id")
    (fastforce simp: update_heartbeat_def registry_before_def peer_info_ok_def
      intro!: peer_registry_wf_set dest: peer_registry_wfD)+

lemma disconnect_wf [inv_intros]:
  "peer_registry_wf reg \<Longrightarrow> peer_registry_wf (snd (mark_disconnected peer_id reason reg))"
  by (cases "dict_get (reg_peers reg) peer_id")
    (auto simp: mark_disconnected_def Let_def peer_info_ok_def
      intro!: peer_registry_wf_set dest: peer_registry_wfD)

lemma prune_stale_get:
  "dict_get (reg_peers (snd (prune_stale now reg))) k =
   map_option (\<lambda>info. if peer_is_stale now (reg_timeout reg) info
      then info\<lparr>pi_status := ''offline'',
             pi_meta := dict_set ''disconnect_reason'' (PStr ''heartbeat_timeout'') (pi_meta info)\<rparr>
      else info) (dict_get (reg_peers reg) k)"
  by (simp add: prune_stale_def dict_get_map_values)

lemma prune_stale_keys: "dict_keys (reg_peers (snd (prune_stale now reg))) = dict_keys (reg_peers reg)"
  by (simp add: prune_stale_def dict_keys_map_values)

lemma prune_stale_wf [inv_intros]:
  assumes "peer_registry_wf reg"
  shows "peer_registry_wf (snd (prune_stale now reg))"
proof -
  have "dict_wf (reg_peers (snd (prune_stale now reg)))"
    using assms prune_stale_keys[of now reg]
    by (simp add: peer_registry_wf_def dict_wf_def dict_keys_def)
  then show ?thesis
    using assms by (auto simp: peer_registry_wf_def prune_stale_get peer_info_ok_def)
qed

lemma remove_wf [inv_intros]:
  "peer_registry_wf reg \<Longrightarrow> peer_registry_wf (snd (remove_peer peer_id reg))"
  by (auto simp: peer_registry_wf_def remove_peer_def)

section \<open>Liveness of peers\<close>

lemma get_peer_Some_iff:
  "get_peer k reg = Some info \<longleftrightarrow> dict_get (reg_peers reg) k = Some info \<and> pi_status info = ''online''"
  by (auto simp: get_peer_def split: option.splits)

lemma dict_wf_in_iff: "dict_wf d \<Longrightarrow> (k, v) \<in> set d \<longleftrightarrow> dict_get d k = Some v"
  by (auto intro: dict_wf_get dict_get_in_set)

lemma prune_stale_ids:
  assumes "peer_registry_wf reg"
  shows "k \<in> set (fst (prune_stale now reg)) \<longleftrightarrow>
    (\<exists>info. get_peer k reg = Some info \<and> now - pi_last_seen_at info > reg_timeout reg)"
proof -
  have wf: "dict_wf (reg_peers reg)" using assms by (simp add: peer_registry_wf_def)
  have "k \<in> set (fst (prune_stale now reg)) \<longleftrightarrow>
      (\<exists>info. (k, info) \<in> set (reg_peers reg) \<and> peer_is_stale now (reg_timeout reg) info)"
    by (force simp: prune_stale_def)
  then show ?thesis
    by (auto simp: dict_wf_in_iff[OF wf] get_peer_Some_iff peer_is_stale_def)
qed

lemma get_peer_after_prune:
  "get_peer k (snd (prune_stale now reg)) =
   (case get_peer k reg of
      None \<Rightarrow> None
    | Some info \<Rightarrow> if now - pi_last_seen_at info > reg_timeout reg then None else Some info)"
  by (auto simp: get_peer_def prune_stale_get peer_is_stale_def split: option.splits)

lemma get_peer_after_disconnect:
  "get_peer k (snd (mark_disconnected peer_id reason reg)) =
   (if k = peer_id then None else get_peer k reg)"
  by (auto simp: get_peer_def mark_disconnected_def Let_def split: option.splits)

lemma get_peer_after_heartbeat:
  "k \<noteq> peer_id \<Longrightarrow> get_peer k (snd (update_heartbeat now peer_id reg)) = get_peer k reg"
  "get_peer peer_id (snd (update_heartbeat now peer_id reg)) =
   map_option (\<lambda>info. info\<lparr>pi_last_seen_at := now, pi_status := ''online''\<rparr>)
     (dict_get (reg_peers reg) peer_id)"
  by (auto simp: get_peer_def update_heartbeat_def split: option.splits)

lemma list_online_iff:
  assumes "peer_registry_wf reg"
  shows "info \<in> set (list_online reg) \<longleftrightarrow> get_peer (pi_peer_id info) reg = Some info"
proof -
  have wf: "dict_wf (reg_peers reg)" using assms by (simp add: peer_registry_wf_def)
  have "info \<in> set (list_online reg) \<longleftrightarrow>
      (\<exists>k. dict_get (reg_peers reg) k = Some info) \<and> pi_status info = ''online''"
    by (force simp: list_online_def dict_values_def dict_wf_in_iff[OF wf, symmetric])
  then show ?thesis
    using peer_registry_wfD[OF assms] by (auto simp: get_peer_Some_iff peer_info_ok_def)
qed

lemma pick_default_iff:
  "pick_default_peer reg = None \<longleftrightarrow> list_online reg = []"
  "pick_default_peer reg = Some p \<Longrightarrow> p \<in> set (list_online reg)"
  by (auto simp: pick_default_peer_def split: list.splits)

section \<open>Properties\<close>

text \<open>Pruning takes exactly the online peers offline whose last heartbeat is older than the
  timeout, reports exactly those, and leaves every other peer as it was.\<close>

theorem prune_stale_exact:
  assumes "peer_registry_wf reg"
  shows "(k \<in> set (fst (prune_stale now reg)) \<longleftrightarrow>
      (\<exists>info. get_peer k reg = Some info \<and> now - pi_last_seen_at info > reg_timeout reg)) \<and>
    get_peer k (snd (prune_stale now reg)) =
      (if k \<in> set (fst (prune_stale now reg)) then None else get_peer k reg)"
  using prune_stale_ids[OF assms, of k now]
  by (auto simp: get_peer_after_prune split: option.splits)

definition demo_registry :: peer_registry where
  "demo_registry =
     (case register_peer 0 ''a'' [] \<lparr>reg_peers = [], reg_timeout = 30\<rparr> of
        Inr (_, reg) \<Rightarrow> (case register_peer 20 ''b'' [] reg of Inr (_, reg) \<Rightarrow> reg | Inl _ \<Rightarrow> reg)
      | Inl _ \<Rightarrow> \<lparr>reg_peers = [], reg_timeout = 30\<rparr>)"

lemma prune_stale_exact_witness:
  "get_peer ''a'' (snd (prune_stale 40 demo_registry)) = None \<and>
   get_peer ''b'' (snd (prune_stale 40 demo_registry)) \<noteq> None"
proof -
  have "peer_registry_wf \<lparr>reg_peers = [], reg_timeout = 30\<rparr>" by (simp add: peer_registry_wf_def)
  moreover have "register_peer 0 ''a'' [] \<lparr>reg_peers = [], reg_timeout = 30\<rparr> =
      Inr (''a'', snd (projr (register_peer 0 ''a'' [] \<lparr>reg_peers = [], reg_timeout = 30\<rparr>)))"
    by code_simp
  ultimately have "peer_registry_wf (snd (projr (register_peer 0 ''a'' []
      \<lparr>reg_peers = [], reg_timeout = 30\<rparr>)))" by (rule register_wf)
  moreover have "register_peer 20 ''b'' [] (snd (projr (register_peer 0 ''a'' []
      \<lparr>reg_peers = [], reg_timeout = 30\<rparr>))) = Inr (''b'', demo_registry)"
    by code_simp
  ultimately have wf: "peer_registry_wf demo_registry" by (rule register_wf)
  have "''a'' \<in> set (fst (prune_stale 40 demo_registry))"
    "''b'' \<notin> set (fst (prune_stale 40 demo_registry))" "get_peer ''b'' demo_registry \<noteq> None"
    by code_simp+
  then show ?thesis
    using prune_stale_exact[OF wf, of "''a''" 40] prune_stale_exact[OF wf, of "''b''" 40] by simp
qed

end
