(* ===== verification/RelayServer.thy ===== *)
theory RelayServer
  imports TokenManager PeerRegistry ExecutorMessages
begin

text \<open>
  The relay host, from \<open>src/labrastro_server/relay/server.py\<close>, with the control messages of
  \<open>src/labrastro_server/interfaces/http/remote/protocol/\<close>: registration of peers against bootstrap
  tokens, heartbeats, disconnects and the periodic clean-up. The thread and event loop around the
  handlers are not modelled: a message is one step, and a message that arrives while the loop is not
  running is dropped. \<open>send_fn\<close> (whose exceptions are swallowed) appends to \<open>rs_sent\<close>.

  An exception that escapes a handler ends up in a future nobody reads, so a handler yields the new
  state together with the exception, and the state keeps what was done before the exception.
\<close>

section \<open>Control messages\<close>

record control_message =
  cm_type :: string
  cm_request_id :: "string option"
  cm_peer_id :: "string option"
  cm_payload :: pyobj

record register_request =
  rg_bootstrap_token :: pyval
  rg_host_info_min :: pyval
  rg_cwd :: pyval
  rg_workspace_root :: pyval
  rg_features :: pyval

definition register_request_from_dict :: "pyobj \<Rightarrow> register_request result" where
  "register_request_from_dict d =
     res_bind (pitem d ''bootstrap_token'') (\<lambda>token.
       Inr \<lparr>rg_bootstrap_token = token,
            rg_host_info_min = pget_or d ''host_info_min'' (PDict []),
            rg_cwd = pget_or d ''cwd'' (PStr ''.''),
            rg_workspace_root = pget d ''workspace_root'',
            rg_features = pget_or d ''features'' (PList [])\<rparr>)"

definition register_request_to_dict :: "register_request \<Rightarrow> pyobj" where
  "register_request_to_dict r =
     [(''bootstrap_token'', rg_bootstrap_token r), (''host_info_min'', rg_host_info_min r),
      (''cwd'', rg_cwd r), (''workspace_root'', rg_workspace_root r),
      (''features'', rg_features r)]"

record register_response =
  rp_peer_id :: string
  rp_peer_token :: string
  rp_heartbeat_interval_sec :: int

definition register_response_to_dict :: "register_response \<Rightarrow> pyobj" where
  "register_response_to_dict r =
     [(''peer_id'', PStr (rp_peer_id r)), (''peer_token'', PStr (rp_peer_token r)),
      (''heartbeat_interval_sec'', PInt (rp_heartbeat_interval_sec r))]"

definition error_message_to_dict :: "pyval \<Rightarrow> pyval \<Rightarrow> pyobj" where
  "error_message_to_dict code message = [(''code'', code), (''message'', message)]"

record mcp_tool_info =
  mt_name :: string
  mt_description :: string
  mt_input_schema :: pyobj
  mt_server_name :: string

definition mcp_tool_info_to_dict :: "mcp_tool_info \<Rightarrow> pyobj" where
  "mcp_tool_info_to_dict t =
     [(''name'', PStr (mt_name t)), (''description'', PStr (mt_description t)),
      (''input_schema'', PDict (mt_input_schema t)), (''server_name'', PStr (mt_server_name t))]"

definition mcp_tool_info_from_dict :: "pyobj \<Rightarrow> mcp_tool_info" where
  "mcp_tool_info_from_dict d =
     \<lparr>mt_name = py_str (pget_or d ''name'' (PStr [])),
      mt_description = py_str (pget_or d ''description'' (PStr [])),
      mt_input_schema = (case pget_or d ''input_schema'' (PDict []) of
          PDict schema \<Rightarrow> schema
        | _ \<Rightarrow> [(''type'', PStr ''object''), (''properties'', PDict [])]),
      mt_server_name = py_str (pget_or d ''server_name'' (PStr []))\<rparr>"

section \<open>The host\<close>

record relay_server =
  rs_running :: bool
  rs_tokens :: token_manager
  rs_registry :: peer_registry
  rs_heartbeat_interval :: int
  rs_peer_token_ttl :: int
  rs_sent :: "(string \<times> control_message) list"

definition relay_init :: "int \<Rightarrow> int \<Rightarrow> int \<Rightarrow> relay_server" where
  "relay_init heartbeat_interval heartbeat_timeout peer_token_ttl =
     \<lparr>rs_running = True, rs_tokens = token_manager_init,
      rs_registry = \<lparr>reg_peers = [], reg_timeout = heartbeat_timeout\<rparr>,
      rs_heartbeat_interval = heartbeat_interval, rs_peer_token_ttl = peer_token_ttl,
      rs_sent = []\<rparr>"

definition relay_send :: "string \<Rightarrow> control_message \<Rightarrow> relay_server \<Rightarrow> relay_server" where
  "relay_send peer_id message st = st\<lparr>rs_sent := rs_sent st @ [(peer_id, message)]\<rparr>"

text \<open>The key of a dictionary lookup with a value from a message: lists and dictionaries are
  unhashable, any other value that is not a text is never a key of the token stores.\<close>

definition hash_text :: "pyval \<Rightarrow> string option result" where
  "hash_text v =
     (case v of
        PStr s \<Rightarrow> Inr (Some s)
      | PList _ \<Rightarrow> Inl (TypeError ''unhashable type: list'')
      | PDict _ \<Rightarrow> Inl (TypeError ''unhashable type: dict'')
      | _ \<Rightarrow> Inr None)"

datatype register_outcome = Registered register_response | Rejected string | Crashed py_error

definition on_register ::
  "int \<Rightarrow> string \<Rightarrow> string \<Rightarrow> register_request \<Rightarrow> relay_server \<Rightarrow> register_outcome \<times> relay_server" where
  "on_register now new_peer_id fresh req st =
     (case hash_text (rg_bootstrap_token req) of
        Inl e \<Rightarrow> (Crashed e, st)
      | Inr None \<Rightarrow> (Rejected ''Invalid or expired bootstrap token'', st)
      | Inr (Some token) \<Rightarrow>
          (case consume_bootstrap_token now token (rs_tokens st) of
             (None, tokens) \<Rightarrow> (Rejected ''Invalid or expired bootstrap token'', st\<lparr>rs_tokens := tokens\<rparr>)
           | (Some claims, tokens) \<Rightarrow>
               (let st = st\<lparr>rs_tokens := tokens\<rparr>;
                    meta = [(''cwd'', rg_cwd req), (''workspace_root'', rg_workspace_root req),
                            (''features'', rg_features req),
                            (''host_info_min'', rg_host_info_min req)] @
                           (if claims \<noteq> [] then [(''auth_principal'', PDict claims)] else [])
                in case register_peer now new_peer_id meta (rs_registry st) of
                     Inl e \<Rightarrow> (Crashed e, st)
                   | Inr (peer_id, reg) \<Rightarrow>
                       (let (peer_token, tokens) =
                              issue_peer_token now fresh peer_id (rs_peer_token_ttl st) (rs_tokens st)
                        in (Registered \<lparr>rp_peer_id = peer_id, rp_peer_token = peer_token,
                                        rp_heartbeat_interval_sec = rs_heartbeat_interval st\<rparr>,
                            st\<lparr>rs_registry := reg, rs_tokens := tokens\<rparr>)))))"

definition disconnect_peer :: "string \<Rightarrow> string \<Rightarrow> relay_server \<Rightarrow> relay_server" where
  "disconnect_peer peer_id reason st =
     st\<lparr>rs_registry := snd (mark_disconnected peer_id reason (rs_registry st))\<rparr>"

definition handle_register ::
  "int \<Rightarrow> string \<Rightarrow> string \<Rightarrow> control_message \<Rightarrow> relay_server \<Rightarrow> relay_server \<times> unit result" where
  "handle_register now new_peer_id fresh message st =
     (case register_request_from_dict (cm_payload message) of
        Inl e \<Rightarrow> (st, Inl e)
      | Inr req \<Rightarrow>
          (case on_register now new_peer_id fresh req st of
             (Registered resp, st) \<Rightarrow>
               (relay_send (rp_peer_id resp)
                  \<lparr>cm_type = ''register_ok'', cm_request_id = cm_request_id message,
                   cm_peer_id = Some (rp_peer_id resp),
                   cm_payload = register_response_to_dict resp\<rparr> st, Inr ())
           | (Rejected reason, st) \<Rightarrow>
               (relay_send []
                  \<lparr>cm_type = ''register_rejected'', cm_request_id = cm_request_id message,
                   cm_peer_id = None, cm_payload = [(''reason'', PStr reason)]\<rparr> st, Inr ())
           | (Crashed e, st) \<Rightarrow> (st, Inl e)))"

definition handle_heartbeat ::
  "int \<Rightarrow> control_message \<Rightarrow> relay_server \<Rightarrow> relay_server \<times> unit result" where
  "handle_heartbeat now message st =
     (case res_bind (pitem (cm_payload message) ''peer_token'') hash_text of
        Inl e \<Rightarrow> (st, Inl e)
      | Inr None \<Rightarrow> (st, Inr ())
      | Inr (Some token) \<Rightarrow>
          (let (peer, tokens) = refresh_peer_token now token (rs_peer_token_ttl st) (rs_tokens st);
               st = st\<lparr>rs_tokens := tokens\<rparr>
           in (if opt_str peer = [] then st
               else st\<lparr>rs_registry := snd (update_heartbeat now (opt_str peer) (rs_registry st))\<rparr>,
               Inr ())))"

definition handle_inbound ::
  "int \<Rightarrow> string \<Rightarrow> string \<Rightarrow> string option \<Rightarrow> control_message \<Rightarrow> relay_server
    \<Rightarrow> relay_server \<times> unit result" where
  "handle_inbound now new_peer_id fresh peer_id message st =
     (if \<not> rs_running st then (st, Inr ())
      else if cm_type message = ''register'' then handle_register now new_peer_id fresh message st
      else if cm_type message = ''heartbeat'' then handle_heartbeat now message st
      else if cm_type message = ''disconnect'' then
        (if opt_str peer_id \<noteq> [] then disconnect_peer (opt_str peer_id) ''peer_initiated'' st else st,
         Inr ())
      else if cm_type message = ''error'' then
        (case pitem (cm_payload message) ''code'' of
           Inl e \<Rightarrow> (st, Inl e)
         | Inr code \<Rightarrow>
             (if opt_str (cm_request_id message) = [] then st
              else relay_send (opt_str peer_id)
                \<lparr>cm_type = ''error_ack'', cm_request_id = cm_request_id message,
                 cm_peer_id = Some (opt_str peer_id),
                 cm_payload = error_message_to_dict code
                   (pget_or (cm_payload message) ''message'' (PStr []))\<rparr> st,
              Inr ()))
      else (st, Inr ()))"

definition update_peer_mcp_tools ::
  "string \<Rightarrow> mcp_tool_info list \<Rightarrow> pyobj list \<Rightarrow> relay_server \<Rightarrow> bool \<times> relay_server" where
  "update_peer_mcp_tools peer_id tools diagnostics st =
     (case get_peer peer_id (rs_registry st) of
        None \<Rightarrow> (False, st)
      | Some peer \<Rightarrow>
          (let peer = peer\<lparr>
                 pi_meta := dict_set ''mcp_diagnostics'' (PList (map PDict diagnostics))
                   (dict_set ''mcp_tools''
                     (PList (map (\<lambda>t. PDict (mcp_tool_info_to_dict t))
                               (filter (\<lambda>t. mt_name t \<noteq> []) tools))) (pi_meta peer)),
                 pi_features := (if tools \<noteq> [] \<and> PStr ''mcp'' \<notin> set (pi_features peer)
                                 then pi_features peer @ [PStr ''mcp''] else pi_features peer)\<rparr>
           in (True, st\<lparr>rs_registry := (rs_registry st)
                 \<lparr>reg_peers := dict_set peer_id peer (reg_peers (rs_registry st))\<rparr>\<rparr>)))"

definition get_peer_mcp_tools :: "string \<Rightarrow> relay_server \<Rightarrow> mcp_tool_info list" where
  "get_peer_mcp_tools peer_id st =
     (case get_peer peer_id (rs_registry st) of
        None \<Rightarrow> []
      | Some peer \<Rightarrow>
          map mcp_tool_info_from_dict (dict_list (pget_or (pi_meta peer) ''mcp_tools'' (PList []))))"

definition relay_issue_bootstrap_token ::
  "int \<Rightarrow> string \<Rightarrow> int \<Rightarrow> pyobj \<Rightarrow> relay_server \<Rightarrow> string \<times> relay_server" where
  "relay_issue_bootstrap_token now fresh ttl_sec claims st =
     (let (token, tokens) = issue_bootstrap_token now fresh ttl_sec claims (rs_tokens st)
      in (token, st\<lparr>rs_tokens := tokens\<rparr>))"

text \<open>One round of the clean-up loop.\<close>

definition prune_round :: "int \<Rightarrow> relay_server \<Rightarrow> relay_server" where
  "prune_round now st =
     st\<lparr>rs_registry := snd (prune_stale now (rs_registry st)),
        rs_tokens := snd (prune_expired now (rs_tokens st))\<rparr>"

section \<open>Histories\<close>

datatype relay_event =
    Inbound "string option" control_message string string
  | IssueToken string int pyobj
  | DisconnectPeer string string
  | McpTools string "mcp_tool_info list" "pyobj list"
  | PruneRound

fun relay_step :: "int \<Rightarrow> relay_event \<Rightarrow> relay_server \<Rightarrow> relay_server" where
  "relay_step now (Inbound peer_id message new_peer_id fresh) st =
     fst (handle_inbound now new_peer_id fresh peer_id message st)"
| "relay_step now (IssueToken fresh ttl claims) st =
     snd (relay_issue_bootstrap_token now fresh ttl claims st)"
| "relay_step now (DisconnectPeer peer_id reason) st = disconnect_peer peer_id reason st"
| "relay_step now (McpTools peer_id tools diagnostics) st =
     snd (update_peer_mcp_tools peer_id tools diagnostics st)"
| "relay_step now PruneRound st = prune_round now st"

fun relay_run :: "(int \<times> relay_event) list \<Rightarrow> relay_server \<Rightarrow> relay_server" where
  "relay_run [] st = st"
| "relay_run ((now, ev) # evs) st = relay_run evs (relay_step now ev st)"

text \<open>The states reachable at a time, under a clock that does not run backwards.\<close>

inductive relay_reachable :: "int \<Rightarrow> relay_server \<Rightarrow> bool" where
  relay_start: "relay_reachable now (relay_init interval timeout ttl)"
| relay_next: "relay_reachable now st \<Longrightarrow> now \<le> now' \<Longrightarrow> relay_reachable now' (relay_step now' ev st)"

end
