(* ===== verification/RelayProofs.thy ===== *)
theory RelayProofs
  imports RelayServer
begin

text \<open>
  Facts about the relay host: the invariant that ties the token store to the registry on every
  reachable state, single use of bootstrap tokens over whole histories, and what a heartbeat and a
  disconnect do to the session of a peer.
\<close>

section \<open>Every session belongs to a registered peer\<close>

definition tokens_known :: "token_manager \<Rightarrow> peer_registry \<Rightarrow> bool" where
  "tokens_known tm reg \<longleftrightarrow>
     (\<forall>t e p. dict_get (tm_peers tm) t = Some e \<longrightarrow> te_peer_id e = Some p \<longrightarrow>
        dict_has (reg_peers reg) p)"

definition relay_inv :: "int \<Rightarrow> relay_server \<Rightarrow> bool" where
  "relay_inv now st \<longleftrightarrow> token_manager_wf (rs_tokens st) \<and> peer_registry_wf (rs_registry st) \<and>
     registry_before now (rs_registry st) \<and> tokens_known (rs_tokens st) (rs_registry st)"

lemma dict_has_set [simp]: "dict_has (dict_set k v d) j \<longleftrightarrow> j = k \<or> dict_has d j"
  by (auto simp: dict_has_iff)

lemma registry_before_mono:
  "registry_before now reg \<Longrightarrow> now \<le> now' \<Longrightarrow> registry_before now' reg"
  by (fastforce simp: registry_before_def)

lemma relay_inv_mono: "relay_inv now st \<Longrightarrow> now \<le> now' \<Longrightarrow> relay_inv now' st"
  by (auto simp: relay_inv_def intro: registry_before_mono)

lemma relay_inv_init: "relay_inv now (relay_init interval timeout ttl)"
  by (simp add: relay_inv_def relay_init_def peer_registry_wf_def registry_before_def
      tokens_known_def token_manager_init_def)
    (simp add: token_manager_wf_def)

lemma relay_inv_send [simp]: "relay_inv now (relay_send p m st) \<longleftrightarrow> relay_inv now st"
  by (simp add: relay_inv_def relay_send_def)

lemma tokens_known_same_peers:
  "tokens_known tm reg \<Longrightarrow> tm_peers tm' = tm_peers tm \<Longrightarrow> tokens_known tm' reg"
  by (simp add: tokens_known_def)

lemma tokens_known_set:
  assumes "tokens_known tm reg" and "\<forall>p. te_peer_id e = Some p \<longrightarrow> dict_has (reg_peers reg) p"
  shows "tokens_known (tm\<lparr>tm_peers := dict_set t e (tm_peers tm)\<rparr>) reg"
  unfolding tokens_known_def
proof (intro allI impI)
  fix t' e' p
  assume "dict_get (tm_peers (tm\<lparr>tm_peers := dict_set t e (tm_peers tm)\<rparr>)) t' = Some e'"
    and "te_peer_id e' = Some p"
  then show "dict_has (reg_peers reg) p"
    using assms unfolding tokens_known_def by (cases "t' = t") auto
qed

lemma consume_peers [simp]: "tm_peers (snd (consume_bootstrap_token now t tm)) = tm_peers tm"
  by (simp add: consume_bootstrap_token_def split: option.split)

lemma registry_set_inv:
  assumes "relay_inv now st" and "peer_info_ok k info" and "pi_last_seen_at info \<le> now"
  shows "relay_inv now (st\<lparr>rs_registry := (rs_registry st)
           \<lparr>reg_peers := dict_set k info (reg_peers (rs_registry st))\<rparr>\<rparr>)"
  using assms
  by (auto simp: relay_inv_def registry_before_def tokens_known_def intro: peer_registry_wf_set)

lemma relay_inv_tokens:
  "relay_inv now st \<Longrightarrow> token_manager_wf tm \<Longrightarrow> tokens_known tm (rs_registry st) \<Longrightarrow>
   relay_inv now (st\<lparr>rs_tokens := tm\<rparr>)"
  by (simp add: relay_inv_def)

lemma relay_invD:
  assumes "relay_inv now st"
  shows "token_manager_wf (rs_tokens st)" and "peer_registry_wf (rs_registry st)"
    and "registry_before now (rs_registry st)" and "tokens_known (rs_tokens st) (rs_registry st)"
  using assms by (simp_all add: relay_inv_def)

lemma inv_consume:
  assumes "relay_inv now st"
  shows "relay_inv now (st\<lparr>rs_tokens := snd (consume_bootstrap_token now0 t (rs_tokens st))\<rparr>)"
  using relay_invD[OF assms]
  by (intro relay_inv_tokens[OF assms] consume_wf tokens_known_same_peers[OF relay_invD(4)[OF assms]])
    simp_all

lemma inv_refresh:
  assumes "relay_inv now st"
  shows "relay_inv now (st\<lparr>rs_tokens := snd (refresh_peer_token now0 t ttl (rs_tokens st))\<rparr>)"
proof -
  have "tokens_known (snd (refresh_peer_token now0 t ttl (rs_tokens st))) (rs_registry st)"
  proof (cases "dict_get (tm_peers (rs_tokens st)) t")
    case None
    then show ?thesis using relay_invD(4)[OF assms] by (simp add: refresh_peer_token_def)
  next
    case (Some e)
    then have "\<forall>p. te_peer_id e = Some p \<longrightarrow> dict_has (reg_peers (rs_registry st)) p"
      using relay_invD(4)[OF assms] by (simp add: tokens_known_def)
    then show ?thesis
      using relay_invD(4)[OF assms] Some
      by (simp add: refresh_peer_token_def tokens_known_set del: not_None_eq)
  qed
  with relay_invD(1)[OF assms] show ?thesis
    by (intro relay_inv_tokens[OF assms]) (simp_all add: refresh_wf)
qed

lemma inv_heartbeat:
  assumes "relay_inv now st"
  shows "relay_inv now (st\<lparr>rs_registry := snd (update_heartbeat now p (rs_registry st))\<rparr>)"
proof (cases "dict_get (reg_peers (rs_registry st)) p")
  case None
  then show ?thesis using assms by (simp add: update_heartbeat_def)
next
  case (Some info)
  have ok: "peer_info_ok p info" using relay_invD(2)[OF assms] Some by (rule peer_registry_wfD)
  have "pi_last_seen_at info \<le> now"
    using relay_invD(3)[OF assms] Some by (simp add: registry_before_def)
  with ok have "peer_info_ok p (info\<lparr>pi_last_seen_at := now, pi_status := ''online''\<rparr>)"
    by (simp add: peer_info_ok_def)
  from registry_set_inv[OF assms this] Some show ?thesis by (simp add: update_heartbeat_def)
qed

lemma inv_disconnect:
  assumes "relay_inv now st"
  shows "relay_inv now (disconnect_peer p reason st)"
proof (cases "dict_get (reg_peers (rs_registry st)) p")
  case None
  then show ?thesis using assms by (simp add: disconnect_peer_def mark_disconnected_def)
next
  case (Some info)
  let ?info = "info\<lparr>pi_status := ''offline'',
                 pi_meta := dict_set ''disconnect_reason'' (PStr reason) (pi_meta info)\<rparr>"
  have "peer_info_ok p ?info"
    using peer_registry_wfD[OF relay_invD(2)[OF assms] Some] by (simp add: peer_info_ok_def)
  moreover have "pi_last_seen_at ?info \<le> now"
    using relay_invD(3)[OF assms] Some by (simp add: registry_before_def)
  ultimately show ?thesis
    using registry_set_inv[OF assms, of p ?info] Some
    by (simp add: disconnect_peer_def mark_disconnected_def Let_def)
qed

lemma inv_prune:
  assumes "relay_inv now st"
  shows "relay_inv now (prune_round now0 st)"
proof -
  note inv = relay_invD[OF assms]
  have "registry_before now (snd (prune_stale now0 (rs_registry st)))"
    using inv(3) by (auto simp: registry_before_def prune_stale_get)
  moreover have "tokens_known (snd (prune_expired now0 (rs_tokens st)))
      (snd (prune_stale now0 (rs_registry st)))"
    using inv(4) by (auto simp: tokens_known_def prune_get_peers dict_has_iff prune_stale_get)
  ultimately show ?thesis
    using inv by (simp add: relay_inv_def prune_round_def prune_wf prune_stale_wf)
qed

lemma inv_mcp:
  assumes "relay_inv now st"
  shows "relay_inv now (snd (update_peer_mcp_tools p tools diag st))"
proof (cases "get_peer p (rs_registry st)")
  case None
  then show ?thesis using assms by (simp add: update_peer_mcp_tools_def)
next
  case (Some info)
  then have g: "dict_get (reg_peers (rs_registry st)) p = Some info" by (simp add: get_peer_Some_iff)
  have "pi_last_seen_at info \<le> now" using relay_invD(3)[OF assms] g by (simp add: registry_before_def)
  moreover have "peer_info_ok p info" using relay_invD(2)[OF assms] g by (rule peer_registry_wfD)
  ultimately show ?thesis
    unfolding update_peer_mcp_tools_def Some option.case Let_def snd_conv
    by (intro registry_set_inv[OF assms]) (simp_all add: peer_info_ok_def)
qed

lemma register_peer_cases:
  "(\<exists>e. register_peer now p meta reg = Inl e) \<or>
   (\<exists>info. pi_peer_id info = p \<and> pi_connected_at info = now \<and> pi_last_seen_at info = now \<and>
      pi_status info = ''online'' \<and>
      register_peer now p meta reg = Inr (p, reg\<lparr>reg_peers := dict_set p info (reg_peers reg)\<rparr>))"
proof (cases "if meta \<noteq> [] then py_list (pget_or meta ''features'' (PList [])) else Inr []")
  case (Inl e)
  then show ?thesis by (simp only: register_peer_def Let_def res_bind_simps) simp
next
  case (Inr features)
  let ?info = "\<lparr>pi_peer_id = p, pi_connected_at = now, pi_last_seen_at = now,
                 pi_features = features,
                 pi_cwd = (if meta \<noteq> [] then pget_or meta ''cwd'' (PStr ''.'') else PStr ''.''),
                 pi_workspace_root = (if meta \<noteq> [] then pget meta ''workspace_root'' else PNone),
                 pi_status = ''online'', pi_meta = meta\<rparr>"
  have "register_peer now p meta reg = Inr (p, reg\<lparr>reg_peers := dict_set p ?info (reg_peers reg)\<rparr>)"
    using Inr by (simp only: register_peer_def Let_def res_bind_simps)
  then show ?thesis by (intro disjI2 exI[of _ ?info] conjI) simp_all
qed

lemma on_register_cases:
  obtains (crash) e where "on_register now p fresh req st = (Crashed e, st)"
  | (no) "on_register now p fresh req st = (Rejected ''Invalid or expired bootstrap token'', st)"
  | (yes) token claims tokens where "rg_bootstrap_token req = PStr token"
      "consume_bootstrap_token now token (rs_tokens st) = (Some claims, tokens)"
      "(\<exists>e. on_register now p fresh req st = (Crashed e, st\<lparr>rs_tokens := tokens\<rparr>)) \<or>
       (\<exists>info. pi_peer_id info = p \<and> pi_connected_at info = now \<and> pi_last_seen_at info = now \<and>
          pi_status info = ''online'' \<and>
          on_register now p fresh req st =
            (Registered \<lparr>rp_peer_id = p, rp_peer_token = ''pt_'' @ fresh,
                rp_heartbeat_interval_sec = rs_heartbeat_interval st\<rparr>,
             st\<lparr>rs_registry := (rs_registry st)
                  \<lparr>reg_peers := dict_set p info (reg_peers (rs_registry st))\<rparr>,
                rs_tokens := snd (issue_peer_token now fresh p (rs_peer_token_ttl st) tokens)\<rparr>))"
proof (cases "hash_text (rg_bootstrap_token req)")
  case (Inl e)
  then show thesis by (intro crash) (simp add: on_register_def)
next
  case (Inr ot)
  show thesis
  proof (cases ot)
    case None
    then show thesis using Inr by (intro no) (simp add: on_register_def)
  next
    case (Some token)
    have tok: "rg_bootstrap_token req = PStr token"
      using Inr Some by (auto simp: hash_text_def split: pyval.splits)
    obtain oc tokens where c: "consume_bootstrap_token now token (rs_tokens st) = (oc, tokens)"
      by (cases "consume_bootstrap_token now token (rs_tokens st)")
    show thesis
    proof (cases oc)
      case None
      then have "tokens = rs_tokens st"
        using c by (auto simp: consume_bootstrap_token_def split: option.splits if_splits)
      then show thesis using None Inr Some c by (intro no) (simp add: on_register_def)
    next
      case (Some claims)
      let ?meta = "[(''cwd'', rg_cwd req), (''workspace_root'', rg_workspace_root req),
                    (''features'', rg_features req), (''host_info_min'', rg_host_info_min req)] @
                   (if claims \<noteq> [] then [(''auth_principal'', PDict claims)] else [])"
      have step: "on_register now p fresh req st =
          (case register_peer now p ?meta (rs_registry st) of
             Inl e \<Rightarrow> (Crashed e, st\<lparr>rs_tokens := tokens\<rparr>)
           | Inr (peer_id, reg) \<Rightarrow>
               (Registered \<lparr>rp_peer_id = peer_id, rp_peer_token = ''pt_'' @ fresh,
                            rp_heartbeat_interval_sec = rs_heartbeat_interval st\<rparr>,
                st\<lparr>rs_registry := reg,
                   rs_tokens := snd (issue_peer_token now fresh peer_id (rs_peer_token_ttl st) tokens)\<rparr>))"
        using Inr \<open>ot = Some token\<close> c Some
        by (simp add: on_register_def Let_def issue_peer_token_def split: sum.split prod.split)
      show thesis
        using register_peer_cases[of now p ?meta "rs_registry st"]
        by (intro yes[OF tok, of claims tokens])
          (use c Some in simp, elim disjE exE conjE, auto simp: step)
    qed
  qed
qed

lemma inv_on_register:
  assumes "relay_inv now st"
  shows "relay_inv now (snd (on_register now p fresh req st))"
proof (cases rule: on_register_cases[of now p fresh req st])
  case (crash e)
  then show ?thesis using assms by simp
next
  case no
  then show ?thesis using assms by simp
next
  case (yes token claims tokens)
  have inv1: "relay_inv now (st\<lparr>rs_tokens := tokens\<rparr>)"
    using inv_consume[OF assms, of now token] yes(2) by simp
  from yes(3) show ?thesis
  proof (elim disjE exE conjE)
    fix e assume "on_register now p fresh req st = (Crashed e, st\<lparr>rs_tokens := tokens\<rparr>)"
    then show ?thesis using inv1 by simp
  next
    fix info
    assume info: "pi_peer_id info = p" "pi_connected_at info = now" "pi_last_seen_at info = now"
      "pi_status info = ''online''"
      and reg: "on_register now p fresh req st =
            (Registered \<lparr>rp_peer_id = p, rp_peer_token = ''pt_'' @ fresh,
                rp_heartbeat_interval_sec = rs_heartbeat_interval st\<rparr>,
             st\<lparr>rs_registry := (rs_registry st)
                  \<lparr>reg_peers := dict_set p info (reg_peers (rs_registry st))\<rparr>,
                rs_tokens := snd (issue_peer_token now fresh p (rs_peer_token_ttl st) tokens)\<rparr>)"
    let ?reg = "(rs_registry st)\<lparr>reg_peers := dict_set p info (reg_peers (rs_registry st))\<rparr>"
    have inv2: "relay_inv now (st\<lparr>rs_tokens := tokens, rs_registry := ?reg\<rparr>)"
      using registry_set_inv[OF inv1, of p info] info by (simp add: peer_info_ok_def)
    have "tokens_known (snd (issue_peer_token now fresh p (rs_peer_token_ttl st) tokens)) ?reg"
      using relay_invD(4)[OF inv2] by (auto simp: tokens_known_def issue_peer_token_def Let_def)
    then show ?thesis
      using relay_invD[OF inv2] reg by (simp add: relay_inv_def issue_peer_wf)
  qed
qed

lemma handle_register_state:
  "(\<exists>req. register_request_from_dict (cm_payload m) = Inr req \<and>
      (\<exists>pid msg. fst (handle_register now p fresh m st) =
           relay_send pid msg (snd (on_register now p fresh req st)) \<or>
         fst (handle_register now p fresh m st) = snd (on_register now p fresh req st))) \<or>
   fst (handle_register now p fresh m st) = st"
proof (cases "register_request_from_dict (cm_payload m)")
  case (Inl e)
  then show ?thesis by (simp add: handle_register_def)
next
  case (Inr req)
  obtain oc st1 where r: "on_register now p fresh req st = (oc, st1)"
    by (cases "on_register now p fresh req st")
  show ?thesis by (cases oc) (auto simp: handle_register_def Inr r)
qed

lemma inv_handle_register:
  assumes "relay_inv now st"
  shows "relay_inv now (fst (handle_register now p fresh m st))"
  using handle_register_state[of m now p fresh st] inv_on_register[OF assms] assms
  by (elim disjE exE conjE) simp_all

lemma inv_handle_heartbeat:
  assumes "relay_inv now st"
  shows "relay_inv now (fst (handle_heartbeat now m st))"
proof (cases "res_bind (pitem (cm_payload m) ''peer_token'') hash_text")
  case (Inl e)
  then show ?thesis using assms by (simp add: handle_heartbeat_def)
next
  case (Inr ot)
  show ?thesis
  proof (cases ot)
    case None
    then show ?thesis using assms Inr by (simp add: handle_heartbeat_def)
  next
    case (Some token)
    obtain peer tokens where r:
      "refresh_peer_token now token (rs_peer_token_ttl st) (rs_tokens st) = (peer, tokens)"
      by (cases "refresh_peer_token now token (rs_peer_token_ttl st) (rs_tokens st)")
    have inv1: "relay_inv now (st\<lparr>rs_tokens := tokens\<rparr>)"
      using inv_refresh[OF assms, of now token "rs_peer_token_ttl st"] r by simp
    from inv_heartbeat[OF this, of "opt_str peer"] show ?thesis
      using inv1 Inr Some r by (simp add: handle_heartbeat_def Let_def)
  qed
qed

lemma inv_inbound:
  assumes "relay_inv now st"
  shows "relay_inv now (fst (handle_inbound now p fresh peer m st))"
  using assms inv_handle_register[OF assms] inv_handle_heartbeat[OF assms]
    inv_disconnect[OF assms]
  by (auto simp: handle_inbound_def split: sum.split)

lemma inv_step:
  assumes "relay_inv now st"
  shows "relay_inv now (relay_step now ev st)"
proof (cases ev)
  case (Inbound peer m p fresh)
  then show ?thesis using inv_inbound[OF assms] by simp
next
  case (IssueToken fresh ttl claims)
  have "tm_peers (snd (issue_bootstrap_token now fresh ttl claims (rs_tokens st))) =
        tm_peers (rs_tokens st)"
    by (simp add: issue_bootstrap_token_def Let_def)
  then have "relay_inv now
      (st\<lparr>rs_tokens := snd (issue_bootstrap_token now fresh ttl claims (rs_tokens st))\<rparr>)"
    using relay_invD[OF assms]
    by (intro relay_inv_tokens[OF assms] issue_bootstrap_wf
        tokens_known_same_peers[OF relay_invD(4)[OF assms]])
  then show ?thesis
    using IssueToken
    by (cases "issue_bootstrap_token now fresh ttl claims (rs_tokens st)")
      (simp add: relay_issue_bootstrap_token_def)
next
  case (DisconnectPeer p reason)
  then show ?thesis using inv_disconnect[OF assms] by simp
next
  case (McpTools p tools diag)
  then show ?thesis using inv_mcp[OF assms] by simp
next
  case PruneRound
  then show ?thesis using inv_prune[OF assms] by simp
qed

lemma relay_reachable_inv: "relay_reachable now st \<Longrightarrow> relay_inv now st"
proof (induction rule: relay_reachable.induct)
  case (relay_start now interval timeout ttl)
  show ?case by (rule relay_inv_init)
next
  case (relay_next now st now' ev)
  from relay_next.IH relay_next.hyps(2) have "relay_inv now' st" by (rule relay_inv_mono)
  then show ?case by (rule inv_step)
qed

section \<open>A bootstrap token registers one peer\<close>

definition event_reissues :: "string \<Rightarrow> relay_event \<Rightarrow> bool" where
  "event_reissues token ev \<longleftrightarrow> (\<exists>fresh ttl claims. ev = IssueToken fresh ttl claims \<and> token = ''bt_'' @ fresh)"

text \<open>Every event changes the token store by a sequence of operations of the token manager.\<close>

lemma on_register_spent:
  assumes "token_spent token (rs_tokens st)"
  shows "token_spent token (rs_tokens (snd (on_register now p fresh req st)))"
proof -
  show ?thesis
  proof (cases rule: on_register_cases[of now p fresh req st])
    case (yes t claims tokens)
    have "token_spent token tokens"
      using token_spent_step[OF assms, of "Consume t" now] yes(2) by (simp add: reissues_def)
    moreover from this have "token_spent token (snd (issue_peer_token now fresh p ttl tokens))" for ttl
      using token_spent_step[of token tokens "IssuePeer fresh p ttl" now] by (simp add: reissues_def)
    ultimately show ?thesis using yes(3) by (elim disjE exE conjE) simp_all
  qed (use assms in simp_all)
qed

lemma handle_register_spent:
  assumes "token_spent token (rs_tokens st)"
  shows "token_spent token (rs_tokens (fst (handle_register now p fresh m st)))"
  using handle_register_state[of m now p fresh st] on_register_spent[OF assms] assms
  by (elim disjE exE conjE) (simp_all add: relay_send_def)

lemma handle_heartbeat_spent:
  assumes "token_spent token (rs_tokens st)"
  shows "token_spent token (rs_tokens (fst (handle_heartbeat now m st)))"
proof (cases "res_bind (pitem (cm_payload m) ''peer_token'') hash_text")
  case (Inl e)
  then show ?thesis using assms by (simp add: handle_heartbeat_def)
next
  case (Inr ot)
  have "token_spent token (snd (refresh_peer_token now t ttl (rs_tokens st)))" for t ttl
    using token_spent_step[OF assms, of "Refresh t ttl" now] by (simp add: reissues_def)
  then show ?thesis
    using assms Inr
    by (cases ot) (simp_all add: handle_heartbeat_def Let_def case_prod_unfold)
qed

lemma relay_step_spent:
  assumes "token_spent token (rs_tokens st)" and "\<not> event_reissues token ev"
  shows "token_spent token (rs_tokens (relay_step now ev st))"
proof (cases ev)
  case (Inbound peer m p fresh)
  then show ?thesis
    using assms(1) handle_register_spent[OF assms(1)] handle_heartbeat_spent[OF assms(1)]
    by (auto simp: handle_inbound_def disconnect_peer_def relay_send_def split: sum.split)
next
  case (IssueToken fresh ttl claims)
  then have "\<not> reissues token (IssueBootstrap fresh ttl claims)"
    using assms(2) by (auto simp: event_reissues_def reissues_def)
  from token_spent_step[OF assms(1) this, of now] IssueToken show ?thesis
    by (simp add: relay_issue_bootstrap_token_def case_prod_unfold Let_def)
next
  case (DisconnectPeer p reason)
  then show ?thesis using assms(1) by (simp add: disconnect_peer_def)
next
  case (McpTools p tools diag)
  then show ?thesis using assms(1) by (simp add: update_peer_mcp_tools_def Let_def split: option.split)
next
  case PruneRound
  then show ?thesis
    using token_spent_step[OF assms(1), of Prune now] by (simp add: prune_round_def reissues_def)
qed

lemma relay_run_spent:
  "token_spent token (rs_tokens st) \<Longrightarrow> \<forall>(now, ev) \<in> set evs. \<not> event_reissues token ev \<Longrightarrow>
   token_spent token (rs_tokens (relay_run evs st))"
  by (induction evs st rule: relay_run.induct) (auto intro: relay_step_spent)

lemma on_register_spent_rejected:
  "token_spent token (rs_tokens st) \<Longrightarrow> rg_bootstrap_token req = PStr token \<Longrightarrow>
   on_register now p fresh req st = (Rejected ''Invalid or expired bootstrap token'', st)"
  by (simp add: on_register_def hash_text_def spent_not_consumable)

lemma on_register_spends:
  assumes "on_register now p fresh req st = (Registered resp, st')"
  shows "\<exists>token. rg_bootstrap_token req = PStr token \<and> token_spent token (rs_tokens st')"
proof (cases rule: on_register_cases[of now p fresh req st])
  case (yes token claims tokens)
  have "token_spent token tokens" using yes(2) by (rule consume_spends)
  then have "token_spent token (snd (issue_peer_token now fresh p ttl tokens))" for ttl
    using token_spent_step[of token tokens "IssuePeer fresh p ttl" now] by (simp add: reissues_def)
  then show ?thesis using assms yes(1,3) by auto
qed (use assms in simp_all)

section \<open>Sessions\<close>

lemma refresh_alive:
  assumes "verify_peer_token now t tm = Some p"
  shows "refresh_peer_token now t ttl tm = (Some p, snd (refresh_peer_token now t ttl tm))"
    and "verify_peer_token now' t (snd (refresh_peer_token now t ttl tm)) =
      (if now' \<le> now + ttl then Some p else None)"
  using assms by (auto simp: verify_peer_token_def refresh_peer_token_def
      split: option.splits if_splits)

lemma disconnect_keeps_tokens: "rs_tokens (disconnect_peer p reason st) = rs_tokens st"
  by (simp add: disconnect_peer_def)

definition heartbeat_message :: "string \<Rightarrow> control_message" where
  "heartbeat_message token =
     \<lparr>cm_type = ''heartbeat'', cm_request_id = None, cm_peer_id = None,
      cm_payload = [(''peer_token'', PStr token)]\<rparr>"

lemma heartbeat_effect:
  assumes "verify_peer_token now t (rs_tokens st) = Some p" and "p \<noteq> []" and "rs_running st"
  shows "fst (handle_inbound now np fresh peer (heartbeat_message t) st) =
     st\<lparr>rs_tokens := snd (refresh_peer_token now t (rs_peer_token_ttl st) (rs_tokens st)),
        rs_registry := snd (update_heartbeat now p (rs_registry st))\<rparr>"
  using assms arg_cong[OF refresh_alive(1)[OF assms(1), of "rs_peer_token_ttl st"], of fst]
  by (simp add: handle_inbound_def heartbeat_message_def handle_heartbeat_def pitem_def hash_text_def
      Let_def case_prod_unfold)

lemma known_peer:
  assumes "relay_inv now0 st" and "verify_peer_token now t (rs_tokens st) = Some p"
  shows "dict_get (reg_peers (rs_registry st)) p \<noteq> None"
proof -
  from assms(2) obtain e where "dict_get (tm_peers (rs_tokens st)) t = Some e"
    and "te_peer_id e = Some p"
    by (auto simp: verify_peer_token_def split: option.splits if_splits)
  with relay_invD(4)[OF assms(1)] show ?thesis unfolding tokens_known_def dict_has_iff by blast
qed

lemma heartbeat_online:
  assumes "relay_inv now0 st" and "verify_peer_token now t (rs_tokens st) = Some p"
    and "p \<noteq> []" and "rs_running st"
  shows "\<exists>info. get_peer p (rs_registry (fst (handle_inbound now np fresh peer
            (heartbeat_message t) st))) = Some info \<and> pi_last_seen_at info = now"
  using known_peer[OF assms(1,2)] by (auto simp: heartbeat_effect[OF assms(2-4)] get_peer_after_heartbeat)

section \<open>Properties\<close>

text \<open>On every state the relay can reach, whatever messages arrive in whatever order, a peer
  token that verifies names a peer of the registry.\<close>

theorem session_peer_registered:
  assumes "relay_reachable now st" and "verify_peer_token now' t (rs_tokens st) = Some p"
  shows "get_any_peer p (rs_registry st) \<noteq> None"
  using known_peer[OF relay_reachable_inv[OF assms(1)] assms(2)] by (simp add: get_any_peer_def)

definition demo_register :: "string \<Rightarrow> control_message" where
  "demo_register token =
     \<lparr>cm_type = ''register'', cm_request_id = Some ''r1'', cm_peer_id = None,
      cm_payload = [(''bootstrap_token'', PStr token), (''features'', PList [PStr ''mcp''])]\<rparr>"

definition demo_relay :: relay_server where
  "demo_relay =
     relay_step 5 (Inbound None (demo_register ''bt_x'') ''peer1'' ''y'')
       (relay_step 0 (IssueToken ''x'' 300 []) (relay_init 10 30 3600))"

lemma demo_relay_reachable: "relay_reachable 5 demo_relay"
proof -
  have "relay_reachable 0 (relay_step 0 (IssueToken ''x'' 300 []) (relay_init 10 30 3600))"
    by (rule relay_next[OF relay_start[of 0]]) simp
  then show ?thesis unfolding demo_relay_def by (rule relay_next) simp
qed

lemma demo_relay_session: "verify_peer_token 5 ''pt_y'' (rs_tokens demo_relay) = Some ''peer1''"
  by code_simp

lemma session_peer_registered_witness: "get_any_peer ''peer1'' (rs_registry demo_relay) \<noteq> None"
  by (rule session_peer_registered[OF demo_relay_reachable demo_relay_session])

text \<open>C35. A bootstrap token registers one peer. After a registration has succeeded, and after any
  further events that do not hand out the same token again, another registration with that token is
  rejected and changes nothing.\<close>

theorem bootstrap_token_single_use:
  assumes "on_register now p fresh req st = (Registered resp, st1)"
    and "rg_bootstrap_token req' = rg_bootstrap_token req"
    and "\<forall>(now, ev) \<in> set evs. \<forall>fresh ttl claims. ev = IssueToken fresh ttl claims \<longrightarrow>
           rg_bootstrap_token req \<noteq> PStr (''bt_'' @ fresh)"
  shows "on_register now' p' fresh' req' (relay_run evs st1) =
    (Rejected ''Invalid or expired bootstrap token'', relay_run evs st1)"
proof -
  obtain token where token: "rg_bootstrap_token req = PStr token"
    and spent: "token_spent token (rs_tokens st1)"
    using on_register_spends[OF assms(1)] by blast
  have "\<forall>(now, ev) \<in> set evs. \<not> event_reissues token ev"
    using assms(3) by (auto simp: token event_reissues_def)
  with spent have "token_spent token (rs_tokens (relay_run evs st1))" by (rule relay_run_spent)
  then show ?thesis using assms(2) token by (simp add: on_register_spent_rejected)
qed

definition demo_request :: register_request where
  "demo_request = \<lparr>rg_bootstrap_token = PStr ''bt_x'', rg_host_info_min = PDict [],
     rg_cwd = PStr ''.'', rg_workspace_root = PNone, rg_features = PList []\<rparr>"

definition demo_host :: relay_server where
  "demo_host = relay_step 0 (IssueToken ''x'' 300 []) (relay_init 10 30 3600)"

lemma bootstrap_token_single_use_witness:
  "fst (on_register 5 ''p1'' ''y'' demo_request demo_host) =
     Registered \<lparr>rp_peer_id = ''p1'', rp_peer_token = ''pt_y'', rp_heartbeat_interval_sec = 10\<rparr> \<and>
   fst (on_register 8 ''p2'' ''z'' demo_request
     (relay_run [(6, IssueToken ''w'' 300 []), (7, PruneRound)]
       (snd (on_register 5 ''p1'' ''y'' demo_request demo_host)))) =
     Rejected ''Invalid or expired bootstrap token''"
proof
  show first: "fst (on_register 5 ''p1'' ''y'' demo_request demo_host) =
     Registered \<lparr>rp_peer_id = ''p1'', rp_peer_token = ''pt_y'', rp_heartbeat_interval_sec = 10\<rparr>"
    by code_simp
  obtain resp where "on_register 5 ''p1'' ''y'' demo_request demo_host =
      (Registered resp, snd (on_register 5 ''p1'' ''y'' demo_request demo_host))"
    using first by (metis prod.collapse)
  from bootstrap_token_single_use[OF this refl,
      of "[(6, IssueToken ''w'' 300 []), (7, PruneRound)]" 8 "''p2''" "''z''"]
  show "fst (on_register 8 ''p2'' ''z'' demo_request
     (relay_run [(6, IssueToken ''w'' 300 []), (7, PruneRound)]
       (snd (on_register 5 ''p1'' ''y'' demo_request demo_host)))) =
     Rejected ''Invalid or expired bootstrap token''"
    by (simp add: demo_request_def)
qed

text \<open>A heartbeat with a live peer token puts the peer online, seen now, and prolongs the token
  by the configured time to live.\<close>

theorem heartbeat_renews_session:
  assumes "relay_reachable now0 st" and "rs_running st" and "p \<noteq> []"
    and "verify_peer_token now t (rs_tokens st) = Some p"
    and "st1 = fst (handle_inbound now np fresh peer (heartbeat_message t) st)"
  shows "(\<exists>info. get_peer p (rs_registry st1) = Some info \<and> pi_last_seen_at info = now) \<and>
    verify_peer_token now' t (rs_tokens st1) =
      (if now' \<le> now + rs_peer_token_ttl st then Some p else None)"
  using heartbeat_online[OF relay_reachable_inv[OF assms(1)] assms(4,3,2)]
    heartbeat_effect[OF assms(4,3,2)] refresh_alive(2)[OF assms(4)]
  by (simp_all add: assms(5))

lemma heartbeat_renews_session_witness:
  "(\<exists>info. get_peer ''peer1'' (rs_registry (fst (handle_inbound 9 [] [] None
        (heartbeat_message ''pt_y'') demo_relay))) = Some info \<and> pi_last_seen_at info = 9) \<and>
   verify_peer_token 3609 ''pt_y'' (rs_tokens (fst (handle_inbound 9 [] [] None
        (heartbeat_message ''pt_y'') demo_relay))) = Some ''peer1''"
proof -
  have "rs_running demo_relay" "verify_peer_token 9 ''pt_y'' (rs_tokens demo_relay) = Some ''peer1''"
    "rs_peer_token_ttl demo_relay = 3600"
    by code_simp+
  then show ?thesis
    using heartbeat_renews_session[OF demo_relay_reachable _ _ _ refl, of "''peer1''" 9 "''pt_y''"]
    by simp
qed

text \<open>Disconnecting a peer marks it offline but does not end its session: the peer token still
  verifies, and its next heartbeat puts the peer online again.\<close>

theorem disconnect_keeps_session:
  assumes "relay_reachable now0 st" and "rs_running st" and "p \<noteq> []"
    and "verify_peer_token now t (rs_tokens st) = Some p"
  shows "get_peer p (rs_registry (disconnect_peer p reason st)) = None \<and>
    verify_peer_token now t (rs_tokens (disconnect_peer p reason st)) = Some p \<and>
    get_peer p (rs_registry (fst (handle_inbound now np fresh peer (heartbeat_message t)
      (disconnect_peer p reason st)))) \<noteq> None"
proof -
  have "relay_inv now0 (disconnect_peer p reason st)"
    by (rule inv_disconnect[OF relay_reachable_inv[OF assms(1)]])
  moreover have "verify_peer_token now t (rs_tokens (disconnect_peer p reason st)) = Some p"
    using assms(4) by (simp add: disconnect_keeps_tokens)
  moreover have "rs_running (disconnect_peer p reason st)"
    using assms(2) by (simp add: disconnect_peer_def)
  ultimately have "\<exists>info. get_peer p (rs_registry (fst (handle_inbound now np fresh peer
      (heartbeat_message t) (disconnect_peer p reason st)))) = Some info \<and> pi_last_seen_at info = now"
    using assms(3) by (intro heartbeat_online)
  then show ?thesis
    using assms(4) by (auto simp: disconnect_keeps_tokens) (simp add: disconnect_peer_def
        get_peer_after_disconnect)
qed

lemma disconnect_keeps_session_witness:
  "verify_peer_token 9 ''pt_y'' (rs_tokens (disconnect_peer ''peer1'' ''bye'' demo_relay)) = Some ''peer1''"
proof -
  have "rs_running demo_relay" "verify_peer_token 9 ''pt_y'' (rs_tokens demo_relay) = Some ''peer1''"
    by code_simp+
  then show ?thesis
    using disconnect_keeps_session[OF demo_relay_reachable, of "''peer1''" 9 "''pt_y''"] by simp
qed

end
