(* ===== verification/SessionBranchTree.thy ===== *)
theory SessionBranchTree
  imports PyValue
begin

text \<open>
  The tree of session items and branch bindings, from
  \<open>src/labrastro_server/services/agent_runtime/session_branch_tree.py\<close>: the chain of bindings from the
  root to a branch, the items of a branch in transcript order, and the transcript a user sees after
  selecting a branch.

  \<open>datetime.fromisoformat\<close> is the argument \<open>fromiso\<close>: None for a text it rejects, otherwise the
  instant and whether the text carries a timezone. The recursive function \<open>walk\<close> has the
  interpreter's recursion limit as the argument \<open>depth\<close>; beyond it Python raises \<open>RecursionError\<close>.
  \<open>SessionBranchTreeError\<close> is a \<open>ValueError\<close>.
\<close>

section \<open>State\<close>

record tree_entry =
  se_id :: string
  se_parent_id :: "string option"
  se_branch_binding_id :: string
  se_kind :: string
  se_timestamp :: string
  se_payload :: pyobj

record branch_binding =
  bb_branch_binding_id :: string
  bb_agent_run_id :: string
  bb_relation :: string
  bb_status :: string
  bb_parent_branch_binding_id :: string
  bb_base_session_item_id :: string
  bb_source_agent_run_id :: string

record branch_tree =
  bt_session_run_id :: string
  bt_root_branch_binding_id :: string
  bt_selected_branch_binding_id :: string
  bt_entries_by_id :: "(string, tree_entry) pydict"
  bt_branch_bindings_by_id :: "(string, branch_binding) pydict"

section \<open>The chain of branches\<close>

definition validate_branch_binding :: "branch_tree \<Rightarrow> string \<Rightarrow> branch_binding result" where
  "validate_branch_binding tree branch_binding_id =
     (let normalized = str_strip branch_binding_id
      in if normalized = [] then Inl (ValueError ''branch_binding_id is required'')
         else case dict_get (bt_branch_bindings_by_id tree) normalized of
             None \<Rightarrow> Inl (ValueError (''branch_binding_id not found: '' @ normalized))
           | Some binding \<Rightarrow> Inr binding)"

definition binding_ids :: "branch_tree \<Rightarrow> string set" where
  "binding_ids tree =
     set (map (\<lambda>b. str_strip (bb_branch_binding_id b)) (dict_values (bt_branch_bindings_by_id tree)))"

lemma finite_binding_ids [simp]: "finite (binding_ids tree)"
  by (simp add: binding_ids_def)

lemma validate_in_ids:
  "validate_branch_binding tree key = Inr b \<Longrightarrow> str_strip (bb_branch_binding_id b) \<in> binding_ids tree"
  by (force simp: validate_branch_binding_def binding_ids_def dict_values_def Let_def
      dest: dict_get_in_set split: if_splits option.splits)

text \<open>The loop of \<open>branch_ancestor_chain\<close>, from a branch up to the root; every round adds an
  identifier that was not seen before.\<close>

function chain_up :: "branch_tree \<Rightarrow> string list \<Rightarrow> string \<Rightarrow> branch_binding list result" where
  "chain_up tree seen key =
     (case validate_branch_binding tree key of
        Inl e \<Rightarrow> Inl e
      | Inr binding \<Rightarrow>
          (let current_id = str_strip (bb_branch_binding_id binding);
               parent_id = str_strip (bb_parent_branch_binding_id binding)
           in if current_id \<in> set seen then
                Inl (ValueError (''branch_binding_id parent cycle detected: '' @ current_id))
              else if parent_id = [] then Inr [binding]
              else res_bind (chain_up tree (current_id # seen) parent_id)
                     (\<lambda>rest. Inr (binding # rest))))"
  by pat_completeness auto
termination
proof (relation "measure (\<lambda>(tree, seen, key). card (binding_ids tree - set seen))")
  show "wf (measure (\<lambda>(tree, seen, key). card (binding_ids tree - set seen)))" by simp
next
  fix tree :: branch_tree and seen :: "string list" and key :: string and b and current_id parent_id
  assume b: "validate_branch_binding tree key = Inr b"
    and cur: "current_id = str_strip (bb_branch_binding_id b)" and fresh: "current_id \<notin> set seen"
  have "binding_ids tree - insert current_id (set seen) \<subset> binding_ids tree - set seen"
    using validate_in_ids[OF b] cur fresh by auto
  then have "card (binding_ids tree - insert current_id (set seen)) < card (binding_ids tree - set seen)"
    by (intro psubset_card_mono) auto
  then show "((tree, current_id # seen, parent_id), (tree, seen, key))
      \<in> measure (\<lambda>(tree, seen, key). card (binding_ids tree - set seen))"
    by simp
qed

declare chain_up.simps [simp del]

definition branch_ancestor_chain :: "branch_tree \<Rightarrow> string \<Rightarrow> branch_binding list result" where
  "branch_ancestor_chain tree branch_binding_id =
     res_bind (chain_up tree [] branch_binding_id) (\<lambda>chain. Inr (rev chain))"

section \<open>The items of a branch\<close>

type_synonym iso_clock = "string \<Rightarrow> (int \<times> bool) option"

definition entry_timestamp :: "iso_clock \<Rightarrow> tree_entry \<Rightarrow> int result" where
  "entry_timestamp fromiso entry =
     (let raw = str_strip (se_timestamp entry)
      in if raw = [] then
           Inl (ValueError (''entry timestamp is required for transcript ordering: '' @ se_id entry))
         else case fromiso (str_replace ''Z'' ''+00:00'' raw) of
             None \<Rightarrow>
               Inl (ValueError (''entry timestamp is invalid for transcript ordering: '' @ se_id entry))
           | Some (instant, aware) \<Rightarrow>
               if \<not> aware then
                 Inl (ValueError (''entry timestamp timezone is required for transcript ordering: '' @
                                  se_id entry))
               else Inr instant)"

fun check_siblings :: "iso_clock \<Rightarrow> string option \<Rightarrow> int list \<Rightarrow> tree_entry list \<Rightarrow> unit result" where
  "check_siblings fromiso parent seen [] = Inr ()"
| "check_siblings fromiso parent seen (child # children) =
     res_bind (entry_timestamp fromiso child) (\<lambda>timestamp.
       if timestamp \<in> set seen then
         Inl (ValueError (''duplicate sibling timestamp for transcript ordering: '' @
           (if opt_str parent = [] then ''__root__'' else opt_str parent)))
       else check_siblings fromiso parent (timestamp # seen) children)"

definition timestamp_key :: "iso_clock \<Rightarrow> tree_entry \<Rightarrow> int" where
  "timestamp_key fromiso entry =
     (case entry_timestamp fromiso entry of Inl _ \<Rightarrow> 0 | Inr t \<Rightarrow> t)"

definition children_by_parent ::
  "branch_tree \<Rightarrow> string \<Rightarrow> (string option, tree_entry list) pydict" where
  "children_by_parent tree branch_id =
     fold (\<lambda>entry groups.
         if str_strip (se_branch_binding_id entry) \<noteq> branch_id then groups
         else dict_set (se_parent_id entry)
                ((case dict_get groups (se_parent_id entry) of None \<Rightarrow> [] | Some es \<Rightarrow> es) @ [entry])
                groups)
       (dict_values (bt_entries_by_id tree)) []"

definition sort_children ::
  "iso_clock \<Rightarrow> (string option, tree_entry list) pydict
    \<Rightarrow> (string option, tree_entry list) pydict result" where
  "sort_children fromiso groups =
     res_map (\<lambda>(parent, children).
         res_bind (check_siblings fromiso parent [] children) (\<lambda>_.
           Inr (parent, sort_key (timestamp_key fromiso) children))) groups"

primrec walk ::
  "nat \<Rightarrow> (string option, tree_entry list) pydict \<Rightarrow> string option \<Rightarrow> tree_entry list result" where
  "walk 0 groups parent = Inl RecursionError"
| "walk (Suc depth) groups parent =
     res_bind (res_map (\<lambda>child.
         res_bind (walk depth groups (Some (se_id child))) (\<lambda>below. Inr (child # below)))
       (case dict_get groups parent of None \<Rightarrow> [] | Some children \<Rightarrow> children))
       (\<lambda>parts. Inr (concat parts))"

definition branch_descendants ::
  "nat \<Rightarrow> iso_clock \<Rightarrow> branch_tree \<Rightarrow> string \<Rightarrow> string option \<Rightarrow> tree_entry list result" where
  "branch_descendants depth fromiso tree branch_binding_id parent_id =
     res_bind (sort_children fromiso (children_by_parent tree (str_strip branch_binding_id)))
       (\<lambda>groups. walk depth groups parent_id)"

section \<open>The selected transcript\<close>

fun entry_index :: "tree_entry list \<Rightarrow> string \<Rightarrow> nat option" where
  "entry_index [] entry_id = None"
| "entry_index (e # es) entry_id =
     (if se_id e = entry_id then Some 0 else map_option Suc (entry_index es entry_id))"

definition extend_transcript ::
  "nat \<Rightarrow> iso_clock \<Rightarrow> branch_tree \<Rightarrow> tree_entry list \<Rightarrow> branch_binding \<Rightarrow> tree_entry list result" where
  "extend_transcript depth fromiso tree transcript binding =
     (let base_item_id = str_strip (bb_base_session_item_id binding)
      in if bb_parent_branch_binding_id binding = [] then
           branch_descendants depth fromiso tree (bb_branch_binding_id binding) None
         else if base_item_id = [] then
           Inl (ValueError ''base_session_item_id is required for branch bindings'')
         else if \<not> dict_has (bt_entries_by_id tree) base_item_id then
           Inl (ValueError (''base_session_item_id not found: '' @ base_item_id))
         else case entry_index transcript base_item_id of
             None \<Rightarrow> Inl (ValueError (''base_session_item_id is not in parent branch transcript: '' @
                                    base_item_id))
           | Some base_index \<Rightarrow>
               res_bind (branch_descendants depth fromiso tree (bb_branch_binding_id binding)
                           (Some base_item_id))
                 (\<lambda>own. Inr (take (base_index + 1) transcript @ own)))"

fun compose_along ::
  "nat \<Rightarrow> iso_clock \<Rightarrow> branch_tree \<Rightarrow> tree_entry list \<Rightarrow> branch_binding list
    \<Rightarrow> tree_entry list result" where
  "compose_along depth fromiso tree transcript [] = Inr transcript"
| "compose_along depth fromiso tree transcript (binding # bindings) =
     res_bind (extend_transcript depth fromiso tree transcript binding)
       (\<lambda>transcript. compose_along depth fromiso tree transcript bindings)"

definition entry_payload :: "tree_entry \<Rightarrow> pyobj" where
  "entry_payload entry =
     dict_setdefault ''branch_binding_id'' (PStr (se_branch_binding_id entry))
      (dict_setdefault ''timestamp'' (PStr (se_timestamp entry))
        (dict_setdefault ''kind'' (PStr (se_kind entry))
          (dict_setdefault ''id'' (PStr (se_id entry)) (se_payload entry))))"

definition selected_entries ::
  "nat \<Rightarrow> iso_clock \<Rightarrow> branch_tree \<Rightarrow> string \<Rightarrow> tree_entry list result" where
  "selected_entries depth fromiso tree branch_binding_id =
     res_bind (branch_ancestor_chain tree branch_binding_id)
       (compose_along depth fromiso tree [])"

definition compose_selected_transcript ::
  "nat \<Rightarrow> iso_clock \<Rightarrow> branch_tree \<Rightarrow> string \<Rightarrow> pyobj list result" where
  "compose_selected_transcript depth fromiso tree branch_binding_id =
     res_bind (selected_entries depth fromiso tree branch_binding_id)
       (\<lambda>transcript. Inr (map entry_payload transcript))"

end
