(* ===== verification/SessionBranchProofs.thy ===== *)
theory SessionBranchProofs
  imports SessionBranchTree
begin

text \<open>
  Facts about the session tree: the ancestor chain is exactly the linked path without a repeated
  branch, a child's transcript extends its parent's transcript up to the base item, every item comes
  after its parent, and how deep the recursion goes.
\<close>

section \<open>Chains\<close>

fun linked :: "branch_tree \<Rightarrow> string \<Rightarrow> branch_binding list \<Rightarrow> bool" where
  "linked tree key [] = False"
| "linked tree key (b # bs) \<longleftrightarrow>
     validate_branch_binding tree key = Inr b \<and>
     (if str_strip (bb_parent_branch_binding_id b) = [] then bs = []
      else linked tree (str_strip (bb_parent_branch_binding_id b)) bs)"

abbreviation chain_ids :: "branch_binding list \<Rightarrow> string list" where
  "chain_ids bs \<equiv> map (\<lambda>b. str_strip (bb_branch_binding_id b)) bs"

lemma chain_up_iff:
  "chain_up tree seen key = Inr chain \<longleftrightarrow>
   linked tree key chain \<and> distinct (chain_ids chain) \<and> set (chain_ids chain) \<inter> set seen = {}"
proof (induction tree seen key arbitrary: chain rule: chain_up.induct)
  case (1 tree seen key)
  show ?case
  proof (cases "validate_branch_binding tree key")
    case (Inl e)
    then show ?thesis by (subst chain_up.simps) (cases chain, simp_all)
  next
    case (Inr b)
    let ?cur = "str_strip (bb_branch_binding_id b)"
    let ?par = "str_strip (bb_parent_branch_binding_id b)"
    have unf: "chain_up tree seen key =
        (if ?cur \<in> set seen then Inl (ValueError (''branch_binding_id parent cycle detected: '' @ ?cur))
         else if ?par = [] then Inr [b]
         else res_bind (chain_up tree (?cur # seen) ?par) (\<lambda>rest. Inr (b # rest)))"
      by (subst chain_up.simps) (simp add: Inr Let_def)
    show ?thesis
    proof (cases chain)
      case Nil
      then show ?thesis by (auto simp: unf res_bind_Inr_iff)
    next
      case (Cons c cs)
      show ?thesis
      proof (cases "?cur \<in> set seen \<or> ?par = []")
        case True
        then show ?thesis using Inr Cons by (auto simp: unf)
      next
        case False
        then have "chain_up tree (?cur # seen) ?par = Inr cs \<longleftrightarrow>
            linked tree ?par cs \<and> distinct (chain_ids cs) \<and>
            set (chain_ids cs) \<inter> set (?cur # seen) = {}"
          using 1[OF Inr refl refl] by simp
        then show ?thesis using Inr Cons False by (auto simp: unf res_bind_Inr_iff)
      qed
    qed
  qed
qed

lemma ancestor_chain_iff:
  "branch_ancestor_chain tree key = Inr chain \<longleftrightarrow>
   linked tree key (rev chain) \<and> distinct (chain_ids chain)"
proof -
  have "branch_ancestor_chain tree key = Inr chain \<longleftrightarrow> chain_up tree [] key = Inr (rev chain)"
    by (auto simp: branch_ancestor_chain_def res_bind_Inr_iff)
  then show ?thesis by (simp add: chain_up_iff rev_map[symmetric])
qed

lemma linked_last_root:
  "linked tree key bs \<Longrightarrow> str_strip (bb_parent_branch_binding_id (last bs)) = []"
  by (induction tree key bs rule: linked.induct) (auto split: if_splits)

lemma linked_deterministic: "linked tree key bs \<Longrightarrow> linked tree key cs \<Longrightarrow> bs = cs"
proof (induction bs arbitrary: key cs)
  case Nil
  then show ?case by simp
next
  case (Cons b bs)
  then show ?case by (cases cs) (auto split: if_splits)
qed

lemma ancestor_chain_parent:
  assumes "branch_ancestor_chain tree key = Inr chain"
    and "validate_branch_binding tree key = Inr b"
    and "str_strip (bb_parent_branch_binding_id b) \<noteq> []"
  shows "\<exists>up. chain = up @ [b] \<and>
     branch_ancestor_chain tree (str_strip (bb_parent_branch_binding_id b)) = Inr up"
proof -
  from assms(1) have l: "linked tree key (rev chain)" and d: "distinct (chain_ids chain)"
    by (simp_all add: ancestor_chain_iff)
  from l obtain c cs where rc: "rev chain = c # cs" by (cases "rev chain") auto
  with l assms(2,3) have c: "c = b" and cs: "linked tree (str_strip (bb_parent_branch_binding_id b)) cs"
    by auto
  from rc c have chain: "chain = rev cs @ [b]" by (metis rev_rev_ident rev.simps(2))
  with d have "distinct (chain_ids (rev cs))" by simp
  with cs chain show ?thesis by (auto simp: ancestor_chain_iff intro!: exI[of _ "rev cs"])
qed

section \<open>Transcripts\<close>

lemma compose_along_append:
  "compose_along depth fromiso tree t (xs @ ys) =
   res_bind (compose_along depth fromiso tree t xs) (\<lambda>t. compose_along depth fromiso tree t ys)"
  by (induction depth fromiso tree t xs rule: compose_along.induct) (simp_all add: res_bind_assoc)

lemma res_bind_Inr_id: "res_bind m Inr = m"
  by (cases m) simp_all

lemma selected_entries_child:
  assumes "branch_ancestor_chain tree key = Inr chain"
    and "validate_branch_binding tree key = Inr b"
    and "str_strip (bb_parent_branch_binding_id b) \<noteq> []"
  shows "selected_entries depth fromiso tree key =
    res_bind (selected_entries depth fromiso tree (str_strip (bb_parent_branch_binding_id b)))
      (\<lambda>t. extend_transcript depth fromiso tree t b)"
proof -
  from ancestor_chain_parent[OF assms] obtain up where
    chain: "chain = up @ [b]" and
    up: "branch_ancestor_chain tree (str_strip (bb_parent_branch_binding_id b)) = Inr up" by blast
  show ?thesis
    by (simp add: selected_entries_def assms(1) up chain compose_along_append res_bind_Inr_id)
qed

lemma entry_index_Some:
  "entry_index es x = Some i \<Longrightarrow> i < length es \<and> se_id (es ! i) = x"
  by (induction es x arbitrary: i rule: entry_index.induct)
    (auto split: if_splits)

lemma child_transcript_lemma:
  assumes "selected_entries depth fromiso tree key = Inr t"
    and "validate_branch_binding tree key = Inr b"
    and "str_strip (bb_parent_branch_binding_id b) \<noteq> []"
  shows "\<exists>up i own. selected_entries depth fromiso tree (str_strip (bb_parent_branch_binding_id b)) = Inr up \<and>
     i < length up \<and> se_id (up ! i) = str_strip (bb_base_session_item_id b) \<and>
     branch_descendants depth fromiso tree (bb_branch_binding_id b)
       (Some (str_strip (bb_base_session_item_id b))) = Inr own \<and>
     t = take (i + 1) up @ own"
proof -
  from assms(1) obtain chain where "branch_ancestor_chain tree key = Inr chain"
    by (auto simp: selected_entries_def res_bind_Inr_iff)
  from selected_entries_child[OF this assms(2,3), of depth fromiso]
  have "res_bind (selected_entries depth fromiso tree (str_strip (bb_parent_branch_binding_id b)))
      (\<lambda>t. extend_transcript depth fromiso tree t b) = Inr t"
    using assms(1) by simp
  then obtain up where
    up: "selected_entries depth fromiso tree (str_strip (bb_parent_branch_binding_id b)) = Inr up"
    and ext: "extend_transcript depth fromiso tree up b = Inr t"
    unfolding res_bind_Inr_iff by blast
  have "bb_parent_branch_binding_id b \<noteq> []" using assms(3) by auto
  with ext obtain i own where "entry_index up (str_strip (bb_base_session_item_id b)) = Some i"
    and "branch_descendants depth fromiso tree (bb_branch_binding_id b)
       (Some (str_strip (bb_base_session_item_id b))) = Inr own"
    and "t = take (i + 1) up @ own"
    by (auto simp: extend_transcript_def Let_def res_bind_Inr_iff split: if_splits option.splits)
  with up show ?thesis by (auto dest: entry_index_Some)
qed

section \<open>The grouping of a branch\<close>

definition branch_entries :: "branch_tree \<Rightarrow> string \<Rightarrow> tree_entry list" where
  "branch_entries tree branch_id =
     filter (\<lambda>e. str_strip (se_branch_binding_id e) = branch_id) (dict_values (bt_entries_by_id tree))"

definition children_of ::
  "(string option, tree_entry list) pydict \<Rightarrow> string option \<Rightarrow> tree_entry list" where
  "children_of groups p = (case dict_get groups p of None \<Rightarrow> [] | Some es \<Rightarrow> es)"

lemma group_fold:
  "children_of (fold (\<lambda>entry groups.
         if str_strip (se_branch_binding_id entry) \<noteq> branch_id then groups
         else dict_set (se_parent_id entry)
                ((case dict_get groups (se_parent_id entry) of None \<Rightarrow> [] | Some es \<Rightarrow> es) @ [entry])
                groups) entries groups) p =
   children_of groups p @
   filter (\<lambda>e. str_strip (se_branch_binding_id e) = branch_id \<and> se_parent_id e = p) entries"
  by (induction entries arbitrary: groups) (auto simp: children_of_def)

lemma children_by_parent_of:
  "children_of (children_by_parent tree branch_id) p =
   filter (\<lambda>e. se_parent_id e = p) (branch_entries tree branch_id)"
  unfolding children_by_parent_def group_fold branch_entries_def
  by (simp add: children_of_def filter_filter conj_commute)

lemma sort_children_of:
  assumes "sort_children fromiso groups = Inr grouped"
  shows "children_of grouped p = sort_key (timestamp_key fromiso) (children_of groups p)"
proof -
  have "list_all2 (\<lambda>g s. (case g of (parent, children) \<Rightarrow>
         res_bind (check_siblings fromiso parent [] children) (\<lambda>_.
           Inr (parent, sort_key (timestamp_key fromiso) children))) = Inr s) groups grouped"
    using assms by (simp add: sort_children_def res_map_ok_iff)
  then show ?thesis
    by (induction rule: list_all2_induct)
      (auto simp: children_of_def res_bind_Inr_iff split: prod.splits)
qed

lemma walk_unfold:
  "walk (Suc depth) groups p =
   res_bind (res_map (\<lambda>child.
       res_bind (walk depth groups (Some (se_id child))) (\<lambda>below. Inr (child # below)))
     (children_of groups p)) (\<lambda>parts. Inr (concat parts))"
  by (simp add: children_of_def)

text \<open>Every item comes after its parent: the parent is the item the branch starts from or an
  earlier item.\<close>

fun parents_first :: "string option set \<Rightarrow> tree_entry list \<Rightarrow> bool" where
  "parents_first known [] = True"
| "parents_first known (e # es) \<longleftrightarrow>
     se_parent_id e \<in> known \<and> parents_first (insert (Some (se_id e)) known) es"

lemma parents_first_mono: "parents_first known es \<Longrightarrow> known \<subseteq> known' \<Longrightarrow> parents_first known' es"
proof (induction es arbitrary: known known')
  case Nil
  then show ?case by simp
next
  case (Cons e es)
  then show ?case
    using insert_mono[OF Cons.prems(2), of "Some (se_id e)"] by auto
qed

lemma parents_first_append:
  "parents_first known (xs @ ys) \<longleftrightarrow>
   parents_first known xs \<and> parents_first (known \<union> (Some \<circ> se_id) ` set xs) ys"
proof (induction xs arbitrary: known)
  case Nil
  then show ?case by simp
next
  case (Cons x xs)
  have "insert (Some (se_id x)) known \<union> (Some \<circ> se_id) ` set xs =
        known \<union> (Some \<circ> se_id) ` set (x # xs)" by auto
  then show ?case by (simp add: Cons.IH)
qed

lemma parents_first_concat:
  "(\<And>part. part \<in> set parts \<Longrightarrow> parents_first known part) \<Longrightarrow> parents_first known (concat parts)"
proof (induction parts)
  case Nil
  then show ?case by simp
next
  case (Cons part parts)
  then have "parents_first known part" "parents_first known (concat parts)" by auto
  then show ?case
    by (auto simp: parents_first_append intro: parents_first_mono)
qed

definition well_grouped :: "(string option, tree_entry list) pydict \<Rightarrow> bool" where
  "well_grouped groups \<longleftrightarrow> (\<forall>p. \<forall>e \<in> set (children_of groups p). se_parent_id e = p)"

lemma list_all2_memD: "list_all2 P xs ys \<Longrightarrow> y \<in> set ys \<Longrightarrow> \<exists>x \<in> set xs. P x y"
  by (induction rule: list_all2_induct) auto

lemma walk_parts:
  assumes "walk (Suc depth) groups p = Inr es"
  obtains parts where "es = concat parts"
    and "\<And>part. part \<in> set parts \<Longrightarrow> \<exists>child \<in> set (children_of groups p). \<exists>below.
       part = child # below \<and> walk depth groups (Some (se_id child)) = Inr below"
proof -
  from assms obtain parts where es: "es = concat parts"
    and parts: "list_all2 (\<lambda>child part.
       res_bind (walk depth groups (Some (se_id child))) (\<lambda>below. Inr (child # below)) = Inr part)
       (children_of groups p) parts"
    by (auto simp: walk_unfold res_bind_Inr_iff res_map_ok_iff simp del: walk.simps)
  show thesis
    by (rule that[OF es]) (drule list_all2_memD[OF parts], auto simp: res_bind_Inr_iff)
qed

lemma walk_parents_first:
  assumes "well_grouped groups"
  shows "walk depth groups p = Inr es \<Longrightarrow> parents_first {p} es"
proof (induction depth arbitrary: p es)
  case 0
  then show ?case by simp
next
  case (Suc depth)
  from Suc.prems obtain parts where es: "es = concat parts"
    and parts: "\<And>part. part \<in> set parts \<Longrightarrow> \<exists>child \<in> set (children_of groups p). \<exists>below.
       part = child # below \<and> walk depth groups (Some (se_id child)) = Inr below"
    by (rule walk_parts) blast
  have "parents_first {p} part" if "part \<in> set parts" for part
  proof -
    from parts[OF that] obtain child below where c: "child \<in> set (children_of groups p)"
      and p: "part = child # below" and w: "walk depth groups (Some (se_id child)) = Inr below" by blast
    have "parents_first {Some (se_id child)} below" by (rule Suc.IH[OF w])
    then have "parents_first (insert (Some (se_id child)) {p}) below"
      by (rule parents_first_mono) auto
    moreover have "se_parent_id child = p" using assms c by (auto simp: well_grouped_def)
    ultimately show ?thesis by (simp add: p)
  qed
  then show ?case unfolding es by (rule parents_first_concat)
qed

lemma walk_in_groups:
  "walk depth groups p = Inr es \<Longrightarrow> e \<in> set es \<Longrightarrow> \<exists>q. e \<in> set (children_of groups q)"
proof (induction depth arbitrary: p es)
  case 0
  then show ?case by simp
next
  case (Suc depth)
  from Suc.prems(1) obtain parts where es: "es = concat parts"
    and parts: "\<And>part. part \<in> set parts \<Longrightarrow> \<exists>child \<in> set (children_of groups p). \<exists>below.
       part = child # below \<and> walk depth groups (Some (se_id child)) = Inr below"
    by (rule walk_parts) blast
  with Suc.prems(2) Suc.IH show ?case by fastforce
qed

lemma branch_descendantsE:
  assumes "branch_descendants depth fromiso tree branch p = Inr es"
  obtains groups where "walk depth groups p = Inr es" and "well_grouped groups"
    and "\<And>q. set (children_of groups q) =
          {e \<in> set (branch_entries tree (str_strip branch)). se_parent_id e = q}"
proof -
  from assms obtain groups
    where s: "sort_children fromiso (children_by_parent tree (str_strip branch)) = Inr groups"
      and w: "walk depth groups p = Inr es"
    by (auto simp: branch_descendants_def res_bind_Inr_iff)
  have "set (children_of groups q) =
          {e \<in> set (branch_entries tree (str_strip branch)). se_parent_id e = q}" for q
    by (auto simp: sort_children_of[OF s] children_by_parent_of)
  moreover from this have "well_grouped groups" by (auto simp: well_grouped_def)
  ultimately show thesis using w by (intro that)
qed

lemma branch_descendants_facts:
  assumes "branch_descendants depth fromiso tree branch p = Inr es"
  shows "parents_first {p} es" and "set es \<subseteq> set (branch_entries tree (str_strip branch))"
proof -
  from assms obtain groups where w: "walk depth groups p = Inr es" and "well_grouped groups"
    and c: "\<And>q. set (children_of groups q) =
          {e \<in> set (branch_entries tree (str_strip branch)). se_parent_id e = q}"
    by (rule branch_descendantsE) blast
  then show "parents_first {p} es" by (intro walk_parents_first)
  show "set es \<subseteq> set (branch_entries tree (str_strip branch))"
    using walk_in_groups[OF w] by (auto simp: c)
qed

lemma extend_parents_first:
  assumes "extend_transcript depth fromiso tree t b = Inr t'" and "parents_first {None} t"
  shows "parents_first {None} t'"
proof (cases "bb_parent_branch_binding_id b = []")
  case True
  then show ?thesis
    using assms(1) branch_descendants_facts(1) by (auto simp: extend_transcript_def Let_def)
next
  case False
  let ?base = "str_strip (bb_base_session_item_id b)"
  from False assms(1) obtain i own where i: "entry_index t ?base = Some i"
    and own: "branch_descendants depth fromiso tree (bb_branch_binding_id b) (Some ?base) = Inr own"
    and t': "t' = take (i + 1) t @ own"
    by (auto simp: extend_transcript_def Let_def res_bind_Inr_iff split: if_splits option.splits)
  from entry_index_Some[OF i] have "t ! i \<in> set (take (i + 1) t)" "se_id (t ! i) = ?base"
    by (auto simp: in_set_conv_nth)
  then have "{Some ?base} \<subseteq> {None} \<union> (Some \<circ> se_id) ` set (take (i + 1) t)"
    by (auto simp: image_iff intro!: bexI[of _ "t ! i"])
  with branch_descendants_facts(1)[OF own]
  have "parents_first ({None} \<union> (Some \<circ> se_id) ` set (take (i + 1) t)) own"
    by (rule parents_first_mono)
  moreover have "parents_first {None} (take (i + 1) t)"
    using assms(2) parents_first_append[of "{None}" "take (i + 1) t" "drop (i + 1) t"] by simp
  ultimately show ?thesis by (simp add: t' parents_first_append)
qed

lemma compose_parents_first:
  "compose_along depth fromiso tree t bs = Inr t' \<Longrightarrow> parents_first {None} t \<Longrightarrow>
   parents_first {None} t'"
  by (induction depth fromiso tree t bs rule: compose_along.induct)
    (auto simp: res_bind_Inr_iff intro: extend_parents_first)

lemma selected_parents_first:
  "selected_entries depth fromiso tree key = Inr t \<Longrightarrow> parents_first {None} t"
  by (auto simp: selected_entries_def res_bind_Inr_iff intro: compose_parents_first)

section \<open>The depth of the recursion\<close>

text \<open>A path of items still to visit: \<open>V\<close> are the items above, \<open>q\<close> is where the path goes on.\<close>

definition walk_path ::
  "tree_entry set \<Rightarrow> string option \<Rightarrow> tree_entry set \<Rightarrow> string option \<Rightarrow> bool" where
  "walk_path E p V q \<longleftrightarrow> V \<subseteq> E \<and> (\<forall>v \<in> V. se_parent_id v \<noteq> q) \<and>
     (\<forall>v \<in> V. se_parent_id v \<in> insert p ((Some \<circ> se_id) ` V)) \<and>
     q \<in> insert p ((Some \<circ> se_id) ` V)"

lemma walk_path_step:
  assumes "walk_path E p V q" and "inj_on se_id E" and "p \<notin> (Some \<circ> se_id) ` E"
    and "c \<in> E" and "se_parent_id c = q"
  shows "c \<notin> V" and "walk_path E p (insert c V) (Some (se_id c))"
proof -
  have V: "V \<subseteq> E" and q: "q \<in> insert p ((Some \<circ> se_id) ` V)"
    and par: "\<And>v. v \<in> V \<Longrightarrow> se_parent_id v \<in> insert p ((Some \<circ> se_id) ` V)"
    using assms(1) by (auto simp: walk_path_def)
  show c: "c \<notin> V" using assms(1,5) by (auto simp: walk_path_def)
  have fresh: "Some (se_id c) \<notin> insert p ((Some \<circ> se_id) ` V)"
    using c V assms(2-4) by (auto dest: inj_onD)
  have "se_parent_id v \<noteq> Some (se_id c)" if "v \<in> insert c V" for v
  proof -
    have "se_parent_id v \<in> insert p ((Some \<circ> se_id) ` V)"
      using that par[of v] q assms(5) by (cases "v = c") simp_all
    with fresh show ?thesis by metis
  qed
  then show "walk_path E p (insert c V) (Some (se_id c))"
    using V assms(4,5) par q by (auto simp: walk_path_def)
qed

lemma walk_total:
  assumes groups: "\<And>q. set (children_of groups q) = {e \<in> E. se_parent_id e = q}"
    and E: "finite E" "inj_on se_id E" "p \<notin> (Some \<circ> se_id) ` E"
  shows "walk_path E p V q \<Longrightarrow> card (E - V) < depth \<Longrightarrow> \<exists>es. walk depth groups q = Inr es"
proof (induction depth arbitrary: V q)
  case 0
  then show ?case by simp
next
  case (Suc depth)
  have "\<exists>below. walk depth groups (Some (se_id c)) = Inr below" if "c \<in> set (children_of groups q)" for c
  proof -
    have c: "c \<in> E" "se_parent_id c = q" using that groups by auto
    note step = walk_path_step[OF Suc.prems(1) E(2,3) c]
    have "card (E - insert c V) < card (E - V)"
      using c(1) step(1) E(1) by (intro psubset_card_mono) auto
    with Suc.IH[OF step(2)] Suc.prems(2) show ?thesis by simp
  qed
  then have "\<exists>parts. res_map (\<lambda>child.
       res_bind (walk depth groups (Some (se_id child))) (\<lambda>below. Inr (child # below)))
     cs = Inr parts" if "set cs \<subseteq> set (children_of groups q)" for cs
    using that
  proof (induction cs)
    case Nil
    then show ?case by simp
  next
    case (Cons c cs)
    then obtain parts where "res_map (\<lambda>child.
       res_bind (walk depth groups (Some (se_id child))) (\<lambda>below. Inr (child # below))) cs = Inr parts"
      by auto
    moreover obtain below where "walk depth groups (Some (se_id c)) = Inr below"
      using Cons.prems by (metis list.set_intros(1) subset_iff)
    ultimately show ?case by simp
  qed
  from this[OF subset_refl] show ?case by (auto simp: walk_unfold simp del: walk.simps)
qed

lemma sort_children_ok:
  assumes "\<And>parent children. (parent, children) \<in> set groups \<Longrightarrow>
     check_siblings fromiso parent [] children = Inr ()"
  shows "\<exists>grouped. sort_children fromiso groups = Inr grouped"
  using assms
proof (induction groups)
  case Nil
  then show ?case by (simp add: sort_children_def)
next
  case (Cons g groups)
  then have "\<exists>grouped. sort_children fromiso groups = Inr grouped" by simp
  moreover obtain parent children where "g = (parent, children)" by (cases g)
  ultimately show ?case using Cons.prems by (auto simp: sort_children_def)
qed

lemma check_siblings_ok:
  "check_siblings fromiso parent seen cs = Inr () \<longleftrightarrow>
   (\<forall>c \<in> set cs. is_ok (entry_timestamp fromiso c)) \<and>
   distinct (map (timestamp_key fromiso) cs) \<and> timestamp_key fromiso ` set cs \<inter> set seen = {}"
  by (induction fromiso parent seen cs rule: check_siblings.induct)
    (auto simp: res_bind_Inr_iff is_ok_iff timestamp_key_def)

lemma group_distinct_keys:
  "dict_wf groups \<Longrightarrow> dict_wf (fold (\<lambda>entry groups.
         if str_strip (se_branch_binding_id entry) \<noteq> branch_id then groups
         else dict_set (se_parent_id entry)
                ((case dict_get groups (se_parent_id entry) of None \<Rightarrow> [] | Some es \<Rightarrow> es) @ [entry])
                groups) entries groups)"
  by (induction entries arbitrary: groups) auto

lemma descendants_total_lemma:
  assumes stamps: "\<And>e. e \<in> set (branch_entries tree (str_strip branch)) \<Longrightarrow>
      is_ok (entry_timestamp fromiso e)"
    and siblings: "\<And>q. distinct (map (timestamp_key fromiso)
      (filter (\<lambda>e. se_parent_id e = q) (branch_entries tree (str_strip branch))))"
    and ids: "inj_on se_id (set (branch_entries tree (str_strip branch)))"
    and base: "p \<notin> (Some \<circ> se_id) ` set (branch_entries tree (str_strip branch))"
    and depth: "length (branch_entries tree (str_strip branch)) < depth"
  shows "\<exists>es. branch_descendants depth fromiso tree branch p = Inr es"
proof -
  let ?E = "branch_entries tree (str_strip branch)"
  let ?groups = "children_by_parent tree (str_strip branch)"
  have "dict_wf ?groups"
    unfolding children_by_parent_def by (rule group_distinct_keys) simp
  then have eq: "children = filter (\<lambda>e. se_parent_id e = q) ?E" if "(q, children) \<in> set ?groups" for q children
    using that children_by_parent_of[of tree "str_strip branch" q]
    by (simp add: children_of_def dict_wf_get)
  have "check_siblings fromiso q [] children = Inr ()" if "(q, children) \<in> set ?groups" for q children
    unfolding eq[OF that] using stamps siblings[of q] by (simp add: check_siblings_ok)
  then obtain grouped where s: "sort_children fromiso ?groups = Inr grouped"
    using sort_children_ok by blast
  have "set (children_of grouped q) = {e \<in> set ?E. se_parent_id e = q}" for q
    by (auto simp: sort_children_of[OF s] children_by_parent_of)
  moreover have "walk_path (set ?E) p {} p" by (simp add: walk_path_def)
  moreover have "card (set ?E - {}) < depth" using depth card_length[of ?E] by simp
  ultimately have "\<exists>es. walk depth grouped p = Inr es"
    using walk_total[of grouped "set ?E" p "{}" p depth] ids base by simp
  then show ?thesis using s by (simp add: branch_descendants_def)
qed

text \<open>A path as long as the recursion limit is one item too many.\<close>

fun item_path :: "(string option, tree_entry list) pydict \<Rightarrow> string option \<Rightarrow> tree_entry list \<Rightarrow> bool" where
  "item_path groups p [] = True"
| "item_path groups p (e # es) \<longleftrightarrow>
     e \<in> set (children_of groups p) \<and> item_path groups (Some (se_id e)) es"

lemma walk_too_deep:
  "item_path groups p es \<Longrightarrow> depth \<le> length es \<Longrightarrow> \<not> is_ok (walk depth groups p)"
proof (induction depth arbitrary: p es)
  case 0
  then show ?case by simp
next
  case (Suc depth)
  then obtain e rest where es: "es = e # rest" by (cases es) auto
  with Suc have e: "e \<in> set (children_of groups p)"
    and bad: "\<not> is_ok (walk depth groups (Some (se_id e)))" by auto
  show ?case
  proof
    assume "is_ok (walk (Suc depth) groups p)"
    then obtain parts where "list_all2 (\<lambda>child part.
       res_bind (walk depth groups (Some (se_id child))) (\<lambda>below. Inr (child # below)) = Inr part)
       (children_of groups p) parts"
      by (auto simp: walk_unfold is_ok_iff res_bind_Inr_iff res_map_ok_iff simp del: walk.simps)
    then have "\<forall>c \<in> set (children_of groups p). is_ok (walk depth groups (Some (se_id c)))"
      by (induction rule: list_all2_induct) (auto simp: res_bind_Inr_iff)
    with e bad show False by blast
  qed
qed

section \<open>Properties\<close>

text \<open>The ancestor chain of a branch is found exactly when following the parent links from the
  branch reaches a root without meeting a branch twice, and then it is that path, root first.\<close>

theorem ancestor_chain_correct:
  "branch_ancestor_chain tree key = Inr chain \<longleftrightarrow>
   linked tree key (rev chain) \<and> distinct (map (\<lambda>b. str_strip (bb_branch_binding_id b)) chain)"
  by (rule ancestor_chain_iff)

text \<open>C36. The transcript of a branch is the transcript of its parent branch up to and including the
  item the branch starts from, followed by the branch's own items below that item.\<close>

theorem transcript_extends_parent:
  assumes "selected_entries depth fromiso tree key = Inr t"
    and "validate_branch_binding tree key = Inr b"
    and "str_strip (bb_parent_branch_binding_id b) \<noteq> []"
  shows "\<exists>up i own.
     selected_entries depth fromiso tree (str_strip (bb_parent_branch_binding_id b)) = Inr up \<and>
     i < length up \<and> se_id (up ! i) = str_strip (bb_base_session_item_id b) \<and>
     branch_descendants depth fromiso tree (bb_branch_binding_id b)
       (Some (str_strip (bb_base_session_item_id b))) = Inr own \<and>
     t = take (i + 1) up @ own"
  using assms by (rule child_transcript_lemma)

definition demo_clock :: iso_clock where
  "demo_clock s = (if s = [] then None else Some (int (code_point (last s)), True))"

definition demo_entry :: "string \<Rightarrow> string option \<Rightarrow> string \<Rightarrow> string \<Rightarrow> tree_entry" where
  "demo_entry i parent branch stamp =
     \<lparr>se_id = i, se_parent_id = parent, se_branch_binding_id = branch, se_kind = ''message'',
      se_timestamp = stamp, se_payload = []\<rparr>"

definition demo_binding :: "string \<Rightarrow> string \<Rightarrow> string \<Rightarrow> branch_binding" where
  "demo_binding i parent base =
     \<lparr>bb_branch_binding_id = i, bb_agent_run_id = ''run'', bb_relation = ''branch'',
      bb_status = ''active'', bb_parent_branch_binding_id = parent,
      bb_base_session_item_id = base, bb_source_agent_run_id = []\<rparr>"

definition demo_tree :: branch_tree where
  "demo_tree =
     \<lparr>bt_session_run_id = ''s'', bt_root_branch_binding_id = ''main'',
      bt_selected_branch_binding_id = ''alt'',
      bt_entries_by_id =
        [(''i1'', demo_entry ''i1'' None ''main'' ''1''),
         (''i2'', demo_entry ''i2'' (Some ''i1'') ''main'' ''2''),
         (''j1'', demo_entry ''j1'' (Some ''i1'') ''alt'' ''3'')],
      bt_branch_bindings_by_id =
        [(''main'', demo_binding ''main'' [] []), (''alt'', demo_binding ''alt'' ''main'' ''i1'')]\<rparr>"

lemma demo_tree_main:
  "selected_entries 9 demo_clock demo_tree ''main'' =
     Inr [demo_entry ''i1'' None ''main'' ''1'', demo_entry ''i2'' (Some ''i1'') ''main'' ''2'']"
  by code_simp

lemma demo_tree_alt:
  "selected_entries 9 demo_clock demo_tree ''alt'' =
     Inr [demo_entry ''i1'' None ''main'' ''1'', demo_entry ''j1'' (Some ''i1'') ''alt'' ''3'']"
  by code_simp

lemma transcript_extends_parent_witness:
  "\<exists>up i own. selected_entries 9 demo_clock demo_tree ''main'' = Inr up \<and> i < length up \<and>
     [demo_entry ''i1'' None ''main'' ''1'', demo_entry ''j1'' (Some ''i1'') ''alt'' ''3''] =
       take (i + 1) up @ own"
proof -
  have "validate_branch_binding demo_tree ''alt'' = Inr (demo_binding ''alt'' ''main'' ''i1'')"
    "str_strip (bb_parent_branch_binding_id (demo_binding ''alt'' ''main'' ''i1'')) = ''main''"
    by code_simp+
  with transcript_extends_parent[OF demo_tree_alt this(1)] show ?thesis by auto
qed

text \<open>In a composed transcript every item stands after the item it answers; only items without
  a parent may stand first.\<close>

theorem transcript_parents_first:
  assumes "selected_entries depth fromiso tree key = Inr t" and "i < length t"
  shows "se_parent_id (t ! i) = None \<or> (\<exists>j < i. se_parent_id (t ! i) = Some (se_id (t ! j)))"
proof -
  have "parents_first known es \<Longrightarrow> i < length es \<Longrightarrow>
      se_parent_id (es ! i) \<in> known \<or> (\<exists>j < i. se_parent_id (es ! i) = Some (se_id (es ! j)))"
    for known es
  proof (induction known es arbitrary: i rule: parents_first.induct)
    case (1 known)
    then show ?case by simp
  next
    case (2 known e es)
    show ?case
    proof (cases i)
      case 0
      then show ?thesis using 2 by simp
    next
      case (Suc k)
      with 2 have "se_parent_id (es ! k) \<in> insert (Some (se_id e)) known \<or>
          (\<exists>j < k. se_parent_id (es ! k) = Some (se_id (es ! j)))" by simp
      then show ?thesis using Suc by (auto intro: exI[of _ 0] exI[of _ "Suc _"])
    qed
  qed
  from this[OF selected_parents_first[OF assms(1)] assms(2)] show ?thesis by auto
qed

lemma transcript_parents_first_witness:
  "\<exists>j < 1. Some ''i1'' = Some (se_id ([demo_entry ''i1'' None ''main'' ''1'',
      demo_entry ''j1'' (Some ''i1'') ''alt'' ''3''] ! j))"
  using transcript_parents_first[OF demo_tree_alt, of 1] by (auto simp: demo_entry_def)

text \<open>Collecting the items of a branch returns: when the items have distinct identifiers and
  well-formed, pairwise different sibling timestamps, the start item is outside the branch, and the
  branch has fewer items than the recursion limit, the result is a list of items.\<close>

theorem descendants_total:
  assumes "\<And>e. e \<in> set (branch_entries tree (str_strip branch)) \<Longrightarrow>
      is_ok (entry_timestamp fromiso e)"
    and "\<And>q. distinct (map (timestamp_key fromiso)
      (filter (\<lambda>e. se_parent_id e = q) (branch_entries tree (str_strip branch))))"
    and "inj_on se_id (set (branch_entries tree (str_strip branch)))"
    and "p \<notin> (Some \<circ> se_id) ` set (branch_entries tree (str_strip branch))"
    and "length (branch_entries tree (str_strip branch)) < depth"
  shows "\<exists>es. branch_descendants depth fromiso tree branch p = Inr es"
  using assms by (rule descendants_total_lemma)

lemma descendants_total_witness:
  "\<exists>es. branch_descendants 3 demo_clock demo_tree ''main'' None = Inr es"
proof -
  have b: "branch_entries demo_tree (str_strip ''main'') =
      [demo_entry ''i1'' None ''main'' ''1'', demo_entry ''i2'' (Some ''i1'') ''main'' ''2'']"
    by code_simp
  have ok: "is_ok (entry_timestamp demo_clock (demo_entry ''i1'' None ''main'' ''1''))"
    "is_ok (entry_timestamp demo_clock (demo_entry ''i2'' (Some ''i1'') ''main'' ''2''))"
    by code_simp+
  show ?thesis
    by (rule descendants_total; unfold b) (use ok in \<open>auto simp: demo_entry_def\<close>)
qed

text \<open>A branch in which the items form one line as long as the recursion limit cannot be shown:
  collecting its items raises \<open>RecursionError\<close>.\<close>

theorem long_line_exhausts_recursion:
  assumes "sort_children fromiso (children_by_parent tree (str_strip branch)) = Inr groups"
    and "item_path groups p es" and "depth \<le> length es"
  shows "\<not> is_ok (branch_descendants depth fromiso tree branch p)"
  using walk_too_deep[OF assms(2,3)] by (simp add: branch_descendants_def assms(1))

lemma long_line_exhausts_recursion_witness:
  "\<not> is_ok (branch_descendants 2 demo_clock demo_tree ''main'' None)"
proof -
  have s: "sort_children demo_clock (children_by_parent demo_tree (str_strip ''main'')) =
      Inr [(None, [demo_entry ''i1'' None ''main'' ''1'']),
           (Some ''i1'', [demo_entry ''i2'' (Some ''i1'') ''main'' ''2''])]"
    by code_simp
  show ?thesis
    by (rule long_line_exhausts_recursion[OF s, of None
          "[demo_entry ''i1'' None ''main'' ''1'', demo_entry ''i2'' (Some ''i1'') ''main'' ''2'']"])
      (simp_all add: children_of_def demo_entry_def)
qed

end
