(* ===== verification/PatchGrammar.thy ===== *)
theory PatchGrammar
  imports PyValue
begin

text \<open>
  The structured patch language of the \<open>apply_patch\<close> tool, from
  \<open>src/reuleauxcoder/domain/files/file_mutation_service.py\<close>: the parser of a patch document, the
  hunks of an update and their application to a text; and the checks that
  \<open>src/reuleauxcoder/domain/files/apply_patch_contract.py\<close> makes before a patch is executed.
  \<open>FileMutationError\<close> is a \<open>ValueError\<close>.

  The parser's index runs over the lines between the first and the last; here it is the list of the
  lines that are left.
\<close>

section \<open>Operations\<close>

datatype file_change_kind = Kind_ADD | Kind_UPDATE | Kind_DELETE | Kind_MOVE

fun kind_text :: "file_change_kind \<Rightarrow> string" where
  "kind_text Kind_ADD = ''add''"
| "kind_text Kind_UPDATE = ''update''"
| "kind_text Kind_DELETE = ''delete''"
| "kind_text Kind_MOVE = ''move''"

record patch_operation =
  po_kind :: file_change_kind
  po_path :: string
  po_move_path :: "string option"
  po_lines :: "string list"

section \<open>Parsing\<close>

definition normalize_newlines :: "string \<Rightarrow> string" where
  "normalize_newlines s =
     str_replace [carriage_return] [newline] (str_replace [carriage_return, newline] [newline] s)"

definition text_lines :: "string \<Rightarrow> string list" where
  "text_lines s =
     (let lines = split_on newline (normalize_newlines s)
      in if last lines = [] then butlast lines else lines)"

definition section_line :: "string \<Rightarrow> bool" where
  "section_line line = startswith line ''*** ''"

definition collect_until_next_section :: "string list \<Rightarrow> string list \<times> string list" where
  "collect_until_next_section lines =
     (takeWhile (\<lambda>l. \<not> section_line l) lines, dropWhile (\<lambda>l. \<not> section_line l) lines)"

definition after_prefix :: "string \<Rightarrow> string \<Rightarrow> string" where
  "after_prefix pre line = str_strip (drop (length pre) line)"

definition split_move :: "string list \<Rightarrow> string option \<times> string list" where
  "split_move lines =
     (case lines of
        [] \<Rightarrow> (None, [])
      | l # ls \<Rightarrow> if startswith l ''*** Move to: '' then (Some (after_prefix ''*** Move to: '' l), ls)
                 else (None, lines))"

lemma split_move_length: "length (snd (split_move lines)) \<le> length lines"
  by (simp add: split_move_def split: list.split)

function parse_operations :: "string list \<Rightarrow> patch_operation list result" where
  "parse_operations [] = Inr []"
| "parse_operations (line # lines) =
     (if startswith line ''*** Add File: '' then
        res_bind (parse_operations (snd (collect_until_next_section lines))) (\<lambda>ops.
          Inr (\<lparr>po_kind = Kind_ADD, po_path = after_prefix ''*** Add File: '' line,
                po_move_path = None, po_lines = fst (collect_until_next_section lines)\<rparr> # ops))
      else if startswith line ''*** Delete File: '' then
        res_bind (parse_operations lines) (\<lambda>ops.
          Inr (\<lparr>po_kind = Kind_DELETE, po_path = after_prefix ''*** Delete File: '' line,
                po_move_path = None, po_lines = []\<rparr> # ops))
      else if startswith line ''*** Update File: '' then
        res_bind (parse_operations (snd (collect_until_next_section (snd (split_move lines)))))
          (\<lambda>ops.
          Inr (\<lparr>po_kind = (if opt_str (fst (split_move lines)) = [] then Kind_UPDATE else Kind_MOVE),
                po_path = after_prefix ''*** Update File: '' line,
                po_move_path = fst (split_move lines),
                po_lines = fst (collect_until_next_section (snd (split_move lines)))\<rparr> # ops))
      else Inl (ValueError (''unexpected patch line: '' @ line)))"
  by pat_completeness auto
termination
  by (relation "measure length")
    (auto simp: collect_until_next_section_def less_Suc_eq_le
      intro: order_trans[OF length_dropWhile_le] split_move_length)

definition parse_patch :: "string \<Rightarrow> patch_operation list result" where
  "parse_patch patch =
     (if str_strip patch = [] then Inl (ValueError ''patch must be a non-empty string'')
      else
        (let lines = text_lines patch
         in if lines = [] \<or> str_strip (hd lines) \<noteq> ''*** Begin Patch''
            then Inl (ValueError ''patch must start with *** Begin Patch'')
            else if str_strip (last lines) \<noteq> ''*** End Patch''
            then Inl (ValueError ''patch must end with *** End Patch'')
            else res_bind (parse_operations (butlast (tl lines))) (\<lambda>operations.
              if operations = [] then Inl (ValueError ''patch contains no file operations'')
              else Inr operations)))"

section \<open>Contents and hunks\<close>

definition content_from_added_lines :: "string list \<Rightarrow> string result" where
  "content_from_added_lines lines =
     (if list_all (\<lambda>line. startswith line ''+'') lines
      then Inr (str_join [newline] (map tl lines) @ (if lines = [] then [] else [newline]))
      else Inl (ValueError ''Add File lines must start with +''))"

fun split_hunks_from :: "string list option \<Rightarrow> string list \<Rightarrow> string list list result" where
  "split_hunks_from current [] = Inr (case current of None \<Rightarrow> [] | Some hunk \<Rightarrow> [hunk])"
| "split_hunks_from current (line # lines) =
     (if startswith line ''@@'' then
        res_bind (split_hunks_from (Some []) lines) (\<lambda>hunks.
          Inr ((case current of None \<Rightarrow> [] | Some hunk \<Rightarrow> [hunk]) @ hunks))
      else case current of
        None \<Rightarrow>
          if str_strip line = [] then split_hunks_from None lines
          else Inl (ValueError ''Update File hunks must start with @@'')
      | Some hunk \<Rightarrow> split_hunks_from (Some (hunk @ [line])) lines)"

definition split_hunks :: "string list \<Rightarrow> string list list result" where
  "split_hunks lines = split_hunks_from None lines"

definition hunk_line_error :: py_error where
  "hunk_line_error = ValueError ''hunk lines must start with space, -, or +''"

fun hunk_segments :: "string list \<Rightarrow> (string list \<times> string list) result" where
  "hunk_segments [] = Inr ([], [])"
| "hunk_segments (line # lines) =
     (case line of
        [] \<Rightarrow> Inl hunk_line_error
      | pre # txt \<Rightarrow>
          if pre \<notin> {CHR '' '', CHR ''-'', CHR ''+''} then Inl hunk_line_error
          else res_bind (hunk_segments lines) (\<lambda>(old_segment, new_segment).
            Inr (if pre = CHR ''+'' then old_segment else txt # old_segment,
                 if pre = CHR ''-'' then new_segment else txt # new_segment)))"

definition segment_at :: "'a list \<Rightarrow> 'a list \<Rightarrow> nat \<Rightarrow> bool" where
  "segment_at lines segment index = (take (length segment) (drop index lines) = segment)"

definition find_unique_segment :: "string list \<Rightarrow> string list \<Rightarrow> nat \<Rightarrow> nat result" where
  "find_unique_segment lines segment start =
     (let ahead = filter (segment_at lines segment)
                    [start ..< length lines + 1 - length segment];
          matches = (if ahead = [] \<and> start \<noteq> 0
                     then filter (segment_at lines segment) [0 ..< start] else ahead)
      in case matches of
           [] \<Rightarrow> Inl (ValueError ''patch context does not match file'')
         | [index] \<Rightarrow> Inr index
         | _ \<Rightarrow> Inl (ValueError ''patch context matches multiple locations''))"

definition replace_segment :: "'a list \<Rightarrow> nat \<Rightarrow> nat \<Rightarrow> 'a list \<Rightarrow> 'a list" where
  "replace_segment lines index len new = take index lines @ new @ drop (index + len) lines"

fun apply_hunks :: "string list \<Rightarrow> nat \<Rightarrow> string list list \<Rightarrow> string list result" where
  "apply_hunks current cursor [] = Inr current"
| "apply_hunks current cursor (hunk # hunks) =
     res_bind (hunk_segments hunk) (\<lambda>(old_segment, new_segment).
       if old_segment = [] then
         Inl (ValueError ''update hunk must include context or removed lines'')
       else res_bind (find_unique_segment current old_segment cursor) (\<lambda>index.
         apply_hunks (replace_segment current index (length old_segment) new_segment)
           (index + length new_segment) hunks))"

definition ends_with_newline :: "string \<Rightarrow> bool" where
  "ends_with_newline s \<longleftrightarrow> s \<noteq> [] \<and> last s \<in> {newline, carriage_return}"

definition apply_update_hunks :: "string \<Rightarrow> string list \<Rightarrow> string \<Rightarrow> string result" where
  "apply_update_hunks old_content lines path =
     res_bind (split_hunks lines) (\<lambda>hunks.
       if hunks = [] then Inl (ValueError (''Update File requires at least one hunk: '' @ path))
       else res_bind (apply_hunks (text_lines old_content) 0 hunks) (\<lambda>current.
         Inr (str_join [newline] current @
              (if ends_with_newline old_content then [newline] else []))))"

section \<open>Paths\<close>

text \<open>The parts of a relative POSIX path: empty and single-dot segments vanish.\<close>

definition path_parts :: "string \<Rightarrow> string list" where
  "path_parts s = filter (\<lambda>p. p \<noteq> [] \<and> p \<noteq> ''.'') (split_on (CHR ''/'') s)"

text \<open>\<open>PureWindowsPath(value).drive\<close> and \<open>is_absolute\<close> for a value that does not start with a
  separator: a drive is any character followed by a colon, and the path is absolute when a
  separator comes next.\<close>

definition is_separator :: "char \<Rightarrow> bool" where
  "is_separator c \<longleftrightarrow> c = CHR ''/'' \<or> c = CHR 0x5C"

definition windows_drive :: "string \<Rightarrow> bool" where
  "windows_drive s = (case s of _ # c # _ \<Rightarrow> c = CHR '':'' | _ \<Rightarrow> False)"

definition windows_absolute :: "string \<Rightarrow> bool" where
  "windows_absolute s = (case s of _ # c # d # _ \<Rightarrow> c = CHR '':'' \<and> is_separator d | _ \<Rightarrow> False)"

definition windows_parts :: "string \<Rightarrow> string list" where
  "windows_parts s =
     path_parts (str_replace [CHR 0x5C] ''/'' (if windows_drive s then drop 2 s else s))"

definition starts_with_separator :: "string \<Rightarrow> bool" where
  "starts_with_separator s = (case s of c # _ \<Rightarrow> is_separator c | [] \<Rightarrow> False)"

section \<open>The contract check\<close>

definition validate_contract_path :: "string \<Rightarrow> unit result" where
  "validate_contract_path path =
     (let val = str_strip path
      in if val = [] then Inl (ValueError ''file path must be a non-empty string'')
         else if starts_with_separator val \<or> windows_absolute val
           then Inl (ValueError (''absolute paths are not allowed: '' @ path))
         else if windows_drive val
           then Inl (ValueError (''drive-relative paths are not allowed: '' @ path))
         else if ''..'' \<in> set (path_parts val) \<or> ''..'' \<in> set (windows_parts val)
           then Inl (ValueError (''path traversal is not allowed: '' @ path))
         else Inr ())"

definition validate_add_lines :: "string list \<Rightarrow> unit result" where
  "validate_add_lines lines =
     (if list_all (\<lambda>line. startswith line ''+'') lines then Inr ()
      else Inl (ValueError ''Add File lines must start with +''))"

definition validate_hunk :: "string list \<Rightarrow> unit result" where
  "validate_hunk hunk =
     (if list_ex (\<lambda>line. line = [] \<or> hd line \<notin> {CHR '' '', CHR ''-'', CHR ''+''}) hunk
      then Inl hunk_line_error
      else if \<not> list_ex (\<lambda>line. hd line \<in> {CHR '' '', CHR ''-''}) hunk
      then Inl (ValueError ''update hunk must include context or removed lines'')
      else Inr ())"

definition validate_update_lines :: "string list \<Rightarrow> string \<Rightarrow> unit result" where
  "validate_update_lines lines path =
     res_bind (split_hunks lines) (\<lambda>hunks.
       if hunks = [] then Inl (ValueError (''Update File requires at least one hunk: '' @ path))
       else res_each validate_hunk hunks)"

definition validate_operation :: "patch_operation \<Rightarrow> unit result" where
  "validate_operation op =
     res_bind (validate_contract_path (po_path op)) (\<lambda>_.
     res_bind (if opt_str (po_move_path op) = [] then Inr ()
               else validate_contract_path (opt_str (po_move_path op))) (\<lambda>_.
       if po_kind op = Kind_ADD then validate_add_lines (po_lines op)
       else if po_kind op = Kind_UPDATE then validate_update_lines (po_lines op) (po_path op)
       else if po_kind op = Kind_MOVE \<and> po_lines op \<noteq> []
         then validate_update_lines (po_lines op) (po_path op)
       else Inr ()))"

definition validate_apply_patch_contract :: "string \<Rightarrow> unit result" where
  "validate_apply_patch_contract patch =
     res_bind (parse_patch patch) (res_each validate_operation)"

end
