(* ===== verification/FileMutation.thy ===== *)
theory FileMutation
  imports PatchGrammar Coercions "HOL-Library.Sublist"
begin

text \<open>
  The file mutation service, \<open>src/reuleauxcoder/domain/files/file_mutation_service.py\<close>: planning a
  patch against the workspace, applying the planned operations with a roll-back, committing a new
  document and saving an approved candidate.

  The file system is a partial map from absolute paths (lists of names) to files and directories, and a
  table of symbolic links, which is part of the service's surroundings (\<open>ms_links\<close>): the service follows
  links when it resolves a path and neither makes nor removes any, and a resolved path has none on its
  way (\<open>resolved_link_free\<close>), so the operations on it act on the map. A write can be refused or leave a
  part of the content behind, and an unlink can fail: which do is the argument \<open>io\<close>. Characters have
  code points below 256, so that encoding a content to UTF-8 never fails. \<open>difflib.unified_diff\<close> (\<open>udiff\<close>), SHA-256 (\<open>sha\<close>), the \<open>uuid4\<close> of a plan
  (\<open>fresh\<close>) and the clock are arguments; the elapsed time is not part of a result.
\<close>

section \<open>The file system\<close>

type_synonym fpath = "string list"

datatype node = File string | Dir

type_synonym fs = "fpath \<Rightarrow> node option"

text \<open>A write that fails: the file cannot be opened and stays as it is, or a part is written.\<close>

datatype write_fault = Refused | Cut string

record io_faults =
  io_write :: "fpath \<Rightarrow> string \<Rightarrow> write_fault option"
  io_unlink :: "fpath \<Rightarrow> bool"

definition no_faults :: io_faults where
  "no_faults = \<lparr>io_write = (\<lambda>_ _. None), io_unlink = (\<lambda>_. False)\<rparr>"

definition is_file :: "fs \<Rightarrow> fpath \<Rightarrow> bool" where
  "is_file fs p = (case fs p of Some (File _) \<Rightarrow> True | _ \<Rightarrow> False)"

text \<open>\<open>p.mkdir(parents=True, exist_ok=True)\<close>: a file on the way is an error, and then nothing is
  created.\<close>

definition mkdir_parents :: "fpath \<Rightarrow> fs \<Rightarrow> fs \<times> unit result" where
  "mkdir_parents p fs =
     (if list_ex (is_file fs) (prefixes p) then (fs, Inl (OSError ''not a directory''))
      else ((\<lambda>q. if fs q = None \<and> q \<in> set (prefixes p) then Some Dir else fs q), Inr ()))"

definition write_text :: "io_faults \<Rightarrow> fpath \<Rightarrow> string \<Rightarrow> fs \<Rightarrow> fs \<times> unit result" where
  "write_text io p content fs =
     (if fs p = Some Dir then (fs, Inl (OSError ''is a directory''))
      else case io_write io p content of
        Some Refused \<Rightarrow> (fs, Inl (OSError ''cannot open''))
      | Some (Cut part) \<Rightarrow> (fs(p \<mapsto> File part), Inl (OSError ''write failed''))
      | None \<Rightarrow> (fs(p \<mapsto> File content), Inr ()))"

definition unlink :: "io_faults \<Rightarrow> fpath \<Rightarrow> fs \<Rightarrow> fs \<times> unit result" where
  "unlink io p fs =
     (if io_unlink io p then (fs, Inl (OSError ''unlink failed'')) else (fs(p := None), Inr ()))"

text \<open>One effect after the other, up to the first exception.\<close>

definition and_then :: "fs \<times> unit result \<Rightarrow> (fs \<Rightarrow> fs \<times> unit result) \<Rightarrow> fs \<times> unit result" where
  "and_then r f = (case r of (fs, Inl e) \<Rightarrow> (fs, Inl e) | (fs, Inr _) \<Rightarrow> f fs)"

lemma and_then_simps [simp]:
  "and_then (fs, Inl e) f = (fs, Inl e)" "and_then (fs, Inr u) f = f fs"
  by (simp_all add: and_then_def)

definition delete_file_if_present :: "io_faults \<Rightarrow> fpath \<Rightarrow> fs \<Rightarrow> fs \<times> unit result" where
  "delete_file_if_present io p fs =
     (if fs p = None then (fs, Inr ())
      else if \<not> is_file fs p then (fs, Inl (ValueError ''not a file''))
      else unlink io p fs)"

definition read_existing_text :: "fs \<Rightarrow> fpath \<Rightarrow> string option result" where
  "read_existing_text fs p =
     (case fs p of
        None \<Rightarrow> Inr None
      | Some (File content) \<Rightarrow> Inr (Some content)
      | Some Dir \<Rightarrow> Inl (ValueError ''not a file''))"

section \<open>Paths in the workspace\<close>

text \<open>The symbolic links: where they are and the text they hold.\<close>

type_synonym link_table = "(fpath \<times> string) list"

text \<open>\<open>Path.resolve()\<close> from the directory \<open>path\<close>: one part after the other; \<open>..\<close> goes up, a link is
  replaced by what its text names, resolved in turn. A link met while it is being resolved is a loop,
  which \<open>resolve\<close> reports (up to Python 3.12).\<close>

definition link_start :: "fpath \<Rightarrow> string \<Rightarrow> fpath" where
  "link_start path dest = (if startswith dest ''/'' then [] else path)"

function resolve_parts :: "link_table \<Rightarrow> fpath list \<Rightarrow> fpath \<Rightarrow> string list \<Rightarrow> fpath result" where
  "resolve_parts links opened path [] = Inr path"
| "resolve_parts links opened path (part # rest) =
     (if part = ''..'' then resolve_parts links opened (butlast path) rest
      else case map_of links (path @ [part]) of
        None \<Rightarrow> resolve_parts links opened (path @ [part]) rest
      | Some dest \<Rightarrow>
          if path @ [part] \<in> set opened then Inl (RuntimeError ''Symlink loop'')
          else res_bind (resolve_parts links ((path @ [part]) # opened) (link_start path dest)
                           (path_parts dest)) (\<lambda>path.
            resolve_parts links opened path rest))"
  by pat_completeness auto
termination
proof (relation "measures [\<lambda>(links, opened, path, parts). card (fst ` set links - set opened),
    \<lambda>(links, opened, path, parts). length parts]", goal_cases)
  case 1
  then show ?case by simp
next
  case (4 links opened path part rest dest)
  then have "path @ [part] \<in> fst ` set links - set opened"
    by (auto dest: map_of_SomeD intro: rev_image_eqI)
  then have "card (fst ` set links - insert (path @ [part]) (set opened)) < card (fst ` set links - set opened)"
    by (intro psubset_card_mono) auto
  then show ?case by simp
qed auto

text \<open>\<open>(root / candidate).resolve()\<close>: a candidate that is absolute replaces the root.\<close>

definition resolve_joined :: "link_table \<Rightarrow> fpath \<Rightarrow> string \<Rightarrow> fpath result" where
  "resolve_joined links root file_path =
     resolve_parts links [] []
       (if startswith file_path ''/'' then path_parts file_path else root @ path_parts file_path)"

definition resolve_workspace_path :: "link_table \<Rightarrow> fpath \<Rightarrow> string \<Rightarrow> fpath result" where
  "resolve_workspace_path links root file_path =
     (if str_strip file_path = [] then Inl (ValueError ''file path must be a non-empty string'')
      else if starts_with_separator file_path \<or> windows_absolute file_path
        then Inl (ValueError (''absolute paths are not allowed: '' @ file_path))
      else if windows_drive file_path
        then Inl (ValueError (''drive-relative paths are not allowed: '' @ file_path))
      else if ''..'' \<in> set (path_parts file_path)
        then Inl (ValueError (''path traversal is not allowed: '' @ file_path))
      else res_bind (resolve_joined links root file_path) (\<lambda>resolved.
        if prefix root resolved then Inr resolved
        else Inl (ValueError (''path escapes workspace root: '' @ file_path))))"

section \<open>Planning\<close>

record planned_operation =
  pl_operation :: patch_operation
  pl_path :: fpath
  pl_move_path :: "fpath option"
  pl_old_content :: "string option"
  pl_new_content :: "string option"

record file_change =
  fc_path :: string
  fc_kind :: file_change_kind
  fc_diff :: string
  fc_move_path :: "string option"

definition file_change_to_dict :: "file_change \<Rightarrow> pyobj" where
  "file_change_to_dict c =
     [(''path'', PStr (fc_path c)), (''kind'', PStr (kind_text (fc_kind c))),
      (''diff'', PStr (fc_diff c))] @
     (if opt_str (fc_move_path c) \<noteq> [] then [(''move_path'', PStr (opt_str (fc_move_path c)))] else [])"

record operation_descriptor =
  od_kind :: file_change_kind
  od_path :: string
  od_resolved_path :: string
  od_move_path :: "string option"
  od_move_resolved_path :: "string option"

record mutation_plan =
  mp_plan_id :: string
  mp_tool_name :: string
  mp_workspace_id :: string
  mp_execution_target :: string
  mp_path_space :: string
  mp_operations :: "operation_descriptor list"
  mp_changes :: "file_change list"
  mp_diff :: string

record planned_patch =
  pp_operations :: "planned_operation list"
  pp_changes :: "file_change list"
  pp_diff :: string
  pp_plan :: mutation_plan

text \<open>\<open>_dict_value\<close>: a value that is not a dictionary counts as an empty one.\<close>

definition object_value :: "pyval \<Rightarrow> pyobj" where
  "object_value v = (case v of PDict d \<Rightarrow> d | _ \<Rightarrow> [])"

record mutation_service =
  ms_root :: fpath
  ms_links :: link_table
  ms_execution_target :: string
  ms_path_space :: string

definition is_binary_text :: "string \<Rightarrow> bool" where
  "is_binary_text s \<longleftrightarrow> CHR 0x00 \<in> set s"

definition planned_content :: "patch_operation \<Rightarrow> string option \<Rightarrow> string option result" where
  "planned_content operation old_content =
     (case po_kind operation of
        Kind_ADD \<Rightarrow>
          (case old_content of
             Some _ \<Rightarrow> Inl (ValueError (''file already exists: '' @ po_path operation))
           | None \<Rightarrow> res_bind (content_from_added_lines (po_lines operation)) (\<lambda>c. Inr (Some c)))
      | Kind_DELETE \<Rightarrow>
          (case old_content of
             None \<Rightarrow> Inl (ValueError (''file does not exist: '' @ po_path operation))
           | Some _ \<Rightarrow> Inr None)
      | _ \<Rightarrow>
          (case old_content of
             None \<Rightarrow> Inl (ValueError (''file does not exist: '' @ po_path operation))
           | Some old \<Rightarrow>
               if po_kind operation = Kind_MOVE \<and> po_lines operation = [] then Inr (Some old)
               else res_bind (apply_update_hunks old (po_lines operation) (po_path operation))
                      (\<lambda>c. Inr (Some c))))"

definition resolve_move :: "link_table \<Rightarrow> fpath \<Rightarrow> patch_operation \<Rightarrow> fpath option result" where
  "resolve_move links root operation =
     (if opt_str (po_move_path operation) = [] then Inr None
      else res_bind (resolve_workspace_path links root (opt_str (po_move_path operation)))
             (\<lambda>p. Inr (Some p)))"

definition plan_operation ::
  "link_table \<Rightarrow> fpath \<Rightarrow> fs \<Rightarrow> patch_operation \<Rightarrow> planned_operation result" where
  "plan_operation links root fs operation =
     res_bind (resolve_workspace_path links root (po_path operation)) (\<lambda>path.
     res_bind (resolve_move links root operation) (\<lambda>move_path.
     res_bind (read_existing_text fs path) (\<lambda>old_content.
     if is_binary_text (opt_str old_content)
     then Inl (ValueError (po_path operation @ '' appears to be binary''))
     else res_bind (planned_content operation old_content) (\<lambda>new_content.
     if is_binary_text (opt_str new_content)
     then Inl (ValueError (po_path operation @ '' patch contains binary data''))
     else if move_path \<noteq> None \<and> fs (the move_path) \<noteq> None \<and> the move_path \<noteq> path
     then Inl (ValueError (''move target already exists: '' @ opt_str (po_move_path operation)))
     else Inr \<lparr>pl_operation = operation, pl_path = path, pl_move_path = move_path,
               pl_old_content = old_content, pl_new_content = new_content\<rparr>))))"

type_synonym differ = "string \<Rightarrow> string \<Rightarrow> string \<Rightarrow> string"

definition change_of :: "differ \<Rightarrow> planned_operation \<Rightarrow> file_change" where
  "change_of udiff p =
     (let operation = pl_operation p;
          label = (if pl_move_path p \<noteq> None then opt_str (po_move_path operation)
                   else po_path operation)
      in \<lparr>fc_path = po_path operation, fc_kind = po_kind operation,
          fc_diff = udiff (opt_str (pl_old_content p)) (opt_str (pl_new_content p))
                      (if label = [] then po_path operation else label),
          fc_move_path = po_move_path operation\<rparr>)"

definition path_text :: "fpath \<Rightarrow> string" where
  "path_text p = ''/'' @ str_join ''/'' p"

definition operation_descriptor :: "planned_operation \<Rightarrow> operation_descriptor" where
  "operation_descriptor p =
     \<lparr>od_kind = po_kind (pl_operation p), od_path = po_path (pl_operation p),
      od_resolved_path = path_text (pl_path p), od_move_path = po_move_path (pl_operation p),
      od_move_resolved_path = map_option path_text (pl_move_path p)\<rparr>"

definition build_plan ::
  "mutation_service \<Rightarrow> string \<Rightarrow> string \<Rightarrow> planned_operation list \<Rightarrow> file_change list \<Rightarrow> string
    \<Rightarrow> mutation_plan" where
  "build_plan svc fresh tool_name operations changes diff =
     \<lparr>mp_plan_id = ''mutation-'' @ fresh, mp_tool_name = tool_name,
      mp_workspace_id = path_text (ms_root svc), mp_execution_target = ms_execution_target svc,
      mp_path_space = ms_path_space svc, mp_operations = map operation_descriptor operations,
      mp_changes = changes, mp_diff = diff\<rparr>"

definition plan_text_patch ::
  "mutation_service \<Rightarrow> differ \<Rightarrow> string \<Rightarrow> fs \<Rightarrow> string \<Rightarrow> planned_patch result" where
  "plan_text_patch svc udiff fresh fs patch =
     res_bind (parse_patch patch) (\<lambda>operations.
     res_bind (res_map (plan_operation (ms_links svc) (ms_root svc) fs) operations) (\<lambda>planned.
     let changes = map (change_of udiff) planned;
         diff = str_strip (str_join [newline] (filter (\<lambda>d. d \<noteq> []) (map fc_diff changes)))
     in Inr \<lparr>pp_operations = planned, pp_changes = changes, pp_diff = diff,
             pp_plan = build_plan svc fresh ''apply_patch'' planned changes diff\<rparr>))"

definition plan_document_commit ::
  "mutation_service \<Rightarrow> differ \<Rightarrow> string \<Rightarrow> fs \<Rightarrow> string \<Rightarrow> string \<Rightarrow> planned_patch result" where
  "plan_document_commit svc udiff fresh fs target_path content =
     res_bind (resolve_workspace_path (ms_links svc) (ms_root svc) target_path) (\<lambda>path.
     if is_binary_text content then Inl (ValueError ''document content appears to be binary'')
     else if fs path \<noteq> None
     then Inl (ValueError (''draft document target already exists; use apply_patch to modify '' @
                 ''existing files: '' @ target_path))
     else
       (let operation = \<lparr>po_kind = Kind_ADD, po_path = target_path, po_move_path = None, po_lines = []\<rparr>;
            change = \<lparr>fc_path = target_path, fc_kind = Kind_ADD, fc_diff = udiff [] content target_path,
                      fc_move_path = None\<rparr>;
            operations = [\<lparr>pl_operation = operation, pl_path = path, pl_move_path = None,
                            pl_old_content = None, pl_new_content = Some content\<rparr>]
        in Inr \<lparr>pp_operations = operations, pp_changes = [change], pp_diff = fc_diff change,
                pp_plan = build_plan svc fresh ''draft_document_commit'' operations [change]
                            (fc_diff change)\<rparr>))"

section \<open>Applying with roll-back\<close>

record path_snapshot =
  sn_path :: fpath
  sn_data :: "string option"

definition touched_paths :: "planned_operation list \<Rightarrow> fpath list" where
  "touched_paths operations =
     rev (remdups (rev (concat (map (\<lambda>p. pl_path p #
       (case pl_move_path p of None \<Rightarrow> [] | Some m \<Rightarrow> [m])) operations))))"

definition snapshot_path :: "fs \<Rightarrow> fpath \<Rightarrow> path_snapshot result" where
  "snapshot_path fs p =
     (case fs p of
        None \<Rightarrow> Inr \<lparr>sn_path = p, sn_data = None\<rparr>
      | Some (File data) \<Rightarrow> Inr \<lparr>sn_path = p, sn_data = Some data\<rparr>
      | Some Dir \<Rightarrow> Inl (ValueError ''not a file''))"

definition snapshot_touched_paths :: "fs \<Rightarrow> planned_operation list \<Rightarrow> path_snapshot list result" where
  "snapshot_touched_paths fs operations = res_map (snapshot_path fs) (touched_paths operations)"

definition apply_planned_operation :: "io_faults \<Rightarrow> planned_operation \<Rightarrow> fs \<Rightarrow> fs \<times> unit result" where
  "apply_planned_operation io p fs =
     (case po_kind (pl_operation p) of
        Kind_DELETE \<Rightarrow> delete_file_if_present io (pl_path p) fs
      | Kind_MOVE \<Rightarrow>
          (case (pl_move_path p, pl_new_content p) of
             (Some move_path, Some new_content) \<Rightarrow>
               and_then (mkdir_parents (butlast move_path) fs) (\<lambda>fs.
               and_then (write_text io move_path new_content fs) (\<lambda>fs.
                 if pl_path p \<noteq> move_path then delete_file_if_present io (pl_path p) fs
                 else (fs, Inr ())))
           | _ \<Rightarrow> (fs, Inl AssertionError))
      | _ \<Rightarrow>
          (case pl_new_content p of
             Some new_content \<Rightarrow>
               and_then (mkdir_parents (butlast (pl_path p)) fs)
                 (write_text io (pl_path p) new_content)
           | None \<Rightarrow> (fs, Inl AssertionError)))"

fun apply_all :: "io_faults \<Rightarrow> planned_operation list \<Rightarrow> fs \<Rightarrow> fs \<times> unit result" where
  "apply_all io [] fs = (fs, Inr ())"
| "apply_all io (p # ps) fs = and_then (apply_planned_operation io p fs) (apply_all io ps)"

definition restore_snapshot :: "io_faults \<Rightarrow> path_snapshot \<Rightarrow> fs \<Rightarrow> fs \<times> unit result" where
  "restore_snapshot io s fs =
     (case sn_data s of
        Some data \<Rightarrow>
          and_then (mkdir_parents (butlast (sn_path s)) fs) (write_text io (sn_path s) data)
      | None \<Rightarrow>
          if fs (sn_path s) = None then (fs, Inr ())
          else if \<not> is_file fs (sn_path s) then (fs, Inr ())
          else unlink io (sn_path s) fs)"

fun restore_all :: "io_faults \<Rightarrow> path_snapshot list \<Rightarrow> fs \<Rightarrow> fs \<times> unit result" where
  "restore_all io [] fs = (fs, Inr ())"
| "restore_all io (s # ss) fs = and_then (restore_snapshot io s fs) (restore_all io ss)"

definition apply_transactionally ::
  "io_faults \<Rightarrow> planned_operation list \<Rightarrow> fs \<Rightarrow> fs \<times> unit result" where
  "apply_transactionally io operations fs =
     (case snapshot_touched_paths fs operations of
        Inl e \<Rightarrow> (fs, Inl e)
      | Inr snapshots \<Rightarrow>
          (case apply_all io operations fs of
             (fs', Inr _) \<Rightarrow> (fs', Inr ())
           | (fs', Inl e) \<Rightarrow>
               (case restore_all io (rev snapshots) fs' of
                  (fs'', Inl e') \<Rightarrow> (fs'', Inl e')
                | (fs'', Inr _) \<Rightarrow> (fs'', Inl e))))"

section \<open>Save candidates\<close>

definition candidate_operation :: "planned_operation \<Rightarrow> pyobj" where
  "candidate_operation p =
     (let operation = pl_operation p
      in [(''kind'', PStr (kind_text (po_kind operation))), (''path'', PStr (po_path operation))] @
         (if opt_str (po_move_path operation) \<noteq> []
          then [(''move_path'', PStr (opt_str (po_move_path operation)))] else []) @
         (if po_kind operation \<noteq> Kind_DELETE
          then [(''new_content'', PStr (opt_str (pl_new_content p)))] else []))"

definition stable_sha256 :: "(string \<Rightarrow> string) \<Rightarrow> pyval \<Rightarrow> string" where
  "stable_sha256 sha payload = sha (json_dumps payload)"

definition approved_save_candidate_from_plan ::
  "(string \<Rightarrow> string) \<Rightarrow> planned_patch \<Rightarrow> pyobj \<Rightarrow> pyobj" where
  "approved_save_candidate_from_plan sha planned args =
     (let plan = pp_plan planned;
          operations = map candidate_operation (pp_operations planned);
          args_hash = stable_sha256 sha (PDict args);
          head = [(''plan_id'', PStr (mp_plan_id plan)), (''tool_name'', PStr (mp_tool_name plan)),
                  (''workspace_id'', PStr (mp_workspace_id plan)),
                  (''execution_target'', PStr (mp_execution_target plan)),
                  (''path_space'', PStr (mp_path_space plan)), (''args_hash'', PStr args_hash)];
          identity = head @ [(''operations'', PList (map (\<lambda>op.
              PDict (filter (\<lambda>(k, v). k \<in> {''kind'', ''path'', ''move_path''}) op)) operations))];
          candidate_hash = stable_sha256 sha (PDict identity);
          preview_identity =
            [(''plan_id'', PStr (mp_plan_id plan)), (''candidate_hash'', PStr candidate_hash),
             (''tool_name'', PStr (mp_tool_name plan)), (''workspace_id'', PStr (mp_workspace_id plan)),
             (''execution_target'', PStr (mp_execution_target plan)),
             (''path_space'', PStr (mp_path_space plan)), (''args_hash'', PStr args_hash)]
      in head @
         [(''operations'', PList (map PDict operations)),
          (''changes'', PList (map (\<lambda>c. PDict (file_change_to_dict c)) (pp_changes planned))),
          (''diff'', PStr (pp_diff planned)),
          (''candidate_hash'', PStr candidate_hash),
          (''preview_identity'', PDict preview_identity)])"

definition preview_identity_keys :: "string list" where
  "preview_identity_keys =
     [''plan_id'', ''candidate_hash'', ''tool_name'', ''workspace_id'', ''execution_target'',
      ''path_space'', ''args_hash'']"

definition validate_save_candidate :: "pyobj \<Rightarrow> unit result" where
  "validate_save_candidate candidate =
     (if candidate = [] then Inl (ValueError ''approved_save_candidate is required'')
      else case pget candidate ''preview_identity'' of
        PDict identity \<Rightarrow>
          if identity = [] then
            Inl (ValueError ''approved_save_candidate preview_identity is required'')
          else res_each (\<lambda>key.
            if str_strip (str_or_empty (pget identity key)) = []
            then Inl (ValueError (''approved_save_candidate preview_identity.'' @ key @ '' is required''))
            else Inr ()) preview_identity_keys
      | _ \<Rightarrow> Inl (ValueError ''approved_save_candidate preview_identity is required''))"

definition parse_kind :: "string \<Rightarrow> file_change_kind option" where
  "parse_kind s =
     List.find (\<lambda>k. kind_text k = s) [Kind_ADD, Kind_UPDATE, Kind_DELETE, Kind_MOVE]"

record save_operation =
  so_kind :: file_change_kind
  so_path :: string
  so_move_path :: "string option"
  so_new_content :: "string option"

definition read_save_operation :: "pyval \<Rightarrow> save_operation result" where
  "read_save_operation raw =
     (case raw of
        PDict d \<Rightarrow>
          (case parse_kind (str_or_empty (pget d ''kind'')) of
             None \<Rightarrow> Inl (ValueError (''unsupported approved_save_candidate operation: '' @
                                    str_or_empty (pget d ''kind'')))
           | Some kind \<Rightarrow>
               (let path = str_strip (str_or_empty (pget d ''path''));
                    move_path = str_strip (str_or_empty (pget d ''move_path''))
                in if path = [] then
                     Inl (ValueError ''approved_save_candidate operation path is required'')
                   else if kind \<noteq> Kind_DELETE \<and> \<not> dict_has d ''new_content'' then
                     Inl (ValueError ''approved_save_candidate operation new_content is required'')
                   else Inr \<lparr>so_kind = kind, so_path = path, so_move_path = str_opt move_path,
                     so_new_content = (if kind = Kind_DELETE then None
                                       else Some (str_or_empty (pget d ''new_content'')))\<rparr>))
      | _ \<Rightarrow> Inl (ValueError ''approved_save_candidate operation must be an object''))"

definition candidate_operations :: "pyobj \<Rightarrow> save_operation list result" where
  "candidate_operations candidate =
     (if candidate = [] then Inl (ValueError ''approved_save_candidate is required'')
      else case pget candidate ''operations'' of
        PList raw_operations \<Rightarrow>
          if raw_operations = [] then
            Inl (ValueError ''approved_save_candidate operations are required'')
          else res_map read_save_operation raw_operations
      | _ \<Rightarrow> Inl (ValueError ''approved_save_candidate operations are required''))"

definition candidate_changes :: "pyobj \<Rightarrow> file_change list" where
  "candidate_changes candidate =
     concat (map (\<lambda>d.
       case parse_kind (str_or_empty (pget d ''kind'')) of
         None \<Rightarrow> []
       | Some kind \<Rightarrow>
           if str_or_empty (pget d ''path'') = [] then []
           else [\<lparr>fc_path = str_or_empty (pget d ''path''), fc_kind = kind,
                  fc_diff = str_or_empty (pget d ''diff''),
                  fc_move_path = str_opt (str_or_empty (pget d ''move_path''))\<rparr>])
       (dict_list (pget candidate ''changes'')))"

definition plan_save_operation ::
  "link_table \<Rightarrow> fpath \<Rightarrow> save_operation \<Rightarrow> planned_operation result" where
  "plan_save_operation links root op =
     res_bind (resolve_workspace_path links root (so_path op)) (\<lambda>path.
     res_bind (case so_move_path op of None \<Rightarrow> Inr None
               | Some m \<Rightarrow> res_bind (resolve_workspace_path links root m) (\<lambda>q. Inr (Some q))) (\<lambda>move_path.
       Inr \<lparr>pl_operation = \<lparr>po_kind = so_kind op, po_path = so_path op, po_move_path = so_move_path op,
                            po_lines = []\<rparr>,
            pl_path = path, pl_move_path = move_path, pl_old_content = None,
            pl_new_content = so_new_content op\<rparr>))"

section \<open>The service\<close>

datatype mutation_status = In_Progress | Completed | Failed

record mutation_result =
  mr_status :: mutation_status
  mr_changes :: "file_change list"
  mr_diff :: string
  mr_message :: string
  mr_error :: "py_error option"
  mr_plan_id :: "string option"
  mr_candidate_hash :: "string option"
  mr_preview_identity :: pyobj
  mr_candidate :: pyobj

definition mutation_ok :: "mutation_result \<Rightarrow> bool" where
  "mutation_ok r \<longleftrightarrow> mr_status r = Completed \<and> mr_error r = None"

definition count_kind :: "file_change_kind \<Rightarrow> file_change list \<Rightarrow> nat" where
  "count_kind k changes = length (filter (\<lambda>c. fc_kind c = k) changes)"

definition format_success_message :: "file_change list \<Rightarrow> string" where
  "format_success_message changes =
     (if changes = [] then ''No file changes''
      else ''Applied patch ('' @ str_join '', ''
        (map (\<lambda>k. kind_text k @ ''='' @ nat_str (count_kind k changes))
          (filter (\<lambda>k. count_kind k changes \<noteq> 0) [Kind_ADD, Kind_UPDATE, Kind_DELETE, Kind_MOVE])) @
        '')'')"

fun error_text :: "py_error \<Rightarrow> string" where
  "error_text (ValueError s) = s"
| "error_text (KeyError s) = CHR 0x27 # s @ [CHR 0x27]"
| "error_text (TypeError s) = s"
| "error_text (RuntimeError s) = s"
| "error_text (OSError s) = s"
| "error_text IndexError = ''list index out of range''"
| "error_text AssertionError = []"
| "error_text RecursionError = ''maximum recursion depth exceeded''"

definition failed_result :: "py_error \<Rightarrow> mutation_result" where
  "failed_result e =
     \<lparr>mr_status = Failed, mr_changes = [], mr_diff = [], mr_message = ''Error: '' @ error_text e,
      mr_error = Some e, mr_plan_id = None, mr_candidate_hash = None, mr_preview_identity = [],
      mr_candidate = []\<rparr>"

definition planned_result ::
  "(string \<Rightarrow> string) \<Rightarrow> mutation_status \<Rightarrow> string \<Rightarrow> planned_patch \<Rightarrow> pyobj \<Rightarrow> mutation_result" where
  "planned_result sha status message planned args =
     (let candidate = approved_save_candidate_from_plan sha planned args
      in \<lparr>mr_status = status, mr_changes = pp_changes planned, mr_diff = pp_diff planned,
          mr_message = message, mr_error = None,
          mr_plan_id = Some (mp_plan_id (pp_plan planned)),
          mr_candidate_hash = str_opt (str_or_empty (pget candidate ''candidate_hash'')),
          mr_preview_identity = object_value (pget candidate ''preview_identity''),
          mr_candidate = candidate\<rparr>)"

definition preview_text_patch ::
  "mutation_service \<Rightarrow> differ \<Rightarrow> (string \<Rightarrow> string) \<Rightarrow> string \<Rightarrow> fs \<Rightarrow> string \<Rightarrow> mutation_result" where
  "preview_text_patch svc udiff sha fresh fs patch =
     (case plan_text_patch svc udiff fresh fs patch of
        Inl e \<Rightarrow> failed_result e
      | Inr planned \<Rightarrow>
          planned_result sha In_Progress (format_success_message (pp_changes planned)) planned
            [(''patch'', PStr patch)])"

definition apply_text_patch ::
  "mutation_service \<Rightarrow> differ \<Rightarrow> (string \<Rightarrow> string) \<Rightarrow> string \<Rightarrow> io_faults \<Rightarrow> fs \<Rightarrow> string
    \<Rightarrow> fs \<times> mutation_result" where
  "apply_text_patch svc udiff sha fresh io fs patch =
     (case plan_text_patch svc udiff fresh fs patch of
        Inl e \<Rightarrow> (fs, failed_result e)
      | Inr planned \<Rightarrow>
          (case apply_transactionally io (pp_operations planned) fs of
             (fs', Inl e) \<Rightarrow> (fs', failed_result e)
           | (fs', Inr _) \<Rightarrow>
               (fs', planned_result sha Completed (format_success_message (pp_changes planned)) planned
                  [(''patch'', PStr patch)])))"

definition preview_document_commit ::
  "mutation_service \<Rightarrow> differ \<Rightarrow> (string \<Rightarrow> string) \<Rightarrow> string \<Rightarrow> fs \<Rightarrow> string \<Rightarrow> string
    \<Rightarrow> mutation_result" where
  "preview_document_commit svc udiff sha fresh fs target_path content =
     (case plan_document_commit svc udiff fresh fs target_path content of
        Inl e \<Rightarrow> failed_result e
      | Inr planned \<Rightarrow>
          planned_result sha In_Progress (''Preview document commit '' @ target_path) planned
            [(''target_path'', PStr target_path), (''content'', PStr content)])"

definition commit_document ::
  "mutation_service \<Rightarrow> differ \<Rightarrow> (string \<Rightarrow> string) \<Rightarrow> string \<Rightarrow> io_faults \<Rightarrow> fs \<Rightarrow> string \<Rightarrow> string
    \<Rightarrow> fs \<times> mutation_result" where
  "commit_document svc udiff sha fresh io fs target_path content =
     (case plan_document_commit svc udiff fresh fs target_path content of
        Inl e \<Rightarrow> (fs, failed_result e)
      | Inr planned \<Rightarrow>
          (case apply_transactionally io (pp_operations planned) fs of
             (fs', Inl e) \<Rightarrow> (fs', failed_result e)
           | (fs', Inr _) \<Rightarrow>
               (fs', planned_result sha Completed (''Committed document '' @ target_path) planned
                  [(''target_path'', PStr target_path), (''content'', PStr content)])))"

definition save_candidate ::
  "mutation_service \<Rightarrow> io_faults \<Rightarrow> fs \<Rightarrow> pyobj \<Rightarrow> fs \<times> mutation_result" where
  "save_candidate svc io fs candidate =
     (case res_bind (validate_save_candidate candidate) (\<lambda>_.
           res_bind (candidate_operations candidate)
             (res_map (plan_save_operation (ms_links svc) (ms_root svc)))) of
        Inl e \<Rightarrow> (fs, failed_result e)
      | Inr planned \<Rightarrow>
          (case apply_transactionally io planned fs of
             (fs', Inl e) \<Rightarrow> (fs', failed_result e)
           | (fs', Inr _) \<Rightarrow>
               (fs', \<lparr>mr_status = Completed, mr_changes = candidate_changes candidate,
                      mr_diff = str_or_empty (pget candidate ''diff''),
                      mr_message = format_success_message (candidate_changes candidate),
                      mr_error = None,
                      mr_plan_id = str_opt (str_or_empty (pget candidate ''plan_id'')),
                      mr_candidate_hash = str_opt (str_or_empty (pget candidate ''candidate_hash'')),
                      mr_preview_identity = object_value (pget candidate ''preview_identity''),
                      mr_candidate = candidate\<rparr>)))"

end
