(* ===== verification/PatchProofs.thy ===== *)
theory PatchProofs
  imports PatchGrammar
begin

text \<open>
  Facts about the patch language: a printed patch parses back, where a hunk is applied, what the
  application of a hunk does to the text, and that a patch which passes the contract check can only
  fail because its context is not in the file.
\<close>

section \<open>Text\<close>

lemma str_replace_absent: "c \<notin> set s \<Longrightarrow> str_replace (c # cs) new s = s"
  by (induction s) (auto simp: startswith_def)

lemma normalize_newlines_id: "carriage_return \<notin> set s \<Longrightarrow> normalize_newlines s = s"
  by (simp add: normalize_newlines_def str_replace_absent)

lemma text_lines_join:
  assumes "lines \<noteq> []" and "last lines \<noteq> []"
    and "\<forall>l \<in> set lines. newline \<notin> set l \<and> carriage_return \<notin> set l"
  shows "text_lines (str_join [newline] lines) = lines"
proof -
  have "carriage_return \<notin> set (str_join [newline] lines)"
    using assms(3) by (induction "[newline]" lines rule: str_join.induct) auto
  then have "normalize_newlines (str_join [newline] lines) = str_join [newline] lines"
    by (rule normalize_newlines_id)
  moreover have "split_on newline (str_join [newline] lines) = lines"
    using assms by (intro split_join) auto
  ultimately show ?thesis using assms(2) by (simp add: text_lines_def)
qed

lemma dropWhile_Nil_all: "dropWhile p s = [] \<longleftrightarrow> (\<forall>c \<in> set s. p c)"
  by (simp add: dropWhile_eq_Nil_conv)

lemma str_strip_Nil_iff: "str_strip s = [] \<longleftrightarrow> (\<forall>c \<in> set s. is_space c)"
proof
  assume e: "str_strip s = []"
  have all: "\<forall>c \<in> set (dropWhile is_space s). is_space c"
    using e by (simp add: str_strip_def rstrip_by_def lstrip_by_def dropWhile_eq_Nil_conv)
  show "\<forall>c \<in> set s. is_space c"
  proof (rule ccontr)
    assume "\<not> ?thesis"
    then have "dropWhile is_space s \<noteq> []" by (simp add: dropWhile_eq_Nil_conv)
    then have "\<not> is_space (hd (dropWhile is_space s))" by (rule hd_dropWhile)
    moreover have "hd (dropWhile is_space s) \<in> set (dropWhile is_space s)"
      using \<open>dropWhile is_space s \<noteq> []\<close> by simp
    ultimately show False using all by blast
  qed
next
  assume "\<forall>c \<in> set s. is_space c"
  then have drop: "dropWhile is_space s = []" by (subst dropWhile_eq_Nil_conv)
  show "str_strip s = []" unfolding str_strip_def lstrip_by_def drop by (simp add: rstrip_by_def)
qed

section \<open>Printing and parsing\<close>

fun print_operation :: "patch_operation \<Rightarrow> string list" where
  "print_operation op =
     (case po_kind op of
        Kind_ADD \<Rightarrow> (''*** Add File: '' @ po_path op) # po_lines op
      | Kind_DELETE \<Rightarrow> [''*** Delete File: '' @ po_path op]
      | Kind_UPDATE \<Rightarrow> (''*** Update File: '' @ po_path op) # po_lines op
      | Kind_MOVE \<Rightarrow> (''*** Update File: '' @ po_path op) #
          (''*** Move to: '' @ opt_str (po_move_path op)) # po_lines op)"

definition print_patch :: "patch_operation list \<Rightarrow> string" where
  "print_patch ops = str_join [newline]
     ([''*** Begin Patch''] @ concat (map print_operation ops) @ [''*** End Patch''])"

definition one_line :: "string \<Rightarrow> bool" where
  "one_line s \<longleftrightarrow> newline \<notin> set s \<and> carriage_return \<notin> set s"

definition operation_wf :: "patch_operation \<Rightarrow> bool" where
  "operation_wf op \<longleftrightarrow> str_strip (po_path op) = po_path op \<and> one_line (po_path op) \<and>
     (\<forall>l \<in> set (po_lines op). one_line l \<and> \<not> section_line l) \<and>
     (case po_kind op of
        Kind_DELETE \<Rightarrow> po_lines op = [] \<and> po_move_path op = None
      | Kind_MOVE \<Rightarrow> (case po_move_path op of None \<Rightarrow> False
                    | Some m \<Rightarrow> m \<noteq> [] \<and> str_strip m = m \<and> one_line m)
      | _ \<Rightarrow> po_move_path op = None)"

lemma after_prefix_append [simp]: "after_prefix pre (pre @ path) = str_strip path"
  by (simp add: after_prefix_def)

lemma after_prefix_literals [simp]:
  "after_prefix ''*** Add File: '' (CHR ''*'' # CHR ''*'' # CHR ''*'' # CHR '' '' # CHR ''A'' # CHR ''d''
     # CHR ''d'' # CHR '' '' # CHR ''F'' # CHR ''i'' # CHR ''l'' # CHR ''e'' # CHR '':'' # CHR '' '' # s) =
   str_strip s"
  "after_prefix ''*** Delete File: '' (CHR ''*'' # CHR ''*'' # CHR ''*'' # CHR '' '' # CHR ''D''
     # CHR ''e'' # CHR ''l'' # CHR ''e'' # CHR ''t'' # CHR ''e'' # CHR '' '' # CHR ''F'' # CHR ''i''
     # CHR ''l'' # CHR ''e'' # CHR '':'' # CHR '' '' # s) = str_strip s"
  "after_prefix ''*** Update File: '' (CHR ''*'' # CHR ''*'' # CHR ''*'' # CHR '' '' # CHR ''U''
     # CHR ''p'' # CHR ''d'' # CHR ''a'' # CHR ''t'' # CHR ''e'' # CHR '' '' # CHR ''F'' # CHR ''i''
     # CHR ''l'' # CHR ''e'' # CHR '':'' # CHR '' '' # s) = str_strip s"
  "after_prefix ''*** Move to: '' (CHR ''*'' # CHR ''*'' # CHR ''*'' # CHR '' '' # CHR ''M'' # CHR ''o''
     # CHR ''v'' # CHR ''e'' # CHR '' '' # CHR ''t'' # CHR ''o'' # CHR '':'' # CHR '' '' # s) = str_strip s"
  by (simp_all add: after_prefix_def)

definition starts_section :: "string list \<Rightarrow> bool" where
  "starts_section rest \<longleftrightarrow> rest = [] \<or> section_line (hd rest)"

lemma collect_section:
  assumes "\<forall>l \<in> set body. \<not> section_line l" and "starts_section rest"
  shows "collect_until_next_section (body @ rest) = (body, rest)"
  using assms
  by (cases rest)
    (auto simp: collect_until_next_section_def starts_section_def takeWhile_append dropWhile_append
      takeWhile_eq_all_conv dropWhile_eq_Nil_conv)

lemma split_move_none:
  assumes "\<forall>l \<in> set body. \<not> section_line l"
    and "rest = [] \<or> \<not> startswith (hd rest) ''*** Move to: ''"
  shows "split_move (body @ rest) = (None, body @ rest)"
proof -
  have move: "startswith l ''*** Move to: '' \<Longrightarrow> section_line l" for l
    by (auto simp: section_line_def startswith_iff)
  show ?thesis
    using assms move by (cases body; cases rest) (auto simp: split_move_def)
qed

lemma split_move_some:
  "split_move ((CHR ''*'' # CHR ''*'' # CHR ''*'' # CHR '' '' # CHR ''M'' # CHR ''o''
     # CHR ''v'' # CHR ''e'' # CHR '' '' # CHR ''t'' # CHR ''o'' # CHR '':'' # CHR '' '' # s) # ls) =
   (Some (str_strip s), ls)"
  by (simp add: split_move_def startswith_def)

definition starts_operation :: "string list \<Rightarrow> bool" where
  "starts_operation rest \<longleftrightarrow> rest = [] \<or>
     (section_line (hd rest) \<and> \<not> startswith (hd rest) ''*** Move to: '')"

lemma parse_print_operation:
  assumes "operation_wf op" and "starts_operation rest"
  shows "parse_operations (print_operation op @ rest) =
    res_bind (parse_operations rest) (\<lambda>ops. Inr (op # ops))"
proof -
  have path: "str_strip (po_path op) = po_path op"
    and body: "\<forall>l \<in> set (po_lines op). \<not> section_line l"
    using assms(1) by (simp_all add: operation_wf_def)
  have rest: "starts_section rest" "rest = [] \<or> \<not> startswith (hd rest) ''*** Move to: ''"
    using assms(2) by (auto simp: starts_operation_def starts_section_def)
  note steps = collect_section[OF body rest(1)] split_move_none[OF body rest(2)] path
  show ?thesis
  proof (cases "po_kind op")
    case Kind_ADD
    then have "op = \<lparr>po_kind = Kind_ADD, po_path = po_path op, po_move_path = None,
        po_lines = po_lines op\<rparr>"
      using assms(1) by (cases op) (simp add: operation_wf_def)
    with Kind_ADD steps show ?thesis by (simp add: startswith_def)
  next
    case Kind_DELETE
    then have "op = \<lparr>po_kind = Kind_DELETE, po_path = po_path op, po_move_path = None, po_lines = []\<rparr>"
      using assms(1) by (cases op) (simp add: operation_wf_def)
    with Kind_DELETE steps show ?thesis by (simp add: startswith_def)
  next
    case Kind_UPDATE
    then have "op = \<lparr>po_kind = Kind_UPDATE, po_path = po_path op, po_move_path = None,
        po_lines = po_lines op\<rparr>"
      using assms(1) by (cases op) (simp add: operation_wf_def)
    with Kind_UPDATE steps show ?thesis by (simp add: startswith_def)
  next
    case Kind_MOVE
    then obtain m where m: "po_move_path op = Some m" "m \<noteq> []" "str_strip m = m"
      using assms(1) by (auto simp: operation_wf_def split: option.splits)
    with Kind_MOVE obtain path lines where
      op: "op = \<lparr>po_kind = Kind_MOVE, po_path = path, po_move_path = Some m, po_lines = lines\<rparr>"
      by (cases op) simp
    have "collect_until_next_section (lines @ rest) = (lines, rest)" "str_strip path = path"
      using steps(1,3) by (simp_all add: op)
    with m show ?thesis by (simp add: op startswith_def split_move_some)
  qed
qed


lemma print_starts_operation: "starts_operation (print_operation op @ rest)"
  by (cases "po_kind op") (simp_all add: starts_operation_def section_line_def startswith_def)

lemma parse_print_operations:
  "\<forall>op \<in> set ops. operation_wf op \<Longrightarrow> parse_operations (concat (map print_operation ops)) = Inr ops"
proof (induction ops)
  case Nil
  then show ?case by simp
next
  case (Cons op ops)
  have "starts_operation (concat (map print_operation ops))"
    by (cases ops) (simp add: starts_operation_def, simp add: print_starts_operation
        del: print_operation.simps)
  with Cons show ?case by (simp add: parse_print_operation del: print_operation.simps)
qed

lemma print_operation_lines:
  assumes "operation_wf op" and "l \<in> set (print_operation op)"
  shows "one_line l"
  using assms
  by (auto simp: operation_wf_def one_line_def split: file_change_kind.splits option.splits)

lemma print_parse_lemma:
  assumes "ops \<noteq> []" and "\<forall>op \<in> set ops. operation_wf op"
  shows "parse_patch (print_patch ops) = Inr ops"
proof -
  let ?lines = "[''*** Begin Patch''] @ concat (map print_operation ops) @ [''*** End Patch'']"
  have "one_line l" if "l \<in> set ?lines" for l
    using that assms(2) print_operation_lines
    by (auto simp: one_line_def[of "''*** Begin Patch''"] one_line_def[of "''*** End Patch''"]
        simp del: print_operation.simps)
  then have "\<forall>l \<in> set ?lines. newline \<notin> set l \<and> carriage_return \<notin> set l"
    unfolding one_line_def by blast
  then have lines: "text_lines (print_patch ops) = ?lines"
    unfolding print_patch_def by (intro text_lines_join) simp_all
  obtain y ys where "concat (map print_operation ops) @ [''*** End Patch''] = y # ys"
    by (cases "concat (map print_operation ops) @ [''*** End Patch'']") auto
  then have "CHR ''*'' \<in> set (print_patch ops)"
    by (simp add: print_patch_def del: print_operation.simps)
  moreover have "\<not> is_space (CHR ''*'')" by code_simp
  ultimately have nonempty: "str_strip (print_patch ops) \<noteq> []" by (auto simp: str_strip_Nil_iff)
  have strips: "str_strip ''*** Begin Patch'' = ''*** Begin Patch''"
    "str_strip ''*** End Patch'' = ''*** End Patch''"
    by code_simp+
  have "parse_patch (print_patch ops) =
      res_bind (parse_operations (concat (map print_operation ops))) (\<lambda>operations.
        if operations = [] then Inl (ValueError ''patch contains no file operations'')
        else Inr operations)"
    unfolding parse_patch_def lines Let_def using nonempty strips
    by (simp add: butlast_append del: print_operation.simps)
  then show ?thesis using assms by (simp add: parse_print_operations del: print_operation.simps)
qed

section \<open>Where a hunk goes\<close>

lemma segment_at_bound:
  "segment_at lines seg i \<Longrightarrow> seg \<noteq> [] \<Longrightarrow> i + length seg \<le> length lines"
  unfolding segment_at_def
  by (metis diff_le_self drop_eq_Nil2 le_diff_conv2 length_drop length_take linorder_linear
      list.size(3) min_def take_eq_Nil2 add.commute le_zero_eq)

lemma filter_singleton: "filter p xs = [x] \<Longrightarrow> p x \<and> x \<in> set xs \<and> (\<forall>y \<in> set xs. p y \<longrightarrow> y = x)"
proof -
  assume e: "filter p xs = [x]"
  have s: "{y \<in> set xs. p y} = {x}" using arg_cong[OF e, of set] by simp
  then show ?thesis by auto
qed

lemma find_unique_lemma:
  assumes "find_unique_segment lines seg start = Inr i" and "seg \<noteq> []"
  shows "segment_at lines seg i \<and> i + length seg \<le> length lines \<and>
    (if start \<le> i then \<forall>j \<ge> start. segment_at lines seg j \<longrightarrow> j = i
     else (\<forall>j \<ge> start. \<not> segment_at lines seg j) \<and> (\<forall>j < start. segment_at lines seg j \<longrightarrow> j = i))"
proof -
  let ?ahead = "filter (segment_at lines seg) [start ..< length lines + 1 - length seg]"
  have range: "segment_at lines seg j \<Longrightarrow> j < length lines + 1 - length seg" for j
    using segment_at_bound[of lines seg j] assms(2) by (cases seg) auto
  show ?thesis
  proof (cases "?ahead = [] \<and> start \<noteq> 0")
    case True
    then have none: "\<forall>j \<ge> start. \<not> segment_at lines seg j"
      using range by (auto simp: filter_empty_conv)
    have "filter (segment_at lines seg) [0 ..< start] = [i]"
      using assms(1) True by (auto simp: find_unique_segment_def Let_def split: list.splits)
    from filter_singleton[OF this] none segment_at_bound[of lines seg i] assms(2)
    show ?thesis by auto
  next
    case False
    have "?ahead = [i]"
      using assms(1) False by (auto simp: find_unique_segment_def Let_def split: list.splits if_splits)
    from filter_singleton[OF this] range segment_at_bound[of lines seg i] assms(2)
    show ?thesis by auto
  qed
qed

lemma distinct_single: "distinct xs \<Longrightarrow> set xs = {x} \<Longrightarrow> xs = [x]"
  by (cases xs) (auto simp: subset_singleton_iff)

lemma filter_upt_single:
  "filter p [a..<b] = [i] \<longleftrightarrow>
     a \<le> i \<and> i < b \<and> p i \<and> (\<forall>j. a \<le> j \<and> j < b \<and> p j \<longrightarrow> j = i)" (is "?l \<longleftrightarrow> ?r")
proof
  assume ?l from filter_singleton [OF this] show ?r by auto
next
  assume r: ?r
  have "distinct (filter p [a..<b])" by simp
  moreover have "set (filter p [a..<b]) = {i}" using r by auto
  ultimately show ?l by (rule distinct_single)
qed

lemma find_unique_iff:
  assumes "seg \<noteq> []"
  shows "find_unique_segment lines seg start = Inr i \<longleftrightarrow> segment_at lines seg i \<and>
    (if start \<le> i then \<forall>j \<ge> start. segment_at lines seg j \<longrightarrow> j = i
     else (\<forall>j \<ge> start. \<not> segment_at lines seg j) \<and> (\<forall>j < start. segment_at lines seg j \<longrightarrow> j = i))"
proof
  assume "find_unique_segment lines seg start = Inr i"
  from find_unique_lemma [OF this assms] show "segment_at lines seg i \<and>
    (if start \<le> i then \<forall>j \<ge> start. segment_at lines seg j \<longrightarrow> j = i
     else (\<forall>j \<ge> start. \<not> segment_at lines seg j) \<and> (\<forall>j < start. segment_at lines seg j \<longrightarrow> j = i))"
    by blast
next
  assume r: "segment_at lines seg i \<and>
    (if start \<le> i then \<forall>j \<ge> start. segment_at lines seg j \<longrightarrow> j = i
     else (\<forall>j \<ge> start. \<not> segment_at lines seg j) \<and> (\<forall>j < start. segment_at lines seg j \<longrightarrow> j = i))"
  have range: "i < length lines + 1 - length seg"
    using r segment_at_bound[of lines seg i] assms by (cases seg) auto
  show "find_unique_segment lines seg start = Inr i"
  proof (cases "start \<le> i")
    case True
    then have only: "\<forall>j \<ge> start. segment_at lines seg j \<longrightarrow> j = i" using r by simp
    have "filter (segment_at lines seg) [start ..< length lines + 1 - length seg] = [i]"
      unfolding filter_upt_single using True r range only by blast
    then show ?thesis by (simp add: find_unique_segment_def)
  next
    case False
    then have "filter (segment_at lines seg) [start ..< length lines + 1 - length seg] = []"
      using r by (auto simp: filter_empty_conv)
    moreover have "filter (segment_at lines seg) [0 ..< start] = [i]"
      unfolding filter_upt_single using False r by (metis le0 linorder_not_le)
    ultimately show ?thesis using False by (simp add: find_unique_segment_def)
  qed
qed

lemma segment_split:
  assumes "segment_at lines seg i"
  shows "lines = take i lines @ seg @ drop (i + length seg) lines"
proof -
  have "drop i lines = seg @ drop (length seg) (drop i lines)"
    using assms append_take_drop_id[of "length seg" "drop i lines"] by (simp add: segment_at_def)
  then show ?thesis using append_take_drop_id[of i lines] by (simp add: add.commute)
qed

lemma single_hunk_lemma:
  assumes "apply_hunks current cursor [hunk] = Inr result"
  shows "\<exists>old_segment new_segment i. hunk_segments hunk = Inr (old_segment, new_segment) \<and>
    old_segment \<noteq> [] \<and> find_unique_segment current old_segment cursor = Inr i \<and>
    current = take i current @ old_segment @ drop (i + length old_segment) current \<and>
    result = take i current @ new_segment @ drop (i + length old_segment) current"
proof -
  obtain old_segment new_segment i where h: "hunk_segments hunk = Inr (old_segment, new_segment)"
    and ne: "old_segment \<noteq> []" and f: "find_unique_segment current old_segment cursor = Inr i"
    and r: "result = replace_segment current i (length old_segment) new_segment"
    using assms by (auto simp: res_bind_Inr_iff split: if_splits prod.splits)
  have "segment_at current old_segment i" using find_unique_lemma[OF f ne] by blast
  from segment_split[OF this] h ne f r show ?thesis by (auto simp: replace_segment_def)
qed

section \<open>What the contract check guarantees\<close>

lemma hunk_segments_total:
  assumes "\<forall>l \<in> set hunk. l \<noteq> [] \<and> hd l \<in> {CHR '' '', CHR ''-'', CHR ''+''}"
  shows "\<exists>old_segment new_segment. hunk_segments hunk = Inr (old_segment, new_segment) \<and>
     (old_segment \<noteq> [] \<longleftrightarrow> (\<exists>l \<in> set hunk. hd l \<in> {CHR '' '', CHR ''-''}))"
  using assms
proof (induction hunk)
  case Nil
  then show ?case by simp
next
  case (Cons l hunk)
  then obtain old_segment new_segment
    where "hunk_segments hunk = Inr (old_segment, new_segment)"
      and "old_segment \<noteq> [] \<longleftrightarrow> (\<exists>l \<in> set hunk. hd l \<in> {CHR '' '', CHR ''-''})" by auto
  with Cons.prems show ?case by (cases l) auto
qed

lemma validate_hunk_ok:
  assumes "validate_hunk hunk = Inr ()"
  shows "\<exists>old_segment new_segment. hunk_segments hunk = Inr (old_segment, new_segment) \<and> old_segment \<noteq> []"
proof -
  have "\<forall>l \<in> set hunk. l \<noteq> [] \<and> hd l \<in> {CHR '' '', CHR ''-'', CHR ''+''}"
    and "\<exists>l \<in> set hunk. hd l \<in> {CHR '' '', CHR ''-''}"
    using assms by (auto simp: validate_hunk_def list_ex_iff split: if_splits)
  with hunk_segments_total show ?thesis by blast
qed

definition context_error :: "py_error \<Rightarrow> bool" where
  "context_error e \<longleftrightarrow> e = ValueError ''patch context does not match file'' \<or>
     e = ValueError ''patch context matches multiple locations''"

lemma find_unique_error: "find_unique_segment lines seg start = Inl e \<Longrightarrow> context_error e"
  by (auto simp: find_unique_segment_def context_error_def Let_def split: list.splits if_splits)

lemma apply_hunks_error:
  assumes "\<forall>h \<in> set hunks. validate_hunk h = Inr ()"
  shows "apply_hunks current cursor hunks = Inl e \<Longrightarrow> context_error e"
  using assms
proof (induction hunks arbitrary: current cursor)
  case Nil
  then show ?case by simp
next
  case (Cons h hunks)
  obtain old_segment new_segment where "hunk_segments h = Inr (old_segment, new_segment)"
    and "old_segment \<noteq> []"
    using validate_hunk_ok Cons.prems(2) by (meson list.set_intros(1))
  with Cons.prems Cons.IH show ?case by (auto simp: res_bind_Inl_iff dest: find_unique_error)
qed

lemma validated_update_lemma:
  assumes "validate_update_lines lines path = Inr ()"
    and "apply_update_hunks old_content lines path' = Inl e"
  shows "context_error e"
proof -
  from assms(1) obtain hunks where h: "split_hunks lines = Inr hunks" and ne: "hunks \<noteq> []"
    and ok: "\<forall>h \<in> set hunks. validate_hunk h = Inr ()"
    by (auto simp: validate_update_lines_def res_bind_Inr_iff res_each_ok_iff is_ok_iff
        split: if_splits)
  from assms(2) h ne have "apply_hunks (text_lines old_content) 0 hunks = Inl e"
    by (auto simp: apply_update_hunks_def res_bind_Inl_iff)
  then show ?thesis using apply_hunks_error[OF ok] by blast
qed

section \<open>Properties\<close>

definition demo_operations :: "patch_operation list" where
  "demo_operations =
     [\<lparr>po_kind = Kind_ADD, po_path = ''b'', po_move_path = None, po_lines = [''+new'', ''+'']\<rparr>,
      \<lparr>po_kind = Kind_MOVE, po_path = ''a'', po_move_path = Some ''d/e'',
       po_lines = [''@@'', ''-one'', ''+ONE'', '' two'']\<rparr>,
      \<lparr>po_kind = Kind_DELETE, po_path = ''c'', po_move_path = None, po_lines = []\<rparr>]"

text \<open>C37. Printing well-formed operations as a patch and parsing the patch gives the operations back:
  kinds, paths, move targets and body lines survive, for every list of operations.\<close>

theorem patch_print_parse:
  assumes "ops \<noteq> []" "list_all operation_wf ops"
  shows "parse_patch (print_patch ops) = Inr ops"
  using print_parse_lemma assms by (simp add: list_all_iff)

theorem patch_print_parse_witness:
  "demo_operations \<noteq> [] \<and> list_all operation_wf demo_operations \<and>
   parse_patch (print_patch demo_operations) = Inr demo_operations"
proof -
  have "demo_operations \<noteq> []" "list_all operation_wf demo_operations" by code_simp+
  with patch_print_parse [of demo_operations] show ?thesis by simp
qed

text \<open>Where a hunk is placed, exactly: at the only match at or after the cursor, or, when there is
  none, at the only match that starts before the cursor; in every other case an error is raised.\<close>

theorem find_unique_exact:
  assumes "segment \<noteq> []"
  shows "find_unique_segment lines segment start = Inr i \<longleftrightarrow> segment_at lines segment i \<and>
    (if start \<le> i then \<forall>j \<ge> start. segment_at lines segment j \<longrightarrow> j = i
     else (\<forall>j \<ge> start. \<not> segment_at lines segment j) \<and>
          (\<forall>j < start. segment_at lines segment j \<longrightarrow> j = i))"
  using find_unique_iff [OF assms] .

theorem find_unique_exact_witness:
  "find_unique_segment [''a'', ''b'', ''a'', ''c''] [''a''] 1 = Inr 2 \<and>
   segment_at [''a'', ''b'', ''a'', ''c''] [''a''] 2"
proof -
  have "find_unique_segment [''a'', ''b'', ''a'', ''c''] [''a''] 1 = Inr 2" by code_simp
  with find_unique_exact [of "[''a'']" "[''a'', ''b'', ''a'', ''c'']" 1 2] show ?thesis by simp
qed

text \<open>A hunk replaces exactly the lines it names: the text before and after the matched segment
  stays, the segment is the hunk's context and removed lines, and the hunk's context and added lines
  take its place.\<close>

theorem hunk_replaces_segment:
  assumes "apply_hunks current cursor [hunk] = Inr result"
  shows "\<exists>old_segment new_segment i. hunk_segments hunk = Inr (old_segment, new_segment) \<and>
    old_segment \<noteq> [] \<and> find_unique_segment current old_segment cursor = Inr i \<and>
    current = take i current @ old_segment @ drop (i + length old_segment) current \<and>
    result = take i current @ new_segment @ drop (i + length old_segment) current"
  using single_hunk_lemma [OF assms] .

theorem hunk_replaces_segment_witness:
  "apply_hunks [''one'', ''two''] 0 [[''-one'', ''+ONE'', '' two'']] = Inr [''ONE'', ''two''] \<and>
   fst (the (case hunk_segments [''-one'', ''+ONE'', '' two''] of Inr s \<Rightarrow> Some s | Inl _ \<Rightarrow> None)) \<noteq> []"
proof -
  have run: "apply_hunks [''one'', ''two''] 0 [[''-one'', ''+ONE'', '' two'']] = Inr [''ONE'', ''two'']"
    by code_simp
  from hunk_replaces_segment [OF run] run show ?thesis by auto
qed

text \<open>An update that passes the contract check of the tool call fails in the mutation service only
  because its context does not match the file or matches it in several places; no syntax error is
  left.\<close>

theorem validated_update_fails_on_context:
  assumes "validate_update_lines lines path = Inr ()"
    and "apply_update_hunks old_content lines path' = Inl e"
  shows "context_error e"
  using validated_update_lemma [OF assms] .

theorem validated_update_fails_on_context_witness:
  "context_error (ValueError ''patch context does not match file'')"
  by (rule validated_update_fails_on_context
        [of "[''@@'', ''-x'', ''+y'']" "''f''" "''one''" "''f''"]) code_simp+

end
