(* ===== verification/FileMutationProofs.thy ===== *)
theory FileMutationProofs
  imports FileMutation PatchProofs
begin

text \<open>
  What applying a planned patch guarantees: the abstract effect on the contents of the files, the
  roll-back after a failure, and the confinement to the workspace.
\<close>

section \<open>The abstract specification\<close>

text \<open>The contents of the files, without the directories.\<close>

definition file_data :: "fs \<Rightarrow> fpath \<Rightarrow> string option" where
  "file_data fs p = (case fs p of Some (File d) \<Rightarrow> Some d | _ \<Rightarrow> None)"

definition operation_effect ::
  "planned_operation \<Rightarrow> (fpath \<Rightarrow> string option) \<Rightarrow> (fpath \<Rightarrow> string option)" where
  "operation_effect p d =
     (case (po_kind (pl_operation p), pl_move_path p) of
        (Kind_DELETE, _) \<Rightarrow> d(pl_path p := None)
      | (Kind_MOVE, Some m) \<Rightarrow>
          (if pl_path p = m then d else d(pl_path p := None))(m := pl_new_content p)
      | _ \<Rightarrow> d(pl_path p := pl_new_content p))"

definition patch_effect ::
  "planned_operation list \<Rightarrow> (fpath \<Rightarrow> string option) \<Rightarrow> (fpath \<Rightarrow> string option)" where
  "patch_effect operations d = fold operation_effect operations d"

text \<open>The ancestors of every node are directories.\<close>

definition tree_fs :: "fs \<Rightarrow> bool" where
  "tree_fs fs \<longleftrightarrow> (\<forall>p q. fs p \<noteq> None \<and> strict_prefix q p \<longrightarrow> fs q = Some Dir)"

definition prefix_free :: "fpath list \<Rightarrow> bool" where
  "prefix_free ps \<longleftrightarrow> list_all (\<lambda>p. list_all (\<lambda>q. \<not> strict_prefix p q) ps) ps"

text \<open>The roll-back itself meets no fault: what was there can be written again, what was not there
  can be removed.\<close>

definition restorable :: "io_faults \<Rightarrow> fs \<Rightarrow> fpath list \<Rightarrow> bool" where
  "restorable io fs ps \<longleftrightarrow>
     list_all (\<lambda>p. case fs p of
        Some (File d) \<Rightarrow> io_write io p d = None
      | _ \<Rightarrow> \<not> io_unlink io p) ps"

text \<open>Nothing that existed has changed; at most empty directories are new.\<close>

definition only_new_dirs :: "fs \<Rightarrow> fs \<Rightarrow> bool" where
  "only_new_dirs fs fs' \<longleftrightarrow> (\<forall>p. fs' p = fs p \<or> fs p = None \<and> fs' p = Some Dir)"

section \<open>The primitive effects\<close>

lemma mkdir_parents_cases:
  assumes "mkdir_parents p fs = (fs', r)"
  obtains (exists) "fs' = fs" "\<exists>e. r = Inl e"
        | (made) "r = Inr ()" "\<And>q. fs' q = (if fs q = None \<and> prefix q p then Some Dir else fs q)"
                 "\<And>q. prefix q p \<Longrightarrow> \<not> is_file fs q"
  using assms
  by (auto simp: mkdir_parents_def list_ex_iff in_set_prefixes split: if_splits)

lemma is_file_data: "is_file fs p \<longleftrightarrow> file_data fs p \<noteq> None"
  by (simp add: is_file_def file_data_def split: option.splits node.splits)

lemma file_data_upd [simp]:
  "file_data (fs(p \<mapsto> File d)) = (file_data fs)(p \<mapsto> d)"
  "file_data (fs(p := None)) = (file_data fs)(p := None)"
  by (auto simp: file_data_def fun_eq_iff)

lemma mkdir_parents_data:
  "mkdir_parents p fs = (fs', r) \<Longrightarrow> file_data fs' = file_data fs"
  by (erule mkdir_parents_cases) (auto simp: file_data_def fun_eq_iff)

lemma write_text_ok:
  "write_text io p c fs = (fs', Inr u) \<Longrightarrow> fs' = fs(p \<mapsto> File c) \<and> fs p \<noteq> Some Dir"
  by (auto simp: write_text_def split: if_splits option.splits write_fault.splits)

lemma write_text_elsewhere:
  "write_text io p c fs = (fs', r) \<Longrightarrow> q \<noteq> p \<Longrightarrow> fs' q = fs q"
  by (auto simp: write_text_def split: if_splits option.splits write_fault.splits)

lemma write_text_dir:
  "write_text io p c fs = (fs', r) \<Longrightarrow> fs' p = Some Dir \<longleftrightarrow> fs p = Some Dir"
  by (auto simp: write_text_def split: if_splits option.splits write_fault.splits)

lemma delete_ok:
  "delete_file_if_present io p fs = (fs', Inr u) \<Longrightarrow> file_data fs' = (file_data fs)(p := None)"
  by (auto simp: delete_file_if_present_def unlink_def file_data_def fun_eq_iff is_file_def
      split: if_splits option.splits node.splits)

lemma delete_elsewhere:
  "delete_file_if_present io p fs = (fs', r) \<Longrightarrow> q \<noteq> p \<Longrightarrow> fs' q = fs q"
  by (auto simp: delete_file_if_present_def unlink_def split: if_splits)

lemma delete_dir:
  "delete_file_if_present io p fs = (fs', r) \<Longrightarrow> fs' p = Some Dir \<longleftrightarrow> fs p = Some Dir"
  by (auto simp: delete_file_if_present_def unlink_def is_file_def split: if_splits)

lemma and_then_cases:
  assumes "and_then m f = (fs', r)"
  obtains (stop) e where "m = (fs', Inl e)" "r = Inl e"
        | (go) fs1 where "m = (fs1, Inr ())" "f fs1 = (fs', r)"
  using assms by (cases m; cases "snd m") auto

section \<open>A successful run has the abstract effect\<close>

lemma write_text_data:
  "write_text io p c fs = (fs', Inr u) \<Longrightarrow> file_data fs' = (file_data fs)(p \<mapsto> c)"
  by (auto dest: write_text_ok)

lemma apply_operation_effect:
  assumes "apply_planned_operation io p fs = (fs', Inr u)"
  shows "file_data fs' = operation_effect p (file_data fs)"
  using assms
  by (auto simp: apply_planned_operation_def operation_effect_def fun_upd_twist
      elim!: and_then_cases
      split: file_change_kind.splits option.splits if_splits
      dest!: mkdir_parents_data write_text_data delete_ok)

lemma apply_all_effect:
  "apply_all io ops fs = (fs', Inr u) \<Longrightarrow> file_data fs' = patch_effect ops (file_data fs)"
  by (induction ops arbitrary: fs)
    (auto simp: patch_effect_def elim!: and_then_cases dest!: apply_operation_effect)

lemma apply_transactionally_effect:
  assumes "apply_transactionally io ops fs = (fs', Inr u)"
  shows "file_data fs' = patch_effect ops (file_data fs)"
  using assms
  by (auto simp: apply_transactionally_def split: sum.splits prod.splits dest: apply_all_effect)

section \<open>The snapshots\<close>

lemma touched_paths_set:
  "set (touched_paths ops) = (\<Union>p\<in>set ops. insert (pl_path p) (set_option (pl_move_path p)))"
  by (auto simp: touched_paths_def split: option.splits)

lemma touched_list_all:
  "set (touched_paths ops) \<subseteq> A \<Longrightarrow>
   list_all (\<lambda>p. pl_path p \<in> A \<and> set_option (pl_move_path p) \<subseteq> A) ops"
  unfolding touched_paths_set list_all_iff by blast

lemma distinct_touched: "distinct (touched_paths ops)"
  by (simp add: touched_paths_def)

definition snapshot_ok :: "fs \<Rightarrow> path_snapshot \<Rightarrow> bool" where
  "snapshot_ok fs s \<longleftrightarrow> sn_data s = file_data fs (sn_path s) \<and> fs (sn_path s) \<noteq> Some Dir"

lemma snapshot_path_ok:
  "snapshot_path fs p = Inr s \<Longrightarrow> sn_path s = p \<and> snapshot_ok fs s"
  by (auto simp: snapshot_path_def snapshot_ok_def file_data_def split: option.splits node.splits)

lemma snapshots_of:
  assumes "snapshot_touched_paths fs ops = Inr ss"
  shows "map sn_path ss = touched_paths ops \<and> list_all (snapshot_ok fs) ss"
proof -
  have "res_map (snapshot_path fs) ps = Inr ss \<Longrightarrow>
          map sn_path ss = ps \<and> list_all (snapshot_ok fs) ss" for ps
    by (induction ps arbitrary: ss) (auto simp: res_bind_Inr_iff dest: snapshot_path_ok)
  then show ?thesis using assms by (simp add: snapshot_touched_paths_def)
qed

section \<open>Relations between the file system before and after\<close>

text \<open>A reflexive and transitive relation that every primitive effect on the paths of \<open>A\<close> keeps holds
  between the file systems before and after a whole run, whatever fails on the way.\<close>

locale file_effects =
  fixes A :: "fpath set" and R :: "fs \<Rightarrow> fs \<Rightarrow> bool"
  assumes R_refl: "R fs fs"
    and R_trans: "R fs fs1 \<Longrightarrow> R fs1 fs2 \<Longrightarrow> R fs fs2"
    and R_mkdir: "p \<in> A \<Longrightarrow> R fs (fst (mkdir_parents (butlast p) fs))"
    and R_write: "p \<in> A \<Longrightarrow> R fs (fst (write_text io p c fs))"
    and R_unlink: "p \<in> A \<Longrightarrow> is_file fs p \<Longrightarrow> R fs (fst (unlink io p fs))"
begin

lemma R_and_then: "R fs (fst m) \<Longrightarrow> (\<And>fs1. R fs1 (fst (f fs1))) \<Longrightarrow> R fs (fst (and_then m f))"
  by (cases m; cases "snd m") (auto intro: R_trans)

lemma R_delete: "p \<in> A \<Longrightarrow> R fs (fst (delete_file_if_present io p fs))"
  by (auto simp: delete_file_if_present_def R_refl R_unlink)

lemma R_operation:
  assumes "pl_path p \<in> A" "set_option (pl_move_path p) \<subseteq> A"
  shows "R fs (fst (apply_planned_operation io p fs))"
  using assms
  by (auto simp: apply_planned_operation_def R_refl
      intro!: R_and_then R_mkdir R_write R_delete
      split: file_change_kind.splits option.splits)

lemma R_apply_all:
  "list_all (\<lambda>p. pl_path p \<in> A \<and> set_option (pl_move_path p) \<subseteq> A) ops \<Longrightarrow>
   R fs (fst (apply_all io ops fs))"
  by (induction ops arbitrary: fs) (auto simp: R_refl intro!: R_and_then R_operation)

lemma R_restore: "sn_path s \<in> A \<Longrightarrow> R fs (fst (restore_snapshot io s fs))"
  by (auto simp: restore_snapshot_def R_refl intro!: R_and_then R_mkdir R_write R_unlink
      split: option.splits)

lemma R_restore_all: "list_all (\<lambda>s. sn_path s \<in> A) ss \<Longrightarrow> R fs (fst (restore_all io ss fs))"
  by (induction ss arbitrary: fs) (auto simp: R_refl intro!: R_and_then R_restore)

lemma R_transaction:
  assumes "list_all (\<lambda>p. pl_path p \<in> A \<and> set_option (pl_move_path p) \<subseteq> A) ops"
  shows "R fs (fst (apply_transactionally io ops fs))"
proof (cases "snapshot_touched_paths fs ops")
  case (Inl e) then show ?thesis by (simp add: apply_transactionally_def R_refl)
next
  case (Inr ss)
  have "set (touched_paths ops) \<subseteq> A"
    using assms by (auto simp: touched_paths_set list_all_iff)
  moreover have "sn_path ` set ss = set (touched_paths ops)"
    using snapshots_of [OF Inr] by (metis list.set_map)
  ultimately have "list_all (\<lambda>s. sn_path s \<in> A) (rev ss)" by (auto simp: list_all_iff)
  then have undo: "R fs1 (fst (restore_all io (rev ss) fs1))" for fs1 by (rule R_restore_all)
  obtain fs1 r where app: "apply_all io ops fs = (fs1, r)" by fastforce
  have "R fs fs1" using R_apply_all [OF assms, of fs io] app by simp
  then show ?thesis
    using app Inr undo [of fs1] R_trans [of fs fs1]
    by (auto simp: apply_transactionally_def split: sum.splits prod.splits)
qed

end

text \<open>Outside the touched paths nothing changes, except that missing directories appear; no other
  path becomes a directory.\<close>

definition frame :: "fpath set \<Rightarrow> fs \<Rightarrow> fs \<Rightarrow> bool" where
  "frame A fs fs' \<longleftrightarrow>
     (\<forall>q. (q \<notin> A \<longrightarrow> fs' q = fs q \<or> fs q = None \<and> fs' q = Some Dir) \<and>
          (fs' q = Some Dir \<longrightarrow> fs q = Some Dir \<or> (\<exists>p\<in>A. strict_prefix q p)))"

lemma prefix_butlast_strict:
  assumes "prefix q (butlast p)" "p \<noteq> []" shows "strict_prefix q p"
  using assms prefix_length_le [OF assms(1)]
  by (auto simp: strict_prefix_def dest: prefix_length_le)
    (metis append_butlast_last_id prefix_def append.assoc)

interpretation framed: file_effects "A - {[]}" "frame (A - {[]})" for A :: "fpath set"
proof
  fix fs fs1 fs2 :: fs
  show "frame (A - {[]}) fs fs" by (simp add: frame_def)
  show "frame (A - {[]}) fs fs1 \<Longrightarrow> frame (A - {[]}) fs1 fs2 \<Longrightarrow> frame (A - {[]}) fs fs2"
    unfolding frame_def by metis
  fix p :: fpath assume p: "p \<in> A - {[]}"
  show "frame (A - {[]}) fs (fst (mkdir_parents (butlast p) fs))"
    unfolding frame_def mkdir_parents_def using p prefix_butlast_strict by (auto simp: in_set_prefixes)
  show "frame (A - {[]}) fs (fst (write_text io p c fs))" for io c
    using p by (auto simp: frame_def write_text_def split: option.splits write_fault.splits)
  show "frame (A - {[]}) fs (fst (unlink io p fs))" for io
    using p by (auto simp: frame_def unlink_def)
qed

text \<open>What exists outside the touched paths stays.\<close>

definition keeps_outside :: "fpath set \<Rightarrow> fs \<Rightarrow> fs \<Rightarrow> bool" where
  "keeps_outside A fs fs' \<longleftrightarrow> (\<forall>q. q \<notin> A \<and> fs q \<noteq> None \<longrightarrow> fs' q = fs q)"

interpretation keeping: file_effects A "keeps_outside A" for A :: "fpath set"
  by unfold_locales
    (auto simp: keeps_outside_def mkdir_parents_def write_text_def unlink_def split: option.splits write_fault.splits)



section \<open>Restoring the snapshots\<close>

text \<open>A state on the way of the roll-back: the touched paths hold files or nothing, everything else
  is as it was, up to new directories.\<close>

definition disturbed :: "fpath set \<Rightarrow> fs \<Rightarrow> fs \<Rightarrow> bool" where
  "disturbed A fs fs' \<longleftrightarrow>
     (\<forall>q. q \<notin> A \<longrightarrow> fs' q = fs q \<or> fs q = None \<and> fs' q = Some Dir) \<and> (\<forall>q\<in>A. fs' q \<noteq> Some Dir)"

definition antichain :: "fpath set \<Rightarrow> bool" where
  "antichain A \<longleftrightarrow> (\<forall>p\<in>A. \<forall>q\<in>A. \<not> strict_prefix p q)"

lemma prefix_free_antichain: "prefix_free ps \<longleftrightarrow> antichain (set ps)"
  by (auto simp: prefix_free_def antichain_def list_all_iff)

lemma restore_snapshot_lemma:
  assumes dis: "disturbed A fs fs'" and tree: "tree_fs fs" and anti: "antichain A"
    and A: "sn_path s \<in> A" "[] \<notin> A"
    and ok: "snapshot_ok fs s"
    and fine: "restorable io fs [sn_path s]"
  obtains fs2 where "restore_snapshot io s fs' = (fs2, Inr ())" "disturbed A fs fs2"
    "fs2 (sn_path s) = fs (sn_path s)" "\<And>q. q \<in> A \<Longrightarrow> q \<noteq> sn_path s \<Longrightarrow> fs2 q = fs' q"
proof -
  have data: "sn_data s = file_data fs (sn_path s)" "fs (sn_path s) \<noteq> Some Dir"
    using ok by (simp_all add: snapshot_ok_def)
  show ?thesis
proof (cases "sn_data s")
  case None
  then have gone: "fs (sn_path s) = None"
    using data by (auto simp: file_data_def split: option.splits node.splits)
  let ?fs2 = "fs'(sn_path s := None)"
  have "restore_snapshot io s fs' = (?fs2, Inr ())"
    using None dis A gone fine
    by (auto simp: restore_snapshot_def disturbed_def is_file_def unlink_def restorable_def
        split: option.splits node.splits)
  moreover have "disturbed A fs ?fs2" using dis A by (auto simp: disturbed_def)
  ultimately show ?thesis using that gone by auto
next
  case (Some d)
  then have there: "fs (sn_path s) = Some (File d)"
    using data by (auto simp: file_data_def split: option.splits node.splits)
  have above: "fs' q = Some Dir \<and> q \<notin> A" if "prefix q (butlast (sn_path s))" for q
  proof -
    have strict: "strict_prefix q (sn_path s)" using that A prefix_butlast_strict by metis
    then have "fs q = Some Dir" using tree there by (auto simp: tree_fs_def)
    moreover have "q \<notin> A" using strict anti A by (auto simp: antichain_def)
    ultimately show ?thesis using dis by (force simp: disturbed_def)
  qed
  then have "mkdir_parents (butlast (sn_path s)) fs' = (fs', Inr ())"
    by (auto simp: mkdir_parents_def list_ex_iff in_set_prefixes is_file_def fun_eq_iff
        split: option.splits node.splits)
  moreover have "write_text io (sn_path s) d fs' = (fs'(sn_path s \<mapsto> File d), Inr ())"
    using dis A fine there by (auto simp: write_text_def disturbed_def restorable_def)
  ultimately have "restore_snapshot io s fs' = (fs'(sn_path s \<mapsto> File d), Inr ())"
    using Some by (simp add: restore_snapshot_def)
  moreover have "disturbed A fs (fs'(sn_path s \<mapsto> File d))"
    using dis A by (auto simp: disturbed_def)
  ultimately show ?thesis using that there by auto
qed
qed

lemma restore_all_lemma:
  assumes "disturbed A fs fs'" "tree_fs fs" "antichain A" "[] \<notin> A" "sn_path ` set ss \<subseteq> A"
    "list_all (snapshot_ok fs) ss"
    "restorable io fs (map sn_path ss)" "distinct (map sn_path ss)"
  shows "\<exists>fs2. restore_all io ss fs' = (fs2, Inr ()) \<and> disturbed A fs fs2 \<and>
    (\<forall>s\<in>set ss. fs2 (sn_path s) = fs (sn_path s)) \<and>
    (\<forall>q\<in>A. q \<notin> sn_path ` set ss \<longrightarrow> fs2 q = fs' q)"
  using assms
proof (induction ss arbitrary: fs')
  case (Cons s ss)
  have fine: "restorable io fs [sn_path s]" "restorable io fs (map sn_path ss)"
    using Cons.prems by (simp_all add: restorable_def)
  have "sn_path s \<in> A" "snapshot_ok fs s"
    using Cons.prems by simp_all
  then obtain fs2 where step: "restore_snapshot io s fs' = (fs2, Inr ())" "disturbed A fs fs2"
    "fs2 (sn_path s) = fs (sn_path s)" "\<And>q. q \<in> A \<Longrightarrow> q \<noteq> sn_path s \<Longrightarrow> fs2 q = fs' q"
    using restore_snapshot_lemma [OF Cons.prems(1-3) _ Cons.prems(4) _ fine(1)] by metis
  have "\<exists>fs3. restore_all io ss fs2 = (fs3, Inr ()) \<and> disturbed A fs fs3 \<and>
    (\<forall>s\<in>set ss. fs3 (sn_path s) = fs (sn_path s)) \<and>
    (\<forall>q\<in>A. q \<notin> sn_path ` set ss \<longrightarrow> fs3 q = fs2 q)"
    using Cons.prems step(2) fine(2) by (intro Cons.IH) auto
  then obtain fs3 where rest: "restore_all io ss fs2 = (fs3, Inr ())" "disturbed A fs fs3"
    "\<forall>s\<in>set ss. fs3 (sn_path s) = fs (sn_path s)"
    "\<forall>q\<in>A. q \<notin> sn_path ` set ss \<longrightarrow> fs3 q = fs2 q"
    by blast
  have "fs3 (sn_path s) = fs (sn_path s)" using rest(4) step(3) Cons.prems by auto
  then show ?case using step rest by auto
qed auto

text \<open>The roll-back theorem of the component.\<close>

lemma rollback_lemma:
  assumes run: "apply_transactionally io ops fs = (fs', Inl e)"
    and tree: "tree_fs fs" and free: "prefix_free (touched_paths ops)"
    and root: "[] \<notin> set (touched_paths ops)"
    and fine: "restorable io fs (touched_paths ops)"
  shows "only_new_dirs fs fs'"
proof (cases "snapshot_touched_paths fs ops")
  case (Inl e') then show ?thesis using run by (simp add: apply_transactionally_def only_new_dirs_def)
next
  case (Inr ss)
  let ?A = "set (touched_paths ops)"
  obtain fs1 r where app: "apply_all io ops fs = (fs1, r)" by fastforce
  have snap: "map sn_path ss = touched_paths ops"
    "list_all (snapshot_ok fs) ss"
    using snapshots_of [OF Inr] by auto
  have image: "sn_path ` set ss = ?A" using snap(1) by (metis list.set_map)
  have A: "?A - {[]} = ?A" using root by simp
  have frame: "frame ?A fs fs1"
    using framed.R_apply_all [where A = ?A and ops = ops and io = io and fs = fs] touched_list_all [of ops ?A] app by (simp add: A)
  have clean: "fs q \<noteq> Some Dir" if "q \<in> ?A" for q
    using that snap unfolding image [symmetric] by (auto simp: list_all_iff snapshot_ok_def)
  have dis: "disturbed ?A fs fs1"
    using frame clean free
    unfolding frame_def disturbed_def prefix_free_antichain antichain_def by metis
  have "\<exists>fs2. restore_all io (rev ss) fs1 = (fs2, Inr ()) \<and> disturbed ?A fs fs2 \<and>
    (\<forall>s\<in>set (rev ss). fs2 (sn_path s) = fs (sn_path s)) \<and>
    (\<forall>q\<in>?A. q \<notin> sn_path ` set (rev ss) \<longrightarrow> fs2 q = fs1 q)"
  proof (rule restore_all_lemma [OF dis tree _ root])
    show "antichain ?A" using free by (simp add: prefix_free_antichain)
    show "sn_path ` set (rev ss) \<subseteq> ?A" by (simp add: image)
    show "list_all (snapshot_ok fs) (rev ss)" using snap(2) by simp
    show "restorable io fs (map sn_path (rev ss))"
    proof -
      have same: "set (map sn_path (rev ss)) = ?A" by (simp add: image)
      show ?thesis using fine unfolding restorable_def list_all_iff same .
    qed
    show "distinct (map sn_path (rev ss))"
      using distinct_touched [of ops] unfolding rev_map [symmetric] snap(1) by simp
  qed
  then obtain fs2 where restored: "restore_all io (rev ss) fs1 = (fs2, Inr ())" "disturbed ?A fs fs2"
    "\<forall>s\<in>set ss. fs2 (sn_path s) = fs (sn_path s)" by auto
  have "\<forall>q\<in>?A. fs2 q = fs q" using restored(3) unfolding image [symmetric] by simp
  then have "only_new_dirs fs fs2" using restored(2) unfolding only_new_dirs_def disturbed_def by metis
  then show ?thesis
    using run app Inr restored(1) by (auto simp: apply_transactionally_def split: sum.splits)
qed

section \<open>The service\<close>

text \<open>A resolved path has no symbolic link on its way, so a file operation on it acts where it says.\<close>

definition link_free :: "link_table \<Rightarrow> fpath \<Rightarrow> bool" where
  "link_free links p \<longleftrightarrow> list_all (\<lambda>q. map_of links q = None) (prefixes p)"

lemma link_free_iff: "link_free links p \<longleftrightarrow> (\<forall>q. prefix q p \<longrightarrow> map_of links q = None)"
  by (auto simp: link_free_def list_all_iff in_set_prefixes)

lemma link_free_butlast: "link_free links p \<Longrightarrow> link_free links (butlast p)"
  unfolding link_free_iff using prefix_order.trans prefixeq_butlast by blast

lemma resolve_parts_link_free:
  "resolve_parts links opened path parts = Inr p \<Longrightarrow> map_of links [] = None \<Longrightarrow> link_free links path \<Longrightarrow>
   link_free links p"
proof (induction links opened path parts arbitrary: p rule: resolve_parts.induct)
  case (1 links opened path)
  then show ?case by simp
next
  case (2 links opened path part rest)
  show ?case
  proof (cases "part = ''..''")
    case True
    then show ?thesis using 2 link_free_butlast by simp
  next
    case False
    show ?thesis
    proof (cases "map_of links (path @ [part])")
      case None
      then have "link_free links (path @ [part])"
        using 2(7) by (auto simp: link_free_iff)
      then show ?thesis using 2 False None by simp
    next
      case (Some dest)
      then obtain q where q: "path @ [part] \<notin> set opened"
        "resolve_parts links ((path @ [part]) # opened) (link_start path dest) (path_parts dest) = Inr q"
        "resolve_parts links opened q rest = Inr p"
        using 2(5) False by (auto simp: res_bind_Inr_iff split: if_splits)
      have "link_free links (link_start path dest)"
        using 2(6,7) by (simp add: link_start_def link_free_def)
      then have "link_free links q" using 2(3) False Some q 2(6) by blast
      then show ?thesis using 2(4) False Some q 2(6) by blast
    qed
  qed
qed

lemma resolved_link_free:
  "resolve_workspace_path links root s = Inr p \<Longrightarrow> map_of links [] = None \<Longrightarrow> link_free links p"
  by (auto simp: resolve_workspace_path_def resolve_joined_def res_bind_Inr_iff link_free_def split: if_splits
      dest!: resolve_parts_link_free)

lemma resolve_below:
  "resolve_workspace_path links root s = Inr p \<Longrightarrow> prefix root p"
  by (auto simp: resolve_workspace_path_def res_bind_Inr_iff split: if_splits)

lemma resolve_move_below:
  "resolve_move links root operation = Inr (Some p) \<Longrightarrow> prefix root p"
  by (auto simp: resolve_move_def res_bind_Inr_iff dest: resolve_below split: if_splits)

definition below :: "fpath \<Rightarrow> planned_operation \<Rightarrow> bool" where
  "below root p \<longleftrightarrow> prefix root (pl_path p) \<and> (\<forall>m\<in>set_option (pl_move_path p). prefix root m)"

lemma plan_operation_below: "plan_operation links root fs operation = Inr p \<Longrightarrow> below root p"
  by (auto simp: plan_operation_def below_def res_bind_Inr_iff split: if_splits
      dest: resolve_below resolve_move_below)


lemma res_map_list_all:
  "res_map f xs = Inr ys \<Longrightarrow> (\<And>x y. f x = Inr y \<Longrightarrow> P y) \<Longrightarrow> list_all P ys"
  by (induction xs arbitrary: ys) (auto simp: res_bind_Inr_iff)

lemma plan_text_below:
  "plan_text_patch svc udiff fresh fs patch = Inr planned \<Longrightarrow>
   list_all (below (ms_root svc)) (pp_operations planned)"
  by (auto simp: plan_text_patch_def res_bind_Inr_iff Let_def
      elim!: res_map_list_all intro: plan_operation_below)



lemma apply_text_patch_cases:
  assumes "apply_text_patch svc udiff sha fresh io fs patch = (fs', r)"
  obtains (unplanned) "fs' = fs" "mr_status r = Failed"
        | (failed) planned e where "plan_text_patch svc udiff fresh fs patch = Inr planned"
            "apply_transactionally io (pp_operations planned) fs = (fs', Inl e)" "mr_status r = Failed"
        | (succeeded) planned where "plan_text_patch svc udiff fresh fs patch = Inr planned"
            "apply_transactionally io (pp_operations planned) fs = (fs', Inr ())"
            "mr_status r = Completed"
  using assms
  by (auto simp: apply_text_patch_def planned_result_def failed_result_def Let_def
      split: sum.splits prod.splits)



lemma commit_document_fs:
  "fst (commit_document svc udiff sha fresh io fs target content) =
     (case plan_document_commit svc udiff fresh fs target content of
        Inl e \<Rightarrow> fs
      | Inr planned \<Rightarrow> fst (apply_transactionally io (pp_operations planned) fs))"
  by (auto simp: commit_document_def split: sum.splits prod.splits)


lemma plan_document_path:
  "plan_document_commit svc udiff fresh fs target content = Inr planned \<Longrightarrow>
   \<exists>p. fs (pl_path p) = None \<and> pl_move_path p = None \<and> pp_operations planned = [p]"
  by (auto simp: plan_document_commit_def res_bind_Inr_iff Let_def split: if_splits)

lemma commit_keeps_lemma:
  assumes "fs p \<noteq> None"
  shows "fst (commit_document svc udiff sha fresh io fs target content) p = fs p"
proof (cases "plan_document_commit svc udiff fresh fs target content")
  case (Inl e) then show ?thesis by (simp add: commit_document_fs)
next
  case (Inr planned)
  then obtain q where q: "fs (pl_path q) = None" "pl_move_path q = None"
    "pp_operations planned = [q]"
    using plan_document_path by blast
  have "keeps_outside {pl_path q} fs (fst (apply_transactionally io [q] fs))"
    by (rule keeping.R_transaction) (simp add: q)
  moreover have "p \<noteq> pl_path q" using assms q(1) by auto
  ultimately show ?thesis using assms q(3) Inr by (simp add: commit_document_fs keeps_outside_def)
qed

text \<open>A file system given by a finite table.\<close>

lemma tree_fs_map_of:
  "list_all (\<lambda>(p, _). list_all (\<lambda>q. q = p \<or> map_of l q = Some Dir) (prefixes p)) l \<Longrightarrow>
   tree_fs (map_of l)"
  unfolding tree_fs_def list_all_iff
  by (fastforce simp: in_set_prefixes strict_prefix_def dest: map_of_SomeD)

section \<open>A planned patch completes\<close>

lemma parse_operations_kinds:
  "parse_operations lines = Inr ops \<Longrightarrow>
   list_all (\<lambda>operation. po_kind operation = Kind_MOVE \<longrightarrow> opt_str (po_move_path operation) \<noteq> []) ops"
  by (induction lines arbitrary: ops rule: parse_operations.induct)
    (auto simp: res_bind_Inr_iff split: if_splits)

lemma parse_patch_kinds:
  "parse_patch patch = Inr ops \<Longrightarrow>
   list_all (\<lambda>operation. po_kind operation = Kind_MOVE \<longrightarrow> opt_str (po_move_path operation) \<noteq> []) ops"
  by (auto simp: parse_patch_def Let_def res_bind_Inr_iff split: if_splits
      dest: parse_operations_kinds)

text \<open>What planning has established for an operation.\<close>

definition plan_ok :: "fs \<Rightarrow> planned_operation \<Rightarrow> bool" where
  "plan_ok fs p \<longleftrightarrow>
     (po_kind (pl_operation p) = Kind_DELETE \<or> pl_new_content p \<noteq> None) \<and>
     (po_kind (pl_operation p) = Kind_MOVE \<longrightarrow> pl_move_path p \<noteq> None) \<and>
     fs (pl_path p) \<noteq> Some Dir \<and> (\<forall>m\<in>set_option (pl_move_path p). fs m \<noteq> Some Dir)"

lemma planned_content_some:
  "planned_content operation old = Inr new \<Longrightarrow> po_kind operation = Kind_DELETE \<or> new \<noteq> None"
  by (auto simp: planned_content_def res_bind_Inr_iff
      split: file_change_kind.splits option.splits if_splits)

lemma plan_operation_ok:
  assumes "plan_operation links root fs operation = Inr p"
    "po_kind operation = Kind_MOVE \<longrightarrow> opt_str (po_move_path operation) \<noteq> []"
  shows "plan_ok fs p"
  using assms
  by (auto simp: plan_operation_def plan_ok_def res_bind_Inr_iff resolve_move_def
      read_existing_text_def split: if_splits option.splits node.splits
      dest!: planned_content_some)

lemma res_map_keeps:
  "res_map f xs = Inr ys \<Longrightarrow> list_all P xs \<Longrightarrow> (\<And>x y. P x \<Longrightarrow> f x = Inr y \<Longrightarrow> Q y) \<Longrightarrow> list_all Q ys"
  by (induction xs arbitrary: ys) (auto simp: res_bind_Inr_iff)

lemma plan_text_ok:
  assumes "plan_text_patch svc udiff fresh fs patch = Inr planned"
  shows "list_all (plan_ok fs) (pp_operations planned)"
proof -
  obtain ops where parse: "parse_patch patch = Inr ops"
    and plan: "res_map (plan_operation (ms_links svc) (ms_root svc) fs) ops = Inr (pp_operations planned)"
    using assms by (auto simp: plan_text_patch_def res_bind_Inr_iff Let_def)
  show ?thesis
    by (rule res_map_keeps [OF plan parse_patch_kinds [OF parse]]) (rule plan_operation_ok; simp)
qed

lemma mkdir_touched:
  assumes "disturbed A fs fs'" "antichain A" "p \<in> A" "p \<noteq> []"
    "\<And>q. strict_prefix q p \<Longrightarrow> \<not> is_file fs q"
  obtains fs2 where "mkdir_parents (butlast p) fs' = (fs2, Inr ())" "disturbed A fs fs2"
proof -
  have above: "\<not> is_file fs' q \<and> q \<notin> A" if "prefix q (butlast p)" for q
  proof -
    have strict: "strict_prefix q p" using that assms(4) prefix_butlast_strict by metis
    then have "q \<notin> A" using assms(2,3) by (auto simp: antichain_def)
    moreover have "\<not> is_file fs q" using assms(5) strict by simp
    ultimately show ?thesis using assms(1) by (force simp: disturbed_def is_file_def)
  qed
  let ?fs2 = "\<lambda>q. if fs' q = None \<and> q \<in> set (prefixes (butlast p)) then Some Dir else fs' q"
  have "mkdir_parents (butlast p) fs' = (?fs2, Inr ())"
    using above by (auto simp: mkdir_parents_def list_ex_iff in_set_prefixes)
  moreover have "disturbed A fs ?fs2"
    using assms(1) above by (force simp: disturbed_def in_set_prefixes)
  ultimately show ?thesis using that by blast
qed

lemma write_touched:
  assumes "disturbed A fs fs'" "p \<in> A"
  shows "write_text no_faults p c fs' = (fs'(p \<mapsto> File c), Inr ()) \<and>
    disturbed A fs (fs'(p \<mapsto> File c))"
  using assms by (auto simp: write_text_def no_faults_def disturbed_def)

lemma delete_touched:
  assumes "disturbed A fs fs'" "p \<in> A"
  obtains fs2 where "delete_file_if_present no_faults p fs' = (fs2, Inr ())" "disturbed A fs fs2"
proof (cases "fs' p")
  case None
  then show ?thesis using that [of fs'] assms by (simp add: delete_file_if_present_def)
next
  case (Some n)
  then have "is_file fs' p" using assms by (cases n) (auto simp: disturbed_def is_file_def)
  then have "delete_file_if_present no_faults p fs' = (fs'(p := None), Inr ())"
    using Some by (simp add: delete_file_if_present_def unlink_def no_faults_def)
  then show ?thesis using that assms by (auto simp: disturbed_def)
qed

lemma apply_operation_completes:
  assumes dis: "disturbed A fs fs'" and anti: "antichain A" and ok: "plan_ok fs p"
    and A: "set (touched_paths [p]) \<subseteq> A" and root: "[] \<notin> A"
    and above: "\<forall>r\<in>A. \<forall>q. strict_prefix q r \<longrightarrow> \<not> is_file fs q"
  shows "\<exists>fs2. apply_planned_operation no_faults p fs' = (fs2, Inr ()) \<and> disturbed A fs fs2"
proof -
  have path: "pl_path p \<in> A" and move: "set_option (pl_move_path p) \<subseteq> A"
    using A by (auto simp: touched_paths_def split: option.splits)
  have put: "\<exists>fs2. and_then (mkdir_parents (butlast r) fs') (write_text no_faults r c) = (fs2, Inr ())
      \<and> disturbed A fs fs2" if r: "r \<in> A" for r c
  proof -
    have "r \<noteq> []" using r root by auto
    then obtain fs2 where "mkdir_parents (butlast r) fs' = (fs2, Inr ())" "disturbed A fs fs2"
      using mkdir_touched [OF dis anti r] above r by metis
    then show ?thesis using write_touched [of A fs fs2 r c] r by auto
  qed
  show ?thesis
  proof (cases "po_kind (pl_operation p)")
    case Kind_DELETE
    then show ?thesis
      using delete_touched [OF dis path] by (auto simp: apply_planned_operation_def)
  next
    case Kind_MOVE
    then obtain m c where mc: "pl_move_path p = Some m" "pl_new_content p = Some c"
      using ok by (auto simp: plan_ok_def)
    then obtain fs1 fs2 where m: "mkdir_parents (butlast m) fs' = (fs1, Inr ())"
      "write_text no_faults m c fs1 = (fs2, Inr ())" "disturbed A fs fs2"
      using put [of m c] move by (auto elim!: and_then_cases)
    obtain fs3 where "delete_file_if_present no_faults (pl_path p) fs2 = (fs3, Inr ())"
      "disturbed A fs fs3"
      using delete_touched [OF m(3) path] .
    then show ?thesis using m mc Kind_MOVE by (auto simp: apply_planned_operation_def)
  qed (use put [OF path] ok in \<open>auto simp: apply_planned_operation_def plan_ok_def\<close>)
qed

lemma apply_all_completes:
  assumes "disturbed A fs fs'" "antichain A" "[] \<notin> A" "list_all (plan_ok fs) ops"
    "set (touched_paths ops) \<subseteq> A" "\<forall>r\<in>A. \<forall>q. strict_prefix q r \<longrightarrow> \<not> is_file fs q"
  shows "\<exists>fs2. apply_all no_faults ops fs' = (fs2, Inr ())"
  using assms
proof (induction ops arbitrary: fs')
  case (Cons p ops)
  have A: "set (touched_paths [p]) \<subseteq> A" "set (touched_paths ops) \<subseteq> A"
    using Cons.prems(5) by (auto simp: touched_paths_set)
  obtain fs2 where "apply_planned_operation no_faults p fs' = (fs2, Inr ())" "disturbed A fs fs2"
    using apply_operation_completes [OF Cons.prems(1,2) _ A(1) Cons.prems(3,6)] Cons.prems(4)
    by auto
  then show ?case using Cons.IH [OF _ Cons.prems(2,3) _ A(2) Cons.prems(6)] Cons.prems(4) by auto
qed simp

lemma snapshots_exist:
  "(\<And>p. p \<in> set (touched_paths ops) \<Longrightarrow> fs p \<noteq> Some Dir) \<Longrightarrow>
   \<exists>ss. snapshot_touched_paths fs ops = Inr ss"
proof -
  have "(\<And>p. p \<in> set ps \<Longrightarrow> fs p \<noteq> Some Dir) \<Longrightarrow> \<exists>ss. res_map (snapshot_path fs) ps = Inr ss" for ps
    by (induction ps) (fastforce simp: snapshot_path_def split: option.splits node.splits)+
  then show "(\<And>p. p \<in> set (touched_paths ops) \<Longrightarrow> fs p \<noteq> Some Dir) \<Longrightarrow> ?thesis"
    by (simp add: snapshot_touched_paths_def)
qed

text \<open>No touched path lies below a file.\<close>

definition above_no_file :: "fs \<Rightarrow> fpath list \<Rightarrow> bool" where
  "above_no_file fs ps \<longleftrightarrow> list_all (\<lambda>p. list_all (\<lambda>q. q = p \<or> \<not> is_file fs q) (prefixes p)) ps"

lemma transaction_completes:
  assumes ok: "list_all (plan_ok fs) ops" and free: "prefix_free (touched_paths ops)"
    and root: "[] \<notin> set (touched_paths ops)" and above: "above_no_file fs (touched_paths ops)"
  shows "\<exists>fs'. apply_transactionally no_faults ops fs = (fs', Inr ())"
proof -
  let ?A = "set (touched_paths ops)"
  have clean: "fs p \<noteq> Some Dir" if "p \<in> ?A" for p
    using that ok by (auto simp: touched_paths_set plan_ok_def list_all_iff)
  have "\<exists>fs2. apply_all no_faults ops fs = (fs2, Inr ())"
  proof (rule apply_all_completes [OF _ _ root ok subset_refl])
    show "disturbed ?A fs fs" using clean by (simp add: disturbed_def)
    show "antichain ?A" using free by (simp add: prefix_free_antichain)
    show "\<forall>r\<in>?A. \<forall>q. strict_prefix q r \<longrightarrow> \<not> is_file fs q"
    proof (intro ballI allI impI)
      fix r q assume r: "r \<in> ?A" and q: "strict_prefix q r"
      have "q \<in> set (prefixes r)" "q \<noteq> r" using q by (auto simp: in_set_prefixes strict_prefix_def)
      then show "\<not> is_file fs q"
        using above r unfolding above_no_file_def list_all_iff by blast
    qed
  qed
  moreover obtain ss where "snapshot_touched_paths fs ops = Inr ss"
    using snapshots_exist clean by blast
  ultimately show ?thesis by (auto simp: apply_transactionally_def)
qed

lemma touched_not_root:
  assumes "list_all (below root) ops" "root \<noteq> []"
  shows "[] \<notin> set (touched_paths ops)"
  using assms by (auto simp: touched_paths_set list_all_iff below_def)

section \<open>Sections and paths\<close>

lemma res_map_append:
  "res_map f (xs @ ys) = Inr zs \<Longrightarrow> \<exists>us vs. zs = us @ vs \<and> res_map f xs = Inr us \<and> res_map f ys = Inr vs"
proof (induction xs arbitrary: zs)
  case Nil
  then show ?case by simp
next
  case (Cons x xs)
  then obtain u ws where u: "f x = Inr u" "res_map f (xs @ ys) = Inr ws" "zs = u # ws"
    by (auto simp: res_bind_Inr_iff)
  from Cons.IH [OF u(2)] show ?case using u(1,3) by (auto simp: res_bind_Inr_iff)
qed

lemma plan_operation_paths:
  "plan_operation links root fs operation = Inr q \<Longrightarrow>
   resolve_workspace_path links root (po_path operation) = Inr (pl_path q) \<and>
   resolve_move links root operation = Inr (pl_move_path q)"
  by (auto simp: plan_operation_def res_bind_Inr_iff split: if_splits)

text \<open>A section names a path as its file or as the target of its move.\<close>

definition names :: "mutation_service \<Rightarrow> fpath \<Rightarrow> patch_operation \<Rightarrow> bool" where
  "names svc p operation \<longleftrightarrow>
     resolve_workspace_path (ms_links svc) (ms_root svc) (po_path operation) = Inr p \<or>
     resolve_move (ms_links svc) (ms_root svc) operation = Inr (Some p)"

lemma patch_effect_append: "patch_effect (us @ q # vs) d = patch_effect vs (operation_effect q (patch_effect us d))"
  by (simp add: patch_effect_def)

lemma patch_effect_elsewhere:
  "list_all (\<lambda>x. pl_path x \<noteq> p \<and> pl_move_path x \<noteq> Some p) ops \<Longrightarrow> patch_effect ops d p = d p"
  unfolding patch_effect_def
  by (induction ops arbitrary: d)
    (auto simp: operation_effect_def split: file_change_kind.splits option.splits)

lemma read_existing_data: "read_existing_text fs p = Inr old \<Longrightarrow> file_data fs p = old"
  by (auto simp: read_existing_text_def file_data_def split: option.splits node.splits)

lemma plan_update:
  assumes "plan_operation links root fs operation = Inr q" "po_kind operation = Kind_UPDATE"
  shows "\<exists>old new. file_data fs (pl_path q) = Some old \<and>
    apply_update_hunks old (po_lines operation) (po_path operation) = Inr new \<and>
    (\<forall>d. operation_effect q d (pl_path q) = Some new)"
  using assms
  by (auto simp: plan_operation_def res_bind_Inr_iff planned_content_def operation_effect_def
      split: if_splits option.splits dest!: read_existing_data)

lemma plan_ok_clean: "list_all (plan_ok fs) ops \<Longrightarrow> p \<in> set (touched_paths ops) \<Longrightarrow> fs p \<noteq> Some Dir"
  by (auto simp: touched_paths_set plan_ok_def list_all_iff)

lemma plan_text_deletes:
  assumes "plan_text_patch svc udiff fresh fs patch = Inr planned"
  shows "list_all (\<lambda>p. po_kind (pl_operation p) = Kind_DELETE \<longrightarrow> is_file fs (pl_path p)) (pp_operations planned)"
proof -
  have "plan_operation links root fs operation = Inr p \<Longrightarrow>
      po_kind (pl_operation p) = Kind_DELETE \<longrightarrow> is_file fs (pl_path p)" for links root operation p
    by (auto simp: plan_operation_def res_bind_Inr_iff planned_content_def is_file_data
        split: if_splits option.splits dest!: read_existing_data)
  then show ?thesis
    using assms by (auto simp: plan_text_patch_def res_bind_Inr_iff Let_def elim!: res_map_list_all)
qed

text \<open>A directory stays a directory.\<close>

interpretation dirs_stay: file_effects UNIV "\<lambda>fs fs'. fs p = Some Dir \<longrightarrow> fs' p = Some Dir" for p
  by unfold_locales
    (auto simp: mkdir_parents_def write_text_def unlink_def is_file_def split: option.splits write_fault.splits)

lemma delete_then_add_below:
  assumes there: "is_file fs (pl_path d)" and "po_kind (pl_operation d) = Kind_DELETE"
    and "po_kind (pl_operation a) = Kind_ADD" and under: "strict_prefix (pl_path d) (pl_path a)"
    and tree: "tree_fs fs" and c: "pl_new_content a = Some c"
  shows "\<exists>fs2. apply_planned_operation no_faults d fs = (fs(pl_path d := None), Inr ()) \<and>
    apply_planned_operation no_faults a (fs(pl_path d := None)) = (fs2, Inr ()) \<and> fs2 (pl_path d) = Some Dir"
proof -
  let ?p = "pl_path d" and ?q = "pl_path a"
  let ?fs1 = "fs(?p := None)"
  have was: "fs ?p \<noteq> None" "fs ?p \<noteq> Some Dir" using there by (auto simp: is_file_def split: option.splits)
  have vacant: "fs r = None" if "strict_prefix ?p r" for r
    using tree that was(2) unfolding tree_fs_def by blast
  have ways: "\<not> is_file ?fs1 r" if "strict_prefix r ?q" for r
  proof -
    have "prefix r ?p \<or> prefix ?p r"
      using that under by (meson prefix_same_cases strict_prefix_def)
    then consider "r = ?p" | "strict_prefix r ?p" | "strict_prefix ?p r" by (auto simp: strict_prefix_def)
    then show ?thesis
    proof cases
      case 1
      then show ?thesis by (simp add: is_file_def)
    next
      case 2
      then have "fs r = Some Dir" using tree was(1) unfolding tree_fs_def by blast
      with 2 show ?thesis by (auto simp: is_file_def)
    next
      case 3
      then have "fs r = None" using tree was(2) unfolding tree_fs_def by blast
      then show ?thesis by (simp add: is_file_def)
    qed
  qed
  have q: "?q \<noteq> []" using under by (auto simp: strict_prefix_def)
  let ?fs2 = "\<lambda>r. if ?fs1 r = None \<and> r \<in> set (prefixes (butlast ?q)) then Some Dir else ?fs1 r"
  have "mkdir_parents (butlast ?q) ?fs1 = (?fs2, Inr ())"
    using ways prefix_butlast_strict [OF _ q] by (auto simp: mkdir_parents_def list_ex_iff in_set_prefixes)
  moreover have "?fs2 ?q = None"
  proof -
    have "\<not> prefix ?q (butlast ?q)" using prefix_butlast_strict [OF _ q, of ?q] by auto
    then show ?thesis using vacant [OF under] under by (auto simp: in_set_prefixes)
  qed
  then have "write_text no_faults ?q c ?fs2 = (?fs2(?q \<mapsto> File c), Inr ())"
    by (simp add: write_text_def no_faults_def)
  moreover have "?fs2 ?p = Some Dir"
  proof -
    have "prefix ?p (butlast ?q)"
      using under by (auto simp: strict_prefix_def prefix_def butlast_append)
    then show ?thesis by (simp add: in_set_prefixes)
  qed
  ultimately show ?thesis
    using assms(2,3) there c under
    by (auto simp: apply_planned_operation_def delete_file_if_present_def unlink_def no_faults_def is_file_def
        split: option.splits)
qed

section \<open>Concrete runs\<close>

definition demo_service :: mutation_service where
  "demo_service = \<lparr>ms_root = [''w''], ms_links = [([''w'', ''up''], ''..'')], ms_execution_target = ''local_workspace'',
     ms_path_space = ''local_workspace''\<rparr>"

definition plain_diff :: differ where
  "plain_diff old new label = label"

definition demo_table :: "(fpath \<times> node) list" where
  "demo_table =
     [([], Dir), ([''w''], Dir),
      ([''w'', ''a''], File (''one'' @ newline # ''two'' @ [newline])),
      ([''w'', ''c''], File ''see'')]"

definition demo_fs :: fs where "demo_fs = map_of demo_table"

definition update_of :: "string \<Rightarrow> string \<Rightarrow> string \<Rightarrow> string list" where
  "update_of path old new = [''*** Update File: '' @ path, ''@@'', CHR ''-'' # old, CHR ''+'' # new]"

definition patch_of :: "string list \<Rightarrow> string" where
  "patch_of body = str_join [newline] ([''*** Begin Patch''] @ body @ [''*** End Patch''])"

definition two_updates :: string where
  "two_updates = patch_of (update_of ''a'' ''one'' ''ONE'' @ update_of ''a'' ''two'' ''TWO'')"

definition delete_then_below :: string where
  "delete_then_below = patch_of
     [''*** Delete File: a'', ''*** Add File: a/b'', ''+new'', ''*** Add File: c/x'', ''+new'']"

definition good_patch :: string where
  "good_patch = patch_of (update_of ''a'' ''one'' ''ONE'' @
     [''*** Add File: d/e'', ''+new'', ''*** Update File: c'', ''*** Move to: m''])"


text \<open>The second write fails after a part of the content is on disk.\<close>

definition faulty_write :: io_faults where
  "faulty_write = \<lparr>io_write = (\<lambda>p c. if p = [''w'', ''d'', ''e''] then Some (Cut ''n'') else None),
                   io_unlink = (\<lambda>_. False)\<rparr>"

definition demo_plan :: "string \<Rightarrow> planned_patch option" where
  "demo_plan patch =
     (case plan_text_patch demo_service plain_diff ''1'' demo_fs patch of
        Inl _ \<Rightarrow> None | Inr planned \<Rightarrow> Some planned)"

lemma demo_plan_some:
  "demo_plan patch \<noteq> None \<Longrightarrow>
   plan_text_patch demo_service plain_diff ''1'' demo_fs patch = Inr (the (demo_plan patch))"
  by (auto simp: demo_plan_def split: sum.splits)

lemma demo_tree: "tree_fs demo_fs"
  unfolding demo_fs_def by (rule tree_fs_map_of) code_simp

section \<open>Properties\<close>

text \<open>C34. When a patch is reported as completed, the contents of all files are what the abstract
  specification of the planned operations says: added and updated files hold the planned text, moved
  and deleted files are gone from their place, every other file has its old content. This holds for
  every patch, also with several operations on one path, and whatever write faults are possible.\<close>

theorem completed_patch_has_effect:
  assumes "plan_text_patch svc udiff fresh fs patch = Inr planned"
    and "apply_text_patch svc udiff sha fresh io fs patch = (fs', r)"
    and "mr_status r = Completed"
  shows "file_data fs' = patch_effect (pp_operations planned) (file_data fs)"
  using assms(2)
  by (rule apply_text_patch_cases) (use assms in \<open>auto dest: apply_transactionally_effect\<close>)

theorem completed_patch_has_effect_witness:
  "file_data (fst (apply_text_patch demo_service plain_diff id ''1'' no_faults demo_fs good_patch)) =
     patch_effect (pp_operations (the (demo_plan good_patch))) (file_data demo_fs) \<and>
   file_data (fst (apply_text_patch demo_service plain_diff id ''1'' no_faults demo_fs good_patch))
     [''w'', ''m''] = Some ''see''"
proof -
  have "demo_plan good_patch \<noteq> None" by code_simp
  moreover have "mr_status (snd (apply_text_patch demo_service plain_diff id ''1'' no_faults demo_fs
      good_patch)) = Completed" by code_simp
  moreover have "file_data (fst (apply_text_patch demo_service plain_diff id ''1'' no_faults demo_fs
      good_patch)) [''w'', ''m''] = Some ''see''" by code_simp
  ultimately show ?thesis
    using completed_patch_has_effect [OF demo_plan_some surjective_pairing] by blast
qed

text \<open>C33. If no touched path of a patch lies below another one and the roll-back itself meets no fault, a
  patch that fails, in planning or on the way, leaves every file as it was before: at most empty
  directories are new. (Without the first condition a file can be lost, see \<open>nested_paths_lose_file\<close>.)\<close>

theorem failed_patch_rolls_back:
  assumes "plan_text_patch svc udiff fresh fs patch = Inr planned"
    and "apply_text_patch svc udiff sha fresh io fs patch = (fs', r)"
    and "mr_status r = Failed"
    and "tree_fs fs" "ms_root svc \<noteq> []"
    and "prefix_free (touched_paths (pp_operations planned))"
    and "restorable io fs (touched_paths (pp_operations planned))"
  shows "only_new_dirs fs fs'"
  using assms(2)
proof (rule apply_text_patch_cases)
  fix planned' e
  assume "plan_text_patch svc udiff fresh fs patch = Inr planned'"
    and run: "apply_transactionally io (pp_operations planned') fs = (fs', Inl e)"
  with assms(1) have "planned' = planned" by simp
  with run touched_not_root [OF plan_text_below [OF assms(1)] assms(5)] assms(4,6,7)
  show ?thesis by (auto intro: rollback_lemma)
qed (use assms(3) in \<open>simp_all add: only_new_dirs_def\<close>)

theorem failed_patch_rolls_back_witness:
  "only_new_dirs demo_fs
     (fst (apply_text_patch demo_service plain_diff id ''1'' faulty_write demo_fs good_patch)) \<and>
   mr_status (snd (apply_text_patch demo_service plain_diff id ''1'' faulty_write demo_fs good_patch)) =
     Failed"
proof -
  have "demo_plan good_patch \<noteq> None" "ms_root demo_service \<noteq> []" by code_simp+
  moreover have failed: "mr_status (snd (apply_text_patch demo_service plain_diff id ''1''
      faulty_write demo_fs good_patch)) = Failed" by code_simp
  moreover have "prefix_free (touched_paths (pp_operations (the (demo_plan good_patch))))" by code_simp
  moreover have "restorable faulty_write demo_fs
      (touched_paths (pp_operations (the (demo_plan good_patch))))" by code_simp
  ultimately show ?thesis
    using failed_patch_rolls_back [OF demo_plan_some surjective_pairing failed demo_tree] by blast
qed

text \<open>C38. A patch whose plan succeeds is applied completely when no fault occurs, no touched path lies
  below another one or below a file: what the preview promises is what applying does.\<close>

theorem planned_patch_completes:
  assumes "plan_text_patch svc udiff fresh fs patch = Inr planned"
    and "ms_root svc \<noteq> []"
    and "prefix_free (touched_paths (pp_operations planned))"
    and "above_no_file fs (touched_paths (pp_operations planned))"
  shows "mr_status (snd (apply_text_patch svc udiff sha fresh no_faults fs patch)) = Completed \<and>
    mr_changes (snd (apply_text_patch svc udiff sha fresh no_faults fs patch)) =
      mr_changes (preview_text_patch svc udiff sha fresh fs patch)"
proof -
  obtain fs' where "apply_transactionally no_faults (pp_operations planned) fs = (fs', Inr ())"
    using transaction_completes [OF plan_text_ok [OF assms(1)] assms(3)
        touched_not_root [OF plan_text_below [OF assms(1)] assms(2)] assms(4)] by blast
  then show ?thesis
    using assms(1)
    by (simp add: apply_text_patch_def preview_text_patch_def planned_result_def Let_def)
qed

theorem planned_patch_completes_witness:
  "mr_status (snd (apply_text_patch demo_service plain_diff id ''1'' no_faults demo_fs good_patch)) =
     Completed"
proof -
  have "demo_plan good_patch \<noteq> None" "ms_root demo_service \<noteq> []" by code_simp+
  moreover have "prefix_free (touched_paths (pp_operations (the (demo_plan good_patch))))" by code_simp
  moreover have "above_no_file demo_fs
      (touched_paths (pp_operations (the (demo_plan good_patch))))" by code_simp
  ultimately show ?thesis using planned_patch_completes [OF demo_plan_some] by blast
qed



text \<open>Committing a document never changes or removes anything that exists, also when the write or
  the roll-back fails: at most the new file and its missing directories appear.\<close>

theorem commit_document_keeps_existing:
  assumes "fs p \<noteq> None"
  shows "fst (commit_document svc udiff sha fresh io fs target content) p = fs p"
  using assms by (rule commit_keeps_lemma)

theorem commit_document_keeps_existing_witness:
  "fst (commit_document demo_service plain_diff id ''1'' no_faults demo_fs ''a'' ''other'') [''w'', ''a''] =
     demo_fs [''w'', ''a'']"
proof -
  have "demo_fs [''w'', ''a''] \<noteq> None" by code_simp
  then show ?thesis by (rule commit_document_keeps_existing)
qed

text \<open>C40. Every section of a patch is planned from the file on disk. When a patch completes, an Update
  section whose file no later section names leaves exactly its own hunks applied to the content from
  before the patch, whatever the sections in front of it do to the same file: what an earlier Update
  section has changed is lost, and the patch is reported as completed.\<close>

theorem update_section_from_disk:
  assumes "parse_patch patch = Inr (front @ operation # behind)"
    and "po_kind operation = Kind_UPDATE"
    and "resolve_workspace_path (ms_links svc) (ms_root svc) (po_path operation) = Inr p"
    and "list_all (\<lambda>later. \<not> names svc p later) behind"
    and "apply_text_patch svc udiff sha fresh io fs patch = (fs', r)"
    and "mr_status r = Completed"
  shows "\<exists>old new. file_data fs p = Some old \<and>
    apply_update_hunks old (po_lines operation) (po_path operation) = Inr new \<and> file_data fs' p = Some new"
  using assms(5)
proof (rule apply_text_patch_cases)
  fix planned
  assume plan: "plan_text_patch svc udiff fresh fs patch = Inr planned"
    and run: "apply_transactionally io (pp_operations planned) fs = (fs', Inr ())"
  from plan assms(1) have "res_map (plan_operation (ms_links svc) (ms_root svc) fs) (front @ operation # behind) =
      Inr (pp_operations planned)"
    by (auto simp: plan_text_patch_def res_bind_Inr_iff Let_def)
  then obtain us q vs where ops: "pp_operations planned = us @ q # vs"
    and q: "plan_operation (ms_links svc) (ms_root svc) fs operation = Inr q"
    and vs: "res_map (plan_operation (ms_links svc) (ms_root svc) fs) behind = Inr vs"
    by (auto simp: res_bind_Inr_iff dest!: res_map_append)
  have "list_all (\<lambda>x. pl_path x \<noteq> p \<and> pl_move_path x \<noteq> Some p) vs"
    by (rule res_map_keeps [OF vs assms(4)]) (auto simp: names_def dest: plan_operation_paths)
  then have "file_data fs' p = operation_effect q (patch_effect us (file_data fs)) p"
    using apply_transactionally_effect [OF run]
    by (simp add: ops patch_effect_append patch_effect_elsewhere)
  then show ?thesis using plan_update [OF q assms(2)] plan_operation_paths [OF q] assms(3) by auto
qed (use assms(6) in simp_all)

theorem update_section_from_disk_witness:
  "\<exists>old new. file_data demo_fs [''w'', ''a''] = Some old \<and>
     apply_update_hunks old [''@@'', ''-two'', ''+TWO''] ''a'' = Inr new \<and>
     file_data (fst (apply_text_patch demo_service plain_diff id ''1'' no_faults demo_fs two_updates)) [''w'', ''a''] =
       Some new"
proof -
  let ?section = "\<lambda>old new. \<lparr>po_kind = Kind_UPDATE, po_path = ''a'', po_move_path = None,
      po_lines = [''@@'', old, new]\<rparr>"
  have parse: "parse_patch two_updates = Inr ([?section ''-one'' ''+ONE''] @ ?section ''-two'' ''+TWO'' # [])"
    by code_simp
  have "resolve_workspace_path (ms_links demo_service) (ms_root demo_service) ''a'' = Inr [''w'', ''a'']"
    by code_simp
  moreover have "mr_status (snd (apply_text_patch demo_service plain_diff id ''1'' no_faults demo_fs
      two_updates)) = Completed" by code_simp
  ultimately show ?thesis
    using update_section_from_disk [OF parse _ _ _ surjective_pairing] by simp
qed

text \<open>A roll-back can lose a file. When the first section of a patch deletes a file, the second adds a file
  below its path, and the patch then fails, a directory is left in the place of the file: the roll-back
  cannot write the content back, and raises.\<close>

theorem nested_paths_lose_file:
  assumes "plan_text_patch svc udiff fresh fs patch = Inr planned"
    and "pp_operations planned = d # a # rest"
    and "po_kind (pl_operation d) = Kind_DELETE" and "po_kind (pl_operation a) = Kind_ADD"
    and "strict_prefix (pl_path d) (pl_path a)" and "tree_fs fs"
    and "apply_text_patch svc udiff sha fresh no_faults fs patch = (fs', r)"
    and "mr_status r = Failed"
  shows "is_file fs (pl_path d) \<and> fs' (pl_path d) = Some Dir"
proof -
  have ok: "list_all (plan_ok fs) (d # a # rest)" using plan_text_ok [OF assms(1)] assms(2) by simp
  have there: "is_file fs (pl_path d)" using plan_text_deletes [OF assms(1)] assms(2,3) by simp
  obtain c where c: "pl_new_content a = Some c" using ok assms(4) by (auto simp: plan_ok_def)
  obtain ss where ss: "snapshot_touched_paths fs (d # a # rest) = Inr ss"
    using snapshots_exist [of "d # a # rest" fs] plan_ok_clean [OF ok] by blast
  obtain fs2 where two: "apply_planned_operation no_faults d fs = (fs(pl_path d := None), Inr ())"
      "apply_planned_operation no_faults a (fs(pl_path d := None)) = (fs2, Inr ())" "fs2 (pl_path d) = Some Dir"
    using delete_then_add_below [OF there assms(3-6) c] by blast
  obtain fs3 r3 where rest: "apply_all no_faults rest fs2 = (fs3, r3)" by force
  have dir: "fs3 (pl_path d) = Some Dir"
    using dirs_stay.R_apply_all [of rest fs2 "pl_path d" no_faults] rest two(3) by (simp add: list_all_iff)
  have app: "apply_all no_faults (d # a # rest) fs = (fs3, r3)" by (simp add: two rest)
  obtain e where run: "apply_transactionally no_faults (d # a # rest) fs = (fs', Inl e)"
    using assms(7,8)
    by (auto simp: apply_text_patch_def assms(1,2) planned_result_def Let_def split: sum.splits prod.splits)
  have "fst (restore_all no_faults (rev ss) fs3) (pl_path d) = Some Dir"
    using dirs_stay.R_restore_all [of "rev ss" fs3 "pl_path d" no_faults] dir by (simp add: list_all_iff)
  then have "fs' (pl_path d) = Some Dir"
    using run app ss by (auto simp: apply_transactionally_def split: sum.splits prod.splits)
  with there show ?thesis by simp
qed

theorem nested_paths_lose_file_witness:
  "is_file demo_fs [''w'', ''a''] \<and>
   fst (apply_text_patch demo_service plain_diff id ''1'' no_faults demo_fs delete_then_below) [''w'', ''a''] = Some Dir"
proof -
  have some: "demo_plan delete_then_below \<noteq> None" by code_simp
  let ?d = "pp_operations (the (demo_plan delete_then_below)) ! 0"
  let ?a = "pp_operations (the (demo_plan delete_then_below)) ! 1"
  have ops: "pp_operations (the (demo_plan delete_then_below)) =
      ?d # ?a # drop 2 (pp_operations (the (demo_plan delete_then_below)))" by code_simp
  have "po_kind (pl_operation ?d) = Kind_DELETE" "po_kind (pl_operation ?a) = Kind_ADD"
    "strict_prefix (pl_path ?d) (pl_path ?a)" "pl_path ?d = [''w'', ''a'']"
    "mr_status (snd (apply_text_patch demo_service plain_diff id ''1'' no_faults demo_fs delete_then_below)) =
      Failed" by code_simp+
  then show ?thesis
    using nested_paths_lose_file [OF demo_plan_some [OF some] ops _ _ _ demo_tree surjective_pairing] by simp
qed

end
