(* ===== verification/PromptRenderer.thy ===== *)
theory PromptRenderer
  imports RunRequests
begin

text \<open>
  The instruction files of an executor:
  \<open>src/labrastro_server/services/agent_runtime/prompt_renderer.py\<close>. The two regular expressions that
  redact secrets are written out as scanners; their character classes exclude each other where they
  meet, so that no backtracking is involved.
\<close>

section \<open>Redaction\<close>

definition secret_char :: "char \<Rightarrow> bool" where
  "secret_char c \<longleftrightarrow>
     (let n = code_point c
      in 48 \<le> n \<and> n \<le> 57 \<or> 65 \<le> n \<and> n \<le> 90 \<or> 97 \<le> n \<and> n \<le> 122 \<or> c \<in> set ''._-'')"

definition redaction_mark :: string where "redaction_mark = ''[REDACTED_SECRET]''"

text \<open>What is left after a match at the head of the text, None when there is no match.\<close>

definition api_key_rest :: "string \<Rightarrow> string option" where
  "api_key_rest s =
     (if startswith s ''sk-'' \<and> takeWhile secret_char (drop 3 s) \<noteq> []
      then Some (dropWhile secret_char (drop 3 s)) else None)"

definition keyword_length :: "string \<Rightarrow> nat option" where
  "keyword_length s =
     (let l = str_lower (take 7 s)
      in if startswith l ''api_key'' \<or> startswith l ''api-key'' then Some 7
         else if startswith l ''apikey'' then Some 6
         else if startswith l ''token'' then Some 5
         else if startswith l ''secret'' then Some 6
         else None)"

definition key_value_rest :: "string \<Rightarrow> string option" where
  "key_value_rest s =
     (case keyword_length s of
        None \<Rightarrow> None
      | Some n \<Rightarrow>
          (case dropWhile is_space (drop n s) of
             [] \<Rightarrow> None
           | c # r \<Rightarrow>
               (let v = dropWhile is_space r
                in if c \<in> set '':='' \<and> takeWhile secret_char v \<noteq> []
                   then Some (dropWhile secret_char v) else None)))"

lemma api_key_rest_shorter: "api_key_rest s = Some r \<Longrightarrow> length r < length s"
proof -
  assume a: "api_key_rest s = Some r"
  then have "s \<noteq> []" by (auto simp: api_key_rest_def startswith_def split: if_splits)
  moreover have "length r \<le> length (drop 3 s)"
    using a length_dropWhile_le [of secret_char "drop 3 s"]
    by (auto simp: api_key_rest_def split: if_splits)
  ultimately show "length r < length s" by (cases s) auto
qed

lemma key_value_rest_shorter: "key_value_rest s = Some r \<Longrightarrow> length r < length s"
proof -
  assume a: "key_value_rest s = Some r"
  then obtain n c v where "dropWhile is_space (drop n s) = c # v"
    "r = dropWhile secret_char (dropWhile is_space v)"
    by (auto simp: key_value_rest_def Let_def split: option.splits list.splits if_splits)
  moreover have "length (dropWhile is_space (drop n s)) \<le> length s"
    by (rule order_trans [OF length_dropWhile_le]) simp
  moreover have "length (dropWhile secret_char (dropWhile is_space v)) \<le> length v"
    by (rule order_trans [OF length_dropWhile_le length_dropWhile_le])
  ultimately show "length r < length s" by simp
qed

function redact_api_keys :: "string \<Rightarrow> string" where
  "redact_api_keys s =
     (case api_key_rest s of
        Some r \<Rightarrow> redaction_mark @ redact_api_keys r
      | None \<Rightarrow> (case s of [] \<Rightarrow> [] | c # cs \<Rightarrow> c # redact_api_keys cs))"
  by pat_completeness auto
termination
  by (relation "measure length") (auto dest: api_key_rest_shorter)

function redact_key_values :: "string \<Rightarrow> string" where
  "redact_key_values s =
     (case key_value_rest s of
        Some r \<Rightarrow> redaction_mark @ redact_key_values r
      | None \<Rightarrow> (case s of [] \<Rightarrow> [] | c # cs \<Rightarrow> c # redact_key_values cs))"
  by pat_completeness auto
termination
  by (relation "measure length") (auto dest: key_value_rest_shorter)

declare redact_api_keys.simps [simp del] redact_key_values.simps [simp del]

definition redact_secret_text :: "string \<Rightarrow> string" where
  "redact_secret_text s = redact_key_values (redact_api_keys s)"

section \<open>The context\<close>

record agent_context =
  cx_agent_id :: string
  cx_agent_name :: string
  cx_agent_md :: "string option"
  cx_system_append :: string
  cx_dispatch :: pyobj
  cx_capability_refs :: "string list"
  cx_resolved_capabilities :: pyobj
  cx_mcp_servers :: "string list"
  cx_credential_refs :: "(string, string) pydict"

record rendered_prompt =
  rp_files :: "(string, string) pydict"
  rp_metadata :: pyobj

definition prompt_string_list :: "pyval \<Rightarrow> string list" where
  "prompt_string_list v =
     (case v of
        PList xs \<Rightarrow> filter (\<lambda>t. str_strip t \<noteq> []) (map py_str xs)
      | _ \<Rightarrow> if v = PNone \<or> v = PStr [] then [] else [py_str v])"

definition quoted_item :: "string \<Rightarrow> string" where
  "quoted_item s = ''- '' @ [CHR 0x60] @ s @ [CHR 0x60]"

section \<open>Resolved capabilities\<close>

definition text_of :: "pyobj \<Rightarrow> string \<Rightarrow> string" where
  "text_of d key = str_strip (str_or_empty (pget d key))"

definition name_or_id :: "pyobj \<Rightarrow> string" where
  "name_or_id d = str_strip (py_str (py_or (pget d ''name'') (PStr (text_of d ''id''))))"

definition package_line :: "pyval \<Rightarrow> string" where
  "package_line package =
     (case package of
        PDict d \<Rightarrow>
          (let package_id = text_of d ''id''; name = name_or_id d
           in if package_id = [] \<or> package_id = name then ''- '' @ name
              else ''- '' @ name @ '' ('' @ [CHR 0x60] @ package_id @ [CHR 0x60] @ '')'')
      | _ \<Rightarrow> quoted_item (py_str package))"

definition kind_label :: "pyobj \<Rightarrow> string" where
  "kind_label d =
     (let kind = text_of d ''kind''; name = name_or_id d
      in if kind \<noteq> [] \<and> name \<noteq> [] then kind @ '':'' @ name
         else if name \<noteq> [] then name else text_of d ''id'')"

definition headed :: "string \<Rightarrow> string list \<Rightarrow> string list" where
  "headed title items = [[], title] @ items"

definition section_of :: "pyobj \<Rightarrow> string \<Rightarrow> string \<Rightarrow> (pyval list \<Rightarrow> string list) \<Rightarrow> string list" where
  "section_of resolved key title render =
     (case pget resolved key of
        PList (v # vs) \<Rightarrow> headed title (render (v # vs))
      | _ \<Rightarrow> [])"

definition dict_items :: "pyval list \<Rightarrow> pyobj list" where
  "dict_items vs = dict_list (PList vs)"

definition fragment_lines :: "pyval list \<Rightarrow> string list" where
  "fragment_lines vs =
     map quoted_item (filter (\<lambda>n. n \<noteq> [])
       (map (\<lambda>d. str_strip (str_or_empty (py_or (pget d ''name'') (pget d ''id'')))) (dict_items vs)))"

definition append_resolved :: "pyobj \<Rightarrow> string list" where
  "append_resolved resolved =
     section_of resolved ''packages'' ''Resolved packages:'' (map package_line) @
     section_of resolved ''components'' ''Installed components:''
       (\<lambda>vs. map (\<lambda>d. quoted_item (kind_label d)) (dict_items vs)) @
     concat (map (\<lambda>(key, title). section_of resolved key (title @ '':'')
               (map (\<lambda>v. quoted_item (py_str v))))
       [(''mcp_servers'', ''MCP servers''), (''skills'', ''Skills''),
        (''builtin_tool_grants'', ''Built-in tool grants'')]) @
     section_of resolved ''environment_requirements'' ''Environment requirements:''
       (\<lambda>vs. map (\<lambda>d. quoted_item (kind_label d)) (dict_items vs)) @
     section_of resolved ''prompt_fragments'' ''Prompt fragments:'' fragment_lines"

section \<open>The document\<close>

definition redacted_list :: "pyval \<Rightarrow> string \<Rightarrow> string list" where
  "redacted_list v title =
     (let items = prompt_string_list v
      in if items = [] then []
         else headed title (map (\<lambda>item. ''- '' @ redact_secret_text item) items))"

definition dispatch_lines :: "pyobj \<Rightarrow> string list" where
  "dispatch_lines dispatch =
     (if dispatch = [] then []
      else headed ''## Dispatch Profile''
        ((if text_of dispatch ''profile'' = [] then []
          else [redact_secret_text (text_of dispatch ''profile'')]) @
         redacted_list (pget dispatch ''examples'') ''Example fit:'' @
         redacted_list (pget dispatch ''avoid'') ''Avoid assigning:''))"

definition render_lines :: "agent_context \<Rightarrow> string list" where
  "render_lines c =
     [''# Agent Runtime Context'', [],
      ''- Agent ID: '' @ [CHR 0x60] @ cx_agent_id c @ [CHR 0x60]] @
     (if cx_agent_name c = [] then [] else [''- Agent Name: '' @ cx_agent_name c]) @
     (if opt_str (cx_agent_md c) = [] then []
      else [''- Agent Instructions: '' @ [CHR 0x60] @ opt_str (cx_agent_md c) @ [CHR 0x60]]) @
     dispatch_lines (cx_dispatch c) @
     (if cx_capability_refs c = [] \<and> cx_resolved_capabilities c = [] then []
      else headed ''## Granted Capabilities''
        ((if cx_capability_refs c = [] then []
          else headed ''Capability packages:'' (map quoted_item (cx_capability_refs c))) @
         append_resolved (cx_resolved_capabilities c))) @
     (if cx_mcp_servers c = [] then []
      else headed ''## MCP Servers'' (map quoted_item (cx_mcp_servers c))) @
     (if cx_system_append c = [] then []
      else headed ''## Additional Instructions'' [redact_secret_text (cx_system_append c)])"

definition render_markdown :: "agent_context \<Rightarrow> string" where
  "render_markdown c = str_strip (str_join [newline] (render_lines c)) @ [newline]"

definition files_by_executor :: "(string, string) pydict" where
  "files_by_executor =
     [(''codex'', ''AGENTS.md''), (''claude'', ''CLAUDE.md''), (''gemini'', ''GEMINI.md''),
      (''reuleauxcoder'', ''AGENT_RUNTIME.md'')]"

definition render_prompt :: "string \<Rightarrow> agent_context \<Rightarrow> rendered_prompt" where
  "render_prompt executor c =
     (let executor_key = str_lower (str_strip executor);
          filename = (case dict_get files_by_executor executor_key of
                        None \<Rightarrow> ''AGENT_RUNTIME.md'' | Some f \<Rightarrow> f);
          markdown = render_markdown c
      in \<lparr>rp_files = [(filename, markdown)],
          rp_metadata =
            [(''executor'', PStr executor_key),
             (''agent_id'', PStr (cx_agent_id c)),
             (''credential_refs'', PDict (map (\<lambda>(k, v). (k, PStr v)) (cx_credential_refs c))),
             (''system_prompt'', PStr markdown)]\<rparr>)"

end
