(* ===== verification/RedactionProofs.thy ===== *)
theory RedactionProofs
  imports PromptRenderer
begin

text \<open>What the redaction of secrets guarantees: nothing in the redacted text matches either of the two
  patterns, and redacting again changes nothing.\<close>

section \<open>Replacing matches by a mark\<close>

text \<open>A scanner \<open>rest\<close> recognises a pattern at the head of a text; \<open>redact\<close> replaces its matches by the
  mark. A match has a core without an opening bracket that matches whatever follows, and no match
  starts inside the mark.\<close>

definition occurs :: "(string \<Rightarrow> string option) \<Rightarrow> string \<Rightarrow> bool" where
  "occurs rest s \<longleftrightarrow> (\<exists>x y. s = x @ y \<and> rest y \<noteq> None)"

locale redactor =
  fixes rest :: "string \<Rightarrow> string option" and redact :: "string \<Rightarrow> string"
  assumes redact_unfold: "redact s = (case rest s of
      Some r \<Rightarrow> redaction_mark @ redact r
    | None \<Rightarrow> (case s of [] \<Rightarrow> [] | c # cs \<Rightarrow> c # redact cs))"
    and consumes: "rest s = Some r \<Longrightarrow> \<exists>p. p \<noteq> [] \<and> s = p @ r"
    and core: "rest t = Some r \<Longrightarrow>
      \<exists>u w. t = u @ w \<and> u \<noteq> [] \<and> CHR 0x5B \<notin> set u \<and> (\<forall>s. rest (u @ s) \<noteq> None)"
    and mark_clean: "redaction_mark = x @ y \<Longrightarrow> y \<noteq> [] \<Longrightarrow> rest (y @ s) = None"
begin

lemma shorter: "rest s = Some r \<Longrightarrow> length r < length s"
  using consumes by fastforce

lemma redact_agrees:
  "redact s = u @ w \<Longrightarrow> CHR 0x5B \<notin> set u \<Longrightarrow> \<exists>s'. s = u @ s' \<and> w = redact s'"
proof (induction u arbitrary: s)
  case (Cons c u)
  have none: "rest s = None"
  proof (cases "rest s")
    case (Some r)
    then have "redact s = redaction_mark @ redact r" by (subst redact_unfold) simp
    with Cons.prems show ?thesis by (simp add: redaction_mark_def)
  qed
  then obtain cs where s: "s = c # cs" "redact cs = u @ w"
    using Cons.prems(1) by (subst (asm) redact_unfold) (auto split: list.splits)
  with Cons.IH [of cs] Cons.prems(2) show ?case by auto
qed simp

lemma no_match_at_head: "rest s = None \<Longrightarrow> rest (redact s) = None"
proof (rule ccontr)
  assume none: "rest s = None" and "rest (redact s) \<noteq> None"
  then obtain u w where u: "redact s = u @ w" "CHR 0x5B \<notin> set u" "\<forall>s. rest (u @ s) \<noteq> None"
    using core by blast
  then obtain s' where "s = u @ s'" using redact_agrees by blast
  with u(3) have "rest s \<noteq> None" by simp
  with none show False by simp
qed

lemma redact_clean: "redact s = x @ y \<Longrightarrow> rest y = None"
proof (induction s arbitrary: x rule: length_induct)
  case (1 s)
  show ?case
  proof (cases "rest s")
    case (Some r)
    then have split: "x @ y = redaction_mark @ redact r" using 1 by (subst (asm) (2) redact_unfold) simp
    show ?thesis
    proof (cases "\<exists>z. x = redaction_mark @ z")
      case True
      then obtain z where "redact r = z @ y" using split by (metis append.assoc same_append_eq)
      then show ?thesis using 1 shorter [OF Some] by blast
    next
      case False
      with split obtain z where "redaction_mark = x @ z" "z \<noteq> []" "y = z @ redact r"
        unfolding append_eq_append_conv2 by (metis append.right_neutral)
      then show ?thesis using mark_clean by simp
    qed
  next
    case None
    show ?thesis
    proof (cases x)
      case Nil
      then show ?thesis using no_match_at_head [OF None] 1 by simp
    next
      case (Cons c xs)
      then obtain cs where "s = c # cs" "redact cs = xs @ y"
        using 1 None by (subst (asm) (2) redact_unfold) (auto split: list.splits)
      with 1 show ?thesis by auto
    qed
  qed
qed

lemma redact_not_occurs: "\<not> occurs rest (redact s)"
  using redact_clean by (auto simp: occurs_def)

lemma redact_id: "\<not> occurs rest s \<Longrightarrow> redact s = s"
proof (induction s)
  case Nil
  then have "rest [] = None" by (auto simp: occurs_def)
  then show ?case by (subst redact_unfold) simp
next
  case (Cons c cs)
  have "rest (c # cs) = None" using Cons.prems unfolding occurs_def by (metis append_Nil)
  moreover have "\<not> occurs rest cs" using Cons.prems unfolding occurs_def by (metis append_Cons)
  ultimately show ?case using Cons.IH by (subst redact_unfold) simp
qed

text \<open>A text without brackets that starts outside the mark and stands in the redacted text stood in the
  original one.\<close>

lemma redact_contiguous:
  "redact s = x @ u @ w \<Longrightarrow> CHR 0x5B \<notin> set u \<Longrightarrow> u \<noteq> [] \<Longrightarrow> hd u \<notin> set redaction_mark \<Longrightarrow>
   \<exists>x' w'. s = x' @ u @ w'"
proof (induction s arbitrary: x rule: length_induct)
  case (1 s)
  show ?case
  proof (cases "rest s")
    case (Some r)
    then have split: "x @ u @ w = redaction_mark @ redact r"
      using 1 by (subst (asm) (2) redact_unfold) simp
    show ?thesis
    proof (cases "\<exists>z. x = redaction_mark @ z")
      case True
      then obtain z where "redact r = z @ u @ w" using split by (metis append.assoc same_append_eq)
      then obtain x' w' where r: "r = x' @ u @ w'" using 1 shorter [OF Some] by blast
      moreover obtain p where "s = p @ r" using consumes [OF Some] by blast
      ultimately show ?thesis by (metis append.assoc)
    next
      case False
      with split obtain z where "redaction_mark = x @ z" "z \<noteq> []" "u @ w = z @ redact r"
        unfolding append_eq_append_conv2 [of x] by (metis append.right_neutral)
      then have "hd u \<in> set redaction_mark"
        using 1 by (cases u; cases z) (auto simp only: in_set_conv_decomp append_Cons list.sel list.inject)
      then show ?thesis using 1 by simp
    qed
  next
    case None
    show ?thesis
    proof (cases x)
      case Nil
      then show ?thesis using redact_agrees 1 by (metis append_Nil)
    next
      case (Cons c xs)
      then obtain cs where "s = c # cs" "redact cs = xs @ u @ w"
        using 1 None by (subst (asm) (2) redact_unfold) (auto split: list.splits)
      with 1 show ?thesis by (metis append_Cons length_Cons lessI)
    qed
  qed
qed

end

section \<open>The two patterns\<close>

lemma takeWhile_core:
  "takeWhile P v \<noteq> [] \<Longrightarrow> \<exists>d w. v = d # w \<and> P d"
  by (cases v) (auto split: if_splits)

lemma mark_suffix_cases:
  "redaction_mark = x @ y \<Longrightarrow> y \<noteq> [] \<Longrightarrow>
   list_ex (\<lambda>n. y = drop n redaction_mark) [0..<17]"
proof -
  assume a: "redaction_mark = x @ y" "y \<noteq> []"
  have "length redaction_mark = 17" by (simp add: redaction_mark_def)
  then have "length x < 17" using a by (metis length_append length_greater_0_conv less_add_same_cancel1)
  moreover have "y = drop (length x) redaction_mark" unfolding a(1) by simp
  ultimately show ?thesis by (auto simp: list_ex_iff simp del: upt_Suc)
qed

lemma api_mark_clean: "redaction_mark = x @ y \<Longrightarrow> y \<noteq> [] \<Longrightarrow> api_key_rest (y @ s) = None"
proof -
  assume a: "redaction_mark = x @ y" "y \<noteq> []"
  then have "hd y \<in> set redaction_mark" by (metis UnCI hd_in_set set_append)
  then have "hd y \<noteq> CHR ''s''" by (auto simp: redaction_mark_def)
  then show ?thesis using a by (cases y) (auto simp: api_key_rest_def startswith_def)
qed

interpretation api: redactor api_key_rest redact_api_keys
proof
  show "redact_api_keys s = (case api_key_rest s of Some r \<Rightarrow> redaction_mark @ redact_api_keys r
      | None \<Rightarrow> (case s of [] \<Rightarrow> [] | c # cs \<Rightarrow> c # redact_api_keys cs))" for s
    by (rule redact_api_keys.simps)
  show "\<exists>p. p \<noteq> [] \<and> s = p @ r" if "api_key_rest s = Some r" for s r
  proof -
    have "s = (take 3 s @ takeWhile secret_char (drop 3 s)) @ r" "s \<noteq> []"
      using that by (auto simp: api_key_rest_def startswith_def split: if_splits)
    moreover have "take 3 s @ takeWhile secret_char (drop 3 s) \<noteq> []"
      using that by (auto simp: api_key_rest_def startswith_def split: if_splits)
    ultimately show ?thesis by blast
  qed
  show "\<exists>u w. t = u @ w \<and> u \<noteq> [] \<and> CHR 0x5B \<notin> set u \<and> (\<forall>s. api_key_rest (u @ s) \<noteq> None)"
    if "api_key_rest t = Some r" for t r
  proof -
    have "startswith t ''sk-''" "takeWhile secret_char (drop 3 t) \<noteq> []"
      using that by (auto simp: api_key_rest_def split: if_splits)
    moreover then obtain v where "t = ''sk-'' @ v" by (auto simp: startswith_iff)
    ultimately obtain d w where t: "t = ''sk-'' @ d # w" "secret_char d"
      using takeWhile_core [of secret_char v] by auto
    have "t = (''sk-'' @ [d]) @ w" using t by simp
    moreover have "CHR 0x5B \<notin> set (''sk-'' @ [d])"
      using t by (auto simp: secret_char_def code_point_def)
    moreover have "api_key_rest ((''sk-'' @ [d]) @ s) \<noteq> None" for s
      using t by (simp add: api_key_rest_def startswith_def)
    ultimately show ?thesis by blast
  qed
qed (rule api_mark_clean)

lemma keyword_length_unfold:
  "keyword_length s =
     (let l = str_lower s
      in if take 7 l = ''api_key'' \<or> take 7 l = ''api-key'' then Some 7
         else if take 6 l = ''apikey'' then Some 6
         else if take 5 l = ''token'' then Some 5
         else if take 6 l = ''secret'' then Some 6
         else None)"
  unfolding keyword_length_def Let_def startswith_def str_lower_def take_map
  by (simp add: eval_nat_numeral)

lemma keyword_length_keep:
  assumes "keyword_length t = Some n"
  shows "keyword_length (take n t @ s) = Some n \<and> 0 < n \<and> n \<le> length t"
proof -
  let ?l = "str_lower t" and ?m = "str_lower (take n t @ s)"
  have len: "length (take k ?l) = min k (length t)" for k by (simp add: str_lower_def)
  have cases: "n = 7 \<and> take 7 ?l \<in> {''api_key'', ''api-key''} \<or> n = 6 \<and> take 6 ?l \<in> {''apikey'', ''secret''} \<or>
      n = 5 \<and> take 5 ?l = ''token''"
    using assms by (auto simp: keyword_length_unfold Let_def split: if_splits)
  then have "length (take n ?l) = n" by (elim disjE conjE insertE) (simp_all del: length_take)
  then have n: "n \<le> length t" using len [of n] by simp
  then have same: "take n ?m = take n ?l" by (simp add: str_lower_def take_map)
  have shorter: "take 7 m = x \<Longrightarrow> take 6 m = take 6 x \<and> take 5 m = take 5 x"
    "take 6 m = x \<Longrightarrow> take 5 m = take 5 x" for m x :: string by auto
  have "keyword_length (take n t @ s) = Some n"
    using cases same unfolding keyword_length_unfold Let_def
    by (elim disjE) (auto dest: shorter)
  then show ?thesis using n cases by auto
qed

lemma keyword_no_bracket:
  assumes "keyword_length t = Some n" shows "CHR 0x5B \<notin> set (take n t)"
proof
  assume "CHR 0x5B \<in> set (take n t)"
  then have "lower_char (CHR 0x5B) \<in> set (take n (str_lower t))"
    by (metis imageI list.set_map str_lower_def take_map)
  moreover have "lower_char (CHR 0x5B) = CHR 0x5B" by code_simp
  ultimately show False
    using assms by (auto simp: keyword_length_unfold Let_def split: if_splits)
qed

text \<open>The parts of a match of the second pattern.\<close>

lemma key_value_parts:
  assumes "key_value_rest t = Some r"
  obtains n c a b where "keyword_length t = Some n" "c \<in> set '':=''" "b \<noteq> []"
    "\<forall>x\<in>set a. is_space x" "\<forall>x\<in>set b. secret_char x"
    "\<exists>a'. (\<forall>x\<in>set a'. is_space x) \<and> t = take n t @ a @ c # a' @ b @ r"
proof -
  obtain n c v where n: "keyword_length t = Some n" and v: "dropWhile is_space (drop n t) = c # v"
    and c: "c \<in> set '':=''" and b: "takeWhile secret_char (dropWhile is_space v) \<noteq> []"
    and r: "r = dropWhile secret_char (dropWhile is_space v)"
    using assms by (auto simp: key_value_rest_def Let_def split: option.splits list.splits if_splits)
  have "drop n t = takeWhile is_space (drop n t) @ c # v"
    using v by (metis takeWhile_dropWhile_id)
  moreover have "v = takeWhile is_space v @ takeWhile secret_char (dropWhile is_space v) @ r"
    unfolding r by simp
  ultimately have "t = take n t @ takeWhile is_space (drop n t) @ c # takeWhile is_space v @
      takeWhile secret_char (dropWhile is_space v) @ r"
    by (metis append_take_drop_id)
  then show ?thesis
    using that [OF n c b] by (metis set_takeWhileD)
qed

lemma key_value_match:
  assumes "keyword_length k = Some (length k)" "c \<in> set '':=''"
    "\<forall>x\<in>set a. is_space x" "\<forall>x\<in>set a'. is_space x" "secret_char d"
  shows "key_value_rest (k @ a @ c # a' @ d # s) \<noteq> None"
proof -
  let ?t = "k @ a @ c # a' @ d # s"
  have "keyword_length ?t = Some (length k)"
    using keyword_length_keep [OF assms(1), of "a @ c # a' @ d # s"] by simp
  moreover have "\<not> is_space c" using assms(2) by (auto; code_simp)
  moreover have "\<not> is_space d"
    using assms(5) by (auto simp: secret_char_def is_space_def Let_def code_point_def)
  ultimately show ?thesis
    using assms by (simp add: key_value_rest_def dropWhile_append2 Let_def)
qed

lemma key_mark_clean: "redaction_mark = x @ y \<Longrightarrow> y \<noteq> [] \<Longrightarrow> key_value_rest (y @ s) = None"
proof -
  assume a: "redaction_mark = x @ y" "y \<noteq> []"
  have all: "list_all (\<lambda>n. key_value_rest (drop n redaction_mark @ s) = None) [0..<17]"
    by (simp add: upt_rec redaction_mark_def key_value_rest_def keyword_length_def startswith_def
        str_lower_def lower_char_def code_point_def is_space_def Let_def)
  obtain n where "n \<in> set [0..<17]" "y = drop n redaction_mark"
    using mark_suffix_cases [OF a] unfolding list_ex_iff by blast
  moreover from this all have "key_value_rest (drop n redaction_mark @ s) = None"
    by (simp only: list_all_iff)
  ultimately show ?thesis by simp
qed

interpretation keys: redactor key_value_rest redact_key_values
proof
  show "redact_key_values s = (case key_value_rest s of Some r \<Rightarrow> redaction_mark @ redact_key_values r
      | None \<Rightarrow> (case s of [] \<Rightarrow> [] | c # cs \<Rightarrow> c # redact_key_values cs))" for s
    by (rule redact_key_values.simps)
  show "\<exists>p. p \<noteq> [] \<and> s = p @ r" if m: "key_value_rest s = Some r" for s r
  proof -
    obtain n c a b where parts: "keyword_length s = Some n" "c \<in> set '':=''" "b \<noteq> []"
      "\<forall>x\<in>set a. is_space x" "\<forall>x\<in>set b. secret_char x"
      "\<exists>a'. (\<forall>x\<in>set a'. is_space x) \<and> s = take n s @ a @ c # a' @ b @ r"
      by (rule key_value_parts [OF m])
    then obtain a' where eq: "s = take n s @ a @ c # a' @ b @ r" by blast
    define p where "p = take n s @ a @ c # a' @ b"
    have "p @ r = take n s @ a @ c # a' @ b @ r" by (simp add: p_def)
    then have "s = p @ r" by (rule trans [OF eq sym])
    moreover have "p \<noteq> []" by (simp add: p_def)
    ultimately show ?thesis by blast
  qed
  show "\<exists>u w. t = u @ w \<and> u \<noteq> [] \<and> CHR 0x5B \<notin> set u \<and> (\<forall>s. key_value_rest (u @ s) \<noteq> None)"
    if m: "key_value_rest t = Some r" for t r
  proof -
    obtain n c a b where n: "keyword_length t = Some n" and c: "c \<in> set '':=''" and b: "b \<noteq> []"
      and a: "\<forall>x\<in>set a. is_space x" and bs: "\<forall>x\<in>set b. secret_char x"
      and ex: "\<exists>a'. (\<forall>x\<in>set a'. is_space x) \<and> t = take n t @ a @ c # a' @ b @ r"
      by (rule key_value_parts [OF m])
    obtain a' where a': "\<forall>x\<in>set a'. is_space x" and t: "t = take n t @ a @ c # a' @ b @ r"
      using ex by blast
    obtain d bs' where d: "b = d # bs'" "secret_char d" using b bs by (cases b) auto
    let ?u = "take n t @ a @ c # a' @ [d]"
    have "keyword_length (take n t) = Some (length (take n t))"
      using keyword_length_keep [OF n, of "[]"] by simp
    from key_value_match [OF this c a a' d(2)]
    have "\<forall>s. key_value_rest (?u @ s) \<noteq> None" by simp
    moreover have "CHR 0x5B \<notin> set ?u"
    proof -
      have "\<not> is_space (CHR 0x5B)" "\<not> secret_char (CHR 0x5B)" by code_simp+
      then show ?thesis using keyword_no_bracket [OF n] c a a' d(2) by auto
    qed
    moreover have "t = ?u @ bs' @ r"
    proof -
      have "?u @ bs' @ r = take n t @ a @ c # a' @ b @ r" by (simp add: d)
      then show ?thesis by (rule trans [OF t sym])
    qed
    ultimately show ?thesis by blast
  qed
qed (rule key_mark_clean)

section \<open>Both patterns\<close>

lemma occurs_append: "occurs rest y \<Longrightarrow> occurs rest (x @ y)"
  unfolding occurs_def by (metis append.assoc)

text \<open>The second pass creates no match of the first pattern.\<close>

lemma second_pass_keeps_clean:
  assumes "\<not> occurs api_key_rest s" shows "\<not> occurs api_key_rest (redact_key_values s)"
proof
  assume "occurs api_key_rest (redact_key_values s)"
  then obtain x y where xy: "redact_key_values s = x @ y" "api_key_rest y \<noteq> None"
    by (auto simp: occurs_def)
  then obtain u w where u: "y = u @ w" "u \<noteq> []" "CHR 0x5B \<notin> set u" "\<forall>s. api_key_rest (u @ s) \<noteq> None"
    using api.core by blast
  have "hd u = CHR ''s''"
  proof -
    have "startswith (u @ w) ''sk-''" using u(4) [rule_format, of w]
      by (auto simp: api_key_rest_def split: if_splits)
    then show ?thesis using u(2) by (cases u) (auto simp: startswith_def)
  qed
  then have "hd u \<notin> set redaction_mark" by (simp add: redaction_mark_def)
  then obtain x' w' where "s = x' @ u @ w'"
    using keys.redact_contiguous [of s x u w] xy(1) u by auto
  then have "occurs api_key_rest s" using u(4) unfolding occurs_def by blast
  then show False using assms by simp
qed

lemma redact_secret_clean:
  "\<not> occurs api_key_rest (redact_secret_text s) \<and> \<not> occurs key_value_rest (redact_secret_text s)"
  unfolding redact_secret_text_def
  using api.redact_not_occurs second_pass_keeps_clean keys.redact_not_occurs by blast

lemma redact_secret_id:
  assumes "\<not> occurs api_key_rest s" "\<not> occurs key_value_rest s"
  shows "redact_secret_text s = s"
  using api.redact_id [OF assms(1)] keys.redact_id [OF assms(2)] by (simp add: redact_secret_text_def)

section \<open>Properties\<close>

text \<open>C32. Redacted text holds no secret of either form any more, text without a secret is left as it is,
  and redacting twice is redacting once.\<close>

theorem redaction_complete:
  "\<not> occurs api_key_rest (redact_secret_text s) \<and> \<not> occurs key_value_rest (redact_secret_text s) \<and>
   redact_secret_text (redact_secret_text s) = redact_secret_text s"
  using redact_secret_clean redact_secret_id by blast

end
