(* ===== verification/EnvironmentEvents.thy ===== *)
theory EnvironmentEvents
  imports RunRequests
begin

text \<open>
  The events that the control plane derives from an executor event:
  \<open>src/labrastro_server/services/agent_runtime/environment_events.py\<close> (the typed events of an
  environment run and the check of its commands against the declared allowlist) and
  \<open>permission_events.py\<close> (runs that cannot wait for an interactive approval).
\<close>

section \<open>The command of an event\<close>

definition command_keys :: "string list" where
  "command_keys =
     [''command'', ''cmd'', ''shell_command'', ''shellCommand'', ''command_line'', ''commandLine'']"

definition nested_command_keys :: "string list" where
  "nested_command_keys = [''input'', ''output'', ''item'', ''params'', ''arguments'', ''request'']"

text \<open>The first non-blank text under one of the command keys, trimmed.\<close>

definition direct_command :: "pyobj \<Rightarrow> string option" where
  "direct_command d =
     (case List.find (\<lambda>key. case pget d key of PStr s \<Rightarrow> str_strip s \<noteq> [] | _ \<Rightarrow> False) command_keys of
        None \<Rightarrow> None
      | Some key \<Rightarrow> Some (str_strip (str_or_empty (pget d key))))"

definition argv_command :: "pyval list \<Rightarrow> string" where
  "argv_command argv =
     str_strip (str_join '' '' (filter (\<lambda>part. str_strip part \<noteq> []) (map py_str argv)))"

definition first_nonempty :: "string list \<Rightarrow> string" where
  "first_nonempty texts = (case filter (\<lambda>t. t \<noteq> []) texts of [] \<Rightarrow> [] | t # _ \<Rightarrow> t)"

text \<open>The recursive calls on the values of a dictionary are made first, and the values of the nested
  keys are looked up among their results.\<close>

fun extract_command :: "pyval \<Rightarrow> string"
  and item_commands :: "pyval list \<Rightarrow> string list"
  and member_commands :: "(string \<times> pyval) list \<Rightarrow> (string \<times> string) list" where
  "extract_command (PList xs) = first_nonempty (item_commands xs)"
| "extract_command (PDict d) =
     (case direct_command d of
        Some command \<Rightarrow> command
      | None \<Rightarrow>
          (case pget d ''argv'' of
             PList (part # parts) \<Rightarrow> argv_command (part # parts)
           | _ \<Rightarrow>
               (let nested = member_commands d
                in first_nonempty (map (\<lambda>key. case dict_get nested key of None \<Rightarrow> [] | Some t \<Rightarrow> t)
                     nested_command_keys))))"
| "extract_command v = []"
| "item_commands [] = []"
| "item_commands (x # xs) = extract_command x # item_commands xs"
| "member_commands [] = []"
| "member_commands ((k, v) # d) = (k, extract_command v) # member_commands d"

section \<open>The allowlist\<close>

type_synonym command_meta = "(string, string) pydict"

definition command_meta_of :: "pyobj \<Rightarrow> command_meta" where
  "command_meta_of item =
     map (\<lambda>(key, v). (key, py_str v)) (filter (\<lambda>(key, v). v \<noteq> PNone \<and> key \<noteq> ''command'') item)"

definition item_command :: "pyobj \<Rightarrow> string" where
  "item_command item = str_strip (str_or_empty (pget_or item ''command'' (PStr [])))"

definition allowed_command_map :: "pyval \<Rightarrow> (string, command_meta) pydict" where
  "allowed_command_map v =
     fold (\<lambda>item out. if item_command item = [] then out
                      else dict_set (item_command item) (command_meta_of item) out)
       (dict_list v) []"

definition meta_text :: "command_meta \<Rightarrow> string \<Rightarrow> string" where
  "meta_text meta key = (case dict_get meta key of None \<Rightarrow> [] | Some t \<Rightarrow> t)"

definition meta_obj :: "command_meta \<Rightarrow> pyobj" where
  "meta_obj meta = map (\<lambda>(k, t). (k, PStr t)) meta"

section \<open>Results\<close>

text \<open>The first path that leads to a value other than None.\<close>

fun path_value :: "pyval \<Rightarrow> string list \<Rightarrow> pyval" where
  "path_value v [] = v"
| "path_value v (key # keys) =
     (case v of PDict d \<Rightarrow> path_value (pget d key) keys | _ \<Rightarrow> PNone)"

definition nested_value :: "pyobj \<Rightarrow> string list list \<Rightarrow> pyval" where
  "nested_value d paths =
     (case filter (\<lambda>v. v \<noteq> PNone) (map (path_value (PDict d)) paths) of [] \<Rightarrow> PNone | v # _ \<Rightarrow> v)"

definition exit_code_paths :: "string list list" where
  "exit_code_paths =
     [[''exit_code''], [''exitCode''], [''output'', ''exit_code''], [''output'', ''exitCode''],
      [''item'', ''exitCode''], [''input'', ''exitCode''], [''input'', ''exit_code'']]"

definition ok_flag_paths :: "string list list" where
  "ok_flag_paths =
     [[''ok''], [''success''], [''output'', ''ok''], [''output'', ''success''],
      [''item'', ''success''], [''input'', ''success'']]"

definition status_paths :: "string list list" where
  "status_paths =
     [[''status''], [''output'', ''status''], [''item'', ''status''], [''input'', ''status'']]"

definition output_paths :: "string list list" where
  "output_paths =
     [[''output'', ''text''], [''output'', ''aggregatedOutput''], [''input'', ''aggregatedOutput''],
      [''stdout''], [''stderr''], [''aggregatedOutput''], [''item'', ''aggregatedOutput''],
      [''output'']]"

definition result_status :: "pyobj \<Rightarrow> bool option" where
  "result_status d =
     (case nested_value d status_paths of
        PStr s \<Rightarrow>
          (let normalized = str_lower (str_strip s)
           in if normalized \<in> {''ok'', ''success'', ''succeeded'', ''completed''} then Some True
              else if normalized \<in> {''error'', ''failed'', ''failure''} then Some False
              else None)
      | _ \<Rightarrow> None)"

definition result_ok :: "pyobj \<Rightarrow> bool option" where
  "result_ok d =
     (case py_int (nested_value d exit_code_paths) of
        Inr code \<Rightarrow> Some (code = 0)
      | Inl _ \<Rightarrow>
          (case nested_value d ok_flag_paths of
             PBool b \<Rightarrow> Some b
           | _ \<Rightarrow> result_status d))"

definition result_output :: "pyobj \<Rightarrow> string" where
  "result_output d = (case nested_value d output_paths of PStr s \<Rightarrow> s | _ \<Rightarrow> [])"

definition ok_val :: "bool option \<Rightarrow> pyval" where
  "ok_val ok = (case ok of None \<Rightarrow> PNone | Some b \<Rightarrow> PBool b)"

section \<open>Expansion of an event\<close>

record event_expansion =
  ee_events :: "(string \<times> pyobj) list"
  ee_policy_error :: string

definition no_expansion :: event_expansion where
  "no_expansion = \<lparr>ee_events = [], ee_policy_error = []\<rparr>"

definition tool_events :: "executor_event \<Rightarrow> string \<Rightarrow> pyobj \<Rightarrow> (string \<times> pyobj) list" where
  "tool_events event phase payload =
     (if ev_type event = Event_TOOL_USE then
        (if phase = ''install'' then [(''environment.install_requested'', payload)] else []) @
        [(''environment.entry_started'', payload)]
      else if ev_type event = Event_TOOL_RESULT then
        (let ok = result_ok (ev_data event);
             with_ok = dict_set ''ok'' (ok_val ok) payload;
             output = result_output (ev_data event);
             result_payload = (if output = [] then with_ok
                               else dict_set ''output'' (PStr output) with_ok)
         in if phase = ''check'' then
              [(''environment.entry_checked'', result_payload)] @
              (case ok of
                 Some True \<Rightarrow> [(''environment.entry_verified'', result_payload)]
               | Some False \<Rightarrow> [(''environment.entry_failed'', result_payload)]
               | None \<Rightarrow> [])
            else if phase = ''install'' \<and> ok = Some False then
              [(''environment.entry_failed'', result_payload)]
            else [])
      else [])"

definition expand_environment_executor_event :: "pyobj \<Rightarrow> executor_event \<Rightarrow> event_expansion" where
  "expand_environment_executor_event task_metadata event =
     (if pget task_metadata ''workflow'' \<noteq> PStr ''environment_config'' then no_expansion
      else
        (let command = extract_command (PDict (ev_data event))
         in if command = [] then no_expansion
            else case dict_get (allowed_command_map (pget task_metadata ''allowed_commands''))
                        (str_strip command) of
              None \<Rightarrow>
                \<lparr>ee_events = [(''environment.entry_failed'',
                   [(''command'', PStr command),
                    (''error'', PStr ''command is not declared in the environment manifest allowlist''),
                    (''error_code'', PStr ''environment_command_not_allowed'')])],
                 ee_policy_error = ''environment command is not allowlisted: '' @ command\<rparr>
            | Some command_meta \<Rightarrow>
                (let phase = meta_text command_meta ''phase'';
                     payload = dict_set ''command'' (PStr command) (meta_obj command_meta)
                 in if str_or_empty (pget task_metadata ''environment_mode'') = ''check'' \<and>
                       phase = ''install''
                    then
                      \<lparr>ee_events = [(''environment.entry_failed'',
                         dict_set ''error_code'' (PStr ''environment_install_forbidden_in_check'')
                           (dict_set ''error'' (PStr ''check mode cannot run install commands'')
                             payload))],
                       ee_policy_error =
                         ''environment check mode attempted install command: '' @ command\<rparr>
                    else \<lparr>ee_events = tool_events event phase payload, ee_policy_error = []\<rparr>)))"

text \<open>\<open>list(v or [])\<close>: the items of a list, the characters of a text, the keys of a dictionary.\<close>

definition list_or_empty :: "pyval \<Rightarrow> pyval list result" where
  "list_or_empty v =
     (if \<not> truthy v then Inr []
      else case v of
        PList xs \<Rightarrow> Inr xs
      | PStr s \<Rightarrow> Inr (map (\<lambda>c. PStr [c]) s)
      | PDict d \<Rightarrow> Inr (map PStr (dict_keys d))
      | _ \<Rightarrow> Inl (TypeError ''object is not iterable''))"

definition environment_summary_event ::
  "pyobj \<Rightarrow> string \<Rightarrow> string \<Rightarrow> string \<Rightarrow> (string \<times> pyobj) option result" where
  "environment_summary_event task_metadata status output error =
     (if pget task_metadata ''workflow'' \<noteq> PStr ''environment_config'' then Inr None
      else res_bind (list_or_empty (pget task_metadata ''entry_ids'')) (\<lambda>entry_ids.
        Inr (Some (''environment.summary'',
          [(''status'', PStr status),
           (''environment_mode'', PStr (str_or_empty (pget task_metadata ''environment_mode''))),
           (''entry_ids'', PList entry_ids),
           (''manifest_hash'', PStr (str_or_empty (pget task_metadata ''manifest_hash''))),
           (''output'', PStr output),
           (''error'', PStr error)]))))"

section \<open>Waiting for an approval\<close>

definition background_review_sources :: "agent_run_source list" where
  "background_review_sources =
     [Source_TASKFLOW, Source_DELEGATION, Source_ENVIRONMENT, Source_CAPABILITY_INGEST]"

definition should_block_waiting_approval :: "agent_run_source \<Rightarrow> bool" where
  "should_block_waiting_approval source \<longleftrightarrow> source \<in> set background_review_sources"

definition blocked_review_event_payload :: "pyobj \<Rightarrow> pyobj" where
  "blocked_review_event_payload event_data =
     (let tool_name = str_or_empty (py_or (pget event_data ''tool_name'') (pget event_data ''tool''));
          reason = py_str (py_or (py_or (pget event_data ''reason'') (pget event_data ''message''))
                     (PStr ''background execution cannot wait for interactive approval''))
      in [(''tool_name'', PStr tool_name),
          (''approval_id'', PStr (str_or_empty (pget event_data ''approval_id''))),
          (''reason'', PStr reason),
          (''permission'', PDict
             [(''action'', PStr ''blocked_review''),
              (''authorized'', PBool False),
              (''reason'', PStr reason)])])"

section \<open>What the allowlist admits\<close>

lemma allowed_fold:
  "dict_get (fold (\<lambda>item out. if item_command item = [] then out
       else dict_set (item_command item) (command_meta_of item) out) items out) command =
     (case filter (\<lambda>item. item_command item = command \<and> command \<noteq> []) (rev items) of
        [] \<Rightarrow> dict_get out command
      | item # _ \<Rightarrow> Some (command_meta_of item))"
  by (induction items arbitrary: out) (auto split: list.splits)

lemma allowed_command_get:
  assumes "command \<noteq> []"
  shows "dict_get (allowed_command_map v) command =
     (case filter (\<lambda>item. item_command item = command) (rev (dict_list v)) of
        [] \<Rightarrow> None | item # _ \<Rightarrow> Some (command_meta_of item))"
  using assms by (simp add: allowed_command_map_def allowed_fold split: list.split)

lemma first_nonempty_in: "first_nonempty ts = [] \<or> first_nonempty ts \<in> set ts"
  by (auto simp: first_nonempty_def filter_eq_Cons_iff split: list.split)

lemma strip_first_nonempty:
  "list_all (\<lambda>t. str_strip t = t) ts \<Longrightarrow> str_strip (first_nonempty ts) = first_nonempty ts"
  using first_nonempty_in [of ts] by (auto simp: list_all_iff)

lemma member_value_in: "dict_get d k = Some t \<Longrightarrow> (k, t) \<in> set d"
  by (induction d) (auto split: if_splits)

lemma extract_command_stripped:
  "str_strip (extract_command v) = extract_command v"
  "list_all (\<lambda>t. str_strip t = t) (item_commands vs)"
  "list_all (\<lambda>t. str_strip t = t) (map snd (member_commands d))"
proof (induction v and vs and d rule: extract_command_item_commands_member_commands.induct)
  case (2 d)
  have nested: "list_all (\<lambda>t. str_strip t = t)
     (map (\<lambda>key. case dict_get (member_commands d) key of None \<Rightarrow> [] | Some t \<Rightarrow> t) nested_command_keys)"
    if "list_all (\<lambda>t. str_strip t = t) (map snd (member_commands d))"
    using that by (auto simp: list_all_iff split: option.split dest!: member_value_in)
  show ?case
  proof (cases "direct_command d")
    case (Some command)
    then show ?thesis by (auto simp: direct_command_def split: option.splits)
  next
    case None
    then show ?thesis
      using 2 nested
      by (auto simp: argv_command_def Let_def intro!: strip_first_nonempty
          split: pyval.split list.split)
  qed
qed (simp_all add: strip_first_nonempty)

lemma expansion_error_iff:
  assumes "pget task_metadata ''workflow'' = PStr ''environment_config''"
    and "extract_command (PDict (ev_data event)) \<noteq> []"
  shows "ee_policy_error (expand_environment_executor_event task_metadata event) = [] \<longleftrightarrow>
    (case dict_get (allowed_command_map (pget task_metadata ''allowed_commands''))
            (extract_command (PDict (ev_data event))) of
       None \<Rightarrow> False
     | Some command_meta \<Rightarrow>
         \<not> (str_or_empty (pget task_metadata ''environment_mode'') = ''check'' \<and>
            meta_text command_meta ''phase'' = ''install''))"
  using assms
  by (simp add: expand_environment_executor_event_def Let_def extract_command_stripped
      del: extract_command.simps split: option.split)

section \<open>Properties\<close>

text \<open>The command check of environment runs, exactly: an event that carries a command raises no
  policy error if and only if the manifest declares the command and, in check mode, the last
  declaration of it is not an install command.\<close>

theorem environment_allowlist_exact:
  assumes "pget task_metadata ''workflow'' = PStr ''environment_config''"
    and "extract_command (PDict (ev_data event)) = command" and "command \<noteq> []"
  shows "ee_policy_error (expand_environment_executor_event task_metadata event) = [] \<longleftrightarrow>
    (case filter (\<lambda>item. item_command item = command)
            (rev (dict_list (pget task_metadata ''allowed_commands''))) of
       [] \<Rightarrow> False
     | item # _ \<Rightarrow>
         \<not> (str_or_empty (pget task_metadata ''environment_mode'') = ''check'' \<and>
            meta_text (command_meta_of item) ''phase'' = ''install''))"
  using expansion_error_iff [of task_metadata event] assms
  by (simp add: allowed_command_get del: extract_command.simps split: list.split)

definition demo_environment :: pyobj where
  "demo_environment =
     [(''workflow'', PStr ''environment_config''), (''environment_mode'', PStr ''check''),
      (''allowed_commands'', PList
         [PDict [(''command'', PStr ''node -v''), (''phase'', PStr ''check'')],
          PDict [(''command'', PStr ''apt install node''), (''phase'', PStr ''install'')]])]"

definition demo_command_event :: "string \<Rightarrow> executor_event" where
  "demo_command_event command =
     \<lparr>ev_type = Event_TOOL_USE, ev_text = None,
      ev_data = [(''input'', PDict [(''cmd'', PStr command)])]\<rparr>"

theorem environment_allowlist_exact_witness:
  "ee_policy_error (expand_environment_executor_event demo_environment
     (demo_command_event '' node -v'')) = [] \<and>
   ee_policy_error (expand_environment_executor_event demo_environment
     (demo_command_event ''apt install node'')) \<noteq> []"
proof -
  have env: "pget demo_environment ''workflow'' = PStr ''environment_config''" by code_simp
  have check: "extract_command (PDict (ev_data (demo_command_event '' node -v''))) = ''node -v''"
    and install: "extract_command (PDict (ev_data (demo_command_event ''apt install node''))) =
      ''apt install node''" by code_simp+
  have "case filter (\<lambda>item. item_command item = ''node -v'')
          (rev (dict_list (pget demo_environment ''allowed_commands''))) of
       [] \<Rightarrow> False
     | item # _ \<Rightarrow>
         \<not> (str_or_empty (pget demo_environment ''environment_mode'') = ''check'' \<and>
            meta_text (command_meta_of item) ''phase'' = ''install'')" by code_simp
  moreover have "\<not> (case filter (\<lambda>item. item_command item = ''apt install node'')
          (rev (dict_list (pget demo_environment ''allowed_commands''))) of
       [] \<Rightarrow> False
     | item # _ \<Rightarrow>
         \<not> (str_or_empty (pget demo_environment ''environment_mode'') = ''check'' \<and>
            meta_text (command_meta_of item) ''phase'' = ''install''))" by code_simp
  ultimately show ?thesis
    using environment_allowlist_exact [OF env check] environment_allowlist_exact [OF env install]
    by simp
qed

end
