(* ===== verification/RuntimeStore.thy ===== *)
theory RuntimeStore
  imports EnvironmentEvents
begin

text \<open>
  The functions of \<open>src/labrastro_server/services/agent_runtime/runtime_store.py\<close>: the lifecycle
  events that a run's state changes add to event logs, the artifacts of a result, and the runtime
  slots that bound how many runs execute at once. The storage protocols of the file have no code.
\<close>

section \<open>Artifacts\<close>

definition artifact_attached_event_payload :: "task_artifact \<Rightarrow> pyobj" where
  "artifact_attached_event_payload artifact =
     (let metadata = tk_metadata artifact;
          overflow = (pget metadata ''kind'' = PStr ''lifecycle_output_overflow'');
          shown_metadata = (if overflow
             then dict_set ''content_omitted_from_event'' (PBool True)
                    (dict_set ''content_stored'' (PBool True) metadata)
             else metadata)
      in [(''artifact'', PDict
            [(''id'', PStr (tk_id artifact)),
             (''task_id'', PStr (tk_task_id artifact)),
             (''type'', PStr (artifact_type_value (tk_type artifact))),
             (''status'', PStr (artifact_status_value (tk_status artifact))),
             (''branch_name'', opt_val (tk_branch_name artifact)),
             (''pr_url'', opt_val (tk_pr_url artifact)),
             (''content'', if overflow then PNone else opt_val (tk_content artifact)),
             (''path'', opt_val (tk_path artifact)),
             (''metadata'', PDict shown_metadata),
             (''merge_status'', member_val merge_status_value (tk_merge_status artifact)),
             (''merged_by'', opt_val (tk_merged_by artifact))])])"

definition artifact_key :: "pyobj \<Rightarrow> string" where
  "artifact_key item = str_or_empty (py_or (pget item ''artifact_id'') (pget item ''id''))"

fun combine_artifacts :: "string list \<Rightarrow> pyobj list \<Rightarrow> pyobj list" where
  "combine_artifacts seen [] = []"
| "combine_artifacts seen (item # items) =
     (let artifact_id = artifact_key item
      in if artifact_id \<noteq> [] \<and> artifact_id \<in> set seen then combine_artifacts seen items
         else item # combine_artifacts (if artifact_id = [] then seen else artifact_id # seen) items)"

definition executor_result_artifacts :: "executor_run_result \<Rightarrow> pyobj list \<Rightarrow> pyobj list" where
  "executor_result_artifacts r artifacts = combine_artifacts [] (artifacts @ rr_artifacts r)"

section \<open>Lifecycle events\<close>

definition agent_relation_completed_payload :: "agent_run \<Rightarrow> string \<Rightarrow> string \<Rightarrow> pyobj" where
  "agent_relation_completed_payload task owner_run_id task_prompt =
     [(''run_id'', PStr (ar_id task)),
      (''agent_run_id'', PStr (ar_id task)),
      (''owner_agent_run_id'', PStr owner_run_id),
      (''agent_id'', PStr (ar_agent_id task)),
      (''task'', PStr task_prompt),
      (''status'', PStr (agent_run_status_value (ar_status task))),
      (''result'', PStr (terminal_output task)),
      (''error'', PStr (if ar_status task = Run_COMPLETED then []
                        else opt_str (ar_failure_reason task))),
      (''source'', PStr (agent_run_source_value (ar_source task)))]"

text \<open>The envelope that both kinds of lifecycle event share.\<close>

definition lifecycle_payload ::
  "agent_run \<Rightarrow> string \<Rightarrow> string \<Rightarrow> string \<Rightarrow> string \<Rightarrow> string \<Rightarrow> string \<Rightarrow> string \<Rightarrow> pyobj \<Rightarrow> pyobj"
  where
  "lifecycle_payload task event_name session_run_id agent_run_id turn_id code level message payload =
     (let hook_id = ''agent_run_control_plane:'' @ event_name
      in [(''phase'', PStr ''result''),
          (''event_name'', PStr event_name),
          (''placement'', PStr ''server''),
          (''session_run_id'', PStr session_run_id),
          (''agent_run_id'', PStr agent_run_id),
          (''turn_id'', PStr turn_id),
          (''trigger_source'', PStr (agent_run_source_value (ar_source task))),
          (''hook_id'', PStr hook_id),
          (''display_name'', PStr event_name),
          (''source'', PStr ''agent_run_control_plane''),
          (''handler_type'', PStr ''internal''),
          (''decision'', PStr ''none''),
          (''continue_flow'', PBool True),
          (''diagnostics'', PList [PDict
             [(''code'', PStr code),
              (''message'', PStr message),
              (''level'', PStr level),
              (''event_name'', PStr event_name),
              (''handler_type'', PStr ''internal''),
              (''hook_id'', PStr hook_id)]]),
          (''level'', PStr level),
          (''title'', PStr event_name),
          (''message'', PStr message),
          (''user_message'', PStr message),
          (''payload'', PDict payload)])"

definition agent_relation_terminal_lifecycle_payload ::
  "agent_run \<Rightarrow> string \<Rightarrow> string \<Rightarrow> string \<Rightarrow> string \<Rightarrow> pyobj \<Rightarrow> pyobj" where
  "agent_relation_terminal_lifecycle_payload task event_name owner_agent_run_id level message payload =
     lifecycle_payload task event_name (str_or_empty (pget payload ''parent_session_id''))
       owner_agent_run_id (str_or_empty (pget payload ''parent_turn_id''))
       ''agent_relation_terminal'' level message payload"

definition agent_relation_terminal_lifecycle_events ::
  "agent_run \<Rightarrow> string \<Rightarrow> pyobj \<Rightarrow> string \<Rightarrow> (string \<times> pyobj) list" where
  "agent_relation_terminal_lifecycle_events task owner_run_id metadata task_prompt =
     (if owner_run_id = [] \<or> owner_run_id = ar_id task then []
      else
        (let status = agent_run_status_value (ar_status task);
             level = (if ar_status task = Run_COMPLETED then ''info''
                      else if ar_status task = Run_CANCELLED then ''warning'' else ''error'');
             message = (if ar_agent_id task = [] then ''related agent'' else ar_agent_id task) @
                         '' '' @ status;
             payload = agent_relation_completed_payload task owner_run_id task_prompt @
               [(''child_agent_run_id'', PStr (ar_id task)),
                (''child_agent_id'', PStr (ar_agent_id task)),
                (''parent_session_id'', PStr (str_or_empty (pget metadata ''parent_session_id''))),
                (''parent_turn_id'', PStr (str_or_empty (pget metadata ''parent_turn_id''))),
                (''lifecycle_hook_id'', PStr (str_or_empty (pget metadata ''lifecycle_hook_id''))),
                (''lifecycle_hook_source'',
                   PStr (str_or_empty (pget metadata ''lifecycle_hook_source'')))]
         in map (\<lambda>event_name. (''lifecycle_hook'',
                 agent_relation_terminal_lifecycle_payload task event_name owner_run_id level message
                   payload))
              [''TaskCompleted'', ''SubagentStop'']))"

definition worktree_lifecycle_status :: "(string, string \<times> string \<times> string) pydict" where
  "worktree_lifecycle_status =
     [(''worktree_ready'',
         (''WorktreeCreate'', ''agent_run_worktree_ready'', ''AgentRun worktree ready'')),
      (''worktree_removed'',
         (''WorktreeRemove'', ''agent_run_worktree_removed'', ''AgentRun worktree removed''))]"

definition worktree_lifecycle_events :: "agent_run \<Rightarrow> executor_event \<Rightarrow> (string \<times> pyobj) list" where
  "worktree_lifecycle_events task event =
     (if ev_type event \<noteq> Event_STATUS then []
      else
        (let status = str_strip (str_or_empty (pget (ev_data event) ''status''))
         in case dict_get worktree_lifecycle_status status of
              None \<Rightarrow> []
            | Some (event_name, diagnostic_code, message_prefix) \<Rightarrow>
                (let workdir = str_strip (str_or_empty (py_or (pget (ev_data event) ''workdir'')
                                 (opt_val (ar_workdir task))));
                     metadata = ar_metadata task;
                     execution_location = (case ar_execution_location task of None \<Rightarrow> []
                                           | Some l \<Rightarrow> execution_location_value l);
                     message = message_prefix @ '': '' @ workdir;
                     payload =
                       [(''workdir'', PStr workdir),
                        (''runtime_working_directory'', PStr workdir),
                        (''runtime_workspace_root'', PStr (text_or (ar_workdir task) workdir)),
                        (''runtime_root'', PStr (str_or_empty (py_or
                           (pget (ev_data event) ''runtime_root'') (pget metadata ''runtime_root'')))),
                        (''execution_location'', PStr execution_location),
                        (''worker_kind'', PStr (str_or_empty (pget metadata ''worker_kind''))),
                        (''worktree_role'', PStr (str_or_empty (pget metadata ''worktree_role''))),
                        (''agent_id'', PStr (ar_agent_id task)),
                        (''agent_run_id'', PStr (ar_id task)),
                        (''path_space'', PStr
                           (if ar_execution_location task = Some Loc_DAEMON_WORKTREE
                            then ''agent_run_worktree'' else ''agent_run_workspace'')),
                        (''source_event'', PStr status)]
                 in if workdir = [] then []
                    else [(''lifecycle_hook'',
                       lifecycle_payload task event_name (opt_str (ar_executor_session_id task))
                         (ar_id task) [] diagnostic_code ''info'' message payload)])))"

section \<open>Event pages\<close>

definition default_runtime_event_limit :: int where "default_runtime_event_limit = 200"

definition max_runtime_event_limit :: int where "max_runtime_event_limit = 1000"

definition clamp_event_limit :: "pyval \<Rightarrow> int" where
  "clamp_event_limit limit =
     (case py_int limit of
        Inl _ \<Rightarrow> default_runtime_event_limit
      | Inr i \<Rightarrow> max 1 (min max_runtime_event_limit i))"

lemma clamp_event_limit_range: "1 \<le> clamp_event_limit limit \<and> clamp_event_limit limit \<le> 1000"
  by (auto simp: clamp_event_limit_def default_runtime_event_limit_def max_runtime_event_limit_def
      split: sum.split)

section \<open>Runtime slots\<close>

datatype slot_key = Server_Agent_Run_Slots | Server_Sandbox_Slots | Local_Peer_Agent_Run_Slots
  | Model_Request_Slots

fun slot_key_text :: "slot_key \<Rightarrow> string" where
  "slot_key_text Server_Agent_Run_Slots = ''server_agent_run_slots''"
| "slot_key_text Server_Sandbox_Slots = ''server_sandbox_slots''"
| "slot_key_text Local_Peer_Agent_Run_Slots = ''local_peer_agent_run_slots''"
| "slot_key_text Model_Request_Slots = ''model_request_slots''"

definition runtime_slot_keys :: "slot_key list" where
  "runtime_slot_keys =
     [Server_Agent_Run_Slots, Server_Sandbox_Slots, Local_Peer_Agent_Run_Slots, Model_Request_Slots]"

definition slot_limit :: "pyobj \<Rightarrow> int \<Rightarrow> slot_key \<Rightarrow> int result" where
  "slot_limit slots fallback key =
     res_bind (py_int (py_or (pget_or slots (slot_key_text key) (PInt fallback)) (PInt fallback)))
       (\<lambda>n. Inr (max 1 n))"

definition runtime_slot_limits :: "pyobj \<Rightarrow> int \<Rightarrow> (slot_key, int) pydict result" where
  "runtime_slot_limits runtime_snapshot max_running_tasks =
     (let fallback = max 1 (if max_running_tasks = 0 then 1 else max_running_tasks);
          slots = dict_value (pget runtime_snapshot ''runtime_slots'')
      in res_map (\<lambda>key. res_bind (slot_limit slots fallback key) (\<lambda>n. Inr (key, n)))
           runtime_slot_keys)"

definition runtime_slot_key_for_agent_run :: "agent_run \<Rightarrow> slot_key" where
  "runtime_slot_key_for_agent_run task =
     (let given = str_strip (str_or_empty (pget (ar_metadata task) ''worker_kind''));
          worker_kind = (if given \<noteq> [] then given
             else if ar_execution_location task = Some Loc_LOCAL_WORKSPACE
             then worker_kind_value Worker_LOCAL_PEER else worker_kind_value Worker_SERVER_WORKER)
      in if worker_kind = worker_kind_value Worker_SANDBOX_WORKER then Server_Sandbox_Slots
         else if worker_kind = worker_kind_value Worker_LOCAL_PEER then Local_Peer_Agent_Run_Slots
         else Server_Agent_Run_Slots)"

definition agent_run_uses_model_request_slot :: "agent_run \<Rightarrow> bool" where
  "agent_run_uses_model_request_slot task \<longleftrightarrow>
     str_strip (str_or_empty (pget (ar_metadata task) ''model_request_origin''))
       \<in> {model_request_origin_value Origin_SERVER,
          model_request_origin_value Origin_SERVER_WORKER_CLI}"

definition running_status :: "agent_run_status \<Rightarrow> bool" where
  "running_status s \<longleftrightarrow> s \<in> {Run_DISPATCHED, Run_RUNNING, Run_WAITING}"

text \<open>How many of the runs execute in a slot.\<close>

definition slot_use :: "slot_key \<Rightarrow> agent_run list \<Rightarrow> int" where
  "slot_use key running_tasks =
     int (length (filter (\<lambda>task. running_status (ar_status task) \<and>
       (if key = Model_Request_Slots then agent_run_uses_model_request_slot task
        else runtime_slot_key_for_agent_run task = key)) running_tasks))"

definition slot_of :: "(slot_key, int) pydict \<Rightarrow> slot_key \<Rightarrow> int" where
  "slot_of limits key = (case dict_get limits key of None \<Rightarrow> 0 | Some n \<Rightarrow> n)"

definition runtime_slots_allow_agent_run_claim ::
  "agent_run list \<Rightarrow> agent_run \<Rightarrow> pyobj \<Rightarrow> int \<Rightarrow> bool result" where
  "runtime_slots_allow_agent_run_claim running_tasks candidate runtime_snapshot max_running_tasks =
     res_bind (runtime_slot_limits runtime_snapshot max_running_tasks) (\<lambda>limits.
       let slot_key = runtime_slot_key_for_agent_run candidate
       in Inr (slot_use slot_key running_tasks < slot_of limits slot_key \<and>
               (agent_run_uses_model_request_slot candidate \<longrightarrow>
                slot_use Model_Request_Slots running_tasks < slot_of limits Model_Request_Slots)))"

end
