(* ===== verification/ControlState.thy ===== *)
theory ControlState
  imports Scheduling RunRequests RuntimeStore PromptRenderer EnvironmentEvents
begin

text \<open>
  The state of \<open>AgentRunControlPlane\<close> in
  \<open>src/labrastro_server/services/agent_runtime/control_plane.py\<close> in its in-memory form (no store,
  no sandbox provider), and the operations that read it or change one part of it: the event log,
  the claims with their leases, and the read-only views.

  \<^item> A run is addressed by its identifier; the state holds the one \<open>AgentRun\<close> object behind it.
  \<^item> A call returns the new state together with its result, because an exception leaves the changes
    made before it.
  \<^item> \<open>cp_env\<close> is what one call sees of the world: the clock, the time stamp text, the stream of
    random identifiers (the state counts how many were drawn) and the outcome of the git commands
    that remove a branch worktree.
\<close>

section \<open>State\<close>

record task_session_ref =
  ts_agent_id :: string
  ts_executor :: executor_type
  ts_execution_location :: execution_location
  ts_task_id :: string
  ts_workdir :: "string option"
  ts_branch :: "string option"
  ts_executor_session_id :: "string option"
  ts_metadata :: pyobj

record activation_claim =
  cl_request_id :: string
  cl_worker_id :: string
  cl_task_id :: string
  cl_executor_request :: executor_run_request
  cl_runtime_snapshot :: pyobj
  cl_activation :: agent_run_activation

record claim_lease =
  ls_task_id :: string
  ls_activation_id :: string
  ls_worker_id :: string
  ls_peer_id :: string
  ls_last_heartbeat_at :: int
  ls_lease_deadline :: int
  ls_lease_sec :: int

record control_plane =
  cp_max_running_tasks :: int
  cp_runtime_snapshot :: pyobj
  cp_pr_base_url :: string
  cp_states :: "(string, task_lifecycle) pydict"
  cp_sessions :: "(string, task_session_ref) pydict"
  cp_events :: "(string, agent_run_event list) pydict"
  cp_activations :: "(string, agent_run_activation) pydict"
  cp_feedbacks :: "(string, agent_run_feedback list) pydict"
  cp_steers :: "(string, activation_steer list) pydict"
  cp_relations :: "(string, agent_run_relation) pydict"
  cp_thread_bindings :: "(string, agent_thread_binding) pydict"
  cp_session_bindings :: "(string, session_run_binding) pydict"
  cp_grants :: "(string list, agent_call_grant) pydict"
  cp_claims :: "(string, activation_claim) pydict"
  cp_leases :: "(string, claim_lease) pydict"
  cp_cancel_requests :: "(string, string) pydict"
  cp_uuids :: nat

record cp_env =
  env_now :: int
  env_iso :: string
  env_uuid :: "nat \<Rightarrow> string"
  env_worktree_cleanup :: "string \<Rightarrow> string \<Rightarrow> string \<Rightarrow> string \<Rightarrow> pyobj"

definition new_control_plane :: "int \<Rightarrow> pyobj \<Rightarrow> string \<Rightarrow> control_plane" where
  "new_control_plane max_running_tasks runtime_snapshot pr_base_url =
     \<lparr>cp_max_running_tasks = max 1 (if max_running_tasks = 0 then 1 else max_running_tasks),
      cp_runtime_snapshot = runtime_snapshot,
      cp_pr_base_url = rstrip_by (\<lambda>c. c = CHR ''/'') pr_base_url,
      cp_states = [], cp_sessions = [], cp_events = [], cp_activations = [], cp_feedbacks = [],
      cp_steers = [], cp_relations = [], cp_thread_bindings = [], cp_session_bindings = [],
      cp_grants = [], cp_claims = [], cp_leases = [], cp_cancel_requests = [], cp_uuids = 0\<rparr>"

definition configure :: "int option \<Rightarrow> pyobj option \<Rightarrow> control_plane \<Rightarrow> control_plane" where
  "configure max_running_tasks runtime_snapshot s =
     s\<lparr>cp_max_running_tasks := (case max_running_tasks of None \<Rightarrow> cp_max_running_tasks s
          | Some n \<Rightarrow> max 1 (if n = 0 then 1 else n)),
       cp_runtime_snapshot := (case runtime_snapshot of None \<Rightarrow> cp_runtime_snapshot s
          | Some d \<Rightarrow> d)\<rparr>"

text \<open>Calls that may raise, and their sequencing.\<close>

type_synonym 'a step = "control_plane \<times> 'a result"

definition step_bind :: "'a step \<Rightarrow> (control_plane \<Rightarrow> 'a \<Rightarrow> 'b step) \<Rightarrow> 'b step" where
  "step_bind m f = (case m of (s, Inl e) \<Rightarrow> (s, Inl e) | (s, Inr x) \<Rightarrow> f s x)"

lemma step_bind_simps [simp]:
  "step_bind (s, Inl e) f = (s, Inl e)"
  "step_bind (s, Inr x) f = f s x"
  by (simp_all add: step_bind_def)

text \<open>A computation that does not touch the state.\<close>

definition pure_step :: "control_plane \<Rightarrow> 'a result \<Rightarrow> (control_plane \<Rightarrow> 'a \<Rightarrow> 'b step) \<Rightarrow> 'b step"
  where
  "pure_step s r f = (case r of Inl e \<Rightarrow> (s, Inl e) | Inr x \<Rightarrow> f s x)"

lemma pure_step_simps [simp]:
  "pure_step s (Inl e) f = (s, Inl e)"
  "pure_step s (Inr x) f = f s x"
  by (simp_all add: pure_step_def)

definition new_id :: "cp_env \<Rightarrow> string \<Rightarrow> control_plane \<Rightarrow> string \<times> control_plane" where
  "new_id env prefix s =
     (prefix @ ''-'' @ env_uuid env (cp_uuids s), s\<lparr>cp_uuids := Suc (cp_uuids s)\<rparr>)"

text \<open>\<open>given or _new_id(prefix)\<close>.\<close>

definition id_or_new :: "cp_env \<Rightarrow> string \<Rightarrow> string option \<Rightarrow> control_plane \<Rightarrow> string \<times> control_plane"
  where
  "id_or_new env prefix given s =
     (if opt_str given = [] then new_id env prefix s else (opt_str given, s))"

section \<open>Runs\<close>

definition task_of :: "control_plane \<Rightarrow> string \<Rightarrow> agent_run option" where
  "task_of s task_id = map_option tl_task (dict_get (cp_states s) task_id)"

definition task_locked :: "control_plane \<Rightarrow> string \<Rightarrow> agent_run result" where
  "task_locked s task_id =
     (case dict_get (cp_states s) task_id of
        None \<Rightarrow> Inl (KeyError (''AgentRun not found: '' @ task_id))
      | Some state \<Rightarrow> Inr (tl_task state))"

text \<open>Assignments to the fields of the run object behind an identifier.\<close>

definition update_task :: "string \<Rightarrow> (agent_run \<Rightarrow> agent_run) \<Rightarrow> control_plane \<Rightarrow> control_plane" where
  "update_task task_id f s =
     (case dict_get (cp_states s) task_id of
        None \<Rightarrow> s
      | Some state \<Rightarrow>
          s\<lparr>cp_states := dict_set task_id (state\<lparr>tl_task := f (tl_task state)\<rparr>) (cp_states s)\<rparr>)"

definition running_tasks :: "control_plane \<Rightarrow> agent_run list" where
  "running_tasks s =
     filter (\<lambda>task. ar_status task \<in> {Run_DISPATCHED, Run_RUNNING, Run_WAITING})
       (map tl_task (dict_values (cp_states s)))"

section \<open>The event log\<close>

definition events_of :: "control_plane \<Rightarrow> string \<Rightarrow> agent_run_event list" where
  "events_of s task_id = (case dict_get (cp_events s) task_id of None \<Rightarrow> [] | Some es \<Rightarrow> es)"

definition append_event :: "string \<Rightarrow> string \<Rightarrow> pyobj \<Rightarrow> control_plane \<Rightarrow> control_plane" where
  "append_event task_id event_type payload s =
     (let events = events_of s task_id;
          event = \<lparr>e_task_id = task_id, e_seq = length events + 1, e_type = event_type,
                   e_payload = payload\<rparr>
      in s\<lparr>cp_events := dict_set task_id (events @ [event]) (cp_events s)\<rparr>)"

definition append_events :: "string \<Rightarrow> (string \<times> pyobj) list \<Rightarrow> control_plane \<Rightarrow> control_plane" where
  "append_events task_id evs s = fold (\<lambda>(event_type, payload). append_event task_id event_type payload) evs s"

text \<open>\<open>if task_id in self._events: self._append_event_locked(...)\<close>.\<close>

definition append_if_known :: "string \<Rightarrow> string \<Rightarrow> pyobj \<Rightarrow> control_plane \<Rightarrow> control_plane" where
  "append_if_known task_id event_type payload s =
     (if dict_has (cp_events s) task_id then append_event task_id event_type payload s else s)"

definition append_agent_run_event ::
  "string \<Rightarrow> string \<Rightarrow> pyobj \<Rightarrow> control_plane \<Rightarrow> agent_run_event step" where
  "append_agent_run_event task_id event_type payload s =
     (let stripped = str_strip event_type in
      if stripped = [] then (s, Inl (ValueError ''agent_run_event_type_required''))
      else pure_step s (task_locked s task_id) (\<lambda>s _.
        let s' = append_event task_id stripped payload s
        in (s', Inr (last (events_of s' task_id)))))"

definition list_events :: "control_plane \<Rightarrow> string \<Rightarrow> int \<Rightarrow> pyval \<Rightarrow> agent_run_event list" where
  "list_events s task_id after_seq limit =
     take (nat (clamp_event_limit limit))
       (filter (\<lambda>e. after_seq < int (e_seq e)) (events_of s task_id))"

section \<open>Claims and leases\<close>

definition active_claim_for_task :: "control_plane \<Rightarrow> string \<Rightarrow> claim_lease option" where
  "active_claim_for_task s task_id =
     List.find (\<lambda>lease. ls_task_id lease = task_id) (dict_values (cp_leases s))"

definition validate_activation_claim_owner ::
  "control_plane \<Rightarrow> string \<Rightarrow> string \<Rightarrow> string option \<Rightarrow> string \<Rightarrow> string option \<Rightarrow> bool \<times> string" where
  "validate_activation_claim_owner s request_id task_id activation_id worker_id peer_id =
     (if \<not> dict_has (cp_states s) task_id then (False, ''agent_run_not_found'')
      else case dict_get (cp_leases s) request_id of
        None \<Rightarrow> (False, ''claim_not_found'')
      | Some lease \<Rightarrow>
          if ls_task_id lease \<noteq> task_id then (False, ''task_mismatch'')
          else if ls_worker_id lease \<noteq> worker_id then (False, ''worker_mismatch'')
          else if opt_str activation_id \<noteq> [] \<and> ls_activation_id lease \<noteq> opt_str activation_id
            then (False, ''activation_mismatch'')
          else if opt_str peer_id \<noteq> [] \<and> ls_peer_id lease \<noteq> [] \<and> ls_peer_id lease \<noteq> opt_str peer_id
            then (False, ''peer_mismatch'')
          else (True, []))"

definition drop_claim :: "string \<Rightarrow> control_plane \<Rightarrow> control_plane" where
  "drop_claim request_id s =
     s\<lparr>cp_claims := dict_pop request_id (cp_claims s),
       cp_leases := dict_pop request_id (cp_leases s)\<rparr>"

definition clear_task_claims :: "string \<Rightarrow> control_plane \<Rightarrow> control_plane" where
  "clear_task_claims task_id s =
     fold (\<lambda>(request_id, claim) s. if cl_task_id claim = task_id then drop_claim request_id s else s)
       (cp_claims s) s"

definition drop_cancel_request :: "string \<Rightarrow> control_plane \<Rightarrow> control_plane" where
  "drop_cancel_request task_id s =
     s\<lparr>cp_cancel_requests := dict_pop task_id (cp_cancel_requests s)\<rparr>"

definition put_activation :: "agent_run_activation \<Rightarrow> control_plane \<Rightarrow> control_plane" where
  "put_activation activation s =
     s\<lparr>cp_activations := dict_set (ac_id activation) activation (cp_activations s)\<rparr>"

text \<open>\<open>self._activations.get(task.current_activation_id or "")\<close>.\<close>

definition current_activation :: "control_plane \<Rightarrow> agent_run \<Rightarrow> agent_run_activation option" where
  "current_activation s task = dict_get (cp_activations s) (opt_str (ar_current_activation_id task))"

definition feedbacks_of :: "control_plane \<Rightarrow> string \<Rightarrow> agent_run_feedback list" where
  "feedbacks_of s task_id = (case dict_get (cp_feedbacks s) task_id of None \<Rightarrow> [] | Some fs \<Rightarrow> fs)"

definition steers_of :: "control_plane \<Rightarrow> string \<Rightarrow> activation_steer list" where
  "steers_of s task_id = (case dict_get (cp_steers s) task_id of None \<Rightarrow> [] | Some ss \<Rightarrow> ss)"

section \<open>Views\<close>

definition list_artifacts :: "control_plane \<Rightarrow> string \<Rightarrow> task_artifact list result" where
  "list_artifacts s task_id =
     (case dict_get (cp_states s) task_id of
        None \<Rightarrow> Inl (KeyError task_id)
      | Some state \<Rightarrow> Inr (dict_values (tl_artifacts state)))"

definition artifacts_to_dict :: "control_plane \<Rightarrow> string \<Rightarrow> pyobj list result" where
  "artifacts_to_dict s task_id =
     res_bind (list_artifacts s task_id) (\<lambda>artifacts. Inr (map artifact_to_dict artifacts))"

definition task_to_dict :: "control_plane \<Rightarrow> string \<Rightarrow> pyobj result" where
  "task_to_dict s task_id = res_bind (task_locked s task_id) (\<lambda>task. Inr (agent_run_to_dict task))"

definition list_agent_runs ::
  "control_plane \<Rightarrow> string option \<Rightarrow> string option \<Rightarrow> int \<Rightarrow> pyobj list" where
  "list_agent_runs s status agent_id limit =
     (let tasks = map (\<lambda>state. agent_run_to_dict (tl_task state)) (dict_values (cp_states s));
          tasks = (if opt_str status = [] then tasks
                   else filter (\<lambda>task. pget task ''status'' = opt_val status) tasks);
          tasks = (if opt_str agent_id = [] then tasks
                   else filter (\<lambda>task. pget task ''agent_id'' = opt_val agent_id) tasks)
      in take (nat (max 1 (if limit = 0 then 50 else limit))) (rev tasks))"

definition session_ref_to_dict :: "task_session_ref \<Rightarrow> pyobj" where
  "session_ref_to_dict session =
     [(''agent_id'', PStr (ts_agent_id session)),
      (''executor'', PStr (executor_type_value (ts_executor session))),
      (''execution_location'', PStr (execution_location_value (ts_execution_location session))),
      (''task_id'', PStr (ts_task_id session)),
      (''workdir'', opt_val (ts_workdir session)),
      (''branch'', opt_val (ts_branch session)),
      (''executor_session_id'', opt_val (ts_executor_session_id session)),
      (''metadata'', PDict (ts_metadata session))]"

definition load_agent_run_detail :: "control_plane \<Rightarrow> string \<Rightarrow> pyval \<Rightarrow> pyobj result" where
  "load_agent_run_detail s task_id event_limit =
     (let limit = nat (clamp_event_limit event_limit);
          dicts = (\<lambda>ds. PList (map PDict ds));
          all_events = events_of s task_id;
          raw_events = drop (length all_events - limit) all_events
      in res_bind (task_to_dict s task_id) (\<lambda>task.
         res_bind (artifacts_to_dict s task_id) (\<lambda>artifacts.
         Inr [(''agent_run'', PDict task),
              (''artifacts'', dicts artifacts),
              (''session'', (case dict_get (cp_sessions s) task_id of
                 None \<Rightarrow> PNone | Some session \<Rightarrow> PDict (session_ref_to_dict session))),
              (''claim'', PNone),
              (''activations'', dicts (map activation_to_dict
                 (sort_key ac_seq (filter (\<lambda>a. ac_agent_run_id a = task_id)
                   (dict_values (cp_activations s)))))),
              (''activation_steers'', dicts (map steer_to_dict (steers_of s task_id))),
              (''feedback'', dicts (map feedback_to_dict (feedbacks_of s task_id))),
              (''relations'', dicts (map relation_to_dict
                 (filter (\<lambda>r. rl_owner_agent_run_id r = task_id \<or> rl_related_agent_run_id r = task_id)
                   (dict_values (cp_relations s))))),
              (''agent_thread_bindings'', dicts (map agent_thread_binding_to_dict
                 (filter (\<lambda>b. tb_main_agent_run_id b = task_id \<or> tb_target_agent_run_id b = task_id)
                   (dict_values (cp_thread_bindings s))))),
              (''events'', dicts (map agent_run_event_to_dict raw_events))])))"

section \<open>Call grants\<close>

definition upsert_agent_call_grant :: "agent_call_grant \<Rightarrow> control_plane \<Rightarrow> control_plane" where
  "upsert_agent_call_grant grant s =
     s\<lparr>cp_grants := dict_set
         (agent_call_grant_key (gr_user_id grant) (gr_grant_scope grant) (gr_main_agent_id grant)
            (gr_target_agent_id grant) (gr_conversation_scope grant) (gr_capability_scope grant)
            (gr_target_config_version grant))
         grant (cp_grants s)\<rparr>"

definition find_agent_call_grant ::
  "iso_clock \<Rightarrow> int \<Rightarrow> control_plane \<Rightarrow> string \<Rightarrow> string \<Rightarrow> string \<Rightarrow> string \<Rightarrow> string \<Rightarrow> pyobj \<Rightarrow> string \<Rightarrow>
   agent_call_grant option" where
  "find_agent_call_grant fromiso now s user_id grant_scope main_agent_id target_agent_id
       conversation_scope capability_scope target_config_version =
     (let grant = dict_get (cp_grants s)
            (agent_call_grant_key user_id grant_scope main_agent_id target_agent_id
               conversation_scope capability_scope target_config_version)
      in if agent_call_grant_is_active fromiso now grant then grant else None)"

end
