(* ===== verification/ControlSubmit.thy ===== *)
theory ControlSubmit
  imports ControlState
begin

text \<open>
  Submitting a run to \<open>AgentRunControlPlane\<close>
  (\<open>src/labrastro_server/services/agent_runtime/control_plane.py\<close>): the request is resolved against
  the runtime snapshot and checked against the runtime policy, the capabilities of the snapshot are
  put into its metadata, and the run is stored with its first activation, its relation and its
  first events. Also the metadata a worker receives with a run, and the rendering of its prompt.
\<close>

section \<open>Resolving a request\<close>

text \<open>\<open>given or parse(raw) or fallback\<close> for an optional member.\<close>

definition member_or ::
  "'a option \<Rightarrow> (pyval \<Rightarrow> 'a option result) \<Rightarrow> pyval \<Rightarrow> 'a \<Rightarrow> 'a result" where
  "member_or given parse raw fallback =
     (case given of
        Some x \<Rightarrow> Inr x
      | None \<Rightarrow> res_bind (parse raw) (\<lambda>parsed.
          Inr (case parsed of Some x \<Rightarrow> x | None \<Rightarrow> fallback)))"

definition inherit_from_parent :: "agent_run option \<Rightarrow> agent_run_request \<Rightarrow> agent_run_request" where
  "inherit_from_parent parent r =
     (case parent of
        None \<Rightarrow> r
      | Some p \<Rightarrow> r\<lparr>
          sq_runtime_profile_id := (case sq_runtime_profile_id r of
             None \<Rightarrow> ar_runtime_profile_id p | Some x \<Rightarrow> Some x),
          sq_executor := (case sq_executor r of None \<Rightarrow> ar_executor p | Some x \<Rightarrow> Some x),
          sq_execution_location := (case sq_execution_location r of
             None \<Rightarrow> ar_execution_location p | Some x \<Rightarrow> Some x),
          sq_workdir := (case sq_workdir r of None \<Rightarrow> ar_workdir p | Some x \<Rightarrow> Some x)\<rparr>)"

definition snapshot_entry :: "pyobj \<Rightarrow> string \<Rightarrow> string \<Rightarrow> pyobj" where
  "snapshot_entry snapshot table key = dict_value (pget (dict_value (pget snapshot table)) key)"

text \<open>The agent of the request: its configuration, which must admit the source of the run.\<close>

definition resolve_agent_config :: "pyobj \<Rightarrow> agent_run_request \<Rightarrow> agent_config option result" where
  "resolve_agent_config raw_agent r =
     (if raw_agent = [] then Inr None
      else res_bind (agent_config_load (sq_agent_id r) (PDict raw_agent)) (\<lambda>config.
        let flow = system_flow_for_source (sq_source r)
        in if ag_visibility config \<noteq> ''user'' \<and> \<not> allows_system_flow config flow
           then Inl (ValueError (''agent is restricted to system flows: '' @ sq_agent_id r @
                       '' does not allow '' @ flow))
           else Inr (Some config)))"

definition resolve_request_against_snapshot ::
  "pyobj \<Rightarrow> agent_run option \<Rightarrow> agent_run_request \<Rightarrow> agent_run_request result" where
  "resolve_request_against_snapshot snapshot parent request =
     (let r = inherit_from_parent parent request;
          raw_agent = snapshot_entry snapshot ''agents'' (sq_agent_id r)
      in res_bind (resolve_agent_config raw_agent r) (\<lambda>config.
      let agent_profile_id = str_strip (str_or_empty (pget raw_agent ''runtime_profile''));
          profile_id = str_strip (text_or (sq_runtime_profile_id r) agent_profile_id);
          raw_profile = (if profile_id = [] then []
                         else snapshot_entry snapshot ''runtime_profiles'' profile_id)
      in if raw_agent \<noteq> [] \<and> profile_id = [] then
           Inl (ValueError (''agent '' @ sq_agent_id r @ '' requires a runtime_profile''))
         else if profile_id \<noteq> [] \<and> raw_profile = [] then
           Inl (ValueError (''runtime profile not found: '' @ profile_id))
         else
           res_bind (member_or (sq_executor r) optional_executor (pget raw_profile ''executor'')
                       Exec_REULEAUXCODER) (\<lambda>executor.
           res_bind (member_or (sq_execution_location r) optional_location
                       (pget raw_profile ''execution_location'') Loc_REMOTE_SERVER) (\<lambda>location.
           res_bind (case sq_worker_kind r of Some k \<Rightarrow> Inr k
                     | None \<Rightarrow> worker_kind_for_runtime raw_profile location) (\<lambda>worker_kind.
           res_bind (case sq_model_request_origin r of Some og \<Rightarrow> Inr og
                     | None \<Rightarrow> model_request_origin_for_runtime raw_profile executor worker_kind)
             (\<lambda>origin.
           res_bind (member_or (sq_worktree_role r) optional_worktree_role
                       (pget raw_profile ''worktree_role'') Role_TARGET) (\<lambda>role.
           res_bind (member_or (sq_publish_policy r) optional_publish_policy
                       (pget raw_profile ''publish_policy'') Publish_NEVER) (\<lambda>publish.
           let binding = agent_model_binding raw_agent;
               metadata = (if binding = [] then sq_metadata r
                 else dict_setdefault ''model_binding'' (PDict binding) (sq_metadata r));
               model = (if binding \<noteq> [] \<and> sq_model r = None
                 then Some (py_str (pget binding ''model'')) else sq_model r)
           in
           res_bind (validate_agent_run_runtime_policy executor (Some worker_kind) (Some location)
                       origin (sq_source r) (sq_agent_id r) config) (\<lambda>_.
           let model = (if model = None \<and> pget raw_profile ''model'' \<noteq> PNone
                 then Some (py_str (pget raw_profile ''model'')) else model);
               r = r\<lparr>sq_runtime_profile_id := str_opt profile_id, sq_executor := Some executor,
                      sq_execution_location := Some location, sq_worker_kind := Some worker_kind,
                      sq_model_request_origin := Some origin, sq_worktree_role := Some role,
                      sq_publish_policy := Some publish, sq_metadata := metadata,
                      sq_model := model\<rparr>
           in Inr (case parent of
                None \<Rightarrow> r
              | Some p \<Rightarrow>
                  if sq_executor_session_id r = None \<and> can_resume_from_parent r p
                  then r\<lparr>sq_executor_session_id := ar_executor_session_id p\<rparr> else r))))))))))"

section \<open>Metadata from the snapshot\<close>

definition metadata_with_snapshot_capabilities ::
  "pyobj \<Rightarrow> string \<Rightarrow> agent_run_source \<Rightarrow> string option \<Rightarrow> pyobj \<Rightarrow> pyobj" where
  "metadata_with_snapshot_capabilities snapshot agent_id source runtime_profile_id metadata =
     (let raw_agent = snapshot_entry snapshot ''agents'' agent_id;
          resolved = dict_value (pget raw_agent ''resolved_capabilities'');
          effective = dict_value (pget raw_agent ''effective_capabilities'');
          overlay = dict_value (pget resolved ''capability_overlay'');
          metadata = (if resolved = [] then metadata
            else dict_setdefault ''resolved_capabilities'' (PDict resolved) metadata);
          metadata = (if overlay = [] then metadata
            else dict_setdefault ''capability_overlay'' (PDict overlay) metadata);
          metadata = (if effective = [] then metadata
            else dict_setdefault ''execution_policies''
                   (pget_or effective ''execution_policies'' (PList []))
                   (dict_setdefault ''effective_capabilities'' (PDict effective) metadata))
      in dict_setdefault ''permission_context''
           (PDict [(''agent_id'', PStr agent_id),
                   (''source'', PStr (agent_run_source_value source)),
                   (''interactive'', PBool (source = Source_CHAT)),
                   (''runtime_profile_id'', PStr (text_or runtime_profile_id
                      (str_or_empty (pget raw_agent ''runtime_profile'')))),
                   (''effective_capabilities'', PDict effective),
                   (''resolved_capabilities'', PDict resolved)])
           metadata)"

definition session_run_binding_is_observable_active :: "control_plane \<Rightarrow> session_run_binding \<Rightarrow> bool"
  where
  "session_run_binding_is_observable_active s binding =
     (if sb_status binding \<noteq> SBind_ACTIVE then False
      else (let task_id = str_strip (text_or (Some (sb_agent_run_id binding))
                            (sb_target_agent_run_id binding))
            in if task_id = [] then False
               else case task_of s task_id of
                   None \<Rightarrow> False
                 | Some task \<Rightarrow> \<not> agent_run_closes_session_run_binding task))"

definition session_run_binding_metadata_for_task ::
  "control_plane \<Rightarrow> agent_run \<Rightarrow> (string, string) pydict" where
  "session_run_binding_metadata_for_task s task =
     (let session_run_id = str_strip (ar_owner_session_run_id task)
      in if session_run_id = [] then []
         else case List.find (\<lambda>b. sb_session_run_id b = session_run_id \<and>
                  session_run_binding_is_observable_active s b \<and>
                  (sb_agent_run_id b = ar_id task \<or> sb_target_agent_run_id b = ar_id task))
                (dict_values (cp_session_bindings s)) of
              None \<Rightarrow> []
            | Some binding \<Rightarrow>
                (let branch_binding_id = str_strip (sb_branch_binding_id binding);
                     agent_run_id = str_strip (sb_agent_run_id binding)
                 in if branch_binding_id = [] \<or> agent_run_id = [] then []
                    else [(''session_run_id'', sb_session_run_id binding),
                          (''session_run_binding_id'', sb_id binding),
                          (''branch_binding_id'', branch_binding_id),
                          (''binding_agent_run_id'', agent_run_id),
                          (''parent_branch_binding_id'', sb_parent_branch_binding_id binding)]))"

section \<open>Prompt and metadata of a claimed run\<close>

definition text_pairs :: "pyobj \<Rightarrow> (string, string) pydict" where
  "text_pairs d = map (\<lambda>(k, v). (k, py_str v)) d"

definition render_prompt_for_task :: "pyobj \<Rightarrow> agent_run \<Rightarrow> executor_type \<Rightarrow> rendered_prompt" where
  "render_prompt_for_task snapshot task executor =
     (let raw_agent = snapshot_entry snapshot ''agents'' (ar_agent_id task);
          profile_id = text_or (ar_runtime_profile_id task)
            (str_or_empty (pget raw_agent ''runtime_profile''));
          raw_profile = snapshot_entry snapshot ''runtime_profiles'' profile_id;
          prompt = dict_value (pget raw_agent ''prompt'');
          profile_mcp = dict_value (pget raw_profile ''mcp'');
          resolved = dict_value (pget raw_agent ''resolved_capabilities'');
          agent_md = pget prompt ''agent_md''
      in render_prompt (executor_type_value executor)
           \<lparr>cx_agent_id = ar_agent_id task,
            cx_agent_name = str_or_empty (pget raw_agent ''name''),
            cx_agent_md = (if agent_md = PNone then None else Some (py_str agent_md)),
            cx_system_append = str_or_empty (pget prompt ''system_append''),
            cx_dispatch = dict_value (pget raw_agent ''dispatch''),
            cx_capability_refs = string_list_from (pget raw_agent ''capability_refs''),
            cx_resolved_capabilities = resolved,
            cx_mcp_servers = string_list_from (pget profile_mcp ''servers'') @
              string_list_from (pget resolved ''mcp_servers''),
            cx_credential_refs = dict_update
              (text_pairs (dict_value (pget raw_profile ''credential_refs'')))
              (text_pairs (dict_value (pget raw_agent ''credential_refs'')))\<rparr>)"

text \<open>\<open>text = str(metadata.get(key) or "").strip(); if text: metadata.setdefault(key, text)\<close>.\<close>

definition setdefault_text :: "pyobj \<Rightarrow> string \<Rightarrow> pyobj \<Rightarrow> pyobj" where
  "setdefault_text source key metadata =
     (let txt = str_strip (str_or_empty (pget source key))
      in if txt = [] then metadata else dict_setdefault key (PStr txt) metadata)"

definition setdefault_member :: "string \<Rightarrow> ('a \<Rightarrow> string) \<Rightarrow> 'a option \<Rightarrow> pyobj \<Rightarrow> pyobj" where
  "setdefault_member key val member metadata =
     (case member of None \<Rightarrow> metadata | Some m \<Rightarrow> dict_setdefault key (PStr (val m)) metadata)"

definition executor_metadata :: "control_plane \<Rightarrow> agent_run \<Rightarrow> pyobj" where
  "executor_metadata s task =
     (let metadata = fold (\<lambda>(key, txt) md.
              if txt = [] then md else dict_setdefault key (PStr txt) md)
            (session_run_binding_metadata_for_task s task) (ar_metadata task);
          executor = (case ar_executor task of None \<Rightarrow> Exec_REULEAUXCODER | Some e \<Rightarrow> e);
          metadata = setdefault_member ''worktree_role'' worktree_role_value
            (ar_worktree_role task) metadata;
          metadata = setdefault_member ''publish_policy'' publish_policy_value
            (ar_publish_policy task) metadata;
          metadata = fold (setdefault_text metadata)
            [''worker_kind'', ''model_request_origin'', ''worktree_role'', ''publish_policy'']
            metadata;
          rendered = render_prompt_for_task (cp_runtime_snapshot s) task executor;
          metadata = dict_setdefault ''prompt_files''
            (PDict (map (\<lambda>(k, v). (k, PStr v)) (rp_files rendered))) metadata;
          metadata = dict_setdefault ''prompt_metadata'' (PDict (rp_metadata rendered)) metadata;
          system_prompt = pget (rp_metadata rendered) ''system_prompt'';
          metadata = (if truthy system_prompt
            then dict_setdefault ''system_prompt'' system_prompt metadata else metadata)
      in metadata_with_snapshot_capabilities (cp_runtime_snapshot s) (ar_agent_id task)
           (ar_source task) (ar_runtime_profile_id task) metadata)"

definition session_metadata :: "control_plane \<Rightarrow> agent_run \<Rightarrow> pyobj \<Rightarrow> pyobj" where
  "session_metadata s task metadata = dict_update (executor_metadata s task) metadata"

section \<open>Submitting\<close>

definition setdefault_some :: "string \<Rightarrow> string option \<Rightarrow> pyobj \<Rightarrow> pyobj" where
  "setdefault_some key txt metadata =
     (if opt_str txt = [] then metadata else dict_setdefault key (opt_val txt) metadata)"

definition request_metadata :: "agent_run_request \<Rightarrow> pyobj" where
  "request_metadata r =
     (let metadata = setdefault_some ''sandbox_id'' (sq_sandbox_id r) (sq_metadata r);
          metadata = setdefault_some ''sandbox_session_id'' (sq_sandbox_session_id r) metadata;
          metadata = setdefault_some ''workspace_ref'' (sq_workspace_ref r) metadata;
          metadata = (case sq_model r of None \<Rightarrow> metadata
            | Some m \<Rightarrow> dict_setdefault ''model'' (PStr m) metadata);
          metadata = (if sq_budget r = [] then metadata
            else dict_setdefault ''budget'' (PDict (int_pairs (sq_budget r))) metadata);
          metadata = setdefault_member ''worker_kind'' worker_kind_value (sq_worker_kind r) metadata;
          metadata = setdefault_member ''model_request_origin'' model_request_origin_value
            (sq_model_request_origin r) metadata;
          metadata = setdefault_member ''worktree_role'' worktree_role_value
            (sq_worktree_role r) metadata
      in setdefault_member ''publish_policy'' publish_policy_value (sq_publish_policy r) metadata)"

text \<open>The constructor call \<open>AgentRun(...)\<close>.\<close>

definition submitted_run :: "string \<Rightarrow> agent_run_request \<Rightarrow> string \<Rightarrow> pyobj \<Rightarrow> agent_run result" where
  "submitted_run task_id r activation_id metadata =
     agent_run_post_init None None
       ((new_issue_run task_id (sq_agent_id r))\<lparr>
          ar_owner_session_run_id := sq_owner_session_run_id r,
          ar_source := sq_source r, ar_trigger_mode := sq_trigger_mode r,
          ar_runtime_profile_id := sq_runtime_profile_id r, ar_executor := sq_executor r,
          ar_execution_location := sq_execution_location r,
          ar_worktree_role := sq_worktree_role r, ar_publish_policy := sq_publish_policy r,
          ar_executor_session_id := sq_executor_session_id r,
          ar_current_activation_id := Some activation_id, ar_workdir := sq_workdir r,
          ar_sandbox_id := sq_sandbox_id r, ar_sandbox_session_id := sq_sandbox_session_id r,
          ar_workspace_ref := sq_workspace_ref r, ar_metadata := metadata\<rparr>)"

text \<open>Storing the run with its activation and its relation, and the events of that.\<close>

definition store_submitted ::
  "agent_run \<Rightarrow> agent_run_activation \<Rightarrow> agent_run_relation option \<Rightarrow> control_plane \<Rightarrow> control_plane"
  where
  "store_submitted task activation relation s =
     (let task_id = ar_id task;
          s = s\<lparr>cp_states := dict_set task_id
                   \<lparr>tl_task = task, tl_artifacts = [], tl_issue_status = Issue_OPEN\<rparr> (cp_states s),
                cp_events := dict_set task_id [] (cp_events s)\<rparr>;
          s = put_activation activation s;
          s = (case relation of None \<Rightarrow> s
               | Some rel \<Rightarrow> s\<lparr>cp_relations := dict_set (rl_id rel) rel (cp_relations s)\<rparr>);
          s = append_event task_id ''queued'' [(''agent_run'', PDict (agent_run_to_dict task))] s;
          s = (case relation of None \<Rightarrow> s
               | Some rel \<Rightarrow>
                   (let payload = [(''relation'', PDict (relation_to_dict rel))]
                    in append_if_known (rl_owner_agent_run_id rel) ''agent_run_relation_created'' payload
                         (append_event task_id ''agent_run_relation_created'' payload s)));
          s = append_event task_id ''activation_queued''
                [(''activation'', PDict (activation_to_dict activation))] s
      in if opt_str (ar_sandbox_session_id task) = [] then s
         else append_event task_id ''sandbox_session_started''
                [(''sandbox_id'', opt_val (ar_sandbox_id task)),
                 (''sandbox_session_id'', opt_val (ar_sandbox_session_id task)),
                 (''workspace_ref'', opt_val (ar_workspace_ref task)),
                 (''workdir'', opt_val (ar_workdir task))] s)"

definition submit_agent_run ::
  "cp_env \<Rightarrow> agent_run_request \<Rightarrow> string option \<Rightarrow> control_plane \<Rightarrow> string step" where
  "submit_agent_run env request given_id s0 =
     (let (task_id, s) = id_or_new env ''task'' given_id s0 in
      pure_step s (resolve_request_against_snapshot (cp_runtime_snapshot s) None request) (\<lambda>s r.
      let fresh = env_uuid env (cp_uuids s);
          s = s\<lparr>cp_uuids := Suc (cp_uuids s)\<rparr>;
          r = ensure_reuleauxcoder_executor_session fresh task_id r
      in pure_step s (initial_activation_for_request (request_metadata r) task_id r)
        (\<lambda>s (metadata, activation).
      let metadata = metadata_with_snapshot_capabilities (cp_runtime_snapshot s) (sq_agent_id r)
            (sq_source r) (sq_runtime_profile_id r) metadata
      in pure_step s (relation_from_submit_request task_id r) (\<lambda>s relation.
         pure_step s (submitted_run task_id r (ac_id activation) metadata) (\<lambda>s task.
         (store_submitted task activation relation s, Inr task_id))))))"

end
