(* ===== verification/ControlClaim.thy ===== *)
theory ControlClaim
  imports ControlSubmit
begin

text \<open>
  Handing runs to workers, in \<open>AgentRunControlPlane\<close>
  (\<open>src/labrastro_server/services/agent_runtime/control_plane.py\<close>): claiming a queued run, the
  heartbeat that keeps the lease of a claim, the recovery of runs whose lease has expired, and the
  steering messages that travel to the worker with the heartbeat.

  A claim is attempted once (\<open>_claim_task_once\<close>); the waiting loop around it only repeats the
  attempt. The executors and the kind of the worker are already members of their enumerations.
\<close>

section \<open>Steering messages\<close>

definition update_steers ::
  "string \<Rightarrow> (activation_steer \<Rightarrow> activation_steer) \<Rightarrow> control_plane \<Rightarrow> control_plane" where
  "update_steers task_id f s =
     (case dict_get (cp_steers s) task_id of
        None \<Rightarrow> s
      | Some steers \<Rightarrow> s\<lparr>cp_steers := dict_set task_id (map f steers) (cp_steers s)\<rparr>)"

definition steer_event :: "string \<Rightarrow> string \<Rightarrow> activation_steer \<Rightarrow> string \<times> pyobj" where
  "steer_event event_type activation_id steer =
     (event_type,
      [(''activation_id'', PStr activation_id),
       (''steer_id'', PStr (st_id steer)),
       (''steer'', PDict (steer_to_dict steer))])"

text \<open>The steers that \<open>p\<close> selects are changed by \<open>f\<close>, each with an event.\<close>

definition change_steers ::
  "string \<Rightarrow> string \<Rightarrow> string \<Rightarrow> (activation_steer \<Rightarrow> bool) \<Rightarrow> (activation_steer \<Rightarrow> activation_steer) \<Rightarrow>
   control_plane \<Rightarrow> control_plane" where
  "change_steers event_type task_id activation_id p f s =
     append_events task_id
       (map (\<lambda>steer. steer_event event_type activation_id (f steer)) (filter p (steers_of s task_id)))
       (update_steers task_id (\<lambda>steer. if p steer then f steer else steer) s)"

definition mark_activation_steers_delivered ::
  "cp_env \<Rightarrow> string \<Rightarrow> string \<Rightarrow> string list \<Rightarrow> string \<Rightarrow> string \<Rightarrow> control_plane \<Rightarrow> control_plane" where
  "mark_activation_steers_delivered env task_id activation_id steer_ids request_id worker_id s =
     (let delivered_ids = filter (\<lambda>item. str_strip item \<noteq> []) steer_ids
      in if delivered_ids = [] then s
         else change_steers ''activation_steer_delivered'' task_id activation_id
           (\<lambda>steer. st_id steer \<in> set delivered_ids \<and> st_activation_id steer = activation_id \<and>
              st_status steer \<in> {Steer_QUEUED, Steer_DELIVERING})
           (\<lambda>steer. steer\<lparr>st_status := Steer_DELIVERED, st_delivered_at := Some (env_iso env),
              st_metadata := dict_update (st_metadata steer)
                [(''delivered_by_request_id'', PStr request_id),
                 (''delivered_by_worker_id'', PStr worker_id)]\<rparr>) s)"

definition steer_for_delivery :: "string \<Rightarrow> activation_steer \<Rightarrow> bool" where
  "steer_for_delivery activation_id steer \<longleftrightarrow>
     st_activation_id steer = activation_id \<and> st_status steer = Steer_QUEUED"

definition delivering :: "string \<Rightarrow> string \<Rightarrow> activation_steer \<Rightarrow> activation_steer" where
  "delivering request_id worker_id steer =
     steer\<lparr>st_status := Steer_DELIVERING,
           st_metadata := dict_update (st_metadata steer)
             [(''delivering_request_id'', PStr request_id),
              (''delivering_worker_id'', PStr worker_id)]\<rparr>"

definition claim_activation_steers_for_delivery ::
  "string \<Rightarrow> string \<Rightarrow> string \<Rightarrow> string \<Rightarrow> control_plane \<Rightarrow> activation_steer list \<times> control_plane"
  where
  "claim_activation_steers_for_delivery task_id activation_id request_id worker_id s =
     (map (delivering request_id worker_id)
        (filter (steer_for_delivery activation_id) (steers_of s task_id)),
      change_steers ''activation_steer_delivering'' task_id activation_id
        (steer_for_delivery activation_id) (delivering request_id worker_id) s)"

definition requeue_delivering_activation_steers ::
  "string \<Rightarrow> string \<Rightarrow> string \<Rightarrow> control_plane \<Rightarrow> control_plane" where
  "requeue_delivering_activation_steers task_id activation_id request_id s =
     (if activation_id = [] \<or> request_id = [] then s
      else update_steers task_id (\<lambda>steer.
        if st_activation_id steer = activation_id \<and> st_status steer = Steer_DELIVERING \<and>
           str_or_empty (pget (st_metadata steer) ''delivering_request_id'') = request_id
        then steer\<lparr>st_status := Steer_QUEUED,
                   st_metadata := dict_pop ''delivering_worker_id''
                     (dict_pop ''delivering_request_id'' (st_metadata steer))\<rparr>
        else steer) s)"

definition append_activation_steer ::
  "cp_env \<Rightarrow> string \<Rightarrow> activation_steer_source \<Rightarrow> pyobj \<Rightarrow> pyobj \<Rightarrow> string option \<Rightarrow> control_plane \<Rightarrow>
   activation_steer step" where
  "append_activation_steer env task_id source payload metadata given_id s0 =
     (let (steer_id, s) = id_or_new env ''steer'' given_id s0 in
      pure_step s (normalize_activation_steer_metadata metadata source steer_id) (\<lambda>s metadata_value.
      pure_step s (task_locked s task_id) (\<lambda>s task.
      let activation_id = opt_str (ar_current_activation_id task);
          claim = active_claim_for_task s task_id
      in if ar_status task \<noteq> Run_RUNNING then
           (s, Inl (ValueError ''only active AgentRun activations can be steered''))
         else if pget (ar_metadata task) ''activation_steer_supported'' = PBool False then
           (s, Inl (ValueError ''activation steer is not supported by this executor''))
         else if activation_id = [] \<or> \<not> dict_has (cp_activations s) activation_id then
           (s, Inl (ValueError ''active AgentRun activation is required''))
         else if (case claim of None \<Rightarrow> True | Some lease \<Rightarrow> ls_activation_id lease \<noteq> activation_id)
         then (s, Inl (ValueError ''active worker claim is required''))
         else pure_step s (validate_activation_steer_payload (PDict payload)) (\<lambda>s _.
           case List.find (\<lambda>existing. st_activation_id existing = activation_id \<and>
                  activation_steer_idempotency_scope (st_metadata existing) =
                    activation_steer_idempotency_scope metadata_value) (steers_of s task_id) of
             Some existing \<Rightarrow>
               if canonical_json (PDict (st_payload existing)) \<noteq> canonical_json (PDict payload)
               then (s, Inl (ValueError ''activation_steer_idempotency_conflict''))
               else (s, Inr existing)
           | None \<Rightarrow>
               (let steer = \<lparr>st_id = steer_id, st_activation_id = activation_id, st_source = source,
                      st_payload = payload, st_created_at = Some (env_iso env),
                      st_delivered_at = None, st_status = Steer_QUEUED,
                      st_metadata = metadata_value\<rparr>;
                    s = s\<lparr>cp_steers := dict_set task_id (steers_of s task_id @ [steer])
                            (cp_steers s)\<rparr>;
                    (event_type, event) = steer_event ''activation_steer_queued'' activation_id steer
                in (append_event task_id event_type event s, Inr steer))))))"

section \<open>Expired leases\<close>

text \<open>\<open>self._activations.get(id) or _activation_from_task(task, activation_id=id)\<close>.\<close>

definition activation_or_from_task ::
  "control_plane \<Rightarrow> agent_run \<Rightarrow> string \<Rightarrow> agent_run_activation" where
  "activation_or_from_task s task activation_id =
     (case dict_get (cp_activations s) activation_id of
        Some activation \<Rightarrow> activation
      | None \<Rightarrow> activation_from_task task (Some activation_id) None None [] None None None None
                  None [])"

text \<open>The activation a lease stands for.\<close>

definition lease_activation_id :: "claim_lease option \<Rightarrow> agent_run \<Rightarrow> string" where
  "lease_activation_id lease task =
     text_or (map_option ls_activation_id lease) (opt_str (ar_current_activation_id task))"

text \<open>One iteration of the loop over the leases.\<close>

definition recover_lease ::
  "int \<Rightarrow> string \<Rightarrow> claim_lease \<Rightarrow> control_plane \<times> string list \<Rightarrow> control_plane \<times> string list" where
  "recover_lease current request_id lease acc =
     (let (s, recovered) = acc; task_id = ls_task_id lease in
      if ls_lease_deadline lease > current then acc
      else case task_of s task_id of
        None \<Rightarrow> (drop_claim request_id s, recovered)
      | Some task \<Rightarrow>
          if ar_status task \<in> {Run_DISPATCHED, Run_RUNNING, Run_WAITING} then
            (let s = update_task task_id (set_status Run_QUEUED) s;
                 task = set_status Run_QUEUED task;
                 activation_id = lease_activation_id (Some lease) task;
                 activation = activation_with_runtime_state (Some Act_QUEUED) None None None None
                   (activation_or_from_task s task activation_id);
                 s = update_task task_id
                   (\<lambda>t. t\<lparr>ar_current_activation_id := Some (ac_id activation)\<rparr>) s;
                 s = put_activation activation s;
                 shown_id = (if activation_id = [] then ac_id activation else activation_id);
                 s = requeue_delivering_activation_steers task_id shown_id request_id s;
                 s = drop_cancel_request task_id s;
                 s = append_event task_id ''lease_expired''
                   [(''request_id'', PStr request_id),
                    (''activation_id'', PStr shown_id),
                    (''worker_id'', PStr (ls_worker_id lease)),
                    (''peer_id'', PStr (ls_peer_id lease)),
                    (''activation'', PDict (activation_to_dict activation))] s
             in (drop_claim request_id s, recovered @ [task_id]))
          else (drop_claim request_id s, recovered))"

definition recover_stale_agent_runs :: "int \<Rightarrow> control_plane \<Rightarrow> control_plane \<times> string list" where
  "recover_stale_agent_runs current s =
     fold (\<lambda>(request_id, lease). recover_lease current request_id lease) (cp_leases s) (s, [])"

section \<open>Claiming\<close>

record claim_offer =
  co_worker_id :: string
  co_worker_kind :: "worker_kind option"
  co_executors :: "executor_type list"
  co_peer_id :: "string option"
  co_peer_features :: "string list option"
  co_workspace_root :: "string option"
  co_lease_sec :: int

definition offer_lease_sec :: "claim_offer \<Rightarrow> int" where
  "offer_lease_sec offer = max 1 (if co_lease_sec offer = 0 then 15 else co_lease_sec offer)"

text \<open>The loop over the stored runs up to the one it takes.\<close>

fun claim_candidate ::
  "claim_offer \<Rightarrow> pyobj \<Rightarrow> int \<Rightarrow> agent_run list \<Rightarrow> agent_run list \<Rightarrow> agent_run option result" where
  "claim_candidate offer snapshot max_running running [] = Inr None"
| "claim_candidate offer snapshot max_running running (task # tasks) =
     (let rest = claim_candidate offer snapshot max_running running tasks in
      if ar_status task \<noteq> Run_QUEUED then rest
      else if co_executors offer \<noteq> [] \<and> ar_executor task \<notin> Some ` set (co_executors offer) then rest
      else res_bind (worker_matches_agent_run task (co_worker_kind offer) (co_peer_features offer)
                       (co_workspace_root offer)) (\<lambda>matches.
        if \<not> matches then rest
        else res_bind (runtime_slots_allow_agent_run_claim running task snapshot max_running)
          (\<lambda>allowed. if allowed then Inr (Some task) else rest)))"

definition claimed_executor_request ::
  "agent_run \<Rightarrow> agent_run_activation \<Rightarrow> pyobj \<Rightarrow> executor_run_request result" where
  "claimed_executor_request task activation metadata =
     res_bind (text_member worker_kind_value (pget metadata ''worker_kind'')) (\<lambda>worker_kind.
     res_bind (text_member model_request_origin_value (pget metadata ''model_request_origin''))
       (\<lambda>origin.
     let model = pget (ar_metadata task) ''model''
     in Inr \<lparr>rq_task_id = ar_id task, rq_agent_id = ar_agent_id task,
             rq_executor = (case ar_executor task of None \<Rightarrow> Exec_REULEAUXCODER | Some e \<Rightarrow> e),
             rq_prompt = ac_prompt activation,
             rq_execution_location = (case ar_execution_location task of
                None \<Rightarrow> Loc_REMOTE_SERVER | Some l \<Rightarrow> l),
             rq_runtime_profile_id = ar_runtime_profile_id task,
             rq_worker_kind = worker_kind, rq_model_request_origin = origin,
             rq_worktree_role = ar_worktree_role task, rq_publish_policy = ar_publish_policy task,
             rq_workdir = ar_workdir task,
             rq_branch = str_opt (worktree_branch_for_activation (Some activation)),
             rq_model = (if model = PNone then None else Some (py_str model)),
             rq_executor_session_id = ar_executor_session_id task,
             rq_budget = dict_value (pget metadata ''budget''),
             rq_metadata = metadata\<rparr>))"

definition put_claim :: "string \<Rightarrow> activation_claim \<Rightarrow> claim_lease \<Rightarrow> control_plane \<Rightarrow> control_plane"
  where
  "put_claim request_id claim lease s =
     s\<lparr>cp_claims := dict_set request_id claim (cp_claims s),
       cp_leases := dict_set request_id lease (cp_leases s)\<rparr>"

definition claim_event_payload ::
  "claim_offer \<Rightarrow> string \<Rightarrow> agent_run_activation \<Rightarrow> pyobj" where
  "claim_event_payload offer request_id activation =
     [(''worker_id'', PStr (co_worker_id offer)),
      (''peer_id'', opt_val (co_peer_id offer)),
      (''worker_kind'', member_val worker_kind_value (co_worker_kind offer)),
      (''request_id'', PStr request_id),
      (''activation_id'', PStr (ac_id activation)),
      (''activation'', PDict (activation_to_dict activation)),
      (''lease_sec'', PInt (offer_lease_sec offer))]"

definition claim_lease_of ::
  "cp_env \<Rightarrow> claim_offer \<Rightarrow> string \<Rightarrow> agent_run_activation \<Rightarrow> claim_lease" where
  "claim_lease_of env offer task_id activation =
     \<lparr>ls_task_id = task_id, ls_activation_id = ac_id activation, ls_worker_id = co_worker_id offer,
      ls_peer_id = opt_str (co_peer_id offer), ls_last_heartbeat_at = env_now env,
      ls_lease_deadline = env_now env + offer_lease_sec offer,
      ls_lease_sec = offer_lease_sec offer\<rparr>"

text \<open>What happens to the run that is taken.\<close>

definition dispatch_claim ::
  "cp_env \<Rightarrow> claim_offer \<Rightarrow> agent_run \<Rightarrow> control_plane \<Rightarrow> activation_claim option step" where
  "dispatch_claim env offer task s =
     (let task_id = ar_id task;
          s = update_task task_id (set_status Run_DISPATCHED) s;
          task = set_status Run_DISPATCHED task;
          (request_id, s) = new_id env ''claim'' s;
          activation = activation_with_runtime_state (Some Act_DISPATCHED) (Some request_id)
            (Some (co_worker_id offer)) None None
            (case current_activation s task of
               Some a \<Rightarrow> a
             | None \<Rightarrow> activation_from_task task None None None [] None None None None None []);
          s = update_task task_id (\<lambda>t. t\<lparr>ar_current_activation_id := Some (ac_id activation)\<rparr>) s;
          task = task\<lparr>ar_current_activation_id := Some (ac_id activation)\<rparr>;
          metadata = dict_setdefault ''agent_run_id'' (PStr task_id)
            (dict_setdefault ''activation_id'' (PStr (ac_id activation)) (executor_metadata s task))
      in pure_step s (claimed_executor_request task activation metadata) (\<lambda>s request.
      let claim = \<lparr>cl_request_id = request_id, cl_worker_id = co_worker_id offer,
            cl_task_id = task_id, cl_executor_request = request,
            cl_runtime_snapshot = cp_runtime_snapshot s, cl_activation = activation\<rparr>;
          s = put_activation activation s;
          s = put_claim request_id claim (claim_lease_of env offer task_id activation) s
      in (append_event task_id ''claimed'' (claim_event_payload offer request_id activation) s,
          Inr (Some claim))))"

definition claim_agent_run_activation ::
  "cp_env \<Rightarrow> claim_offer \<Rightarrow> control_plane \<Rightarrow> activation_claim option step" where
  "claim_agent_run_activation env offer s0 =
     (let s = fst (recover_stale_agent_runs (env_now env) s0) in
      pure_step s (claim_candidate offer (cp_runtime_snapshot s) (cp_max_running_tasks s)
                     (running_tasks s) (map tl_task (dict_values (cp_states s)))) (\<lambda>s candidate.
        case candidate of
          None \<Rightarrow> (s, Inr None)
        | Some task \<Rightarrow> dispatch_claim env offer task s))"

section \<open>Heartbeats\<close>

definition heartbeat_refused :: "bool \<Rightarrow> string \<Rightarrow> pyobj" where
  "heartbeat_refused cancel_requested reason =
     [(''ok'', PBool False), (''cancel_requested'', PBool cancel_requested),
      (''reason'', PStr reason), (''lease_sec'', PInt 0)]"

definition lease_sec_or :: "int option \<Rightarrow> claim_lease \<Rightarrow> int" where
  "lease_sec_or given lease =
     max 1 (if given \<noteq> None \<and> given \<noteq> Some 0 then the given
            else if ls_lease_sec lease \<noteq> 0 then ls_lease_sec lease else 15)"

definition renew_lease :: "cp_env \<Rightarrow> string \<Rightarrow> int \<Rightarrow> claim_lease \<Rightarrow> control_plane \<Rightarrow> control_plane" where
  "renew_lease env request_id lease_sec lease s =
     s\<lparr>cp_leases := dict_set request_id
         (lease\<lparr>ls_last_heartbeat_at := env_now env,
                ls_lease_deadline := env_now env + lease_sec, ls_lease_sec := lease_sec\<rparr>)
         (cp_leases s)\<rparr>"

definition heartbeat_agent_run_activation ::
  "cp_env \<Rightarrow> string \<Rightarrow> string \<Rightarrow> string \<Rightarrow> string \<Rightarrow> string option \<Rightarrow> int option \<Rightarrow> string list \<Rightarrow>
   control_plane \<Rightarrow> control_plane \<times> pyobj" where
  "heartbeat_agent_run_activation env request_id task_id activation_id worker_id peer_id lease_sec
       delivered_steer_ids s =
     (case task_of s task_id of
        None \<Rightarrow> (s, heartbeat_refused True ''agent_run_not_found'')
      | Some task \<Rightarrow>
     (case dict_get (cp_leases s) request_id of
        None \<Rightarrow> (s, heartbeat_refused (dict_has (cp_cancel_requests s) task_id)
                     (case dict_get (cp_cancel_requests s) task_id of
                        None \<Rightarrow> ''claim_not_found'' | Some r \<Rightarrow> r))
      | Some lease \<Rightarrow>
     (let (ok, refusal) = validate_activation_claim_owner s request_id task_id (Some activation_id)
            worker_id peer_id
      in if \<not> ok then (s, heartbeat_refused True refusal)
         else
      let effective = lease_sec_or lease_sec lease;
          s = renew_lease env request_id effective lease s;
          reason = opt_str (dict_get (cp_cancel_requests s) task_id);
          s = (if ar_status task = Run_DISPATCHED
               then update_task task_id (set_status Run_RUNNING) s else s);
          task = (if ar_status task = Run_DISPATCHED then set_status Run_RUNNING task else task);
          activation_id = lease_activation_id (Some lease) task;
          s = (if activation_id = [] then s
               else s\<lparr>cp_activations := dict_set activation_id
                 (activation_with_runtime_state (Some Act_RUNNING) (Some request_id)
                    (Some worker_id) None None (activation_or_from_task s task activation_id))
                 (cp_activations s)\<rparr>);
          s = mark_activation_steers_delivered env task_id activation_id delivered_steer_ids
                request_id worker_id s;
          (steers, s) = (if reason \<noteq> [] then ([], s)
            else claim_activation_steers_for_delivery task_id activation_id request_id worker_id s)
      in (s, [(''ok'', PBool True),
              (''activation_id'', PStr activation_id),
              (''cancel_requested'', PBool (reason \<noteq> [])),
              (''reason'', PStr reason),
              (''lease_sec'', PInt effective),
              (''activation_steers'', PList (map (\<lambda>st. PDict (steer_to_dict st)) steers))]))))"

end
