(* ===== verification/ControlBindings.thy ===== *)
theory ControlBindings
  imports ControlClaim
begin

text \<open>
  The bindings kept by \<open>AgentRunControlPlane\<close>
  (\<open>src/labrastro_server/services/agent_runtime/control_plane.py\<close>): which run is selected for which
  branch of a session, and which run serves an agent thread of a main run. The stored objects are
  addressed by their identifiers, which is the key they are stored under.
\<close>

section \<open>Bindings of a session\<close>

text \<open>The keyword filters of the list calls: a filter whose value is None is skipped, the others
  compare the text of the attribute.\<close>

definition matches_filters :: "(string \<times> pyval) list \<Rightarrow> pyobj \<Rightarrow> bool" where
  "matches_filters filters attributes =
     list_all (\<lambda>(key, expected). expected = PNone \<or>
         py_str (pget_or attributes key (PStr [])) = py_str expected) filters"

definition list_session_run_bindings ::
  "control_plane \<Rightarrow> (string \<times> pyval) list \<Rightarrow> bool \<Rightarrow> session_run_binding list" where
  "list_session_run_bindings s filters include_terminal =
     (let bindings = filter (\<lambda>b. matches_filters filters (session_run_binding_to_dict b))
            (dict_values (cp_session_bindings s))
      in if \<not> include_terminal \<and>
            str_or_empty (pget filters ''status'') = session_run_binding_status_value SBind_ACTIVE
         then filter (session_run_binding_is_observable_active s) bindings else bindings)"

text \<open>\<open>str(binding.updated_at or binding.created_at or "")\<close>.\<close>

definition binding_time :: "session_run_binding \<Rightarrow> string" where
  "binding_time b = text_or (sb_updated_at b) (opt_str (sb_created_at b))"

text \<open>\<open>xs.sort(key=key, reverse=True)\<close>, which keeps the order of equal elements.\<close>

definition sort_reverse :: "('a \<Rightarrow> 'b::linorder) \<Rightarrow> 'a list \<Rightarrow> 'a list" where
  "sort_reverse key xs = rev (sort_key key (rev xs))"

definition find_session_run_binding ::
  "control_plane \<Rightarrow> string \<Rightarrow> string \<Rightarrow> bool \<Rightarrow> bool \<Rightarrow> session_run_binding option" where
  "find_session_run_binding s session_run_id branch_binding_id selected_only include_inactive =
     (let session = str_strip session_run_id; branch = str_strip branch_binding_id;
          candidates = filter (\<lambda>b. sb_session_run_id b = session \<and>
              (include_inactive \<or> session_run_binding_is_observable_active s b))
            (dict_values (cp_session_bindings s));
          candidates = (if branch \<noteq> [] then
              filter (\<lambda>b. sb_branch_binding_id b = branch \<or> sb_id b = branch) candidates
            else if selected_only then filter sb_selected candidates
            else candidates)
      in case sort_reverse binding_time candidates of [] \<Rightarrow> None | b # _ \<Rightarrow> Some b)"

definition deselect_other ::
  "cp_env \<Rightarrow> session_run_binding \<Rightarrow> session_run_binding \<Rightarrow> session_run_binding" where
  "deselect_other env chosen b =
     (if sb_session_run_id b = sb_session_run_id chosen \<and> sb_id b \<noteq> sb_id chosen \<and>
         sb_status b = SBind_ACTIVE
      then b\<lparr>sb_selected := False, sb_updated_at := Some (env_iso env)\<rparr> else b)"

definition upsert_session_run_binding ::
  "cp_env \<Rightarrow> session_run_binding \<Rightarrow> control_plane \<Rightarrow> control_plane" where
  "upsert_session_run_binding env binding s =
     (let normalized = session_run_binding_post_init binding;
          normalized = normalized\<lparr>
            sb_created_at := (case sb_created_at normalized of None \<Rightarrow> Some (env_iso env)
                              | Some t \<Rightarrow> Some t),
            sb_updated_at := Some (env_iso env)\<rparr>;
          s = (if sb_selected normalized \<and> sb_status normalized = SBind_ACTIVE
               then s\<lparr>cp_session_bindings :=
                 map (\<lambda>(key, b). (key, deselect_other env normalized b)) (cp_session_bindings s)\<rparr>
               else s);
          s = s\<lparr>cp_session_bindings :=
                 dict_set (sb_id normalized) normalized (cp_session_bindings s)\<rparr>
      in append_if_known (sb_agent_run_id normalized) ''session_run_binding_upserted''
           [(''binding'', PDict (session_run_binding_to_dict normalized))] s)"

definition create_session_run_binding ::
  "cp_env \<Rightarrow> session_run_binding \<Rightarrow> control_plane \<Rightarrow> session_run_binding step" where
  "create_session_run_binding env given s =
     (let session_run_id = str_strip (sb_session_run_id given);
          agent_run_id = str_strip (sb_agent_run_id given);
          branch_binding_id = str_strip (sb_branch_binding_id given)
      in if session_run_id = [] then (s, Inl (ValueError ''session_run_id is required''))
         else if agent_run_id = [] then (s, Inl (ValueError ''agent_run_id is required''))
         else if branch_binding_id = [] then (s, Inl (ValueError ''branch_binding_id is required''))
         else pure_step s (session_run_binding_id session_run_id branch_binding_id) (\<lambda>s binding_id.
           let binding = session_run_binding_post_init
             \<lparr>sb_id = binding_id, sb_session_run_id = session_run_id, sb_agent_run_id = agent_run_id,
              sb_peer_id = str_strip (sb_peer_id given),
              sb_session_id = str_strip (sb_session_id given),
              sb_branch_binding_id = branch_binding_id, sb_selected = sb_selected given,
              sb_parent_branch_binding_id = str_strip (sb_parent_branch_binding_id given),
              sb_base_session_item_id = str_strip (sb_base_session_item_id given),
              sb_source_agent_run_id = str_strip (sb_source_agent_run_id given),
              sb_target_agent_run_id = str_strip (text_or (Some (sb_target_agent_run_id given))
                agent_run_id),
              sb_status = SBind_ACTIVE, sb_created_at = None, sb_updated_at = None,
              sb_metadata = sb_metadata given\<rparr>
           in (upsert_session_run_binding env binding s, Inr binding)))"

definition create_derived_session_run_binding ::
  "cp_env \<Rightarrow> agent_run \<Rightarrow> agent_run \<Rightarrow> agent_run_relation_type \<Rightarrow> string \<Rightarrow> string option \<Rightarrow> string \<Rightarrow>
   bool \<Rightarrow> control_plane \<Rightarrow> session_run_binding option step" where
  "create_derived_session_run_binding env source target relation_type base_session_item_id
       branch_binding_id target_session_run_id selected s =
     (let source_session = str_strip (ar_owner_session_run_id source);
          target_session = str_strip target_session_run_id;
          source_bindings = filter (\<lambda>b. sb_agent_run_id b = ar_id source \<or>
              sb_target_agent_run_id b = ar_id source)
            (list_session_run_bindings s
               [(''session_run_id'', PStr source_session),
                (''status'', PStr (session_run_binding_status_value SBind_ACTIVE))] False)
      in if source_session = [] \<or> target_session = [] then (s, Inr None)
         else case sort_key (\<lambda>b. (\<not> sb_selected b, binding_time b)) source_bindings of
           [] \<Rightarrow> (s, Inr None)
         | source_binding # _ \<Rightarrow>
             (let given_branch = str_strip (opt_str branch_binding_id);
                  derived_branch_id = (if given_branch = []
                    then agent_run_relation_type_value relation_type @ ''-'' @ ar_id target
                    else given_branch)
              in step_bind (create_session_run_binding env
                   \<lparr>sb_id = [], sb_session_run_id = target_session, sb_agent_run_id = ar_id target,
                    sb_peer_id = sb_peer_id source_binding,
                    sb_session_id = sb_session_id source_binding,
                    sb_branch_binding_id = derived_branch_id, sb_selected = selected,
                    sb_parent_branch_binding_id = sb_branch_binding_id source_binding,
                    sb_base_session_item_id = str_strip base_session_item_id,
                    sb_source_agent_run_id = ar_id source, sb_target_agent_run_id = ar_id target,
                    sb_status = SBind_ACTIVE, sb_created_at = None, sb_updated_at = None,
                    sb_metadata =
                      [(''binding_kind'', PStr ''derived''),
                       (''relation_type'', PStr (agent_run_relation_type_value relation_type)),
                       (''source_binding_id'', PStr (sb_id source_binding)),
                       (''source_branch_binding_id'',
                          PStr (sb_branch_binding_id source_binding))]\<rparr> s)
                  (\<lambda>s b. (s, Inr (Some b)))))"

definition select_session_run_branch ::
  "cp_env \<Rightarrow> string \<Rightarrow> string \<Rightarrow> string \<Rightarrow> control_plane \<Rightarrow> session_run_binding step" where
  "select_session_run_branch env session_run_id branch_binding_id peer_id s =
     (case find_session_run_binding s session_run_id branch_binding_id False True of
        None \<Rightarrow> (s, Inl (KeyError ''session_run_branch_binding_not_found''))
      | Some binding \<Rightarrow>
          (let peer = str_strip peer_id in
           if peer \<noteq> [] \<and> sb_peer_id binding \<noteq> [] \<and> sb_peer_id binding \<noteq> peer
           then (s, Inl (OSError ''session_run_branch_peer_mismatch''))
           else (let selected = (session_run_binding_post_init binding)\<lparr>sb_selected := True\<rparr>;
                     s = upsert_session_run_binding env selected s
                 in (s, Inr (case find_session_run_binding s session_run_id branch_binding_id
                                    False True of
                               None \<Rightarrow> selected | Some b \<Rightarrow> b)))))"

definition session_binding_event_type :: "session_run_binding_status \<Rightarrow> string" where
  "session_binding_event_type status =
     (if status = SBind_DELETED then ''session_run_binding_deleted''
      else if status = SBind_CLOSED then ''session_run_binding_closed''
      else ''session_run_binding_upserted'')"

text \<open>The new status with its reason, stored and reported.\<close>

definition set_session_run_binding_status_locked ::
  "cp_env \<Rightarrow> session_run_binding \<Rightarrow> session_run_binding_status \<Rightarrow> string \<Rightarrow> pyobj \<Rightarrow> control_plane \<Rightarrow>
   control_plane" where
  "set_session_run_binding_status_locked env binding status reason metadata s =
     (let metadata = dict_update (sb_metadata binding) metadata;
          metadata = (if reason = [] then metadata
                      else dict_set ''status_reason'' (PStr reason) metadata);
          binding = binding\<lparr>sb_status := status, sb_metadata := metadata,
                            sb_updated_at := Some (env_iso env)\<rparr>;
          s = s\<lparr>cp_session_bindings := dict_set (sb_id binding) binding (cp_session_bindings s)\<rparr>
      in append_if_known (str_strip (sb_agent_run_id binding)) (session_binding_event_type status)
           [(''binding_id'', PStr (sb_id binding)),
            (''reason'', PStr reason),
            (''binding'', PDict (session_run_binding_to_dict binding))] s)"

definition set_session_run_binding_status ::
  "cp_env \<Rightarrow> string \<Rightarrow> session_run_binding_status \<Rightarrow> string \<Rightarrow> pyobj \<Rightarrow> control_plane \<Rightarrow>
   control_plane \<times> bool" where
  "set_session_run_binding_status env binding_id status reason metadata s =
     (case dict_get (cp_session_bindings s) (str_strip binding_id) of
        None \<Rightarrow> (s, False)
      | Some binding \<Rightarrow>
          (set_session_run_binding_status_locked env binding status reason metadata s, True))"

definition close_session_run_binding ::
  "cp_env \<Rightarrow> string \<Rightarrow> string \<Rightarrow> control_plane \<Rightarrow> control_plane \<times> bool" where
  "close_session_run_binding env binding_id reason s =
     set_session_run_binding_status env binding_id SBind_CLOSED reason [] s"

definition reactivate_session_run_binding_for_continue ::
  "cp_env \<Rightarrow> agent_run \<Rightarrow> pyobj \<Rightarrow> control_plane \<Rightarrow> control_plane" where
  "reactivate_session_run_binding_for_continue env task activation_payload s =
     (let source = str_or_empty (pget activation_payload ''source'');
          session_run_id = str_strip (str_or_empty (pget activation_payload ''session_run_id''));
          branch = str_strip (str_or_empty (pget activation_payload ''branch_binding_id''))
      in if source \<notin> {''session_run_continue'', ''session_run_recover''} then s
         else if session_run_id = [] \<or> branch = [] then s
         else case List.find (\<lambda>b. sb_session_run_id b = session_run_id \<and>
                  sb_agent_run_id b = ar_id task \<and>
                  branch \<in> {sb_branch_binding_id b, sb_id b}) (dict_values (cp_session_bindings s)) of
              None \<Rightarrow> s
            | Some binding \<Rightarrow>
                set_session_run_binding_status_locked env binding SBind_ACTIVE source [] s)"

section \<open>Bindings of agent threads\<close>

definition find_agent_thread_binding ::
  "control_plane \<Rightarrow> string \<Rightarrow> string \<Rightarrow> string \<Rightarrow> string \<Rightarrow> agent_thread_binding_lifetime \<Rightarrow> bool \<Rightarrow>
   agent_thread_binding option" where
  "find_agent_thread_binding s owner_session_run_id main_agent_run_id agent_id thread_key lifetime
       include_inactive =
     List.find (\<lambda>b. (include_inactive \<or> tb_status b = TBind_ACTIVE) \<and>
         tb_binding_lifetime b = lifetime \<and>
         tb_owner_session_run_id b = str_strip owner_session_run_id \<and>
         tb_main_agent_run_id b = str_strip main_agent_run_id \<and>
         tb_agent_id b = str_strip agent_id \<and>
         tb_thread_key b = str_strip thread_key)
       (dict_values (cp_thread_bindings s))"

text \<open>An event in the logs of the main run and of the target run.\<close>

definition append_to_both ::
  "agent_thread_binding \<Rightarrow> string \<Rightarrow> pyobj \<Rightarrow> control_plane \<Rightarrow> control_plane" where
  "append_to_both b event_type payload s =
     append_if_known (tb_target_agent_run_id b) event_type payload
       (append_if_known (tb_main_agent_run_id b) event_type payload s)"

definition upsert_agent_thread_binding ::
  "agent_thread_binding \<Rightarrow> control_plane \<Rightarrow> control_plane" where
  "upsert_agent_thread_binding b s =
     append_to_both b ''agent_thread_binding_upserted''
       [(''binding'', PDict (agent_thread_binding_to_dict b))]
       (s\<lparr>cp_thread_bindings := dict_set (tb_id b) b (cp_thread_bindings s)\<rparr>)"

definition list_agent_thread_bindings ::
  "control_plane \<Rightarrow> (string \<times> pyval) list \<Rightarrow> agent_thread_binding list" where
  "list_agent_thread_bindings s filters =
     filter (\<lambda>b. matches_filters filters (agent_thread_binding_to_dict b))
       (dict_values (cp_thread_bindings s))"

definition thread_binding_payload :: "agent_thread_binding \<Rightarrow> string \<Rightarrow> pyobj" where
  "thread_binding_payload b reason =
     [(''binding_id'', PStr (tb_id b)),
      (''reason'', PStr reason),
      (''binding'', PDict (agent_thread_binding_to_dict b))]"

text \<open>\<open>_set_agent_thread_binding_status_locked\<close> up to the cancellation of the target.\<close>

definition set_agent_thread_binding_status ::
  "cp_env \<Rightarrow> agent_thread_binding \<Rightarrow> agent_thread_binding_status \<Rightarrow> string \<Rightarrow> pyobj \<Rightarrow> control_plane \<Rightarrow>
   control_plane" where
  "set_agent_thread_binding_status env b status reason metadata s =
     (let metadata = dict_update (tb_metadata b) metadata;
          metadata = (if reason = [] then metadata
                      else dict_set ''status_reason'' (PStr reason) metadata);
          b = b\<lparr>tb_status := status, tb_metadata := metadata,
                tb_updated_at := Some (env_iso env)\<rparr>
      in append_to_both b
           (if status = TBind_UNAVAILABLE then ''agent_thread_binding_unavailable''
            else ''agent_thread_binding_closed'')
           (thread_binding_payload b reason)
           (s\<lparr>cp_thread_bindings := dict_set (tb_id b) b (cp_thread_bindings s)\<rparr>))"

end
