(* ===== verification/ControlFeedback.thy ===== *)
theory ControlFeedback
  imports ControlBindings
begin

text \<open>
  Continuing a run and feeding results back, in \<open>AgentRunControlPlane\<close>
  (\<open>src/labrastro_server/services/agent_runtime/control_plane.py\<close>): a continued run gets its next
  activation and is queued again; a run that ends reports to the runs that own it, and an owner that
  waits for an agent call is continued with the feedback of that call.
\<close>

fun each_step :: "('a \<Rightarrow> control_plane \<Rightarrow> unit step) \<Rightarrow> 'a list \<Rightarrow> control_plane \<Rightarrow> unit step" where
  "each_step f [] s = (s, Inr ())"
| "each_step f (x # xs) s = step_bind (f x s) (\<lambda>s _. each_step f xs s)"

section \<open>Continuing a run\<close>

fun update_first :: "('a \<Rightarrow> bool) \<Rightarrow> ('a \<Rightarrow> 'a) \<Rightarrow> 'a list \<Rightarrow> 'a list" where
  "update_first p f [] = []"
| "update_first p f (x # xs) = (if p x then f x # xs else x # update_first p f xs)"

definition continuable_status :: "bool \<Rightarrow> agent_run_status \<Rightarrow> bool" where
  "continuable_status allow_closed status \<longleftrightarrow>
     status \<in> {Run_COMPLETED, Run_WAITING, Run_BLOCKED} \<or>
     allow_closed \<and> status \<in> {Run_FAILED, Run_CANCELLED}"

definition previous_activation_seq :: "control_plane \<Rightarrow> agent_run \<Rightarrow> int" where
  "previous_activation_seq s task =
     (case current_activation s task of
        Some a \<Rightarrow> ac_seq a
      | None \<Rightarrow> (case int_or (activation_seq_from_id (ar_current_activation_id task)) (Some 1) of
                  None \<Rightarrow> 1 | Some n \<Rightarrow> n))"

definition previous_activation_id :: "control_plane \<Rightarrow> agent_run \<Rightarrow> string" where
  "previous_activation_id s task =
     (case current_activation s task of
        Some a \<Rightarrow> ac_id a
      | None \<Rightarrow> text_or (ar_current_activation_id task)
                 (activation_id_for_task (ar_id task) (previous_activation_seq s task)))"

definition next_activation ::
  "control_plane \<Rightarrow> agent_run \<Rightarrow> agent_run_activation_input_kind \<Rightarrow> pyobj \<Rightarrow> string option \<Rightarrow>
   agent_run_activation" where
  "next_activation s task input_kind payload prompt =
     (let next_seq = previous_activation_seq s task + 1
      in \<lparr>ac_id = activation_id_for_task (ar_id task) next_seq, ac_agent_run_id = ar_id task,
          ac_seq = next_seq, ac_input_kind = input_kind, ac_input_payload = payload,
          ac_prompt = (case prompt of Some p \<Rightarrow> p
             | None \<Rightarrow> (case current_activation s task of None \<Rightarrow> [] | Some a \<Rightarrow> ac_prompt a)),
          ac_status = Act_QUEUED, ac_output = None, ac_result_payload = [], ac_worker_id = None,
          ac_request_id = None, ac_started_at = None, ac_ended_at = None,
          ac_metadata = [(''executor_session_id'', opt_val (ar_executor_session_id task)),
                         (''runtime_profile_id'', opt_val (ar_runtime_profile_id task))]\<rparr>)"

definition requeued_run :: "string \<Rightarrow> bool \<Rightarrow> agent_run \<Rightarrow> agent_run" where
  "requeued_run activation_id resume_session task =
     (let task = (set_status Run_QUEUED (task\<lparr>ar_current_activation_id := Some activation_id\<rparr>))
            \<lparr>ar_resume_policy := None, ar_terminal_result := [], ar_failure_reason := None,
             ar_cancel_reason := None\<rparr>
      in if resume_session then task else task\<lparr>ar_executor_session_id := None\<rparr>)"

text \<open>The first feedback with this identifier is marked as consumed.\<close>

definition consume_feedback ::
  "string \<Rightarrow> string option \<Rightarrow> string \<Rightarrow> control_plane \<Rightarrow> control_plane" where
  "consume_feedback task_id feedback_id activation_id s =
     (let is_it = (\<lambda>f. Some (fb_id f) = feedback_id);
          mark = (\<lambda>f. f\<lparr>fb_consumed_by_activation_id := Some activation_id\<rparr>)
      in if opt_str feedback_id = [] then s
         else case List.find is_it (feedbacks_of s task_id) of
           None \<Rightarrow> s
         | Some f \<Rightarrow>
             append_event task_id ''agent_run_feedback_consumed''
               [(''feedback_id'', PStr (fb_id f)),
                (''activation_id'', PStr activation_id),
                (''feedback'', PDict (feedback_to_dict (mark f)))]
               (s\<lparr>cp_feedbacks := dict_set task_id
                   (update_first is_it mark (feedbacks_of s task_id)) (cp_feedbacks s)\<rparr>))"

definition continue_agent_run ::
  "cp_env \<Rightarrow> string \<Rightarrow> agent_run_activation_input_kind \<Rightarrow> pyobj \<Rightarrow> bool \<Rightarrow> string option \<Rightarrow>
   string option \<Rightarrow> bool \<Rightarrow> control_plane \<Rightarrow> string step" where
  "continue_agent_run env task_id input_kind input_payload resume_session feedback_id prompt
       allow_closed s =
     pure_step s (task_locked s task_id) (\<lambda>s task.
     if \<not> continuable_status allow_closed (ar_status task)
     then (s, Inl (ValueError ''AgentRun is not continuable''))
     else
       let previous_id = previous_activation_id s task;
           payload = dict_setdefault ''retry_of_activation_id'' (PStr previous_id)
             (dict_setdefault ''resume_session'' (PBool resume_session) input_payload)
       in pure_step s (validate_activation_input_payload payload) (\<lambda>s _.
       let activation = next_activation s task input_kind payload prompt;
           s = update_task task_id (requeued_run (ac_id activation) resume_session) s;
           s = reactivate_session_run_binding_for_continue env task payload s;
           s = put_activation activation s;
           s = consume_feedback task_id feedback_id (ac_id activation) s;
           s = append_event task_id ''activation_queued''
             [(''activation_id'', PStr (ac_id activation)),
              (''activation'', PDict (activation_to_dict activation)),
              (''retry_of_activation_id'', PStr previous_id),
              (''feedback_id'', PStr (opt_str feedback_id))] s
       in (s, Inr task_id)))"

definition retry_agent_run :: "cp_env \<Rightarrow> string \<Rightarrow> bool \<Rightarrow> control_plane \<Rightarrow> string step" where
  "retry_agent_run env task_id resume_session s =
     continue_agent_run env task_id Input_ADMIN_RESUME
       [(''resume_session'', PBool resume_session)] resume_session None None True s"

section \<open>Feedback\<close>

definition add_feedback :: "string \<Rightarrow> agent_run_feedback \<Rightarrow> control_plane \<Rightarrow> control_plane" where
  "add_feedback task_id feedback s =
     append_event task_id ''agent_run_feedback_added''
       [(''feedback_id'', PStr (fb_id feedback)),
        (''feedback'', PDict (feedback_to_dict feedback))]
       (s\<lparr>cp_feedbacks := dict_set task_id (feedbacks_of s task_id @ [feedback]) (cp_feedbacks s)\<rparr>)"

definition append_agent_run_feedback ::
  "cp_env \<Rightarrow> string \<Rightarrow> agent_run_feedback_source \<Rightarrow> agent_run_feedback_kind \<Rightarrow> pyobj \<Rightarrow>
   agent_run_feedback_visibility \<Rightarrow> bool \<Rightarrow> pyobj \<Rightarrow> string option \<Rightarrow> control_plane \<Rightarrow>
   agent_run_feedback step" where
  "append_agent_run_feedback env task_id source kind payload visibility requires_activation metadata
       given_id s0 =
     (let (feedback_id, s) = id_or_new env ''feedback'' given_id s0;
          feedback = \<lparr>fb_id = feedback_id, fb_agent_run_id = task_id, fb_source = source,
            fb_kind = kind, fb_payload = payload, fb_created_at = Some (env_iso env),
            fb_consumed_by_activation_id = None, fb_visibility = visibility,
            fb_requires_activation = requires_activation, fb_metadata = metadata\<rparr>
      in pure_step s (task_locked s task_id) (\<lambda>s _. (add_feedback task_id feedback s, Inr feedback)))"

definition pending_agent_call_feedback :: "agent_run_feedback \<Rightarrow> bool" where
  "pending_agent_call_feedback f \<longleftrightarrow>
     fb_requires_activation f \<and> opt_str (fb_consumed_by_activation_id f) = [] \<and>
     fb_kind f \<in> {FKind_AGENT_CALL_RESULT, FKind_AGENT_CALL_FAILED}"

definition resume_from_pending_agent_call_feedback ::
  "cp_env \<Rightarrow> string \<Rightarrow> control_plane \<Rightarrow> bool step" where
  "resume_from_pending_agent_call_feedback env owner_run_id s =
     (case task_of s owner_run_id of
        None \<Rightarrow> (s, Inr False)
      | Some owner \<Rightarrow>
          if ar_status owner \<noteq> Run_WAITING \<or> ar_waiting_reason owner \<noteq> Some Wait_AGENT_CALL \<or>
             \<not> activation_can_resume_from_feedback (current_activation s owner)
          then (s, Inr False)
          else case List.find pending_agent_call_feedback (feedbacks_of s owner_run_id) of
            None \<Rightarrow> (s, Inr False)
          | Some f \<Rightarrow>
              step_bind (continue_agent_run env owner_run_id Input_AGENT_FEEDBACK
                [(''feedback_id'', PStr (fb_id f)),
                 (''kind'', PStr (agent_run_feedback_kind_value (fb_kind f))),
                 (''target_agent_run_id'', PStr (str_or_empty
                    (py_or (pget (fb_payload f) ''target_agent_run_id'')
                           (pget (fb_metadata f) ''target_agent_run_id''))))]
                True (Some (fb_id f)) (Some (agent_call_feedback_prompt (fb_payload f))) False s)
              (\<lambda>s _. (s, Inr True)))"

definition append_agent_call_feedback ::
  "cp_env \<Rightarrow> agent_run \<Rightarrow> agent_run_relation \<Rightarrow> control_plane \<Rightarrow> unit step" where
  "append_agent_call_feedback env task relation s0 =
     (let owner_run_id = rl_owner_agent_run_id relation;
          wait = (pget (rl_payload relation) ''wait'' = PBool True);
          (feedback_id, s) = new_id env ''feedback'' s0;
          s = add_feedback owner_run_id
            \<lparr>fb_id = feedback_id, fb_agent_run_id = owner_run_id, fb_source = FSource_AGENT,
             fb_kind = agent_call_feedback_kind task,
             fb_payload = agent_call_feedback_payload task relation,
             fb_created_at = Some (env_iso env), fb_consumed_by_activation_id = None,
             fb_visibility = FVis_INTERNAL, fb_requires_activation = wait,
             fb_metadata = [(''target_agent_run_id'', PStr (ar_id task)),
                            (''relation_id'', PStr (rl_id relation))]\<rparr> s
      in if wait then step_bind (resume_from_pending_agent_call_feedback env owner_run_id s)
                        (\<lambda>s _. (s, Inr ()))
         else (s, Inr ()))"

section \<open>Reports to the owners of a run\<close>

definition parent_relations :: "control_plane \<Rightarrow> agent_run \<Rightarrow> agent_run_relation list" where
  "parent_relations s task =
     filter (\<lambda>r. rl_related_agent_run_id r = ar_id task \<and> rl_owner_agent_run_id r \<noteq> ar_id task \<and>
         dict_has (cp_states s) (rl_owner_agent_run_id r) \<and> rl_status r = RStatus_ACTIVE)
       (dict_values (cp_relations s))"

definition report_to_parent ::
  "cp_env \<Rightarrow> agent_run \<Rightarrow> string \<Rightarrow> agent_run_relation \<Rightarrow> control_plane \<Rightarrow> unit step" where
  "report_to_parent env task task_prompt relation s =
     (let owner_run_id = rl_owner_agent_run_id relation;
          lifecycle = agent_relation_terminal_lifecycle_events task owner_run_id
            (rl_payload relation) task_prompt
      in if rl_relation_type relation \<in> {Rel_AGENT_CALL_EPHEMERAL, Rel_AGENT_CALL_PERSISTENT} then
           step_bind (append_agent_call_feedback env task relation s) (\<lambda>s _.
             let s = append_event owner_run_id
                   (agent_run_feedback_kind_value (agent_call_feedback_kind task))
                   (agent_call_feedback_payload task relation) s
             in (if rl_relation_type relation = Rel_AGENT_CALL_EPHEMERAL \<or>
                    truthy (pget (rl_payload relation) ''lifecycle_hook_id'')
                 then append_events owner_run_id lifecycle s else s, Inr ()))
         else (append_events owner_run_id
                 ((''agent_relation_completed'',
                   agent_relation_completed_payload task owner_run_id task_prompt) # lifecycle) s,
               Inr ()))"

definition append_parent_terminal_event ::
  "cp_env \<Rightarrow> agent_run \<Rightarrow> control_plane \<Rightarrow> unit step" where
  "append_parent_terminal_event env task s =
     (let task_prompt = (case current_activation s task of None \<Rightarrow> [] | Some a \<Rightarrow> ac_prompt a)
      in each_step (report_to_parent env task task_prompt) (parent_relations s task) s)"

end
