(* ===== verification/ControlCancel.thy ===== *)
theory ControlCancel
  imports ControlFeedback
begin

text \<open>
  Ending runs, in \<open>AgentRunControlPlane\<close>
  (\<open>src/labrastro_server/services/agent_runtime/control_plane.py\<close>): cancelling a run with the runs it
  owns, and closing the bindings of a run that has ended, which may cancel the targets of its
  thread bindings in turn. The nested calls are bounded by the interpreter's stack, which counts
  frames. \<open>depth\<close> is the number of frames left for the calls below the function at hand, when those
  that its other calls need for themselves (appending events, reporting to the owners, taking the time;
  a number that does not depend on the nesting) are set aside. Each call of \<open>_cancel_task_locked\<close>,
  \<open>_cleanup_bindings_for_terminal_task_locked\<close> and \<open>_set_agent_thread_binding_status_locked\<close>, and of
  every function on the way to them, takes one frame, and raises \<open>RecursionError\<close> when none is left.
\<close>

section \<open>Frames\<close>

text \<open>A call that takes a frame: \<open>depth\<close> frames are left for it.\<close>

definition in_frame :: "nat \<Rightarrow> control_plane \<Rightarrow> 'a step \<Rightarrow> 'a step" where
  "in_frame depth s m = (if depth = 0 then (s, Inl RecursionError) else m)"

lemma in_frame_simps [simp]:
  "in_frame 0 s m = (s, Inl RecursionError)" "in_frame (Suc d) s m = m" "0 < depth \<Longrightarrow> in_frame depth s m = m"
  by (simp_all add: in_frame_def)

section \<open>Bindings of a run that has ended\<close>

text \<open>\<open>cancel\<close> is the nested \<open>_cancel_task_locked\<close>, with the frames that are left for it.\<close>

type_synonym cancel_call = "string \<Rightarrow> string \<Rightarrow> control_plane \<Rightarrow> bool step"

definition set_thread_binding_status_cancelling ::
  "cp_env \<Rightarrow> cancel_call \<Rightarrow> nat \<Rightarrow> agent_thread_binding \<Rightarrow> agent_thread_binding_status \<Rightarrow> string \<Rightarrow>
   pyobj \<Rightarrow> bool \<Rightarrow> control_plane \<Rightarrow> unit step" where
  "set_thread_binding_status_cancelling env cancel depth b status reason metadata cancel_target s =
     in_frame depth s
     (let s = set_agent_thread_binding_status env b status reason metadata s
      in if cancel_target \<and> dict_has (cp_states s) (tb_target_agent_run_id b) then
           step_bind (cancel (tb_target_agent_run_id b)
             (''agent_thread_binding_'' @ agent_thread_binding_status_value status @ '':'' @
              (if reason = [] then ''closed'' else reason)) s) (\<lambda>s _. (s, Inr ()))
         else (s, Inr ()))"

definition cleanup_thread_binding ::
  "cp_env \<Rightarrow> cancel_call \<Rightarrow> nat \<Rightarrow> string \<Rightarrow> string \<Rightarrow> control_plane \<Rightarrow> unit step" where
  "cleanup_thread_binding env cancel depth task_id binding_id s =
     (case (task_of s task_id, dict_get (cp_thread_bindings s) binding_id) of
        (Some task, Some b) \<Rightarrow>
          if tb_status b \<noteq> TBind_ACTIVE then (s, Inr ())
          else if tb_main_agent_run_id b = task_id \<and> tb_binding_lifetime b = Life_RUN then
            set_thread_binding_status_cancelling env cancel depth b TBind_CLOSED
              (''main_agent_run_terminal:'' @ agent_run_status_value (ar_status task)) [] True s
          else if tb_target_agent_run_id b = task_id \<and>
                  ar_status task \<in> {Run_FAILED, Run_CANCELLED, Run_BLOCKED} then
            set_thread_binding_status_cancelling env cancel depth b TBind_UNAVAILABLE
              (''target_agent_run_terminal:'' @ agent_run_status_value (ar_status task)) [] False s
          else (s, Inr ())
      | _ \<Rightarrow> (s, Inr ()))"

definition cleanup_session_binding ::
  "cp_env \<Rightarrow> agent_run \<Rightarrow> session_run_binding \<Rightarrow> control_plane \<Rightarrow> control_plane" where
  "cleanup_session_binding env task b s =
     (if sb_status b \<noteq> SBind_ACTIVE then s
      else if sb_agent_run_id b \<noteq> ar_id task \<and> sb_target_agent_run_id b \<noteq> ar_id task then s
      else set_session_run_binding_status_locked env b SBind_CLOSED
             (''agent_run_closed:'' @ agent_run_status_value (ar_status task)) [] s)"

definition cleanup_bindings_for_terminal_task ::
  "cp_env \<Rightarrow> cancel_call \<Rightarrow> nat \<Rightarrow> string \<Rightarrow> control_plane \<Rightarrow> unit step" where
  "cleanup_bindings_for_terminal_task env cancel depth task_id s =
     in_frame depth s
     (case task_of s task_id of
        None \<Rightarrow> (s, Inr ())
      | Some task \<Rightarrow>
          if \<not> is_terminal task then (s, Inr ())
          else step_bind (each_step (cleanup_thread_binding env cancel (depth - 1) task_id)
                 (dict_keys (cp_thread_bindings s)) s) (\<lambda>s _.
            case task_of s task_id of
              None \<Rightarrow> (s, Inr ())
            | Some task \<Rightarrow>
                (if agent_run_closes_session_run_binding task
                 then fold (cleanup_session_binding env task) (dict_values (cp_session_bindings s)) s
                 else s, Inr ())))"

section \<open>Cancelling\<close>

definition cancelled_run :: "string \<Rightarrow> agent_run \<Rightarrow> agent_run" where
  "cancelled_run reason task =
     (set_terminal_result (Some reason) (set_status Run_CANCELLED task))
       \<lparr>ar_failure_reason := Some ''cancelled'', ar_cancel_reason := Some reason\<rparr>"

definition finish_cancelled ::
  "cp_env \<Rightarrow> cancel_call \<Rightarrow> nat \<Rightarrow> agent_run \<Rightarrow> string \<Rightarrow> control_plane \<Rightarrow> bool step" where
  "finish_cancelled env cancel depth task reason s =
     (let task_id = ar_id task;
          s = update_task task_id (cancelled_run reason) s;
          s = append_event task_id ''cancelled'' [(''reason'', PStr reason)] s
      in step_bind (append_parent_terminal_event env (cancelled_run reason task) s) (\<lambda>s _.
         step_bind (cleanup_bindings_for_terminal_task env cancel depth task_id s) (\<lambda>s _.
         (drop_cancel_request task_id (clear_task_claims task_id s), Inr True))))"

text \<open>\<open>str(claim.get(key) or "") if claim else ""\<close>.\<close>

definition claim_text :: "(claim_lease \<Rightarrow> string) \<Rightarrow> claim_lease option \<Rightarrow> string" where
  "claim_text field claim = (case claim of None \<Rightarrow> [] | Some lease \<Rightarrow> field lease)"

definition request_cancel :: "agent_run \<Rightarrow> string \<Rightarrow> control_plane \<Rightarrow> control_plane" where
  "request_cancel task reason s =
     (let claim = active_claim_for_task s (ar_id task)
      in append_event (ar_id task) ''cancel_requested''
           [(''reason'', PStr reason),
            (''activation_id'', PStr (claim_text ls_activation_id claim)),
            (''worker_id'', PStr (claim_text ls_worker_id claim))]
           (s\<lparr>cp_cancel_requests := dict_set (ar_id task) reason (cp_cancel_requests s)\<rparr>))"

text \<open>Cleaning up and setting the status of a binding take two of the frames before the nested call.\<close>

fun cancel_task :: "cp_env \<Rightarrow> nat \<Rightarrow> string \<Rightarrow> string \<Rightarrow> control_plane \<Rightarrow> bool step" where
  "cancel_task env 0 task_id reason s = (s, Inl RecursionError)"
| "cancel_task env (Suc depth) task_id reason s =
     pure_step s (task_locked s task_id) (\<lambda>s task.
     if is_terminal task then (s, Inr False)
     else if opt_str (ar_sandbox_session_id task) \<noteq> [] then
       finish_cancelled env (cancel_task env (depth - 2)) depth task reason s
     else if ar_status task \<in> {Run_DISPATCHED, Run_RUNNING, Run_WAITING} then
       (request_cancel task reason s, Inr True)
     else finish_cancelled env (cancel_task env (depth - 2)) depth task reason s)"

section \<open>Closing thread bindings\<close>

definition set_thread_binding_by_id ::
  "cp_env \<Rightarrow> nat \<Rightarrow> string \<Rightarrow> agent_thread_binding_status \<Rightarrow> string \<Rightarrow> pyobj \<Rightarrow> bool \<Rightarrow> control_plane \<Rightarrow>
   bool step" where
  "set_thread_binding_by_id env depth binding_id status reason metadata cancel_target s =
     (case dict_get (cp_thread_bindings s) (str_strip binding_id) of
        None \<Rightarrow> (s, Inr False)
      | Some b \<Rightarrow> step_bind (set_thread_binding_status_cancelling env (cancel_task env (depth - 1))
          depth b status reason metadata cancel_target s) (\<lambda>s _. (s, Inr True)))"

definition close_agent_thread_binding ::
  "cp_env \<Rightarrow> nat \<Rightarrow> string \<Rightarrow> string \<Rightarrow> bool \<Rightarrow> control_plane \<Rightarrow> bool step" where
  "close_agent_thread_binding env depth binding_id reason cancel_target s =
     set_thread_binding_by_id env depth binding_id TBind_CLOSED reason [] cancel_target s"

definition mark_agent_thread_binding_unavailable ::
  "cp_env \<Rightarrow> nat \<Rightarrow> string \<Rightarrow> string \<Rightarrow> pyobj \<Rightarrow> bool \<Rightarrow> control_plane \<Rightarrow> bool step" where
  "mark_agent_thread_binding_unavailable env depth binding_id reason metadata cancel_target s =
     set_thread_binding_by_id env depth binding_id TBind_UNAVAILABLE reason metadata cancel_target s"

definition delete_owner_binding ::
  "cp_env \<Rightarrow> nat \<Rightarrow> string \<Rightarrow> string \<Rightarrow> string \<Rightarrow> control_plane \<Rightarrow> unit step" where
  "delete_owner_binding env depth session_run_id reason binding_id s =
     (case dict_get (cp_thread_bindings s) binding_id of
        None \<Rightarrow> (s, Inr ())
      | Some b \<Rightarrow>
          if tb_owner_session_run_id b \<noteq> session_run_id then (s, Inr ())
          else step_bind
            (if tb_cleanup_policy b = ''delete_with_owner_session'' \<and> tb_status b = TBind_ACTIVE \<and>
                dict_has (cp_states s) (tb_target_agent_run_id b)
             then cancel_task env depth (tb_target_agent_run_id b)
                    (''owner_session_deleted:'' @ reason) s
             else (s, Inr False)) (\<lambda>s _.
            let b = (case dict_get (cp_thread_bindings s) binding_id of None \<Rightarrow> b | Some b' \<Rightarrow> b');
                b = b\<lparr>tb_updated_at := Some (env_iso env)\<rparr>;
                s = append_to_both b ''agent_thread_binding_deleted''
                      (thread_binding_payload b reason) s
            in (s\<lparr>cp_thread_bindings := dict_pop binding_id (cp_thread_bindings s)\<rparr>, Inr ())))"

definition delete_agent_thread_bindings_for_owner_session ::
  "cp_env \<Rightarrow> nat \<Rightarrow> string \<Rightarrow> string \<Rightarrow> control_plane \<Rightarrow> string list step" where
  "delete_agent_thread_bindings_for_owner_session env depth owner_session_run_id reason s =
     (let session_run_id = str_strip owner_session_run_id;
          owned = filter (\<lambda>b. tb_owner_session_run_id b = session_run_id)
            (dict_values (cp_thread_bindings s))
      in if session_run_id = [] then (s, Inr [])
         else step_bind (each_step (delete_owner_binding env depth session_run_id reason)
                (dict_keys (cp_thread_bindings s)) s) (\<lambda>s _. (s, Inr (map tb_id owned))))"

fun mark_each_unavailable ::
  "cp_env \<Rightarrow> nat \<Rightarrow> string \<Rightarrow> pyobj \<Rightarrow> agent_thread_binding list \<Rightarrow> control_plane \<Rightarrow>
   string list step" where
  "mark_each_unavailable env depth reason metadata [] s = (s, Inr [])"
| "mark_each_unavailable env depth reason metadata (b # bs) s =
     step_bind (in_frame depth s
         (mark_agent_thread_binding_unavailable env (depth - 1) (tb_id b) reason metadata True s))
       (\<lambda>s found. step_bind (mark_each_unavailable env depth reason metadata bs s) (\<lambda>s rest.
          (s, Inr (if found then tb_id b # rest else rest))))"

definition invalidate_agent_thread_bindings ::
  "cp_env \<Rightarrow> nat \<Rightarrow> string option \<Rightarrow> string option \<Rightarrow> string option \<Rightarrow> string \<Rightarrow> pyobj \<Rightarrow>
   control_plane \<Rightarrow> string list step" where
  "invalidate_agent_thread_bindings env depth agent_id owner_session_run_id main_agent_run_id reason
       metadata s =
     (let bindings = list_agent_thread_bindings s
            [(''agent_id'', opt_val agent_id),
             (''owner_session_run_id'', opt_val owner_session_run_id),
             (''main_agent_run_id'', opt_val main_agent_run_id),
             (''status'', PStr (agent_thread_binding_status_value TBind_ACTIVE))]
      in mark_each_unavailable env depth reason metadata bindings s)"

section \<open>Cancelling a run with the runs it owns\<close>

definition active_children :: "control_plane \<Rightarrow> string list \<Rightarrow> string \<Rightarrow> agent_run_relation list" where
  "active_children s seen parent_id =
     filter (\<lambda>r. rl_owner_agent_run_id r = parent_id \<and> rl_related_agent_run_id r \<notin> set seen \<and>
         rl_status r = RStatus_ACTIVE) (dict_values (cp_relations s))"

definition cancel_child ::
  "cp_env \<Rightarrow> nat \<Rightarrow> string \<Rightarrow> string \<Rightarrow> string \<Rightarrow> control_plane \<Rightarrow> unit step" where
  "cancel_child env depth parent_id reason child_id s =
     step_bind (cancel_task env depth child_id (''parent_cancelled:'' @ reason) s) (\<lambda>s changed.
       (if changed
        then append_event child_id ''parent_cancelled''
               [(''owner_agent_run_id'', PStr parent_id), (''reason'', PStr reason)] s
        else s, Inr ()))"

text \<open>The outcome of one relation in \<open>_cleanup_branch_relation_worktree\<close>.\<close>

definition cleanup_branch_relation_worktree :: "cp_env \<Rightarrow> agent_run_relation \<Rightarrow> pyobj" where
  "cleanup_branch_relation_worktree env relation =
     (let payload = rl_payload relation;
          txt = (\<lambda>key. str_strip (str_or_empty (pget payload key)));
          runtime_root = txt ''runtime_root'';
          source_workspace_root = txt ''source_workspace_root'';
          branch_name = txt ''branch_name'';
          branch_worktree_ref = txt ''branch_worktree_ref''
      in if rl_relation_type relation \<noteq> Rel_BRANCH then
           [(''ok'', PBool True), (''skipped'', PBool True)]
         else if str_or_empty (pget payload ''cleanup_policy'') \<noteq> ''delete_with_owner_session'' then
           [(''ok'', PBool True), (''skipped'', PBool True)]
         else if runtime_root = [] \<or> source_workspace_root = [] \<or> branch_name = [] \<or>
                 branch_worktree_ref = [] then
           [(''ok'', PBool False), (''error'', PStr ''branch_relation_cleanup_payload_incomplete'')]
         else env_worktree_cleanup env runtime_root source_workspace_root branch_name
                branch_worktree_ref)"

definition cleanup_child_relation :: "cp_env \<Rightarrow> agent_run_relation \<Rightarrow> control_plane \<Rightarrow> control_plane"
  where
  "cleanup_child_relation env relation s =
     (if rl_relation_type relation \<noteq> Rel_BRANCH then s
      else
        (let outcome = cleanup_branch_relation_worktree env relation;
             event_type = (if pget outcome ''ok'' = PBool True
               then ''agent_run_branch_worktree_cleaned''
               else ''agent_run_branch_worktree_cleanup_failed'');
             payload = [(''relation_id'', PStr (rl_id relation)), (''cleanup'', PDict outcome)]
         in fold (\<lambda>task_id. append_if_known task_id event_type payload)
              (remdups [rl_owner_agent_run_id relation, rl_related_agent_run_id relation]) s))"

end
