(* ===== verification/ControlFrame.thy ===== *)
theory ControlFrame
  imports ControlCancel
begin

text \<open>
  What every operation of the control plane keeps. The locale \<open>lifecycle_invariant\<close> names the
  elementary changes the operations are made of; a predicate that these changes keep is kept by
  continuing, reporting, cancelling and cleaning up. Its instances state which parts of the state
  such an operation leaves alone.
\<close>

section \<open>What a run is\<close>

text \<open>The fields of a run that no operation assigns to: who runs what, for whom, and where.\<close>

definition same_identity :: "agent_run \<Rightarrow> agent_run \<Rightarrow> bool" where
  "same_identity t u \<longleftrightarrow>
     ar_id t = ar_id u \<and> ar_agent_id t = ar_agent_id u \<and> ar_kind t = ar_kind u \<and>
     ar_owner_session_run_id t = ar_owner_session_run_id u \<and> ar_source t = ar_source u \<and>
     ar_trigger_mode t = ar_trigger_mode u \<and>
     ar_runtime_profile_id t = ar_runtime_profile_id u \<and> ar_executor t = ar_executor u \<and>
     ar_execution_location t = ar_execution_location u \<and>
     ar_worktree_role t = ar_worktree_role u \<and> ar_publish_policy t = ar_publish_policy u"

lemma same_identity_refl [simp]: "same_identity t t"
  by (simp add: same_identity_def)

lemma same_identity_trans: "same_identity t u \<Longrightarrow> same_identity u v \<Longrightarrow> same_identity t v"
  by (simp add: same_identity_def)

lemma same_identity_id: "same_identity t u \<Longrightarrow> ar_id t = ar_id u"
  by (simp add: same_identity_def)

lemma same_identity_assign [simp]:
  "same_identity (t\<lparr>ar_resume_policy := rp\<rparr>) u = same_identity t u"
  "same_identity (t\<lparr>ar_workdir := wd\<rparr>) u = same_identity t u"
  "same_identity (t\<lparr>ar_executor_session_id := x\<rparr>) u = same_identity t u"
  "same_identity (t\<lparr>ar_current_activation_id := a\<rparr>) u = same_identity t u"
  "same_identity (t\<lparr>ar_terminal_result := res\<rparr>) u = same_identity t u"
  "same_identity (t\<lparr>ar_failure_reason := fr\<rparr>) u = same_identity t u"
  "same_identity (t\<lparr>ar_cancel_reason := cr\<rparr>) u = same_identity t u"
  "same_identity (t\<lparr>ar_metadata := md\<rparr>) u = same_identity t u"
  "same_identity (set_agent_run_status st wr ms acs t) u = same_identity t u"
  "same_identity (set_terminal_result res' t) u = same_identity t u"
  by (simp_all add: same_identity_def set_agent_run_status_def set_terminal_result_def)

lemma same_identity_runs [simp]:
  "same_identity (requeued_run a resume t) u = same_identity t u"
  "same_identity (cancelled_run reason t) u = same_identity t u"
  by (simp_all add: requeued_run_def cancelled_run_def Let_def)

text \<open>The operations of this kind open no thread binding: they only close bindings or remove them.\<close>

definition thread_active :: "(string, agent_thread_binding) pydict \<Rightarrow> string \<Rightarrow> bool" where
  "thread_active d k \<longleftrightarrow> (case dict_get d k of None \<Rightarrow> False | Some b \<Rightarrow> tb_status b = TBind_ACTIVE)"

definition threads_shrink ::
  "(string, agent_thread_binding) pydict \<Rightarrow> (string, agent_thread_binding) pydict \<Rightarrow> bool" where
  "threads_shrink d d' \<longleftrightarrow>
     (\<forall>k. thread_active d' k \<longrightarrow> thread_active d k) \<and>
     (\<forall>k b'. dict_get d' k = Some b' \<longrightarrow>
        tb_id b' = k \<or> (\<exists>b. dict_get d k = Some b \<and> tb_id b = tb_id b'))"

lemma threads_shrink_refl [simp]: "threads_shrink d d"
  by (auto simp: threads_shrink_def)

lemma threads_shrink_set [simp]:
  "tb_status b \<noteq> TBind_ACTIVE \<Longrightarrow> tb_id b = k \<Longrightarrow> threads_shrink d (dict_set k b d)"
  by (auto simp: threads_shrink_def thread_active_def split: if_splits)

lemma threads_shrink_pop [simp]: "threads_shrink d (dict_pop k d)"
  by (auto simp: threads_shrink_def thread_active_def split: if_splits)

section \<open>Predicates kept by the elementary changes\<close>

locale lifecycle_invariant =
  fixes I :: "control_plane \<Rightarrow> bool"
  assumes keeps_task: "(\<And>t. same_identity (f t) t) \<Longrightarrow> I s \<Longrightarrow> I (update_task task_id f s)"
    and keeps_event: "I s \<Longrightarrow> I (append_event task_id event_type payload s)"
    and keeps_uuids: "I s \<Longrightarrow> I (s\<lparr>cp_uuids := n\<rparr>)"
    and keeps_activations: "I s \<Longrightarrow> I (s\<lparr>cp_activations := acts\<rparr>)"
    and keeps_feedbacks: "I s \<Longrightarrow> I (s\<lparr>cp_feedbacks := fbs\<rparr>)"
    and keeps_threads: "threads_shrink (cp_thread_bindings s) tbs \<Longrightarrow> I s \<Longrightarrow>
      I (s\<lparr>cp_thread_bindings := tbs\<rparr>)"
    and keeps_sessions: "I s \<Longrightarrow> I (s\<lparr>cp_session_bindings := sbs\<rparr>)"
    and keeps_cancels: "I s \<Longrightarrow> I (s\<lparr>cp_cancel_requests := crs\<rparr>)"
    and keeps_drop: "I s \<Longrightarrow> I (drop_claim request_id s)"
begin

lemma step_bind_I:
  assumes "I (fst m)" and "\<And>s x. I s \<Longrightarrow> I (fst (f s x))"
  shows "I (fst (step_bind m f))"
proof (cases m)
  case (Pair s r)
  with assms show ?thesis by (cases r) (auto simp: step_bind_def)
qed

lemma pure_step_I:
  assumes "I s" and "\<And>x. I s \<Longrightarrow> I (fst (f s x))"
  shows "I (fst (pure_step s r f))"
  using assms by (cases r) auto

lemma each_step_I:
  assumes "\<And>x s. I s \<Longrightarrow> I (fst (f x s))" and "I s"
  shows "I (fst (each_step f xs s))"
  using assms(2)
proof (induction xs arbitrary: s)
  case Nil
  then show ?case by simp
next
  case (Cons x xs)
  show ?case unfolding each_step.simps by (rule step_bind_I) (use Cons assms(1) in auto)
qed

lemma fold_I:
  assumes "\<And>x s. I s \<Longrightarrow> I (f x s)" and "I s"
  shows "I (fold f xs s)"
  using assms(2) by (induction xs arbitrary: s) (auto intro: assms(1))

lemma events_I: "I s \<Longrightarrow> I (append_events task_id evs s)"
  unfolding append_events_def by (rule fold_I) (auto intro: keeps_event split: prod.split)

lemma known_I: "I s \<Longrightarrow> I (append_if_known task_id event_type payload s)"
  by (simp add: append_if_known_def keeps_event)

lemma both_I: "I s \<Longrightarrow> I (append_to_both b event_type payload s)"
  by (simp add: append_to_both_def known_I)

lemma new_id_I: "I s \<Longrightarrow> new_id env prefix s = (i, s') \<Longrightarrow> I s'"
  by (auto simp: new_id_def intro: keeps_uuids)

lemma id_or_new_I: "I s \<Longrightarrow> id_or_new env prefix given s = (i, s') \<Longrightarrow> I s'"
  by (auto simp: id_or_new_def new_id_def intro: keeps_uuids split: if_splits)

lemma clear_claims_I: "I s \<Longrightarrow> I (clear_task_claims task_id s)"
  unfolding clear_task_claims_def by (rule fold_I) (auto intro: keeps_drop split: prod.split)

lemma drop_cancel_I: "I s \<Longrightarrow> I (drop_cancel_request task_id s)"
  by (simp add: drop_cancel_request_def keeps_cancels)

lemma put_activation_I: "I s \<Longrightarrow> I (put_activation a s)"
  by (simp add: put_activation_def keeps_activations)

lemmas elementary = keeps_task keeps_event keeps_uuids keeps_activations keeps_feedbacks keeps_threads
  keeps_sessions keeps_cancels keeps_drop events_I known_I both_I clear_claims_I drop_cancel_I
  put_activation_I

lemma session_status_I:
  "I s \<Longrightarrow> I (set_session_run_binding_status_locked env b status reason metadata s)"
  by (simp add: set_session_run_binding_status_locked_def Let_def elementary)

lemma thread_status_I:
  "status \<noteq> TBind_ACTIVE \<Longrightarrow> I s \<Longrightarrow>
   I (set_agent_thread_binding_status env b status reason metadata s)"
  by (simp add: set_agent_thread_binding_status_def Let_def elementary)

lemma reactivate_I:
  "I s \<Longrightarrow> I (reactivate_session_run_binding_for_continue env task payload s)"
  by (simp add: reactivate_session_run_binding_for_continue_def Let_def session_status_I
      split: option.split)

lemma consume_I: "I s \<Longrightarrow> I (consume_feedback task_id feedback_id activation_id s)"
  by (simp add: consume_feedback_def Let_def elementary split: option.split)

lemma continue_I:
  "I s \<Longrightarrow> I (fst (continue_agent_run env task_id kind payload resume feedback_id prompt closed s))"
  unfolding continue_agent_run_def Let_def
  by (intro pure_step_I, assumption)
    (auto intro!: pure_step_I elementary consume_I reactivate_I)

lemma add_feedback_I: "I s \<Longrightarrow> I (add_feedback task_id feedback s)"
  by (simp add: add_feedback_def elementary)

lemma resume_I: "I s \<Longrightarrow> I (fst (resume_from_pending_agent_call_feedback env owner_run_id s))"
  unfolding resume_from_pending_agent_call_feedback_def
  by (auto intro!: step_bind_I continue_I split: option.split)

lemma call_feedback_I: "I s \<Longrightarrow> I (fst (append_agent_call_feedback env task relation s))"
  unfolding append_agent_call_feedback_def new_id_def Let_def
  by (auto intro!: step_bind_I resume_I add_feedback_I keeps_uuids)

lemma report_I: "I s \<Longrightarrow> I (fst (report_to_parent env task task_prompt relation s))"
  unfolding report_to_parent_def Let_def
  by (auto intro!: step_bind_I call_feedback_I elementary)

lemma parent_terminal_I: "I s \<Longrightarrow> I (fst (append_parent_terminal_event env task s))"
  unfolding append_parent_terminal_event_def Let_def by (intro each_step_I report_I)

text \<open>Cleaning up with a nested cancellation that keeps the predicate.\<close>

lemma in_frame_I: "I s \<Longrightarrow> I (fst m) \<Longrightarrow> I (fst (in_frame depth s m))"
  by (simp add: in_frame_def)

lemma thread_cancelling_I:
  assumes "\<And>i r s. I s \<Longrightarrow> I (fst (cancel i r s))" and "status \<noteq> TBind_ACTIVE" and "I s"
  shows "I (fst (set_thread_binding_status_cancelling env cancel depth b status reason metadata target s))"
  unfolding set_thread_binding_status_cancelling_def Let_def
  by (auto intro!: in_frame_I step_bind_I assms thread_status_I)

lemma cleanup_thread_I:
  assumes "\<And>i r s. I s \<Longrightarrow> I (fst (cancel i r s))" and "I s"
  shows "I (fst (cleanup_thread_binding env cancel depth task_id binding_id s))"
  unfolding cleanup_thread_binding_def
  by (auto intro!: thread_cancelling_I assms split: option.split)

lemma cleanup_session_I: "I s \<Longrightarrow> I (cleanup_session_binding env task b s)"
  by (simp add: cleanup_session_binding_def session_status_I)

lemma cleanup_I:
  assumes "\<And>i r s. I s \<Longrightarrow> I (fst (cancel i r s))" and "I s"
  shows "I (fst (cleanup_bindings_for_terminal_task env cancel depth task_id s))"
  unfolding cleanup_bindings_for_terminal_task_def
  by (auto intro!: in_frame_I step_bind_I each_step_I cleanup_thread_I assms fold_I cleanup_session_I
      split: option.split)

lemma finish_cancelled_I:
  assumes "\<And>i r s. I s \<Longrightarrow> I (fst (cancel i r s))" and "I s"
  shows "I (fst (finish_cancelled env cancel depth task reason s))"
  unfolding finish_cancelled_def Let_def
  by (intro step_bind_I parent_terminal_I cleanup_I assms elementary) (auto intro: elementary)

lemma cancel_task_I: "I s \<Longrightarrow> I (fst (cancel_task env depth task_id reason s))"
proof (induction depth arbitrary: task_id reason s rule: less_induct)
  case (less depth)
  show ?case
  proof (cases depth)
    case 0
    then show ?thesis using less.prems by simp
  next
    case (Suc d)
    have "I (request_cancel task reason s)" for task
      using less.prems by (simp add: request_cancel_def Let_def elementary)
    moreover have "I s \<Longrightarrow> I (fst (cancel_task env (d - 2) i r s))" for i r s
      using less.IH[of "d - 2"] Suc by simp
    ultimately show ?thesis
      unfolding Suc cancel_task.simps
      by (auto intro!: pure_step_I finish_cancelled_I less.prems)
  qed
qed

lemma thread_by_id_I:
  "status \<noteq> TBind_ACTIVE \<Longrightarrow> I s \<Longrightarrow>
   I (fst (set_thread_binding_by_id env depth binding_id status reason metadata target s))"
  unfolding set_thread_binding_by_id_def
  by (auto intro!: step_bind_I thread_cancelling_I cancel_task_I split: option.split)

lemma mark_each_I:
  "I s \<Longrightarrow> I (fst (mark_each_unavailable env depth reason metadata bs s))"
proof (induction bs arbitrary: s)
  case Nil
  then show ?case by simp
next
  case (Cons b bs)
  show ?case
    unfolding mark_each_unavailable.simps mark_agent_thread_binding_unavailable_def
    by (rule step_bind_I, rule in_frame_I, rule Cons.prems, rule thread_by_id_I, simp, rule Cons.prems,
        rule step_bind_I, rule Cons.IH) simp_all
qed

lemma invalidate_I:
  "I s \<Longrightarrow> I (fst (invalidate_agent_thread_bindings env depth aid owner main reason metadata s))"
  by (simp add: invalidate_agent_thread_bindings_def mark_each_I)

lemma delete_owner_binding_I:
  "I s \<Longrightarrow> I (fst (delete_owner_binding env depth session_run_id reason binding_id s))"
  unfolding delete_owner_binding_def Let_def
  by (auto intro!: step_bind_I cancel_task_I keeps_threads both_I split: option.split)

lemma delete_bindings_I:
  "I s \<Longrightarrow> I (fst (delete_agent_thread_bindings_for_owner_session env depth owner reason s))"
  unfolding delete_agent_thread_bindings_for_owner_session_def Let_def
  by (auto intro!: step_bind_I each_step_I delete_owner_binding_I)

lemma cancel_child_I: "I s \<Longrightarrow> I (fst (cancel_child env depth parent_id reason child_id s))"
  unfolding cancel_child_def by (auto intro!: step_bind_I cancel_task_I elementary)

lemma cleanup_child_I: "I s \<Longrightarrow> I (cleanup_child_relation env relation s)"
  by (auto simp: cleanup_child_relation_def Let_def intro!: fold_I known_I)

end

section \<open>The relations stay\<close>

lemma update_task_parts [simp]:
  "cp_relations (update_task i f s) = cp_relations s"
  "cp_events (update_task i f s) = cp_events s"
  "cp_claims (update_task i f s) = cp_claims s"
  "cp_leases (update_task i f s) = cp_leases s"
  "cp_activations (update_task i f s) = cp_activations s"
  "cp_feedbacks (update_task i f s) = cp_feedbacks s"
  "cp_steers (update_task i f s) = cp_steers s"
  "cp_sessions (update_task i f s) = cp_sessions s"
  "cp_thread_bindings (update_task i f s) = cp_thread_bindings s"
  "cp_session_bindings (update_task i f s) = cp_session_bindings s"
  "cp_cancel_requests (update_task i f s) = cp_cancel_requests s"
  "cp_uuids (update_task i f s) = cp_uuids s"
  "cp_runtime_snapshot (update_task i f s) = cp_runtime_snapshot s"
  "cp_max_running_tasks (update_task i f s) = cp_max_running_tasks s"
  by (simp_all add: update_task_def split: option.split)

lemma append_event_parts [simp]:
  "cp_relations (append_event i ty p s) = cp_relations s"
  "cp_states (append_event i ty p s) = cp_states s"
  "cp_claims (append_event i ty p s) = cp_claims s"
  "cp_leases (append_event i ty p s) = cp_leases s"
  "cp_activations (append_event i ty p s) = cp_activations s"
  "cp_feedbacks (append_event i ty p s) = cp_feedbacks s"
  "cp_steers (append_event i ty p s) = cp_steers s"
  "cp_sessions (append_event i ty p s) = cp_sessions s"
  "cp_thread_bindings (append_event i ty p s) = cp_thread_bindings s"
  "cp_session_bindings (append_event i ty p s) = cp_session_bindings s"
  "cp_cancel_requests (append_event i ty p s) = cp_cancel_requests s"
  "cp_uuids (append_event i ty p s) = cp_uuids s"
  "cp_runtime_snapshot (append_event i ty p s) = cp_runtime_snapshot s"
  "cp_max_running_tasks (append_event i ty p s) = cp_max_running_tasks s"
  by (simp_all add: append_event_def Let_def)

lemma drop_claim_parts [simp]:
  "cp_relations (drop_claim r s) = cp_relations s"
  "cp_states (drop_claim r s) = cp_states s"
  "cp_events (drop_claim r s) = cp_events s"
  "cp_activations (drop_claim r s) = cp_activations s"
  "cp_steers (drop_claim r s) = cp_steers s"
  "cp_thread_bindings (drop_claim r s) = cp_thread_bindings s"
  "cp_claims (drop_claim r s) = dict_pop r (cp_claims s)"
  "cp_leases (drop_claim r s) = dict_pop r (cp_leases s)"
  by (simp_all add: drop_claim_def)

interpretation same_relations: lifecycle_invariant "\<lambda>s. cp_relations s = rels" for rels
  by unfold_locales simp_all

lemma cancel_child_relations [simp]:
  "cp_relations (fst (cancel_child env depth parent_id reason child_id s)) = cp_relations s"
  by (rule same_relations.cancel_child_I) simp

lemma cleanup_child_relations [simp]:
  "cp_relations (cleanup_child_relation env relation s) = cp_relations s"
  by (rule same_relations.cleanup_child_I) simp

end
