(* ===== verification/ControlRun.thy ===== *)
theory ControlRun
  imports ControlFrame
begin

text \<open>
  The life of a claimed run, in \<open>AgentRunControlPlane\<close>
  (\<open>src/labrastro_server/services/agent_runtime/control_plane.py\<close>): pinning a session, executor
  events, completion with its artifacts, failing, cancelling with all descendants, stopping an
  activation, and the two calls that derive one run from another (a persistent agent call and a
  fork).
\<close>

section \<open>Descendants\<close>

text \<open>The stack of the two loops over the descendants is the list with its top in front.\<close>

definition pending_ids :: "control_plane \<Rightarrow> string list \<Rightarrow> string set" where
  "pending_ids s pending = set pending \<union> rl_related_agent_run_id ` set (dict_values (cp_relations s))"

lemma children_pending:
  "rl_related_agent_run_id ` set (active_children s seen parent_id)
     \<subseteq> rl_related_agent_run_id ` set (dict_values (cp_relations s))"
  by (auto simp: active_children_def)

lemma each_cancel_child_relations [simp]:
  "cp_relations (fst (each_step (cancel_child env depth parent_id reason) ids s)) = cp_relations s"
  by (rule same_relations.each_step_I[where rels = "cp_relations s"]) simp_all

lemma fold_cleanup_child_relations [simp]:
  "cp_relations (fold (cleanup_child_relation env) rels s) = cp_relations s"
  by (rule same_relations.fold_I[where rels = "cp_relations s"]) simp_all

lemma finite_pending_ids [simp]: "finite (pending_ids s pending)"
  by (simp add: pending_ids_def)

text \<open>The measure of the loops: the identifiers not visited, then the length of the stack.\<close>

lemma visit_decreases:
  assumes "current \<notin> set seen" and "cp_relations s' = cp_relations s"
    and "set pending' \<subseteq> set pending \<union> rl_related_agent_run_id ` set (dict_values (cp_relations s))"
  shows "card (pending_ids s' pending' - insert current (set seen))
    < card (pending_ids s (current # pending) - set seen)"
proof (rule psubset_card_mono)
  show "finite (pending_ids s (current # pending) - set seen)" by simp
  have "current \<in> pending_ids s (current # pending) - set seen"
    using assms(1) by (simp add: pending_ids_def)
  moreover have "pending_ids s' pending' \<subseteq> pending_ids s (current # pending)"
    using assms(2,3) by (auto simp: pending_ids_def)
  ultimately show "pending_ids s' pending' - insert current (set seen)
      \<subset> pending_ids s (current # pending) - set seen"
    by auto
qed

lemma skip_decreases:
  "current \<in> set seen \<Longrightarrow>
   card (pending_ids s pending - set seen) \<le> card (pending_ids s (current # pending) - set seen)"
  by (rule card_mono) (auto simp: pending_ids_def)

definition child_ids :: "control_plane \<Rightarrow> string list \<Rightarrow> string \<Rightarrow> string list" where
  "child_ids s seen parent_id =
     filter (dict_has (cp_states s))
       (map rl_related_agent_run_id (active_children s seen parent_id))"

function cancel_child_agent_runs ::
  "cp_env \<Rightarrow> nat \<Rightarrow> string \<Rightarrow> string list \<Rightarrow> string list \<Rightarrow> control_plane \<Rightarrow> unit step" where
  "cancel_child_agent_runs env depth reason [] seen s = (s, Inr ())"
| "cancel_child_agent_runs env depth reason (current # pending) seen s =
     (if current \<in> set seen then cancel_child_agent_runs env depth reason pending seen s
      else
        (let children = child_ids s (current # seen) current
         in case each_step (cancel_child env depth current reason) children s of
              (s', Inl e) \<Rightarrow> (s', Inl e)
            | (s', Inr _) \<Rightarrow> cancel_child_agent_runs env depth reason (rev children @ pending)
                              (current # seen) s'))"
  by pat_completeness auto
termination
proof (relation "measures [\<lambda>(env, depth, reason, pending, seen, s). card (pending_ids s pending - set seen),
    \<lambda>(env, depth, reason, pending, seen, s). length pending]", goal_cases)
  case 1
  then show ?case by simp
next
  case (2 env depth reason current pending seen s)
  then show ?case using skip_decreases[of current seen s pending] by auto
next
  case (3 env depth reason current pending seen s children s' r)
  have "s' = fst (each_step (cancel_child env depth current reason) children s)"
    using 3(3,4) by (metis fst_conv)
  then have same: "cp_relations s' = cp_relations s" by simp
  have "set children \<subseteq> rl_related_agent_run_id ` set (dict_values (cp_relations s))"
    using 3(2) children_pending[of s "current # seen" current] by (auto simp: child_ids_def)
  then show ?case
    using visit_decreases[of current seen s' s "rev children @ pending" pending] 3(1) same by auto
qed

function cleanup_child_branch_worktrees ::
  "cp_env \<Rightarrow> string list \<Rightarrow> string list \<Rightarrow> control_plane \<Rightarrow> control_plane" where
  "cleanup_child_branch_worktrees env [] seen s = s"
| "cleanup_child_branch_worktrees env (current # pending) seen s =
     (if current \<in> set seen then cleanup_child_branch_worktrees env pending seen s
      else
        (let relations = active_children s (current # seen) current
         in cleanup_child_branch_worktrees env
              (rev (map rl_related_agent_run_id relations) @ pending) (current # seen)
              (fold (cleanup_child_relation env) relations s)))"
  by pat_completeness auto
termination
proof (relation "measures [\<lambda>(env, pending, seen, s). card (pending_ids s pending - set seen),
    \<lambda>(env, pending, seen, s). length pending]", goal_cases)
  case 1
  then show ?case by simp
next
  case (2 env current pending seen s)
  then show ?case using skip_decreases[of current seen s pending] by auto
next
  case (3 env current pending seen s relations)
  then show ?case
    using visit_decreases[of current seen "fold (cleanup_child_relation env) relations s" s
        "rev (map rl_related_agent_run_id relations) @ pending" pending]
      children_pending[of s "current # seen" current] by auto
qed

declare cancel_child_agent_runs.simps [simp del] cleanup_child_branch_worktrees.simps [simp del]

definition cancel_agent_run ::
  "cp_env \<Rightarrow> nat \<Rightarrow> string \<Rightarrow> string \<Rightarrow> control_plane \<Rightarrow> bool step" where
  "cancel_agent_run env depth task_id reason s =
     pure_step s (task_locked s task_id) (\<lambda>s task.
     if is_terminal task then (s, Inr False)
     else step_bind (cancel_task env depth task_id reason s) (\<lambda>s changed.
       if \<not> changed then (s, Inr False)
       else step_bind (cancel_child_agent_runs env (depth - 1) reason [task_id] [] s) (\<lambda>s _.
         (cleanup_child_branch_worktrees env [task_id] [] s, Inr True))))"

section \<open>Failing and stopping\<close>

text \<open>What ends a run: the owners hear of it, its bindings are closed and its claims dropped.\<close>

definition failed_run :: "string \<Rightarrow> agent_run \<Rightarrow> agent_run" where
  "failed_run error task =
     (set_terminal_result (Some error) (set_status Run_FAILED task))
       \<lparr>ar_failure_reason := Some error, ar_cancel_reason := None\<rparr>"

definition fail_agent_run ::
  "cp_env \<Rightarrow> nat \<Rightarrow> string \<Rightarrow> string \<Rightarrow> control_plane \<Rightarrow> string step" where
  "fail_agent_run env depth task_id error s =
     pure_step s (task_locked s task_id) (\<lambda>s task.
     let s = update_task task_id (failed_run error) s;
         s = append_event task_id ''failed'' [(''error'', PStr error)] s
     in step_bind (append_parent_terminal_event env (failed_run error task) s) (\<lambda>s _.
        step_bind (cleanup_bindings_for_terminal_task env (cancel_task env (depth - 2)) depth task_id s)
          (\<lambda>s _. (drop_cancel_request task_id (clear_task_claims task_id s), Inr task_id))))"

text \<open>The keys of a lease do not include \<open>request_id\<close>, so \<open>claim.get("request_id")\<close> is None.\<close>

definition stopped_run :: "string \<Rightarrow> agent_run \<Rightarrow> agent_run" where
  "stopped_run reason task =
     (set_terminal_result (Some reason)
       (set_agent_run_status Run_COMPLETED None (Some Main_CONTINUABLE) (Some AState_CANCELLED) task))
       \<lparr>ar_failure_reason := None, ar_cancel_reason := Some reason\<rparr>"

definition stop_agent_run_activation ::
  "cp_env \<Rightarrow> string \<Rightarrow> string \<Rightarrow> control_plane \<Rightarrow> bool step" where
  "stop_agent_run_activation env task_id reason s =
     pure_step s (task_locked s task_id) (\<lambda>s task.
     let activation_id = str_strip (opt_str (ar_current_activation_id task));
         claim = active_claim_for_task s task_id
     in if ar_status task \<in> {Run_COMPLETED, Run_FAILED, Run_CANCELLED, Run_BLOCKED}
        then (s, Inr False)
        else if activation_id = [] then (s, Inr False)
        else
          let s = (if ar_status task \<in> {Run_DISPATCHED, Run_RUNNING, Run_WAITING}
                then append_event task_id ''cancel_requested''
                  [(''reason'', PStr reason),
                   (''activation_id'', PStr (case claim of None \<Rightarrow> activation_id
                      | Some lease \<Rightarrow> ls_activation_id lease)),
                   (''worker_id'', PStr (claim_text ls_worker_id claim))]
                  (s\<lparr>cp_cancel_requests := dict_set task_id reason (cp_cancel_requests s)\<rparr>)
                else s);
              s = update_task task_id (stopped_run reason) s;
              task = stopped_run reason task;
              existing = (case dict_get (cp_activations s) activation_id of
                 Some a \<Rightarrow> a
               | None \<Rightarrow> activation_from_task task (Some activation_id) None None [] None
                   (Some Act_CANCELLED) None None None []);
              payload = [(''status'', PStr ''cancelled''), (''output'', PStr reason),
                         (''reason'', PStr reason)];
              stopped = (activation_with_runtime_state (Some Act_CANCELLED)
                  (case claim of None \<Rightarrow> None | Some _ \<Rightarrow> Some [])
                  (map_option ls_worker_id claim) (Some reason) (Some payload) existing)
                \<lparr>ac_ended_at := Some (env_iso env)\<rparr>;
              s = put_activation stopped s;
              s = append_event task_id ''activation_completed''
                [(''activation_id'', PStr (ac_id stopped)),
                 (''activation'', PDict (activation_to_dict stopped)),
                 (''result'', PDict payload)] s;
              s = append_event task_id ''activation_stopped''
                [(''reason'', PStr reason),
                 (''activation_id'', PStr (ac_id stopped)),
                 (''agent_run'', PDict (agent_run_to_dict task))] s
          in (drop_cancel_request task_id (clear_task_claims task_id s), Inr True))"

section \<open>Sessions\<close>

definition pin_session :: "string \<Rightarrow> task_session_ref \<Rightarrow> control_plane \<Rightarrow> unit step" where
  "pin_session task_id session s =
     pure_step s (task_locked s task_id) (\<lambda>s task.
     let pin = (\<lambda>t. (set_status Run_RUNNING t)
           \<lparr>ar_executor_session_id := (case ts_executor_session_id session of
               None \<Rightarrow> ar_executor_session_id t | Some x \<Rightarrow> Some x),
            ar_workdir := (case ts_workdir session of None \<Rightarrow> ar_workdir t | Some x \<Rightarrow> Some x)\<rparr>);
         s = update_task task_id pin s;
         task = pin task;
         pinned = session\<lparr>ts_workdir := ar_workdir task,
                          ts_executor_session_id := ar_executor_session_id task,
                          ts_metadata := session_metadata s task (ts_metadata session)\<rparr>;
         s = s\<lparr>cp_sessions := dict_set task_id pinned (cp_sessions s)\<rparr>
     in (append_event task_id ''session_pinned''
           [(''executor_session_id'', opt_val (ar_executor_session_id task)),
            (''workdir'', opt_val (ar_workdir task)),
            (''branch'', opt_val (ts_branch session))] s, Inr ()))"

definition pin_claimed_activation_session ::
  "string \<Rightarrow> string \<Rightarrow> string \<Rightarrow> string \<Rightarrow> string option \<Rightarrow> string option \<Rightarrow> string option \<Rightarrow>
   string option \<Rightarrow> pyobj \<Rightarrow> control_plane \<Rightarrow> (bool \<times> string) step" where
  "pin_claimed_activation_session request_id task_id activation_id worker_id peer_id workdir branch
       executor_session_id metadata s =
     (let (ok, reason) = validate_activation_claim_owner s request_id task_id (Some activation_id)
            worker_id peer_id
      in if \<not> ok then (s, Inr (False, reason))
         else pure_step s (task_locked s task_id) (\<lambda>s task.
           let session = \<lparr>ts_agent_id = ar_agent_id task,
                 ts_executor = (case ar_executor task of None \<Rightarrow> Exec_REULEAUXCODER | Some e \<Rightarrow> e),
                 ts_execution_location = (case ar_execution_location task of
                    None \<Rightarrow> Loc_REMOTE_SERVER | Some l \<Rightarrow> l),
                 ts_task_id = task_id, ts_workdir = str_opt (opt_str workdir),
                 ts_branch = str_opt (opt_str branch),
                 ts_executor_session_id = str_opt (opt_str executor_session_id),
                 ts_metadata = session_metadata s task metadata\<rparr>
           in step_bind (pin_session task_id session s) (\<lambda>s _.
              pure_step s (task_locked s task_id) (\<lambda>s task.
              let activation_id = lease_activation_id (dict_get (cp_leases s) request_id) task;
                  s = (if activation_id = [] then s
                    else s\<lparr>cp_activations := dict_set activation_id
                      (activation_with_runtime_state (Some Act_RUNNING) (Some request_id)
                         (Some worker_id) None None (activation_or_from_task s task activation_id))
                      (cp_activations s)\<rparr>);
                  s = (if metadata = [] then s
                    else append_event task_id ''session_metadata''
                      (dict_update [(''request_id'', PStr request_id),
                                    (''activation_id'', PStr activation_id),
                                    (''worker_id'', PStr worker_id)] metadata) s)
              in (s, Inr (True, []))))))"

section \<open>Executor events\<close>

definition waiting_approval_event :: "executor_event \<Rightarrow> bool" where
  "waiting_approval_event event \<longleftrightarrow>
     ev_type event = Event_STATUS \<and>
     str_or_empty (pget (ev_data event) ''status'') = ''waiting_approval''"

text \<open>A run blocked by an environment policy.\<close>

definition policy_blocked_run :: "string \<Rightarrow> agent_run \<Rightarrow> agent_run" where
  "policy_blocked_run error task =
     (set_status Run_BLOCKED
        (task\<lparr>ar_metadata := dict_set ''environment_policy_violation'' (PStr error)
                (ar_metadata task)\<rparr>))
       \<lparr>ar_failure_reason := Some error, ar_cancel_reason := None\<rparr>"

text \<open>What a status event does to the run.\<close>

definition apply_status_event :: "string \<Rightarrow> agent_run \<Rightarrow> executor_event \<Rightarrow> control_plane \<Rightarrow> control_plane"
  where
  "apply_status_event task_id task event s =
     (let status = py_str (pget_or (ev_data event) ''status'' (PStr []));
          reason = (\<lambda>fallback. py_str (py_or (py_or (pget (ev_data event) ''reason'')
             (pget (ev_data event) ''message'')) (PStr fallback)))
      in if ev_type event \<noteq> Event_STATUS then s
         else if status = ''waiting_approval'' then
           (if should_block_waiting_approval (ar_source task) then
              append_event task_id ''permission.blocked_review''
                (blocked_review_event_payload (ev_data event))
                (update_task task_id (\<lambda>t. (set_status Run_BLOCKED t)
                   \<lparr>ar_failure_reason := Some (reason ''approval_required''),
                    ar_cancel_reason := None\<rparr>) s)
            else update_task task_id (\<lambda>t.
                   (set_agent_run_status Run_WAITING (Some Wait_USER_APPROVAL) None None t)
                   \<lparr>ar_resume_policy := Some Resume_USER_ACTION\<rparr>) s)
         else if status = ''running'' then
           update_task task_id (\<lambda>t. (set_status Run_RUNNING t)\<lparr>ar_resume_policy := None\<rparr>) s
         else if status = ''blocked'' then
           update_task task_id (\<lambda>t. (set_status Run_BLOCKED t)
             \<lparr>ar_resume_policy := None, ar_failure_reason := Some (reason ''blocked''),
              ar_cancel_reason := None\<rparr>) s
         else s)"

definition append_executor_event ::
  "string \<Rightarrow> executor_event \<Rightarrow> string option \<Rightarrow> string option \<Rightarrow> string option \<Rightarrow> string option \<Rightarrow>
   control_plane \<Rightarrow> (bool \<times> string) step" where
  "append_executor_event task_id event request_id activation_id worker_id peer_id s =
     (let claimed = (opt_str request_id \<noteq> [] \<or> opt_str worker_id \<noteq> [] \<or> opt_str peer_id \<noteq> []);
          (ok, reason) = (if claimed
            then validate_activation_claim_owner s (opt_str request_id) task_id activation_id
                   (opt_str worker_id) peer_id
            else (True, []))
      in if \<not> ok then (s, Inr (False, reason))
         else pure_step s (task_locked s task_id) (\<lambda>s task.
           let activation_id = lease_activation_id
                 (if opt_str request_id = [] then None
                  else dict_get (cp_leases s) (opt_str request_id)) task;
               payload = executor_event_to_dict event;
               payload = (if activation_id = [] then payload
                 else dict_setdefault ''activation''
                   (PDict (activation_to_dict (activation_with_runtime_state
                     (Some (if waiting_approval_event event then Act_WAITING else Act_RUNNING))
                     request_id worker_id None None (activation_or_from_task s task activation_id))))
                   (dict_setdefault ''activation_id'' (PStr activation_id) payload));
               expansion = expand_environment_executor_event (ar_metadata task) event;
               s = append_event task_id (executor_event_type_value (ev_type event)) payload s;
               s = append_events task_id (worktree_lifecycle_events task event) s;
               s = append_events task_id (ee_events expansion) s;
               s = (if ee_policy_error expansion = [] then s
                 else append_event task_id ''blocked''
                   [(''error'', PStr (ee_policy_error expansion))]
                   (update_task task_id (policy_blocked_run (ee_policy_error expansion)) s))
           in (apply_status_event task_id task event s, Inr (True, []))))"

section \<open>Artifacts\<close>

definition control_attach_artifact ::
  "cp_env \<Rightarrow> string \<Rightarrow> string \<Rightarrow> string \<Rightarrow> string option \<Rightarrow> string option \<Rightarrow> string option \<Rightarrow>
   string option \<Rightarrow> string option \<Rightarrow> pyobj \<Rightarrow> control_plane \<Rightarrow> task_artifact step" where
  "control_attach_artifact env task_id type_text status_text given_id branch_name pr_url content path
       metadata s =
     (case dict_get (cp_states s) task_id of
        None \<Rightarrow> (s, Inl (KeyError task_id))
      | Some state \<Rightarrow>
          (let (artifact_id, s) = id_or_new env ''artifact'' given_id s
           in pure_step s (attach_artifact artifact_id type_text status_text branch_name pr_url
                             content path metadata state) (\<lambda>s (artifact, state).
              let state = (if tk_type artifact = Artifact_PULL_REQUEST
                    then state\<lparr>tl_issue_status := Issue_IN_REVIEW\<rparr> else state);
                  s = s\<lparr>cp_states := dict_set task_id state (cp_states s)\<rparr>
              in (append_event task_id ''artifact_attached''
                    (artifact_attached_event_payload artifact) s, Inr artifact))))"

text \<open>The call \<open>attach_artifact(task_id, **artifact)\<close>.\<close>

definition artifact_parameters :: "string list" where
  "artifact_parameters =
     [''type'', ''status'', ''artifact_id'', ''branch_name'', ''pr_url'', ''content'', ''path'',
      ''metadata'']"

definition optional_text :: "pyval \<Rightarrow> string option" where
  "optional_text v = (if v = PNone then None else Some (py_str v))"

definition attach_artifact_kwargs ::
  "cp_env \<Rightarrow> string \<Rightarrow> pyobj \<Rightarrow> control_plane \<Rightarrow> unit step" where
  "attach_artifact_kwargs env task_id kwargs s =
     (if list_ex (\<lambda>key. key \<notin> set artifact_parameters) (dict_keys kwargs) then
        (s, Inl (TypeError ''attach_artifact() got an unexpected keyword argument''))
      else if \<not> dict_has kwargs ''type'' then
        (s, Inl (TypeError ''attach_artifact() missing 1 required keyword-only argument''))
      else step_bind (control_attach_artifact env task_id (py_str (pget kwargs ''type''))
             (py_str (pget_or kwargs ''status'' (PStr ''generated'')))
             (str_opt (str_or_empty (pget kwargs ''artifact_id''))) (optional_text (pget kwargs ''branch_name''))
             (optional_text (pget kwargs ''pr_url'')) (optional_text (pget kwargs ''content''))
             (optional_text (pget kwargs ''path'')) (dict_value (pget kwargs ''metadata'')) s)
             (\<lambda>s _. (s, Inr ())))"

definition create_or_update_pr ::
  "cp_env \<Rightarrow> string \<Rightarrow> string \<Rightarrow> control_plane \<Rightarrow> task_artifact step" where
  "create_or_update_pr env task_id diff s =
     pure_step s (task_locked s task_id) (\<lambda>s task.
     let session = dict_get (cp_sessions s) task_id;
         session_branch = (case session of None \<Rightarrow> None | Some ref \<Rightarrow> ts_branch ref);
         pr = pr_create_or_update (cp_pr_base_url s) task diff
           (str_opt (text_or session_branch
              (worktree_branch_for_activation (current_activation s task))))
     in control_attach_artifact env task_id (artifact_type_value Artifact_PULL_REQUEST)
          (artifact_status_value AStatus_PR_CREATED) None (Some (pr_branch_name pr))
          (Some (pr_pr_url pr)) (Some diff) None (pr_metadata pr) s)"

end
