(* ===== verification/ControlComplete.thy ===== *)
theory ControlComplete
  imports ControlRun
begin

text \<open>
  Completing an activation of a run, and deriving one run from another, in
  \<open>AgentRunControlPlane\<close> (\<open>src/labrastro_server/services/agent_runtime/control_plane.py\<close>).
\<close>

section \<open>Completion\<close>

definition validate_completion_activation ::
  "control_plane \<Rightarrow> agent_run \<Rightarrow> string \<Rightarrow> agent_run_activation result" where
  "validate_completion_activation s task activation_id =
     (if activation_id = [] then Inl (ValueError ''activation_id_required'')
      else case dict_get (cp_activations s) activation_id of
        None \<Rightarrow> Inl (ValueError ''activation_not_found'')
      | Some activation \<Rightarrow>
          if ac_agent_run_id activation \<noteq> ar_id task then Inl (ValueError ''activation_not_found'')
          else if opt_str (ar_current_activation_id task) \<noteq> activation_id
            then Inl (ValueError ''activation_mismatch'')
          else Inr activation)"

text \<open>The run after a completed activation that has to wait.\<close>

definition parked_run :: "agent_run_waiting_reason option \<Rightarrow> agent_run \<Rightarrow> agent_run" where
  "parked_run required task =
     (let reason = (case ar_waiting_reason task of
            Some r \<Rightarrow> r
          | None \<Rightarrow> (case required of Some r \<Rightarrow> r | None \<Rightarrow> Wait_SERVER_PROCESSING))
      in (set_agent_run_status Run_WAITING (Some reason) None None task)
           \<lparr>ar_resume_policy := (case ar_resume_policy task of
               Some p \<Rightarrow> Some p
             | None \<Rightarrow> if reason \<in> {Wait_AGENT_CALL, Wait_SERVER_PROCESSING}
                       then Some Resume_EXTERNAL_EVENT else Some Resume_USER_ACTION),
            ar_terminal_result := []\<rparr>)"

text \<open>The branches on the status of the result. The issue status changes on success only.\<close>

definition settle_state ::
  "string \<Rightarrow> string \<Rightarrow> agent_run_waiting_reason option \<Rightarrow> executor_run_result \<Rightarrow> task_lifecycle \<Rightarrow>
   task_lifecycle" where
  "settle_state policy_error requested_cancel_reason required r st =
     (let task = tl_task st; error = opt_str (rr_error r);
          with_reasons = (\<lambda>failure cancel t.
             t\<lparr>ar_failure_reason := failure, ar_cancel_reason := cancel\<rparr>)
      in if run_succeeded r \<and> policy_error = [] then
           (let st = (if ar_status task = Run_WAITING \<or> required \<noteq> None
                 then st\<lparr>tl_task := parked_run required task\<rparr>
                 else complete_task_lifecycle (rr_output r) st)
            in st\<lparr>tl_task := with_reasons None None (tl_task st)\<rparr>)
         else if policy_error \<noteq> [] then
           st\<lparr>tl_task := with_reasons (Some policy_error) None
                (set_terminal_result (Some policy_error) (set_status Run_BLOCKED task))\<rparr>
         else if rr_status r = ''cancelled'' then
           (let reason = text_or (Some (rr_output r)) (text_or (Some requested_cancel_reason)
                  (text_or (rr_error r) ''cancelled''))
            in st\<lparr>tl_task := with_reasons (Some ''cancelled'') (Some reason)
                    (set_terminal_result (Some (text_or (Some (rr_output r)) reason))
                      (set_status Run_CANCELLED task))\<rparr>)
         else if rr_status r = ''blocked'' then
           st\<lparr>tl_task := with_reasons
                (Some (text_or (rr_error r) (text_or (Some (rr_output r)) ''blocked''))) None
                (set_terminal_result (Some (text_or (Some (rr_output r)) error))
                  (set_status Run_BLOCKED task))\<rparr>
         else
           st\<lparr>tl_task := with_reasons (Some (text_or (rr_error r) ''agent_error'')) None
                (set_terminal_result (Some (rr_output r)) (set_status Run_FAILED task))\<rparr>)"

definition record_result_session ::
  "string \<Rightarrow> executor_run_result \<Rightarrow> control_plane \<Rightarrow> control_plane" where
  "record_result_session task_id r s =
     (if opt_str (rr_executor_session_id r) = [] then s
      else
        (let s = update_task task_id
               (\<lambda>t. t\<lparr>ar_executor_session_id := rr_executor_session_id r\<rparr>) s
         in case task_of s task_id of
              None \<Rightarrow> s
            | Some task \<Rightarrow>
                s\<lparr>cp_sessions := dict_set task_id
                   \<lparr>ts_agent_id = ar_agent_id task,
                    ts_executor = (case ar_executor task of None \<Rightarrow> Exec_REULEAUXCODER | Some e \<Rightarrow> e),
                    ts_execution_location = (case ar_execution_location task of
                       None \<Rightarrow> Loc_REMOTE_SERVER | Some l \<Rightarrow> l),
                    ts_task_id = task_id, ts_workdir = ar_workdir task,
                    ts_branch = (case dict_get (cp_sessions s) task_id of
                       Some ref \<Rightarrow> ts_branch ref
                     | None \<Rightarrow> str_opt (worktree_branch_for_activation (current_activation s task))),
                    ts_executor_session_id = ar_executor_session_id task,
                    ts_metadata = session_metadata s task []\<rparr> (cp_sessions s)\<rparr>))"

text \<open>One event of the result; the accumulator carries the policy error found so far.\<close>

definition record_result_event ::
  "string \<Rightarrow> executor_event \<Rightarrow> control_plane \<times> string \<Rightarrow> control_plane \<times> string" where
  "record_result_event task_id event acc =
     (let (s, policy_error) = acc;
          s = append_event task_id (executor_event_type_value (ev_type event))
                (executor_event_to_dict event) s;
          metadata = (case task_of s task_id of None \<Rightarrow> [] | Some task \<Rightarrow> ar_metadata task);
          expansion = expand_environment_executor_event metadata event;
          s = append_events task_id (ee_events expansion) s
      in if ee_policy_error expansion \<noteq> [] \<and> policy_error = [] then
           (let found = ee_policy_error expansion
            in (append_event task_id ''blocked'' [(''error'', PStr found)]
                  (update_task task_id (\<lambda>t. policy_blocked_run found
                     (set_terminal_result (Some found) t)) s), found))
         else (s, policy_error))"

definition claim_of_task :: "control_plane \<Rightarrow> string \<Rightarrow> (string \<times> activation_claim) option" where
  "claim_of_task s task_id = List.find (\<lambda>(request_id, claim). cl_task_id claim = task_id) (cp_claims s)"

text \<open>What follows once the run has its outcome: the activation is closed, the owner or the owners
  are resumed, the claims end.\<close>

definition close_completed_activation ::
  "cp_env \<Rightarrow> nat \<Rightarrow> string \<Rightarrow> executor_run_result \<Rightarrow> agent_run_activation \<Rightarrow> control_plane \<Rightarrow>
   string step" where
  "close_completed_activation env depth task_id r activation s =
     (let result = [(''result'', PDict (executor_run_result_to_dict r))];
          s = put_activation activation s;
          s = append_event task_id ''activation_completed''
                ([(''activation_id'', PStr (ac_id activation)),
                  (''activation'', PDict (activation_to_dict activation))] @ result) s
      in pure_step s (task_locked s task_id) (\<lambda>s task.
         let s = append_event task_id (agent_run_status_value (ar_status task))
               (result @ [(''agent_run'', PDict (agent_run_to_dict task))]) s
         in step_bind (resume_from_pending_agent_call_feedback env task_id s) (\<lambda>s _.
            pure_step s (task_locked s task_id) (\<lambda>s task.
            step_bind
              (if is_terminal task
               then step_bind (append_parent_terminal_event env task s) (\<lambda>s _.
                    cleanup_bindings_for_terminal_task env (cancel_task env (depth - 2)) depth task_id s)
               else (s, Inr ())) (\<lambda>s _.
            (drop_cancel_request task_id (clear_task_claims task_id s), Inr task_id))))))"

definition completed_activation ::
  "string \<Rightarrow> agent_run \<Rightarrow> executor_run_result \<Rightarrow> control_plane \<Rightarrow> agent_run_activation \<Rightarrow>
   agent_run_activation" where
  "completed_activation task_id task r s activation =
     activation_with_runtime_state (Some (activation_status_for_result r))
       (case claim_of_task s task_id of None \<Rightarrow> None | Some (request_id, _) \<Rightarrow> str_opt request_id)
       (case claim_of_task s task_id of None \<Rightarrow> None | Some (_, claim) \<Rightarrow> Some (cl_worker_id claim))
       (Some (text_or (Some (terminal_output task)) (rr_output r)))
       (Some (executor_run_result_to_dict r)) activation"

text \<open>The outcome of the run, its session and its events, with the policy error found.\<close>

definition settle_result ::
  "string \<Rightarrow> executor_run_result \<Rightarrow> agent_run \<Rightarrow> control_plane \<Rightarrow> control_plane \<times> string" where
  "settle_result task_id r task s =
     (let policy_error = str_strip (str_or_empty (pget (ar_metadata task)
            ''environment_policy_violation''));
          requested = str_strip (opt_str (dict_get (cp_cancel_requests s) task_id));
          required = waiting_reason_for_required_feedback (feedbacks_of s task_id);
          s = (case dict_get (cp_states s) task_id of
                 None \<Rightarrow> s
               | Some st \<Rightarrow> s\<lparr>cp_states := dict_set task_id
                   (settle_state policy_error requested required r st) (cp_states s)\<rparr>)
      in fold (record_result_event task_id) (rr_events r)
           (record_result_session task_id r s, policy_error))"

definition summarize_completion ::
  "cp_env \<Rightarrow> nat \<Rightarrow> string \<Rightarrow> executor_run_result \<Rightarrow> string \<Rightarrow> string \<Rightarrow> control_plane \<Rightarrow>
   string step" where
  "summarize_completion env depth task_id r completion_id policy_error s =
     pure_step s (task_locked s task_id) (\<lambda>s task.
     pure_step s (environment_summary_event (ar_metadata task)
         (agent_run_status_value (ar_status task))
         (text_or (Some (terminal_output task)) (rr_output r))
         (text_or (Some policy_error) (opt_str (rr_error r)))) (\<lambda>s summary.
     let s = (case summary of None \<Rightarrow> s
            | Some (event_type, payload) \<Rightarrow> append_event task_id event_type payload s)
     in case dict_get (cp_activations s) completion_id of
          None \<Rightarrow> (s, Inl (KeyError completion_id))
        | Some activation \<Rightarrow>
            close_completed_activation env depth task_id r
              (completed_activation task_id task r s activation) s))"

definition complete_agent_run_activation ::
  "cp_env \<Rightarrow> nat \<Rightarrow> string \<Rightarrow> executor_run_result \<Rightarrow> string \<Rightarrow> pyobj list \<Rightarrow> control_plane \<Rightarrow>
   string step" where
  "complete_agent_run_activation env depth task_id r activation_id artifacts s =
     pure_step s (task_locked s task_id) (\<lambda>s task.
     pure_step s (validate_completion_activation s task (str_strip activation_id)) (\<lambda>s _.
     let (s, policy_error) = settle_result task_id r task s
     in step_bind (each_step (attach_artifact_kwargs env task_id)
                     (executor_result_artifacts r artifacts) s) (\<lambda>s _.
        summarize_completion env depth task_id r (str_strip activation_id) policy_error s)))"

definition complete_claimed_agent_run_activation ::
  "cp_env \<Rightarrow> nat \<Rightarrow> string \<Rightarrow> executor_run_result \<Rightarrow> string \<Rightarrow> string \<Rightarrow> string \<Rightarrow> string option \<Rightarrow>
   pyobj list \<Rightarrow> control_plane \<Rightarrow> (bool \<times> string \<times> string option) step" where
  "complete_claimed_agent_run_activation env depth task_id r request_id activation_id worker_id peer_id
       artifacts s =
     (let (ok, reason) = validate_activation_claim_owner s request_id task_id (Some activation_id)
            worker_id peer_id
      in if \<not> ok then (s, Inr (False, reason, None))
         else pure_step s (task_locked s task_id) (\<lambda>s task.
           let activation_id = lease_activation_id (dict_get (cp_leases s) request_id) task;
               s = (if activation_id = [] then s
                    else update_task task_id
                      (\<lambda>t. t\<lparr>ar_current_activation_id := Some activation_id\<rparr>) s)
           in step_bind (in_frame depth s
                  (complete_agent_run_activation env (depth - 1) task_id r activation_id artifacts s))
                (\<lambda>s done_id. (s, Inr (True, [], Some done_id)))))"

section \<open>Waiting for an agent call\<close>

definition mark_agent_call_waiting ::
  "string \<Rightarrow> string \<Rightarrow> string \<Rightarrow> string \<Rightarrow> bool \<Rightarrow> control_plane \<Rightarrow> unit step" where
  "mark_agent_call_waiting owner_agent_run_id target_agent_run_id conversation_scope thread_key wait s =
     (let owner_run_id = str_strip owner_agent_run_id;
          target_run_id = str_strip target_agent_run_id;
          park = (\<lambda>t. (set_agent_run_status Run_WAITING (Some Wait_AGENT_CALL) None None t)
            \<lparr>ar_resume_policy := Some Resume_EXTERNAL_EVENT, ar_terminal_result := []\<rparr>)
      in if \<not> wait then (s, Inr ())
         else if owner_run_id = [] \<or> target_run_id = [] then (s, Inr ())
         else pure_step s (task_locked s owner_run_id) (\<lambda>s task.
           if is_terminal task then (s, Inr ())
           else (append_event owner_run_id ''waiting''
                   [(''agent_run'', PDict (agent_run_to_dict (park task))),
                    (''waiting_reason'', PStr (agent_run_waiting_reason_value Wait_AGENT_CALL)),
                    (''resume_policy'', PStr (agent_run_resume_policy_value Resume_EXTERNAL_EVENT)),
                    (''target_agent_run_id'', PStr target_run_id),
                    (''conversation_scope'', PStr (str_strip conversation_scope)),
                    (''thread_key'', PStr (str_strip thread_key))]
                   (update_task owner_run_id park s), Inr ())))"

section \<open>Derived runs\<close>

text \<open>A request with the defaults of the constructor, whose arguments are members already.\<close>

definition blank_request :: "string \<Rightarrow> string \<Rightarrow> agent_run_request" where
  "blank_request agent_id prompt =
     \<lparr>sq_agent_id = agent_id, sq_prompt = prompt, sq_owner_session_run_id = [],
      sq_source = Source_MANUAL, sq_executor = None, sq_execution_location = None,
      sq_worker_kind = None, sq_model_request_origin = None, sq_worktree_role = None,
      sq_publish_policy = None, sq_trigger_mode = Trigger_ISSUE_TASK, sq_runtime_profile_id = None,
      sq_workdir = None, sq_executor_session_id = None, sq_model = None, sq_sandbox_id = None,
      sq_sandbox_session_id = None, sq_workspace_ref = None, sq_budget = [], sq_metadata = [],
      sq_relation = None\<rparr>"

definition construct_request :: "agent_run_request \<Rightarrow> agent_run_request result" where
  "construct_request r =
     agent_run_request_post_init
       \<lparr>rf_source = PStr (agent_run_source_value (sq_source r)),
        rf_executor = member_val executor_type_value (sq_executor r),
        rf_execution_location = member_val execution_location_value (sq_execution_location r),
        rf_worker_kind = member_val worker_kind_value (sq_worker_kind r),
        rf_model_request_origin = member_val model_request_origin_value (sq_model_request_origin r),
        rf_worktree_role = member_val worktree_role_value (sq_worktree_role r),
        rf_publish_policy = member_val publish_policy_value (sq_publish_policy r),
        rf_budget = PDict (int_pairs (sq_budget r)),
        rf_trigger_mode = PStr (trigger_mode_value (sq_trigger_mode r))\<rparr> r"

definition new_relation ::
  "string \<Rightarrow> string \<Rightarrow> agent_run_relation_type \<Rightarrow> pyobj \<Rightarrow> agent_run_relation result" where
  "new_relation owner related relation_type payload =
     relation_post_init
       \<lparr>rl_id = [], rl_owner_agent_run_id = owner, rl_related_agent_run_id = related,
        rl_relation_type = relation_type, rl_relation_scope = ''session'',
        rl_created_by_activation_id = None, rl_status = RStatus_ACTIVE, rl_payload = payload,
        rl_metadata = []\<rparr>"

text \<open>A call on a thread that exists already.\<close>

definition reuse_thread ::
  "cp_env \<Rightarrow> agent_thread_binding \<Rightarrow> string \<Rightarrow> string \<Rightarrow> string \<Rightarrow> string \<Rightarrow> bool \<Rightarrow> control_plane \<Rightarrow>
   string step" where
  "reuse_thread env existing main_id thread_key summary prompt wait s =
     (if summary \<noteq> [] \<and> tb_thread_summary existing \<noteq> [] \<and> summary \<noteq> tb_thread_summary existing then
        (s, Inl (ValueError ''persistent Agent thread summary does not match existing binding''))
      else pure_step s (task_locked s (tb_target_agent_run_id existing)) (\<lambda>s target.
        if ar_status target \<in> {Run_QUEUED, Run_DISPATCHED, Run_RUNNING, Run_WAITING} then
          (s, Inl (ValueError ''persistent Agent thread already has an active activation''))
        else continue_agent_run env (tb_target_agent_run_id existing) Input_USER_REQUEST
               [(''conversation_scope'', PStr ''persistent''),
                (''owner_agent_run_id'', PStr main_id),
                (''binding_id'', PStr (tb_id existing)),
                (''thread_key'', PStr thread_key),
                (''wait'', PBool wait)]
               True None (Some (str_strip prompt)) False s))"

definition start_thread ::
  "cp_env \<Rightarrow> string \<Rightarrow> string \<Rightarrow> string \<Rightarrow> string \<Rightarrow> string \<Rightarrow> string \<Rightarrow> bool \<Rightarrow> string option \<Rightarrow> pyobj \<Rightarrow>
   control_plane \<Rightarrow> string step" where
  "start_thread env main_id session_run_id agent_id thread_key summary prompt wait workdir metadata s =
     pure_step s (external_persistent_agent_metadata metadata) (\<lambda>s external_metadata.
     let payload =
           [(''conversation_scope'', PStr ''persistent''), (''wait'', PBool wait),
            (''thread_key'', PStr thread_key), (''thread_summary'', PStr summary)] @
           (if session_run_id = [] then [] else [(''parent_session_id'', PStr session_run_id)]) @
           (if opt_str workdir = [] then [] else [(''workspace_root'', opt_val workdir)])
     in pure_step s (new_relation main_id [] Rel_AGENT_CALL_PERSISTENT payload) (\<lambda>s relation.
        pure_step s (construct_request ((blank_request agent_id (str_strip prompt))
            \<lparr>sq_owner_session_run_id := session_run_id, sq_source := Source_DELEGATION,
             sq_workdir := str_opt (opt_str workdir), sq_metadata := external_metadata,
             sq_relation := Some relation\<rparr>)) (\<lambda>s request.
        step_bind (submit_agent_run env request None s) (\<lambda>s run_id.
        (upsert_agent_thread_binding
           \<lparr>tb_id = agent_thread_binding_id session_run_id main_id agent_id thread_key
               (agent_thread_binding_lifetime_value Life_SESSION),
            tb_owner_session_run_id = session_run_id, tb_main_agent_run_id = main_id,
            tb_agent_id = agent_id, tb_target_agent_run_id = run_id, tb_thread_key = thread_key,
            tb_thread_summary = summary, tb_binding_lifetime = Life_SESSION,
            tb_workdir_policy = Workdir_INHERIT_MAIN,
            tb_visibility = ''hidden_from_user_transcript'', tb_status = TBind_ACTIVE,
            tb_cleanup_policy = ''delete_with_owner_session'', tb_created_at = None,
            tb_updated_at = None,
            tb_metadata = [(''created_by_agent_run_id'', PStr main_id)]\<rparr> s, Inr run_id)))))"

definition call_persistent_agent ::
  "cp_env \<Rightarrow> string \<Rightarrow> string \<Rightarrow> string \<Rightarrow> string \<Rightarrow> string \<Rightarrow> string \<Rightarrow> bool \<Rightarrow> string option \<Rightarrow> pyobj \<Rightarrow>
   control_plane \<Rightarrow> string step" where
  "call_persistent_agent env owner_agent_run_id owner_session_run_id agent_id prompt thread_key
       thread_summary wait workdir metadata s =
     (let main_id = str_strip owner_agent_run_id; target_agent = str_strip agent_id;
          key = str_strip thread_key; session_run_id = str_strip owner_session_run_id;
          summary = str_strip thread_summary;
          existing = find_agent_thread_binding s session_run_id main_id target_agent key Life_SESSION
            True
      in if main_id = [] then
           (s, Inl (ValueError ''owner_agent_run_id is required for persistent Agent call''))
         else if target_agent = [] then
           (s, Inl (ValueError ''agent_id is required for persistent Agent call''))
         else if key \<noteq> [] \<and> \<not> valid_agent_thread_key key then
           (s, Inl (ValueError (''thread_key must contain only lowercase letters, digits, '' @
              quoted ''-'' @ '' or '' @ quoted ''_'')))
         else case existing of
           Some b \<Rightarrow>
             if tb_status b = TBind_UNAVAILABLE then
               (s, Inl (ValueError ''persistent Agent thread is unavailable''))
             else if tb_status b = TBind_ACTIVE then
               reuse_thread env b main_id key summary prompt wait s
             else if summary = [] then
               (s, Inl (ValueError ''thread_summary is required when creating a persistent Agent thread''))
             else start_thread env main_id session_run_id target_agent key summary prompt wait workdir
                    metadata s
         | None \<Rightarrow>
             if summary = [] then
               (s, Inl (ValueError ''thread_summary is required when creating a persistent Agent thread''))
             else start_thread env main_id session_run_id target_agent key summary prompt wait workdir
                    metadata s)"

definition fork_relation_payload ::
  "agent_run \<Rightarrow> string \<Rightarrow> string \<Rightarrow> string \<Rightarrow> string \<Rightarrow> string \<Rightarrow> string \<Rightarrow> string \<Rightarrow> pyobj" where
  "fork_relation_payload source target_id base_item_id fork_ref target_owner policy cleanup provenance =
     [(''source_agent_run_id'', PStr (ar_id source)),
      (''target_agent_run_id'', PStr target_id),
      (''base_session_item_id'', PStr base_item_id),
      (''fork_workspace_ref'', PStr fork_ref),
      (''source_owner_session_run_id'', PStr (ar_owner_session_run_id source)),
      (''target_owner_session_run_id'', PStr target_owner),
      (''source_workspace_ref'', PStr (opt_str (ar_workspace_ref source))),
      (''permission_recompute_policy'', PStr policy),
      (''reuse_live_executor_session'', PBool False),
      (''cleanup_policy'', PStr cleanup),
      (''provenance_status'', PStr provenance)]"

record fork_call =
  fk_source_agent_run_id :: string
  fk_base_session_item_id :: string
  fk_fork_workspace_ref :: string
  fk_target_owner_session_run_id :: string
  fk_agent_id :: "string option"
  fk_prompt :: string
  fk_task_id :: "string option"
  fk_branch_binding_id :: "string option"
  fk_provenance_status :: string
  fk_permission_recompute_policy :: "string option"
  fk_cleanup_policy :: "string option"
  fk_workdir :: "string option"
  fk_executor :: "executor_type option"
  fk_execution_location :: "execution_location option"
  fk_runtime_profile_id :: "string option"
  fk_model :: "string option"
  fk_select_branch :: bool
  fk_metadata :: pyobj

definition fork_agent_run :: "cp_env \<Rightarrow> fork_call \<Rightarrow> control_plane \<Rightarrow> string step" where
  "fork_agent_run env c s =
     pure_step s (require_relation_text (Some (fk_source_agent_run_id c)) ''source_agent_run_id'')
       (\<lambda>s source_id.
     pure_step s (require_relation_text (Some (fk_base_session_item_id c)) ''base_session_item_id'')
       (\<lambda>s base_item_id.
     pure_step s (require_relation_text (Some (fk_fork_workspace_ref c)) ''fork_workspace_ref'')
       (\<lambda>s fork_ref.
     pure_step s (require_relation_text (Some (fk_target_owner_session_run_id c))
         ''target_owner_session_run_id'') (\<lambda>s target_owner.
     let provenance = str_strip (text_or (Some (fk_provenance_status c)) ''visible'')
     in if provenance \<notin> {''visible'', ''redacted'', ''unavailable''} then
          (s, Inl (ValueError ''provenance_status must be visible, redacted, or unavailable''))
        else pure_step s (task_locked s source_id) (\<lambda>s source.
        let (target_id, s) = id_or_new env ''task'' (fk_task_id c) s;
            agent_id = str_strip (text_or (fk_agent_id c) (ar_agent_id source))
        in if agent_id = [] then (s, Inl (ValueError ''agent_id is required''))
        else pure_step s (normalize_permission_recompute_policy (fk_permission_recompute_policy c))
          (\<lambda>s policy.
        pure_step s (normalize_relation_cleanup_policy (fk_cleanup_policy c)) (\<lambda>s cleanup.
        pure_step s (new_relation (ar_id source) target_id Rel_FORK
            (fork_relation_payload source target_id base_item_id fork_ref target_owner policy cleanup
               provenance)) (\<lambda>s relation.
        pure_step s (construct_request ((blank_request agent_id (fk_prompt c))
            \<lparr>sq_owner_session_run_id := target_owner, sq_source := ar_source source,
             sq_executor := fk_executor c, sq_execution_location := fk_execution_location c,
             sq_trigger_mode := ar_trigger_mode source,
             sq_runtime_profile_id := fk_runtime_profile_id c, sq_workdir := fk_workdir c,
             sq_model := fk_model c, sq_workspace_ref := Some fork_ref,
             sq_metadata := fk_metadata c, sq_relation := Some relation\<rparr>)) (\<lambda>s request.
        step_bind (submit_agent_run env request (Some target_id) s) (\<lambda>s run_id.
        pure_step s (task_locked s run_id) (\<lambda>s target.
        step_bind (create_derived_session_run_binding env source target Rel_FORK base_item_id
            (fk_branch_binding_id c) target_owner (fk_select_branch c) s) (\<lambda>s _.
        (s, Inr run_id)))))))))))))"

end
