(* ===== verification/ControlProofs.thy ===== *)
theory ControlProofs
  imports ControlComplete "HOL-Library.Sublist"
begin

text \<open>
  The control plane as a state machine: \<open>perform\<close> is one call of a public operation, and
  \<open>cp_reachable\<close> the states that sequences of calls lead to, exceptions included. The locales extend
  \<open>lifecycle_invariant\<close> to all operations; their instances give the laws of the event log and of the
  claims, which are the properties of this theory.
\<close>

section \<open>Calls\<close>

datatype cp_call =
    Call_Configure "int option" "pyobj option"
  | Call_Submit agent_run_request "string option"
  | Call_Claim claim_offer
  | Call_Heartbeat string string string string "string option" "int option" "string list"
  | Call_Recover
  | Call_Steer string activation_steer_source pyobj pyobj "string option"
  | Call_Pin string task_session_ref
  | Call_Pin_Claimed string string string string "string option" "string option" "string option"
      "string option" pyobj
  | Call_Executor_Event string executor_event "string option" "string option" "string option"
      "string option"
  | Call_Append_Event string string pyobj
  | Call_Complete string executor_run_result string "pyobj list"
  | Call_Complete_Claimed string executor_run_result string string string "string option" "pyobj list"
  | Call_Continue string agent_run_activation_input_kind pyobj bool "string option" "string option" bool
  | Call_Feedback string agent_run_feedback_source agent_run_feedback_kind pyobj
      agent_run_feedback_visibility bool pyobj "string option"
  | Call_Fail string string
  | Call_Cancel string string
  | Call_Stop string string
  | Call_Attach string string string "string option" "string option" "string option" "string option"
      "string option" pyobj
  | Call_Pull_Request string string
  | Call_Wait string string string string bool
  | Call_Persistent string string string string string string bool "string option" pyobj
  | Call_Fork fork_call
  | Call_Upsert_Session session_run_binding
  | Call_Create_Session session_run_binding
  | Call_Select_Session string string string
  | Call_Session_Status string session_run_binding_status string pyobj
  | Call_Upsert_Thread agent_thread_binding
  | Call_Close_Thread string string bool
  | Call_Mark_Thread string string pyobj bool
  | Call_Delete_Threads string string
  | Call_Invalidate_Threads "string option" "string option" "string option" string pyobj
  | Call_Grant agent_call_grant

fun perform :: "cp_env \<Rightarrow> nat \<Rightarrow> cp_call \<Rightarrow> control_plane \<Rightarrow> control_plane" where
  "perform env depth (Call_Configure n d) s = configure n d s"
| "perform env depth (Call_Submit r i) s = fst (submit_agent_run env r i s)"
| "perform env depth (Call_Claim offer) s = fst (claim_agent_run_activation env offer s)"
| "perform env depth (Call_Heartbeat r t a w p l ds) s =
     fst (heartbeat_agent_run_activation env r t a w p l ds s)"
| "perform env depth Call_Recover s = fst (recover_stale_agent_runs (env_now env) s)"
| "perform env depth (Call_Steer t src p m i) s = fst (append_activation_steer env t src p m i s)"
| "perform env depth (Call_Pin t ref) s = fst (pin_session t ref s)"
| "perform env depth (Call_Pin_Claimed r t a w p wd b x m) s =
     fst (pin_claimed_activation_session r t a w p wd b x m s)"
| "perform env depth (Call_Executor_Event t e r a w p) s =
     fst (append_executor_event t e r a w p s)"
| "perform env depth (Call_Append_Event t ty p) s = fst (append_agent_run_event t ty p s)"
| "perform env depth (Call_Complete t r a arts) s =
     fst (complete_agent_run_activation env depth t r a arts s)"
| "perform env depth (Call_Complete_Claimed t r rq a w p arts) s =
     fst (complete_claimed_agent_run_activation env depth t r rq a w p arts s)"
| "perform env depth (Call_Continue t k p res f pr c) s =
     fst (continue_agent_run env t k p res f pr c s)"
| "perform env depth (Call_Feedback t src k p v ra m i) s =
     fst (append_agent_run_feedback env t src k p v ra m i s)"
| "perform env depth (Call_Fail t e) s = fst (fail_agent_run env depth t e s)"
| "perform env depth (Call_Cancel t r) s = fst (cancel_agent_run env depth t r s)"
| "perform env depth (Call_Stop t r) s = fst (stop_agent_run_activation env t r s)"
| "perform env depth (Call_Attach t ty st i b u c p m) s =
     fst (control_attach_artifact env t ty st i b u c p m s)"
| "perform env depth (Call_Pull_Request t d) s = fst (create_or_update_pr env t d s)"
| "perform env depth (Call_Wait o1 t c k w) s = fst (mark_agent_call_waiting o1 t c k w s)"
| "perform env depth (Call_Persistent o1 os a p k su w wd m) s =
     fst (call_persistent_agent env o1 os a p k su w wd m s)"
| "perform env depth (Call_Fork c) s = fst (fork_agent_run env c s)"
| "perform env depth (Call_Upsert_Session b) s = upsert_session_run_binding env b s"
| "perform env depth (Call_Create_Session b) s = fst (create_session_run_binding env b s)"
| "perform env depth (Call_Select_Session r b p) s = fst (select_session_run_branch env r b p s)"
| "perform env depth (Call_Session_Status b st r m) s =
     fst (set_session_run_binding_status env b st r m s)"
| "perform env depth (Call_Upsert_Thread b) s = upsert_agent_thread_binding b s"
| "perform env depth (Call_Close_Thread b r c) s = fst (close_agent_thread_binding env depth b r c s)"
| "perform env depth (Call_Mark_Thread b r m c) s =
     fst (mark_agent_thread_binding_unavailable env depth b r m c s)"
| "perform env depth (Call_Delete_Threads owner r) s =
     fst (delete_agent_thread_bindings_for_owner_session env depth owner r s)"
| "perform env depth (Call_Invalidate_Threads a ow m r d) s =
     fst (invalidate_agent_thread_bindings env depth a ow m r d s)"
| "perform env depth (Call_Grant g) s = upsert_agent_call_grant g s"

inductive cp_reachable :: "control_plane \<Rightarrow> bool" where
  cp_start: "cp_reachable (new_control_plane n snapshot url)"
| cp_call: "cp_reachable s \<Longrightarrow> cp_reachable (perform env depth call s)"

text \<open>The identifier of the run that a call creates when it succeeds.\<close>

fun new_run_of :: "cp_env \<Rightarrow> cp_call \<Rightarrow> control_plane \<Rightarrow> string option" where
  "new_run_of env (Call_Submit r i) s = Some (fst (id_or_new env ''task'' i s))"
| "new_run_of env (Call_Persistent o1 os a p k su w wd m) s =
     Some (fst (id_or_new env ''task'' None s))"
| "new_run_of env (Call_Fork c) s = Some (fst (id_or_new env ''task'' (fk_task_id c) s))"
| "new_run_of env _ s = None"

section \<open>Predicates kept by every call\<close>

lemma same_identity_outcomes [simp]:
  "same_identity (failed_run e t) u = same_identity t u"
  "same_identity (stopped_run reason t) u = same_identity t u"
  "same_identity (policy_blocked_run e t) u = same_identity t u"
  "same_identity (parked_run required t) u = same_identity t u"
  by (simp_all add: failed_run_def stopped_run_def policy_blocked_run_def parked_run_def Let_def)

lemma settle_state_identity [simp]:
  "same_identity (tl_task (settle_state pe cr required r st)) (tl_task st)"
  by (simp add: settle_state_def complete_task_lifecycle_def Let_def)
    (simp add: same_identity_def)

lemma attach_artifact_task:
  "attach_artifact i ty st b u c p m state = Inr (a, state') \<Longrightarrow> tl_task state' = tl_task state"
  by (auto simp: attach_artifact_def res_bind_Inr_iff Let_def)

text \<open>What a message carries besides its delivery: the four metadata entries that record a delivery are
  set aside.\<close>

definition delivery_keys :: "string set" where
  "delivery_keys = {''delivering_request_id'', ''delivering_worker_id'',
     ''delivered_by_request_id'', ''delivered_by_worker_id''}"

definition own_metadata :: "activation_steer \<Rightarrow> pyobj" where
  "own_metadata steer = filter (\<lambda>(k, _). k \<notin> delivery_keys) (st_metadata steer)"

definition same_message :: "activation_steer \<Rightarrow> activation_steer \<Rightarrow> bool" where
  "same_message a b \<longleftrightarrow>
     st_id b = st_id a \<and> st_activation_id b = st_activation_id a \<and> st_source b = st_source a \<and>
     st_payload b = st_payload a \<and> st_created_at b = st_created_at a \<and> own_metadata b = own_metadata a"

text \<open>How a steering message may change: not at all, or, as long as its delivery is open, to another
  stage of the delivery of the same message. It has a new delivery time exactly when it becomes
  delivered.\<close>

definition steer_step :: "activation_steer \<Rightarrow> activation_steer \<Rightarrow> bool" where
  "steer_step a b \<longleftrightarrow>
     b = a \<or>
     same_message a b \<and> st_status a \<in> {Steer_QUEUED, Steer_DELIVERING} \<and>
     (st_status b \<in> {Steer_QUEUED, Steer_DELIVERING} \<and> st_delivered_at b = st_delivered_at a \<or>
      st_status b = Steer_DELIVERED \<and> st_delivered_at b \<noteq> None)"

lemma steer_step_refl [simp]: "steer_step a a"
  by (simp add: steer_step_def)

lemma steer_step_trans: "steer_step a b \<Longrightarrow> steer_step b c \<Longrightarrow> steer_step a c"
  by (auto simp: steer_step_def same_message_def)

lemma own_entries_set [simp]:
  "k \<in> delivery_keys \<Longrightarrow>
   filter (\<lambda>(k, _). k \<notin> delivery_keys) (dict_set k v d) = filter (\<lambda>(k, _). k \<notin> delivery_keys) d"
  by (induction d) (auto split: if_splits)

lemma own_entries_pop [simp]:
  "k \<in> delivery_keys \<Longrightarrow>
   filter (\<lambda>(k, _). k \<notin> delivery_keys) (dict_pop k d) = filter (\<lambda>(k, _). k \<notin> delivery_keys) d"
  by (induction d) (auto split: if_splits)

lemma delivery_keys_in [simp]:
  "''delivering_request_id'' \<in> delivery_keys" "''delivering_worker_id'' \<in> delivery_keys"
  "''delivered_by_request_id'' \<in> delivery_keys" "''delivered_by_worker_id'' \<in> delivery_keys"
  by (simp_all add: delivery_keys_def)

lemma steer_step_delivered:
  "st_status x \<in> {Steer_QUEUED, Steer_DELIVERING} \<Longrightarrow>
   steer_step x (x\<lparr>st_status := Steer_DELIVERED, st_delivered_at := Some t,
     st_metadata := dict_update (st_metadata x)
       [(''delivered_by_request_id'', v), (''delivered_by_worker_id'', w)]\<rparr>)"
  by (simp add: steer_step_def same_message_def own_metadata_def dict_update_def)

lemma steer_step_delivering:
  "st_status x = Steer_QUEUED \<Longrightarrow> steer_step x (delivering request_id worker_id x)"
  by (simp add: steer_step_def same_message_def own_metadata_def dict_update_def delivering_def)

lemma steer_step_requeued:
  "st_status x = Steer_DELIVERING \<Longrightarrow>
   steer_step x (x\<lparr>st_status := Steer_QUEUED,
     st_metadata := dict_pop ''delivering_worker_id''
       (dict_pop ''delivering_request_id'' (st_metadata x))\<rparr>)"
  by (simp add: steer_step_def same_message_def own_metadata_def)

definition steers_grow :: "activation_steer list \<Rightarrow> activation_steer list \<Rightarrow> bool" where
  "steers_grow old new \<longleftrightarrow> list_all2 steer_step old (take (length old) new)"

lemma steers_grow_refl [simp]: "steers_grow xs xs"
  by (simp add: steers_grow_def list_all2_same)

lemma steers_grow_append [simp]: "steers_grow xs (xs @ ys)"
  by (simp add: steers_grow_def list_all2_same)

lemma steers_grow_map: "(\<And>x. steer_step x (f x)) \<Longrightarrow> steers_grow xs (map f xs)"
  by (simp add: steers_grow_def list_all2_conv_all_nth)

lemma steers_grow_trans: "steers_grow xs ys \<Longrightarrow> steers_grow ys zs \<Longrightarrow> steers_grow xs zs"
proof -
  assume xy: "steers_grow xs ys" and yz: "steers_grow ys zs"
  have len: "length xs \<le> length ys" "length ys \<le> length zs"
    using list_all2_lengthD[OF xy[unfolded steers_grow_def]]
      list_all2_lengthD[OF yz[unfolded steers_grow_def]] by auto
  have "steer_step (xs ! i) (zs ! i)" if "i < length xs" for i
  proof (rule steer_step_trans)
    show "steer_step (xs ! i) (ys ! i)"
      using list_all2_nthD[OF xy[unfolded steers_grow_def] that] that by simp
    show "steer_step (ys ! i) (zs ! i)"
      using list_all2_nthD[OF yz[unfolded steers_grow_def], of i] that len by simp
  qed
  then show ?thesis using len by (simp add: steers_grow_def list_all2_conv_all_nth)
qed

locale control_invariant = lifecycle_invariant +
  assumes keeps_steers: "(\<And>t. steers_grow (steers_of s t) (steers_of (s\<lparr>cp_steers := sts\<rparr>) t)) \<Longrightarrow>
      I s \<Longrightarrow> I (s\<lparr>cp_steers := sts\<rparr>)"
    and keeps_refs: "I s \<Longrightarrow> I (s\<lparr>cp_sessions := refs\<rparr>)"
    and keeps_state: "dict_get (cp_states s) task_id = Some st \<Longrightarrow>
      same_identity (tl_task st') (tl_task st) \<Longrightarrow> I s \<Longrightarrow>
      I (s\<lparr>cp_states := dict_set task_id st' (cp_states s)\<rparr>)"
    and keeps_claim: "cl_request_id c = request_id \<Longrightarrow> ls_task_id l = cl_task_id c \<Longrightarrow>
      ls_worker_id l = cl_worker_id c \<Longrightarrow> ls_activation_id l = ac_id (cl_activation c) \<Longrightarrow>
      I s \<Longrightarrow> I (put_claim request_id c l s)"
    and keeps_renew: "dict_get (cp_leases s) request_id = Some lease \<Longrightarrow> I s \<Longrightarrow>
      I (renew_lease env request_id n lease s)"
    and keeps_opened: "I s \<Longrightarrow>
      I (s\<lparr>cp_thread_bindings := dict_set (tb_id b) b (cp_thread_bindings s)\<rparr>)"
    and keeps_configure: "I s \<Longrightarrow> I (configure limit d s)"
    and keeps_grants: "I s \<Longrightarrow> I (s\<lparr>cp_grants := gs\<rparr>)"
begin

lemma update_steers_I: "(\<And>x. steer_step x (f x)) \<Longrightarrow> I s \<Longrightarrow> I (update_steers task_id f s)"
  by (auto simp: update_steers_def steers_of_def intro!: keeps_steers steers_grow_map
      split: option.split)

lemma change_steers_I:
  "(\<And>x. p x \<Longrightarrow> steer_step x (f x)) \<Longrightarrow> I s \<Longrightarrow> I (change_steers ev task_id activation_id p f s)"
  by (auto simp: change_steers_def intro!: events_I update_steers_I)

lemma mark_delivered_I:
  "I s \<Longrightarrow> I (mark_activation_steers_delivered env task_id activation_id ids rid wid s)"
  unfolding mark_activation_steers_delivered_def Let_def
  by (simp, intro impI change_steers_I steer_step_delivered) simp

lemma claim_steers_I:
  "I s \<Longrightarrow> I (snd (claim_activation_steers_for_delivery task_id activation_id rid wid s))"
  by (auto simp: claim_activation_steers_for_delivery_def steer_for_delivery_def
      intro!: change_steers_I steer_step_delivering)

lemma requeue_I: "I s \<Longrightarrow> I (requeue_delivering_activation_steers task_id activation_id rid s)"
  unfolding requeue_delivering_activation_steers_def
  by (simp, intro impI update_steers_I) (simp add: steer_step_requeued)

lemma put_steers_I:
  "I s \<Longrightarrow> I (s\<lparr>cp_steers := dict_set task_id (steers_of s task_id @ [x]) (cp_steers s)\<rparr>)"
  by (rule keeps_steers) (simp add: steers_of_def)

lemma put_steers_uuids_I:
  "I s \<Longrightarrow> I (s\<lparr>cp_uuids := n,
     cp_steers := dict_set task_id (steers_of s task_id @ [x]) (cp_steers s)\<rparr>)"
  using put_steers_I[of "s\<lparr>cp_uuids := n\<rparr>" task_id x] by (simp add: keeps_uuids steers_of_def)

lemma steer_I: "I s \<Longrightarrow> I (fst (append_activation_steer env task_id src payload md given s))"
proof -
  have sim: "steers_of (s\<lparr>cp_uuids := n\<rparr>) t = steers_of s t" for s n t by (simp add: steers_of_def)
  show "I s \<Longrightarrow> I (fst (append_activation_steer env task_id src payload md given s))"
    unfolding append_activation_steer_def id_or_new_def new_id_def Let_def steer_event_def
    by (auto intro!: pure_step_I keeps_event put_steers_I keeps_uuids put_steers_uuids_I
        simp: sim split: option.split)
qed

lemma recover_lease_I: "I (fst acc) \<Longrightarrow> I (fst (recover_lease now rid lease acc))"
  by (cases acc)
    (auto simp: recover_lease_def Let_def intro!: elementary requeue_I split: option.split)

lemma recover_fold_I:
  "I (fst acc) \<Longrightarrow> I (fst (fold (\<lambda>(rid, lease). recover_lease now rid lease) ls acc))"
proof (induction ls arbitrary: acc)
  case Nil
  then show ?case by simp
next
  case (Cons l ls)
  show ?case
    using Cons.IH[OF recover_lease_I[OF Cons.prems, of now "fst l" "snd l"]]
    by (cases l) simp
qed

lemma recover_I: "I s \<Longrightarrow> I (fst (recover_stale_agent_runs now s))"
  by (simp add: recover_stale_agent_runs_def recover_fold_I)

lemma dispatch_I: "I s \<Longrightarrow> I (fst (dispatch_claim env offer task s))"
  unfolding dispatch_claim_def new_id_def Let_def
  by (auto intro!: pure_step_I elementary keeps_claim simp: claim_lease_of_def)

lemma claim_I: "I s \<Longrightarrow> I (fst (claim_agent_run_activation env offer s))"
  unfolding claim_agent_run_activation_def Let_def
  by (auto intro!: pure_step_I recover_I dispatch_I split: option.split)

lemma heartbeat_I:
  "I s \<Longrightarrow> I (fst (heartbeat_agent_run_activation env rid task_id aid wid pid l ds s))"
  unfolding heartbeat_agent_run_activation_def Let_def
  by (auto intro!: mark_delivered_I elementary keeps_renew claim_steers_I
      split: option.split prod.split simp: claim_activation_steers_for_delivery_def
      intro!: claim_steers_I[unfolded claim_activation_steers_for_delivery_def, simplified])

lemma pin_I: "I s \<Longrightarrow> I (fst (pin_session task_id session s))"
  unfolding pin_session_def Let_def
  by (auto intro!: pure_step_I elementary keeps_refs)

lemma pin_claimed_I:
  "I s \<Longrightarrow> I (fst (pin_claimed_activation_session rid task_id aid wid pid wd b x m s))"
  unfolding pin_claimed_activation_session_def Let_def
  by (auto intro!: pure_step_I step_bind_I pin_I elementary split: prod.split)

lemma status_event_I: "I s \<Longrightarrow> I (apply_status_event task_id task event s)"
  by (auto simp: apply_status_event_def Let_def intro!: elementary)

lemma executor_event_I: "I s \<Longrightarrow> I (fst (append_executor_event task_id e rid aid wid pid s))"
  unfolding append_executor_event_def Let_def
  by (auto intro!: pure_step_I status_event_I elementary split: prod.split)

lemma append_run_event_I: "I s \<Longrightarrow> I (fst (append_agent_run_event task_id ty p s))"
  unfolding append_agent_run_event_def Let_def
  by (auto intro!: pure_step_I keeps_event)

lemma keeps_state_uuids:
  assumes "dict_get (cp_states s) task_id = Some st" and "same_identity (tl_task st') (tl_task st)"
    and "I s"
  shows "I (s\<lparr>cp_uuids := n, cp_states := dict_set task_id st' (cp_states s)\<rparr>)"
  using keeps_state[of "s\<lparr>cp_uuids := n\<rparr>" task_id st st'] assms by (simp add: keeps_uuids)

lemma attach_I: "I s \<Longrightarrow> I (fst (control_attach_artifact env task_id ty st i b u c p m s))"
  unfolding control_attach_artifact_def id_or_new_def new_id_def Let_def
  by (auto simp: pure_step_def keeps_uuids attach_artifact_task
      split: option.split sum.split prod.split
      intro!: keeps_event keeps_state keeps_state_uuids)

lemma attach_kwargs_I: "I s \<Longrightarrow> I (fst (attach_artifact_kwargs env task_id kwargs s))"
  unfolding attach_artifact_kwargs_def by (auto intro!: step_bind_I attach_I)

lemma pull_request_I: "I s \<Longrightarrow> I (fst (create_or_update_pr env task_id diff s))"
  unfolding create_or_update_pr_def Let_def by (intro pure_step_I attach_I)

lemma fail_I: "I s \<Longrightarrow> I (fst (fail_agent_run env depth task_id error s))"
  unfolding fail_agent_run_def Let_def
  by (intro pure_step_I step_bind_I parent_terminal_I cleanup_I cancel_task_I elementary)
    (auto intro: elementary)

lemma stop_I: "I s \<Longrightarrow> I (fst (stop_agent_run_activation env task_id reason s))"
  unfolding stop_agent_run_activation_def Let_def
  by (auto intro!: pure_step_I elementary)

lemma cancel_children_I:
  "I s \<Longrightarrow> I (fst (cancel_child_agent_runs env depth reason pending seen s))"
proof (induction env depth reason pending seen s rule: cancel_child_agent_runs.induct)
  case (1 env depth reason seen s)
  then show ?case by (simp add: cancel_child_agent_runs.simps)
next
  case (2 env depth reason current pending seen s)
  let ?m = "each_step (cancel_child env depth current reason)
    (child_ids s (current # seen) current) s"
  have "I (fst ?m)" by (intro each_step_I cancel_child_I 2(3))
  then show ?case
    using 2 by (auto simp: cancel_child_agent_runs.simps Let_def split: prod.split sum.split)
qed

lemma cleanup_children_I: "I s \<Longrightarrow> I (cleanup_child_branch_worktrees env pending seen s)"
  by (induction env pending seen s rule: cleanup_child_branch_worktrees.induct)
    (auto simp: cleanup_child_branch_worktrees.simps Let_def intro: fold_I cleanup_child_I)

lemma cancel_I: "I s \<Longrightarrow> I (fst (cancel_agent_run env depth task_id reason s))"
  unfolding cancel_agent_run_def
  by (auto intro!: pure_step_I step_bind_I cancel_task_I cancel_children_I cleanup_children_I)

lemma record_session_I: "I s \<Longrightarrow> I (record_result_session task_id r s)"
  by (auto simp: record_result_session_def Let_def intro!: keeps_refs keeps_task split: option.split)

lemma record_event_I: "I (fst acc) \<Longrightarrow> I (fst (record_result_event task_id event acc))"
  by (cases acc) (auto simp: record_result_event_def Let_def intro!: elementary)

lemma record_events_I:
  "I (fst acc) \<Longrightarrow> I (fst (fold (record_result_event task_id) evs acc))"
  by (induction evs arbitrary: acc) (auto simp: record_event_I)

lemma close_I:
  "I s \<Longrightarrow> I (fst (close_completed_activation env depth task_id r activation s))"
  unfolding close_completed_activation_def Let_def
  by (auto intro!: pure_step_I step_bind_I resume_I parent_terminal_I cleanup_I cancel_task_I
      elementary)

lemma settle_I: "I s \<Longrightarrow> I (fst (settle_result task_id r task s))"
  unfolding settle_result_def Let_def
  by (intro record_events_I) (auto intro!: record_session_I keeps_state split: option.split)

lemma summarize_I:
  "I s \<Longrightarrow> I (fst (summarize_completion env depth task_id r aid pe s))"
  unfolding summarize_completion_def Let_def
  by (auto intro!: pure_step_I close_I keeps_event split: option.split)

lemma complete_I:
  "I s \<Longrightarrow> I (fst (complete_agent_run_activation env depth task_id r aid arts s))"
  unfolding complete_agent_run_activation_def Let_def case_prod_beta
  by (intro pure_step_I step_bind_I each_step_I attach_kwargs_I summarize_I settle_I)

lemma complete_claimed_I:
  "I s \<Longrightarrow> I (fst (complete_claimed_agent_run_activation env depth task_id r rid aid wid pid arts s))"
  unfolding complete_claimed_agent_run_activation_def Let_def
  by (auto intro!: pure_step_I step_bind_I in_frame_I complete_I keeps_task split: prod.split)

lemma wait_I: "I s \<Longrightarrow> I (fst (mark_agent_call_waiting owner target scope key wait s))"
  unfolding mark_agent_call_waiting_def Let_def
  by (auto intro!: pure_step_I elementary)

lemma feedback_I:
  "I s \<Longrightarrow> I (fst (append_agent_run_feedback env task_id src k p v ra m given s))"
  unfolding append_agent_run_feedback_def id_or_new_def new_id_def Let_def
  by (auto intro!: pure_step_I add_feedback_I keeps_uuids)

lemma upsert_session_I: "I s \<Longrightarrow> I (upsert_session_run_binding env b s)"
  by (simp add: upsert_session_run_binding_def Let_def elementary)

lemma create_session_I: "I s \<Longrightarrow> I (fst (create_session_run_binding env b s))"
  unfolding create_session_run_binding_def Let_def
  by (auto intro!: pure_step_I upsert_session_I)

lemma derived_session_I:
  "I s \<Longrightarrow> I (fst (create_derived_session_run_binding env src tgt rt item branch owner sel s))"
  unfolding create_derived_session_run_binding_def Let_def
  by (auto intro!: step_bind_I create_session_I split: list.split)

lemma select_session_I: "I s \<Longrightarrow> I (fst (select_session_run_branch env r b p s))"
  unfolding select_session_run_branch_def Let_def
  by (auto intro!: upsert_session_I split: option.split)

lemma session_status_by_id_I:
  "I s \<Longrightarrow> I (fst (set_session_run_binding_status env b st r m s))"
  by (auto simp: set_session_run_binding_status_def intro!: session_status_I split: option.split)

lemma upsert_thread_I: "I s \<Longrightarrow> I (upsert_agent_thread_binding b s)"
  by (simp add: upsert_agent_thread_binding_def both_I keeps_opened)

lemma reuse_I: "I s \<Longrightarrow> I (fst (reuse_thread env b main_id key summary prompt wait s))"
  unfolding reuse_thread_def by (auto intro!: pure_step_I continue_I)

lemma close_thread_I: "I s \<Longrightarrow> I (fst (close_agent_thread_binding env depth b r c s))"
  by (simp add: close_agent_thread_binding_def thread_by_id_I)

lemma mark_thread_I: "I s \<Longrightarrow> I (fst (mark_agent_thread_binding_unavailable env depth b r m c s))"
  by (simp add: mark_agent_thread_binding_unavailable_def thread_by_id_I)

lemmas kept = close_thread_I mark_thread_I keeps_configure keeps_grants recover_I claim_I heartbeat_I steer_I pin_I pin_claimed_I
  executor_event_I append_run_event_I complete_I complete_claimed_I continue_I feedback_I fail_I
  cancel_I stop_I attach_I pull_request_I wait_I upsert_session_I create_session_I select_session_I
  session_status_by_id_I upsert_thread_I delete_bindings_I invalidate_I

end

text \<open>The calls that store a new run keep the predicate when the run's identifier is admitted.\<close>

locale submission_invariant = control_invariant +
  fixes admitted :: "string \<Rightarrow> bool"
  assumes keeps_submitted: "admitted (ar_id task) \<Longrightarrow> I s \<Longrightarrow> I (store_submitted task activation rel s)"
begin

lemma submitted_run_id: "submitted_run task_id r aid md = Inr task \<Longrightarrow> ar_id task = task_id"
  by (auto simp: submitted_run_def agent_run_post_init_def Let_def new_issue_run_def split: if_splits)

lemma submit_I:
  "I s \<Longrightarrow> admitted (fst (id_or_new env ''task'' given s)) \<Longrightarrow>
   I (fst (submit_agent_run env request given s))"
proof -
  assume I: "I s" and adm: "admitted (fst (id_or_new env ''task'' given s))"
  obtain task_id s1 where new: "id_or_new env ''task'' given s = (task_id, s1)" by fastforce
  have I1: "I s1" by (rule id_or_new_I[OF I new])
  have stored: "I (store_submitted task act rel s')"
    if "submitted_run task_id r aid md = Inr task" and "I s'" for task act rel s' r aid md
    using that adm new by (auto dest!: submitted_run_id intro!: keeps_submitted)
  show ?thesis
    unfolding submit_agent_run_def new Let_def
    by (auto simp: pure_step_def I1 keeps_uuids stored split: prod.split sum.split)
qed

lemma start_thread_I:
  "I s \<Longrightarrow> admitted (fst (id_or_new env ''task'' None s)) \<Longrightarrow>
   I (fst (start_thread env main_id session agent key summary prompt wait wd md s))"
  unfolding start_thread_def Let_def
  by ((rule pure_step_I, assumption)+, rule step_bind_I, rule submit_I)
    (simp_all add: upsert_thread_I)

lemma persistent_I:
  "I s \<Longrightarrow> admitted (fst (id_or_new env ''task'' None s)) \<Longrightarrow>
   I (fst (call_persistent_agent env owner session agent prompt key summary wait wd md s))"
  unfolding call_persistent_agent_def Let_def
  by (auto intro!: start_thread_I reuse_I split: option.split)

lemma id_or_new_again:
  "id_or_new env pre given s = (i, s') \<Longrightarrow> pre \<noteq> [] \<Longrightarrow>
   fst (id_or_new env pre' (Some i) s'') = i"
  by (auto simp: id_or_new_def new_id_def split: if_splits)

lemma fork_I:
  "I s \<Longrightarrow> admitted (fst (id_or_new env ''task'' (fk_task_id c) s)) \<Longrightarrow>
   I (fst (fork_agent_run env c s))"
proof -
  assume I: "I s" and adm: "admitted (fst (id_or_new env ''task'' (fk_task_id c) s))"
  obtain i s1 where new: "id_or_new env ''task'' (fk_task_id c) s = (i, s1)" by fastforce
  have I1: "I s1" by (rule id_or_new_I[OF I new])
  have sub: "I s' \<Longrightarrow> I (fst (submit_agent_run env r (Some i) s'))" for r s'
    using adm by (intro submit_I) (simp_all add: new id_or_new_again[OF new])
  have target: "I s' \<Longrightarrow> I (fst (pure_step s' x (\<lambda>s target. step_bind
      (create_derived_session_run_binding env src target rt item branch owner sel s)
      (\<lambda>s _. (s, Inr run_id)))))" for s' x src rt item branch owner sel run_id
    by (auto intro!: pure_step_I step_bind_I derived_session_I)
  show ?thesis
    unfolding fork_agent_run_def Let_def
    by (auto simp: pure_step_def new I I1 target[unfolded pure_step_def]
        intro!: step_bind_I sub split: sum.split)
qed

lemma perform_I:
  "I s \<Longrightarrow> (\<And>i. new_run_of env call s = Some i \<Longrightarrow> admitted i) \<Longrightarrow> I (perform env depth call s)"
  by (cases call)
    (simp_all add: kept submit_I persistent_I fork_I upsert_agent_call_grant_def)

end

section \<open>The event log\<close>

text \<open>The log of one run: its events are numbered 1, 2, ... and carry its identifier.\<close>

definition log_ok :: "string \<Rightarrow> agent_run_event list \<Rightarrow> bool" where
  "log_ok task_id es \<longleftrightarrow>
     map e_seq es = [1..<Suc (length es)] \<and> list_all (\<lambda>e. e_task_id e = task_id) es"

definition logs_ok :: "control_plane \<Rightarrow> bool" where
  "logs_ok s \<longleftrightarrow> (\<forall>task_id. log_ok task_id (events_of s task_id))"

lemma events_of_update [simp]:
  "events_of (s\<lparr>cp_uuids := u\<rparr>) i = events_of s i"
  "events_of (s\<lparr>cp_activations := acts\<rparr>) i = events_of s i"
  "events_of (s\<lparr>cp_feedbacks := fbs\<rparr>) i = events_of s i"
  "events_of (s\<lparr>cp_thread_bindings := tbs\<rparr>) i = events_of s i"
  "events_of (s\<lparr>cp_session_bindings := sbs\<rparr>) i = events_of s i"
  "events_of (s\<lparr>cp_cancel_requests := crs\<rparr>) i = events_of s i"
  "events_of (s\<lparr>cp_steers := sts\<rparr>) i = events_of s i"
  "events_of (s\<lparr>cp_sessions := refs\<rparr>) i = events_of s i"
  "events_of (s\<lparr>cp_states := d\<rparr>) i = events_of s i"
  "events_of (s\<lparr>cp_relations := rels\<rparr>) i = events_of s i"
  "events_of (s\<lparr>cp_grants := gs\<rparr>) i = events_of s i"
  "events_of (configure limit snapshot s) i = events_of s i"
  "events_of (update_task t f s) i = events_of s i"
  "events_of (drop_claim r s) i = events_of s i"
  "events_of (put_claim r c l s) i = events_of s i"
  "events_of (renew_lease env r n l s) i = events_of s i"
  "events_of (put_activation a s) i = events_of s i"
  by (simp_all add: events_of_def configure_def put_claim_def renew_lease_def put_activation_def)

lemma events_of_append:
  "events_of (append_event t ty p s) i =
     (if i = t then events_of s t @ [\<lparr>e_task_id = t, e_seq = length (events_of s t) + 1,
        e_type = ty, e_payload = p\<rparr>] else events_of s i)"
  by (auto simp: events_of_def append_event_def Let_def)

lemma events_of_reset [simp]:
  "events_of (s\<lparr>cp_states := d, cp_events := dict_set t [] (cp_events s)\<rparr>) i =
     (if i = t then [] else events_of s i)"
  by (auto simp: events_of_def)

lemma log_ok_Nil [simp]: "log_ok i []"
  by (simp add: log_ok_def)

lemma log_ok_snoc [simp]:
  "log_ok i (es @ [\<lparr>e_task_id = i, e_seq = Suc (length es), e_type = ty, e_payload = p\<rparr>]) = log_ok i es"
  by (auto simp: log_ok_def)

lemma logs_ok_append [simp]: "logs_ok (append_event t ty p s) = logs_ok s"
  by (auto simp: logs_ok_def events_of_append split: if_splits)

lemma logs_ok_append_known [simp]: "logs_ok (append_if_known t ty p s) = logs_ok s"
  by (simp add: append_if_known_def)

lemma logs_ok_same: "(\<And>i. events_of s' i = events_of s i) \<Longrightarrow> logs_ok s \<Longrightarrow> logs_ok s'"
  by (simp add: logs_ok_def)

lemma logs_ok_submitted: "logs_ok s \<Longrightarrow> logs_ok (store_submitted task act rel s)"
proof -
  assume "logs_ok s"
  then have reset: "logs_ok (s\<lparr>cp_states := d, cp_events := dict_set t [] (cp_events s)\<rparr>)" for d t
    by (simp add: logs_ok_def)
  have rels: "logs_ok (x\<lparr>cp_relations := rels\<rparr>) = logs_ok x" "logs_ok (put_activation a x) = logs_ok x"
    for x rels a by (simp_all add: logs_ok_def)
  show ?thesis
    by (simp add: store_submitted_def Let_def reset rels split: option.split)
qed

interpretation log: submission_invariant logs_ok "\<lambda>_. True"
proof (unfold_locales, goal_cases)
  case (18 task s act rel)
  then show ?case by (simp add: logs_ok_submitted)
qed (simp_all add: logs_ok_same)

text \<open>The log of a run only grows, unless a run is stored under its identifier.\<close>

lemma prefix_append: "prefix old (events_of s i) \<Longrightarrow> prefix old (events_of (append_event t ty p s) i)"
  by (auto simp: events_of_append)

lemma prefix_append_known:
  "prefix old (events_of s i) \<Longrightarrow> prefix old (events_of (append_if_known t ty p s) i)"
  by (simp add: append_if_known_def prefix_append)

lemma prefix_submitted:
  "ar_id task \<noteq> i \<Longrightarrow> prefix old (events_of s i) \<Longrightarrow>
   prefix old (events_of (store_submitted task act rel s) i)"
  by (auto simp: store_submitted_def Let_def intro!: prefix_append prefix_append_known
      split: option.split)

interpretation grows: submission_invariant "\<lambda>s. prefix old (events_of s i)" "\<lambda>t. t \<noteq> i" for old i
  by unfold_locales (simp_all add: prefix_append prefix_submitted)

section \<open>Claims and leases\<close>

text \<open>A claim and its lease name the same run, worker and activation.\<close>

definition claim_matches :: "string \<Rightarrow> activation_claim \<Rightarrow> claim_lease \<Rightarrow> bool" where
  "claim_matches request_id c l \<longleftrightarrow>
     cl_request_id c = request_id \<and> ls_task_id l = cl_task_id c \<and>
     ls_worker_id l = cl_worker_id c \<and> ls_activation_id l = ac_id (cl_activation c)"

definition claims_ok :: "control_plane \<Rightarrow> bool" where
  "claims_ok s \<longleftrightarrow>
     list_all2 (\<lambda>(r, c) (r', l). r' = r \<and> claim_matches r c l) (cp_claims s) (cp_leases s) \<and>
     dict_wf (cp_claims s)"

lemma claims_same:
  "claims_ok s \<Longrightarrow> cp_claims s' = cp_claims s \<Longrightarrow> cp_leases s' = cp_leases s \<Longrightarrow> claims_ok s'"
  by (simp add: claims_ok_def)

lemma list_all2_dict_pop:
  "list_all2 (\<lambda>(r, c) (r', l). r' = r \<and> P r c l) cs ls \<Longrightarrow>
   list_all2 (\<lambda>(r, c) (r', l). r' = r \<and> P r c l) (dict_pop k cs) (dict_pop k ls)"
  by (induction rule: list_all2_induct) auto

lemma list_all2_dict_set:
  "list_all2 (\<lambda>(r, c) (r', l). r' = r \<and> P r c l) cs ls \<Longrightarrow> P k c l \<Longrightarrow>
   list_all2 (\<lambda>(r, c) (r', l). r' = r \<and> P r c l) (dict_set k c cs) (dict_set k l ls)"
  by (induction rule: list_all2_induct) auto

lemma list_all2_dict_get:
  "list_all2 (\<lambda>(r, c) (r', l). r' = r \<and> P r c l) cs ls \<Longrightarrow> dict_get ls k = Some l \<Longrightarrow>
   \<exists>c. dict_get cs k = Some c \<and> P k c l"
  by (induction rule: list_all2_induct) (auto split: if_splits)

lemma list_all2_dict_renew:
  "list_all2 (\<lambda>(r, c) (r', l). r' = r \<and> P r c l) cs ls \<Longrightarrow> dict_get ls k = Some l \<Longrightarrow>
   (\<And>c. P k c l \<Longrightarrow> P k c l') \<Longrightarrow>
   list_all2 (\<lambda>(r, c) (r', l). r' = r \<and> P r c l) cs (dict_set k l' ls)"
  by (induction rule: list_all2_induct) (auto split: if_splits)

interpretation claims: submission_invariant claims_ok "\<lambda>_. True"
proof
  show "claims_ok s \<Longrightarrow> claims_ok (drop_claim r s)" for s r
    by (simp add: claims_ok_def list_all2_dict_pop)
next
  show "\<lbrakk>cl_request_id c = r; ls_task_id l = cl_task_id c; ls_worker_id l = cl_worker_id c;
      ls_activation_id l = ac_id (cl_activation c); claims_ok s\<rbrakk> \<Longrightarrow> claims_ok (put_claim r c l s)"
    for c r l s
    by (simp add: claims_ok_def put_claim_def list_all2_dict_set claim_matches_def)
next
  show "\<lbrakk>dict_get (cp_leases s) r = Some l; claims_ok s\<rbrakk> \<Longrightarrow> claims_ok (renew_lease env r n l s)"
    for s r l env n
    by (auto simp: claims_ok_def renew_lease_def claim_matches_def elim: list_all2_dict_renew)
qed (auto simp: configure_def store_submitted_def Let_def put_activation_def append_if_known_def
    elim: claims_same split: option.split)

section \<open>Runs keep their identity\<close>

text \<open>The run under an identifier carries that identifier.\<close>

definition states_ok :: "control_plane \<Rightarrow> bool" where
  "states_ok s \<longleftrightarrow> (\<forall>task_id t. task_of s task_id = Some t \<longrightarrow> ar_id t = task_id)"

lemma task_of_update [simp]:
  "task_of (s\<lparr>cp_uuids := u\<rparr>) i = task_of s i"
  "task_of (s\<lparr>cp_activations := acts\<rparr>) i = task_of s i"
  "task_of (s\<lparr>cp_feedbacks := fbs\<rparr>) i = task_of s i"
  "task_of (s\<lparr>cp_thread_bindings := tbs\<rparr>) i = task_of s i"
  "task_of (s\<lparr>cp_session_bindings := sbs\<rparr>) i = task_of s i"
  "task_of (s\<lparr>cp_cancel_requests := crs\<rparr>) i = task_of s i"
  "task_of (s\<lparr>cp_steers := sts\<rparr>) i = task_of s i"
  "task_of (s\<lparr>cp_sessions := refs\<rparr>) i = task_of s i"
  "task_of (s\<lparr>cp_relations := rels\<rparr>) i = task_of s i"
  "task_of (s\<lparr>cp_grants := gs\<rparr>) i = task_of s i"
  "task_of (s\<lparr>cp_events := evs\<rparr>) i = task_of s i"
  "task_of (configure limit snapshot s) i = task_of s i"
  "task_of (append_event t ty p s) i = task_of s i"
  "task_of (append_if_known t ty p s) i = task_of s i"
  "task_of (drop_claim r s) i = task_of s i"
  "task_of (put_claim r c l s) i = task_of s i"
  "task_of (renew_lease env r n l s) i = task_of s i"
  "task_of (put_activation a s) i = task_of s i"
  by (simp_all add: task_of_def configure_def put_claim_def renew_lease_def put_activation_def
      append_if_known_def)

lemma task_of_update_task:
  "task_of (update_task t f s) i = (if i = t then map_option f (task_of s t) else task_of s i)"
  by (auto simp: task_of_def update_task_def split: option.split)

lemma task_of_set_state:
  "task_of (s\<lparr>cp_states := dict_set t st (cp_states s)\<rparr>) i =
     (if i = t then Some (tl_task st) else task_of s i)"
  by (simp add: task_of_def)

lemma task_of_submitted:
  "task_of (store_submitted task act rel s) i = (if i = ar_id task then Some task else task_of s i)"
  by (simp add: store_submitted_def Let_def split: option.split) (simp add: task_of_def)

interpretation states: submission_invariant states_ok "\<lambda>_. True"
proof (unfold_locales, goal_cases)
  case (1 f s task_id)
  then have "ar_id (f t) = ar_id t" for t by (blast intro: same_identity_id)
  with 1(2) show ?case by (auto simp: states_ok_def task_of_update_task)
next
  case (12 s task_id st st')
  have "task_of s task_id = Some (tl_task st)" using 12(1) by (simp add: task_of_def)
  with 12(3) have "ar_id (tl_task st) = task_id" unfolding states_ok_def by blast
  then have "ar_id (tl_task st') = task_id" using same_identity_id[OF 12(2)] by metis
  with 12(3) show ?case unfolding states_ok_def task_of_set_state by auto
next
  case (18 task s act rel)
  then show ?case by (auto simp: states_ok_def task_of_submitted)
qed (simp_all add: states_ok_def)

lemma reachable_states_ok: "cp_reachable s \<Longrightarrow> states_ok s"
  by (induction rule: cp_reachable.induct)
    (simp_all add: states.perform_I, simp add: states_ok_def task_of_def new_control_plane_def)

definition keeps_run :: "string \<Rightarrow> agent_run \<Rightarrow> control_plane \<Rightarrow> bool" where
  "keeps_run i t s \<longleftrightarrow> (case task_of s i of None \<Rightarrow> False | Some t' \<Rightarrow> same_identity t' t)"

interpretation keeps: submission_invariant "keeps_run i t" "\<lambda>j. j \<noteq> i" for i t
proof (unfold_locales, goal_cases)
  case (1 f s task_id)
  have "same_identity x t \<Longrightarrow> same_identity (f x) t" for x
    by (rule same_identity_trans[OF 1(1)])
  with 1(2) show ?case by (auto simp: keeps_run_def task_of_update_task split: option.splits)
next
  case (12 s task_id st st')
  have "same_identity (tl_task st) t \<Longrightarrow> same_identity (tl_task st') t"
    by (rule same_identity_trans[OF 12(2)])
  with 12(1,3) show ?case
    by (auto simp: keeps_run_def task_of_set_state task_of_def[of s] split: option.splits)
next
  case (18 task s act rel)
  then show ?case by (auto simp: keeps_run_def task_of_submitted)
qed (simp_all add: keeps_run_def)

section \<open>Steering messages\<close>

lemma steers_of_update [simp]:
  "steers_of (s\<lparr>cp_uuids := u\<rparr>) i = steers_of s i"
  "steers_of (s\<lparr>cp_activations := acts\<rparr>) i = steers_of s i"
  "steers_of (s\<lparr>cp_feedbacks := fbs\<rparr>) i = steers_of s i"
  "steers_of (s\<lparr>cp_thread_bindings := tbs\<rparr>) i = steers_of s i"
  "steers_of (s\<lparr>cp_session_bindings := sbs\<rparr>) i = steers_of s i"
  "steers_of (s\<lparr>cp_cancel_requests := crs\<rparr>) i = steers_of s i"
  "steers_of (s\<lparr>cp_sessions := refs\<rparr>) i = steers_of s i"
  "steers_of (s\<lparr>cp_states := d\<rparr>) i = steers_of s i"
  "steers_of (s\<lparr>cp_states := d, cp_events := evs\<rparr>) i = steers_of s i"
  "steers_of (s\<lparr>cp_relations := rels\<rparr>) i = steers_of s i"
  "steers_of (s\<lparr>cp_grants := gs\<rparr>) i = steers_of s i"
  "steers_of (configure limit snapshot s) i = steers_of s i"
  "steers_of (update_task t f s) i = steers_of s i"
  "steers_of (append_event t ty p s) i = steers_of s i"
  "steers_of (append_if_known t ty p s) i = steers_of s i"
  "steers_of (drop_claim r s) i = steers_of s i"
  "steers_of (put_claim r c l s) i = steers_of s i"
  "steers_of (renew_lease env r n l s) i = steers_of s i"
  "steers_of (put_activation a s) i = steers_of s i"
  by (simp_all add: steers_of_def configure_def put_claim_def renew_lease_def put_activation_def
      append_if_known_def)

interpretation steers: submission_invariant "\<lambda>s. steers_grow old (steers_of s i)" "\<lambda>_. True" for old i
proof (unfold_locales, goal_cases)
  case (10 s sts)
  then show ?case by (blast intro: steers_grow_trans)
qed (simp_all add: store_submitted_def Let_def split: option.split)

section \<open>A sample run\<close>

definition demo_env :: cp_env where
  "demo_env = \<lparr>env_now = 100, env_iso = ''2026-01-01T00:00:00+00:00'', env_uuid = nat_str,
     env_worktree_cleanup = (\<lambda>_ _ _ _. [(''ok'', PBool True)])\<rparr>"

definition demo_start :: control_plane where
  "demo_start = new_control_plane 4 [] ''https://example.invalid/pr''"

definition demo_offer :: claim_offer where
  "demo_offer = \<lparr>co_worker_id = ''w1'', co_worker_kind = None, co_executors = [], co_peer_id = None,
     co_peer_features = None, co_workspace_root = None, co_lease_sec = 15\<rparr>"

definition demo_calls :: "cp_call list \<Rightarrow> control_plane" where
  "demo_calls calls = fold (perform demo_env 3) calls demo_start"

definition demo_submit_call :: cp_call where
  "demo_submit_call = Call_Submit (blank_request ''coder'' ''fix the test'') (Some ''t1'')"

lemma demo_reachable: "cp_reachable (demo_calls calls)"
proof -
  have "cp_reachable s \<Longrightarrow> cp_reachable (fold (perform demo_env 3) calls s)" for s
    by (induction calls arbitrary: s) (auto intro: cp_call)
  then show ?thesis by (simp add: demo_calls_def demo_start_def cp_start)
qed

section \<open>Properties\<close>

text \<open>C1. In every state that calls of the control plane lead to, failed calls included, the events of
  each run are numbered 1, 2, 3, ... without a gap and all carry the run's identifier.\<close>

theorem event_log_contiguous:
  assumes "cp_reachable s"
  shows "map e_seq (events_of s task_id) = [1..<Suc (length (events_of s task_id))] \<and>
    list_all (\<lambda>e. e_task_id e = task_id) (events_of s task_id)"
proof -
  have "logs_ok s"
    using assms
  proof induction
    case (cp_start n snapshot url)
    then show ?case by (simp add: logs_ok_def events_of_def new_control_plane_def)
  next
    case (cp_call s env depth call)
    then show ?case by (simp add: log.perform_I)
  qed
  then show ?thesis by (simp add: logs_ok_def log_ok_def)
qed

lemma event_log_contiguous_witness:
  "let es = events_of (demo_calls [demo_submit_call, Call_Claim demo_offer]) ''t1''
   in map e_seq es = [1..<Suc (length es)]"
  using event_log_contiguous[OF demo_reachable, of "[demo_submit_call, Call_Claim demo_offer]" "''t1''"]
  by (simp add: Let_def del: upt_Suc)

text \<open>C24. No call changes or removes an event that is in the log of a run: the old log is a prefix of
  the new one. The only exception is the log of a run whose identifier the call gives to a new run.\<close>

theorem event_log_append_only:
  assumes "new_run_of env call s \<noteq> Some task_id"
  shows "prefix (events_of s task_id) (events_of (perform env depth call s) task_id)"
  by (rule grows.perform_I[where old = "events_of s task_id"]) (use assms in auto)

lemma event_log_append_only_witness:
  "prefix (events_of (demo_calls [demo_submit_call]) ''t1'')
     (events_of (perform demo_env 3 (Call_Claim demo_offer) (demo_calls [demo_submit_call])) ''t1'')"
  by (rule event_log_append_only) simp

text \<open>C2. In every reachable state the claims and the leases are kept under the same request
  identifiers, each once, and a lease names the run, the worker and the activation of its claim.\<close>

theorem claims_and_leases_agree:
  assumes "cp_reachable s"
  shows "dict_keys (cp_leases s) = dict_keys (cp_claims s) \<and> distinct (dict_keys (cp_claims s)) \<and>
    (\<forall>request_id lease. dict_get (cp_leases s) request_id = Some lease \<longrightarrow>
       (\<exists>c. dict_get (cp_claims s) request_id = Some c \<and> claim_matches request_id c lease))"
proof -
  have ok: "claims_ok s"
    using assms
  proof induction
    case (cp_start n snapshot url)
    then show ?case by (simp add: claims_ok_def new_control_plane_def)
  next
    case (cp_call s env depth call)
    then show ?case by (simp add: claims.perform_I)
  qed
  have "list_all2 (\<lambda>(r, c) (r', l). r' = r \<and> P r c l) cs ls \<Longrightarrow> dict_keys ls = dict_keys cs"
    for cs ls and P :: "string \<Rightarrow> activation_claim \<Rightarrow> claim_lease \<Rightarrow> bool"
    by (induction rule: list_all2_induct) auto
  with ok show ?thesis
    by (auto simp: claims_ok_def dict_wf_def dict_keys_def dest: list_all2_dict_get)
qed

lemma claims_and_leases_agree_witness:
  "dict_keys (cp_leases (demo_calls [demo_submit_call, Call_Claim demo_offer])) =
   dict_keys (cp_claims (demo_calls [demo_submit_call, Call_Claim demo_offer]))"
  using claims_and_leases_agree[OF demo_reachable] by blast

text \<open>C31. Reading the log of a run page by page, each time from the last number seen, delivers its
  events in order, without a loss or a repetition: a page is exactly the next piece of the log.\<close>

theorem event_page_exact:
  assumes "cp_reachable s" and "0 \<le> after_seq"
  shows "list_events s task_id after_seq limit =
    take (nat (clamp_event_limit limit)) (drop (nat after_seq) (events_of s task_id))"
proof -
  have "cp_reachable s \<Longrightarrow> logs_ok s"
    by (induction rule: cp_reachable.induct)
      (simp_all add: log.perform_I, simp add: logs_ok_def events_of_def new_control_plane_def)
  with assms have "map e_seq (events_of s task_id) = [1..<Suc (length (events_of s task_id))]"
    by (simp add: logs_ok_def log_ok_def)
  moreover have "map e_seq es = [Suc a..<Suc a + length es] \<Longrightarrow>
      filter (\<lambda>e. n < e_seq e) es = drop (n - a) es" for es a n
  proof (induction es arbitrary: a)
    case Nil
    then show ?case by simp
  next
    case (Cons e es)
    then have e: "e_seq e = Suc a" and es: "map e_seq es = [Suc (Suc a)..<Suc (Suc a) + length es]"
      by (simp_all add: upt_conv_Cons del: upt_Suc)
    show ?case
    proof (cases "n \<le> a")
      case True
      have "n < e_seq x" if "x \<in> set es" for x
      proof -
        have "e_seq x \<in> set (map e_seq es)" using that by simp
        then show ?thesis unfolding es using True by (simp del: upt_Suc)
      qed
      then show ?thesis using True e by (simp add: filter_id_conv)
    next
      case False
      then have "n - a = Suc (n - Suc a)" by simp
      with False show ?thesis using Cons.IH[OF es] e by simp
    qed
  qed
  from this[of "events_of s task_id" 0 "nat after_seq"]
  have "map e_seq (events_of s task_id) = [1..<Suc (length (events_of s task_id))] \<Longrightarrow>
    filter (\<lambda>e. after_seq < int (e_seq e)) (events_of s task_id) =
    drop (nat after_seq) (events_of s task_id)"
    using assms(2) by (simp add: nat_less_iff del: upt_Suc)
  ultimately show ?thesis by (simp add: list_events_def)
qed

lemma event_page_exact_witness:
  "list_events (demo_calls [demo_submit_call]) ''t1'' 1 (PInt 5) =
     take 5 (drop 1 (events_of (demo_calls [demo_submit_call]) ''t1''))"
proof -
  have "nat (clamp_event_limit (PInt 5)) = 5" by code_simp
  then show ?thesis using event_page_exact[OF demo_reachable, of 1] by simp
qed

text \<open>A call neither removes a run nor changes what it is: its agent, kind, owning session,
  source, trigger, profile, executor, place, worktree role and publish policy stay as submitted, as
  long as no new run is given its identifier.\<close>

theorem run_identity_fixed:
  assumes "task_of s task_id = Some t" and "new_run_of env call s \<noteq> Some task_id"
  shows "case task_of (perform env depth call s) task_id of
      None \<Rightarrow> False | Some t' \<Rightarrow> same_identity t' t"
proof -
  have "keeps_run task_id t (perform env depth call s)"
    by (rule keeps.perform_I) (use assms in \<open>auto simp: keeps_run_def\<close>)
  then show ?thesis by (simp add: keeps_run_def)
qed

lemma run_identity_fixed_witness:
  "let s = demo_start\<lparr>cp_states := [(''t1'', task_lifecycle_create ''t1'' ''coder'')]\<rparr>
   in case task_of (perform demo_env 3 (Call_Cancel ''t1'' ''stop'') s) ''t1'' of
        None \<Rightarrow> False | Some t' \<Rightarrow> same_identity t' (new_issue_run ''t1'' ''coder'')"
  unfolding Let_def
  by (rule run_identity_fixed) (simp_all add: task_of_def task_lifecycle_create_def)

text \<open>C25. Whatever is called, no steering message of a run is lost, moved or altered: its identifier,
  activation, source, payload, creation time and metadata stay, apart from the four metadata entries that
  record its delivery. While its delivery is open it can be queued or in delivery, also back from delivery
  to the queue when the worker is lost, and then keeps its delivery time; it gets a delivery time when it
  becomes delivered; and a message whose delivery has ended stays exactly as it is.\<close>

theorem steers_never_lost:
  "length (steers_of s task_id) \<le> length (steers_of (perform env depth call s) task_id) \<and>
   list_all2 steer_step (steers_of s task_id)
     (take (length (steers_of s task_id)) (steers_of (perform env depth call s) task_id))"
proof -
  have "steers_grow (steers_of s task_id) (steers_of (perform env depth call s) task_id)"
    by (rule steers.perform_I) simp_all
  then show ?thesis by (auto simp: steers_grow_def dest: list_all2_lengthD)
qed

end
