(* ===== verification/ClaimProofs.thy ===== *)
theory ClaimProofs
  imports ControlProofs
begin

text \<open>
  What a claim, a heartbeat and the recovery of expired leases do, on the states of the control
  plane (\<open>ControlClaim\<close>): which run a claim takes, that slots are respected, that only the owner of a
  lease is served, and that an expired lease gives its run back.
\<close>

section \<open>The run a claim takes\<close>

lemma set_status_fields [simp]:
  "ar_status (set_agent_run_status st wr ms acs t) = st"
  "ar_id (set_agent_run_status st wr ms acs t) = ar_id t"
  "ar_metadata (set_agent_run_status st wr ms acs t) = ar_metadata t"
  "ar_execution_location (set_agent_run_status st wr ms acs t) = ar_execution_location t"
  "ar_current_activation_id (set_agent_run_status st wr ms acs t) = ar_current_activation_id t"
  by (simp_all add: set_agent_run_status_def)

definition eligible ::
  "claim_offer \<Rightarrow> pyobj \<Rightarrow> int \<Rightarrow> agent_run list \<Rightarrow> agent_run \<Rightarrow> bool" where
  "eligible offer snapshot max_running running task \<longleftrightarrow>
     ar_status task = Run_QUEUED \<and>
     (co_executors offer = [] \<or> ar_executor task \<in> Some ` set (co_executors offer)) \<and>
     worker_matches_agent_run task (co_worker_kind offer) (co_peer_features offer)
       (co_workspace_root offer) = Inr True \<and>
     runtime_slots_allow_agent_run_claim running task snapshot max_running = Inr True"

lemma candidate_None:
  "claim_candidate offer snapshot m running tasks = Inr None \<Longrightarrow>
   \<forall>x \<in> set tasks. \<not> eligible offer snapshot m running x"
  by (induction tasks)
    (auto simp: Let_def eligible_def res_bind_Inr_iff split: if_splits)

lemma candidate_Some:
  "claim_candidate offer snapshot m running tasks = Inr (Some t) \<Longrightarrow>
   \<exists>pre post. tasks = pre @ t # post \<and> eligible offer snapshot m running t \<and>
     (\<forall>x \<in> set pre. \<not> eligible offer snapshot m running x)"
proof (induction tasks)
  case Nil
  then show ?case by simp
next
  case (Cons x tasks)
  show ?case
  proof (cases "eligible offer snapshot m running x")
    case True
    then have "t = x" using Cons.prems
      by (auto simp: Let_def eligible_def)
    with True show ?thesis by (intro exI[of _ "[]"] exI[of _ tasks]) auto
  next
    case False
    then have "claim_candidate offer snapshot m running tasks = Inr (Some t)"
      using Cons.prems by (auto simp: Let_def eligible_def res_bind_Inr_iff split: if_splits)
    then obtain pre post where "tasks = pre @ t # post" "eligible offer snapshot m running t"
      "\<forall>y \<in> set pre. \<not> eligible offer snapshot m running y"
      using Cons.IH by blast
    with False show ?thesis by - (rule exI[of _ "x # pre"], rule exI[of _ post], auto)
  qed
qed

text \<open>The runs in submission order.\<close>

definition runs_of :: "control_plane \<Rightarrow> agent_run list" where
  "runs_of s = map tl_task (dict_values (cp_states s))"

definition recovered :: "cp_env \<Rightarrow> control_plane \<Rightarrow> control_plane" where
  "recovered env s = fst (recover_stale_agent_runs (env_now env) s)"

lemma put_claim_parts [simp]:
  "cp_leases (put_claim r c l s) = dict_set r l (cp_leases s)"
  "cp_activations (put_claim r c l s) = cp_activations s"
  "cp_cancel_requests (put_claim r c l s) = cp_cancel_requests s"
  by (simp_all add: put_claim_def)

lemma put_activation_parts [simp]:
  "cp_leases (put_activation a s) = cp_leases s"
  "cp_activations (put_activation a s) = dict_set (ac_id a) a (cp_activations s)"
  by (simp_all add: put_activation_def)

lemma dispatch_ok:
  assumes "dispatch_claim env offer t s = (s', Inr r)"
  shows "\<exists>c. r = Some c \<and> cl_task_id c = ar_id t \<and> cl_worker_id c = co_worker_id offer \<and>
    dict_get (cp_leases s') (cl_request_id c) =
      Some (claim_lease_of env offer (ar_id t) (cl_activation c)) \<and>
    dict_get (cp_activations s') (ac_id (cl_activation c)) = Some (cl_activation c) \<and>
    ac_status (cl_activation c) = Act_DISPATCHED \<and>
    (\<forall>i. task_of s' i = (if i = ar_id t
       then map_option (\<lambda>u. (set_status Run_DISPATCHED u)
              \<lparr>ar_current_activation_id := Some (ac_id (cl_activation c))\<rparr>) (task_of s (ar_id t))
       else task_of s i))"
proof -
  define act where "act = activation_with_runtime_state (Some Act_DISPATCHED)
    (Some (fst (new_id env ''claim'' (update_task (ar_id t) (set_status Run_DISPATCHED) s))))
    (Some (co_worker_id offer)) None None
    (case current_activation
        (snd (new_id env ''claim'' (update_task (ar_id t) (set_status Run_DISPATCHED) s)))
        (set_status Run_DISPATCHED t) of
      Some a \<Rightarrow> a
    | None \<Rightarrow> activation_from_task (set_status Run_DISPATCHED t) None None None [] None None None
        None None [])"
  have "ac_status act = Act_DISPATCHED"
    by (simp add: act_def activation_with_runtime_state_def)
  then show ?thesis
    using assms[unfolded dispatch_claim_def Let_def case_prod_beta, folded act_def]
    by (auto simp: pure_step_def task_of_update_task option.map_comp comp_def new_id_def
        split: sum.splits)
qed

text \<open>The stored runs are kept under distinct identifiers.\<close>

interpretation wf_states: submission_invariant "\<lambda>s. dict_wf (cp_states s)" "\<lambda>_. True"
  by unfold_locales
    (auto simp: update_task_def configure_def put_claim_def renew_lease_def store_submitted_def
      Let_def put_activation_def append_if_known_def split: option.split)

lemma reachable_wf: "cp_reachable s \<Longrightarrow> dict_wf (cp_states s)"
  by (induction rule: cp_reachable.induct)
    (simp_all add: wf_states.perform_I, simp add: new_control_plane_def)

lemma stored_run:
  assumes "states_ok s" and "dict_wf (cp_states s)" and "t \<in> set (runs_of s)"
  shows "task_of s (ar_id t) = Some t"
proof -
  obtain i st where "(i, st) \<in> set (cp_states s)" and t: "t = tl_task st"
    using assms(3) by (auto simp: runs_of_def dict_values_def)
  then have "task_of s i = Some t" by (simp add: task_of_def dict_wf_get[OF assms(2)])
  with assms(1) show ?thesis unfolding states_ok_def by metis
qed

section \<open>Slots\<close>

lemma dict_set_split:
  "dict_get d k = Some v \<Longrightarrow>
   \<exists>pre post. d = pre @ (k, v) # post \<and> (\<forall>v'. dict_set k v' d = pre @ (k, v') # post)"
proof (induction d)
  case Nil
  then show ?case by simp
next
  case (Cons kv d)
  obtain k' w where kv: "kv = (k', w)" by (cases kv)
  show ?case
  proof (cases "k' = k")
    case True
    with Cons.prems show ?thesis by (intro exI[of _ "[]"] exI[of _ d]) (simp add: kv)
  next
    case False
    then obtain pre post where "d = pre @ (k, v) # post"
      "\<forall>v'. dict_set k v' d = pre @ (k, v') # post"
      using Cons by (auto simp: kv)
    with False show ?thesis by - (rule exI[of _ "kv # pre"], rule exI[of _ post], simp add: kv)
  qed
qed

definition in_slot :: "slot_key \<Rightarrow> agent_run \<Rightarrow> bool" where
  "in_slot key task \<longleftrightarrow>
     (if key = Model_Request_Slots then agent_run_uses_model_request_slot task
      else runtime_slot_key_for_agent_run task = key)"

lemma slot_use_middle:
  "slot_use key (xs @ t # ys) = slot_use key (xs @ ys) + slot_use key [t]"
  by (simp add: slot_use_def)

lemma slot_use_running:
  "slot_use key (running_tasks s) = slot_use key (runs_of s)"
  by (simp add: slot_use_def running_tasks_def runs_of_def running_status_def conj_commute)
    (rule arg_cong[where f = length], rule filter_cong, auto)

lemma slot_use_update:
  assumes "task_of s i = Some t" and "ar_status t = Run_QUEUED"
    and "f t = (set_status Run_DISPATCHED t)\<lparr>ar_current_activation_id := a\<rparr>"
  shows "slot_use key (runs_of (update_task i f s)) =
    slot_use key (runs_of s) + (if in_slot key t then 1 else 0)"
proof -
  obtain st where st: "dict_get (cp_states s) i = Some st" and t: "t = tl_task st"
    using assms(1) by (auto simp: task_of_def)
  obtain pre post where split: "cp_states s = pre @ (i, st) # post"
    "dict_set i (st\<lparr>tl_task := f t\<rparr>) (cp_states s) = pre @ (i, st\<lparr>tl_task := f t\<rparr>) # post"
    using dict_set_split[OF st] by blast
  have "runs_of s = map (\<lambda>x. tl_task (snd x)) pre @ t # map (\<lambda>x. tl_task (snd x)) post"
    by (simp add: runs_of_def dict_values_def split(1) t)
  moreover have "runs_of (update_task i f s) =
      map (\<lambda>x. tl_task (snd x)) pre @ f t # map (\<lambda>x. tl_task (snd x)) post"
    using split(2) by (simp add: runs_of_def dict_values_def update_task_def st t)
  moreover have "slot_use key [t] = 0" "slot_use key [f t] = (if in_slot key t then 1 else 0)"
    using assms(2) by (simp_all add: slot_use_def assms(3) running_status_def in_slot_def
      agent_run_uses_model_request_slot_def
      runtime_slot_key_for_agent_run_def)
  ultimately show ?thesis
    by (simp add: slot_use_middle[of _ _ t] slot_use_middle[of _ _ "f t"])
qed

section \<open>Expired leases\<close>

text \<open>The states that the loop over the leases passes through: \<open>ls\<close> are the leases handled so far,
  \<open>s\<close> is the state before the loop.\<close>

definition running_run :: "agent_run \<Rightarrow> bool" where
  "running_run t \<longleftrightarrow> ar_status t \<in> {Run_DISPATCHED, Run_RUNNING, Run_WAITING}"

definition gives_back :: "int \<Rightarrow> (string \<times> claim_lease) list \<Rightarrow> string \<Rightarrow> bool" where
  "gives_back now ls task_id = list_ex (\<lambda>(r, l). ls_lease_deadline l \<le> now \<and> ls_task_id l = task_id) ls"

definition recovered_to ::
  "int \<Rightarrow> control_plane \<Rightarrow> (string \<times> claim_lease) list \<Rightarrow> control_plane \<Rightarrow> bool" where
  "recovered_to now s ls s' \<longleftrightarrow>
     (\<forall>r. dict_get (cp_leases s') r =
        (if list_ex (\<lambda>(r', l). r' = r \<and> ls_lease_deadline l \<le> now) ls then None
         else dict_get (cp_leases s) r)) \<and>
     (\<forall>i. map_option ar_status (task_of s' i) =
        map_option (\<lambda>t. if running_run t \<and> gives_back now ls i then Run_QUEUED else ar_status t)
          (task_of s i))"

lemma update_steers_parts [simp]:
  "cp_leases (update_steers i f s) = cp_leases s"
  "task_of (update_steers i f s) j = task_of s j"
  by (simp_all add: update_steers_def split: option.split)

lemma requeue_parts [simp]:
  "cp_leases (requeue_delivering_activation_steers i a r s) = cp_leases s"
  "task_of (requeue_delivering_activation_steers i a r s) j = task_of s j"
  by (simp_all add: requeue_delivering_activation_steers_def)

lemma drop_cancel_parts [simp]:
  "cp_leases (drop_cancel_request i s) = cp_leases s"
  "task_of (drop_cancel_request i s) j = task_of s j"
  by (simp_all add: drop_cancel_request_def)

lemma recover_lease_step:
  assumes "recovered_to now s ls s'"
  shows "recovered_to now s (ls @ [(r, l)]) (fst (recover_lease now r l (s', acc)))"
proof (cases "now < ls_lease_deadline l")
  case True
  with assms show ?thesis by (simp add: recover_lease_def recovered_to_def gives_back_def Let_def)
next
  case False
  have leases: "dict_get (cp_leases s') r' =
      (if list_ex (\<lambda>(r'', l). r'' = r' \<and> ls_lease_deadline l \<le> now) ls then None
       else dict_get (cp_leases s) r')"
    and stat: "map_option ar_status (task_of s' i) =
      map_option (\<lambda>t. if running_run t \<and> gives_back now ls i then Run_QUEUED else ar_status t)
        (task_of s i)" for r' i
    using assms by (simp_all add: recovered_to_def)
  have lease': "cp_leases (fst (recover_lease now r l (s', acc))) = dict_pop r (cp_leases s')"
    using False by (auto simp: recover_lease_def Let_def split: option.split)
  have stat': "map_option ar_status (task_of (fst (recover_lease now r l (s', acc))) i) =
      (if i = ls_task_id l
       then map_option (\<lambda>t. if running_run t then Run_QUEUED else ar_status t) (task_of s' i)
       else map_option ar_status (task_of s' i))" for i
  proof (cases "task_of s' (ls_task_id l)")
    case None
    then show ?thesis using False by (simp add: recover_lease_def Let_def)
  next
    case (Some t)
    show ?thesis
    proof (cases "running_run t")
      case True
      then show ?thesis
        using False Some
        by (simp add: recover_lease_def Let_def running_run_def task_of_update_task)
    next
      case not_running: False
      then show ?thesis
        using False Some by (simp add: recover_lease_def Let_def running_run_def)
    qed
  qed
  have "map_option ar_status (task_of (fst (recover_lease now r l (s', acc))) i) =
      map_option (\<lambda>t. if running_run t \<and> gives_back now (ls @ [(r, l)]) i then Run_QUEUED
        else ar_status t) (task_of s i)" for i
  proof (cases "i = ls_task_id l")
    case True
    then have all: "gives_back now (ls @ [(r, l)]) i" using False by (simp add: gives_back_def)
    let ?requeued = "\<lambda>st. if st \<in> {Run_DISPATCHED, Run_RUNNING, Run_WAITING} then Run_QUEUED else st"
    have "map_option ar_status (task_of (fst (recover_lease now r l (s', acc))) i) =
        map_option ?requeued (map_option ar_status (task_of s' i))"
      using True by (cases "task_of s' i") (simp_all add: stat' running_run_def)
    also have "\<dots> = map_option ?requeued (map_option (\<lambda>t. if running_run t \<and> gives_back now ls i
        then Run_QUEUED else ar_status t) (task_of s i))"
      by (simp only: stat)
    also have "\<dots> = map_option (\<lambda>t. if running_run t \<and> gives_back now (ls @ [(r, l)]) i
        then Run_QUEUED else ar_status t) (task_of s i)"
      using all by (cases "task_of s i") (simp_all add: running_run_def)
    finally show ?thesis .
  next
    case other: False
    have "gives_back now (ls @ [(r, l)]) i = gives_back now ls i"
      using other by (simp add: gives_back_def)
    with other show ?thesis unfolding stat' by (simp add: stat)
  qed
  then show ?thesis
    using False by (auto simp: recovered_to_def lease' leases)
qed

lemma recover_fold:
  "recovered_to now s ls (fst acc) \<Longrightarrow>
   recovered_to now s (ls @ ls') (fst (fold (\<lambda>(r, l). recover_lease now r l) ls' acc))"
proof (induction ls' arbitrary: ls acc)
  case Nil
  then show ?case by simp
next
  case (Cons x ls')
  obtain r l where x: "x = (r, l)" by (cases x)
  obtain s' rs where acc: "acc = (s', rs)" by (cases acc)
  have "recovered_to now s (ls @ [(r, l)]) (fst (recover_lease now r l (s', rs)))"
    using Cons.prems by (intro recover_lease_step) (simp add: acc)
  from Cons.IH[OF this] show ?case by (simp add: x acc)
qed

lemma recovered_exact: "recovered_to (env_now env) s (cp_leases s) (recovered env s)"
proof -
  have "recovered_to (env_now env) s [] (fst (s, []))"
    by (simp add: recovered_to_def gives_back_def)
  from recover_fold[OF this, of "cp_leases s"] show ?thesis
    by (simp add: recovered_def recover_stale_agent_runs_def)
qed

section \<open>A whole claim\<close>

text \<open>Every reachable state stores its runs like this.\<close>

definition runs_stored :: "control_plane \<Rightarrow> bool" where
  "runs_stored s \<longleftrightarrow> states_ok s \<and> dict_wf (cp_states s)"

lemma reachable_runs_stored: "cp_reachable s \<Longrightarrow> runs_stored s"
  by (simp add: runs_stored_def reachable_states_ok reachable_wf)

lemma recovered_runs_stored: "runs_stored s \<Longrightarrow> runs_stored (recovered env s)"
  by (simp add: runs_stored_def recovered_def states.recover_I wf_states.recover_I)

lemma running_tasks_filter: "running_tasks s = filter running_run (runs_of s)"
  by (simp add: running_tasks_def runs_of_def running_run_def[abs_def])

lemma recovered_config [simp]:
  "cp_runtime_snapshot (recovered env s) = cp_runtime_snapshot s \<and>
   cp_max_running_tasks (recovered env s) = cp_max_running_tasks s"
proof -
  have one: "cp_runtime_snapshot (fst (recover_lease now r l acc)) = cp_runtime_snapshot (fst acc) \<and>
      cp_max_running_tasks (fst (recover_lease now r l acc)) = cp_max_running_tasks (fst acc)"
    for now r l acc
    by (cases acc) (simp add: recover_lease_def Let_def drop_claim_def drop_cancel_request_def
      put_activation_def requeue_delivering_activation_steers_def update_steers_def
      split: option.split)
  have "cp_runtime_snapshot (fst (fold (\<lambda>(r, l). recover_lease now r l) ls acc)) =
        cp_runtime_snapshot (fst acc) \<and>
      cp_max_running_tasks (fst (fold (\<lambda>(r, l). recover_lease now r l) ls acc)) =
        cp_max_running_tasks (fst acc)" for now ls acc
    by (induction ls arbitrary: acc) (auto simp: one)
  then show ?thesis by (simp add: recovered_def recover_stale_agent_runs_def)
qed

lemma claim_cases:
  assumes "runs_stored s" and "claim_agent_run_activation env offer s = (s', Inr r)"
  shows "r = None \<and> s' = recovered env s \<and>
      list_all (\<lambda>t. \<not> eligible offer (cp_runtime_snapshot s) (cp_max_running_tasks s)
        (running_tasks (recovered env s)) t) (runs_of (recovered env s)) \<or>
    (\<exists>pre t post c. r = Some c \<and> runs_of (recovered env s) = pre @ t # post \<and>
      eligible offer (cp_runtime_snapshot s) (cp_max_running_tasks s)
        (running_tasks (recovered env s)) t \<and>
      list_all (\<lambda>t. \<not> eligible offer (cp_runtime_snapshot s) (cp_max_running_tasks s)
        (running_tasks (recovered env s)) t) pre \<and>
      task_of (recovered env s) (ar_id t) = Some t \<and>
      dispatch_claim env offer t (recovered env s) = (s', Inr (Some c)))"
proof -
  let ?s = "recovered env s"
  note claim = assms(2)[unfolded claim_agent_run_activation_def Let_def, folded recovered_def runs_of_def]
  show ?thesis
  proof (cases "claim_candidate offer (cp_runtime_snapshot ?s) (cp_max_running_tasks ?s)
      (running_tasks ?s) (runs_of ?s)")
    case (Inl e)
    with claim show ?thesis by simp
  next
    case (Inr cand)
    show ?thesis
    proof (cases cand)
      case None
      with Inr claim candidate_None[of offer _ _ _ "runs_of ?s"] show ?thesis
        by (auto simp: list_all_iff)
    next
      case (Some t)
      then have disp: "dispatch_claim env offer t ?s = (s', Inr r)" using Inr claim by simp
      obtain pre post where split: "runs_of ?s = pre @ t # post"
        and el: "eligible offer (cp_runtime_snapshot s) (cp_max_running_tasks s) (running_tasks ?s) t"
        and none: "\<forall>x \<in> set pre. \<not> eligible offer (cp_runtime_snapshot s)
          (cp_max_running_tasks s) (running_tasks ?s) x"
        using candidate_Some[OF Inr[unfolded Some]] by auto
      have "task_of ?s (ar_id t) = Some t"
        using recovered_runs_stored[OF assms(1), of env] split
        by (intro stored_run) (auto simp: runs_stored_def)
      moreover obtain c where "r = Some c" using dispatch_ok[OF disp] by blast
      ultimately show ?thesis using split el none disp by (auto simp: list_all_iff)
    qed
  qed
qed

lemma dict_set_twice: "dict_set k v (dict_set k w d) = dict_set k v d"
  by (induction d) auto

lemma update_task_twice: "update_task i g (update_task i f s) = update_task i (\<lambda>u. g (f u)) s"
  by (simp add: update_task_def dict_set_twice split: option.split)

lemma dispatch_slot_use:
  assumes "dispatch_claim env offer t s = (s', Inr (Some c))" and "task_of s (ar_id t) = Some t"
    and "ar_status t = Run_QUEUED"
  shows "slot_use key (running_tasks s') = slot_use key (running_tasks s) + (if in_slot key t then 1 else 0)"
proof -
  let ?mid = "update_task (ar_id t) (\<lambda>u. u\<lparr>ar_current_activation_id := Some (ac_id (cl_activation c))\<rparr>)
    (update_task (ar_id t) (set_status Run_DISPATCHED) s)"
  obtain st where st: "dict_get (cp_states s) (ar_id t) = Some st" and t: "t = tl_task st"
    using assms(2) by (auto simp: task_of_def)
  define act where "act = activation_with_runtime_state (Some Act_DISPATCHED)
    (Some (fst (new_id env ''claim'' (update_task (ar_id t) (set_status Run_DISPATCHED) s))))
    (Some (co_worker_id offer)) None None
    (case current_activation
        (snd (new_id env ''claim'' (update_task (ar_id t) (set_status Run_DISPATCHED) s)))
        (set_status Run_DISPATCHED t) of
      Some a \<Rightarrow> a
    | None \<Rightarrow> activation_from_task (set_status Run_DISPATCHED t) None None None [] None None None
        None None [])"
  have same: "runs_of (x\<lparr>cp_uuids := n\<rparr>) = runs_of x" "runs_of (append_event i ty p x) = runs_of x"
    "runs_of (put_claim r cl l x) = runs_of x" "runs_of (put_activation a x) = runs_of x"
    for x n i ty p r cl l a by (simp_all add: runs_of_def put_claim_def put_activation_def)
  have upd: "runs_of (update_task i f (x\<lparr>cp_uuids := n\<rparr>)) = runs_of (update_task i f x)" for i f x n
    by (simp add: runs_of_def update_task_def split: option.split)
  have "cl_activation c = act \<and> runs_of s' = runs_of (update_task (ar_id t)
      (\<lambda>u. u\<lparr>ar_current_activation_id := Some (ac_id act)\<rparr>)
      (update_task (ar_id t) (set_status Run_DISPATCHED) s))"
    using assms(1)[unfolded dispatch_claim_def Let_def case_prod_beta, folded act_def]
    by (auto simp: pure_step_def same upd new_id_def split: sum.splits)
  moreover have "update_task (ar_id t) (\<lambda>u. u\<lparr>ar_current_activation_id := a\<rparr>)
      (update_task (ar_id t) (set_status Run_DISPATCHED) s) =
    update_task (ar_id t) (\<lambda>u. (set_status Run_DISPATCHED u)\<lparr>ar_current_activation_id := a\<rparr>) s"
    for a by (rule update_task_twice)
  ultimately show ?thesis
    using slot_use_update[OF assms(2,3), of "\<lambda>u. (set_status Run_DISPATCHED u)
      \<lparr>ar_current_activation_id := Some (ac_id act)\<rparr>" "Some (ac_id act)" key]
    by (simp add: slot_use_running)
qed

section \<open>A sample claim\<close>

definition demo_queued :: control_plane where
  "demo_queued = demo_start
     \<lparr>cp_states := [(''t1'', task_lifecycle_create ''t1'' ''coder''),
                     (''t2'', task_lifecycle_create ''t2'' ''coder'')]\<rparr>"

lemma demo_recovered: "recovered demo_env demo_queued = demo_queued"
  by (simp add: recovered_def recover_stale_agent_runs_def demo_queued_def demo_start_def
      new_control_plane_def)

lemma demo_queued_ok: "runs_stored demo_queued"
  by (auto simp: runs_stored_def states_ok_def task_of_def demo_queued_def dict_wf_def
      task_lifecycle_create_def new_issue_run_def split: if_splits)

lemma demo_run_metadata:
  "dict_get (executor_metadata s (set_agent_run_status st wr ms acs (new_issue_run i a)
     \<lparr>ar_current_activation_id := aid\<rparr>)) ''worker_kind'' = None \<and>
   dict_get (executor_metadata s (set_agent_run_status st wr ms acs (new_issue_run i a)
     \<lparr>ar_current_activation_id := aid\<rparr>)) ''model_request_origin'' = None"
  by (simp add: executor_metadata_def metadata_with_snapshot_capabilities_def Let_def
      setdefault_member_def setdefault_text_def set_agent_run_status_def new_issue_run_def
      session_run_binding_metadata_for_task_def pget_def)

lemma demo_candidate:
  "claim_candidate demo_offer (cp_runtime_snapshot demo_queued) (cp_max_running_tasks demo_queued)
     (running_tasks demo_queued) (runs_of demo_queued) = Inr (Some (new_issue_run ''t1'' ''coder''))"
  by code_simp

lemma demo_claim:
  "\<exists>s' c. claim_agent_run_activation demo_env demo_offer demo_queued = (s', Inr (Some c)) \<and>
     cl_task_id c = ''t1'' \<and>
     dispatch_claim demo_env demo_offer (new_issue_run ''t1'' ''coder'') demo_queued = (s', Inr (Some c))"
proof -
  have "\<exists>s' c. dispatch_claim demo_env demo_offer (new_issue_run ''t1'' ''coder'') demo_queued =
      (s', Inr (Some c))"
    by (simp add: dispatch_claim_def Let_def new_id_def claimed_executor_request_def text_member_def
        pget_def demo_run_metadata)
  then obtain s' c where disp: "dispatch_claim demo_env demo_offer (new_issue_run ''t1'' ''coder'')
      demo_queued = (s', Inr (Some c))"
    by blast
  moreover have "cl_task_id c = ''t1''" using dispatch_ok[OF disp] by (simp add: new_issue_run_def)
  ultimately show ?thesis
    using demo_candidate demo_recovered
    by (simp add: claim_agent_run_activation_def runs_of_def recovered_def)
qed

section \<open>Properties\<close>

text \<open>C3. A claim takes the first run, in the order of submission, that is queued, that the worker
  may execute and whose slots are free, after giving back the runs with expired leases; it takes
  none only if there is no such run. The run it takes is dispatched, and the lease is held by the
  worker for exactly the offered time.\<close>

theorem claim_takes_first:
  assumes "runs_stored s" and "claim_agent_run_activation env offer s = (s', Inr r)"
  shows "case r of
      None \<Rightarrow> s' = recovered env s \<and>
        list_all (\<lambda>t. \<not> eligible offer (cp_runtime_snapshot s) (cp_max_running_tasks s)
          (running_tasks (recovered env s)) t) (runs_of (recovered env s))
    | Some c \<Rightarrow> \<exists>pre t post. runs_of (recovered env s) = pre @ t # post \<and>
        eligible offer (cp_runtime_snapshot s) (cp_max_running_tasks s)
          (running_tasks (recovered env s)) t \<and>
        list_all (\<lambda>t. \<not> eligible offer (cp_runtime_snapshot s) (cp_max_running_tasks s)
          (running_tasks (recovered env s)) t) pre \<and>
        cl_task_id c = ar_id t \<and> cl_worker_id c = co_worker_id offer \<and>
        task_of s' (ar_id t) = Some ((set_status Run_DISPATCHED t)
          \<lparr>ar_current_activation_id := Some (ac_id (cl_activation c))\<rparr>) \<and>
        dict_get (cp_leases s') (cl_request_id c) =
          Some (claim_lease_of env offer (ar_id t) (cl_activation c))"
proof (cases r)
  case None
  then show ?thesis using claim_cases[OF assms] by auto
next
  case (Some c)
  then obtain pre t post where split: "runs_of (recovered env s) = pre @ t # post"
    and rest: "eligible offer (cp_runtime_snapshot s) (cp_max_running_tasks s)
        (running_tasks (recovered env s)) t"
      "list_all (\<lambda>t. \<not> eligible offer (cp_runtime_snapshot s) (cp_max_running_tasks s)
        (running_tasks (recovered env s)) t) pre"
      "task_of (recovered env s) (ar_id t) = Some t"
    and disp: "dispatch_claim env offer t (recovered env s) = (s', Inr (Some c))"
    using claim_cases[OF assms] by auto
  have "cl_task_id c = ar_id t \<and> cl_worker_id c = co_worker_id offer \<and>
      task_of s' (ar_id t) = Some ((set_status Run_DISPATCHED t)
        \<lparr>ar_current_activation_id := Some (ac_id (cl_activation c))\<rparr>) \<and>
      dict_get (cp_leases s') (cl_request_id c) =
        Some (claim_lease_of env offer (ar_id t) (cl_activation c))"
    using dispatch_ok[OF disp] rest(3) by auto
  with split rest show ?thesis unfolding Some by auto
qed

lemma claim_takes_first_witness:
  "case snd (claim_agent_run_activation demo_env demo_offer demo_queued) of
     Inr (Some c) \<Rightarrow> (\<exists>pre t post. runs_of demo_queued = pre @ t # post \<and> cl_task_id c = ar_id t)
   | _ \<Rightarrow> False"
proof -
  obtain s' c where claim: "claim_agent_run_activation demo_env demo_offer demo_queued = (s', Inr (Some c))"
    using demo_claim by blast
  from claim_takes_first[OF demo_queued_ok claim] claim show ?thesis
    by (auto simp: demo_recovered)
qed

text \<open>C4. A claim never overbooks: after it, the runs that execute in the slot of the claimed run, and
  among the users of the server's models if the run is one, are at most as many as the runtime
  snapshot allows. It adds the claimed run to those slots and changes no other slot.\<close>

theorem claim_respects_slots:
  assumes "runs_stored s" and "claim_agent_run_activation env offer s = (s', Inr (Some c))"
    and "runtime_slot_limits (cp_runtime_snapshot s) (cp_max_running_tasks s) = Inr limits"
    and "task_of (recovered env s) (cl_task_id c) = Some t"
  shows "slot_use (runtime_slot_key_for_agent_run t) (running_tasks s') \<le>
      slot_of limits (runtime_slot_key_for_agent_run t) \<and>
    (agent_run_uses_model_request_slot t \<longrightarrow>
      slot_use Model_Request_Slots (running_tasks s') \<le> slot_of limits Model_Request_Slots) \<and>
    (\<forall>key. slot_use key (running_tasks s') =
      slot_use key (running_tasks (recovered env s)) + (if in_slot key t then 1 else 0))"
proof -
  obtain u where el: "eligible offer (cp_runtime_snapshot s) (cp_max_running_tasks s)
        (running_tasks (recovered env s)) u"
    and u: "task_of (recovered env s) (ar_id u) = Some u"
    and disp: "dispatch_claim env offer u (recovered env s) = (s', Inr (Some c))"
    using claim_cases[OF assms(1,2)] by auto
  have "t = u" using dispatch_ok[OF disp] u assms(4) by simp
  have queued: "ar_status t = Run_QUEUED" using el \<open>t = u\<close> by (simp add: eligible_def)
  have use: "slot_use key (running_tasks s') =
      slot_use key (running_tasks (recovered env s)) + (if in_slot key t then 1 else 0)" for key
    using dispatch_slot_use[OF disp u] queued \<open>t = u\<close> by simp
  have "runtime_slots_allow_agent_run_claim (running_tasks (recovered env s)) t
      (cp_runtime_snapshot s) (cp_max_running_tasks s) = Inr True"
    using el \<open>t = u\<close> by (simp add: eligible_def)
  then show ?thesis
    using assms(3) use
    by (auto simp: runtime_slots_allow_agent_run_claim_def Let_def in_slot_def)
qed

lemma claim_respects_slots_witness:
  "case claim_agent_run_activation demo_env demo_offer demo_queued of
     (s', Inr (Some c)) \<Rightarrow> slot_use Server_Agent_Run_Slots (running_tasks s') \<le> 4
   | _ \<Rightarrow> False"
proof -
  obtain s' c where claim: "claim_agent_run_activation demo_env demo_offer demo_queued = (s', Inr (Some c))"
    and id: "cl_task_id c = ''t1''"
    using demo_claim by blast
  have lim: "runtime_slot_limits (cp_runtime_snapshot demo_queued) (cp_max_running_tasks demo_queued) =
      Inr [(Server_Agent_Run_Slots, 4), (Server_Sandbox_Slots, 4), (Local_Peer_Agent_Run_Slots, 4),
           (Model_Request_Slots, 4)]"
    by code_simp
  have t: "task_of (recovered demo_env demo_queued) (cl_task_id c) =
      Some (new_issue_run ''t1'' ''coder'')"
    unfolding demo_recovered id by code_simp
  have key: "runtime_slot_key_for_agent_run (new_issue_run ''t1'' ''coder'') = Server_Agent_Run_Slots"
    by code_simp
  from claim_respects_slots[OF demo_queued_ok claim lim t, THEN conjunct1] show ?thesis
    by (simp only: claim key slot_of_def) (simp add: claim)
qed

text \<open>C5. A worker that does not hold the lease of an activation is shut out: when the request, the
  run, the worker, the activation or the peer it names is not that of a live lease, its heartbeat,
  its session, its events and its result are refused and change nothing.\<close>

theorem stale_worker_is_fenced:
  assumes "case dict_get (cp_leases s) request_id of
      None \<Rightarrow> True
    | Some lease \<Rightarrow> ls_task_id lease \<noteq> task_id \<or> ls_worker_id lease \<noteq> worker_id \<or>
        activation_id \<noteq> [] \<and> ls_activation_id lease \<noteq> activation_id \<or>
        opt_str peer_id \<noteq> [] \<and> ls_peer_id lease \<noteq> [] \<and> ls_peer_id lease \<noteq> opt_str peer_id"
    and "request_id \<noteq> []"
  shows "fst (heartbeat_agent_run_activation env request_id task_id activation_id worker_id peer_id
        lease_sec steers s) = s \<and>
    pget (snd (heartbeat_agent_run_activation env request_id task_id activation_id worker_id peer_id
        lease_sec steers s)) ''ok'' = PBool False \<and>
    (\<exists>reason. pin_claimed_activation_session request_id task_id activation_id worker_id peer_id
          workdir branch session_id metadata s = (s, Inr (False, reason)) \<and>
      append_executor_event task_id event (Some request_id) (Some activation_id) (Some worker_id)
          peer_id s = (s, Inr (False, reason)) \<and>
      complete_claimed_agent_run_activation env depth task_id r request_id activation_id worker_id
          peer_id artifacts s = (s, Inr (False, reason, None)))"
proof -
  have "\<not> fst (validate_activation_claim_owner s request_id task_id (Some activation_id)
      worker_id peer_id)"
    using assms(1)
    by (cases "dict_get (cp_leases s) request_id")
      (auto simp: validate_activation_claim_owner_def)
  then obtain reason where "validate_activation_claim_owner s request_id task_id (Some activation_id)
      worker_id peer_id = (False, reason)"
    by (cases "validate_activation_claim_owner s request_id task_id (Some activation_id)
      worker_id peer_id") auto
  then show ?thesis
    using assms(2)
    by (auto simp: heartbeat_agent_run_activation_def heartbeat_refused_def pget_def
        pin_claimed_activation_session_def append_executor_event_def
        complete_claimed_agent_run_activation_def split: option.split)
qed

lemma stale_worker_is_fenced_witness:
  "fst (heartbeat_agent_run_activation demo_env ''claim-0'' ''t1'' ''t1:activation:1'' ''w2'' None None
      [] (demo_queued\<lparr>cp_leases := [(''claim-0'', \<lparr>ls_task_id = ''t1'',
         ls_activation_id = ''t1:activation:1'', ls_worker_id = ''w1'', ls_peer_id = [],
         ls_last_heartbeat_at = 100, ls_lease_deadline = 115, ls_lease_sec = 15\<rparr>)]\<rparr>)) =
   demo_queued\<lparr>cp_leases := [(''claim-0'', \<lparr>ls_task_id = ''t1'',
      ls_activation_id = ''t1:activation:1'', ls_worker_id = ''w1'', ls_peer_id = [],
      ls_last_heartbeat_at = 100, ls_lease_deadline = 115, ls_lease_sec = 15\<rparr>)]\<rparr>"
  by (rule stale_worker_is_fenced[THEN conjunct1]) simp_all

text \<open>Recovery gives back exactly the runs whose lease has run out: it removes the leases whose
  deadline has passed and no other, queues the dispatched, running and waiting runs they were for,
  and leaves the status of every other run as it was.\<close>

theorem recovery_exact:
  "dict_get (cp_leases (fst (recover_stale_agent_runs now s))) request_id =
     (if list_ex (\<lambda>(r, lease). r = request_id \<and> ls_lease_deadline lease \<le> now) (cp_leases s)
      then None else dict_get (cp_leases s) request_id) \<and>
   map_option ar_status (task_of (fst (recover_stale_agent_runs now s)) task_id) =
     map_option (\<lambda>t. if ar_status t \<in> {Run_DISPATCHED, Run_RUNNING, Run_WAITING} \<and>
         list_ex (\<lambda>(r, lease). ls_lease_deadline lease \<le> now \<and> ls_task_id lease = task_id) (cp_leases s)
       then Run_QUEUED else ar_status t) (task_of s task_id)"
proof -
  have "recovered_to (env_now (demo_env\<lparr>env_now := now\<rparr>)) s (cp_leases s)
      (recovered (demo_env\<lparr>env_now := now\<rparr>) s)"
    by (rule recovered_exact)
  then show ?thesis
    by (simp add: recovered_to_def recovered_def gives_back_def running_run_def)
qed

end
