(* ===== verification/CancelProofs.thy ===== *)
theory CancelProofs
  imports ControlProofs
begin

text \<open>
  Cancelling runs (\<open>ControlCancel\<close>, \<open>ControlRun\<close>): the nested cancellations end, because each of them
  closes a thread binding first, and a cancelled run takes all the runs it owns with it.
\<close>

section \<open>Reporting to the owners never raises\<close>

lemma feedback_payload_allowed:
  "validate_activation_input_payload (dict_setdefault ''retry_of_activation_id'' x
     (dict_setdefault ''resume_session'' y
       [(''feedback_id'', a), (''kind'', b), (''target_agent_run_id'', c)])) = Inr ()"
  by (simp add: validate_activation_input_payload_def activation_input_forbidden_business_keys_def
      dict_setdefault_def)

lemma resume_returns:
  "\<exists>b. snd (resume_from_pending_agent_call_feedback env owner s) = Inr b"
proof (cases "task_of s owner")
  case None
  then show ?thesis
    by (auto simp: resume_from_pending_agent_call_feedback_def intro: exI[of _ False])
next
  case (Some t)
  then have "task_locked s owner = Inr t" by (auto simp: task_locked_def task_of_def)
  then show ?thesis
    using Some
    by (auto simp: resume_from_pending_agent_call_feedback_def continue_agent_run_def Let_def
        continuable_status_def feedback_payload_allowed split: option.split)
qed

lemma call_feedback_returns: "snd (append_agent_call_feedback env task rel s) = Inr ()"
proof -
  have "snd (step_bind (resume_from_pending_agent_call_feedback env o1 s') (\<lambda>s _. (s, Inr ()))) = Inr ()"
    for o1 s'
    using resume_returns[of env o1 s']
    by (cases "resume_from_pending_agent_call_feedback env o1 s'") auto
  then show ?thesis by (simp add: append_agent_call_feedback_def new_id_def Let_def)
qed

lemma report_returns: "snd (report_to_parent env task txt rel s) = Inr ()"
  using call_feedback_returns[of env task rel s]
  by (cases "append_agent_call_feedback env task rel s") (auto simp: report_to_parent_def Let_def)

lemma each_step_returns:
  assumes "\<And>x s. snd (f x s) = Inr ()"
  shows "snd (each_step f xs s) = Inr ()"
proof (induction xs arbitrary: s)
  case Nil
  then show ?case by simp
next
  case (Cons x xs)
  show ?case using assms[of x s] Cons.IH by (cases "f x s") auto
qed

lemma parent_terminal_returns: "snd (append_parent_terminal_event env task s) = Inr ()"
  by (simp add: append_parent_terminal_event_def Let_def each_step_returns report_returns)

section \<open>Cancellations end\<close>

definition threads_ok :: "control_plane \<Rightarrow> bool" where
  "threads_ok s \<longleftrightarrow> (\<forall>k b. dict_get (cp_thread_bindings s) k = Some b \<longrightarrow> tb_id b = k)"

interpretation threads: submission_invariant threads_ok "\<lambda>_. True"
proof (unfold_locales, goal_cases)
  case (6 s tbs)
  then show ?case unfolding threads_ok_def threads_shrink_def by (simp, metis)
qed (auto simp: threads_ok_def configure_def put_claim_def renew_lease_def store_submitted_def
    Let_def put_activation_def append_if_known_def split: option.split if_splits)

lemma reachable_threads_ok: "cp_reachable s \<Longrightarrow> threads_ok s"
  by (induction rule: cp_reachable.induct)
    (simp_all add: threads.perform_I, simp add: threads_ok_def new_control_plane_def)

definition active_threads :: "control_plane \<Rightarrow> string set" where
  "active_threads s = {k. thread_active (cp_thread_bindings s) k}"

lemma active_threads_finite [simp]: "finite (active_threads s)"
proof (rule finite_subset)
  show "active_threads s \<subseteq> fst ` set (cp_thread_bindings s)"
    by (auto simp: active_threads_def thread_active_def dest!: dict_get_in_set
        split: option.splits intro: rev_image_eqI)
qed simp

interpretation active: lifecycle_invariant "\<lambda>s. active_threads s \<subseteq> A" for A
  by unfold_locales (auto simp: active_threads_def threads_shrink_def)

interpretation keys: lifecycle_invariant "\<lambda>s. dict_has (cp_states s) i" for i
  by unfold_locales (auto simp: dict_has_iff update_task_def split: option.split)

text \<open>A cancellation of a run takes a frame for itself and one for the cleaning, and each ACTIVE thread
  binding that it closes on the way three more: one to set its status, and two for the nested
  cancellation.\<close>

definition frames_for :: "control_plane \<Rightarrow> nat" where
  "frames_for s = 3 * card (active_threads s) + 2"

definition cancel_ends ::
  "(string \<Rightarrow> string \<Rightarrow> control_plane \<Rightarrow> bool step) \<Rightarrow> nat \<Rightarrow> bool" where
  "cancel_ends cancel n \<longleftrightarrow>
     (\<forall>i r s. threads_ok s \<and> dict_has (cp_states s) i \<and> frames_for s \<le> n \<longrightarrow>
        (\<exists>b. snd (cancel i r s) = Inr b)) \<and>
     (\<forall>i r s. threads_ok s \<longrightarrow> threads_ok (fst (cancel i r s))) \<and>
     (\<forall>i r s A. active_threads s \<subseteq> A \<longrightarrow> active_threads (fst (cancel i r s)) \<subseteq> A)"

lemma active_threads_close:
  assumes "threads_ok s" and "dict_get (cp_thread_bindings s) k = Some b"
    and "tb_status b = TBind_ACTIVE" and "status \<noteq> TBind_ACTIVE"
  shows "active_threads (set_agent_thread_binding_status env b status reason md s)
    \<subseteq> active_threads s - {k}"
proof -
  have "tb_id b = k" using assms(1,2) by (simp add: threads_ok_def)
  then have "cp_thread_bindings (set_agent_thread_binding_status env b status reason md s) =
      dict_set k (b\<lparr>tb_status := status,
        tb_metadata := (let md' = dict_update (tb_metadata b) md in
          if reason = [] then md' else dict_set ''status_reason'' (PStr reason) md'),
        tb_updated_at := Some (env_iso env)\<rparr>) (cp_thread_bindings s)"
    by (simp add: set_agent_thread_binding_status_def append_to_both_def append_if_known_def Let_def)
  with assms(4) show ?thesis
    by (auto simp: active_threads_def thread_active_def split: if_splits)
qed

lemma cleanup_thread_returns:
  assumes "cancel_ends cancel (n - 1)" and "threads_ok s" and "frames_for s \<le> n + 2"
  shows "snd (cleanup_thread_binding env cancel n task_id k s) = Inr ()"
proof (cases "task_of s task_id")
  case None
  then show ?thesis by (simp add: cleanup_thread_binding_def)
next
  case (Some task)
  show ?thesis
  proof (cases "dict_get (cp_thread_bindings s) k")
    case None
    then show ?thesis by (simp add: cleanup_thread_binding_def split: option.split)
  next
    case (Some b)
    have ends: "snd (set_thread_binding_status_cancelling env cancel n b status reason [] target s) = Inr ()"
      if active: "tb_status b = TBind_ACTIVE" and st: "status \<noteq> TBind_ACTIVE" for status reason target
    proof -
      let ?s = "set_agent_thread_binding_status env b status reason [] s"
      have "active_threads ?s \<subseteq> active_threads s - {k}"
        by (rule active_threads_close[OF assms(2) Some active st])
      moreover have "k \<in> active_threads s"
        using Some active by (simp add: active_threads_def thread_active_def)
      ultimately have "card (active_threads ?s) < card (active_threads s)"
        by (intro psubset_card_mono) auto
      then have room: "frames_for ?s \<le> n - 1" "0 < n" using assms(3) by (simp_all add: frames_for_def)
      moreover have "threads_ok ?s" using st assms(2) by (rule threads.thread_status_I)
      ultimately have "dict_has (cp_states ?s) i \<Longrightarrow> \<exists>v. snd (cancel i r ?s) = Inr v" for i r
        using assms(1) room(1) by (simp add: cancel_ends_def)
      then show ?thesis
        using room(2)
        by (auto simp: set_thread_binding_status_cancelling_def Let_def step_bind_def
            split: prod.split sum.split) (metis old.sum.exhaust snd_conv sum.distinct(1))+
    qed
    show ?thesis
      by (auto simp: cleanup_thread_binding_def Some ends split: option.split)
  qed
qed

lemma cleanup_returns:
  assumes cancel: "cancel_ends cancel (n - 2)" and "threads_ok s" and "frames_for s \<le> n + 1"
  shows "snd (cleanup_bindings_for_terminal_task env cancel n task_id s) = Inr ()"
proof -
  have keep: "threads_ok (fst (cleanup_thread_binding env cancel m task_id k s)) \<and>
      active_threads (fst (cleanup_thread_binding env cancel m task_id k s)) \<subseteq> A"
    if "threads_ok s" "active_threads s \<subseteq> A" for k s A m
    using that cancel
    by (auto simp: cancel_ends_def intro!: threads.cleanup_thread_I active.cleanup_thread_I
        del: subsetI)
  define m where "m = n - 1"
  have m: "n = Suc m" "cancel_ends cancel (m - 1)" "frames_for s \<le> m + 2"
    using assms(1,3) by (auto simp: m_def frames_for_def numeral_2_eq_2)
  have "snd (each_step (cleanup_thread_binding env cancel m task_id) ks s) = Inr ()"
    if "threads_ok s" "frames_for s \<le> m + 2" for ks s
    using that
  proof (induction ks arbitrary: s)
    case Nil
    then show ?case by simp
  next
    case (Cons k ks)
    have "snd (cleanup_thread_binding env cancel m task_id k s) = Inr ()"
      using cleanup_thread_returns[OF m(2)] Cons.prems by blast
    moreover have "card (active_threads (fst (cleanup_thread_binding env cancel m task_id k s)))
        \<le> card (active_threads s)"
      using keep[OF Cons.prems(1), of "active_threads s" m k] by (intro card_mono) auto
    then have "frames_for (fst (cleanup_thread_binding env cancel m task_id k s)) \<le> m + 2"
      using Cons.prems(2) by (simp add: frames_for_def)
    moreover have "threads_ok (fst (cleanup_thread_binding env cancel m task_id k s))"
      using keep[OF Cons.prems(1), of "active_threads s" m k] by simp
    ultimately show ?case
      using Cons.IH[of "fst (cleanup_thread_binding env cancel m task_id k s)"] Cons.prems(2)
      by (cases "cleanup_thread_binding env cancel m task_id k s") auto
  qed
  from this[OF assms(2) m(3), of "dict_keys (cp_thread_bindings s)"] show ?thesis
    by (cases "each_step (cleanup_thread_binding env cancel m task_id) (dict_keys (cp_thread_bindings s)) s")
      (auto simp: m(1) cleanup_bindings_for_terminal_task_def split: option.split)
qed

lemma finish_returns:
  assumes "cancel_ends cancel (n - 2)" and "threads_ok s" and "frames_for s \<le> n + 1"
  shows "snd (finish_cancelled env cancel n task reason s) = Inr True"
proof -
  let ?s = "append_event (ar_id task) ''cancelled'' [(''reason'', PStr reason)]
    (update_task (ar_id task) (cancelled_run reason) s)"
  let ?m = "append_parent_terminal_event env (cancelled_run reason task) ?s"
  have ok: "threads_ok (fst ?m)"
    by (rule threads.parent_terminal_I) (simp add: threads.elementary assms(2))
  have "active_threads (fst ?m) \<subseteq> active_threads s"
    by (rule active.parent_terminal_I) (simp add: active_threads_def)
  then have "card (active_threads (fst ?m)) \<le> card (active_threads s)"
    by (rule card_mono[OF active_threads_finite])
  then have "frames_for (fst ?m) \<le> n + 1" using assms(3) by (simp add: frames_for_def)
  then have "snd (cleanup_bindings_for_terminal_task env cancel n (ar_id task) (fst ?m)) = Inr ()"
    by (rule cleanup_returns[OF assms(1) ok])
  then show ?thesis
    using parent_terminal_returns[of env "cancelled_run reason task" ?s]
    by (cases ?m; cases "cleanup_bindings_for_terminal_task env cancel n (ar_id task) (fst ?m)")
      (simp add: finish_cancelled_def Let_def)
qed

lemma cancel_task_ends: "cancel_ends (cancel_task env n) n"
proof (induction n rule: less_induct)
  case (less n)
  show ?case
    unfolding cancel_ends_def
  proof (intro conjI allI impI)
    fix i r s
    assume pre: "threads_ok s \<and> dict_has (cp_states s) i \<and> frames_for s \<le> n"
    then obtain m where n: "n = Suc m" by (cases n) (auto simp: frames_for_def)
    from pre obtain t where "task_locked s i = Inr t"
      by (auto simp: task_locked_def dict_has_iff)
    moreover have "snd (finish_cancelled env (cancel_task env (m - 2)) m t r s) = Inr True"
      using finish_returns[of _ m, OF less.IH] pre n by simp
    ultimately show "\<exists>b. snd (cancel_task env n i r s) = Inr b"
      by (auto simp: n Let_def intro: exI[of _ True] exI[of _ False])
  qed (auto intro: threads.cancel_task_I active.cancel_task_I simp del: cancel_task.simps
      del: subsetI)
qed

lemma cancel_task_returns:
  assumes "threads_ok s" and "dict_has (cp_states s) i" and "frames_for s \<le> n"
  obtains b where "snd (cancel_task env n i r s) = Inr b"
  using cancel_task_ends[of env n] assms unfolding cancel_ends_def by blast

definition cancellable :: "nat \<Rightarrow> string set \<Rightarrow> control_plane \<Rightarrow> bool" where
  "cancellable n A s \<longleftrightarrow> threads_ok s \<and> active_threads s \<subseteq> A \<and> frames_for s \<le> n"

interpretation cancellable: lifecycle_invariant "cancellable n A" for n A
proof unfold_locales
  fix s tbs
  assume shrink: "threads_shrink (cp_thread_bindings s) tbs" and ok: "cancellable n A s"
  have "active_threads (s\<lparr>cp_thread_bindings := tbs\<rparr>) \<subseteq> active_threads s"
    using shrink by (auto simp: active_threads_def threads_shrink_def)
  moreover from this have "card (active_threads (s\<lparr>cp_thread_bindings := tbs\<rparr>)) \<le> card (active_threads s)"
    by (rule card_mono[OF active_threads_finite])
  moreover have "threads_ok (s\<lparr>cp_thread_bindings := tbs\<rparr>)"
    using threads.keeps_threads[OF shrink] ok by (simp add: cancellable_def)
  ultimately show "cancellable n A (s\<lparr>cp_thread_bindings := tbs\<rparr>)"
    using ok by (auto simp: cancellable_def frames_for_def)
qed (simp_all add: cancellable_def frames_for_def active_threads_def threads.elementary)

lemma cancel_child_returns:
  assumes "cancellable n A s" and "dict_has (cp_states s) i"
  shows "snd (cancel_child env n parent r i s) = Inr ()"
proof -
  obtain b where "snd (cancel_task env n i (''parent_cancelled:'' @ r) s) = Inr b"
    using cancel_task_returns assms unfolding cancellable_def by blast
  then show ?thesis
    by (cases "cancel_task env n i (''parent_cancelled:'' @ r) s") (simp add: cancel_child_def)
qed

lemma cancel_each_returns:
  assumes "cancellable n A s" and "\<forall>i \<in> set ids. dict_has (cp_states s) i"
  shows "snd (each_step (cancel_child env n parent r) ids s) = Inr ()"
  using assms
proof (induction ids arbitrary: s)
  case Nil
  then show ?case by simp
next
  case (Cons i ids)
  let ?s = "fst (cancel_child env n parent r i s)"
  have "snd (cancel_child env n parent r i s) = Inr ()"
    using Cons.prems by (simp add: cancel_child_returns)
  moreover have "cancellable n A ?s" by (rule cancellable.cancel_child_I[OF Cons.prems(1)])
  moreover have "\<forall>j \<in> set ids. dict_has (cp_states ?s) j"
    using Cons.prems(2) by (simp add: keys.cancel_child_I)
  ultimately show ?case
    using Cons.IH[of ?s] by (cases "cancel_child env n parent r i s") simp
qed

lemma cancel_children_returns:
  assumes "cancellable n A s"
  shows "snd (cancel_child_agent_runs env n r pending seen s) = Inr ()"
  using assms
proof (induction env n r pending seen s rule: cancel_child_agent_runs.induct)
  case (1 env n r seen s)
  then show ?case by (simp add: cancel_child_agent_runs.simps)
next
  case (2 env n r current pending seen s)
  let ?m = "each_step (cancel_child env n current r) (child_ids s (current # seen) current) s"
  have "snd ?m = Inr ()"
    by (rule cancel_each_returns[OF 2(3)]) (simp add: child_ids_def)
  moreover have "cancellable n A (fst ?m)"
    by (intro cancellable.each_step_I cancellable.cancel_child_I 2(3))
  ultimately show ?case
    using 2 by (cases ?m) (simp add: cancel_child_agent_runs.simps Let_def)
qed

lemma active_threads_length:
  "card (active_threads s)
     \<le> length (filter (\<lambda>b. tb_status b = TBind_ACTIVE) (dict_values (cp_thread_bindings s)))"
proof -
  let ?open = "filter (\<lambda>(k, b). tb_status b = TBind_ACTIVE) (cp_thread_bindings s)"
  have "active_threads s \<subseteq> set (map fst ?open)"
  proof
    fix k
    assume "k \<in> active_threads s"
    then obtain b where "dict_get (cp_thread_bindings s) k = Some b" and "tb_status b = TBind_ACTIVE"
      by (auto simp: active_threads_def thread_active_def split: option.splits)
    then have "(k, b) \<in> set ?open" by (auto dest: dict_get_in_set)
    then show "k \<in> set (map fst ?open)" by force
  qed
  then have "card (active_threads s) \<le> length (map fst ?open)"
    by (meson List.finite_set card_length card_mono order_trans)
  also have "\<dots> = length (filter (\<lambda>b. tb_status b = TBind_ACTIVE) (dict_values (cp_thread_bindings s)))"
    by (simp add: dict_values_def filter_map comp_def case_prod_beta cong: filter_cong)
  finally show ?thesis .
qed

lemma submit_threads [simp]:
  "cp_thread_bindings (fst (submit_agent_run env r i s)) = cp_thread_bindings s"
  by (auto simp: submit_agent_run_def Let_def pure_step_def store_submitted_def put_activation_def
      append_if_known_def id_or_new_def new_id_def split: prod.split sum.split option.split)

section \<open>Properties\<close>

definition open_threads :: "control_plane \<Rightarrow> nat" where
  "open_threads s =
     length (filter (\<lambda>b. tb_status b = TBind_ACTIVE) (dict_values (cp_thread_bindings s)))"

text \<open>C6. Cancelling terminates without exhausting the stack. Cancelling a run closes thread bindings,
  which cancels the runs behind them, and so on, three frames deeper each time. In every reachable state
  three frames for each ACTIVE thread binding and three more are enough for \<open>cancel_agent_run\<close> to
  return, for the run itself and for all its descendants, whatever the cycles among relations and
  bindings: the only exception is the KeyError of an unknown run. The frames are those left below
  \<open>cancel_agent_run\<close> when the frames that the calls outside the nesting need are set aside.\<close>

theorem cancellation_returns:
  assumes "cp_reachable s" and "3 * (open_threads s + 1) \<le> depth"
  shows "case snd (cancel_agent_run env depth task_id reason s) of
           Inr _ \<Rightarrow> dict_has (cp_states s) task_id
         | Inl e \<Rightarrow> e = KeyError (''AgentRun not found: '' @ task_id) \<and> \<not> dict_has (cp_states s) task_id"
proof (cases "task_locked s task_id")
  case (Inl e)
  then show ?thesis
    by (auto simp: cancel_agent_run_def task_locked_def dict_has_iff split: option.splits)
next
  case (Inr t)
  then have known: "dict_has (cp_states s) task_id"
    by (auto simp: task_locked_def dict_has_iff split: option.splits)
  have ok: "cancellable (depth - 1) (active_threads s) s"
    using assms active_threads_length[of s]
    by (simp add: cancellable_def reachable_threads_ok frames_for_def open_threads_def)
  then have "frames_for s \<le> depth" by (auto simp: cancellable_def)
  then obtain b where b: "snd (cancel_task env depth task_id reason s) = Inr b"
    using cancel_task_returns[of s task_id depth] ok known unfolding cancellable_def by blast
  have "cancellable (depth - 1) (active_threads s) (fst (cancel_task env depth task_id reason s))"
    by (rule cancellable.cancel_task_I[OF ok])
  from cancel_children_returns[OF this, of env reason "[task_id]" "[]"] show ?thesis
    using Inr b known
    by (cases "cancel_task env depth task_id reason s";
        cases "cancel_child_agent_runs env (depth - 1) reason [task_id] []
          (fst (cancel_task env depth task_id reason s))")
      (auto simp: cancel_agent_run_def)
qed

text \<open>A run with an ACTIVE thread binding back to itself: the run's end closes it, which cancels the run
  again.\<close>

definition demo_thread :: agent_thread_binding where
  "demo_thread =
     \<lparr>tb_id = ''b1'', tb_owner_session_run_id = ''s1'', tb_main_agent_run_id = ''t1'', tb_agent_id = ''coder'',
      tb_target_agent_run_id = ''t1'', tb_thread_key = ''k'', tb_thread_summary = [],
      tb_binding_lifetime = Life_RUN, tb_workdir_policy = Workdir_INHERIT_MAIN, tb_visibility = ''user'',
      tb_status = TBind_ACTIVE, tb_cleanup_policy = ''delete_with_owner_session'', tb_created_at = None,
      tb_updated_at = None, tb_metadata = []\<rparr>"

theorem cancellation_returns_witness:
  "open_threads (demo_calls [demo_submit_call, Call_Upsert_Thread demo_thread]) = 1 \<and>
   (case snd (cancel_agent_run demo_env 6 ''t1'' ''stop''
       (demo_calls [demo_submit_call, Call_Upsert_Thread demo_thread])) of
     Inr _ \<Rightarrow> dict_has (cp_states (demo_calls [demo_submit_call, Call_Upsert_Thread demo_thread])) ''t1''
   | Inl e \<Rightarrow> e = KeyError (''AgentRun not found: '' @ ''t1'') \<and>
       \<not> dict_has (cp_states (demo_calls [demo_submit_call, Call_Upsert_Thread demo_thread])) ''t1'')"
proof (rule conjI)
  show one: "open_threads (demo_calls [demo_submit_call, Call_Upsert_Thread demo_thread]) = 1"
    by (simp add: open_threads_def demo_calls_def demo_submit_call_def demo_start_def new_control_plane_def
        upsert_agent_thread_binding_def append_to_both_def append_if_known_def dict_values_def)
      (simp add: demo_thread_def)
  show "case snd (cancel_agent_run demo_env 6 ''t1'' ''stop''
       (demo_calls [demo_submit_call, Call_Upsert_Thread demo_thread])) of
     Inr _ \<Rightarrow> dict_has (cp_states (demo_calls [demo_submit_call, Call_Upsert_Thread demo_thread])) ''t1''
   | Inl e \<Rightarrow> e = KeyError (''AgentRun not found: '' @ ''t1'') \<and>
       \<not> dict_has (cp_states (demo_calls [demo_submit_call, Call_Upsert_Thread demo_thread])) ''t1''"
    by (rule cancellation_returns[OF demo_reachable]) (simp add: one)
qed

end
