(* ===== verification/AuthCrypto.thy ===== *)
theory AuthCrypto
  imports RunViews "HOL-Library.Word"
begin

text \<open>
  Password and token hashes: \<open>src/labrastro_server/services/auth/crypto.py\<close>. The key derivation
  \<open>hashlib.pbkdf2_hmac\<close> and the keyed hash \<open>hmac\<close> are parameters (\<open>kdf\<close>, \<open>mac\<close>); the text format around
  them, base64 included, is written out. A byte string is a list of 8-bit words.
\<close>

type_synonym bytes = "8 word list"
type_synonym key_derivation = "string \<Rightarrow> bytes \<Rightarrow> int \<Rightarrow> bytes"
type_synonym keyed_hash = "string \<Rightarrow> string \<Rightarrow> bytes"

section \<open>Base64\<close>

text \<open>The URL-safe alphabet: capital letters, small letters, digits, \<open>-\<close> and \<open>_\<close>.\<close>

definition b64_char :: "nat \<Rightarrow> char" where
  "b64_char n =
     char_of (if n < 26 then n + 65 else if n < 52 then n + 71 else if n < 62 then n - 4
              else if n = 62 then 45 else 95)"

text \<open>The value of a character; the decoder also takes \<open>+\<close> and \<open>/\<close>, and skips the characters that
  have no value.\<close>

definition b64_value :: "char \<Rightarrow> nat option" where
  "b64_value c =
     (let n = code_point c
      in if 65 \<le> n \<and> n \<le> 90 then Some (n - 65)
         else if 97 \<le> n \<and> n \<le> 122 then Some (n - 71)
         else if 48 \<le> n \<and> n \<le> 57 then Some (n + 4)
         else if n = 45 \<or> n = 43 then Some 62
         else if n = 95 \<or> n = 47 then Some 63
         else None)"

fun sextets :: "nat list \<Rightarrow> nat list" where
  "sextets [] = []"
| "sextets [a] = [a div 4, (a mod 4) * 16]"
| "sextets [a, b] = [a div 4, (a mod 4) * 16 + b div 16, (b mod 16) * 4]"
| "sextets (a # b # c # rest) =
     [a div 4, (a mod 4) * 16 + b div 16, (b mod 16) * 4 + c div 64, c mod 64] @ sextets rest"

definition padding :: "nat \<Rightarrow> string" where
  "padding n = replicate ((4 - n mod 4) mod 4) (CHR ''='')"

definition urlsafe_b64encode :: "bytes \<Rightarrow> string" where
  "urlsafe_b64encode raw =
     (let chars = map b64_char (sextets (map unat raw)) in chars @ padding (length chars))"

text \<open>The decoder: position in the group of four, bits left over, and \<open>=\<close> signs seen; None is the
  error about incorrect padding.\<close>

fun a2b_base64 :: "nat \<Rightarrow> nat \<Rightarrow> nat \<Rightarrow> string \<Rightarrow> nat list option" where
  "a2b_base64 quad left pads [] = (if quad = 0 then Some [] else None)"
| "a2b_base64 quad left pads (c # cs) =
     (if c = CHR ''='' then
        (if 2 \<le> quad \<and> 4 \<le> quad + pads + 1 then Some []
         else a2b_base64 quad left (if 2 \<le> quad then pads + 1 else pads) cs)
      else case b64_value c of
        None \<Rightarrow> a2b_base64 quad left pads cs
      | Some v \<Rightarrow>
          if quad = 0 then a2b_base64 1 v 0 cs
          else if quad = 1 then
            map_option (\<lambda>out. (left * 4 + v div 16) # out) (a2b_base64 2 (v mod 16) 0 cs)
          else if quad = 2 then
            map_option (\<lambda>out. (left * 16 + v div 4) # out) (a2b_base64 3 (v mod 4) 0 cs)
          else map_option (\<lambda>out. (left * 64 + v) # out) (a2b_base64 0 0 0 cs))"

definition b64_encode :: "bytes \<Rightarrow> string" where
  "b64_encode raw = rstrip_by (\<lambda>c. c = CHR ''='') (urlsafe_b64encode raw)"

definition b64_decode :: "string \<Rightarrow> bytes option" where
  "b64_decode text =
     (if list_all (\<lambda>c. code_point c < 128) text
      then map_option (map of_nat) (a2b_base64 0 0 0 (text @ padding (length text)))
      else None)"

section \<open>Passwords\<close>

definition password_scheme :: string where "password_scheme = ''pbkdf2_sha256''"

text \<open>The range of iterations that \<open>pbkdf2_hmac\<close> accepts.\<close>

definition derive_key ::
  "key_derivation \<Rightarrow> string \<Rightarrow> bytes \<Rightarrow> int \<Rightarrow> bytes result" where
  "derive_key kdf password salt iterations =
     (if iterations < 1 then Inl (ValueError ''iteration value must be greater than 0.'')
      else if iterations \<ge> 2 ^ 31 then Inl (OverflowError ''iteration value is too great.'')
      else Inr (kdf password salt iterations))"

definition hash_password ::
  "key_derivation \<Rightarrow> bytes \<Rightarrow> string \<Rightarrow> int \<Rightarrow> string result" where
  "hash_password kdf salt password iterations =
     res_bind (derive_key kdf password salt iterations) (\<lambda>digest.
       Inr (str_join ''$''
         [password_scheme, int_str iterations, b64_encode salt, b64_encode digest]))"

text \<open>The four fields of a stored hash; a failure of any kind is caught and means no match.\<close>

definition parse_password_hash :: "string \<Rightarrow> (int \<times> bytes \<times> bytes) option" where
  "parse_password_hash text =
     (case split_on (CHR ''$'') text of
        scheme # raw_iterations # raw_salt # rest \<Rightarrow>
          (if rest = [] \<or> scheme \<noteq> password_scheme then None
           else case (parse_int raw_iterations, b64_decode raw_salt,
               b64_decode (str_join ''$'' rest)) of
             (Some iterations, Some salt, Some expected) \<Rightarrow> Some (iterations, salt, expected)
           | _ \<Rightarrow> None)
      | _ \<Rightarrow> None)"

definition verify_password :: "key_derivation \<Rightarrow> string \<Rightarrow> string \<Rightarrow> bool result" where
  "verify_password kdf password password_hash =
     (case parse_password_hash password_hash of
        None \<Rightarrow> Inr False
      | Some (iterations, salt, expected) \<Rightarrow>
          res_bind (derive_key kdf password salt iterations) (\<lambda>actual. Inr (actual = expected)))"

section \<open>Tokens\<close>

definition hash_token :: "keyed_hash \<Rightarrow> string \<Rightarrow> string \<Rightarrow> string" where
  "hash_token mac token secret = ''sha256$'' @ b64_encode (mac secret token)"

section \<open>Decoding what was encoded\<close>

lemma high_bits: "b < (256 :: nat) \<Longrightarrow> (a mod 4) * 16 + b div 16 < 64"
proof -
  assume "b < 256"
  then have "b div 16 < 16" by (simp add: less_mult_imp_div_less)
  moreover have "a mod 4 < 4" by simp
  ultimately show ?thesis by linarith
qed

lemma low_bits: "c < (256 :: nat) \<Longrightarrow> (b mod 16) * 4 + c div 64 < 64"
proof -
  assume "c < 256"
  then have "c div 64 < 4" by (simp add: less_mult_imp_div_less)
  moreover have "b mod 16 < 16" by simp
  ultimately show ?thesis by linarith
qed

lemma top_bits: "a < (256 :: nat) \<Longrightarrow> a div 4 < 64"
  by (simp add: less_mult_imp_div_less)

lemma shifted_rests: "(a mod 4) * 16 < (64 :: nat)" "(b mod 16) * 4 < (64 :: nat)"
proof -
  have "a mod 4 < 4" "b mod 16 < 16" by simp_all
  then show "(a mod 4) * 16 < (64 :: nat)" "(b mod 16) * 4 < (64 :: nat)" by linarith+
qed

lemma sextets_bound: "list_all (\<lambda>n. n < 256) bs \<Longrightarrow> list_all (\<lambda>n. n < 64) (sextets bs)"
  by (induction bs rule: sextets.induct) (simp_all add: high_bits low_bits top_bits shifted_rests)

lemma b64_code: "n < 64 \<Longrightarrow> code_point (b64_char n) =
    (if n < 26 then n + 65 else if n < 52 then n + 71 else if n < 62 then n - 4
     else if n = 62 then 45 else 95)"
  by (auto simp: b64_char_def code_point_def)

lemma b64_value_char: "n < 64 \<Longrightarrow> b64_value (b64_char n) = Some n"
  by (auto simp: b64_value_def b64_code Let_def)

lemma b64_char_safe:
  assumes "n < 64"
  shows "code_point (b64_char n) < 128" and "b64_char n \<noteq> CHR ''=''" and "b64_char n \<noteq> CHR ''$''"
proof -
  have "code_point (CHR ''='') = 61" "code_point (CHR ''$'') = 36" by (simp_all add: code_point_def)
  then show "b64_char n \<noteq> CHR ''=''" "b64_char n \<noteq> CHR ''$''"
    using b64_code[OF assms] assms by (auto split: if_splits)
  show "code_point (b64_char n) < 128" using assms unfolding b64_code[OF assms] by auto
qed

text \<open>Splitting a sum of shifted parts.\<close>

lemma unpack: "y < k \<Longrightarrow> (x * k + y) div k = (x :: nat)" "y < k \<Longrightarrow> (x * k + y) mod k = y"
  by simp_all

lemma nibble_bounds: "b < (256 :: nat) \<Longrightarrow> b div 16 < 16" "c < (256 :: nat) \<Longrightarrow> c div 64 < 4"
  by (simp_all add: less_mult_imp_div_less)

lemma join_bits:
  "(a div 4) * 4 + a mod 4 = (a :: nat)" "(b div 16) * 16 + b mod 16 = (b :: nat)"
  "(c div 64) * 64 + c mod 64 = (c :: nat)"
  by (rule div_mult_mod_eq)+

lemmas bits = high_bits low_bits top_bits shifted_rests unpack nibble_bounds join_bits

lemma a2b_triple:
  assumes "a < 256" "b < 256" "c < 256"
  shows "a2b_base64 0 0 0 (b64_char (a div 4) # b64_char ((a mod 4) * 16 + b div 16) #
      b64_char ((b mod 16) * 4 + c div 64) # b64_char (c mod 64) # cs) =
    map_option (\<lambda>out. a # b # c # out) (a2b_base64 0 0 0 cs)"
  using assms
  by (simp add: b64_value_char b64_char_safe bits option.map_comp comp_def)

lemma a2b_three:
  assumes "u < 64" "v < 64" "w < 64"
  shows "a2b_base64 0 0 0 (b64_char u # b64_char v # b64_char w # ''='') =
    Some [u * 4 + v div 16, (v mod 16) * 16 + w div 4]"
  using assms by (simp add: b64_value_char b64_char_safe)

lemma a2b_pair:
  assumes "a < 256" "b < 256"
  shows "a2b_base64 0 0 0 (b64_char (a div 4) # b64_char ((a mod 4) * 16 + b div 16) #
      b64_char ((b mod 16) * 4) # ''='') = Some [a, b]"
proof -
  have n: "b div 16 < 16" by (rule nibble_bounds[OF assms(2)])
  have "a div 4 * 4 + ((a mod 4) * 16 + b div 16) div 16 = a"
    by (simp only: unpack(1)[OF n] join_bits)
  moreover have "((a mod 4) * 16 + b div 16) mod 16 * 16 + (b mod 16) * 4 div 4 = b"
    unfolding unpack(2)[OF n] using join_bits(2)[of b] by simp
  ultimately show ?thesis
    by (simp only: a2b_three[OF top_bits[OF assms(1)] high_bits[OF assms(2)] shifted_rests(2)])
qed

lemma a2b_single:
  assumes "a < 256"
  shows "a2b_base64 0 0 0 (b64_char (a div 4) # b64_char ((a mod 4) * 16) # ''=='') = Some [a]"
  using assms
  by (simp add: b64_value_char b64_char_safe bits)

lemma padding_add [simp]: "padding (n + 4) = padding n"
  by (simp add: padding_def)

lemma padding_simps [simp]:
  "padding 0 = []" "padding (Suc (Suc 0)) = ''==''" "padding (Suc (Suc (Suc 0))) = ''=''"
  "padding (Suc (Suc (Suc (Suc n)))) = padding n"
proof -
  show "padding 0 = []" "padding (Suc (Suc 0)) = ''==''" "padding (Suc (Suc (Suc 0))) = ''=''"
    by code_simp+
  have "Suc (Suc (Suc (Suc n))) = n + 4" by simp
  then show "padding (Suc (Suc (Suc (Suc n)))) = padding n" by (simp only: padding_add)
qed

lemma a2b_sextets:
  "list_all (\<lambda>n. n < 256) bs \<Longrightarrow>
   a2b_base64 0 0 0 (map b64_char (sextets bs) @ padding (length (sextets bs))) = Some bs"
proof (induction bs rule: sextets.induct)
  case 1
  then show ?case by simp
next
  case (2 a)
  then show ?case by (simp add: a2b_single del: a2b_base64.simps)
next
  case (3 a b)
  then show ?case by (simp add: a2b_pair del: a2b_base64.simps)
next
  case (4 a b c rest)
  then show ?case by (simp add: a2b_triple del: a2b_base64.simps)
qed

lemma bytes_bound: "list_all (\<lambda>n. n < 256) (map unat (raw :: bytes))"
  by (auto simp: list_all_iff intro: order_less_le_trans[OF unsigned_less])

lemma sextet_chars:
  "c \<in> set (map b64_char (sextets (map unat (raw :: bytes)))) \<Longrightarrow>
   code_point c < 128 \<and> c \<noteq> CHR ''='' \<and> c \<noteq> CHR ''$''"
  using sextets_bound[OF bytes_bound, of raw]
  by (auto simp: list_all_iff b64_char_safe)

lemma rstrip_by_padding:
  assumes "\<forall>c \<in> set xs. \<not> p c" and "\<forall>c \<in> set ys. p c"
  shows "rstrip_by p (xs @ ys) = xs"
proof -
  have "dropWhile p (rev ys @ rev xs) = dropWhile p (rev xs)"
    by (rule dropWhile_append2) (use assms(2) in simp)
  moreover have "dropWhile p (rev xs) = rev xs"
    using assms(1) by (cases "rev xs") (auto simp: dropWhile_eq_self_iff)
  ultimately show ?thesis by (simp add: rstrip_by_def)
qed

lemma b64_encode_chars: "b64_encode raw = map b64_char (sextets (map unat raw))"
  unfolding b64_encode_def urlsafe_b64encode_def Let_def
  by (rule rstrip_by_padding) (use sextet_chars in \<open>auto simp: padding_def\<close>)

lemma b64_encode_char: "c \<in> set (b64_encode raw) \<Longrightarrow> code_point c < 128 \<and> c \<noteq> CHR ''$''"
  unfolding b64_encode_chars using sextet_chars by blast

lemma b64_decode_encode [simp]: "b64_decode (b64_encode raw) = Some raw"
proof -
  have "list_all (\<lambda>c. code_point c < 128) (b64_encode raw)"
    using b64_encode_char by (auto simp: list_all_iff)
  moreover have "map (\<lambda>b. of_nat (unat b)) raw = raw" by (simp add: map_idI)
  ultimately show ?thesis
    using a2b_sextets[OF bytes_bound, of raw]
    by (simp add: b64_decode_def b64_encode_chars comp_def)
qed

lemma b64_encode_inj: "b64_encode a = b64_encode b \<longleftrightarrow> a = b"
  by (metis b64_decode_encode option.inject)

lemma hash_token_inj: "inj (mac secret) \<Longrightarrow> hash_token mac t secret = hash_token mac u secret \<longleftrightarrow> t = u"
  by (auto simp: hash_token_def b64_encode_inj dest: injD)

section \<open>A stored password is the password\<close>

lemma nat_str_no_dollar: "CHR ''$'' \<notin> set (nat_str n)"
proof (induction n rule: nat_str.induct)
  case (1 n)
  have "CHR ''$'' \<noteq> char_of (48 + k)" if "k < 10" for k :: nat
  proof
    assume "CHR ''$'' = char_of (48 + k)"
    then have "of_char (CHR ''$'') = (of_char (char_of (48 + k) :: char) :: nat)" by simp
    then show False using that by simp
  qed
  with 1 show ?case by (subst nat_str.simps) auto
qed

lemma int_str_no_dollar: "CHR ''$'' \<notin> set (int_str i)"
  by (simp add: int_str_def nat_str_no_dollar)

lemma parse_stored_hash:
  "parse_password_hash (str_join ''$''
      [password_scheme, int_str iterations, b64_encode salt, b64_encode digest]) =
    Some (iterations, salt, digest)"
proof -
  have "CHR ''$'' \<notin> set password_scheme" by (simp add: password_scheme_def)
  then have "split_on (CHR ''$'') (str_join ''$''
      [password_scheme, int_str iterations, b64_encode salt, b64_encode digest]) =
      [password_scheme, int_str iterations, b64_encode salt, b64_encode digest]"
    using b64_encode_char int_str_no_dollar by (intro split_join) auto
  then show ?thesis by (simp add: parse_password_hash_def parse_int_str)
qed

lemma hash_password_Inr:
  "hash_password kdf salt password iterations = Inr h \<Longrightarrow>
   1 \<le> iterations \<and> iterations < 2 ^ 31 \<and>
   parse_password_hash h = Some (iterations, salt, kdf password salt iterations)"
  unfolding hash_password_def derive_key_def
  by (auto simp: parse_stored_hash simp del: str_join.simps split: if_splits)

lemma verify_hashed:
  "hash_password kdf salt password iterations = Inr h \<Longrightarrow>
   verify_password kdf other h = Inr (kdf other salt iterations = kdf password salt iterations)"
  by (drule hash_password_Inr) (simp add: verify_password_def derive_key_def)

lemma hash_password_ok:
  "1 \<le> iterations \<Longrightarrow> iterations < 2 ^ 31 \<Longrightarrow> is_ok (hash_password kdf salt password iterations)"
  by (simp add: hash_password_def derive_key_def)

end
