(* ===== verification/AuthModels.thy ===== *)
theory AuthModels
  imports ExecutorMessages
begin

text \<open>
  The records of the authentication service and their documents
  (\<open>src/labrastro_server/services/auth/models.py\<close>), the configuration they are issued under
  (\<open>AuthConfig\<close> and \<open>AuthSuperadminConfig\<close> in \<open>src/reuleauxcoder/domain/config/models.py\<close>) and its
  validation (\<open>validate_auth_config\<close> in \<open>services/auth/service.py\<close>).

  The two token records of the source have the same fields and are one record here. Times are whole
  numbers. A tuple of scopes is a string list.
\<close>

section \<open>Roles and scopes\<close>

definition auth_roles :: "string list" where
  "auth_roles = [''superadmin'', ''admin'', ''user'']"

definition auth_scopes :: "string list" where
  "auth_scopes =
     [''self:read'', ''self:password'', ''devices:read'', ''devices:revoke'', ''peer:bootstrap'',
      ''admin:read'', ''admin:write'', ''users:manage'', ''audit:read'']"

definition user_default_scopes :: "string list" where
  "user_default_scopes =
     [''self:read'', ''self:password'', ''devices:read'', ''devices:revoke'', ''peer:bootstrap'']"

definition role_default_scopes :: "(string, string list) pydict" where
  "role_default_scopes =
     [(''user'', user_default_scopes),
      (''admin'', user_default_scopes @ [''admin:read'', ''admin:write'']),
      (''superadmin'', sort auth_scopes)]"

definition sorted_set :: "string list \<Rightarrow> string list" where
  "sorted_set xs = sort (remdups xs)"

definition normalize_scopes :: "pyval \<Rightarrow> string list" where
  "normalize_scopes scopes =
     (case scopes of
        PList xs \<Rightarrow>
          sorted_set (filter (\<lambda>s. s \<in> set auth_scopes) (map (\<lambda>x. str_strip (py_str x)) xs))
      | _ \<Rightarrow> [])"

definition default_scopes_for_role :: "string \<Rightarrow> string list" where
  "default_scopes_for_role role =
     (case dict_get role_default_scopes role of Some scopes \<Rightarrow> scopes | None \<Rightarrow> user_default_scopes)"

definition effective_scopes :: "string \<Rightarrow> string list \<Rightarrow> string list" where
  "effective_scopes role scopes =
     (if role = ''superadmin'' then sort auth_scopes
      else sorted_set (default_scopes_for_role role @ normalize_scopes (PList (map PStr scopes))))"

section \<open>Records\<close>

record auth_user =
  au_id :: string
  au_username :: string
  au_password_hash :: string
  au_role :: string
  au_enabled :: bool
  au_created_at :: int
  au_updated_at :: int
  au_last_login_at :: "int option"
  au_configured :: bool
  au_scopes :: "string list"

record auth_device =
  dv_id :: string
  dv_user_id :: string
  dv_label :: string
  dv_created_at :: int
  dv_last_seen_at :: "int option"
  dv_revoked_at :: "int option"

record token_record =
  tok_id :: string
  tok_user_id :: string
  tok_device_id :: string
  tok_token_hash :: string
  tok_expires_at :: int
  tok_created_at :: int
  tok_revoked_at :: "int option"

record login_failure =
  lf_id :: string
  lf_username :: string
  lf_source :: string
  lf_failed_at :: int

record auth_principal =
  pn_user_id :: string
  pn_username :: string
  pn_role :: string
  pn_device_id :: "string option"
  pn_scopes :: "string list"

record auth_session =
  ss_access_token :: string
  ss_access_expires_at :: int
  ss_refresh_token :: string
  ss_refresh_expires_at :: int
  ss_principal :: auth_principal
  ss_device :: auth_device

section \<open>Documents\<close>

text \<open>\<open>float(v)\<close> on whole numbers.\<close>

definition py_float :: "pyval \<Rightarrow> int result" where
  "py_float v =
     (case v of
        PInt i \<Rightarrow> Inr i
      | PBool b \<Rightarrow> Inr (if b then 1 else 0)
      | PStr s \<Rightarrow> (case parse_int s of
                    None \<Rightarrow> Inl (ValueError ''could not convert string to float'')
                  | Some i \<Rightarrow> Inr i)
      | _ \<Rightarrow> Inl (TypeError ''float() argument must be a string or a real number''))"

text \<open>\<open>float(data.get(k, 0) or 0)\<close>, and \<open>float(data[k]) if data.get(k) is not None else None\<close>.\<close>

definition time_field :: "pyobj \<Rightarrow> string \<Rightarrow> int result" where
  "time_field d k = py_float (py_or (pget_or d k (PInt 0)) (PInt 0))"

definition opt_time_field :: "pyobj \<Rightarrow> string \<Rightarrow> int option result" where
  "opt_time_field d k =
     (case pget d k of PNone \<Rightarrow> Inr None | v \<Rightarrow> res_bind (py_float v) (\<lambda>i. Inr (Some i)))"

definition opt_time :: "int option \<Rightarrow> pyval" where
  "opt_time t = (case t of None \<Rightarrow> PNone | Some i \<Rightarrow> PInt i)"

definition str_item :: "pyobj \<Rightarrow> string \<Rightarrow> string result" where
  "str_item d k = res_bind (pitem d k) (\<lambda>v. Inr (py_str v))"

definition str_list_val :: "string list \<Rightarrow> pyval" where
  "str_list_val xs = PList (map PStr xs)"

definition auth_user_to_dict :: "auth_user \<Rightarrow> pyobj" where
  "auth_user_to_dict u =
     [(''id'', PStr (au_id u)), (''username'', PStr (au_username u)),
      (''password_hash'', PStr (au_password_hash u)), (''role'', PStr (au_role u)),
      (''scopes'', str_list_val (au_scopes u)), (''enabled'', PBool (au_enabled u)),
      (''created_at'', PInt (au_created_at u)), (''updated_at'', PInt (au_updated_at u)),
      (''last_login_at'', opt_time (au_last_login_at u)),
      (''configured'', PBool (au_configured u))]"

definition auth_user_from_dict :: "pyobj \<Rightarrow> auth_user result" where
  "auth_user_from_dict d =
     res_bind (str_item d ''id'') (\<lambda>i.
     res_bind (str_item d ''username'') (\<lambda>username.
     res_bind (str_item d ''password_hash'') (\<lambda>password_hash.
     res_bind (time_field d ''created_at'') (\<lambda>created.
     res_bind (time_field d ''updated_at'') (\<lambda>updated.
     res_bind (opt_time_field d ''last_login_at'') (\<lambda>last_login.
       Inr \<lparr>au_id = i, au_username = username, au_password_hash = password_hash,
            au_role = py_str (py_or (pget d ''role'') (PStr ''user'')),
            au_enabled = truthy (pget_or d ''enabled'' (PBool True)),
            au_created_at = created, au_updated_at = updated, au_last_login_at = last_login,
            au_configured = truthy (pget_or d ''configured'' (PBool False)),
            au_scopes = normalize_scopes (pget_or d ''scopes'' (PList []))\<rparr>))))))"

definition auth_device_to_dict :: "auth_device \<Rightarrow> pyobj" where
  "auth_device_to_dict v =
     [(''id'', PStr (dv_id v)), (''user_id'', PStr (dv_user_id v)), (''label'', PStr (dv_label v)),
      (''created_at'', PInt (dv_created_at v)), (''last_seen_at'', opt_time (dv_last_seen_at v)),
      (''revoked_at'', opt_time (dv_revoked_at v))]"

definition auth_device_from_dict :: "pyobj \<Rightarrow> auth_device result" where
  "auth_device_from_dict d =
     res_bind (str_item d ''id'') (\<lambda>i.
     res_bind (str_item d ''user_id'') (\<lambda>user.
     res_bind (time_field d ''created_at'') (\<lambda>created.
     res_bind (opt_time_field d ''last_seen_at'') (\<lambda>seen.
     res_bind (opt_time_field d ''revoked_at'') (\<lambda>revoked.
       Inr \<lparr>dv_id = i, dv_user_id = user, dv_label = str_or_empty (pget d ''label''),
            dv_created_at = created, dv_last_seen_at = seen, dv_revoked_at = revoked\<rparr>)))))"

definition token_record_to_dict :: "token_record \<Rightarrow> pyobj" where
  "token_record_to_dict t =
     [(''id'', PStr (tok_id t)), (''user_id'', PStr (tok_user_id t)),
      (''device_id'', PStr (tok_device_id t)), (''token_hash'', PStr (tok_token_hash t)),
      (''expires_at'', PInt (tok_expires_at t)), (''created_at'', PInt (tok_created_at t)),
      (''revoked_at'', opt_time (tok_revoked_at t))]"

definition token_record_from_dict :: "pyobj \<Rightarrow> token_record result" where
  "token_record_from_dict d =
     res_bind (str_item d ''id'') (\<lambda>i.
     res_bind (str_item d ''user_id'') (\<lambda>user.
     res_bind (str_item d ''device_id'') (\<lambda>device.
     res_bind (str_item d ''token_hash'') (\<lambda>token_hash.
     res_bind (time_field d ''expires_at'') (\<lambda>expires.
     res_bind (time_field d ''created_at'') (\<lambda>created.
     res_bind (opt_time_field d ''revoked_at'') (\<lambda>revoked.
       Inr \<lparr>tok_id = i, tok_user_id = user, tok_device_id = device, tok_token_hash = token_hash,
            tok_expires_at = expires, tok_created_at = created, tok_revoked_at = revoked\<rparr>)))))))"

definition login_failure_to_dict :: "login_failure \<Rightarrow> pyobj" where
  "login_failure_to_dict f =
     [(''id'', PStr (lf_id f)), (''username'', PStr (lf_username f)),
      (''source'', PStr (lf_source f)), (''failed_at'', PInt (lf_failed_at f))]"

definition login_failure_from_dict :: "pyobj \<Rightarrow> login_failure result" where
  "login_failure_from_dict d =
     res_bind (str_item d ''id'') (\<lambda>i.
     res_bind (str_item d ''username'') (\<lambda>username.
     res_bind (str_item d ''source'') (\<lambda>source.
     res_bind (time_field d ''failed_at'') (\<lambda>failed.
       Inr \<lparr>lf_id = i, lf_username = username, lf_source = source, lf_failed_at = failed\<rparr>))))"

definition principal_effective_scopes :: "auth_principal \<Rightarrow> string list" where
  "principal_effective_scopes p = effective_scopes (pn_role p) (pn_scopes p)"

definition principal_public_user :: "auth_principal \<Rightarrow> pyobj" where
  "principal_public_user p =
     [(''id'', PStr (pn_user_id p)), (''username'', PStr (pn_username p)),
      (''role'', PStr (pn_role p)), (''scopes'', str_list_val (principal_effective_scopes p))]"

definition has_scope :: "auth_principal \<Rightarrow> string \<Rightarrow> bool" where
  "has_scope p scope \<longleftrightarrow> scope \<in> set (principal_effective_scopes p)"

definition auth_session_to_dict :: "auth_session \<Rightarrow> pyobj" where
  "auth_session_to_dict s =
     [(''ok'', PBool True), (''access_token'', PStr (ss_access_token s)),
      (''access_expires_at'', PInt (ss_access_expires_at s)),
      (''refresh_token'', PStr (ss_refresh_token s)),
      (''refresh_expires_at'', PInt (ss_refresh_expires_at s)),
      (''user'', PDict (principal_public_user (ss_principal s))),
      (''device'', PDict [(''id'', PStr (dv_id (ss_device s))),
         (''label'', PStr (dv_label (ss_device s)))])]"

section \<open>Configuration\<close>

record superadmin_config =
  sa_username :: string
  sa_password :: string
  sa_role :: string

record auth_config =
  acf_enabled :: bool
  acf_token_secret :: string
  acf_access_token_ttl_sec :: int
  acf_refresh_token_ttl_sec :: int
  acf_password_hash_iterations :: int
  acf_password_min_length :: int
  acf_password_max_length :: int
  acf_login_rate_limit_count :: int
  acf_login_rate_limit_window_sec :: int
  acf_store_backend :: string
  acf_store_path :: string
  acf_superadmins :: "superadmin_config list"

definition superadmin_config_from_dict :: "pyval \<Rightarrow> superadmin_config" where
  "superadmin_config_from_dict v =
     (case v of
        PDict d \<Rightarrow>
          \<lparr>sa_username = str_or_empty (pget d ''username''),
           sa_password = str_or_empty (pget d ''password''),
           sa_role = py_str (py_or (pget_or d ''role'' (PStr ''superadmin'')) (PStr ''superadmin''))\<rparr>
      | _ \<Rightarrow> \<lparr>sa_username = [], sa_password = [], sa_role = ''superadmin''\<rparr>)"

definition superadmin_config_to_dict :: "superadmin_config \<Rightarrow> pyobj" where
  "superadmin_config_to_dict c =
     [(''username'', PStr (sa_username c)), (''password'', PStr (sa_password c)),
      (''role'', PStr (sa_role c))]"

text \<open>\<open>int(data.get(k, n) or n)\<close> and \<open>str(data.get(k, s) or s)\<close>.\<close>

definition int_setting :: "pyobj \<Rightarrow> string \<Rightarrow> int \<Rightarrow> int result" where
  "int_setting d k n = py_int (py_or (pget_or d k (PInt n)) (PInt n))"

definition text_setting :: "pyobj \<Rightarrow> string \<Rightarrow> string \<Rightarrow> string" where
  "text_setting d k s = py_str (py_or (pget_or d k (PStr s)) (PStr s))"

definition default_auth_config :: auth_config where
  "default_auth_config =
     \<lparr>acf_enabled = False, acf_token_secret = [], acf_access_token_ttl_sec = 900,
      acf_refresh_token_ttl_sec = 2592000, acf_password_hash_iterations = 260000,
      acf_password_min_length = 6, acf_password_max_length = 256, acf_login_rate_limit_count = 5,
      acf_login_rate_limit_window_sec = 900, acf_store_backend = ''auto'',
      acf_store_path = ''.rcoder/auth.json'', acf_superadmins = []\<rparr>"

fun config_members :: "pyval list \<Rightarrow> pyval list" where
  "config_members [] = []"
| "config_members (PDict d # xs) = PDict d # config_members xs"
| "config_members (_ # xs) = config_members xs"

definition auth_config_from_dict :: "pyval \<Rightarrow> auth_config result" where
  "auth_config_from_dict v =
     (case v of
        PDict d \<Rightarrow>
          res_bind (int_setting d ''access_token_ttl_sec'' 900) (\<lambda>access_ttl.
          res_bind (int_setting d ''refresh_token_ttl_sec'' 2592000) (\<lambda>refresh_ttl.
          res_bind (int_setting d ''password_hash_iterations'' 260000) (\<lambda>iterations.
          res_bind (int_setting d ''password_min_length'' 6) (\<lambda>min_length.
          res_bind (int_setting d ''password_max_length'' 256) (\<lambda>max_length.
          res_bind (int_setting d ''login_rate_limit_count'' 5) (\<lambda>rate_count.
          res_bind (int_setting d ''login_rate_limit_window_sec'' 900) (\<lambda>rate_window.
            Inr \<lparr>acf_enabled = truthy (pget d ''enabled''),
                 acf_token_secret = str_or_empty (pget d ''token_secret''),
                 acf_access_token_ttl_sec = access_ttl, acf_refresh_token_ttl_sec = refresh_ttl,
                 acf_password_hash_iterations = iterations,
                 acf_password_min_length = min_length, acf_password_max_length = max_length,
                 acf_login_rate_limit_count = rate_count,
                 acf_login_rate_limit_window_sec = rate_window,
                 acf_store_backend = text_setting d ''store_backend'' ''auto'',
                 acf_store_path = text_setting d ''store_path'' ''.rcoder/auth.json'',
                 acf_superadmins =
                   (case pget_or d ''superadmins'' (PList []) of
                      PList xs \<Rightarrow> map superadmin_config_from_dict (config_members xs)
                    | _ \<Rightarrow> [])\<rparr>)))))))
      | _ \<Rightarrow> Inr default_auth_config)"

definition auth_config_to_dict :: "auth_config \<Rightarrow> pyobj" where
  "auth_config_to_dict c =
     [(''enabled'', PBool (acf_enabled c)), (''token_secret'', PStr (acf_token_secret c)),
      (''access_token_ttl_sec'', PInt (acf_access_token_ttl_sec c)),
      (''refresh_token_ttl_sec'', PInt (acf_refresh_token_ttl_sec c)),
      (''password_hash_iterations'', PInt (acf_password_hash_iterations c)),
      (''password_min_length'', PInt (acf_password_min_length c)),
      (''password_max_length'', PInt (acf_password_max_length c)),
      (''login_rate_limit_count'', PInt (acf_login_rate_limit_count c)),
      (''login_rate_limit_window_sec'', PInt (acf_login_rate_limit_window_sec c)),
      (''store_backend'', PStr (acf_store_backend c)), (''store_path'', PStr (acf_store_path c)),
      (''superadmins'',
        PList (map (\<lambda>s. PDict (superadmin_config_to_dict s)) (acf_superadmins c)))]"

section \<open>Validation\<close>

text \<open>\<open>int(getattr(config, name, n) or n)\<close>: zero stands for the built-in value.\<close>

definition nonzero_or :: "int \<Rightarrow> int \<Rightarrow> int" where
  "nonzero_or n i = (if i = 0 then n else i)"

definition effective_min_length :: "auth_config \<Rightarrow> int" where
  "effective_min_length c = nonzero_or 6 (acf_password_min_length c)"

definition effective_max_length :: "auth_config \<Rightarrow> int" where
  "effective_max_length c = nonzero_or 256 (acf_password_max_length c)"

definition effective_rate_limit :: "auth_config \<Rightarrow> int" where
  "effective_rate_limit c = nonzero_or 5 (acf_login_rate_limit_count c)"

definition effective_rate_window :: "auth_config \<Rightarrow> int" where
  "effective_rate_window c = nonzero_or 900 (acf_login_rate_limit_window_sec c)"

definition superadmin_errors :: "auth_config \<Rightarrow> superadmin_config \<Rightarrow> string list" where
  "superadmin_errors c s =
     (if str_strip (sa_username s) = [] then [''auth.superadmins.username is required''] else []) @
     (if sa_password s = [] then [''auth.superadmins.password is required'']
      else if int (length (sa_password s)) < effective_min_length c
           \<or> int (length (sa_password s)) > effective_max_length c
      then [''auth.superadmins.password must satisfy auth password length policy''] else []) @
     (if sa_role s \<notin> set auth_roles then [''auth.superadmins.role must be superadmin''] else []) @
     (if sa_role s \<noteq> ''superadmin''
      then [''auth.superadmins entries must use role superadmin''] else [])"

definition validate_auth_config :: "auth_config \<Rightarrow> string list" where
  "validate_auth_config c =
     (if \<not> acf_enabled c then []
      else
        (if acf_token_secret c = []
         then [''auth.token_secret is required when auth.enabled is true''] else []) @
        (if acf_access_token_ttl_sec c < 1
         then [''auth.access_token_ttl_sec must be positive''] else []) @
        (if acf_refresh_token_ttl_sec c < 1
         then [''auth.refresh_token_ttl_sec must be positive''] else []) @
        (if acf_password_hash_iterations c < 1
         then [''auth.password_hash_iterations must be positive''] else []) @
        (if (if acf_store_backend c = [] then ''auto'' else acf_store_backend c)
             \<notin> set [''auto'', ''file'', ''postgres'']
         then [''auth.store_backend must be one of auto, file, postgres''] else []) @
        (if effective_min_length c < 1
         then [''auth.password_min_length must be positive''] else []) @
        (if effective_max_length c < effective_min_length c
         then [''auth.password_max_length must be >= auth.password_min_length''] else []) @
        (if effective_rate_limit c < 1
         then [''auth.login_rate_limit_count must be positive''] else []) @
        (if effective_rate_window c < 1
         then [''auth.login_rate_limit_window_sec must be positive''] else []) @
        (if acf_superadmins c = []
         then [''auth.superadmins must contain at least one superadmin''] else []) @
        concat (map (superadmin_errors c) (acf_superadmins c)))"

section \<open>Lemmas\<close>

lemma sorted_set_set [simp]: "set (sorted_set xs) = set xs"
  by (simp add: sorted_set_def)

lemma sorted_set_sorted: "sorted_wrt (\<le>) (sorted_set xs) \<and> distinct (sorted_set xs)"
  by (simp add: sorted_set_def)

lemma sorted_set_fixed: "sorted_wrt (\<le>) xs \<Longrightarrow> distinct xs \<Longrightarrow> sorted_set xs = xs"
  by (simp add: sorted_set_def distinct_remdups_id sorted_sort_id)

text \<open>A normalized tuple of scopes: known scopes, sorted, without repetition.\<close>

definition scopes_ok :: "string list \<Rightarrow> bool" where
  "scopes_ok xs \<longleftrightarrow> list_all (\<lambda>s. s \<in> set auth_scopes) xs \<and> sorted_wrt (\<le>) xs \<and> distinct xs"

lemma scopes_ok_Nil [simp]: "scopes_ok []"
  by (simp add: scopes_ok_def)

lemma normalize_scopes_ok [simp]: "scopes_ok (normalize_scopes v)"
  by (cases v) (auto simp: normalize_scopes_def scopes_ok_def list_all_iff sorted_set_sorted)

lemma auth_scopes_stripped: "s \<in> set auth_scopes \<Longrightarrow> str_strip s = s"
proof -
  have "list_all (\<lambda>s. str_strip s = s) auth_scopes" by code_simp
  then show "s \<in> set auth_scopes \<Longrightarrow> ?thesis" by (simp add: list_all_iff)
qed

lemma normalize_scopes_fixed: "scopes_ok xs \<Longrightarrow> normalize_scopes (str_list_val xs) = xs"
proof -
  assume ok: "scopes_ok xs"
  then have "map (\<lambda>x. str_strip (py_str (PStr x))) xs = xs"
    by (intro map_idI) (auto simp: scopes_ok_def list_all_iff auth_scopes_stripped)
  moreover have "filter (\<lambda>s. s \<in> set auth_scopes) xs = xs"
    using ok by (simp add: scopes_ok_def list_all_iff filter_id_conv)
  ultimately show ?thesis
    using ok by (simp add: normalize_scopes_def str_list_val_def comp_def sorted_set_fixed scopes_ok_def)
qed

lemma default_scopes_known: "set (default_scopes_for_role role) \<subseteq> set auth_scopes"
  by (auto simp: default_scopes_for_role_def role_default_scopes_def user_default_scopes_def
      auth_scopes_def)

lemma effective_scopes_known: "set (effective_scopes role scopes) \<subseteq> set auth_scopes"
proof (cases "role = ''superadmin''")
  case True
  then show ?thesis by (simp add: effective_scopes_def)
next
  case False
  have "set (normalize_scopes v) \<subseteq> set auth_scopes" for v
    using normalize_scopes_ok[of v] by (auto simp: scopes_ok_def list_all_iff)
  then show ?thesis using default_scopes_known[of role] False by (auto simp: effective_scopes_def)
qed

lemma superadmin_has_scope: "s \<in> set auth_scopes \<Longrightarrow> s \<in> set (effective_scopes ''superadmin'' scopes)"
  by (simp add: effective_scopes_def)

text \<open>Reading back what was written.\<close>

lemma opt_time_field_opt_time [simp]:
  "pget d k = opt_time t \<Longrightarrow> opt_time_field d k = Inr t"
  by (cases t) (simp_all add: opt_time_field_def opt_time_def py_float_def)

lemma time_field_PInt [simp]: "dict_get d k = Some (PInt i) \<Longrightarrow> time_field d k = Inr i"
  by (simp add: time_field_def pget_or_def py_or_def py_float_def)

lemma str_item_PStr [simp]: "dict_get d k = Some (PStr s) \<Longrightarrow> str_item d k = Inr s"
  by (simp add: str_item_def pitem_def)

lemma auth_user_roundtrip:
  "au_role u \<noteq> [] \<Longrightarrow> scopes_ok (au_scopes u) \<Longrightarrow> auth_user_from_dict (auth_user_to_dict u) = Inr u"
  by (simp add: auth_user_from_dict_def auth_user_to_dict_def pget_def pget_or_def py_or_def
      normalize_scopes_fixed)

lemma auth_device_roundtrip: "auth_device_from_dict (auth_device_to_dict v) = Inr v"
  by (simp add: auth_device_from_dict_def auth_device_to_dict_def pget_def)

lemma token_record_roundtrip: "token_record_from_dict (token_record_to_dict t) = Inr t"
  by (simp add: token_record_from_dict_def token_record_to_dict_def pget_def)

lemma login_failure_roundtrip: "login_failure_from_dict (login_failure_to_dict f) = Inr f"
  by (simp add: login_failure_from_dict_def login_failure_to_dict_def)

lemma config_members_PDict [simp]: "config_members (map (\<lambda>x. PDict (f x)) xs) = map (\<lambda>x. PDict (f x)) xs"
  by (induction xs) auto

lemma superadmin_config_roundtrip:
  "sa_role s \<noteq> [] \<Longrightarrow> superadmin_config_from_dict (PDict (superadmin_config_to_dict s)) = s"
  by (simp add: superadmin_config_from_dict_def superadmin_config_to_dict_def pget_def pget_or_def
      py_or_def)

lemma validate_auth_config_iff:
  "validate_auth_config c = [] \<longleftrightarrow>
     (acf_enabled c \<longrightarrow>
        acf_token_secret c \<noteq> [] \<and> 1 \<le> acf_access_token_ttl_sec c \<and> 1 \<le> acf_refresh_token_ttl_sec c \<and>
        1 \<le> acf_password_hash_iterations c \<and>
        acf_store_backend c \<in> set [[], ''auto'', ''file'', ''postgres''] \<and>
        1 \<le> effective_min_length c \<and> effective_min_length c \<le> effective_max_length c \<and>
        1 \<le> effective_rate_limit c \<and> 1 \<le> effective_rate_window c \<and> acf_superadmins c \<noteq> [] \<and>
        (\<forall>s \<in> set (acf_superadmins c).
           str_strip (sa_username s) \<noteq> [] \<and> sa_role s = ''superadmin'' \<and>
           effective_min_length c \<le> int (length (sa_password s)) \<and>
           int (length (sa_password s)) \<le> effective_max_length c))"
proof -
  have one: "superadmin_errors c s = [] \<longleftrightarrow>
      str_strip (sa_username s) \<noteq> [] \<and> sa_role s = ''superadmin'' \<and>
      effective_min_length c \<le> int (length (sa_password s)) \<and>
      int (length (sa_password s)) \<le> effective_max_length c"
    if "1 \<le> effective_min_length c" for s
    using that by (cases "sa_password s") (auto simp: superadmin_errors_def auth_roles_def)
  show ?thesis
    by (cases "1 \<le> effective_min_length c")
      (auto simp: validate_auth_config_def one not_less concat_eq_Nil_conv)
qed


section \<open>Properties\<close>

text \<open>Writing an authentication configuration and reading it back gives the same configuration, when
  no number is zero and no text with a built-in value is empty.\<close>

theorem auth_config_roundtrip:
  assumes "0 \<notin> set [acf_access_token_ttl_sec c, acf_refresh_token_ttl_sec c,
      acf_password_hash_iterations c, acf_password_min_length c, acf_password_max_length c,
      acf_login_rate_limit_count c, acf_login_rate_limit_window_sec c]"
    and "acf_store_backend c \<noteq> []" and "acf_store_path c \<noteq> []"
    and "list_all (\<lambda>s. sa_role s \<noteq> []) (acf_superadmins c)"
  shows "auth_config_from_dict (PDict (auth_config_to_dict c)) = Inr c"
proof -
  have "map (\<lambda>s. superadmin_config_from_dict (PDict (superadmin_config_to_dict s))) (acf_superadmins c) =
      acf_superadmins c"
    using assms(4) by (intro map_idI) (simp add: list_all_iff superadmin_config_roundtrip)
  then show ?thesis
    using assms(1-3)
    by (simp add: auth_config_from_dict_def auth_config_to_dict_def int_setting_def text_setting_def
        pget_def pget_or_def py_or_def py_int_def comp_def)
qed

theorem auth_config_roundtrip_witness:
  "auth_config_from_dict (PDict (auth_config_to_dict
     (default_auth_config\<lparr>acf_superadmins := [\<lparr>sa_username = ''root'', sa_password = ''hunter2'',
        sa_role = ''superadmin''\<rparr>]\<rparr>))) =
   Inr (default_auth_config\<lparr>acf_superadmins := [\<lparr>sa_username = ''root'', sa_password = ''hunter2'',
        sa_role = ''superadmin''\<rparr>]\<rparr>)"
  by (rule auth_config_roundtrip) (simp_all add: default_auth_config_def)

end
