(* ===== verification/AuthStore.thy ===== *)
theory AuthStore
  imports AuthModels
begin

text \<open>
  The store of the authentication service, from \<open>src/labrastro_server/services/auth/file_store.py\<close>: the
  content of the store file as records, one operation per method. The file itself (its lock, the
  JSON text, the replacement through a temporary file) is not modelled; every operation reads the
  content and writes it back as one step.

  The locale \<open>token_table\<close> states what the service relies on when it keeps tokens: a record is found
  under its hash, recording acts on one hash, and revoking keeps every record and never clears a
  revocation. Both token lists of the store are interpretations of it.
\<close>

section \<open>State\<close>

record auth_store =
  as_users :: "auth_user list"
  as_devices :: "auth_device list"
  as_refresh_tokens :: "token_record list"
  as_access_tokens :: "token_record list"
  as_login_failures :: "login_failure list"
  as_audit_events :: "pyobj list"

definition auth_store_empty :: auth_store where
  "auth_store_empty =
     \<lparr>as_users = [], as_devices = [], as_refresh_tokens = [], as_access_tokens = [],
      as_login_failures = [], as_audit_events = []\<rparr>"

section \<open>Users\<close>

definition same_username :: "string \<Rightarrow> auth_user \<Rightarrow> bool" where
  "same_username name u \<longleftrightarrow> str_lower (au_username u) = str_lower name"

definition get_user_by_username :: "string \<Rightarrow> auth_store \<Rightarrow> auth_user option" where
  "get_user_by_username username st = List.find (same_username (str_strip username)) (as_users st)"

definition get_user_by_id :: "string \<Rightarrow> auth_store \<Rightarrow> auth_user option" where
  "get_user_by_id user_id st = List.find (\<lambda>u. au_id u = user_id) (as_users st)"

definition store_list_users :: "auth_store \<Rightarrow> auth_user list" where
  "store_list_users st = sort_key (\<lambda>u. str_lower (au_username u)) (as_users st)"

definition upsert_user :: "auth_user \<Rightarrow> auth_store \<Rightarrow> auth_store" where
  "upsert_user user st =
     (let users = map (\<lambda>u. if same_username (au_username user) u then user else u) (as_users st)
      in st\<lparr>as_users :=
           (if list_ex (same_username (au_username user)) (as_users st) then users
            else users @ [user])\<rparr>)"

section \<open>Devices\<close>

definition create_device :: "auth_device \<Rightarrow> auth_store \<Rightarrow> auth_store" where
  "create_device device st =
     st\<lparr>as_devices := filter (\<lambda>d. dv_id d \<noteq> dv_id device) (as_devices st) @ [device]\<rparr>"

definition get_device :: "string \<Rightarrow> auth_store \<Rightarrow> auth_device option" where
  "get_device device_id st = List.find (\<lambda>d. dv_id d = device_id) (as_devices st)"

definition store_list_devices :: "string option \<Rightarrow> auth_store \<Rightarrow> auth_device list" where
  "store_list_devices user_id st =
     sort_key (\<lambda>d. - dv_created_at d)
       (filter (\<lambda>d. case user_id of None \<Rightarrow> True | Some u \<Rightarrow> dv_user_id d = u) (as_devices st))"

definition update_device :: "auth_device \<Rightarrow> auth_store \<Rightarrow> auth_store" where
  "update_device device st =
     st\<lparr>as_devices := filter (\<lambda>d. dv_id d \<noteq> dv_id device) (as_devices st) @ [device]\<rparr>"

section \<open>Tokens\<close>

text \<open>The two token lists are kept alike.\<close>

definition put_token :: "token_record \<Rightarrow> token_record list \<Rightarrow> token_record list" where
  "put_token token tokens =
     filter (\<lambda>t. tok_id t \<noteq> tok_id token \<and> tok_token_hash t \<noteq> tok_token_hash token) tokens @ [token]"

definition token_by_hash :: "string \<Rightarrow> token_record list \<Rightarrow> token_record option" where
  "token_by_hash token_hash tokens = List.find (\<lambda>t. tok_token_hash t = token_hash) tokens"

definition matches_opt :: "string option \<Rightarrow> string \<Rightarrow> bool" where
  "matches_opt wanted x = (case wanted of None \<Rightarrow> True | Some w \<Rightarrow> x = w)"

definition revoke_token :: "(token_record \<Rightarrow> bool) \<Rightarrow> int \<Rightarrow> token_record \<Rightarrow> token_record" where
  "revoke_token selected revoked_at t =
     (if selected t \<and> tok_revoked_at t = None then t\<lparr>tok_revoked_at := Some revoked_at\<rparr> else t)"

definition count_live :: "(token_record \<Rightarrow> bool) \<Rightarrow> token_record list \<Rightarrow> nat" where
  "count_live selected tokens = length (filter (\<lambda>t. selected t \<and> tok_revoked_at t = None) tokens)"

definition record_refresh_token :: "token_record \<Rightarrow> auth_store \<Rightarrow> auth_store" where
  "record_refresh_token token st = st\<lparr>as_refresh_tokens := put_token token (as_refresh_tokens st)\<rparr>"

definition get_refresh_token_by_hash :: "string \<Rightarrow> auth_store \<Rightarrow> token_record option" where
  "get_refresh_token_by_hash token_hash st = token_by_hash token_hash (as_refresh_tokens st)"

definition list_refresh_tokens ::
  "string option \<Rightarrow> string option \<Rightarrow> auth_store \<Rightarrow> token_record list" where
  "list_refresh_tokens user_id device_id st =
     sort_key (\<lambda>t. - tok_created_at t)
       (filter (\<lambda>t. matches_opt user_id (tok_user_id t) \<and> matches_opt device_id (tok_device_id t))
         (as_refresh_tokens st))"

definition selects_refresh :: "string option \<times> string option \<Rightarrow> token_record \<Rightarrow> bool" where
  "selects_refresh sel t \<longleftrightarrow>
     matches_opt (fst sel) (tok_user_id t) \<and> matches_opt (snd sel) (tok_device_id t)"

definition revoke_refresh_tokens ::
  "string option \<times> string option \<Rightarrow> int \<Rightarrow> auth_store \<Rightarrow> auth_store" where
  "revoke_refresh_tokens sel revoked_at st =
     st\<lparr>as_refresh_tokens :=
          map (revoke_token (selects_refresh sel) revoked_at) (as_refresh_tokens st)\<rparr>"

definition record_access_token :: "token_record \<Rightarrow> auth_store \<Rightarrow> auth_store" where
  "record_access_token token st = st\<lparr>as_access_tokens := put_token token (as_access_tokens st)\<rparr>"

definition get_access_token_by_hash :: "string \<Rightarrow> auth_store \<Rightarrow> token_record option" where
  "get_access_token_by_hash token_hash st = token_by_hash token_hash (as_access_tokens st)"

text \<open>The selector is \<open>user_id\<close>, \<open>device_id\<close>, \<open>exclude_device_id\<close>.\<close>

definition selects_access ::
  "string option \<times> string option \<times> string option \<Rightarrow> token_record \<Rightarrow> bool" where
  "selects_access sel t \<longleftrightarrow>
     (case sel of (user_id, device_id, exclude) \<Rightarrow>
        matches_opt user_id (tok_user_id t) \<and> matches_opt device_id (tok_device_id t) \<and>
        exclude \<noteq> Some (tok_device_id t))"

definition revoke_access_tokens ::
  "string option \<times> string option \<times> string option \<Rightarrow> int \<Rightarrow> auth_store \<Rightarrow> auth_store" where
  "revoke_access_tokens sel revoked_at st =
     st\<lparr>as_access_tokens :=
          map (revoke_token (selects_access sel) revoked_at) (as_access_tokens st)\<rparr>"

definition delete_expired_access_tokens :: "int \<Rightarrow> auth_store \<Rightarrow> nat \<times> auth_store" where
  "delete_expired_access_tokens now st =
     (length (filter (\<lambda>t. tok_expires_at t \<le> now) (as_access_tokens st)),
      st\<lparr>as_access_tokens := filter (\<lambda>t. \<not> tok_expires_at t \<le> now) (as_access_tokens st)\<rparr>)"

section \<open>Login failures\<close>

definition record_login_failure :: "login_failure \<Rightarrow> auth_store \<Rightarrow> auth_store" where
  "record_login_failure failure st =
     st\<lparr>as_login_failures :=
          filter (\<lambda>f. lf_id f \<noteq> lf_id failure) (as_login_failures st) @ [failure]\<rparr>"

definition failure_of :: "string \<Rightarrow> string \<Rightarrow> login_failure \<Rightarrow> bool" where
  "failure_of username source f \<longleftrightarrow>
     str_lower (str_strip (lf_username f)) = str_lower (str_strip username) \<and> lf_source f = source"

definition count_login_failures :: "string \<Rightarrow> string \<Rightarrow> int \<Rightarrow> auth_store \<Rightarrow> nat" where
  "count_login_failures username source since st =
     length (filter (\<lambda>f. failure_of username source f \<and> lf_failed_at f \<ge> since)
       (as_login_failures st))"

definition clear_login_failures :: "string \<Rightarrow> string \<Rightarrow> auth_store \<Rightarrow> auth_store" where
  "clear_login_failures username source st =
     st\<lparr>as_login_failures := filter (\<lambda>f. \<not> failure_of username source f) (as_login_failures st)\<rparr>"

definition delete_old_login_failures :: "int \<Rightarrow> auth_store \<Rightarrow> auth_store" where
  "delete_old_login_failures cutoff st =
     st\<lparr>as_login_failures := filter (\<lambda>f. \<not> lf_failed_at f < cutoff) (as_login_failures st)\<rparr>"

section \<open>Audit events\<close>

definition append_audit_event :: "pyobj \<Rightarrow> auth_store \<Rightarrow> auth_store" where
  "append_audit_event event st =
     (let events = as_audit_events st @ [event]
      in st\<lparr>as_audit_events := drop (length events - 1000) events\<rparr>)"

fun res_filter :: "('a \<Rightarrow> bool result) \<Rightarrow> 'a list \<Rightarrow> 'a list result" where
  "res_filter p [] = Inr []"
| "res_filter p (x # xs) =
     res_bind (p x) (\<lambda>keep. res_bind (res_filter p xs) (\<lambda>ys. Inr (if keep then x # ys else ys)))"

definition event_of_user :: "string \<Rightarrow> pyobj \<Rightarrow> bool" where
  "event_of_user user_id e \<longleftrightarrow>
     str_or_empty (pget e ''user_id'') = user_id \<or>
     str_or_empty (pget (dict_value (pget e ''payload'')) ''user_id'') = user_id"

text \<open>An empty \<open>event_type\<close> or \<open>user_id\<close> selects everything, as None does.\<close>

definition store_list_audit_events ::
  "int \<Rightarrow> int option \<Rightarrow> string \<Rightarrow> string \<Rightarrow> auth_store \<Rightarrow> pyobj list result" where
  "store_list_audit_events limit after event_type user_id st =
     res_bind
       (case after of
          None \<Rightarrow> Inr (as_audit_events st)
        | Some a \<Rightarrow> res_filter (\<lambda>e. res_bind (time_field e ''created_at'') (\<lambda>t. Inr (t > a)))
                     (as_audit_events st)) (\<lambda>events.
     res_bind
       (res_map (\<lambda>e. res_bind (time_field e ''created_at'') (\<lambda>t. Inr (t, e)))
         (filter (\<lambda>e. user_id = [] \<or> event_of_user user_id e)
           (filter (\<lambda>e. event_type = [] \<or> str_or_empty (pget e ''type'') = event_type) events)))
       (\<lambda>timed.
         Inr (take (nat (max 1 (min (nonzero_or 100 limit) 500)))
           (map snd (sort_key (\<lambda>te. - fst te) timed)))))"

section \<open>The token interface\<close>

text \<open>A token that authenticates nobody: no record, or a revoked one.\<close>

definition dead_record :: "token_record option \<Rightarrow> bool" where
  "dead_record r = (case r of None \<Rightarrow> True | Some t \<Rightarrow> tok_revoked_at t \<noteq> None)"

lemma dead_record_simps [simp]:
  "dead_record None" "dead_record (Some t) \<longleftrightarrow> tok_revoked_at t \<noteq> None"
  by (simp_all add: dead_record_def)

lemma revoke_token_fields [simp]:
  "tok_id (revoke_token p n t) = tok_id t" "tok_user_id (revoke_token p n t) = tok_user_id t"
  "tok_device_id (revoke_token p n t) = tok_device_id t"
  "tok_token_hash (revoke_token p n t) = tok_token_hash t"
  "tok_expires_at (revoke_token p n t) = tok_expires_at t"
  "tok_created_at (revoke_token p n t) = tok_created_at t"
  by (simp_all add: revoke_token_def)

lemma revoke_token_revoked:
  "tok_revoked_at (revoke_token p n t) = None \<longleftrightarrow> tok_revoked_at t = None \<and> \<not> p t"
  by (auto simp: revoke_token_def)

locale token_table =
  fixes look :: "string \<Rightarrow> 'm \<Rightarrow> token_record option"
    and put :: "token_record \<Rightarrow> 'm \<Rightarrow> 'm"
    and revoke :: "'sel \<Rightarrow> int \<Rightarrow> 'm \<Rightarrow> 'm"
    and selects :: "'sel \<Rightarrow> token_record \<Rightarrow> bool"
    and ok :: "'m \<Rightarrow> bool"
  assumes look_put: "ok m \<Longrightarrow> look h (put t m) =
      (if h = tok_token_hash t then Some t
       else case look h m of None \<Rightarrow> None | Some r \<Rightarrow> if tok_id r = tok_id t then None else Some r)"
    and look_revoke: "look h (revoke sel n m) = map_option (revoke_token (selects sel) n) (look h m)"
    and ok_put: "ok m \<Longrightarrow> ok (put t m)"
    and ok_revoke: "ok m \<Longrightarrow> ok (revoke sel n m)"
begin

lemma put_origin: "ok m \<Longrightarrow> look h (put t m) = Some r \<Longrightarrow> r = t \<or> look h m = Some r"
  by (auto simp: look_put split: if_splits option.splits)

lemma dead_put:
  "ok m \<Longrightarrow> dead_record (look h m) \<Longrightarrow> tok_token_hash t \<noteq> h \<or> tok_revoked_at t \<noteq> None \<Longrightarrow>
   dead_record (look h (put t m))"
  by (auto simp: look_put split: option.split)

lemma dead_revoke: "dead_record (look h m) \<Longrightarrow> dead_record (look h (revoke sel n m))"
  by (cases "look h m") (auto simp: look_revoke revoke_token_def)

lemma revoke_kills: "look h m = Some r \<Longrightarrow> selects sel r \<Longrightarrow> dead_record (look h (revoke sel n m))"
  by (auto simp: look_revoke revoke_token_def)

lemma live_survives_put:
  "ok m \<Longrightarrow> look h m = Some r \<Longrightarrow> tok_token_hash t \<noteq> h \<Longrightarrow> tok_id t \<noteq> tok_id r \<Longrightarrow>
   look h (put t m) = Some r"
  by (simp add: look_put)

end

section \<open>The stores provide it\<close>

definition hashes_distinct :: "token_record list \<Rightarrow> bool" where
  "hashes_distinct ts \<longleftrightarrow> distinct (map tok_token_hash ts)"

lemma token_by_hash_iff:
  "hashes_distinct ts \<Longrightarrow> token_by_hash h ts = Some r \<longleftrightarrow> r \<in> set ts \<and> tok_token_hash r = h"
proof -
  have "distinct (map tok_token_hash ts) \<Longrightarrow> r \<in> set ts \<Longrightarrow>
      List.find (\<lambda>t. tok_token_hash t = tok_token_hash r) ts = Some r"
    by (induction ts) auto
  then show "hashes_distinct ts \<Longrightarrow> ?thesis"
    unfolding token_by_hash_def hashes_distinct_def
    using find_SomeD[of "\<lambda>t. tok_token_hash t = h" ts r] by blast
qed

lemma token_by_hash_None: "token_by_hash h ts = None \<longleftrightarrow> (\<forall>t \<in> set ts. tok_token_hash t \<noteq> h)"
  by (auto simp: token_by_hash_def find_None_iff)

lemma hashes_distinct_put [simp]: "hashes_distinct ts \<Longrightarrow> hashes_distinct (put_token t ts)"
  by (auto simp: hashes_distinct_def put_token_def distinct_map intro: inj_on_subset)

lemma hashes_distinct_revoke [simp]:
  "hashes_distinct (map (revoke_token p n) ts) \<longleftrightarrow> hashes_distinct ts"
  by (simp add: hashes_distinct_def comp_def)

lemma token_by_hash_filter:
  "hashes_distinct ts \<Longrightarrow> token_by_hash h (filter p ts) =
     (case token_by_hash h ts of None \<Rightarrow> None | Some r \<Rightarrow> if p r then Some r else None)"
proof (induction ts)
  case Nil
  then show ?case by (simp add: token_by_hash_def)
next
  case (Cons a ts)
  then have ok: "hashes_distinct ts" and new: "tok_token_hash a \<notin> tok_token_hash ` set ts"
    by (simp_all add: hashes_distinct_def)
  show ?case
  proof (cases "tok_token_hash a = h")
    case True
    with new have "token_by_hash h (filter p ts) = None" unfolding token_by_hash_None by (metis filter_is_subset imageI subsetD)
    with True show ?thesis by (simp add: token_by_hash_def)
  next
    case False
    with Cons.IH[OF ok] show ?thesis by (simp add: token_by_hash_def)
  qed
qed

lemma find_append:
  "List.find p (xs @ ys) = (case List.find p xs of None \<Rightarrow> List.find p ys | Some x \<Rightarrow> Some x)"
  by (induction xs) auto

lemma token_by_hash_put:
  assumes ok: "hashes_distinct ts"
  shows "token_by_hash h (put_token t ts) =
     (if h = tok_token_hash t then Some t
      else case token_by_hash h ts of None \<Rightarrow> None
        | Some r \<Rightarrow> if tok_id r = tok_id t then None else Some r)"
proof -
  let ?p = "\<lambda>x. tok_id x \<noteq> tok_id t \<and> tok_token_hash x \<noteq> tok_token_hash t"
  have "token_by_hash h (put_token t ts) =
      (case token_by_hash h (filter ?p ts) of
         None \<Rightarrow> if tok_token_hash t = h then Some t else None | Some x \<Rightarrow> Some x)"
    by (simp add: token_by_hash_def put_token_def find_append cong: option.case_cong)
  moreover have "tok_token_hash r = h" if "token_by_hash h ts = Some r" for r
    using that token_by_hash_iff[OF ok] by blast
  ultimately show ?thesis
    unfolding token_by_hash_filter[OF ok] by (cases "token_by_hash h ts") auto
qed

lemma token_by_hash_revoke:
  "token_by_hash h (map (revoke_token p n) ts) = map_option (revoke_token p n) (token_by_hash h ts)"
  unfolding token_by_hash_def by (induction ts) auto

interpretation refresh: token_table get_refresh_token_by_hash record_refresh_token
  revoke_refresh_tokens selects_refresh "\<lambda>st. hashes_distinct (as_refresh_tokens st)"
  by unfold_locales
    (auto simp: get_refresh_token_by_hash_def record_refresh_token_def revoke_refresh_tokens_def
      token_by_hash_put token_by_hash_revoke)

interpretation access: token_table get_access_token_by_hash record_access_token
  revoke_access_tokens selects_access "\<lambda>st. hashes_distinct (as_access_tokens st)"
  by unfold_locales
    (auto simp: get_access_token_by_hash_def record_access_token_def revoke_access_tokens_def
      token_by_hash_put token_by_hash_revoke)

end
