(* ===== verification/AuthService.thy ===== *)
theory AuthService
  imports AuthCrypto AuthStore
begin

text \<open>
  The authentication service, from \<open>src/labrastro_server/services/auth/service.py\<close>: one definition per
  method. The state is the store and the number of random values drawn so far; the environment holds
  the configuration, the key derivation and keyed hash, the stream of random texts
  (\<open>uuid.uuid4().hex\<close>, \<open>secrets.token_urlsafe\<close>) and salts, and the clock, which is read once per request.

  A request that raises leaves the state it had reached (an audit event or a revoked token stays), so
  an operation yields the new state together with its outcome.
\<close>

section \<open>Environment and state\<close>

record auth_env =
  ae_config :: auth_config
  ae_kdf :: key_derivation
  ae_mac :: keyed_hash
  ae_fresh :: "nat \<Rightarrow> string"
  ae_salt :: "nat \<Rightarrow> bytes"
  ae_now :: int

record auth_state =
  sv_store :: auth_store
  sv_drawn :: nat

type_synonym 'a auth_step = "auth_state \<times> 'a result"

definition auth_bind :: "'a auth_step \<Rightarrow> (auth_state \<Rightarrow> 'a \<Rightarrow> 'b auth_step) \<Rightarrow> 'b auth_step" where
  "auth_bind m f = (case m of (s, Inl e) \<Rightarrow> (s, Inl e) | (s, Inr x) \<Rightarrow> f s x)"

lemma auth_bind_simps [simp]:
  "auth_bind (s, Inl e) f = (s, Inl e)"
  "auth_bind (s, Inr x) f = f s x"
  by (simp_all add: auth_bind_def)

text \<open>A check that does not change the state, and a call that changes the store only.\<close>

definition check :: "auth_state \<Rightarrow> 'a result \<Rightarrow> (auth_state \<Rightarrow> 'a \<Rightarrow> 'b auth_step) \<Rightarrow> 'b auth_step" where
  "check s r f = auth_bind (s, r) f"

lemma check_simps [simp]:
  "check s (Inl e) f = (s, Inl e)"
  "check s (Inr x) f = f s x"
  by (simp_all add: check_def)

definition on_store :: "(auth_store \<Rightarrow> auth_store) \<Rightarrow> auth_state \<Rightarrow> auth_state" where
  "on_store f s = s\<lparr>sv_store := f (sv_store s)\<rparr>"

definition draw :: "auth_env \<Rightarrow> auth_state \<Rightarrow> string \<times> auth_state" where
  "draw env s = (ae_fresh env (sv_drawn s), s\<lparr>sv_drawn := Suc (sv_drawn s)\<rparr>)"

definition draw_hash :: "auth_env \<Rightarrow> string \<Rightarrow> auth_state \<Rightarrow> string auth_step" where
  "draw_hash env password s =
     (s\<lparr>sv_drawn := Suc (sv_drawn s)\<rparr>,
      hash_password (ae_kdf env) (ae_salt env (sv_drawn s)) password
        (acf_password_hash_iterations (ae_config env)))"

definition token_hash :: "auth_env \<Rightarrow> string \<Rightarrow> string" where
  "token_hash env token = hash_token (ae_mac env) token (acf_token_secret (ae_config env))"

section \<open>Audit trail\<close>

definition sensitive_audit_keys :: "string list" where
  "sensitive_audit_keys =
     [''password'', ''new_password'', ''current_password'', ''access_token'', ''refresh_token'',
      ''bootstrap_token'', ''token'', ''provider_key'', ''password_hash'']"

text \<open>A dictionary inside a list is cleaned; one inside a list of a list is not.\<close>

fun sanitize_payload :: "pyobj \<Rightarrow> pyobj"
  and sanitize_value :: "pyval \<Rightarrow> pyval"
  and sanitize_items :: "pyval list \<Rightarrow> pyval list" where
  "sanitize_payload [] = []"
| "sanitize_payload ((k, v) # d) =
     (if k \<in> set sensitive_audit_keys then sanitize_payload d
      else (k, sanitize_value v) # sanitize_payload d)"
| "sanitize_value (PDict d) = PDict (sanitize_payload d)"
| "sanitize_value (PList xs) = PList (sanitize_items xs)"
| "sanitize_value v = v"
| "sanitize_items [] = []"
| "sanitize_items (PDict d # xs) = PDict (sanitize_payload d) # sanitize_items xs"
| "sanitize_items (x # xs) = x # sanitize_items xs"

definition audit_event :: "string \<Rightarrow> string \<Rightarrow> int \<Rightarrow> pyobj \<Rightarrow> pyobj" where
  "audit_event event_id event_type now payload =
     (let clean = sanitize_payload payload
      in [(''id'', PStr (''evt_'' @ event_id)), (''type'', PStr event_type),
          (''created_at'', PInt now), (''user_id'', PStr (str_or_empty (pget clean ''user_id''))),
          (''username'', PStr (str_or_empty (pget clean ''username''))),
          (''device_id'', PStr (str_or_empty (pget clean ''device_id''))),
          (''source_ip'', PStr (str_or_empty (pget clean ''source_ip''))),
          (''payload'', PDict (dict_pop ''source_ip'' (dict_pop ''device_id''
             (dict_pop ''username'' (dict_pop ''user_id'' clean)))))])"

definition audit :: "auth_env \<Rightarrow> string \<Rightarrow> pyobj \<Rightarrow> auth_state \<Rightarrow> auth_state" where
  "audit env event_type payload s =
     (let (event_id, s1) = draw env s
      in on_store (append_audit_event (audit_event event_id event_type (ae_now env) payload)) s1)"

section \<open>Views and checks\<close>

definition auth_service_state :: "auth_env \<Rightarrow> pyobj" where
  "auth_service_state env =
     [(''ok'', PBool True), (''auth_enabled'', PBool (acf_enabled (ae_config env))),
      (''login_required'', PBool True), (''scopes'', str_list_val (sort auth_scopes))]"

definition principal_for :: "auth_user \<Rightarrow> string option \<Rightarrow> auth_principal" where
  "principal_for user device_id =
     \<lparr>pn_user_id = au_id user, pn_username = au_username user, pn_role = au_role user,
      pn_device_id = device_id, pn_scopes = effective_scopes (au_role user) (au_scopes user)\<rparr>"

definition public_user :: "auth_user \<Rightarrow> pyobj" where
  "public_user u =
     [(''id'', PStr (au_id u)), (''username'', PStr (au_username u)), (''role'', PStr (au_role u)),
      (''scopes'', str_list_val (effective_scopes (au_role u) (au_scopes u))),
      (''enabled'', PBool (au_enabled u)), (''configured'', PBool (au_configured u)),
      (''created_at'', PInt (au_created_at u)), (''updated_at'', PInt (au_updated_at u)),
      (''last_login_at'', opt_time (au_last_login_at u))]"

definition public_device :: "auth_store \<Rightarrow> auth_device \<Rightarrow> pyobj" where
  "public_device st d =
     [(''id'', PStr (dv_id d)), (''user_id'', PStr (dv_user_id d)),
      (''username'', PStr (case get_user_by_id (dv_user_id d) st of
          Some u \<Rightarrow> au_username u | None \<Rightarrow> [])),
      (''label'', PStr (dv_label d)), (''created_at'', PInt (dv_created_at d)),
      (''last_seen_at'', opt_time (dv_last_seen_at d)), (''revoked_at'', opt_time (dv_revoked_at d))]"

definition require_roles :: "auth_principal option \<Rightarrow> string list \<Rightarrow> auth_principal result" where
  "require_roles caller roles =
     (case caller of
        None \<Rightarrow> Inl (AuthError ''unauthorized'')
      | Some p \<Rightarrow> if pn_role p \<in> set roles then Inr p else Inl (AuthError ''forbidden''))"

definition require_scopes :: "auth_principal option \<Rightarrow> string list \<Rightarrow> auth_principal result" where
  "require_scopes caller scopes =
     (case caller of
        None \<Rightarrow> Inl (AuthError ''unauthorized'')
      | Some p \<Rightarrow>
          if filter (\<lambda>s. \<not> has_scope p s) scopes = [] then Inr p
          else Inl (AuthError ''forbidden''))"

definition require_user :: "string \<Rightarrow> auth_store \<Rightarrow> auth_user result" where
  "require_user user_id st =
     (case get_user_by_id user_id st of
        None \<Rightarrow> Inl (AuthError ''user_not_found'') | Some u \<Rightarrow> Inr u)"

definition validate_role :: "string \<Rightarrow> string result" where
  "validate_role role =
     (let r = str_strip (if role = [] then ''user'' else role)
      in if r \<in> set auth_roles then Inr r else Inl (AuthError ''invalid_role''))"

definition validate_requested_scopes :: "pyval \<Rightarrow> string list result" where
  "validate_requested_scopes scopes =
     (case scopes of
        PNone \<Rightarrow> Inr []
      | _ \<Rightarrow>
          let raw = (case scopes of PList xs \<Rightarrow> xs | _ \<Rightarrow> []);
              requested = remdups (filter (\<lambda>s. s \<noteq> []) (map (\<lambda>x. str_strip (py_str x)) raw))
          in if filter (\<lambda>s. s \<notin> set auth_scopes) requested \<noteq> []
             then Inl (AuthError ''invalid_scope'')
             else Inr (normalize_scopes (str_list_val requested)))"

definition validate_password :: "auth_config \<Rightarrow> string \<Rightarrow> unit result" where
  "validate_password c password =
     (if int (length password) < effective_min_length c then Inl (AuthError ''password_policy_failed'')
      else if int (length password) > effective_max_length c
        then Inl (AuthError ''password_policy_failed'')
      else Inr ())"

section \<open>Login failures\<close>

definition check_login_rate_limit :: "auth_env \<Rightarrow> string \<Rightarrow> string \<Rightarrow> auth_state \<Rightarrow> unit auth_step" where
  "check_login_rate_limit env username source s =
     (let since = ae_now env - effective_rate_window (ae_config env);
          s1 = on_store (delete_old_login_failures since) s;
          recent = count_login_failures (str_lower (str_strip username)) source since (sv_store s1)
      in if int recent \<ge> effective_rate_limit (ae_config env)
         then (audit env ''login_rate_limited''
                 [(''username'', PStr username), (''source_ip'', PStr source)] s1,
               Inl (AuthError ''rate_limited''))
         else (s1, Inr ()))"

definition record_failed_login :: "auth_env \<Rightarrow> string \<Rightarrow> string \<Rightarrow> auth_state \<Rightarrow> auth_state" where
  "record_failed_login env username source s =
     (let (i, s1) = draw env s
      in on_store (record_login_failure
           \<lparr>lf_id = ''lf_'' @ i, lf_username = str_lower (str_strip username), lf_source = source,
            lf_failed_at = ae_now env\<rparr>) s1)"

definition clear_failed_login :: "string \<Rightarrow> string \<Rightarrow> auth_state \<Rightarrow> auth_state" where
  "clear_failed_login username source s =
     on_store (clear_login_failures (str_lower (str_strip username)) source) s"

section \<open>Revocation\<close>

definition revoke_device_access :: "auth_env \<Rightarrow> string \<Rightarrow> string \<Rightarrow> auth_state \<Rightarrow> auth_state" where
  "revoke_device_access env user_id device_id s =
     on_store (revoke_access_tokens (Some user_id, Some device_id, None) (ae_now env)) s"

fun revoke_each :: "int \<Rightarrow> string option \<Rightarrow> token_record list \<Rightarrow> auth_store \<Rightarrow> nat \<times> auth_store" where
  "revoke_each n current [] st = (0, st)"
| "revoke_each n current (t # ts) st =
     (if current = Some (tok_device_id t) \<or> tok_revoked_at t \<noteq> None then revoke_each n current ts st
      else
        (let (k, st1) = revoke_each n current ts
               (record_refresh_token (t\<lparr>tok_revoked_at := Some n\<rparr>) st)
         in (Suc k, st1)))"

definition revoke_other_device_sessions ::
  "string \<Rightarrow> string option \<Rightarrow> int \<Rightarrow> auth_state \<Rightarrow> nat \<times> auth_state" where
  "revoke_other_device_sessions user_id current n s =
     (let (revoked, st1) =
            revoke_each n current (list_refresh_tokens (Some user_id) None (sv_store s)) (sv_store s)
      in (revoked, s\<lparr>sv_store := revoke_access_tokens (Some user_id, None, current) n st1\<rparr>))"

definition revoke_user_sessions :: "auth_env \<Rightarrow> string \<Rightarrow> auth_state \<Rightarrow> nat \<times> auth_state" where
  "revoke_user_sessions env user_id s =
     (count_live (selects_refresh (Some user_id, None)) (as_refresh_tokens (sv_store s)),
      on_store (\<lambda>st. revoke_access_tokens (Some user_id, None, None) (ae_now env)
        (revoke_refresh_tokens (Some user_id, None) (ae_now env) st)) s)"

section \<open>Sessions\<close>

definition create_session ::
  "auth_env \<Rightarrow> auth_user \<Rightarrow> auth_device \<Rightarrow> auth_state \<Rightarrow> auth_state \<times> auth_session" where
  "create_session env user device s =
     (let now = ae_now env;
          (a, s1) = draw env s; access_token = ''at_'' @ a;
          access_expires = now + acf_access_token_ttl_sec (ae_config env);
          (r, s2) = draw env s1; refresh_token = ''rt_'' @ r;
          refresh_expires = now + acf_refresh_token_ttl_sec (ae_config env);
          owner = principal_for user (Some (dv_id device));
          (ai, s3) = draw env s2;
          s4 = on_store (record_access_token
                 \<lparr>tok_id = ''at_'' @ ai, tok_user_id = au_id user, tok_device_id = dv_id device,
                  tok_token_hash = token_hash env access_token, tok_expires_at = access_expires,
                  tok_created_at = now, tok_revoked_at = None\<rparr>) s3;
          (ri, s5) = draw env s4;
          s6 = on_store (record_refresh_token
                 \<lparr>tok_id = ''rt_'' @ ri, tok_user_id = au_id user, tok_device_id = dv_id device,
                  tok_token_hash = token_hash env refresh_token, tok_expires_at = refresh_expires,
                  tok_created_at = now, tok_revoked_at = None\<rparr>) s5
      in (s6, \<lparr>ss_access_token = access_token, ss_access_expires_at = access_expires,
               ss_refresh_token = refresh_token, ss_refresh_expires_at = refresh_expires,
               ss_principal = owner, ss_device = device\<rparr>))"

section \<open>Signing in and out\<close>

definition password_match ::
  "auth_env \<Rightarrow> string \<Rightarrow> string \<Rightarrow> auth_store \<Rightarrow> auth_user option result" where
  "password_match env username password st =
     (case get_user_by_username username st of
        None \<Rightarrow> Inr None
      | Some u \<Rightarrow>
          res_bind (verify_password (ae_kdf env) password (au_password_hash u)) (\<lambda>ok.
            Inr (if ok then Some u else None)))"

definition reject_login ::
  "auth_env \<Rightarrow> string \<Rightarrow> string \<Rightarrow> string \<Rightarrow> pyobj \<Rightarrow> auth_state \<Rightarrow> auth_state" where
  "reject_login env username source_key event_type payload s =
     audit env event_type payload (record_failed_login env username source_key s)"

definition admit_login ::
  "auth_env \<Rightarrow> auth_user \<Rightarrow> string \<Rightarrow> string \<Rightarrow> auth_state \<Rightarrow> auth_state \<times> auth_session" where
  "admit_login env found device_label source_ip s =
     (let now = ae_now env;
          user = found\<lparr>au_last_login_at := Some now, au_updated_at := now\<rparr>;
          s1 = on_store (upsert_user user) s;
          (d, s2) = draw env s1;
          device = \<lparr>dv_id = ''dev_'' @ d, dv_user_id = au_id user,
            dv_label = (if str_strip device_label = [] then ''VS Code'' else str_strip device_label),
            dv_created_at = now, dv_last_seen_at = Some now, dv_revoked_at = None\<rparr>;
          (s3, session) = create_session env user device (on_store (create_device device) s2)
      in (audit env ''login_success''
            [(''user_id'', PStr (au_id user)), (''username'', PStr (au_username user)),
             (''device_id'', PStr (dv_id device)), (''source_ip'', PStr source_ip)] s3,
          session))"

definition login ::
  "auth_env \<Rightarrow> string \<Rightarrow> string \<Rightarrow> string \<Rightarrow> string \<Rightarrow> auth_state \<Rightarrow> auth_session auth_step" where
  "login env raw_username password device_label source_ip s =
     (let username = str_strip raw_username;
          source_key = (if source_ip = [] then ''unknown'' else source_ip)
      in auth_bind (check_login_rate_limit env username source_key s) (\<lambda>s1 _.
         check s1 (password_match env username password (sv_store s1)) (\<lambda>s1 matched.
         case matched of
           None \<Rightarrow>
             (reject_login env username source_key ''login_failed''
                [(''username'', PStr username), (''source_ip'', PStr source_ip)] s1,
              Inl (AuthError ''invalid_credentials''))
         | Some user \<Rightarrow>
             if \<not> au_enabled user then
               (reject_login env username source_key ''login_disabled''
                  [(''user_id'', PStr (au_id user)), (''username'', PStr (au_username user)),
                   (''source_ip'', PStr source_ip)] s1,
                Inl (AuthError ''user_disabled''))
             else
               (let (s2, session) = admit_login env user device_label source_ip
                      (clear_failed_login username source_key s1)
                in (s2, Inr session)))))"

text \<open>The refresh token is good: its record, user and device.\<close>

definition refresh_subject ::
  "auth_env \<Rightarrow> string \<Rightarrow> auth_store \<Rightarrow> (token_record \<times> auth_user \<times> auth_device) option" where
  "refresh_subject env token st =
     (case get_refresh_token_by_hash (token_hash env token) st of
        None \<Rightarrow> None
      | Some rec \<Rightarrow>
          if tok_revoked_at rec \<noteq> None \<or> tok_expires_at rec \<le> ae_now env then None
          else (case get_user_by_id (tok_user_id rec) st of
              None \<Rightarrow> None
            | Some user \<Rightarrow>
                if \<not> au_enabled user then None
                else (case get_device (tok_device_id rec) st of
                    None \<Rightarrow> None
                  | Some device \<Rightarrow>
                      if dv_revoked_at device \<noteq> None then None else Some (rec, user, device))))"

definition refresh_session :: "auth_env \<Rightarrow> string \<Rightarrow> auth_state \<Rightarrow> auth_session auth_step" where
  "refresh_session env token s =
     (case refresh_subject env token (sv_store s) of
        None \<Rightarrow> (s, Inl (AuthError ''invalid_refresh_token''))
      | Some (rec, user, device) \<Rightarrow>
          (let now = ae_now env;
               s1 = on_store (record_refresh_token (rec\<lparr>tok_revoked_at := Some now\<rparr>)) s;
               device = device\<lparr>dv_last_seen_at := Some now\<rparr>;
               s2 = on_store (update_device device) s1;
               (s3, session) = create_session env user device s2
           in (audit env ''refresh''
                 [(''user_id'', PStr (au_id user)), (''username'', PStr (au_username user)),
                  (''device_id'', PStr (dv_id device))] s3,
               Inr session)))"

definition logout :: "auth_env \<Rightarrow> string \<Rightarrow> auth_state \<Rightarrow> auth_state" where
  "logout env token s =
     (case get_refresh_token_by_hash (token_hash env token) (sv_store s) of
        None \<Rightarrow> s
      | Some rec \<Rightarrow>
          if tok_revoked_at rec \<noteq> None then s
          else
            audit env ''logout''
              [(''user_id'', PStr (tok_user_id rec)), (''device_id'', PStr (tok_device_id rec))]
              (revoke_device_access env (tok_user_id rec) (tok_device_id rec)
                (on_store (record_refresh_token (rec\<lparr>tok_revoked_at := Some (ae_now env)\<rparr>)) s)))"

text \<open>A token that turns out to be dead is marked revoked.\<close>

definition authenticate_access_token ::
  "auth_env \<Rightarrow> string \<Rightarrow> auth_state \<Rightarrow> auth_state \<times> auth_principal option" where
  "authenticate_access_token env token s =
     (if token = [] then (s, None)
      else case get_access_token_by_hash (token_hash env token) (sv_store s) of
        None \<Rightarrow> (s, None)
      | Some rec \<Rightarrow>
          (let dead = on_store (record_access_token (rec\<lparr>tok_revoked_at := Some (ae_now env)\<rparr>)) s
           in if tok_revoked_at rec \<noteq> None then (s, None)
              else if tok_expires_at rec \<le> ae_now env then (dead, None)
              else case get_user_by_id (tok_user_id rec) (sv_store s) of
                None \<Rightarrow> (dead, None)
              | Some user \<Rightarrow>
                  if \<not> au_enabled user then (dead, None)
                  else case get_device (tok_device_id rec) (sv_store s) of
                    None \<Rightarrow> (dead, None)
                  | Some device \<Rightarrow>
                      if dv_revoked_at device \<noteq> None then (dead, None)
                      else (s, Some (principal_for user (Some (tok_device_id rec))))))"

section \<open>The caller's own account\<close>

definition me :: "auth_principal \<Rightarrow> auth_state \<Rightarrow> pyobj result" where
  "me caller s =
     res_bind (require_scopes (Some caller) [''self:read'']) (\<lambda>caller.
       let device = (case pn_device_id caller of
             None \<Rightarrow> None | Some d \<Rightarrow> get_device d (sv_store s))
       in Inr [(''ok'', PBool True), (''user'', PDict (principal_public_user caller)),
               (''device'', case device of
                  None \<Rightarrow> PNone
                | Some d \<Rightarrow> PDict [(''id'', PStr (dv_id d)), (''label'', PStr (dv_label d))])])"

text \<open>The issuer of bootstrap tokens is the relay: a call with the claims, repeated without them
  when it rejects them with a \<open>TypeError\<close>.\<close>

type_synonym 'r issuer = "int \<Rightarrow> pyobj option \<Rightarrow> 'r \<Rightarrow> 'r \<times> string result"

definition bootstrap_claims :: "auth_principal \<Rightarrow> pyobj" where
  "bootstrap_claims p =
     [(''user_id'', PStr (pn_user_id p)), (''username'', PStr (pn_username p)),
      (''role'', PStr (pn_role p)), (''device_id'', opt_val (pn_device_id p)),
      (''scopes'', str_list_val (principal_effective_scopes p))]"

definition issue_with_claims :: "'r issuer \<Rightarrow> int \<Rightarrow> pyobj \<Rightarrow> 'r \<Rightarrow> 'r \<times> string result" where
  "issue_with_claims issue ttl_sec claims r =
     (case issue ttl_sec (Some claims) r of
        (r1, Inl (TypeError _)) \<Rightarrow> issue ttl_sec None r1
      | other \<Rightarrow> other)"

definition bootstrap_token ::
  "auth_env \<Rightarrow> 'r issuer \<Rightarrow> auth_principal \<Rightarrow> int \<Rightarrow> 'r \<Rightarrow> auth_state \<Rightarrow> 'r \<times> pyobj auth_step" where
  "bootstrap_token env issue caller ttl_sec r s =
     (case require_scopes (Some caller) [''peer:bootstrap''] of
        Inl e \<Rightarrow> (r, s, Inl e)
      | Inr caller \<Rightarrow>
          (case issue_with_claims issue ttl_sec (bootstrap_claims caller) r of
             (r1, Inl e) \<Rightarrow> (r1, s, Inl e)
           | (r1, Inr token) \<Rightarrow>
               (r1, audit env ''bootstrap_token_issued''
                      [(''user_id'', PStr (pn_user_id caller)),
                       (''username'', PStr (pn_username caller)),
                       (''device_id'', opt_val (pn_device_id caller))] s,
                Inr [(''ok'', PBool True), (''bootstrap_token'', PStr token),
                     (''expires_in'', PInt ttl_sec)])))"

definition change_password ::
  "auth_env \<Rightarrow> auth_principal \<Rightarrow> string \<Rightarrow> string \<Rightarrow> auth_state \<Rightarrow> pyobj auth_step" where
  "change_password env caller current_password new_password s =
     check s (require_scopes (Some caller) [''self:password'']) (\<lambda>s caller.
     check s (require_user (pn_user_id caller) (sv_store s)) (\<lambda>s user.
       if au_configured user then (s, Inl (AuthError ''configured_user_immutable''))
       else
         check s (verify_password (ae_kdf env) current_password (au_password_hash user)) (\<lambda>s ok.
           if \<not> ok then (s, Inl (AuthError ''invalid_credentials''))
           else
             check s (validate_password (ae_config env) new_password) (\<lambda>s _.
             auth_bind (draw_hash env new_password s) (\<lambda>s1 h.
               let s2 = on_store (upsert_user
                          (user\<lparr>au_password_hash := h, au_updated_at := ae_now env\<rparr>)) s1;
                   (revoked, s3) =
                     revoke_other_device_sessions (au_id user) (pn_device_id caller) (ae_now env) s2
               in (audit env ''password_changed''
                     [(''user_id'', PStr (au_id user)), (''username'', PStr (au_username user)),
                      (''device_id'', opt_val (pn_device_id caller)),
                      (''revoked_sessions'', PInt (int revoked))] s3,
                   Inr [(''ok'', PBool True), (''revoked_sessions'', PInt (int revoked))]))))))"

section \<open>User administration\<close>

definition service_list_users :: "auth_principal \<Rightarrow> auth_state \<Rightarrow> pyobj result" where
  "service_list_users caller s =
     res_bind (require_scopes (Some caller) [''users:manage'']) (\<lambda>_.
       Inr [(''ok'', PBool True),
            (''users'', PList (map (\<lambda>u. PDict (public_user u)) (store_list_users (sv_store s))))])"

definition create_user ::
  "auth_env \<Rightarrow> auth_principal \<Rightarrow> string \<Rightarrow> string \<Rightarrow> string \<Rightarrow> pyval \<Rightarrow> pyval \<Rightarrow> auth_state \<Rightarrow>
   pyobj auth_step" where
  "create_user env caller raw_username password raw_role raw_scopes enabled s =
     check s (require_scopes (Some caller) [''users:manage'']) (\<lambda>s caller.
     let username = str_strip raw_username in
     if username = [] then (s, Inl (AuthError ''username_required''))
     else if get_user_by_username username (sv_store s) \<noteq> None
       then (s, Inl (AuthError ''username_exists''))
     else
       check s (validate_role raw_role) (\<lambda>s role.
       check s (validate_requested_scopes raw_scopes) (\<lambda>s scopes.
       check s (validate_password (ae_config env) password) (\<lambda>s _.
         let (i, s1) = draw env s in
         auth_bind (draw_hash env password s1) (\<lambda>s2 h.
           let user = \<lparr>au_id = ''usr_'' @ i, au_username = username, au_password_hash = h,
                 au_role = role, au_enabled = truthy enabled, au_created_at = ae_now env,
                 au_updated_at = ae_now env, au_last_login_at = None, au_configured = False,
                 au_scopes = scopes\<rparr>;
               s3 = on_store (upsert_user user) s2
           in (audit env ''user_created''
                 [(''user_id'', PStr (pn_user_id caller)), (''username'', PStr (pn_username caller)),
                  (''target_user_id'', PStr (au_id user)),
                  (''target_username'', PStr (au_username user)), (''role'', PStr role)] s3,
               Inr [(''ok'', PBool True), (''user'', PDict (public_user user))]))))))"

definition apply_update ::
  "string \<Rightarrow> string list \<Rightarrow> bool option \<Rightarrow> int \<Rightarrow> auth_user \<Rightarrow> auth_user" where
  "apply_update next_role next_scopes enabled now user =
     user\<lparr>au_role := (if au_configured user then ''superadmin'' else next_role),
       au_scopes := (if au_configured user then [] else next_scopes),
       au_enabled := au_configured user \<or> (case enabled of None \<Rightarrow> au_enabled user | Some b \<Rightarrow> b),
       au_updated_at := now\<rparr>"

definition commit_update ::
  "auth_env \<Rightarrow> auth_principal \<Rightarrow> auth_user \<Rightarrow> auth_user \<Rightarrow> auth_state \<Rightarrow> auth_state" where
  "commit_update env caller user updated s =
     (let s1 = on_store (upsert_user updated) s;
          s2 = (if \<not> au_enabled updated \<or> au_role updated \<noteq> au_role user
                   \<or> au_scopes updated \<noteq> au_scopes user
                then snd (revoke_user_sessions env (au_id updated) s1) else s1)
      in audit env ''user_updated''
           [(''user_id'', PStr (pn_user_id caller)), (''username'', PStr (pn_username caller)),
            (''target_user_id'', PStr (au_id updated)),
            (''target_username'', PStr (au_username updated)),
            (''role'', PStr (au_role updated)), (''enabled'', PBool (au_enabled updated))] s2)"

text \<open>\<open>role\<close>, \<open>scopes\<close> and \<open>enabled\<close> are None when the request leaves them as they are.\<close>

definition update_user ::
  "auth_env \<Rightarrow> auth_principal \<Rightarrow> string \<Rightarrow> string option \<Rightarrow> pyval \<Rightarrow> bool option \<Rightarrow> auth_state \<Rightarrow>
   pyobj auth_step" where
  "update_user env caller user_id role scopes enabled s =
     check s (require_scopes (Some caller) [''users:manage'']) (\<lambda>s caller.
     check s (require_user user_id (sv_store s)) (\<lambda>s user.
       if au_configured user \<and>
          (role \<noteq> None \<and> role \<noteq> Some ''superadmin'' \<or> enabled = Some False \<or> scopes \<noteq> PNone)
       then (s, Inl (AuthError ''configured_user_immutable''))
       else
         check s (case role of None \<Rightarrow> Inr (au_role user) | Some r \<Rightarrow> validate_role r) (\<lambda>s next_role.
         check s (if scopes = PNone then Inr (au_scopes user) else validate_requested_scopes scopes)
           (\<lambda>s next_scopes.
           let updated = apply_update next_role next_scopes enabled (ae_now env) user
           in (commit_update env caller user updated s,
               Inr [(''ok'', PBool True), (''user'', PDict (public_user updated))])))))"

definition disable_user :: "auth_env \<Rightarrow> auth_principal \<Rightarrow> string \<Rightarrow> auth_state \<Rightarrow> pyobj auth_step" where
  "disable_user env caller user_id s =
     check s (require_scopes (Some caller) [''users:manage'']) (\<lambda>s caller.
     check s (require_user user_id (sv_store s)) (\<lambda>s user.
       if au_configured user then (s, Inl (AuthError ''configured_user_immutable''))
       else
         (let updated = user\<lparr>au_enabled := False, au_updated_at := ae_now env\<rparr>;
              s1 = on_store (upsert_user updated) s;
              (revoked, s2) = revoke_user_sessions env (au_id user) s1
          in (audit env ''user_disabled''
                [(''user_id'', PStr (pn_user_id caller)), (''username'', PStr (pn_username caller)),
                 (''target_user_id'', PStr (au_id user)),
                 (''target_username'', PStr (au_username user)),
                 (''revoked_sessions'', PInt (int revoked))] s2,
              Inr [(''ok'', PBool True), (''user'', PDict (public_user updated)),
                   (''revoked_sessions'', PInt (int revoked))]))))"

definition reset_password ::
  "auth_env \<Rightarrow> auth_principal \<Rightarrow> string \<Rightarrow> string \<Rightarrow> auth_state \<Rightarrow> pyobj auth_step" where
  "reset_password env caller user_id password s =
     check s (require_scopes (Some caller) [''users:manage'']) (\<lambda>s caller.
     check s (require_user user_id (sv_store s)) (\<lambda>s user.
       if au_configured user then (s, Inl (AuthError ''configured_user_immutable''))
       else
         check s (validate_password (ae_config env) password) (\<lambda>s _.
         auth_bind (draw_hash env password s) (\<lambda>s1 h.
           let updated = user\<lparr>au_password_hash := h, au_updated_at := ae_now env\<rparr>;
               s2 = on_store (upsert_user updated) s1;
               (revoked, s3) = revoke_user_sessions env (au_id updated) s2
           in (audit env ''password_reset''
                 [(''user_id'', PStr (pn_user_id caller)), (''username'', PStr (pn_username caller)),
                  (''target_user_id'', PStr (au_id updated)),
                  (''target_username'', PStr (au_username updated)),
                  (''revoked_sessions'', PInt (int revoked))] s3,
               Inr [(''ok'', PBool True), (''user'', PDict (public_user updated)),
                    (''revoked_sessions'', PInt (int revoked))])))))"

section \<open>Devices and audit\<close>

definition service_list_devices ::
  "auth_principal \<Rightarrow> string option \<Rightarrow> auth_state \<Rightarrow> pyobj result" where
  "service_list_devices caller user_id s =
     res_bind (require_scopes (Some caller) [''devices:read'']) (\<lambda>caller.
       let wanted = (case user_id of None \<Rightarrow> [] | Some u \<Rightarrow> str_strip u);
           target = (if pn_role caller \<noteq> ''superadmin'' \<or> wanted = [] then pn_user_id caller
                     else wanted);
           live = filter (\<lambda>d. dv_revoked_at d = None)
             (store_list_devices (Some target) (sv_store s))
       in Inr [(''ok'', PBool True),
               (''devices'', PList (map (\<lambda>d. PDict (public_device (sv_store s) d)) live))])"

definition revoke_device :: "auth_env \<Rightarrow> auth_principal \<Rightarrow> string \<Rightarrow> auth_state \<Rightarrow> pyobj auth_step" where
  "revoke_device env caller device_id s =
     check s (require_scopes (Some caller) [''devices:revoke'']) (\<lambda>s caller.
       case get_device device_id (sv_store s) of
         None \<Rightarrow> (s, Inl (AuthError ''device_not_found''))
       | Some device \<Rightarrow>
           if pn_role caller \<noteq> ''superadmin'' \<and> dv_user_id device \<noteq> pn_user_id caller
           then (s, Inl (AuthError ''forbidden''))
           else
             (let now = ae_now env;
                  updated = device\<lparr>dv_revoked_at := Some now\<rparr>;
                  s1 = on_store (update_device updated) s;
                  revoked = count_live (selects_refresh (None, Some (dv_id device)))
                    (as_refresh_tokens (sv_store s1));
                  s2 = on_store (revoke_refresh_tokens (None, Some (dv_id device)) now) s1;
                  s3 = revoke_device_access env (dv_user_id device) (dv_id device) s2;
                  s4 = audit env ''device_revoked''
                    [(''user_id'', PStr (pn_user_id caller)),
                     (''username'', PStr (pn_username caller)),
                     (''device_id'', opt_val (pn_device_id caller)),
                     (''target_device_id'', PStr (dv_id device)),
                     (''target_user_id'', PStr (dv_user_id device)),
                     (''revoked_sessions'', PInt (int revoked))] s3
              in (s4,
                  Inr [(''ok'', PBool True),
                       (''device'', PDict (public_device (sv_store s4) updated)),
                       (''revoked_sessions'', PInt (int revoked))])))"

definition service_list_audit_events ::
  "auth_principal \<Rightarrow> int \<Rightarrow> int option \<Rightarrow> string \<Rightarrow> string \<Rightarrow> auth_state \<Rightarrow> pyobj result" where
  "service_list_audit_events caller limit after event_type user_id s =
     res_bind (require_scopes (Some caller) [''audit:read'']) (\<lambda>_.
     res_bind (store_list_audit_events limit after event_type user_id (sv_store s)) (\<lambda>events.
       Inr [(''ok'', PBool True), (''events'', PList (map PDict events))]))"

section \<open>Configured superadmins\<close>

text \<open>Every configured superadmin gets an enabled account of that role; the stored hash is kept while
  it still matches the configured password.\<close>

definition sync_superadmin :: "auth_env \<Rightarrow> superadmin_config \<Rightarrow> auth_state \<Rightarrow> unit auth_step" where
  "sync_superadmin env item s =
     (let username = str_strip (sa_username item);
          found = get_user_by_username username (sv_store s);
          (user_id, s1) = (case found of
              Some u \<Rightarrow> (au_id u, s)
            | None \<Rightarrow> (let (i, s1) = draw env s in (''usr_'' @ i, s1)))
      in if username = [] then (s, Inr ())
         else
           auth_bind
             (case found of
                None \<Rightarrow> draw_hash env (sa_password item) s1
              | Some u \<Rightarrow>
                  check s1 (verify_password (ae_kdf env) (sa_password item) (au_password_hash u))
                    (\<lambda>s1 ok. if ok then (s1, Inr (au_password_hash u))
                       else draw_hash env (sa_password item) s1))
             (\<lambda>s2 h.
               (on_store (upsert_user
                  \<lparr>au_id = user_id, au_username = username, au_password_hash = h,
                   au_role = ''superadmin'', au_enabled = True,
                   au_created_at = (case found of Some u \<Rightarrow> au_created_at u | None \<Rightarrow> ae_now env),
                   au_updated_at = ae_now env,
                   au_last_login_at = (case found of Some u \<Rightarrow> au_last_login_at u | None \<Rightarrow> None),
                   au_configured = True, au_scopes = []\<rparr>) s2,
                Inr ())))"

fun sync_superadmins :: "auth_env \<Rightarrow> superadmin_config list \<Rightarrow> auth_state \<Rightarrow> unit auth_step" where
  "sync_superadmins env [] s = (s, Inr ())"
| "sync_superadmins env (item # items) s =
     auth_bind (sync_superadmin env item s) (\<lambda>s1 _. sync_superadmins env items s1)"

definition sync_configured_superadmins :: "auth_env \<Rightarrow> auth_state \<Rightarrow> unit auth_step" where
  "sync_configured_superadmins env s = sync_superadmins env (acf_superadmins (ae_config env)) s"

end
