(* ===== verification/AuthSteps.thy ===== *)
theory AuthSteps
  imports AuthService
begin

text \<open>
  The authentication service as a transition system. \<open>auth_micro\<close> is the abstract specification of what
  a request may do to the state: a short list of changes, each with its guard, under the authority of
  the caller (\<open>adm\<close>: it holds \<open>users:manage\<close>; \<open>self\<close>: its own user id). Every operation of the service
  refines it: what it does is a sequence of such changes (the lemmas \<open>*_steps\<close>). The invariant and the
  safety properties are then proved on the changes only.
\<close>

section \<open>Changes\<close>

text \<open>An account: a known role, known scopes; a configured one is an enabled superadmin.\<close>

definition user_ok :: "auth_user \<Rightarrow> bool" where
  "user_ok u \<longleftrightarrow>
     au_role u \<in> set auth_roles \<and> scopes_ok (au_scopes u) \<and>
     (au_configured u \<longrightarrow> au_role u = ''superadmin'' \<and> au_enabled u \<and> au_scopes u = [])"

inductive auth_micro :: "auth_env \<Rightarrow> bool \<Rightarrow> string option \<Rightarrow> auth_state \<Rightarrow> auth_state \<Rightarrow> bool"
  for env adm self where
  Drawn: "auth_micro env adm self s (s\<lparr>sv_drawn := Suc (sv_drawn s)\<rparr>)"
| Trail: "auth_micro env adm self s (on_store (append_audit_event (audit_event i ty n p)) s)"
| Failures: "auth_micro env adm self s (on_store (\<lambda>st. st\<lparr>as_login_failures := fs st\<rparr>) s)"
| TouchUser: "u \<in> set (as_users (sv_store s)) \<Longrightarrow>
    auth_micro env adm self s
      (on_store (upsert_user (u\<lparr>au_last_login_at := l, au_updated_at := n\<rparr>)) s)"
| SetPassword: "u \<in> set (as_users (sv_store s)) \<Longrightarrow> \<not> au_configured u \<Longrightarrow>
    adm \<or> self = Some (au_id u) \<Longrightarrow>
    auth_micro env adm self s
      (on_store (upsert_user (u\<lparr>au_password_hash := h, au_updated_at := n\<rparr>)) s)"
| SetRights: "u \<in> set (as_users (sv_store s)) \<Longrightarrow> adm \<Longrightarrow> role \<in> set auth_roles \<Longrightarrow>
    scopes_ok scopes \<Longrightarrow>
    au_configured u \<longrightarrow> role = ''superadmin'' \<and> scopes = [] \<and> enabled \<Longrightarrow>
    auth_micro env adm self s
      (on_store (upsert_user (u\<lparr>au_role := role, au_scopes := scopes, au_enabled := enabled,
         au_updated_at := n\<rparr>)) s)"
| NewUser: "adm \<Longrightarrow> \<not> list_ex (same_username (au_username u)) (as_users (sv_store s)) \<Longrightarrow>
    au_id u = ''usr_'' @ ae_fresh env i \<Longrightarrow> sv_drawn s \<le> i \<Longrightarrow> i < k \<Longrightarrow> user_ok u \<Longrightarrow>
    auth_micro env adm self s (on_store (upsert_user u) (s\<lparr>sv_drawn := k\<rparr>))"
| Configure: "adm \<Longrightarrow> u \<in> set (as_users (sv_store s)) \<Longrightarrow> au_id v = au_id u \<Longrightarrow>
    str_lower (au_username v) = str_lower (au_username u) \<Longrightarrow> user_ok v \<Longrightarrow> au_configured v \<Longrightarrow>
    auth_micro env adm self s (on_store (upsert_user v) s)"
| NewDevice: "dv_id d = ''dev_'' @ ae_fresh env (sv_drawn s) \<Longrightarrow> dv_revoked_at d = None \<Longrightarrow>
    auth_micro env adm self s (on_store (create_device d) (s\<lparr>sv_drawn := Suc (sv_drawn s)\<rparr>))"
| TouchDevice: "d \<in> set (as_devices (sv_store s)) \<Longrightarrow> dv_revoked_at d = None \<Longrightarrow>
    auth_micro env adm self s (on_store (update_device (d\<lparr>dv_last_seen_at := l\<rparr>)) s)"
| RevokeDevice: "d \<in> set (as_devices (sv_store s)) \<Longrightarrow>
    auth_micro env adm self s (on_store (update_device (d\<lparr>dv_revoked_at := Some n\<rparr>)) s)"
| NewSession: "u \<in> set (as_users (sv_store s)) \<Longrightarrow> au_enabled u \<Longrightarrow>
    d \<in> set (as_devices (sv_store s)) \<Longrightarrow> dv_revoked_at d = None \<Longrightarrow>
    auth_micro env adm self s (fst (create_session env u d s))"
| KillRefresh: "t \<in> set (as_refresh_tokens (sv_store s)) \<Longrightarrow>
    auth_micro env adm self s (on_store (record_refresh_token (t\<lparr>tok_revoked_at := Some n\<rparr>)) s)"
| KillAccess: "t \<in> set (as_access_tokens (sv_store s)) \<Longrightarrow>
    auth_micro env adm self s (on_store (record_access_token (t\<lparr>tok_revoked_at := Some n\<rparr>)) s)"
| RevokeRefresh: "auth_micro env adm self s (on_store (revoke_refresh_tokens rsel n) s)"
| RevokeAccess: "auth_micro env adm self s (on_store (revoke_access_tokens asel n) s)"

abbreviation auth_steps ::
  "auth_env \<Rightarrow> bool \<Rightarrow> string option \<Rightarrow> auth_state \<Rightarrow> auth_state \<Rightarrow> bool" where
  "auth_steps env adm self \<equiv> rtranclp (auth_micro env adm self)"

named_theorems auth_moves \<open>a sequence of changes, extended by one operation on the state\<close>

lemma steps_then: "auth_steps env adm self s t \<Longrightarrow> auth_micro env adm self t u \<Longrightarrow>
    auth_steps env adm self s u"
  by (rule rtranclp.rtrancl_into_rtrancl)

lemma micro_mono:
  "auth_micro env adm self s t \<Longrightarrow> (adm \<Longrightarrow> adm') \<Longrightarrow> self = None \<or> self = self' \<Longrightarrow>
   auth_micro env adm' self' s t"
  by (induction rule: auth_micro.induct) (auto intro: auth_micro.intros)

lemma steps_mono:
  assumes "auth_steps env adm self s t" and "adm \<Longrightarrow> adm'" and "self = None \<or> self = self'"
  shows "auth_steps env adm' self' s t"
  using assms(1)
proof (induction rule: rtranclp_induct)
  case base
  show ?case by simp
next
  case (step t u)
  show ?case by (rule steps_then[OF step.IH micro_mono[OF step.hyps(2) assms(2,3)]])
qed

lemma draw_steps [auth_moves]:
  "auth_steps env adm self s t \<Longrightarrow> auth_steps env adm self s (snd (draw env t))"
  unfolding draw_def by (auto intro: steps_then Drawn)

lemma trail_steps:
  "auth_steps env adm self s t \<Longrightarrow> auth_steps env adm self s (on_store (append_audit_event (audit_event i ty n p)) t)"
  by (auto intro: steps_then Trail)

lemma audit_steps [auth_moves]:
  "auth_steps env adm self s t \<Longrightarrow> auth_steps env adm self s (audit env ev p t)"
  unfolding audit_def Let_def split_beta by (intro trail_steps draw_steps)

lemma failure_steps:
  assumes "auth_steps env adm self s t"
  shows "auth_steps env adm self s (on_store (delete_old_login_failures since) t)"
    and "auth_steps env adm self s (on_store (record_login_failure f) t)"
    and "auth_steps env adm self s (on_store (clear_login_failures name source) t)"
  unfolding delete_old_login_failures_def record_login_failure_def clear_login_failures_def
  using assms
  by (auto intro: steps_then Failures[of env adm self t "\<lambda>st. filter _ (as_login_failures st)"]
      Failures[of env adm self t "\<lambda>st. filter _ (as_login_failures st) @ _"])

lemma rate_limit_steps [auth_moves]:
  "auth_steps env adm self s t \<Longrightarrow>
   auth_steps env adm self s (fst (check_login_rate_limit env name source t))"
  unfolding check_login_rate_limit_def Let_def
  by (auto intro: audit_steps failure_steps)

lemma failed_login_steps [auth_moves]:
  "auth_steps env adm self s t \<Longrightarrow> auth_steps env adm self s (record_failed_login env name source t)"
  "auth_steps env adm self s t \<Longrightarrow> auth_steps env adm self s (clear_failed_login name source t)"
  unfolding record_failed_login_def clear_failed_login_def Let_def split_beta
  by (intro failure_steps draw_steps; assumption)+

lemma revoke_steps [auth_moves]:
  "auth_steps env adm self s t \<Longrightarrow>
   auth_steps env adm self s (on_store (revoke_refresh_tokens rsel n) t)"
  "auth_steps env adm self s t \<Longrightarrow>
   auth_steps env adm self s (on_store (revoke_access_tokens asel n) t)"
  "auth_steps env adm self s t \<Longrightarrow> auth_steps env adm self s (revoke_device_access env u d t)"
  unfolding revoke_device_access_def
  by (auto intro: steps_then RevokeRefresh RevokeAccess)

lemma on_store_comp: "on_store (\<lambda>st. f (g st)) s = on_store f (on_store g s)"
  by (simp add: on_store_def)

lemma revoke_user_steps [auth_moves]:
  "auth_steps env adm self s t \<Longrightarrow> auth_steps env adm self s (snd (revoke_user_sessions env u t))"
  unfolding revoke_user_sessions_def snd_conv on_store_comp by (intro revoke_steps)

section \<open>Operations are sequences of changes\<close>

lemma find_set: "List.find p xs = Some x \<Longrightarrow> x \<in> set xs"
  by (simp add: find_SomeD)

lemma found_in_store:
  "get_user_by_id i st = Some u \<Longrightarrow> u \<in> set (as_users st)"
  "get_user_by_username n st = Some u \<Longrightarrow> u \<in> set (as_users st)"
  "get_device d st = Some v \<Longrightarrow> v \<in> set (as_devices st)"
  "get_refresh_token_by_hash h st = Some t \<Longrightarrow> t \<in> set (as_refresh_tokens st)"
  "get_access_token_by_hash h st = Some t \<Longrightarrow> t \<in> set (as_access_tokens st)"
  unfolding get_user_by_id_def get_user_by_username_def get_device_def
    get_refresh_token_by_hash_def get_access_token_by_hash_def token_by_hash_def
  by (drule find_set, assumption)+

lemma require_user_Inr: "require_user i st = Inr u \<Longrightarrow> u \<in> set (as_users st) \<and> au_id u = i"
  by (auto simp: require_user_def get_user_by_id_def dest: find_SomeD split: option.splits)

lemma require_scopes_Inr: "require_scopes (Some p) scopes = Inr q \<Longrightarrow> q = p \<and> list_all (has_scope p) scopes"
  by (auto simp: require_scopes_def filter_empty_conv list_all_iff split: if_splits)

lemma upsert_member: "u \<in> set (as_users st) \<Longrightarrow> au_username v = au_username u \<Longrightarrow>
    v \<in> set (as_users (upsert_user v st))"
  by (auto simp: upsert_user_def Let_def same_username_def list_ex_iff image_iff)

lemma device_member: "d \<in> set (as_devices (create_device d st))" "d \<in> set (as_devices (update_device d st))"
  by (simp_all add: create_device_def update_device_def)

lemma check_bind_cases:
  "(\<And>e. r = Inl e \<Longrightarrow> P (s, Inl e)) \<Longrightarrow> (\<And>x. r = Inr x \<Longrightarrow> P (f s x)) \<Longrightarrow> P (check s r f)"
  by (cases r) simp_all


lemma session_steps:
  assumes "auth_steps env adm self s t" "u \<in> set (as_users (sv_store t))" "au_enabled u"
    "d \<in> set (as_devices (sv_store t))" "dv_revoked_at d = None"
  shows "auth_steps env adm self s (fst (create_session env u d t))"
  by (rule steps_then[OF assms(1) NewSession[OF assms(2-5)]])

lemma touch_user_steps:
  "auth_steps env adm self s t \<Longrightarrow> u \<in> set (as_users (sv_store t)) \<Longrightarrow>
   auth_steps env adm self s (on_store (upsert_user (u\<lparr>au_last_login_at := l, au_updated_at := n\<rparr>)) t)"
  by (rule steps_then[OF _ TouchUser])

lemma set_password_steps:
  "auth_steps env adm self s t \<Longrightarrow> u \<in> set (as_users (sv_store t)) \<Longrightarrow> \<not> au_configured u \<Longrightarrow>
   adm \<or> self = Some (au_id u) \<Longrightarrow>
   auth_steps env adm self s (on_store (upsert_user (u\<lparr>au_password_hash := h, au_updated_at := n\<rparr>)) t)"
  by (rule steps_then[OF _ SetPassword])

lemma draw_hash_steps:
  "auth_steps env adm self s t \<Longrightarrow> auth_steps env adm self s (fst (draw_hash env p t))"
  unfolding draw_hash_def fst_conv by (rule steps_then[OF _ Drawn])

lemma draw_hash_store: "sv_store (fst (draw_hash env p t)) = sv_store t"
  by (simp add: draw_hash_def)

text \<open>What the parts that precede a change leave alone.\<close>

lemma keep_accounts [simp]:
  "as_users (sv_store (audit env ev p t)) = as_users (sv_store t)"
  "as_devices (sv_store (audit env ev p t)) = as_devices (sv_store t)"
  "as_users (sv_store (fst (check_login_rate_limit env name source t))) = as_users (sv_store t)"
  "as_devices (sv_store (fst (check_login_rate_limit env name source t))) = as_devices (sv_store t)"
  "as_users (sv_store (clear_failed_login name source t)) = as_users (sv_store t)"
  "as_devices (sv_store (clear_failed_login name source t)) = as_devices (sv_store t)"
  "as_users (sv_store (record_failed_login env name source t)) = as_users (sv_store t)"
  "as_devices (sv_store (record_failed_login env name source t)) = as_devices (sv_store t)"
  by (simp_all add: audit_def on_store_def draw_def append_audit_event_def Let_def
      check_login_rate_limit_def clear_failed_login_def record_failed_login_def
      clear_login_failures_def record_login_failure_def delete_old_login_failures_def)

lemma new_device_steps:
  "auth_steps env adm self s t \<Longrightarrow> dv_id d = ''dev_'' @ fst (draw env t) \<Longrightarrow> dv_revoked_at d = None \<Longrightarrow>
   auth_steps env adm self s (on_store (create_device d) (snd (draw env t)))"
  unfolding draw_def fst_conv snd_conv by (rule steps_then[OF _ NewDevice])

lemma admit_login_steps:
  assumes t: "auth_steps env adm self s t" and u: "u \<in> set (as_users (sv_store t))" "au_enabled u"
  shows "auth_steps env adm self s (fst (admit_login env u label ip t))"
proof -
  define v where "v = u\<lparr>au_last_login_at := Some (ae_now env), au_updated_at := ae_now env\<rparr>"
  define t1 where "t1 = on_store (upsert_user v) t"
  have t1: "auth_steps env adm self s t1"
    unfolding t1_def v_def by (rule touch_user_steps[OF t u(1)])
  have v: "v \<in> set (as_users (sv_store t1))"
    unfolding t1_def on_store_def using upsert_member[OF u(1), of v] by (simp add: v_def)
  have "auth_steps env adm self s
      (fst (create_session env v d (on_store (create_device d) (snd (draw env t1)))))"
    if "dv_id d = ''dev_'' @ fst (draw env t1)" "dv_revoked_at d = None" for d
    using new_device_steps[OF t1 that] v u(2) that(2)
    by (intro session_steps) (simp_all add: on_store_def create_device_def draw_def v_def)
  then show ?thesis
    unfolding admit_login_def Let_def split_beta fst_conv
    by (intro audit_steps) (simp add: t1_def v_def)
qed

lemma reject_login_steps:
  "auth_steps env adm self s t \<Longrightarrow> auth_steps env adm self s (reject_login env name source ev p t)"
  unfolding reject_login_def by (intro audit_steps failed_login_steps)

lemma password_match_Some:
  "password_match env name password st = Inr (Some u) \<Longrightarrow> u \<in> set (as_users st)"
  by (auto simp: password_match_def res_bind_Inr_iff intro: found_in_store split: option.splits if_splits)

lemma login_steps: "auth_steps env adm self s (fst (login env name password label ip s))"
proof -
  let ?source = "if ip = [] then ''unknown'' else ip"
  obtain t r where lim: "check_login_rate_limit env (str_strip name) ?source s = (t, r)" by force
  have t: "auth_steps env adm self s t"
    using rate_limit_steps[of env adm self s s "str_strip name" ?source] lim by simp
  have admit: "auth_steps env adm self s
      (fst (admit_login env u label address (clear_failed_login (str_strip name) source t)))"
    if "password_match env (str_strip name) password (sv_store t) = Inr (Some u)" "au_enabled u"
    for u source address
    using password_match_Some[OF that(1)] that(2)
    by (intro admit_login_steps failed_login_steps t) simp_all
  show ?thesis
    unfolding login_def Let_def lim
    by (cases r; cases "password_match env (str_strip name) password (sv_store t)")
      (auto simp: split_beta intro: t reject_login_steps[OF t] admit split: option.split)
qed


lemma refresh_subject_Some:
  "refresh_subject env token st = Some (t, u, d) \<Longrightarrow>
   get_refresh_token_by_hash (token_hash env token) st = Some t \<and> tok_revoked_at t = None \<and>
   ae_now env < tok_expires_at t \<and> get_user_by_id (tok_user_id t) st = Some u \<and> au_enabled u \<and>
   get_device (tok_device_id t) st = Some d \<and> dv_revoked_at d = None"
  by (auto simp: refresh_subject_def split: option.splits if_splits)

lemma refresh_session_steps: "auth_steps env adm self s (fst (refresh_session env token s))"
proof (cases "refresh_subject env token (sv_store s)")
  case None
  then show ?thesis by (simp add: refresh_session_def)
next
  case (Some found)
  obtain t u d where found: "found = (t, u, d)" by (cases found) auto
  note parts = refresh_subject_Some[OF Some[unfolded found]]
  let ?s1 = "on_store (record_refresh_token (t\<lparr>tok_revoked_at := Some (ae_now env)\<rparr>)) s"
  let ?d = "d\<lparr>dv_last_seen_at := Some (ae_now env)\<rparr>"
  have members: "t \<in> set (as_refresh_tokens (sv_store s))" "u \<in> set (as_users (sv_store s))"
      "d \<in> set (as_devices (sv_store s))"
    using parts found_in_store by blast+
  have "auth_steps env adm self s ?s1"
    by (rule steps_then[OF rtranclp.rtrancl_refl KillRefresh[OF members(1)]])
  moreover have "auth_micro env adm self ?s1 (on_store (update_device ?d) ?s1)"
    using members(3) parts by (intro TouchDevice) (simp_all add: on_store_def record_refresh_token_def)
  ultimately have "auth_steps env adm self s (on_store (update_device ?d) ?s1)"
    by (rule steps_then)
  then have "auth_steps env adm self s
      (fst (create_session env u ?d (on_store (update_device ?d) ?s1)))"
    by (rule session_steps)
      (use members parts in \<open>simp_all add: on_store_def record_refresh_token_def update_device_def\<close>)
  then show ?thesis
    by (simp add: refresh_session_def Some found Let_def split_beta audit_steps)
qed

lemma logout_steps: "auth_steps env adm self s (logout env token s)"
  by (auto simp: logout_def intro!: audit_steps revoke_steps
      intro: steps_then[OF rtranclp.rtrancl_refl KillRefresh] found_in_store split: option.split)

lemma authenticate_steps: "auth_steps env adm self s (fst (authenticate_access_token env token s))"
proof -
  have "auth_steps env adm self s
      (on_store (record_access_token (t\<lparr>tok_revoked_at := Some (ae_now env)\<rparr>)) s)"
    if "get_access_token_by_hash h (sv_store s) = Some t" for t h
    by (rule steps_then[OF rtranclp.rtrancl_refl KillAccess[OF found_in_store(5)[OF that]]])
  then show ?thesis
    by (auto simp: authenticate_access_token_def Let_def split: option.split)
qed

lemma bootstrap_steps:
  "auth_steps env adm self s (fst (snd (bootstrap_token env issue caller ttl r s)))"
  by (auto simp: bootstrap_token_def intro: audit_steps split: sum.split prod.split)

text \<open>Recording a revoked copy of a record keeps the other records of the list.\<close>

lemma revoke_each_steps:
  assumes "auth_steps env adm self s (t\<lparr>sv_store := st\<rparr>)"
    and "\<forall>x \<in> set ts. x \<in> set (as_refresh_tokens st)"
    and "distinct (map tok_id ts)" and "distinct (map tok_token_hash ts)"
  shows "auth_steps env adm self s (t\<lparr>sv_store := snd (revoke_each n current ts st)\<rparr>)"
  using assms
proof (induction ts arbitrary: st)
  case Nil
  then show ?case by simp
next
  case (Cons x ts)
  let ?st = "record_refresh_token (x\<lparr>tok_revoked_at := Some n\<rparr>) st"
  have "auth_steps env adm self s (t\<lparr>sv_store := ?st\<rparr>)"
  proof (rule steps_then[OF Cons.prems(1)])
    show "auth_micro env adm self (t\<lparr>sv_store := st\<rparr>) (t\<lparr>sv_store := ?st\<rparr>)"
      using KillRefresh[of x "t\<lparr>sv_store := st\<rparr>" env adm self n] Cons.prems(2)
      by (simp add: on_store_def)
  qed
  moreover have "\<forall>y \<in> set ts. y \<in> set (as_refresh_tokens ?st)"
    using Cons.prems by (auto simp: record_refresh_token_def put_token_def image_iff)
  ultimately show ?case
    using Cons.IH[of ?st] Cons.IH[of st] Cons.prems by (auto simp: Let_def split_beta)
qed


section \<open>The invariant\<close>

text \<open>Usernames are unique up to case; ids, device ids and token hashes are unique and were drawn
  before; roles and scopes are known ones; a configured account is an enabled superadmin.\<close>

definition drawn_before :: "auth_env \<Rightarrow> nat \<Rightarrow> string \<Rightarrow> string \<Rightarrow> bool" where
  "drawn_before env n prefix_text x \<longleftrightarrow> list_ex (\<lambda>i. x = prefix_text @ ae_fresh env i) [0..<n]"

definition tokens_ok :: "auth_env \<Rightarrow> nat \<Rightarrow> string \<Rightarrow> token_record list \<Rightarrow> bool" where
  "tokens_ok env n kind ts \<longleftrightarrow>
     hashes_distinct ts \<and> distinct (map tok_id ts) \<and>
     list_all (\<lambda>t. drawn_before env n kind (tok_id t) \<and>
       list_ex (\<lambda>i. tok_token_hash t = token_hash env (kind @ ae_fresh env i)) [0..<n]) ts"

definition auth_wf :: "auth_env \<Rightarrow> auth_state \<Rightarrow> bool" where
  "auth_wf env s \<longleftrightarrow>
     (let st = sv_store s; n = sv_drawn s
      in distinct (map (\<lambda>u. str_lower (au_username u)) (as_users st)) \<and>
         distinct (map au_id (as_users st)) \<and> list_all user_ok (as_users st) \<and>
         list_all (\<lambda>u. drawn_before env n ''usr_'' (au_id u)) (as_users st) \<and>
         distinct (map dv_id (as_devices st)) \<and>
         list_all (\<lambda>d. drawn_before env n ''dev_'' (dv_id d)) (as_devices st) \<and>
         tokens_ok env n ''rt_'' (as_refresh_tokens st) \<and>
         tokens_ok env n ''at_'' (as_access_tokens st))"

text \<open>Random texts do not repeat, and the keyed hash does not collide on them.\<close>

definition no_collisions :: "auth_env \<Rightarrow> bool" where
  "no_collisions env \<longleftrightarrow> inj (ae_fresh env) \<and> inj (token_hash env)"

lemma drawn_before_mono: "drawn_before env n k x \<Longrightarrow> n \<le> m \<Longrightarrow> drawn_before env m k x"
  by (auto simp: drawn_before_def list_ex_iff)

lemma drawn_before_new: "i < n \<Longrightarrow> drawn_before env n k (k @ ae_fresh env i)"
  by (auto simp: drawn_before_def list_ex_iff)

lemmas drawn_before_literal [simp] =
  drawn_before_new[where k = "''usr_''", simplified]
  drawn_before_new[where k = "''dev_''", simplified]

lemma not_drawn: "no_collisions env \<Longrightarrow> n \<le> i \<Longrightarrow> \<not> drawn_before env n k (k @ ae_fresh env i)"
  by (auto simp: drawn_before_def list_ex_iff no_collisions_def dest: injD)

lemma not_drawn_eq: "no_collisions env \<Longrightarrow> n \<le> i \<Longrightarrow> drawn_before env n k x \<Longrightarrow> x \<noteq> k @ ae_fresh env i"
  using not_drawn by blast

lemma tokens_ok_mono: "tokens_ok env n k ts \<Longrightarrow> n \<le> m \<Longrightarrow> tokens_ok env m k ts"
  unfolding tokens_ok_def list_all_iff list_ex_iff using drawn_before_mono[of env n k _ m] by fastforce

lemma tokens_ok_revoke [simp]: "tokens_ok env n k (map (revoke_token p m) ts) \<longleftrightarrow> tokens_ok env n k ts"
  by (simp add: tokens_ok_def comp_def list_all_iff)

lemma upsert_member_lower:
  "u \<in> set (as_users st) \<Longrightarrow> str_lower (au_username v) = str_lower (au_username u) \<Longrightarrow>
   v \<in> set (as_users (upsert_user v st))"
  by (auto simp: upsert_user_def Let_def same_username_def list_ex_iff image_iff)

lemma distinct_put_token:
  "distinct (map tok_id ts) \<Longrightarrow> distinct (map tok_id (put_token t ts))"
  by (auto simp: put_token_def distinct_map intro: inj_on_subset)

lemma tokens_ok_put:
  assumes "tokens_ok env n k ts"
    and "drawn_before env n k (tok_id t)"
    and "list_ex (\<lambda>i. tok_token_hash t = token_hash env (k @ ae_fresh env i)) [0..<n]"
  shows "tokens_ok env n k (put_token t ts)"
proof -
  have "set (put_token t ts) \<subseteq> insert t (set ts)" by (auto simp: put_token_def)
  then show ?thesis
    using assms distinct_put_token[of ts t] unfolding tokens_ok_def list_all_iff by auto
qed

lemma tokens_ok_kill:
  "tokens_ok env n k ts \<Longrightarrow> t \<in> set ts \<Longrightarrow> tokens_ok env n k (put_token (t\<lparr>tok_revoked_at := r\<rparr>) ts)"
  by (rule tokens_ok_put) (auto simp: tokens_ok_def list_all_iff)

text \<open>Replacing an account by one of the same name and id.\<close>

lemma upsert_same:
  assumes "distinct (map (\<lambda>u. str_lower (au_username u)) (as_users st))"
    and "u \<in> set (as_users st)" and "str_lower (au_username v) = str_lower (au_username u)"
  shows "as_users (upsert_user v st) = map (\<lambda>w. if w = u then v else w) (as_users st)"
proof -
  have "same_username (au_username v) w \<longleftrightarrow> w = u" if "w \<in> set (as_users st)" for w
    using assms that by (auto simp: same_username_def distinct_map inj_on_def)
  then show ?thesis
    using assms(2) by (auto simp: upsert_user_def Let_def list_ex_iff same_username_def assms(3))
qed

lemma map_replace_field:
  "f v = f u \<Longrightarrow> map f (map (\<lambda>w. if w = u then v else w) xs) = map f xs"
  by (induction xs) auto

lemma upsert_frame [simp]:
  "as_devices (upsert_user u st) = as_devices st"
  "as_refresh_tokens (upsert_user u st) = as_refresh_tokens st"
  "as_access_tokens (upsert_user u st) = as_access_tokens st"
  by (simp_all add: upsert_user_def Let_def)

lemma auth_wf_upsert:
  assumes wf: "auth_wf env s" and u: "u \<in> set (as_users (sv_store s))"
    and v: "str_lower (au_username v) = str_lower (au_username u)" "au_id v = au_id u" "user_ok v"
  shows "auth_wf env (on_store (upsert_user v) s)"
proof -
  let ?us = "map (\<lambda>w. if w = u then v else w) (as_users (sv_store s))"
  have us: "as_users (upsert_user v (sv_store s)) = ?us"
    using wf u v(1) by (intro upsert_same) (auto simp: auth_wf_def Let_def)
  have "distinct (map (\<lambda>u. str_lower (au_username u)) ?us)" "distinct (map au_id ?us)"
    using wf v unfolding auth_wf_def Let_def
    by (simp_all only: map_replace_field[where f = "\<lambda>u. str_lower (au_username u)"]
        map_replace_field[where f = au_id])
  moreover have "list_all user_ok ?us"
    "list_all (\<lambda>u. drawn_before env (sv_drawn s) ''usr_'' (au_id u)) ?us"
    using wf v u by (auto simp: auth_wf_def Let_def list_all_iff)
  ultimately show ?thesis
    using wf by (simp add: auth_wf_def Let_def on_store_def us del: map_map)
qed


lemma auth_wf_add_user:
  assumes wf: "auth_wf env s" and fresh: "no_collisions env"
    and new: "\<not> list_ex (same_username (au_username u)) (as_users (sv_store s))"
    and i: "au_id u = ''usr_'' @ ae_fresh env i" "sv_drawn s \<le> i" "i < k" and ok: "user_ok u"
  shows "auth_wf env (on_store (upsert_user u) (s\<lparr>sv_drawn := k\<rparr>))"
proof -
  let ?us = "as_users (sv_store s)" and ?n = "sv_drawn s"
  have nk: "?n \<le> k" using i by simp
  have "map (\<lambda>w. if same_username (au_username u) w then u else w) ?us = ?us"
    using new by (intro map_idI) (auto simp: list_ex_iff)
  then have us: "as_users (upsert_user u (sv_store s)) = ?us @ [u]"
    using new by (simp add: upsert_user_def Let_def)
  have ids: "list_all (\<lambda>w. drawn_before env ?n ''usr_'' (au_id w)) ?us"
    using wf by (simp add: auth_wf_def Let_def)
  have "au_id u \<notin> au_id ` set ?us"
  proof
    assume "au_id u \<in> au_id ` set ?us"
    then have "drawn_before env ?n ''usr_'' (au_id u)" using ids by (auto simp: list_all_iff)
    then show False using not_drawn[OF fresh i(2)] unfolding i(1) by blast
  qed
  moreover have "str_lower (au_username u) \<notin> (\<lambda>w. str_lower (au_username w)) ` set ?us"
    using new by (auto simp: list_ex_iff same_username_def)
  moreover have "list_all (\<lambda>w. drawn_before env k ''usr_'' (au_id w)) (?us @ [u])"
    using ids drawn_before_mono[OF _ nk] i(1,3) by (auto simp: list_all_iff)
  moreover have "list_all (\<lambda>d. drawn_before env k ''dev_'' (dv_id d)) (as_devices (sv_store s))"
    using wf drawn_before_mono[OF _ nk] by (auto simp: auth_wf_def Let_def list_all_iff)
  moreover have "tokens_ok env k ''rt_'' (as_refresh_tokens (sv_store s))"
    "tokens_ok env k ''at_'' (as_access_tokens (sv_store s))"
    using wf tokens_ok_mono[OF _ nk] by (auto simp: auth_wf_def Let_def)
  ultimately show ?thesis
    using wf ok by (simp add: auth_wf_def Let_def on_store_def us)
qed

lemma auth_wf_drawn: "auth_wf env s \<Longrightarrow> sv_drawn s \<le> k \<Longrightarrow> auth_wf env (s\<lparr>sv_drawn := k\<rparr>)"
  using drawn_before_mono[of env "sv_drawn s" _ _ k] tokens_ok_mono[of env "sv_drawn s" _ _ k]
  by (auto simp: auth_wf_def Let_def list_all_iff)

lemma auth_wf_store:
  "auth_wf env s \<Longrightarrow> as_users (f (sv_store s)) = as_users (sv_store s) \<Longrightarrow>
   as_devices (f (sv_store s)) = as_devices (sv_store s) \<Longrightarrow>
   tokens_ok env (sv_drawn s) ''rt_'' (as_refresh_tokens (f (sv_store s))) \<Longrightarrow>
   tokens_ok env (sv_drawn s) ''at_'' (as_access_tokens (f (sv_store s))) \<Longrightarrow>
   auth_wf env (on_store f s)"
  by (simp add: auth_wf_def Let_def on_store_def)

lemma auth_wf_parts:
  assumes "auth_wf env s"
  shows "tokens_ok env (sv_drawn s) ''rt_'' (as_refresh_tokens (sv_store s))"
    and "tokens_ok env (sv_drawn s) ''at_'' (as_access_tokens (sv_store s))"
    and "distinct (map dv_id (as_devices (sv_store s)))"
    and "list_all (\<lambda>d. drawn_before env (sv_drawn s) ''dev_'' (dv_id d)) (as_devices (sv_store s))"
    and "list_all user_ok (as_users (sv_store s))"
    and "distinct (map (\<lambda>u. str_lower (au_username u)) (as_users (sv_store s)))"
    and "distinct (map au_id (as_users (sv_store s)))"
  using assms by (simp_all add: auth_wf_def Let_def)

lemma auth_wf_device:
  assumes wf: "auth_wf env s" and "drawn_before env (sv_drawn s) ''dev_'' (dv_id d)"
  shows "auth_wf env (on_store (update_device d) s)" and "auth_wf env (on_store (create_device d) s)"
  using assms
  by (auto simp: auth_wf_def Let_def on_store_def update_device_def create_device_def list_all_iff
      distinct_map intro: inj_on_subset)

lemma create_session_eq:
  "create_session env u d s =
     (let n = sv_drawn s; now = ae_now env;
          access = \<lparr>tok_id = ''at_'' @ ae_fresh env (n + 2), tok_user_id = au_id u,
            tok_device_id = dv_id d, tok_token_hash = token_hash env (''at_'' @ ae_fresh env n),
            tok_expires_at = now + acf_access_token_ttl_sec (ae_config env),
            tok_created_at = now, tok_revoked_at = None\<rparr>;
          refresh = \<lparr>tok_id = ''rt_'' @ ae_fresh env (n + 3), tok_user_id = au_id u,
            tok_device_id = dv_id d, tok_token_hash = token_hash env (''rt_'' @ ae_fresh env (n + 1)),
            tok_expires_at = now + acf_refresh_token_ttl_sec (ae_config env),
            tok_created_at = now, tok_revoked_at = None\<rparr>
      in (\<lparr>sv_store = record_refresh_token refresh (record_access_token access (sv_store s)),
           sv_drawn = n + 4\<rparr>,
          \<lparr>ss_access_token = ''at_'' @ ae_fresh env n,
           ss_access_expires_at = now + acf_access_token_ttl_sec (ae_config env),
           ss_refresh_token = ''rt_'' @ ae_fresh env (n + 1),
           ss_refresh_expires_at = now + acf_refresh_token_ttl_sec (ae_config env),
           ss_principal = principal_for u (Some (dv_id d)), ss_device = d\<rparr>))"
  by (simp add: create_session_def draw_def on_store_def Let_def numeral_eq_Suc)

lemma drawn_hash:
  "j < n \<Longrightarrow> list_ex (\<lambda>i. token_hash env (k @ ae_fresh env j) = token_hash env (k @ ae_fresh env i)) [0..<n]"
  by (auto simp: list_ex_iff)

lemma auth_wf_put_tokens:
  assumes wf: "auth_wf env s" and "sv_drawn s \<le> n"
    and "tok_id a = ''at_'' @ ae_fresh env ai" "tok_token_hash a = token_hash env (''at_'' @ ae_fresh env ah)"
    and "tok_id r = ''rt_'' @ ae_fresh env ri" "tok_token_hash r = token_hash env (''rt_'' @ ae_fresh env rh)"
    and "ai < n" "ah < n" "ri < n" "rh < n"
  shows "auth_wf env \<lparr>sv_store = record_refresh_token r (record_access_token a (sv_store s)), sv_drawn = n\<rparr>"
proof -
  note ok = auth_wf_parts(1,2)[OF auth_wf_drawn[OF wf assms(2)], simplified]
  have "tokens_ok env n ''rt_'' (put_token r (as_refresh_tokens (sv_store s)))"
    using ok(1) by (rule tokens_ok_put) (unfold assms, (rule drawn_before_new drawn_hash assms)+)
  moreover have "tokens_ok env n ''at_'' (put_token a (as_access_tokens (sv_store s)))"
    using ok(2) by (rule tokens_ok_put) (unfold assms, (rule drawn_before_new drawn_hash assms)+)
  ultimately show ?thesis
    using auth_wf_drawn[OF wf assms(2)]
    by (simp add: auth_wf_def Let_def record_refresh_token_def record_access_token_def)
qed

lemma auth_wf_session: "auth_wf env s \<Longrightarrow> auth_wf env (fst (create_session env u d s))"
  unfolding create_session_eq Let_def fst_conv
  by (rule auth_wf_put_tokens[of env s _ _ "sv_drawn s + 2" "sv_drawn s" _ "sv_drawn s + 3" "sv_drawn s + 1"];
      simp)

lemma store_frames [simp]:
  "as_users (append_audit_event e st) = as_users st"
  "as_devices (append_audit_event e st) = as_devices st"
  "as_refresh_tokens (append_audit_event e st) = as_refresh_tokens st"
  "as_access_tokens (append_audit_event e st) = as_access_tokens st"
  "as_users (record_refresh_token t st) = as_users st"
  "as_devices (record_refresh_token t st) = as_devices st"
  "as_access_tokens (record_refresh_token t st) = as_access_tokens st"
  "as_users (record_access_token t st) = as_users st"
  "as_devices (record_access_token t st) = as_devices st"
  "as_refresh_tokens (record_access_token t st) = as_refresh_tokens st"
  "as_users (revoke_refresh_tokens rsel n st) = as_users st"
  "as_devices (revoke_refresh_tokens rsel n st) = as_devices st"
  "as_access_tokens (revoke_refresh_tokens rsel n st) = as_access_tokens st"
  "as_users (revoke_access_tokens asel n st) = as_users st"
  "as_devices (revoke_access_tokens asel n st) = as_devices st"
  "as_refresh_tokens (revoke_access_tokens asel n st) = as_refresh_tokens st"
  by (simp_all add: append_audit_event_def record_refresh_token_def record_access_token_def
      revoke_refresh_tokens_def revoke_access_tokens_def Let_def)

lemma micro_wf:
  "auth_micro env adm self s t \<Longrightarrow> auth_wf env s \<Longrightarrow> no_collisions env \<Longrightarrow> auth_wf env t"
proof (induction rule: auth_micro.induct)
  case (Drawn s)
  then show ?case by (intro auth_wf_drawn) simp_all
next
  case (Trail s i ty n p)
  then show ?case by (intro auth_wf_store) (simp_all add: auth_wf_parts)
next
  case (Failures s fs)
  then show ?case by (intro auth_wf_store) (simp_all add: auth_wf_parts)
next
  case (TouchUser u s l n)
  then have "user_ok u" using auth_wf_parts(5) by (auto simp: list_all_iff)
  with TouchUser show ?case by (intro auth_wf_upsert[of env s u]) (simp_all add: user_ok_def)
next
  case (SetPassword u s h n)
  then have "user_ok u" using auth_wf_parts(5) by (auto simp: list_all_iff)
  with SetPassword show ?case by (intro auth_wf_upsert[of env s u]) (simp_all add: user_ok_def)
next
  case (SetRights u s role scopes enabled n)
  then show ?case by (intro auth_wf_upsert[of env s u]) (simp_all add: user_ok_def)
next
  case (NewUser u s i k)
  then show ?case by (intro auth_wf_add_user[of env s u i k]) (simp_all add: user_ok_def)
next
  case (Configure u s v)
  then show ?case by (intro auth_wf_upsert[of env s u]) simp_all
next
  case (NewDevice d s)
  then show ?case
    by (intro auth_wf_device auth_wf_drawn) (simp_all add: drawn_before_new)
next
  case (TouchDevice d s l)
  then show ?case
    using auth_wf_parts(4) by (intro auth_wf_device) (auto simp: list_all_iff)
next
  case (RevokeDevice d s n)
  then show ?case
    using auth_wf_parts(4) by (intro auth_wf_device) (auto simp: list_all_iff)
next
  case (NewSession u s d)
  then show ?case by (intro auth_wf_session)
next
  case (KillRefresh t s n)
  then show ?case
    by (intro auth_wf_store) (simp_all add: auth_wf_parts tokens_ok_kill record_refresh_token_def)
next
  case (KillAccess t s n)
  then show ?case
    by (intro auth_wf_store) (simp_all add: auth_wf_parts tokens_ok_kill record_access_token_def)
next
  case (RevokeRefresh s rsel n)
  then show ?case
    by (intro auth_wf_store) (simp_all add: auth_wf_parts revoke_refresh_tokens_def)
next
  case (RevokeAccess s asel n)
  then show ?case
    by (intro auth_wf_store) (simp_all add: auth_wf_parts revoke_access_tokens_def)
qed

lemma steps_wf:
  assumes "auth_steps env adm self s t" and "auth_wf env s" and "no_collisions env"
  shows "auth_wf env t"
  using assms(1) by (induction rule: rtranclp_induct) (auto intro: micro_wf assms)

end
