(* ===== verification/AuthRuns.thy ===== *)
theory AuthRuns
  imports AuthSteps
begin

text \<open>
  Histories of the authentication service: a request is one call of a public method with its
  arguments, a run a list of requests with the clock reading of each. Every request refines
  \<open>auth_steps\<close> under the authority of its caller, so the invariant holds along every run.
\<close>

section \<open>The administration requests are sequences of changes\<close>

lemma validate_role_Inr: "validate_role r = Inr role \<Longrightarrow> role \<in> set auth_roles"
  by (auto simp: validate_role_def Let_def split: if_splits)

lemma validate_requested_scopes_Inr: "validate_requested_scopes v = Inr scopes \<Longrightarrow> scopes_ok scopes"
  by (auto simp: validate_requested_scopes_def Let_def split: pyval.splits if_splits)

definition manages :: "auth_principal \<Rightarrow> bool" where
  "manages caller \<longleftrightarrow> has_scope caller ''users:manage''"

lemma manage_scope [simp]:
  "require_scopes (Some caller) [''users:manage''] =
     (if manages caller then Inr caller else Inl (AuthError ''forbidden''))"
  by (simp add: require_scopes_def manages_def)

lemma set_rights_steps:
  "auth_steps env adm self s t \<Longrightarrow> u \<in> set (as_users (sv_store t)) \<Longrightarrow> adm \<Longrightarrow> role \<in> set auth_roles \<Longrightarrow>
   scopes_ok scopes \<Longrightarrow> au_configured u \<longrightarrow> role = ''superadmin'' \<and> scopes = [] \<and> enabled \<Longrightarrow>
   auth_steps env adm self s
      (on_store (upsert_user (u\<lparr>au_role := role, au_scopes := scopes, au_enabled := enabled,
         au_updated_at := n\<rparr>)) t)"
  by (rule steps_then[OF _ SetRights])

lemma create_user_steps:
  "auth_steps env (manages caller) self s
     (fst (create_user env caller name password role scopes enabled s))"
proof (cases "manages caller \<and> str_strip name \<noteq> [] \<and>
    get_user_by_username (str_strip name) (sv_store s) = None")
  case False
  then show ?thesis by (auto simp: create_user_def Let_def)
next
  case True
  have new: "\<not> list_ex (same_username (str_strip name)) (as_users (sv_store s))"
    using True by (simp add: get_user_by_username_def find_None_iff list_ex_iff)
  have add: "auth_steps env (manages caller) self s
      (on_store (upsert_user u) (s\<lparr>sv_drawn := Suc (Suc (sv_drawn s))\<rparr>))"
    if "au_username u = str_strip name" "au_id u = ''usr_'' @ ae_fresh env (sv_drawn s)"
      "\<not> au_configured u" "au_role u \<in> set auth_roles" "scopes_ok (au_scopes u)" for u
    by (rule steps_then[OF rtranclp.rtrancl_refl NewUser[of _ _ _ _ "sv_drawn s"]])
      (use True new that in \<open>simp_all add: user_ok_def\<close>)
  have hashed: "auth_steps env (manages caller) self s (s\<lparr>sv_drawn := Suc (Suc (sv_drawn s))\<rparr>)"
    using draw_hash_steps[OF draw_steps[OF rtranclp.rtrancl_refl], of env "manages caller" self s password]
    by (simp add: draw_hash_def draw_def)
  show ?thesis
    using True add hashed validate_role_Inr[of role] validate_requested_scopes_Inr[of scopes]
    by (cases "validate_role role"; cases "validate_requested_scopes scopes";
        cases "validate_password (ae_config env) password";
        cases "snd (draw_hash env password (snd (draw env s)))")
      (auto simp: create_user_def Let_def draw_def draw_hash_def auth_bind_def intro!: audit_steps)
qed

lemma update_user_steps:
  assumes wf: "auth_wf env s"
  shows "auth_steps env (manages caller) self s (fst (update_user env caller i role scopes enabled s))"
proof (cases "require_user i (sv_store s)")
  case (Inl e)
  then show ?thesis by (simp add: update_user_def)
next
  case (Inr u)
  then have u: "u \<in> set (as_users (sv_store s))" using require_user_Inr by blast
  then have uok: "user_ok u" using auth_wf_parts(5)[OF wf] by (simp add: list_all_iff)
  define next_role where "next_role = (case role of None \<Rightarrow> Inr (au_role u) | Some r \<Rightarrow> validate_role r)"
  define next_scopes where
    "next_scopes = (if scopes = PNone then Inr (au_scopes u) else validate_requested_scopes scopes)"
  have r: "next_role = Inr q \<Longrightarrow> q \<in> set auth_roles" for q
    using uok validate_role_Inr by (auto simp: next_role_def user_ok_def split: option.splits)
  have sc: "next_scopes = Inr q \<Longrightarrow> scopes_ok q" for q
    using uok validate_requested_scopes_Inr by (auto simp: next_scopes_def user_ok_def split: if_splits)
  have change: "auth_steps env (manages caller) self s
      (commit_update env caller u (apply_update q p enabled n u) s)"
    if "manages caller" "q \<in> set auth_roles" "scopes_ok p" for q p n
  proof -
    have "auth_steps env (manages caller) self s (on_store (upsert_user (apply_update q p enabled n u)) s)"
      unfolding apply_update_def
      by (rule set_rights_steps[OF rtranclp.rtrancl_refl u])
        (use that in \<open>auto simp: auth_roles_def\<close>)
    then show ?thesis
      unfolding commit_update_def Let_def by (intro audit_steps) (simp add: revoke_user_steps)
  qed
  show ?thesis
    unfolding update_user_def Let_def
    using change r sc
    by (cases "manages caller"; cases next_role; cases next_scopes)
      (simp_all add: Inr flip: next_role_def next_scopes_def)
qed

lemma disable_user_steps:
  assumes wf: "auth_wf env s"
  shows "auth_steps env (manages caller) self s (fst (disable_user env caller i s))"
proof (cases "require_user i (sv_store s)")
  case (Inl e)
  then show ?thesis by (simp add: disable_user_def)
next
  case (Inr u)
  then have u: "u \<in> set (as_users (sv_store s))" using require_user_Inr by blast
  then have uok: "user_ok u" using auth_wf_parts(5)[OF wf] by (simp add: list_all_iff)
  have "u\<lparr>au_role := au_role u, au_scopes := au_scopes u, au_enabled := False, au_updated_at := n\<rparr> =
      u\<lparr>au_enabled := False, au_updated_at := n\<rparr>" for n by simp
  then have "auth_steps env (manages caller) self s
      (on_store (upsert_user (u\<lparr>au_enabled := False, au_updated_at := n\<rparr>)) s)"
    if "manages caller" "\<not> au_configured u" for n
    using set_rights_steps[OF rtranclp.rtrancl_refl u, of "manages caller" "au_role u" "au_scopes u"
        False env self n] that uok by (simp add: user_ok_def)
  then show ?thesis
    by (auto simp: disable_user_def Inr Let_def split_beta intro!: audit_steps revoke_user_steps)
qed

lemma reset_password_steps:
  "auth_steps env (manages caller) self s (fst (reset_password env caller i password s))"
proof (cases "require_user i (sv_store s)")
  case (Inl e)
  then show ?thesis by (simp add: reset_password_def)
next
  case (Inr u)
  then have u: "u \<in> set (as_users (sv_store s))" using require_user_Inr by blast
  have hashed: "auth_steps env (manages caller) self s (fst (draw_hash env password s))"
    by (rule draw_hash_steps) simp
  have "auth_steps env (manages caller) self s
      (on_store (upsert_user (u\<lparr>au_password_hash := h, au_updated_at := n\<rparr>))
        (fst (draw_hash env password s)))"
    if "manages caller" "\<not> au_configured u" for h n
    by (rule set_password_steps[OF hashed]) (use u that in \<open>simp_all add: draw_hash_store\<close>)
  then show ?thesis
    using hashed
    by (cases "validate_password (ae_config env) password"; cases "snd (draw_hash env password s)")
      (auto simp: reset_password_def Inr Let_def split_beta auth_bind_def
        intro!: audit_steps revoke_user_steps split: prod.split)
qed

lemma change_password_steps:
  assumes wf: "auth_wf env s"
  shows "auth_steps env adm (Some (pn_user_id caller)) s
    (fst (change_password env caller current new_password s))"
proof (cases "require_user (pn_user_id caller) (sv_store s)")
  case (Inl e)
  then show ?thesis
    by (cases "require_scopes (Some caller) [''self:password'']")
      (auto simp: change_password_def dest: require_scopes_Inr)
next
  case (Inr u)
  let ?self = "Some (pn_user_id caller)"
  have u: "u \<in> set (as_users (sv_store s))" and self: "au_id u = pn_user_id caller"
    using require_user_Inr[OF Inr] by simp_all
  have hashed: "auth_steps env adm ?self s (fst (draw_hash env new_password s))"
    by (rule draw_hash_steps) simp
  have after: "auth_steps env adm ?self s (snd (revoke_other_device_sessions i d n
      (on_store (upsert_user (u\<lparr>au_password_hash := h, au_updated_at := n\<rparr>))
        (fst (draw_hash env new_password s)))))"
    if "\<not> au_configured u" for h n i d
  proof -
    let ?t = "on_store (upsert_user (u\<lparr>au_password_hash := h, au_updated_at := n\<rparr>))
        (fst (draw_hash env new_password s))"
    let ?ts = "list_refresh_tokens (Some i) None (sv_store ?t)"
    have t: "auth_steps env adm ?self s ?t"
      by (rule set_password_steps[OF hashed]) (use u self that in \<open>simp_all add: draw_hash_store\<close>)
    have same: "as_refresh_tokens (sv_store ?t) = as_refresh_tokens (sv_store s)"
      by (simp add: on_store_def draw_hash_def)
    have "distinct (map tok_id (as_refresh_tokens (sv_store s)))"
      "distinct (map tok_token_hash (as_refresh_tokens (sv_store s)))"
      using auth_wf_parts(1)[OF wf] by (simp_all add: tokens_ok_def hashes_distinct_def)
    then have dist: "distinct (map tok_id ?ts)" "distinct (map tok_token_hash ?ts)"
      unfolding list_refresh_tokens_def same
      by (auto simp: distinct_map intro: inj_on_subset)
    have "auth_steps env adm ?self s (?t\<lparr>sv_store := snd (revoke_each n d ?ts (sv_store ?t))\<rparr>)"
      by (rule revoke_each_steps[OF _ _ dist]) (use t in \<open>auto simp: list_refresh_tokens_def\<close>)
    then show ?thesis
      using revoke_steps(2)[of env adm ?self s
          "?t\<lparr>sv_store := snd (revoke_each n d ?ts (sv_store ?t))\<rparr>" "(Some i, None, d)" n]
      by (simp add: revoke_other_device_sessions_def split_beta on_store_def)
  qed
  show ?thesis
    using hashed after
    by (cases "require_scopes (Some caller) [''self:password'']";
        cases "verify_password (ae_kdf env) current (au_password_hash u)";
        cases "validate_password (ae_config env) new_password";
        cases "snd (draw_hash env new_password s)")
      (auto simp: change_password_def Inr Let_def split_beta auth_bind_def
        intro!: audit_steps dest!: require_scopes_Inr split: prod.split)
qed

lemma revoke_device_steps: "auth_steps env adm self s (fst (revoke_device env caller d s))"
proof -
  have "auth_steps env adm self s (on_store (update_device (v\<lparr>dv_revoked_at := Some n\<rparr>)) s)"
    if "get_device d (sv_store s) = Some v" for v n
    by (rule steps_then[OF rtranclp.rtrancl_refl RevokeDevice[OF found_in_store(3)[OF that]]])
  then show ?thesis
    by (cases "require_scopes (Some caller) [''devices:revoke'']")
      (auto simp: revoke_device_def Let_def intro!: audit_steps revoke_steps
        dest!: require_scopes_Inr split: option.split)
qed


section \<open>The configured superadmins\<close>

lemma same_lower: "get_user_by_username name st = Some u \<Longrightarrow>
    str_lower (au_username u) = str_lower (str_strip name)"
  by (auto simp: get_user_by_username_def same_username_def dest: find_SomeD)

lemma sync_superadmin_steps:
  "auth_steps env True self s (fst (sync_superadmin env item s))"
proof (cases "str_strip (sa_username item) = []")
  case True
  then show ?thesis by (simp add: sync_superadmin_def Let_def split_beta)
next
  case False
  let ?name = "str_strip (sa_username item)"
  have hash: "auth_steps env True self s (fst (draw_hash env (sa_password item) s))"
    by (rule draw_hash_steps) simp
  have hash2: "auth_steps env True self s
      (fst (draw_hash env (sa_password item) (snd (draw env s))))"
    by (intro draw_hash_steps draw_steps) simp
  show ?thesis
  proof (cases "get_user_by_username ?name (sv_store s)")
    case None
    have new: "\<not> list_ex (same_username ?name) (as_users (sv_store s))"
      using None by (simp add: get_user_by_username_def find_None_iff list_ex_iff)
    have add: "auth_steps env True self s
        (on_store (upsert_user u) (s\<lparr>sv_drawn := Suc (Suc (sv_drawn s))\<rparr>))"
      if "au_username u = ?name" "au_id u = ''usr_'' @ ae_fresh env (sv_drawn s)" "user_ok u" for u
      by (rule steps_then[OF rtranclp.rtrancl_refl NewUser[of _ _ _ _ "sv_drawn s"]])
        (use new that in simp_all)
    show ?thesis
      using hash2 add False None
      by (cases "snd (draw_hash env (sa_password item) (snd (draw env s)))")
        (simp_all add: sync_superadmin_def Let_def draw_def draw_hash_def auth_bind_def
          user_ok_def auth_roles_def)
  next
    case (Some u)
    have u: "u \<in> set (as_users (sv_store s))" by (rule found_in_store(2)[OF Some])
    have lower: "str_lower (au_username u) = str_lower ?name" using same_lower[OF Some] by simp
    have conf: "auth_steps env True self s (on_store (upsert_user v) t)"
      if "au_id v = au_id u" "au_username v = ?name" "user_ok v" "au_configured v"
        "auth_steps env True self s t" "sv_store t = sv_store s" for v t
      by (rule steps_then[OF that(5) Configure[of _ u]]) (use that u lower in simp_all)
    show ?thesis
      using hash conf False Some conf[of _ s]
      by (cases "verify_password (ae_kdf env) (sa_password item) (au_password_hash u)";
          cases "snd (draw_hash env (sa_password item) s)")
        (simp_all add: sync_superadmin_def Let_def draw_hash_def auth_bind_def user_ok_def
          auth_roles_def split: prod.split)
  qed
qed

lemma auth_bind_fst:
  "fst (auth_bind m f) = (case snd m of Inl e \<Rightarrow> fst m | Inr x \<Rightarrow> fst (f (fst m) x))"
  by (cases m) (auto simp: auth_bind_def split: sum.split)

lemma sync_superadmins_steps:
  "auth_steps env True self s (fst (sync_superadmins env items s))"
proof (induction items arbitrary: s)
  case Nil
  then show ?case by simp
next
  case (Cons item items)
  then show ?case
    using sync_superadmin_steps[of env self s item] rtranclp_trans[of "auth_micro env True self" s]
    by (auto simp: auth_bind_fst split: sum.split)
qed

section \<open>Requests and runs\<close>

datatype auth_request =
    Restart
  | Login string string string string
  | Refresh string
  | Logout string
  | Authenticate string
  | IssueBootstrap auth_principal int "string result"
  | ChangePassword auth_principal string string
  | CreateUser auth_principal string string string pyval pyval
  | UpdateUser auth_principal string "string option" pyval "bool option"
  | DisableUser auth_principal string
  | ResetPassword auth_principal string string
  | RevokeDevice auth_principal string

fun auth_handle :: "auth_env \<Rightarrow> auth_request \<Rightarrow> auth_state \<Rightarrow> auth_state" where
  "auth_handle env Restart s = fst (sync_configured_superadmins env s)"
| "auth_handle env (Login name password label ip) s = fst (login env name password label ip s)"
| "auth_handle env (Refresh token) s = fst (refresh_session env token s)"
| "auth_handle env (Logout token) s = logout env token s"
| "auth_handle env (Authenticate token) s = fst (authenticate_access_token env token s)"
| "auth_handle env (IssueBootstrap caller ttl outcome) s =
     fst (snd (bootstrap_token env (\<lambda>_ _ r. (r, outcome)) caller ttl () s))"
| "auth_handle env (ChangePassword caller current new_password) s =
     fst (change_password env caller current new_password s)"
| "auth_handle env (CreateUser caller name password role scopes enabled) s =
     fst (create_user env caller name password role scopes enabled s)"
| "auth_handle env (UpdateUser caller i role scopes enabled) s =
     fst (update_user env caller i role scopes enabled s)"
| "auth_handle env (DisableUser caller i) s = fst (disable_user env caller i s)"
| "auth_handle env (ResetPassword caller i password) s = fst (reset_password env caller i password s)"
| "auth_handle env (RevokeDevice caller d) s = fst (revoke_device env caller d s)"

text \<open>The authority a request carries: that of the operator for a restart, of the caller otherwise.\<close>

fun request_manages :: "auth_request \<Rightarrow> bool" where
  "request_manages Restart = True"
| "request_manages (CreateUser caller _ _ _ _ _) = manages caller"
| "request_manages (UpdateUser caller _ _ _ _) = manages caller"
| "request_manages (DisableUser caller _) = manages caller"
| "request_manages (ResetPassword caller _ _) = manages caller"
| "request_manages _ = False"

fun request_self :: "auth_request \<Rightarrow> string option" where
  "request_self (ChangePassword caller _ _) = Some (pn_user_id caller)"
| "request_self _ = None"

theorem auth_handle_steps:
  "auth_wf env s \<Longrightarrow>
   auth_steps env (request_manages req) (request_self req) s (auth_handle env req s)"
  by (cases req)
    (simp_all add: sync_configured_superadmins_def sync_superadmins_steps login_steps
      refresh_session_steps logout_steps authenticate_steps bootstrap_steps change_password_steps
      create_user_steps update_user_steps disable_user_steps reset_password_steps
      revoke_device_steps)

definition auth_at :: "auth_env \<Rightarrow> int \<Rightarrow> auth_env" where
  "auth_at env now = env\<lparr>ae_now := now\<rparr>"

fun auth_run :: "auth_env \<Rightarrow> (int \<times> auth_request) list \<Rightarrow> auth_state \<Rightarrow> auth_state" where
  "auth_run env [] s = s"
| "auth_run env ((now, req) # reqs) s = auth_run env reqs (auth_handle (auth_at env now) req s)"

definition auth_start :: auth_state where
  "auth_start = \<lparr>sv_store = auth_store_empty, sv_drawn = 0\<rparr>"

lemma auth_at_simps [simp]:
  "ae_config (auth_at env n) = ae_config env" "ae_kdf (auth_at env n) = ae_kdf env"
  "ae_mac (auth_at env n) = ae_mac env" "ae_fresh (auth_at env n) = ae_fresh env"
  "ae_salt (auth_at env n) = ae_salt env" "ae_now (auth_at env n) = n"
  "token_hash (auth_at env n) = token_hash env"
  by (simp_all add: auth_at_def token_hash_def fun_eq_iff)

lemma auth_wf_at [simp]: "auth_wf (auth_at env n) s \<longleftrightarrow> auth_wf env s"
  by (simp add: auth_wf_def tokens_ok_def drawn_before_def)

lemma no_collisions_at [simp]: "no_collisions (auth_at env n) \<longleftrightarrow> no_collisions env"
  by (simp add: no_collisions_def)

lemma auth_wf_start: "auth_wf env auth_start"
  by (simp add: auth_wf_def auth_start_def auth_store_empty_def tokens_ok_def hashes_distinct_def)

lemma handle_wf: "auth_wf env s \<Longrightarrow> no_collisions env \<Longrightarrow> auth_wf env (auth_handle (auth_at env n) req s)"
  using steps_wf[OF auth_handle_steps, of "auth_at env n" s req] by simp

lemma run_wf: "auth_wf env s \<Longrightarrow> no_collisions env \<Longrightarrow> auth_wf env (auth_run env reqs s)"
  by (induction env reqs s rule: auth_run.induct) (auto intro: handle_wf)

text \<open>What every change keeps, every run keeps.\<close>

lemma run_keeps:
  assumes "\<And>n adm self t u. auth_micro (auth_at env n) adm self t u \<Longrightarrow> auth_wf env t \<Longrightarrow> P t \<Longrightarrow> P u"
    and "no_collisions env"
  shows "auth_wf env s \<Longrightarrow> P s \<Longrightarrow> P (auth_run env reqs s)"
proof (induction reqs arbitrary: s)
  case Nil
  then show ?case by simp
next
  case (Cons r reqs)
  obtain n req where r: "r = (n, req)" by force
  have "auth_wf env u \<and> P u" if "auth_steps (auth_at env n) adm self s u" for adm self u
    using that
  proof (induction rule: rtranclp_induct)
    case base
    then show ?case using Cons.prems by simp
  next
    case (step t u)
    then show ?case using micro_wf[OF step.hyps(2)] assms by auto
  qed
  then show ?case
    using auth_handle_steps[of "auth_at env n" s req] Cons by (simp add: r)
qed

end
