(* ===== verification/AuthProofs.thy ===== *)
theory AuthProofs
  imports AuthRuns
begin

text \<open>
  The properties of the authentication service, proved on the changes of \<open>auth_micro\<close> and carried to
  every run by \<open>run_keeps\<close>.
\<close>

section \<open>Dead tokens and revoked devices stay so\<close>

text \<open>The hash of a token that was issued before.\<close>

definition issued :: "auth_env \<Rightarrow> nat \<Rightarrow> string \<Rightarrow> string \<Rightarrow> bool" where
  "issued env n kind h \<longleftrightarrow> list_ex (\<lambda>i. h = token_hash env (kind @ ae_fresh env i)) [0..<n]"

lemma issued_mono: "issued env n k h \<Longrightarrow> n \<le> m \<Longrightarrow> issued env m k h"
  by (auto simp: issued_def list_ex_iff)

lemma issued_Suc [simp]: "issued env n k h \<Longrightarrow> issued env (Suc n) k h"
  by (auto intro: issued_mono)

lemma issued_at [simp]: "issued (auth_at env t) n k h \<longleftrightarrow> issued env n k h"
  by (simp add: issued_def)

lemma issued_not_new:
  "no_collisions env \<Longrightarrow> issued env n k h \<Longrightarrow> n \<le> i \<Longrightarrow> h \<noteq> token_hash env (k @ ae_fresh env i)"
  by (auto simp: issued_def list_ex_iff no_collisions_def inj_eq)

definition refresh_dead :: "auth_env \<Rightarrow> string \<Rightarrow> auth_state \<Rightarrow> bool" where
  "refresh_dead env h s \<longleftrightarrow>
     issued env (sv_drawn s) ''rt_'' h \<and> dead_record (get_refresh_token_by_hash h (sv_store s))"

definition access_dead :: "auth_env \<Rightarrow> string \<Rightarrow> auth_state \<Rightarrow> bool" where
  "access_dead env h s \<longleftrightarrow>
     issued env (sv_drawn s) ''at_'' h \<and> dead_record (get_access_token_by_hash h (sv_store s))"

lemma look_frames [simp]:
  "get_refresh_token_by_hash h (append_audit_event e st) = get_refresh_token_by_hash h st"
  "get_access_token_by_hash h (append_audit_event e st) = get_access_token_by_hash h st"
  "get_refresh_token_by_hash h (upsert_user u st) = get_refresh_token_by_hash h st"
  "get_access_token_by_hash h (upsert_user u st) = get_access_token_by_hash h st"
  "get_refresh_token_by_hash h (create_device d st) = get_refresh_token_by_hash h st"
  "get_access_token_by_hash h (create_device d st) = get_access_token_by_hash h st"
  "get_refresh_token_by_hash h (update_device d st) = get_refresh_token_by_hash h st"
  "get_access_token_by_hash h (update_device d st) = get_access_token_by_hash h st"
  "get_refresh_token_by_hash h (record_access_token t st) = get_refresh_token_by_hash h st"
  "get_access_token_by_hash h (record_refresh_token t st) = get_access_token_by_hash h st"
  "get_refresh_token_by_hash h (revoke_access_tokens asel n st) = get_refresh_token_by_hash h st"
  "get_access_token_by_hash h (revoke_refresh_tokens rsel n st) = get_access_token_by_hash h st"
  "get_refresh_token_by_hash h (st\<lparr>as_login_failures := fs\<rparr>) = get_refresh_token_by_hash h st"
  "get_access_token_by_hash h (st\<lparr>as_login_failures := fs\<rparr>) = get_access_token_by_hash h st"
  by (simp_all add: get_refresh_token_by_hash_def get_access_token_by_hash_def create_device_def
      update_device_def)

lemma on_store_sel [simp]:
  "sv_store (on_store f s) = f (sv_store s)" "sv_drawn (on_store f s) = sv_drawn s"
  by (simp_all add: on_store_def)

lemma wf_hashes:
  "auth_wf env s \<Longrightarrow> hashes_distinct (as_refresh_tokens (sv_store s))"
  "auth_wf env s \<Longrightarrow> hashes_distinct (as_access_tokens (sv_store s))"
  using auth_wf_parts(1,2) by (auto simp: tokens_ok_def)

lemma micro_refresh_dead:
  "auth_micro env adm self s t \<Longrightarrow> auth_wf env s \<Longrightarrow> no_collisions env \<Longrightarrow> refresh_dead env h s \<Longrightarrow>
   refresh_dead env h t"
proof (induction rule: auth_micro.induct)
  case (NewSession u s d)
  then have "h \<noteq> token_hash env (''rt_'' @ ae_fresh env (sv_drawn s + 1))"
    by (intro issued_not_new) (auto simp: refresh_dead_def)
  with NewSession show ?case
    by (auto simp: create_session_eq Let_def refresh_dead_def intro: issued_mono
        intro!: refresh.dead_put wf_hashes simp: wf_hashes)
next
  case (KillRefresh t s n)
  then show ?case by (auto simp: refresh_dead_def intro!: refresh.dead_put wf_hashes)
next
  case (RevokeRefresh s rsel n)
  then show ?case by (simp add: refresh_dead_def refresh.dead_revoke)
qed (auto simp: refresh_dead_def intro: issued_mono)

lemma micro_access_dead:
  "auth_micro env adm self s t \<Longrightarrow> auth_wf env s \<Longrightarrow> no_collisions env \<Longrightarrow> access_dead env h s \<Longrightarrow>
   access_dead env h t"
proof (induction rule: auth_micro.induct)
  case (NewSession u s d)
  then have "h \<noteq> token_hash env (''at_'' @ ae_fresh env (sv_drawn s))"
    by (intro issued_not_new) (auto simp: access_dead_def)
  with NewSession show ?case
    by (auto simp: create_session_eq Let_def access_dead_def intro: issued_mono
        intro!: access.dead_put wf_hashes)
next
  case (KillAccess t s n)
  then show ?case by (auto simp: access_dead_def intro!: access.dead_put wf_hashes)
next
  case (RevokeAccess s asel n)
  then show ?case by (simp add: access_dead_def access.dead_revoke)
qed (auto simp: access_dead_def intro: issued_mono)

definition device_dead :: "auth_env \<Rightarrow> string \<Rightarrow> auth_state \<Rightarrow> bool" where
  "device_dead env i s \<longleftrightarrow>
     drawn_before env (sv_drawn s) ''dev_'' i \<and>
     (\<forall>d \<in> set (as_devices (sv_store s)). dv_id d = i \<longrightarrow> dv_revoked_at d \<noteq> None)"

lemma micro_device_dead:
  "auth_micro env adm self s t \<Longrightarrow> auth_wf env s \<Longrightarrow> no_collisions env \<Longrightarrow> device_dead env i s \<Longrightarrow>
   device_dead env i t"
proof (induction rule: auth_micro.induct)
  case (NewDevice d s)
  then have "dv_id d \<noteq> i" using not_drawn_eq by (force simp: device_dead_def)
  with NewDevice show ?case
    by (auto simp: device_dead_def create_device_def intro: drawn_before_mono)
next
  case (NewSession u s d)
  then show ?case
    by (auto simp: create_session_eq Let_def device_dead_def intro: drawn_before_mono)
qed (auto simp: device_dead_def update_device_def intro: drawn_before_mono)


section \<open>Consequences for requests\<close>

lemma run_refresh_dead:
  "auth_wf env s \<Longrightarrow> no_collisions env \<Longrightarrow> refresh_dead env h s \<Longrightarrow>
   refresh_dead env h (auth_run env reqs s)"
  by (rule run_keeps[of env "refresh_dead env h"])
    (use micro_refresh_dead[of "auth_at env _" _ _ _ _ h] in \<open>auto simp: refresh_dead_def\<close>)

lemma run_access_dead:
  "auth_wf env s \<Longrightarrow> no_collisions env \<Longrightarrow> access_dead env h s \<Longrightarrow>
   access_dead env h (auth_run env reqs s)"
  by (rule run_keeps[of env "access_dead env h"])
    (use micro_access_dead[of "auth_at env _" _ _ _ _ h] in \<open>auto simp: access_dead_def\<close>)

lemma run_device_dead:
  "auth_wf env s \<Longrightarrow> no_collisions env \<Longrightarrow> device_dead env i s \<Longrightarrow>
   device_dead env i (auth_run env reqs s)"
  by (rule run_keeps[of env "device_dead env i"])
    (use micro_device_dead[of "auth_at env _" _ _ _ _ i] in \<open>auto simp: device_dead_def drawn_before_def\<close>)

lemma dead_refresh_refused:
  "refresh_dead env (token_hash env token) s \<Longrightarrow>
   snd (refresh_session (auth_at env n) token s) = Inl (AuthError ''invalid_refresh_token'')"
  by (auto simp: refresh_dead_def refresh_session_def refresh_subject_def split: option.split)

lemma dead_access_refused:
  "access_dead env (token_hash env token) s \<Longrightarrow>
   snd (authenticate_access_token (auth_at env n) token s) = None"
  by (auto simp: access_dead_def authenticate_access_token_def Let_def split: option.split)

lemma stored_issued:
  assumes "auth_wf env s"
  shows "get_refresh_token_by_hash h (sv_store s) = Some t \<Longrightarrow> issued env (sv_drawn s) ''rt_'' h"
    and "get_access_token_by_hash h (sv_store s) = Some t \<Longrightarrow> issued env (sv_drawn s) ''at_'' h"
proof -
  have "tok_token_hash t = h" if "token_by_hash h ts = Some t" for ts t
    using that by (auto simp: token_by_hash_def dest: find_SomeD)
  then show "get_refresh_token_by_hash h (sv_store s) = Some t \<Longrightarrow> issued env (sv_drawn s) ''rt_'' h"
    "get_access_token_by_hash h (sv_store s) = Some t \<Longrightarrow> issued env (sv_drawn s) ''at_'' h"
    using auth_wf_parts(1,2)[OF assms] found_in_store(4,5)[of h "sv_store s" t]
    unfolding tokens_ok_def list_all_iff issued_def get_refresh_token_by_hash_def
      get_access_token_by_hash_def by blast+
qed

lemma user_by_id:
  assumes "auth_wf env s"
  shows "get_user_by_id i (sv_store s) = Some u \<longleftrightarrow> u \<in> set (as_users (sv_store s)) \<and> au_id u = i"
proof -
  have "List.find (\<lambda>w. au_id w = i) us = Some u \<longleftrightarrow> u \<in> set us \<and> au_id u = i"
    if "distinct (map au_id us)" for us
    using that by (induction us) (auto simp: image_iff)
  then show ?thesis using auth_wf_parts(7)[OF assms] by (simp add: get_user_by_id_def)
qed

lemma device_by_id:
  assumes "auth_wf env s"
  shows "get_device i (sv_store s) = Some d \<longleftrightarrow> d \<in> set (as_devices (sv_store s)) \<and> dv_id d = i"
proof -
  have "List.find (\<lambda>w. dv_id w = i) ds = Some d \<longleftrightarrow> d \<in> set ds \<and> dv_id d = i"
    if "distinct (map dv_id ds)" for ds
    using that by (induction ds) (auto simp: image_iff)
  then show ?thesis using auth_wf_parts(3)[OF assms] by (simp add: get_device_def)
qed

lemma authenticate_iff:
  "snd (authenticate_access_token env token s) = Some p \<longleftrightarrow>
     token \<noteq> [] \<and>
     (\<exists>t u d. get_access_token_by_hash (token_hash env token) (sv_store s) = Some t \<and>
        tok_revoked_at t = None \<and> ae_now env < tok_expires_at t \<and>
        get_user_by_id (tok_user_id t) (sv_store s) = Some u \<and> au_enabled u \<and>
        get_device (tok_device_id t) (sv_store s) = Some d \<and> dv_revoked_at d = None \<and>
        p = principal_for u (Some (tok_device_id t)))"
  by (auto simp: authenticate_access_token_def Let_def split: option.splits)

lemma device_dead_refused:
  "device_dead env i s \<Longrightarrow> snd (authenticate_access_token (auth_at env n) token s) = Some p \<Longrightarrow>
   pn_device_id p \<noteq> Some i"
proof
  assume dead: "device_dead env i s" and p: "pn_device_id p = Some i"
    and "snd (authenticate_access_token (auth_at env n) token s) = Some p"
  then obtain u d and t :: token_record where "get_device (tok_device_id t) (sv_store s) = Some d" "dv_revoked_at d = None"
      "p = principal_for u (Some (tok_device_id t))"
    unfolding authenticate_iff by auto
  with p dead show False
    unfolding device_dead_def get_device_def principal_for_def
    by (auto dest!: find_SomeD)
qed

section \<open>What the revoking requests achieve at once\<close>

lemma audit_frames [simp]:
  "get_refresh_token_by_hash h (sv_store (audit env ev p s)) = get_refresh_token_by_hash h (sv_store s)"
  "get_access_token_by_hash h (sv_store (audit env ev p s)) = get_access_token_by_hash h (sv_store s)"
  "sv_drawn (audit env ev p s) = Suc (sv_drawn s)"
  by (simp_all add: audit_def draw_def Let_def)

lemma refresh_kills:
  assumes wf: "auth_wf env s" and free: "no_collisions env"
    and ok: "snd (refresh_session (auth_at env n) token s) = Inr session"
  shows "refresh_dead env (token_hash env token) (fst (refresh_session (auth_at env n) token s))"
proof -
  let ?h = "token_hash env token"
  from ok obtain t u d where sub: "refresh_subject (auth_at env n) token (sv_store s) = Some (t, u, d)"
    by (auto simp: refresh_session_def split: option.splits prod.splits)
  then have look: "get_refresh_token_by_hash ?h (sv_store s) = Some t"
    using refresh_subject_Some[OF sub] by simp
  note iss = stored_issued(1)[OF wf look]
  have th: "tok_token_hash t = ?h"
    using look by (auto simp: get_refresh_token_by_hash_def token_by_hash_def dest: find_SomeD)
  let ?s1 = "on_store (record_refresh_token (t\<lparr>tok_revoked_at := Some n\<rparr>)) s"
  let ?d = "d\<lparr>dv_last_seen_at := Some n\<rparr>"
  let ?s2 = "on_store (update_device ?d) ?s1"
  have "auth_steps (auth_at env n) False None s ?s2"
  proof (rule steps_then[OF steps_then[OF rtranclp.rtrancl_refl]])
    show "auth_micro (auth_at env n) False None s ?s1"
      by (rule KillRefresh[OF found_in_store(4)[OF look]])
    show "auth_micro (auth_at env n) False None ?s1 ?s2"
      by (rule TouchDevice) (use refresh_subject_Some[OF sub] found_in_store(3) in auto)
  qed
  then have wf2: "auth_wf env ?s2" using steps_wf[of "auth_at env n"] wf free by simp
  have "refresh_dead env ?h ?s2"
    using iss refresh.look_put[OF wf_hashes(1)[OF wf], of ?h "t\<lparr>tok_revoked_at := Some n\<rparr>"] th
    by (simp add: refresh_dead_def)
  moreover have "auth_micro (auth_at env n) False None ?s2 (fst (create_session (auth_at env n) u ?d ?s2))"
    by (rule NewSession)
      (use refresh_subject_Some[OF sub] found_in_store(1) in \<open>auto simp: update_device_def\<close>)
  ultimately have "refresh_dead env ?h (fst (create_session (auth_at env n) u ?d ?s2))"
    using micro_refresh_dead[of "auth_at env n" False None ?s2] wf2 free by (simp add: refresh_dead_def)
  then show ?thesis
    by (simp add: refresh_session_def sub Let_def split_beta refresh_dead_def)
qed


lemma revoke_device_kills:
  assumes wf: "auth_wf env s" and ok: "snd (revoke_device (auth_at env n) caller i s) = Inr r"
  shows "device_dead env i (fst (revoke_device (auth_at env n) caller i s))"
proof -
  from ok obtain d where d: "get_device i (sv_store s) = Some d"
      and allowed: "\<not> (pn_role caller \<noteq> ''superadmin'' \<and> dv_user_id d \<noteq> pn_user_id caller)"
      and req: "require_scopes (Some caller) [''devices:revoke''] = Inr caller"
    by (cases "require_scopes (Some caller) [''devices:revoke'']")
      (auto simp: revoke_device_def dest: require_scopes_Inr split: option.splits if_splits)
  have "d \<in> set (as_devices (sv_store s))" "dv_id d = i" using d device_by_id[OF wf] by auto
  then have "drawn_before env (sv_drawn s) ''dev_'' i"
    using auth_wf_parts(4)[OF wf] by (auto simp: list_all_iff)
  then have "drawn_before env (Suc (sv_drawn s)) ''dev_'' i" by (rule drawn_before_mono) simp
  then show ?thesis
    using allowed \<open>dv_id d = i\<close>
    by (auto simp: revoke_device_def req d Let_def device_dead_def revoke_device_access_def
        update_device_def drawn_before_def)
qed

lemma revoke_user_kills:
  assumes look: "get_access_token_by_hash h (sv_store s) = Some t" "tok_user_id t = u"
  shows "dead_record (get_access_token_by_hash h (sv_store (snd (revoke_user_sessions env u s))))"
  using access.revoke_kills[of h "revoke_refresh_tokens (Some u, None) (ae_now env) (sv_store s)" t
      "(Some u, None, None)"] look
  by (simp add: revoke_user_sessions_def selects_access_def matches_opt_def)

lemma revoke_user_drawn [simp]: "sv_drawn (snd (revoke_user_sessions env u s)) = sv_drawn s"
  by (simp add: revoke_user_sessions_def)

lemma disable_user_kills:
  assumes wf: "auth_wf env s" and ok: "snd (disable_user (auth_at env n) caller i s) = Inr r"
    and look: "get_access_token_by_hash h (sv_store s) = Some t" "tok_user_id t = i"
  shows "access_dead env h (fst (disable_user (auth_at env n) caller i s))"
proof -
  from ok obtain u where u: "require_user i (sv_store s) = Inr u" and free: "\<not> au_configured u"
      and may: "manages caller"
    by (cases "require_user i (sv_store s)") (auto simp: disable_user_def split: if_splits)
  have "au_id u = i" using require_user_Inr[OF u] by simp
  moreover have "issued env (sv_drawn s) ''at_'' h" by (rule stored_issued(2)[OF wf look(1)])
  ultimately show ?thesis
    using look
    by (simp add: disable_user_def u free may Let_def split_beta access_dead_def revoke_user_kills)
qed

lemma logout_kills:
  assumes wf: "auth_wf env s"
    and live: "get_refresh_token_by_hash (token_hash env token) (sv_store s) = Some t"
      "tok_revoked_at t = None"
    and access: "get_access_token_by_hash h (sv_store s) = Some a"
      "tok_user_id a = tok_user_id t" "tok_device_id a = tok_device_id t"
  shows "access_dead env h (logout (auth_at env n) token s)"
    and "refresh_dead env (token_hash env token) (logout (auth_at env n) token s)"
proof -
  have "tok_token_hash t = token_hash env token"
    using live(1) by (auto simp: get_refresh_token_by_hash_def token_by_hash_def dest: find_SomeD)
  moreover have "issued env (sv_drawn s) ''at_'' h" "issued env (sv_drawn s) ''rt_'' (token_hash env token)"
    using stored_issued[OF wf] live(1) access(1) by auto
  ultimately show "access_dead env h (logout (auth_at env n) token s)"
    "refresh_dead env (token_hash env token) (logout (auth_at env n) token s)"
    using live access wf_hashes(1)[OF wf]
    by (auto simp: logout_def access_dead_def refresh_dead_def revoke_device_access_def
        selects_access_def matches_opt_def refresh.look_put
        intro!: access.revoke_kills)
qed

section \<open>Rights\<close>

text \<open>What an account may do: its id, name, role, scopes, and whether it is enabled or configured.\<close>

definition account_rights ::
  "auth_user \<Rightarrow> string \<times> string \<times> string \<times> string list \<times> bool \<times> bool" where
  "account_rights u =
     (au_id u, au_username u, au_role u, au_scopes u, au_enabled u, au_configured u)"

definition rights_table ::
  "auth_state \<Rightarrow> (string \<times> string \<times> string \<times> string list \<times> bool \<times> bool) list" where
  "rights_table s = map account_rights (as_users (sv_store s))"

definition password_of :: "string \<Rightarrow> auth_state \<Rightarrow> string option" where
  "password_of i s = map_option au_password_hash (get_user_by_id i (sv_store s))"

lemma upsert_map:
  assumes "auth_wf env s" "u \<in> set (as_users (sv_store s))" "au_username v = au_username u" "f v = f u"
  shows "map f (as_users (upsert_user v (sv_store s))) = map f (as_users (sv_store s))"
  using upsert_same[OF auth_wf_parts(6)[OF assms(1)] assms(2), of v] assms(3,4)
  by (simp only: map_replace_field)

lemma micro_rights:
  "auth_micro env adm self s t \<Longrightarrow> \<not> adm \<Longrightarrow> auth_wf env s \<Longrightarrow> rights_table t = rights_table s"
proof (induction rule: auth_micro.induct)
  case (TouchUser u s l n)
  then show ?case unfolding rights_table_def on_store_sel
    by (intro upsert_map) (auto simp: account_rights_def)
next
  case (SetPassword u s h n)
  then show ?case unfolding rights_table_def on_store_sel
    by (intro upsert_map) (auto simp: account_rights_def)
qed (simp_all add: rights_table_def create_device_def update_device_def create_session_eq Let_def)

lemma password_of_map:
  "map (\<lambda>u. (au_id u, au_password_hash u)) (as_users (sv_store t)) =
     map (\<lambda>u. (au_id u, au_password_hash u)) (as_users (sv_store s)) \<Longrightarrow>
   password_of i t = password_of i s"
proof -
  assume eq: "map (\<lambda>u. (au_id u, au_password_hash u)) (as_users (sv_store t)) =
     map (\<lambda>u. (au_id u, au_password_hash u)) (as_users (sv_store s))"
  have look: "map_option au_password_hash (List.find (\<lambda>u. au_id u = i) us) =
      map_of (map (\<lambda>u. (au_id u, au_password_hash u)) us) i" for us
    by (induction us) auto
  show ?thesis by (simp only: password_of_def get_user_by_id_def look eq)
qed

lemma find_replace:
  "List.find p (map (\<lambda>w. if w = u then v else w) us) = List.find p us"
  if "\<not> p u" "\<not> p v" for u v
  using that by (induction us) auto

lemma micro_password:
  "auth_micro env adm self s t \<Longrightarrow> \<not> adm \<Longrightarrow> self \<noteq> Some i \<Longrightarrow> auth_wf env s \<Longrightarrow>
   password_of i t = password_of i s"
proof (induction rule: auth_micro.induct)
  case (TouchUser u s l n)
  then show ?case
    by (intro password_of_map) (auto simp del: map_map intro!: upsert_map[of env s u])
next
  case (SetPassword u s n h)
  then have "au_id u \<noteq> i" by auto
  then show ?case
    using upsert_same[OF auth_wf_parts(6)[OF SetPassword(6)] SetPassword(1),
        of "u\<lparr>au_password_hash := h, au_updated_at := n\<rparr>"]
    by (simp add: password_of_def get_user_by_id_def find_replace)
qed (simp_all add: password_of_def get_user_by_id_def create_device_def update_device_def
    create_session_eq Let_def)

lemma steps_keep:
  assumes "auth_steps env adm self s t" "auth_wf env s" "no_collisions env"
    and "\<And>t u. auth_micro env adm self t u \<Longrightarrow> auth_wf env t \<Longrightarrow> f u = f t"
  shows "f t = f s"
proof -
  have "auth_wf env t \<and> f t = f s"
    using assms(1)
    by (induction rule: rtranclp_induct) (use assms micro_wf in auto)
  then show ?thesis ..
qed

lemma run_rights:
  "auth_wf env s \<Longrightarrow> no_collisions env \<Longrightarrow> list_all (\<lambda>r. \<not> request_manages (snd r)) reqs \<Longrightarrow>
   rights_table (auth_run env reqs s) = rights_table s"
proof (induction env reqs s rule: auth_run.induct)
  case (1 env s)
  then show ?case by simp
next
  case (2 env now req reqs s)
  have "rights_table (auth_handle (auth_at env now) req s) = rights_table s"
    by (rule steps_keep[OF auth_handle_steps]) (use 2 micro_rights in auto)
  then show ?case using 2 handle_wf by simp
qed

lemma run_password:
  "auth_wf env s \<Longrightarrow> no_collisions env \<Longrightarrow>
   list_all (\<lambda>r. \<not> request_manages (snd r) \<and> request_self (snd r) \<noteq> Some i) reqs \<Longrightarrow>
   password_of i (auth_run env reqs s) = password_of i s"
proof (induction env reqs s rule: auth_run.induct)
  case (1 env s)
  then show ?case by simp
next
  case (2 env now req reqs s)
  have "password_of i (auth_handle (auth_at env now) req s) = password_of i s"
    by (rule steps_keep[OF auth_handle_steps]) (use 2 micro_password in auto)
  then show ?case using 2 handle_wf by simp
qed

section \<open>Configured accounts\<close>

definition configured_account :: "string \<Rightarrow> auth_state \<Rightarrow> bool" where
  "configured_account i s \<longleftrightarrow> list_ex (\<lambda>u. au_id u = i \<and> au_configured u) (as_users (sv_store s))"

lemma configured_upsert:
  assumes "auth_wf env s" "u \<in> set (as_users (sv_store s))"
    "str_lower (au_username v) = str_lower (au_username u)"
    "au_id v = au_id u" "au_configured u \<longrightarrow> au_configured v" "configured_account i s"
  shows "configured_account i (on_store (upsert_user v) s)"
  using assms(2-6) upsert_same[OF auth_wf_parts(6)[OF assms(1)] assms(2,3)]
  by (auto simp: configured_account_def list_ex_iff image_iff)

lemma upsert_keeps_others:
  "w \<in> set (as_users st) \<Longrightarrow> \<not> same_username (au_username v) w \<Longrightarrow> w \<in> set (as_users (upsert_user v st))"
  by (auto simp: upsert_user_def Let_def image_iff)

lemma micro_configured:
  "auth_micro env adm self s t \<Longrightarrow> auth_wf env s \<Longrightarrow> configured_account i s \<Longrightarrow> configured_account i t"
proof (induction rule: auth_micro.induct)
  case (NewUser u s j k)
  then obtain w where w: "w \<in> set (as_users (sv_store s))" "au_id w = i" "au_configured w"
    by (auto simp: configured_account_def list_ex_iff)
  with NewUser(2) have "w \<in> set (as_users (upsert_user u (sv_store s)))"
    by (intro upsert_keeps_others) (auto simp: list_ex_iff)
  with w show ?case by (auto simp: configured_account_def list_ex_iff)
next
  case (TouchUser u s)
  then show ?case by (intro configured_upsert[of env s u]) simp_all
next
  case (SetPassword u s)
  then show ?case by (intro configured_upsert[of env s u]) simp_all
next
  case (SetRights u s)
  then show ?case by (intro configured_upsert[of env s u]) simp_all
next
  case (Configure u s v)
  then show ?case by (intro configured_upsert[of env s u]) simp_all
qed (simp_all add: configured_account_def create_device_def update_device_def create_session_eq
    Let_def)


section \<open>A new session\<close>

lemma session_authenticates:
  assumes wf: "auth_wf env s" and u: "u \<in> set (as_users (sv_store s))" "au_enabled u"
    and d: "d \<in> set (as_devices (sv_store s))" "dv_revoked_at d = None"
    and ses: "create_session (auth_at env n) u d s = (t, session)"
    and m: "m < ss_access_expires_at session"
  shows "snd (authenticate_access_token (auth_at env m) (ss_access_token session) t) =
    Some (principal_for u (Some (dv_id d)))"
proof -
  have wft: "auth_wf env t"
    using auth_wf_session[of "auth_at env n" s u d] wf ses by simp
  have "get_user_by_id (au_id u) (sv_store t) = Some u" "get_device (dv_id d) (sv_store t) = Some d"
    using u d ses unfolding user_by_id[OF wft] device_by_id[OF wft]
    by (auto simp: create_session_eq Let_def)
  moreover have "get_access_token_by_hash (token_hash env (ss_access_token session)) (sv_store t) =
      Some \<lparr>tok_id = ''at_'' @ ae_fresh env (sv_drawn s + 2), tok_user_id = au_id u,
        tok_device_id = dv_id d, tok_token_hash = token_hash env (ss_access_token session),
        tok_expires_at = ss_access_expires_at session, tok_created_at = n, tok_revoked_at = None\<rparr>"
    using ses access.look_put[OF wf_hashes(2)[OF wf]] by (auto simp: create_session_eq Let_def)
  moreover have "ss_access_token session \<noteq> []" using ses by (auto simp: create_session_eq Let_def)
  ultimately show ?thesis
    using u d m by (simp add: authenticate_access_token_def Let_def)
qed

lemma authenticate_audit [simp]:
  "snd (authenticate_access_token env token (audit env2 ev p s)) =
     snd (authenticate_access_token env token s)"
  by (simp add: authenticate_access_token_def Let_def get_user_by_id_def get_device_def split: option.split)

lemma admit_login_session:
  assumes wf: "auth_wf env s" and free: "no_collisions env"
    and u: "u \<in> set (as_users (sv_store s))" "au_enabled u"
    and ses: "admit_login (auth_at env n) u label ip s = (t, session)"
    and m: "m < ss_access_expires_at session"
  shows "snd (authenticate_access_token (auth_at env m) (ss_access_token session) t) =
      Some (ss_principal session) \<and>
    pn_user_id (ss_principal session) = au_id u \<and> pn_role (ss_principal session) = au_role u \<and>
    pn_username (ss_principal session) = au_username u"
proof -
  define v where "v = u\<lparr>au_last_login_at := Some n, au_updated_at := n\<rparr>"
  define s1 where "s1 = on_store (upsert_user v) s"
  define d where "d = \<lparr>dv_id = ''dev_'' @ ae_fresh env (sv_drawn s1), dv_user_id = au_id v,
    dv_label = (if str_strip label = [] then ''VS Code'' else str_strip label),
    dv_created_at = n, dv_last_seen_at = Some n, dv_revoked_at = None\<rparr>"
  define s2 where "s2 = on_store (create_device d) (s1\<lparr>sv_drawn := Suc (sv_drawn s1)\<rparr>)"
  define t' where "t' = fst (create_session (auth_at env n) v d s2)"
  have adm: "admit_login (auth_at env n) u label ip s =
      (audit (auth_at env n) ''login_success''
        [(''user_id'', PStr (au_id v)), (''username'', PStr (au_username v)),
         (''device_id'', PStr (dv_id d)), (''source_ip'', PStr ip)] t',
       snd (create_session (auth_at env n) v d s2))"
    by (simp add: admit_login_def Let_def draw_def split_beta v_def s1_def d_def s2_def t'_def)
  then have t: "t = audit (auth_at env n) ''login_success''
        [(''user_id'', PStr (au_id v)), (''username'', PStr (au_username v)),
         (''device_id'', PStr (dv_id d)), (''source_ip'', PStr ip)] t'"
    and ses': "create_session (auth_at env n) v d s2 = (t', session)"
    using ses by (auto simp: t'_def)
  have "auth_micro (auth_at env n) False None s s1"
    unfolding s1_def v_def by (rule TouchUser[OF u(1)])
  then have wf1: "auth_wf env s1" using micro_wf[of "auth_at env n"] wf free by simp
  have "auth_micro (auth_at env n) False None s1 s2"
    unfolding s2_def by (rule NewDevice) (simp_all add: d_def)
  then have wf2: "auth_wf env s2" using micro_wf[of "auth_at env n"] wf1 free by simp
  have "v \<in> set (as_users (sv_store s2))"
    using upsert_member[OF u(1), of v] by (simp add: s2_def s1_def v_def create_device_def)
  moreover have "d \<in> set (as_devices (sv_store s2))" by (simp add: s2_def device_member)
  ultimately have "snd (authenticate_access_token (auth_at env m) (ss_access_token session) t') =
      Some (principal_for v (Some (dv_id d)))"
    using u(2) by (intro session_authenticates[OF wf2 _ _ _ _ ses' m]) (simp_all add: v_def d_def)
  moreover have "ss_principal session = principal_for v (Some (dv_id d))"
    using ses' by (auto simp: create_session_eq Let_def)
  ultimately show ?thesis by (simp add: t principal_for_def v_def)
qed

lemma rate_limit_wf:
  assumes "auth_wf env s" "no_collisions env"
  shows "auth_wf env (fst (check_login_rate_limit (auth_at env n) name source s))"
  using steps_wf[of "auth_at env n" False None s
      "fst (check_login_rate_limit (auth_at env n) name source s)"]
    rate_limit_steps[of "auth_at env n" False None s s name source] assms by simp

lemma clear_wf: "auth_wf env s \<Longrightarrow> auth_wf env (clear_failed_login name source s)"
  unfolding clear_failed_login_def
  by (intro auth_wf_store) (simp_all add: clear_login_failures_def auth_wf_parts)

lemma login_Inr_source:
  assumes "snd (login env name password label ip s) = Inr session"
  obtains u s1 t source where "source = (if ip = [] then ''unknown'' else ip)"
    "check_login_rate_limit env (str_strip name) source s = (s1, Inr ())"
    "password_match env (str_strip name) password (sv_store s1) = Inr (Some u)" "au_enabled u"
    "admit_login env u label ip (clear_failed_login (str_strip name) source s1) = (t, session)"
    "fst (login env name password label ip s) = t"
proof -
  let ?source = "if ip = [] then ''unknown'' else ip"
  obtain s1 r where lim: "check_login_rate_limit env (str_strip name) ?source s = (s1, r)" by force
  show thesis
  proof (cases r)
    case (Inl e)
    then show thesis using assms by (simp add: login_def Let_def lim)
  next
    case r: (Inr x)
    show thesis
    proof (cases "password_match env (str_strip name) password (sv_store s1)")
      case (Inl e)
      then show thesis using assms by (simp add: login_def Let_def lim r)
    next
      case m: (Inr found)
      have found: "\<exists>u. found = Some u \<and> au_enabled u"
        using assms by (cases found) (auto simp: login_def Let_def lim r m split: if_splits)
      then obtain u where u: "found = Some u" "au_enabled u" by blast
      obtain t ses where adm: "admit_login env u label ip
          (clear_failed_login (str_strip name) ?source s1) = (t, ses)" by force
      have "login env name password label ip s = (t, Inr ses)"
        by (simp add: login_def Let_def lim r m u adm)
      then show thesis
        using that[of ?source s1 u t] assms lim r m u adm by simp
    qed
  qed
qed

lemma login_Inr:
  assumes "snd (login env name password label ip s) = Inr session"
  obtains u s1 t source where
    "check_login_rate_limit env (str_strip name) source s = (s1, Inr ())"
    "password_match env (str_strip name) password (sv_store s1) = Inr (Some u)" "au_enabled u"
    "admit_login env u label ip (clear_failed_login (str_strip name) source s1) = (t, session)"
    "fst (login env name password label ip s) = t"
  by (rule login_Inr_source[OF assms]) (rule that)

section \<open>The audit trail\<close>

fun clean_payload :: "pyobj \<Rightarrow> bool"
  and clean_value :: "pyval \<Rightarrow> bool"
  and clean_items :: "pyval list \<Rightarrow> bool" where
  "clean_payload [] = True"
| "clean_payload ((k, v) # d) =
     (k \<notin> set sensitive_audit_keys \<and> clean_value v \<and> clean_payload d)"
| "clean_value (PDict d) = clean_payload d"
| "clean_value (PList xs) = clean_items xs"
| "clean_value v = True"
| "clean_items [] = True"
| "clean_items (PDict d # xs) = (clean_payload d \<and> clean_items xs)"
| "clean_items (x # xs) = clean_items xs"

lemma sanitize_clean:
  "clean_payload (sanitize_payload d)" "clean_value (sanitize_value v)" "clean_items (sanitize_items xs)"
proof -
  have "clean_payload (sanitize_payload d) \<and> True" for d
    by (induction d rule: sanitize_payload_sanitize_value_sanitize_items.induct(1)
        [where Q = "\<lambda>v. clean_value (sanitize_value v)" and R = "\<lambda>xs. clean_items (sanitize_items xs)"]) auto
  then show "clean_payload (sanitize_payload d)" by simp
  show "clean_value (sanitize_value v)" "clean_items (sanitize_items xs)"
    by (induction v and xs rule: sanitize_payload_sanitize_value_sanitize_items.induct(2,3)
        [where P = "\<lambda>d. clean_payload (sanitize_payload d)"]) auto
qed

lemma clean_pop: "clean_payload d \<Longrightarrow> clean_payload (dict_pop k d)"
proof (induction d)
  case (Cons kv d)
  then show ?case by (cases kv) auto
qed simp

definition audit_ok :: "auth_state \<Rightarrow> bool" where
  "audit_ok s \<longleftrightarrow>
     length (as_audit_events (sv_store s)) \<le> 1000 \<and>
     list_all clean_payload (as_audit_events (sv_store s))"

lemma audit_event_clean: "clean_payload (audit_event i ty n p)"
  by (simp add: audit_event_def Let_def clean_pop sanitize_clean sensitive_audit_keys_def)

lemma micro_audit: "auth_micro env adm self s t \<Longrightarrow> audit_ok s \<Longrightarrow> audit_ok t"
proof (induction rule: auth_micro.induct)
  case (Trail s i ty n p)
  then show ?case
    using audit_event_clean[of i ty n p] set_drop_subset[of _ "as_audit_events (sv_store s)"]
    by (auto simp: audit_ok_def append_audit_event_def Let_def list_all_iff)
qed (auto simp: audit_ok_def upsert_user_def Let_def create_device_def update_device_def
    create_session_eq record_refresh_token_def record_access_token_def revoke_refresh_tokens_def
    revoke_access_tokens_def)

section \<open>A small server\<close>

definition demo_auth_config :: auth_config where
  "demo_auth_config = default_auth_config\<lparr>acf_enabled := True, acf_token_secret := ''s'',
     acf_password_hash_iterations := 1, acf_login_rate_limit_count := 2,
     acf_superadmins := [\<lparr>sa_username = ''root'', sa_password = ''hunter2'', sa_role = ''superadmin''\<rparr>]\<rparr>"

definition text_bytes :: "string \<Rightarrow> bytes" where
  "text_bytes s = map (\<lambda>c. of_nat (of_char c)) s"

definition demo_auth_env :: auth_env where
  "demo_auth_env = \<lparr>ae_config = demo_auth_config, ae_kdf = (\<lambda>password _ _. text_bytes password),
     ae_mac = (\<lambda>_ token. text_bytes token), ae_fresh = (\<lambda>n. replicate n (CHR ''x'')),
     ae_salt = (\<lambda>_. []), ae_now = 0\<rparr>"

lemma text_bytes_inj: "inj text_bytes"
proof -
  have "inj (\<lambda>c :: char. of_nat (of_char c) :: 8 word)"
  proof (rule injI)
    fix c d :: char
    assume "(of_nat (of_char c) :: 8 word) = of_nat (of_char d)"
    then have "unat (of_nat (of_char c) :: 8 word) = unat (of_nat (of_char d) :: 8 word)" by simp
    moreover have "(of_char x :: nat) < 256" for x :: char by simp
    ultimately have "(of_char c :: nat) = of_char d" by (simp add: unat_of_nat)
    then show "c = d" by simp
  qed
  then show ?thesis unfolding text_bytes_def by (simp add: inj_map)
qed

lemma demo_no_collisions: "no_collisions demo_auth_env"
proof -
  have "inj (\<lambda>n. replicate n (CHR ''x''))" by (rule injI) (metis length_replicate)
  moreover have "inj (token_hash demo_auth_env)"
    using hash_token_inj[of "\<lambda>_ token. text_bytes token"] text_bytes_inj
    unfolding token_hash_def demo_auth_env_def auth_env.simps inj_def by blast
  ultimately show ?thesis by (simp add: no_collisions_def demo_auth_env_def)
qed


text \<open>One account with a session on one device.\<close>

definition demo_user :: auth_user where
  "demo_user = \<lparr>au_id = ''usr_'', au_username = ''Ada'', au_password_hash = ''pbkdf2_sha256$1$$YQ'',
     au_role = ''admin'', au_enabled = True, au_created_at = 0, au_updated_at = 0,
     au_last_login_at = None, au_configured = False, au_scopes = [''users:manage'']\<rparr>"

definition demo_device :: auth_device where
  "demo_device = \<lparr>dv_id = ''dev_x'', dv_user_id = ''usr_'', dv_label = ''laptop'', dv_created_at = 0,
     dv_last_seen_at = None, dv_revoked_at = None\<rparr>"

definition demo_accounts :: auth_state where
  "demo_accounts = \<lparr>sv_store = auth_store_empty\<lparr>as_users := [demo_user], as_devices := [demo_device]\<rparr>,
     sv_drawn = 2\<rparr>"

definition demo_session :: auth_state where
  "demo_session = fst (create_session demo_auth_env demo_user demo_device demo_accounts)"

definition demo_caller :: auth_principal where
  "demo_caller = principal_for demo_user (Some ''dev_x'')"

lemma demo_accounts_wf: "auth_wf demo_auth_env demo_accounts"
  by (simp add: auth_wf_def demo_accounts_def auth_store_empty_def demo_user_def demo_device_def
      user_ok_def auth_roles_def auth_scopes_def scopes_ok_def drawn_before_def demo_auth_env_def
      tokens_ok_def hashes_distinct_def Let_def upt_rec)

lemma demo_session_wf: "auth_wf demo_auth_env demo_session"
  unfolding demo_session_def by (rule auth_wf_session[OF demo_accounts_wf])

lemma demo_members [simp]:
  "as_users (sv_store demo_session) = [demo_user]" "as_devices (sv_store demo_session) = [demo_device]"
  by (simp_all add: demo_session_def create_session_eq Let_def demo_accounts_def)

lemma demo_fresh: "ae_fresh demo_auth_env n = replicate n (CHR ''x'')" "ae_now demo_auth_env = 0"
  by (simp_all add: demo_auth_env_def)

lemma demo_refresh_record:
  "get_refresh_token_by_hash (token_hash demo_auth_env ''rt_xxx'') (sv_store demo_session) =
     Some \<lparr>tok_id = ''rt_xxxxx'', tok_user_id = ''usr_'', tok_device_id = ''dev_x'',
       tok_token_hash = token_hash demo_auth_env ''rt_xxx'', tok_expires_at = 2592000,
       tok_created_at = 0, tok_revoked_at = None\<rparr>"
  by (simp add: demo_session_def create_session_eq Let_def demo_accounts_def auth_store_empty_def
      get_refresh_token_by_hash_def record_refresh_token_def token_by_hash_def put_token_def
      demo_fresh demo_user_def demo_device_def eval_nat_numeral)
    (simp add: demo_auth_env_def demo_auth_config_def default_auth_config_def)

lemma demo_access_record:
  "get_access_token_by_hash (token_hash demo_auth_env ''at_xx'') (sv_store demo_session) =
     Some \<lparr>tok_id = ''at_xxxx'', tok_user_id = ''usr_'', tok_device_id = ''dev_x'',
       tok_token_hash = token_hash demo_auth_env ''at_xx'', tok_expires_at = 900,
       tok_created_at = 0, tok_revoked_at = None\<rparr>"
  by (simp add: demo_session_def create_session_eq Let_def demo_accounts_def auth_store_empty_def
      get_access_token_by_hash_def record_access_token_def record_refresh_token_def
      token_by_hash_def put_token_def demo_fresh demo_user_def demo_device_def eval_nat_numeral)
    (simp add: demo_auth_env_def demo_auth_config_def default_auth_config_def)

lemma demo_lookups [simp]:
  "get_user_by_id ''usr_'' (sv_store demo_session) = Some demo_user"
  "get_device ''dev_x'' (sv_store demo_session) = Some demo_device"
  by (simp_all add: get_user_by_id_def get_device_def demo_user_def demo_device_def)

lemma demo_flags [simp]:
  "au_enabled demo_user" "\<not> au_configured demo_user" "au_id demo_user = ''usr_''"
  "dv_revoked_at demo_device = None" "dv_user_id demo_device = ''usr_''"
  "manages demo_caller" "pn_user_id demo_caller = ''usr_''"
  "require_scopes (Some demo_caller) [''devices:revoke''] = Inr demo_caller"
proof -
  show "au_enabled demo_user" "\<not> au_configured demo_user" "au_id demo_user = ''usr_''"
    "dv_revoked_at demo_device = None" "dv_user_id demo_device = ''usr_''"
    by (simp_all add: demo_user_def demo_device_def)
  show "manages demo_caller" "pn_user_id demo_caller = ''usr_''"
    "require_scopes (Some demo_caller) [''devices:revoke''] = Inr demo_caller"
    by code_simp+
qed

lemma demo_refresh_ok: "is_ok (snd (refresh_session (auth_at demo_auth_env 5) ''rt_xxx'' demo_session))"
  by (simp add: refresh_session_def refresh_subject_def demo_refresh_record Let_def split_beta)

lemma demo_revoke_ok:
  "is_ok (snd (revoke_device (auth_at demo_auth_env 5) demo_caller ''dev_x'' demo_session))"
  by (simp add: revoke_device_def Let_def split_beta)

lemma demo_disable_ok:
  "is_ok (snd (disable_user (auth_at demo_auth_env 5) demo_caller ''usr_'' demo_session))"
  by (simp add: disable_user_def require_user_def Let_def split_beta)


definition demo_root :: auth_state where
  "demo_root = \<lparr>sv_store = auth_store_empty\<lparr>as_users := [demo_user\<lparr>au_role := ''superadmin'',
     au_scopes := [], au_configured := True\<rparr>]\<rparr>, sv_drawn = 1\<rparr>"

lemma demo_root_wf: "auth_wf demo_auth_env demo_root"
  by (simp add: auth_wf_def demo_root_def auth_store_empty_def demo_user_def user_ok_def
      auth_roles_def drawn_before_def demo_auth_env_def tokens_ok_def hashes_distinct_def Let_def)

text \<open>Ada signs in.\<close>

definition demo_checked :: auth_state where
  "demo_checked = fst (check_login_rate_limit (auth_at demo_auth_env 5) ''Ada'' ''unknown'' demo_session)"

definition demo_login :: auth_session where
  "demo_login = snd (admit_login (auth_at demo_auth_env 5) demo_user [] []
     (clear_failed_login ''Ada'' ''unknown'' demo_checked))"

lemma demo_no_failures: "as_login_failures (sv_store demo_session) = []"
  by (simp add: demo_session_def create_session_eq Let_def demo_accounts_def auth_store_empty_def
      record_refresh_token_def record_access_token_def)

lemma demo_parse: "parse_password_hash ''pbkdf2_sha256$1$$YQ'' = Some (1, [], text_bytes ''a'')"
  by code_simp

lemma demo_match:
  "password_match (auth_at demo_auth_env 5) ''Ada'' ''a'' (sv_store demo_checked) = Inr (Some demo_user)"
proof -
  have "as_users (sv_store demo_checked) = [demo_user]" by (simp add: demo_checked_def)
  moreover have "str_lower (str_strip ''Ada'') = str_lower ''Ada''" by code_simp
  ultimately have "get_user_by_username ''Ada'' (sv_store demo_checked) = Some demo_user"
    by (simp add: get_user_by_username_def same_username_def demo_user_def)
  moreover have "verify_password (\<lambda>p _ _. text_bytes p) ''a'' (au_password_hash demo_user) = Inr True"
    by (simp add: verify_password_def demo_user_def demo_parse derive_key_def)
  ultimately show ?thesis
    by (simp add: password_match_def demo_auth_env_def)
qed

lemma demo_limit:
  "check_login_rate_limit (auth_at demo_auth_env 5) ''Ada'' ''unknown'' demo_session = (demo_checked, Inr ())"
  by (simp add: demo_checked_def check_login_rate_limit_def Let_def count_login_failures_def
      delete_old_login_failures_def demo_no_failures)
    (simp add: demo_auth_env_def demo_auth_config_def default_auth_config_def
      effective_rate_limit_def nonzero_or_def)

lemma demo_login_ok:
  "snd (login (auth_at demo_auth_env 5) '' Ada'' ''a'' [] [] demo_session) = Inr demo_login"
proof -
  have "str_strip '' Ada'' = ''Ada''" by code_simp
  then show ?thesis
    by (simp add: login_def Let_def demo_limit demo_match split_beta demo_login_def)
qed

lemma demo_login_expiry: "ss_access_expires_at demo_login = 905"
  by (simp add: demo_login_def admit_login_def create_session_eq Let_def split_beta)
    (simp add: demo_auth_env_def demo_auth_config_def default_auth_config_def)

section \<open>Properties\<close>

text \<open>C15. Every state a server reaches from an empty store is well formed: usernames are unique up to
  case, ids and token hashes are unique, roles and scopes are known ones, and a configured account is
  an enabled superadmin.\<close>

theorem auth_run_wf: "no_collisions env \<Longrightarrow> auth_wf env (auth_run env reqs auth_start)"
  by (rule run_wf[OF auth_wf_start])

theorem auth_run_wf_witness:
  "auth_wf demo_auth_env (auth_run demo_auth_env
     [(0, Restart), (1, Login ''Root'' ''hunter2'' [] []), (2, Refresh ''rt_xxxx'')] auth_start)"
  by (rule auth_run_wf[OF demo_no_collisions])

text \<open>C7. A refresh token works once: after it has been exchanged, every later use is refused, whatever
  requests come in between.\<close>

theorem refresh_token_single_use:
  "no_collisions env \<Longrightarrow> auth_wf env s \<Longrightarrow>
   is_ok (snd (refresh_session (auth_at env n) token s)) \<Longrightarrow>
   snd (refresh_session (auth_at env m) token
     (auth_run env reqs (fst (refresh_session (auth_at env n) token s)))) =
     Inl (AuthError ''invalid_refresh_token'')"
proof -
  assume free: "no_collisions env" and wf: "auth_wf env s"
    and "is_ok (snd (refresh_session (auth_at env n) token s))"
  then obtain ses where ok: "snd (refresh_session (auth_at env n) token s) = Inr ses"
    by (auto simp: is_ok_iff)
  have "auth_wf env (fst (refresh_session (auth_at env n) token s))"
    using handle_wf[OF wf free, of n "Refresh token"] by simp
  then show ?thesis
    by (intro dead_refresh_refused run_refresh_dead free refresh_kills[OF wf free ok])
qed

theorem refresh_token_single_use_witness:
  "snd (refresh_session (auth_at demo_auth_env 9) ''rt_xxx''
     (auth_run demo_auth_env [(7, Logout ''rt_xxx''), (8, Login ''Ada'' ''a'' [] [])]
       (fst (refresh_session (auth_at demo_auth_env 5) ''rt_xxx'' demo_session)))) =
     Inl (AuthError ''invalid_refresh_token'')"
  by (rule refresh_token_single_use[OF demo_no_collisions demo_session_wf demo_refresh_ok])

text \<open>C13. Logging out ends the session for good: the refresh token and every access token of its user
  and device are refused in every later state.\<close>

theorem logout_ends_session:
  "no_collisions env \<Longrightarrow> auth_wf env s \<Longrightarrow>
   get_refresh_token_by_hash (token_hash env token) (sv_store s) = Some t \<Longrightarrow>
   tok_revoked_at t = None \<Longrightarrow>
   get_access_token_by_hash (token_hash env access) (sv_store s) = Some a \<Longrightarrow>
   tok_user_id a = tok_user_id t \<Longrightarrow> tok_device_id a = tok_device_id t \<Longrightarrow>
   snd (refresh_session (auth_at env m) token (auth_run env reqs (logout (auth_at env n) token s))) =
     Inl (AuthError ''invalid_refresh_token'') \<and>
   snd (authenticate_access_token (auth_at env m) access
     (auth_run env reqs (logout (auth_at env n) token s))) = None"
  using logout_kills[of env s token t "token_hash env access" a n]
    handle_wf[of env s n "Logout token"]
  by (intro conjI dead_refresh_refused dead_access_refused run_refresh_dead run_access_dead) simp_all

theorem logout_ends_session_witness:
  "snd (refresh_session (auth_at demo_auth_env 9) ''rt_xxx''
      (auth_run demo_auth_env [(7, Restart)] (logout (auth_at demo_auth_env 5) ''rt_xxx'' demo_session))) =
      Inl (AuthError ''invalid_refresh_token'') \<and>
   snd (authenticate_access_token (auth_at demo_auth_env 9) ''at_xx''
      (auth_run demo_auth_env [(7, Restart)] (logout (auth_at demo_auth_env 5) ''rt_xxx'' demo_session))) =
      None"
  by (rule logout_ends_session[OF demo_no_collisions demo_session_wf demo_refresh_record _
        demo_access_record]) simp_all

text \<open>C8. A revoked device never gets back in: no access token authenticates for it and no refresh
  token of it is accepted, in any later state.\<close>

theorem revoked_device_stays_out:
  "no_collisions env \<Longrightarrow> auth_wf env s \<Longrightarrow>
   is_ok (snd (revoke_device (auth_at env n) caller i s)) \<Longrightarrow>
   snd (authenticate_access_token (auth_at env m) token
     (auth_run env reqs (fst (revoke_device (auth_at env n) caller i s)))) \<noteq>
     Some (principal_for u (Some i))"
proof -
  assume free: "no_collisions env" and wf: "auth_wf env s"
    and "is_ok (snd (revoke_device (auth_at env n) caller i s))"
  then obtain r where "snd (revoke_device (auth_at env n) caller i s) = Inr r"
    by (auto simp: is_ok_iff)
  then have "device_dead env i (fst (revoke_device (auth_at env n) caller i s))"
    by (rule revoke_device_kills[OF wf])
  then have "device_dead env i (auth_run env reqs (fst (revoke_device (auth_at env n) caller i s)))"
    using run_device_dead[OF _ free] handle_wf[OF wf free, of n "RevokeDevice caller i"] by simp
  moreover have "pn_device_id (principal_for u (Some i)) = Some i" by (simp add: principal_for_def)
  ultimately show ?thesis using device_dead_refused[of env i] by blast
qed

theorem revoked_device_stays_out_witness:
  "snd (authenticate_access_token (auth_at demo_auth_env 9) ''at_xx''
     (auth_run demo_auth_env [(7, Refresh ''rt_xxx'')]
       (fst (revoke_device (auth_at demo_auth_env 5) demo_caller ''dev_x'' demo_session)))) \<noteq>
     Some (principal_for demo_user (Some ''dev_x''))"
  by (rule revoked_device_stays_out[OF demo_no_collisions demo_session_wf demo_revoke_ok])

text \<open>C14. Disabling an account ends its sessions for good: an access token it held is refused in every
  later state, also after the account has been enabled again.\<close>

theorem disabled_user_sessions_end:
  "no_collisions env \<Longrightarrow> auth_wf env s \<Longrightarrow>
   is_ok (snd (disable_user (auth_at env n) caller i s)) \<Longrightarrow>
   get_access_token_by_hash (token_hash env token) (sv_store s) = Some t \<Longrightarrow> tok_user_id t = i \<Longrightarrow>
   snd (authenticate_access_token (auth_at env m) token
     (auth_run env reqs (fst (disable_user (auth_at env n) caller i s)))) = None"
proof -
  assume free: "no_collisions env" and wf: "auth_wf env s"
    and "is_ok (snd (disable_user (auth_at env n) caller i s))"
    and look: "get_access_token_by_hash (token_hash env token) (sv_store s) = Some t" "tok_user_id t = i"
  then obtain r where "snd (disable_user (auth_at env n) caller i s) = Inr r"
    by (auto simp: is_ok_iff)
  then have "access_dead env (token_hash env token) (fst (disable_user (auth_at env n) caller i s))"
    by (rule disable_user_kills[OF wf _ look])
  then show ?thesis
    using handle_wf[OF wf free, of n "DisableUser caller i"]
    by (intro dead_access_refused run_access_dead free) simp_all
qed

theorem disabled_user_sessions_end_witness:
  "snd (authenticate_access_token (auth_at demo_auth_env 9) ''at_xx''
     (auth_run demo_auth_env [(7, UpdateUser demo_caller ''usr_'' None PNone (Some True))]
       (fst (disable_user (auth_at demo_auth_env 5) demo_caller ''usr_'' demo_session)))) = None"
  by (rule disabled_user_sessions_end[OF demo_no_collisions demo_session_wf demo_disable_ok
        demo_access_record]) simp

text \<open>C9. Rights need authority: as long as no caller holds \<open>users:manage\<close> and the server is not
  restarted, the accounts, their roles, scopes and enabled flags stay as they are, and a password
  changes only through a request of its own user.\<close>

theorem rights_and_passwords_need_authority:
  "no_collisions env \<Longrightarrow> auth_wf env s \<Longrightarrow>
   list_all (\<lambda>r. \<not> request_manages (snd r) \<and> request_self (snd r) \<noteq> Some i) reqs \<Longrightarrow>
   rights_table (auth_run env reqs s) = rights_table s \<and>
   password_of i (auth_run env reqs s) = password_of i s"
  using run_rights[of env s reqs] run_password[of env s i reqs] by (simp add: list_all_iff)

theorem rights_and_passwords_need_authority_witness:
  "rights_table (auth_run demo_auth_env [(3, Login ''Ada'' ''a'' [] []), (4, Logout ''rt_xxx''),
       (5, RevokeDevice demo_caller ''dev_x'')] demo_session) = rights_table demo_session \<and>
   password_of ''usr_'' (auth_run demo_auth_env [(3, Login ''Ada'' ''a'' [] []),
       (4, Logout ''rt_xxx''), (5, RevokeDevice demo_caller ''dev_x'')] demo_session) =
     password_of ''usr_'' demo_session"
  by (rule rights_and_passwords_need_authority[OF demo_no_collisions demo_session_wf]) simp

text \<open>C10. A superadmin from the server's configuration cannot be locked out or demoted: once an account
  is configured it stays an enabled superadmin through every request, restarts included.\<close>

theorem configured_superadmin_stays:
  "no_collisions env \<Longrightarrow> auth_wf env s \<Longrightarrow> configured_account i s \<Longrightarrow>
   (\<exists>u. get_user_by_id i (sv_store (auth_run env reqs s)) = Some u \<and> au_configured u \<and>
      au_role u = ''superadmin'' \<and> au_enabled u)"
proof -
  assume free: "no_collisions env" and wf: "auth_wf env s" and c: "configured_account i s"
  have wf': "auth_wf env (auth_run env reqs s)" by (rule run_wf[OF wf free])
  have "configured_account i (auth_run env reqs s)"
    by (rule run_keeps[of env "configured_account i", OF _ free wf c])
      (use micro_configured[of "auth_at env _"] in auto)
  then obtain u where u: "u \<in> set (as_users (sv_store (auth_run env reqs s)))" "au_id u = i"
      "au_configured u"
    by (auto simp: configured_account_def list_ex_iff)
  moreover have "user_ok u" using auth_wf_parts(5)[OF wf'] u by (simp add: list_all_iff)
  ultimately show ?thesis unfolding user_by_id[OF wf'] by (auto simp: user_ok_def)
qed

theorem configured_superadmin_stays_witness:
  "\<exists>u. get_user_by_id ''usr_'' (sv_store (auth_run demo_auth_env
       [(1, DisableUser demo_caller ''usr_''), (2, Restart)] demo_root)) = Some u \<and> au_configured u \<and>
     au_role u = ''superadmin'' \<and> au_enabled u"
  by (rule configured_superadmin_stays[OF demo_no_collisions demo_root_wf])
    (simp add: configured_account_def demo_root_def demo_user_def)

text \<open>An access token authenticates exactly when it is not empty, its record is neither revoked nor
  expired, and its user exists and is enabled and its device exists and is not revoked; the principal
  carries the user's present role and scopes.\<close>

theorem authenticate_exact:
  "snd (authenticate_access_token env token s) = Some p \<longleftrightarrow>
     token \<noteq> [] \<and>
     (\<exists>t u d. get_access_token_by_hash (token_hash env token) (sv_store s) = Some t \<and>
        tok_revoked_at t = None \<and> ae_now env < tok_expires_at t \<and>
        get_user_by_id (tok_user_id t) (sv_store s) = Some u \<and> au_enabled u \<and>
        get_device (tok_device_id t) (sv_store s) = Some d \<and> dv_revoked_at d = None \<and>
        p = principal_for u (Some (tok_device_id t)))"
  by (rule authenticate_iff)

text \<open>C12. A successful login gives a session that works: until its access token expires the token
  authenticates the session's principal, and that is the account with the given name.\<close>

theorem login_session_authenticates:
  "no_collisions env \<Longrightarrow> auth_wf env s \<Longrightarrow>
   snd (login (auth_at env n) name password label ip s) = Inr session \<Longrightarrow>
   m < ss_access_expires_at session \<Longrightarrow>
   snd (authenticate_access_token (auth_at env m) (ss_access_token session)
     (fst (login (auth_at env n) name password label ip s))) = Some (ss_principal session) \<and>
   str_lower (pn_username (ss_principal session)) = str_lower (str_strip name)"
proof -
  assume free: "no_collisions env" and wf: "auth_wf env s"
    and ok: "snd (login (auth_at env n) name password label ip s) = Inr session"
    and m: "m < ss_access_expires_at session"
  from ok obtain u s1 t source where lim:
      "check_login_rate_limit (auth_at env n) (str_strip name) source s = (s1, Inr ())"
      and pm: "password_match (auth_at env n) (str_strip name) password (sv_store s1) = Inr (Some u)"
      and u: "au_enabled u"
      and adm: "admit_login (auth_at env n) u label ip (clear_failed_login (str_strip name) source s1) =
        (t, session)"
      and fst: "fst (login (auth_at env n) name password label ip s) = t"
    by (rule login_Inr)
  have "auth_wf env (clear_failed_login (str_strip name) source s1)"
    using clear_wf[OF rate_limit_wf[OF wf free, of n "str_strip name" source]] lim by simp
  moreover have "u \<in> set (as_users (sv_store (clear_failed_login (str_strip name) source s1)))"
    using password_match_Some[OF pm] by simp
  moreover have "str_lower (au_username u) = str_lower (str_strip name)"
    using pm same_lower[of "str_strip name" "sv_store s1"]
    by (auto simp: password_match_def res_bind_Inr_iff split: option.splits if_splits)
  ultimately show ?thesis
    using admit_login_session[OF _ free _ u adm m] by (simp add: fst)
qed

theorem login_session_authenticates_witness:
  "snd (authenticate_access_token (auth_at demo_auth_env 904) (ss_access_token demo_login)
     (fst (login (auth_at demo_auth_env 5) '' Ada'' ''a'' [] [] demo_session))) =
     Some (ss_principal demo_login) \<and>
   str_lower (pn_username (ss_principal demo_login)) = str_lower (str_strip '' Ada'')"
  by (rule login_session_authenticates[OF demo_no_collisions demo_session_wf demo_login_ok])
    (simp add: demo_login_expiry)

text \<open>The audit trail keeps at most 1000 events and none of the sensitive keys, in every state a
  run reaches.\<close>

theorem audit_trail_clean:
  "no_collisions env \<Longrightarrow> audit_ok (auth_run env reqs auth_start)"
proof -
  assume free: "no_collisions env"
  have "audit_ok auth_start" by (simp add: audit_ok_def auth_start_def auth_store_empty_def)
  then show ?thesis
    using run_keeps[of env audit_ok, OF _ free auth_wf_start] micro_audit by blast
qed

theorem audit_trail_clean_witness:
  "audit_ok (auth_run demo_auth_env [(0, Restart), (1, Login ''root'' ''x'' [] [])] auth_start)"
  by (rule audit_trail_clean[OF demo_no_collisions])

text \<open>A stored password verifies exactly the passwords with the same derived key: the text format
  around salt, iterations and digest loses nothing.\<close>

theorem stored_password_verifies:
  "hash_password kdf salt password iterations = Inr h \<Longrightarrow>
   verify_password kdf other h = Inr (kdf other salt iterations = kdf password salt iterations)"
  by (rule verify_hashed)

theorem stored_password_verifies_witness:
  "verify_password (\<lambda>p _ _. text_bytes p) ''b''
     (str_join ''$'' [password_scheme, int_str 1000, b64_encode [7, 255], b64_encode (text_bytes ''a'')]) =
     Inr (text_bytes ''b'' = text_bytes ''a'')"
  by (rule stored_password_verifies[of _ "[7, 255]" _ 1000])
    (simp add: hash_password_def derive_key_def)

end
