(* ===== verification/AuthGuesses.thy ===== *)
theory AuthGuesses
  imports AuthProofs
begin

text \<open>
  The limit on password guesses. The service keeps the failed logins of each account name and source
  address, refuses a login while they reach the configured number within the window, and forgets them
  when a login succeeds. Every other request leaves the record of failures alone (\<open>handle_quiet\<close>), and
  a login touches only the failures under its own key (\<open>login_other\<close>), so the count survives whatever
  else the server does in between.
\<close>

section \<open>Requests that leave the failures alone\<close>

definition quiet :: "auth_state \<Rightarrow> auth_state \<Rightarrow> bool" where
  "quiet s t \<longleftrightarrow>
     as_login_failures (sv_store t) = as_login_failures (sv_store s) \<and> sv_drawn s \<le> sv_drawn t"

named_theorems quiet_moves \<open>operations that leave the record of failures alone\<close>

lemma quiet_refl [simp, quiet_moves]: "quiet s s"
  by (simp add: quiet_def)

lemma quiet_trans: "quiet s t \<Longrightarrow> quiet t u \<Longrightarrow> quiet s u"
  by (simp add: quiet_def)

lemma quiet_draw [quiet_moves]: "quiet s t \<Longrightarrow> quiet s (snd (draw env t))"
  by (simp add: quiet_def draw_def)

lemma quiet_hash [quiet_moves]: "quiet s t \<Longrightarrow> quiet s (fst (draw_hash env p t))"
  by (simp add: quiet_def draw_hash_def)

lemma quiet_store:
  "quiet s t \<Longrightarrow> (\<And>st. as_login_failures (f st) = as_login_failures st) \<Longrightarrow> quiet s (on_store f t)"
  by (simp add: quiet_def on_store_def)

lemma failures_kept [simp]:
  "as_login_failures (append_audit_event e st) = as_login_failures st"
  "as_login_failures (upsert_user u st) = as_login_failures st"
  "as_login_failures (create_device d st) = as_login_failures st"
  "as_login_failures (update_device d st) = as_login_failures st"
  "as_login_failures (record_refresh_token t st) = as_login_failures st"
  "as_login_failures (record_access_token t st) = as_login_failures st"
  "as_login_failures (revoke_refresh_tokens rsel n st) = as_login_failures st"
  "as_login_failures (revoke_access_tokens asel n st) = as_login_failures st"
  by (simp_all add: append_audit_event_def upsert_user_def create_device_def update_device_def
      record_refresh_token_def record_access_token_def revoke_refresh_tokens_def
      revoke_access_tokens_def Let_def)

lemma quiet_stores [quiet_moves]:
  "quiet s t \<Longrightarrow> quiet s (on_store (upsert_user u) t)"
  "quiet s t \<Longrightarrow> quiet s (on_store (create_device d) t)"
  "quiet s t \<Longrightarrow> quiet s (on_store (update_device d) t)"
  "quiet s t \<Longrightarrow> quiet s (on_store (record_refresh_token r) t)"
  "quiet s t \<Longrightarrow> quiet s (on_store (record_access_token r) t)"
  "quiet s t \<Longrightarrow> quiet s (on_store (revoke_refresh_tokens rsel n) t)"
  "quiet s t \<Longrightarrow> quiet s (on_store (revoke_access_tokens asel n) t)"
  by (simp_all add: quiet_store)

lemma quiet_audit [quiet_moves]: "quiet s t \<Longrightarrow> quiet s (audit env ev p t)"
  unfolding audit_def Let_def split_beta by (intro quiet_store quiet_draw) simp_all

lemma quiet_revoke [quiet_moves]:
  "quiet s t \<Longrightarrow> quiet s (revoke_device_access env u d t)"
  "quiet s t \<Longrightarrow> quiet s (snd (revoke_user_sessions env u t))"
  unfolding revoke_device_access_def revoke_user_sessions_def
  by (simp_all add: quiet_store)

lemma revoke_each_failures [simp]:
  "as_login_failures (snd (revoke_each n current ts st)) = as_login_failures st"
  by (induction n current ts st rule: revoke_each.induct) (auto simp: split_beta Let_def)

lemma quiet_revoke_others [quiet_moves]:
  "quiet s t \<Longrightarrow> quiet s (snd (revoke_other_device_sessions u current n t))"
  by (simp add: revoke_other_device_sessions_def split_beta Let_def quiet_def)

lemma quiet_session [quiet_moves]: "quiet s t \<Longrightarrow> quiet s (fst (create_session env u d t))"
  unfolding create_session_def Let_def split_beta fst_conv by (intro quiet_moves)

lemma quiet_check [quiet_moves]:
  "quiet s t \<Longrightarrow> (\<And>x. r = Inr x \<Longrightarrow> quiet s (fst (f t x))) \<Longrightarrow> quiet s (fst (check t r f))"
  by (cases r) simp_all

lemma quiet_bind [quiet_moves]:
  "quiet s (fst m) \<Longrightarrow> (\<And>x. snd m = Inr x \<Longrightarrow> quiet s (fst (f (fst m) x))) \<Longrightarrow>
   quiet s (fst (auth_bind m f))"
  by (auto simp: auth_bind_fst split: sum.split)

lemma quiet_admit [quiet_moves]: "quiet s t \<Longrightarrow> quiet s (fst (admit_login env u label ip t))"
  unfolding admit_login_def Let_def split_beta fst_conv by (intro quiet_moves)

lemma quiet_sync: "quiet s (fst (sync_superadmins env items s))"
proof (induction items arbitrary: s)
  case Nil
  then show ?case by simp
next
  case (Cons item items)
  have "quiet s (fst (sync_superadmin env item s))"
    unfolding sync_superadmin_def Let_def split_beta
    by (auto intro!: quiet_moves split: option.split)
  then show ?case
    using Cons.IH by (auto intro!: quiet_moves intro: quiet_trans)
qed

lemma handle_quiet:
  "\<forall>n p l i. req \<noteq> Login n p l i \<Longrightarrow> quiet s (auth_handle env req s)"
proof (cases req)
  case (Refresh token)
  then show ?thesis
    by (auto simp: refresh_session_def Let_def split_beta intro!: quiet_moves split: option.split)
next
  case (Logout token)
  then show ?thesis
    by (auto simp: logout_def Let_def intro!: quiet_moves split: option.split)
next
  case (Authenticate token)
  then show ?thesis
    by (auto simp: authenticate_access_token_def Let_def intro!: quiet_moves split: option.split)
next
  case (IssueBootstrap caller ttl outcome)
  then show ?thesis
    by (auto simp: bootstrap_token_def Let_def intro!: quiet_moves split: sum.split prod.split)
next
  case (ChangePassword caller current new_password)
  then show ?thesis
    by (auto simp: change_password_def Let_def split_beta intro!: quiet_moves)
next
  case (CreateUser caller name password role scopes enabled)
  then show ?thesis
    by (auto simp: create_user_def Let_def split_beta intro!: quiet_moves)
next
  case (UpdateUser caller i role scopes enabled)
  then show ?thesis
    by (auto simp: update_user_def commit_update_def Let_def split_beta intro!: quiet_moves)
next
  case (DisableUser caller i)
  then show ?thesis
    by (auto simp: disable_user_def Let_def split_beta intro!: quiet_moves)
next
  case (ResetPassword caller i password)
  then show ?thesis
    by (auto simp: reset_password_def Let_def split_beta intro!: quiet_moves)
next
  case (RevokeDevice caller d)
  then show ?thesis
    by (auto simp: revoke_device_def Let_def split_beta intro!: quiet_moves split: option.split)
qed (simp_all add: sync_configured_superadmins_def quiet_sync)

section \<open>The record of failures\<close>

text \<open>The key of a login: the account name as it is compared, and the source address.\<close>

definition login_key :: "string \<Rightarrow> string \<Rightarrow> string \<times> string" where
  "login_key name ip = (str_lower (str_strip name), if ip = [] then ''unknown'' else ip)"

text \<open>The failures on record under a key since a time.\<close>

definition failures_since :: "string \<times> string \<Rightarrow> int \<Rightarrow> auth_state \<Rightarrow> nat" where
  "failures_since key since s = count_login_failures (fst key) (snd key) since (sv_store s)"

definition failures_ok :: "auth_env \<Rightarrow> auth_state \<Rightarrow> bool" where
  "failures_ok env s \<longleftrightarrow>
     list_all (\<lambda>f. drawn_before env (sv_drawn s) ''lf_'' (lf_id f)) (as_login_failures (sv_store s))"

lemma quiet_failures:
  assumes "quiet s t"
  shows "failures_since key since t = failures_since key since s" and "failures_ok env s \<Longrightarrow> failures_ok env t"
  using assms
  by (auto simp: quiet_def failures_since_def count_login_failures_def failures_ok_def list_all_iff
      intro: drawn_before_mono)

lemma length_filter_mono:
  "(\<And>x. p x \<Longrightarrow> q x) \<Longrightarrow> length (filter p xs) \<le> length (filter q xs)"
  by (induction xs) auto

lemma lower_char_simps: "lower_char (lower_char c) = lower_char c" "is_space (lower_char c) = is_space c"
  by (simp_all add: lower_char_def is_space_def code_point_def Let_def)

lemma strip_lower: "str_strip (str_lower x) = str_lower (str_strip x)"
  by (simp add: str_strip_def str_lower_def lstrip_by_def rstrip_by_def dropWhile_map rev_map comp_def
      lower_char_simps)

lemma lower_idem: "str_lower (str_lower x) = str_lower x"
  by (simp add: str_lower_def comp_def lower_char_simps)

lemma failure_of_key:
  "failure_of (str_lower (str_strip name)) source f \<longleftrightarrow>
     str_lower (str_strip (lf_username f)) = str_lower (str_strip name) \<and> lf_source f = source"
  by (simp add: failure_of_def strip_lower lower_idem)

lemma rate_limit_failures:
  assumes "check_login_rate_limit (auth_at env n) name source s = (t, r)"
    and "n - effective_rate_window (ae_config env) \<le> since"
  shows "failures_since key since t = failures_since key since s"
    and "r = Inr () \<Longrightarrow> key = (str_lower (str_strip name), source) \<Longrightarrow>
      int (failures_since key since t) < effective_rate_limit (ae_config env)"
    and "failures_ok env s \<Longrightarrow> failures_ok env t"
proof -
  let ?old = "n - effective_rate_window (ae_config env)"
  let ?s = "on_store (delete_old_login_failures ?old) s"
  have same: "failures_since key since ?s = failures_since key since s"
    using assms(2)
    by (auto simp: failures_since_def count_login_failures_def delete_old_login_failures_def
        intro!: arg_cong[of _ _ length] filter_cong)
  have q: "quiet ?s t"
    using assms(1)
    by (auto simp: check_login_rate_limit_def Let_def intro!: quiet_moves split: if_splits)
  have t: "failures_since key since t = failures_since key since ?s" by (rule quiet_failures(1)[OF q])
  then show "failures_since key since t = failures_since key since s"
    using same by simp
  have "failures_ok env s \<Longrightarrow> failures_ok env ?s"
    by (simp add: failures_ok_def delete_old_login_failures_def list_all_iff)
  then show "failures_ok env s \<Longrightarrow> failures_ok env t" using quiet_failures(2)[OF q] by blast
  assume "r = Inr ()" and key: "key = (str_lower (str_strip name), source)"
  then have "int (count_login_failures (fst key) (snd key) ?old (sv_store ?s)) <
      effective_rate_limit (ae_config env)"
    using assms(1) by (auto simp: check_login_rate_limit_def Let_def split: if_splits)
  moreover have "failures_since key since ?s \<le> count_login_failures (fst key) (snd key) ?old (sv_store ?s)"
    unfolding failures_since_def count_login_failures_def
    by (rule length_filter_mono) (use assms(2) in auto)
  ultimately show "int (failures_since key since t) < effective_rate_limit (ae_config env)"
    using t by simp
qed

text \<open>A failed login is counted under its own key, and a success clears that key only.\<close>

lemma failed_login_record:
  assumes "failures_ok env s" "no_collisions env"
  shows "as_login_failures (sv_store (record_failed_login (auth_at env n) name source s)) =
      as_login_failures (sv_store s) @ [\<lparr>lf_id = ''lf_'' @ ae_fresh env (sv_drawn s),
        lf_username = str_lower (str_strip name), lf_source = source, lf_failed_at = n\<rparr>]"
    and "failures_ok env (record_failed_login (auth_at env n) name source s)"
proof -
  have "filter (\<lambda>f. lf_id f \<noteq> ''lf_'' @ ae_fresh env (sv_drawn s)) (as_login_failures (sv_store s)) =
      as_login_failures (sv_store s)"
    using assms(1) not_drawn_eq[OF assms(2) order_refl, of "sv_drawn s" "''lf_''"]
    unfolding failures_ok_def list_all_iff by (intro filter_True) blast
  then show fs: "as_login_failures (sv_store (record_failed_login (auth_at env n) name source s)) =
      as_login_failures (sv_store s) @ [\<lparr>lf_id = ''lf_'' @ ae_fresh env (sv_drawn s),
        lf_username = str_lower (str_strip name), lf_source = source, lf_failed_at = n\<rparr>]"
    by (simp add: record_failed_login_def draw_def record_login_failure_def)
  have "sv_drawn (record_failed_login (auth_at env n) name source s) = Suc (sv_drawn s)"
    by (simp add: record_failed_login_def draw_def)
  then show "failures_ok env (record_failed_login (auth_at env n) name source s)"
    using assms(1) fs drawn_before_mono[of env "sv_drawn s" _ _ "Suc (sv_drawn s)"]
      drawn_before_new[of "sv_drawn s" "Suc (sv_drawn s)" env "''lf_''"]
    unfolding failures_ok_def list_all_iff by auto
qed

lemma failed_login_counts:
  assumes "failures_ok env s" "no_collisions env" "since \<le> n" "key = login_key name' ip"
  shows "failures_since key since (record_failed_login (auth_at env n) name source s) =
      failures_since key since s + (if (str_lower (str_strip name), source) = key then 1 else 0)"
  using assms(3)
  by (auto simp: failures_since_def count_login_failures_def failed_login_record[OF assms(1,2)]
      assms(4) login_key_def failure_of_key strip_lower lower_idem)

lemma clear_login_counts:
  assumes "key = login_key name' ip" "(str_lower (str_strip name), source) \<noteq> key"
  shows "failures_since key since (clear_failed_login name source s) = failures_since key since s"
  using assms
  by (auto simp: failures_since_def count_login_failures_def clear_failed_login_def clear_login_failures_def
      login_key_def failure_of_key intro!: arg_cong[of _ _ length] filter_cong)

lemma clear_login_ok: "failures_ok env s \<Longrightarrow> failures_ok env (clear_failed_login name source s)"
  by (simp add: failures_ok_def clear_failed_login_def clear_login_failures_def list_all_iff)

lemma login_Inl:
  assumes "login env name password label ip s = (t, Inl e)"
    and "source = (if ip = [] then ''unknown'' else ip)"
  obtains (limited) "check_login_rate_limit env (str_strip name) source s = (t, Inl e)"
      "e = AuthError ''rate_limited''"
    | (broken) "check_login_rate_limit env (str_strip name) source s = (t, Inr ())"
      "\<And>code. e \<noteq> AuthError code"
    | (rejected) s1 ev p where "check_login_rate_limit env (str_strip name) source s = (s1, Inr ())"
      "t = reject_login env (str_strip name) source ev p s1"
proof -
  obtain s1 r where lim: "check_login_rate_limit env (str_strip name) source s = (s1, r)" by force
  note eval = assms(1)[unfolded login_def Let_def, folded assms(2), unfolded lim]
  show thesis
  proof (cases r)
    case (Inl e')
    then have "e' = AuthError ''rate_limited''"
      using lim by (auto simp: check_login_rate_limit_def Let_def split: if_splits)
    then show thesis using limited eval lim Inl by simp
  next
    case r: (Inr x)
    show thesis
    proof (cases "password_match env (str_strip name) password (sv_store s1)")
      case (Inl e')
      then have "e' \<noteq> AuthError code" for code
        by (auto simp: password_match_def res_bind_Inl_iff verify_password_def derive_key_def
            split: option.splits if_splits)
      then show thesis using broken eval lim r Inl by simp
    next
      case (Inr found)
      then show thesis
        using rejected[of s1] lim eval r
        by (auto simp: split_beta split: option.splits if_splits)
    qed
  qed
qed

text \<open>A login that fails because of the password check, the name or the account itself, and not because
  of the rate limit.\<close>

definition failed_check :: "py_error \<Rightarrow> bool" where
  "failed_check e \<longleftrightarrow> e = AuthError ''invalid_credentials'' \<or> e = AuthError ''user_disabled''"

lemma login_record:
  assumes l: "login (auth_at env n) name password label ip s = (t, r)"
    and free: "no_collisions env" and ok: "failures_ok env s"
    and old: "n - effective_rate_window (ae_config env) \<le> since"
    and key: "key = login_key name' ip'"
  shows "failures_ok env t"
    and "since \<le> n \<Longrightarrow> login_key name ip \<noteq> key \<Longrightarrow> failures_since key since t = failures_since key since s"
    and "since \<le> n \<Longrightarrow> login_key name ip = key \<Longrightarrow> r = Inl e \<Longrightarrow>
      failures_since key since t = failures_since key since s \<and> \<not> failed_check e \<or>
      failures_since key since t = Suc (failures_since key since s) \<and>
      int (failures_since key since s) < effective_rate_limit (ae_config env)"
proof -
  define source where "source = (if ip = [] then ''unknown'' else ip)"
  have own: "login_key name ip = (str_lower (str_strip (str_strip name)), source)"
    by (simp add: login_key_def source_def)
  have "failures_ok env t \<and>
    (since \<le> n \<longrightarrow> login_key name ip \<noteq> key \<longrightarrow> failures_since key since t = failures_since key since s) \<and>
    (since \<le> n \<longrightarrow> login_key name ip = key \<longrightarrow> r = Inl e \<longrightarrow>
      failures_since key since t = failures_since key since s \<and> \<not> failed_check e \<or>
      failures_since key since t = Suc (failures_since key since s) \<and>
      int (failures_since key since s) < effective_rate_limit (ae_config env))" for e
  proof (cases r)
    case (Inr session)
    then have "snd (login (auth_at env n) name password label ip s) = Inr session" by (simp add: l)
    then obtain u s1 t' where
      lim: "check_login_rate_limit (auth_at env n) (str_strip name) source s = (s1, Inr ())"
      and adm: "admit_login (auth_at env n) u label ip (clear_failed_login (str_strip name) source s1) =
        (t', session)" and t: "t = t'"
      by (rule login_Inr_source) (auto simp: l source_def intro: that)
    note c = rate_limit_failures[OF lim old]
    have q: "quiet (clear_failed_login (str_strip name) source s1) t"
      using quiet_admit[OF quiet_refl, of "clear_failed_login (str_strip name) source s1" "auth_at env n" u label ip]
      by (simp add: adm t)
    show ?thesis
      using Inr quiet_failures[OF q] clear_login_ok c(1) c(3)[OF ok] clear_login_counts[OF key] own by simp
  next
    case (Inl e')
    from l[unfolded Inl] source_def show ?thesis
    proof (cases rule: login_Inl)
      case limited
      then show ?thesis
        using rate_limit_failures(1,3)[OF limited(1) old] ok Inl by (auto simp: failed_check_def)
    next
      case broken
      then show ?thesis
        using rate_limit_failures(1,3)[OF broken(1) old] ok Inl by (auto simp: failed_check_def)
    next
      case (rejected s1 ev p)
      note c = rate_limit_failures[OF rejected(1) old]
      let ?s2 = "record_failed_login (auth_at env n) (str_strip name) source s1"
      have q: "quiet ?s2 t" unfolding rejected(2) reject_login_def by (intro quiet_moves)
      show ?thesis
        using quiet_failures(1)[OF q, of key since] quiet_failures(2)[OF q, of env]
          failed_login_record(2)[OF c(3)[OF ok] free, of n "str_strip name" source]
          failed_login_counts[OF c(3)[OF ok] free _ key, where name = "str_strip name" and source = source and n = n and since = since]
          c(1)[of key] c(2)[of key] own
        by auto
    qed
  qed
  then show "failures_ok env t"
    and "since \<le> n \<Longrightarrow> login_key name ip \<noteq> key \<Longrightarrow> failures_since key since t = failures_since key since s"
    and "since \<le> n \<Longrightarrow> login_key name ip = key \<Longrightarrow> r = Inl e \<Longrightarrow>
      failures_since key since t = failures_since key since s \<and> \<not> failed_check e \<or>
      failures_since key since t = Suc (failures_since key since s) \<and>
      int (failures_since key since s) < effective_rate_limit (ae_config env)"
    by blast+
qed

section \<open>Counting the guesses\<close>

text \<open>Over a run of the server: the password checks that fail under a key, and the logins that succeed
  under it.\<close>

fun guess_tally ::
  "auth_env \<Rightarrow> string \<times> string \<Rightarrow> (int \<times> auth_request) list \<Rightarrow> auth_state \<Rightarrow> nat \<times> nat" where
  "guess_tally env key [] s = (0, 0)"
| "guess_tally env key ((now, req) # reqs) s =
     (let (failed, succeeded) = guess_tally env key reqs (auth_handle (auth_at env now) req s)
      in case req of
           Login name password label ip \<Rightarrow>
             if login_key name ip = key
             then (case snd (login (auth_at env now) name password label ip s) of
                 Inr _ \<Rightarrow> (failed, Suc succeeded)
               | Inl e \<Rightarrow> (if failed_check e then Suc failed else failed, succeeded))
             else (failed, succeeded)
         | _ \<Rightarrow> (failed, succeeded))"

definition within :: "auth_env \<Rightarrow> int \<Rightarrow> int \<Rightarrow> bool" where
  "within env since n \<longleftrightarrow> since \<le> n \<and> n \<le> since + effective_rate_window (ae_config env)"

lemma tally_skip:
  "\<forall>n p l i. req \<noteq> Login n p l i \<Longrightarrow>
   guess_tally env key ((now, req) # reqs) s =
     guess_tally env key reqs (auth_handle (auth_at env now) req s)"
  by (cases req) (simp_all add: split_beta Let_def)

lemma tally_bound:
  assumes free: "no_collisions env" and limit: "1 \<le> effective_rate_limit (ae_config env)"
    and key: "key = login_key name' ip'"
  shows "failures_ok env s \<Longrightarrow> list_all (\<lambda>(n, _). within env since n) reqs \<Longrightarrow>
    guess_tally env key reqs s = (f, k) \<Longrightarrow>
    int f + min (int (failures_since key since s)) (effective_rate_limit (ae_config env))
      \<le> effective_rate_limit (ae_config env) * (1 + int k)"
proof (induction reqs arbitrary: s f k)
  case Nil
  then show ?case by simp
next
  case (Cons a reqs)
  let ?L = "effective_rate_limit (ae_config env)"
  obtain n req where a: "a = (n, req)" by force
  define t where "t = auth_handle (auth_at env n) req s"
  obtain f' k' where fk': "guess_tally env key reqs t = (f', k')" by force
  from Cons.prems(2) have w: "since \<le> n" "n - effective_rate_window (ae_config env) \<le> since"
    and rest: "list_all (\<lambda>(n, _). within env since n) reqs"
    by (auto simp: a within_def)
  show ?case
  proof (cases "\<exists>name p l ip. req = Login name p l ip")
    case False
    then have q: "quiet s t" unfolding t_def by (intro handle_quiet) blast
    have "guess_tally env key reqs t = (f, k)"
      using Cons.prems(3) tally_skip[of req env key n reqs s] False by (simp add: a t_def)
    from Cons.IH[OF quiet_failures(2)[OF q Cons.prems(1)] rest this]
    show ?thesis by (simp add: quiet_failures(1)[OF q])
  next
    case True
    then obtain name p l ip where req: "req = Login name p l ip" by blast
    obtain r where l: "login (auth_at env n) name p l ip s = (t, r)"
      by (cases "login (auth_at env n) name p l ip s") (simp add: t_def req)
    note rec = login_record[OF l free Cons.prems(1) w(2) key]
    note IH = Cons.IH[OF rec(1) rest fk']
    note eval = Cons.prems(3)[unfolded a req guess_tally.simps auth_handle.simps l fst_conv snd_conv fk' Let_def prod.case auth_request.case]
    show ?thesis
    proof (cases "login_key name ip = key")
      case False
      then show ?thesis using eval IH rec(2)[OF w(1)] by simp
    next
      case own: True
      show ?thesis
      proof (cases r)
        case (Inr session)
        then have "f = f'" "k = Suc k'" using eval own l by auto
        then show ?thesis using IH limit by (simp add: algebra_simps)
      next
        case (Inl e)
        then have "k = k'" "f \<le> Suc f'" "\<not> failed_check e \<Longrightarrow> f = f'" using eval own l by (auto split: if_splits)
        then show ?thesis using IH rec(3)[OF w(1) own Inl] by auto
      qed
    qed
  qed
qed

lemma handle_failures_ok:
  assumes "no_collisions env" "failures_ok env s"
  shows "failures_ok env (auth_handle (auth_at env n) req s)"
proof (cases "\<exists>name p l ip. req = Login name p l ip")
  case False
  then have "quiet s (auth_handle (auth_at env n) req s)" by (intro handle_quiet) blast
  then show ?thesis using quiet_failures(2) assms(2) by blast
next
  case True
  then obtain name p l ip where req: "req = Login name p l ip" by blast
  obtain t r where l: "login (auth_at env n) name p l ip s = (t, r)" by force
  have "failures_ok env t"
    by (rule login_record(1)[OF l assms order_refl refl])
  then show ?thesis by (simp add: req l)
qed

lemma run_failures_ok:
  "no_collisions env \<Longrightarrow> failures_ok env s \<Longrightarrow> failures_ok env (auth_run env reqs s)"
  by (induction env reqs s rule: auth_run.induct) (simp_all add: handle_failures_ok)

lemma start_failures_ok: "failures_ok env auth_start"
  by (simp add: failures_ok_def auth_start_def auth_store_empty_def)

section \<open>Properties\<close>

text \<open>C11. The rate limit bounds the guesses at a password. Take any state the server can be in and any
  requests it handles within one window of time, by whomever and with whatever in between: the password
  checks that fail on one account from one address are at most the configured limit, less the failures
  already on record, and once more the limit for each login that succeeds on that account from that
  address, since a success clears the record.\<close>

theorem password_guesses_bounded:
  "no_collisions env \<Longrightarrow> 1 \<le> effective_rate_limit (ae_config env) \<Longrightarrow>
   list_all (\<lambda>(n, _). within env since n) reqs \<Longrightarrow>
   (case guess_tally env (login_key name ip) reqs (auth_run env history auth_start) of
      (failed, succeeded) \<Rightarrow>
        int failed + min (int (failures_since (login_key name ip) since (auth_run env history auth_start)))
            (effective_rate_limit (ae_config env))
          \<le> effective_rate_limit (ae_config env) * (1 + int succeeded))"
proof -
  assume free: "no_collisions env" and limit: "1 \<le> effective_rate_limit (ae_config env)"
    and win: "list_all (\<lambda>(n, _). within env since n) reqs"
  obtain f k where t: "guess_tally env (login_key name ip) reqs (auth_run env history auth_start) = (f, k)"
    by force
  show ?thesis
    using tally_bound[OF free limit refl run_failures_ok[OF free start_failures_ok] win t] by (simp add: t)
qed

theorem password_guesses_bounded_witness:
  "case guess_tally demo_auth_env (login_key ''Ada'' ''10.0.0.1'')
       [(100, Login ''Ada'' ''b'' [] ''10.0.0.1''), (101, Logout ''rt_xxx''),
        (102, Login '' ada'' ''c'' [] ''10.0.0.1''), (160, Login ''Ada'' ''a'' [] ''10.0.0.2'')]
       (auth_run demo_auth_env [(1, Restart), (99, Login ''Ada'' ''x'' [] ''10.0.0.1'')] auth_start) of
     (failed, succeeded) \<Rightarrow>
       int failed + min (int (failures_since (login_key ''Ada'' ''10.0.0.1'') 99
           (auth_run demo_auth_env [(1, Restart), (99, Login ''Ada'' ''x'' [] ''10.0.0.1'')] auth_start)))
           (effective_rate_limit (ae_config demo_auth_env))
         \<le> effective_rate_limit (ae_config demo_auth_env) * (1 + int succeeded)"
  by (rule password_guesses_bounded[OF demo_no_collisions])
    (simp_all add: within_def demo_auth_env_def demo_auth_config_def default_auth_config_def
      effective_rate_limit_def effective_rate_window_def nonzero_or_def)

end
