(* ===== verification/AuthRelay.thy ===== *)
theory AuthRelay
  imports AuthProofs RelayServer
begin

text \<open>
  The authentication service and the relay together: \<open>dependencies.py\<close> passes the relay's
  \<open>issue_bootstrap_token\<close> to the service, so that a peer that registers with the token is bound to the
  account that asked for it.
\<close>

section \<open>The relay as the issuer\<close>

definition relay_issuer :: "int \<Rightarrow> string \<Rightarrow> relay_server issuer" where
  "relay_issuer now fresh ttl_sec claims rs =
     (let (token, rs1) = relay_issue_bootstrap_token now fresh ttl_sec
            (case claims of None \<Rightarrow> [] | Some c \<Rightarrow> c) rs
      in (rs1, Inr token))"

section \<open>Properties\<close>

text \<open>C16. The principal travels with the bootstrap token: a caller that may bootstrap peers gets a token
  with which a peer registers until the token expires, and the registered peer carries the caller's
  account, device and scopes as its principal.\<close>

theorem bootstrap_token_carries_caller:
  assumes "has_scope caller ''peer:bootstrap''" and "later \<le> now + ttl"
    and "rg_bootstrap_token req = PStr (''bt_'' @ fresh)" and "rg_features req = PList features"
  shows "\<exists>resp rs1. on_register later peer fresh2 req
       (fst (bootstrap_token env (relay_issuer now fresh) caller ttl rs s)) = (Registered resp, rs1) \<and>
     map_option (\<lambda>p. pget (pi_meta p) ''auth_principal'') (get_peer peer (rs_registry rs1)) =
       Some (PDict (bootstrap_claims caller))"
proof -
  have "require_scopes (Some caller) [''peer:bootstrap''] = Inr caller"
    using assms(1) by (simp add: require_scopes_def)
  moreover have "bootstrap_claims caller \<noteq> []" by (simp add: bootstrap_claims_def)
  ultimately show ?thesis
    using assms(2-4)
    by (simp add: bootstrap_token_def issue_with_claims_def relay_issuer_def
        relay_issue_bootstrap_token_def issue_bootstrap_token_def on_register_def hash_text_def
        consume_bootstrap_token_def issue_peer_token_def register_peer_def py_list_def
        get_peer_def pget_def pget_or_def Let_def)
qed

theorem bootstrap_token_carries_caller_witness:
  "\<exists>resp rs1. on_register 300 ''p1'' ''k2''
       \<lparr>rg_bootstrap_token = PStr (''bt_'' @ ''k1''), rg_host_info_min = PDict [], rg_cwd = PStr ''.'',
        rg_workspace_root = PNone, rg_features = PList [PStr ''shell'']\<rparr>
       (fst (bootstrap_token demo_auth_env (relay_issuer 0 ''k1'') demo_caller 300
          (relay_init 10 30 3600) demo_session)) = (Registered resp, rs1) \<and>
     map_option (\<lambda>p. pget (pi_meta p) ''auth_principal'') (get_peer ''p1'' (rs_registry rs1)) =
       Some (PDict (bootstrap_claims demo_caller))"
proof (rule bootstrap_token_carries_caller)
  show "has_scope demo_caller ''peer:bootstrap''" by code_simp
qed simp_all

end
