(* ===== verification/RegexSearch.thy ===== *)
theory RegexSearch
  imports PyValue
begin

text \<open>
  The part of Python's \<open>re\<close> that the shell policy uses: whether \<open>re.search(pattern, text)\<close> finds a match.
  \<open>rx_ends r s i\<close> lists the positions of the text \<open>s\<close> at which a match of \<open>r\<close> that starts at \<open>i\<close> can end,
  so a search succeeds when some start has an end. \<open>\w\<close> and \<open>\s\<close> are taken on the characters 0 to 255.
\<close>

section \<open>Patterns\<close>

datatype rx =
    RxEmpty
  | RxChar "char \<Rightarrow> bool"
  | RxSeq rx rx
  | RxAlt rx rx
  | RxStar rx
  | RxBoundary
  | RxLineStart
  | RxEnd
  | RxNotNext "char \<Rightarrow> bool"

definition is_word_char :: "char \<Rightarrow> bool" where
  "is_word_char c \<longleftrightarrow> is_alnum c \<or> c = CHR ''_''"

definition word_at :: "string \<Rightarrow> nat \<Rightarrow> bool" where
  "word_at s i \<longleftrightarrow> i < length s \<and> is_word_char (s ! i)"

text \<open>Repetition: an iteration that does not move is not repeated, so the length of the text bounds the
  number of iterations.\<close>

fun star_ends :: "(nat \<Rightarrow> nat list) \<Rightarrow> nat \<Rightarrow> nat \<Rightarrow> nat list" where
  "star_ends f 0 i = [i]"
| "star_ends f (Suc n) i =
     i # concat (map (star_ends f n) (filter (\<lambda>j. i < j) (f i)))"

fun rx_ends :: "rx \<Rightarrow> string \<Rightarrow> nat \<Rightarrow> nat list" where
  "rx_ends RxEmpty s i = [i]"
| "rx_ends (RxChar p) s i = (if i < length s \<and> p (s ! i) then [Suc i] else [])"
| "rx_ends (RxSeq a b) s i = remdups (concat (map (rx_ends b s) (rx_ends a s i)))"
| "rx_ends (RxAlt a b) s i = remdups (rx_ends a s i @ rx_ends b s i)"
| "rx_ends (RxStar a) s i = remdups (star_ends (rx_ends a s) (length s) i)"
| "rx_ends RxBoundary s i =
     (if (0 < i \<and> word_at s (i - 1)) \<noteq> word_at s i then [i] else [])"
| "rx_ends RxLineStart s i = (if i = 0 \<or> s ! (i - 1) = newline then [i] else [])"
| "rx_ends RxEnd s i =
     (if i = length s \<or> Suc i = length s \<and> s ! i = newline then [i] else [])"
| "rx_ends (RxNotNext p) s i = (if i < length s \<and> p (s ! i) then [] else [i])"

definition rx_search :: "rx \<Rightarrow> string \<Rightarrow> bool" where
  "rx_search r s \<longleftrightarrow> list_ex (\<lambda>i. rx_ends r s i \<noteq> []) [0..<Suc (length s)]"

section \<open>Building patterns\<close>

fun rx_seq :: "rx list \<Rightarrow> rx" where
  "rx_seq [] = RxEmpty"
| "rx_seq [r] = r"
| "rx_seq (r # q # rs) = RxSeq r (rx_seq (q # rs))"

fun rx_alt :: "rx list \<Rightarrow> rx" where
  "rx_alt [] = RxChar (\<lambda>_. False)"
| "rx_alt [r] = r"
| "rx_alt (r # q # rs) = RxAlt r (rx_alt (q # rs))"

definition rx_lit :: "string \<Rightarrow> rx" where
  "rx_lit s = rx_seq (map (\<lambda>c. RxChar (\<lambda>d. d = c)) s)"

text \<open>A literal under the flag \<open>(?i)\<close>.\<close>

definition rx_lit_i :: "string \<Rightarrow> rx" where
  "rx_lit_i s = rx_seq (map (\<lambda>c. RxChar (\<lambda>d. lower_char d = lower_char c)) s)"

definition rx_opt :: "rx \<Rightarrow> rx" where "rx_opt r = RxAlt r RxEmpty"

definition rx_plus :: "rx \<Rightarrow> rx" where "rx_plus r = RxSeq r (RxStar r)"

definition rx_spaces :: rx where "rx_spaces = RxStar (RxChar is_space)"

definition rx_spaces1 :: rx where "rx_spaces1 = rx_plus (RxChar is_space)"

definition rx_words :: rx where "rx_words = RxStar (RxChar is_word_char)"

definition rx_any :: rx where "rx_any = RxStar (RxChar (\<lambda>c. c \<noteq> newline))"

section \<open>Matches\<close>

lemma rx_seqI: "j \<in> set (rx_ends a s i) \<Longrightarrow> k \<in> set (rx_ends b s j) \<Longrightarrow> k \<in> set (rx_ends (RxSeq a b) s i)"
  by auto

lemma star_ends_run:
  "(\<forall>k. i \<le> k \<and> k < j \<longrightarrow> Suc k \<in> set (f k)) \<Longrightarrow> i \<le> j \<Longrightarrow> j - i \<le> n \<Longrightarrow> j \<in> set (star_ends f n i)"
proof (induction n arbitrary: i)
  case 0
  then show ?case by simp
next
  case (Suc n)
  show ?case
  proof (cases "i = j")
    case True
    then show ?thesis by simp
  next
    case False
    then have "Suc i \<in> set (f i)" "j \<in> set (star_ends f n (Suc i))"
      using Suc by auto
    then show ?thesis by force
  qed
qed

text \<open>A pattern that covers a given middle part of the text.\<close>

definition rx_covers :: "rx \<Rightarrow> string \<Rightarrow> string \<Rightarrow> string \<Rightarrow> bool" where
  "rx_covers r before middle after \<longleftrightarrow>
     length before + length middle \<in> set (rx_ends r (before @ middle @ after) (length before))"

lemma covers_search: "rx_covers r before middle after \<Longrightarrow> rx_search r (before @ middle @ after)"
  unfolding rx_covers_def rx_search_def list_ex_iff by (intro bexI[of _ "length before"]) auto

lemma covers_seq:
  assumes "rx_covers a before m1 (m2 @ after)" and "rx_covers b (before @ m1) m2 after"
  shows "rx_covers (RxSeq a b) before (m1 @ m2) after"
  using assms unfolding rx_covers_def
  by (intro rx_seqI[of "length before + length m1"]) (simp_all add: add.assoc)

lemma covers_char: "p c \<Longrightarrow> rx_covers (RxChar p) before [c] after"
  by (simp add: rx_covers_def nth_append)

lemma covers_empty: "rx_covers RxEmpty before [] after"
  by (simp add: rx_covers_def)

lemma covers_opt_skip: "rx_covers (rx_opt r) before [] after"
  by (simp add: rx_covers_def rx_opt_def)

lemma covers_opt: "rx_covers r before m after \<Longrightarrow> rx_covers (rx_opt r) before m after"
  by (simp add: rx_covers_def rx_opt_def)

lemma covers_lit: "s \<noteq> [] \<Longrightarrow> rx_covers (rx_lit s) before s after"
proof (induction s arbitrary: before)
  case Nil
  then show ?case by simp
next
  case (Cons c s)
  show ?case
  proof (cases s)
    case Nil
    then show ?thesis by (simp add: rx_lit_def covers_char)
  next
    case (Cons d t)
    have "rx_covers (RxSeq (RxChar (\<lambda>d. d = c)) (rx_lit s)) before ([c] @ s) after"
      by (rule covers_seq[OF covers_char Cons.IH]) (use Cons in simp_all)
    then show ?thesis by (simp add: rx_lit_def Cons)
  qed
qed

lemma covers_star_chars:
  assumes "list_all p m"
  shows "rx_covers (RxStar (RxChar p)) before m after"
proof -
  let ?s = "before @ m @ after"
  have "Suc k \<in> set (rx_ends (RxChar p) ?s k)"
    if "length before \<le> k" "k < length before + length m" for k
    using assms that by (auto simp: list_all_length nth_append)
  then show ?thesis
    unfolding rx_covers_def rx_ends.simps set_remdups by (intro star_ends_run) auto
qed

lemma covers_plus_chars:
  assumes "list_all p m" "m \<noteq> []"
  shows "rx_covers (rx_plus (RxChar p)) before m after"
proof -
  obtain c t where m: "m = [c] @ t" using assms(2) by (cases m) auto
  show ?thesis
    unfolding m rx_plus_def
    by (rule covers_seq[OF covers_char covers_star_chars]) (use assms m in auto)
qed

lemma covers_boundary:
  assumes "before = [] \<or> \<not> is_word_char (last before)" and "after \<noteq> []" "is_word_char (hd after)"
  shows "rx_covers RxBoundary before [] after"
  using assms
  by (cases after; cases before rule: rev_cases)
    (auto simp: rx_covers_def word_at_def nth_append)

end
