(* ===== verification/ApprovalEngine.thy ===== *)
theory ApprovalEngine
  imports AgentConfigs
begin

text \<open>
  The approval policy engine (\<open>src/reuleauxcoder/domain/approval_engine.py\<close>) with its configuration
  (\<open>ApprovalConfig\<close> and \<open>ApprovalRuleConfig\<close> of \<open>domain/config/models.py\<close>), and the reading of the outputs
  of lifecycle hooks (\<open>src/reuleauxcoder/domain/hooks/lifecycle_policy.py\<close>).
\<close>

section \<open>Approval rules\<close>

record approval_rule =
  rl_tool_name :: "string option"
  rl_tool_source :: "string option"
  rl_mcp_server :: "string option"
  rl_effect_class :: "string option"
  rl_profile :: "string option"
  rl_action :: string

record approval_config =
  ap_default_mode :: string
  ap_rules :: "approval_rule list"

record tool_call =
  tc_id :: string
  tc_name :: string
  tc_arguments :: pyobj

record approval_context =
  cx_tool_call :: tool_call
  cx_tool_name :: string
  cx_tool_source :: string
  cx_mcp_server :: "string option"
  cx_effect_class :: "string option"
  cx_profile :: "string option"

record approval_match =
  am_action :: string
  am_rule :: "approval_rule option"

definition rule_specificity :: "approval_rule \<Rightarrow> nat" where
  "rule_specificity r =
     (if rl_tool_source r \<noteq> None then 1 else 0) + (if rl_mcp_server r \<noteq> None then 2 else 0) +
     (if rl_tool_name r \<noteq> None then 4 else 0) + (if rl_effect_class r \<noteq> None then 1 else 0) +
     (if rl_profile r \<noteq> None then 1 else 0)"

definition rule_matches :: "approval_rule \<Rightarrow> approval_context \<Rightarrow> bool" where
  "rule_matches r c \<longleftrightarrow>
     (rl_tool_name r = None \<or> rl_tool_name r = Some (cx_tool_name c)) \<and>
     (rl_tool_source r = None \<or> rl_tool_source r = Some (cx_tool_source c)) \<and>
     (rl_mcp_server r = None \<or> rl_mcp_server r = cx_mcp_server c) \<and>
     (rl_effect_class r = None \<or> rl_effect_class r = cx_effect_class c) \<and>
     (rl_profile r = None \<or> rl_profile r = cx_profile c)"

text \<open>Sorting in reverse keeps the order of equally specific rules.\<close>

definition approval_evaluate :: "approval_config \<Rightarrow> approval_context \<Rightarrow> approval_match" where
  "approval_evaluate config c =
     (case List.find (\<lambda>r. rule_matches r c)
        (sort_key (\<lambda>r. - int (rule_specificity r)) (ap_rules config)) of
        Some r \<Rightarrow> \<lparr>am_action = rl_action r, am_rule = Some r\<rparr>
      | None \<Rightarrow> \<lparr>am_action = ap_default_mode config, am_rule = None\<rparr>)"

section \<open>Outputs of lifecycle hooks\<close>

text \<open>An output is a dictionary.\<close>

definition lifecycle_gate_events :: "string list" where
  "lifecycle_gate_events =
     [''UserPromptSubmit'', ''UserPromptExpansion'', ''PermissionRequest'', ''PreToolUse'',
      ''TaskCreated'', ''PreCompact'']"

definition lifecycle_gate_event_is_gate :: "string \<Rightarrow> bool" where
  "lifecycle_gate_event_is_gate event_name \<longleftrightarrow> event_name \<in> set lifecycle_gate_events"

definition lifecycle_output_decision :: "pyobj \<Rightarrow> string" where
  "lifecycle_output_decision output =
     str_lower (str_strip (py_str (py_or (pget_or output ''decision'' (PStr ''none'')) (PStr ''none''))))"

definition lifecycle_output_continue_flow :: "pyobj \<Rightarrow> bool" where
  "lifecycle_output_continue_flow output =
     (case pget_or output ''continue_flow'' (PBool True) of
        PBool b \<Rightarrow> b
      | PNone \<Rightarrow> True
      | PStr s \<Rightarrow> str_lower (str_strip s) \<notin> set [''false'', ''0'', ''no'', ''off'']
      | v \<Rightarrow> truthy v)"

definition lifecycle_gate_output_is_terminal :: "pyobj \<Rightarrow> bool" where
  "lifecycle_gate_output_is_terminal output \<longleftrightarrow>
     lifecycle_output_decision output \<in> set [''deny'', ''defer''] \<or>
     \<not> lifecycle_output_continue_flow output"

definition lifecycle_output_requests_approval :: "pyobj \<Rightarrow> bool" where
  "lifecycle_output_requests_approval output \<longleftrightarrow> lifecycle_output_decision output = ''ask''"

definition lifecycle_gate_terminal_kind :: "pyobj \<Rightarrow> string" where
  "lifecycle_gate_terminal_kind output =
     (if lifecycle_output_decision output = ''defer'' then ''defer'' else ''deny'')"

definition lifecycle_text :: "pyval \<Rightarrow> string" where
  "lifecycle_text v = (case v of PStr s \<Rightarrow> str_strip s | PNone \<Rightarrow> [] | _ \<Rightarrow> str_strip (py_str v))"

definition lifecycle_output_message :: "pyobj \<Rightarrow> string \<Rightarrow> string" where
  "lifecycle_output_message output fallback =
     (let user_message = lifecycle_text (pget_or output ''user_message'' (PStr []));
          reason = lifecycle_text (pget_or output ''reason'' (PStr []))
      in if user_message \<noteq> [] then user_message else if reason \<noteq> [] then reason else fallback)"

section \<open>The most specific matching rule decides\<close>

lemma find_split:
  "List.find p xs = Some x \<Longrightarrow> \<exists>ys zs. xs = ys @ x # zs \<and> p x \<and> list_all (\<lambda>y. \<not> p y) ys"
  by (auto simp: find_Some_iff list_all_length) (metis id_take_nth_drop length_take min.absorb4 nth_take)

lemma approval_rule_best:
  assumes "am_rule (approval_evaluate config c) = Some r"
  shows "r \<in> set (ap_rules config) \<and> rule_matches r c \<and> am_action (approval_evaluate config c) = rl_action r \<and>
    (\<forall>q \<in> set (ap_rules config). rule_matches q c \<longrightarrow> rule_specificity q \<le> rule_specificity r)"
proof -
  let ?f = "\<lambda>r. - int (rule_specificity r)"
  let ?rs = "sort_key ?f (ap_rules config)"
  have found: "List.find (\<lambda>r. rule_matches r c) ?rs = Some r"
    and act: "am_action (approval_evaluate config c) = rl_action r"
    using assms by (auto simp: approval_evaluate_def split: option.splits)
  obtain ys zs where rs: "?rs = ys @ r # zs" and r: "rule_matches r c"
      and before: "list_all (\<lambda>y. \<not> rule_matches y c) ys"
    using find_split[OF found] by blast
  have sorted: "sorted_wrt (\<lambda>x y. ?f x \<le> ?f y) (ys @ r # zs)"
    unfolding rs[symmetric] by (metis sorted_map sorted_sort_key)
  have "rule_specificity q \<le> rule_specificity r" if "q \<in> set (ap_rules config)" "rule_matches q c" for q
  proof -
    have "q \<in> set (ys @ r # zs)" using that(1) rs by (metis set_sort)
    then show ?thesis
      using sorted before that(2) by (auto simp: sorted_wrt_append list_all_iff)
  qed
  moreover have "r \<in> set (ap_rules config)" using rs by (metis in_set_conv_decomp set_sort)
  ultimately show ?thesis using r act by blast
qed

lemma approval_default:
  "am_rule (approval_evaluate config c) = None \<longleftrightarrow> (\<forall>r \<in> set (ap_rules config). \<not> rule_matches r c)"
proof -
  let ?rs = "sort_key (\<lambda>r. - int (rule_specificity r)) (ap_rules config)"
  have "am_rule (approval_evaluate config c) = None \<longleftrightarrow> List.find (\<lambda>r. rule_matches r c) ?rs = None"
    by (auto simp: approval_evaluate_def split: option.split)
  then show ?thesis by (auto simp: find_None_iff)
qed

end
