(* ===== verification/PermissionGateway.thy ===== *)
theory PermissionGateway
  imports ApprovalEngine
begin

text \<open>
  The permission gateway, from \<open>src/reuleauxcoder/domain/permission_gateway.py\<close>: the one place that decides
  whether an agent may use a tool, a capability or another agent. The hard tool policies are the
  argument \<open>hard\<close>, as in the constructor of the class. A Python set of strings is a list without
  repetition; where the code returns the first hit in a set, the model takes the first in the order of
  the document.
\<close>

section \<open>Requests and decisions\<close>

datatype permission_action =
    Perm_ALLOW | Perm_WARN | Perm_REQUIRE_APPROVAL | Perm_BLOCKED_REVIEW | Perm_DENY

fun permission_action_value :: "permission_action \<Rightarrow> string" where
  "permission_action_value Perm_ALLOW = ''allow''"
| "permission_action_value Perm_WARN = ''warn''"
| "permission_action_value Perm_REQUIRE_APPROVAL = ''require_approval''"
| "permission_action_value Perm_BLOCKED_REVIEW = ''blocked_review''"
| "permission_action_value Perm_DENY = ''deny''"

record permission_subject =
  sj_agent_id :: string
  sj_role :: string
  sj_visibility :: string
  sj_trigger_source :: string
  sj_interactive :: bool
  sj_runtime_profile_id :: string
  sj_session_id :: "string option"
  sj_task_id :: "string option"
  sj_workspace_root :: "string option"

record permission_target =
  tg_kind :: string
  tg_name :: string
  tg_tool_source :: string
  tg_registry_path :: string
  tg_component_id :: string
  tg_mcp_server :: "string option"
  tg_mcp_tool :: "string option"
  tg_target_agent_id :: "string option"

record permission_request =
  rq_subject :: permission_subject
  rq_target :: permission_target
  rq_action :: string
  rq_tool_call :: "tool_call option"
  rq_effective_capabilities :: pyobj
  rq_approval :: "approval_config option"
  rq_runtime_profile :: pyobj
  rq_agent_config :: "agent_config option"
  rq_enforce_effective_capabilities :: bool
  rq_metadata :: pyobj
  rq_lifecycle_outputs :: "pyval list"

record permission_decision =
  pd_action :: permission_action
  pd_authorized :: bool
  pd_reason :: string
  pd_warning :: string
  pd_capability_matched :: string
  pd_policy_matched :: string
  pd_approval_action :: string
  pd_approval_rule :: "approval_rule option"
  pd_audit :: pyobj

definition decision_allowed :: "permission_decision \<Rightarrow> bool" where
  "decision_allowed d \<longleftrightarrow> pd_action d \<in> {Perm_ALLOW, Perm_WARN, Perm_REQUIRE_APPROVAL}"

definition decision_requires_approval :: "permission_decision \<Rightarrow> bool" where
  "decision_requires_approval d \<longleftrightarrow> pd_action d = Perm_REQUIRE_APPROVAL"

definition decision_to_dict :: "permission_decision \<Rightarrow> pyobj" where
  "decision_to_dict d =
     [(''action'', PStr (permission_action_value (pd_action d))),
      (''authorized'', PBool (pd_authorized d))] @
     (if pd_reason d \<noteq> [] then [(''reason'', PStr (pd_reason d))] else []) @
     (if pd_warning d \<noteq> [] then [(''warning'', PStr (pd_warning d))] else []) @
     (if pd_capability_matched d \<noteq> []
      then [(''capability_matched'', PStr (pd_capability_matched d))] else []) @
     (if pd_policy_matched d \<noteq> [] then [(''policy_matched'', PStr (pd_policy_matched d))] else []) @
     (if pd_approval_action d \<noteq> [] then [(''approval_action'', PStr (pd_approval_action d))] else []) @
     (if pd_audit d \<noteq> [] then [(''audit'', PDict (pd_audit d))] else [])"

text \<open>A decision with the fields the code gives, the others at their defaults.\<close>

definition decision :: "permission_action \<Rightarrow> bool \<Rightarrow> permission_decision" where
  "decision action authorized =
     \<lparr>pd_action = action, pd_authorized = authorized, pd_reason = [], pd_warning = [],
      pd_capability_matched = [], pd_policy_matched = [], pd_approval_action = [],
      pd_approval_rule = None, pd_audit = []\<rparr>"

record tool_policy_decision =
  tp_allowed :: bool
  tp_reason :: "string option"
  tp_warning :: "string option"
  tp_requires_approval :: bool

type_synonym tool_policy = "tool_call \<Rightarrow> tool_policy_decision option"

section \<open>Small helpers\<close>

definition stripped :: "pyval \<Rightarrow> string" where
  "stripped v = str_strip (str_or_empty v)"

definition string_set :: "pyval \<Rightarrow> string list" where
  "string_set v =
     (case v of
        PList xs \<Rightarrow> remdups (filter (\<lambda>s. s \<noteq> []) (map (\<lambda>x. str_strip (py_str x)) xs))
      | _ \<Rightarrow> [])"

fun tool_spec_items :: "pyval \<Rightarrow> pyobj list" where
  "tool_spec_items (PList []) = []"
| "tool_spec_items (PList (PDict d # xs)) = d # tool_spec_items (PList xs)"
| "tool_spec_items (PList (_ # xs)) = tool_spec_items (PList xs)"
| "tool_spec_items _ = []"

definition nonempty :: "string list \<Rightarrow> string list" where
  "nonempty xs = remdups (filter (\<lambda>s. s \<noteq> []) xs)"

definition intersects :: "string list \<Rightarrow> string list \<Rightarrow> bool" where
  "intersects xs ys \<longleftrightarrow> list_ex (\<lambda>x. x \<in> set ys) xs"

definition first_nonempty :: "string list \<Rightarrow> string" where
  "first_nonempty xs = (case filter (\<lambda>s. s \<noteq> []) xs of [] \<Rightarrow> [] | x # _ \<Rightarrow> x)"

definition source_flow :: "string \<Rightarrow> string" where
  "source_flow source =
     (let v = str_strip source
      in if v = ''capability-ingest'' then ''capability_ingest'' else if v = [] then ''manual'' else v)"

definition builtin_kinds :: "string list" where
  "builtin_kinds = [''builtin'', ''builtin_tool'', ''tool'']"

definition is_builtin_target :: "permission_target \<Rightarrow> bool" where
  "is_builtin_target t \<longleftrightarrow>
     tg_tool_source t \<in> set [''builtin'', ''builtin_tool''] \<or> tg_kind t \<in> set builtin_kinds"

definition is_mcp_target :: "permission_target \<Rightarrow> bool" where
  "is_mcp_target t \<longleftrightarrow> tg_tool_source t = ''mcp'' \<or> tg_kind t \<in> set [''mcp'', ''mcp_tool'']"

definition is_requirement_target :: "permission_target \<Rightarrow> bool" where
  "is_requirement_target t \<longleftrightarrow>
     tg_kind t = ''environment_requirement'' \<or> tg_tool_source t = ''environment_requirement''"

definition mcp_target_candidates :: "permission_target \<Rightarrow> string list" where
  "mcp_target_candidates t =
     (let server = str_strip (opt_str (tg_mcp_server t));
          tool = str_strip (if opt_str (tg_mcp_tool t) \<noteq> [] then opt_str (tg_mcp_tool t)
                            else tg_name t)
      in nonempty ([str_strip (tg_registry_path t), str_strip (tg_component_id t)] @
           (if server = [] then []
            else [''mcp:'' @ server] @ (if tool = [] then [] else [''mcp:'' @ server @ '':'' @ tool]))))"

definition target_candidates :: "permission_target \<Rightarrow> string list" where
  "target_candidates t =
     (if is_mcp_target t then mcp_target_candidates t
      else
        (let name = str_strip (tg_name t); kind = str_strip (tg_kind t)
         in nonempty ([name, str_strip (tg_registry_path t), str_strip (tg_component_id t)] @
              (if name = [] then []
               else
                 (if tg_tool_source t \<in> set [''builtin'', ''builtin_tool''] \<or> kind \<in> set builtin_kinds
                  then [''builtin:'' @ name, ''builtin_tool:'' @ name] else []) @
                 (if kind = ''environment_requirement'' \<or> tg_tool_source t = ''environment_requirement''
                  then [''envreq:executable:'' @ name] else []) @
                 (if kind = ''skill'' then [''skill:'' @ name] else [])))))"

definition approval_tool_source :: "permission_target \<Rightarrow> string" where
  "approval_tool_source t =
     (let source = str_strip (tg_tool_source t)
      in if source \<in> set [''builtin_tool'', ''builtin''] then ''builtin''
         else if source = ''mcp'' then ''mcp''
         else if tg_kind t \<in> set [''mcp'', ''mcp_tool''] then ''mcp''
         else if tg_kind t \<in> set builtin_kinds then ''builtin''
         else ''unknown'')"

section \<open>Capabilities\<close>

text \<open>The fields of a tool specification that name its tool.\<close>

definition spec_metadata :: "pyobj \<Rightarrow> pyobj option" where
  "spec_metadata spec = (case pget spec ''metadata'' of PDict m \<Rightarrow> Some m | _ \<Rightarrow> None)"

definition spec_tool_id :: "pyobj \<Rightarrow> string" where
  "spec_tool_id spec = stripped (pget spec ''tool_id'')"

definition spec_target_ref :: "pyobj \<Rightarrow> string" where
  "spec_target_ref spec =
     (let ref = stripped (pget spec ''target_tool_ref'')
      in case spec_metadata spec of
           Some m \<Rightarrow> if ref = [] then stripped (pget m ''target_tool_ref'') else ref
         | None \<Rightarrow> ref)"

definition spec_source_type :: "pyobj \<Rightarrow> string" where
  "spec_source_type spec =
     (let meta_type = (case spec_metadata spec of Some m \<Rightarrow> pget m ''source_type'' | None \<Rightarrow> PStr [])
      in stripped (py_or (pget spec ''source_type'') meta_type))"

definition spec_name :: "pyobj \<Rightarrow> string" where
  "spec_name spec = stripped (pget spec ''name'')"

text \<open>\<open>str(metadata.get("component_id") if ... else "")\<close>: a missing id reads as the text \<open>None\<close>.\<close>

definition spec_component_id :: "pyobj \<Rightarrow> string" where
  "spec_component_id spec =
     (case spec_metadata spec of Some m \<Rightarrow> str_strip (py_str (pget m ''component_id'')) | None \<Rightarrow> [])"

definition mcp_spec_candidates :: "pyobj \<Rightarrow> string list" where
  "mcp_spec_candidates spec =
     (let m = (case spec_metadata spec of Some m \<Rightarrow> m | None \<Rightarrow> []);
          server = stripped (py_or (pget m ''server_name'') (pget m ''mcp_server''));
          name = spec_name spec
      in nonempty ([spec_tool_id spec, spec_target_ref spec] @
           (if server \<noteq> [] \<and> name \<noteq> [] then [''mcp:'' @ server @ '':'' @ name] else [])))"

definition spec_matches :: "permission_target \<Rightarrow> string list \<Rightarrow> pyobj \<Rightarrow> bool" where
  "spec_matches t candidates spec \<longleftrightarrow>
     (let own = nonempty [spec_tool_id spec, spec_target_ref spec, spec_name spec]
      in if is_builtin_target t then
           spec_source_type spec = ''builtin_tool'' \<and> spec_component_id spec \<noteq> [] \<and>
           spec_component_id spec = str_strip (tg_component_id t) \<and> intersects candidates own
         else if is_mcp_target t
              \<or> spec_source_type spec \<in> set [''mcp_tool'', ''local_mcp'', ''remote_mcp'']
         then intersects candidates (mcp_spec_candidates spec)
         else intersects candidates own)"

definition tool_spec_match :: "pyval \<Rightarrow> permission_target \<Rightarrow> string list \<Rightarrow> string" where
  "tool_spec_match specs t candidates =
     (case List.find (spec_matches t candidates) (tool_spec_items specs) of
        None \<Rightarrow> []
      | Some spec \<Rightarrow> first_nonempty [spec_tool_id spec, spec_target_ref spec, spec_name spec])"

definition grant_covers :: "string list \<Rightarrow> string \<Rightarrow> bool" where
  "grant_covers candidates grant \<longleftrightarrow>
     intersects candidates
       (grant # (if CHR '':'' \<in> set grant then []
                 else [''builtin:'' @ grant, ''builtin_tool:'' @ grant]))"

definition builtin_tool_grant_match :: "pyobj \<Rightarrow> permission_target \<Rightarrow> string list \<Rightarrow> string" where
  "builtin_tool_grant_match eff t candidates =
     (let name = str_strip (tg_name t)
      in if name \<noteq> [] \<and> list_ex (grant_covers candidates) (string_set (pget eff ''builtin_tool_grants''))
         then ''builtin_tool:'' @ name else [])"

definition mcp_tool_grant_match :: "pyobj \<Rightarrow> permission_target \<Rightarrow> string" where
  "mcp_tool_grant_match eff t =
     (case List.find (\<lambda>g. length (split_on (CHR '':'') g) \<ge> 3 \<and> g \<in> set (mcp_target_candidates t))
        (string_set (pget eff ''mcp_tools'')) of
        Some g \<Rightarrow> g | None \<Rightarrow> [])"

fun requirement_entry_match :: "string \<Rightarrow> pyval list \<Rightarrow> string" where
  "requirement_entry_match name [] = []"
| "requirement_entry_match name (PDict item # rest) =
     (if stripped (pget item ''kind'') = ''executable'' \<and>
         name \<in> set [stripped (pget item ''name''), stripped (pget item ''command'')]
      then py_str (py_or (pget item ''id'') (PStr (''envreq:executable:'' @ stripped (pget item ''name''))))
      else requirement_entry_match name rest)"
| "requirement_entry_match name (_ # rest) = requirement_entry_match name rest"

definition executable_requirement_match :: "pyval \<Rightarrow> string \<Rightarrow> string" where
  "executable_requirement_match v name =
     (let target = str_strip name
      in case v of PList xs \<Rightarrow> if target = [] then [] else requirement_entry_match target xs | _ \<Rightarrow> [])"

definition capability_match :: "permission_request \<Rightarrow> string" where
  "capability_match rq =
     (let eff = rq_effective_capabilities rq; t = rq_target rq;
          candidates = target_candidates t;
          spec = tool_spec_match (pget eff ''tool_specs'') t candidates
      in if spec \<noteq> [] then spec
         else if is_builtin_target t then builtin_tool_grant_match eff t candidates
         else if is_mcp_target t then
           (let grant = mcp_tool_grant_match eff t; server = str_strip (opt_str (tg_mcp_server t))
            in if grant \<noteq> [] then grant
               else if server \<noteq> [] \<and> server \<in> set (string_set (pget eff ''mcp_servers''))
               then ''mcp:'' @ server
               else [])
         else if is_requirement_target t then
           executable_requirement_match (pget eff ''environment_requirements'') (tg_name t)
         else if tg_kind t = ''skill'' then
           (if tg_name t \<in> set (string_set (pget eff ''skills'')) then ''skill:'' @ tg_name t else [])
         else [])"

section \<open>Audit\<close>

definition lifecycle_audit_item :: "pyobj \<Rightarrow> pyobj" where
  "lifecycle_audit_item output =
     [(''hook_id'', PStr (stripped (pget output ''hook_id''))),
      (''display_name'', PStr (stripped (pget output ''display_name''))),
      (''source'', PStr (stripped (pget output ''source''))),
      (''decision'', PStr (str_strip (py_str (py_or (pget output ''decision'') (PStr ''none'')))))] @
     (case pget output ''reason'' of
        PStr r \<Rightarrow> if str_strip r \<noteq> [] then [(''reason'', PStr (str_strip r))] else []
      | _ \<Rightarrow> []) @
     (case pget output ''diagnostics'' of
        PList xs \<Rightarrow> if xs \<noteq> [] then [(''diagnostics'', PList xs)] else []
      | _ \<Rightarrow> [])"

definition lifecycle_audit :: "pyval list \<Rightarrow> pyval list" where
  "lifecycle_audit outputs =
     map (\<lambda>output. PDict (lifecycle_audit_item output)) (tool_spec_items (PList outputs))"

definition gateway_audit :: "permission_request \<Rightarrow> pyobj \<Rightarrow> pyobj" where
  "gateway_audit rq policy =
     (let sj = rq_subject rq; t = rq_target rq; hooks = lifecycle_audit (rq_lifecycle_outputs rq)
      in [(''agent_id'', PStr (sj_agent_id sj)), (''source'', PStr (sj_trigger_source sj)),
          (''interactive'', PBool (sj_interactive sj)), (''target_kind'', PStr (tg_kind t)),
          (''target_name'', PStr (tg_name t)), (''tool_source'', PStr (tg_tool_source t)),
          (''runtime_profile_id'', PStr (sj_runtime_profile_id sj))] @
         (if opt_str (sj_session_id sj) \<noteq> [] then [(''session_id'', opt_val (sj_session_id sj))] else []) @
         (if opt_str (sj_task_id sj) \<noteq> [] then [(''task_id'', opt_val (sj_task_id sj))] else []) @
         (if opt_str (tg_mcp_server t) \<noteq> [] then [(''mcp_server'', opt_val (tg_mcp_server t))] else []) @
         (if policy \<noteq> [] then [(''execution_policy'', PDict policy)] else []) @
         (if hooks \<noteq> [] then [(''lifecycle_hooks'', PList hooks)] else []))"

definition with_lifecycle_audit :: "permission_request \<Rightarrow> permission_decision \<Rightarrow> permission_decision" where
  "with_lifecycle_audit rq d =
     (let hooks = lifecycle_audit (rq_lifecycle_outputs rq)
      in if hooks = [] then d
         else d\<lparr>pd_audit := dict_setdefault ''lifecycle_hooks'' (PList hooks) (pd_audit d)\<rparr>)"

definition approval_or_background_block ::
  "permission_request \<Rightarrow> string \<Rightarrow> string \<Rightarrow> string \<Rightarrow> pyobj \<Rightarrow> permission_decision" where
  "approval_or_background_block rq reason capability policy_matched policy =
     (if sj_interactive (rq_subject rq) then decision Perm_REQUIRE_APPROVAL True
      else decision Perm_BLOCKED_REVIEW False)
       \<lparr>pd_reason := reason, pd_capability_matched := capability, pd_policy_matched := policy_matched,
        pd_audit := gateway_audit rq policy\<rparr>"

section \<open>The stages\<close>

definition text_or_else :: "string option \<Rightarrow> string \<Rightarrow> string" where
  "text_or_else x other = (if opt_str x \<noteq> [] then opt_str x else other)"

fun hard_policies_decide ::
  "permission_request \<Rightarrow> tool_call \<Rightarrow> tool_policy list \<Rightarrow> permission_decision option" where
  "hard_policies_decide rq call [] = None"
| "hard_policies_decide rq call (policy # rest) =
     (case policy call of
        None \<Rightarrow> hard_policies_decide rq call rest
      | Some d \<Rightarrow>
          if \<not> tp_allowed d then
            Some ((decision Perm_DENY False)
              \<lparr>pd_reason := text_or_else (tp_reason d) ''blocked by hard tool policy'',
               pd_policy_matched := ''system_hard_deny'', pd_audit := gateway_audit rq []\<rparr>)
          else if tp_requires_approval d then
            Some (approval_or_background_block rq
              (text_or_else (tp_reason d) ''requires approval by hard tool policy'') []
              ''system_hard_policy'' [])
          else if opt_str (tp_warning d) \<noteq> [] then
            Some ((decision Perm_WARN True)
              \<lparr>pd_warning := opt_str (tp_warning d), pd_policy_matched := ''system_hard_policy'',
               pd_audit := gateway_audit rq []\<rparr>)
          else hard_policies_decide rq call rest)"

definition evaluate_hard_policies ::
  "tool_policy list \<Rightarrow> permission_request \<Rightarrow> permission_decision option" where
  "evaluate_hard_policies hard rq =
     (case rq_tool_call rq of None \<Rightarrow> None | Some call \<Rightarrow> hard_policies_decide rq call hard)"

definition evaluate_agent_config :: "agent_config \<Rightarrow> permission_subject \<Rightarrow> permission_decision" where
  "evaluate_agent_config c sj =
     (let source = source_flow (sj_trigger_source sj);
          refuse = (\<lambda>reason policy extra. (decision Perm_DENY False)
            \<lparr>pd_reason := reason, pd_policy_matched := policy,
             pd_audit := [(''agent_id'', PStr (ag_id c)), (''source'', PStr source)] @ extra\<rparr>);
          agent = ''agent '' @ [CHR 0x27] @ ag_id c @ [CHR 0x27]
      in if ag_visibility c \<noteq> ''user'' then
           (if \<not> allows_system_flow c source then
              refuse (agent @ '' is restricted to system flow '' @
                  py_repr (PList (map PStr (ag_system_flow_only c))) @ ''; source '' @ [CHR 0x27] @
                  source @ [CHR 0x27] @ '' is not allowed'')
                ''agent.system_flow_only'' [(''interactive'', PBool (sj_interactive sj))]
            else decision Perm_ALLOW True)
         else if source = ''taskflow'' \<and> \<not> can_run_taskflow c then
           refuse (agent @ '' is not taskflow eligible'') ''agent.taskflow_eligible'' []
         else if source = ''agent_call_ephemeral'' \<and> \<not> can_call_ephemeral c then
           refuse (agent @ '' does not allow ephemeral calls'') ''agent.callable_scopes.ephemeral'' []
         else if source = ''agent_call_persistent'' \<and> \<not> can_call_persistent c then
           refuse (agent @ '' does not allow persistent calls'') ''agent.callable_scopes.persistent'' []
         else decision Perm_ALLOW True)"

definition evaluate_agent_boundary :: "permission_request \<Rightarrow> permission_decision" where
  "evaluate_agent_boundary rq =
     (case rq_agent_config rq of
        None \<Rightarrow> decision Perm_ALLOW True
      | Some c \<Rightarrow> evaluate_agent_config c (rq_subject rq))"

definition evaluate_agent_invocation :: "agent_config \<Rightarrow> string \<Rightarrow> bool \<Rightarrow> permission_decision" where
  "evaluate_agent_invocation c source interactive =
     evaluate_agent_config c
       \<lparr>sj_agent_id = ag_id c, sj_role = [], sj_visibility = ag_visibility c,
        sj_trigger_source = source, sj_interactive = interactive, sj_runtime_profile_id = [],
        sj_session_id = None, sj_task_id = None, sj_workspace_root = None\<rparr>"

definition evaluate_mode_policy :: "permission_request \<Rightarrow> permission_decision option" where
  "evaluate_mode_policy rq =
     (let mode = stripped (pget (rq_metadata rq) ''active_mode'');
          mode_tools = string_set (pget (rq_metadata rq) ''mode_tools'');
          suggested = sort (string_set (pget (rq_metadata rq) ''suggested_modes''));
          name = tg_name (rq_target rq)
      in if mode = [] \<or> mode_tools = [] \<or> ''*'' \<in> set mode_tools \<or> name \<in> set mode_tools then None
         else
           Some ((decision Perm_DENY False)
             \<lparr>pd_reason := ''Tool '' @ [CHR 0x27] @ name @ [CHR 0x27] @
                '' is not available in current mode '' @ [CHR 0x27] @ mode @ [CHR 0x27] @ ''.'' @
                (if suggested = [] then []
                 else '' Ask user to switch mode first: '' @
                   str_join '', '' (map (\<lambda>m. ''/mode switch '' @ m) suggested)),
              pd_policy_matched := ''mode.tool_whitelist'',
              pd_audit := gateway_audit rq
                [(''mode'', PStr mode), (''tools'', PList (map PStr (sort mode_tools))),
                 (''suggested_modes'', PList (map PStr suggested))]\<rparr>))"

definition lifecycle_reason :: "pyobj \<Rightarrow> string \<Rightarrow> string" where
  "lifecycle_reason output fallback =
     (let text = (\<lambda>k. case pget output k of PStr s \<Rightarrow> str_strip s | _ \<Rightarrow> [])
      in if text ''reason'' \<noteq> [] then text ''reason''
         else if text ''user_message'' \<noteq> [] then text ''user_message'' else fallback)"

fun lifecycle_outputs_decide ::
  "permission_request \<Rightarrow> string \<Rightarrow> pyobj list \<Rightarrow> permission_decision option" where
  "lifecycle_outputs_decide rq capability [] = None"
| "lifecycle_outputs_decide rq capability (output # rest) =
     (if lifecycle_gate_output_is_terminal output then
        Some ((decision Perm_DENY False)
          \<lparr>pd_reason := lifecycle_output_message output
             (tg_name (rq_target rq) @ '' blocked by lifecycle hook''),
           pd_capability_matched := capability,
           pd_policy_matched := ''lifecycle_hook:'' @ lifecycle_gate_terminal_kind output,
           pd_audit := gateway_audit rq []\<rparr>)
      else if lifecycle_output_decision output = ''ask'' then
        Some (approval_or_background_block rq
          (lifecycle_reason output (tg_name (rq_target rq) @ '' requires lifecycle review''))
          capability ''lifecycle_hook:ask'' [])
      else lifecycle_outputs_decide rq capability rest)"

definition evaluate_lifecycle_outputs :: "permission_request \<Rightarrow> string \<Rightarrow> permission_decision option" where
  "evaluate_lifecycle_outputs rq capability =
     lifecycle_outputs_decide rq capability (tool_spec_items (PList (rq_lifecycle_outputs rq)))"

text \<open>The execution policy that applies: one that names the target, else the permission of the matched
  tool specification.\<close>

definition tool_spec_execution_policy :: "pyval \<Rightarrow> string \<Rightarrow> pyobj option" where
  "tool_spec_execution_policy specs capability =
     (if capability = [] then None
      else case List.find (\<lambda>spec. spec_tool_id spec = capability) (tool_spec_items specs) of
        None \<Rightarrow> None
      | Some spec \<Rightarrow>
          (let policy = (case pget spec ''permission'' of
                 PDict p \<Rightarrow> stripped (pget p ''policy'') | _ \<Rightarrow> [])
           in if policy = [] \<or> policy = ''inherit'' then None
              else Some [(''target'', PStr (spec_tool_id spec)),
                (''target_type'', PStr ''capability_tool_spec''), (''policy'', PStr policy),
                (''risk_level'', PStr (case spec_metadata spec of
                   Some m \<Rightarrow> str_or_empty (pget m ''risk_level'') | None \<Rightarrow> [])),
                (''source_type'', PStr (str_or_empty (pget spec ''source_type'')))]))"

definition matching_execution_policy :: "permission_request \<Rightarrow> string \<Rightarrow> pyobj option" where
  "matching_execution_policy rq capability =
     (let eff = rq_effective_capabilities rq; candidates = target_candidates (rq_target rq)
      in case List.find (\<lambda>p. stripped (pget p ''target'') \<in> set candidates)
           (tool_spec_items (pget_or eff ''execution_policies'' (PList []))) of
           Some p \<Rightarrow> Some p
         | None \<Rightarrow> tool_spec_execution_policy (pget eff ''tool_specs'') capability)"

text \<open>A stage decides, or passes the warnings on.\<close>

type_synonym stage = "permission_decision + string list"

definition evaluate_execution_policy :: "permission_request \<Rightarrow> string \<Rightarrow> string list \<Rightarrow> stage" where
  "evaluate_execution_policy rq capability warnings =
     (case matching_execution_policy rq capability of
        None \<Rightarrow> Inr warnings
      | Some policy \<Rightarrow>
          (let v = str_lower (stripped (pget policy ''policy''));
               label = ''execution_policy:'' @ (if v = [] then ''inherit'' else v);
               name = tg_name (rq_target rq)
           in if v = ''deny'' then
                Inl ((decision Perm_DENY False)
                  \<lparr>pd_reason := name @ '' denied by execution policy'',
                   pd_capability_matched := capability, pd_policy_matched := label,
                   pd_audit := gateway_audit rq policy\<rparr>)
              else if v = ''allow'' then
                Inl ((decision Perm_ALLOW True)
                  \<lparr>pd_capability_matched := capability, pd_policy_matched := label,
                   pd_audit := gateway_audit rq policy\<rparr>)
              else if v = ''require_user'' then
                Inl (approval_or_background_block rq
                  (name @ '' requires user review by execution policy'') capability label policy)
              else if v = ''escalate'' then
                Inr (warnings @ [name @ '' matched escalate execution policy''])
              else Inr warnings))"

definition join_warnings :: "string list \<Rightarrow> string" where
  "join_warnings warnings = str_join ''; '' (filter (\<lambda>w. w \<noteq> []) warnings)"

definition request_approval_context :: "permission_request \<Rightarrow> approval_context" where
  "request_approval_context rq =
     \<lparr>cx_tool_call = (case rq_tool_call rq of
        Some call \<Rightarrow> call
      | None \<Rightarrow> \<lparr>tc_id = ''permission-preview'', tc_name = tg_name (rq_target rq), tc_arguments = []\<rparr>),
      cx_tool_name = tg_name (rq_target rq), cx_tool_source = approval_tool_source (rq_target rq),
      cx_mcp_server = tg_mcp_server (rq_target rq), cx_effect_class = None,
      cx_profile = str_opt (sj_runtime_profile_id (rq_subject rq))\<rparr>"

definition evaluate_approval :: "permission_request \<Rightarrow> string \<Rightarrow> string list \<Rightarrow> stage" where
  "evaluate_approval rq capability warnings =
     (case rq_approval rq of
        None \<Rightarrow> Inr warnings
      | Some config \<Rightarrow>
          (let m = approval_evaluate config (request_approval_context rq);
               name = tg_name (rq_target rq);
               result = (\<lambda>d policy. d\<lparr>pd_capability_matched := capability, pd_policy_matched := policy,
                 pd_approval_action := am_action m, pd_approval_rule := am_rule m,
                 pd_audit := gateway_audit rq []\<rparr>)
           in if am_action m = ''deny'' then
                Inl (result ((decision Perm_DENY False)
                  \<lparr>pd_reason := name @ '' denied by approval policy''\<rparr>) ''approval_policy:deny'')
              else if am_action m = ''warn'' then
                Inl (result ((decision Perm_WARN True)
                  \<lparr>pd_warning := join_warnings (warnings @ [name @ '' matched warning approval policy''])\<rparr>)
                  ''approval_policy:warn'')
              else if am_action m = ''require_approval'' then
                Inl (approval_or_background_block rq (name @ '' requires approval by policy'') capability
                  ''approval_policy:require_approval'' [])
              else if am_action m = ''allow'' then
                (if warnings \<noteq> [] then
                   Inl (result ((decision Perm_WARN True)\<lparr>pd_warning := join_warnings warnings\<rparr>)
                     ''approval_policy:allow'')
                 else Inl (result (decision Perm_ALLOW True) ''approval_policy:allow''))
              else Inr warnings))"

definition evaluate_runtime_profile_default ::
  "permission_request \<Rightarrow> string \<Rightarrow> permission_decision option" where
  "evaluate_runtime_profile_default rq capability =
     (let mode = str_lower (stripped (pget (rq_runtime_profile rq) ''approval_mode''))
      in if mode \<in> set [''full'', ''manual'', ''strict''] then
           Some (approval_or_background_block rq
             (tg_name (rq_target rq) @ '' requires approval by runtime profile'') capability
             (''runtime_profile:'' @ mode) [])
         else None)"

section \<open>The decision\<close>

text \<open>From the execution policy on, with the warnings collected before.\<close>

definition evaluate_policies ::
  "permission_request \<Rightarrow> string \<Rightarrow> string list \<Rightarrow> permission_decision" where
  "evaluate_policies rq capability warnings =
     (case evaluate_execution_policy rq capability warnings of
        Inl d \<Rightarrow> d
      | Inr warnings \<Rightarrow>
          (case evaluate_approval rq capability warnings of
             Inl d \<Rightarrow> d
           | Inr warnings \<Rightarrow>
               (case evaluate_runtime_profile_default rq capability of
                  Some d \<Rightarrow> d
                | None \<Rightarrow>
                    (if warnings \<noteq> [] then (decision Perm_WARN True)\<lparr>pd_warning := join_warnings warnings\<rparr>
                     else decision Perm_ALLOW True)
                      \<lparr>pd_capability_matched := capability, pd_audit := gateway_audit rq []\<rparr>)))"

definition evaluate_from_agent :: "permission_request \<Rightarrow> string list \<Rightarrow> permission_decision" where
  "evaluate_from_agent rq warnings =
     (let agent = evaluate_agent_boundary rq
      in if pd_action agent \<noteq> Perm_ALLOW then agent
         else case evaluate_mode_policy rq of
           Some d \<Rightarrow> d
         | None \<Rightarrow>
             (let enforced = rq_enforce_effective_capabilities rq;
                  capability = (if enforced then capability_match rq else [])
              in if enforced \<and> capability = [] then
                   (decision Perm_DENY False)
                     \<lparr>pd_reason := tg_kind (rq_target rq) @ '' '' @ [CHR 0x27] @ tg_name (rq_target rq) @
                        [CHR 0x27] @ '' is not authorized by this Agent'' @ [CHR 0x27] @
                        ''s effective_capabilities'',
                      pd_policy_matched := ''effective_capabilities'',
                      pd_audit := gateway_audit rq []\<rparr>
                 else case evaluate_lifecycle_outputs rq capability of
                   Some d \<Rightarrow> d
                 | None \<Rightarrow> evaluate_policies rq capability warnings))"

definition evaluate_permission ::
  "tool_policy list \<Rightarrow> permission_request \<Rightarrow> permission_decision" where
  "evaluate_permission hard rq =
     with_lifecycle_audit rq
       (case evaluate_hard_policies hard rq of
          None \<Rightarrow> evaluate_from_agent rq []
        | Some d \<Rightarrow>
            if pd_action d = Perm_WARN
            then evaluate_from_agent rq [if pd_warning d \<noteq> [] then pd_warning d else pd_reason d]
            else if pd_action d \<noteq> Perm_ALLOW then d
            else evaluate_from_agent rq [])"

end
