(* ===== verification/PermissionProofs.thy ===== *)
theory PermissionProofs
  imports PermissionGateway
begin

text \<open>
  What the permission gateway guarantees: when a request gets through, and which gates it then has
  passed; what happens to a request of a background agent; which approval rule decides; and where the
  order of the stages lets a request through that a later stage would refuse.
\<close>

section \<open>Decisions of the stages\<close>

definition consistent_decision :: "bool \<Rightarrow> permission_decision \<Rightarrow> bool" where
  "consistent_decision interactive d \<longleftrightarrow>
     pd_authorized d = decision_allowed d \<and>
     (pd_action d = Perm_REQUIRE_APPROVAL \<longrightarrow> interactive) \<and>
     (pd_action d = Perm_BLOCKED_REVIEW \<longrightarrow> \<not> interactive)"

abbreviation rq_interactive :: "permission_request \<Rightarrow> bool" where
  "rq_interactive rq \<equiv> sj_interactive (rq_subject rq)"

lemma decision_simps [simp]:
  "pd_action (decision a b) = a" "pd_authorized (decision a b) = b"
  by (simp_all add: decision_def)

lemma consistent_simps [simp]:
  "consistent_decision i (decision Perm_ALLOW True\<lparr>pd_capability_matched := x1\<rparr>)"
  "consistent_decision i (decision Perm_ALLOW True)"
  "consistent_decision i (decision Perm_DENY False)"
  "consistent_decision i (decision Perm_WARN True)"
  "consistent_decision i (d\<lparr>pd_reason := r\<rparr>) = consistent_decision i d"
  "consistent_decision i (d\<lparr>pd_warning := r\<rparr>) = consistent_decision i d"
  "consistent_decision i (d\<lparr>pd_capability_matched := r\<rparr>) = consistent_decision i d"
  "consistent_decision i (d\<lparr>pd_policy_matched := r\<rparr>) = consistent_decision i d"
  "consistent_decision i (d\<lparr>pd_approval_action := r\<rparr>) = consistent_decision i d"
  "consistent_decision i (d\<lparr>pd_approval_rule := rl\<rparr>) = consistent_decision i d"
  "consistent_decision i (d\<lparr>pd_audit := au\<rparr>) = consistent_decision i d"
  by (simp_all add: consistent_decision_def decision_allowed_def)

lemma consistent_block [simp]:
  "consistent_decision (rq_interactive rq) (approval_or_background_block rq r c p d)"
  by (simp add: approval_or_background_block_def)
    (simp add: consistent_decision_def decision_allowed_def)

lemma consistent_hard:
  "hard_policies_decide rq call hard = Some d \<Longrightarrow> consistent_decision (rq_interactive rq) d"
  by (induction hard) (auto split: option.splits if_splits)

lemma consistent_agent: "consistent_decision (rq_interactive rq) (evaluate_agent_boundary rq)"
  by (auto simp: evaluate_agent_boundary_def evaluate_agent_config_def Let_def split: option.split)

lemma consistent_mode: "evaluate_mode_policy rq = Some d \<Longrightarrow> consistent_decision i d"
  by (auto simp: evaluate_mode_policy_def Let_def split: if_splits)

lemma consistent_lifecycle:
  "lifecycle_outputs_decide rq c outs = Some d \<Longrightarrow> consistent_decision (rq_interactive rq) d"
  by (induction outs) (auto split: if_splits)

lemma consistent_execution:
  "evaluate_execution_policy rq c w = Inl d \<Longrightarrow> consistent_decision (rq_interactive rq) d"
  by (auto simp: evaluate_execution_policy_def Let_def split: option.splits if_splits)

lemma consistent_approval:
  "evaluate_approval rq c w = Inl d \<Longrightarrow> consistent_decision (rq_interactive rq) d"
  by (auto simp: evaluate_approval_def Let_def split: option.splits if_splits)

lemma consistent_runtime:
  "evaluate_runtime_profile_default rq c = Some d \<Longrightarrow> consistent_decision (rq_interactive rq) d"
  by (auto simp: evaluate_runtime_profile_default_def Let_def split: if_splits)

lemma consistent_policies: "consistent_decision (rq_interactive rq) (evaluate_policies rq c w)"
  by (auto simp: evaluate_policies_def consistent_execution consistent_approval consistent_runtime
      split: sum.split option.split)

lemma consistent_from_agent: "consistent_decision (rq_interactive rq) (evaluate_from_agent rq w)"
  using consistent_agent[of rq]
  by (auto simp: evaluate_from_agent_def Let_def evaluate_lifecycle_outputs_def consistent_mode
      consistent_lifecycle consistent_policies split: option.split)

lemma lifecycle_audit_keeps [simp]:
  "pd_action (with_lifecycle_audit rq d) = pd_action d"
  "pd_authorized (with_lifecycle_audit rq d) = pd_authorized d"
  "decision_allowed (with_lifecycle_audit rq d) = decision_allowed d"
  "consistent_decision i (with_lifecycle_audit rq d) = consistent_decision i d"
  by (simp_all add: with_lifecycle_audit_def Let_def decision_allowed_def)

lemma consistent_permission: "consistent_decision (rq_interactive rq) (evaluate_permission hard rq)"
  by (auto simp: evaluate_permission_def evaluate_hard_policies_def consistent_from_agent
      consistent_hard split: option.splits)

section \<open>The gates\<close>

text \<open>What a request has to pass before any policy is asked: the boundary of its agent, the tools of the
  mode, and the capabilities of the agent where they are enforced.\<close>

definition passes_gates :: "permission_request \<Rightarrow> bool" where
  "passes_gates rq \<longleftrightarrow>
     pd_action (evaluate_agent_boundary rq) = Perm_ALLOW \<and>
     evaluate_mode_policy rq = None \<and>
     (\<not> rq_enforce_effective_capabilities rq \<or> capability_match rq \<noteq> [])"

text \<open>The first output of a lifecycle hook that decides anything ends the flow.\<close>

fun lifecycle_refuses :: "pyobj list \<Rightarrow> bool" where
  "lifecycle_refuses [] = False"
| "lifecycle_refuses (output # rest) =
     (lifecycle_gate_output_is_terminal output \<or>
      lifecycle_output_decision output \<noteq> ''ask'' \<and> lifecycle_refuses rest)"

lemma lifecycle_decides_deny:
  "lifecycle_refuses outs \<longleftrightarrow> (\<exists>d. lifecycle_outputs_decide rq c outs = Some d \<and> pd_action d = Perm_DENY)"
  by (induction outs) (auto simp: approval_or_background_block_def)

definition hard_verdict :: "tool_policy list \<Rightarrow> permission_request \<Rightarrow> permission_action option" where
  "hard_verdict hard rq = map_option pd_action (evaluate_hard_policies hard rq)"

lemma from_agent_allowed:
  assumes "decision_allowed (evaluate_from_agent rq w)"
  shows "passes_gates rq \<and> \<not> lifecycle_refuses (tool_spec_items (PList (rq_lifecycle_outputs rq)))"
proof -
  let ?c = "if rq_enforce_effective_capabilities rq then capability_match rq else []"
  have mode: "\<not> decision_allowed d" if "evaluate_mode_policy rq = Some d" for d
    using that by (auto simp: evaluate_mode_policy_def Let_def decision_allowed_def split: if_splits)
  have agent: "pd_action (evaluate_agent_boundary rq) \<in> {Perm_ALLOW, Perm_DENY}"
    by (auto simp: evaluate_agent_boundary_def evaluate_agent_config_def Let_def split: option.split)
  from assms agent have a: "pd_action (evaluate_agent_boundary rq) = Perm_ALLOW"
    by (auto simp: evaluate_from_agent_def Let_def decision_allowed_def split: if_splits)
  with assms mode have m: "evaluate_mode_policy rq = None"
    by (cases "evaluate_mode_policy rq") (auto simp: evaluate_from_agent_def Let_def)
  with assms a have c: "\<not> rq_enforce_effective_capabilities rq \<or> capability_match rq \<noteq> []"
    by (auto simp: evaluate_from_agent_def Let_def decision_allowed_def split: if_splits)
  have "\<not> lifecycle_refuses (tool_spec_items (PList (rq_lifecycle_outputs rq)))"
  proof
    assume "lifecycle_refuses (tool_spec_items (PList (rq_lifecycle_outputs rq)))"
    then obtain d where d: "evaluate_lifecycle_outputs rq ?c = Some d" "pd_action d = Perm_DENY"
      unfolding lifecycle_decides_deny[of _ rq ?c] evaluate_lifecycle_outputs_def by blast
    with assms a m c show False
      by (auto simp: evaluate_from_agent_def Let_def decision_allowed_def split: if_splits)
  qed
  with a m c show ?thesis by (simp add: passes_gates_def)
qed


section \<open>The hard policies\<close>

text \<open>What one hard policy says of the call of a request: nothing, a denial, a question to the user, or a
  warning.\<close>

definition policy_says :: "(tool_policy_decision \<Rightarrow> bool) \<Rightarrow> permission_request \<Rightarrow> tool_policy \<Rightarrow> bool" where
  "policy_says says rq p =
     (case rq_tool_call rq of
        None \<Rightarrow> False
      | Some call \<Rightarrow> (case p call of None \<Rightarrow> False | Some d \<Rightarrow> says d))"

definition policy_denies :: "permission_request \<Rightarrow> tool_policy \<Rightarrow> bool" where
  "policy_denies = policy_says (\<lambda>d. \<not> tp_allowed d)"

definition policy_asks :: "permission_request \<Rightarrow> tool_policy \<Rightarrow> bool" where
  "policy_asks = policy_says (\<lambda>d. tp_allowed d \<and> tp_requires_approval d)"

definition policy_warns :: "permission_request \<Rightarrow> tool_policy \<Rightarrow> bool" where
  "policy_warns =
     policy_says (\<lambda>d. tp_allowed d \<and> \<not> tp_requires_approval d \<and> opt_str (tp_warning d) \<noteq> [])"

definition policy_silent :: "permission_request \<Rightarrow> tool_policy \<Rightarrow> bool" where
  "policy_silent rq p \<longleftrightarrow> \<not> policy_denies rq p \<and> \<not> policy_asks rq p \<and> \<not> policy_warns rq p"

lemmas policy_says_defs =
  policy_says_def policy_denies_def policy_asks_def policy_warns_def policy_silent_def

lemma block_action [simp]:
  "pd_action (approval_or_background_block rq r c p d) =
     (if rq_interactive rq then Perm_REQUIRE_APPROVAL else Perm_BLOCKED_REVIEW)"
  by (simp add: approval_or_background_block_def)

lemma denies_decides:
  "policy_denies rq p \<Longrightarrow> rq_tool_call rq = Some call \<Longrightarrow>
   \<exists>d. hard_policies_decide rq call (p # rest) = Some d \<and> pd_action d = Perm_DENY"
  by (auto simp: policy_denies_def policy_says_def split: option.splits)

lemma asks_decides:
  "policy_asks rq p \<Longrightarrow> rq_tool_call rq = Some call \<Longrightarrow>
   \<exists>d. hard_policies_decide rq call (p # rest) = Some d \<and>
     pd_action d = (if rq_interactive rq then Perm_REQUIRE_APPROVAL else Perm_BLOCKED_REVIEW)"
  by (auto simp: policy_asks_def policy_says_def split: option.splits)

lemma warns_decides:
  "policy_warns rq p \<Longrightarrow> rq_tool_call rq = Some call \<Longrightarrow>
   hard_policies_decide rq call (p # rest) = hard_policies_decide rq call [p]"
  by (auto simp: policy_warns_def policy_says_def split: option.splits)

lemma silent_decides:
  "policy_silent rq p \<Longrightarrow> rq_tool_call rq = Some call \<Longrightarrow>
   hard_policies_decide rq call (p # rest) = hard_policies_decide rq call rest"
  by (auto simp: policy_says_defs split: option.splits)

lemma silent_front:
  "list_all (policy_silent rq) front \<Longrightarrow> rq_tool_call rq = Some call \<Longrightarrow>
   hard_policies_decide rq call (front @ rest) = hard_policies_decide rq call rest"
  by (induction front) (simp_all add: silent_decides del: hard_policies_decide.simps)

lemma hard_not_allow: "hard_verdict hard rq \<noteq> Some Perm_ALLOW"
proof -
  have "hard_policies_decide rq call hard = Some d \<Longrightarrow> pd_action d \<noteq> Perm_ALLOW" for call d
    by (induction hard) (auto split: option.splits if_splits)
  then show ?thesis by (auto simp: hard_verdict_def evaluate_hard_policies_def split: option.splits)
qed

lemma no_call_says: "rq_tool_call rq = None \<Longrightarrow> \<not> policy_says P rq p"
  by (simp add: policy_says_def)

lemma no_denial_before_warning:
  assumes "hard_verdict hard rq = None \<or> hard_verdict hard rq = Some Perm_WARN"
  shows "list_all (\<lambda>p. \<not> policy_denies rq p) (takeWhile (\<lambda>p. \<not> policy_warns rq p) hard)"
proof (cases "rq_tool_call rq")
  case None
  then show ?thesis by (simp add: list_all_iff policy_denies_def no_call_says)
next
  case call: (Some call)
  have "list_all (\<lambda>p. \<not> policy_denies rq p) (takeWhile (\<lambda>p. \<not> policy_warns rq p) hard)"
    if "\<And>d. hard_policies_decide rq call hard = Some d \<Longrightarrow> pd_action d = Perm_WARN"
    using that
  proof (induction hard)
    case Nil
    then show ?case by simp
  next
    case (Cons p rest)
    have "\<not> policy_denies rq p" "\<not> policy_asks rq p"
      using Cons.prems denies_decides[OF _ call, of p rest] asks_decides[OF _ call, of p rest]
      by (fastforce split: if_splits)+
    then show ?case
      using Cons silent_decides[OF _ call, of p rest] by (simp add: policy_silent_def del: hard_policies_decide.simps)
  qed
  then show ?thesis using assms by (auto simp: hard_verdict_def evaluate_hard_policies_def call)
qed

section \<open>A small request\<close>

definition demo_permission :: permission_request where
  "demo_permission =
     \<lparr>rq_subject = \<lparr>sj_agent_id = ''coder'', sj_role = [], sj_visibility = ''user'',
        sj_trigger_source = ''manual'', sj_interactive = True, sj_runtime_profile_id = [],
        sj_session_id = None, sj_task_id = None, sj_workspace_root = None\<rparr>,
      rq_target = \<lparr>tg_kind = ''tool'', tg_name = ''read_file'', tg_tool_source = ''builtin'',
        tg_registry_path = [], tg_component_id = [], tg_mcp_server = None, tg_mcp_tool = None,
        tg_target_agent_id = None\<rparr>,
      rq_action = ''execute'',
      rq_tool_call = Some \<lparr>tc_id = ''c1'', tc_name = ''read_file'', tc_arguments = []\<rparr>,
      rq_effective_capabilities = [(''builtin_tool_grants'', PList [PStr ''read_file''])],
      rq_approval = None, rq_runtime_profile = [], rq_agent_config = None,
      rq_enforce_effective_capabilities = True, rq_metadata = [], rq_lifecycle_outputs = []\<rparr>"

definition demo_rules :: approval_config where
  "demo_rules =
     \<lparr>ap_default_mode = ''require_approval'',
      ap_rules =
        [\<lparr>rl_tool_name = None, rl_tool_source = Some ''mcp'', rl_mcp_server = None,
          rl_effect_class = None, rl_profile = None, rl_action = ''deny''\<rparr>,
         \<lparr>rl_tool_name = Some ''search'', rl_tool_source = Some ''mcp'', rl_mcp_server = Some ''docs'',
          rl_effect_class = None, rl_profile = None, rl_action = ''allow''\<rparr>]\<rparr>"

definition demo_context :: approval_context where
  "demo_context =
     \<lparr>cx_tool_call = \<lparr>tc_id = ''c2'', tc_name = ''search'', tc_arguments = []\<rparr>,
      cx_tool_name = ''search'', cx_tool_source = ''mcp'', cx_mcp_server = Some ''docs'',
      cx_effect_class = None, cx_profile = None\<rparr>"

definition warning_policy :: tool_policy where
  "warning_policy call =
     Some \<lparr>tp_allowed = True, tp_reason = None, tp_warning = Some ''careful'', tp_requires_approval = False\<rparr>"

definition denying_policy :: tool_policy where
  "denying_policy call =
     Some \<lparr>tp_allowed = False, tp_reason = None, tp_warning = None, tp_requires_approval = False\<rparr>"

definition asking_policy :: tool_policy where
  "asking_policy call =
     Some \<lparr>tp_allowed = True, tp_reason = None, tp_warning = None, tp_requires_approval = True\<rparr>"

section \<open>Properties\<close>

text \<open>C21. A request gets through only past every gate. Unless the chain of hard policies ended with a
  question to the user, an allowed request is within the boundary of its agent and the tools of its
  mode, is covered by the agent's capabilities where these are enforced, and was refused by no
  lifecycle hook; and no hard policy denies it that stands before the first one that warns. (The policies
  behind a warning are not consulted, see \<open>first_hard_policy_decides\<close>.)\<close>

theorem permission_needs_every_gate:
  "decision_allowed (evaluate_permission hard rq) \<Longrightarrow>
   hard_verdict hard rq \<noteq> Some Perm_REQUIRE_APPROVAL \<Longrightarrow>
   passes_gates rq \<and> \<not> lifecycle_refuses (tool_spec_items (PList (rq_lifecycle_outputs rq))) \<and>
   hard_verdict hard rq \<noteq> Some Perm_DENY \<and>
   list_all (\<lambda>p. \<not> policy_denies rq p) (takeWhile (\<lambda>p. \<not> policy_warns rq p) hard)"
proof -
  assume allowed: "decision_allowed (evaluate_permission hard rq)"
    and asked: "hard_verdict hard rq \<noteq> Some Perm_REQUIRE_APPROVAL"
  then have v: "hard_verdict hard rq = None \<or> hard_verdict hard rq = Some Perm_WARN"
    using hard_not_allow[of hard rq]
    by (auto simp: evaluate_permission_def hard_verdict_def decision_allowed_def split: option.splits if_splits)
  then obtain w where "evaluate_permission hard rq = with_lifecycle_audit rq (evaluate_from_agent rq w)"
    by (cases "evaluate_hard_policies hard rq")
      (auto simp: evaluate_permission_def hard_verdict_def split: if_splits)
  with allowed have "decision_allowed (evaluate_from_agent rq w)" by simp
  from from_agent_allowed[OF this] no_denial_before_warning[OF v] v show ?thesis by auto
qed

theorem permission_needs_every_gate_witness:
  "passes_gates demo_permission \<and>
   \<not> lifecycle_refuses (tool_spec_items (PList (rq_lifecycle_outputs demo_permission))) \<and>
   hard_verdict [warning_policy, denying_policy] demo_permission \<noteq> Some Perm_DENY \<and>
   list_all (\<lambda>p. \<not> policy_denies demo_permission p)
     (takeWhile (\<lambda>p. \<not> policy_warns demo_permission p) [warning_policy, denying_policy])"
proof (rule permission_needs_every_gate)
  show "decision_allowed (evaluate_permission [warning_policy, denying_policy] demo_permission)" by code_simp
  show "hard_verdict [warning_policy, denying_policy] demo_permission \<noteq> Some Perm_REQUIRE_APPROVAL" by code_simp
qed

text \<open>Every decision is consistent: it is authorized exactly when its action lets the request run,
  possibly after an approval; a background agent is never made to wait for an approval, and an
  interactive one is never blocked for review.\<close>

theorem permission_decision_consistent:
  "pd_authorized (evaluate_permission hard rq) = decision_allowed (evaluate_permission hard rq) \<and>
   \<not> (pd_action (evaluate_permission hard rq) = Perm_REQUIRE_APPROVAL \<and> \<not> sj_interactive (rq_subject rq)) \<and>
   \<not> (pd_action (evaluate_permission hard rq) = Perm_BLOCKED_REVIEW \<and> sj_interactive (rq_subject rq))"
  using consistent_permission[of rq hard] by (auto simp: consistent_decision_def)

text \<open>The most specific matching approval rule decides: no matching rule is more specific than the one
  whose action is taken.\<close>

theorem approval_most_specific:
  "am_rule (approval_evaluate config c) = Some r \<Longrightarrow> q \<in> set (ap_rules config) \<Longrightarrow> rule_matches q c \<Longrightarrow>
   r \<in> set (ap_rules config) \<and> rule_matches r c \<and>
   am_action (approval_evaluate config c) = rl_action r \<and> rule_specificity q \<le> rule_specificity r"
  using approval_rule_best[of config c r] by blast

theorem approval_most_specific_witness:
  "ap_rules demo_rules ! 1 \<in> set (ap_rules demo_rules) \<and> rule_matches (ap_rules demo_rules ! 1) demo_context \<and>
   am_action (approval_evaluate demo_rules demo_context) = rl_action (ap_rules demo_rules ! 1) \<and>
   rule_specificity (ap_rules demo_rules ! 0) \<le> rule_specificity (ap_rules demo_rules ! 1)"
proof (rule approval_most_specific)
  show "am_rule (approval_evaluate demo_rules demo_context) = Some (ap_rules demo_rules ! 1)"
    by code_simp
  show "ap_rules demo_rules ! 0 \<in> set (ap_rules demo_rules)" by (simp add: demo_rules_def)
  show "rule_matches (ap_rules demo_rules ! 0) demo_context" by code_simp
qed

text \<open>C23. The first hard policy that says anything decides, whatever the policies behind it say. Behind
  policies that pass the call, one that denies ends in a denial; one that asks ends with the question to
  the user (a block for review when no user is there) for every request, so the boundary of the agent,
  the mode and the capabilities are then not checked; and one that warns gives the decision it would give
  alone, so that a denying policy behind it has no effect.\<close>

theorem first_hard_policy_decides:
  "list_all (policy_silent rq) front \<Longrightarrow>
   (policy_denies rq p \<longrightarrow> pd_action (evaluate_permission (front @ p # behind) rq) = Perm_DENY) \<and>
   (policy_asks rq p \<longrightarrow> pd_action (evaluate_permission (front @ p # behind) rq) =
      (if sj_interactive (rq_subject rq) then Perm_REQUIRE_APPROVAL else Perm_BLOCKED_REVIEW)) \<and>
   (policy_warns rq p \<longrightarrow>
      evaluate_permission (front @ p # behind) rq = evaluate_permission [p] rq)"
proof (cases "rq_tool_call rq")
  case None
  then show ?thesis by (simp add: policy_denies_def policy_asks_def policy_warns_def no_call_says)
next
  case call: (Some call)
  assume "list_all (policy_silent rq) front"
  note front = silent_front[OF this call, of "p # behind"]
  have "evaluate_hard_policies (front @ p # behind) rq = hard_policies_decide rq call (p # behind)"
    unfolding evaluate_hard_policies_def call option.case front ..
  then show ?thesis
    using denies_decides[OF _ call, of p behind] asks_decides[OF _ call, of p behind]
      warns_decides[OF _ call, of p behind]
    by (auto simp: evaluate_permission_def evaluate_hard_policies_def[of "[p]"] call
        simp del: hard_policies_decide.simps)
qed

theorem first_hard_policy_decides_witness:
  "pd_action (evaluate_permission [\<lambda>_. None, denying_policy] demo_permission) = Perm_DENY \<and>
   pd_action (evaluate_permission [\<lambda>_. None, asking_policy, denying_policy]
     (demo_permission\<lparr>rq_effective_capabilities := []\<rparr>)) = Perm_REQUIRE_APPROVAL \<and>
   evaluate_permission [\<lambda>_. None, warning_policy, denying_policy] demo_permission =
     evaluate_permission [warning_policy] demo_permission"
proof (intro conjI)
  have pass: "list_all (policy_silent rq) [\<lambda>_. None]" for rq
    by (simp add: policy_says_defs split: option.split)
  let ?bare = "demo_permission\<lparr>rq_effective_capabilities := []\<rparr>"
  have "policy_denies demo_permission denying_policy" "policy_warns demo_permission warning_policy"
    "policy_asks ?bare asking_policy" "sj_interactive (rq_subject ?bare)" by code_simp+
  then show "pd_action (evaluate_permission [\<lambda>_. None, denying_policy] demo_permission) = Perm_DENY"
    and "pd_action (evaluate_permission [\<lambda>_. None, asking_policy, denying_policy] ?bare) = Perm_REQUIRE_APPROVAL"
    and "evaluate_permission [\<lambda>_. None, warning_policy, denying_policy] demo_permission =
      evaluate_permission [warning_policy] demo_permission"
    using first_hard_policy_decides[OF pass, of demo_permission denying_policy "[]"]
      first_hard_policy_decides[OF pass, of ?bare asking_policy "[denying_policy]"]
      first_hard_policy_decides[OF pass, of demo_permission warning_policy "[denying_policy]"]
    by simp_all
qed

end
