(* ===== verification/ShellPolicy.thy ===== *)
theory ShellPolicy
  imports RegexSearch PermissionProofs "HOL-Library.Sublist"
begin

text \<open>
  The hard policy of the shell tool, which is the gateway's default: \<open>ShellDangerousCommandPolicy\<close>
  (\<open>src/reuleauxcoder/extensions/tools/policies/shell.py\<close>) and \<open>classify_manual_file_write\<close>
  (\<open>src/reuleauxcoder/extensions/tools/builtin/shell.py\<close>).
\<close>

section \<open>Writing files by hand\<close>

definition rx_quote :: rx where
  "rx_quote = RxChar (\<lambda>c. c = CHR 0x22 \<or> c = CHR 0x27)"

definition manual_write_patterns :: "(rx \<times> string) list" where
  "manual_write_patterns =
     [(rx_seq [RxLineStart, rx_spaces, rx_alt [rx_lit_i ''echo'', rx_lit_i ''printf''], RxBoundary, rx_any,
               rx_lit ''>'', rx_spaces, RxNotNext (\<lambda>c. c = CHR ''&'' \<or> is_digit c)],
       ''shell redirection''),
      (rx_seq [rx_lit ''<<'', rx_spaces, rx_opt rx_quote, rx_plus (RxChar is_word_char), rx_opt rx_quote,
               rx_spaces, rx_lit ''>'', rx_spaces],
       ''heredoc redirection''),
      (rx_seq [rx_lit ''|'', rx_spaces, rx_lit_i ''tee'', rx_spaces1,
               rx_opt (rx_seq [rx_lit_i ''-a'', rx_spaces1]),
               rx_plus (RxChar (\<lambda>c. \<not> is_space c \<and> c \<noteq> CHR ''|'' \<and> c \<noteq> CHR '';''))],
       ''tee file write''),
      (rx_seq [RxBoundary, rx_lit_i ''Set-Content'', RxBoundary], ''Set-Content''),
      (rx_seq [RxBoundary, rx_lit_i ''Out-File'', RxBoundary], ''Out-File''),
      (rx_seq [RxBoundary, rx_lit_i ''Add-Content'', RxBoundary], ''Add-Content''),
      (rx_seq [RxBoundary, rx_lit_i ''python'', rx_opt (rx_lit ''3''), RxBoundary, rx_any, RxBoundary,
               rx_lit_i ''open'', rx_spaces, rx_lit ''('', RxStar (RxChar (\<lambda>c. c \<noteq> CHR '')'')),
               rx_quote, rx_lit_i ''w''],
       ''python file write''),
      (rx_seq [RxBoundary, rx_lit_i ''node'', RxBoundary, rx_any, RxBoundary, rx_lit_i ''writeFileSync'',
               rx_spaces, rx_lit ''(''],
       ''node file write''),
      (rx_seq [RxBoundary, rx_lit_i ''fs.writeFileSync'', rx_spaces, rx_lit ''(''], ''node file write'')]"

definition classify_manual_file_write :: "string \<Rightarrow> string option" where
  "classify_manual_file_write command =
     (case List.find (\<lambda>(r, _). rx_search r command) manual_write_patterns of
        None \<Rightarrow> None
      | Some (_, reason) \<Rightarrow>
          Some (''Error: shell file editing is not allowed ('' @ reason @ ''). '' @
            ''Use apply_patch for file changes or draft_document_begin for long markdown documents.''))"

section \<open>Dangerous commands\<close>

text \<open>\<open>-\w*\<close> in brackets before the flag, \<open>/\<close> or white space or the end, and an optional \<open>sudo\<close>.\<close>

definition rx_flag :: rx where "rx_flag = rx_opt (rx_seq [rx_lit ''-'', rx_words])"

definition rx_path_end :: rx where "rx_path_end = rx_alt [rx_lit ''/'', RxChar is_space, RxEnd]"

definition rx_pipe_bash :: "string \<Rightarrow> rx" where
  "rx_pipe_bash tool =
     rx_seq [RxBoundary, rx_lit tool, RxBoundary, rx_any, rx_lit ''|'', rx_spaces,
       rx_opt (rx_seq [rx_lit ''sudo'', rx_spaces1]), rx_lit ''bash'']"

definition rx_force_delete :: rx where
  "rx_force_delete =
     rx_seq [RxBoundary, rx_lit ''rm'', rx_spaces1, rx_flag, rx_lit ''-rf'', RxChar is_space]"

definition dangerous_patterns :: "(rx \<times> string) list" where
  "dangerous_patterns =
     [(rx_force_delete, ''force recursive delete''),
      (rx_seq [RxBoundary, rx_lit ''rm'', rx_spaces1, rx_flag, rx_lit ''-r'', rx_words, rx_spaces1,
               rx_alt [rx_seq [rx_lit ''/'', RxChar is_space], rx_seq [rx_lit ''~'', rx_path_end],
                       rx_seq [rx_lit ''$HOME'', rx_path_end]]],
       ''recursive delete on home/root''),
      (rx_seq [RxBoundary, rx_lit ''mkfs'', RxBoundary], ''format filesystem''),
      (rx_seq [RxBoundary, rx_lit ''dd'', rx_spaces1, rx_any, rx_lit ''of=/dev/''], ''raw disk write''),
      (rx_seq [rx_lit ''>'', rx_spaces, rx_lit ''/dev/sd'',
               RxChar (\<lambda>c. 97 \<le> code_point c \<and> code_point c \<le> 122)],
       ''overwrite block device''),
      (rx_seq [RxBoundary, rx_lit ''chmod'', rx_spaces1, rx_opt (rx_seq [rx_lit ''-R'', rx_spaces1]),
               rx_lit ''777'', rx_spaces1, rx_lit ''/''],
       ''chmod 777 on root''),
      (rx_seq [rx_lit '':()'', rx_spaces, rx_lit ''{'', rx_any, rx_lit '':|:'', rx_spaces, rx_lit ''}''],
       ''fork bomb''),
      (rx_pipe_bash ''curl'', ''pipe curl to bash''),
      (rx_pipe_bash ''wget'', ''pipe wget to bash'')]"

definition shell_policy :: tool_policy where
  "shell_policy call =
     (let deny = (\<lambda>reason. Some \<lparr>tp_allowed = False, tp_reason = Some reason, tp_warning = None,
            tp_requires_approval = False\<rparr>)
      in if tc_name call \<noteq> ''shell'' then None
         else case pget (tc_arguments call) ''command'' of
           PStr command \<Rightarrow>
             (case classify_manual_file_write command of
                Some reason \<Rightarrow> deny reason
              | None \<Rightarrow>
                  (case List.find (\<lambda>(r, _). rx_search r command) dangerous_patterns of
                     Some (_, reason) \<Rightarrow>
                       deny (''Blocked by shell policy: '' @ reason @ ''. Command: '' @ command)
                   | None \<Rightarrow> Some \<lparr>tp_allowed = True, tp_reason = None, tp_warning = None,
                               tp_requires_approval = False\<rparr>))
         | _ \<Rightarrow> deny (''shell tool requires a string '' @ [CHR 0x27] @ ''command'' @ [CHR 0x27] @
                     '' argument''))"

definition default_tool_policies :: "tool_policy list" where
  "default_tool_policies = [shell_policy]"

definition shell_call :: "string \<Rightarrow> tool_call" where
  "shell_call command = \<lparr>tc_id = ''c'', tc_name = ''shell'', tc_arguments = [(''command'', PStr command)]\<rparr>"

text \<open>Words, in lower case, one of which is in every command that the policy refuses.\<close>

definition suspicious_words :: "string list" where
  "suspicious_words =
     [''>'', ''|'', ''-rf'', ''-r'', '':()'', ''mkfs'', ''of=/dev/'', ''777'', ''set-content'', ''out-file'', ''add-content'',
      ''python'', ''node'', ''fs.writefilesync'']"

section \<open>Lemmas\<close>

lemma shell_policy_dangerous:
  assumes "tc_name call = ''shell''" "pget (tc_arguments call) ''command'' = PStr command"
    and "(r, why) \<in> set dangerous_patterns" "rx_search r command"
  shows "\<exists>d. shell_policy call = Some d \<and> \<not> tp_allowed d"
proof -
  have "List.find (\<lambda>(r, _). rx_search r command) dangerous_patterns \<noteq> None"
    using assms(3,4) unfolding find_None_iff by blast
  then show ?thesis
    using assms(1,2)
    by (auto simp: shell_policy_def Let_def split: option.splits)
qed

lemma force_delete_found:
  assumes "before = [] \<or> \<not> is_word_char (last before)"
    and "gap \<noteq> []" "list_all is_space gap" and "is_space c"
  shows "rx_search rx_force_delete (before @ ''rm'' @ gap @ ''-rf'' @ [c] @ after)"
proof -
  let ?rest = "gap @ ''-rf'' @ [c]"
  have tail: "rx_covers (RxSeq (rx_lit ''-rf'') (RxChar is_space)) b (''-rf'' @ [c]) after" for b
    by (rule covers_seq[OF covers_lit covers_char]) (use assms in simp_all)
  have flag: "rx_covers (RxSeq rx_flag (RxSeq (rx_lit ''-rf'') (RxChar is_space))) b ([] @ ''-rf'' @ [c]) after"
    for b unfolding rx_flag_def by (rule covers_seq[OF covers_opt_skip]) (use tail in simp)
  have spaces: "rx_covers (RxSeq rx_spaces1 (RxSeq rx_flag (RxSeq (rx_lit ''-rf'') (RxChar is_space))))
      b (gap @ ''-rf'' @ [c]) after" for b
    unfolding rx_spaces1_def
    by (rule covers_seq[OF covers_plus_chars]) (use assms flag in simp_all)
  have "rx_covers (RxSeq (rx_lit ''rm'') (RxSeq rx_spaces1 (RxSeq rx_flag
      (RxSeq (rx_lit ''-rf'') (RxChar is_space))))) before (''rm'' @ ?rest) after"
    by (rule covers_seq[OF covers_lit spaces]) simp
  then have "rx_covers rx_force_delete before ([] @ ''rm'' @ ?rest) after"
    unfolding rx_force_delete_def rx_seq.simps
    by (intro covers_seq[OF covers_boundary])
      (use assms(1) in \<open>simp_all add: is_word_char_def is_alnum_def code_point_def\<close>)
  from covers_search[OF this] show ?thesis by simp
qed

lemma hard_denies:
  "rq_tool_call rq = Some call \<Longrightarrow> shell_policy call = Some d \<Longrightarrow> \<not> tp_allowed d \<Longrightarrow>
   pd_action (evaluate_permission default_tool_policies rq) = Perm_DENY"
  by (simp add: evaluate_permission_def evaluate_hard_policies_def default_tool_policies_def)

section \<open>Commands that match nothing\<close>

text \<open>A word, in lower case, that every match of a pattern has in it.\<close>

inductive rx_needs :: "rx \<Rightarrow> string \<Rightarrow> bool" where
  needs_lit: "t \<noteq> [] \<Longrightarrow> rx_needs (rx_lit t) (map lower_char t)"
| needs_lit_i: "t \<noteq> [] \<Longrightarrow> rx_needs (rx_lit_i t) (map lower_char t)"
| needs_fst: "rx_needs a w \<Longrightarrow> rx_needs (RxSeq a b) w"
| needs_snd: "rx_needs b w \<Longrightarrow> rx_needs (RxSeq a b) w"

lemma needs_rx_seq: "r \<in> set rs \<Longrightarrow> rx_needs r w \<Longrightarrow> rx_needs (rx_seq rs) w"
  by (induction rs rule: rx_seq.induct) (auto intro: rx_needs.intros)

lemma chars_ends:
  "j \<in> set (rx_ends (rx_seq (map (\<lambda>c. RxChar (P c)) t)) s i) \<Longrightarrow> t \<noteq> [] \<Longrightarrow>
   list_all2 P t (take (length t) (drop i s))"
proof (induction t arbitrary: i)
  case Nil
  then show ?case by simp
next
  case (Cons c t)
  show ?case
  proof (cases t)
    case Nil
    then show ?thesis
      using Cons.prems by (auto simp: Cons_nth_drop_Suc[symmetric] split: if_splits)
  next
    case (Cons d u)
    then have first: "i < length s" "P c (s ! i)"
      and more: "j \<in> set (rx_ends (rx_seq (map (\<lambda>c. RxChar (P c)) t)) s (Suc i))"
      using Cons.prems by (auto split: if_splits)
    show ?thesis
      using first Cons.IH[OF more] Cons by (simp add: Cons_nth_drop_Suc[symmetric])
  qed
qed

lemma take_drop_sublist: "sublist (take n (drop i s)) s"
  by (rule sublist_order.order_trans[OF sublist_take sublist_drop])

lemma needs_ends:
  "rx_needs r w \<Longrightarrow> j \<in> set (rx_ends r s i) \<Longrightarrow> sublist w (map lower_char s)"
proof (induction arbitrary: i j rule: rx_needs.induct)
  case (needs_lit t)
  then have "list_all2 (\<lambda>c d. d = c) t (take (length t) (drop i s))"
    by (intro chars_ends) (simp_all add: rx_lit_def)
  then have "map lower_char t = map lower_char (take (length t) (drop i s))"
    by (intro nth_equalityI) (auto simp: list_all2_conv_all_nth)
  then show ?case by (simp add: map_mono_sublist take_drop_sublist)
next
  case (needs_lit_i t)
  then have "list_all2 (\<lambda>c d. lower_char d = lower_char c) t (take (length t) (drop i s))"
    by (intro chars_ends) (simp_all add: rx_lit_i_def)
  then have "map lower_char t = map lower_char (take (length t) (drop i s))"
    by (intro nth_equalityI) (auto simp: list_all2_conv_all_nth)
  then show ?case by (simp add: map_mono_sublist take_drop_sublist)
qed auto

lemma needs_search: "rx_needs r w \<Longrightarrow> rx_search r s \<Longrightarrow> sublist w (map lower_char s)"
proof -
  assume r: "rx_needs r w" and "rx_search r s"
  then obtain i j where "j \<in> set (rx_ends r s i)"
    unfolding rx_search_def list_ex_iff by (metis last_in_set)
  then show ?thesis by (rule needs_ends[OF r])
qed

lemma suspicious_lowered:
  "map (map lower_char) [''>'', ''|'', ''-rf'', ''-r'', '':()'', ''mkfs'', ''of=/dev/'', ''777'', ''Set-Content'', ''Out-File'',
     ''Add-Content'', ''python'', ''node'', ''fs.writeFileSync''] = suspicious_words"
  by code_simp

lemma needs_word:
  "r \<in> set rs \<Longrightarrow> r = rx_lit t \<or> r = rx_lit_i t \<Longrightarrow>
   t \<in> set [''>'', ''|'', ''-rf'', ''-r'', '':()'', ''mkfs'', ''of=/dev/'', ''777'', ''Set-Content'', ''Out-File'',
     ''Add-Content'', ''python'', ''node'', ''fs.writeFileSync''] \<Longrightarrow>
   \<exists>w\<in>set suspicious_words. rx_needs (rx_seq rs) w"
  unfolding suspicious_lowered[symmetric]
  by (rule bexI[of _ "map lower_char t"], rule needs_rx_seq[of r]) (auto intro: rx_needs.intros)

lemma patterns_need:
  assumes "(r, why) \<in> set manual_write_patterns \<union> set dangerous_patterns"
  shows "\<exists>w\<in>set suspicious_words. rx_needs r w"
proof -
  have "list_all (\<lambda>(r, _). \<exists>w\<in>set suspicious_words. rx_needs r w) (manual_write_patterns @ dangerous_patterns)"
    unfolding manual_write_patterns_def dangerous_patterns_def rx_force_delete_def rx_pipe_bash_def
      append.simps list.pred_inject prod.case
    by (intro conjI TrueI)
     ((rule needs_word[of "rx_lit ''>''" _ "''>''"]; simp; fail)
      | (rule needs_word[of "rx_lit ''|''" _ "''|''"]; simp; fail)
      | (rule needs_word[of "rx_lit ''-r''" _ "''-r''"]; simp; fail)
      | (rule needs_word[of "rx_lit ''-rf''" _ "''-rf''"]; simp; fail)
      | (rule needs_word[of "rx_lit '':()''" _ "'':()''"]; simp; fail)
      | (rule needs_word[of "rx_lit ''mkfs''" _ "''mkfs''"]; simp; fail)
      | (rule needs_word[of "rx_lit ''of=/dev/''" _ "''of=/dev/''"]; simp; fail)
      | (rule needs_word[of "rx_lit ''777''" _ "''777''"]; simp; fail)
      | (rule needs_word[of "rx_lit_i ''Set-Content''" _ "''Set-Content''"]; simp; fail)
      | (rule needs_word[of "rx_lit_i ''Out-File''" _ "''Out-File''"]; simp; fail)
      | (rule needs_word[of "rx_lit_i ''Add-Content''" _ "''Add-Content''"]; simp; fail)
      | (rule needs_word[of "rx_lit_i ''python''" _ "''python''"]; simp; fail)
      | (rule needs_word[of "rx_lit_i ''node''" _ "''node''"]; simp; fail)
      | (rule needs_word[of "rx_lit_i ''fs.writeFileSync''" _ "''fs.writeFileSync''"]; simp; fail) | simp)+
  then show ?thesis using assms by (auto simp: list_all_iff)
qed

section \<open>Properties\<close>

text \<open>C22. The spelling \<open>rm -rf\<close> of a forced recursive delete is refused wherever it stands in a command:
  the gateway denies a shell call whose command contains, in lower case and in this order, \<open>rm\<close> with no
  word character before it, white space, \<open>-rf\<close> and white space. Nothing is claimed of other spellings;
  \<open>rm -fr /\<close> is allowed (\<open>plain_commands_allowed\<close>).\<close>

theorem forced_delete_denied:
  "rq_tool_call rq = Some (shell_call (before @ ''rm'' @ gap @ ''-rf'' @ [c] @ after)) \<Longrightarrow>
   before = [] \<or> \<not> is_word_char (last before) \<Longrightarrow> gap \<noteq> [] \<Longrightarrow> list_all is_space gap \<Longrightarrow> is_space c \<Longrightarrow>
   pd_action (evaluate_permission default_tool_policies rq) = Perm_DENY"
proof -
  let ?cmd = "before @ ''rm'' @ gap @ ''-rf'' @ [c] @ after"
  assume call: "rq_tool_call rq = Some (shell_call ?cmd)"
    and "before = [] \<or> \<not> is_word_char (last before)" "gap \<noteq> []" "list_all is_space gap" "is_space c"
  then have found: "rx_search rx_force_delete ?cmd" by (intro force_delete_found)
  have "(rx_force_delete, ''force recursive delete'') \<in> set dangerous_patterns"
    by (simp add: dangerous_patterns_def)
  then obtain d where "shell_policy (shell_call ?cmd) = Some d" "\<not> tp_allowed d"
    using shell_policy_dangerous[OF _ _ _ found, of "shell_call ?cmd"]
    by (auto simp: shell_call_def pget_def)
  then show ?thesis by (rule hard_denies[OF call])
qed

theorem forced_delete_denied_witness:
  "pd_action (evaluate_permission default_tool_policies
     (demo_permission\<lparr>rq_tool_call := Some (shell_call (''cd /tmp; '' @ ''rm'' @ ''  '' @ ''-rf'' @ [CHR 0x20] @ ''x''))\<rparr>)) =
   Perm_DENY"
  by (rule forced_delete_denied[of _ "''cd /tmp; ''" "''  ''" "CHR 0x20" "''x''"])
    (simp_all add: is_word_char_def is_alnum_def is_digit_def is_space_def code_point_def)

text \<open>What the policy lets through: a command that has, in either case, none of the listed words in it is
  allowed. The list does not know the flags in another order: \<open>rm -fr /\<close> is such a command.\<close>

theorem plain_commands_allowed:
  "list_all (\<lambda>w. \<not> sublist w (map lower_char command)) suspicious_words \<Longrightarrow>
   shell_policy (shell_call command) =
     Some \<lparr>tp_allowed = True, tp_reason = None, tp_warning = None, tp_requires_approval = False\<rparr>"
proof -
  assume plain: "list_all (\<lambda>w. \<not> sublist w (map lower_char command)) suspicious_words"
  have "\<not> rx_search r command"
    if "(r, why) \<in> set manual_write_patterns \<union> set dangerous_patterns" for r why
    using patterns_need[OF that] plain needs_search[of r] by (auto simp: list_all_iff)
  then have "List.find (\<lambda>(r, _). rx_search r command) manual_write_patterns = None"
    "List.find (\<lambda>(r, _). rx_search r command) dangerous_patterns = None"
    by (auto simp: find_None_iff)
  then show ?thesis
    by (simp add: shell_policy_def classify_manual_file_write_def shell_call_def pget_def)
qed

theorem plain_commands_allowed_witness:
  "map_option tp_allowed (shell_policy (shell_call ''rm -fr /'')) = Some True"
  by (subst plain_commands_allowed)
    (simp_all add: suspicious_words_def lower_char_def code_point_def sublist_code)

end
