(* ===== verification/DocumentFields.thy ===== *)
theory DocumentFields
  imports ConfigModels AgentConfigs
begin

text \<open>
  Reading and writing the fields of a document: the expressions that the \<open>from_dict\<close> and \<open>to_dict\<close> methods
  of the taskflow documents are made of, with the law of each for a field that was written before.
  A number with a fraction, which the code keeps as a \<open>float\<close>, is only modelled when it is whole.
\<close>

named_theorems roundtrips \<open>what is read back after it was written\<close>

section \<open>Reading\<close>

definition dict_of :: "pyval \<Rightarrow> pyobj" where
  "dict_of v = (case v of PDict d \<Rightarrow> d | _ \<Rightarrow> [])"

definition list_of :: "pyval \<Rightarrow> pyval list" where
  "list_of v = (case v of PList xs \<Rightarrow> xs | _ \<Rightarrow> [])"

definition dict_records :: "pyval \<Rightarrow> pyobj list" where
  "dict_records v = map dict_of (list_of v)"

text \<open>\<open>str(data.get(k) or default)\<close>.\<close>

definition text_at :: "pyobj \<Rightarrow> string \<Rightarrow> string \<Rightarrow> string" where
  "text_at data k dflt = py_str (py_or (pget data k) (PStr dflt))"

text \<open>\<open>str(data[k]) if data.get(k) is not None else None\<close>, and the same for numbers.\<close>

definition opt_text_at :: "pyobj \<Rightarrow> string \<Rightarrow> string option" where
  "opt_text_at data k = (case pget data k of PNone \<Rightarrow> None | v \<Rightarrow> Some (py_str v))"

definition int_at :: "pyobj \<Rightarrow> string \<Rightarrow> int \<Rightarrow> int result" where
  "int_at data k dflt = py_int (py_or (pget data k) (PInt dflt))"

definition opt_int_at :: "pyobj \<Rightarrow> string \<Rightarrow> int option result" where
  "opt_int_at data k =
     (case pget data k of PNone \<Rightarrow> Inr None | v \<Rightarrow> res_bind (py_int v) (\<lambda>i. Inr (Some i)))"

definition whole_float :: "pyval \<Rightarrow> int result" where
  "whole_float v =
     (case v of
        PInt i \<Rightarrow> Inr i
      | PBool b \<Rightarrow> Inr (if b then 1 else 0)
      | PStr s \<Rightarrow> (case parse_int s of
                    None \<Rightarrow> Inl (ValueError ''could not convert string to float'')
                  | Some i \<Rightarrow> Inr i)
      | _ \<Rightarrow> Inl (TypeError ''float() argument must be a string or a real number''))"

definition opt_float_at :: "pyobj \<Rightarrow> string \<Rightarrow> int option result" where
  "opt_float_at data k =
     (case pget data k of PNone \<Rightarrow> Inr None | v \<Rightarrow> res_bind (whole_float v) (\<lambda>i. Inr (Some i)))"

definition opt_record_at :: "(pyobj \<Rightarrow> 'a result) \<Rightarrow> pyobj \<Rightarrow> string \<Rightarrow> 'a option result" where
  "opt_record_at f data k =
     (case pget data k of PNone \<Rightarrow> Inr None | v \<Rightarrow> res_bind (f (dict_of v)) (\<lambda>x. Inr (Some x)))"

text \<open>\<open>[X.from_dict(_dict(item)) for item in _list(v)]\<close>, for a reader that may raise and for one that cannot.\<close>

definition records_at :: "(pyobj \<Rightarrow> 'a result) \<Rightarrow> pyval \<Rightarrow> 'a list result" where
  "records_at f v = res_map (\<lambda>item. f (dict_of item)) (list_of v)"

definition records_of :: "(pyobj \<Rightarrow> 'a) \<Rightarrow> pyval \<Rightarrow> 'a list" where
  "records_of f v = map (\<lambda>item. f (dict_of item)) (list_of v)"

definition int_pairs_at :: "pyobj \<Rightarrow> string \<Rightarrow> (string, int) pydict result" where
  "int_pairs_at data k =
     res_map (\<lambda>(key, v). res_bind (py_int v) (\<lambda>i. Inr (key, i))) (dict_of (pget data k))"

text \<open>An answer is a text, a list of texts or None.\<close>

definition parsed_answer :: "pyval \<Rightarrow> pyval" where
  "parsed_answer v =
     (case v of PList xs \<Rightarrow> strs (string_list v) | PNone \<Rightarrow> PNone | _ \<Rightarrow> PStr (py_str v))"

section \<open>Writing\<close>

definition dicts :: "pyobj list \<Rightarrow> pyval" where
  "dicts ds = PList (map PDict ds)"

definition docs :: "('a \<Rightarrow> pyobj) \<Rightarrow> 'a list \<Rightarrow> pyval" where
  "docs f xs = PList (map (\<lambda>x. PDict (f x)) xs)"

definition strs_pairs :: "(string, string list) pydict \<Rightarrow> pyval" where
  "strs_pairs d = PDict (map (\<lambda>(k, xs). (k, strs xs)) d)"

definition int_pairs_val :: "(string, int) pydict \<Rightarrow> pyval" where
  "int_pairs_val d = PDict (map (\<lambda>(k, i). (k, PInt i)) d)"

definition opt_record_val :: "('a \<Rightarrow> pyobj) \<Rightarrow> 'a option \<Rightarrow> pyval" where
  "opt_record_val f x = (case x of None \<Rightarrow> PNone | Some r \<Rightarrow> PDict (f r))"

text \<open>\<open>_serialize\<close> copies a value that holds no enumeration and no record.\<close>

fun serialize :: "pyval \<Rightarrow> pyval" where
  "serialize (PList xs) = PList (map serialize xs)"
| "serialize (PDict d) = PDict (map (\<lambda>(k, v). (k, serialize v)) d)"
| "serialize v = v"

lemma serialize_id [simp]: "serialize v = v"
proof (induction v)
  case (PList xs)
  then show ?case by (simp add: map_idI)
next
  case (PDict d)
  have "map (\<lambda>(k, v). (k, serialize v)) d = map (\<lambda>x. x) d"
    using PDict by (intro map_cong) (auto split: prod.splits)
  then show ?case by simp
qed simp_all

section \<open>What is read back\<close>

lemma pget_simps [simp]:
  "pget [] k = PNone"
  "pget ((k', v) # d) k = (if k' = k then v else pget d k)"
  "pget_or [] k x = x"
  "pget_or ((k', v) # d) k x = (if k' = k then v else pget_or d k x)"
  by (simp_all add: pget_def pget_or_def)

lemma dict_of_PDict [simp]: "dict_of (PDict d) = d" "dict_of PNone = []"
  by (simp_all add: dict_of_def)

lemma list_of_PList [simp]: "list_of (PList xs) = xs" "list_of PNone = []"
  by (simp_all add: list_of_def)

lemma dict_items_dicts [roundtrips]: "dict_records (dicts ds) = ds"
  by (simp add: dict_records_def dicts_def map_idI)

lemma text_back [roundtrips]:
  "pget data k = PStr s \<Longrightarrow> dflt = [] \<or> s \<noteq> [] \<Longrightarrow> text_at data k dflt = s"
  by (auto simp: text_at_def py_or_def)

lemma text_or_back [roundtrips]:
  "py_str (py_or (PStr s) (PStr [])) = s"
  "s \<noteq> [] \<Longrightarrow> py_str (py_or (PStr s) v) = s"
  "py_or PNone v = v"
  by (simp_all add: py_or_def)

lemma opt_text_back [roundtrips]: "pget data k = opt_val x \<Longrightarrow> opt_text_at data k = x"
  by (cases x) (simp_all add: opt_text_at_def)

lemma int_back [roundtrips]:
  "pget data k = PInt i \<Longrightarrow> i \<noteq> 0 \<or> dflt = 0 \<Longrightarrow> int_at data k dflt = Inr i"
  by (auto simp: int_at_def py_or_def py_int_def)

lemma opt_int_back [roundtrips]: "pget data k = opt_int x \<Longrightarrow> opt_int_at data k = Inr x"
  by (cases x) (simp_all add: opt_int_at_def py_int_def)

lemma opt_float_back [roundtrips]: "pget data k = opt_int x \<Longrightarrow> opt_float_at data k = Inr x"
  by (cases x) (simp_all add: opt_float_at_def whole_float_def)

lemma records_at_docs:
  "list_all P xs \<Longrightarrow> (\<And>x. P x \<Longrightarrow> f (g x) = Inr x) \<Longrightarrow> records_at f (docs g xs) = Inr xs"
  by (induction xs) (simp_all add: records_at_def docs_def)

lemma records_of_docs:
  "list_all P xs \<Longrightarrow> (\<And>x. P x \<Longrightarrow> f (g x) = x) \<Longrightarrow> records_of f (docs g xs) = xs"
  by (induction xs) (simp_all add: records_of_def docs_def)

lemma records_or_none [roundtrips]: "records_at f (py_or (docs g xs) PNone) = records_at f (docs g xs)"
  by (cases xs) (simp_all add: records_at_def docs_def py_or_def)

lemma int_pairs_back [roundtrips]: "pget data k = int_pairs_val d \<Longrightarrow> int_pairs_at data k = Inr d"
proof -
  assume "pget data k = int_pairs_val d"
  moreover have "res_map (\<lambda>(key, v). res_bind (py_int v) (\<lambda>i. Inr (key, i))) (map (\<lambda>(k, i). (k, PInt i)) d) = Inr d"
    by (induction d) (auto simp: py_int_def)
  ultimately show ?thesis by (simp add: int_pairs_at_def int_pairs_val_def)
qed

definition answer_ok :: "pyval \<Rightarrow> bool" where
  "answer_ok v \<longleftrightarrow>
     (case v of PNone \<Rightarrow> True | PStr s \<Rightarrow> True
      | PList xs \<Rightarrow> list_all (\<lambda>x. case x of PStr s \<Rightarrow> nonblank s | _ \<Rightarrow> False) xs | _ \<Rightarrow> False)"

lemma answer_back [roundtrips]: "answer_ok v \<Longrightarrow> parsed_answer v = v"
proof (cases v)
  case (PList xs)
  assume "answer_ok v"
  then have ok: "list_all (\<lambda>x. case x of PStr s \<Rightarrow> nonblank s | _ \<Rightarrow> False) xs"
    by (simp add: answer_ok_def PList)
  define ss where "ss = map (\<lambda>x. case x of PStr s \<Rightarrow> s | _ \<Rightarrow> []) xs"
  have "map PStr ss = map id xs" unfolding ss_def map_map
    using ok by (intro map_cong) (auto simp: list_all_iff split: pyval.splits)
  then have xs: "xs = map PStr ss" by simp
  have "list_all nonblank ss"
    using ok by (auto simp: ss_def list_all_iff split: pyval.splits)
  then have "string_list (strs ss) = ss" by simp
  then show ?thesis by (simp add: parsed_answer_def PList xs strs_def)
qed (auto simp: parsed_answer_def answer_ok_def)

lemma str_pairs_back [roundtrips]:
  "map (\<lambda>(k, v). (k, py_str v)) (dict_of (str_pairs d)) = d"
  by (auto simp: str_pairs_def comp_def case_prod_unfold)

lemma strs_pairs_back [roundtrips]:
  "list_all (\<lambda>(k, xs). list_all nonblank xs) d \<Longrightarrow>
   map (\<lambda>(k, v). (k, string_list v)) (dict_of (strs_pairs d)) = d"
  by (induction d) (auto simp: strs_pairs_def)

end
