(* ===== verification/ProjectRefs.thy ===== *)
theory ProjectRefs
  imports DocumentFields
begin

text \<open>
  Stakeholders, constraints, references and work items of a project, from
  \<open>src/labrastro_server/taskflow/domain/project_state.py\<close>, with their enumerations. Each document has its
  record, \<open>from_dict\<close>, \<open>to_dict\<close> and the round trip of the two; where a field does not survive a round trip
  whatever its value (a blank string in a list, an empty text whose default is not empty), the
  condition is in the predicate ending in \<open>_wf\<close>. The argument \<open>now\<close> is the clock.
\<close>

section \<open>Enumerations\<close>

datatype project_status =
    PStatus_ACTIVE | PStatus_PAUSED | PStatus_ARCHIVED

fun project_status_value :: "project_status \<Rightarrow> string" where
  "project_status_value PStatus_ACTIVE = ''active''"
| "project_status_value PStatus_PAUSED = ''paused''"
| "project_status_value PStatus_ARCHIVED = ''archived''"

lemma UNIV_project_status: "(UNIV :: project_status set) =
    {PStatus_ACTIVE, PStatus_PAUSED, PStatus_ARCHIVED}"
  by (auto intro: project_status.exhaust)

instantiation project_status :: enum
begin

definition enum_project_status :: "project_status list" where
  "enum_project_status =
    [PStatus_ACTIVE, PStatus_PAUSED, PStatus_ARCHIVED]"

definition enum_all_project_status :: "(project_status \<Rightarrow> bool) \<Rightarrow> bool" where
  "enum_all_project_status p = list_all p (enum_class.enum :: project_status list)"

definition enum_ex_project_status :: "(project_status \<Rightarrow> bool) \<Rightarrow> bool" where
  "enum_ex_project_status p = list_ex p (enum_class.enum :: project_status list)"

instance
  by intro_classes
    (auto simp: enum_project_status_def enum_all_project_status_def enum_ex_project_status_def UNIV_project_status)

end

interpretation project_status_enum: str_enum project_status_value
  by (rule str_enum_distinct) code_simp

lemma project_status_named [simp]: "project_status_value x \<noteq> []"
  by (cases x) simp_all

datatype goal_lifecycle_status =
    GLife_DRAFT | GLife_CLARIFYING | GLife_CONFIRMED | GLife_COMPILED | GLife_IN_PROGRESS |
    GLife_COMPLETED | GLife_CANCELLED

fun goal_lifecycle_status_value :: "goal_lifecycle_status \<Rightarrow> string" where
  "goal_lifecycle_status_value GLife_DRAFT = ''draft''"
| "goal_lifecycle_status_value GLife_CLARIFYING = ''clarifying''"
| "goal_lifecycle_status_value GLife_CONFIRMED = ''confirmed''"
| "goal_lifecycle_status_value GLife_COMPILED = ''compiled''"
| "goal_lifecycle_status_value GLife_IN_PROGRESS = ''in_progress''"
| "goal_lifecycle_status_value GLife_COMPLETED = ''completed''"
| "goal_lifecycle_status_value GLife_CANCELLED = ''cancelled''"

lemma UNIV_goal_lifecycle_status: "(UNIV :: goal_lifecycle_status set) =
    {GLife_DRAFT, GLife_CLARIFYING, GLife_CONFIRMED, GLife_COMPILED, GLife_IN_PROGRESS,
    GLife_COMPLETED, GLife_CANCELLED}"
  by (auto intro: goal_lifecycle_status.exhaust)

instantiation goal_lifecycle_status :: enum
begin

definition enum_goal_lifecycle_status :: "goal_lifecycle_status list" where
  "enum_goal_lifecycle_status =
    [GLife_DRAFT, GLife_CLARIFYING, GLife_CONFIRMED, GLife_COMPILED, GLife_IN_PROGRESS,
    GLife_COMPLETED, GLife_CANCELLED]"

definition enum_all_goal_lifecycle_status :: "(goal_lifecycle_status \<Rightarrow> bool) \<Rightarrow> bool" where
  "enum_all_goal_lifecycle_status p = list_all p (enum_class.enum :: goal_lifecycle_status list)"

definition enum_ex_goal_lifecycle_status :: "(goal_lifecycle_status \<Rightarrow> bool) \<Rightarrow> bool" where
  "enum_ex_goal_lifecycle_status p = list_ex p (enum_class.enum :: goal_lifecycle_status list)"

instance
  by intro_classes
    (auto simp: enum_goal_lifecycle_status_def enum_all_goal_lifecycle_status_def enum_ex_goal_lifecycle_status_def UNIV_goal_lifecycle_status)

end

interpretation goal_lifecycle_status_enum: str_enum goal_lifecycle_status_value
  by (rule str_enum_distinct) code_simp

lemma goal_lifecycle_status_named [simp]: "goal_lifecycle_status_value x \<noteq> []"
  by (cases x) simp_all

datatype work_item_type =
    WType_IMPLEMENTATION | WType_SPIKE | WType_RESEARCH | WType_DESIGN | WType_REVIEW |
    WType_TEST | WType_MIGRATION | WType_DOCUMENTATION | WType_OPS | WType_SHARED_ENABLER

fun work_item_type_value :: "work_item_type \<Rightarrow> string" where
  "work_item_type_value WType_IMPLEMENTATION = ''implementation''"
| "work_item_type_value WType_SPIKE = ''spike''"
| "work_item_type_value WType_RESEARCH = ''research''"
| "work_item_type_value WType_DESIGN = ''design''"
| "work_item_type_value WType_REVIEW = ''review''"
| "work_item_type_value WType_TEST = ''test''"
| "work_item_type_value WType_MIGRATION = ''migration''"
| "work_item_type_value WType_DOCUMENTATION = ''documentation''"
| "work_item_type_value WType_OPS = ''ops''"
| "work_item_type_value WType_SHARED_ENABLER = ''shared_enabler''"

lemma UNIV_work_item_type: "(UNIV :: work_item_type set) =
    {WType_IMPLEMENTATION, WType_SPIKE, WType_RESEARCH, WType_DESIGN, WType_REVIEW, WType_TEST,
    WType_MIGRATION, WType_DOCUMENTATION, WType_OPS, WType_SHARED_ENABLER}"
  by (auto intro: work_item_type.exhaust)

instantiation work_item_type :: enum
begin

definition enum_work_item_type :: "work_item_type list" where
  "enum_work_item_type =
    [WType_IMPLEMENTATION, WType_SPIKE, WType_RESEARCH, WType_DESIGN, WType_REVIEW, WType_TEST,
    WType_MIGRATION, WType_DOCUMENTATION, WType_OPS, WType_SHARED_ENABLER]"

definition enum_all_work_item_type :: "(work_item_type \<Rightarrow> bool) \<Rightarrow> bool" where
  "enum_all_work_item_type p = list_all p (enum_class.enum :: work_item_type list)"

definition enum_ex_work_item_type :: "(work_item_type \<Rightarrow> bool) \<Rightarrow> bool" where
  "enum_ex_work_item_type p = list_ex p (enum_class.enum :: work_item_type list)"

instance
  by intro_classes
    (auto simp: enum_work_item_type_def enum_all_work_item_type_def enum_ex_work_item_type_def UNIV_work_item_type)

end

interpretation work_item_type_enum: str_enum work_item_type_value
  by (rule str_enum_distinct) code_simp

lemma work_item_type_named [simp]: "work_item_type_value x \<noteq> []"
  by (cases x) simp_all

datatype work_item_status =
    WStatus_CANDIDATE | WStatus_READY | WStatus_ACTIVE | WStatus_BLOCKED | WStatus_DONE |
    WStatus_CANCELLED

fun work_item_status_value :: "work_item_status \<Rightarrow> string" where
  "work_item_status_value WStatus_CANDIDATE = ''candidate''"
| "work_item_status_value WStatus_READY = ''ready''"
| "work_item_status_value WStatus_ACTIVE = ''active''"
| "work_item_status_value WStatus_BLOCKED = ''blocked''"
| "work_item_status_value WStatus_DONE = ''done''"
| "work_item_status_value WStatus_CANCELLED = ''cancelled''"

lemma UNIV_work_item_status: "(UNIV :: work_item_status set) =
    {WStatus_CANDIDATE, WStatus_READY, WStatus_ACTIVE, WStatus_BLOCKED, WStatus_DONE,
    WStatus_CANCELLED}"
  by (auto intro: work_item_status.exhaust)

instantiation work_item_status :: enum
begin

definition enum_work_item_status :: "work_item_status list" where
  "enum_work_item_status =
    [WStatus_CANDIDATE, WStatus_READY, WStatus_ACTIVE, WStatus_BLOCKED, WStatus_DONE,
    WStatus_CANCELLED]"

definition enum_all_work_item_status :: "(work_item_status \<Rightarrow> bool) \<Rightarrow> bool" where
  "enum_all_work_item_status p = list_all p (enum_class.enum :: work_item_status list)"

definition enum_ex_work_item_status :: "(work_item_status \<Rightarrow> bool) \<Rightarrow> bool" where
  "enum_ex_work_item_status p = list_ex p (enum_class.enum :: work_item_status list)"

instance
  by intro_classes
    (auto simp: enum_work_item_status_def enum_all_work_item_status_def enum_ex_work_item_status_def UNIV_work_item_status)

end

interpretation work_item_status_enum: str_enum work_item_status_value
  by (rule str_enum_distinct) code_simp

lemma work_item_status_named [simp]: "work_item_status_value x \<noteq> []"
  by (cases x) simp_all

datatype task_run_status =
    TRun_PENDING | TRun_DISPATCHED | TRun_RUNNING | TRun_SUCCEEDED | TRun_FAILED | TRun_CANCELLED

fun task_run_status_value :: "task_run_status \<Rightarrow> string" where
  "task_run_status_value TRun_PENDING = ''pending''"
| "task_run_status_value TRun_DISPATCHED = ''dispatched''"
| "task_run_status_value TRun_RUNNING = ''running''"
| "task_run_status_value TRun_SUCCEEDED = ''succeeded''"
| "task_run_status_value TRun_FAILED = ''failed''"
| "task_run_status_value TRun_CANCELLED = ''cancelled''"

lemma UNIV_task_run_status: "(UNIV :: task_run_status set) =
    {TRun_PENDING, TRun_DISPATCHED, TRun_RUNNING, TRun_SUCCEEDED, TRun_FAILED, TRun_CANCELLED}"
  by (auto intro: task_run_status.exhaust)

instantiation task_run_status :: enum
begin

definition enum_task_run_status :: "task_run_status list" where
  "enum_task_run_status =
    [TRun_PENDING, TRun_DISPATCHED, TRun_RUNNING, TRun_SUCCEEDED, TRun_FAILED, TRun_CANCELLED]"

definition enum_all_task_run_status :: "(task_run_status \<Rightarrow> bool) \<Rightarrow> bool" where
  "enum_all_task_run_status p = list_all p (enum_class.enum :: task_run_status list)"

definition enum_ex_task_run_status :: "(task_run_status \<Rightarrow> bool) \<Rightarrow> bool" where
  "enum_ex_task_run_status p = list_ex p (enum_class.enum :: task_run_status list)"

instance
  by intro_classes
    (auto simp: enum_task_run_status_def enum_all_task_run_status_def enum_ex_task_run_status_def UNIV_task_run_status)

end

interpretation task_run_status_enum: str_enum task_run_status_value
  by (rule str_enum_distinct) code_simp

lemma task_run_status_named [simp]: "task_run_status_value x \<noteq> []"
  by (cases x) simp_all

datatype task_run_executor =
    TExec_AGENT | TExec_HUMAN | TExec_MIXED

fun task_run_executor_value :: "task_run_executor \<Rightarrow> string" where
  "task_run_executor_value TExec_AGENT = ''agent''"
| "task_run_executor_value TExec_HUMAN = ''human''"
| "task_run_executor_value TExec_MIXED = ''mixed''"

lemma UNIV_task_run_executor: "(UNIV :: task_run_executor set) =
    {TExec_AGENT, TExec_HUMAN, TExec_MIXED}"
  by (auto intro: task_run_executor.exhaust)

instantiation task_run_executor :: enum
begin

definition enum_task_run_executor :: "task_run_executor list" where
  "enum_task_run_executor =
    [TExec_AGENT, TExec_HUMAN, TExec_MIXED]"

definition enum_all_task_run_executor :: "(task_run_executor \<Rightarrow> bool) \<Rightarrow> bool" where
  "enum_all_task_run_executor p = list_all p (enum_class.enum :: task_run_executor list)"

definition enum_ex_task_run_executor :: "(task_run_executor \<Rightarrow> bool) \<Rightarrow> bool" where
  "enum_ex_task_run_executor p = list_ex p (enum_class.enum :: task_run_executor list)"

instance
  by intro_classes
    (auto simp: enum_task_run_executor_def enum_all_task_run_executor_def enum_ex_task_run_executor_def UNIV_task_run_executor)

end

interpretation task_run_executor_enum: str_enum task_run_executor_value
  by (rule str_enum_distinct) code_simp

lemma task_run_executor_named [simp]: "task_run_executor_value x \<noteq> []"
  by (cases x) simp_all

datatype goal_work_relation_type =
    GRel_DIRECT_DELIVERY | GRel_PARTIAL_CONTRIBUTION | GRel_DEPENDENCY | GRel_SHARED_ENABLER |
    GRel_FOLLOW_UP | GRel_DERIVED_FROM

fun goal_work_relation_type_value :: "goal_work_relation_type \<Rightarrow> string" where
  "goal_work_relation_type_value GRel_DIRECT_DELIVERY = ''direct_delivery''"
| "goal_work_relation_type_value GRel_PARTIAL_CONTRIBUTION = ''partial_contribution''"
| "goal_work_relation_type_value GRel_DEPENDENCY = ''dependency''"
| "goal_work_relation_type_value GRel_SHARED_ENABLER = ''shared_enabler''"
| "goal_work_relation_type_value GRel_FOLLOW_UP = ''follow_up''"
| "goal_work_relation_type_value GRel_DERIVED_FROM = ''derived_from''"

lemma UNIV_goal_work_relation_type: "(UNIV :: goal_work_relation_type set) =
    {GRel_DIRECT_DELIVERY, GRel_PARTIAL_CONTRIBUTION, GRel_DEPENDENCY, GRel_SHARED_ENABLER,
    GRel_FOLLOW_UP, GRel_DERIVED_FROM}"
  by (auto intro: goal_work_relation_type.exhaust)

instantiation goal_work_relation_type :: enum
begin

definition enum_goal_work_relation_type :: "goal_work_relation_type list" where
  "enum_goal_work_relation_type =
    [GRel_DIRECT_DELIVERY, GRel_PARTIAL_CONTRIBUTION, GRel_DEPENDENCY, GRel_SHARED_ENABLER,
    GRel_FOLLOW_UP, GRel_DERIVED_FROM]"

definition enum_all_goal_work_relation_type :: "(goal_work_relation_type \<Rightarrow> bool) \<Rightarrow> bool" where
  "enum_all_goal_work_relation_type p = list_all p (enum_class.enum :: goal_work_relation_type list)"

definition enum_ex_goal_work_relation_type :: "(goal_work_relation_type \<Rightarrow> bool) \<Rightarrow> bool" where
  "enum_ex_goal_work_relation_type p = list_ex p (enum_class.enum :: goal_work_relation_type list)"

instance
  by intro_classes
    (auto simp: enum_goal_work_relation_type_def enum_all_goal_work_relation_type_def enum_ex_goal_work_relation_type_def UNIV_goal_work_relation_type)

end

interpretation goal_work_relation_type_enum: str_enum goal_work_relation_type_value
  by (rule str_enum_distinct) code_simp

lemma goal_work_relation_type_named [simp]: "goal_work_relation_type_value x \<noteq> []"
  by (cases x) simp_all

datatype trace_entity_type =
    TEnt_GOAL | TEnt_BRIEF | TEnt_DECISION | TEnt_DECISION_ANSWER | TEnt_RULE | TEnt_EXAMPLE |
    TEnt_SCENARIO | TEnt_OPEN_QUESTION | TEnt_REVIEW_CARD | TEnt_GHERKIN_FEATURE |
    TEnt_DISPATCH_DECISION | TEnt_ACCEPTANCE_EXAMPLE | TEnt_WORK_ITEM | TEnt_TASK_RUN |
    TEnt_AGENT_RUN | TEnt_ARTIFACT | TEnt_ISSUE | TEnt_PR

fun trace_entity_type_value :: "trace_entity_type \<Rightarrow> string" where
  "trace_entity_type_value TEnt_GOAL = ''goal''"
| "trace_entity_type_value TEnt_BRIEF = ''brief''"
| "trace_entity_type_value TEnt_DECISION = ''decision''"
| "trace_entity_type_value TEnt_DECISION_ANSWER = ''decision_answer''"
| "trace_entity_type_value TEnt_RULE = ''rule''"
| "trace_entity_type_value TEnt_EXAMPLE = ''example''"
| "trace_entity_type_value TEnt_SCENARIO = ''scenario''"
| "trace_entity_type_value TEnt_OPEN_QUESTION = ''open_question''"
| "trace_entity_type_value TEnt_REVIEW_CARD = ''review_card''"
| "trace_entity_type_value TEnt_GHERKIN_FEATURE = ''gherkin_feature''"
| "trace_entity_type_value TEnt_DISPATCH_DECISION = ''dispatch_decision''"
| "trace_entity_type_value TEnt_ACCEPTANCE_EXAMPLE = ''acceptance_example''"
| "trace_entity_type_value TEnt_WORK_ITEM = ''work_item''"
| "trace_entity_type_value TEnt_TASK_RUN = ''task_run''"
| "trace_entity_type_value TEnt_AGENT_RUN = ''agent_run''"
| "trace_entity_type_value TEnt_ARTIFACT = ''artifact''"
| "trace_entity_type_value TEnt_ISSUE = ''issue''"
| "trace_entity_type_value TEnt_PR = ''pr''"

lemma UNIV_trace_entity_type: "(UNIV :: trace_entity_type set) =
    {TEnt_GOAL, TEnt_BRIEF, TEnt_DECISION, TEnt_DECISION_ANSWER, TEnt_RULE, TEnt_EXAMPLE,
    TEnt_SCENARIO, TEnt_OPEN_QUESTION, TEnt_REVIEW_CARD, TEnt_GHERKIN_FEATURE,
    TEnt_DISPATCH_DECISION, TEnt_ACCEPTANCE_EXAMPLE, TEnt_WORK_ITEM, TEnt_TASK_RUN,
    TEnt_AGENT_RUN, TEnt_ARTIFACT, TEnt_ISSUE, TEnt_PR}"
  by (auto intro: trace_entity_type.exhaust)

instantiation trace_entity_type :: enum
begin

definition enum_trace_entity_type :: "trace_entity_type list" where
  "enum_trace_entity_type =
    [TEnt_GOAL, TEnt_BRIEF, TEnt_DECISION, TEnt_DECISION_ANSWER, TEnt_RULE, TEnt_EXAMPLE,
    TEnt_SCENARIO, TEnt_OPEN_QUESTION, TEnt_REVIEW_CARD, TEnt_GHERKIN_FEATURE,
    TEnt_DISPATCH_DECISION, TEnt_ACCEPTANCE_EXAMPLE, TEnt_WORK_ITEM, TEnt_TASK_RUN,
    TEnt_AGENT_RUN, TEnt_ARTIFACT, TEnt_ISSUE, TEnt_PR]"

definition enum_all_trace_entity_type :: "(trace_entity_type \<Rightarrow> bool) \<Rightarrow> bool" where
  "enum_all_trace_entity_type p = list_all p (enum_class.enum :: trace_entity_type list)"

definition enum_ex_trace_entity_type :: "(trace_entity_type \<Rightarrow> bool) \<Rightarrow> bool" where
  "enum_ex_trace_entity_type p = list_ex p (enum_class.enum :: trace_entity_type list)"

instance
  by intro_classes
    (auto simp: enum_trace_entity_type_def enum_all_trace_entity_type_def enum_ex_trace_entity_type_def UNIV_trace_entity_type)

end

interpretation trace_entity_type_enum: str_enum trace_entity_type_value
  by (rule str_enum_distinct) code_simp

lemma trace_entity_type_named [simp]: "trace_entity_type_value x \<noteq> []"
  by (cases x) simp_all

datatype trace_relation_type =
    TRel_IMPLEMENTS | TRel_VALIDATES | TRel_BLOCKS | TRel_DEPENDS_ON | TRel_DERIVED_FROM |
    TRel_EXPLAINS | TRel_SUPERSEDES | TRel_PRODUCES | TRel_DISPATCHES

fun trace_relation_type_value :: "trace_relation_type \<Rightarrow> string" where
  "trace_relation_type_value TRel_IMPLEMENTS = ''implements''"
| "trace_relation_type_value TRel_VALIDATES = ''validates''"
| "trace_relation_type_value TRel_BLOCKS = ''blocks''"
| "trace_relation_type_value TRel_DEPENDS_ON = ''depends_on''"
| "trace_relation_type_value TRel_DERIVED_FROM = ''derived_from''"
| "trace_relation_type_value TRel_EXPLAINS = ''explains''"
| "trace_relation_type_value TRel_SUPERSEDES = ''supersedes''"
| "trace_relation_type_value TRel_PRODUCES = ''produces''"
| "trace_relation_type_value TRel_DISPATCHES = ''dispatches''"

lemma UNIV_trace_relation_type: "(UNIV :: trace_relation_type set) =
    {TRel_IMPLEMENTS, TRel_VALIDATES, TRel_BLOCKS, TRel_DEPENDS_ON, TRel_DERIVED_FROM,
    TRel_EXPLAINS, TRel_SUPERSEDES, TRel_PRODUCES, TRel_DISPATCHES}"
  by (auto intro: trace_relation_type.exhaust)

instantiation trace_relation_type :: enum
begin

definition enum_trace_relation_type :: "trace_relation_type list" where
  "enum_trace_relation_type =
    [TRel_IMPLEMENTS, TRel_VALIDATES, TRel_BLOCKS, TRel_DEPENDS_ON, TRel_DERIVED_FROM,
    TRel_EXPLAINS, TRel_SUPERSEDES, TRel_PRODUCES, TRel_DISPATCHES]"

definition enum_all_trace_relation_type :: "(trace_relation_type \<Rightarrow> bool) \<Rightarrow> bool" where
  "enum_all_trace_relation_type p = list_all p (enum_class.enum :: trace_relation_type list)"

definition enum_ex_trace_relation_type :: "(trace_relation_type \<Rightarrow> bool) \<Rightarrow> bool" where
  "enum_ex_trace_relation_type p = list_ex p (enum_class.enum :: trace_relation_type list)"

instance
  by intro_classes
    (auto simp: enum_trace_relation_type_def enum_all_trace_relation_type_def enum_ex_trace_relation_type_def UNIV_trace_relation_type)

end

interpretation trace_relation_type_enum: str_enum trace_relation_type_value
  by (rule str_enum_distinct) code_simp

lemma trace_relation_type_named [simp]: "trace_relation_type_value x \<noteq> []"
  by (cases x) simp_all

lemmas projectRefs_enums [roundtrips] =
  project_status_enum.of_val
  goal_lifecycle_status_enum.of_val
  work_item_type_enum.of_val
  work_item_status_enum.of_val
  task_run_status_enum.of_val
  task_run_executor_enum.of_val
  goal_work_relation_type_enum.of_val
  trace_entity_type_enum.of_val
  trace_relation_type_enum.of_val

section \<open>Stakeholder\<close>

record stakeholder =
  sk_id :: string
  sk_name :: string
  sk_role :: string
  sk_metadata :: pyobj

definition stakeholder_from_dict :: "pyobj \<Rightarrow> stakeholder" where
  "stakeholder_from_dict data =
     \<lparr>sk_id = py_str (py_or (pget data ''id'') (py_or (pget data ''name'') (PStr []))),
        sk_name = text_at data ''name'' [], sk_role = text_at data ''role'' [],
        sk_metadata = dict_of (pget data ''metadata'')\<rparr>"

definition stakeholder_to_dict :: "stakeholder \<Rightarrow> pyobj" where
  "stakeholder_to_dict r =
     [(''id'', PStr (sk_id r)), (''name'', PStr (sk_name r)), (''role'', PStr (sk_role r)),
      (''metadata'', PDict (sk_metadata r))]"

definition stakeholder_wf :: "stakeholder \<Rightarrow> bool" where
  "stakeholder_wf r \<longleftrightarrow>
     sk_id r \<noteq> []"

lemma stakeholder_roundtrip [roundtrips]: "stakeholder_wf r \<Longrightarrow> stakeholder_from_dict (stakeholder_to_dict r) = r"
  by (simp add: stakeholder_from_dict_def stakeholder_to_dict_def stakeholder_wf_def roundtrips)

lemma stakeholder_list [roundtrips]:
  "list_all stakeholder_wf xs \<Longrightarrow> records_of stakeholder_from_dict (docs stakeholder_to_dict xs) = xs"
  by (rule records_of_docs[where P = "stakeholder_wf"]) (simp_all add: stakeholder_roundtrip)

section \<open>Constraint\<close>

record constraint =
  cn_id :: string
  cn_statement :: string
  cn_source :: string
  cn_severity :: string
  cn_metadata :: pyobj

definition constraint_from_dict :: "pyobj \<Rightarrow> constraint" where
  "constraint_from_dict data =
     \<lparr>cn_id = text_at data ''id'' [],
        cn_statement = py_str (py_or (pget data ''statement'') (py_or (pget data ''description'') (PStr []))),
        cn_source = text_at data ''source'' [], cn_severity = text_at data ''severity'' ''medium'',
        cn_metadata = dict_of (pget data ''metadata'')\<rparr>"

definition constraint_to_dict :: "constraint \<Rightarrow> pyobj" where
  "constraint_to_dict r =
     [(''id'', PStr (cn_id r)), (''statement'', PStr (cn_statement r)),
      (''source'', PStr (cn_source r)), (''severity'', PStr (cn_severity r)),
      (''metadata'', PDict (cn_metadata r))]"

definition constraint_wf :: "constraint \<Rightarrow> bool" where
  "constraint_wf r \<longleftrightarrow>
     cn_severity r \<noteq> []"

lemma constraint_roundtrip [roundtrips]: "constraint_wf r \<Longrightarrow> constraint_from_dict (constraint_to_dict r) = r"
  by (simp add: constraint_from_dict_def constraint_to_dict_def constraint_wf_def roundtrips)

lemma constraint_list [roundtrips]:
  "list_all constraint_wf xs \<Longrightarrow> records_of constraint_from_dict (docs constraint_to_dict xs) = xs"
  by (rule records_of_docs[where P = "constraint_wf"]) (simp_all add: constraint_roundtrip)

section \<open>RepositoryRef\<close>

record repository_ref =
  rpo_id :: string
  rpo_name :: string
  rpo_url :: string
  rpo_default_branch :: string
  rpo_metadata :: pyobj

definition repository_ref_from_dict :: "pyobj \<Rightarrow> repository_ref" where
  "repository_ref_from_dict data =
     \<lparr>
        rpo_id = py_str (py_or (pget data ''id'') (py_or (pget data ''url'') (py_or (pget data ''name'') (PStr [])))),
        rpo_name = text_at data ''name'' [], rpo_url = text_at data ''url'' [],
        rpo_default_branch = text_at data ''default_branch'' [],
        rpo_metadata = dict_of (pget data ''metadata'')\<rparr>"

definition repository_ref_to_dict :: "repository_ref \<Rightarrow> pyobj" where
  "repository_ref_to_dict r =
     [(''id'', PStr (rpo_id r)), (''name'', PStr (rpo_name r)), (''url'', PStr (rpo_url r)),
      (''default_branch'', PStr (rpo_default_branch r)), (''metadata'', PDict (rpo_metadata r))]"

definition repository_ref_wf :: "repository_ref \<Rightarrow> bool" where
  "repository_ref_wf r \<longleftrightarrow>
     rpo_id r \<noteq> []"

lemma repository_ref_roundtrip [roundtrips]: "repository_ref_wf r \<Longrightarrow> repository_ref_from_dict (repository_ref_to_dict r) = r"
  by (simp add: repository_ref_from_dict_def repository_ref_to_dict_def repository_ref_wf_def roundtrips)

lemma repository_ref_list [roundtrips]:
  "list_all repository_ref_wf xs \<Longrightarrow> records_of repository_ref_from_dict (docs repository_ref_to_dict xs) = xs"
  by (rule records_of_docs[where P = "repository_ref_wf"]) (simp_all add: repository_ref_roundtrip)

lemma repository_ref_opt [roundtrips]:
  "pget data k = opt_record_val repository_ref_to_dict x \<Longrightarrow> pred_option repository_ref_wf x \<Longrightarrow> opt_record_at (\<lambda>d. Inr (repository_ref_from_dict d)) data k = Inr x"
  by (cases x) (simp_all add: opt_record_at_def opt_record_val_def repository_ref_roundtrip)

section \<open>WorkspaceRef\<close>

record workspace_ref =
  wsp_id :: string
  wsp_path :: string
  wsp_repo_ref :: string
  wsp_metadata :: pyobj

definition workspace_ref_from_dict :: "pyobj \<Rightarrow> workspace_ref" where
  "workspace_ref_from_dict data =
     \<lparr>wsp_id = py_str (py_or (pget data ''id'') (py_or (pget data ''path'') (PStr []))),
        wsp_path = text_at data ''path'' [], wsp_repo_ref = text_at data ''repo_ref'' [],
        wsp_metadata = dict_of (pget data ''metadata'')\<rparr>"

definition workspace_ref_to_dict :: "workspace_ref \<Rightarrow> pyobj" where
  "workspace_ref_to_dict r =
     [(''id'', PStr (wsp_id r)), (''path'', PStr (wsp_path r)), (''repo_ref'', PStr (wsp_repo_ref r)),
      (''metadata'', PDict (wsp_metadata r))]"

definition workspace_ref_wf :: "workspace_ref \<Rightarrow> bool" where
  "workspace_ref_wf r \<longleftrightarrow>
     wsp_id r \<noteq> []"

lemma workspace_ref_roundtrip [roundtrips]: "workspace_ref_wf r \<Longrightarrow> workspace_ref_from_dict (workspace_ref_to_dict r) = r"
  by (simp add: workspace_ref_from_dict_def workspace_ref_to_dict_def workspace_ref_wf_def roundtrips)

lemma workspace_ref_list [roundtrips]:
  "list_all workspace_ref_wf xs \<Longrightarrow> records_of workspace_ref_from_dict (docs workspace_ref_to_dict xs) = xs"
  by (rule records_of_docs[where P = "workspace_ref_wf"]) (simp_all add: workspace_ref_roundtrip)

lemma workspace_ref_opt [roundtrips]:
  "pget data k = opt_record_val workspace_ref_to_dict x \<Longrightarrow> pred_option workspace_ref_wf x \<Longrightarrow> opt_record_at (\<lambda>d. Inr (workspace_ref_from_dict d)) data k = Inr x"
  by (cases x) (simp_all add: opt_record_at_def opt_record_val_def workspace_ref_roundtrip)

section \<open>ArtifactRef\<close>

record artifact_ref =
  arf_id :: string
  arf_type :: string
  arf_title :: string
  arf_uri :: string
  arf_metadata :: pyobj

definition artifact_ref_from_dict :: "pyobj \<Rightarrow> artifact_ref" where
  "artifact_ref_from_dict data =
     \<lparr>arf_id = py_str (py_or (pget data ''id'') (py_or (pget data ''uri'') (PStr []))),
        arf_type = text_at data ''type'' ''artifact'', arf_title = text_at data ''title'' [],
        arf_uri = text_at data ''uri'' [], arf_metadata = dict_of (pget data ''metadata'')\<rparr>"

definition artifact_ref_to_dict :: "artifact_ref \<Rightarrow> pyobj" where
  "artifact_ref_to_dict r =
     [(''id'', PStr (arf_id r)), (''type'', PStr (arf_type r)), (''title'', PStr (arf_title r)),
      (''uri'', PStr (arf_uri r)), (''metadata'', PDict (arf_metadata r))]"

definition artifact_ref_wf :: "artifact_ref \<Rightarrow> bool" where
  "artifact_ref_wf r \<longleftrightarrow>
     arf_id r \<noteq> [] \<and> arf_type r \<noteq> []"

lemma artifact_ref_roundtrip [roundtrips]: "artifact_ref_wf r \<Longrightarrow> artifact_ref_from_dict (artifact_ref_to_dict r) = r"
  by (simp add: artifact_ref_from_dict_def artifact_ref_to_dict_def artifact_ref_wf_def roundtrips)

lemma artifact_ref_list [roundtrips]:
  "list_all artifact_ref_wf xs \<Longrightarrow> records_of artifact_ref_from_dict (docs artifact_ref_to_dict xs) = xs"
  by (rule records_of_docs[where P = "artifact_ref_wf"]) (simp_all add: artifact_ref_roundtrip)

section \<open>BranchRef\<close>

record branch_ref =
  brf_id :: string
  brf_name :: string
  brf_repo_ref :: string
  brf_metadata :: pyobj

definition branch_ref_from_dict :: "pyobj \<Rightarrow> branch_ref" where
  "branch_ref_from_dict data =
     \<lparr>brf_id = py_str (py_or (pget data ''id'') (py_or (pget data ''name'') (PStr []))),
        brf_name = text_at data ''name'' [], brf_repo_ref = text_at data ''repo_ref'' [],
        brf_metadata = dict_of (pget data ''metadata'')\<rparr>"

definition branch_ref_to_dict :: "branch_ref \<Rightarrow> pyobj" where
  "branch_ref_to_dict r =
     [(''id'', PStr (brf_id r)), (''name'', PStr (brf_name r)), (''repo_ref'', PStr (brf_repo_ref r)),
      (''metadata'', PDict (brf_metadata r))]"

definition branch_ref_wf :: "branch_ref \<Rightarrow> bool" where
  "branch_ref_wf r \<longleftrightarrow>
     brf_id r \<noteq> []"

lemma branch_ref_roundtrip [roundtrips]: "branch_ref_wf r \<Longrightarrow> branch_ref_from_dict (branch_ref_to_dict r) = r"
  by (simp add: branch_ref_from_dict_def branch_ref_to_dict_def branch_ref_wf_def roundtrips)

lemma branch_ref_list [roundtrips]:
  "list_all branch_ref_wf xs \<Longrightarrow> records_of branch_ref_from_dict (docs branch_ref_to_dict xs) = xs"
  by (rule records_of_docs[where P = "branch_ref_wf"]) (simp_all add: branch_ref_roundtrip)

lemma branch_ref_opt [roundtrips]:
  "pget data k = opt_record_val branch_ref_to_dict x \<Longrightarrow> pred_option branch_ref_wf x \<Longrightarrow> opt_record_at (\<lambda>d. Inr (branch_ref_from_dict d)) data k = Inr x"
  by (cases x) (simp_all add: opt_record_at_def opt_record_val_def branch_ref_roundtrip)

section \<open>PullRequestRef\<close>

record pull_request_ref =
  prf_id :: string
  prf_number :: "int option"
  prf_url :: string
  prf_title :: string
  prf_status :: string
  prf_metadata :: pyobj

definition pull_request_ref_from_dict :: "pyobj \<Rightarrow> pull_request_ref result" where
  "pull_request_ref_from_dict data =
     res_bind (opt_int_at data ''number'') (\<lambda>number_v.
     Inr
       \<lparr>
        prf_id = py_str (py_or (pget data ''id'') (py_or (pget data ''url'') (py_or (pget data ''number'') (PStr [])))),
        prf_number = number_v, prf_url = text_at data ''url'' [],
        prf_title = text_at data ''title'' [], prf_status = text_at data ''status'' [],
        prf_metadata = dict_of (pget data ''metadata'')\<rparr>)"

definition pull_request_ref_to_dict :: "pull_request_ref \<Rightarrow> pyobj" where
  "pull_request_ref_to_dict r =
     [(''id'', PStr (prf_id r)), (''number'', opt_int (prf_number r)), (''url'', PStr (prf_url r)),
      (''title'', PStr (prf_title r)), (''status'', PStr (prf_status r)),
      (''metadata'', PDict (prf_metadata r))]"

definition pull_request_ref_wf :: "pull_request_ref \<Rightarrow> bool" where
  "pull_request_ref_wf r \<longleftrightarrow>
     prf_id r \<noteq> []"

lemma pull_request_ref_roundtrip [roundtrips]: "pull_request_ref_wf r \<Longrightarrow> pull_request_ref_from_dict (pull_request_ref_to_dict r) = Inr r"
  by (simp add: pull_request_ref_from_dict_def pull_request_ref_to_dict_def pull_request_ref_wf_def roundtrips)

lemma pull_request_ref_list [roundtrips]:
  "list_all pull_request_ref_wf xs \<Longrightarrow> records_at pull_request_ref_from_dict (docs pull_request_ref_to_dict xs) = Inr xs"
  by (rule records_at_docs[where P = "pull_request_ref_wf"]) (simp_all add: pull_request_ref_roundtrip)

lemma pull_request_ref_opt [roundtrips]:
  "pget data k = opt_record_val pull_request_ref_to_dict x \<Longrightarrow> pred_option pull_request_ref_wf x \<Longrightarrow> opt_record_at (pull_request_ref_from_dict) data k = Inr x"
  by (cases x) (simp_all add: opt_record_at_def opt_record_val_def pull_request_ref_roundtrip)

section \<open>Project\<close>

record project =
  prj_id :: string
  prj_name :: string
  prj_status :: project_status
  prj_background :: string
  prj_stakeholders :: "stakeholder list"
  prj_constraints :: "constraint list"
  prj_repositories :: "repository_ref list"
  prj_workspaces :: "workspace_ref list"
  prj_created_at :: string
  prj_updated_at :: string

definition project_from_dict :: "string \<Rightarrow> pyobj \<Rightarrow> project result" where
  "project_from_dict now data =
     res_bind (enum_of project_status_value (text_at data ''status'' ''active'')) (\<lambda>status_v.
     Inr
       \<lparr>prj_id = text_at data ''id'' [], prj_name = text_at data ''name'' [],
        prj_status = status_v, prj_background = text_at data ''background'' [],
        prj_stakeholders = records_of stakeholder_from_dict (pget data ''stakeholders''),
        prj_constraints = records_of constraint_from_dict (pget data ''constraints''),
        prj_repositories = records_of repository_ref_from_dict (pget data ''repositories''),
        prj_workspaces = records_of workspace_ref_from_dict (pget data ''workspaces''),
        prj_created_at = text_at data ''created_at'' now,
        prj_updated_at = text_at data ''updated_at'' now\<rparr>)"

definition project_to_dict :: "project \<Rightarrow> pyobj" where
  "project_to_dict r =
     [(''id'', PStr (prj_id r)), (''name'', PStr (prj_name r)),
      (''status'', PStr (project_status_value (prj_status r))),
      (''background'', PStr (prj_background r)),
      (''stakeholders'', docs stakeholder_to_dict (prj_stakeholders r)),
      (''constraints'', docs constraint_to_dict (prj_constraints r)),
      (''repositories'', docs repository_ref_to_dict (prj_repositories r)),
      (''workspaces'', docs workspace_ref_to_dict (prj_workspaces r)),
      (''created_at'', PStr (prj_created_at r)), (''updated_at'', PStr (prj_updated_at r))]"

definition project_wf :: "project \<Rightarrow> bool" where
  "project_wf r \<longleftrightarrow>
     list_all stakeholder_wf (prj_stakeholders r) \<and>
     list_all constraint_wf (prj_constraints r) \<and>
     list_all repository_ref_wf (prj_repositories r) \<and>
     list_all workspace_ref_wf (prj_workspaces r) \<and> prj_created_at r \<noteq> [] \<and>
     prj_updated_at r \<noteq> []"

lemma project_roundtrip [roundtrips]: "project_wf r \<Longrightarrow> project_from_dict now (project_to_dict r) = Inr r"
  by (simp add: project_from_dict_def project_to_dict_def project_wf_def roundtrips)

section \<open>Goal\<close>

record goal =
  gol_id :: string
  gol_project_id :: string
  gol_statement :: string
  gol_status :: goal_lifecycle_status
  gol_scope_in :: "string list"
  gol_scope_out :: "string list"
  gol_success_criteria :: "string list"
  gol_constraints_delta :: "constraint list"
  gol_created_from_taskflow_id :: "string option"
  gol_created_at :: string
  gol_updated_at :: string

definition goal_from_dict :: "string \<Rightarrow> pyobj \<Rightarrow> goal result" where
  "goal_from_dict now data =
     res_bind (enum_of goal_lifecycle_status_value (text_at data ''status'' ''draft'')) (\<lambda>status_v.
     Inr
       \<lparr>gol_id = text_at data ''id'' [], gol_project_id = text_at data ''project_id'' [],
        gol_statement = text_at data ''statement'' [], gol_status = status_v,
        gol_scope_in = string_list (pget data ''scope_in''),
        gol_scope_out = string_list (pget data ''scope_out''),
        gol_success_criteria = string_list (pget data ''success_criteria''),
        gol_constraints_delta = records_of constraint_from_dict (pget data ''constraints_delta''),
        gol_created_from_taskflow_id = opt_text_at data ''created_from_taskflow_id'',
        gol_created_at = text_at data ''created_at'' now,
        gol_updated_at = text_at data ''updated_at'' now\<rparr>)"

definition goal_to_dict :: "goal \<Rightarrow> pyobj" where
  "goal_to_dict r =
     [(''id'', PStr (gol_id r)), (''project_id'', PStr (gol_project_id r)),
      (''statement'', PStr (gol_statement r)),
      (''status'', PStr (goal_lifecycle_status_value (gol_status r))),
      (''scope_in'', strs (gol_scope_in r)), (''scope_out'', strs (gol_scope_out r)),
      (''success_criteria'', strs (gol_success_criteria r)),
      (''constraints_delta'', docs constraint_to_dict (gol_constraints_delta r)),
      (''created_from_taskflow_id'', opt_val (gol_created_from_taskflow_id r)),
      (''created_at'', PStr (gol_created_at r)), (''updated_at'', PStr (gol_updated_at r))]"

definition goal_wf :: "goal \<Rightarrow> bool" where
  "goal_wf r \<longleftrightarrow>
     list_all nonblank (gol_scope_in r) \<and> list_all nonblank (gol_scope_out r) \<and>
     list_all nonblank (gol_success_criteria r) \<and>
     list_all constraint_wf (gol_constraints_delta r) \<and> gol_created_at r \<noteq> [] \<and>
     gol_updated_at r \<noteq> []"

lemma goal_roundtrip [roundtrips]: "goal_wf r \<Longrightarrow> goal_from_dict now (goal_to_dict r) = Inr r"
  by (simp add: goal_from_dict_def goal_to_dict_def goal_wf_def roundtrips)

section \<open>WorkItem\<close>

record work_item =
  wi_id :: string
  wi_project_id :: string
  wi_title :: string
  wi_description :: string
  wi_type :: work_item_type
  wi_status :: work_item_status
  wi_acceptance_refs :: "string list"
  wi_decision_refs :: "string list"
  wi_artifact_refs :: "string list"
  wi_dedupe_key :: "string option"
  wi_derived_from :: "string option"
  wi_depends_on :: "string list"
  wi_created_at :: string
  wi_updated_at :: string
  wi_metadata :: pyobj

definition work_item_from_dict :: "string \<Rightarrow> pyobj \<Rightarrow> work_item result" where
  "work_item_from_dict now data =
     res_bind (enum_of work_item_type_value (text_at data ''type'' ''implementation'')) (\<lambda>type_v.
     res_bind (enum_of work_item_status_value (text_at data ''status'' ''candidate'')) (\<lambda>status_v.
     Inr
       \<lparr>wi_id = text_at data ''id'' [], wi_project_id = text_at data ''project_id'' [],
        wi_title = text_at data ''title'' [], wi_description = text_at data ''description'' [],
        wi_type = type_v, wi_status = status_v,
        wi_acceptance_refs = string_list (pget data ''acceptance_refs''),
        wi_decision_refs = string_list (pget data ''decision_refs''),
        wi_artifact_refs = string_list (pget data ''artifact_refs''),
        wi_dedupe_key = opt_text_at data ''dedupe_key'',
        wi_derived_from = opt_text_at data ''derived_from'',
        wi_depends_on = string_list (pget data ''depends_on''),
        wi_created_at = text_at data ''created_at'' now,
        wi_updated_at = text_at data ''updated_at'' now, wi_metadata = dict_of (pget data ''metadata'')\<rparr>))"

definition work_item_to_dict :: "work_item \<Rightarrow> pyobj" where
  "work_item_to_dict r =
     [(''id'', PStr (wi_id r)), (''project_id'', PStr (wi_project_id r)),
      (''title'', PStr (wi_title r)), (''description'', PStr (wi_description r)),
      (''type'', PStr (work_item_type_value (wi_type r))),
      (''status'', PStr (work_item_status_value (wi_status r))),
      (''acceptance_refs'', strs (wi_acceptance_refs r)),
      (''decision_refs'', strs (wi_decision_refs r)), (''artifact_refs'', strs (wi_artifact_refs r)),
      (''dedupe_key'', opt_val (wi_dedupe_key r)), (''derived_from'', opt_val (wi_derived_from r)),
      (''depends_on'', strs (wi_depends_on r)), (''created_at'', PStr (wi_created_at r)),
      (''updated_at'', PStr (wi_updated_at r)), (''metadata'', PDict (wi_metadata r))]"

definition work_item_wf :: "work_item \<Rightarrow> bool" where
  "work_item_wf r \<longleftrightarrow>
     list_all nonblank (wi_acceptance_refs r) \<and> list_all nonblank (wi_decision_refs r) \<and>
     list_all nonblank (wi_artifact_refs r) \<and> list_all nonblank (wi_depends_on r) \<and>
     wi_created_at r \<noteq> [] \<and> wi_updated_at r \<noteq> []"

lemma work_item_roundtrip [roundtrips]: "work_item_wf r \<Longrightarrow> work_item_from_dict now (work_item_to_dict r) = Inr r"
  by (simp add: work_item_from_dict_def work_item_to_dict_def work_item_wf_def roundtrips)

lemma work_item_list [roundtrips]:
  "list_all work_item_wf xs \<Longrightarrow> records_at (work_item_from_dict now) (docs work_item_to_dict xs) = Inr xs"
  by (rule records_at_docs[where P = "work_item_wf"]) (simp_all add: work_item_roundtrip)

section \<open>TaskRun\<close>

record task_run =
  trn_id :: string
  trn_project_id :: string
  trn_work_item_id :: string
  trn_goal_id :: "string option"
  trn_status :: task_run_status
  trn_executor :: task_run_executor
  trn_repo_ref :: "repository_ref option"
  trn_workspace_ref :: "workspace_ref option"
  trn_branch_ref :: "branch_ref option"
  trn_pr_ref :: "pull_request_ref option"
  trn_dispatch_ref_id :: "string option"
  trn_created_at :: string
  trn_updated_at :: string
  trn_metadata :: pyobj

definition task_run_from_dict :: "string \<Rightarrow> pyobj \<Rightarrow> task_run result" where
  "task_run_from_dict now data =
     res_bind (opt_record_at (\<lambda>d. Inr (repository_ref_from_dict d)) data ''repo_ref'') (\<lambda>repo_ref_v.
     res_bind (opt_record_at (\<lambda>d. Inr (workspace_ref_from_dict d)) data ''workspace_ref'') (\<lambda>workspace_ref_v.
     res_bind (opt_record_at (\<lambda>d. Inr (branch_ref_from_dict d)) data ''branch_ref'') (\<lambda>branch_ref_v.
     res_bind (opt_record_at (pull_request_ref_from_dict) data ''pr_ref'') (\<lambda>pr_ref_v.
     res_bind (enum_of task_run_status_value (text_at data ''status'' ''pending'')) (\<lambda>status_v.
     res_bind (enum_of task_run_executor_value (text_at data ''executor'' ''agent'')) (\<lambda>executor_v.
     Inr
       \<lparr>trn_id = text_at data ''id'' [], trn_project_id = text_at data ''project_id'' [],
        trn_work_item_id = text_at data ''work_item_id'' [],
        trn_goal_id = opt_text_at data ''goal_id'', trn_status = status_v, trn_executor = executor_v,
        trn_repo_ref = repo_ref_v, trn_workspace_ref = workspace_ref_v, trn_branch_ref = branch_ref_v,
        trn_pr_ref = pr_ref_v, trn_dispatch_ref_id = opt_text_at data ''dispatch_ref_id'',
        trn_created_at = text_at data ''created_at'' now,
        trn_updated_at = text_at data ''updated_at'' now,
        trn_metadata = dict_of (pget data ''metadata'')\<rparr>))))))"

definition task_run_to_dict :: "task_run \<Rightarrow> pyobj" where
  "task_run_to_dict r =
     [(''id'', PStr (trn_id r)), (''project_id'', PStr (trn_project_id r)),
      (''goal_id'', opt_val (trn_goal_id r)), (''work_item_id'', PStr (trn_work_item_id r)),
      (''status'', PStr (task_run_status_value (trn_status r))),
      (''executor'', PStr (task_run_executor_value (trn_executor r))),
      (''repo_ref'', opt_record_val repository_ref_to_dict (trn_repo_ref r)),
      (''workspace_ref'', opt_record_val workspace_ref_to_dict (trn_workspace_ref r)),
      (''branch_ref'', opt_record_val branch_ref_to_dict (trn_branch_ref r)),
      (''pr_ref'', opt_record_val pull_request_ref_to_dict (trn_pr_ref r)),
      (''dispatch_ref_id'', opt_val (trn_dispatch_ref_id r)),
      (''created_at'', PStr (trn_created_at r)), (''updated_at'', PStr (trn_updated_at r)),
      (''metadata'', PDict (trn_metadata r))]"

definition task_run_wf :: "task_run \<Rightarrow> bool" where
  "task_run_wf r \<longleftrightarrow>
     pred_option repository_ref_wf (trn_repo_ref r) \<and>
     pred_option workspace_ref_wf (trn_workspace_ref r) \<and>
     pred_option branch_ref_wf (trn_branch_ref r) \<and>
     pred_option pull_request_ref_wf (trn_pr_ref r) \<and> trn_created_at r \<noteq> [] \<and>
     trn_updated_at r \<noteq> []"

lemma task_run_roundtrip [roundtrips]: "task_run_wf r \<Longrightarrow> task_run_from_dict now (task_run_to_dict r) = Inr r"
  by (simp add: task_run_from_dict_def task_run_to_dict_def task_run_wf_def roundtrips)

lemma task_run_list [roundtrips]:
  "list_all task_run_wf xs \<Longrightarrow> records_at (task_run_from_dict now) (docs task_run_to_dict xs) = Inr xs"
  by (rule records_at_docs[where P = "task_run_wf"]) (simp_all add: task_run_roundtrip)

section \<open>GoalWorkLink\<close>

record goal_work_link =
  gwl_id :: string
  gwl_project_id :: string
  gwl_goal_id :: string
  gwl_work_item_id :: string
  gwl_relation_type :: goal_work_relation_type
  gwl_rationale :: string
  gwl_contribution_weight :: "int option"
  gwl_hard_blocker :: bool
  gwl_acceptance_refs :: "string list"
  gwl_decision_refs :: "string list"
  gwl_created_at :: string
  gwl_updated_at :: string

definition goal_work_link_from_dict :: "string \<Rightarrow> pyobj \<Rightarrow> goal_work_link result" where
  "goal_work_link_from_dict now data =
     res_bind (opt_float_at data ''contribution_weight'') (\<lambda>contribution_weight_v.
     res_bind (enum_of goal_work_relation_type_value (text_at data ''relation_type'' ''direct_delivery'')) (\<lambda>relation_type_v.
     Inr
       \<lparr>gwl_id = text_at data ''id'' [], gwl_project_id = text_at data ''project_id'' [],
        gwl_goal_id = text_at data ''goal_id'' [], gwl_work_item_id = text_at data ''work_item_id'' [],
        gwl_relation_type = relation_type_v, gwl_rationale = text_at data ''rationale'' [],
        gwl_contribution_weight = contribution_weight_v,
        gwl_hard_blocker = truthy (pget_or data ''hard_blocker'' (PBool False)),
        gwl_acceptance_refs = string_list (pget data ''acceptance_refs''),
        gwl_decision_refs = string_list (pget data ''decision_refs''),
        gwl_created_at = text_at data ''created_at'' now,
        gwl_updated_at = text_at data ''updated_at'' now\<rparr>))"

definition goal_work_link_to_dict :: "goal_work_link \<Rightarrow> pyobj" where
  "goal_work_link_to_dict r =
     [(''id'', PStr (gwl_id r)), (''project_id'', PStr (gwl_project_id r)),
      (''goal_id'', PStr (gwl_goal_id r)), (''work_item_id'', PStr (gwl_work_item_id r)),
      (''relation_type'', PStr (goal_work_relation_type_value (gwl_relation_type r))),
      (''rationale'', PStr (gwl_rationale r)),
      (''contribution_weight'', opt_int (gwl_contribution_weight r)),
      (''hard_blocker'', PBool (gwl_hard_blocker r)),
      (''acceptance_refs'', strs (gwl_acceptance_refs r)),
      (''decision_refs'', strs (gwl_decision_refs r)), (''created_at'', PStr (gwl_created_at r)),
      (''updated_at'', PStr (gwl_updated_at r))]"

definition goal_work_link_wf :: "goal_work_link \<Rightarrow> bool" where
  "goal_work_link_wf r \<longleftrightarrow>
     list_all nonblank (gwl_acceptance_refs r) \<and> list_all nonblank (gwl_decision_refs r) \<and>
     gwl_created_at r \<noteq> [] \<and> gwl_updated_at r \<noteq> []"

lemma goal_work_link_roundtrip [roundtrips]: "goal_work_link_wf r \<Longrightarrow> goal_work_link_from_dict now (goal_work_link_to_dict r) = Inr r"
  by (simp add: goal_work_link_from_dict_def goal_work_link_to_dict_def goal_work_link_wf_def roundtrips)

lemma goal_work_link_list [roundtrips]:
  "list_all goal_work_link_wf xs \<Longrightarrow> records_at (goal_work_link_from_dict now) (docs goal_work_link_to_dict xs) = Inr xs"
  by (rule records_at_docs[where P = "goal_work_link_wf"]) (simp_all add: goal_work_link_roundtrip)

section \<open>TraceLink\<close>

record trace_link =
  tlk_id :: string
  tlk_project_id :: string
  tlk_source_type :: trace_entity_type
  tlk_source_id :: string
  tlk_target_type :: trace_entity_type
  tlk_target_id :: string
  tlk_relation_type :: trace_relation_type
  tlk_rationale :: string
  tlk_created_at :: string

definition trace_link_from_dict :: "string \<Rightarrow> pyobj \<Rightarrow> trace_link result" where
  "trace_link_from_dict now data =
     res_bind (enum_of trace_entity_type_value (text_at data ''source_type'' ''goal'')) (\<lambda>source_type_v.
     res_bind (enum_of trace_entity_type_value (text_at data ''target_type'' ''work_item'')) (\<lambda>target_type_v.
     res_bind (enum_of trace_relation_type_value (text_at data ''relation_type'' ''implements'')) (\<lambda>relation_type_v.
     Inr
       \<lparr>tlk_id = text_at data ''id'' [], tlk_project_id = text_at data ''project_id'' [],
        tlk_source_type = source_type_v, tlk_source_id = text_at data ''source_id'' [],
        tlk_target_type = target_type_v, tlk_target_id = text_at data ''target_id'' [],
        tlk_relation_type = relation_type_v, tlk_rationale = text_at data ''rationale'' [],
        tlk_created_at = text_at data ''created_at'' now\<rparr>)))"

definition trace_link_to_dict :: "trace_link \<Rightarrow> pyobj" where
  "trace_link_to_dict r =
     [(''id'', PStr (tlk_id r)), (''project_id'', PStr (tlk_project_id r)),
      (''source_type'', PStr (trace_entity_type_value (tlk_source_type r))),
      (''source_id'', PStr (tlk_source_id r)),
      (''target_type'', PStr (trace_entity_type_value (tlk_target_type r))),
      (''target_id'', PStr (tlk_target_id r)),
      (''relation_type'', PStr (trace_relation_type_value (tlk_relation_type r))),
      (''rationale'', PStr (tlk_rationale r)), (''created_at'', PStr (tlk_created_at r))]"

definition trace_link_wf :: "trace_link \<Rightarrow> bool" where
  "trace_link_wf r \<longleftrightarrow>
     tlk_created_at r \<noteq> []"

lemma trace_link_roundtrip [roundtrips]: "trace_link_wf r \<Longrightarrow> trace_link_from_dict now (trace_link_to_dict r) = Inr r"
  by (simp add: trace_link_from_dict_def trace_link_to_dict_def trace_link_wf_def roundtrips)

lemma trace_link_list [roundtrips]:
  "list_all trace_link_wf xs \<Longrightarrow> records_at (trace_link_from_dict now) (docs trace_link_to_dict xs) = Inr xs"
  by (rule records_at_docs[where P = "trace_link_wf"]) (simp_all add: trace_link_roundtrip)

end
