(* ===== verification/FlowDocuments.thy ===== *)
theory FlowDocuments
  imports ProjectRefs
begin

text \<open>
  The parts of a taskflow, from \<open>src/labrastro_server/taskflow/domain/taskflow_state.py\<close>: identity, intent,
  the ledgers of clarification and design, with their enumerations.
\<close>

section \<open>Enumerations\<close>

datatype taskflow_status =
    Flow_DRAFT | Flow_CLARIFYING | Flow_CONFIRMED | Flow_COMPILED | Flow_READY_FOR_DISPATCH |
    Flow_DISPATCHED | Flow_CANCELLED

fun taskflow_status_value :: "taskflow_status \<Rightarrow> string" where
  "taskflow_status_value Flow_DRAFT = ''draft''"
| "taskflow_status_value Flow_CLARIFYING = ''clarifying''"
| "taskflow_status_value Flow_CONFIRMED = ''confirmed''"
| "taskflow_status_value Flow_COMPILED = ''compiled''"
| "taskflow_status_value Flow_READY_FOR_DISPATCH = ''ready_for_dispatch''"
| "taskflow_status_value Flow_DISPATCHED = ''dispatched''"
| "taskflow_status_value Flow_CANCELLED = ''cancelled''"

lemma UNIV_taskflow_status: "(UNIV :: taskflow_status set) =
    {Flow_DRAFT, Flow_CLARIFYING, Flow_CONFIRMED, Flow_COMPILED, Flow_READY_FOR_DISPATCH,
    Flow_DISPATCHED, Flow_CANCELLED}"
  by (auto intro: taskflow_status.exhaust)

instantiation taskflow_status :: enum
begin

definition enum_taskflow_status :: "taskflow_status list" where
  "enum_taskflow_status =
    [Flow_DRAFT, Flow_CLARIFYING, Flow_CONFIRMED, Flow_COMPILED, Flow_READY_FOR_DISPATCH,
    Flow_DISPATCHED, Flow_CANCELLED]"

definition enum_all_taskflow_status :: "(taskflow_status \<Rightarrow> bool) \<Rightarrow> bool" where
  "enum_all_taskflow_status p = list_all p (enum_class.enum :: taskflow_status list)"

definition enum_ex_taskflow_status :: "(taskflow_status \<Rightarrow> bool) \<Rightarrow> bool" where
  "enum_ex_taskflow_status p = list_ex p (enum_class.enum :: taskflow_status list)"

instance
  by intro_classes
    (auto simp: enum_taskflow_status_def enum_all_taskflow_status_def enum_ex_taskflow_status_def UNIV_taskflow_status)

end

interpretation taskflow_status_enum: str_enum taskflow_status_value
  by (rule str_enum_distinct) code_simp

lemma taskflow_status_named [simp]: "taskflow_status_value x \<noteq> []"
  by (cases x) simp_all

datatype sensitivity =
    Sens_PUBLIC | Sens_INTERNAL | Sens_CONFIDENTIAL | Sens_SECRET

fun sensitivity_value :: "sensitivity \<Rightarrow> string" where
  "sensitivity_value Sens_PUBLIC = ''public''"
| "sensitivity_value Sens_INTERNAL = ''internal''"
| "sensitivity_value Sens_CONFIDENTIAL = ''confidential''"
| "sensitivity_value Sens_SECRET = ''secret''"

lemma UNIV_sensitivity: "(UNIV :: sensitivity set) =
    {Sens_PUBLIC, Sens_INTERNAL, Sens_CONFIDENTIAL, Sens_SECRET}"
  by (auto intro: sensitivity.exhaust)

instantiation sensitivity :: enum
begin

definition enum_sensitivity :: "sensitivity list" where
  "enum_sensitivity =
    [Sens_PUBLIC, Sens_INTERNAL, Sens_CONFIDENTIAL, Sens_SECRET]"

definition enum_all_sensitivity :: "(sensitivity \<Rightarrow> bool) \<Rightarrow> bool" where
  "enum_all_sensitivity p = list_all p (enum_class.enum :: sensitivity list)"

definition enum_ex_sensitivity :: "(sensitivity \<Rightarrow> bool) \<Rightarrow> bool" where
  "enum_ex_sensitivity p = list_ex p (enum_class.enum :: sensitivity list)"

instance
  by intro_classes
    (auto simp: enum_sensitivity_def enum_all_sensitivity_def enum_ex_sensitivity_def UNIV_sensitivity)

end

interpretation sensitivity_enum: str_enum sensitivity_value
  by (rule str_enum_distinct) code_simp

lemma sensitivity_named [simp]: "sensitivity_value x \<noteq> []"
  by (cases x) simp_all

datatype confirmation_state =
    Conf_SUGGESTED_BY_SYSTEM | Conf_INFERRED_FROM_CONTEXT | Conf_CONFIRMED_BY_USER |
    Conf_REJECTED_BY_USER | Conf_UNRESOLVED | Conf_DEPRECATED

fun confirmation_state_value :: "confirmation_state \<Rightarrow> string" where
  "confirmation_state_value Conf_SUGGESTED_BY_SYSTEM = ''suggested_by_system''"
| "confirmation_state_value Conf_INFERRED_FROM_CONTEXT = ''inferred_from_context''"
| "confirmation_state_value Conf_CONFIRMED_BY_USER = ''confirmed_by_user''"
| "confirmation_state_value Conf_REJECTED_BY_USER = ''rejected_by_user''"
| "confirmation_state_value Conf_UNRESOLVED = ''unresolved''"
| "confirmation_state_value Conf_DEPRECATED = ''deprecated''"

lemma UNIV_confirmation_state: "(UNIV :: confirmation_state set) =
    {Conf_SUGGESTED_BY_SYSTEM, Conf_INFERRED_FROM_CONTEXT, Conf_CONFIRMED_BY_USER,
    Conf_REJECTED_BY_USER, Conf_UNRESOLVED, Conf_DEPRECATED}"
  by (auto intro: confirmation_state.exhaust)

instantiation confirmation_state :: enum
begin

definition enum_confirmation_state :: "confirmation_state list" where
  "enum_confirmation_state =
    [Conf_SUGGESTED_BY_SYSTEM, Conf_INFERRED_FROM_CONTEXT, Conf_CONFIRMED_BY_USER,
    Conf_REJECTED_BY_USER, Conf_UNRESOLVED, Conf_DEPRECATED]"

definition enum_all_confirmation_state :: "(confirmation_state \<Rightarrow> bool) \<Rightarrow> bool" where
  "enum_all_confirmation_state p = list_all p (enum_class.enum :: confirmation_state list)"

definition enum_ex_confirmation_state :: "(confirmation_state \<Rightarrow> bool) \<Rightarrow> bool" where
  "enum_ex_confirmation_state p = list_ex p (enum_class.enum :: confirmation_state list)"

instance
  by intro_classes
    (auto simp: enum_confirmation_state_def enum_all_confirmation_state_def enum_ex_confirmation_state_def UNIV_confirmation_state)

end

interpretation confirmation_state_enum: str_enum confirmation_state_value
  by (rule str_enum_distinct) code_simp

lemma confirmation_state_named [simp]: "confirmation_state_value x \<noteq> []"
  by (cases x) simp_all

datatype question_state =
    Ques_OPEN | Ques_ANSWERED | Ques_SKIPPED | Ques_DEPRECATED

fun question_state_value :: "question_state \<Rightarrow> string" where
  "question_state_value Ques_OPEN = ''open''"
| "question_state_value Ques_ANSWERED = ''answered''"
| "question_state_value Ques_SKIPPED = ''skipped''"
| "question_state_value Ques_DEPRECATED = ''deprecated''"

lemma UNIV_question_state: "(UNIV :: question_state set) =
    {Ques_OPEN, Ques_ANSWERED, Ques_SKIPPED, Ques_DEPRECATED}"
  by (auto intro: question_state.exhaust)

instantiation question_state :: enum
begin

definition enum_question_state :: "question_state list" where
  "enum_question_state =
    [Ques_OPEN, Ques_ANSWERED, Ques_SKIPPED, Ques_DEPRECATED]"

definition enum_all_question_state :: "(question_state \<Rightarrow> bool) \<Rightarrow> bool" where
  "enum_all_question_state p = list_all p (enum_class.enum :: question_state list)"

definition enum_ex_question_state :: "(question_state \<Rightarrow> bool) \<Rightarrow> bool" where
  "enum_ex_question_state p = list_ex p (enum_class.enum :: question_state list)"

instance
  by intro_classes
    (auto simp: enum_question_state_def enum_all_question_state_def enum_ex_question_state_def UNIV_question_state)

end

interpretation question_state_enum: str_enum question_state_value
  by (rule str_enum_distinct) code_simp

lemma question_state_named [simp]: "question_state_value x \<noteq> []"
  by (cases x) simp_all

datatype rule_status =
    Rule_PROPOSED | Rule_CONFIRMED | Rule_REJECTED | Rule_SUPERSEDED

fun rule_status_value :: "rule_status \<Rightarrow> string" where
  "rule_status_value Rule_PROPOSED = ''proposed''"
| "rule_status_value Rule_CONFIRMED = ''confirmed''"
| "rule_status_value Rule_REJECTED = ''rejected''"
| "rule_status_value Rule_SUPERSEDED = ''superseded''"

lemma UNIV_rule_status: "(UNIV :: rule_status set) =
    {Rule_PROPOSED, Rule_CONFIRMED, Rule_REJECTED, Rule_SUPERSEDED}"
  by (auto intro: rule_status.exhaust)

instantiation rule_status :: enum
begin

definition enum_rule_status :: "rule_status list" where
  "enum_rule_status =
    [Rule_PROPOSED, Rule_CONFIRMED, Rule_REJECTED, Rule_SUPERSEDED]"

definition enum_all_rule_status :: "(rule_status \<Rightarrow> bool) \<Rightarrow> bool" where
  "enum_all_rule_status p = list_all p (enum_class.enum :: rule_status list)"

definition enum_ex_rule_status :: "(rule_status \<Rightarrow> bool) \<Rightarrow> bool" where
  "enum_ex_rule_status p = list_ex p (enum_class.enum :: rule_status list)"

instance
  by intro_classes
    (auto simp: enum_rule_status_def enum_all_rule_status_def enum_ex_rule_status_def UNIV_rule_status)

end

interpretation rule_status_enum: str_enum rule_status_value
  by (rule str_enum_distinct) code_simp

lemma rule_status_named [simp]: "rule_status_value x \<noteq> []"
  by (cases x) simp_all

datatype example_kind =
    Kind_POSITIVE | Kind_NEGATIVE | Kind_BOUNDARY

fun example_kind_value :: "example_kind \<Rightarrow> string" where
  "example_kind_value Kind_POSITIVE = ''positive''"
| "example_kind_value Kind_NEGATIVE = ''negative''"
| "example_kind_value Kind_BOUNDARY = ''boundary''"

lemma UNIV_example_kind: "(UNIV :: example_kind set) =
    {Kind_POSITIVE, Kind_NEGATIVE, Kind_BOUNDARY}"
  by (auto intro: example_kind.exhaust)

instantiation example_kind :: enum
begin

definition enum_example_kind :: "example_kind list" where
  "enum_example_kind =
    [Kind_POSITIVE, Kind_NEGATIVE, Kind_BOUNDARY]"

definition enum_all_example_kind :: "(example_kind \<Rightarrow> bool) \<Rightarrow> bool" where
  "enum_all_example_kind p = list_all p (enum_class.enum :: example_kind list)"

definition enum_ex_example_kind :: "(example_kind \<Rightarrow> bool) \<Rightarrow> bool" where
  "enum_ex_example_kind p = list_ex p (enum_class.enum :: example_kind list)"

instance
  by intro_classes
    (auto simp: enum_example_kind_def enum_all_example_kind_def enum_ex_example_kind_def UNIV_example_kind)

end

interpretation example_kind_enum: str_enum example_kind_value
  by (rule str_enum_distinct) code_simp

lemma example_kind_named [simp]: "example_kind_value x \<noteq> []"
  by (cases x) simp_all

datatype brief_status =
    Brief_DRAFT | Brief_READY | Brief_CONFIRMED | Brief_REOPENED

fun brief_status_value :: "brief_status \<Rightarrow> string" where
  "brief_status_value Brief_DRAFT = ''draft''"
| "brief_status_value Brief_READY = ''ready''"
| "brief_status_value Brief_CONFIRMED = ''confirmed''"
| "brief_status_value Brief_REOPENED = ''reopened''"

lemma UNIV_brief_status: "(UNIV :: brief_status set) =
    {Brief_DRAFT, Brief_READY, Brief_CONFIRMED, Brief_REOPENED}"
  by (auto intro: brief_status.exhaust)

instantiation brief_status :: enum
begin

definition enum_brief_status :: "brief_status list" where
  "enum_brief_status =
    [Brief_DRAFT, Brief_READY, Brief_CONFIRMED, Brief_REOPENED]"

definition enum_all_brief_status :: "(brief_status \<Rightarrow> bool) \<Rightarrow> bool" where
  "enum_all_brief_status p = list_all p (enum_class.enum :: brief_status list)"

definition enum_ex_brief_status :: "(brief_status \<Rightarrow> bool) \<Rightarrow> bool" where
  "enum_ex_brief_status p = list_ex p (enum_class.enum :: brief_status list)"

instance
  by intro_classes
    (auto simp: enum_brief_status_def enum_all_brief_status_def enum_ex_brief_status_def UNIV_brief_status)

end

interpretation brief_status_enum: str_enum brief_status_value
  by (rule str_enum_distinct) code_simp

lemma brief_status_named [simp]: "brief_status_value x \<noteq> []"
  by (cases x) simp_all

datatype dispatch_decision_status =
    DDec_REQUESTED | DDec_CONFIRMED | DDec_REJECTED

fun dispatch_decision_status_value :: "dispatch_decision_status \<Rightarrow> string" where
  "dispatch_decision_status_value DDec_REQUESTED = ''requested''"
| "dispatch_decision_status_value DDec_CONFIRMED = ''confirmed''"
| "dispatch_decision_status_value DDec_REJECTED = ''rejected''"

lemma UNIV_dispatch_decision_status: "(UNIV :: dispatch_decision_status set) =
    {DDec_REQUESTED, DDec_CONFIRMED, DDec_REJECTED}"
  by (auto intro: dispatch_decision_status.exhaust)

instantiation dispatch_decision_status :: enum
begin

definition enum_dispatch_decision_status :: "dispatch_decision_status list" where
  "enum_dispatch_decision_status =
    [DDec_REQUESTED, DDec_CONFIRMED, DDec_REJECTED]"

definition enum_all_dispatch_decision_status :: "(dispatch_decision_status \<Rightarrow> bool) \<Rightarrow> bool" where
  "enum_all_dispatch_decision_status p = list_all p (enum_class.enum :: dispatch_decision_status list)"

definition enum_ex_dispatch_decision_status :: "(dispatch_decision_status \<Rightarrow> bool) \<Rightarrow> bool" where
  "enum_ex_dispatch_decision_status p = list_ex p (enum_class.enum :: dispatch_decision_status list)"

instance
  by intro_classes
    (auto simp: enum_dispatch_decision_status_def enum_all_dispatch_decision_status_def enum_ex_dispatch_decision_status_def UNIV_dispatch_decision_status)

end

interpretation dispatch_decision_status_enum: str_enum dispatch_decision_status_value
  by (rule str_enum_distinct) code_simp

lemma dispatch_decision_status_named [simp]: "dispatch_decision_status_value x \<noteq> []"
  by (cases x) simp_all

datatype taskflow_event_type =
    TEvt_DISCOVERY_STARTED | TEvt_DISCOVERY_TURN_RECORDED | TEvt_DECISION_PROPOSED |
    TEvt_DECISION_ANSWERED | TEvt_QUESTION_ANSWERED | TEvt_RULE_CONFIRMED |
    TEvt_EXAMPLE_RECORDED | TEvt_OPEN_QUESTION_RECORDED | TEvt_BRIEF_VERSIONED |
    TEvt_BRIEF_CONFIRM_REQUESTED | TEvt_BRIEF_READY | TEvt_BRIEF_CONFIRMED |
    TEvt_GHERKIN_COMPILED | TEvt_ISSUE_MAP_COMPILED | TEvt_PLAN_COMPILED |
    TEvt_DISPATCH_CONFIRM_REQUESTED | TEvt_DISPATCH_CONFIRMED | TEvt_DISPATCH_REJECTED |
    TEvt_DISPATCH_REQUESTED | TEvt_PLAN_REOPENED | TEvt_PLAN_REBASED |
    TEvt_REVIEW_CARD_ANSWERED | TEvt_REVIEW_CARD_REOPENED | TEvt_PROJECT_MEMORY_PATCH_PROPOSED |
    TEvt_PROJECT_MEMORY_PATCH_APPLIED | TEvt_COMPILER_DECISION_REVIEWED |
    TEvt_COMPLEXITY_EVIDENCE_RECORDED | TEvt_COMPLEXITY_ASSESSED | TEvt_COMPLEXITY_OVERRIDDEN

fun taskflow_event_type_value :: "taskflow_event_type \<Rightarrow> string" where
  "taskflow_event_type_value TEvt_DISCOVERY_STARTED = ''discovery_started''"
| "taskflow_event_type_value TEvt_DISCOVERY_TURN_RECORDED = ''discovery_turn_recorded''"
| "taskflow_event_type_value TEvt_DECISION_PROPOSED = ''decision_proposed''"
| "taskflow_event_type_value TEvt_DECISION_ANSWERED = ''decision_answered''"
| "taskflow_event_type_value TEvt_QUESTION_ANSWERED = ''question_answered''"
| "taskflow_event_type_value TEvt_RULE_CONFIRMED = ''rule_confirmed''"
| "taskflow_event_type_value TEvt_EXAMPLE_RECORDED = ''example_recorded''"
| "taskflow_event_type_value TEvt_OPEN_QUESTION_RECORDED = ''open_question_recorded''"
| "taskflow_event_type_value TEvt_BRIEF_VERSIONED = ''brief_versioned''"
| "taskflow_event_type_value TEvt_BRIEF_CONFIRM_REQUESTED = ''brief_confirm_requested''"
| "taskflow_event_type_value TEvt_BRIEF_READY = ''brief_ready''"
| "taskflow_event_type_value TEvt_BRIEF_CONFIRMED = ''brief_confirmed''"
| "taskflow_event_type_value TEvt_GHERKIN_COMPILED = ''gherkin_compiled''"
| "taskflow_event_type_value TEvt_ISSUE_MAP_COMPILED = ''issue_map_compiled''"
| "taskflow_event_type_value TEvt_PLAN_COMPILED = ''plan_compiled''"
| "taskflow_event_type_value TEvt_DISPATCH_CONFIRM_REQUESTED = ''dispatch_confirm_requested''"
| "taskflow_event_type_value TEvt_DISPATCH_CONFIRMED = ''dispatch_confirmed''"
| "taskflow_event_type_value TEvt_DISPATCH_REJECTED = ''dispatch_rejected''"
| "taskflow_event_type_value TEvt_DISPATCH_REQUESTED = ''dispatch_requested''"
| "taskflow_event_type_value TEvt_PLAN_REOPENED = ''plan_reopened''"
| "taskflow_event_type_value TEvt_PLAN_REBASED = ''plan_rebased''"
| "taskflow_event_type_value TEvt_REVIEW_CARD_ANSWERED = ''review_card_answered''"
| "taskflow_event_type_value TEvt_REVIEW_CARD_REOPENED = ''review_card_reopened''"
| "taskflow_event_type_value TEvt_PROJECT_MEMORY_PATCH_PROPOSED = ''project_memory_patch_proposed''"
| "taskflow_event_type_value TEvt_PROJECT_MEMORY_PATCH_APPLIED = ''project_memory_patch_applied''"
| "taskflow_event_type_value TEvt_COMPILER_DECISION_REVIEWED = ''compiler_decision_reviewed''"
| "taskflow_event_type_value TEvt_COMPLEXITY_EVIDENCE_RECORDED = ''complexity_evidence_recorded''"
| "taskflow_event_type_value TEvt_COMPLEXITY_ASSESSED = ''complexity_assessed''"
| "taskflow_event_type_value TEvt_COMPLEXITY_OVERRIDDEN = ''complexity_overridden''"

lemma UNIV_taskflow_event_type: "(UNIV :: taskflow_event_type set) =
    {TEvt_DISCOVERY_STARTED, TEvt_DISCOVERY_TURN_RECORDED, TEvt_DECISION_PROPOSED,
    TEvt_DECISION_ANSWERED, TEvt_QUESTION_ANSWERED, TEvt_RULE_CONFIRMED, TEvt_EXAMPLE_RECORDED,
    TEvt_OPEN_QUESTION_RECORDED, TEvt_BRIEF_VERSIONED, TEvt_BRIEF_CONFIRM_REQUESTED,
    TEvt_BRIEF_READY, TEvt_BRIEF_CONFIRMED, TEvt_GHERKIN_COMPILED, TEvt_ISSUE_MAP_COMPILED,
    TEvt_PLAN_COMPILED, TEvt_DISPATCH_CONFIRM_REQUESTED, TEvt_DISPATCH_CONFIRMED,
    TEvt_DISPATCH_REJECTED, TEvt_DISPATCH_REQUESTED, TEvt_PLAN_REOPENED, TEvt_PLAN_REBASED,
    TEvt_REVIEW_CARD_ANSWERED, TEvt_REVIEW_CARD_REOPENED, TEvt_PROJECT_MEMORY_PATCH_PROPOSED,
    TEvt_PROJECT_MEMORY_PATCH_APPLIED, TEvt_COMPILER_DECISION_REVIEWED,
    TEvt_COMPLEXITY_EVIDENCE_RECORDED, TEvt_COMPLEXITY_ASSESSED, TEvt_COMPLEXITY_OVERRIDDEN}"
  by (auto intro: taskflow_event_type.exhaust)

instantiation taskflow_event_type :: enum
begin

definition enum_taskflow_event_type :: "taskflow_event_type list" where
  "enum_taskflow_event_type =
    [TEvt_DISCOVERY_STARTED, TEvt_DISCOVERY_TURN_RECORDED, TEvt_DECISION_PROPOSED,
    TEvt_DECISION_ANSWERED, TEvt_QUESTION_ANSWERED, TEvt_RULE_CONFIRMED, TEvt_EXAMPLE_RECORDED,
    TEvt_OPEN_QUESTION_RECORDED, TEvt_BRIEF_VERSIONED, TEvt_BRIEF_CONFIRM_REQUESTED,
    TEvt_BRIEF_READY, TEvt_BRIEF_CONFIRMED, TEvt_GHERKIN_COMPILED, TEvt_ISSUE_MAP_COMPILED,
    TEvt_PLAN_COMPILED, TEvt_DISPATCH_CONFIRM_REQUESTED, TEvt_DISPATCH_CONFIRMED,
    TEvt_DISPATCH_REJECTED, TEvt_DISPATCH_REQUESTED, TEvt_PLAN_REOPENED, TEvt_PLAN_REBASED,
    TEvt_REVIEW_CARD_ANSWERED, TEvt_REVIEW_CARD_REOPENED, TEvt_PROJECT_MEMORY_PATCH_PROPOSED,
    TEvt_PROJECT_MEMORY_PATCH_APPLIED, TEvt_COMPILER_DECISION_REVIEWED,
    TEvt_COMPLEXITY_EVIDENCE_RECORDED, TEvt_COMPLEXITY_ASSESSED, TEvt_COMPLEXITY_OVERRIDDEN]"

definition enum_all_taskflow_event_type :: "(taskflow_event_type \<Rightarrow> bool) \<Rightarrow> bool" where
  "enum_all_taskflow_event_type p = list_all p (enum_class.enum :: taskflow_event_type list)"

definition enum_ex_taskflow_event_type :: "(taskflow_event_type \<Rightarrow> bool) \<Rightarrow> bool" where
  "enum_ex_taskflow_event_type p = list_ex p (enum_class.enum :: taskflow_event_type list)"

instance
  by intro_classes
    (auto simp: enum_taskflow_event_type_def enum_all_taskflow_event_type_def enum_ex_taskflow_event_type_def UNIV_taskflow_event_type)

end

interpretation taskflow_event_type_enum: str_enum taskflow_event_type_value
  by (rule str_enum_distinct) code_simp

lemma taskflow_event_type_named [simp]: "taskflow_event_type_value x \<noteq> []"
  by (cases x) simp_all

lemmas flowDocuments_enums [roundtrips] =
  taskflow_status_enum.of_val
  sensitivity_enum.of_val
  confirmation_state_enum.of_val
  question_state_enum.of_val
  rule_status_enum.of_val
  example_kind_enum.of_val
  brief_status_enum.of_val
  dispatch_decision_status_enum.of_val
  taskflow_event_type_enum.of_val

section \<open>TaskflowMeta\<close>

record taskflow_meta =
  tfm_taskflow_id :: string
  tfm_project_id :: string
  tfm_goal_id :: string
  tfm_schema_version :: string
  tfm_state_version :: int
  tfm_status :: taskflow_status
  tfm_sensitivity :: sensitivity
  tfm_created_at :: string
  tfm_updated_at :: string

definition taskflow_meta_from_dict :: "string \<Rightarrow> pyobj \<Rightarrow> taskflow_meta result" where
  "taskflow_meta_from_dict now data =
     res_bind (int_at data ''state_version'' 1) (\<lambda>state_version_v.
     res_bind (enum_of taskflow_status_value (text_at data ''status'' ''draft'')) (\<lambda>status_v.
     res_bind (enum_of sensitivity_value (text_at data ''sensitivity'' ''internal'')) (\<lambda>sensitivity_v.
     Inr
       \<lparr>tfm_taskflow_id = text_at data ''taskflow_id'' [],
        tfm_project_id = text_at data ''project_id'' [], tfm_goal_id = text_at data ''goal_id'' [],
        tfm_schema_version = text_at data ''schema_version'' ''taskflow.state.v1'',
        tfm_state_version = state_version_v, tfm_status = status_v, tfm_sensitivity = sensitivity_v,
        tfm_created_at = text_at data ''created_at'' now,
        tfm_updated_at = text_at data ''updated_at'' now\<rparr>)))"

definition taskflow_meta_to_dict :: "taskflow_meta \<Rightarrow> pyobj" where
  "taskflow_meta_to_dict r =
     [(''taskflow_id'', PStr (tfm_taskflow_id r)), (''project_id'', PStr (tfm_project_id r)),
      (''goal_id'', PStr (tfm_goal_id r)), (''schema_version'', PStr (tfm_schema_version r)),
      (''state_version'', PInt (tfm_state_version r)),
      (''status'', PStr (taskflow_status_value (tfm_status r))),
      (''sensitivity'', PStr (sensitivity_value (tfm_sensitivity r))),
      (''created_at'', PStr (tfm_created_at r)), (''updated_at'', PStr (tfm_updated_at r))]"

definition taskflow_meta_wf :: "taskflow_meta \<Rightarrow> bool" where
  "taskflow_meta_wf r \<longleftrightarrow>
     tfm_schema_version r \<noteq> [] \<and> tfm_state_version r \<noteq> 0 \<and>
     tfm_created_at r \<noteq> [] \<and> tfm_updated_at r \<noteq> []"

lemma taskflow_meta_roundtrip [roundtrips]: "taskflow_meta_wf r \<Longrightarrow> taskflow_meta_from_dict now (taskflow_meta_to_dict r) = Inr r"
  by (simp add: taskflow_meta_from_dict_def taskflow_meta_to_dict_def taskflow_meta_wf_def roundtrips)

section \<open>TaskflowRefs\<close>

record taskflow_refs =
  tfr_project_context_refs :: "string list"
  tfr_prior_goal_refs :: "string list"
  tfr_related_goal_refs :: "string list"
  tfr_reused_work_item_refs :: "string list"
  tfr_shared_decision_refs :: "string list"
  tfr_related_artifact_refs :: "string list"

definition taskflow_refs_from_dict :: "pyobj \<Rightarrow> taskflow_refs" where
  "taskflow_refs_from_dict data =
     \<lparr>tfr_project_context_refs = string_list (pget data ''project_context_refs''),
        tfr_prior_goal_refs = string_list (pget data ''prior_goal_refs''),
        tfr_related_goal_refs = string_list (pget data ''related_goal_refs''),
        tfr_reused_work_item_refs = string_list (pget data ''reused_work_item_refs''),
        tfr_shared_decision_refs = string_list (pget data ''shared_decision_refs''),
        tfr_related_artifact_refs = string_list (pget data ''related_artifact_refs'')\<rparr>"

definition taskflow_refs_to_dict :: "taskflow_refs \<Rightarrow> pyobj" where
  "taskflow_refs_to_dict r =
     [(''project_context_refs'', strs (tfr_project_context_refs r)),
      (''prior_goal_refs'', strs (tfr_prior_goal_refs r)),
      (''related_goal_refs'', strs (tfr_related_goal_refs r)),
      (''reused_work_item_refs'', strs (tfr_reused_work_item_refs r)),
      (''shared_decision_refs'', strs (tfr_shared_decision_refs r)),
      (''related_artifact_refs'', strs (tfr_related_artifact_refs r))]"

definition taskflow_refs_wf :: "taskflow_refs \<Rightarrow> bool" where
  "taskflow_refs_wf r \<longleftrightarrow>
     list_all nonblank (tfr_project_context_refs r) \<and>
     list_all nonblank (tfr_prior_goal_refs r) \<and>
     list_all nonblank (tfr_related_goal_refs r) \<and>
     list_all nonblank (tfr_reused_work_item_refs r) \<and>
     list_all nonblank (tfr_shared_decision_refs r) \<and>
     list_all nonblank (tfr_related_artifact_refs r)"

lemma taskflow_refs_roundtrip [roundtrips]: "taskflow_refs_wf r \<Longrightarrow> taskflow_refs_from_dict (taskflow_refs_to_dict r) = r"
  by (simp add: taskflow_refs_from_dict_def taskflow_refs_to_dict_def taskflow_refs_wf_def roundtrips)

section \<open>TaskflowIntent\<close>

record taskflow_intent =
  tfi_goal_statement :: string
  tfi_background_delta :: string
  tfi_stakeholders_delta :: "stakeholder list"
  tfi_scope_in :: "string list"
  tfi_scope_out :: "string list"
  tfi_deferred_scope :: "string list"
  tfi_success_criteria :: "string list"
  tfi_constraints_delta :: "constraint list"

definition taskflow_intent_from_dict :: "pyobj \<Rightarrow> taskflow_intent" where
  "taskflow_intent_from_dict data =
     \<lparr>tfi_goal_statement = text_at data ''goal_statement'' [],
        tfi_background_delta = text_at data ''background_delta'' [],
        tfi_stakeholders_delta = records_of stakeholder_from_dict (pget data ''stakeholders_delta''),
        tfi_scope_in = string_list (pget data ''scope_in''),
        tfi_scope_out = string_list (pget data ''scope_out''),
        tfi_deferred_scope = string_list (pget data ''deferred_scope''),
        tfi_success_criteria = string_list (pget data ''success_criteria''),
        tfi_constraints_delta = records_of constraint_from_dict (pget data ''constraints_delta'')\<rparr>"

definition taskflow_intent_to_dict :: "taskflow_intent \<Rightarrow> pyobj" where
  "taskflow_intent_to_dict r =
     [(''goal_statement'', PStr (tfi_goal_statement r)),
      (''background_delta'', PStr (tfi_background_delta r)),
      (''stakeholders_delta'', docs stakeholder_to_dict (tfi_stakeholders_delta r)),
      (''scope_in'', strs (tfi_scope_in r)), (''scope_out'', strs (tfi_scope_out r)),
      (''deferred_scope'', strs (tfi_deferred_scope r)),
      (''success_criteria'', strs (tfi_success_criteria r)),
      (''constraints_delta'', docs constraint_to_dict (tfi_constraints_delta r))]"

definition taskflow_intent_wf :: "taskflow_intent \<Rightarrow> bool" where
  "taskflow_intent_wf r \<longleftrightarrow>
     list_all stakeholder_wf (tfi_stakeholders_delta r) \<and>
     list_all nonblank (tfi_scope_in r) \<and> list_all nonblank (tfi_scope_out r) \<and>
     list_all nonblank (tfi_deferred_scope r) \<and> list_all nonblank (tfi_success_criteria r) \<and>
     list_all constraint_wf (tfi_constraints_delta r)"

lemma taskflow_intent_roundtrip [roundtrips]: "taskflow_intent_wf r \<Longrightarrow> taskflow_intent_from_dict (taskflow_intent_to_dict r) = r"
  by (simp add: taskflow_intent_from_dict_def taskflow_intent_to_dict_def taskflow_intent_wf_def roundtrips)

section \<open>Assumption\<close>

record assumption =
  asm_id :: string
  asm_statement :: string
  asm_impact :: string
  asm_state :: confirmation_state
  asm_reason :: string
  asm_source_refs :: "string list"
  asm_metadata :: pyobj

definition assumption_from_dict :: "pyobj \<Rightarrow> assumption result" where
  "assumption_from_dict data =
     res_bind (enum_of confirmation_state_value (text_at data ''state'' ''suggested_by_system'')) (\<lambda>state_v.
     Inr
       \<lparr>asm_id = text_at data ''id'' [], asm_statement = text_at data ''statement'' [],
        asm_impact = text_at data ''impact'' ''medium'', asm_state = state_v,
        asm_reason = text_at data ''reason'' [],
        asm_source_refs = string_list (pget data ''source_refs''),
        asm_metadata = dict_of (pget data ''metadata'')\<rparr>)"

definition assumption_to_dict :: "assumption \<Rightarrow> pyobj" where
  "assumption_to_dict r =
     [(''id'', PStr (asm_id r)), (''statement'', PStr (asm_statement r)),
      (''impact'', PStr (asm_impact r)), (''state'', PStr (confirmation_state_value (asm_state r))),
      (''reason'', PStr (asm_reason r)), (''source_refs'', strs (asm_source_refs r)),
      (''metadata'', PDict (asm_metadata r))]"

definition assumption_wf :: "assumption \<Rightarrow> bool" where
  "assumption_wf r \<longleftrightarrow>
     asm_impact r \<noteq> [] \<and> list_all nonblank (asm_source_refs r)"

lemma assumption_roundtrip [roundtrips]: "assumption_wf r \<Longrightarrow> assumption_from_dict (assumption_to_dict r) = Inr r"
  by (simp add: assumption_from_dict_def assumption_to_dict_def assumption_wf_def roundtrips)

lemma assumption_list [roundtrips]:
  "list_all assumption_wf xs \<Longrightarrow> records_at assumption_from_dict (docs assumption_to_dict xs) = Inr xs"
  by (rule records_at_docs[where P = "assumption_wf"]) (simp_all add: assumption_roundtrip)

section \<open>OpenQuestion\<close>

record open_question =
  oq_id :: string
  oq_stage :: string
  oq_question :: string
  oq_why_needed :: string
  oq_answer_type :: string
  oq_options :: "string list"
  oq_default_suggestion :: "string option"
  oq_risk_if_unknown :: string
  oq_state :: question_state
  oq_priority :: int
  oq_blocking_scope :: string
  oq_field_bindings :: "string list"
  oq_source_refs :: "string list"
  oq_answered :: bool
  oq_answer :: pyval
  oq_answered_by :: string
  oq_answered_at :: "string option"
  oq_answer_rationale :: string
  oq_confidence :: "int option"
  oq_blocks_compile :: bool
  oq_blocks_dispatch :: bool
  oq_artifact_targets :: "string list"
  oq_skip_when :: "string list"
  oq_metadata :: pyobj

definition open_question_from_dict :: "pyobj \<Rightarrow> open_question result" where
  "open_question_from_dict data =
     res_bind (int_at data ''priority'' 0) (\<lambda>priority_v.
     res_bind (opt_float_at data ''confidence'') (\<lambda>confidence_v.
     res_bind (enum_of question_state_value (py_str (py_or (pget data ''state'') (PStr (if truthy (pget data ''answered'') then ''answered'' else ''open''))))) (\<lambda>state_v.
     Inr
       \<lparr>oq_id = text_at data ''id'' [], oq_stage = text_at data ''stage'' [],
        oq_question = text_at data ''question'' [], oq_why_needed = text_at data ''why_needed'' [],
        oq_answer_type = text_at data ''answer_type'' ''free_text'',
        oq_options = string_list (pget data ''options''),
        oq_default_suggestion = opt_text_at data ''default_suggestion'',
        oq_risk_if_unknown = text_at data ''risk_if_unknown'' ''medium'',
        oq_state = (if truthy (pget_or data ''answered'' (PBool False)) \<and> state_v = Ques_OPEN then Ques_ANSWERED else state_v),
        oq_priority = priority_v, oq_blocking_scope = text_at data ''blocking_scope'' [],
        oq_field_bindings = string_list (pget data ''field_bindings''),
        oq_source_refs = string_list (pget data ''source_refs''),
        oq_answered = truthy (pget_or data ''answered'' (PBool False)),
        oq_answer = parsed_answer (pget data ''answer''),
        oq_answered_by = text_at data ''answered_by'' [],
        oq_answered_at = opt_text_at data ''answered_at'',
        oq_answer_rationale = text_at data ''answer_rationale'' [], oq_confidence = confidence_v,
        oq_blocks_compile = truthy (pget_or data ''blocks_compile'' (PBool False)),
        oq_blocks_dispatch = truthy (pget_or data ''blocks_dispatch'' (PBool False)),
        oq_artifact_targets = string_list (pget data ''artifact_targets''),
        oq_skip_when = string_list (pget data ''skip_when''),
        oq_metadata = dict_of (pget data ''metadata'')\<rparr>)))"

definition open_question_to_dict :: "open_question \<Rightarrow> pyobj" where
  "open_question_to_dict r =
     [(''id'', PStr (oq_id r)), (''stage'', PStr (oq_stage r)), (''question'', PStr (oq_question r)),
      (''why_needed'', PStr (oq_why_needed r)), (''answer_type'', PStr (oq_answer_type r)),
      (''options'', strs (oq_options r)), (''default_suggestion'', opt_val (oq_default_suggestion r)),
      (''risk_if_unknown'', PStr (oq_risk_if_unknown r)),
      (''state'', PStr (question_state_value (oq_state r))), (''priority'', PInt (oq_priority r)),
      (''blocking_scope'', PStr (oq_blocking_scope r)),
      (''field_bindings'', strs (oq_field_bindings r)), (''source_refs'', strs (oq_source_refs r)),
      (''answered'', PBool (oq_answered r)), (''answer'', oq_answer r),
      (''answered_by'', PStr (oq_answered_by r)), (''answered_at'', opt_val (oq_answered_at r)),
      (''answer_rationale'', PStr (oq_answer_rationale r)),
      (''confidence'', opt_int (oq_confidence r)), (''blocks_compile'', PBool (oq_blocks_compile r)),
      (''blocks_dispatch'', PBool (oq_blocks_dispatch r)),
      (''artifact_targets'', strs (oq_artifact_targets r)), (''skip_when'', strs (oq_skip_when r)),
      (''metadata'', PDict (oq_metadata r))]"

definition open_question_wf :: "open_question \<Rightarrow> bool" where
  "open_question_wf r \<longleftrightarrow>
     oq_answer_type r \<noteq> [] \<and> list_all nonblank (oq_options r) \<and>
     oq_risk_if_unknown r \<noteq> [] \<and> list_all nonblank (oq_field_bindings r) \<and>
     list_all nonblank (oq_source_refs r) \<and> answer_ok (oq_answer r) \<and>
     list_all nonblank (oq_artifact_targets r) \<and> list_all nonblank (oq_skip_when r) \<and>
     \<not> (oq_answered r \<and> oq_state r = Ques_OPEN)"

lemma open_question_roundtrip [roundtrips]: "open_question_wf r \<Longrightarrow> open_question_from_dict (open_question_to_dict r) = Inr r"
  by (simp add: open_question_from_dict_def open_question_to_dict_def open_question_wf_def roundtrips)

lemma open_question_list [roundtrips]:
  "list_all open_question_wf xs \<Longrightarrow> records_at open_question_from_dict (docs open_question_to_dict xs) = Inr xs"
  by (rule records_at_docs[where P = "open_question_wf"]) (simp_all add: open_question_roundtrip)

section \<open>ScenarioRecord\<close>

record scenario_record =
  scn_id :: string
  scn_title :: string
  scn_given :: "string list"
  scn_when :: "string list"
  scn_then :: "string list"
  scn_observable :: bool
  scn_metadata :: pyobj

definition scenario_record_from_dict :: "pyobj \<Rightarrow> scenario_record" where
  "scenario_record_from_dict data =
     \<lparr>scn_id = text_at data ''id'' [], scn_title = text_at data ''title'' [],
        scn_given = string_list (pget data ''given''), scn_when = string_list (pget data ''when''),
        scn_then = string_list (pget data ''then''),
        scn_observable = truthy (pget_or data ''observable'' (PBool True)),
        scn_metadata = dict_of (pget data ''metadata'')\<rparr>"

definition scenario_record_to_dict :: "scenario_record \<Rightarrow> pyobj" where
  "scenario_record_to_dict r =
     [(''id'', PStr (scn_id r)), (''title'', PStr (scn_title r)), (''given'', strs (scn_given r)),
      (''when'', strs (scn_when r)), (''then'', strs (scn_then r)),
      (''observable'', PBool (scn_observable r)), (''metadata'', PDict (scn_metadata r))]"

definition scenario_record_wf :: "scenario_record \<Rightarrow> bool" where
  "scenario_record_wf r \<longleftrightarrow>
     list_all nonblank (scn_given r) \<and> list_all nonblank (scn_when r) \<and>
     list_all nonblank (scn_then r)"

lemma scenario_record_roundtrip [roundtrips]: "scenario_record_wf r \<Longrightarrow> scenario_record_from_dict (scenario_record_to_dict r) = r"
  by (simp add: scenario_record_from_dict_def scenario_record_to_dict_def scenario_record_wf_def roundtrips)

lemma scenario_record_list [roundtrips]:
  "list_all scenario_record_wf xs \<Longrightarrow> records_of scenario_record_from_dict (docs scenario_record_to_dict xs) = xs"
  by (rule records_of_docs[where P = "scenario_record_wf"]) (simp_all add: scenario_record_roundtrip)

section \<open>RuleRecord\<close>

record rule_record =
  rul_id :: string
  rul_statement :: string
  rul_status :: rule_status
  rul_source_decision_id :: "string option"
  rul_source_question_id :: "string option"
  rul_example_ids :: "string list"
  rul_scenario_ids :: "string list"
  rul_blocking :: bool
  rul_risk_level :: string
  rul_confirmation_state :: confirmation_state
  rul_confirmed_by :: string
  rul_confirmed_at :: "string option"
  rul_metadata :: pyobj

definition rule_record_from_dict :: "pyobj \<Rightarrow> rule_record result" where
  "rule_record_from_dict data =
     res_bind (enum_of rule_status_value (text_at data ''status'' ''proposed'')) (\<lambda>status_v.
     res_bind (enum_of confirmation_state_value (py_str (py_or (pget data ''confirmation_state'') (py_or (pget data ''state'') (PStr ''suggested_by_system''))))) (\<lambda>confirmation_state_v.
     Inr
       \<lparr>rul_id = text_at data ''id'' [], rul_statement = text_at data ''statement'' [],
        rul_status = status_v, rul_source_decision_id = opt_text_at data ''source_decision_id'',
        rul_source_question_id = opt_text_at data ''source_question_id'',
        rul_example_ids = string_list (pget data ''example_ids''),
        rul_scenario_ids = string_list (pget data ''scenario_ids''),
        rul_blocking = truthy (pget_or data ''blocking'' (PBool False)),
        rul_risk_level = text_at data ''risk_level'' ''medium'',
        rul_confirmation_state = confirmation_state_v,
        rul_confirmed_by = text_at data ''confirmed_by'' [],
        rul_confirmed_at = opt_text_at data ''confirmed_at'',
        rul_metadata = dict_of (pget data ''metadata'')\<rparr>))"

definition rule_record_to_dict :: "rule_record \<Rightarrow> pyobj" where
  "rule_record_to_dict r =
     [(''id'', PStr (rul_id r)), (''statement'', PStr (rul_statement r)),
      (''status'', PStr (rule_status_value (rul_status r))),
      (''source_decision_id'', opt_val (rul_source_decision_id r)),
      (''source_question_id'', opt_val (rul_source_question_id r)),
      (''example_ids'', strs (rul_example_ids r)), (''scenario_ids'', strs (rul_scenario_ids r)),
      (''blocking'', PBool (rul_blocking r)), (''risk_level'', PStr (rul_risk_level r)),
      (''confirmation_state'', PStr (confirmation_state_value (rul_confirmation_state r))),
      (''confirmed_by'', PStr (rul_confirmed_by r)), (''confirmed_at'', opt_val (rul_confirmed_at r)),
      (''metadata'', PDict (rul_metadata r))]"

definition rule_record_wf :: "rule_record \<Rightarrow> bool" where
  "rule_record_wf r \<longleftrightarrow>
     list_all nonblank (rul_example_ids r) \<and> list_all nonblank (rul_scenario_ids r) \<and>
     rul_risk_level r \<noteq> []"

lemma rule_record_roundtrip [roundtrips]: "rule_record_wf r \<Longrightarrow> rule_record_from_dict (rule_record_to_dict r) = Inr r"
  by (simp add: rule_record_from_dict_def rule_record_to_dict_def rule_record_wf_def roundtrips)

lemma rule_record_list [roundtrips]:
  "list_all rule_record_wf xs \<Longrightarrow> records_at rule_record_from_dict (docs rule_record_to_dict xs) = Inr xs"
  by (rule records_at_docs[where P = "rule_record_wf"]) (simp_all add: rule_record_roundtrip)

section \<open>ExampleRecord\<close>

record example_record =
  exm_id :: string
  exm_title :: string
  exm_rule_id :: "string option"
  exm_kind :: example_kind
  exm_given :: "string list"
  exm_when :: "string list"
  exm_then :: "string list"
  exm_observable_outputs :: "string list"
  exm_source_refs :: "string list"
  exm_metadata :: pyobj

definition example_record_from_dict :: "pyobj \<Rightarrow> example_record result" where
  "example_record_from_dict data =
     res_bind (enum_of example_kind_value (text_at data ''kind'' ''positive'')) (\<lambda>kind_v.
     Inr
       \<lparr>exm_id = text_at data ''id'' [], exm_title = text_at data ''title'' [],
        exm_rule_id = opt_text_at data ''rule_id'', exm_kind = kind_v,
        exm_given = string_list (pget data ''given''), exm_when = string_list (pget data ''when''),
        exm_then = string_list (pget data ''then''),
        exm_observable_outputs = string_list (pget data ''observable_outputs''),
        exm_source_refs = string_list (pget data ''source_refs''),
        exm_metadata = dict_of (pget data ''metadata'')\<rparr>)"

definition example_record_to_dict :: "example_record \<Rightarrow> pyobj" where
  "example_record_to_dict r =
     [(''id'', PStr (exm_id r)), (''title'', PStr (exm_title r)),
      (''rule_id'', opt_val (exm_rule_id r)), (''kind'', PStr (example_kind_value (exm_kind r))),
      (''given'', strs (exm_given r)), (''when'', strs (exm_when r)), (''then'', strs (exm_then r)),
      (''observable_outputs'', strs (exm_observable_outputs r)),
      (''source_refs'', strs (exm_source_refs r)), (''metadata'', PDict (exm_metadata r))]"

definition example_record_wf :: "example_record \<Rightarrow> bool" where
  "example_record_wf r \<longleftrightarrow>
     list_all nonblank (exm_given r) \<and> list_all nonblank (exm_when r) \<and>
     list_all nonblank (exm_then r) \<and> list_all nonblank (exm_observable_outputs r) \<and>
     list_all nonblank (exm_source_refs r)"

lemma example_record_roundtrip [roundtrips]: "example_record_wf r \<Longrightarrow> example_record_from_dict (example_record_to_dict r) = Inr r"
  by (simp add: example_record_from_dict_def example_record_to_dict_def example_record_wf_def roundtrips)

lemma example_record_list [roundtrips]:
  "list_all example_record_wf xs \<Longrightarrow> records_at example_record_from_dict (docs example_record_to_dict xs) = Inr xs"
  by (rule records_at_docs[where P = "example_record_wf"]) (simp_all add: example_record_roundtrip)

section \<open>AcceptanceExample\<close>

record acceptance_example =
  aex_id :: string
  aex_title :: string
  aex_scenario_ref :: "string option"
  aex_rule_id :: "string option"
  aex_kind :: example_kind
  aex_given :: "string list"
  aex_when :: "string list"
  aex_then :: "string list"
  aex_state :: confirmation_state
  aex_definition_of_done :: "string list"
  aex_test_suggestions :: "string list"
  aex_observable_outputs :: "string list"
  aex_gherkin_text :: string
  aex_source_brief_version :: "int option"
  aex_metadata :: pyobj

definition acceptance_example_from_dict :: "pyobj \<Rightarrow> acceptance_example result" where
  "acceptance_example_from_dict data =
     res_bind (opt_int_at data ''source_brief_version'') (\<lambda>source_brief_version_v.
     res_bind (enum_of example_kind_value (text_at data ''kind'' ''positive'')) (\<lambda>kind_v.
     res_bind (enum_of confirmation_state_value (text_at data ''state'' ''suggested_by_system'')) (\<lambda>state_v.
     Inr
       \<lparr>aex_id = text_at data ''id'' [], aex_title = text_at data ''title'' [],
        aex_scenario_ref = opt_text_at data ''scenario_ref'',
        aex_rule_id = opt_text_at data ''rule_id'', aex_kind = kind_v,
        aex_given = string_list (pget data ''given''), aex_when = string_list (pget data ''when''),
        aex_then = string_list (pget data ''then''), aex_state = state_v,
        aex_definition_of_done = string_list (pget data ''definition_of_done''),
        aex_test_suggestions = string_list (pget data ''test_suggestions''),
        aex_observable_outputs = string_list (pget data ''observable_outputs''),
        aex_gherkin_text = text_at data ''gherkin_text'' [],
        aex_source_brief_version = source_brief_version_v,
        aex_metadata = dict_of (pget data ''metadata'')\<rparr>)))"

definition acceptance_example_to_dict :: "acceptance_example \<Rightarrow> pyobj" where
  "acceptance_example_to_dict r =
     [(''id'', PStr (aex_id r)), (''title'', PStr (aex_title r)),
      (''scenario_ref'', opt_val (aex_scenario_ref r)), (''rule_id'', opt_val (aex_rule_id r)),
      (''kind'', PStr (example_kind_value (aex_kind r))), (''given'', strs (aex_given r)),
      (''when'', strs (aex_when r)), (''then'', strs (aex_then r)),
      (''state'', PStr (confirmation_state_value (aex_state r))),
      (''definition_of_done'', strs (aex_definition_of_done r)),
      (''test_suggestions'', strs (aex_test_suggestions r)),
      (''observable_outputs'', strs (aex_observable_outputs r)),
      (''gherkin_text'', PStr (aex_gherkin_text r)),
      (''source_brief_version'', opt_int (aex_source_brief_version r)),
      (''metadata'', PDict (aex_metadata r))]"

definition acceptance_example_wf :: "acceptance_example \<Rightarrow> bool" where
  "acceptance_example_wf r \<longleftrightarrow>
     list_all nonblank (aex_given r) \<and> list_all nonblank (aex_when r) \<and>
     list_all nonblank (aex_then r) \<and> list_all nonblank (aex_definition_of_done r) \<and>
     list_all nonblank (aex_test_suggestions r) \<and> list_all nonblank (aex_observable_outputs r)"

lemma acceptance_example_roundtrip [roundtrips]: "acceptance_example_wf r \<Longrightarrow> acceptance_example_from_dict (acceptance_example_to_dict r) = Inr r"
  by (simp add: acceptance_example_from_dict_def acceptance_example_to_dict_def acceptance_example_wf_def roundtrips)

lemma acceptance_example_list [roundtrips]:
  "list_all acceptance_example_wf xs \<Longrightarrow> records_at acceptance_example_from_dict (docs acceptance_example_to_dict xs) = Inr xs"
  by (rule records_at_docs[where P = "acceptance_example_wf"]) (simp_all add: acceptance_example_roundtrip)

section \<open>TaskflowClarification\<close>

record taskflow_clarification =
  tfc_assumptions :: "assumption list"
  tfc_open_questions :: "open_question list"
  tfc_rules :: "rule_record list"
  tfc_examples :: "example_record list"
  tfc_scenarios :: "scenario_record list"
  tfc_acceptance_examples :: "acceptance_example list"

definition taskflow_clarification_from_dict :: "pyobj \<Rightarrow> taskflow_clarification result" where
  "taskflow_clarification_from_dict data =
     res_bind (records_at assumption_from_dict (pget data ''assumptions'')) (\<lambda>assumptions_v.
     res_bind (records_at open_question_from_dict (pget data ''open_questions'')) (\<lambda>open_questions_v.
     res_bind (records_at rule_record_from_dict (pget data ''rules'')) (\<lambda>rules_v.
     res_bind (records_at example_record_from_dict (pget data ''examples'')) (\<lambda>examples_v.
     res_bind (records_at acceptance_example_from_dict (pget data ''acceptance_examples'')) (\<lambda>acceptance_examples_v.
     Inr
       \<lparr>tfc_assumptions = assumptions_v, tfc_open_questions = open_questions_v,
        tfc_rules = rules_v, tfc_examples = examples_v,
        tfc_scenarios = records_of scenario_record_from_dict (pget data ''scenarios''),
        tfc_acceptance_examples = acceptance_examples_v\<rparr>)))))"

definition taskflow_clarification_to_dict :: "taskflow_clarification \<Rightarrow> pyobj" where
  "taskflow_clarification_to_dict r =
     [(''assumptions'', docs assumption_to_dict (tfc_assumptions r)),
      (''open_questions'', docs open_question_to_dict (tfc_open_questions r)),
      (''rules'', docs rule_record_to_dict (tfc_rules r)),
      (''examples'', docs example_record_to_dict (tfc_examples r)),
      (''scenarios'', docs scenario_record_to_dict (tfc_scenarios r)),
      (''acceptance_examples'', docs acceptance_example_to_dict (tfc_acceptance_examples r))]"

definition taskflow_clarification_wf :: "taskflow_clarification \<Rightarrow> bool" where
  "taskflow_clarification_wf r \<longleftrightarrow>
     list_all assumption_wf (tfc_assumptions r) \<and>
     list_all open_question_wf (tfc_open_questions r) \<and>
     list_all rule_record_wf (tfc_rules r) \<and> list_all example_record_wf (tfc_examples r) \<and>
     list_all scenario_record_wf (tfc_scenarios r) \<and>
     list_all acceptance_example_wf (tfc_acceptance_examples r)"

lemma taskflow_clarification_roundtrip [roundtrips]: "taskflow_clarification_wf r \<Longrightarrow> taskflow_clarification_from_dict (taskflow_clarification_to_dict r) = Inr r"
  by (simp add: taskflow_clarification_from_dict_def taskflow_clarification_to_dict_def taskflow_clarification_wf_def roundtrips)

section \<open>TaskflowDomain\<close>

record taskflow_domain =
  tfd_bounded_context_refs :: "string list"
  tfd_domain_model_delta :: pyobj
  tfd_ubiquitous_language :: "(string, string) pydict"

definition taskflow_domain_from_dict :: "pyobj \<Rightarrow> taskflow_domain" where
  "taskflow_domain_from_dict data =
     \<lparr>tfd_bounded_context_refs = string_list (pget data ''bounded_context_refs''),
        tfd_domain_model_delta = dict_of (pget data ''domain_model_delta''),
        tfd_ubiquitous_language = map (\<lambda>(k, v). (k, py_str v)) (dict_of (pget data ''ubiquitous_language''))\<rparr>"

definition taskflow_domain_to_dict :: "taskflow_domain \<Rightarrow> pyobj" where
  "taskflow_domain_to_dict r =
     [(''bounded_context_refs'', strs (tfd_bounded_context_refs r)),
      (''domain_model_delta'', PDict (tfd_domain_model_delta r)),
      (''ubiquitous_language'', str_pairs (tfd_ubiquitous_language r))]"

definition taskflow_domain_wf :: "taskflow_domain \<Rightarrow> bool" where
  "taskflow_domain_wf r \<longleftrightarrow>
     list_all nonblank (tfd_bounded_context_refs r)"

lemma taskflow_domain_roundtrip [roundtrips]: "taskflow_domain_wf r \<Longrightarrow> taskflow_domain_from_dict (taskflow_domain_to_dict r) = r"
  by (simp add: taskflow_domain_from_dict_def taskflow_domain_to_dict_def taskflow_domain_wf_def roundtrips)

section \<open>SolutionOption\<close>

record solution_option =
  sop_id :: string
  sop_title :: string
  sop_summary :: string
  sop_pros :: "string list"
  sop_cons :: "string list"
  sop_recommended :: bool
  sop_decision_ref :: "string option"
  sop_metadata :: pyobj

definition solution_option_from_dict :: "pyobj \<Rightarrow> solution_option" where
  "solution_option_from_dict data =
     \<lparr>sop_id = text_at data ''id'' [], sop_title = text_at data ''title'' [],
        sop_summary = text_at data ''summary'' [], sop_pros = string_list (pget data ''pros''),
        sop_cons = string_list (pget data ''cons''),
        sop_recommended = truthy (pget_or data ''recommended'' (PBool False)),
        sop_decision_ref = opt_text_at data ''decision_ref'',
        sop_metadata = dict_of (pget data ''metadata'')\<rparr>"

definition solution_option_to_dict :: "solution_option \<Rightarrow> pyobj" where
  "solution_option_to_dict r =
     [(''id'', PStr (sop_id r)), (''title'', PStr (sop_title r)), (''summary'', PStr (sop_summary r)),
      (''pros'', strs (sop_pros r)), (''cons'', strs (sop_cons r)),
      (''recommended'', PBool (sop_recommended r)), (''decision_ref'', opt_val (sop_decision_ref r)),
      (''metadata'', PDict (sop_metadata r))]"

definition solution_option_wf :: "solution_option \<Rightarrow> bool" where
  "solution_option_wf r \<longleftrightarrow>
     list_all nonblank (sop_pros r) \<and> list_all nonblank (sop_cons r)"

lemma solution_option_roundtrip [roundtrips]: "solution_option_wf r \<Longrightarrow> solution_option_from_dict (solution_option_to_dict r) = r"
  by (simp add: solution_option_from_dict_def solution_option_to_dict_def solution_option_wf_def roundtrips)

lemma solution_option_list [roundtrips]:
  "list_all solution_option_wf xs \<Longrightarrow> records_of solution_option_from_dict (docs solution_option_to_dict xs) = xs"
  by (rule records_of_docs[where P = "solution_option_wf"]) (simp_all add: solution_option_roundtrip)

section \<open>DecisionOption\<close>

record decision_option =
  dop_id :: string
  dop_label :: string
  dop_tradeoff :: string
  dop_impact :: pyobj
  dop_metadata :: pyobj

text \<open>An option may be given by its label alone.\<close>

definition decision_option_from_dict :: "pyval \<Rightarrow> decision_option result" where
  "decision_option_from_dict v =
     (case v of
        PStr s \<Rightarrow> Inr \<lparr>dop_id = s, dop_label = s, dop_tradeoff = [], dop_impact = [], dop_metadata = []\<rparr>
      | PDict data \<Rightarrow>
          Inr \<lparr>dop_id = py_str (py_or (pget data ''id'') (py_or (pget data ''label'') (PStr []))),
            dop_label = py_str (py_or (pget data ''label'') (py_or (pget data ''id'') (PStr []))),
            dop_tradeoff = text_at data ''tradeoff'' [], dop_impact = dict_of (pget data ''impact''),
            dop_metadata = dict_of (pget data ''metadata'')\<rparr>
      | _ \<Rightarrow> Inl (AttributeError ''get''))"

definition decision_option_to_dict :: "decision_option \<Rightarrow> pyobj" where
  "decision_option_to_dict r =
     [(''id'', PStr (dop_id r)), (''label'', PStr (dop_label r)), (''tradeoff'', PStr (dop_tradeoff r)),
      (''impact'', PDict (dop_impact r)), (''metadata'', PDict (dop_metadata r))]"

definition decision_option_wf :: "decision_option \<Rightarrow> bool" where
  "decision_option_wf r \<longleftrightarrow> (dop_id r = [] \<longleftrightarrow> dop_label r = [])"

lemma decision_option_roundtrip [roundtrips]:
  "decision_option_wf r \<Longrightarrow> decision_option_from_dict (PDict (decision_option_to_dict r)) = Inr r"
  by (auto simp: decision_option_from_dict_def decision_option_to_dict_def decision_option_wf_def roundtrips py_or_def)

lemma decision_option_list [roundtrips]:
  "list_all decision_option_wf xs \<Longrightarrow>
   res_map decision_option_from_dict (list_of (docs decision_option_to_dict xs)) = Inr xs"
  by (induction xs) (simp_all add: docs_def decision_option_roundtrip)

section \<open>DecisionAnswer\<close>

record decision_answer =
  dan_id :: string
  dan_decision_id :: string
  dan_selected_option_id :: "string option"
  dan_answer :: pyval
  dan_rationale :: string
  dan_actor :: string
  dan_source :: string
  dan_source_brief_version :: "int option"
  dan_created_at :: string
  dan_metadata :: pyobj

definition decision_answer_from_dict :: "string \<Rightarrow> pyobj \<Rightarrow> decision_answer result" where
  "decision_answer_from_dict now data =
     res_bind (opt_int_at data ''source_brief_version'') (\<lambda>source_brief_version_v.
     Inr
       \<lparr>dan_id = text_at data ''id'' [], dan_decision_id = text_at data ''decision_id'' [],
        dan_selected_option_id = opt_text_at data ''selected_option_id'',
        dan_answer = parsed_answer (pget data ''answer''),
        dan_rationale = text_at data ''rationale'' [], dan_actor = text_at data ''actor'' [],
        dan_source = text_at data ''source'' ''api'',
        dan_source_brief_version = source_brief_version_v,
        dan_created_at = text_at data ''created_at'' now,
        dan_metadata = dict_of (pget data ''metadata'')\<rparr>)"

definition decision_answer_to_dict :: "decision_answer \<Rightarrow> pyobj" where
  "decision_answer_to_dict r =
     [(''id'', PStr (dan_id r)), (''decision_id'', PStr (dan_decision_id r)),
      (''selected_option_id'', opt_val (dan_selected_option_id r)), (''answer'', dan_answer r),
      (''rationale'', PStr (dan_rationale r)), (''actor'', PStr (dan_actor r)),
      (''source'', PStr (dan_source r)),
      (''source_brief_version'', opt_int (dan_source_brief_version r)),
      (''created_at'', PStr (dan_created_at r)), (''metadata'', PDict (dan_metadata r))]"

definition decision_answer_wf :: "decision_answer \<Rightarrow> bool" where
  "decision_answer_wf r \<longleftrightarrow>
     answer_ok (dan_answer r) \<and> dan_source r \<noteq> [] \<and> dan_created_at r \<noteq> []"

lemma decision_answer_roundtrip [roundtrips]: "decision_answer_wf r \<Longrightarrow> decision_answer_from_dict now (decision_answer_to_dict r) = Inr r"
  by (simp add: decision_answer_from_dict_def decision_answer_to_dict_def decision_answer_wf_def roundtrips)

section \<open>DecisionRecord\<close>

record decision_record =
  dr_id :: string
  dr_topic :: string
  dr_decision_type :: string
  dr_question :: string
  dr_why_it_matters :: string
  dr_options :: "decision_option list"
  dr_recommended :: "string option"
  dr_recommendation_rationale :: string
  dr_chosen :: "string option"
  dr_rationale :: string
  dr_state :: confirmation_state
  dr_impact :: pyobj
  dr_answer_refs :: "string list"
  dr_answered_by :: string
  dr_answered_at :: "string option"
  dr_answer_source :: string
  dr_source_brief_version :: "int option"
  dr_linked_rule_ids :: "string list"
  dr_supersedes :: "string list"
  dr_metadata :: pyobj

definition decision_record_from_dict :: "pyobj \<Rightarrow> decision_record result" where
  "decision_record_from_dict data =
     res_bind (res_map decision_option_from_dict (list_of (pget data ''options''))) (\<lambda>options_v.
     res_bind (opt_int_at data ''source_brief_version'') (\<lambda>source_brief_version_v.
     res_bind (enum_of confirmation_state_value (text_at data ''state'' ''suggested_by_system'')) (\<lambda>state_v.
     Inr
       \<lparr>dr_id = text_at data ''id'' [],
        dr_topic = py_str (py_or (pget data ''topic'') (py_or (pget data ''question'') (PStr []))),
        dr_decision_type = py_str (py_or (pget data ''decision_type'') (py_or (pget data ''type'') (PStr ''general''))),
        dr_question = py_str (py_or (pget data ''question'') (py_or (pget data ''topic'') (PStr []))),
        dr_why_it_matters = text_at data ''why_it_matters'' [], dr_options = options_v,
        dr_recommended = opt_text_at data ''recommended'',
        dr_recommendation_rationale = text_at data ''recommendation_rationale'' [],
        dr_chosen = opt_text_at data ''chosen'',
        dr_rationale = py_str (py_or (pget data ''rationale'') (py_or (pget data ''reason'') (PStr []))),
        dr_state = state_v, dr_impact = dict_of (pget data ''impact''),
        dr_answer_refs = string_list (pget data ''answer_refs''),
        dr_answered_by = text_at data ''answered_by'' [],
        dr_answered_at = opt_text_at data ''answered_at'',
        dr_answer_source = text_at data ''answer_source'' [],
        dr_source_brief_version = source_brief_version_v,
        dr_linked_rule_ids = string_list (pget data ''linked_rule_ids''),
        dr_supersedes = string_list (pget data ''supersedes''),
        dr_metadata = dict_of (pget data ''metadata'')\<rparr>)))"

definition decision_record_to_dict :: "decision_record \<Rightarrow> pyobj" where
  "decision_record_to_dict r =
     [(''id'', PStr (dr_id r)), (''topic'', PStr (dr_topic r)),
      (''decision_type'', PStr (dr_decision_type r)), (''question'', PStr (dr_question r)),
      (''why_it_matters'', PStr (dr_why_it_matters r)),
      (''options'', docs decision_option_to_dict (dr_options r)),
      (''recommended'', opt_val (dr_recommended r)),
      (''recommendation_rationale'', PStr (dr_recommendation_rationale r)),
      (''chosen'', opt_val (dr_chosen r)), (''rationale'', PStr (dr_rationale r)),
      (''state'', PStr (confirmation_state_value (dr_state r))), (''impact'', PDict (dr_impact r)),
      (''answer_refs'', strs (dr_answer_refs r)), (''answered_by'', PStr (dr_answered_by r)),
      (''answered_at'', opt_val (dr_answered_at r)), (''answer_source'', PStr (dr_answer_source r)),
      (''source_brief_version'', opt_int (dr_source_brief_version r)),
      (''linked_rule_ids'', strs (dr_linked_rule_ids r)), (''supersedes'', strs (dr_supersedes r)),
      (''metadata'', PDict (dr_metadata r))]"

definition decision_record_wf :: "decision_record \<Rightarrow> bool" where
  "decision_record_wf r \<longleftrightarrow>
     dr_topic r \<noteq> [] \<and> dr_decision_type r \<noteq> [] \<and>
     dr_question r \<noteq> [] \<and> list_all decision_option_wf (dr_options r) \<and>
     list_all nonblank (dr_answer_refs r) \<and> list_all nonblank (dr_linked_rule_ids r) \<and>
     list_all nonblank (dr_supersedes r)"

lemma decision_record_roundtrip [roundtrips]: "decision_record_wf r \<Longrightarrow> decision_record_from_dict (decision_record_to_dict r) = Inr r"
  by (simp add: decision_record_from_dict_def decision_record_to_dict_def decision_record_wf_def roundtrips)

lemma decision_record_list [roundtrips]:
  "list_all decision_record_wf xs \<Longrightarrow> records_at decision_record_from_dict (docs decision_record_to_dict xs) = Inr xs"
  by (rule records_at_docs[where P = "decision_record_wf"]) (simp_all add: decision_record_roundtrip)

section \<open>RiskRecord\<close>

record risk_record =
  rsk_id :: string
  rsk_statement :: string
  rsk_impact :: string
  rsk_mitigation :: string
  rsk_metadata :: pyobj

definition risk_record_from_dict :: "pyobj \<Rightarrow> risk_record" where
  "risk_record_from_dict data =
     \<lparr>rsk_id = text_at data ''id'' [], rsk_statement = text_at data ''statement'' [],
        rsk_impact = text_at data ''impact'' ''medium'',
        rsk_mitigation = text_at data ''mitigation'' [],
        rsk_metadata = dict_of (pget data ''metadata'')\<rparr>"

definition risk_record_to_dict :: "risk_record \<Rightarrow> pyobj" where
  "risk_record_to_dict r =
     [(''id'', PStr (rsk_id r)), (''statement'', PStr (rsk_statement r)),
      (''impact'', PStr (rsk_impact r)), (''mitigation'', PStr (rsk_mitigation r)),
      (''metadata'', PDict (rsk_metadata r))]"

definition risk_record_wf :: "risk_record \<Rightarrow> bool" where
  "risk_record_wf r \<longleftrightarrow>
     rsk_impact r \<noteq> []"

lemma risk_record_roundtrip [roundtrips]: "risk_record_wf r \<Longrightarrow> risk_record_from_dict (risk_record_to_dict r) = r"
  by (simp add: risk_record_from_dict_def risk_record_to_dict_def risk_record_wf_def roundtrips)

lemma risk_record_list [roundtrips]:
  "list_all risk_record_wf xs \<Longrightarrow> records_of risk_record_from_dict (docs risk_record_to_dict xs) = xs"
  by (rule records_of_docs[where P = "risk_record_wf"]) (simp_all add: risk_record_roundtrip)

section \<open>InterfaceSpec\<close>

record interface_spec =
  ifc_id :: string
  ifc_name :: string
  ifc_kind :: string
  ifc_contract :: pyobj
  ifc_producer :: string
  ifc_consumers :: "string list"

definition interface_spec_from_dict :: "pyobj \<Rightarrow> interface_spec" where
  "interface_spec_from_dict data =
     \<lparr>ifc_id = text_at data ''id'' [], ifc_name = text_at data ''name'' [],
        ifc_kind = text_at data ''kind'' ''api'', ifc_contract = dict_of (pget data ''contract''),
        ifc_producer = text_at data ''producer'' [],
        ifc_consumers = string_list (pget data ''consumers'')\<rparr>"

definition interface_spec_to_dict :: "interface_spec \<Rightarrow> pyobj" where
  "interface_spec_to_dict r =
     [(''id'', PStr (ifc_id r)), (''name'', PStr (ifc_name r)), (''kind'', PStr (ifc_kind r)),
      (''contract'', PDict (ifc_contract r)), (''producer'', PStr (ifc_producer r)),
      (''consumers'', strs (ifc_consumers r))]"

definition interface_spec_wf :: "interface_spec \<Rightarrow> bool" where
  "interface_spec_wf r \<longleftrightarrow>
     ifc_kind r \<noteq> [] \<and> list_all nonblank (ifc_consumers r)"

lemma interface_spec_roundtrip [roundtrips]: "interface_spec_wf r \<Longrightarrow> interface_spec_from_dict (interface_spec_to_dict r) = r"
  by (simp add: interface_spec_from_dict_def interface_spec_to_dict_def interface_spec_wf_def roundtrips)

lemma interface_spec_list [roundtrips]:
  "list_all interface_spec_wf xs \<Longrightarrow> records_of interface_spec_from_dict (docs interface_spec_to_dict xs) = xs"
  by (rule records_of_docs[where P = "interface_spec_wf"]) (simp_all add: interface_spec_roundtrip)

section \<open>TaskflowDesign\<close>

record taskflow_design =
  tfg_solution_options :: "solution_option list"
  tfg_local_decisions :: "decision_record list"
  tfg_risks :: "risk_record list"
  tfg_interfaces :: "interface_spec list"
  tfg_implementation_notes :: "string list"

definition taskflow_design_from_dict :: "pyobj \<Rightarrow> taskflow_design result" where
  "taskflow_design_from_dict data =
     res_bind (records_at decision_record_from_dict (pget data ''local_decisions'')) (\<lambda>local_decisions_v.
     Inr
       \<lparr>
        tfg_solution_options = records_of solution_option_from_dict (pget data ''solution_options''),
        tfg_local_decisions = local_decisions_v,
        tfg_risks = records_of risk_record_from_dict (pget data ''risks''),
        tfg_interfaces = records_of interface_spec_from_dict (pget data ''interfaces''),
        tfg_implementation_notes = string_list (pget data ''implementation_notes'')\<rparr>)"

definition taskflow_design_to_dict :: "taskflow_design \<Rightarrow> pyobj" where
  "taskflow_design_to_dict r =
     [(''solution_options'', docs solution_option_to_dict (tfg_solution_options r)),
      (''local_decisions'', docs decision_record_to_dict (tfg_local_decisions r)),
      (''risks'', docs risk_record_to_dict (tfg_risks r)),
      (''interfaces'', docs interface_spec_to_dict (tfg_interfaces r)),
      (''implementation_notes'', strs (tfg_implementation_notes r))]"

definition taskflow_design_wf :: "taskflow_design \<Rightarrow> bool" where
  "taskflow_design_wf r \<longleftrightarrow>
     list_all solution_option_wf (tfg_solution_options r) \<and>
     list_all decision_record_wf (tfg_local_decisions r) \<and>
     list_all risk_record_wf (tfg_risks r) \<and> list_all interface_spec_wf (tfg_interfaces r) \<and>
     list_all nonblank (tfg_implementation_notes r)"

lemma taskflow_design_roundtrip [roundtrips]: "taskflow_design_wf r \<Longrightarrow> taskflow_design_from_dict (taskflow_design_to_dict r) = Inr r"
  by (simp add: taskflow_design_from_dict_def taskflow_design_to_dict_def taskflow_design_wf_def roundtrips)

section \<open>TaskflowDelivery\<close>

record taskflow_delivery =
  tfv_rollout_plan :: "string list"
  tfv_future_goal_candidates :: "string list"

definition taskflow_delivery_from_dict :: "pyobj \<Rightarrow> taskflow_delivery" where
  "taskflow_delivery_from_dict data =
     \<lparr>tfv_rollout_plan = string_list (pget data ''rollout_plan''),
        tfv_future_goal_candidates = string_list (pget data ''future_goal_candidates'')\<rparr>"

definition taskflow_delivery_to_dict :: "taskflow_delivery \<Rightarrow> pyobj" where
  "taskflow_delivery_to_dict r =
     [(''rollout_plan'', strs (tfv_rollout_plan r)),
      (''future_goal_candidates'', strs (tfv_future_goal_candidates r))]"

definition taskflow_delivery_wf :: "taskflow_delivery \<Rightarrow> bool" where
  "taskflow_delivery_wf r \<longleftrightarrow>
     list_all nonblank (tfv_rollout_plan r) \<and> list_all nonblank (tfv_future_goal_candidates r)"

lemma taskflow_delivery_roundtrip [roundtrips]: "taskflow_delivery_wf r \<Longrightarrow> taskflow_delivery_from_dict (taskflow_delivery_to_dict r) = r"
  by (simp add: taskflow_delivery_from_dict_def taskflow_delivery_to_dict_def taskflow_delivery_wf_def roundtrips)

section \<open>TaskflowRelations\<close>

record taskflow_relations =
  tfl_goal_work_links :: "goal_work_link list"
  tfl_work_item_dependencies :: "trace_link list"
  tfl_decision_work_links :: "trace_link list"
  tfl_acceptance_trace_links :: "trace_link list"

definition taskflow_relations_from_dict :: "string \<Rightarrow> pyobj \<Rightarrow> taskflow_relations result" where
  "taskflow_relations_from_dict now data =
     res_bind (records_at (goal_work_link_from_dict now) (pget data ''goal_work_links'')) (\<lambda>goal_work_links_v.
     res_bind (records_at (trace_link_from_dict now) (pget data ''work_item_dependencies'')) (\<lambda>work_item_dependencies_v.
     res_bind (records_at (trace_link_from_dict now) (pget data ''decision_work_links'')) (\<lambda>decision_work_links_v.
     res_bind (records_at (trace_link_from_dict now) (pget data ''acceptance_trace_links'')) (\<lambda>acceptance_trace_links_v.
     Inr
       \<lparr>tfl_goal_work_links = goal_work_links_v,
        tfl_work_item_dependencies = work_item_dependencies_v,
        tfl_decision_work_links = decision_work_links_v,
        tfl_acceptance_trace_links = acceptance_trace_links_v\<rparr>))))"

definition taskflow_relations_to_dict :: "taskflow_relations \<Rightarrow> pyobj" where
  "taskflow_relations_to_dict r =
     [(''goal_work_links'', docs goal_work_link_to_dict (tfl_goal_work_links r)),
      (''work_item_dependencies'', docs trace_link_to_dict (tfl_work_item_dependencies r)),
      (''decision_work_links'', docs trace_link_to_dict (tfl_decision_work_links r)),
      (''acceptance_trace_links'', docs trace_link_to_dict (tfl_acceptance_trace_links r))]"

definition taskflow_relations_wf :: "taskflow_relations \<Rightarrow> bool" where
  "taskflow_relations_wf r \<longleftrightarrow>
     list_all goal_work_link_wf (tfl_goal_work_links r) \<and>
     list_all trace_link_wf (tfl_work_item_dependencies r) \<and>
     list_all trace_link_wf (tfl_decision_work_links r) \<and>
     list_all trace_link_wf (tfl_acceptance_trace_links r)"

lemma taskflow_relations_roundtrip [roundtrips]: "taskflow_relations_wf r \<Longrightarrow> taskflow_relations_from_dict now (taskflow_relations_to_dict r) = Inr r"
  by (simp add: taskflow_relations_from_dict_def taskflow_relations_to_dict_def taskflow_relations_wf_def roundtrips)

end
