(* ===== verification/FlowState.thy ===== *)
theory FlowState
  imports FlowDocuments
begin

text \<open>
  The compiler state, the outputs and the events of a taskflow and the document that holds all its parts,
  from \<open>src/labrastro_server/taskflow/domain/taskflow_state.py\<close>.
\<close>

section \<open>ReadinessGate\<close>

record readiness_gate =
  rg_id :: string
  rg_name :: string
  rg_passed :: bool
  rg_rationale :: string
  rg_required :: bool
  rg_severity :: string
  rg_phase :: string
  rg_source :: string
  rg_evidence_ids :: "string list"
  rg_artifact_keys :: "string list"
  rg_blocks_compile :: bool
  rg_blocks_dispatch :: bool

text \<open>\<open>__post_init__\<close>: an unknown phase is \<open>both\<close>, and the phase decides what the gate blocks unless this is
  given.\<close>

definition gate_phase :: "string \<Rightarrow> string" where
  "gate_phase phase = (if phase \<in> set [''compile'', ''dispatch'', ''both''] then phase else ''both'')"

definition gate_blocks :: "string \<Rightarrow> string \<Rightarrow> bool option \<Rightarrow> bool" where
  "gate_blocks kind phase given =
     (case given of None \<Rightarrow> gate_phase phase = kind \<or> gate_phase phase = ''both'' | Some b \<Rightarrow> b)"

definition opt_bool_at :: "pyobj \<Rightarrow> string \<Rightarrow> bool option" where
  "opt_bool_at data k = (case pget data k of PNone \<Rightarrow> None | v \<Rightarrow> Some (truthy v))"

definition readiness_gate_from_dict :: "pyobj \<Rightarrow> readiness_gate" where
  "readiness_gate_from_dict data =
     (let phase = text_at data ''phase'' ''both''
      in \<lparr>rg_id = text_at data ''id'' [], rg_name = text_at data ''name'' [],
        rg_passed = truthy (pget_or data ''passed'' (PBool False)),
        rg_rationale = text_at data ''rationale'' [],
        rg_required = truthy (pget_or data ''required'' (PBool True)),
        rg_severity = text_at data ''severity'' ''high'', rg_phase = gate_phase phase,
        rg_source = text_at data ''source'' ''manual'',
        rg_evidence_ids = string_list (pget data ''evidence_ids''),
        rg_artifact_keys = string_list (pget data ''artifact_keys''),
        rg_blocks_compile = gate_blocks ''compile'' phase (opt_bool_at data ''blocks_compile''),
        rg_blocks_dispatch = gate_blocks ''dispatch'' phase (opt_bool_at data ''blocks_dispatch'')\<rparr>)"

definition readiness_gate_to_dict :: "readiness_gate \<Rightarrow> pyobj" where
  "readiness_gate_to_dict r =
     [(''id'', PStr (rg_id r)), (''name'', PStr (rg_name r)), (''passed'', PBool (rg_passed r)),
      (''rationale'', PStr (rg_rationale r)), (''required'', PBool (rg_required r)),
      (''severity'', PStr (rg_severity r)), (''phase'', PStr (rg_phase r)),
      (''source'', PStr (rg_source r)), (''evidence_ids'', strs (rg_evidence_ids r)),
      (''artifact_keys'', strs (rg_artifact_keys r)),
      (''blocks_compile'', PBool (rg_blocks_compile r)),
      (''blocks_dispatch'', PBool (rg_blocks_dispatch r))]"

definition readiness_gate_wf :: "readiness_gate \<Rightarrow> bool" where
  "readiness_gate_wf r \<longleftrightarrow>
     rg_severity r \<noteq> [] \<and> gate_phase (rg_phase r) = rg_phase r \<and> rg_source r \<noteq> [] \<and>
     list_all nonblank (rg_evidence_ids r) \<and> list_all nonblank (rg_artifact_keys r)"

lemma gate_phase_idem [simp]: "gate_phase (gate_phase phase) = gate_phase phase"
  by (simp add: gate_phase_def)

lemma phase_named: "gate_phase phase = phase \<Longrightarrow> phase \<noteq> []"
  by (auto simp: gate_phase_def)

lemma opt_bool_back [roundtrips]: "pget data k = PBool b \<Longrightarrow> opt_bool_at data k = Some b"
  by (simp add: opt_bool_at_def)

lemma readiness_gate_roundtrip [roundtrips]:
  "readiness_gate_wf r \<Longrightarrow> readiness_gate_from_dict (readiness_gate_to_dict r) = r"
  using phase_named[of "rg_phase r"]
  by (simp add: readiness_gate_from_dict_def readiness_gate_to_dict_def readiness_gate_wf_def roundtrips
      gate_blocks_def Let_def)

lemma readiness_gate_list [roundtrips]:
  "list_all readiness_gate_wf xs \<Longrightarrow> records_of readiness_gate_from_dict (docs readiness_gate_to_dict xs) = xs"
  by (rule records_of_docs[where P = "readiness_gate_wf"]) (simp_all add: readiness_gate_roundtrip)

section \<open>ComplexityEvidenceRecord\<close>

record complexity_evidence_record =
  cev_id :: string
  cev_dimension :: string
  cev_source_type :: string
  cev_source_id :: string
  cev_source_path :: string
  cev_score_delta :: int
  cev_confidence :: "int option"
  cev_rationale :: string
  cev_brief_version :: "int option"
  cev_extracted_by :: string
  cev_metadata :: pyobj
  cev_created_at :: string

definition complexity_evidence_record_from_dict :: "string \<Rightarrow> pyobj \<Rightarrow> complexity_evidence_record result" where
  "complexity_evidence_record_from_dict now data =
     res_bind (int_at data ''score_delta'' 0) (\<lambda>score_delta_v.
     res_bind (opt_float_at data ''confidence'') (\<lambda>confidence_v.
     res_bind (opt_int_at data ''brief_version'') (\<lambda>brief_version_v.
     Inr
       \<lparr>cev_id = text_at data ''id'' [], cev_dimension = text_at data ''dimension'' [],
        cev_source_type = text_at data ''source_type'' [],
        cev_source_id = text_at data ''source_id'' [],
        cev_source_path = text_at data ''source_path'' [], cev_score_delta = score_delta_v,
        cev_confidence = confidence_v, cev_rationale = text_at data ''rationale'' [],
        cev_brief_version = brief_version_v,
        cev_extracted_by = text_at data ''extracted_by'' ''system'',
        cev_metadata = dict_of (pget data ''metadata''),
        cev_created_at = text_at data ''created_at'' now\<rparr>)))"

definition complexity_evidence_record_to_dict :: "complexity_evidence_record \<Rightarrow> pyobj" where
  "complexity_evidence_record_to_dict r =
     [(''id'', PStr (cev_id r)), (''dimension'', PStr (cev_dimension r)),
      (''source_type'', PStr (cev_source_type r)), (''source_id'', PStr (cev_source_id r)),
      (''source_path'', PStr (cev_source_path r)), (''score_delta'', PInt (cev_score_delta r)),
      (''confidence'', opt_int (cev_confidence r)), (''rationale'', PStr (cev_rationale r)),
      (''brief_version'', opt_int (cev_brief_version r)),
      (''extracted_by'', PStr (cev_extracted_by r)),
      (''metadata'', serialize (PDict (cev_metadata r))), (''created_at'', PStr (cev_created_at r))]"

definition complexity_evidence_record_wf :: "complexity_evidence_record \<Rightarrow> bool" where
  "complexity_evidence_record_wf r \<longleftrightarrow>
     cev_extracted_by r \<noteq> [] \<and> cev_created_at r \<noteq> []"

lemma complexity_evidence_record_roundtrip [roundtrips]: "complexity_evidence_record_wf r \<Longrightarrow> complexity_evidence_record_from_dict now (complexity_evidence_record_to_dict r) = Inr r"
  by (simp add: complexity_evidence_record_from_dict_def complexity_evidence_record_to_dict_def complexity_evidence_record_wf_def roundtrips)

lemma complexity_evidence_record_list [roundtrips]:
  "list_all complexity_evidence_record_wf xs \<Longrightarrow> records_at (complexity_evidence_record_from_dict now) (docs complexity_evidence_record_to_dict xs) = Inr xs"
  by (rule records_at_docs[where P = "complexity_evidence_record_wf"]) (simp_all add: complexity_evidence_record_roundtrip)

section \<open>ComplexityDimensionScore\<close>

record complexity_dimension_score =
  cds_dimension :: string
  cds_score :: int
  cds_evidence_ids :: "string list"
  cds_rationale :: string

definition complexity_dimension_score_from_dict :: "pyobj \<Rightarrow> complexity_dimension_score result" where
  "complexity_dimension_score_from_dict data =
     res_bind (int_at data ''score'' 0) (\<lambda>score_v.
     Inr
       \<lparr>cds_dimension = text_at data ''dimension'' [], cds_score = score_v,
        cds_evidence_ids = string_list (pget data ''evidence_ids''),
        cds_rationale = text_at data ''rationale'' []\<rparr>)"

definition complexity_dimension_score_to_dict :: "complexity_dimension_score \<Rightarrow> pyobj" where
  "complexity_dimension_score_to_dict r =
     [(''dimension'', PStr (cds_dimension r)), (''score'', PInt (cds_score r)),
      (''evidence_ids'', strs (cds_evidence_ids r)), (''rationale'', PStr (cds_rationale r))]"

definition complexity_dimension_score_wf :: "complexity_dimension_score \<Rightarrow> bool" where
  "complexity_dimension_score_wf r \<longleftrightarrow>
     list_all nonblank (cds_evidence_ids r)"

lemma complexity_dimension_score_roundtrip [roundtrips]: "complexity_dimension_score_wf r \<Longrightarrow> complexity_dimension_score_from_dict (complexity_dimension_score_to_dict r) = Inr r"
  by (simp add: complexity_dimension_score_from_dict_def complexity_dimension_score_to_dict_def complexity_dimension_score_wf_def roundtrips)

lemma complexity_dimension_score_list [roundtrips]:
  "list_all complexity_dimension_score_wf xs \<Longrightarrow> records_at complexity_dimension_score_from_dict (docs complexity_dimension_score_to_dict xs) = Inr xs"
  by (rule records_at_docs[where P = "complexity_dimension_score_wf"]) (simp_all add: complexity_dimension_score_roundtrip)

section \<open>ComplexityEstimateRecord\<close>

record complexity_estimate_record =
  cer_level :: string
  cer_score :: int
  cer_recipe_id :: string
  cer_dimension_scores :: "(string, int) pydict"
  cer_signal_evidence :: "(string, string list) pydict"
  cer_evidence :: "complexity_evidence_record list"
  cer_dimension_details :: "complexity_dimension_score list"
  cer_confidence :: "int option"
  cer_dominant_dimensions :: "string list"
  cer_unknown_dimensions :: "string list"
  cer_needs_more_evidence :: bool
  cer_explanation :: string
  cer_scan_refs :: "string list"
  cer_question_packs :: "string list"
  cer_plan_slicing_policy :: string
  cer_dispatch_safety_policy :: string
  cer_level_floor :: string
  cer_hard_escalations :: "string list"
  cer_recipe_policy_id :: string
  cer_required_gates :: "string list"
  cer_compile_blockers :: "string list"
  cer_dispatch_blockers :: "string list"
  cer_required_steps :: "string list"
  cer_completed_steps :: "string list"
  cer_skipped_steps :: "string list"
  cer_required_artifacts :: "string list"
  cer_rationale :: string
  cer_evaluated_at :: string
  cer_overridden_by :: string
  cer_override_reason :: string

definition complexity_estimate_record_from_dict :: "string \<Rightarrow> pyobj \<Rightarrow> complexity_estimate_record result" where
  "complexity_estimate_record_from_dict now data =
     res_bind (int_at data ''score'' 0) (\<lambda>score_v.
     res_bind (int_pairs_at data ''dimension_scores'') (\<lambda>dimension_scores_v.
     res_bind (records_at (complexity_evidence_record_from_dict now) (pget data ''evidence'')) (\<lambda>evidence_v.
     res_bind (records_at complexity_dimension_score_from_dict (pget data ''dimension_details'')) (\<lambda>dimension_details_v.
     res_bind (opt_float_at data ''confidence'') (\<lambda>confidence_v.
     Inr
       \<lparr>cer_level = text_at data ''level'' [], cer_score = score_v,
        cer_recipe_id = text_at data ''recipe_id'' [], cer_dimension_scores = dimension_scores_v,
        cer_signal_evidence = map (\<lambda>(k, v). (k, string_list v)) (dict_of (pget data ''signal_evidence'')),
        cer_evidence = evidence_v, cer_dimension_details = dimension_details_v,
        cer_confidence = confidence_v,
        cer_dominant_dimensions = string_list (pget data ''dominant_dimensions''),
        cer_unknown_dimensions = string_list (pget data ''unknown_dimensions''),
        cer_needs_more_evidence = truthy (pget data ''needs_more_evidence''),
        cer_explanation = text_at data ''explanation'' [],
        cer_scan_refs = string_list (pget data ''scan_refs''),
        cer_question_packs = string_list (pget data ''question_packs''),
        cer_plan_slicing_policy = text_at data ''plan_slicing_policy'' [],
        cer_dispatch_safety_policy = text_at data ''dispatch_safety_policy'' [],
        cer_level_floor = text_at data ''level_floor'' [],
        cer_hard_escalations = string_list (pget data ''hard_escalations''),
        cer_recipe_policy_id = text_at data ''recipe_policy_id'' [],
        cer_required_gates = string_list (pget data ''required_gates''),
        cer_compile_blockers = string_list (pget data ''compile_blockers''),
        cer_dispatch_blockers = string_list (pget data ''dispatch_blockers''),
        cer_required_steps = string_list (pget data ''required_steps''),
        cer_completed_steps = string_list (pget data ''completed_steps''),
        cer_skipped_steps = string_list (pget data ''skipped_steps''),
        cer_required_artifacts = string_list (pget data ''required_artifacts''),
        cer_rationale = text_at data ''rationale'' [],
        cer_evaluated_at = text_at data ''evaluated_at'' now,
        cer_overridden_by = text_at data ''overridden_by'' [],
        cer_override_reason = text_at data ''override_reason'' []\<rparr>)))))"

definition complexity_estimate_record_to_dict :: "complexity_estimate_record \<Rightarrow> pyobj" where
  "complexity_estimate_record_to_dict r =
     [(''level'', PStr (cer_level r)), (''score'', PInt (cer_score r)),
      (''recipe_id'', PStr (cer_recipe_id r)),
      (''dimension_scores'', int_pairs_val (cer_dimension_scores r)),
      (''signal_evidence'', strs_pairs (cer_signal_evidence r)),
      (''evidence'', docs complexity_evidence_record_to_dict (cer_evidence r)),
      (''dimension_details'', docs complexity_dimension_score_to_dict (cer_dimension_details r)),
      (''confidence'', opt_int (cer_confidence r)),
      (''dominant_dimensions'', strs (cer_dominant_dimensions r)),
      (''unknown_dimensions'', strs (cer_unknown_dimensions r)),
      (''needs_more_evidence'', PBool (cer_needs_more_evidence r)),
      (''explanation'', PStr (cer_explanation r)), (''scan_refs'', strs (cer_scan_refs r)),
      (''question_packs'', strs (cer_question_packs r)),
      (''plan_slicing_policy'', PStr (cer_plan_slicing_policy r)),
      (''dispatch_safety_policy'', PStr (cer_dispatch_safety_policy r)),
      (''level_floor'', PStr (cer_level_floor r)),
      (''hard_escalations'', strs (cer_hard_escalations r)),
      (''recipe_policy_id'', PStr (cer_recipe_policy_id r)),
      (''required_gates'', strs (cer_required_gates r)),
      (''compile_blockers'', strs (cer_compile_blockers r)),
      (''dispatch_blockers'', strs (cer_dispatch_blockers r)),
      (''required_steps'', strs (cer_required_steps r)),
      (''completed_steps'', strs (cer_completed_steps r)),
      (''skipped_steps'', strs (cer_skipped_steps r)),
      (''required_artifacts'', strs (cer_required_artifacts r)),
      (''rationale'', PStr (cer_rationale r)), (''evaluated_at'', PStr (cer_evaluated_at r)),
      (''overridden_by'', PStr (cer_overridden_by r)),
      (''override_reason'', PStr (cer_override_reason r))]"

definition complexity_estimate_record_wf :: "complexity_estimate_record \<Rightarrow> bool" where
  "complexity_estimate_record_wf r \<longleftrightarrow>
     list_all (\<lambda>(k, xs). list_all nonblank xs) (cer_signal_evidence r) \<and>
     list_all complexity_evidence_record_wf (cer_evidence r) \<and>
     list_all complexity_dimension_score_wf (cer_dimension_details r) \<and>
     list_all nonblank (cer_dominant_dimensions r) \<and>
     list_all nonblank (cer_unknown_dimensions r) \<and> list_all nonblank (cer_scan_refs r) \<and>
     list_all nonblank (cer_question_packs r) \<and> list_all nonblank (cer_hard_escalations r) \<and>
     list_all nonblank (cer_required_gates r) \<and> list_all nonblank (cer_compile_blockers r) \<and>
     list_all nonblank (cer_dispatch_blockers r) \<and> list_all nonblank (cer_required_steps r) \<and>
     list_all nonblank (cer_completed_steps r) \<and> list_all nonblank (cer_skipped_steps r) \<and>
     list_all nonblank (cer_required_artifacts r) \<and> cer_evaluated_at r \<noteq> []"

lemma complexity_estimate_record_roundtrip [roundtrips]: "complexity_estimate_record_wf r \<Longrightarrow> complexity_estimate_record_from_dict now (complexity_estimate_record_to_dict r) = Inr r"
  by (simp add: complexity_estimate_record_from_dict_def complexity_estimate_record_to_dict_def complexity_estimate_record_wf_def roundtrips)

lemma complexity_estimate_record_opt [roundtrips]:
  "pget data k = opt_record_val complexity_estimate_record_to_dict x \<Longrightarrow> pred_option complexity_estimate_record_wf x \<Longrightarrow> opt_record_at (complexity_estimate_record_from_dict now) data k = Inr x"
  by (cases x) (simp_all add: opt_record_at_def opt_record_val_def complexity_estimate_record_roundtrip)

section \<open>BriefVersionRecord\<close>

record brief_version_record =
  bv_id :: string
  bv_version :: int
  bv_status :: brief_status
  bv_goal :: pyobj
  bv_scope :: "(string, string list) pydict"
  bv_glossary :: "pyobj list"
  bv_rules :: "pyobj list"
  bv_examples :: "pyobj list"
  bv_acceptance_examples :: "pyobj list"
  bv_scenarios :: "pyobj list"
  bv_open_questions :: "pyobj list"
  bv_decisions :: "pyobj list"
  bv_risks :: "pyobj list"
  bv_interfaces :: "pyobj list"
  bv_gherkin_features :: "pyobj list"
  bv_issue_map :: "pyobj list"
  bv_work_item_candidates :: "pyobj list"
  bv_task_drafts :: "pyobj list"
  bv_quality :: pyobj
  bv_complexity_estimate :: pyobj
  bv_readiness_gates :: "pyobj list"
  bv_readiness_score :: int
  bv_compile_readiness_score :: int
  bv_dispatch_readiness_score :: int
  bv_content_hash :: string
  bv_previous_version :: "int option"
  bv_causation_event_id :: "string option"
  bv_source_event_ids :: "string list"
  bv_diff_summary :: pyobj
  bv_created_at :: string
  bv_created_by :: string
  bv_ready_at :: "string option"
  bv_confirmed_by :: string
  bv_confirmed_at :: "string option"
  bv_reopened_from_version :: "int option"
  bv_metadata :: pyobj

definition brief_version_record_from_dict :: "string \<Rightarrow> pyobj \<Rightarrow> brief_version_record result" where
  "brief_version_record_from_dict now data =
     res_bind (int_at data ''version'' 0) (\<lambda>version_v.
     res_bind (int_at data ''readiness_score'' 0) (\<lambda>readiness_score_v.
     res_bind (int_at data ''compile_readiness_score'' 0) (\<lambda>compile_readiness_score_v.
     res_bind (int_at data ''dispatch_readiness_score'' 0) (\<lambda>dispatch_readiness_score_v.
     res_bind (opt_int_at data ''previous_version'') (\<lambda>previous_version_v.
     res_bind (opt_int_at data ''reopened_from_version'') (\<lambda>reopened_from_version_v.
     res_bind (enum_of brief_status_value (text_at data ''status'' ''draft'')) (\<lambda>status_v.
     Inr
       \<lparr>bv_id = text_at data ''id'' [], bv_version = version_v, bv_status = status_v,
        bv_goal = dict_of (pget data ''goal''),
        bv_scope = map (\<lambda>(k, v). (k, string_list v)) (dict_of (pget data ''scope'')),
        bv_glossary = dict_records (pget data ''glossary''), bv_rules = dict_records (pget data ''rules''),
        bv_examples = dict_records (pget data ''examples''),
        bv_acceptance_examples = dict_records (pget data ''acceptance_examples''),
        bv_scenarios = dict_records (pget data ''scenarios''),
        bv_open_questions = dict_records (pget data ''open_questions''),
        bv_decisions = dict_records (pget data ''decisions''),
        bv_risks = dict_records (pget data ''risks''),
        bv_interfaces = dict_records (pget data ''interfaces''),
        bv_gherkin_features = dict_records (pget data ''gherkin_features''),
        bv_issue_map = dict_records (pget data ''issue_map''),
        bv_work_item_candidates = dict_records (pget data ''work_item_candidates''),
        bv_task_drafts = dict_records (pget data ''task_drafts''),
        bv_quality = dict_of (pget data ''quality''),
        bv_complexity_estimate = dict_of (pget data ''complexity_estimate''),
        bv_readiness_gates = dict_records (pget data ''readiness_gates''),
        bv_readiness_score = readiness_score_v, bv_compile_readiness_score = compile_readiness_score_v,
        bv_dispatch_readiness_score = dispatch_readiness_score_v,
        bv_content_hash = text_at data ''content_hash'' [], bv_previous_version = previous_version_v,
        bv_causation_event_id = opt_text_at data ''causation_event_id'',
        bv_source_event_ids = string_list (pget data ''source_event_ids''),
        bv_diff_summary = dict_of (pget data ''diff_summary''),
        bv_created_at = text_at data ''created_at'' now,
        bv_created_by = text_at data ''created_by'' [], bv_ready_at = opt_text_at data ''ready_at'',
        bv_confirmed_by = text_at data ''confirmed_by'' [],
        bv_confirmed_at = opt_text_at data ''confirmed_at'',
        bv_reopened_from_version = reopened_from_version_v,
        bv_metadata = dict_of (pget data ''metadata'')\<rparr>)))))))"

definition brief_version_record_to_dict :: "brief_version_record \<Rightarrow> pyobj" where
  "brief_version_record_to_dict r =
     [(''id'', PStr (bv_id r)), (''version'', PInt (bv_version r)),
      (''status'', PStr (brief_status_value (bv_status r))), (''goal'', PDict (bv_goal r)),
      (''scope'', strs_pairs (bv_scope r)), (''glossary'', serialize (dicts (bv_glossary r))),
      (''rules'', serialize (dicts (bv_rules r))), (''examples'', serialize (dicts (bv_examples r))),
      (''acceptance_examples'', serialize (dicts (bv_acceptance_examples r))),
      (''scenarios'', serialize (dicts (bv_scenarios r))),
      (''open_questions'', serialize (dicts (bv_open_questions r))),
      (''decisions'', serialize (dicts (bv_decisions r))), (''risks'', serialize (dicts (bv_risks r))),
      (''interfaces'', serialize (dicts (bv_interfaces r))),
      (''gherkin_features'', serialize (dicts (bv_gherkin_features r))),
      (''issue_map'', serialize (dicts (bv_issue_map r))),
      (''work_item_candidates'', serialize (dicts (bv_work_item_candidates r))),
      (''task_drafts'', serialize (dicts (bv_task_drafts r))),
      (''quality'', serialize (PDict (bv_quality r))),
      (''complexity_estimate'', serialize (PDict (bv_complexity_estimate r))),
      (''readiness_gates'', serialize (dicts (bv_readiness_gates r))),
      (''readiness_score'', PInt (bv_readiness_score r)),
      (''compile_readiness_score'', PInt (bv_compile_readiness_score r)),
      (''dispatch_readiness_score'', PInt (bv_dispatch_readiness_score r)),
      (''content_hash'', PStr (bv_content_hash r)),
      (''previous_version'', opt_int (bv_previous_version r)),
      (''causation_event_id'', opt_val (bv_causation_event_id r)),
      (''source_event_ids'', strs (bv_source_event_ids r)),
      (''diff_summary'', serialize (PDict (bv_diff_summary r))),
      (''created_at'', PStr (bv_created_at r)), (''created_by'', PStr (bv_created_by r)),
      (''ready_at'', opt_val (bv_ready_at r)), (''confirmed_by'', PStr (bv_confirmed_by r)),
      (''confirmed_at'', opt_val (bv_confirmed_at r)),
      (''reopened_from_version'', opt_int (bv_reopened_from_version r)),
      (''metadata'', PDict (bv_metadata r))]"

definition brief_version_record_wf :: "brief_version_record \<Rightarrow> bool" where
  "brief_version_record_wf r \<longleftrightarrow>
     list_all (\<lambda>(k, xs). list_all nonblank xs) (bv_scope r) \<and>
     list_all nonblank (bv_source_event_ids r) \<and> bv_created_at r \<noteq> []"

lemma brief_version_record_roundtrip [roundtrips]: "brief_version_record_wf r \<Longrightarrow> brief_version_record_from_dict now (brief_version_record_to_dict r) = Inr r"
  by (simp add: brief_version_record_from_dict_def brief_version_record_to_dict_def brief_version_record_wf_def roundtrips)

lemma brief_version_record_list [roundtrips]:
  "list_all brief_version_record_wf xs \<Longrightarrow> records_at (brief_version_record_from_dict now) (docs brief_version_record_to_dict xs) = Inr xs"
  by (rule records_at_docs[where P = "brief_version_record_wf"]) (simp_all add: brief_version_record_roundtrip)

section \<open>ReviewCardAnswer\<close>

record review_card_answer =
  rca_id :: string
  rca_card_id :: string
  rca_action :: string
  rca_value :: pyval
  rca_comment :: string
  rca_actor :: string
  rca_answered_at :: string
  rca_creates_event_type :: taskflow_event_type
  rca_metadata :: pyobj

definition review_card_answer_from_dict :: "string \<Rightarrow> pyobj \<Rightarrow> review_card_answer result" where
  "review_card_answer_from_dict now data =
     res_bind (enum_of taskflow_event_type_value (text_at data ''creates_event_type'' ''review_card_answered'')) (\<lambda>creates_event_type_v.
     Inr
       \<lparr>rca_id = text_at data ''id'' [], rca_card_id = text_at data ''card_id'' [],
        rca_action = text_at data ''action'' [], rca_value = pget data ''value'',
        rca_comment = text_at data ''comment'' [], rca_actor = text_at data ''actor'' [],
        rca_answered_at = text_at data ''answered_at'' now,
        rca_creates_event_type = creates_event_type_v, rca_metadata = dict_of (pget data ''metadata'')\<rparr>)"

definition review_card_answer_to_dict :: "review_card_answer \<Rightarrow> pyobj" where
  "review_card_answer_to_dict r =
     [(''id'', PStr (rca_id r)), (''card_id'', PStr (rca_card_id r)),
      (''action'', PStr (rca_action r)), (''value'', serialize (rca_value r)),
      (''comment'', PStr (rca_comment r)), (''actor'', PStr (rca_actor r)),
      (''answered_at'', PStr (rca_answered_at r)),
      (''creates_event_type'', PStr (taskflow_event_type_value (rca_creates_event_type r))),
      (''metadata'', PDict (rca_metadata r))]"

definition review_card_answer_wf :: "review_card_answer \<Rightarrow> bool" where
  "review_card_answer_wf r \<longleftrightarrow>
     rca_answered_at r \<noteq> []"

lemma review_card_answer_roundtrip [roundtrips]: "review_card_answer_wf r \<Longrightarrow> review_card_answer_from_dict now (review_card_answer_to_dict r) = Inr r"
  by (simp add: review_card_answer_from_dict_def review_card_answer_to_dict_def review_card_answer_wf_def roundtrips)

lemma review_card_answer_list [roundtrips]:
  "list_all review_card_answer_wf xs \<Longrightarrow> records_at (review_card_answer_from_dict now) (docs review_card_answer_to_dict xs) = Inr xs"
  by (rule records_at_docs[where P = "review_card_answer_wf"]) (simp_all add: review_card_answer_roundtrip)

section \<open>DispatchDecisionRecord\<close>

record dispatch_decision_record =
  dd_id :: string
  dd_brief_version :: int
  dd_work_item_ids :: "string list"
  dd_status :: dispatch_decision_status
  dd_requested_by :: string
  dd_requested_at :: string
  dd_confirmed_by :: string
  dd_confirmed_at :: "string option"
  dd_rejected_by :: string
  dd_rejected_at :: "string option"
  dd_rationale :: string
  dd_readiness_snapshot :: "pyobj list"
  dd_metadata :: pyobj

definition dispatch_decision_record_from_dict :: "string \<Rightarrow> pyobj \<Rightarrow> dispatch_decision_record result" where
  "dispatch_decision_record_from_dict now data =
     res_bind (int_at data ''brief_version'' 0) (\<lambda>brief_version_v.
     res_bind (enum_of dispatch_decision_status_value (text_at data ''status'' ''requested'')) (\<lambda>status_v.
     Inr
       \<lparr>dd_id = text_at data ''id'' [], dd_brief_version = brief_version_v,
        dd_work_item_ids = string_list (pget data ''work_item_ids''), dd_status = status_v,
        dd_requested_by = text_at data ''requested_by'' [],
        dd_requested_at = text_at data ''requested_at'' now,
        dd_confirmed_by = text_at data ''confirmed_by'' [],
        dd_confirmed_at = opt_text_at data ''confirmed_at'',
        dd_rejected_by = text_at data ''rejected_by'' [],
        dd_rejected_at = opt_text_at data ''rejected_at'',
        dd_rationale = text_at data ''rationale'' [],
        dd_readiness_snapshot = dict_records (pget data ''readiness_snapshot''),
        dd_metadata = dict_of (pget data ''metadata'')\<rparr>))"

definition dispatch_decision_record_to_dict :: "dispatch_decision_record \<Rightarrow> pyobj" where
  "dispatch_decision_record_to_dict r =
     [(''id'', PStr (dd_id r)), (''brief_version'', PInt (dd_brief_version r)),
      (''work_item_ids'', strs (dd_work_item_ids r)),
      (''status'', PStr (dispatch_decision_status_value (dd_status r))),
      (''requested_by'', PStr (dd_requested_by r)), (''requested_at'', PStr (dd_requested_at r)),
      (''confirmed_by'', PStr (dd_confirmed_by r)), (''confirmed_at'', opt_val (dd_confirmed_at r)),
      (''rejected_by'', PStr (dd_rejected_by r)), (''rejected_at'', opt_val (dd_rejected_at r)),
      (''rationale'', PStr (dd_rationale r)),
      (''readiness_snapshot'', serialize (dicts (dd_readiness_snapshot r))),
      (''metadata'', serialize (PDict (dd_metadata r)))]"

definition dispatch_decision_record_wf :: "dispatch_decision_record \<Rightarrow> bool" where
  "dispatch_decision_record_wf r \<longleftrightarrow>
     list_all nonblank (dd_work_item_ids r) \<and> dd_requested_at r \<noteq> []"

lemma dispatch_decision_record_roundtrip [roundtrips]: "dispatch_decision_record_wf r \<Longrightarrow> dispatch_decision_record_from_dict now (dispatch_decision_record_to_dict r) = Inr r"
  by (simp add: dispatch_decision_record_from_dict_def dispatch_decision_record_to_dict_def dispatch_decision_record_wf_def roundtrips)

lemma dispatch_decision_record_list [roundtrips]:
  "list_all dispatch_decision_record_wf xs \<Longrightarrow> records_at (dispatch_decision_record_from_dict now) (docs dispatch_decision_record_to_dict xs) = Inr xs"
  by (rule records_at_docs[where P = "dispatch_decision_record_wf"]) (simp_all add: dispatch_decision_record_roundtrip)

section \<open>TaskflowEvent\<close>

record taskflow_event =
  tev_id :: string
  tev_type :: taskflow_event_type
  tev_taskflow_id :: string
  tev_project_id :: string
  tev_goal_id :: string
  tev_actor :: string
  tev_payload :: pyobj
  tev_created_at :: string
  tev_metadata :: pyobj

definition taskflow_event_from_dict :: "string \<Rightarrow> pyobj \<Rightarrow> taskflow_event result" where
  "taskflow_event_from_dict now data =
     res_bind (enum_of taskflow_event_type_value (text_at data ''type'' ''discovery_turn_recorded'')) (\<lambda>type_v.
     Inr
       \<lparr>tev_id = text_at data ''id'' [], tev_type = type_v,
        tev_taskflow_id = text_at data ''taskflow_id'' [],
        tev_project_id = text_at data ''project_id'' [], tev_goal_id = text_at data ''goal_id'' [],
        tev_actor = text_at data ''actor'' [], tev_payload = dict_of (pget data ''payload''),
        tev_created_at = text_at data ''created_at'' now,
        tev_metadata = dict_of (pget data ''metadata'')\<rparr>)"

definition taskflow_event_to_dict :: "taskflow_event \<Rightarrow> pyobj" where
  "taskflow_event_to_dict r =
     [(''id'', PStr (tev_id r)), (''type'', PStr (taskflow_event_type_value (tev_type r))),
      (''taskflow_id'', PStr (tev_taskflow_id r)), (''project_id'', PStr (tev_project_id r)),
      (''goal_id'', PStr (tev_goal_id r)), (''actor'', PStr (tev_actor r)),
      (''payload'', serialize (PDict (tev_payload r))), (''created_at'', PStr (tev_created_at r)),
      (''metadata'', PDict (tev_metadata r))]"

definition taskflow_event_wf :: "taskflow_event \<Rightarrow> bool" where
  "taskflow_event_wf r \<longleftrightarrow>
     tev_created_at r \<noteq> []"

lemma taskflow_event_roundtrip [roundtrips]: "taskflow_event_wf r \<Longrightarrow> taskflow_event_from_dict now (taskflow_event_to_dict r) = Inr r"
  by (simp add: taskflow_event_from_dict_def taskflow_event_to_dict_def taskflow_event_wf_def roundtrips)

lemma taskflow_event_list [roundtrips]:
  "list_all taskflow_event_wf xs \<Longrightarrow> records_at (taskflow_event_from_dict now) (docs taskflow_event_to_dict xs) = Inr xs"
  by (rule records_at_docs[where P = "taskflow_event_wf"]) (simp_all add: taskflow_event_roundtrip)

section \<open>TaskflowCompilerState\<close>

record taskflow_compiler_state =
  tcs_complexity_level :: string
  tcs_recipe_id :: string
  tcs_complexity_score :: int
  tcs_complexity_estimate :: "complexity_estimate_record option"
  tcs_complexity_evidence :: "complexity_evidence_record list"
  tcs_complexity_override_level :: string
  tcs_complexity_overridden_by :: string
  tcs_complexity_override_reason :: string
  tcs_recipe_version :: string
  tcs_recipe_steps :: "string list"
  tcs_required_steps :: "string list"
  tcs_completed_steps :: "string list"
  tcs_skipped_steps :: "string list"
  tcs_required_artifacts :: "string list"
  tcs_complexity_rationale :: string
  tcs_readiness_score :: int
  tcs_compile_readiness_score :: int
  tcs_dispatch_readiness_score :: int
  tcs_readiness_gates :: "readiness_gate list"
  tcs_blocking_items :: "string list"
  tcs_traceability_index :: pyobj

definition taskflow_compiler_state_from_dict :: "string \<Rightarrow> pyobj \<Rightarrow> taskflow_compiler_state result" where
  "taskflow_compiler_state_from_dict now data =
     res_bind (int_at data ''complexity_score'' 0) (\<lambda>complexity_score_v.
     res_bind (opt_record_at (complexity_estimate_record_from_dict now) data ''complexity_estimate'') (\<lambda>complexity_estimate_v.
     res_bind (records_at (complexity_evidence_record_from_dict now) (pget data ''complexity_evidence'')) (\<lambda>complexity_evidence_v.
     res_bind (int_at data ''readiness_score'' 0) (\<lambda>readiness_score_v.
     res_bind (int_at data ''compile_readiness_score'' 0) (\<lambda>compile_readiness_score_v.
     res_bind (int_at data ''dispatch_readiness_score'' 0) (\<lambda>dispatch_readiness_score_v.
     Inr
       \<lparr>tcs_complexity_level = text_at data ''complexity_level'' ''L1'',
        tcs_recipe_id = text_at data ''recipe_id'' ''small-task'',
        tcs_complexity_score = complexity_score_v, tcs_complexity_estimate = complexity_estimate_v,
        tcs_complexity_evidence = complexity_evidence_v,
        tcs_complexity_override_level = text_at data ''complexity_override_level'' [],
        tcs_complexity_overridden_by = text_at data ''complexity_overridden_by'' [],
        tcs_complexity_override_reason = text_at data ''complexity_override_reason'' [],
        tcs_recipe_version = text_at data ''recipe_version'' ''recipe.v1'',
        tcs_recipe_steps = string_list (pget data ''recipe_steps''),
        tcs_required_steps = string_list (pget data ''required_steps''),
        tcs_completed_steps = string_list (pget data ''completed_steps''),
        tcs_skipped_steps = string_list (pget data ''skipped_steps''),
        tcs_required_artifacts = string_list (pget data ''required_artifacts''),
        tcs_complexity_rationale = text_at data ''complexity_rationale'' [],
        tcs_readiness_score = readiness_score_v,
        tcs_compile_readiness_score = compile_readiness_score_v,
        tcs_dispatch_readiness_score = dispatch_readiness_score_v,
        tcs_readiness_gates = records_of readiness_gate_from_dict (pget data ''readiness_gates''),
        tcs_blocking_items = string_list (pget data ''blocking_items''),
        tcs_traceability_index = dict_of (pget data ''traceability_index'')\<rparr>))))))"

definition taskflow_compiler_state_to_dict :: "taskflow_compiler_state \<Rightarrow> pyobj" where
  "taskflow_compiler_state_to_dict r =
     [(''complexity_level'', PStr (tcs_complexity_level r)), (''recipe_id'', PStr (tcs_recipe_id r)),
      (''complexity_score'', PInt (tcs_complexity_score r)),
      (''complexity_estimate'', opt_record_val complexity_estimate_record_to_dict (tcs_complexity_estimate r)),
      (''complexity_evidence'', docs complexity_evidence_record_to_dict (tcs_complexity_evidence r)),
      (''complexity_override_level'', PStr (tcs_complexity_override_level r)),
      (''complexity_overridden_by'', PStr (tcs_complexity_overridden_by r)),
      (''complexity_override_reason'', PStr (tcs_complexity_override_reason r)),
      (''recipe_version'', PStr (tcs_recipe_version r)), (''recipe_steps'', strs (tcs_recipe_steps r)),
      (''required_steps'', strs (tcs_required_steps r)),
      (''completed_steps'', strs (tcs_completed_steps r)),
      (''skipped_steps'', strs (tcs_skipped_steps r)),
      (''required_artifacts'', strs (tcs_required_artifacts r)),
      (''complexity_rationale'', PStr (tcs_complexity_rationale r)),
      (''readiness_score'', PInt (tcs_readiness_score r)),
      (''compile_readiness_score'', PInt (tcs_compile_readiness_score r)),
      (''dispatch_readiness_score'', PInt (tcs_dispatch_readiness_score r)),
      (''readiness_gates'', docs readiness_gate_to_dict (tcs_readiness_gates r)),
      (''blocking_items'', strs (tcs_blocking_items r)),
      (''traceability_index'', serialize (PDict (tcs_traceability_index r)))]"

definition taskflow_compiler_state_wf :: "taskflow_compiler_state \<Rightarrow> bool" where
  "taskflow_compiler_state_wf r \<longleftrightarrow>
     tcs_complexity_level r \<noteq> [] \<and> tcs_recipe_id r \<noteq> [] \<and>
     pred_option complexity_estimate_record_wf (tcs_complexity_estimate r) \<and>
     list_all complexity_evidence_record_wf (tcs_complexity_evidence r) \<and>
     tcs_recipe_version r \<noteq> [] \<and> list_all nonblank (tcs_recipe_steps r) \<and>
     list_all nonblank (tcs_required_steps r) \<and> list_all nonblank (tcs_completed_steps r) \<and>
     list_all nonblank (tcs_skipped_steps r) \<and> list_all nonblank (tcs_required_artifacts r) \<and>
     list_all readiness_gate_wf (tcs_readiness_gates r) \<and> list_all nonblank (tcs_blocking_items r)"

lemma taskflow_compiler_state_roundtrip [roundtrips]: "taskflow_compiler_state_wf r \<Longrightarrow> taskflow_compiler_state_from_dict now (taskflow_compiler_state_to_dict r) = Inr r"
  by (simp add: taskflow_compiler_state_from_dict_def taskflow_compiler_state_to_dict_def taskflow_compiler_state_wf_def roundtrips)

section \<open>WorkItemCandidate\<close>

record work_item_candidate =
  wic_id :: string
  wic_title :: string
  wic_description :: string
  wic_type :: work_item_type
  wic_acceptance_refs :: "string list"
  wic_decision_refs :: "string list"
  wic_artifact_refs :: "string list"
  wic_scenario_refs :: "string list"
  wic_risk_refs :: "string list"
  wic_repo_ref :: "string option"
  wic_workspace_ref :: "string option"
  wic_dedupe_key :: "string option"
  wic_derived_from :: "string option"
  wic_depends_on :: "string list"
  wic_relation_type :: goal_work_relation_type
  wic_metadata :: pyobj

definition work_item_candidate_from_dict :: "pyobj \<Rightarrow> work_item_candidate result" where
  "work_item_candidate_from_dict data =
     res_bind (enum_of work_item_type_value (text_at data ''type'' ''implementation'')) (\<lambda>type_v.
     res_bind (enum_of goal_work_relation_type_value (text_at data ''relation_type'' ''direct_delivery'')) (\<lambda>relation_type_v.
     Inr
       \<lparr>wic_id = text_at data ''id'' [], wic_title = text_at data ''title'' [],
        wic_description = py_str (py_or (pget data ''description'') (py_or (pget data ''prompt'') (PStr []))),
        wic_type = type_v, wic_acceptance_refs = string_list (pget data ''acceptance_refs''),
        wic_decision_refs = string_list (pget data ''decision_refs''),
        wic_artifact_refs = string_list (pget data ''artifact_refs''),
        wic_scenario_refs = string_list (pget data ''scenario_refs''),
        wic_risk_refs = string_list (pget data ''risk_refs''),
        wic_repo_ref = opt_text_at data ''repo_ref'',
        wic_workspace_ref = opt_text_at data ''workspace_ref'',
        wic_dedupe_key = opt_text_at data ''dedupe_key'',
        wic_derived_from = opt_text_at data ''derived_from'',
        wic_depends_on = string_list (pget data ''depends_on''), wic_relation_type = relation_type_v,
        wic_metadata = dict_of (pget data ''metadata'')\<rparr>))"

definition work_item_candidate_to_dict :: "work_item_candidate \<Rightarrow> pyobj" where
  "work_item_candidate_to_dict r =
     [(''id'', PStr (wic_id r)), (''title'', PStr (wic_title r)),
      (''description'', PStr (wic_description r)),
      (''type'', PStr (work_item_type_value (wic_type r))),
      (''acceptance_refs'', strs (wic_acceptance_refs r)),
      (''decision_refs'', strs (wic_decision_refs r)), (''artifact_refs'', strs (wic_artifact_refs r)),
      (''scenario_refs'', strs (wic_scenario_refs r)), (''risk_refs'', strs (wic_risk_refs r)),
      (''repo_ref'', opt_val (wic_repo_ref r)), (''workspace_ref'', opt_val (wic_workspace_ref r)),
      (''dedupe_key'', opt_val (wic_dedupe_key r)), (''derived_from'', opt_val (wic_derived_from r)),
      (''depends_on'', strs (wic_depends_on r)),
      (''relation_type'', PStr (goal_work_relation_type_value (wic_relation_type r))),
      (''metadata'', PDict (wic_metadata r))]"

definition work_item_candidate_wf :: "work_item_candidate \<Rightarrow> bool" where
  "work_item_candidate_wf r \<longleftrightarrow>
     list_all nonblank (wic_acceptance_refs r) \<and> list_all nonblank (wic_decision_refs r) \<and>
     list_all nonblank (wic_artifact_refs r) \<and> list_all nonblank (wic_scenario_refs r) \<and>
     list_all nonblank (wic_risk_refs r) \<and> list_all nonblank (wic_depends_on r)"

lemma work_item_candidate_roundtrip [roundtrips]: "work_item_candidate_wf r \<Longrightarrow> work_item_candidate_from_dict (work_item_candidate_to_dict r) = Inr r"
  by (simp add: work_item_candidate_from_dict_def work_item_candidate_to_dict_def work_item_candidate_wf_def roundtrips)

lemma work_item_candidate_list [roundtrips]:
  "list_all work_item_candidate_wf xs \<Longrightarrow> records_at work_item_candidate_from_dict (docs work_item_candidate_to_dict xs) = Inr xs"
  by (rule records_at_docs[where P = "work_item_candidate_wf"]) (simp_all add: work_item_candidate_roundtrip)

section \<open>TaskflowOutputs\<close>

record taskflow_outputs =
  tfo_plan_drafts :: "pyobj list"
  tfo_brief_versions :: "brief_version_record list"
  tfo_current_brief_version :: "int option"
  tfo_confirmed_brief_version :: "int option"
  tfo_work_item_candidates :: "work_item_candidate list"
  tfo_task_run_refs :: "string list"
  tfo_artifact_projections :: "pyobj list"
  tfo_gherkin_features :: "pyobj list"
  tfo_issue_map :: "pyobj list"
  tfo_review_card_answers :: "review_card_answer list"
  tfo_dispatch_decisions :: "dispatch_decision_record list"
  tfo_compiler_decisions :: "pyobj list"

definition taskflow_outputs_from_dict :: "string \<Rightarrow> pyobj \<Rightarrow> taskflow_outputs result" where
  "taskflow_outputs_from_dict now data =
     res_bind (records_at (brief_version_record_from_dict now) (pget data ''brief_versions'')) (\<lambda>brief_versions_v.
     res_bind (opt_int_at data ''current_brief_version'') (\<lambda>current_brief_version_v.
     res_bind (opt_int_at data ''confirmed_brief_version'') (\<lambda>confirmed_brief_version_v.
     res_bind (records_at work_item_candidate_from_dict (pget data ''work_item_candidates'')) (\<lambda>work_item_candidates_v.
     res_bind (records_at (review_card_answer_from_dict now) (pget data ''review_card_answers'')) (\<lambda>review_card_answers_v.
     res_bind (records_at (dispatch_decision_record_from_dict now) (pget data ''dispatch_decisions'')) (\<lambda>dispatch_decisions_v.
     Inr
       \<lparr>tfo_plan_drafts = dict_records (pget data ''plan_drafts''),
        tfo_brief_versions = brief_versions_v, tfo_current_brief_version = current_brief_version_v,
        tfo_confirmed_brief_version = confirmed_brief_version_v,
        tfo_work_item_candidates = work_item_candidates_v,
        tfo_task_run_refs = string_list (pget data ''task_run_refs''),
        tfo_artifact_projections = dict_records (pget data ''artifact_projections''),
        tfo_gherkin_features = dict_records (pget data ''gherkin_features''),
        tfo_issue_map = dict_records (pget data ''issue_map''),
        tfo_review_card_answers = review_card_answers_v, tfo_dispatch_decisions = dispatch_decisions_v,
        tfo_compiler_decisions = dict_records (pget data ''compiler_decisions'')\<rparr>))))))"

definition taskflow_outputs_to_dict :: "taskflow_outputs \<Rightarrow> pyobj" where
  "taskflow_outputs_to_dict r =
     [(''plan_drafts'', dicts (tfo_plan_drafts r)),
      (''brief_versions'', docs brief_version_record_to_dict (tfo_brief_versions r)),
      (''current_brief_version'', opt_int (tfo_current_brief_version r)),
      (''confirmed_brief_version'', opt_int (tfo_confirmed_brief_version r)),
      (''work_item_candidates'', docs work_item_candidate_to_dict (tfo_work_item_candidates r)),
      (''task_run_refs'', strs (tfo_task_run_refs r)),
      (''artifact_projections'', dicts (tfo_artifact_projections r)),
      (''gherkin_features'', dicts (tfo_gherkin_features r)), (''issue_map'', dicts (tfo_issue_map r)),
      (''review_card_answers'', docs review_card_answer_to_dict (tfo_review_card_answers r)),
      (''dispatch_decisions'', docs dispatch_decision_record_to_dict (tfo_dispatch_decisions r)),
      (''compiler_decisions'', serialize (dicts (tfo_compiler_decisions r)))]"

definition taskflow_outputs_wf :: "taskflow_outputs \<Rightarrow> bool" where
  "taskflow_outputs_wf r \<longleftrightarrow>
     list_all brief_version_record_wf (tfo_brief_versions r) \<and>
     list_all work_item_candidate_wf (tfo_work_item_candidates r) \<and>
     list_all nonblank (tfo_task_run_refs r) \<and>
     list_all review_card_answer_wf (tfo_review_card_answers r) \<and>
     list_all dispatch_decision_record_wf (tfo_dispatch_decisions r)"

lemma taskflow_outputs_roundtrip [roundtrips]: "taskflow_outputs_wf r \<Longrightarrow> taskflow_outputs_from_dict now (taskflow_outputs_to_dict r) = Inr r"
  by (simp add: taskflow_outputs_from_dict_def taskflow_outputs_to_dict_def taskflow_outputs_wf_def roundtrips)

section \<open>TaskflowState\<close>

record taskflow_state =
  tf_meta :: taskflow_meta
  tf_refs :: taskflow_refs
  tf_intent :: taskflow_intent
  tf_clarification :: taskflow_clarification
  tf_domain :: taskflow_domain
  tf_design :: taskflow_design
  tf_delivery :: taskflow_delivery
  tf_relations :: taskflow_relations
  tf_compiler :: taskflow_compiler_state
  tf_outputs :: taskflow_outputs
  tf_events :: "taskflow_event list"

definition taskflow_state_from_dict :: "string \<Rightarrow> pyobj \<Rightarrow> taskflow_state result" where
  "taskflow_state_from_dict now data =
     res_bind (taskflow_meta_from_dict now (dict_of (pget data ''meta''))) (\<lambda>meta_v.
     res_bind (taskflow_clarification_from_dict (dict_of (pget data ''clarification''))) (\<lambda>clarification_v.
     res_bind (taskflow_design_from_dict (dict_of (pget data ''design''))) (\<lambda>design_v.
     res_bind (taskflow_relations_from_dict now (dict_of (pget data ''relations''))) (\<lambda>relations_v.
     res_bind (taskflow_compiler_state_from_dict now (dict_of (pget data ''compiler''))) (\<lambda>compiler_v.
     res_bind (taskflow_outputs_from_dict now (dict_of (pget data ''outputs''))) (\<lambda>outputs_v.
     res_bind (records_at (taskflow_event_from_dict now) (pget data ''events'')) (\<lambda>events_v.
     Inr
       \<lparr>tf_meta = meta_v, tf_refs = taskflow_refs_from_dict (dict_of (pget data ''refs'')),
        tf_intent = taskflow_intent_from_dict (dict_of (pget data ''intent'')),
        tf_clarification = clarification_v,
        tf_domain = taskflow_domain_from_dict (dict_of (pget data ''domain'')), tf_design = design_v,
        tf_delivery = taskflow_delivery_from_dict (dict_of (pget data ''delivery'')),
        tf_relations = relations_v, tf_compiler = compiler_v, tf_outputs = outputs_v,
        tf_events = events_v\<rparr>)))))))"

definition taskflow_state_to_dict :: "taskflow_state \<Rightarrow> pyobj" where
  "taskflow_state_to_dict r =
     [(''meta'', PDict (taskflow_meta_to_dict (tf_meta r))),
      (''refs'', PDict (taskflow_refs_to_dict (tf_refs r))),
      (''intent'', PDict (taskflow_intent_to_dict (tf_intent r))),
      (''clarification'', PDict (taskflow_clarification_to_dict (tf_clarification r))),
      (''domain'', PDict (taskflow_domain_to_dict (tf_domain r))),
      (''design'', PDict (taskflow_design_to_dict (tf_design r))),
      (''delivery'', PDict (taskflow_delivery_to_dict (tf_delivery r))),
      (''relations'', PDict (taskflow_relations_to_dict (tf_relations r))),
      (''compiler'', PDict (taskflow_compiler_state_to_dict (tf_compiler r))),
      (''outputs'', PDict (taskflow_outputs_to_dict (tf_outputs r))),
      (''events'', docs taskflow_event_to_dict (tf_events r))]"

definition taskflow_state_wf :: "taskflow_state \<Rightarrow> bool" where
  "taskflow_state_wf r \<longleftrightarrow>
     taskflow_meta_wf (tf_meta r) \<and> taskflow_refs_wf (tf_refs r) \<and>
     taskflow_intent_wf (tf_intent r) \<and> taskflow_clarification_wf (tf_clarification r) \<and>
     taskflow_domain_wf (tf_domain r) \<and> taskflow_design_wf (tf_design r) \<and>
     taskflow_delivery_wf (tf_delivery r) \<and> taskflow_relations_wf (tf_relations r) \<and>
     taskflow_compiler_state_wf (tf_compiler r) \<and> taskflow_outputs_wf (tf_outputs r) \<and>
     list_all taskflow_event_wf (tf_events r)"

lemma taskflow_state_roundtrip [roundtrips]: "taskflow_state_wf r \<Longrightarrow> taskflow_state_from_dict now (taskflow_state_to_dict r) = Inr r"
  by (simp add: taskflow_state_from_dict_def taskflow_state_to_dict_def taskflow_state_wf_def roundtrips)

end
