(* ===== verification/ProjectDocuments.thy ===== *)
theory ProjectDocuments
  imports ProjectRefs
begin

text \<open>
  The state of a project, from \<open>src/labrastro_server/taskflow/domain/project_state.py\<close>: the sections of
  \<open>ProjectState\<close> and the document that holds them.
\<close>

section \<open>ProjectProfile\<close>

record project_profile =
  ppf_name :: string
  ppf_status :: project_status
  ppf_background :: string
  ppf_stakeholders :: "stakeholder list"
  ppf_constraints :: "constraint list"
  ppf_repositories :: "repository_ref list"
  ppf_workspaces :: "workspace_ref list"

definition project_profile_from_dict :: "pyobj \<Rightarrow> project_profile result" where
  "project_profile_from_dict data =
     res_bind (enum_of project_status_value (text_at data ''status'' ''active'')) (\<lambda>status_v.
     Inr
       \<lparr>ppf_name = text_at data ''name'' [], ppf_status = status_v,
        ppf_background = text_at data ''background'' [],
        ppf_stakeholders = records_of stakeholder_from_dict (pget data ''stakeholders''),
        ppf_constraints = records_of constraint_from_dict (pget data ''constraints''),
        ppf_repositories = records_of repository_ref_from_dict (pget data ''repositories''),
        ppf_workspaces = records_of workspace_ref_from_dict (pget data ''workspaces'')\<rparr>)"

definition project_profile_to_dict :: "project_profile \<Rightarrow> pyobj" where
  "project_profile_to_dict r =
     [(''name'', PStr (ppf_name r)), (''status'', PStr (project_status_value (ppf_status r))),
      (''background'', PStr (ppf_background r)),
      (''stakeholders'', docs stakeholder_to_dict (ppf_stakeholders r)),
      (''constraints'', docs constraint_to_dict (ppf_constraints r)),
      (''repositories'', docs repository_ref_to_dict (ppf_repositories r)),
      (''workspaces'', docs workspace_ref_to_dict (ppf_workspaces r))]"

definition project_profile_wf :: "project_profile \<Rightarrow> bool" where
  "project_profile_wf r \<longleftrightarrow>
     list_all stakeholder_wf (ppf_stakeholders r) \<and>
     list_all constraint_wf (ppf_constraints r) \<and>
     list_all repository_ref_wf (ppf_repositories r) \<and>
     list_all workspace_ref_wf (ppf_workspaces r)"

lemma project_profile_roundtrip [roundtrips]: "project_profile_wf r \<Longrightarrow> project_profile_from_dict (project_profile_to_dict r) = Inr r"
  by (simp add: project_profile_from_dict_def project_profile_to_dict_def project_profile_wf_def roundtrips)

section \<open>KnowledgeBase\<close>

record knowledge_base =
  kb_domain_model :: pyobj
  kb_ubiquitous_language :: "(string, string) pydict"
  kb_architecture_notes :: "string list"
  kb_reusable_context :: pyobj

definition knowledge_base_from_dict :: "pyobj \<Rightarrow> knowledge_base" where
  "knowledge_base_from_dict data =
     \<lparr>kb_domain_model = dict_of (pget data ''domain_model''),
        kb_ubiquitous_language = map (\<lambda>(k, v). (k, py_str v)) (dict_of (pget data ''ubiquitous_language'')),
        kb_architecture_notes = string_list (pget data ''architecture_notes''),
        kb_reusable_context = dict_of (pget data ''reusable_context'')\<rparr>"

definition knowledge_base_to_dict :: "knowledge_base \<Rightarrow> pyobj" where
  "knowledge_base_to_dict r =
     [(''domain_model'', PDict (kb_domain_model r)),
      (''ubiquitous_language'', str_pairs (kb_ubiquitous_language r)),
      (''architecture_notes'', strs (kb_architecture_notes r)),
      (''reusable_context'', PDict (kb_reusable_context r))]"

definition knowledge_base_wf :: "knowledge_base \<Rightarrow> bool" where
  "knowledge_base_wf r \<longleftrightarrow>
     list_all nonblank (kb_architecture_notes r)"

lemma knowledge_base_roundtrip [roundtrips]: "knowledge_base_wf r \<Longrightarrow> knowledge_base_from_dict (knowledge_base_to_dict r) = r"
  by (simp add: knowledge_base_from_dict_def knowledge_base_to_dict_def knowledge_base_wf_def roundtrips)

section \<open>ProjectDecision\<close>

record project_decision =
  pdn_id :: string
  pdn_topic :: string
  pdn_rationale :: string
  pdn_status :: string
  pdn_metadata :: pyobj

definition project_decision_from_dict :: "pyobj \<Rightarrow> project_decision" where
  "project_decision_from_dict data =
     \<lparr>pdn_id = text_at data ''id'' [], pdn_topic = text_at data ''topic'' [],
        pdn_rationale = text_at data ''rationale'' [],
        pdn_status = py_str (py_or (pget data ''status'') (py_or (pget data ''state'') (PStr ''confirmed_by_user''))),
        pdn_metadata = dict_of (pget data ''metadata'')\<rparr>"

definition project_decision_to_dict :: "project_decision \<Rightarrow> pyobj" where
  "project_decision_to_dict r =
     [(''id'', PStr (pdn_id r)), (''topic'', PStr (pdn_topic r)),
      (''rationale'', PStr (pdn_rationale r)), (''status'', PStr (pdn_status r)),
      (''metadata'', PDict (pdn_metadata r))]"

definition project_decision_wf :: "project_decision \<Rightarrow> bool" where
  "project_decision_wf r \<longleftrightarrow>
     pdn_status r \<noteq> []"

lemma project_decision_roundtrip [roundtrips]: "project_decision_wf r \<Longrightarrow> project_decision_from_dict (project_decision_to_dict r) = r"
  by (simp add: project_decision_from_dict_def project_decision_to_dict_def project_decision_wf_def roundtrips)

lemma project_decision_list [roundtrips]:
  "list_all project_decision_wf xs \<Longrightarrow> records_of project_decision_from_dict (docs project_decision_to_dict xs) = xs"
  by (rule records_of_docs[where P = "project_decision_wf"]) (simp_all add: project_decision_roundtrip)

section \<open>ProjectDecisions\<close>

record project_decisions =
  pds_project_decisions :: "project_decision list"
  pds_architecture_decisions :: "project_decision list"
  pds_policy_decisions :: "project_decision list"

definition project_decisions_from_dict :: "pyobj \<Rightarrow> project_decisions" where
  "project_decisions_from_dict data =
     \<lparr>
        pds_project_decisions = records_of project_decision_from_dict (pget data ''project_decisions''),
        pds_architecture_decisions = records_of project_decision_from_dict (pget data ''architecture_decisions''),
        pds_policy_decisions = records_of project_decision_from_dict (pget data ''policy_decisions'')\<rparr>"

definition project_decisions_to_dict :: "project_decisions \<Rightarrow> pyobj" where
  "project_decisions_to_dict r =
     [(''project_decisions'', docs project_decision_to_dict (pds_project_decisions r)),
      (''architecture_decisions'', docs project_decision_to_dict (pds_architecture_decisions r)),
      (''policy_decisions'', docs project_decision_to_dict (pds_policy_decisions r))]"

definition project_decisions_wf :: "project_decisions \<Rightarrow> bool" where
  "project_decisions_wf r \<longleftrightarrow>
     list_all project_decision_wf (pds_project_decisions r) \<and>
     list_all project_decision_wf (pds_architecture_decisions r) \<and>
     list_all project_decision_wf (pds_policy_decisions r)"

lemma project_decisions_roundtrip [roundtrips]: "project_decisions_wf r \<Longrightarrow> project_decisions_from_dict (project_decisions_to_dict r) = r"
  by (simp add: project_decisions_from_dict_def project_decisions_to_dict_def project_decisions_wf_def roundtrips)

section \<open>WorkItemBuckets\<close>

record work_item_buckets =
  wib_active_work_items :: "work_item list"
  wib_reusable_work_items :: "work_item list"
  wib_shared_enablers :: "work_item list"

definition work_item_buckets_from_dict :: "string \<Rightarrow> pyobj \<Rightarrow> work_item_buckets result" where
  "work_item_buckets_from_dict now data =
     res_bind (records_at (work_item_from_dict now) (pget data ''active_work_items'')) (\<lambda>active_work_items_v.
     res_bind (records_at (work_item_from_dict now) (pget data ''reusable_work_items'')) (\<lambda>reusable_work_items_v.
     res_bind (records_at (work_item_from_dict now) (pget data ''shared_enablers'')) (\<lambda>shared_enablers_v.
     Inr
       \<lparr>wib_active_work_items = active_work_items_v,
        wib_reusable_work_items = reusable_work_items_v, wib_shared_enablers = shared_enablers_v\<rparr>)))"

definition work_item_buckets_to_dict :: "work_item_buckets \<Rightarrow> pyobj" where
  "work_item_buckets_to_dict r =
     [(''active_work_items'', docs work_item_to_dict (wib_active_work_items r)),
      (''reusable_work_items'', docs work_item_to_dict (wib_reusable_work_items r)),
      (''shared_enablers'', docs work_item_to_dict (wib_shared_enablers r))]"

definition work_item_buckets_wf :: "work_item_buckets \<Rightarrow> bool" where
  "work_item_buckets_wf r \<longleftrightarrow>
     list_all work_item_wf (wib_active_work_items r) \<and>
     list_all work_item_wf (wib_reusable_work_items r) \<and>
     list_all work_item_wf (wib_shared_enablers r)"

lemma work_item_buckets_roundtrip [roundtrips]: "work_item_buckets_wf r \<Longrightarrow> work_item_buckets_from_dict now (work_item_buckets_to_dict r) = Inr r"
  by (simp add: work_item_buckets_from_dict_def work_item_buckets_to_dict_def work_item_buckets_wf_def roundtrips)

section \<open>Traceability\<close>

record traceability =
  trc_goal_links :: "goal_work_link list"
  trc_decision_links :: "trace_link list"
  trc_artifact_links :: "trace_link list"
  trc_task_run_links :: "trace_link list"
  trc_task_runs :: "task_run list"

definition traceability_from_dict :: "string \<Rightarrow> pyobj \<Rightarrow> traceability result" where
  "traceability_from_dict now data =
     res_bind (records_at (goal_work_link_from_dict now) (pget data ''goal_links'')) (\<lambda>goal_links_v.
     res_bind (records_at (trace_link_from_dict now) (pget data ''decision_links'')) (\<lambda>decision_links_v.
     res_bind (records_at (trace_link_from_dict now) (pget data ''artifact_links'')) (\<lambda>artifact_links_v.
     res_bind (records_at (trace_link_from_dict now) (pget data ''task_run_links'')) (\<lambda>task_run_links_v.
     res_bind (records_at (task_run_from_dict now) (pget data ''task_runs'')) (\<lambda>task_runs_v.
     Inr
       \<lparr>trc_goal_links = goal_links_v, trc_decision_links = decision_links_v,
        trc_artifact_links = artifact_links_v, trc_task_run_links = task_run_links_v,
        trc_task_runs = task_runs_v\<rparr>)))))"

definition traceability_to_dict :: "traceability \<Rightarrow> pyobj" where
  "traceability_to_dict r =
     [(''goal_links'', docs goal_work_link_to_dict (trc_goal_links r)),
      (''decision_links'', docs trace_link_to_dict (trc_decision_links r)),
      (''artifact_links'', docs trace_link_to_dict (trc_artifact_links r)),
      (''task_run_links'', docs trace_link_to_dict (trc_task_run_links r)),
      (''task_runs'', docs task_run_to_dict (trc_task_runs r))]"

definition traceability_wf :: "traceability \<Rightarrow> bool" where
  "traceability_wf r \<longleftrightarrow>
     list_all goal_work_link_wf (trc_goal_links r) \<and>
     list_all trace_link_wf (trc_decision_links r) \<and>
     list_all trace_link_wf (trc_artifact_links r) \<and>
     list_all trace_link_wf (trc_task_run_links r) \<and> list_all task_run_wf (trc_task_runs r)"

lemma traceability_roundtrip [roundtrips]: "traceability_wf r \<Longrightarrow> traceability_from_dict now (traceability_to_dict r) = Inr r"
  by (simp add: traceability_from_dict_def traceability_to_dict_def traceability_wf_def roundtrips)

section \<open>Projections\<close>

record projections =
  pjn_artifacts :: "artifact_ref list"
  pjn_branches :: "branch_ref list"
  pjn_PRs :: "pull_request_ref list"
  pjn_reviews :: "pyobj list"
  pjn_runbooks :: "pyobj list"

definition projections_from_dict :: "pyobj \<Rightarrow> projections result" where
  "projections_from_dict data =
     res_bind (records_at pull_request_ref_from_dict (py_or (pget data ''PRs'') (pget data ''prs''))) (\<lambda>PRs_v.
     Inr
       \<lparr>pjn_artifacts = records_of artifact_ref_from_dict (pget data ''artifacts''),
        pjn_branches = records_of branch_ref_from_dict (pget data ''branches''), pjn_PRs = PRs_v,
        pjn_reviews = dict_records (pget data ''reviews''),
        pjn_runbooks = dict_records (pget data ''runbooks'')\<rparr>)"

definition projections_to_dict :: "projections \<Rightarrow> pyobj" where
  "projections_to_dict r =
     [(''artifacts'', docs artifact_ref_to_dict (pjn_artifacts r)),
      (''branches'', docs branch_ref_to_dict (pjn_branches r)),
      (''PRs'', docs pull_request_ref_to_dict (pjn_PRs r)), (''reviews'', dicts (pjn_reviews r)),
      (''runbooks'', dicts (pjn_runbooks r))]"

definition projections_wf :: "projections \<Rightarrow> bool" where
  "projections_wf r \<longleftrightarrow>
     list_all artifact_ref_wf (pjn_artifacts r) \<and> list_all branch_ref_wf (pjn_branches r) \<and>
     list_all pull_request_ref_wf (pjn_PRs r)"

lemma projections_roundtrip [roundtrips]: "projections_wf r \<Longrightarrow> projections_from_dict (projections_to_dict r) = Inr r"
  by (simp add: projections_from_dict_def projections_to_dict_def projections_wf_def roundtrips)

section \<open>ProjectState\<close>

record project_state =
  ps_project_id :: string
  ps_project_profile :: project_profile
  ps_knowledge_base :: knowledge_base
  ps_decisions :: project_decisions
  ps_work_items :: work_item_buckets
  ps_traceability :: traceability
  ps_projections :: projections
  ps_schema_version :: string
  ps_created_at :: string
  ps_updated_at :: string

definition project_state_from_dict :: "string \<Rightarrow> pyobj \<Rightarrow> project_state result" where
  "project_state_from_dict now data =
     res_bind (project_profile_from_dict (dict_of (pget data ''project_profile''))) (\<lambda>project_profile_v.
     res_bind (work_item_buckets_from_dict now (dict_of (pget data ''work_items''))) (\<lambda>work_items_v.
     res_bind (traceability_from_dict now (dict_of (pget data ''traceability''))) (\<lambda>traceability_v.
     res_bind (projections_from_dict (dict_of (pget data ''projections''))) (\<lambda>projections_v.
     Inr
       \<lparr>ps_project_id = text_at data ''project_id'' [], ps_project_profile = project_profile_v,
        ps_knowledge_base = knowledge_base_from_dict (dict_of (pget data ''knowledge_base'')),
        ps_decisions = project_decisions_from_dict (dict_of (pget data ''decisions'')),
        ps_work_items = work_items_v, ps_traceability = traceability_v, ps_projections = projections_v,
        ps_schema_version = text_at data ''schema_version'' ''taskflow.project_state.v1'',
        ps_created_at = text_at data ''created_at'' now,
        ps_updated_at = text_at data ''updated_at'' now\<rparr>))))"

definition project_state_to_dict :: "project_state \<Rightarrow> pyobj" where
  "project_state_to_dict r =
     [(''project_id'', PStr (ps_project_id r)),
      (''project_profile'', PDict (project_profile_to_dict (ps_project_profile r))),
      (''knowledge_base'', PDict (knowledge_base_to_dict (ps_knowledge_base r))),
      (''decisions'', PDict (project_decisions_to_dict (ps_decisions r))),
      (''work_items'', PDict (work_item_buckets_to_dict (ps_work_items r))),
      (''traceability'', PDict (traceability_to_dict (ps_traceability r))),
      (''projections'', PDict (projections_to_dict (ps_projections r))),
      (''schema_version'', PStr (ps_schema_version r)), (''created_at'', PStr (ps_created_at r)),
      (''updated_at'', PStr (ps_updated_at r))]"

definition project_state_wf :: "project_state \<Rightarrow> bool" where
  "project_state_wf r \<longleftrightarrow>
     project_profile_wf (ps_project_profile r) \<and> knowledge_base_wf (ps_knowledge_base r) \<and>
     project_decisions_wf (ps_decisions r) \<and> work_item_buckets_wf (ps_work_items r) \<and>
     traceability_wf (ps_traceability r) \<and> projections_wf (ps_projections r) \<and>
     ps_schema_version r \<noteq> [] \<and> ps_created_at r \<noteq> [] \<and>
     ps_updated_at r \<noteq> []"

lemma project_state_roundtrip [roundtrips]: "project_state_wf r \<Longrightarrow> project_state_from_dict now (project_state_to_dict r) = Inr r"
  by (simp add: project_state_from_dict_def project_state_to_dict_def project_state_wf_def roundtrips)

end
