(* ===== verification/FlowEvents.thy ===== *)
theory FlowEvents
  imports FlowState ProjectDocuments
begin

text \<open>
  What the services of a taskflow share: the event ledger
  (\<open>src/labrastro_server/taskflow/domain/events.py\<close>), the methods of \<open>TaskflowState\<close> and of
  \<open>ProjectState\<close> and the marking of a taskflow as stale (\<open>application/staleness.py\<close>).

  \<^item> The argument \<open>env\<close> of a call holds what it takes from outside: one reading of the clock, the
    random identifiers (\<open>fe_fresh env prefix k\<close> is the \<open>k\<close>-th \<open>uuid4().hex\<close> drawn for that prefix, events
    being counted by their place in the ledger), the SHA-256 digest of a brief, the
    quotient of two numbers as a float, the extractor of complexity signals and the confidence of
    an estimate (both compute with fractions), and the dispatcher.
\<close>

section \<open>The environment of a call\<close>

record dispatch_result =
  drs_selected_executor_id :: "string option"
  drs_candidates :: "pyobj list"
  drs_filtered :: "pyobj list"
  drs_score_summary :: pyobj
  drs_reason :: string
  drs_manual_override :: bool
  drs_agent_run_ref :: "pyobj option"

record flow_env =
  fe_now :: string
  fe_fresh :: "string \<Rightarrow> nat \<Rightarrow> string"
  fe_digest :: "pyval \<Rightarrow> string"
  fe_ratio :: "nat \<Rightarrow> nat \<Rightarrow> pyval"
  fe_extract :: "taskflow_state \<Rightarrow> project_state \<Rightarrow> complexity_evidence_record list result"
  fe_confidence :: "complexity_evidence_record list \<Rightarrow> string list \<Rightarrow> int option"
  fe_dispatcher :: "(task_run \<Rightarrow> string option \<Rightarrow> pyobj option \<Rightarrow> dispatch_result result) option"

definition new_id :: "flow_env \<Rightarrow> string \<Rightarrow> nat \<Rightarrow> string" where
  "new_id env prefix k = prefix @ ''-'' @ fe_fresh env prefix k"

section \<open>The state of a taskflow\<close>

definition new_taskflow_state ::
  "flow_env \<Rightarrow> string \<Rightarrow> string \<Rightarrow> string \<Rightarrow> string \<Rightarrow> string \<Rightarrow> taskflow_state result" where
  "new_taskflow_state env taskflow_id project_id goal_id goal_statement sensitivity =
     res_bind (enum_of sensitivity_value sensitivity) (\<lambda>sens.
     Inr \<lparr>tf_meta = \<lparr>tfm_taskflow_id = taskflow_id, tfm_project_id = project_id, tfm_goal_id = goal_id,
            tfm_schema_version = ''taskflow.state.v1'', tfm_state_version = 1,
            tfm_status = Flow_CLARIFYING, tfm_sensitivity = sens, tfm_created_at = fe_now env,
            tfm_updated_at = fe_now env\<rparr>,
          tf_refs = taskflow_refs_from_dict [],
          tf_intent = (taskflow_intent_from_dict [])\<lparr>tfi_goal_statement := goal_statement\<rparr>,
          tf_clarification = \<lparr>tfc_assumptions = [], tfc_open_questions = [], tfc_rules = [],
            tfc_examples = [], tfc_scenarios = [], tfc_acceptance_examples = []\<rparr>,
          tf_domain = taskflow_domain_from_dict [],
          tf_design = \<lparr>tfg_solution_options = [], tfg_local_decisions = [], tfg_risks = [],
            tfg_interfaces = [], tfg_implementation_notes = []\<rparr>,
          tf_delivery = taskflow_delivery_from_dict [],
          tf_relations = \<lparr>tfl_goal_work_links = [], tfl_work_item_dependencies = [],
            tfl_decision_work_links = [], tfl_acceptance_trace_links = []\<rparr>,
          tf_compiler = \<lparr>tcs_complexity_level = ''L1'', tcs_recipe_id = ''small-task'',
            tcs_complexity_score = 0, tcs_complexity_estimate = None, tcs_complexity_evidence = [],
            tcs_complexity_override_level = [], tcs_complexity_overridden_by = [],
            tcs_complexity_override_reason = [], tcs_recipe_version = ''recipe.v1'',
            tcs_recipe_steps = [], tcs_required_steps = [], tcs_completed_steps = [],
            tcs_skipped_steps = [], tcs_required_artifacts = [], tcs_complexity_rationale = [],
            tcs_readiness_score = 0, tcs_compile_readiness_score = 0,
            tcs_dispatch_readiness_score = 0, tcs_readiness_gates = [], tcs_blocking_items = [],
            tcs_traceability_index = []\<rparr>,
          tf_outputs = \<lparr>tfo_plan_drafts = [], tfo_brief_versions = [], tfo_current_brief_version = None,
            tfo_confirmed_brief_version = None, tfo_work_item_candidates = [],
            tfo_task_run_refs = [], tfo_artifact_projections = [], tfo_gherkin_features = [],
            tfo_issue_map = [], tfo_review_card_answers = [], tfo_dispatch_decisions = [],
            tfo_compiler_decisions = []\<rparr>,
          tf_events = []\<rparr>)"

definition flow_touch :: "flow_env \<Rightarrow> taskflow_state \<Rightarrow> taskflow_state" where
  "flow_touch env s =
     tf_meta_update (\<lambda>m. m\<lparr>tfm_state_version := tfm_state_version m + 1, tfm_updated_at := fe_now env\<rparr>) s"

definition set_flow_status :: "taskflow_status \<Rightarrow> taskflow_state \<Rightarrow> taskflow_state" where
  "set_flow_status status s = tf_meta_update (tfm_status_update (\<lambda>_. status)) s"

definition append_taskflow_event ::
  "flow_env \<Rightarrow> taskflow_event_type \<Rightarrow> string \<Rightarrow> pyobj \<Rightarrow> taskflow_state \<Rightarrow> taskflow_state" where
  "append_taskflow_event env type actor payload s =
     s\<lparr>tf_events := tf_events s @
        [\<lparr>tev_id = new_id env ''taskflow-event'' (length (tf_events s)), tev_type = type,
          tev_taskflow_id = tfm_taskflow_id (tf_meta s), tev_project_id = tfm_project_id (tf_meta s),
          tev_goal_id = tfm_goal_id (tf_meta s), tev_actor = actor, tev_payload = payload,
          tev_created_at = fe_now env, tev_metadata = []\<rparr>]\<rparr>"

definition unresolved_high_risk_questions :: "taskflow_state \<Rightarrow> open_question list" where
  "unresolved_high_risk_questions s =
     filter (\<lambda>q. \<not> oq_answered q \<and> oq_state q = Ques_OPEN \<and>
         (oq_risk_if_unknown q = ''high'' \<or> oq_blocks_compile q))
       (tfc_open_questions (tf_clarification s))"

definition failed_gates :: "(readiness_gate \<Rightarrow> bool) \<Rightarrow> readiness_gate list \<Rightarrow> readiness_gate list" where
  "failed_gates blocks gates = filter (\<lambda>g. rg_required g \<and> \<not> rg_passed g \<and> blocks g) gates"

definition failed_required_gates :: "taskflow_state \<Rightarrow> readiness_gate list" where
  "failed_required_gates s = failed_gates (\<lambda>_. True) (tcs_readiness_gates (tf_compiler s))"

definition failed_compile_gates :: "taskflow_state \<Rightarrow> readiness_gate list" where
  "failed_compile_gates s = failed_gates rg_blocks_compile (tcs_readiness_gates (tf_compiler s))"

definition failed_dispatch_gates :: "taskflow_state \<Rightarrow> readiness_gate list" where
  "failed_dispatch_gates s = failed_gates rg_blocks_dispatch (tcs_readiness_gates (tf_compiler s))"

section \<open>Staleness\<close>

definition stale_plan :: "string \<Rightarrow> string \<Rightarrow> pyobj \<Rightarrow> pyobj" where
  "stale_plan reason source plan =
     dict_set ''stale_source'' (PStr source) (dict_set ''stale_reason'' (PStr reason)
       (dict_set ''stale'' (PBool True) plan))"

definition stale_compiler_decision :: "string \<Rightarrow> pyobj \<Rightarrow> pyobj" where
  "stale_compiler_decision reason d =
     dict_set ''stale_reason'' (PStr reason) (dict_set ''status'' (PStr ''stale'')
       (dict_set ''stale'' (PBool True) d))"

definition stale_dispatch :: "string \<Rightarrow> dispatch_decision_record \<Rightarrow> dispatch_decision_record" where
  "stale_dispatch reason d =
     d\<lparr>dd_metadata := dict_set ''stale_reason'' (PStr reason) (dict_set ''stale'' (PBool True) (dd_metadata d))\<rparr>"

definition mark_taskflow_stale ::
  "flow_env \<Rightarrow> string \<Rightarrow> string \<Rightarrow> string list \<Rightarrow> taskflow_state \<Rightarrow> taskflow_state" where
  "mark_taskflow_stale env reason source source_refs s =
     (let marker = PDict [(''reason'', PStr reason), (''source'', PStr source),
            (''source_refs'', strs source_refs), (''marked_at'', PStr (fe_now env))];
          s1 = tf_compiler_update (tcs_traceability_index_update (\<lambda>ix.
                 dict_set ''stale'' marker (dict_set ''dispatch_review_stale'' (PBool True)
                   (dict_set ''compiler_review_stale'' (PBool True) ix)))) s;
          s2 = (if tfm_status (tf_meta s1) \<noteq> Flow_CANCELLED then set_flow_status Flow_CONFIRMED s1 else s1)
      in tf_outputs_update (\<lambda>out. out
           \<lparr>tfo_plan_drafts := map (stale_plan reason source) (tfo_plan_drafts out),
            tfo_compiler_decisions := map (stale_compiler_decision reason) (tfo_compiler_decisions out),
            tfo_dispatch_decisions := map (stale_dispatch reason) (tfo_dispatch_decisions out)\<rparr>) s2)"

definition clear_taskflow_stale :: "taskflow_state \<Rightarrow> taskflow_state" where
  "clear_taskflow_stale s =
     tf_compiler_update (tcs_traceability_index_update (\<lambda>ix.
       dict_pop ''stale'' (dict_pop ''dispatch_review_stale'' (dict_pop ''compiler_review_stale'' ix)))) s"

section \<open>The state of a project\<close>

definition new_project_state :: "flow_env \<Rightarrow> string \<Rightarrow> string \<Rightarrow> project_state" where
  "new_project_state env project_id name =
     \<lparr>ps_project_id = project_id,
      ps_project_profile = \<lparr>ppf_name = name, ppf_status = PStatus_ACTIVE, ppf_background = [],
        ppf_stakeholders = [], ppf_constraints = [], ppf_repositories = [], ppf_workspaces = []\<rparr>,
      ps_knowledge_base = knowledge_base_from_dict [],
      ps_decisions = project_decisions_from_dict [],
      ps_work_items = \<lparr>wib_active_work_items = [], wib_reusable_work_items = [], wib_shared_enablers = []\<rparr>,
      ps_traceability = \<lparr>trc_goal_links = [], trc_decision_links = [], trc_artifact_links = [],
        trc_task_run_links = [], trc_task_runs = []\<rparr>,
      ps_projections = \<lparr>pjn_artifacts = [], pjn_branches = [], pjn_PRs = [], pjn_reviews = [],
        pjn_runbooks = []\<rparr>,
      ps_schema_version = ''taskflow.project_state.v1'', ps_created_at = fe_now env,
      ps_updated_at = fe_now env\<rparr>"

definition project_touch :: "flow_env \<Rightarrow> project_state \<Rightarrow> project_state" where
  "project_touch env p = p\<lparr>ps_updated_at := fe_now env\<rparr>"

fun first_by_id :: "string list \<Rightarrow> work_item list \<Rightarrow> work_item list" where
  "first_by_id seen [] = []"
| "first_by_id seen (x # xs) =
     (if wi_id x \<in> set seen then first_by_id seen xs else x # first_by_id (wi_id x # seen) xs)"

definition all_items :: "work_item_buckets \<Rightarrow> work_item list" where
  "all_items b =
     first_by_id [] (wib_active_work_items b @ wib_reusable_work_items b @ wib_shared_enablers b)"

definition list_work_items :: "project_state \<Rightarrow> work_item list" where
  "list_work_items p = all_items (ps_work_items p)"

definition find_work_item_by_dedupe_key :: "project_state \<Rightarrow> string \<Rightarrow> work_item option" where
  "find_work_item_by_dedupe_key p key =
     (if key = [] then None else List.find (\<lambda>i. wi_dedupe_key i = Some key) (list_work_items p))"

text \<open>\<open>text.split()\<close>: the pieces between runs of white space.\<close>

fun split_words :: "string \<Rightarrow> string \<Rightarrow> string list" where
  "split_words acc [] = (if acc = [] then [] else [acc])"
| "split_words acc (c # cs) =
     (if is_space c then (if acc = [] then split_words [] cs else acc # split_words [] cs)
      else split_words (acc @ [c]) cs)"

definition words_of :: "string \<Rightarrow> string list" where
  "words_of s = split_words [] s"

definition find_similar_work_items :: "project_state \<Rightarrow> string \<Rightarrow> string \<Rightarrow> work_item list" where
  "find_similar_work_items p title type =
     filter (\<lambda>i. work_item_type_value (wi_type i) = type \<and>
         str_join '' '' (words_of (str_lower (wi_title i))) = str_join '' '' (words_of (str_lower title)))
       (list_work_items p)"

text \<open>Replacing the first element with the same key.\<close>

fun replace_by :: "('a \<Rightarrow> 'k) \<Rightarrow> 'a \<Rightarrow> 'a list \<Rightarrow> 'a list option" where
  "replace_by key x [] = None"
| "replace_by key x (y # ys) =
     (if key y = key x then Some (x # ys) else map_option (\<lambda>zs. y # zs) (replace_by key x ys))"

definition upsert_work_item :: "flow_env \<Rightarrow> work_item \<Rightarrow> project_state \<Rightarrow> project_state" where
  "upsert_work_item env item p =
     (let b = ps_work_items p; dated = item\<lparr>wi_updated_at := fe_now env\<rparr>;
          b' = (case replace_by wi_id dated (wib_active_work_items b) of
             Some xs \<Rightarrow> b\<lparr>wib_active_work_items := xs\<rparr>
           | None \<Rightarrow> (case replace_by wi_id dated (wib_reusable_work_items b) of
               Some xs \<Rightarrow> b\<lparr>wib_reusable_work_items := xs\<rparr>
             | None \<Rightarrow> (case replace_by wi_id dated (wib_shared_enablers b) of
                 Some xs \<Rightarrow> b\<lparr>wib_shared_enablers := xs\<rparr>
               | None \<Rightarrow>
                   (if wi_type item = WType_SHARED_ENABLER
                    then b\<lparr>wib_shared_enablers := wib_shared_enablers b @ [item]\<rparr>
                    else if wi_status item \<in> {WStatus_READY, WStatus_ACTIVE}
                    then b\<lparr>wib_active_work_items := wib_active_work_items b @ [item]\<rparr>
                    else b\<lparr>wib_reusable_work_items := wib_reusable_work_items b @ [item]\<rparr>))))
      in project_touch env (p\<lparr>ps_work_items := b'\<rparr>))"

definition put_by :: "('a \<Rightarrow> 'k) \<Rightarrow> 'a \<Rightarrow> 'a list \<Rightarrow> 'a list" where
  "put_by key x xs = (case replace_by key x xs of Some ys \<Rightarrow> ys | None \<Rightarrow> xs @ [x])"

definition add_goal_work_link :: "flow_env \<Rightarrow> goal_work_link \<Rightarrow> project_state \<Rightarrow> project_state" where
  "add_goal_work_link env link p =
     project_touch env (ps_traceability_update (trc_goal_links_update (put_by gwl_id link)) p)"

definition add_task_run :: "flow_env \<Rightarrow> task_run \<Rightarrow> project_state \<Rightarrow> project_state" where
  "add_task_run env run p =
     project_touch env (ps_traceability_update (trc_task_runs_update (put_by trn_id run)) p)"

definition add_trace_link :: "flow_env \<Rightarrow> trace_link \<Rightarrow> project_state \<Rightarrow> project_state" where
  "add_trace_link env link p =
     (let add = (\<lambda>xs. xs @ [link]); t = ps_traceability p;
          about = (\<lambda>e. tlk_source_type link = e \<or> tlk_target_type link = e);
          (target, upd) =
            (if about TEnt_TASK_RUN then (trc_task_run_links t, trc_task_run_links_update add)
             else if about TEnt_ARTIFACT then (trc_artifact_links t, trc_artifact_links_update add)
             else (trc_decision_links t, trc_decision_links_update add))
      in if list_ex (\<lambda>l. tlk_id l = tlk_id link) target then p
         else project_touch env (ps_traceability_update upd p))"

section \<open>Lemmas\<close>

lemma replace_by_ids: "replace_by key x xs = Some ys \<Longrightarrow> map key ys = map key xs \<and> x \<in> set ys"
  by (induction xs arbitrary: ys) (auto split: if_splits)

lemma replace_by_None: "replace_by key x xs = None \<longleftrightarrow> key x \<notin> key ` set xs"
  by (induction xs) auto

lemma first_by_id_set: "wi_id ` set (first_by_id seen xs) = wi_id ` set xs - set seen"
  by (induction xs arbitrary: seen) auto

lemma first_by_id_distinct: "distinct (map wi_id (first_by_id seen xs))"
  by (induction xs arbitrary: seen) (simp_all add: first_by_id_set)

text \<open>Every work item is listed once.\<close>

lemma list_work_items_distinct: "distinct (map wi_id (list_work_items p))"
  by (simp add: list_work_items_def all_items_def first_by_id_distinct)

end
