(* ===== verification/FlowBriefs.thy ===== *)
theory FlowBriefs
  imports FlowEvents
begin

text \<open>
  The versions of a brief (\<open>src/labrastro_server/taskflow/application/brief_service.py\<close>): compiling a
  draft from the state, bringing its diagnostics up to date, marking it ready and confirming it. The
  digest of a brief is \<open>fe_digest env\<close> of its snapshot; the two ratios of its quality are
  \<open>fe_ratio env\<close>.
\<close>

section \<open>Values up to the order of dictionaries\<close>

text \<open>Python compares dictionaries without regard to the order of their keys, and \<open>True == 1\<close>.\<close>

fun canonical :: "pyval \<Rightarrow> pyval" where
  "canonical (PDict d) = PDict (sort_key fst (map (\<lambda>(k, v). (k, canonical v)) d))"
| "canonical (PList xs) = PList (map canonical xs)"
| "canonical (PBool b) = PInt (if b then 1 else 0)"
| "canonical v = v"

definition py_equal :: "pyval \<Rightarrow> pyval \<Rightarrow> bool" where
  "py_equal a b \<longleftrightarrow> canonical a = canonical b"

section \<open>The snapshot\<close>

definition brief_goal :: "taskflow_state \<Rightarrow> pyobj" where
  "brief_goal s =
     [(''id'', PStr (tfm_goal_id (tf_meta s))), (''statement'', PStr (tfi_goal_statement (tf_intent s))),
      (''desired_outcome'', strs (tfi_success_criteria (tf_intent s)))]"

definition brief_scope :: "taskflow_state \<Rightarrow> (string, string list) pydict" where
  "brief_scope s =
     (let i = tf_intent s
      in [(''in'', tfi_scope_in i), (''out'', tfi_scope_out i), (''deferred'', tfi_deferred_scope i),
          (''success_criteria'', tfi_success_criteria i)])"

definition brief_glossary :: "taskflow_state \<Rightarrow> pyobj list" where
  "brief_glossary s =
     map (\<lambda>(key, value). [(''term'', PStr key), (''meaning'', PStr value)])
       (sort (tfd_ubiquitous_language (tf_domain s)))"

definition brief_estimate :: "taskflow_state \<Rightarrow> pyobj" where
  "brief_estimate s =
     (case tcs_complexity_estimate (tf_compiler s) of
        None \<Rightarrow> [] | Some e \<Rightarrow> complexity_estimate_record_to_dict e)"

definition brief_snapshot :: "taskflow_state \<Rightarrow> pyobj" where
  "brief_snapshot s =
     (let c = tf_clarification s; d = tf_design s; out = tf_outputs s; comp = tf_compiler s
      in [(''goal'', PDict (brief_goal s)), (''scope'', strs_pairs (brief_scope s)),
          (''glossary'', dicts (brief_glossary s)), (''rules'', docs rule_record_to_dict (tfc_rules c)),
          (''examples'', docs example_record_to_dict (tfc_examples c)),
          (''acceptance_examples'', docs acceptance_example_to_dict (tfc_acceptance_examples c)),
          (''scenarios'', docs scenario_record_to_dict (tfc_scenarios c)),
          (''open_questions'', docs open_question_to_dict (tfc_open_questions c)),
          (''decisions'', docs decision_record_to_dict (tfg_local_decisions d)),
          (''risks'', docs risk_record_to_dict (tfg_risks d)),
          (''interfaces'', docs interface_spec_to_dict (tfg_interfaces d)),
          (''gherkin_features'', dicts (tfo_gherkin_features out)),
          (''issue_map'', dicts (tfo_issue_map out)),
          (''work_item_candidates'', docs work_item_candidate_to_dict (tfo_work_item_candidates out)),
          (''complexity_estimate'', PDict (brief_estimate s)),
          (''readiness_gates'', docs readiness_gate_to_dict (tcs_readiness_gates comp)),
          (''readiness_score'', PInt (tcs_readiness_score comp)),
          (''compile_readiness_score'', PInt (tcs_compile_readiness_score comp)),
          (''dispatch_readiness_score'', PInt (tcs_dispatch_readiness_score comp))])"

text \<open>The same sections of a stored brief.\<close>

definition brief_sections :: "brief_version_record \<Rightarrow> pyobj" where
  "brief_sections b =
     [(''goal'', PDict (bv_goal b)), (''scope'', strs_pairs (bv_scope b)),
      (''glossary'', dicts (bv_glossary b)), (''rules'', dicts (bv_rules b)),
      (''examples'', dicts (bv_examples b)), (''acceptance_examples'', dicts (bv_acceptance_examples b)),
      (''scenarios'', dicts (bv_scenarios b)), (''open_questions'', dicts (bv_open_questions b)),
      (''decisions'', dicts (bv_decisions b)), (''risks'', dicts (bv_risks b)),
      (''interfaces'', dicts (bv_interfaces b)), (''gherkin_features'', dicts (bv_gherkin_features b)),
      (''issue_map'', dicts (bv_issue_map b)),
      (''work_item_candidates'', dicts (bv_work_item_candidates b)),
      (''complexity_estimate'', PDict (bv_complexity_estimate b)),
      (''readiness_gates'', dicts (bv_readiness_gates b)),
      (''readiness_score'', PInt (bv_readiness_score b)),
      (''compile_readiness_score'', PInt (bv_compile_readiness_score b)),
      (''dispatch_readiness_score'', PInt (bv_dispatch_readiness_score b))]"

definition brief_diff :: "pyobj \<Rightarrow> brief_version_record option \<Rightarrow> pyobj" where
  "brief_diff snapshot previous =
     (case previous of
        None \<Rightarrow> [(''previous_version'', PNone), (''changed_sections'', strs (dict_keys snapshot))]
      | Some b \<Rightarrow>
          [(''previous_version'', PInt (bv_version b)),
           (''changed_sections'', strs (map fst (filter
              (\<lambda>(key, value). \<not> py_equal value (pget (brief_sections b) key)) snapshot)))])"

definition brief_quality :: "flow_env \<Rightarrow> taskflow_state \<Rightarrow> pyobj" where
  "brief_quality env s =
     (let decisions = tfg_local_decisions (tf_design s);
          confirmed = filter (\<lambda>d. opt_str (dr_chosen d) \<noteq> [] \<or> dr_answer_refs d \<noteq> []) decisions;
          scenarios = length (tfc_examples (tf_clarification s)) +
            length (tfc_acceptance_examples (tf_clarification s));
          unresolved = length (filter (\<lambda>q. \<not> oq_answered q) (tfc_open_questions (tf_clarification s)))
      in [(''decision_coverage'',
            if decisions \<noteq> [] then fe_ratio env (length confirmed) (length decisions) else fe_ratio env 1 1),
          (''scenario_coverage'', if scenarios \<noteq> 0 then fe_ratio env 1 1 else fe_ratio env 0 1),
          (''unresolved_questions'', PInt (int unresolved)),
          (''dispatch_readiness'', PStr (if unresolved \<noteq> 0 then ''blocked'' else ''ready''))])"

section \<open>Operations\<close>

definition brief_id :: "string \<Rightarrow> int \<Rightarrow> string" where
  "brief_id taskflow_id version = ''brief-'' @ taskflow_id @ ''-'' @ int_str version"

definition brief_payload :: "brief_version_record \<Rightarrow> pyobj" where
  "brief_payload b = [(''brief_version'', PInt (bv_version b)), (''brief_id'', PStr (bv_id b))]"

definition compile_draft :: "flow_env \<Rightarrow> string \<Rightarrow> taskflow_state \<Rightarrow> taskflow_state" where
  "compile_draft env actor s =
     (let out = tf_outputs s;
          version = (case tfo_current_brief_version out of None \<Rightarrow> 0 | Some v \<Rightarrow> v) + 1;
          previous = (if tfo_brief_versions out = [] then None else Some (last (tfo_brief_versions out)));
          snapshot = brief_snapshot s;
          ids = map tev_id (tf_events s);
          section = (\<lambda>k. dict_records (pget snapshot k));
          b = \<lparr>bv_id = brief_id (tfm_taskflow_id (tf_meta s)) version, bv_version = version,
            bv_status = Brief_DRAFT, bv_goal = brief_goal s, bv_scope = brief_scope s,
            bv_glossary = section ''glossary'', bv_rules = section ''rules'',
            bv_examples = section ''examples'', bv_acceptance_examples = section ''acceptance_examples'',
            bv_scenarios = section ''scenarios'', bv_open_questions = section ''open_questions'',
            bv_decisions = section ''decisions'', bv_risks = section ''risks'',
            bv_interfaces = section ''interfaces'', bv_gherkin_features = section ''gherkin_features'',
            bv_issue_map = section ''issue_map'',
            bv_work_item_candidates = section ''work_item_candidates'',
            bv_task_drafts = section ''work_item_candidates'', bv_quality = brief_quality env s,
            bv_complexity_estimate = brief_estimate s, bv_readiness_gates = section ''readiness_gates'',
            bv_readiness_score = tcs_readiness_score (tf_compiler s),
            bv_compile_readiness_score = tcs_compile_readiness_score (tf_compiler s),
            bv_dispatch_readiness_score = tcs_dispatch_readiness_score (tf_compiler s),
            bv_content_hash = fe_digest env (PDict snapshot),
            bv_previous_version = map_option bv_version previous,
            bv_causation_event_id = (if ids = [] then None else Some (last ids)),
            bv_source_event_ids = ids, bv_diff_summary = brief_diff snapshot previous,
            bv_created_at = fe_now env, bv_created_by = actor, bv_ready_at = None,
            bv_confirmed_by = [], bv_confirmed_at = None, bv_reopened_from_version = None,
            bv_metadata = []\<rparr>
      in append_taskflow_event env TEvt_BRIEF_VERSIONED actor (brief_payload b)
           (tf_outputs_update (\<lambda>out. out\<lparr>tfo_brief_versions := tfo_brief_versions out @ [b],
              tfo_current_brief_version := Some version\<rparr>) s))"

definition find_brief :: "taskflow_state \<Rightarrow> int option \<Rightarrow> brief_version_record result" where
  "find_brief s version =
     (case version of
        None \<Rightarrow> Inl (ValueError ''no brief version exists'')
      | Some v \<Rightarrow>
          (case List.find (\<lambda>b. bv_version b = v) (tfo_brief_versions (tf_outputs s)) of
             Some b \<Rightarrow> Inr b
           | None \<Rightarrow> Inl (ValueError (''brief version not found: '' @ int_str v))))"

text \<open>Changing the first element that satisfies a predicate, in place.\<close>

fun change_first :: "('a \<Rightarrow> bool) \<Rightarrow> ('a \<Rightarrow> 'a) \<Rightarrow> 'a list \<Rightarrow> 'a list" where
  "change_first p f [] = []"
| "change_first p f (x # xs) = (if p x then f x # xs else x # change_first p f xs)"

definition change_brief ::
  "int \<Rightarrow> (brief_version_record \<Rightarrow> brief_version_record) \<Rightarrow> taskflow_state \<Rightarrow> taskflow_state" where
  "change_brief v f s =
     tf_outputs_update (tfo_brief_versions_update (change_first (\<lambda>b. bv_version b = v) f)) s"

definition sync_diagnostics :: "flow_env \<Rightarrow> taskflow_state \<Rightarrow> taskflow_state result" where
  "sync_diagnostics env s =
     (case tfo_current_brief_version (tf_outputs s) of
        None \<Rightarrow> Inr s
      | Some v \<Rightarrow>
          res_bind (find_brief s (Some v)) (\<lambda>_.
            let snapshot = brief_snapshot s
            in Inr (change_brief v (\<lambda>b. b
                 \<lparr>bv_complexity_estimate := brief_estimate s,
                  bv_readiness_gates := dict_records (pget snapshot ''readiness_gates''),
                  bv_readiness_score := tcs_readiness_score (tf_compiler s),
                  bv_compile_readiness_score := tcs_compile_readiness_score (tf_compiler s),
                  bv_dispatch_readiness_score := tcs_dispatch_readiness_score (tf_compiler s),
                  bv_content_hash := fe_digest env (PDict snapshot)\<rparr>) s)))"

text \<open>\<open>version or state.outputs.current_brief_version\<close>.\<close>

definition chosen_version :: "int option \<Rightarrow> taskflow_state \<Rightarrow> int option" where
  "chosen_version version s =
     (case version of Some v \<Rightarrow> if v \<noteq> 0 then Some v else tfo_current_brief_version (tf_outputs s)
      | None \<Rightarrow> tfo_current_brief_version (tf_outputs s))"

definition once :: "string option \<Rightarrow> string \<Rightarrow> string option" where
  "once old t = (if opt_str old \<noteq> [] then old else Some t)"

definition mark_ready :: "flow_env \<Rightarrow> int option \<Rightarrow> string \<Rightarrow> taskflow_state \<Rightarrow> taskflow_state result" where
  "mark_ready env version actor s =
     res_bind (find_brief s (chosen_version version s)) (\<lambda>b.
       if Some (bv_version b) \<noteq> tfo_current_brief_version (tf_outputs s)
       then Inl (ValueError ''only the current brief version can be marked ready'')
       else Inr (append_taskflow_event env TEvt_BRIEF_READY actor (brief_payload b)
              (append_taskflow_event env TEvt_BRIEF_CONFIRM_REQUESTED actor (brief_payload b)
                (change_brief (bv_version b)
                  (\<lambda>b. b\<lparr>bv_status := Brief_READY, bv_ready_at := once (bv_ready_at b) (fe_now env)\<rparr>) s))))"

definition confirm_version :: "flow_env \<Rightarrow> int option \<Rightarrow> string \<Rightarrow> taskflow_state \<Rightarrow> taskflow_state result" where
  "confirm_version env version actor s =
     res_bind (find_brief s (chosen_version version s)) (\<lambda>b.
       if Some (bv_version b) \<noteq> tfo_current_brief_version (tf_outputs s)
       then Inl (ValueError ''only the current brief version can be confirmed'')
       else Inr (append_taskflow_event env TEvt_BRIEF_CONFIRMED actor (brief_payload b)
              (tf_outputs_update (tfo_confirmed_brief_version_update (\<lambda>_. Some (bv_version b)))
                (change_brief (bv_version b)
                  (\<lambda>b. b\<lparr>bv_status := Brief_CONFIRMED, bv_confirmed_by := actor,
                         bv_confirmed_at := once (bv_confirmed_at b) (fe_now env)\<rparr>) s))))"

section \<open>Lemmas\<close>

lemma change_first_map:
  "(\<And>x. p x \<Longrightarrow> g (f x) = g x) \<Longrightarrow> map g (change_first p f xs) = map g xs"
  by (induction xs) auto

lemma change_first_none: "x \<in> set (change_first p f xs) \<Longrightarrow> x \<in> set xs \<or> (\<exists>y\<in>set xs. p y \<and> x = f y)"
  by (induction xs) (auto split: if_splits)

lemma find_brief_Inr:
  "find_brief s v = Inr b \<Longrightarrow> b \<in> set (tfo_brief_versions (tf_outputs s)) \<and> v = Some (bv_version b)"
  by (auto simp: find_brief_def find_Some_iff split: option.splits)

end
