(* ===== verification/FlowReadiness.thy ===== *)
theory FlowReadiness
  imports FlowBriefs "HOL-Library.Sublist"
begin

text \<open>
  The readiness gates of a taskflow (\<open>src/labrastro_server/taskflow/application/readiness_service.py\<close>): each
  refresh computes the gates anew from the state, lets the gates whose source is \<open>manual\<close> replace those
  with the same id, and scores what is left failing. A reference inside a stored brief is a text.
\<close>

section \<open>Texts\<close>

definition contains_text :: "string \<Rightarrow> string \<Rightarrow> bool" where
  "contains_text part text \<longleftrightarrow> sublist part text"

definition contains_any :: "string list \<Rightarrow> string \<Rightarrow> bool" where
  "contains_any parts text \<longleftrightarrow> list_ex (\<lambda>p. contains_text p text) parts"

section \<open>Gates\<close>

definition make_gate ::
  "string \<Rightarrow> string \<Rightarrow> bool \<Rightarrow> string \<Rightarrow> string \<Rightarrow> string \<Rightarrow> string \<Rightarrow> string list \<Rightarrow> string list \<Rightarrow> readiness_gate" where
  "make_gate ident name passed rationale severity phase source evidence_ids artifact_keys =
     \<lparr>rg_id = ident, rg_name = name, rg_passed = passed, rg_rationale = rationale, rg_required = True,
      rg_severity = severity, rg_phase = gate_phase phase, rg_source = source,
      rg_evidence_ids = evidence_ids, rg_artifact_keys = artifact_keys,
      rg_blocks_compile = gate_blocks ''compile'' phase None,
      rg_blocks_dispatch = gate_blocks ''dispatch'' phase None\<rparr>"

definition flow_brief :: "taskflow_state \<Rightarrow> int option \<Rightarrow> brief_version_record option" where
  "flow_brief s version =
     (case version of None \<Rightarrow> None
      | Some v \<Rightarrow> List.find (\<lambda>b. bv_version b = v) (tfo_brief_versions (tf_outputs s)))"

definition current_brief :: "taskflow_state \<Rightarrow> brief_version_record option" where
  "current_brief s = flow_brief s (tfo_current_brief_version (tf_outputs s))"

definition confirmed_brief :: "taskflow_state \<Rightarrow> brief_version_record option" where
  "confirmed_brief s =
     (case flow_brief s (tfo_confirmed_brief_version (tf_outputs s)) of
        Some b \<Rightarrow> if bv_status b = Brief_CONFIRMED then Some b else None
      | None \<Rightarrow> None)"

definition fresh_confirmed :: "taskflow_state \<Rightarrow> bool" where
  "fresh_confirmed s =
     (case (confirmed_brief s, current_brief s) of
        (Some b, Some c) \<Rightarrow> bv_version b = bv_version c | _ \<Rightarrow> False)"

definition evidence_ids :: "complexity_estimate_record option \<Rightarrow> string \<Rightarrow> string list" where
  "evidence_ids estimate dimension =
     (case estimate of None \<Rightarrow> []
      | Some e \<Rightarrow> map cev_id (filter (\<lambda>x. cev_dimension x = dimension \<and> cev_id x \<noteq> []) (cer_evidence e)))"

section \<open>References\<close>

definition ids_of :: "pyobj list \<Rightarrow> string list" where
  "ids_of items =
     map (\<lambda>d. py_str (pget d ''id''))
       (filter (\<lambda>d. str_strip (str_or_empty (pget d ''id'')) \<noteq> []) items)"

definition refs_at :: "pyobj \<Rightarrow> string \<Rightarrow> string list result" where
  "refs_at d k =
     (case pget_or d k (PList []) of
        PList xs \<Rightarrow> res_map (\<lambda>x. case x of PStr r \<Rightarrow> Inr r | _ \<Rightarrow> Inl (TypeError ''a reference is a text'')) xs
      | PStr r \<Rightarrow> Inr (map (\<lambda>c. [c]) r)
      | PDict e \<Rightarrow> Inr (dict_keys e)
      | _ \<Rightarrow> Inl (TypeError ''object is not iterable''))"

definition refs_in :: "string list \<Rightarrow> pyobj list \<Rightarrow> string list result" where
  "refs_in ks ds =
     res_bind (res_map (\<lambda>d. res_bind (res_map (refs_at d) ks) (\<lambda>xs. Inr (concat xs))) ds)
       (\<lambda>xs. Inr (concat xs))"

text \<open>The ids of the examples, of the scenarios, and the candidates, of a brief or else of the state.\<close>

definition snapshot_refs ::
  "taskflow_state \<Rightarrow> brief_version_record option \<Rightarrow> string list \<times> string list \<times> pyobj list" where
  "snapshot_refs s brief =
     (case brief of
        Some b \<Rightarrow> (ids_of (bv_examples b @ bv_acceptance_examples b), ids_of (bv_scenarios b),
                   bv_work_item_candidates b)
      | None \<Rightarrow>
          (let c = tf_clarification s
           in (map exm_id (tfc_examples c) @ map aex_id (tfc_acceptance_examples c),
               map scn_id (tfc_scenarios c),
               map work_item_candidate_to_dict (tfo_work_item_candidates (tf_outputs s)))))"

definition acceptance_check ::
  "taskflow_state \<Rightarrow> brief_version_record option \<Rightarrow> (bool \<times> string) result" where
  "acceptance_check s brief =
     (let (examples, scenarios, candidates) = snapshot_refs s brief; known = examples @ scenarios
      in res_bind (refs_in [''acceptance_refs'', ''scenario_refs''] candidates) (\<lambda>refs.
           let dangling = sort (remdups (filter (\<lambda>r. r \<notin> set known) refs))
           in Inr (if known \<noteq> [] \<and> dangling = []
                then (True, ''Acceptance refs resolve to examples or scenarios.'')
                else if dangling \<noteq> []
                then (False, ''Dangling acceptance refs: '' @ str_join '', '' dangling @ ''.'')
                else (False, ''At least one acceptance example or scenario is required.''))))"

definition trace_check ::
  "taskflow_state \<Rightarrow> brief_version_record option \<Rightarrow> (bool \<times> string) result" where
  "trace_check s brief =
     (let (_, _, candidates) = snapshot_refs s brief;
          decision_ids = ids_of (case brief of Some b \<Rightarrow> bv_decisions b
            | None \<Rightarrow> map decision_record_to_dict (tfg_local_decisions (tf_design s)));
          risk_ids = ids_of (case brief of Some b \<Rightarrow> bv_risks b
            | None \<Rightarrow> map risk_record_to_dict (tfg_risks (tf_design s)))
      in res_bind (res_map (\<lambda>d.
             res_bind (refs_at d ''decision_refs'') (\<lambda>ds.
             res_bind (refs_at d ''risk_refs'') (\<lambda>rs.
             Inr (map (\<lambda>r. ''decision:'' @ r) (filter (\<lambda>r. r \<notin> set decision_ids) ds) @
                  map (\<lambda>r. ''risk:'' @ r) (filter (\<lambda>r. r \<notin> set risk_ids) rs))))) candidates)
         (\<lambda>parts. let dangling = concat parts
            in Inr (if dangling = [] then (True, ''Candidate decision and risk refs resolve.'')
                    else (False, ''Dangling trace refs: '' @ str_join '', '' (sort dangling) @ ''.''))))"

section \<open>Artifacts\<close>

definition artifact_complete :: "taskflow_state \<Rightarrow> string \<Rightarrow> bool" where
  "artifact_complete s artifact =
     (let i = tf_intent s; c = tf_clarification s; d = tf_design s; v = tf_delivery s; out = tf_outputs s;
          mitigated = list_ex (\<lambda>r. rsk_mitigation r \<noteq> []) (tfg_risks d)
      in if artifact \<in> set [''scope'', ''prd'', ''prd_lite'']
         then tfi_goal_statement i \<noteq> [] \<or> tfi_scope_in i \<noteq> [] \<or> tfi_scope_out i \<noteq> []
         else if artifact \<in> set [''acceptance'', ''acceptance_examples'', ''sbe_bdd'']
         then tfc_examples c \<noteq> [] \<or> tfc_acceptance_examples c \<noteq> [] \<or> tfc_scenarios c \<noteq> []
         else if artifact = ''scenarios'' then tfc_scenarios c \<noteq> [] \<or> tfc_examples c \<noteq> []
         else if artifact \<in> set [''technical_notes'', ''tech_spec'']
         then tfg_risks d \<noteq> [] \<or> tfg_implementation_notes d \<noteq> [] \<or> tfo_work_item_candidates out \<noteq> []
         else if artifact \<in> set [''api_contract'', ''api_spec'']
         then tfg_interfaces d \<noteq> [] \<and> list_all (\<lambda>x. ifc_contract x \<noteq> []) (tfg_interfaces d)
         else if artifact = ''consumer_impact'' then list_ex (\<lambda>x. ifc_consumers x \<noteq> []) (tfg_interfaces d)
         else if artifact = ''migration_plan'' then mitigated
         else if artifact = ''rollback_plan''
         then contains_text ''rollback'' (str_lower (str_join '' '' (tfv_rollout_plan v))) \<or> mitigated
         else if artifact = ''data_validation''
         then list_ex (\<lambda>x. aex_observable_outputs x \<noteq> [] \<or> aex_test_suggestions x \<noteq> [])
                (tfc_acceptance_examples c) \<or>
              list_ex (\<lambda>x. exm_observable_outputs x \<noteq> []) (tfc_examples c)
         else if artifact = ''rollout_plan'' then tfv_rollout_plan v \<noteq> []
         else if artifact = ''runbook''
         then list_ex (\<lambda>x. contains_text ''runbook'' (str_lower x)) (tfv_rollout_plan v)
         else if artifact = ''monitoring_signal''
         then list_ex (\<lambda>x. contains_text ''monitor'' (str_lower x)) (tfv_rollout_plan v)
         else if artifact = ''risk_spike''
         then list_ex (\<lambda>x. wic_type x \<in> {WType_SPIKE, WType_RESEARCH, WType_TEST})
                (tfo_work_item_candidates out) \<or> mitigated
         else if artifact = ''gherkin_feature''
         then tfo_gherkin_features out \<noteq> [] \<or> tfc_scenarios c \<noteq> [] \<or> tfc_examples c \<noteq> []
         else if artifact = ''domain_model_delta''
         then tfd_domain_model_delta (tf_domain s) \<noteq> [] \<or> tfc_rules c \<noteq> []
         else if artifact = ''ubiquitous_language''
         then tfd_ubiquitous_language (tf_domain s) \<noteq> [] \<or> tfc_rules c \<noteq> []
         else if artifact = ''core_rules'' then tfc_rules c \<noteq> []
         else if artifact \<in> set [''rfc'', ''adr''] then tfg_local_decisions d \<noteq> []
         else if artifact \<in> set [''roadmap'', ''governance''] then tfv_future_goal_candidates v \<noteq> []
         else True)"

definition artifact_severity :: "string \<Rightarrow> string" where
  "artifact_severity artifact =
     (if artifact \<in> set [''api_contract'', ''consumer_impact'', ''migration_plan'', ''rollback_plan'',
           ''rollout_plan'', ''runbook'', ''monitoring_signal'']
      then ''high'' else ''medium'')"

definition artifact_dimensions :: "(string, string) pydict" where
  "artifact_dimensions =
     [(''api_contract'', ''interface_impact''), (''consumer_impact'', ''interface_impact''),
      (''migration_plan'', ''data_impact''), (''rollback_plan'', ''data_impact''),
      (''data_validation'', ''data_impact''), (''rollout_plan'', ''ops_impact''),
      (''runbook'', ''ops_impact''), (''monitoring_signal'', ''ops_impact''),
      (''domain_model_delta'', ''domain_complexity''), (''ubiquitous_language'', ''domain_complexity''),
      (''core_rules'', ''domain_complexity''), (''risk_spike'', ''technical_risk''),
      (''gherkin_feature'', ''acceptance_quality'')]"

definition artifact_evidence_ids :: "complexity_estimate_record \<Rightarrow> string \<Rightarrow> string list" where
  "artifact_evidence_ids estimate artifact =
     (case dict_get artifact_dimensions artifact of
        None \<Rightarrow> [] | Some dimension \<Rightarrow> evidence_ids (Some estimate) dimension)"

definition artifact_gate ::
  "taskflow_state \<Rightarrow> complexity_estimate_record \<Rightarrow> string \<Rightarrow> readiness_gate" where
  "artifact_gate s estimate artifact =
     (let passed = artifact_complete s artifact
      in make_gate (''gate-artifact-'' @ artifact) (str_join ''-'' (split_on (CHR ''_'') artifact)) passed
           (''Required artifact '' @ artifact @ (if passed then '' is complete.'' else '' is missing.''))
           (artifact_severity artifact) ''compile'' ''complexity''
           (artifact_evidence_ids estimate artifact) [artifact])"

section \<open>Refreshing\<close>

definition dispatch_confirmed :: "taskflow_state \<Rightarrow> bool" where
  "dispatch_confirmed s =
     list_ex (\<lambda>d. dd_status d = DDec_CONFIRMED \<and>
         Some (dd_brief_version d) = tfo_confirmed_brief_version (tf_outputs s))
       (tfo_dispatch_decisions (tf_outputs s))"

definition generated_gates ::
  "taskflow_state \<Rightarrow> complexity_estimate_record option \<Rightarrow> readiness_gate list result" where
  "generated_gates s estimate =
     (let confirmed = (confirmed_brief s \<noteq> None); fresh = fresh_confirmed s;
          quiet = (unresolved_high_risk_questions s = []);
          compiled = (tfo_plan_drafts (tf_outputs s) \<noteq> []); dispatched = dispatch_confirmed s
      in res_bind (acceptance_check s (current_brief s)) (\<lambda>acceptance.
         res_bind (trace_check s (current_brief s)) (\<lambda>trace.
         Inr ([make_gate ''gate-confirmed-brief'' ''confirmed-brief'' confirmed
                 (if confirmed then ''Brief is confirmed.''
                  else ''A confirmed brief is required before plan compilation.'')
                 ''high'' ''compile'' ''brief'' [] [],
               make_gate ''gate-fresh-brief-confirmation'' ''fresh-brief-confirmation'' fresh
                 (if fresh then ''Current brief version is confirmed.''
                  else ''The current brief version must be confirmed before compile.'')
                 ''high'' ''both'' ''brief'' [] [],
               make_gate ''gate-high-risk-questions'' ''high-risk-questions'' quiet
                 (if quiet then ''No unresolved high-risk questions.''
                  else ''Unresolved high-risk questions block compilation.'')
                 ''high'' ''both'' ''complexity'' (evidence_ids estimate ''goal_clarity'') [],
               make_gate ''gate-acceptance-contract'' ''acceptance-coverage'' (fst acceptance)
                 (snd acceptance) ''medium'' ''compile'' ''trace'' [] [],
               make_gate ''gate-trace-integrity'' ''trace-integrity'' (fst trace) (snd trace)
                 ''high'' ''compile'' ''trace'' [] []] @
              (case estimate of None \<Rightarrow> []
               | Some e \<Rightarrow> map (artifact_gate s e) (filter (\<lambda>a. a \<noteq> ''brief'') (cer_required_artifacts e))) @
              [make_gate ''gate-compiled-plan'' ''compiled-plan'' compiled
                 (if compiled then ''Plan has been compiled.''
                  else ''A compiled plan is required before dispatch.'')
                 ''high'' ''dispatch'' ''dispatch'' [] [],
               make_gate ''gate-dispatch-confirmation'' ''dispatch-confirmation'' dispatched
                 (if dispatched then ''A dispatch decision is confirmed.''
                  else ''A confirmed dispatch decision is required before TaskRun creation.'')
                 ''high'' ''dispatch'' ''dispatch'' [] []]))))"

definition gates_by_id :: "readiness_gate list \<Rightarrow> (string, readiness_gate) pydict" where
  "gates_by_id gates = fold (\<lambda>g acc. dict_set (rg_id g) g acc) gates []"

definition severity_penalty :: "string \<Rightarrow> int" where
  "severity_penalty severity =
     (if severity = ''critical'' then 35 else if severity = ''high'' then 20
      else if severity = ''medium'' then 10 else if severity = ''low'' then 5 else 20)"

definition gate_score :: "readiness_gate list \<Rightarrow> int" where
  "gate_score failed = max 0 (100 - sum_list (map (\<lambda>g. severity_penalty (rg_severity g)) failed))"

definition refreshed_gates ::
  "taskflow_state \<Rightarrow> complexity_estimate_record option \<Rightarrow> readiness_gate list result" where
  "refreshed_gates s estimate =
     res_bind (generated_gates s estimate) (\<lambda>generated.
     Inr (dict_values (dict_update (gates_by_id generated)
       (gates_by_id (filter (\<lambda>g. rg_source g = ''manual'') (tcs_readiness_gates (tf_compiler s)))))))"

definition refresh_readiness ::
  "taskflow_state \<Rightarrow> complexity_estimate_record option \<Rightarrow> taskflow_state result" where
  "refresh_readiness s assessment =
     (let estimate = (case assessment of Some e \<Rightarrow> Some e | None \<Rightarrow> tcs_complexity_estimate (tf_compiler s))
      in res_bind (refreshed_gates s estimate) (\<lambda>gates.
           let compile_failed = failed_gates rg_blocks_compile gates;
               dispatch_failed = failed_gates rg_blocks_dispatch gates;
               compile_score = gate_score compile_failed; dispatch_score = gate_score dispatch_failed
           in Inr (tf_compiler_update (\<lambda>c. c
                \<lparr>tcs_readiness_gates := gates, tcs_compile_readiness_score := compile_score,
                 tcs_dispatch_readiness_score := dispatch_score,
                 tcs_readiness_score := min compile_score dispatch_score,
                 tcs_blocking_items := map rg_id (failed_gates (\<lambda>_. True) gates),
                 tcs_complexity_estimate := map_option (\<lambda>e. e
                   \<lparr>cer_required_gates := map rg_id (filter (\<lambda>g. rg_required g \<and> rg_source g \<noteq> ''manual'') gates),
                    cer_compile_blockers := map rg_id compile_failed,
                    cer_dispatch_blockers := map rg_id dispatch_failed\<rparr>)
                   (tcs_complexity_estimate c)\<rparr>) s)))"

section \<open>Lemmas\<close>

lemma severity_penalty_pos: "0 < severity_penalty v"
  by (simp add: severity_penalty_def)

lemma penalties_nonneg: "0 \<le> sum_list (map (\<lambda>g. severity_penalty (rg_severity g)) gs)"
  by (induction gs) (simp_all add: severity_penalty_pos less_imp_le)

lemma gate_score_bounds: "0 \<le> gate_score gs \<and> gate_score gs \<le> 100"
  using penalties_nonneg[of gs] by (simp add: gate_score_def)

lemma gate_score_full: "gate_score gs = 100 \<longleftrightarrow> gs = []"
proof (cases gs)
  case Nil
  then show ?thesis by (simp add: gate_score_def)
next
  case (Cons g rest)
  then show ?thesis
    using penalties_nonneg[of rest] severity_penalty_pos[of "rg_severity g"] by (simp add: gate_score_def)
qed

lemma find_in_append:
  "List.find p (xs @ ys) = (case List.find p xs of None \<Rightarrow> List.find p ys | Some x \<Rightarrow> Some x)"
  by (induction xs) auto

lemma gates_by_id_get:
  "dict_get (gates_by_id gates) k = List.find (\<lambda>g. rg_id g = k) (rev gates)"
proof -
  have "dict_get (fold (\<lambda>g acc. dict_set (rg_id g) g acc) gates acc) k =
      (case List.find (\<lambda>g. rg_id g = k) (rev gates) of Some g \<Rightarrow> Some g | None \<Rightarrow> dict_get acc k)" for acc
  proof (induction gates arbitrary: acc)
    case Nil
    then show ?case by simp
  next
    case (Cons g gates)
    show ?case
      by (simp add: Cons.IH dict_get_set find_in_append split: option.split)
  qed
  then show ?thesis by (simp add: gates_by_id_def split: option.split)
qed

end
