(* ===== verification/FlowComplexity.thy ===== *)
theory FlowComplexity
  imports FlowReadiness
begin

text \<open>
  The complexity of a goal: the estimator and the recipe policies
  (\<open>src/labrastro_server/taskflow/domain/complexity.py\<close>) and the service that records evidence, overrides the
  level and stores the assessment (\<open>application/complexity_service.py\<close>). The extractor of signals and the
  confidence of an estimate, which compute with fractions, are parameters of the environment; no
  level, gate or policy depends on the confidence.
\<close>

section \<open>Levels and estimates\<close>

datatype complexity_level = Level_L0 | Level_L1 | Level_L2 | Level_L3 | Level_L4

fun complexity_level_value :: "complexity_level \<Rightarrow> string" where
  "complexity_level_value Level_L0 = ''micro''"
| "complexity_level_value Level_L1 = ''small''"
| "complexity_level_value Level_L2 = ''standard''"
| "complexity_level_value Level_L3 = ''complex''"
| "complexity_level_value Level_L4 = ''program''"

fun complexity_level_name :: "complexity_level \<Rightarrow> string" where
  "complexity_level_name Level_L0 = ''L0''"
| "complexity_level_name Level_L1 = ''L1''"
| "complexity_level_name Level_L2 = ''L2''"
| "complexity_level_name Level_L3 = ''L3''"
| "complexity_level_name Level_L4 = ''L4''"

definition level_order :: "complexity_level list" where
  "level_order = [Level_L0, Level_L1, Level_L2, Level_L3, Level_L4]"

fun level_rank :: "complexity_level \<Rightarrow> nat" where
  "level_rank Level_L0 = 0"
| "level_rank Level_L1 = 1"
| "level_rank Level_L2 = 2"
| "level_rank Level_L3 = 3"
| "level_rank Level_L4 = 4"

record complexity_estimate =
  est_level :: complexity_level
  est_score :: int
  est_recipe_id :: string
  est_recipe_steps :: "string list"
  est_dimension_scores :: "(string, int) pydict"
  est_dimension_details :: "complexity_dimension_score list"
  est_confidence :: "int option"
  est_dominant_dimensions :: "string list"
  est_unknown_dimensions :: "string list"
  est_needs_more_evidence :: bool
  est_explanation :: string
  est_scan_refs :: "string list"
  est_question_packs :: "string list"
  est_plan_slicing_policy :: string
  est_dispatch_safety_policy :: string
  est_level_floor :: string
  est_hard_escalations :: "string list"

definition complexity_dimensions :: "string list" where
  "complexity_dimensions =
     [''goal_clarity'', ''acceptance_quality'', ''business_impact'', ''user_count'', ''domain_complexity'',
      ''technical_risk'', ''interface_impact'', ''data_impact'', ''ops_impact'', ''reversibility'',
      ''org_collaboration'']"

fun recipe :: "complexity_level \<Rightarrow> string \<times> string list" where
  "recipe Level_L0 = (''micro-task'', [''goal_confirm'', ''acceptance_check'', ''compile_task''])"
| "recipe Level_L1 =
     (''small-task'', [''goal'', ''scope'', ''acceptance'', ''risk_check'', ''compile_plan''])"
| "recipe Level_L2 =
     (''standard-feature'', [''goal'', ''actors'', ''scenarios'', ''acceptance_examples'', ''tech_impact'',
      ''decision_if_needed'', ''compile_plan''])"
| "recipe Level_L3 =
     (''complex-project'', [''prd_lite'', ''sbe_bdd'', ''ddd_lite'', ''rfc_compare'', ''adr'', ''tech_spec'',
      ''api_spec_if_needed'', ''runbook_if_needed'', ''compile_plan''])"
| "recipe Level_L4 =
     (''program-level'', [''program_discovery'', ''domain_split'', ''epic_map'', ''roadmap'', ''governance'',
      ''multi_stage_compile''])"

section \<open>Evidence\<close>

definition evidence_text :: "complexity_evidence_record \<Rightarrow> string" where
  "evidence_text x =
     str_lower (cev_rationale x @ '' '' @ cev_source_type x @ '' '' @ cev_source_path x)"

text \<open>\<open>metadata.get(key) == value\<close> after every value was turned into a lower-case text.\<close>

definition evidence_says :: "complexity_evidence_record \<Rightarrow> string \<Rightarrow> string \<Rightarrow> bool" where
  "evidence_says x key value \<longleftrightarrow>
     (case dict_get (cev_metadata x) key of None \<Rightarrow> False | Some v \<Rightarrow> str_lower (py_str v) = value)"

definition integration_tokens :: "string list" where
  "integration_tokens = [''plugin'', ''extension'', ''integration'', ''api'', ''webhook'']"

definition data_tokens :: "string list" where
  "data_tokens = [''migration'', ''schema'', ''rollback'']"

definition ops_tokens :: "string list" where
  "ops_tokens = [''production'', ''rollout'', ''runbook'', ''monitoring'', ''rollback'']"

definition floor_for_evidence :: "complexity_evidence_record \<Rightarrow> complexity_level" where
  "floor_for_evidence x =
     (let text = evidence_text x; dim = cev_dimension x; delta = cev_score_delta x
      in if dim = ''interface_impact'' \<and>
            (delta \<ge> 2 \<or> contains_text ''public'' text \<or> evidence_says x ''contract'' ''unknown'' \<or>
             evidence_says x ''public'' ''true'' \<or> evidence_says x ''multiple_consumers'' ''true'')
         then Level_L2
         else if dim = ''interface_impact'' \<and> contains_any integration_tokens text then Level_L1
         else if dim = ''data_impact'' \<and> (delta \<ge> 2 \<or> contains_any data_tokens text) then Level_L2
         else if dim = ''ops_impact'' \<and> (delta \<ge> 2 \<or> contains_any ops_tokens text) then Level_L2
         else if dim = ''technical_risk'' \<and> evidence_says x ''multi_repo'' ''true'' then Level_L3
         else if dim = ''domain_complexity'' \<and> evidence_says x ''core_high_risk'' ''true'' then Level_L3
         else Level_L0)"

definition hard_escalations :: "complexity_evidence_record \<Rightarrow> string list" where
  "hard_escalations x =
     (let text = evidence_text x; dim = cev_dimension x; delta = cev_score_delta x
      in (if dim = ''interface_impact'' then
            (if delta \<ge> 2 \<or> contains_text ''public'' text \<or> evidence_says x ''public'' ''true'' \<or>
                evidence_says x ''multiple_consumers'' ''true''
             then [''public-interface-floor'']
             else if contains_any integration_tokens text then [''external-integration-floor''] else [])
          else []) @
         (if dim = ''data_impact'' \<and> (delta \<ge> 2 \<or> contains_any data_tokens text)
          then [''data-migration-floor''] else []) @
         (if dim = ''ops_impact'' \<and> (delta \<ge> 2 \<or> contains_any ops_tokens text)
          then [''production-ops-floor''] else []) @
         (if dim = ''technical_risk'' \<and> evidence_says x ''multi_repo'' ''true''
          then [''multi-repo-high-risk-floor''] else []) @
         (if dim = ''domain_complexity'' \<and> evidence_says x ''core_high_risk'' ''true''
          then [''core-domain-risk-floor''] else []))"

section \<open>The estimator\<close>

definition cap_score :: "int \<Rightarrow> int" where
  "cap_score raw = max 0 (min 3 raw)"

definition level_for_score :: "int \<Rightarrow> complexity_level" where
  "level_for_score score =
     (if score \<le> 5 then Level_L0 else if score \<le> 12 then Level_L1 else if score \<le> 22 then Level_L2
      else if score \<le> 32 then Level_L3 else Level_L4)"

definition max_level :: "complexity_level \<Rightarrow> complexity_level \<Rightarrow> complexity_level" where
  "max_level a b = (if level_rank a \<ge> level_rank b then a else b)"

definition of_dimension ::
  "complexity_evidence_record list \<Rightarrow> string \<Rightarrow> complexity_evidence_record list" where
  "of_dimension evidence dim = filter (\<lambda>x. cev_dimension x = dim) evidence"

definition dimension_score :: "complexity_evidence_record list \<Rightarrow> string \<Rightarrow> int" where
  "dimension_score evidence dim =
     cap_score (sum_list (map (\<lambda>x. max 0 (cev_score_delta x)) (of_dimension evidence dim)))"

definition dimension_detail ::
  "complexity_evidence_record list \<Rightarrow> string \<Rightarrow> complexity_dimension_score" where
  "dimension_detail evidence dim =
     (let items = of_dimension evidence dim
      in \<lparr>cds_dimension = dim, cds_score = dimension_score evidence dim,
          cds_evidence_ids = filter (\<lambda>i. i \<noteq> []) (map cev_id items),
          cds_rationale = str_join ''; '' (filter (\<lambda>r. r \<noteq> []) (map cev_rationale items))\<rparr>)"

text \<open>\<open>sorted(scores.items(), key=lambda item: (-item[1], item[0]))\<close>.\<close>

definition ranked_scores :: "(string, int) pydict \<Rightarrow> (string \<times> int) list" where
  "ranked_scores scores = sort_key (\<lambda>(dim, score). (- score, dim)) scores"

definition dominant_dimensions :: "(string, int) pydict \<Rightarrow> string list" where
  "dominant_dimensions scores =
     (let strong = map fst (filter (\<lambda>(_, score). score \<ge> 2) (ranked_scores scores))
      in if strong \<noteq> [] then strong
         else take 3 (map fst (filter (\<lambda>(_, score). score > 0) (ranked_scores scores))))"

definition scan_refs_of :: "complexity_evidence_record list \<Rightarrow> string list" where
  "scan_refs_of evidence =
     fold (\<lambda>x refs. let scan = str_or_empty (pget (cev_metadata x) ''scan_id'')
        in if cev_source_type x = ''repo_static_analysis'' \<and> scan \<noteq> [] \<and> scan \<notin> set refs
           then refs @ [scan] else refs) evidence []"

definition explain_estimate ::
  "int \<Rightarrow> string \<Rightarrow> string list \<Rightarrow> string list \<Rightarrow> bool \<Rightarrow> string" where
  "explain_estimate score recipe_id dominant unknown scanned =
     str_join '' ''
       ([''Complexity score '' @ int_str score @ '' selected '' @ recipe_id @ ''.''] @
        (if dominant \<noteq> [] then [''Dominant dimensions: '' @ str_join '', '' dominant @ ''.''] else []) @
        (if scanned then [''Repo static analysis contributed formal evidence.''] else []) @
        (if unknown \<noteq> []
         then [''More evidence is needed for: '' @ str_join '', '' (take 5 unknown) @ ''.''] else []))"

definition score_of :: "(string, int) pydict \<Rightarrow> string \<Rightarrow> int" where
  "score_of scores dim = (case dict_get scores dim of Some n \<Rightarrow> n | None \<Rightarrow> 0)"

definition question_packs_for :: "string list \<Rightarrow> (string, int) pydict \<Rightarrow> string list" where
  "question_packs_for unknown scores =
     (let pack = (\<lambda>dim least name. if dim \<in> set unknown \<or> score_of scores dim \<ge> least then [name] else [])
      in pack ''goal_clarity'' 1 ''goal-clarification'' @
         pack ''acceptance_quality'' 1 ''acceptance-examples'' @
         pack ''interface_impact'' 2 ''interface-impact'' @ pack ''data_impact'' 2 ''data-migration'' @
         pack ''ops_impact'' 2 ''rollout-operations'' @ pack ''domain_complexity'' 2 ''domain-rules'')"

fun plan_slicing_policy :: "complexity_level \<Rightarrow> string" where
  "plan_slicing_policy Level_L0 = ''single-task''"
| "plan_slicing_policy Level_L1 = ''small-plan''"
| "plan_slicing_policy Level_L2 = ''feature-work-items''"
| "plan_slicing_policy Level_L3 = ''staged-work-items''"
| "plan_slicing_policy Level_L4 = ''roadmap-phases''"

definition dispatch_safety_policy ::
  "complexity_level \<Rightarrow> string list \<Rightarrow> (string, int) pydict \<Rightarrow> string" where
  "dispatch_safety_policy level escalations scores =
     (if level \<in> {Level_L3, Level_L4} then ''human-review-required''
      else if escalations \<noteq> [] \<or>
           list_ex (\<lambda>dim. score_of scores dim \<ge> 2) [''interface_impact'', ''data_impact'', ''ops_impact'']
      then ''explicit-dispatch-confirmation''
      else ''confirmed-brief'')"

definition all_escalations :: "complexity_evidence_record list \<Rightarrow> string list" where
  "all_escalations evidence =
     fold (\<lambda>e acc. if e \<in> set acc then acc else acc @ [e]) (concat (map hard_escalations evidence)) []"

definition evidence_floor :: "complexity_evidence_record list \<Rightarrow> complexity_level" where
  "evidence_floor evidence = fold (\<lambda>x acc. max_level acc (floor_for_evidence x)) evidence Level_L0"

definition dimension_scores :: "complexity_evidence_record list \<Rightarrow> (string, int) pydict" where
  "dimension_scores evidence = map (\<lambda>dim. (dim, dimension_score evidence dim)) complexity_dimensions"

definition estimate_complexity ::
  "flow_env \<Rightarrow> complexity_evidence_record list \<Rightarrow> complexity_estimate" where
  "estimate_complexity env evidence =
     (let scores = dimension_scores evidence; score = sum_list (map snd scores);
          escalations = all_escalations evidence; fl = evidence_floor evidence;
          level = max_level (level_for_score score) fl;
          unknown = filter (\<lambda>dim. of_dimension evidence dim = []) complexity_dimensions;
          dominant = dominant_dimensions scores; scans = scan_refs_of evidence;
          scanned = (scans \<noteq> [] \<or> list_ex (\<lambda>x. cev_source_type x = ''repo_static_analysis'') evidence)
      in \<lparr>est_level = level, est_score = score, est_recipe_id = fst (recipe level),
          est_recipe_steps = snd (recipe level), est_dimension_scores = scores,
          est_dimension_details = map (dimension_detail evidence) complexity_dimensions,
          est_confidence = fe_confidence env evidence unknown, est_dominant_dimensions = dominant,
          est_unknown_dimensions = unknown, est_needs_more_evidence = (unknown \<noteq> []),
          est_explanation = explain_estimate score (fst (recipe level)) dominant unknown scanned,
          est_scan_refs = scans, est_question_packs = question_packs_for unknown scores,
          est_plan_slicing_policy = plan_slicing_policy level,
          est_dispatch_safety_policy = dispatch_safety_policy level escalations scores,
          est_level_floor = complexity_level_name fl, est_hard_escalations = escalations\<rparr>)"

section \<open>Recipe policies\<close>

record recipe_policy =
  rec_policy_id :: string
  rec_recipe_id :: string
  rec_level :: complexity_level
  rec_steps :: "string list"
  rec_required_artifacts :: "string list"
  rec_required_gates :: "string list"

fun base_artifacts :: "complexity_level \<Rightarrow> string list" where
  "base_artifacts Level_L0 = [''brief'', ''acceptance'']"
| "base_artifacts Level_L1 = [''brief'', ''scope'', ''acceptance'']"
| "base_artifacts Level_L2 = [''brief'', ''scenarios'', ''acceptance_examples'', ''technical_notes'']"
| "base_artifacts Level_L3 =
     [''brief'', ''prd'', ''rfc'', ''sbe_bdd'', ''ddd_lite'', ''adr'', ''tech_spec'', ''api_spec'', ''runbook'']"
| "base_artifacts Level_L4 = [''brief'', ''roadmap'', ''governance'']"

definition extend_new :: "string list \<Rightarrow> string list \<Rightarrow> string list" where
  "extend_new values artifacts = fold (\<lambda>v acc. if v \<in> set acc then acc else acc @ [v]) values artifacts"

definition policy_for :: "complexity_estimate \<Rightarrow> recipe_policy" where
  "policy_for e =
     (let scores = est_dimension_scores e; level = est_level e;
          when_strong = (\<lambda>dim values artifacts. if score_of scores dim \<ge> 2 then extend_new values artifacts else artifacts);
          a1 = when_strong ''interface_impact'' [''api_contract'', ''consumer_impact''] (base_artifacts level);
          a2 = when_strong ''data_impact'' [''migration_plan'', ''rollback_plan'', ''data_validation''] a1;
          a3 = when_strong ''ops_impact'' [''rollout_plan'', ''runbook'', ''monitoring_signal''] a2;
          a4 = when_strong ''domain_complexity'' [''domain_model_delta'', ''ubiquitous_language'', ''core_rules''] a3;
          a5 = when_strong ''technical_risk'' [''risk_spike''] a4;
          artifacts = (if level \<in> {Level_L2, Level_L3} then extend_new [''gherkin_feature''] a5 else a5)
      in \<lparr>rec_policy_id = ''recipe-policy.v1.'' @ est_recipe_id e, rec_recipe_id = est_recipe_id e,
          rec_level = level, rec_steps = est_recipe_steps e, rec_required_artifacts = artifacts,
          rec_required_gates = map (\<lambda>a. ''gate-artifact-'' @ a) artifacts\<rparr>)"

section \<open>The assessment service\<close>

definition parse_level :: "string \<Rightarrow> complexity_level result" where
  "parse_level value =
     (let v = str_strip value
      in case List.find (\<lambda>l. v = complexity_level_name l \<or> v = complexity_level_value l) level_order of
           Some l \<Rightarrow> Inr l
         | None \<Rightarrow> Inl (ValueError (''invalid complexity level: '' @ value)))"

text \<open>The \<open>k\<close>-th record of a call, normalized.\<close>

definition normalize_evidence ::
  "flow_env \<Rightarrow> nat \<Rightarrow> string \<Rightarrow> taskflow_state \<Rightarrow> complexity_evidence_record \<Rightarrow> complexity_evidence_record result" where
  "normalize_evidence env k actor s r =
     (if cev_dimension r \<notin> set complexity_dimensions
      then Inl (ValueError (''invalid complexity dimension: '' @ cev_dimension r))
      else if cev_source_type r = []
      then Inl (ValueError ''complexity evidence source_type is required'')
      else Inr (r\<lparr>cev_id := (if cev_id r \<noteq> [] then cev_id r else new_id env ''complexity-evidence'' k),
             cev_score_delta := cap_score (cev_score_delta r),
             cev_brief_version := (case cev_brief_version r of
                Some v \<Rightarrow> if v \<noteq> 0 then Some v else tfo_current_brief_version (tf_outputs s)
              | None \<Rightarrow> tfo_current_brief_version (tf_outputs s)),
             cev_extracted_by := (if cev_extracted_by r \<noteq> [] then cev_extracted_by r else actor)\<rparr>))"

text \<open>Inserting by id: an item whose id is already there takes its place (of the last such item when an
  id is repeated), another is appended. The places are those before the call, so an id that is
  repeated among the new ones is appended twice.\<close>

definition place_of :: "('a \<Rightarrow> string) \<Rightarrow> 'a list \<Rightarrow> string \<Rightarrow> nat option" where
  "place_of key xs k =
     (case filter (\<lambda>i. key (xs ! i) = k) [0..<length xs] of [] \<Rightarrow> None | is \<Rightarrow> Some (last is))"

definition upsert_by :: "('a \<Rightarrow> string) \<Rightarrow> 'a list \<Rightarrow> 'a list \<Rightarrow> 'a list" where
  "upsert_by key items incoming =
     fold (\<lambda>x acc. case place_of key items (key x) of Some i \<Rightarrow> acc[i := x] | None \<Rightarrow> acc @ [x]) incoming items"

text \<open>Evidence arrives as documents. Each is read and normalized before any is stored.\<close>

fun normalize_all ::
  "flow_env \<Rightarrow> nat \<Rightarrow> string \<Rightarrow> taskflow_state \<Rightarrow> pyobj list \<Rightarrow> complexity_evidence_record list result" where
  "normalize_all env k actor s [] = Inr []"
| "normalize_all env k actor s (d # ds) =
     res_bind (complexity_evidence_record_from_dict (fe_now env) d) (\<lambda>r.
     res_bind (normalize_evidence env k actor s r) (\<lambda>r.
     res_bind (normalize_all env (Suc k) actor s ds) (\<lambda>rs. Inr (r # rs))))"

definition record_evidence ::
  "flow_env \<Rightarrow> string \<Rightarrow> pyobj list \<Rightarrow> taskflow_state \<Rightarrow> taskflow_state result" where
  "record_evidence env actor evidence s =
     res_bind (normalize_all env 0 actor s evidence) (\<lambda>parsed.
       Inr (fold (\<lambda>r. append_taskflow_event env TEvt_COMPLEXITY_EVIDENCE_RECORDED actor
                        (complexity_evidence_record_to_dict r)) parsed
              (tf_compiler_update (tcs_complexity_evidence_update (\<lambda>xs. upsert_by cev_id xs parsed)) s)))"

definition override_complexity_level ::
  "flow_env \<Rightarrow> string \<Rightarrow> string \<Rightarrow> string \<Rightarrow> taskflow_state \<Rightarrow> taskflow_state result" where
  "override_complexity_level env level reason actor s =
     res_bind (parse_level level) (\<lambda>l.
       Inr (append_taskflow_event env TEvt_COMPLEXITY_OVERRIDDEN actor
              [(''level'', PStr (complexity_level_name l)), (''reason'', PStr reason)]
              (tf_compiler_update (\<lambda>c. c\<lparr>tcs_complexity_override_level := complexity_level_name l,
                 tcs_complexity_overridden_by := actor, tcs_complexity_override_reason := reason\<rparr>) s)))"

fun merge_evidence ::
  "flow_env \<Rightarrow> nat \<Rightarrow> taskflow_state \<Rightarrow> complexity_evidence_record list \<Rightarrow>
   (string, complexity_evidence_record) pydict \<Rightarrow> (string, complexity_evidence_record) pydict result" where
  "merge_evidence env k s [] acc = Inr acc"
| "merge_evidence env k s (r # rs) acc =
     res_bind (normalize_evidence env k (cev_extracted_by r) s r) (\<lambda>r.
       merge_evidence env (Suc k) s rs (dict_set (cev_id r) r acc))"

definition merged_evidence ::
  "flow_env \<Rightarrow> taskflow_state \<Rightarrow> project_state \<Rightarrow> complexity_evidence_record list result" where
  "merged_evidence env s p =
     res_bind (fe_extract env s p) (\<lambda>extracted.
     res_bind (merge_evidence env 0 s (tcs_complexity_evidence (tf_compiler s))
                (fold (\<lambda>r acc. dict_set (cev_id r) r acc) extracted [])) (\<lambda>merged.
     Inr (dict_values merged)))"

definition apply_override :: "taskflow_state \<Rightarrow> complexity_estimate \<Rightarrow> complexity_estimate result" where
  "apply_override s e =
     (let name = tcs_complexity_override_level (tf_compiler s)
      in if name = [] then Inr e
         else res_bind (parse_level name) (\<lambda>l.
           Inr (e\<lparr>est_level := l, est_recipe_id := fst (recipe l), est_recipe_steps := snd (recipe l),
             est_hard_escalations := extend_new [''manual-override''] (est_hard_escalations e)\<rparr>)))"

definition step_completed :: "taskflow_state \<Rightarrow> string \<Rightarrow> bool" where
  "step_completed s step =
     (let i = tf_intent s; c = tf_clarification s; d = tf_design s; out = tf_outputs s
      in if step \<in> set [''goal'', ''goal_confirm'', ''prd_lite''] then tfi_goal_statement i \<noteq> []
         else if step = ''scope'' then tfi_scope_in i \<noteq> [] \<or> tfi_scope_out i \<noteq> []
         else if step \<in> set [''acceptance'', ''acceptance_check'', ''acceptance_examples'']
         then tfc_acceptance_examples c \<noteq> [] \<or> tfc_examples c \<noteq> [] \<or>
              list_ex (\<lambda>x. wic_acceptance_refs x \<noteq> []) (tfo_work_item_candidates out)
         else if step \<in> set [''scenarios'', ''sbe_bdd''] then tfc_scenarios c \<noteq> [] \<or> tfc_examples c \<noteq> []
         else if step \<in> set [''decision_if_needed'', ''adr'', ''rfc_compare''] then tfg_local_decisions d \<noteq> []
         else if step \<in> set [''tech_impact'', ''tech_spec'']
         then tfg_risks d \<noteq> [] \<or> tfg_implementation_notes d \<noteq> []
         else if step = ''api_spec_if_needed'' then tfg_interfaces d \<noteq> []
         else if step = ''runbook_if_needed'' then tfv_rollout_plan (tf_delivery s) \<noteq> []
         else if step = ''ddd_lite''
         then tfd_domain_model_delta (tf_domain s) \<noteq> [] \<or> tfd_ubiquitous_language (tf_domain s) \<noteq> []
         else if step \<in> set [''compile_task'', ''compile_plan''] then tfo_work_item_candidates out \<noteq> []
         else False)"

definition signal_evidence_of :: "complexity_evidence_record list \<Rightarrow> (string, string list) pydict" where
  "signal_evidence_of evidence =
     fold (\<lambda>x acc. dict_set (cev_dimension x)
        ((case dict_get acc (cev_dimension x) of Some rs \<Rightarrow> rs | None \<Rightarrow> []) @ [cev_rationale x]) acc)
       evidence []"

definition assess_complexity ::
  "flow_env \<Rightarrow> taskflow_state \<Rightarrow> project_state \<Rightarrow> (taskflow_state \<times> complexity_estimate_record) result" where
  "assess_complexity env s p =
     res_bind (merged_evidence env s p) (\<lambda>evidence.
     res_bind (apply_override s (estimate_complexity env evidence)) (\<lambda>e.
       let policy = policy_for e;
           steps = rec_steps policy; finished = filter (step_completed s) steps;
           skipped = filter (\<lambda>x. endswith x ''_if_needed'' \<and> step_completed s x) steps;
           r = \<lparr>cer_level = complexity_level_name (est_level e), cer_score = est_score e,
             cer_recipe_id = rec_recipe_id policy, cer_dimension_scores = est_dimension_scores e,
             cer_signal_evidence = signal_evidence_of evidence, cer_evidence = evidence,
             cer_dimension_details = est_dimension_details e, cer_confidence = est_confidence e,
             cer_dominant_dimensions = est_dominant_dimensions e,
             cer_unknown_dimensions = est_unknown_dimensions e,
             cer_needs_more_evidence = est_needs_more_evidence e, cer_explanation = est_explanation e,
             cer_scan_refs = est_scan_refs e, cer_question_packs = est_question_packs e,
             cer_plan_slicing_policy = est_plan_slicing_policy e,
             cer_dispatch_safety_policy = est_dispatch_safety_policy e,
             cer_level_floor = est_level_floor e, cer_hard_escalations = est_hard_escalations e,
             cer_recipe_policy_id = rec_policy_id policy, cer_required_gates = rec_required_gates policy,
             cer_compile_blockers = [], cer_dispatch_blockers = [], cer_required_steps = steps,
             cer_completed_steps = finished, cer_skipped_steps = skipped,
             cer_required_artifacts = rec_required_artifacts policy,
             cer_rationale = (if est_explanation e \<noteq> [] then est_explanation e
               else ''Complexity score '' @ int_str (est_score e) @ '' selected '' @ rec_recipe_id policy @ ''.''),
             cer_evaluated_at = fe_now env,
             cer_overridden_by = tcs_complexity_overridden_by (tf_compiler s),
             cer_override_reason = tcs_complexity_override_reason (tf_compiler s)\<rparr>
       in Inr (tf_compiler_update (\<lambda>c. c
            \<lparr>tcs_complexity_level := cer_level r, tcs_recipe_id := cer_recipe_id r,
             tcs_complexity_score := cer_score r, tcs_recipe_steps := steps, tcs_required_steps := steps,
             tcs_completed_steps := finished, tcs_skipped_steps := skipped,
             tcs_required_artifacts := cer_required_artifacts r,
             tcs_complexity_rationale := cer_rationale r, tcs_complexity_estimate := Some r,
             tcs_traceability_index := dict_set ''recipe_steps'' (strs steps) (tcs_traceability_index c)\<rparr>) s, r)))"

section \<open>Bounds of an estimate\<close>

lemma cap_score_bounds: "0 \<le> cap_score n \<and> cap_score n \<le> 3"
  by (simp add: cap_score_def)

lemma estimate_score_bounds:
  "0 \<le> est_score (estimate_complexity env evidence) \<and> est_score (estimate_complexity env evidence) \<le> 33"
proof -
  have "sum_list (map snd (map (\<lambda>dim. (dim, dimension_score evidence dim)) ds)) \<ge> 0 \<and>
      sum_list (map snd (map (\<lambda>dim. (dim, dimension_score evidence dim)) ds)) \<le> 3 * int (length ds)" for ds
    using cap_score_bounds by (induction ds) (auto simp: dimension_score_def intro: add_mono)
  from this[of complexity_dimensions] show ?thesis
    by (simp add: estimate_complexity_def Let_def dimension_scores_def complexity_dimensions_def)
qed

lemma max_level_rank: "level_rank (max_level a b) = max (level_rank a) (level_rank b)"
  by (simp add: max_level_def)

lemma evidence_floor_ge:
  "x \<in> set evidence \<Longrightarrow> level_rank (floor_for_evidence x) \<le> level_rank (evidence_floor evidence)"
proof -
  have ge: "level_rank acc \<le> level_rank (fold (\<lambda>x acc. max_level acc (floor_for_evidence x)) xs acc)" for xs acc
  proof (induction xs arbitrary: acc)
    case (Cons y ys)
    show ?case
      using Cons.IH[of "max_level acc (floor_for_evidence y)"] by (simp add: max_level_rank)
  qed simp
  have "x \<in> set xs \<Longrightarrow>
      level_rank (floor_for_evidence x) \<le> level_rank (fold (\<lambda>x acc. max_level acc (floor_for_evidence x)) xs acc)" for xs acc
  proof (induction xs arbitrary: acc)
    case (Cons y ys)
    then show ?case
      using ge[of "max_level acc (floor_for_evidence x)" ys] by (auto simp: max_level_rank)
  qed simp
  then show "x \<in> set evidence \<Longrightarrow> ?thesis" by (simp add: evidence_floor_def)
qed

lemma estimate_level_floor:
  "x \<in> set evidence \<Longrightarrow>
   level_rank (floor_for_evidence x) \<le> level_rank (est_level (estimate_complexity env evidence))"
  using evidence_floor_ge[of x evidence] by (simp add: estimate_complexity_def Let_def max_level_rank)

end
