(* ===== verification/FlowReview.thy ===== *)
theory FlowReview
  imports FlowComplexity
begin

text \<open>
  What a conversation writes into a taskflow: the turns of discovery and the answers to questions and
  decisions (\<open>src/labrastro_server/taskflow/application/discovery_service.py\<close>), the cards that are shown
  for review (\<open>interaction/review_cards_v1.py\<close>) and the actions on them
  (\<open>application/review_service.py\<close>). An operation works on a copy of the state, so nothing of it is left
  when it raises. Records arrive as documents.
\<close>

section \<open>A turn of discovery\<close>

record discovery_turn =
  dt_actor :: string
  dt_goal_statement :: "string option"
  dt_background_delta :: "string option"
  dt_scope_in :: "string list option"
  dt_scope_out :: "string list option"
  dt_deferred_scope :: "string list option"
  dt_success_criteria :: "string list option"
  dt_assumptions :: "pyobj list"
  dt_questions :: "pyobj list"
  dt_rules :: "pyobj list"
  dt_examples :: "pyobj list"
  dt_scenarios :: "pyobj list"
  dt_acceptance_examples :: "pyobj list"
  dt_decisions :: "pyobj list"
  dt_work_item_candidates :: "pyobj list"
  dt_complexity_evidence :: "pyobj list option"

definition nonblank_texts :: "string list \<Rightarrow> string list" where
  "nonblank_texts xs = filter (\<lambda>x. str_strip x \<noteq> []) xs"

definition value_or :: "'a option \<Rightarrow> 'a \<Rightarrow> 'a" where
  "value_or new old = (case new of None \<Rightarrow> old | Some x \<Rightarrow> x)"

definition turn_intent :: "discovery_turn \<Rightarrow> taskflow_intent \<Rightarrow> taskflow_intent" where
  "turn_intent t i =
     i\<lparr>tfi_goal_statement := value_or (dt_goal_statement t) (tfi_goal_statement i),
       tfi_background_delta := value_or (dt_background_delta t) (tfi_background_delta i),
       tfi_scope_in := value_or (map_option nonblank_texts (dt_scope_in t)) (tfi_scope_in i),
       tfi_scope_out := value_or (map_option nonblank_texts (dt_scope_out t)) (tfi_scope_out i),
       tfi_deferred_scope := value_or (map_option nonblank_texts (dt_deferred_scope t)) (tfi_deferred_scope i),
       tfi_success_criteria := value_or (map_option nonblank_texts (dt_success_criteria t)) (tfi_success_criteria i)\<rparr>"

text \<open>One event for each record of a list.\<close>

definition append_each ::
  "flow_env \<Rightarrow> taskflow_event_type \<Rightarrow> string \<Rightarrow> ('a \<Rightarrow> pyobj) \<Rightarrow> 'a list \<Rightarrow> taskflow_state \<Rightarrow> taskflow_state" where
  "append_each env type actor payload xs s =
     fold (\<lambda>x. append_taskflow_event env type actor (payload x)) xs s"

definition on_clarification ::
  "(taskflow_clarification \<Rightarrow> taskflow_clarification) \<Rightarrow> taskflow_state \<Rightarrow> taskflow_state" where
  "on_clarification f s = tf_clarification_update f s"

definition record_questions :: "flow_env \<Rightarrow> discovery_turn \<Rightarrow> taskflow_state \<Rightarrow> taskflow_state result" where
  "record_questions env t s =
     res_bind (res_map open_question_from_dict (dt_questions t)) (\<lambda>qs.
       Inr (append_each env TEvt_OPEN_QUESTION_RECORDED (dt_actor t)
              (\<lambda>q. [(''question_id'', PStr (oq_id q))]) qs
              (on_clarification (tfc_open_questions_update (\<lambda>xs. upsert_by oq_id xs qs)) s)))"

definition record_rules :: "flow_env \<Rightarrow> discovery_turn \<Rightarrow> taskflow_state \<Rightarrow> taskflow_state result" where
  "record_rules env t s =
     res_bind (res_map rule_record_from_dict (dt_rules t)) (\<lambda>rs.
       Inr (append_each env TEvt_RULE_CONFIRMED (dt_actor t) (\<lambda>r. [(''rule_id'', PStr (rul_id r))])
              (filter (\<lambda>r. rul_status r = Rule_CONFIRMED) rs)
              (on_clarification (tfc_rules_update (\<lambda>xs. upsert_by rul_id xs rs)) s)))"

definition record_examples :: "flow_env \<Rightarrow> discovery_turn \<Rightarrow> taskflow_state \<Rightarrow> taskflow_state result" where
  "record_examples env t s =
     res_bind (res_map example_record_from_dict (dt_examples t)) (\<lambda>es.
       Inr (append_each env TEvt_EXAMPLE_RECORDED (dt_actor t)
              (\<lambda>e. [(''example_id'', PStr (exm_id e)), (''rule_id'', opt_val (exm_rule_id e))]) es
              (on_clarification (tfc_examples_update (\<lambda>xs. upsert_by exm_id xs es)) s)))"

definition record_acceptance_examples ::
  "flow_env \<Rightarrow> discovery_turn \<Rightarrow> taskflow_state \<Rightarrow> taskflow_state result" where
  "record_acceptance_examples env t s =
     res_bind (res_map acceptance_example_from_dict (dt_acceptance_examples t)) (\<lambda>es.
       Inr (append_each env TEvt_EXAMPLE_RECORDED (dt_actor t)
              (\<lambda>e. [(''example_id'', PStr (aex_id e)), (''rule_id'', opt_val (aex_rule_id e))]) es
              (on_clarification (tfc_acceptance_examples_update (\<lambda>xs. upsert_by aex_id xs es)) s)))"

definition record_decisions :: "flow_env \<Rightarrow> discovery_turn \<Rightarrow> taskflow_state \<Rightarrow> taskflow_state result" where
  "record_decisions env t s =
     res_bind (res_map decision_record_from_dict (dt_decisions t)) (\<lambda>ds.
       Inr (append_each env TEvt_DECISION_PROPOSED (dt_actor t) (\<lambda>d. [(''decision_id'', PStr (dr_id d))]) ds
              (tf_design_update (tfg_local_decisions_update (\<lambda>xs. upsert_by dr_id xs ds)) s)))"

definition record_turn :: "flow_env \<Rightarrow> discovery_turn \<Rightarrow> taskflow_state \<Rightarrow> taskflow_state result" where
  "record_turn env t s =
     res_bind (res_map assumption_from_dict (dt_assumptions t)) (\<lambda>as.
     res_bind (record_questions env t
        (on_clarification (tfc_assumptions_update (\<lambda>xs. upsert_by asm_id xs as))
          (tf_intent_update (turn_intent t) s))) (\<lambda>s.
     res_bind (record_rules env t s) (\<lambda>s.
     res_bind (record_examples env t s) (\<lambda>s.
     res_bind (record_acceptance_examples env t
        (on_clarification (tfc_scenarios_update
           (\<lambda>xs. upsert_by scn_id xs (map scenario_record_from_dict (dt_scenarios t)))) s)) (\<lambda>s.
     res_bind (record_decisions env t s) (\<lambda>s.
     res_bind (res_map work_item_candidate_from_dict (dt_work_item_candidates t)) (\<lambda>cs.
       Inr (append_taskflow_event env TEvt_DISCOVERY_TURN_RECORDED (dt_actor t)
              [(''rules'', PInt (int (length (dt_rules t)))),
               (''examples'', PInt (int (length (dt_examples t)))),
               (''questions'', PInt (int (length (dt_questions t)))),
               (''decisions'', PInt (int (length (dt_decisions t))))]
              (tf_outputs_update (tfo_work_item_candidates_update (\<lambda>xs. upsert_by wic_id xs cs)) s)))))))))"

section \<open>Answers\<close>

definition answer_question ::
  "flow_env \<Rightarrow> string \<Rightarrow> pyval \<Rightarrow> string \<Rightarrow> string \<Rightarrow> int option \<Rightarrow> taskflow_state \<Rightarrow> taskflow_state result" where
  "answer_question env question_id answer actor rationale confidence s =
     (if list_ex (\<lambda>q. oq_id q = question_id) (tfc_open_questions (tf_clarification s))
      then Inr (append_taskflow_event env TEvt_QUESTION_ANSWERED actor
             [(''question_id'', PStr question_id), (''answer'', answer)]
             (on_clarification (tfc_open_questions_update
                (change_first (\<lambda>q. oq_id q = question_id) (\<lambda>q. q
                   \<lparr>oq_answer := answer, oq_answered := True, oq_state := Ques_ANSWERED,
                    oq_answered_by := actor, oq_answered_at := once (oq_answered_at q) (fe_now env),
                    oq_answer_rationale := rationale, oq_confidence := confidence\<rparr>))) s))
      else Inl (ValueError (''question not found: '' @ question_id)))"

definition append_answer :: "pyobj \<Rightarrow> pyobj \<Rightarrow> pyobj result" where
  "append_answer answer metadata =
     (case pget_or metadata ''answers'' (PList []) of
        PList xs \<Rightarrow> Inr (dict_set ''answers'' (PList (xs @ [PDict answer])) metadata)
      | _ \<Rightarrow> Inl (AttributeError ''append''))"

definition confirm_rule :: "flow_env \<Rightarrow> string \<Rightarrow> string list \<Rightarrow> rule_record \<Rightarrow> rule_record" where
  "confirm_rule env actor linked r =
     (if rul_id r \<in> set linked
      then r\<lparr>rul_status := Rule_CONFIRMED, rul_confirmation_state := Conf_CONFIRMED_BY_USER,
             rul_confirmed_by := actor, rul_confirmed_at := Some (fe_now env)\<rparr>
      else r)"

definition chosen_by :: "string option \<Rightarrow> pyval \<Rightarrow> string option" where
  "chosen_by selected answer =
     (if opt_str selected \<noteq> [] then selected
      else case answer of PNone \<Rightarrow> None | PList _ \<Rightarrow> None | v \<Rightarrow> Some (py_str v))"

definition answer_decision ::
  "flow_env \<Rightarrow> string \<Rightarrow> string option \<Rightarrow> pyval \<Rightarrow> string \<Rightarrow> string \<Rightarrow> string \<Rightarrow> taskflow_state \<Rightarrow>
   (taskflow_state \<times> decision_answer) result" where
  "answer_decision env decision_id selected answer rationale actor source s =
     (case List.find (\<lambda>d. dr_id d = decision_id) (tfg_local_decisions (tf_design s)) of
        None \<Rightarrow> Inl (ValueError (''decision not found: '' @ decision_id))
      | Some d \<Rightarrow>
          (let a = \<lparr>dan_id = new_id env ''decision-answer'' 0, dan_decision_id = decision_id,
                 dan_selected_option_id = selected, dan_answer = answer, dan_rationale = rationale,
                 dan_actor = actor, dan_source = source,
                 dan_source_brief_version = tfo_current_brief_version (tf_outputs s),
                 dan_created_at = fe_now env, dan_metadata = []\<rparr>;
               linked = dr_linked_rule_ids d
           in res_bind (append_answer (decision_answer_to_dict a) (dr_metadata d)) (\<lambda>metadata.
                let d' = d\<lparr>dr_chosen := chosen_by selected answer,
                      dr_rationale := (if rationale \<noteq> [] then rationale else dr_rationale d),
                      dr_state := Conf_CONFIRMED_BY_USER, dr_answered_by := actor,
                      dr_answered_at := Some (fe_now env), dr_answer_source := source,
                      dr_answer_refs := dr_answer_refs d @ [dan_id a], dr_metadata := metadata\<rparr>;
                    s1 = append_taskflow_event env TEvt_DECISION_ANSWERED actor (decision_answer_to_dict a)
                      (tf_design_update (tfg_local_decisions_update
                        (change_first (\<lambda>d. dr_id d = decision_id) (\<lambda>_. d'))) s)
                in Inr (append_each env TEvt_RULE_CONFIRMED actor
                     (\<lambda>r. [(''rule_id'', PStr (rul_id r)), (''decision_id'', PStr decision_id)])
                     (filter (\<lambda>r. rul_id r \<in> set linked) (tfc_rules (tf_clarification s)))
                     (on_clarification (tfc_rules_update (map (confirm_rule env actor linked))) s1), a))))"

section \<open>Review cards\<close>

record review_card_action_v1 =
  ca_id :: string
  ca_label :: string
  ca_requires_value :: bool
  ca_requires_reason :: bool

record review_card_v1 =
  rc_id :: string
  rc_kind :: string
  rc_title :: string
  rc_prompt :: string
  rc_why_needed :: string
  rc_recommended_answer :: pyval
  rc_risk :: string
  rc_skip_consequence :: string
  rc_status :: string
  rc_source_refs :: "string list"
  rc_actions :: "review_card_action_v1 list"
  rc_metadata :: pyobj

definition review_card_action_v1_to_dict :: "review_card_action_v1 \<Rightarrow> pyobj" where
  "review_card_action_v1_to_dict a =
     [(''id'', PStr (ca_id a)), (''label'', PStr (ca_label a)),
      (''requires_value'', PBool (ca_requires_value a)),
      (''requires_reason'', PBool (ca_requires_reason a))]"

definition review_card_v1_to_dict :: "review_card_v1 \<Rightarrow> pyobj" where
  "review_card_v1_to_dict c =
     [(''id'', PStr (rc_id c)), (''kind'', PStr (rc_kind c)), (''title'', PStr (rc_title c)),
      (''prompt'', PStr (rc_prompt c)), (''why_needed'', PStr (rc_why_needed c)),
      (''recommended_answer'', rc_recommended_answer c), (''risk'', PStr (rc_risk c)),
      (''skip_consequence'', PStr (rc_skip_consequence c)), (''status'', PStr (rc_status c)),
      (''source_refs'', strs (rc_source_refs c)),
      (''actions'', docs review_card_action_v1_to_dict (rc_actions c)),
      (''metadata'', PDict (rc_metadata c))]"

definition standard_actions :: "bool \<Rightarrow> bool \<Rightarrow> review_card_action_v1 list" where
  "standard_actions accept_requires_value edit_requires_value =
     [\<lparr>ca_id = ''accept'', ca_label = ''Accept'', ca_requires_value = accept_requires_value, ca_requires_reason = False\<rparr>,
      \<lparr>ca_id = ''edit'', ca_label = ''Edit'', ca_requires_value = edit_requires_value, ca_requires_reason = False\<rparr>,
      \<lparr>ca_id = ''skip'', ca_label = ''Skip'', ca_requires_value = False, ca_requires_reason = True\<rparr>,
      \<lparr>ca_id = ''reopen'', ca_label = ''Reopen'', ca_requires_value = False, ca_requires_reason = True\<rparr>,
      \<lparr>ca_id = ''discuss'', ca_label = ''Discuss'', ca_requires_value = False, ca_requires_reason = False\<rparr>]"

definition card_id :: "taskflow_state \<Rightarrow> string \<Rightarrow> string \<Rightarrow> string" where
  "card_id s kind ident = tfm_taskflow_id (tf_meta s) @ '':'' @ kind @ '':'' @ ident"

definition first_text :: "string list \<Rightarrow> string" where
  "first_text xs = (case List.find (\<lambda>x. x \<noteq> []) xs of Some x \<Rightarrow> x | None \<Rightarrow> (if xs = [] then [] else last xs))"

definition question_card :: "taskflow_state \<Rightarrow> open_question \<Rightarrow> review_card_v1" where
  "question_card s q =
     \<lparr>rc_id = card_id s ''question'' (oq_id q), rc_kind = ''question'',
      rc_title = first_text [oq_question q, oq_id q], rc_prompt = oq_question q,
      rc_why_needed = oq_why_needed q, rc_recommended_answer = opt_val (oq_default_suggestion q),
      rc_risk = oq_risk_if_unknown q,
      rc_skip_consequence = ''Skipping leaves the '' @
        first_text [oq_blocking_scope q, if oq_blocks_dispatch q then ''dispatch''
          else if oq_blocks_compile q then ''compile'' else ''review''] @ '' boundary less certain.'',
      rc_status = question_state_value (oq_state q), rc_source_refs = oq_id q # oq_source_refs q,
      rc_actions = standard_actions (oq_default_suggestion q = None) True,
      rc_metadata = [(''answer_type'', PStr (oq_answer_type q)), (''options'', strs (oq_options q)),
        (''blocks_compile'', PBool (oq_blocks_compile q)),
        (''blocks_dispatch'', PBool (oq_blocks_dispatch q))]\<rparr>"

definition assumption_card :: "taskflow_state \<Rightarrow> assumption \<Rightarrow> review_card_v1" where
  "assumption_card s a =
     \<lparr>rc_id = card_id s ''assumption'' (asm_id a), rc_kind = ''assumption'',
      rc_title = ''Assumption: '' @ asm_statement a, rc_prompt = asm_statement a,
      rc_why_needed = first_text [asm_reason a, ''Assumptions must stay visible before compile.''],
      rc_recommended_answer = PStr ''accept'', rc_risk = asm_impact a,
      rc_skip_consequence = ''Skipping keeps this assumption unconfirmed in the brief.'',
      rc_status = confirmation_state_value (asm_state a), rc_source_refs = asm_id a # asm_source_refs a,
      rc_actions = standard_actions False True, rc_metadata = [(''impact'', PStr (asm_impact a))]\<rparr>"

definition decision_card :: "taskflow_state \<Rightarrow> decision_record \<Rightarrow> review_card_v1" where
  "decision_card s d =
     \<lparr>rc_id = card_id s ''decision'' (dr_id d), rc_kind = ''decision'',
      rc_title = first_text [dr_topic d, dr_question d, dr_id d],
      rc_prompt = first_text [dr_question d, dr_topic d],
      rc_why_needed = first_text [dr_why_it_matters d, dr_rationale d],
      rc_recommended_answer = opt_val (dr_recommended d),
      rc_risk = py_str (py_or (pget (dr_impact d) ''risk'')
        (py_or (pget (dr_impact d) ''level'') (PStr ''medium''))),
      rc_skip_consequence = ''Skipping leaves this decision unresolved and may stale the plan.'',
      rc_status = confirmation_state_value (dr_state d), rc_source_refs = [dr_id d],
      rc_actions = standard_actions (dr_recommended d = None) True,
      rc_metadata = [(''decision_type'', PStr (dr_decision_type d)),
        (''options'', docs decision_option_to_dict (dr_options d)), (''chosen'', opt_val (dr_chosen d))]\<rparr>"

definition render_cards :: "taskflow_state \<Rightarrow> review_card_v1 list" where
  "render_cards s =
     map (question_card s) (filter (\<lambda>q. oq_state q \<in> {Ques_OPEN, Ques_SKIPPED})
       (tfc_open_questions (tf_clarification s))) @
     map (assumption_card s) (filter (\<lambda>a. asm_state a \<in> {Conf_SUGGESTED_BY_SYSTEM,
         Conf_INFERRED_FROM_CONTEXT, Conf_UNRESOLVED, Conf_CONFIRMED_BY_USER})
       (tfc_assumptions (tf_clarification s))) @
     map (decision_card s) (tfg_local_decisions (tf_design s))"

section \<open>Actions on a card\<close>

text \<open>\<open>card_id.rsplit(":", 2)\<close>: the two last pieces, when there are three.\<close>

definition parse_v1_card_id :: "string \<Rightarrow> (string \<times> string) result" where
  "parse_v1_card_id ident =
     (case rev (split_on (CHR '':'') ident) of
        source # kind # _ # _ \<Rightarrow> Inr (kind, source)
      | _ \<Rightarrow> Inl (ValueError (''invalid review card id: '' @ ident)))"

text \<open>The value of an accept or an edit: the suggestion is only taken on an accept.\<close>

definition action_value :: "string \<Rightarrow> pyval \<Rightarrow> string option \<Rightarrow> string \<Rightarrow> string result" where
  "action_value action value suggestion message =
     (let v = (if action = ''edit'' then value else opt_val suggestion);
          v' = (if v = PNone then value else v)
      in if v' = PNone then Inl (ValueError message) else Inr (py_str v'))"

definition question_action ::
  "flow_env \<Rightarrow> string \<Rightarrow> pyval \<Rightarrow> string \<Rightarrow> string \<Rightarrow> open_question \<Rightarrow> open_question result" where
  "question_action env action value actor comment q =
     (if action = ''accept'' \<or> action = ''edit''
      then res_bind (action_value action value (oq_default_suggestion q) ''question action requires an answer'')
             (\<lambda>answer. Inr (q\<lparr>oq_answer := PStr answer, oq_answered := True, oq_answered_by := actor,
                oq_answered_at := Some (fe_now env), oq_answer_rationale := comment,
                oq_state := Ques_ANSWERED\<rparr>))
      else if action = ''skip''
      then Inr (q\<lparr>oq_answered := True, oq_answer := PNone, oq_answered_by := actor,
             oq_answered_at := Some (fe_now env),
             oq_answer_rationale := (if comment \<noteq> [] then comment else ''Skipped by user.''),
             oq_state := Ques_SKIPPED,
             oq_metadata := dict_set ''skip_consequence''
               (PStr (''Skipped with risk '' @ oq_risk_if_unknown q @ ''.'')) (oq_metadata q)\<rparr>)
      else if action = ''reopen''
      then Inr (q\<lparr>oq_answered := False, oq_answer := PNone, oq_answered_at := None,
             oq_answer_rationale := comment, oq_state := Ques_OPEN\<rparr>)
      else Inr q)"

definition skip_note :: "string \<Rightarrow> pyobj \<Rightarrow> pyobj" where
  "skip_note comment metadata =
     dict_set ''skip_consequence'' (PStr (if comment \<noteq> [] then comment else ''Skipped by user.'')) metadata"

definition assumption_action ::
  "string \<Rightarrow> pyval \<Rightarrow> string \<Rightarrow> assumption \<Rightarrow> assumption result" where
  "assumption_action action value comment a =
     (if action = ''accept'' then Inr (a\<lparr>asm_state := Conf_CONFIRMED_BY_USER\<rparr>)
      else if action = ''edit''
      then (if value = PNone then Inl (ValueError ''assumption edit requires value'')
            else Inr (a\<lparr>asm_statement := py_str value, asm_state := Conf_CONFIRMED_BY_USER\<rparr>))
      else if action = ''skip''
      then Inr (a\<lparr>asm_state := Conf_DEPRECATED, asm_metadata := skip_note comment (asm_metadata a)\<rparr>)
      else if action = ''reopen'' then Inr (a\<lparr>asm_state := Conf_UNRESOLVED\<rparr>)
      else Inr a)"

definition decision_action ::
  "flow_env \<Rightarrow> string \<Rightarrow> pyval \<Rightarrow> string \<Rightarrow> string \<Rightarrow> string \<Rightarrow> decision_record \<Rightarrow> decision_record result" where
  "decision_action env action value actor comment answer_id d =
     (if action = ''accept'' \<or> action = ''edit''
      then res_bind (action_value action value (dr_recommended d) ''decision action requires a chosen value'')
             (\<lambda>chosen. Inr (d\<lparr>dr_chosen := Some chosen, dr_rationale := comment,
                dr_state := Conf_CONFIRMED_BY_USER, dr_answered_by := actor,
                dr_answered_at := Some (fe_now env), dr_answer_source := ''review_card_v1'',
                dr_answer_refs := (if answer_id \<in> set (dr_answer_refs d) then dr_answer_refs d
                  else dr_answer_refs d @ [answer_id])\<rparr>))
      else if action = ''skip''
      then Inr (d\<lparr>dr_state := Conf_UNRESOLVED, dr_metadata := skip_note comment (dr_metadata d)\<rparr>)
      else if action = ''reopen'' then Inr (d\<lparr>dr_chosen := None, dr_state := Conf_UNRESOLVED\<rparr>)
      else Inr d)"

text \<open>Changing the first record with an id by an action that may raise.\<close>

definition act_on ::
  "('a \<Rightarrow> string) \<Rightarrow> string \<Rightarrow> string \<Rightarrow> ('a \<Rightarrow> 'a result) \<Rightarrow> 'a list \<Rightarrow> 'a list result" where
  "act_on key ident missing f xs =
     (case List.find (\<lambda>x. key x = ident) xs of
        None \<Rightarrow> Inl (ValueError (missing @ ident))
      | Some x \<Rightarrow> res_bind (f x) (\<lambda>y. Inr (change_first (\<lambda>x. key x = ident) (\<lambda>_. y) xs)))"

definition apply_card_action ::
  "flow_env \<Rightarrow> string \<Rightarrow> string \<Rightarrow> string \<Rightarrow> pyval \<Rightarrow> string \<Rightarrow> string \<Rightarrow> string \<Rightarrow> taskflow_state \<Rightarrow>
   taskflow_state result" where
  "apply_card_action env kind source_id action value actor comment answer_id s =
     (if kind = ''question''
      then res_bind (act_on oq_id source_id ''question not found: '' (question_action env action value actor comment)
                       (tfc_open_questions (tf_clarification s)))
             (\<lambda>xs. Inr (on_clarification (tfc_open_questions_update (\<lambda>_. xs)) s))
      else if kind = ''assumption''
      then res_bind (act_on asm_id source_id ''assumption not found: '' (assumption_action action value comment)
                       (tfc_assumptions (tf_clarification s)))
             (\<lambda>xs. Inr (on_clarification (tfc_assumptions_update (\<lambda>_. xs)) s))
      else if kind = ''decision''
      then res_bind (act_on dr_id source_id ''decision not found: ''
                       (decision_action env action value actor comment answer_id)
                       (tfg_local_decisions (tf_design s)))
             (\<lambda>xs. Inr (tf_design_update (tfg_local_decisions_update (\<lambda>_. xs)) s))
      else Inr s)"

definition card_actions :: "string list" where
  "card_actions = [''accept'', ''edit'', ''skip'', ''reopen'', ''discuss'']"

definition answer_card_v1 ::
  "flow_env \<Rightarrow> string \<Rightarrow> string \<Rightarrow> pyval \<Rightarrow> string \<Rightarrow> string \<Rightarrow> taskflow_state \<Rightarrow>
   (taskflow_state \<times> review_card_answer) result" where
  "answer_card_v1 env ident action value actor comment s =
     (let action = str_strip action
      in if action \<notin> set card_actions
         then Inl (ValueError (''unsupported review card action: '' @ action))
         else
           let a = \<lparr>rca_id = new_id env ''review-answer'' 0, rca_card_id = ident, rca_action = action,
                 rca_value = value, rca_comment = comment, rca_actor = actor, rca_answered_at = fe_now env,
                 rca_creates_event_type = TEvt_REVIEW_CARD_ANSWERED,
                 rca_metadata = [(''brief_version'', opt_int (tfo_current_brief_version (tf_outputs s))),
                   (''v1'', PBool True)]\<rparr>
           in res_bind (parse_v1_card_id ident) (\<lambda>(kind, source_id).
              res_bind (apply_card_action env kind source_id action value actor comment (rca_id a) s) (\<lambda>s.
              Inr (append_taskflow_event env
                     (if action = ''reopen'' then TEvt_REVIEW_CARD_REOPENED else TEvt_REVIEW_CARD_ANSWERED)
                     actor (review_card_answer_to_dict a)
                     (tf_outputs_update (tfo_review_card_answers_update (\<lambda>xs. xs @ [a])) s), a))))"

end
