(* ===== verification/FlowCompiler.thy ===== *)
theory FlowCompiler
  imports FlowReview
begin

text \<open>
  The plan compiler (\<open>src/labrastro_server/taskflow/compiler/plan_compiler.py\<close>): it collects the candidates for
  work items from the confirmed brief, decides for each whether an existing work item is reused, a new
  one derived from a similar one, or one created, and links it to the goal, to its decisions and to what
  it has to satisfy.

  \<^item> When the brief holds no candidates the compiler works on the candidates of the state themselves, and
    adding the scenarios of the acceptance examples to a candidate then changes the state: \<open>compile_plan\<close>
    returns the state as well.
\<close>

section \<open>Plans\<close>

record compiled_candidate =
  cc_candidate_id :: string
  cc_title :: string
  cc_description :: string
  cc_type :: string
  cc_action :: string
  cc_work_item_id :: string
  cc_reuse_work_item_id :: "string option"
  cc_dedupe_key :: "string option"
  cc_relation_type :: string
  cc_rationale :: string
  cc_acceptance_refs :: "string list"
  cc_decision_refs :: "string list"
  cc_artifact_refs :: "string list"
  cc_scenario_refs :: "string list"
  cc_risk_refs :: "string list"
  cc_depends_on :: "string list"
  cc_metadata :: pyobj

definition compiled_candidate_to_dict :: "compiled_candidate \<Rightarrow> pyobj" where
  "compiled_candidate_to_dict c =
     [(''candidate_id'', PStr (cc_candidate_id c)), (''title'', PStr (cc_title c)),
      (''description'', PStr (cc_description c)), (''type'', PStr (cc_type c)),
      (''action'', PStr (cc_action c)), (''work_item_id'', PStr (cc_work_item_id c)),
      (''reuse_work_item_id'', opt_val (cc_reuse_work_item_id c)),
      (''dedupe_key'', opt_val (cc_dedupe_key c)), (''relation_type'', PStr (cc_relation_type c)),
      (''rationale'', PStr (cc_rationale c)), (''acceptance_refs'', strs (cc_acceptance_refs c)),
      (''decision_refs'', strs (cc_decision_refs c)), (''artifact_refs'', strs (cc_artifact_refs c)),
      (''scenario_refs'', strs (cc_scenario_refs c)), (''risk_refs'', strs (cc_risk_refs c)),
      (''depends_on'', strs (cc_depends_on c)), (''metadata'', PDict (cc_metadata c))]"

record plan_draft =
  pd_id :: string
  pd_taskflow_id :: string
  pd_project_id :: string
  pd_goal_id :: string
  pd_objective :: string
  pd_scope :: "(string, string list) pydict"
  pd_work_item_candidates :: "compiled_candidate list"
  pd_goal_work_links :: "goal_work_link list"
  pd_decision_work_links :: "trace_link list"
  pd_acceptance_trace_links :: "trace_link list"
  pd_future_goal_candidates :: "string list"
  pd_risks :: "pyobj list"
  pd_assumptions :: "pyobj list"
  pd_unresolved_questions :: "pyobj list"
  pd_created_at :: string
  pd_compiler_version :: string

definition plan_draft_to_dict :: "plan_draft \<Rightarrow> pyobj" where
  "plan_draft_to_dict p =
     [(''id'', PStr (pd_id p)), (''taskflow_id'', PStr (pd_taskflow_id p)),
      (''project_id'', PStr (pd_project_id p)), (''goal_id'', PStr (pd_goal_id p)),
      (''objective'', PStr (pd_objective p)), (''scope'', strs_pairs (pd_scope p)),
      (''work_item_candidates'', docs compiled_candidate_to_dict (pd_work_item_candidates p)),
      (''goal_work_links'', docs goal_work_link_to_dict (pd_goal_work_links p)),
      (''decision_work_links'', docs trace_link_to_dict (pd_decision_work_links p)),
      (''acceptance_trace_links'', docs trace_link_to_dict (pd_acceptance_trace_links p)),
      (''future_goal_candidates'', strs (pd_future_goal_candidates p)), (''risks'', dicts (pd_risks p)),
      (''assumptions'', dicts (pd_assumptions p)),
      (''unresolved_questions'', dicts (pd_unresolved_questions p)),
      (''created_at'', PStr (pd_created_at p)), (''compiler_version'', PStr (pd_compiler_version p))]"

section \<open>Reading the confirmed brief\<close>

definition confirmed_current_brief :: "taskflow_state \<Rightarrow> brief_version_record option" where
  "confirmed_current_brief s =
     (let out = tf_outputs s
      in if tfo_current_brief_version out \<noteq> tfo_confirmed_brief_version out then None
         else List.find (\<lambda>b. Some (bv_version b) = tfo_confirmed_brief_version out) (tfo_brief_versions out))"

text \<open>A section of the confirmed brief, or else of the state.\<close>

definition brief_or ::
  "taskflow_state \<Rightarrow> (brief_version_record \<Rightarrow> pyobj list) \<Rightarrow> (pyobj \<Rightarrow> 'a result) \<Rightarrow> 'a list \<Rightarrow> 'a list result" where
  "brief_or s field from_dict own =
     (case confirmed_current_brief s of None \<Rightarrow> Inr own | Some b \<Rightarrow> res_map from_dict (field b))"

definition normalized_text :: "string \<Rightarrow> string" where
  "normalized_text value = str_join ''-'' (words_of (str_strip (str_lower value)))"

section \<open>What a candidate has to satisfy\<close>

record acceptance_parts =
  aa_rules :: "string list"
  aa_finished :: "string list"
  aa_tests :: "string list"
  aa_outputs :: "string list"
  aa_scenarios :: "string list"

definition given_text :: "string option \<Rightarrow> string list" where
  "given_text x = (if opt_str x \<noteq> [] then [opt_str x] else [])"

definition add_example :: "string list \<Rightarrow> example_record \<Rightarrow> acceptance_parts \<Rightarrow> acceptance_parts" where
  "add_example wanted e a =
     (if exm_id e \<notin> set wanted then a
      else a\<lparr>aa_rules := extend_new (given_text (exm_rule_id e)) (aa_rules a),
             aa_finished := extend_new (exm_then e) (aa_finished a),
             aa_tests := (if exm_title e \<noteq> [] \<and> aa_tests a = []
                then [''Verify example: '' @ exm_title e] else aa_tests a),
             aa_outputs := extend_new (exm_observable_outputs e) (aa_outputs a)\<rparr>)"

definition add_acceptance_example ::
  "string list \<Rightarrow> acceptance_example \<Rightarrow> acceptance_parts \<Rightarrow> acceptance_parts" where
  "add_acceptance_example wanted e a =
     (if aex_id e \<notin> set wanted then a
      else a\<lparr>aa_rules := extend_new (given_text (aex_rule_id e)) (aa_rules a),
             aa_scenarios := extend_new (given_text (aex_scenario_ref e)) (aa_scenarios a),
             aa_finished := extend_new (aex_definition_of_done e) (aa_finished a),
             aa_tests := extend_new (aex_test_suggestions e) (aa_tests a),
             aa_outputs := extend_new (aex_observable_outputs e) (aa_outputs a)\<rparr>)"

definition add_rule :: "string list \<Rightarrow> rule_record \<Rightarrow> acceptance_parts \<Rightarrow> acceptance_parts" where
  "add_rule wanted r a =
     (if list_ex (\<lambda>x. x \<in> set wanted) (rul_example_ids r @ rul_scenario_ids r)
      then a\<lparr>aa_rules := extend_new [rul_id r] (aa_rules a)\<rparr> else a)"

definition add_decision :: "string list \<Rightarrow> decision_record \<Rightarrow> acceptance_parts \<Rightarrow> acceptance_parts" where
  "add_decision decision_refs d a =
     (if list_ex (\<lambda>r. r \<notin> set (aa_rules a)) (dr_linked_rule_ids d) \<and> dr_id d \<in> set decision_refs
      then a\<lparr>aa_rules := extend_new (dr_linked_rule_ids d) (aa_rules a)\<rparr> else a)"

text \<open>The candidate is returned with the scenarios that were added to it.\<close>

definition acceptance_metadata ::
  "taskflow_state \<Rightarrow> work_item_candidate \<Rightarrow> (pyobj \<times> work_item_candidate) result" where
  "acceptance_metadata s c =
     (let wanted = wic_acceptance_refs c @ wic_scenario_refs c; cl = tf_clarification s
      in res_bind (brief_or s bv_examples example_record_from_dict (tfc_examples cl)) (\<lambda>examples.
         res_bind (brief_or s bv_acceptance_examples acceptance_example_from_dict
                     (tfc_acceptance_examples cl)) (\<lambda>acceptance_examples.
         res_bind (brief_or s bv_rules rule_record_from_dict (tfc_rules cl)) (\<lambda>rules.
         res_bind (brief_or s bv_decisions decision_record_from_dict
                     (tfg_local_decisions (tf_design s))) (\<lambda>decisions.
         res_bind (brief_or s bv_risks (\<lambda>d. Inr (risk_record_from_dict d)) (tfg_risks (tf_design s))) (\<lambda>risks.
           let a = fold (add_decision (wic_decision_refs c)) decisions
                 (fold (add_rule wanted) rules
                 (fold (add_acceptance_example wanted) acceptance_examples
                 (fold (add_example wanted) examples
                   \<lparr>aa_rules = [], aa_finished = [], aa_tests = [], aa_outputs = [],
                    aa_scenarios = wic_scenario_refs c\<rparr>)));
               level = (case List.find (\<lambda>r. rsk_id r \<in> set (wic_risk_refs c)) risks of
                  Some r \<Rightarrow> rsk_impact r | None \<Rightarrow> ''medium'')
           in Inr ([(''source_brief_version'', opt_int (tfo_confirmed_brief_version (tf_outputs s))),
                    (''rule_ids'', strs (aa_rules a)), (''scenario_ids'', strs (aa_scenarios a)),
                    (''definition_of_done'', strs (aa_finished a)), (''test_suggestions'', strs (aa_tests a)),
                    (''observable_outputs'', strs (aa_outputs a)), (''risk_level'', PStr level),
                    (''estimated_size'', pget (wic_metadata c) ''estimated_size'')],
                   c\<lparr>wic_scenario_refs := aa_scenarios a\<rparr>)))))))"

section \<open>One candidate\<close>

definition dedupe_key_of :: "taskflow_state \<Rightarrow> work_item_candidate \<Rightarrow> string" where
  "dedupe_key_of s c =
     str_join '':'' (filter (\<lambda>part. part \<noteq> [])
       [tfm_project_id (tf_meta s), opt_str (wic_repo_ref c), opt_str (wic_workspace_ref c),
        work_item_type_value (wic_type c), normalized_text (wic_title c),
        str_join '','' (sort (wic_acceptance_refs c)), str_join '','' (sort (wic_decision_refs c)),
        str_join '','' (sort (wic_artifact_refs c))])"

definition texts_or :: "string list \<Rightarrow> string list \<Rightarrow> string list" where
  "texts_or xs ys = (if xs \<noteq> [] then xs else ys)"

definition compiled_from_reuse ::
  "taskflow_state \<Rightarrow> work_item_candidate \<Rightarrow> work_item \<Rightarrow> string \<Rightarrow>
   (compiled_candidate \<times> work_item_candidate) result" where
  "compiled_from_reuse s c item key =
     res_bind (acceptance_metadata s c) (\<lambda>(acceptance, c).
       Inr (\<lparr>cc_candidate_id = wic_id c, cc_title = wic_title c, cc_description = wic_description c,
              cc_type = work_item_type_value (wic_type c), cc_action = ''reuse'',
              cc_work_item_id = wi_id item, cc_reuse_work_item_id = Some (wi_id item),
              cc_dedupe_key = Some key,
              cc_relation_type = goal_work_relation_type_value (wic_relation_type c),
              cc_rationale = ''Existing WorkItem matched the compiler dedupe key.'',
              cc_acceptance_refs = texts_or (wic_acceptance_refs c) (wi_acceptance_refs item),
              cc_decision_refs = texts_or (wic_decision_refs c) (wi_decision_refs item),
              cc_artifact_refs = texts_or (wic_artifact_refs c) (wi_artifact_refs item),
              cc_scenario_refs = wic_scenario_refs c, cc_risk_refs = wic_risk_refs c,
              cc_depends_on = texts_or (wic_depends_on c) (wi_depends_on item),
              cc_metadata = dict_setdefault ''acceptance'' (PDict acceptance) (wic_metadata c)\<rparr>, c))"

definition compiled_from_new ::
  "taskflow_state \<Rightarrow> work_item_candidate \<Rightarrow> string \<Rightarrow> string option \<Rightarrow> string \<Rightarrow>
   (compiled_candidate \<times> work_item_candidate) result" where
  "compiled_from_new s c key derived_from rationale =
     (let depends_on = extend_new (given_text derived_from) (wic_depends_on c)
      in res_bind (acceptance_metadata s c) (\<lambda>(acceptance, c).
           Inr (\<lparr>cc_candidate_id = wic_id c, cc_title = wic_title c, cc_description = wic_description c,
                  cc_type = work_item_type_value (wic_type c), cc_action = ''create'',
                  cc_work_item_id = ''work-'' @ wic_id c, cc_reuse_work_item_id = None,
                  cc_dedupe_key = Some key,
                  cc_relation_type = goal_work_relation_type_value (wic_relation_type c),
                  cc_rationale = rationale, cc_acceptance_refs = wic_acceptance_refs c,
                  cc_decision_refs = wic_decision_refs c, cc_artifact_refs = wic_artifact_refs c,
                  cc_scenario_refs = wic_scenario_refs c, cc_risk_refs = wic_risk_refs c,
                  cc_depends_on = depends_on,
                  cc_metadata = dict_setdefault ''acceptance'' (PDict acceptance)
                    (dict_update [(''derived_from'', opt_val derived_from)] (wic_metadata c))\<rparr>, c)))"

definition override_rationale :: "string \<Rightarrow> string \<Rightarrow> string \<Rightarrow> string" where
  "override_rationale label reason base =
     (let reason = str_strip reason
      in if reason \<noteq> [] then label @ '': '' @ reason @ ''. '' @ base else label @ ''. '' @ base)"

definition compiler_review_override :: "taskflow_state \<Rightarrow> string \<Rightarrow> pyobj" where
  "compiler_review_override s candidate_id =
     (case pget (tcs_traceability_index (tf_compiler s)) ''compiler_review_overrides'' of
        PDict overrides \<Rightarrow> (case pget overrides candidate_id of PDict d \<Rightarrow> d | _ \<Rightarrow> [])
      | _ \<Rightarrow> [])"

definition work_item_named :: "project_state \<Rightarrow> string \<Rightarrow> work_item option" where
  "work_item_named p ident =
     (if ident = [] then None else List.find (\<lambda>i. wi_id i = ident) (list_work_items p))"

definition noted :: "string \<Rightarrow> string \<Rightarrow> pyobj \<Rightarrow> compiled_candidate \<Rightarrow> compiled_candidate" where
  "noted label reason override c =
     c\<lparr>cc_rationale := override_rationale label reason (cc_rationale c),
       cc_metadata := dict_set ''compiler_review_override'' (PDict override) (cc_metadata c)\<rparr>"

definition override_target :: "pyval \<Rightarrow> string" where
  "override_target value =
     (case value of PDict d \<Rightarrow> str_strip (str_or_empty (pget d ''work_item_id''))
      | v \<Rightarrow> str_strip (str_or_empty v))"

text \<open>Without an override: the same delivery is reused, a similar one derived from, else one is created.\<close>

definition compile_plainly ::
  "taskflow_state \<Rightarrow> project_state \<Rightarrow> string \<Rightarrow> work_item_candidate \<Rightarrow>
   (compiled_candidate \<times> work_item_candidate) result" where
  "compile_plainly s p key c =
     (case find_work_item_by_dedupe_key p key of
        Some item \<Rightarrow> compiled_from_reuse s c item key
      | None \<Rightarrow>
          (case find_similar_work_items p (wic_title c) (work_item_type_value (wic_type c)) of
             item # _ \<Rightarrow>
               (if wic_acceptance_refs c \<noteq> []
                then compiled_from_new s c key (Some (wi_id item))
                  ''Similar title/type found, but acceptance boundary is distinct; create derived WorkItem.''
                else compiled_from_new s c key None ''No reusable WorkItem matched the dedupe key.'')
           | [] \<Rightarrow> compiled_from_new s c key None ''No reusable WorkItem matched the dedupe key.''))"

definition compile_candidate ::
  "taskflow_state \<Rightarrow> project_state \<Rightarrow> work_item_candidate \<Rightarrow>
   (compiled_candidate option \<times> work_item_candidate) result" where
  "compile_candidate s p c =
     (let key = (if opt_str (wic_dedupe_key c) \<noteq> [] then opt_str (wic_dedupe_key c) else dedupe_key_of s c);
          override = compiler_review_override s (wic_id c);
          action = str_or_empty (pget override ''action'');
          reason = str_or_empty (pget override ''reason'');
          target = work_item_named p (override_target (pget override ''value''));
          plainly = res_bind (compile_plainly s p key c) (\<lambda>(x, c).
            Inr (Some (if action = ''split'' then noted ''Split requested'' reason override x else x), c))
      in if action = ''reject'' then Inr (None, c)
         else if action = ''force_reuse''
         then (case target of
                 Some item \<Rightarrow> res_bind (compiled_from_reuse s c item key) (\<lambda>(x, c).
                   Inr (Some (noted ''Forced reuse'' reason override x), c))
               | None \<Rightarrow> plainly)
         else if action = ''force_create''
         then res_bind (compiled_from_new s c (key @ '':force-create'') None
                          ''Compiler review required a separate WorkItem boundary.'') (\<lambda>(x, c).
                Inr (Some ((noted ''Forced create'' reason override x)
                  \<lparr>cc_work_item_id := ''work-'' @ wic_id c @ ''-force-create''\<rparr>), c))
         else plainly)"

section \<open>The candidates\<close>

definition bare_candidate ::
  "string \<Rightarrow> string \<Rightarrow> string \<Rightarrow> work_item_type \<Rightarrow> string list \<Rightarrow> string list \<Rightarrow> string list \<Rightarrow> string \<Rightarrow> work_item_candidate" where
  "bare_candidate ident title description type acceptance_refs scenario_refs risk_refs key =
     \<lparr>wic_id = ident, wic_title = title, wic_description = description, wic_type = type,
      wic_acceptance_refs = acceptance_refs, wic_decision_refs = [], wic_artifact_refs = [],
      wic_scenario_refs = scenario_refs, wic_risk_refs = risk_refs, wic_repo_ref = None,
      wic_workspace_ref = None, wic_dedupe_key = Some key, wic_derived_from = None, wic_depends_on = [],
      wic_relation_type = GRel_DIRECT_DELIVERY, wic_metadata = []\<rparr>"

definition implementation_key :: "taskflow_state \<Rightarrow> string \<Rightarrow> string" where
  "implementation_key s title = tfm_project_id (tf_meta s) @ '':implementation:'' @ normalized_text title"

definition candidate_from_scenario :: "taskflow_state \<Rightarrow> scenario_record \<Rightarrow> work_item_candidate" where
  "candidate_from_scenario s x =
     bare_candidate (''scenario-'' @ scn_id x) (''Implement scenario: '' @ scn_title x)
       (str_join [newline] (scn_given x @ scn_when x @ scn_then x)) WType_IMPLEMENTATION [] [scn_id x] []
       (implementation_key s (scn_title x))"

definition candidate_from_example :: "taskflow_state \<Rightarrow> example_record \<Rightarrow> work_item_candidate" where
  "candidate_from_example s x =
     bare_candidate (''example-'' @ exm_id x) (''Implement example: '' @ exm_title x)
       (str_join [newline] (exm_given x @ exm_when x @ exm_then x)) WType_IMPLEMENTATION [exm_id x] [exm_id x] []
       (implementation_key s (exm_title x))"

definition candidate_from_acceptance :: "taskflow_state \<Rightarrow> acceptance_example \<Rightarrow> work_item_candidate" where
  "candidate_from_acceptance s x =
     bare_candidate (''acceptance-'' @ aex_id x) (''Implement acceptance: '' @ aex_title x)
       (str_join [newline] (aex_given x @ aex_when x @ aex_then x)) WType_IMPLEMENTATION [aex_id x]
       (given_text (aex_scenario_ref x)) [] (implementation_key s (aex_title x))"

definition risk_work_item_type :: "risk_record \<Rightarrow> work_item_type" where
  "risk_work_item_type r =
     (let text = str_lower (rsk_statement r @ '' '' @ rsk_mitigation r)
      in if contains_any [''ops'', ''rollout'', ''deploy'', ''runbook''] text then WType_OPS
         else if contains_any [''test'', ''coverage'', ''regression''] text then WType_TEST
         else if contains_any [''research'', ''investigate''] text then WType_RESEARCH
         else WType_SPIKE)"

definition candidate_from_risk :: "taskflow_state \<Rightarrow> risk_record \<Rightarrow> work_item_candidate" where
  "candidate_from_risk s r =
     bare_candidate (''risk-'' @ rsk_id r) (''Mitigate risk: '' @ rsk_statement r)
       (if rsk_mitigation r \<noteq> [] then rsk_mitigation r else rsk_statement r) (risk_work_item_type r) [] []
       [rsk_id r] (tfm_project_id (tf_meta s) @ '':risk:'' @ normalized_text (rsk_statement r))"

text \<open>Whether the candidates of the state themselves are in the pool, and the pool.\<close>

definition candidate_pool :: "taskflow_state \<Rightarrow> (bool \<times> work_item_candidate list) result" where
  "candidate_pool s =
     (let own = (case confirmed_current_brief s of None \<Rightarrow> True | Some b \<Rightarrow> bv_work_item_candidates b = []);
          cl = tf_clarification s
      in res_bind (if own then Inr (tfo_work_item_candidates (tf_outputs s))
                   else brief_or s bv_work_item_candidates work_item_candidate_from_dict []) (\<lambda>explicit.
         res_bind (brief_or s bv_scenarios (\<lambda>d. Inr (scenario_record_from_dict d)) (tfc_scenarios cl)) (\<lambda>scenarios.
         res_bind (brief_or s bv_examples example_record_from_dict (tfc_examples cl)) (\<lambda>examples.
         res_bind (brief_or s bv_acceptance_examples acceptance_example_from_dict
                     (tfc_acceptance_examples cl)) (\<lambda>acceptance_examples.
         res_bind (brief_or s bv_risks (\<lambda>d. Inr (risk_record_from_dict d)) (tfg_risks (tf_design s))) (\<lambda>risks.
           let represented = concat (map (\<lambda>c. wic_acceptance_refs c @ wic_scenario_refs c) explicit);
               represented_risks = concat (map wic_risk_refs explicit)
           in Inr (own, explicit @
                map (candidate_from_scenario s) (filter (\<lambda>x. scn_id x \<notin> set represented) scenarios) @
                map (candidate_from_example s) (filter (\<lambda>x. exm_id x \<notin> set represented) examples) @
                map (candidate_from_acceptance s)
                  (filter (\<lambda>x. aex_id x \<notin> set represented) acceptance_examples) @
                map (candidate_from_risk s) (filter (\<lambda>r.
                  str_lower (rsk_impact r) \<in> {''high'', ''critical''} \<and> rsk_id r \<notin> set represented_risks) risks))))))))"

section \<open>Links\<close>

definition plan_link ::
  "flow_env \<Rightarrow> string \<Rightarrow> trace_entity_type \<Rightarrow> string \<Rightarrow> trace_entity_type \<Rightarrow> string \<Rightarrow> trace_relation_type \<Rightarrow>
   string \<Rightarrow> trace_link" where
  "plan_link env project_id source_type source_id target_type target_id relation rationale =
     \<lparr>tlk_id = [], tlk_project_id = project_id, tlk_source_type = source_type, tlk_source_id = source_id,
      tlk_target_type = target_type, tlk_target_id = target_id, tlk_relation_type = relation,
      tlk_rationale = rationale, tlk_created_at = fe_now env\<rparr>"

text \<open>Links draw their identifiers in the order in which they are made.\<close>

definition number_links :: "flow_env \<Rightarrow> nat \<Rightarrow> trace_link list \<Rightarrow> trace_link list" where
  "number_links env n links = map (\<lambda>(k, l). l\<lparr>tlk_id := new_id env ''trace'' k\<rparr>) (enumerate n links)"

text \<open>What a loop over a value runs through.\<close>

definition iterated :: "pyval \<Rightarrow> pyval list result" where
  "iterated v =
     (case v of PList xs \<Rightarrow> Inr xs | PStr t \<Rightarrow> Inr (map (\<lambda>c. PStr [c]) t)
      | PDict d \<Rightarrow> Inr (map PStr (dict_keys d)) | _ \<Rightarrow> Inl (TypeError ''object is not iterable''))"

definition texts_in :: "pyobj \<Rightarrow> string \<Rightarrow> string list result" where
  "texts_in d key = res_bind (iterated (pget_or d key (PList []))) (\<lambda>xs. Inr (map py_str xs))"

definition acceptance_of :: "pyobj \<Rightarrow> pyobj result" where
  "acceptance_of metadata =
     (case pget_or metadata ''acceptance'' (PDict []) of
        PDict d \<Rightarrow> Inr d | _ \<Rightarrow> Inl (AttributeError ''get''))"

definition decision_index :: "taskflow_state \<Rightarrow> (string, pyobj) pydict" where
  "decision_index s =
     (case confirmed_current_brief s of
        Some b \<Rightarrow> fold (\<lambda>d ix. dict_set (py_str (pget d ''id'')) d ix) (bv_decisions b) []
      | None \<Rightarrow> fold (\<lambda>d ix. dict_set (dr_id d) (decision_record_to_dict d) ix)
                 (tfg_local_decisions (tf_design s)) [])"

definition decision_links ::
  "flow_env \<Rightarrow> taskflow_state \<Rightarrow> compiled_candidate \<Rightarrow> trace_link list result" where
  "decision_links env s c =
     (let link = (\<lambda>type ident rel why. plan_link env (tfm_project_id (tf_meta s)) type ident
            TEnt_WORK_ITEM (cc_work_item_id c) rel why);
          index = decision_index s
      in res_bind (res_map (\<lambda>r. case dict_get index r of None \<Rightarrow> Inr [] | Some d \<Rightarrow> texts_in d ''answer_refs'')
                     (cc_decision_refs c)) (\<lambda>answers.
           Inr (map (\<lambda>r. link TEnt_DECISION r TRel_IMPLEMENTS
                  (''Decision '' @ r @ '' shapes '' @ cc_title c @ ''.'')) (cc_decision_refs c) @
                map (\<lambda>r. link TEnt_DECISION_ANSWER r TRel_EXPLAINS
                  (''Decision answer '' @ r @ '' shapes '' @ cc_title c @ ''.'')) (concat answers))))"

definition acceptance_links ::
  "flow_env \<Rightarrow> taskflow_state \<Rightarrow> compiled_candidate \<Rightarrow> trace_link list result" where
  "acceptance_links env s c =
     (let link = (\<lambda>type ident rel why. plan_link env (tfm_project_id (tf_meta s)) type ident
            TEnt_WORK_ITEM (cc_work_item_id c) rel why);
          brief = confirmed_current_brief s; (examples, scenarios, _) = snapshot_refs s brief
      in res_bind (acceptance_of (cc_metadata c)) (\<lambda>acceptance.
         res_bind (texts_in acceptance ''rule_ids'') (\<lambda>rules.
           let version = pget acceptance ''source_brief_version''
           in Inr (map (\<lambda>r. link (if r \<in> set scenarios \<and> r \<notin> set examples then TEnt_SCENARIO else TEnt_EXAMPLE)
                     r TRel_VALIDATES (''Acceptance example '' @ r @ '' validates '' @ cc_title c @ ''.''))
                     (sort (remdups (cc_acceptance_refs c))) @
                   map (\<lambda>r. link TEnt_SCENARIO r TRel_VALIDATES
                     (''Scenario '' @ r @ '' validates '' @ cc_title c @ ''.''))
                     (sort (remdups (cc_scenario_refs c))) @
                   map (\<lambda>r. link TEnt_RULE r TRel_VALIDATES
                     (''Rule '' @ r @ '' constrains '' @ cc_title c @ ''.'')) rules @
                   (if version = PNone then []
                    else [link TEnt_BRIEF (case brief of Some b \<Rightarrow> bv_id b
                              | None \<Rightarrow> ''brief-v'' @ py_str version) TRel_EXPLAINS
                            (''Brief v'' @ py_str version @ '' produced '' @ cc_title c @ ''.'')])))))"

definition goal_link ::
  "flow_env \<Rightarrow> nat \<Rightarrow> taskflow_state \<Rightarrow> compiled_candidate \<Rightarrow> goal_work_link result" where
  "goal_link env k s c =
     res_bind (enum_of goal_work_relation_type_value (cc_relation_type c)) (\<lambda>relation.
       Inr \<lparr>gwl_id = new_id env ''goal-work-link'' k, gwl_project_id = tfm_project_id (tf_meta s),
             gwl_goal_id = tfm_goal_id (tf_meta s), gwl_work_item_id = cc_work_item_id c,
             gwl_relation_type = relation, gwl_rationale = cc_rationale c, gwl_contribution_weight = None,
             gwl_hard_blocker = False, gwl_acceptance_refs = cc_acceptance_refs c,
             gwl_decision_refs = cc_decision_refs c, gwl_created_at = fe_now env,
             gwl_updated_at = fe_now env\<rparr>)"

section \<open>The plan\<close>

record compiled_parts =
  cp_compiled :: "compiled_candidate list"
  cp_goal :: "goal_work_link list"
  cp_decision :: "trace_link list"
  cp_acceptance :: "trace_link list"
  cp_pool :: "work_item_candidate list"

fun compile_pool ::
  "flow_env \<Rightarrow> taskflow_state \<Rightarrow> project_state \<Rightarrow> work_item_candidate list \<Rightarrow> compiled_parts \<Rightarrow> compiled_parts result" where
  "compile_pool env s p [] parts = Inr parts"
| "compile_pool env s p (c # cs) parts =
     res_bind (compile_candidate s p c) (\<lambda>(compiled, c).
       let parts = parts\<lparr>cp_pool := cp_pool parts @ [c]\<rparr>
       in case compiled of
            None \<Rightarrow> compile_pool env s p cs parts
          | Some x \<Rightarrow>
              res_bind (goal_link env (length (cp_goal parts)) s x) (\<lambda>g.
              res_bind (decision_links env s x) (\<lambda>ds.
              res_bind (acceptance_links env s x) (\<lambda>as.
                let n = length (cp_decision parts) + length (cp_acceptance parts)
                in compile_pool env s p cs (parts
                     \<lparr>cp_compiled := cp_compiled parts @ [x], cp_goal := cp_goal parts @ [g],
                      cp_decision := cp_decision parts @ number_links env n ds,
                      cp_acceptance := cp_acceptance parts @ number_links env (n + length ds) as\<rparr>)))))"

definition no_parts :: compiled_parts where
  "no_parts = \<lparr>cp_compiled = [], cp_goal = [], cp_decision = [], cp_acceptance = [], cp_pool = []\<rparr>"

definition compile_plan ::
  "flow_env \<Rightarrow> taskflow_state \<Rightarrow> project_state \<Rightarrow> (plan_draft \<times> taskflow_state) result" where
  "compile_plan env s p =
     res_bind (candidate_pool s) (\<lambda>(own, pool).
     res_bind (compile_pool env s p pool no_parts) (\<lambda>parts.
       let m = tf_meta s; i = tf_intent s; own_candidates = length (tfo_work_item_candidates (tf_outputs s))
       in Inr (\<lparr>pd_id = new_id env ''plan-draft'' 0, pd_taskflow_id = tfm_taskflow_id m,
                 pd_project_id = tfm_project_id m, pd_goal_id = tfm_goal_id m,
                 pd_objective = tfi_goal_statement i, pd_scope = brief_scope s,
                 pd_work_item_candidates = cp_compiled parts, pd_goal_work_links = cp_goal parts,
                 pd_decision_work_links = cp_decision parts, pd_acceptance_trace_links = cp_acceptance parts,
                 pd_future_goal_candidates = tfv_future_goal_candidates (tf_delivery s),
                 pd_risks = map risk_record_to_dict (tfg_risks (tf_design s)),
                 pd_assumptions = map assumption_to_dict (tfc_assumptions (tf_clarification s)),
                 pd_unresolved_questions = map open_question_to_dict
                   (filter (\<lambda>q. \<not> oq_answered q) (tfc_open_questions (tf_clarification s))),
                 pd_created_at = fe_now env, pd_compiler_version = ''plan_compiler.v1''\<rparr>,
               if own then tf_outputs_update (tfo_work_item_candidates_update
                 (\<lambda>_. take own_candidates (cp_pool parts))) s else s)))"

end
