(* ===== verification/FlowDecisions.thy ===== *)
theory FlowDecisions
  imports FlowCompiler
begin

text \<open>
  The decisions of the compiler as they are shown, reviewed and overridden
  (\<open>src/labrastro_server/taskflow/application/compiler_review_service.py\<close>) and the memory of a project with the
  patches to it (\<open>application/project_memory_service.py\<close>).
\<close>

section \<open>Compiler decisions\<close>

definition sorted_minus :: "string list \<Rightarrow> string list \<Rightarrow> string list" where
  "sorted_minus xs ys = sort (remdups (filter (\<lambda>x. x \<notin> set ys) xs))"

definition reason_for_action :: "string \<Rightarrow> string" where
  "reason_for_action action =
     (if action = ''reuse'' then ''Existing WorkItem matched the compiler reuse boundary.''
      else if action = ''derive'' then ''Similar WorkItem exists, but acceptance boundary differs.''
      else ''No reusable WorkItem matched the compiler boundary.'')"

definition decision_from_candidate :: "project_state \<Rightarrow> string \<Rightarrow> compiled_candidate \<Rightarrow> pyobj" where
  "decision_from_candidate p plan_id c =
     (let action = (if cc_action c \<noteq> [] then cc_action c else ''create'');
          derived_from = pget (cc_metadata c) ''derived_from'';
          display = (if action = ''create'' \<and> truthy derived_from then ''derive'' else action);
          acceptance_refs = nonblank_texts (cc_acceptance_refs c);
          reused_refs = (case work_item_named p (opt_str (cc_reuse_work_item_id c)) of
             Some i \<Rightarrow> wi_acceptance_refs i | None \<Rightarrow> [])
      in [(''id'', PStr (''compiler-decision-'' @ plan_id @ ''-'' @ cc_candidate_id c)),
          (''plan_id'', PStr plan_id), (''candidate_id'', PStr (cc_candidate_id c)),
          (''work_item_id'', PStr (cc_work_item_id c)), (''title'', PStr (cc_title c)),
          (''action'', PStr display), (''compiler_action'', PStr action),
          (''dedupe_key'', opt_val (cc_dedupe_key c)),
          (''reason'', PStr (if cc_rationale c \<noteq> [] then cc_rationale c else reason_for_action display)),
          (''reuse_work_item_id'', opt_val (cc_reuse_work_item_id c)), (''derived_from'', derived_from),
          (''depends_on'', strs (nonblank_texts (cc_depends_on c))),
          (''acceptance_boundary_diff'',
            PDict [(''candidate_refs'', strs acceptance_refs), (''reused_refs'', strs reused_refs),
                   (''added'', strs (sorted_minus acceptance_refs reused_refs)),
                   (''missing'', strs (sorted_minus reused_refs acceptance_refs))]),
          (''trace_refs'', strs (sort (remdups (nonblank_texts (cc_acceptance_refs c @ cc_decision_refs c @
             cc_artifact_refs c @ cc_scenario_refs c @ cc_risk_refs c))))),
          (''status'', PStr ''accepted''), (''stale'', PBool False),
          (''override'', case pget (cc_metadata c) ''compiler_review_override'' of
             PDict d \<Rightarrow> PDict d | _ \<Rightarrow> PNone)])"

definition build_decisions :: "project_state \<Rightarrow> plan_draft \<Rightarrow> taskflow_state \<Rightarrow> taskflow_state" where
  "build_decisions p plan s =
     tf_outputs_update (tfo_compiler_decisions_update
       (\<lambda>_. map (decision_from_candidate p (pd_id plan)) (pd_work_item_candidates plan)))
       (clear_taskflow_stale s)"

definition assert_current :: "taskflow_state \<Rightarrow> unit result" where
  "assert_current s =
     (if truthy (pget (tcs_traceability_index (tf_compiler s)) ''compiler_review_stale'') \<or>
         list_ex (\<lambda>d. truthy (pget d ''stale'') \<or> pget d ''status'' = PStr ''stale'')
           (tfo_compiler_decisions (tf_outputs s))
      then Inl (ValueError ''compiler review is stale; recompile before dispatch review'') else Inr ())"

definition override_text :: "pyval \<Rightarrow> string \<Rightarrow> string" where
  "override_text value key =
     (case value of PDict d \<Rightarrow> str_strip (str_or_empty (py_or (pget d key) (pget d ''id'')))
      | v \<Rightarrow> str_strip (str_or_empty v))"

definition is_dict :: "pyval \<Rightarrow> bool" where
  "is_dict v = (case v of PDict _ \<Rightarrow> True | _ \<Rightarrow> False)"

definition validate_override_value :: "project_state \<Rightarrow> string \<Rightarrow> pyval \<Rightarrow> pyval result" where
  "validate_override_value p action value =
     (if action = ''force_reuse''
      then (let target = override_text value ''work_item_id''
            in if target = [] then Inl (ValueError ''force_reuse requires a target work_item_id'')
               else if work_item_named p target = None
               then Inl (ValueError (''force_reuse target work item not found: '' @ target))
               else Inr (PDict [(''work_item_id'', PStr target)]))
      else if action = ''split''
      then (let description = override_text value ''description'';
                candidates = (case value of
                   PDict d \<Rightarrow> filter is_dict (list_of (pget d ''candidates'')) | _ \<Rightarrow> [])
            in if description = [] \<and> candidates = []
               then Inl (ValueError ''split requires a description or candidate fragments'')
               else Inr (PDict [(''description'', PStr description), (''candidates'', PList candidates)]))
      else Inr value)"

definition has_id :: "string \<Rightarrow> pyobj \<Rightarrow> bool" where
  "has_id ident d \<longleftrightarrow> pget d ''id'' = PStr ident"

definition reviewed :: "string \<Rightarrow> string \<Rightarrow> string \<Rightarrow> pyval \<Rightarrow> pyobj \<Rightarrow> pyobj" where
  "reviewed action actor reason value d =
     dict_set ''override'' (PDict [(''action'', PStr action), (''reason'', PStr reason), (''value'', value),
         (''actor'', PStr actor)])
       (dict_set ''review_reason'' (PStr reason) (dict_set ''reviewed_by'' (PStr actor)
         (dict_set ''status'' (PStr (if action = ''accept'' then ''accepted'' else action)) d)))"

definition add_override :: "string \<Rightarrow> pyobj \<Rightarrow> pyobj \<Rightarrow> pyobj" where
  "add_override key entry index =
     (case pget_or index ''compiler_review_overrides'' (PDict []) of
        PDict overrides \<Rightarrow> dict_set ''compiler_review_overrides'' (PDict (dict_set key (PDict entry) overrides)) index
      | _ \<Rightarrow> index)"

definition decision_actions :: "string list" where
  "decision_actions = [''accept'', ''reject'', ''force_create'', ''force_reuse'', ''split'']"

definition review_decision ::
  "flow_env \<Rightarrow> project_state \<Rightarrow> string \<Rightarrow> string \<Rightarrow> string \<Rightarrow> string \<Rightarrow> pyval \<Rightarrow> taskflow_state \<Rightarrow>
   (taskflow_state \<times> pyobj) result" where
  "review_decision env p decision_id action actor reason value s =
     (let action = str_strip action
      in if action \<notin> set decision_actions
         then Inl (ValueError (''unsupported compiler decision action: '' @ action))
         else if action \<noteq> ''accept'' \<and> str_strip reason = []
         then Inl (ValueError ''compiler decision override requires a reason'')
         else case List.find (has_id decision_id) (tfo_compiler_decisions (tf_outputs s)) of
           None \<Rightarrow> Inl (ValueError (''compiler decision not found: '' @ decision_id))
         | Some d \<Rightarrow>
             res_bind (validate_override_value p action value) (\<lambda>value.
               let d' = reviewed action actor reason value d;
                   s1 = append_taskflow_event env TEvt_COMPILER_DECISION_REVIEWED actor
                     [(''decision_id'', PStr decision_id), (''action'', PStr action),
                      (''reason'', PStr reason), (''value'', value)]
                     (tf_outputs_update (tfo_compiler_decisions_update
                       (change_first (has_id decision_id) (\<lambda>_. d'))) s);
                   why = ''compiler decision '' @ decision_id @ '' was overridden''
               in if action = ''accept'' then Inr (s1, d')
                  else Inr (mark_taskflow_stale env why ''compiler_review'' [decision_id]
                      (tf_compiler_update (tcs_traceability_index_update
                        (add_override (py_str (py_or (pget d ''candidate_id'') (PStr decision_id)))
                          [(''action'', PStr action), (''reason'', PStr reason), (''value'', value),
                           (''decision_id'', PStr decision_id)])) s1),
                    stale_compiler_decision why d')))"

section \<open>The memory of a project\<close>

definition patch_proposal :: "pyobj \<Rightarrow> bool" where
  "patch_proposal d \<longleftrightarrow> pget d ''type'' = PStr ''project_memory_patch_proposal''"

definition memory_decisions :: "project_state \<Rightarrow> project_decision list" where
  "memory_decisions p =
     (let d = ps_decisions p
      in pds_project_decisions d @ pds_architecture_decisions d @ pds_policy_decisions d)"

definition memory_view :: "project_state \<Rightarrow> pyobj" where
  "memory_view p =
     [(''project_id'', PStr (ps_project_id p)),
      (''terms'', dicts (map (\<lambda>(term, meaning). [(''term'', PStr term), (''definition'', PStr meaning)])
         (sort (kb_ubiquitous_language (ps_knowledge_base p))))),
      (''decisions'', docs project_decision_to_dict (memory_decisions p)),
      (''constraints'', docs constraint_to_dict (ppf_constraints (ps_project_profile p))),
      (''work_items'', docs work_item_to_dict (list_work_items p)),
      (''trace_links'', PList (map (\<lambda>l. PDict (goal_work_link_to_dict l)) (trc_goal_links (ps_traceability p)) @
         map (\<lambda>l. PDict (trace_link_to_dict l))
           (trc_decision_links (ps_traceability p) @ trc_artifact_links (ps_traceability p) @
            trc_task_run_links (ps_traceability p)))),
      (''patch_proposals'', dicts (filter patch_proposal (pjn_reviews (ps_projections p))))]"

text \<open>A change of the project and the difference it reports.\<close>

definition patch_diff :: "string \<Rightarrow> string \<Rightarrow> pyval \<Rightarrow> pyval \<Rightarrow> pyobj" where
  "patch_diff op_type path prior after =
     [(''operation'', PStr op_type), (''path'', PStr path), (''before'', prior), (''after'', after)]"

definition op_text :: "pyobj \<Rightarrow> string \<Rightarrow> string \<Rightarrow> string" where
  "op_text op key other = str_strip (str_or_empty (py_or (pget op key) (pget op other)))"

definition op_record :: "pyobj \<Rightarrow> string \<Rightarrow> pyobj" where
  "op_record op key = dict_of (py_or (pget op key) (PDict op))"

definition on_terms ::
  "((string, string) pydict \<Rightarrow> (string, string) pydict) \<Rightarrow> project_state \<Rightarrow> project_state" where
  "on_terms f p = ps_knowledge_base_update (kb_ubiquitous_language_update f) p"

definition term_before :: "project_state \<Rightarrow> string \<Rightarrow> pyval" where
  "term_before p ident = opt_val (dict_get (kb_ubiquitous_language (ps_knowledge_base p)) ident)"

definition upsert_term :: "pyobj \<Rightarrow> project_state \<Rightarrow> (project_state \<times> pyobj) result" where
  "upsert_term op p =
     (let ident = op_text op ''term'' ''key''; after = str_or_empty (py_or (pget op ''definition'') (pget op ''value''))
      in if ident = [] then Inl (ValueError ''upsert_term requires term'')
         else Inr (on_terms (dict_set ident after) p,
                patch_diff ''upsert_term'' (''terms.'' @ ident) (term_before p ident) (PStr after)))"

definition remove_term :: "pyobj \<Rightarrow> project_state \<Rightarrow> (project_state \<times> pyobj) result" where
  "remove_term op p =
     (let ident = op_text op ''term'' ''key''
      in Inr (on_terms (dict_pop ident) p,
           patch_diff ''remove_term'' (''terms.'' @ ident) (term_before p ident) PNone))"

definition before_of :: "('a \<Rightarrow> string) \<Rightarrow> ('a \<Rightarrow> pyobj) \<Rightarrow> string \<Rightarrow> 'a list \<Rightarrow> pyval" where
  "before_of key to_dict ident xs =
     (case List.find (\<lambda>x. key x = ident) xs of None \<Rightarrow> PNone | Some x \<Rightarrow> PDict (to_dict x))"

definition upsert_decision :: "pyobj \<Rightarrow> project_state \<Rightarrow> (project_state \<times> pyobj) result" where
  "upsert_decision op p =
     (let item = project_decision_from_dict (op_record op ''decision'');
          bucket = (if truthy (pget op ''bucket'') then py_str (pget op ''bucket'') else ''project_decisions'');
          (xs, upd) = (if bucket = ''architecture_decisions''
            then (pds_architecture_decisions (ps_decisions p), pds_architecture_decisions_update)
            else if bucket = ''policy_decisions''
            then (pds_policy_decisions (ps_decisions p), pds_policy_decisions_update)
            else (pds_project_decisions (ps_decisions p), pds_project_decisions_update))
      in if pdn_id item = [] then Inl (ValueError ''upsert_decision requires id'')
         else Inr (ps_decisions_update (upd (put_by pdn_id item)) p,
                patch_diff ''upsert_decision'' (''decisions.'' @ pdn_id item)
                  (before_of pdn_id project_decision_to_dict (pdn_id item) xs)
                  (PDict (project_decision_to_dict item))))"

definition upsert_constraint :: "pyobj \<Rightarrow> project_state \<Rightarrow> (project_state \<times> pyobj) result" where
  "upsert_constraint op p =
     (let item = constraint_from_dict (op_record op ''constraint'')
      in if cn_id item = [] then Inl (ValueError ''upsert_constraint requires id'')
         else Inr (ps_project_profile_update (ppf_constraints_update (put_by cn_id item)) p,
                patch_diff ''upsert_constraint'' (''constraints.'' @ cn_id item)
                  (before_of cn_id constraint_to_dict (cn_id item) (ppf_constraints (ps_project_profile p)))
                  (PDict (constraint_to_dict item))))"

definition patch_work_item :: "flow_env \<Rightarrow> pyobj \<Rightarrow> project_state \<Rightarrow> (project_state \<times> pyobj) result" where
  "patch_work_item env op p =
     res_bind (work_item_from_dict (fe_now env) (op_record op ''work_item'')) (\<lambda>item.
       if wi_id item = [] then Inl (ValueError ''upsert_work_item requires id'')
       else
         let prior = before_of wi_id work_item_to_dict (wi_id item) (list_work_items p);
             stored = (if prior = PNone then item else item\<lparr>wi_updated_at := fe_now env\<rparr>)
         in Inr (upsert_work_item env item p,
              patch_diff ''upsert_work_item'' (''work_items.'' @ wi_id item) prior
                (PDict (work_item_to_dict stored))))"

text \<open>Changing the first item with an id, wherever it is kept.\<close>

definition change_item :: "string \<Rightarrow> (work_item \<Rightarrow> work_item) \<Rightarrow> work_item_buckets \<Rightarrow> work_item_buckets" where
  "change_item ident f b =
     (let here = (\<lambda>i. wi_id i = ident)
      in if list_ex here (wib_active_work_items b)
         then b\<lparr>wib_active_work_items := change_first here f (wib_active_work_items b)\<rparr>
         else if list_ex here (wib_reusable_work_items b)
         then b\<lparr>wib_reusable_work_items := change_first here f (wib_reusable_work_items b)\<rparr>
         else b\<lparr>wib_shared_enablers := change_first here f (wib_shared_enablers b)\<rparr>)"

definition update_work_item_status :: "flow_env \<Rightarrow> pyobj \<Rightarrow> project_state \<Rightarrow> (project_state \<times> pyobj) result" where
  "update_work_item_status env op p =
     (let ident = op_text op ''work_item_id'' ''id''; status = str_strip (str_or_empty (pget op ''status''))
      in if ident = [] \<or> status = []
         then Inl (ValueError ''update_work_item_status requires work_item_id and status'')
         else case List.find (\<lambda>i. wi_id i = ident) (list_work_items p) of
           None \<Rightarrow> Inl (ValueError (''work item not found: '' @ ident))
         | Some item \<Rightarrow>
             res_bind (enum_of work_item_status_value status) (\<lambda>st.
               Inr (project_touch env (ps_work_items_update (change_item ident
                      (\<lambda>i. i\<lparr>wi_status := st, wi_updated_at := fe_now env\<rparr>)) p),
                 patch_diff ''update_work_item_status'' (''work_items.'' @ ident @ ''.status'')
                   (PDict (work_item_to_dict item))
                   (PDict (dict_set ''status'' (PStr (work_item_status_value st)) (work_item_to_dict item))))))"

definition kept_links :: "project_state \<Rightarrow> trace_link list" where
  "kept_links p =
     (let t = ps_traceability p in trc_decision_links t @ trc_artifact_links t @ trc_task_run_links t)"

definition remove_link :: "flow_env \<Rightarrow> string \<Rightarrow> project_state \<Rightarrow> project_state" where
  "remove_link env ident p =
     (let keep = filter (\<lambda>l. tlk_id l \<noteq> ident)
      in project_touch env (ps_traceability_update (\<lambda>t. t
           \<lparr>trc_decision_links := keep (trc_decision_links t),
            trc_artifact_links := keep (trc_artifact_links t),
            trc_task_run_links := keep (trc_task_run_links t)\<rparr>) p))"

definition upsert_trace_link :: "flow_env \<Rightarrow> pyobj \<Rightarrow> project_state \<Rightarrow> (project_state \<times> pyobj) result" where
  "upsert_trace_link env op p =
     res_bind (trace_link_from_dict (fe_now env) (op_record op ''trace_link'')) (\<lambda>link.
       if tlk_id link = [] then Inl (ValueError ''upsert_trace_link requires id'')
       else Inr (add_trace_link env link (remove_link env (tlk_id link) p),
              patch_diff ''upsert_trace_link'' (''trace_links.'' @ tlk_id link)
                (before_of tlk_id trace_link_to_dict (tlk_id link) (kept_links p))
                (PDict (trace_link_to_dict link))))"

definition remove_trace_link :: "flow_env \<Rightarrow> pyobj \<Rightarrow> project_state \<Rightarrow> (project_state \<times> pyobj) result" where
  "remove_trace_link env op p =
     (let ident = op_text op ''trace_link_id'' ''id''
      in Inr (remove_link env ident p,
           patch_diff ''remove_trace_link'' (''trace_links.'' @ ident)
             (before_of tlk_id trace_link_to_dict ident (kept_links p)) PNone))"

definition apply_patch_operation :: "flow_env \<Rightarrow> pyobj \<Rightarrow> project_state \<Rightarrow> (project_state \<times> pyobj) result" where
  "apply_patch_operation env op p =
     (let type = op_text op ''type'' ''op''
      in if type = ''upsert_term'' then upsert_term op p
         else if type = ''remove_term'' then remove_term op p
         else if type = ''upsert_decision'' then upsert_decision op p
         else if type = ''upsert_constraint'' then upsert_constraint op p
         else if type = ''upsert_work_item'' then patch_work_item env op p
         else if type = ''update_work_item_status'' then update_work_item_status env op p
         else if type = ''upsert_trace_link'' then upsert_trace_link env op p
         else if type = ''remove_trace_link'' then remove_trace_link env op p
         else Inl (ValueError (''unsupported project memory operation: '' @ type)))"

fun apply_patch_operations ::
  "flow_env \<Rightarrow> pyobj list \<Rightarrow> project_state \<Rightarrow> (project_state \<times> pyobj list) result" where
  "apply_patch_operations env [] p = Inr (p, [])"
| "apply_patch_operations env (op # ops) p =
     res_bind (apply_patch_operation env op p) (\<lambda>(p, d).
     res_bind (apply_patch_operations env ops p) (\<lambda>(p, ds). Inr (p, d # ds)))"

definition validate_patch :: "string \<Rightarrow> string \<Rightarrow> string \<Rightarrow> 'a list \<Rightarrow> unit result" where
  "validate_patch actor reason source operations =
     (if str_strip actor = [] then Inl (ValueError ''project memory patch requires actor'')
      else if str_strip reason = [] then Inl (ValueError ''project memory patch requires reason'')
      else if str_strip source = [] then Inl (ValueError ''project memory patch requires source'')
      else if operations = [] then Inl (ValueError ''project memory patch requires operations'')
      else Inr ())"

text \<open>The operations are tried out on a copy of the project.\<close>

definition preview_patch ::
  "flow_env \<Rightarrow> project_state \<Rightarrow> string \<Rightarrow> string \<Rightarrow> string \<Rightarrow> pyobj list \<Rightarrow> pyobj result" where
  "preview_patch env p actor reason source operations =
     res_bind (validate_patch actor reason source operations) (\<lambda>_.
     res_bind (project_state_from_dict (fe_now env) (project_state_to_dict p)) (\<lambda>working.
     res_bind (apply_patch_operations env operations working) (\<lambda>(_, diffs).
       Inr [(''id'', PStr (new_id env ''project-memory-patch'' 0)),
            (''type'', PStr ''project_memory_patch_proposal''), (''status'', PStr ''pending''),
            (''actor'', PStr actor), (''reason'', PStr reason), (''source'', PStr source),
            (''operations'', dicts operations), (''diff'', dicts diffs),
            (''created_at'', PStr (fe_now env))])))"

definition is_proposal :: "pyval \<Rightarrow> pyobj \<Rightarrow> bool" where
  "is_proposal ident d \<longleftrightarrow> patch_proposal d \<and> pget d ''id'' = ident"

definition replace_projection_review :: "pyobj \<Rightarrow> project_state \<Rightarrow> project_state" where
  "replace_projection_review proposal p =
     (let mine = is_proposal (pget proposal ''id'')
      in ps_projections_update (pjn_reviews_update (\<lambda>xs.
           if list_ex mine xs then change_first mine (\<lambda>_. proposal) xs else xs @ [proposal])) p)"

definition record_pending_patch :: "flow_env \<Rightarrow> pyobj \<Rightarrow> project_state \<Rightarrow> project_state \<times> pyobj" where
  "record_pending_patch env proposal p =
     (let proposal = dict_set ''status'' (PStr ''pending'') proposal
      in (project_touch env (replace_projection_review proposal p), proposal))"

definition patch_text :: "string \<Rightarrow> pyobj option \<Rightarrow> string \<Rightarrow> string" where
  "patch_text own existing key =
     (case existing of None \<Rightarrow> own
      | Some d \<Rightarrow> if own \<noteq> [] then own else str_or_empty (pget d key))"

definition apply_patch ::
  "flow_env \<Rightarrow> string option \<Rightarrow> string \<Rightarrow> string \<Rightarrow> string \<Rightarrow> pyobj list \<Rightarrow> taskflow_state \<Rightarrow> project_state \<Rightarrow>
   (taskflow_state \<times> project_state \<times> pyobj) result" where
  "apply_patch env proposal_id actor reason source operations s p =
     (let existing = (if opt_str proposal_id = [] then None
            else List.find (is_proposal (PStr (opt_str proposal_id))) (pjn_reviews (ps_projections p)));
          by = patch_text actor existing ''actor''; why = patch_text reason existing ''reason'';
          origin = patch_text source existing ''source'';
          stored = (case existing of None \<Rightarrow> Inr []
            | Some d \<Rightarrow> (if truthy (pget d ''operations'')
                then res_bind (iterated (pget d ''operations'')) (\<lambda>xs. Inr (map dict_of xs)) else Inr []))
      in res_bind (if operations \<noteq> [] then Inr operations else stored) (\<lambda>ops.
         res_bind (case existing of Some d \<Rightarrow> Inr d | None \<Rightarrow> preview_patch env p by why origin ops) (\<lambda>proposal.
         let proposal = (if opt_str proposal_id = [] then proposal
               else dict_set ''id'' (PStr (opt_str proposal_id)) proposal)
         in res_bind (validate_patch by why origin ops) (\<lambda>_.
            res_bind (apply_patch_operations env ops p) (\<lambda>(p, diffs).
              let proposal = fold (\<lambda>(k, v). dict_set k v)
                    [(''status'', PStr ''applied''), (''actor'', PStr by), (''reason'', PStr why),
                     (''source'', PStr origin), (''operations'', dicts ops), (''diff'', dicts diffs),
                     (''applied_at'', PStr (fe_now env)), (''applied_by'', PStr actor)] proposal
              in Inr (mark_taskflow_stale env ''Project Memory changed'' ''project_memory_patch''
                        [py_str (pget proposal ''id'')]
                        (append_taskflow_event env TEvt_PROJECT_MEMORY_PATCH_APPLIED actor proposal s),
                      project_touch env (replace_projection_review proposal p), proposal))))))"

end
