(* ===== verification/FlowService.thy ===== *)
theory FlowService
  imports FlowDecisions
begin

text \<open>
  The taskflow service (\<open>src/labrastro_server/taskflow/application/taskflow_service.py\<close>) over the stores in
  memory (\<open>ports/state_store.py\<close>, \<open>application/project_service.py\<close>). A store keeps copies: what is saved
  and what is read goes through the document of the state. Every operation loads the taskflow and its
  project, which is created when it is missing, works on these copies and saves them at its end, so an
  operation that raises leaves the taskflow as it was.
\<close>

section \<open>The stores\<close>

record flow_service =
  fs_flows :: "(string, taskflow_state) pydict"
  fs_projects :: "(string, project_state) pydict"
  fs_plans :: "(string, plan_draft) pydict"

definition empty_flow_service :: flow_service where
  "empty_flow_service = \<lparr>fs_flows = [], fs_projects = [], fs_plans = []\<rparr>"

type_synonym 'a flow_step = "flow_service \<times> 'a result"

definition flow_bind :: "'a flow_step \<Rightarrow> (flow_service \<Rightarrow> 'a \<Rightarrow> 'b flow_step) \<Rightarrow> 'b flow_step" where
  "flow_bind m f = (case m of (S, Inl e) \<Rightarrow> (S, Inl e) | (S, Inr x) \<Rightarrow> f S x)"

lemma flow_bind_simps [simp]:
  "flow_bind (S, Inl e) f = (S, Inl e)"
  "flow_bind (S, Inr x) f = f S x"
  by (simp_all add: flow_bind_def)

definition copied_flow :: "flow_env \<Rightarrow> taskflow_state \<Rightarrow> taskflow_state result" where
  "copied_flow env s = taskflow_state_from_dict (fe_now env) (taskflow_state_to_dict s)"

definition copied_project :: "flow_env \<Rightarrow> project_state \<Rightarrow> project_state result" where
  "copied_project env p = project_state_from_dict (fe_now env) (project_state_to_dict p)"

definition get_taskflow_state :: "flow_env \<Rightarrow> string \<Rightarrow> flow_service \<Rightarrow> taskflow_state result" where
  "get_taskflow_state env taskflow_id S =
     (case dict_get (fs_flows S) taskflow_id of
        None \<Rightarrow> Inl (KeyError (''taskflow state not found: '' @ taskflow_id))
      | Some s \<Rightarrow> copied_flow env s)"

definition store_taskflow_state :: "flow_env \<Rightarrow> taskflow_state \<Rightarrow> flow_service \<Rightarrow> unit flow_step" where
  "store_taskflow_state env s S =
     flow_bind (S, copied_flow env s) (\<lambda>S c.
       (S\<lparr>fs_flows := dict_set (tfm_taskflow_id (tf_meta s)) c (fs_flows S)\<rparr>, Inr ()))"

definition save_taskflow_state :: "flow_env \<Rightarrow> taskflow_state \<Rightarrow> flow_service \<Rightarrow> unit flow_step" where
  "save_taskflow_state env s S = store_taskflow_state env (flow_touch env s) S"

definition list_taskflow_states :: "flow_env \<Rightarrow> string \<Rightarrow> flow_service \<Rightarrow> taskflow_state list result" where
  "list_taskflow_states env project_id S =
     res_map (copied_flow env) (filter (\<lambda>s. tfm_project_id (tf_meta s) = project_id) (dict_values (fs_flows S)))"

definition get_project_state :: "flow_env \<Rightarrow> string \<Rightarrow> flow_service \<Rightarrow> project_state option result" where
  "get_project_state env project_id S =
     (case dict_get (fs_projects S) project_id of
        None \<Rightarrow> Inr None | Some p \<Rightarrow> res_bind (copied_project env p) (\<lambda>c. Inr (Some c)))"

definition save_project_state :: "flow_env \<Rightarrow> project_state \<Rightarrow> flow_service \<Rightarrow> unit flow_step" where
  "save_project_state env p S =
     flow_bind (S, copied_project env (project_touch env p)) (\<lambda>S c.
       (S\<lparr>fs_projects := dict_set (ps_project_id p) c (fs_projects S)\<rparr>, Inr ()))"

definition get_or_create_project_state :: "flow_env \<Rightarrow> string \<Rightarrow> flow_service \<Rightarrow> project_state flow_step" where
  "get_or_create_project_state env project_id S =
     (case dict_get (fs_projects S) project_id of
        Some p \<Rightarrow> (S, copied_project env p)
      | None \<Rightarrow>
          (let p = new_project_state env project_id []
           in flow_bind (S, copied_project env p) (\<lambda>S c.
                (S\<lparr>fs_projects := dict_set project_id c (fs_projects S)\<rparr>, Inr p))))"

text \<open>Loading a taskflow and its project.\<close>

definition load_flow :: "flow_env \<Rightarrow> string \<Rightarrow> flow_service \<Rightarrow> (taskflow_state \<times> project_state) flow_step" where
  "load_flow env taskflow_id S =
     flow_bind (S, get_taskflow_state env taskflow_id S) (\<lambda>S s.
     flow_bind (get_or_create_project_state env (tfm_project_id (tf_meta s)) S) (\<lambda>S p. (S, Inr (s, p))))"

text \<open>An operation on the taskflow alone, and one that changes the project too.\<close>

definition update_flow ::
  "flow_env \<Rightarrow> string \<Rightarrow> (taskflow_state \<Rightarrow> project_state \<Rightarrow> (taskflow_state \<times> 'a) result) \<Rightarrow> flow_service \<Rightarrow>
   'a flow_step" where
  "update_flow env taskflow_id f S =
     flow_bind (load_flow env taskflow_id S) (\<lambda>S (s, p).
     flow_bind (S, f s p) (\<lambda>S (s, x).
     flow_bind (save_taskflow_state env s S) (\<lambda>S _. (S, Inr x))))"

definition update_both ::
  "flow_env \<Rightarrow> string \<Rightarrow> (taskflow_state \<Rightarrow> project_state \<Rightarrow> (taskflow_state \<times> project_state \<times> 'a) result) \<Rightarrow>
   flow_service \<Rightarrow> 'a flow_step" where
  "update_both env taskflow_id f S =
     flow_bind (load_flow env taskflow_id S) (\<lambda>S (s, p).
     flow_bind (S, f s p) (\<lambda>S (s, p, x).
     flow_bind (save_project_state env p S) (\<lambda>S _.
     flow_bind (save_taskflow_state env s S) (\<lambda>S _. (S, Inr x)))))"

definition then_get :: "flow_env \<Rightarrow> string \<Rightarrow> 'a flow_step \<Rightarrow> taskflow_state flow_step" where
  "then_get env taskflow_id m = flow_bind m (\<lambda>S _. (S, get_taskflow_state env taskflow_id S))"

section \<open>Derived state\<close>

definition refresh_derived_state ::
  "flow_env \<Rightarrow> taskflow_state \<Rightarrow> project_state \<Rightarrow> taskflow_state result" where
  "refresh_derived_state env s p =
     res_bind (assess_complexity env s p) (\<lambda>(s, assessment). refresh_readiness s (Some assessment))"

text \<open>A new draft of the brief between two refreshes, with its diagnostics brought up to date.\<close>

definition refresh_and_sync :: "flow_env \<Rightarrow> taskflow_state \<Rightarrow> project_state \<Rightarrow> taskflow_state result" where
  "refresh_and_sync env s p = res_bind (refresh_derived_state env s p) (sync_diagnostics env)"

definition redraft :: "flow_env \<Rightarrow> string \<Rightarrow> taskflow_state \<Rightarrow> project_state \<Rightarrow> taskflow_state result" where
  "redraft env actor s p =
     res_bind (refresh_derived_state env s p) (\<lambda>s. refresh_and_sync env (compile_draft env actor s) p)"

definition with_unit :: "taskflow_state result \<Rightarrow> (taskflow_state \<times> unit) result" where
  "with_unit r = res_bind r (\<lambda>s. Inr (s, ()))"

section \<open>Discovery and briefs\<close>

record flow_start =
  fst_project_id :: string
  fst_raw_goal :: string
  fst_session_id :: "string option"
  fst_peer_id :: "string option"
  fst_metadata :: pyobj
  fst_related_goal_id :: "string option"
  fst_related_work_item_id :: "string option"
  fst_taskflow_id :: "string option"
  fst_goal_id :: "string option"
  fst_sensitivity :: string

definition load_project_context :: "taskflow_state \<Rightarrow> project_state \<Rightarrow> taskflow_state" where
  "load_project_context s p =
     tf_refs_update (\<lambda>r. r
       \<lparr>tfr_project_context_refs := [''project_profile'', ''knowledge_base'', ''decisions'', ''work_items'',
          ''traceability'', ''projections''],
        tfr_reused_work_item_refs := tfr_reused_work_item_refs r @
          map wi_id (wib_reusable_work_items (ps_work_items p)),
        tfr_shared_decision_refs := tfr_shared_decision_refs r @
          filter (\<lambda>i. i \<noteq> []) (map pdn_id (memory_decisions p)),
        tfr_related_artifact_refs := tfr_related_artifact_refs r @
          map arf_id (pjn_artifacts (ps_projections p))\<rparr>) s"

definition id_or :: "string option \<Rightarrow> string \<Rightarrow> string" where
  "id_or ident fresh = (if opt_str ident \<noteq> [] then opt_str ident else fresh)"

definition started_flow :: "flow_env \<Rightarrow> flow_start \<Rightarrow> project_state \<Rightarrow> taskflow_state result" where
  "started_flow env r p =
     (let goal = str_strip (fst_raw_goal r)
      in res_bind (new_taskflow_state env (id_or (fst_taskflow_id r) (new_id env ''taskflow'' 0))
                     (fst_project_id r) (id_or (fst_goal_id r) (new_id env ''goal'' 0)) goal
                     (fst_sensitivity r)) (\<lambda>s.
           let s1 = tf_compiler_update (tcs_traceability_index_update (dict_set ''request_context''
                 (PDict [(''session_id'', opt_val (fst_session_id r)), (''peer_id'', opt_val (fst_peer_id r)),
                         (''metadata'', PDict (fst_metadata r))]))) s;
               s2 = tf_refs_update (\<lambda>f. f
                 \<lparr>tfr_related_goal_refs := tfr_related_goal_refs f @ given_text (fst_related_goal_id r),
                  tfr_reused_work_item_refs := tfr_reused_work_item_refs f @
                    given_text (fst_related_work_item_id r)\<rparr>) s1;
               s3 = append_taskflow_event env TEvt_DISCOVERY_STARTED (opt_str (fst_peer_id r))
                 [(''raw_goal'', PStr goal)] (load_project_context s2 p)
           in refresh_derived_state env s3 p))"

definition start_taskflow :: "flow_env \<Rightarrow> flow_start \<Rightarrow> flow_service \<Rightarrow> taskflow_state flow_step" where
  "start_taskflow env r S =
     flow_bind (get_or_create_project_state env (fst_project_id r) S) (\<lambda>S p.
     flow_bind (S, started_flow env r p) (\<lambda>S s.
     flow_bind (save_taskflow_state env s S) (\<lambda>S _.
       (S, get_taskflow_state env (tfm_taskflow_id (tf_meta s)) S))))"

definition given_texts :: "discovery_turn \<Rightarrow> discovery_turn" where
  "given_texts t = t
     \<lparr>dt_scope_in := map_option nonblank_texts (dt_scope_in t),
      dt_scope_out := map_option nonblank_texts (dt_scope_out t),
      dt_deferred_scope := map_option nonblank_texts (dt_deferred_scope t),
      dt_success_criteria := map_option nonblank_texts (dt_success_criteria t)\<rparr>"

definition turn_body ::
  "flow_env \<Rightarrow> discovery_turn \<Rightarrow> taskflow_state \<Rightarrow> project_state \<Rightarrow> taskflow_state result" where
  "turn_body env t s p =
     res_bind (record_turn env (given_texts t) s) (\<lambda>s.
     res_bind (case dt_complexity_evidence t of None \<Rightarrow> Inr s
               | Some evidence \<Rightarrow> record_evidence env (dt_actor t) evidence s) (\<lambda>s.
     res_bind (redraft env (dt_actor t) s p) (\<lambda>s. Inr (set_flow_status Flow_CLARIFYING s))))"

definition record_discovery_turn ::
  "flow_env \<Rightarrow> string \<Rightarrow> discovery_turn \<Rightarrow> flow_service \<Rightarrow> taskflow_state flow_step" where
  "record_discovery_turn env taskflow_id t S =
     then_get env taskflow_id (update_flow env taskflow_id (\<lambda>s p. with_unit (turn_body env t s p)) S)"

definition record_rule_example ::
  "flow_env \<Rightarrow> string \<Rightarrow> string \<Rightarrow> pyobj list \<Rightarrow> pyobj list \<Rightarrow> pyobj list \<Rightarrow> flow_service \<Rightarrow> taskflow_state flow_step" where
  "record_rule_example env taskflow_id actor rules examples acceptance_examples S =
     record_discovery_turn env taskflow_id
       \<lparr>dt_actor = actor, dt_goal_statement = None, dt_background_delta = None, dt_scope_in = None,
        dt_scope_out = None, dt_deferred_scope = None, dt_success_criteria = None, dt_assumptions = [],
        dt_questions = [], dt_rules = rules, dt_examples = examples, dt_scenarios = [],
        dt_acceptance_examples = acceptance_examples, dt_decisions = [], dt_work_item_candidates = [],
        dt_complexity_evidence = None\<rparr> S"

definition record_complexity_evidence ::
  "flow_env \<Rightarrow> string \<Rightarrow> pyobj list \<Rightarrow> string \<Rightarrow> flow_service \<Rightarrow> taskflow_state flow_step" where
  "record_complexity_evidence env taskflow_id evidence actor S =
     then_get env taskflow_id (update_flow env taskflow_id (\<lambda>s p.
       with_unit (res_bind (record_evidence env actor evidence s) (\<lambda>s. redraft env actor s p))) S)"

definition override_complexity ::
  "flow_env \<Rightarrow> string \<Rightarrow> string \<Rightarrow> string \<Rightarrow> string \<Rightarrow> flow_service \<Rightarrow> taskflow_state flow_step" where
  "override_complexity env taskflow_id level reason actor S =
     then_get env taskflow_id (update_flow env taskflow_id (\<lambda>s p.
       with_unit (res_bind (override_complexity_level env level reason actor s) (\<lambda>s. redraft env actor s p))) S)"

definition refresh_complexity_assessment ::
  "flow_env \<Rightarrow> string \<Rightarrow> flow_service \<Rightarrow> taskflow_state flow_step" where
  "refresh_complexity_assessment env taskflow_id S =
     then_get env taskflow_id (update_flow env taskflow_id (\<lambda>s p. with_unit (refresh_and_sync env s p)) S)"

definition compile_brief_draft :: "flow_env \<Rightarrow> string \<Rightarrow> string \<Rightarrow> flow_service \<Rightarrow> taskflow_state flow_step" where
  "compile_brief_draft env taskflow_id actor S =
     then_get env taskflow_id (update_flow env taskflow_id (\<lambda>s p. with_unit (redraft env actor s p)) S)"

definition mark_brief_ready ::
  "flow_env \<Rightarrow> string \<Rightarrow> int option \<Rightarrow> string \<Rightarrow> flow_service \<Rightarrow> taskflow_state flow_step" where
  "mark_brief_ready env taskflow_id version actor S =
     then_get env taskflow_id (update_flow env taskflow_id (\<lambda>s p.
       with_unit (res_bind (mark_ready env version actor s) (\<lambda>s. refresh_and_sync env s p))) S)"

definition confirm_body ::
  "flow_env \<Rightarrow> int option \<Rightarrow> string \<Rightarrow> taskflow_state \<Rightarrow> project_state \<Rightarrow> taskflow_state result" where
  "confirm_body env version actor s p =
     res_bind (confirm_version env version actor s) (\<lambda>s.
       refresh_and_sync env (tf_compiler_update (tcs_traceability_index_update
         (dict_set ''confirmed_by'' (strs [actor]))) (set_flow_status Flow_CONFIRMED s)) p)"

definition confirm_brief ::
  "flow_env \<Rightarrow> string \<Rightarrow> int option \<Rightarrow> string \<Rightarrow> flow_service \<Rightarrow> taskflow_state flow_step" where
  "confirm_brief env taskflow_id version actor S =
     flow_bind (S, get_taskflow_state env taskflow_id S) (\<lambda>S s.
       if tfm_status (tf_meta s) = Flow_CANCELLED
       then (S, Inl (ValueError ''cancelled taskflow cannot be confirmed''))
       else then_get env taskflow_id
              (update_flow env taskflow_id (\<lambda>s p. with_unit (confirm_body env version actor s p)) S))"

section \<open>Compiling the goal\<close>

definition gate_names :: "readiness_gate list \<Rightarrow> string" where
  "gate_names gates = str_join '', '' (map rg_name gates)"

definition assert_current_brief_confirmed :: "taskflow_state \<Rightarrow> unit result" where
  "assert_current_brief_confirmed s =
     (let out = tf_outputs s; refused = Inl (ValueError ''current brief version must be confirmed before compile'')
      in if tfo_current_brief_version out \<noteq> tfo_confirmed_brief_version out then refused
         else case List.find (\<lambda>b. Some (bv_version b) = tfo_confirmed_brief_version out) (tfo_brief_versions out) of
           None \<Rightarrow> Inl (ValueError ''confirmed brief version not found'')
         | Some b \<Rightarrow> if bv_status b \<noteq> Brief_CONFIRMED then refused else Inr ())"

definition assert_compilable :: "taskflow_state \<Rightarrow> unit result" where
  "assert_compilable s =
     (if tfo_confirmed_brief_version (tf_outputs s) = None
      then Inl (ValueError ''taskflow goal requires a confirmed brief before compile'')
      else res_bind (assert_current_brief_confirmed s) (\<lambda>_.
        if unresolved_high_risk_questions s \<noteq> []
        then Inl (ValueError (''unresolved high-risk questions block compile: '' @
               str_join '', '' (map oq_id (unresolved_high_risk_questions s))))
        else if failed_compile_gates s \<noteq> []
        then Inl (ValueError (''readiness gate failed: '' @ gate_names (failed_compile_gates s)))
        else if tfm_status (tf_meta s) \<noteq> Flow_CONFIRMED
        then Inl (ValueError ''taskflow goal must be confirmed before compile'')
        else Inr ()))"

definition work_item_from_compiled :: "flow_env \<Rightarrow> plan_draft \<Rightarrow> compiled_candidate \<Rightarrow> work_item result" where
  "work_item_from_compiled env plan c =
     (let derived_from = pget (cc_metadata c) ''derived_from''
      in res_bind (enum_of work_item_type_value (cc_type c)) (\<lambda>type.
           Inr \<lparr>wi_id = cc_work_item_id c, wi_project_id = pd_project_id plan, wi_title = cc_title c,
                 wi_description = cc_description c, wi_type = type, wi_status = WStatus_READY,
                 wi_acceptance_refs = cc_acceptance_refs c, wi_decision_refs = cc_decision_refs c,
                 wi_artifact_refs = cc_artifact_refs c, wi_dedupe_key = cc_dedupe_key c,
                 wi_derived_from = (if truthy derived_from then Some (py_str derived_from) else None),
                 wi_depends_on = cc_depends_on c, wi_created_at = fe_now env, wi_updated_at = fe_now env,
                 wi_metadata = dict_update
                   [(''created_from_plan_draft_id'', PStr (pd_id plan)),
                    (''created_from_taskflow_id'', PStr (pd_taskflow_id plan)),
                    (''candidate_id'', PStr (cc_candidate_id c))] (cc_metadata c)\<rparr>))"

text \<open>A created item is stored, a reused one referred to.\<close>

fun persist_items ::
  "flow_env \<Rightarrow> plan_draft \<Rightarrow> compiled_candidate list \<Rightarrow> taskflow_state \<Rightarrow> project_state \<Rightarrow>
   (taskflow_state \<times> project_state) result" where
  "persist_items env plan [] s p = Inr (s, p)"
| "persist_items env plan (c # cs) s p =
     (if cc_action c = ''create''
      then res_bind (work_item_from_compiled env plan c) (\<lambda>item.
             persist_items env plan cs s (upsert_work_item env item p))
      else persist_items env plan cs
             (if cc_work_item_id c \<in> set (tfr_reused_work_item_refs (tf_refs s)) then s
              else tf_refs_update (tfr_reused_work_item_refs_update (\<lambda>xs. xs @ [cc_work_item_id c])) s) p)"

definition persist_links :: "flow_env \<Rightarrow> plan_draft \<Rightarrow> project_state \<Rightarrow> project_state" where
  "persist_links env plan p =
     fold (add_trace_link env) (pd_decision_work_links plan @ pd_acceptance_trace_links plan)
       (fold (add_goal_work_link env) (pd_goal_work_links plan) p)"

definition compiled_work_item_ids :: "plan_draft \<Rightarrow> string list" where
  "compiled_work_item_ids plan =
     map cc_work_item_id (dict_values (fold (\<lambda>c ix. dict_set (cc_candidate_id c) c ix)
       (pd_work_item_candidates plan) []))"

definition record_plan :: "flow_env \<Rightarrow> plan_draft \<Rightarrow> taskflow_state \<Rightarrow> project_state \<Rightarrow> taskflow_state" where
  "record_plan env plan s p =
     (let s1 = tf_relations_update (\<lambda>r. r
            \<lparr>tfl_goal_work_links := pd_goal_work_links plan,
             tfl_decision_work_links := pd_decision_work_links plan,
             tfl_acceptance_trace_links := pd_acceptance_trace_links plan\<rparr>) s;
          s2 = tf_outputs_update (tfo_plan_drafts_update (\<lambda>xs. xs @ [plan_draft_to_dict plan])) s1;
          s3 = tf_compiler_update (tcs_traceability_index_update
            (dict_set ''compiled_work_items'' (strs (compiled_work_item_ids plan)))) s2
      in append_taskflow_event env TEvt_PLAN_COMPILED []
           [(''plan_id'', PStr (pd_id plan)), (''work_item_ids'', strs (compiled_work_item_ids plan))]
           (build_decisions p plan s3))"

definition dispatchable :: "taskflow_state \<Rightarrow> bool" where
  "dispatchable s \<longleftrightarrow> failed_dispatch_gates s = [] \<and> tcs_dispatch_readiness_score (tf_compiler s) \<ge> 70"

definition compile_body ::
  "flow_env \<Rightarrow> taskflow_state \<Rightarrow> project_state \<Rightarrow> (taskflow_state \<times> project_state \<times> plan_draft) result" where
  "compile_body env s p =
     res_bind (refresh_derived_state env s p) (\<lambda>s.
     res_bind (assert_compilable s) (\<lambda>_.
     res_bind (compile_plan env s p) (\<lambda>(plan, s).
     res_bind (persist_items env plan (pd_work_item_candidates plan) s p) (\<lambda>(s, p).
       let p = persist_links env plan p
       in res_bind (refresh_and_sync env (record_plan env plan s p) p) (\<lambda>s.
            Inr (set_flow_status (if dispatchable s then Flow_READY_FOR_DISPATCH else Flow_COMPILED) s,
                 p, plan))))))"

definition compile_goal :: "flow_env \<Rightarrow> string \<Rightarrow> flow_service \<Rightarrow> plan_draft flow_step" where
  "compile_goal env taskflow_id S =
     flow_bind (update_both env taskflow_id (compile_body env) S) (\<lambda>S plan.
       (S\<lparr>fs_plans := dict_set taskflow_id plan (fs_plans S)\<rparr>, Inr plan))"

section \<open>Dispatch decisions\<close>

definition request_body ::
  "flow_env \<Rightarrow> string list \<Rightarrow> string \<Rightarrow> string \<Rightarrow> pyobj \<Rightarrow> taskflow_state \<Rightarrow> project_state \<Rightarrow>
   (taskflow_state \<times> dispatch_decision_record) result" where
  "request_body env work_item_ids actor rationale metadata s p =
     res_bind (refresh_derived_state env s p) (\<lambda>s.
     res_bind (assert_current_brief_confirmed s) (\<lambda>_.
     res_bind (assert_current s) (\<lambda>_.
       if tfo_plan_drafts (tf_outputs s) = []
       then Inl (ValueError ''taskflow goal must be compiled before dispatch confirmation'')
       else if failed_compile_gates s \<noteq> []
       then Inl (ValueError (''readiness gate failed: '' @ gate_names (failed_compile_gates s)))
       else res_bind (if nonblank_texts work_item_ids \<noteq> [] then Inr (nonblank_texts work_item_ids)
                      else texts_in (tcs_traceability_index (tf_compiler s)) ''compiled_work_items'') (\<lambda>covered.
         if covered = [] then Inl (ValueError ''dispatch decision requires at least one work item'')
         else
           let d = \<lparr>dd_id = new_id env ''dispatch-decision'' 0,
                 dd_brief_version = (case tfo_confirmed_brief_version (tf_outputs s) of None \<Rightarrow> 0 | Some v \<Rightarrow> v),
                 dd_work_item_ids = covered, dd_status = DDec_REQUESTED, dd_requested_by = actor,
                 dd_requested_at = fe_now env, dd_confirmed_by = [], dd_confirmed_at = None,
                 dd_rejected_by = [], dd_rejected_at = None, dd_rationale = rationale,
                 dd_readiness_snapshot = map readiness_gate_to_dict (tcs_readiness_gates (tf_compiler s)),
                 dd_metadata = metadata\<rparr>
           in res_bind (refresh_and_sync env
                (append_taskflow_event env TEvt_DISPATCH_CONFIRM_REQUESTED actor
                  (dispatch_decision_record_to_dict d)
                  (tf_outputs_update (tfo_dispatch_decisions_update (\<lambda>xs. xs @ [d])) s)) p) (\<lambda>s.
              Inr (s, d))))))"

definition request_dispatch_decision ::
  "flow_env \<Rightarrow> string \<Rightarrow> string list \<Rightarrow> string \<Rightarrow> string \<Rightarrow> pyobj \<Rightarrow> flow_service \<Rightarrow>
   dispatch_decision_record flow_step" where
  "request_dispatch_decision env taskflow_id work_item_ids actor rationale metadata S =
     update_flow env taskflow_id (request_body env work_item_ids actor rationale metadata) S"

definition dispatch_decision :: "taskflow_state \<Rightarrow> string \<Rightarrow> dispatch_decision_record result" where
  "dispatch_decision s decision_id =
     (case List.find (\<lambda>d. dd_id d = decision_id) (tfo_dispatch_decisions (tf_outputs s)) of
        Some d \<Rightarrow> Inr d
      | None \<Rightarrow> Inl (ValueError (''dispatch decision not found: '' @ decision_id)))"

definition replace_dispatch_decision ::
  "string \<Rightarrow> dispatch_decision_record \<Rightarrow> taskflow_state \<Rightarrow> taskflow_state" where
  "replace_dispatch_decision decision_id d s =
     tf_outputs_update (tfo_dispatch_decisions_update
       (change_first (\<lambda>d. dd_id d = decision_id) (\<lambda>_. d))) s"

definition confirm_dispatch_body ::
  "flow_env \<Rightarrow> string \<Rightarrow> string \<Rightarrow> taskflow_state \<Rightarrow> project_state \<Rightarrow> taskflow_state result" where
  "confirm_dispatch_body env decision_id actor s p =
     res_bind (dispatch_decision s decision_id) (\<lambda>d.
       if Some (dd_brief_version d) \<noteq> tfo_confirmed_brief_version (tf_outputs s)
       then Inl (ValueError ''dispatch decision brief version is no longer current'')
       else
         let d = d\<lparr>dd_status := DDec_CONFIRMED, dd_confirmed_by := actor,
               dd_confirmed_at := once (dd_confirmed_at d) (fe_now env)\<rparr>
         in res_bind (refresh_and_sync env
              (append_taskflow_event env TEvt_DISPATCH_CONFIRMED actor (dispatch_decision_record_to_dict d)
                (replace_dispatch_decision decision_id d s)) p) (\<lambda>s.
            Inr (if dispatchable s then set_flow_status Flow_READY_FOR_DISPATCH s else s)))"

definition confirm_dispatch_decision ::
  "flow_env \<Rightarrow> string \<Rightarrow> string \<Rightarrow> string \<Rightarrow> flow_service \<Rightarrow> taskflow_state flow_step" where
  "confirm_dispatch_decision env taskflow_id decision_id actor S =
     then_get env taskflow_id (update_flow env taskflow_id (\<lambda>s p.
       with_unit (confirm_dispatch_body env decision_id actor s p)) S)"

definition reject_dispatch_body ::
  "flow_env \<Rightarrow> string \<Rightarrow> string \<Rightarrow> taskflow_state \<Rightarrow> project_state \<Rightarrow> taskflow_state result" where
  "reject_dispatch_body env decision_id actor s p =
     res_bind (dispatch_decision s decision_id) (\<lambda>d.
       let d = d\<lparr>dd_status := DDec_REJECTED, dd_rejected_by := actor,
             dd_rejected_at := once (dd_rejected_at d) (fe_now env)\<rparr>
       in refresh_derived_state env
            (append_taskflow_event env TEvt_DISPATCH_REJECTED actor (dispatch_decision_record_to_dict d)
              (replace_dispatch_decision decision_id d s)) p)"

definition reject_dispatch_decision ::
  "flow_env \<Rightarrow> string \<Rightarrow> string \<Rightarrow> string \<Rightarrow> flow_service \<Rightarrow> taskflow_state flow_step" where
  "reject_dispatch_decision env taskflow_id decision_id actor S =
     then_get env taskflow_id (update_flow env taskflow_id (\<lambda>s p.
       with_unit (reject_dispatch_body env decision_id actor s p)) S)"

section \<open>Dispatching a task run\<close>

definition confirmed_dispatch_decision ::
  "taskflow_state \<Rightarrow> string \<Rightarrow> string \<Rightarrow> dispatch_decision_record result" where
  "confirmed_dispatch_decision s decision_id work_item_id =
     res_bind (dispatch_decision s decision_id) (\<lambda>d.
       if dd_status d \<noteq> DDec_CONFIRMED
       then Inl (ValueError ''dispatch decision must be confirmed before dispatch'')
       else if truthy (pget (dd_metadata d) ''stale'')
       then Inl (ValueError ''dispatch decision is stale; request dispatch review again'')
       else if Some (dd_brief_version d) \<noteq> tfo_confirmed_brief_version (tf_outputs s)
       then Inl (ValueError ''dispatch decision brief version is no longer current'')
       else if work_item_id \<notin> set (dd_work_item_ids d)
       then Inl (ValueError ''dispatch decision does not cover work item'')
       else Inr d)"

definition authorize_dispatch ::
  "flow_env \<Rightarrow> string option \<Rightarrow> string \<Rightarrow> taskflow_state \<Rightarrow> project_state \<Rightarrow>
   (taskflow_state \<times> dispatch_decision_record) result" where
  "authorize_dispatch env decision_id work_item_id s p =
     (if opt_str decision_id = [] then Inl (ValueError ''dispatch_decision_id is required before dispatch'')
      else
        res_bind (assert_current s) (\<lambda>_.
        res_bind (confirmed_dispatch_decision s (opt_str decision_id) work_item_id) (\<lambda>d.
        res_bind (refresh_derived_state env s p) (\<lambda>s.
          if failed_dispatch_gates s \<noteq> []
          then Inl (ValueError (''readiness gate failed: '' @ gate_names (failed_dispatch_gates s)))
          else if tcs_dispatch_readiness_score (tf_compiler s) < 70
          then Inl (ValueError ''readiness score is below dispatch threshold'')
          else Inr (s, d)))))"

text \<open>The plan of the last compilation, or a new one when the service has lost it; with the number of
  identifiers that it drew for links.\<close>

definition plan_for_dispatch ::
  "flow_env \<Rightarrow> string \<Rightarrow> taskflow_state \<Rightarrow> project_state \<Rightarrow> flow_service \<Rightarrow>
   (plan_draft \<times> taskflow_state \<times> nat) flow_step" where
  "plan_for_dispatch env taskflow_id s p S =
     (case dict_get (fs_plans S) taskflow_id of
        Some plan \<Rightarrow> (S, Inr (plan, s, 0))
      | None \<Rightarrow>
          if tfo_plan_drafts (tf_outputs s) = []
          then (S, Inl (ValueError ''taskflow goal must be compiled before dispatch''))
          else flow_bind (S, compile_plan env s p) (\<lambda>S (plan, s).
            (S\<lparr>fs_plans := dict_set taskflow_id plan (fs_plans S)\<rparr>,
             Inr (plan, s, length (pd_decision_work_links plan) + length (pd_acceptance_trace_links plan)))))"

definition compiled_work_item :: "plan_draft \<Rightarrow> project_state \<Rightarrow> string \<Rightarrow> compiled_candidate result" where
  "compiled_work_item plan p work_item_id =
     (case List.find (\<lambda>c. cc_work_item_id c = work_item_id) (pd_work_item_candidates plan) of
        Some c \<Rightarrow> Inr c
      | None \<Rightarrow>
          (case List.find (\<lambda>i. wi_id i = work_item_id)
                  (wib_active_work_items (ps_work_items p) @ wib_reusable_work_items (ps_work_items p)) of
             Some i \<Rightarrow>
               Inr \<lparr>cc_candidate_id = work_item_id, cc_title = wi_title i, cc_description = wi_description i,
                 cc_type = work_item_type_value (wi_type i), cc_action = ''reuse'',
                 cc_work_item_id = wi_id i, cc_reuse_work_item_id = Some (wi_id i),
                 cc_dedupe_key = wi_dedupe_key i,
                 cc_relation_type = goal_work_relation_type_value GRel_DIRECT_DELIVERY, cc_rationale = [],
                 cc_acceptance_refs = wi_acceptance_refs i, cc_decision_refs = wi_decision_refs i,
                 cc_artifact_refs = wi_artifact_refs i, cc_scenario_refs = [], cc_risk_refs = [],
                 cc_depends_on = wi_depends_on i, cc_metadata = wi_metadata i\<rparr>
           | None \<Rightarrow> Inl (KeyError (''compiled work item not found: '' @ work_item_id))))"

definition pending_run ::
  "flow_env \<Rightarrow> string \<Rightarrow> plan_draft \<Rightarrow> compiled_candidate \<Rightarrow> dispatch_decision_record \<Rightarrow> pyobj option \<Rightarrow> string \<Rightarrow>
   task_run result" where
  "pending_run env taskflow_id plan c d metadata executor =
     res_bind (enum_of task_run_executor_value executor) (\<lambda>ex.
       Inr \<lparr>trn_id = new_id env ''task-run'' 0, trn_project_id = pd_project_id plan,
             trn_work_item_id = cc_work_item_id c, trn_goal_id = Some (pd_goal_id plan),
             trn_status = TRun_PENDING, trn_executor = ex, trn_repo_ref = None, trn_workspace_ref = None,
             trn_branch_ref = None, trn_pr_ref = None, trn_dispatch_ref_id = Some (dd_id d),
             trn_created_at = fe_now env, trn_updated_at = fe_now env,
             trn_metadata = dict_update (dict_update
               [(''taskflow_id'', PStr taskflow_id), (''dispatch_decision_id'', PStr (dd_id d)),
                (''source_brief_version'', PInt (dd_brief_version d)),
                (''candidate_id'', PStr (cc_candidate_id c)), (''work_item_title'', PStr (cc_title c)),
                (''work_item_description'', PStr (cc_description c)), (''work_item_type'', PStr (cc_type c)),
                (''dispatch_requested_at'', PStr (fe_now env))] (cc_metadata c))
               (case metadata of None \<Rightarrow> [] | Some m \<Rightarrow> m)\<rparr>)"

definition apply_dispatch_result :: "flow_env \<Rightarrow> dispatch_result \<Rightarrow> task_run \<Rightarrow> task_run" where
  "apply_dispatch_result env r run =
     (let selected = opt_str (drs_selected_executor_id r);
          m1 = dict_set ''dispatch_result'' (PDict
            [(''selected_executor_id'', opt_val (drs_selected_executor_id r)), (''reason'', PStr (drs_reason r)),
             (''manual_override'', PBool (drs_manual_override r)), (''candidates'', dicts (drs_candidates r)),
             (''filtered'', dicts (drs_filtered r)), (''score_summary'', PDict (drs_score_summary r))])
            (trn_metadata run);
          m2 = (case drs_agent_run_ref r of
             Some ref \<Rightarrow> if ref \<noteq> [] then dict_set ''agent_run_ref'' (PDict ref) m1 else m1 | None \<Rightarrow> m1);
          m3 = (if selected \<noteq> [] then dict_set ''selected_executor_id'' (PStr selected) m2 else m2)
      in run\<lparr>trn_metadata := m3, trn_updated_at := fe_now env,
             trn_status := (if selected \<noteq> [] then TRun_DISPATCHED else trn_status run)\<rparr>)"

text \<open>The run after the dispatcher has seen it, and the run of the agent that it names.\<close>

definition dispatched_run ::
  "flow_env \<Rightarrow> string option \<Rightarrow> pyobj option \<Rightarrow> task_run \<Rightarrow> (task_run \<times> string) result" where
  "dispatched_run env hint metadata run =
     (case fe_dispatcher env of
        None \<Rightarrow> Inr (run, [])
      | Some dispatch \<Rightarrow> res_bind (dispatch run hint metadata) (\<lambda>r.
          Inr (apply_dispatch_result env r run,
               case drs_agent_run_ref r of Some ref \<Rightarrow> str_or_empty (pget ref ''id'') | None \<Rightarrow> [])))"

definition run_links ::
  "flow_env \<Rightarrow> plan_draft \<Rightarrow> compiled_candidate \<Rightarrow> dispatch_decision_record \<Rightarrow> task_run \<Rightarrow> string \<Rightarrow>
   trace_link list result" where
  "run_links env plan c d run agent_run_id =
     (let to_run = (\<lambda>type ident rel why. plan_link env (pd_project_id plan) type ident TEnt_TASK_RUN (trn_id run) rel why)
      in res_bind (acceptance_of (cc_metadata c)) (\<lambda>acceptance.
         res_bind (texts_in acceptance ''rule_ids'') (\<lambda>rules.
         res_bind (texts_in acceptance ''scenario_ids'') (\<lambda>scenarios.
           let version = pget acceptance ''source_brief_version''
           in Inr ([to_run TEnt_WORK_ITEM (cc_work_item_id c) TRel_PRODUCES
                      ''Taskflow dispatch created a fresh TaskRun for this WorkItem.'',
                    to_run TEnt_DISPATCH_DECISION (dd_id d) TRel_DISPATCHES
                      ''Confirmed dispatch decision authorized this TaskRun.''] @
                   (if version = PNone then []
                    else [to_run TEnt_BRIEF (''brief-v'' @ py_str version) TRel_EXPLAINS
                            (''Brief v'' @ py_str version @ '' explains this TaskRun.'')]) @
                   map (\<lambda>r. to_run TEnt_RULE r TRel_VALIDATES (''Rule '' @ r @ '' validates this TaskRun.'')) rules @
                   map (\<lambda>r. to_run TEnt_SCENARIO r TRel_VALIDATES
                     (''Scenario '' @ r @ '' validates this TaskRun.'')) scenarios @
                   (if agent_run_id = [] then []
                    else [plan_link env (pd_project_id plan) TEnt_TASK_RUN (trn_id run) TEnt_AGENT_RUN agent_run_id
                            TRel_DISPATCHES ''TaskRun dispatched execution to a runtime run.'']))))))"

definition record_run ::
  "flow_env \<Rightarrow> task_run \<Rightarrow> compiled_candidate \<Rightarrow> dispatch_decision_record \<Rightarrow> taskflow_state \<Rightarrow> taskflow_state" where
  "record_run env run c d s =
     (let s1 = append_taskflow_event env TEvt_DISPATCH_REQUESTED []
            [(''task_run_id'', PStr (trn_id run)), (''work_item_id'', PStr (cc_work_item_id c)),
             (''dispatch_decision_id'', PStr (dd_id d))]
            (tf_outputs_update (tfo_task_run_refs_update
              (\<lambda>xs. if trn_id run \<in> set xs then xs else xs @ [trn_id run])) s)
      in if trn_status run = TRun_DISPATCHED then set_flow_status Flow_DISPATCHED s1 else s1)"

definition dispatch_task_run ::
  "flow_env \<Rightarrow> string \<Rightarrow> string \<Rightarrow> string option \<Rightarrow> string option \<Rightarrow> pyobj option \<Rightarrow> string \<Rightarrow> flow_service \<Rightarrow>
   task_run flow_step" where
  "dispatch_task_run env taskflow_id work_item_id decision_id hint metadata executor S =
     flow_bind (load_flow env taskflow_id S) (\<lambda>S (s, p).
     flow_bind (S, authorize_dispatch env decision_id work_item_id s p) (\<lambda>S (s, d).
     flow_bind (plan_for_dispatch env taskflow_id s p S) (\<lambda>S (plan, s, n).
     flow_bind (S, compiled_work_item plan p work_item_id) (\<lambda>S c.
     flow_bind (S, pending_run env taskflow_id plan c d metadata executor) (\<lambda>S run.
     flow_bind (S, dispatched_run env hint metadata run) (\<lambda>S (run, agent_run_id).
     flow_bind (S, run_links env plan c d run agent_run_id) (\<lambda>S links.
     flow_bind (save_project_state env
        (fold (add_trace_link env) (number_links env n links) (add_task_run env run p)) S) (\<lambda>S _.
     flow_bind (save_taskflow_state env (record_run env run c d s) S) (\<lambda>S _. (S, Inr run))))))))))"

section \<open>Reviews, the memory of the project and its scans\<close>

definition answer_body ::
  "flow_env \<Rightarrow> string \<Rightarrow> string \<Rightarrow> pyval \<Rightarrow> string \<Rightarrow> string \<Rightarrow> taskflow_state \<Rightarrow> project_state \<Rightarrow>
   (taskflow_state \<times> review_card_answer) result" where
  "answer_body env ident action value actor comment s p =
     res_bind (answer_card_v1 env ident action value actor comment s) (\<lambda>(s, answer).
       let s = (if action = ''reopen''
             then mark_taskflow_stale env (''review card reopened: '' @ ident) ''review_card_v1'' [ident] s else s)
       in res_bind (if action \<noteq> ''discuss'' then redraft env actor s p else Inr s) (\<lambda>s. Inr (s, answer)))"

definition answer_review_card_v1 ::
  "flow_env \<Rightarrow> string \<Rightarrow> string \<Rightarrow> string \<Rightarrow> pyval \<Rightarrow> string \<Rightarrow> string \<Rightarrow> flow_service \<Rightarrow>
   review_card_answer flow_step" where
  "answer_review_card_v1 env taskflow_id ident action value actor comment S =
     update_flow env taskflow_id (answer_body env ident action value actor comment) S"

definition review_compiler_decision ::
  "flow_env \<Rightarrow> string \<Rightarrow> string \<Rightarrow> string \<Rightarrow> string \<Rightarrow> string \<Rightarrow> pyval \<Rightarrow> flow_service \<Rightarrow> pyobj flow_step" where
  "review_compiler_decision env taskflow_id decision_id action actor reason value S =
     update_flow env taskflow_id (\<lambda>s p.
       res_bind (review_decision env p decision_id action actor reason value s) (\<lambda>(s, d).
         Inr (s, [(''ok'', PBool True), (''compiler_decision'', PDict d),
                  (''taskflow'', PDict (taskflow_state_to_dict (flow_touch env s)))]))) S"

definition preview_project_memory_patch ::
  "flow_env \<Rightarrow> string \<Rightarrow> string \<Rightarrow> string \<Rightarrow> string \<Rightarrow> pyobj list \<Rightarrow> flow_service \<Rightarrow> pyobj flow_step" where
  "preview_project_memory_patch env taskflow_id actor reason source operations S =
     update_both env taskflow_id (\<lambda>s p.
       res_bind (preview_patch env p actor reason source operations) (\<lambda>proposal.
         let (p, proposal) = record_pending_patch env proposal p
         in Inr (append_taskflow_event env TEvt_PROJECT_MEMORY_PATCH_PROPOSED actor proposal s, p,
                 [(''ok'', PBool True), (''proposal'', PDict proposal)]))) S"

text \<open>The other taskflows of the project go stale one after the other.\<close>

fun save_stale ::
  "flow_env \<Rightarrow> string \<Rightarrow> string \<Rightarrow> string \<Rightarrow> string list \<Rightarrow> taskflow_state list \<Rightarrow> flow_service \<Rightarrow> unit flow_step" where
  "save_stale env current reason source refs [] S = (S, Inr ())"
| "save_stale env current reason source refs (s # ss) S =
     (if tfm_taskflow_id (tf_meta s) = current then save_stale env current reason source refs ss S
      else flow_bind (save_taskflow_state env (mark_taskflow_stale env reason source refs s) S) (\<lambda>S _.
        save_stale env current reason source refs ss S))"

definition mark_related_stale ::
  "flow_env \<Rightarrow> taskflow_state \<Rightarrow> string \<Rightarrow> string \<Rightarrow> string list \<Rightarrow> flow_service \<Rightarrow> unit flow_step" where
  "mark_related_stale env s reason source refs S =
     flow_bind (S, list_taskflow_states env (tfm_project_id (tf_meta s)) S) (\<lambda>S ss.
       save_stale env (tfm_taskflow_id (tf_meta s)) reason source refs ss S)"

definition apply_project_memory_patch ::
  "flow_env \<Rightarrow> string \<Rightarrow> string option \<Rightarrow> string \<Rightarrow> string \<Rightarrow> string \<Rightarrow> pyobj list \<Rightarrow> flow_service \<Rightarrow> pyobj flow_step" where
  "apply_project_memory_patch env taskflow_id proposal_id actor reason source operations S =
     flow_bind (load_flow env taskflow_id S) (\<lambda>S (s, p).
     flow_bind (S, apply_patch env proposal_id actor reason source operations s p) (\<lambda>S (s, p, proposal).
     flow_bind (save_project_state env p S) (\<lambda>S _.
     flow_bind (mark_related_stale env s ''Project Memory changed'' ''project_memory_patch''
                  [py_str (pget proposal ''id'')] S) (\<lambda>S _.
     flow_bind (save_taskflow_state env s S) (\<lambda>S _.
     flow_bind (S, get_taskflow_state env taskflow_id S) (\<lambda>S s.
       (S, Inr [(''ok'', PBool True), (''proposal'', PDict proposal),
                (''taskflow'', PDict (taskflow_state_to_dict s)),
                (''project_memory'', PDict (memory_view (project_touch env p)))])))))))"

definition get_project_memory_view :: "flow_env \<Rightarrow> string \<Rightarrow> flow_service \<Rightarrow> pyobj flow_step" where
  "get_project_memory_view env taskflow_id S =
     flow_bind (load_flow env taskflow_id S) (\<lambda>S (s, p).
       (S, Inr [(''ok'', PBool True), (''project_memory'', PDict (memory_view p))]))"

text \<open>The snapshot of a scan replaces the one with its id; the last twenty are kept.\<close>

definition record_repo_scan_snapshot :: "pyobj \<Rightarrow> project_state \<Rightarrow> project_state" where
  "record_repo_scan_snapshot snapshot p =
     ps_knowledge_base_update (kb_reusable_context_update (\<lambda>context.
       let snapshots = list_of (pget context ''repo_scan_snapshots'');
           same = (\<lambda>v. case v of PDict d \<Rightarrow> pget d ''id'' = pget snapshot ''id'' | _ \<Rightarrow> False);
           all = (if list_ex same snapshots then change_first same (\<lambda>_. PDict snapshot) snapshots
                  else snapshots @ [PDict snapshot])
       in dict_set ''repo_scan_snapshots'' (PList (drop (length all - 20) all)) context)) p"

definition scan_repo_complexity :: "flow_env \<Rightarrow> string \<Rightarrow> pyobj \<Rightarrow> flow_service \<Rightarrow> taskflow_state flow_step" where
  "scan_repo_complexity env taskflow_id snapshot S =
     flow_bind (load_flow env taskflow_id S) (\<lambda>S (s, p).
       let p = project_touch env (record_repo_scan_snapshot snapshot p)
       in flow_bind (save_project_state env p S) (\<lambda>S _.
          flow_bind (S, redraft env ''repo_static_analyzer'' s p) (\<lambda>S s.
          flow_bind (save_taskflow_state env s S) (\<lambda>S _. (S, get_taskflow_state env taskflow_id S)))))"

definition get_complexity_assessment :: "flow_env \<Rightarrow> string \<Rightarrow> flow_service \<Rightarrow> pyobj result" where
  "get_complexity_assessment env taskflow_id S =
     res_bind (get_taskflow_state env taskflow_id S) (\<lambda>s.
     res_bind (get_project_state env (tfm_project_id (tf_meta s)) S) (\<lambda>p.
       Inr [(''estimate'', opt_record_val complexity_estimate_record_to_dict (tcs_complexity_estimate (tf_compiler s))),
            (''readiness_gates'', docs readiness_gate_to_dict (tcs_readiness_gates (tf_compiler s))),
            (''required_artifacts'', strs (tcs_required_artifacts (tf_compiler s))),
            (''repo_scans'', PList (case p of None \<Rightarrow> []
               | Some p \<Rightarrow> list_of (pget (kb_reusable_context (ps_knowledge_base p)) ''repo_scan_snapshots'')))]))"

definition render_review_cards_v1 :: "flow_env \<Rightarrow> string \<Rightarrow> flow_service \<Rightarrow> review_card_v1 list result" where
  "render_review_cards_v1 env taskflow_id S =
     res_bind (get_taskflow_state env taskflow_id S) (\<lambda>s. Inr (render_cards s))"

section \<open>Calls and runs\<close>

datatype flow_call =
    Start_taskflow flow_start
  | Discovery_turn string discovery_turn
  | Rule_example string string "pyobj list" "pyobj list" "pyobj list"
  | Complexity_evidence string "pyobj list" string
  | Override_complexity string string string string
  | Refresh_complexity string
  | Compile_draft string string
  | Mark_ready string "int option" string
  | Confirm_brief string "int option" string
  | Compile_goal string
  | Request_dispatch string "string list" string string pyobj
  | Confirm_dispatch string string string
  | Reject_dispatch string string string
  | Dispatch_run string string "string option" "string option" "pyobj option" string
  | Answer_card string string string pyval string string
  | Review_decision string string string string string pyval
  | Preview_patch string string string string "pyobj list"
  | Apply_patch string "string option" string string string "pyobj list"
  | Memory_view string
  | Scan_repo string pyobj

fun flow_step_of :: "flow_env \<Rightarrow> flow_call \<Rightarrow> flow_service \<Rightarrow> flow_service" where
  "flow_step_of env (Start_taskflow r) S = fst (start_taskflow env r S)"
| "flow_step_of env (Discovery_turn t d) S = fst (record_discovery_turn env t d S)"
| "flow_step_of env (Rule_example t a rs es as) S = fst (record_rule_example env t a rs es as S)"
| "flow_step_of env (Complexity_evidence t e a) S = fst (record_complexity_evidence env t e a S)"
| "flow_step_of env (Override_complexity t l r a) S = fst (override_complexity env t l r a S)"
| "flow_step_of env (Refresh_complexity t) S = fst (refresh_complexity_assessment env t S)"
| "flow_step_of env (Compile_draft t a) S = fst (compile_brief_draft env t a S)"
| "flow_step_of env (Mark_ready t v a) S = fst (mark_brief_ready env t v a S)"
| "flow_step_of env (Confirm_brief t v a) S = fst (confirm_brief env t v a S)"
| "flow_step_of env (Compile_goal t) S = fst (compile_goal env t S)"
| "flow_step_of env (Request_dispatch t is a r m) S = fst (request_dispatch_decision env t is a r m S)"
| "flow_step_of env (Confirm_dispatch t d a) S = fst (confirm_dispatch_decision env t d a S)"
| "flow_step_of env (Reject_dispatch t d a) S = fst (reject_dispatch_decision env t d a S)"
| "flow_step_of env (Dispatch_run t i d h m e) S = fst (dispatch_task_run env t i d h m e S)"
| "flow_step_of env (Answer_card t i a v u c) S = fst (answer_review_card_v1 env t i a v u c S)"
| "flow_step_of env (Review_decision t d a u r v) S = fst (review_compiler_decision env t d a u r v S)"
| "flow_step_of env (Preview_patch t a r s os) S = fst (preview_project_memory_patch env t a r s os S)"
| "flow_step_of env (Apply_patch t i a r s os) S = fst (apply_project_memory_patch env t i a r s os S)"
| "flow_step_of env (Memory_view t) S = fst (get_project_memory_view env t S)"
| "flow_step_of env (Scan_repo t d) S = fst (scan_repo_complexity env t d S)"

fun flow_run :: "(flow_env \<times> flow_call) list \<Rightarrow> flow_service \<Rightarrow> flow_service" where
  "flow_run [] S = S"
| "flow_run ((env, c) # cs) S = flow_run cs (flow_step_of env c S)"

end
