(* ===== verification/FlowGrowth.thy ===== *)
theory FlowGrowth
  imports FlowService
begin

text \<open>
  How a taskflow may change. \<open>advances s s'\<close> says that the taskflow keeps its identity, its ledger and its
  dispatch decisions only grow, a stale decision stays stale, and the invariant \<open>flow_ok\<close> is kept: the
  versions of the brief are numbered from 1, the last is the current one, the confirmed one exists, and
  no gate is a manual one. The locale \<open>growth\<close> holds what follows for any such relation when an operation
  is put together from others; it is interpreted for \<open>advances\<close> and for the step of the service.
\<close>

section \<open>Results\<close>

definition result_all :: "('a \<Rightarrow> bool) \<Rightarrow> 'a result \<Rightarrow> bool" where
  "result_all P r = (case r of Inl _ \<Rightarrow> True | Inr x \<Rightarrow> P x)"

lemma result_all_simps [simp]: "result_all P (Inl e)" "result_all P (Inr x) = P x"
  by (simp_all add: result_all_def)

lemma result_all_bind:
  "result_all Q r \<Longrightarrow> (\<And>x. Q x \<Longrightarrow> result_all P (f x)) \<Longrightarrow> result_all P (res_bind r f)"
  by (cases r) simp_all

lemma result_all_any: "(\<And>x. result_all P (f x)) \<Longrightarrow> result_all P (res_bind r f)"
  by (cases r) simp_all

lemma result_all_mono: "result_all Q r \<Longrightarrow> (\<And>x. Q x \<Longrightarrow> P x) \<Longrightarrow> result_all P r"
  by (cases r) simp_all

lemma result_all_if:
  "(c \<Longrightarrow> result_all P a) \<Longrightarrow> (\<not> c \<Longrightarrow> result_all P b) \<Longrightarrow> result_all P (if c then a else b)"
  by simp

lemma result_allD: "result_all P r \<Longrightarrow> r = Inr x \<Longrightarrow> P x"
  by simp

lemma result_all_True: "result_all (\<lambda>_. True) r"
  by (cases r) simp_all

section \<open>Growth\<close>

locale growth =
  fixes le :: "'s \<Rightarrow> 's \<Rightarrow> bool"
  assumes refl: "le s s"
    and trans: "le s t \<Longrightarrow> le t u \<Longrightarrow> le s u"
begin

lemma fold_grows: "(\<And>x s. le s (f x s)) \<Longrightarrow> le s (fold f xs s)"
  by (induction xs arbitrary: s) (auto intro: refl trans)

lemma then_grows: "result_all (le s) r \<Longrightarrow> (\<And>t. result_all (le t) (f t)) \<Longrightarrow> result_all (le s) (res_bind r f)"
  by (rule result_all_bind) (auto intro: result_all_mono trans)

lemma then_pair_grows:
  "result_all (\<lambda>(t, _). le s t) r \<Longrightarrow> (\<And>t x. result_all (le t) (f (t, x))) \<Longrightarrow>
   result_all (le s) (res_bind r f)"
  by (rule result_all_bind) (auto intro: result_all_mono trans)

lemma then_grows_pair:
  "result_all (le s) r \<Longrightarrow> (\<And>t. result_all (\<lambda>(u, _). le t u) (f t)) \<Longrightarrow>
   result_all (\<lambda>(u, _). le s u) (res_bind r f)"
  by (rule result_all_bind) (auto intro: result_all_mono trans)

lemma after: "result_all (le t) r \<Longrightarrow> le s t \<Longrightarrow> result_all (le s) r"
  by (erule result_all_mono) (auto intro: trans)

lemma after_pair: "result_all (\<lambda>(u, _). le t u) r \<Longrightarrow> le s t \<Longrightarrow> result_all (\<lambda>(u, _). le s u) r"
  by (erule result_all_mono) (auto intro: trans)

end

section \<open>The relation\<close>

definition decision_stale :: "dispatch_decision_record \<Rightarrow> bool" where
  "decision_stale d \<longleftrightarrow> truthy (pget (dd_metadata d) ''stale'')"

definition decision_advances :: "dispatch_decision_record \<Rightarrow> dispatch_decision_record \<Rightarrow> bool" where
  "decision_advances d d' \<longleftrightarrow> dd_id d' = dd_id d \<and> (decision_stale d \<longrightarrow> decision_stale d')"

text \<open>What an event records, all but its time: the copy of an event without one has the time of the
  copy.\<close>

definition event_view ::
  "taskflow_event \<Rightarrow> string \<times> taskflow_event_type \<times> string \<times> string \<times> string \<times> string \<times> pyobj \<times> pyobj" where
  "event_view e =
     (tev_id e, tev_type e, tev_taskflow_id e, tev_project_id e, tev_goal_id e, tev_actor e,
      tev_payload e, tev_metadata e)"

definition briefs_numbered :: "taskflow_outputs \<Rightarrow> bool" where
  "briefs_numbered out \<longleftrightarrow>
     (let n = length (tfo_brief_versions out)
      in map bv_version (tfo_brief_versions out) = map int [1..<Suc n] \<and>
         tfo_current_brief_version out = (if n = 0 then None else Some (int n)) \<and>
         (case tfo_confirmed_brief_version out of None \<Rightarrow> True | Some v \<Rightarrow> 1 \<le> v \<and> v \<le> int n))"

definition gates_computed :: "taskflow_compiler_state \<Rightarrow> bool" where
  "gates_computed c \<longleftrightarrow> list_all (\<lambda>g. rg_source g \<notin> {[], ''manual''}) (tcs_readiness_gates c)"

definition flow_ok :: "taskflow_state \<Rightarrow> bool" where
  "flow_ok s \<longleftrightarrow> briefs_numbered (tf_outputs s) \<and> gates_computed (tf_compiler s)"

definition grown_decisions ::
  "dispatch_decision_record list \<Rightarrow> dispatch_decision_record list \<Rightarrow> bool" where
  "grown_decisions ds ds' \<longleftrightarrow> (\<exists>es fs. ds' = es @ fs \<and> list_all2 decision_advances ds es)"

definition advances :: "taskflow_state \<Rightarrow> taskflow_state \<Rightarrow> bool" where
  "advances s s' \<longleftrightarrow>
     tfm_taskflow_id (tf_meta s') = tfm_taskflow_id (tf_meta s) \<and>
     prefix (map event_view (tf_events s)) (map event_view (tf_events s')) \<and>
     grown_decisions (tfo_dispatch_decisions (tf_outputs s)) (tfo_dispatch_decisions (tf_outputs s')) \<and>
     (flow_ok s \<longrightarrow> flow_ok s')"

lemma decision_advances_refl [simp]: "decision_advances d d"
  by (simp add: decision_advances_def)

lemma decision_advances_trans: "decision_advances c d \<Longrightarrow> decision_advances d e \<Longrightarrow> decision_advances c e"
  by (simp add: decision_advances_def)

lemma grown_decisionsI: "list_all2 decision_advances ds es \<Longrightarrow> grown_decisions ds (es @ fs)"
  by (auto simp: grown_decisions_def)

lemma grown_decisions_all: "list_all2 decision_advances ds es \<Longrightarrow> grown_decisions ds es"
  using grown_decisionsI[of ds es "[]"] by simp

lemma grown_decisions_refl [simp]: "grown_decisions ds ds"
  by (rule grown_decisions_all) (simp add: list_all2_same)

lemma grown_decisions_snoc: "grown_decisions ds (ds @ fs)"
  by (rule grown_decisionsI) (simp add: list_all2_same)

lemma grown_decisions_map:
  "(\<And>d. decision_advances d (f d)) \<Longrightarrow> grown_decisions ds (map f ds)"
  by (rule grown_decisions_all) (simp add: list_all2_map2 list_all2_same)

lemma grown_decisions_trans:
  assumes "grown_decisions as bs" "grown_decisions bs cs"
  shows "grown_decisions as cs"
proof -
  obtain es fs where bs: "bs = es @ fs" "list_all2 decision_advances as es"
    using assms(1) by (auto simp: grown_decisions_def)
  obtain gs hs where cs: "cs = gs @ hs" "list_all2 decision_advances bs gs"
    using assms(2) by (auto simp: grown_decisions_def)
  obtain xs ys where gs: "gs = xs @ ys" "list_all2 decision_advances es xs"
    using cs(2) bs(1) by (auto simp: list_all2_append1)
  have "list_all2 decision_advances as xs"
    using decision_advances_trans bs(2) gs(2) by (rule list_all2_trans)
  then show ?thesis using grown_decisionsI[of as xs "ys @ hs"] gs(1) cs(1) by simp
qed

interpretation adv: growth advances
proof
  show "advances s s" for s
    by (simp add: advances_def)
  show "advances s u" if "advances s t" "advances t u" for s t u
    using that grown_decisions_trans unfolding advances_def by (auto intro: prefix_order.trans)
qed

text \<open>What a run of the ledger alone, and changes elsewhere, leave as it is.\<close>

lemma advances_same:
  "tfm_taskflow_id (tf_meta s') = tfm_taskflow_id (tf_meta s) \<Longrightarrow> tf_events s' = tf_events s \<Longrightarrow>
   tfo_dispatch_decisions (tf_outputs s') = tfo_dispatch_decisions (tf_outputs s) \<Longrightarrow>
   tfo_brief_versions (tf_outputs s') = tfo_brief_versions (tf_outputs s) \<Longrightarrow>
   tfo_current_brief_version (tf_outputs s') = tfo_current_brief_version (tf_outputs s) \<Longrightarrow>
   tfo_confirmed_brief_version (tf_outputs s') = tfo_confirmed_brief_version (tf_outputs s) \<Longrightarrow>
   tcs_readiness_gates (tf_compiler s') = tcs_readiness_gates (tf_compiler s) \<Longrightarrow> advances s s'"
  by (simp add: advances_def flow_ok_def briefs_numbered_def gates_computed_def)

lemma advances_event: "advances s (append_taskflow_event env type actor payload s)"
  by (simp add: advances_def append_taskflow_event_def flow_ok_def)

lemma advances_events: "advances s (append_each env type actor payload xs s)"
  unfolding append_each_def by (rule adv.fold_grows) (rule advances_event)

lemma advances_status: "advances s (set_flow_status st s)"
  by (rule advances_same) (simp_all add: set_flow_status_def)

lemma advances_touch: "advances s (flow_touch env s)"
  by (rule advances_same) (simp_all add: flow_touch_def)

lemma advances_parts:
  "advances s (on_clarification f s)" "advances s (tf_intent_update g s)"
  "advances s (tf_design_update h s)" "advances s (tf_refs_update i s)"
  "advances s (tf_relations_update j s)"
  by (rule advances_same; simp add: on_clarification_def)+

lemma advances_index: "advances s (tf_compiler_update (tcs_traceability_index_update f) s)"
  by (rule advances_same) simp_all

lemma advances_outputs:
  "advances s (tf_outputs_update (tfo_work_item_candidates_update f) s)"
  "advances s (tf_outputs_update (tfo_plan_drafts_update g) s)"
  "advances s (tf_outputs_update (tfo_compiler_decisions_update h) s)"
  "advances s (tf_outputs_update (tfo_review_card_answers_update i) s)"
  "advances s (tf_outputs_update (tfo_task_run_refs_update j) s)"
  by (rule advances_same; simp)+

lemmas advances_simple = advances_event advances_events advances_status advances_touch advances_parts
  advances_index advances_outputs adv.refl

lemma advances_clear: "advances s (clear_taskflow_stale s)"
  unfolding clear_taskflow_stale_def by (rule advances_index)

lemma advances_stale: "advances s (mark_taskflow_stale env reason source refs s)"
proof -
  have "decision_advances d (stale_dispatch reason d)" for d
    by (simp add: decision_advances_def decision_stale_def stale_dispatch_def pget_def)
  then show ?thesis
    by (cases "tfm_status (tf_meta s) = Flow_CANCELLED")
      (simp_all add: advances_def mark_taskflow_stale_def flow_ok_def briefs_numbered_def gates_computed_def
        set_flow_status_def Let_def grown_decisions_map)
qed

text \<open>After it every decision is stale.\<close>

lemma stale_marks_all:
  "d \<in> set (tfo_dispatch_decisions (tf_outputs (mark_taskflow_stale env reason source refs s))) \<Longrightarrow>
   decision_stale d"
  by (auto simp: mark_taskflow_stale_def Let_def set_flow_status_def decision_stale_def stale_dispatch_def pget_def
      split: if_splits)

section \<open>Briefs\<close>

lemma change_brief_same [simp]:
  "tf_meta (change_brief v f s) = tf_meta s" "tf_events (change_brief v f s) = tf_events s"
  "tf_compiler (change_brief v f s) = tf_compiler s"
  "tfo_dispatch_decisions (tf_outputs (change_brief v f s)) = tfo_dispatch_decisions (tf_outputs s)"
  "tfo_current_brief_version (tf_outputs (change_brief v f s)) = tfo_current_brief_version (tf_outputs s)"
  "tfo_confirmed_brief_version (tf_outputs (change_brief v f s)) = tfo_confirmed_brief_version (tf_outputs s)"
  by (simp_all add: change_brief_def)

lemma length_change_first [simp]: "length (change_first p f xs) = length xs"
  by (induction xs) auto

lemma change_brief_numbered:
  assumes "\<And>b. bv_version (f b) = bv_version b"
  shows "briefs_numbered (tf_outputs (change_brief v f s)) \<longleftrightarrow> briefs_numbered (tf_outputs s)"
proof -
  have "map bv_version (change_first (\<lambda>b. bv_version b = v) f xs) = map bv_version xs" for xs
    by (rule change_first_map) (rule assms)
  then show ?thesis by (simp add: briefs_numbered_def change_brief_def Let_def)
qed

lemma advances_change_brief:
  "(\<And>b. bv_version (f b) = bv_version b) \<Longrightarrow> advances s (change_brief v f s)"
  by (simp add: advances_def flow_ok_def change_brief_numbered)

lemma compile_draft_advances: "advances s (compile_draft env actor s)"
proof -
  have "flow_ok (compile_draft env actor s)" if "flow_ok s"
    using that by (auto simp: flow_ok_def compile_draft_def append_taskflow_event_def briefs_numbered_def
        Let_def gates_computed_def split: option.splits)
  then show ?thesis
    by (simp add: advances_def compile_draft_def append_taskflow_event_def Let_def)
qed

lemma sync_advances: "result_all (advances s) (sync_diagnostics env s)"
  by (auto simp: sync_diagnostics_def Let_def split: option.split
      intro!: result_all_any advances_change_brief adv.refl)

lemma mark_ready_advances: "result_all (advances s) (mark_ready env version actor s)"
  by (auto simp: mark_ready_def
      intro!: result_all_any adv.trans[OF advances_change_brief adv.trans[OF advances_event advances_event]])

lemma confirm_advances: "result_all (advances s) (confirm_version env version actor s)"
proof -
  have "advances s (tf_outputs_update (tfo_confirmed_brief_version_update (\<lambda>_. Some (bv_version b)))
      (change_brief (bv_version b) f s))"
    if b: "find_brief s v = Inr b" "Some (bv_version b) = tfo_current_brief_version (tf_outputs s)"
      and f: "\<And>b. bv_version (f b) = bv_version b" for b v f
  proof -
    have "briefs_numbered (tf_outputs s) \<Longrightarrow> 1 \<le> bv_version b \<and> bv_version b \<le> int (length (tfo_brief_versions (tf_outputs s)))"
      using b(2) by (auto simp: briefs_numbered_def Let_def split: if_splits)
    then show ?thesis
      using change_brief_numbered[of f "bv_version b" s, OF f]
      by (auto simp: advances_def flow_ok_def briefs_numbered_def Let_def change_brief_def)
  qed
  then show ?thesis
    by (auto simp: confirm_version_def result_all_def res_bind_def split: sum.splits
        intro: adv.trans[OF _ advances_event])
qed

end
