(* ===== verification/FlowRuns.thy ===== *)
theory FlowRuns
  imports FlowGrowth
begin

text \<open>
  Every operation of the taskflow service advances the taskflows that it touches: first the bodies of the
  operations, then the copies of the store, then the calls and the runs of calls.
\<close>

section \<open>Refreshing\<close>

lemma assess_advances: "result_all (\<lambda>(t, _). advances s t) (assess_complexity env s p)"
  unfolding assess_complexity_def Let_def
  by (intro result_all_any) (simp add: advances_same)

lemma dict_set_values: "set (dict_values (dict_set k v d)) \<subseteq> insert v (set (dict_values d))"
  using dict_set_set[of k v d] by (auto simp: dict_values_def)

lemma gates_by_id_values: "set (dict_values (gates_by_id gates)) \<subseteq> set gates"
proof -
  have "set (dict_values (fold (\<lambda>g acc. dict_set (rg_id g) g acc) gs acc)) \<subseteq> set gs \<union> set (dict_values acc)" for gs acc
  proof (induction gs arbitrary: acc)
    case (Cons g gs)
    show ?case using Cons.IH[of "dict_set (rg_id g) g acc"] dict_set_values[of "rg_id g" g acc] by auto
  qed simp
  from this[of gates "[]"] show ?thesis by (simp add: gates_by_id_def)
qed

lemma generated_sources:
  "generated_gates s e = Inr gs \<Longrightarrow> list_all (\<lambda>g. rg_source g \<notin> {[], ''manual''}) gs"
  by (auto simp: generated_gates_def Let_def res_bind_Inr_iff make_gate_def artifact_gate_def list_all_iff
      split: option.splits)

lemma no_manual_gates:
  "gates_computed (tf_compiler s) \<Longrightarrow>
   filter (\<lambda>g. rg_source g = ''manual'') (tcs_readiness_gates (tf_compiler s)) = []"
  by (auto simp: gates_computed_def list_all_iff filter_empty_conv)

lemma refreshed_gates_computed:
  "gates_computed (tf_compiler s) \<Longrightarrow>
   refreshed_gates s e = res_bind (generated_gates s e) (\<lambda>gs. Inr (dict_values (gates_by_id gs)))"
  by (simp add: refreshed_gates_def no_manual_gates gates_by_id_def dict_update_def)

lemma refresh_advances: "result_all (advances s) (refresh_readiness s a)"
proof -
  have computed: "list_all (\<lambda>g. rg_source g \<notin> {[], ''manual''}) gates"
    if comp: "gates_computed (tf_compiler s)" and gates: "refreshed_gates s e = Inr gates" for e gates
  proof -
    obtain gs where gs: "generated_gates s e = Inr gs" "gates = dict_values (gates_by_id gs)"
      using gates by (auto simp: refreshed_gates_computed[OF comp] res_bind_Inr_iff)
    then show ?thesis
      using generated_sources[OF gs(1)] gates_by_id_values[of gs] by (auto simp: list_all_iff)
  qed
  have "advances s t"
    if t: "tf_meta t = tf_meta s" "tf_events t = tf_events s" "tf_outputs t = tf_outputs s"
      "refreshed_gates s e = Inr (tcs_readiness_gates (tf_compiler t))" for t e
    using t computed[OF _ t(4)] by (simp add: advances_def flow_ok_def gates_computed_def)
  then show ?thesis
    unfolding refresh_readiness_def Let_def by (auto simp: result_all_def res_bind_def split: sum.splits)
qed

lemma refresh_derived_advances: "result_all (advances s) (refresh_derived_state env s p)"
  unfolding refresh_derived_state_def
  by (rule adv.then_pair_grows[OF assess_advances]) (simp add: refresh_advances)

lemma refresh_and_sync_advances: "result_all (advances s) (refresh_and_sync env s p)"
  unfolding refresh_and_sync_def by (rule adv.then_grows[OF refresh_derived_advances]) (rule sync_advances)

lemma redraft_advances: "result_all (advances s) (redraft env actor s p)"
  unfolding redraft_def
  by (rule adv.then_grows[OF refresh_derived_advances])
    (rule adv.after[OF refresh_and_sync_advances compile_draft_advances])

section \<open>Conversations\<close>

lemma record_evidence_advances: "result_all (advances s) (record_evidence env actor evidence s)"
  unfolding record_evidence_def
  by (rule result_all_any)
    (auto intro!: adv.trans[OF _ adv.fold_grows] advances_event advances_same)

lemma override_level_advances: "result_all (advances s) (override_complexity_level env level reason actor s)"
  unfolding override_complexity_level_def
  by (rule result_all_any) (auto intro!: adv.trans[OF _ advances_event] advances_same)

lemma record_parts_advance:
  "result_all (advances s) (record_questions env t s)" "result_all (advances s) (record_rules env t s)"
  "result_all (advances s) (record_examples env t s)"
  "result_all (advances s) (record_acceptance_examples env t s)"
  "result_all (advances s) (record_decisions env t s)"
  unfolding record_questions_def record_rules_def record_examples_def record_acceptance_examples_def
    record_decisions_def
  by (rule result_all_any, simp, rule adv.trans[OF _ advances_events], rule advances_parts)+

lemma record_turn_advances: "result_all (advances s) (record_turn env t s)"
  unfolding record_turn_def
  apply (rule result_all_any)
  apply (rule adv.then_grows[OF adv.after[OF record_parts_advance(1) adv.trans[OF advances_parts(2) advances_parts(1)]]])
  apply (rule adv.then_grows[OF record_parts_advance(2)])
  apply (rule adv.then_grows[OF record_parts_advance(3)])
  apply (rule adv.then_grows[OF adv.after[OF record_parts_advance(4) advances_parts(1)]])
  apply (rule adv.then_grows[OF record_parts_advance(5)])
  apply (rule result_all_any)
  apply (simp add: adv.trans[OF advances_outputs(1) advances_event])
  done

lemma turn_advances: "result_all (advances s) (turn_body env t s p)"
  unfolding turn_body_def
  apply (rule adv.then_grows[OF record_turn_advances])
  apply (rule adv.then_grows)
   apply (simp add: record_evidence_advances adv.refl split: option.split)
  apply (rule adv.then_grows[OF redraft_advances])
  apply (simp add: advances_status)
  done

lemma card_action_advances:
  "result_all (advances s) (apply_card_action env kind source_id action value actor comment answer_id s)"
  unfolding apply_card_action_def by (auto intro!: result_all_any simp: advances_parts adv.refl)

lemma answer_card_advances:
  "result_all (\<lambda>(t, _). advances s t) (answer_card_v1 env ident action value actor comment s)"
  unfolding answer_card_v1_def Let_def
  by (auto intro!: result_all_any adv.then_grows_pair[OF card_action_advances]
      adv.trans[OF advances_outputs(4) advances_event])

lemma answer_body_advances:
  "result_all (\<lambda>(t, _). advances s t) (answer_body env ident action value actor comment s p)"
  unfolding answer_body_def
proof (rule result_all_bind[OF answer_card_advances], clarify)
  fix t x
  assume t: "advances s t"
  let ?t = "if action = ''reopen''
    then mark_taskflow_stale env (''review card reopened: '' @ ident) ''review_card_v1'' [ident] t else t"
  have "advances s ?t"
    using t by (simp add: adv.trans[OF _ advances_stale])
  then have "result_all (\<lambda>(t, _). advances s t)
      (res_bind (if action \<noteq> ''discuss'' then redraft env actor ?t p else Inr ?t) (\<lambda>s. Inr (s, x)))"
    by (intro adv.then_grows_pair) (auto intro: adv.after[OF redraft_advances] simp: adv.refl)
  then show "result_all (\<lambda>(t, _). advances s t)
      (let s = ?t in res_bind (if action \<noteq> ''discuss'' then redraft env actor s p else Inr s) (\<lambda>s. Inr (s, x)))"
    by (simp only: Let_def)
qed

section \<open>Compiling\<close>

lemma compile_plan_advances: "result_all (\<lambda>(_, t). advances s t) (compile_plan env s p)"
  unfolding compile_plan_def Let_def
  by (auto intro!: result_all_any advances_outputs(1) adv.refl simp: case_prod_beta)

lemma persist_items_advances: "result_all (\<lambda>(t, _). advances s t) (persist_items env plan cs s p)"
proof (induction cs arbitrary: s p)
  case Nil
  then show ?case by (simp add: adv.refl)
next
  case (Cons c cs)
  show ?case
    by (auto intro!: result_all_any Cons.IH adv.after_pair[OF Cons.IH advances_parts(4)])
qed

lemma build_decisions_advances: "advances s (build_decisions p plan s)"
  unfolding build_decisions_def by (rule adv.trans[OF advances_clear advances_outputs(3)])

lemma record_plan_advances: "advances s (record_plan env plan s p)"
  unfolding record_plan_def Let_def
  by (rule adv.trans[OF advances_parts(5) adv.trans[OF advances_outputs(2) adv.trans[OF advances_index
      adv.trans[OF build_decisions_advances advances_event]]]])

lemma compile_body_advances: "result_all (\<lambda>(t, _). advances s t) (compile_body env s p)"
  unfolding compile_body_def Let_def
  apply (rule result_all_bind[OF refresh_derived_advances])
  apply (rule result_all_any)
  apply (rule result_all_bind[OF compile_plan_advances])
  apply (clarsimp simp del: result_all_simps)
  apply (rule result_all_bind[OF persist_items_advances])
  apply (clarsimp simp del: result_all_simps)
  apply (rule result_all_bind[OF refresh_and_sync_advances])
  apply clarsimp
  apply (metis adv.trans advances_status record_plan_advances)
  done

section \<open>Dispatch\<close>

lemma request_advances: "result_all (\<lambda>(t, _). advances s t) (request_body env ids actor why md s p)"
proof -
  have add: "advances s (tf_outputs_update (tfo_dispatch_decisions_update (\<lambda>xs. xs @ [d])) s)" for s d
    by (simp add: advances_def flow_ok_def briefs_numbered_def grown_decisions_snoc)
  show ?thesis
    unfolding request_body_def Let_def
    apply (rule adv.then_grows_pair[OF refresh_derived_advances])
    apply (intro result_all_any)
    apply (rule result_all_if, simp)
    apply (rule result_all_if, simp)
    apply (rule result_all_any)
    apply (rule result_all_if, simp)
    apply (rule adv.then_grows_pair[OF adv.after[OF refresh_and_sync_advances adv.trans[OF add advances_event]]])
    apply (simp add: adv.refl)
    done
qed

lemma replace_decision_advances:
  assumes "dispatch_decision s i = Inr d" "decision_advances d d'"
  shows "advances s (replace_dispatch_decision i d' s)"
proof -
  have "List.find (\<lambda>d. dd_id d = i) ds = Some d \<Longrightarrow>
      list_all2 decision_advances ds (change_first (\<lambda>d. dd_id d = i) (\<lambda>_. d') ds)" for ds
    using assms(2) by (induction ds) (auto simp: list_all2_same split: if_splits)
  then show ?thesis
    using assms(1)
    by (auto simp: advances_def flow_ok_def briefs_numbered_def replace_dispatch_decision_def
        dispatch_decision_def grown_decisions_all split: option.splits)
qed

lemma confirm_dispatch_advances: "result_all (advances s) (confirm_dispatch_body env i actor s p)"
proof (cases "dispatch_decision s i")
  case (Inr d)
  let ?d = "d\<lparr>dd_status := DDec_CONFIRMED, dd_confirmed_by := actor,
    dd_confirmed_at := once (dd_confirmed_at d) (fe_now env)\<rparr>"
  have "advances s (replace_dispatch_decision i ?d s)"
    by (rule replace_decision_advances[OF Inr]) (simp add: decision_advances_def decision_stale_def)
  then show ?thesis
    unfolding confirm_dispatch_body_def Inr Let_def
    by (auto intro!: adv.then_grows[OF adv.after[OF refresh_and_sync_advances adv.trans[OF _ advances_event]]]
        advances_status adv.refl)
qed (simp add: confirm_dispatch_body_def)

lemma reject_dispatch_advances: "result_all (advances s) (reject_dispatch_body env i actor s p)"
proof (cases "dispatch_decision s i")
  case (Inr d)
  let ?d = "d\<lparr>dd_status := DDec_REJECTED, dd_rejected_by := actor,
    dd_rejected_at := once (dd_rejected_at d) (fe_now env)\<rparr>"
  have "advances s (replace_dispatch_decision i ?d s)"
    by (rule replace_decision_advances[OF Inr]) (simp add: decision_advances_def decision_stale_def)
  then show ?thesis
    unfolding reject_dispatch_body_def Inr Let_def
    by (auto intro!: adv.after[OF refresh_derived_advances adv.trans[OF _ advances_event]])
qed (simp add: reject_dispatch_body_def)

lemma authorize_advances: "result_all (\<lambda>(t, _). advances s t) (authorize_dispatch env i w s p)"
  unfolding authorize_dispatch_def
  apply (rule result_all_if, simp)
  apply (rule result_all_any)
  apply (rule result_all_any)
  apply (rule adv.then_grows_pair[OF refresh_derived_advances])
  apply (simp add: adv.refl)
  done

lemma record_run_advances: "advances s (record_run env run c d s)"
  unfolding record_run_def Let_def
  by (auto intro: adv.trans[OF advances_outputs(5) advances_event]
      adv.trans[OF adv.trans[OF advances_outputs(5) advances_event] advances_status])

section \<open>Reviews and the memory of the project\<close>

lemma review_decision_advances:
  "result_all (\<lambda>(t, _). advances s t) (review_decision env p i action actor why value s)"
  unfolding review_decision_def Let_def
  by (auto intro!: result_all_any adv.trans[OF advances_outputs(3) advances_event]
      adv.trans[OF adv.trans[OF advances_outputs(3) advances_event] adv.trans[OF advances_index advances_stale]]
      split: option.split)

lemma apply_patch_advances:
  "result_all (\<lambda>(t, _). advances s t) (apply_patch env i actor why source ops s p)"
  unfolding apply_patch_def Let_def
  by (intro result_all_any) (auto intro!: result_all_any adv.trans[OF advances_event advances_stale])

end
