(* ===== verification/FlowReach.thy ===== *)
theory FlowReach
  imports FlowRuns
begin

text \<open>
  The stores of the taskflow service and its runs. A stored copy advances what was copied although the
  documents fill in defaults, so every call of the service advances the taskflows that are stored, and
  the invariant \<open>service_ok\<close> holds on every state that a run reaches from an empty service.
\<close>

section \<open>Copies\<close>

lemma records_at_map:
  assumes "\<And>x y. x \<in> set xs \<Longrightarrow> f (g x) = Inr y \<Longrightarrow> h y = k x" "records_at f (docs g xs) = Inr ys"
  shows "map h ys = map k xs"
  using assms
proof (induction xs arbitrary: ys)
  case (Cons x xs)
  then show ?case by (auto simp: records_at_def docs_def res_bind_Inr_iff)
qed (simp add: records_at_def docs_def)

lemma records_at_all2:
  assumes "\<And>x y. f (g x) = Inr y \<Longrightarrow> R x y" "records_at f (docs g xs) = Inr ys"
  shows "list_all2 R xs ys"
  using assms(2)
proof (induction xs arbitrary: ys)
  case (Cons x xs)
  then show ?case using assms(1) by (auto simp: records_at_def docs_def res_bind_Inr_iff)
qed (simp add: records_at_def docs_def)

lemma meta_copied:
  "taskflow_meta_from_dict now (taskflow_meta_to_dict m) = Inr m' \<Longrightarrow>
   tfm_taskflow_id m' = tfm_taskflow_id m \<and> tfm_project_id m' = tfm_project_id m"
  by (auto simp: taskflow_meta_from_dict_def taskflow_meta_to_dict_def res_bind_Inr_iff text_at_def py_or_def)

lemma event_copied:
  "taskflow_event_from_dict now (taskflow_event_to_dict e) = Inr e' \<Longrightarrow> event_view e' = event_view e"
  by (auto simp: taskflow_event_from_dict_def taskflow_event_to_dict_def res_bind_Inr_iff text_at_def
      py_or_def event_view_def roundtrips split: if_splits)

lemma decision_copied:
  "dispatch_decision_record_from_dict now (dispatch_decision_record_to_dict d) = Inr d' \<Longrightarrow>
   decision_advances d d'"
  by (auto simp: dispatch_decision_record_from_dict_def dispatch_decision_record_to_dict_def
      res_bind_Inr_iff text_at_def py_or_def decision_advances_def decision_stale_def)

lemma brief_copied:
  "brief_version_record_from_dict now (brief_version_record_to_dict b) = Inr b' \<Longrightarrow>
   bv_version b' = bv_version b"
  unfolding brief_version_record_from_dict_def brief_version_record_to_dict_def
  by (clarsimp simp: int_back opt_int_back res_bind_Inr_iff simp del: serialize.simps)

lemma gate_copied:
  "rg_source g \<noteq> [] \<Longrightarrow> rg_source (readiness_gate_from_dict (readiness_gate_to_dict g)) = rg_source g"
  by (simp add: readiness_gate_from_dict_def readiness_gate_to_dict_def Let_def roundtrips)

lemma gates_copied:
  assumes "gates_computed c"
    "taskflow_compiler_state_from_dict now (taskflow_compiler_state_to_dict c) = Inr c'"
  shows "gates_computed c'"
proof -
  have "tcs_readiness_gates c' = map (\<lambda>g. readiness_gate_from_dict (readiness_gate_to_dict g)) (tcs_readiness_gates c)"
    using assms(2) unfolding taskflow_compiler_state_from_dict_def taskflow_compiler_state_to_dict_def
    by (clarsimp simp: res_bind_Inr_iff records_of_def docs_def)
  then show ?thesis
    using assms(1) by (auto simp: gates_computed_def list_all_iff gate_copied)
qed

lemma outputs_copied:
  assumes "taskflow_outputs_from_dict now (taskflow_outputs_to_dict out) = Inr out'"
  shows "map bv_version (tfo_brief_versions out') = map bv_version (tfo_brief_versions out)"
    and "tfo_current_brief_version out' = tfo_current_brief_version out"
    and "tfo_confirmed_brief_version out' = tfo_confirmed_brief_version out"
    and "list_all2 decision_advances (tfo_dispatch_decisions out) (tfo_dispatch_decisions out')"
proof -
  have bs: "records_at (brief_version_record_from_dict now)
        (docs brief_version_record_to_dict (tfo_brief_versions out)) = Inr (tfo_brief_versions out')"
    and ds: "records_at (dispatch_decision_record_from_dict now)
        (docs dispatch_decision_record_to_dict (tfo_dispatch_decisions out)) = Inr (tfo_dispatch_decisions out')"
    and "tfo_current_brief_version out' = tfo_current_brief_version out"
    and "tfo_confirmed_brief_version out' = tfo_confirmed_brief_version out"
    using assms by (auto simp: taskflow_outputs_from_dict_def taskflow_outputs_to_dict_def res_bind_Inr_iff
        opt_int_back)
  then show "tfo_current_brief_version out' = tfo_current_brief_version out"
    "tfo_confirmed_brief_version out' = tfo_confirmed_brief_version out"
    by simp_all
  show "map bv_version (tfo_brief_versions out') = map bv_version (tfo_brief_versions out)"
    by (rule records_at_map[OF _ bs]) (rule brief_copied)
  show "list_all2 decision_advances (tfo_dispatch_decisions out) (tfo_dispatch_decisions out')"
    by (rule records_at_all2[OF _ ds]) (rule decision_copied)
qed

lemma briefs_numbered_copied:
  "taskflow_outputs_from_dict now (taskflow_outputs_to_dict out) = Inr out' \<Longrightarrow>
   briefs_numbered out \<Longrightarrow> briefs_numbered out'"
  using outputs_copied[of now out out'] map_eq_imp_length_eq[OF outputs_copied(1)[of now out out']]
  by (simp add: briefs_numbered_def Let_def)

lemma copied_parts:
  assumes "copied_flow env s = Inr c"
  shows "taskflow_meta_from_dict (fe_now env) (taskflow_meta_to_dict (tf_meta s)) = Inr (tf_meta c)"
    and "taskflow_compiler_state_from_dict (fe_now env) (taskflow_compiler_state_to_dict (tf_compiler s)) =
      Inr (tf_compiler c)"
    and "taskflow_outputs_from_dict (fe_now env) (taskflow_outputs_to_dict (tf_outputs s)) = Inr (tf_outputs c)"
    and "records_at (taskflow_event_from_dict (fe_now env)) (docs taskflow_event_to_dict (tf_events s)) =
      Inr (tf_events c)"
  using assms
  by (auto simp: copied_flow_def taskflow_state_from_dict_def taskflow_state_to_dict_def res_bind_Inr_iff)

lemma copied_advances: "copied_flow env s = Inr c \<Longrightarrow> advances s c"
proof -
  assume c: "copied_flow env s = Inr c"
  have "map event_view (tf_events c) = map event_view (tf_events s)"
    by (rule records_at_map[OF _ copied_parts(4)[OF c]]) (rule event_copied)
  then show "advances s c"
    using meta_copied[OF copied_parts(1)[OF c]] gates_copied[OF _ copied_parts(2)[OF c]]
      outputs_copied(4)[OF copied_parts(3)[OF c]] briefs_numbered_copied[OF copied_parts(3)[OF c]]
    by (auto simp: advances_def flow_ok_def grown_decisions_all)
qed

section \<open>The service\<close>

definition service_ok :: "flow_service \<Rightarrow> bool" where
  "service_ok S \<longleftrightarrow> dict_wf (fs_flows S) \<and>
     list_all (\<lambda>(k, s). tfm_taskflow_id (tf_meta s) = k \<and> flow_ok s) (fs_flows S)"

definition flows_kept :: "(string \<Rightarrow> bool) \<Rightarrow> flow_service \<Rightarrow> flow_service \<Rightarrow> bool" where
  "flows_kept which S S' \<longleftrightarrow>
     (\<forall>k s. which k \<and> dict_get (fs_flows S) k = Some s \<longrightarrow>
        (\<exists>s'. dict_get (fs_flows S') k = Some s' \<and> advances s s'))"

definition service_le :: "flow_service \<Rightarrow> flow_service \<Rightarrow> bool" where
  "service_le S S' \<longleftrightarrow> (service_ok S \<longrightarrow> service_ok S' \<and> flows_kept (\<lambda>_. True) S S')"

lemma flows_kept_refl: "fs_flows S' = fs_flows S \<Longrightarrow> flows_kept which S S'"
  by (auto simp: flows_kept_def intro: adv.refl)

lemma flows_kept_trans: "flows_kept which S T \<Longrightarrow> flows_kept which T U \<Longrightarrow> flows_kept which S U"
  unfolding flows_kept_def using adv.trans by meson

interpretation srv: growth service_le
proof
  show "service_le S S" for S by (simp add: service_le_def flows_kept_refl)
  show "service_le S U" if "service_le S T" "service_le T U" for S T U
    using that flows_kept_trans unfolding service_le_def by blast
qed

lemma service_le_same: "fs_flows S' = fs_flows S \<Longrightarrow> service_le S S'"
  by (simp add: service_le_def service_ok_def flows_kept_refl)

lemma service_ok_get:
  "service_ok S \<Longrightarrow> dict_get (fs_flows S) k = Some s \<Longrightarrow> tfm_taskflow_id (tf_meta s) = k \<and> flow_ok s"
  by (auto simp: service_ok_def list_all_iff dest!: dict_get_in_set)

lemma service_ok_put:
  "service_ok S \<Longrightarrow> flow_ok s \<Longrightarrow> tfm_taskflow_id (tf_meta s) = k \<Longrightarrow>
   service_ok (S\<lparr>fs_flows := dict_set k s (fs_flows S)\<rparr>)"
  using dict_set_set[of k s "fs_flows S"] by (auto simp: service_ok_def list_all_iff)

text \<open>Saving a taskflow that advances the stored one.\<close>

definition stored_advance :: "flow_service \<Rightarrow> taskflow_state \<Rightarrow> bool" where
  "stored_advance S s \<longleftrightarrow>
     (\<exists>s0. dict_get (fs_flows S) (tfm_taskflow_id (tf_meta s)) = Some s0 \<and> advances s0 s)"

lemma save_flow_cases:
  obtains (error) e where "save_taskflow_state env s S = (S, Inl e)"
  | (saved) c where "save_taskflow_state env s S =
        (S\<lparr>fs_flows := dict_set (tfm_taskflow_id (tf_meta s)) c (fs_flows S)\<rparr>, Inr ())"
      "advances s c" "tfm_taskflow_id (tf_meta c) = tfm_taskflow_id (tf_meta s)"
proof (cases "copied_flow env (flow_touch env s)")
  case (Inl e)
  then show thesis by (intro error) (simp add: save_taskflow_state_def store_taskflow_state_def)
next
  case (Inr c)
  have "advances s c" by (rule adv.trans[OF advances_touch copied_advances[OF Inr]])
  then show thesis
    using Inr by (intro saved[of c])
      (auto simp: save_taskflow_state_def store_taskflow_state_def flow_touch_def advances_def)
qed

lemma put_advance:
  assumes "stored_advance S s" "advances s c" "tfm_taskflow_id (tf_meta c) = tfm_taskflow_id (tf_meta s)"
  shows "service_le S (S\<lparr>fs_flows := dict_set (tfm_taskflow_id (tf_meta s)) c (fs_flows S)\<rparr>)"
proof -
  obtain s0 where s0: "dict_get (fs_flows S) (tfm_taskflow_id (tf_meta s)) = Some s0" "advances s0 s"
    using assms(1) by (auto simp: stored_advance_def)
  then have c: "advances s0 c" using adv.trans assms(2) by blast
  have "service_ok S \<Longrightarrow> flow_ok c"
    using service_ok_get[OF _ s0(1)] c by (auto simp: advances_def)
  then show ?thesis
    using service_ok_put assms(3) s0(1) c adv.refl by (auto simp: service_le_def flows_kept_def)
qed

lemma save_flow_le: "stored_advance S s \<Longrightarrow> service_le S (fst (save_taskflow_state env s S))"
  by (cases rule: save_flow_cases[of env s S]) (auto simp: srv.refl put_advance)

lemma get_project_flows [simp]: "fs_flows (fst (get_or_create_project_state env i S)) = fs_flows S"
  by (cases "copied_project env (new_project_state env i [])")
    (auto simp: get_or_create_project_state_def Let_def split: option.split)

lemma save_project_flows [simp]: "fs_flows (fst (save_project_state env p S)) = fs_flows S"
  by (cases "copied_project env (project_touch env p)") (auto simp: save_project_state_def)

lemma flow_bind_fst:
  assumes "\<And>T x. m = (T, Inr x) \<Longrightarrow> service_le T (fst (f T x))" "service_le S (fst m)"
  shows "service_le S (fst (flow_bind m f))"
proof (cases m)
  case (Pair T r)
  show ?thesis
  proof (cases r)
    case (Inl e)
    then show ?thesis using Pair assms(2) by simp
  next
    case (Inr x)
    then have "service_le T (fst (f T x))" using Pair assms(1) by simp
    with assms(2) have "service_le S (fst (f T x))" unfolding Pair fst_conv by (rule srv.trans)
    then show ?thesis using Pair Inr by simp
  qed
qed

lemma load_flow_flows [simp]: "fs_flows (fst (load_flow env k S)) = fs_flows S"
proof (cases "get_taskflow_state env k S")
  case (Inr s)
  obtain T r where T: "get_or_create_project_state env (tfm_project_id (tf_meta s)) S = (T, r)"
    by (rule prod.exhaust)
  then show ?thesis
    using Inr get_project_flows[of env "tfm_project_id (tf_meta s)" S] by (cases r) (simp_all add: load_flow_def)
qed (simp add: load_flow_def)

lemma load_flow_stored:
  assumes "snd (load_flow env k S) = Inr (s, p)"
  shows "get_taskflow_state env k S = Inr s"
proof (cases "get_taskflow_state env k S")
  case (Inr t)
  obtain T r where "get_or_create_project_state env (tfm_project_id (tf_meta t)) S = (T, r)"
    by (rule prod.exhaust)
  then show ?thesis using Inr assms by (cases r) (simp_all add: load_flow_def)
qed (use assms in \<open>simp add: load_flow_def\<close>)

lemma loaded_advance:
  assumes "service_ok S" "get_taskflow_state env k S = Inr s"
  shows "stored_advance S s" "tfm_taskflow_id (tf_meta s) = k"
proof -
  obtain s0 where s0: "dict_get (fs_flows S) k = Some s0" "advances s0 s"
    using assms(2) copied_advances by (auto simp: get_taskflow_state_def split: option.splits)
  moreover show "tfm_taskflow_id (tf_meta s) = k"
    using s0 service_ok_get[OF assms(1) s0(1)] by (auto simp: advances_def)
  ultimately show "stored_advance S s" by (auto simp: stored_advance_def)
qed

lemma advances_id: "advances s t \<Longrightarrow> tfm_taskflow_id (tf_meta t) = tfm_taskflow_id (tf_meta s)"
  by (simp add: advances_def)

lemma stored_advance_trans: "stored_advance S s \<Longrightarrow> advances s t \<Longrightarrow> stored_advance S t"
  by (auto simp: stored_advance_def advances_id intro: adv.trans)

lemma stored_advance_same: "fs_flows T = fs_flows S \<Longrightarrow> stored_advance T s \<longleftrightarrow> stored_advance S s"
  by (simp add: stored_advance_def)

section \<open>Calls\<close>

lemma load_bind_le:
  assumes "\<And>T s p. fs_flows T = fs_flows S \<Longrightarrow> (service_ok S \<Longrightarrow> stored_advance T s) \<Longrightarrow>
      (service_ok S \<Longrightarrow> tfm_taskflow_id (tf_meta s) = k) \<Longrightarrow> service_le T (fst (f T (s, p)))"
  shows "service_le S (fst (flow_bind (load_flow env k S) f))"
proof (rule flow_bind_fst)
  fix T x
  assume m: "load_flow env k S = (T, Inr x)"
  obtain s p where x: "x = (s, p)" by (cases x)
  have "fs_flows T = fs_flows S" using load_flow_flows[of env k S] m by simp
  moreover have "get_taskflow_state env k S = Inr s" by (rule load_flow_stored[of env k S s p]) (simp add: m x)
  ultimately show "service_le T (fst (f T x))"
    unfolding x by (intro assms) (auto simp: loaded_advance stored_advance_same)
qed (simp add: service_le_same)

text \<open>A step that only needs to be looked at when the service is well formed.\<close>

lemma service_le_when: "(service_ok S \<Longrightarrow> service_le S S') \<Longrightarrow> service_le S S'"
  by (auto simp: service_le_def)

lemma pure_bind_le:
  "(\<And>x. r = Inr x \<Longrightarrow> service_le S (fst (f S x))) \<Longrightarrow> service_le S (fst (flow_bind (S, r) f))"
  by (cases r) (simp_all add: srv.refl)

lemma save_bind_le:
  "stored_advance S s \<Longrightarrow> (\<And>T x. fst (f T x) = T) \<Longrightarrow>
   service_le S (fst (flow_bind (save_taskflow_state env s S) f))"
  by (rule flow_bind_fst) (simp_all add: save_flow_le srv.refl)

lemma project_bind_le:
  assumes "\<And>T. fs_flows T = fs_flows S \<Longrightarrow> service_le T (fst (f T ()))"
  shows "service_le S (fst (flow_bind (save_project_state env p S) f))"
proof (rule flow_bind_fst)
  fix T and x :: unit
  assume "save_project_state env p S = (T, Inr x)"
  then have "fs_flows T = fs_flows S" using save_project_flows[of env p S] by simp
  then show "service_le T (fst (f T x))" using assms by simp
qed (simp add: service_le_same)

lemma service_ok_same: "fs_flows T = fs_flows S \<Longrightarrow> service_ok T = service_ok S"
  by (simp add: service_ok_def)

lemma update_flow_le:
  assumes "\<And>s p. result_all (\<lambda>(t, _). advances s t) (f s p)"
  shows "service_le S (fst (update_flow env k f S))"
proof -
  have grow: "advances s t" if "f s p = Inr (t, x)" for s p t x
    using assms[of s p] that by simp
  show ?thesis
  unfolding update_flow_def
  apply (rule load_bind_le, clarify)
  apply (rule service_le_when, rule pure_bind_le, clarify)
  apply (rule save_bind_le)
   apply (rule stored_advance_trans[rotated], erule grow)
   apply (metis service_ok_same)
  apply simp
  done
qed

lemma update_both_le:
  assumes "\<And>s p. result_all (\<lambda>(t, _). advances s t) (f s p)"
  shows "service_le S (fst (update_both env k f S))"
proof -
  have grow: "advances s t" if "f s p = Inr (t, p', x)" for s p t p' x
    using assms[of s p] that by simp
  show ?thesis
  unfolding update_both_def
  apply (rule load_bind_le, clarify)
  apply (rule service_le_when, rule pure_bind_le, clarify)
  apply (rule project_bind_le)
  apply (rule save_bind_le)
   apply (rule stored_advance_trans[rotated], erule grow)
   apply (metis service_ok_same stored_advance_same)
  apply simp
  done
qed

lemma then_get_fst [simp]: "fst (then_get env k m) = fst m"
  by (cases m; cases "snd m") (auto simp: then_get_def)

lemma with_unit_advances: "result_all (advances s) r \<Longrightarrow> result_all (\<lambda>(t, _). advances s t) (with_unit r)"
  by (cases r) (simp_all add: with_unit_def)

text \<open>Going stale, one taskflow after the other: the taskflow that goes on is left alone.\<close>

lemma save_other:
  assumes "tfm_taskflow_id (tf_meta s) \<noteq> k"
  shows "dict_get (fs_flows (fst (save_taskflow_state env s S))) k = dict_get (fs_flows S) k"
  by (cases rule: save_flow_cases[of env s S]) (use assms in auto)

lemma save_stale_le:
  assumes "\<And>s. s \<in> set ss \<Longrightarrow> stored_advance S s" "distinct (map (\<lambda>s. tfm_taskflow_id (tf_meta s)) ss)"
  shows "service_le S (fst (save_stale env k why source refs ss S)) \<and>
    dict_get (fs_flows (fst (save_stale env k why source refs ss S))) k = dict_get (fs_flows S) k"
  using assms
proof (induction ss arbitrary: S)
  case Nil
  then show ?case by (simp add: srv.refl)
next
  case (Cons s ss)
  let ?m = "mark_taskflow_stale env why source refs s"
  have id: "tfm_taskflow_id (tf_meta ?m) = tfm_taskflow_id (tf_meta s)"
    by (rule advances_id) (rule advances_stale)
  show ?case
  proof (cases "tfm_taskflow_id (tf_meta s) = k")
    case False
    have le: "service_le S (fst (save_taskflow_state env ?m S))"
      by (rule save_flow_le, rule stored_advance_trans[OF _ advances_stale]) (simp add: Cons.prems)
    obtain T r where T: "save_taskflow_state env ?m S = (T, r)" by (rule prod.exhaust)
    have "stored_advance T t" if "t \<in> set ss" for t
    proof -
      have "tfm_taskflow_id (tf_meta ?m) \<noteq> tfm_taskflow_id (tf_meta t)"
        using Cons.prems(2) that id by auto
      from save_other[OF this, of env S] show ?thesis
        using Cons.prems(1)[of t] that T by (simp add: stored_advance_def)
    qed
    from Cons.IH[OF this] Cons.prems(2) show ?thesis
      using False T le save_other[of ?m k env S] id by (cases r) (auto intro: srv.trans)
  qed (use Cons in simp)
qed

section \<open>Every call\<close>

lemma after_unit: "result_all (advances s) r \<Longrightarrow> (\<And>t. result_all (advances t) (f t)) \<Longrightarrow>
    result_all (\<lambda>(t, _). advances s t) (with_unit (res_bind r f))"
  by (rule with_unit_advances, rule adv.then_grows)

lemma confirm_body_advances: "result_all (advances s) (confirm_body env v actor s p)"
  unfolding confirm_body_def
  by (rule adv.then_grows[OF confirm_advances])
    (rule adv.after[OF refresh_and_sync_advances adv.trans[OF advances_status advances_index]])

lemma review_flow_advances:
  "result_all (\<lambda>(t, _). advances s t)
     (res_bind (review_decision env p i action actor why value s) (\<lambda>(s, d). Inr (s, f s d)))"
  by (rule result_all_bind[OF review_decision_advances]) (simp add: case_prod_beta)

lemma preview_flow_advances:
  "result_all (\<lambda>(t, _). advances s t)
     (res_bind (preview_patch env p actor why source ops) (\<lambda>x.
        case record_pending_patch env x p of (p, y) \<Rightarrow>
          Inr (append_taskflow_event env type actor y s, p, f y)))"
  by (rule result_all_any) (simp add: case_prod_beta advances_event)

lemma confirm_brief_le: "service_le S (fst (confirm_brief env k v actor S))"
  unfolding confirm_brief_def
  by (rule pure_bind_le) (simp add: srv.refl update_flow_le with_unit_advances confirm_body_advances)

lemma compile_goal_le: "service_le S (fst (compile_goal env k S))"
  unfolding compile_goal_def
  by (rule flow_bind_fst) (simp_all add: update_both_le compile_body_advances service_le_same)

lemma plan_for_dispatch_flows: "fs_flows (fst (plan_for_dispatch env k s p S)) = fs_flows S"
  by (cases "compile_plan env s p") (auto simp: plan_for_dispatch_def case_prod_beta split: option.split)

lemma plan_for_dispatch_advances:
  "plan_for_dispatch env k s p S = (T, Inr (plan, t, n)) \<Longrightarrow> advances s t"
  using result_allD[OF compile_plan_advances, of env s p]
  by (cases "compile_plan env s p") (auto simp: plan_for_dispatch_def adv.refl split: option.splits if_splits)

lemma dispatch_le: "service_le S (fst (dispatch_task_run env k w i hint md ex S))"
  unfolding dispatch_task_run_def
proof (rule load_bind_le, clarify, rule service_le_when, rule pure_bind_le, clarify, rule flow_bind_fst)
  fix T s p s1 d U y
  assume T: "fs_flows T = fs_flows S" "service_ok S \<Longrightarrow> stored_advance T s" "service_ok T"
    and s1: "authorize_dispatch env i w s p = Inr (s1, d)"
    and U: "plan_for_dispatch env k s1 p T = (U, Inr y)"
  obtain plan s2 n where y: "y = (plan, s2, n)" by (cases y)
  have "stored_advance T s" using T service_ok_same[of T S] by simp
  moreover have "advances s s1" using result_allD[OF authorize_advances s1] by simp
  moreover have "advances s1 s2" by (rule plan_for_dispatch_advances) (use U y in simp)
  ultimately have s2: "stored_advance T s2" by (blast intro: stored_advance_trans)
  have flows: "fs_flows U = fs_flows T" using plan_for_dispatch_flows[of env k s1 p T] U by simp
  have saved: "stored_advance V (record_run env run c d s2)" if "fs_flows V = fs_flows U" for V run c
    using stored_advance_trans[OF s2 record_run_advances] that flows by (simp add: stored_advance_def)
  show "service_le U (fst (case y of (plan, s, n) \<Rightarrow>
      flow_bind (U, compiled_work_item plan p w) (\<lambda>S c.
      flow_bind (S, pending_run env k plan c d md ex) (\<lambda>S run.
      flow_bind (S, dispatched_run env hint md run) (\<lambda>S (run, agent_run_id).
      flow_bind (S, run_links env plan c d run agent_run_id) (\<lambda>S links.
      flow_bind (save_project_state env
        (fold (add_trace_link env) (number_links env n links) (add_task_run env run p)) S) (\<lambda>S _.
      flow_bind (save_taskflow_state env (record_run env run c d s) S) (\<lambda>S _. (S, Inr run)))))))))"
    unfolding y prod.case
    by (rule pure_bind_le, rule pure_bind_le, rule pure_bind_le, clarify, rule pure_bind_le,
        rule project_bind_le, rule save_bind_le) (simp_all add: saved)
qed (simp_all add: plan_for_dispatch_flows service_le_same)

lemma copies_stored:
  assumes "service_ok S" "list_taskflow_states env i S = Inr ss"
  shows "\<And>s. s \<in> set ss \<Longrightarrow> stored_advance S s" "distinct (map (\<lambda>s. tfm_taskflow_id (tf_meta s)) ss)"
proof -
  let ?stored = "filter (\<lambda>s. tfm_project_id (tf_meta s) = i) (dict_values (fs_flows S))"
  have copies: "list_all2 advances xs ys" if "res_map (copied_flow env) xs = Inr ys" for xs ys
    using that by (induction xs arbitrary: ys) (auto simp: res_bind_Inr_iff copied_advances)
  then have ss: "list_all2 advances ?stored ss"
    using assms(2) by (simp add: list_taskflow_states_def)
  have keys: "map (\<lambda>s. tfm_taskflow_id (tf_meta s)) (dict_values (fs_flows S)) = dict_keys (fs_flows S)"
    using assms(1) by (auto simp: service_ok_def dict_values_def dict_keys_def list_all_iff)
  have "map (\<lambda>s. tfm_taskflow_id (tf_meta s)) ss = map (\<lambda>s. tfm_taskflow_id (tf_meta s)) ?stored"
    using ss by (induction rule: list_all2_induct) (simp_all add: advances_id)
  moreover have "distinct (map (\<lambda>s. tfm_taskflow_id (tf_meta s)) (dict_values (fs_flows S)))"
    using assms(1) unfolding keys by (simp add: service_ok_def dict_wf_def dict_keys_def)
  ultimately show "distinct (map (\<lambda>s. tfm_taskflow_id (tf_meta s)) ss)"
    by (simp add: distinct_map_filter)
  fix s
  assume "s \<in> set ss"
  with ss have "\<exists>s0 \<in> set ?stored. advances s0 s" by (induction rule: list_all2_induct) auto
  then obtain s0 where s0: "s0 \<in> set ?stored" "advances s0 s" by blast
  then obtain k where "(k, s0) \<in> set (fs_flows S)" by (auto simp: dict_values_def)
  moreover from this have "dict_get (fs_flows S) k = Some s0"
    using assms(1) by (intro dict_wf_get) (simp_all add: service_ok_def)
  ultimately show "stored_advance S s"
    using s0(2) service_ok_get[OF assms(1), of k s0] by (auto simp: stored_advance_def advances_id)
qed

lemma apply_patch_le: "service_le S (fst (apply_project_memory_patch env k i actor why source ops S))"
  unfolding apply_project_memory_patch_def
proof (rule load_bind_le, clarify, rule service_le_when, rule pure_bind_le, clarify, rule project_bind_le,
    rule service_le_when, unfold mark_related_stale_def)
  fix T s p s1 p1 x U
  assume T: "fs_flows T = fs_flows S" "service_ok S \<Longrightarrow> stored_advance T s" "service_ok T"
    and s1: "apply_patch env i actor why source ops s p = Inr (s1, p1, x)"
    and U: "fs_flows U = fs_flows T" "service_ok U"
  have "stored_advance T s1"
    using T service_ok_same[of T S] result_allD[OF apply_patch_advances s1] stored_advance_trans by auto
  then have s1U: "stored_advance U s1" using U by (simp add: stored_advance_def)
  let ?refs = "[py_str (pget x ''id'')]"
  show "service_le U (fst (flow_bind
      (flow_bind (U, list_taskflow_states env (tfm_project_id (tf_meta s1)) U) (\<lambda>S ss.
         save_stale env (tfm_taskflow_id (tf_meta s1)) ''Project Memory changed'' ''project_memory_patch'' ?refs ss S))
      (\<lambda>S _. flow_bind (save_taskflow_state env s1 S) (\<lambda>S _.
         flow_bind (S, get_taskflow_state env k S) (\<lambda>S s.
           (S, Inr [(''ok'', PBool True), (''proposal'', PDict x),
              (''taskflow'', PDict (taskflow_state_to_dict s)),
              (''project_memory'', PDict (memory_view (project_touch env p1)))]))))))"
  proof (cases "list_taskflow_states env (tfm_project_id (tf_meta s1)) U")
    case (Inr ss)
    let ?m = "save_stale env (tfm_taskflow_id (tf_meta s1)) ''Project Memory changed'' ''project_memory_patch'' ?refs ss U"
    have m: "service_le U (fst ?m)"
      "dict_get (fs_flows (fst ?m)) (tfm_taskflow_id (tf_meta s1)) = dict_get (fs_flows U) (tfm_taskflow_id (tf_meta s1))"
      using save_stale_le[of ss U env "tfm_taskflow_id (tf_meta s1)"] copies_stored[OF U(2) Inr] by auto
    have last: "service_le V (fst (flow_bind (save_taskflow_state env s1 V) (\<lambda>S _.
        flow_bind (S, get_taskflow_state env k S) (\<lambda>S s. (S, Inr (f s))))))" if "stored_advance V s1" for V and f :: "taskflow_state \<Rightarrow> pyobj"
    proof (rule save_bind_le[OF that])
      show "fst (flow_bind (W, get_taskflow_state env k W) (\<lambda>S s. (S, Inr (f s)))) = W" for W and y :: unit
        by (cases "get_taskflow_state env k W") simp_all
    qed
    show ?thesis
      unfolding Inr flow_bind_simps(2)
      by (rule flow_bind_fst) (use m s1U last in \<open>auto simp: stored_advance_def\<close>)
  qed (simp add: srv.refl)
qed

lemma memory_view_le: "service_le S (fst (get_project_memory_view env k S))"
  unfolding get_project_memory_view_def by (rule load_bind_le) (simp add: srv.refl)

lemma scan_le: "service_le S (fst (scan_repo_complexity env k snapshot S))"
  unfolding scan_repo_complexity_def Let_def
proof (rule load_bind_le, clarify, rule service_le_when, rule project_bind_le, rule pure_bind_le)
  fix T s p t and U :: flow_service
  assume T: "fs_flows T = fs_flows S" "service_ok S \<Longrightarrow> stored_advance T s" "service_ok T"
    and U: "fs_flows U = fs_flows T"
    and t: "redraft env ''repo_static_analyzer'' s (project_touch env (record_repo_scan_snapshot snapshot p)) = Inr t"
  have "stored_advance U s" using T U service_ok_same[of T S] by (simp add: stored_advance_def)
  then have "stored_advance U t"
    by (rule stored_advance_trans) (rule result_allD[OF redraft_advances t])
  then show "service_le U (fst (flow_bind (save_taskflow_state env t U)
      (\<lambda>S _. (S, get_taskflow_state env k S))))"
    by (rule save_bind_le) simp
qed

definition starts :: "flow_env \<Rightarrow> flow_call \<Rightarrow> string option" where
  "starts env c = (case c of
     Start_taskflow r \<Rightarrow> Some (id_or (fst_taskflow_id r) (new_id env ''taskflow'' 0)) | _ \<Rightarrow> None)"

lemma call_le: "starts env c = None \<Longrightarrow> service_le S (flow_step_of env c S)"
  by (cases c)
    (simp_all add: starts_def record_discovery_turn_def record_rule_example_def record_complexity_evidence_def
      override_complexity_def refresh_complexity_assessment_def compile_brief_draft_def mark_brief_ready_def
      request_dispatch_decision_def confirm_dispatch_decision_def reject_dispatch_decision_def
      answer_review_card_v1_def review_compiler_decision_def preview_project_memory_patch_def
      update_flow_le update_both_le with_unit_advances turn_advances redraft_advances
      refresh_and_sync_advances request_advances confirm_dispatch_advances reject_dispatch_advances
      answer_body_advances review_flow_advances preview_flow_advances confirm_brief_le compile_goal_le
      dispatch_le apply_patch_le memory_view_le scan_le
      adv.then_grows[OF record_evidence_advances] adv.then_grows[OF override_level_advances]
      adv.then_grows[OF mark_ready_advances])

section \<open>Starting a taskflow\<close>

lemma new_flow_ok:
  assumes "new_taskflow_state env k pid gid goal sens = Inr s"
  shows "flow_ok s" "tfm_taskflow_id (tf_meta s) = k"
  using assms
  by (auto simp: new_taskflow_state_def res_bind_Inr_iff flow_ok_def briefs_numbered_def gates_computed_def)

lemma started_flow_ok:
  "result_all (\<lambda>s. flow_ok s \<and> tfm_taskflow_id (tf_meta s) = id_or (fst_taskflow_id r) (new_id env ''taskflow'' 0))
     (started_flow env r p)"
  unfolding started_flow_def Let_def
proof (rule result_all_bind[where Q = "\<lambda>s. flow_ok s \<and>
    tfm_taskflow_id (tf_meta s) = id_or (fst_taskflow_id r) (new_id env ''taskflow'' 0)"])
  show "result_all (\<lambda>s. flow_ok s \<and> tfm_taskflow_id (tf_meta s) = id_or (fst_taskflow_id r) (new_id env ''taskflow'' 0))
      (new_taskflow_state env (id_or (fst_taskflow_id r) (new_id env ''taskflow'' 0)) (fst_project_id r)
         (id_or (fst_goal_id r) (new_id env ''goal'' 0)) (str_strip (fst_raw_goal r)) (fst_sensitivity r))"
    using new_flow_ok by (auto simp: result_all_def split: sum.split)
next
  fix s
  assume s: "flow_ok s \<and> tfm_taskflow_id (tf_meta s) = id_or (fst_taskflow_id r) (new_id env ''taskflow'' 0)"
  have grown: "advances s (append_taskflow_event env type actor md
      (load_project_context (tf_refs_update f (tf_compiler_update (tcs_traceability_index_update g) s)) p))"
    for type actor md f g
    unfolding load_project_context_def
    by (rule adv.trans[OF advances_index adv.trans[OF advances_parts(4) adv.trans[OF advances_parts(4) advances_event]]])
  show "result_all (\<lambda>s. flow_ok s \<and> tfm_taskflow_id (tf_meta s) = id_or (fst_taskflow_id r) (new_id env ''taskflow'' 0))
      (refresh_derived_state env (append_taskflow_event env TEvt_DISCOVERY_STARTED (opt_str (fst_peer_id r))
         [(''raw_goal'', PStr (str_strip (fst_raw_goal r)))]
         (load_project_context (tf_refs_update (\<lambda>f. f
            \<lparr>tfr_related_goal_refs := tfr_related_goal_refs f @ given_text (fst_related_goal_id r),
             tfr_reused_work_item_refs := tfr_reused_work_item_refs f @ given_text (fst_related_work_item_id r)\<rparr>)
           (tf_compiler_update (tcs_traceability_index_update (dict_set ''request_context''
              (PDict [(''session_id'', opt_val (fst_session_id r)), (''peer_id'', opt_val (fst_peer_id r)),
                      (''metadata'', PDict (fst_metadata r))]))) s)) p)) p)"
    by (rule result_all_mono[OF adv.after[OF refresh_derived_advances grown]]) (use s in \<open>auto simp: advances_def\<close>)
qed

lemma start_keeps:
  assumes "service_ok S"
  shows "service_ok (fst (start_taskflow env r S)) \<and>
    flows_kept (\<lambda>k. k \<noteq> id_or (fst_taskflow_id r) (new_id env ''taskflow'' 0)) S (fst (start_taskflow env r S))"
proof -
  obtain T a where T: "get_or_create_project_state env (fst_project_id r) S = (T, a)" by (rule prod.exhaust)
  have flows: "fs_flows T = fs_flows S" using get_project_flows[of env "fst_project_id r" S] T by simp
  show ?thesis
  proof (cases a)
    case (Inl e)
    then show ?thesis
      using T assms flows by (simp add: start_taskflow_def service_ok_same[OF flows] flows_kept_refl)
  next
    case (Inr p)
    show ?thesis
    proof (cases "started_flow env r p")
      case Inl': (Inl e)
      then show ?thesis
        using T Inr assms flows by (simp add: start_taskflow_def service_ok_same[OF flows] flows_kept_refl)
    next
      case Inr': (Inr s)
      have s: "flow_ok s" "tfm_taskflow_id (tf_meta s) = id_or (fst_taskflow_id r) (new_id env ''taskflow'' 0)"
        using started_flow_ok[of r env p] Inr' by simp_all
      have ok: "service_ok T" using assms service_ok_same[OF flows] by simp
      show ?thesis
      proof (cases rule: save_flow_cases[of env s T])
        case (error e)
        then show ?thesis
          using T Inr Inr' ok flows by (simp add: start_taskflow_def flows_kept_refl)
      next
        case (saved c)
        have "flow_ok c" using saved(2) s(1) by (simp add: advances_def)
        then have "service_ok (T\<lparr>fs_flows := dict_set (tfm_taskflow_id (tf_meta s)) c (fs_flows T)\<rparr>)"
          using ok saved(3) by (intro service_ok_put) simp_all
        then show ?thesis
          using T Inr Inr' saved(1) s(2) flows by (simp add: start_taskflow_def flows_kept_def adv.refl)
      qed
    qed
  qed
qed

section \<open>Runs\<close>

lemma step_keeps:
  assumes "service_ok S"
  shows "service_ok (flow_step_of env c S) \<and>
    flows_kept (\<lambda>k. starts env c \<noteq> Some k) S (flow_step_of env c S)"
proof (cases "starts env c")
  case None
  then show ?thesis using call_le[OF None, of S] assms by (auto simp: service_le_def flows_kept_def)
next
  case (Some k)
  then obtain r where "c = Start_taskflow r" "k = id_or (fst_taskflow_id r) (new_id env ''taskflow'' 0)"
    by (cases c) (auto simp: starts_def)
  then show ?thesis
    using start_keeps[OF assms, of env r] Some by (auto simp: flows_kept_def)
qed

lemma run_ok: "service_ok S \<Longrightarrow> service_ok (flow_run cs S)"
  by (induction cs S rule: flow_run.induct) (simp_all add: step_keeps)

lemma flow_run_keeps:
  "service_ok S \<Longrightarrow> list_all (\<lambda>(env, c). starts env c \<noteq> Some k) cs \<Longrightarrow> dict_get (fs_flows S) k = Some s \<Longrightarrow>
   \<exists>s'. dict_get (fs_flows (flow_run cs S)) k = Some s' \<and> advances s s'"
proof (induction cs S arbitrary: s rule: flow_run.induct)
  case (2 env c cs S)
  have step: "service_ok (flow_step_of env c S)"
    "flows_kept (\<lambda>k. starts env c \<noteq> Some k) S (flow_step_of env c S)"
    using step_keeps[OF "2.prems"(1), of env c] by simp_all
  have others: "starts env c \<noteq> Some k" "list_all (\<lambda>(env, c). starts env c \<noteq> Some k) cs"
    using "2.prems"(2) by simp_all
  obtain t where t: "dict_get (fs_flows (flow_step_of env c S)) k = Some t" "advances s t"
    using step(2) others(1) "2.prems"(3) unfolding flows_kept_def by blast
  obtain u where "dict_get (fs_flows (flow_run cs (flow_step_of env c S))) k = Some u" "advances t u"
    using "2.IH"[OF step(1) others(2) t(1)] by blast
  then show ?case using adv.trans[OF t(2)] by auto
qed (auto intro: adv.refl)

lemma empty_service_ok [simp]: "service_ok empty_flow_service"
  by (simp add: service_ok_def empty_flow_service_def)

end
