(* ===== verification/FlowCopies.thy ===== *)
theory FlowCopies
  imports FlowReach
begin

text \<open>
  Every document that is written can be read: none of the readers of the documents of a taskflow or a
  project raises on what the writer of the same record produced, whether or not the record is well
  formed. So saving a state of the service and reading it back never raises.
\<close>

named_theorems readable \<open>what can be read after it was written\<close>

lemma ok_bind: "is_ok r \<Longrightarrow> (\<And>x. is_ok (f x)) \<Longrightarrow> is_ok (res_bind r f)"
  by (cases r) simp_all

lemma ok_int [readable]: "pget data k = PInt i \<Longrightarrow> is_ok (int_at data k d)"
  by (simp add: int_at_def py_or_def py_int_def)

lemma ok_records [readable]: "(\<And>x. is_ok (f (g x))) \<Longrightarrow> is_ok (records_at f (docs g xs))"
  by (induction xs) (auto simp: records_at_def docs_def intro!: ok_bind)

lemma ok_res_map [readable]: "(\<And>x. is_ok (f (g x))) \<Longrightarrow> is_ok (res_map f (map g xs))"
  by (induction xs) (auto intro!: ok_bind)

lemma ok_opt_record [readable]:
  "pget data k = opt_record_val g x \<Longrightarrow> (\<And>x. is_ok (f (g x))) \<Longrightarrow> is_ok (opt_record_at f data k)"
  by (cases x) (auto simp: opt_record_at_def opt_record_val_def intro!: ok_bind)

section \<open>The records\<close>

lemma pull_request_ref_readable [readable]: "is_ok (pull_request_ref_from_dict (pull_request_ref_to_dict r))"
  unfolding pull_request_ref_from_dict_def pull_request_ref_to_dict_def by (intro ok_bind) (simp_all add: readable roundtrips)

lemma project_readable [readable]: "is_ok (project_from_dict now (project_to_dict r))"
  unfolding project_from_dict_def project_to_dict_def by (intro ok_bind) (simp_all add: readable roundtrips)

lemma goal_readable [readable]: "is_ok (goal_from_dict now (goal_to_dict r))"
  unfolding goal_from_dict_def goal_to_dict_def by (intro ok_bind) (simp_all add: readable roundtrips)

lemma work_item_readable [readable]: "is_ok (work_item_from_dict now (work_item_to_dict r))"
  unfolding work_item_from_dict_def work_item_to_dict_def by (intro ok_bind) (simp_all add: readable roundtrips)

lemma task_run_readable [readable]: "is_ok (task_run_from_dict now (task_run_to_dict r))"
  unfolding task_run_from_dict_def task_run_to_dict_def by (intro ok_bind) (simp_all add: readable roundtrips)

lemma goal_work_link_readable [readable]: "is_ok (goal_work_link_from_dict now (goal_work_link_to_dict r))"
  unfolding goal_work_link_from_dict_def goal_work_link_to_dict_def by (intro ok_bind) (simp_all add: readable roundtrips)

lemma trace_link_readable [readable]: "is_ok (trace_link_from_dict now (trace_link_to_dict r))"
  unfolding trace_link_from_dict_def trace_link_to_dict_def by (intro ok_bind) (simp_all add: readable roundtrips)

lemma project_profile_readable [readable]: "is_ok (project_profile_from_dict (project_profile_to_dict r))"
  unfolding project_profile_from_dict_def project_profile_to_dict_def by (intro ok_bind) (simp_all add: readable roundtrips)

lemma work_item_buckets_readable [readable]: "is_ok (work_item_buckets_from_dict now (work_item_buckets_to_dict r))"
  unfolding work_item_buckets_from_dict_def work_item_buckets_to_dict_def by (intro ok_bind) (simp_all add: readable roundtrips)

lemma traceability_readable [readable]: "is_ok (traceability_from_dict now (traceability_to_dict r))"
  unfolding traceability_from_dict_def traceability_to_dict_def by (intro ok_bind) (simp_all add: readable roundtrips)

lemma projections_readable [readable]: "is_ok (projections_from_dict (projections_to_dict r))"
  unfolding projections_from_dict_def projections_to_dict_def by (intro ok_bind) (simp_all add: readable roundtrips)

lemma project_state_readable [readable]: "is_ok (project_state_from_dict now (project_state_to_dict r))"
  unfolding project_state_from_dict_def project_state_to_dict_def by (intro ok_bind) (simp_all add: readable roundtrips)

lemma taskflow_meta_readable [readable]: "is_ok (taskflow_meta_from_dict now (taskflow_meta_to_dict r))"
  unfolding taskflow_meta_from_dict_def taskflow_meta_to_dict_def by (intro ok_bind) (simp_all add: readable roundtrips)

lemma assumption_readable [readable]: "is_ok (assumption_from_dict (assumption_to_dict r))"
  unfolding assumption_from_dict_def assumption_to_dict_def by (intro ok_bind) (simp_all add: readable roundtrips)

lemma open_question_readable [readable]: "is_ok (open_question_from_dict (open_question_to_dict r))"
  unfolding open_question_from_dict_def open_question_to_dict_def by (intro ok_bind) (simp_all add: readable roundtrips)

lemma rule_record_readable [readable]: "is_ok (rule_record_from_dict (rule_record_to_dict r))"
  unfolding rule_record_from_dict_def rule_record_to_dict_def by (intro ok_bind) (simp_all add: readable roundtrips)

lemma example_record_readable [readable]: "is_ok (example_record_from_dict (example_record_to_dict r))"
  unfolding example_record_from_dict_def example_record_to_dict_def by (intro ok_bind) (simp_all add: readable roundtrips)

lemma acceptance_example_readable [readable]: "is_ok (acceptance_example_from_dict (acceptance_example_to_dict r))"
  unfolding acceptance_example_from_dict_def acceptance_example_to_dict_def by (intro ok_bind) (simp_all add: readable roundtrips)

lemma taskflow_clarification_readable [readable]: "is_ok (taskflow_clarification_from_dict (taskflow_clarification_to_dict r))"
  unfolding taskflow_clarification_from_dict_def taskflow_clarification_to_dict_def by (intro ok_bind) (simp_all add: readable roundtrips)

lemma decision_option_readable [readable]: "is_ok (decision_option_from_dict (PDict (decision_option_to_dict r)))"
  by (simp add: decision_option_from_dict_def decision_option_to_dict_def)

lemma decision_options_readable [readable]:
  "is_ok (res_map decision_option_from_dict (list_of (docs decision_option_to_dict xs)))"
  using ok_res_map[of decision_option_from_dict "\<lambda>x. PDict (decision_option_to_dict x)" xs]
  by (simp add: docs_def decision_option_readable)

lemma decision_answer_readable [readable]: "is_ok (decision_answer_from_dict now (decision_answer_to_dict r))"
  unfolding decision_answer_from_dict_def decision_answer_to_dict_def by (intro ok_bind) (simp_all add: readable roundtrips)

lemma decision_record_readable [readable]: "is_ok (decision_record_from_dict (decision_record_to_dict r))"
  unfolding decision_record_from_dict_def decision_record_to_dict_def by (intro ok_bind) (simp_all add: readable roundtrips)

lemma taskflow_design_readable [readable]: "is_ok (taskflow_design_from_dict (taskflow_design_to_dict r))"
  unfolding taskflow_design_from_dict_def taskflow_design_to_dict_def by (intro ok_bind) (simp_all add: readable roundtrips)

lemma taskflow_relations_readable [readable]: "is_ok (taskflow_relations_from_dict now (taskflow_relations_to_dict r))"
  unfolding taskflow_relations_from_dict_def taskflow_relations_to_dict_def by (intro ok_bind) (simp_all add: readable roundtrips)

lemma complexity_evidence_record_readable [readable]: "is_ok (complexity_evidence_record_from_dict now (complexity_evidence_record_to_dict r))"
  unfolding complexity_evidence_record_from_dict_def complexity_evidence_record_to_dict_def by (intro ok_bind) (simp_all add: readable roundtrips)

lemma complexity_dimension_score_readable [readable]: "is_ok (complexity_dimension_score_from_dict (complexity_dimension_score_to_dict r))"
  unfolding complexity_dimension_score_from_dict_def complexity_dimension_score_to_dict_def by (intro ok_bind) (simp_all add: readable roundtrips)

lemma complexity_estimate_record_readable [readable]: "is_ok (complexity_estimate_record_from_dict now (complexity_estimate_record_to_dict r))"
  unfolding complexity_estimate_record_from_dict_def complexity_estimate_record_to_dict_def by (intro ok_bind) (simp_all add: readable roundtrips)

lemma brief_version_record_readable [readable]: "is_ok (brief_version_record_from_dict now (brief_version_record_to_dict r))"
  unfolding brief_version_record_from_dict_def brief_version_record_to_dict_def by (intro ok_bind) (simp_all add: readable roundtrips)

lemma review_card_answer_readable [readable]: "is_ok (review_card_answer_from_dict now (review_card_answer_to_dict r))"
  unfolding review_card_answer_from_dict_def review_card_answer_to_dict_def by (intro ok_bind) (simp_all add: readable roundtrips)

lemma dispatch_decision_record_readable [readable]: "is_ok (dispatch_decision_record_from_dict now (dispatch_decision_record_to_dict r))"
  unfolding dispatch_decision_record_from_dict_def dispatch_decision_record_to_dict_def by (intro ok_bind) (simp_all add: readable roundtrips)

lemma taskflow_event_readable [readable]: "is_ok (taskflow_event_from_dict now (taskflow_event_to_dict r))"
  unfolding taskflow_event_from_dict_def taskflow_event_to_dict_def by (intro ok_bind) (simp_all add: readable roundtrips)

lemma taskflow_compiler_state_readable [readable]: "is_ok (taskflow_compiler_state_from_dict now (taskflow_compiler_state_to_dict r))"
  unfolding taskflow_compiler_state_from_dict_def taskflow_compiler_state_to_dict_def by (intro ok_bind) (simp_all add: readable roundtrips)

lemma work_item_candidate_readable [readable]: "is_ok (work_item_candidate_from_dict (work_item_candidate_to_dict r))"
  unfolding work_item_candidate_from_dict_def work_item_candidate_to_dict_def by (intro ok_bind) (simp_all add: readable roundtrips)

lemma taskflow_outputs_readable [readable]: "is_ok (taskflow_outputs_from_dict now (taskflow_outputs_to_dict r))"
  unfolding taskflow_outputs_from_dict_def taskflow_outputs_to_dict_def by (intro ok_bind) (simp_all add: readable roundtrips)

lemma taskflow_state_readable [readable]: "is_ok (taskflow_state_from_dict now (taskflow_state_to_dict r))"
  unfolding taskflow_state_from_dict_def taskflow_state_to_dict_def by (intro ok_bind) (simp_all add: readable roundtrips)

section \<open>The stores\<close>

lemma copied_flow_ok: "is_ok (copied_flow env s)"
  by (simp add: copied_flow_def readable)

lemma copied_project_ok: "is_ok (copied_project env p)"
  by (simp add: copied_project_def readable)

lemma save_flow_ok: "snd (save_taskflow_state env s S) = Inr ()"
  using copied_flow_ok[of env "flow_touch env s"]
  by (auto simp: save_taskflow_state_def store_taskflow_state_def is_ok_iff)

lemma save_project_ok: "snd (save_project_state env p S) = Inr ()"
  using copied_project_ok[of env "project_touch env p"] by (auto simp: save_project_state_def is_ok_iff)

lemma get_flow_ok: "is_ok (get_taskflow_state env k S) \<longleftrightarrow> dict_has (fs_flows S) k"
  by (auto simp: get_taskflow_state_def dict_has_iff copied_flow_ok split: option.split)

lemma project_ok: "is_ok (snd (get_or_create_project_state env i S))"
proof (cases "dict_get (fs_projects S) i")
  case None
  then show ?thesis
    using copied_project_ok[of env "new_project_state env i []"]
    by (auto simp: get_or_create_project_state_def Let_def is_ok_iff)
qed (simp add: get_or_create_project_state_def copied_project_ok)

text \<open>A taskflow that the service holds can always be loaded.\<close>

lemma load_ok: "is_ok (snd (load_flow env k S)) \<longleftrightarrow> dict_has (fs_flows S) k"
proof (cases "get_taskflow_state env k S")
  case (Inl e)
  then show ?thesis using get_flow_ok[of env k S] by (simp add: load_flow_def)
next
  case (Inr s)
  obtain T r where T: "get_or_create_project_state env (tfm_project_id (tf_meta s)) S = (T, r)"
    by (rule prod.exhaust)
  then have "is_ok r" using project_ok[of env "tfm_project_id (tf_meta s)" S] by simp
  then show ?thesis
    using Inr T get_flow_ok[of env k S] by (auto simp: load_flow_def is_ok_iff)
qed

end
