(* ===== verification/FlowProofs.thy ===== *)
theory FlowProofs
  imports FlowCopies
begin

text \<open>
  The properties of the taskflow service: what a dispatch needs, what a stale decision can no longer do,
  the numbering of the briefs, the growth of the ledger, the bounds of the scores, what the store gives
  back and what compiling a changed candidate again does.
\<close>

section \<open>The gates of a dispatch\<close>

lemma gate_kept:
  assumes "g \<in> set gs" "\<And>h. h \<in> set gs \<Longrightarrow> rg_id h = rg_id g \<Longrightarrow> h = g"
  shows "g \<in> set (dict_values (gates_by_id gs))"
proof -
  have "List.find (\<lambda>h. rg_id h = rg_id g) (rev gs) \<noteq> None"
    using assms(1) by (auto simp: find_None_iff)
  then obtain h where h: "List.find (\<lambda>h. rg_id h = rg_id g) (rev gs) = Some h" by auto
  then have "h = g" using find_SomeD[OF h] assms(2) by simp
  then have "dict_get (gates_by_id gs) (rg_id g) = Some g" using h by (simp add: gates_by_id_get)
  then have "(rg_id g, g) \<in> set (gates_by_id gs)" by (rule dict_get_in_set)
  then show ?thesis by (force simp: dict_values_def)
qed

lemma gates_must_pass:
  assumes "generated_gates s e = Inr gs" "failed_gates rg_blocks_dispatch (dict_values (gates_by_id gs)) = []"
    "g \<in> set gs" "\<And>h. h \<in> set gs \<Longrightarrow> rg_id h = rg_id g \<Longrightarrow> h = g" "rg_required g" "rg_blocks_dispatch g"
  shows "rg_passed g"
  using gate_kept[OF assms(3,4)] assms(2,5,6) by (auto simp: failed_gates_def filter_empty_conv)

definition dispatch_gate :: "string \<Rightarrow> bool \<Rightarrow> readiness_gate \<Rightarrow> bool" where
  "dispatch_gate ident passed g \<longleftrightarrow>
     rg_id g = ident \<and> rg_passed g = passed \<and> rg_required g \<and> rg_blocks_dispatch g"

lemma generated_shape:
  assumes "generated_gates s e = Inr gs"
  shows "\<exists>a b c d x arts f g. gs = [a, b, c, d, x] @ arts @ [f, g] \<and>
     rg_id a = ''gate-confirmed-brief'' \<and> rg_id d = ''gate-acceptance-contract'' \<and>
     rg_id x = ''gate-trace-integrity'' \<and>
     (\<forall>h \<in> set arts. \<exists>t. rg_id h = ''gate-artifact-'' @ t) \<and>
     dispatch_gate ''gate-fresh-brief-confirmation'' (fresh_confirmed s) b \<and>
     dispatch_gate ''gate-high-risk-questions'' (unresolved_high_risk_questions s = []) c \<and>
     dispatch_gate ''gate-compiled-plan'' (tfo_plan_drafts (tf_outputs s) \<noteq> []) f \<and>
     dispatch_gate ''gate-dispatch-confirmation'' (dispatch_confirmed s) g"
proof -
  let ?arts = "case e of None \<Rightarrow> []
    | Some e \<Rightarrow> map (artifact_gate s e) (filter (\<lambda>a. a \<noteq> ''brief'') (cer_required_artifacts e))"
  have "\<forall>h \<in> set ?arts. \<exists>t. rg_id h = ''gate-artifact-'' @ t"
    by (auto simp: artifact_gate_def Let_def make_gate_def split: option.splits)
  moreover obtain a b c d x f g where "gs = [a, b, c, d, x] @ ?arts @ [f, g]"
      "rg_id a = ''gate-confirmed-brief''" "rg_id d = ''gate-acceptance-contract''"
      "rg_id x = ''gate-trace-integrity''"
      "dispatch_gate ''gate-fresh-brief-confirmation'' (fresh_confirmed s) b"
      "dispatch_gate ''gate-high-risk-questions'' (unresolved_high_risk_questions s = []) c"
      "dispatch_gate ''gate-compiled-plan'' (tfo_plan_drafts (tf_outputs s) \<noteq> []) f"
      "dispatch_gate ''gate-dispatch-confirmation'' (dispatch_confirmed s) g"
    using assms
    by (clarsimp simp: generated_gates_def Let_def res_bind_Inr_iff dispatch_gate_def make_gate_def
        gate_blocks_def gate_phase_def)
  ultimately show ?thesis by blast
qed

lemma dispatch_gates_pass:
  assumes gs: "generated_gates s e = Inr gs"
    and none: "failed_gates rg_blocks_dispatch (dict_values (gates_by_id gs)) = []"
  shows "fresh_confirmed s \<and> unresolved_high_risk_questions s = [] \<and> tfo_plan_drafts (tf_outputs s) \<noteq> [] \<and>
    dispatch_confirmed s"
proof -
  obtain a b c d x arts f g where sh: "gs = [a, b, c, d, x] @ arts @ [f, g]"
      "rg_id a = ''gate-confirmed-brief''" "rg_id d = ''gate-acceptance-contract''"
      "rg_id x = ''gate-trace-integrity''"
      "\<forall>h \<in> set arts. \<exists>t. rg_id h = ''gate-artifact-'' @ t"
      "dispatch_gate ''gate-fresh-brief-confirmation'' (fresh_confirmed s) b"
      "dispatch_gate ''gate-high-risk-questions'' (unresolved_high_risk_questions s = []) c"
      "dispatch_gate ''gate-compiled-plan'' (tfo_plan_drafts (tf_outputs s) \<noteq> []) f"
      "dispatch_gate ''gate-dispatch-confirmation'' (dispatch_confirmed s) g"
    using generated_shape[OF gs] by blast
  have ids: "rg_id b = ''gate-fresh-brief-confirmation''" "rg_id c = ''gate-high-risk-questions''"
      "rg_id f = ''gate-compiled-plan''" "rg_id g = ''gate-dispatch-confirmation''"
    using sh(6-9) by (simp_all only: dispatch_gate_def)
  have arts: "rg_id h \<noteq> rg_id b \<and> rg_id h \<noteq> rg_id c \<and> rg_id h \<noteq> rg_id f \<and> rg_id h \<noteq> rg_id g"
    if "h \<in> set arts" for h
  proof -
    obtain t where "rg_id h = ''gate-artifact-'' @ t" using sh(5) \<open>h \<in> set arts\<close> by blast
    then show ?thesis by (simp add: ids)
  qed
  have same: "h = y" if "h \<in> set gs" "rg_id h = rg_id y" "y \<in> {b, c, f, g}" for h y
  proof -
    have "h \<in> {a, b, c, d, x, f, g}" using that arts[of h] by (auto simp: sh(1))
    then show ?thesis using that(2,3) by (auto simp: ids sh(2-4))
  qed
  have pass: "rg_passed y" if "y \<in> {b, c, f, g}" for y
  proof (rule gates_must_pass[OF gs none])
    show "y \<in> set gs" using that by (auto simp: sh(1))
    show "h = y" if "h \<in> set gs" "rg_id h = rg_id y" for h using same[OF that] \<open>y \<in> {b, c, f, g}\<close> .
    show "rg_required y" "rg_blocks_dispatch y" using that sh(6-9) by (auto simp: dispatch_gate_def)
  qed
  show ?thesis
    using pass[of b] pass[of c] pass[of f] pass[of g] sh(6-) by (simp add: dispatch_gate_def)
qed

lemma assess_keeps:
  "assess_complexity env s p = Inr (t, r) \<Longrightarrow>
   tf_outputs t = tf_outputs s \<and> tf_clarification t = tf_clarification s \<and>
   tcs_readiness_gates (tf_compiler t) = tcs_readiness_gates (tf_compiler s)"
  by (auto simp: assess_complexity_def Let_def res_bind_Inr_iff)

lemma refresh_readiness_gates:
  "refresh_readiness s a = Inr t \<Longrightarrow> \<exists>e. refreshed_gates s e = Inr (tcs_readiness_gates (tf_compiler t))"
  by (auto simp: refresh_readiness_def Let_def res_bind_Inr_iff)

lemma refreshed_dispatchable:
  assumes "flow_ok s" "refresh_derived_state env s p = Inr t" "failed_dispatch_gates t = []"
  shows "fresh_confirmed s \<and> unresolved_high_risk_questions s = [] \<and> tfo_plan_drafts (tf_outputs s) \<noteq> []"
proof -
  obtain u r where u: "assess_complexity env s p = Inr (u, r)" "refresh_readiness u (Some r) = Inr t"
    using assms(2) by (auto simp: refresh_derived_state_def res_bind_Inr_iff)
  have comp: "gates_computed (tf_compiler u)"
    using assms(1) assess_keeps[OF u(1)] by (simp add: flow_ok_def gates_computed_def)
  obtain e gs where gs: "generated_gates u e = Inr gs"
      "tcs_readiness_gates (tf_compiler t) = dict_values (gates_by_id gs)"
    using refresh_readiness_gates[OF u(2)] by (auto simp: refreshed_gates_computed[OF comp] res_bind_Inr_iff)
  have "fresh_confirmed u \<and> unresolved_high_risk_questions u = [] \<and> tfo_plan_drafts (tf_outputs u) \<noteq> []"
    using dispatch_gates_pass[OF gs(1)] assms(3) gs(2) by (simp add: failed_dispatch_gates_def)
  moreover have same: "tf_outputs u = tf_outputs s" "tf_clarification u = tf_clarification s"
    using assess_keeps[OF u(1)] by simp_all
  moreover have "fresh_confirmed u = fresh_confirmed s"
    unfolding fresh_confirmed_def confirmed_brief_def current_brief_def flow_brief_def same by (rule refl)
  moreover have "unresolved_high_risk_questions u = unresolved_high_risk_questions s"
    unfolding unresolved_high_risk_questions_def same by (rule refl)
  ultimately show ?thesis by simp
qed

lemma fresh_confirmed_brief:
  assumes "fresh_confirmed s" "Some v = tfo_confirmed_brief_version (tf_outputs s)"
  shows "\<exists>b. b \<in> set (tfo_brief_versions (tf_outputs s)) \<and> bv_status b = Brief_CONFIRMED \<and> bv_version b = v \<and>
    tfo_current_brief_version (tf_outputs s) = Some v"
  using assms
  by (auto simp: fresh_confirmed_def confirmed_brief_def current_brief_def flow_brief_def
      split: option.splits if_splits dest!: find_SomeD)

lemma authorize_facts:
  assumes "authorize_dispatch env i w s p = Inr (t, d)"
  shows "i = Some (dd_id d)" "List.find (\<lambda>d. Some (dd_id d) = i) (tfo_dispatch_decisions (tf_outputs s)) = Some d"
    "dd_status d = DDec_CONFIRMED" "\<not> decision_stale d"
    "Some (dd_brief_version d) = tfo_confirmed_brief_version (tf_outputs s)" "w \<in> set (dd_work_item_ids d)"
    "assert_current s = Inr ()" "refresh_derived_state env s p = Inr t" "failed_dispatch_gates t = []"
    "70 \<le> tcs_dispatch_readiness_score (tf_compiler t)"
proof -
  obtain j where j: "i = Some j" using assms by (cases i) (auto simp: authorize_dispatch_def)
  have d: "confirmed_dispatch_decision s j w = Inr d" and rest: "assert_current s = Inr ()"
      "refresh_derived_state env s p = Inr t" "failed_dispatch_gates t = []"
      "70 \<le> tcs_dispatch_readiness_score (tf_compiler t)"
    using assms by (auto simp: authorize_dispatch_def j res_bind_Inr_iff split: if_splits)
  show "assert_current s = Inr ()" "refresh_derived_state env s p = Inr t" "failed_dispatch_gates t = []"
      "70 \<le> tcs_dispatch_readiness_score (tf_compiler t)"
    by (fact rest)+
  have found: "List.find (\<lambda>d. dd_id d = j) (tfo_dispatch_decisions (tf_outputs s)) = Some d"
    using d by (auto simp: confirmed_dispatch_decision_def dispatch_decision_def res_bind_Inr_iff
        split: option.splits if_splits)
  then show "List.find (\<lambda>d. Some (dd_id d) = i) (tfo_dispatch_decisions (tf_outputs s)) = Some d"
    by (simp add: j)
  show "i = Some (dd_id d)" using find_SomeD[OF found] j by simp
  show "dd_status d = DDec_CONFIRMED" "\<not> decision_stale d"
    "Some (dd_brief_version d) = tfo_confirmed_brief_version (tf_outputs s)" "w \<in> set (dd_work_item_ids d)"
    using d by (auto simp: confirmed_dispatch_decision_def res_bind_Inr_iff decision_stale_def split: if_splits)
qed

lemma flow_bind_Inr:
  "snd (flow_bind m f) = Inr x \<longleftrightarrow> (\<exists>T y. m = (T, Inr y) \<and> snd (f T y) = Inr x)"
  by (cases m; cases "snd m") (auto simp: flow_bind_def)

lemma compiled_item_id: "compiled_work_item plan p w = Inr c \<Longrightarrow> cc_work_item_id c = w"
  by (auto simp: compiled_work_item_def split: option.splits dest!: find_SomeD)

lemma dispatched_run_refs:
  "pending_run env k plan c d md ex = Inr run \<Longrightarrow> dispatched_run env hint md run = Inr (run', a) \<Longrightarrow>
   trn_work_item_id run' = cc_work_item_id c \<and> trn_dispatch_ref_id run' = Some (dd_id d)"
  by (auto simp: pending_run_def dispatched_run_def apply_dispatch_result_def Let_def res_bind_Inr_iff
      split: option.splits)

lemma dispatch_authorized:
  assumes "snd (dispatch_task_run env k w i hint md ex S) = Inr run"
  obtains s p t d where "get_taskflow_state env k S = Inr s" "authorize_dispatch env i w s p = Inr (t, d)"
    "trn_work_item_id run = w" "trn_dispatch_ref_id run = Some (dd_id d)"
proof -
  obtain T s p t d plan u n c r0 a where
    load: "load_flow env k S = (T, Inr (s, p))" and auth: "authorize_dispatch env i w s p = Inr (t, d)"
    and c: "compiled_work_item plan p w = Inr c" and r0: "pending_run env k plan c d md ex = Inr r0"
    and r: "dispatched_run env hint md r0 = Inr (run, a)"
    using assms unfolding dispatch_task_run_def flow_bind_Inr by (auto simp: flow_bind_Inr)
  have "get_taskflow_state env k S = Inr s" by (rule load_flow_stored[of env k S s p]) (simp add: load)
  then show thesis
    using auth dispatched_run_refs[OF r0 r] compiled_item_id[OF c] by (intro that) auto
qed

section \<open>When a dispatch goes through\<close>

lemma all_gates_pass:
  assumes "gates_computed (tf_compiler u)" "generated_gates u (Some e) = Inr gs" "list_all rg_passed gs"
  shows "\<exists>t. refresh_readiness u (Some e) = Inr t \<and> failed_dispatch_gates t = [] \<and>
    tcs_dispatch_readiness_score (tf_compiler t) = 100"
proof -
  have "list_all rg_passed (dict_values (gates_by_id gs))"
    using assms(3) gates_by_id_values[of gs] by (auto simp: list_all_iff)
  then have "failed_gates blocks (dict_values (gates_by_id gs)) = []" for blocks
    by (auto simp: failed_gates_def filter_empty_conv list_all_iff)
  then show ?thesis
    using assms(2)
    by (simp add: refresh_readiness_def refreshed_gates_computed[OF assms(1)] Let_def failed_dispatch_gates_def
        gate_score_full)
qed

lemma dispatch_goes_through:
  assumes "get_taskflow_state env k S = Inr s"
    and auth: "\<And>p. \<exists>t. authorize_dispatch env i w s p = Inr (t, d)"
    and "dict_get (fs_plans S) k = Some plan" "\<And>p. compiled_work_item plan p w = Inr c"
    and "pending_run env k plan c d md ex = Inr r0" "dispatched_run env hint md r0 = Inr (run, a)"
    and "run_links env plan c d run a = Inr links"
  shows "snd (dispatch_task_run env k w i hint md ex S) = Inr run"
proof -
  have "dict_has (fs_flows S) k" using get_flow_ok[of env k S] assms(1) by simp
  then have "is_ok (snd (load_flow env k S))" by (simp add: load_ok)
  then obtain T s' p where load: "load_flow env k S = (T, Inr (s', p))"
    by (cases "load_flow env k S") (auto simp: is_ok_iff)
  have "s' = s" using load_flow_stored[of env k S s' p] load assms(1) by simp
  have plans: "fs_plans T = fs_plans S"
    using load assms(1)
    by (auto simp: load_flow_def get_or_create_project_state_def Let_def flow_bind_def
        split: option.splits sum.splits)
  obtain t where t: "authorize_dispatch env i w s p = Inr (t, d)" using auth by blast
  have saved: "snd (flow_bind (save_project_state env q U) (\<lambda>S _.
      flow_bind (save_taskflow_state env v S) (\<lambda>S _. (S, Inr run)))) = Inr run" for q v U
  proof -
    obtain V where V: "save_project_state env q U = (V, Inr ())"
      using save_project_ok[of env q U] by (metis prod.collapse)
    obtain W where "save_taskflow_state env v V = (W, Inr ())"
      using save_flow_ok[of env v V] by (metis prod.collapse)
    then show ?thesis by (simp add: V)
  qed
  show ?thesis
    unfolding dispatch_task_run_def load \<open>s' = s\<close>
    by (simp add: t plan_for_dispatch_def plans assms(3-7) saved)
qed

section \<open>A taskflow with a confirmed brief, a plan and one confirmed decision\<close>

definition flow_sample_env :: flow_env where
  "flow_sample_env = \<lparr>fe_now = ''n'', fe_fresh = (\<lambda>_ _. ''0''), fe_digest = (\<lambda>_. ''h''),
     fe_ratio = (\<lambda>_ _. PInt 1), fe_extract = (\<lambda>_ _. Inr []), fe_confidence = (\<lambda>_ _. None),
     fe_dispatcher = None\<rparr>"

definition flow_sample_brief :: brief_version_record where
  "flow_sample_brief = \<lparr>bv_id = ''b'', bv_version = 1, bv_status = Brief_CONFIRMED, bv_goal = [], bv_scope = [],
     bv_glossary = [], bv_rules = [], bv_examples = [[(''id'', PStr ''e'')]], bv_acceptance_examples = [],
     bv_scenarios = [], bv_open_questions = [], bv_decisions = [], bv_risks = [], bv_interfaces = [],
     bv_gherkin_features = [], bv_issue_map = [], bv_work_item_candidates = [], bv_task_drafts = [],
     bv_quality = [], bv_complexity_estimate = [], bv_readiness_gates = [], bv_readiness_score = 0,
     bv_compile_readiness_score = 0, bv_dispatch_readiness_score = 0, bv_content_hash = ''h'',
     bv_previous_version = None, bv_causation_event_id = None, bv_source_event_ids = [],
     bv_diff_summary = [], bv_created_at = ''n'', bv_created_by = [], bv_ready_at = None,
     bv_confirmed_by = [], bv_confirmed_at = None, bv_reopened_from_version = None, bv_metadata = []\<rparr>"

definition flow_sample_decision :: "pyobj \<Rightarrow> dispatch_decision_record" where
  "flow_sample_decision metadata = \<lparr>dd_id = ''d'', dd_brief_version = 1, dd_work_item_ids = [''w''],
     dd_status = DDec_CONFIRMED, dd_requested_by = [], dd_requested_at = ''n'', dd_confirmed_by = ''u'',
     dd_confirmed_at = Some ''n'', dd_rejected_by = [], dd_rejected_at = None, dd_rationale = [],
     dd_readiness_snapshot = [], dd_metadata = metadata\<rparr>"

definition flow_sample_example :: example_record where
  "flow_sample_example = \<lparr>exm_id = ''e'', exm_title = [], exm_rule_id = None, exm_kind = Kind_POSITIVE, exm_given = [],
     exm_when = [], exm_then = [], exm_observable_outputs = [], exm_source_refs = [], exm_metadata = []\<rparr>"

definition flow_sample_flow :: "pyobj \<Rightarrow> taskflow_state" where
  "flow_sample_flow metadata =
     \<lparr>tf_meta = \<lparr>tfm_taskflow_id = ''t'', tfm_project_id = ''p'', tfm_goal_id = ''g'',
        tfm_schema_version = ''v'', tfm_state_version = 1, tfm_status = Flow_CONFIRMED,
        tfm_sensitivity = Sens_INTERNAL, tfm_created_at = ''n'', tfm_updated_at = ''n''\<rparr>,
      tf_refs = \<lparr>tfr_project_context_refs = [], tfr_prior_goal_refs = [], tfr_related_goal_refs = [],
        tfr_reused_work_item_refs = [], tfr_shared_decision_refs = [], tfr_related_artifact_refs = []\<rparr>,
      tf_intent = \<lparr>tfi_goal_statement = [], tfi_background_delta = [], tfi_stakeholders_delta = [],
        tfi_scope_in = [], tfi_scope_out = [], tfi_deferred_scope = [], tfi_success_criteria = [],
        tfi_constraints_delta = []\<rparr>,
      tf_clarification = \<lparr>tfc_assumptions = [], tfc_open_questions = [], tfc_rules = [],
        tfc_examples = [flow_sample_example], tfc_scenarios = [], tfc_acceptance_examples = []\<rparr>,
      tf_domain = \<lparr>tfd_bounded_context_refs = [], tfd_domain_model_delta = [], tfd_ubiquitous_language = []\<rparr>,
      tf_design = \<lparr>tfg_solution_options = [], tfg_local_decisions = [], tfg_risks = [],
        tfg_interfaces = [], tfg_implementation_notes = []\<rparr>,
      tf_delivery = \<lparr>tfv_rollout_plan = [], tfv_future_goal_candidates = []\<rparr>,
      tf_relations = \<lparr>tfl_goal_work_links = [], tfl_work_item_dependencies = [],
        tfl_decision_work_links = [], tfl_acceptance_trace_links = []\<rparr>,
      tf_compiler = \<lparr>tcs_complexity_level = ''L1'', tcs_recipe_id = ''r'',
        tcs_complexity_score = 0, tcs_complexity_estimate = None, tcs_complexity_evidence = [],
        tcs_complexity_override_level = [], tcs_complexity_overridden_by = [],
        tcs_complexity_override_reason = [], tcs_recipe_version = ''v'',
        tcs_recipe_steps = [], tcs_required_steps = [], tcs_completed_steps = [],
        tcs_skipped_steps = [], tcs_required_artifacts = [], tcs_complexity_rationale = [],
        tcs_readiness_score = 0, tcs_compile_readiness_score = 0, tcs_dispatch_readiness_score = 0,
        tcs_readiness_gates = [], tcs_blocking_items = [], tcs_traceability_index = []\<rparr>,
      tf_outputs = \<lparr>tfo_plan_drafts = [[]], tfo_brief_versions = [flow_sample_brief],
        tfo_current_brief_version = Some 1, tfo_confirmed_brief_version = Some 1,
        tfo_work_item_candidates = [], tfo_task_run_refs = [], tfo_artifact_projections = [],
        tfo_gherkin_features = [], tfo_issue_map = [], tfo_review_card_answers = [],
        tfo_dispatch_decisions = [flow_sample_decision metadata], tfo_compiler_decisions = []\<rparr>,
      tf_events = [\<lparr>tev_id = ''f'', tev_type = TEvt_BRIEF_CONFIRMED, tev_taskflow_id = ''t'',
        tev_project_id = ''p'', tev_goal_id = ''g'', tev_actor = ''u'', tev_payload = [],
        tev_created_at = ''n'', tev_metadata = []\<rparr>]\<rparr>"

definition flow_sample_plan :: plan_draft where
  "flow_sample_plan = \<lparr>pd_id = ''q'', pd_taskflow_id = ''t'', pd_project_id = ''p'', pd_goal_id = ''g'', pd_objective = ''x'',
     pd_scope = [], pd_work_item_candidates =
       [\<lparr>cc_candidate_id = ''c'', cc_title = [], cc_description = [], cc_type = ''implementation'', cc_action = ''create'',
         cc_work_item_id = ''w'', cc_reuse_work_item_id = None, cc_dedupe_key = None, cc_relation_type = ''direct_delivery'',
         cc_rationale = [], cc_acceptance_refs = [], cc_decision_refs = [], cc_artifact_refs = [], cc_scenario_refs = [],
         cc_risk_refs = [], cc_depends_on = [], cc_metadata = []\<rparr>],
     pd_goal_work_links = [], pd_decision_work_links = [], pd_acceptance_trace_links = [],
     pd_future_goal_candidates = [], pd_risks = [], pd_assumptions = [], pd_unresolved_questions = [],
     pd_created_at = ''n'', pd_compiler_version = []\<rparr>"

definition flow_sample_service :: "pyobj \<Rightarrow> flow_service" where
  "flow_sample_service metadata = \<lparr>fs_flows = [(''t'', flow_sample_flow metadata)],
     fs_projects = [(''p'', new_project_state flow_sample_env ''p'' [])], fs_plans = [(''t'', flow_sample_plan)]\<rparr>"

lemmas flow_sample_defs = flow_sample_flow_def flow_sample_brief_def flow_sample_decision_def
  flow_sample_example_def flow_sample_service_def flow_sample_plan_def

lemma flow_sample_wf: "taskflow_state_wf (flow_sample_flow metadata)"
  by (simp add: taskflow_state_wf_def flow_sample_defs taskflow_meta_wf_def taskflow_refs_wf_def
      taskflow_intent_wf_def taskflow_clarification_wf_def taskflow_domain_wf_def taskflow_design_wf_def
      taskflow_delivery_wf_def taskflow_relations_wf_def taskflow_compiler_state_wf_def
      taskflow_outputs_wf_def brief_version_record_wf_def dispatch_decision_record_wf_def
      example_record_wf_def taskflow_event_wf_def nonblank_def string_eval)

lemma flow_sample_ok: "service_ok (flow_sample_service metadata)"
  by (simp add: service_ok_def flow_sample_defs dict_wf_def flow_ok_def briefs_numbered_def gates_computed_def
      dict_keys_def)

lemma flow_sample_read: "get_taskflow_state env ''t'' (flow_sample_service metadata) = Inr (flow_sample_flow metadata)"
  using taskflow_state_roundtrip[OF flow_sample_wf]
  by (simp add: get_taskflow_state_def copied_flow_def flow_sample_service_def)

lemma flow_sample_policy:
  "rec_required_artifacts (policy_for (estimate_complexity flow_sample_env [])) = [''brief'', ''acceptance'']"
  by (simp add: policy_for_def estimate_complexity_def Let_def dimension_scores_def dimension_score_def
      of_dimension_def complexity_dimensions_def score_of_def dict_get_def cap_score_def level_for_score_def
      evidence_floor_def max_level_def)

lemma flow_sample_evidence: "merged_evidence flow_sample_env (flow_sample_flow metadata) p = Inr []"
  by (simp add: merged_evidence_def flow_sample_env_def flow_sample_flow_def)

lemma flow_sample_override: "apply_override (flow_sample_flow metadata) e = Inr e"
  by (simp add: apply_override_def flow_sample_flow_def)

lemma assess_updates:
  "assess_complexity env s p = Inr (t, r) \<Longrightarrow> \<exists>f. t = tf_compiler_update f s"
  by (auto simp: assess_complexity_def Let_def res_bind_Inr_iff)

lemma flow_sample_assessed:
  "\<exists>t r. assess_complexity flow_sample_env (flow_sample_flow metadata) p = Inr (t, r) \<and>
    cer_required_artifacts r = [''brief'', ''acceptance'']"
  by (simp add: assess_complexity_def flow_sample_evidence flow_sample_override flow_sample_policy Let_def)

lemma flow_sample_gates:
  assumes "cer_required_artifacts r = [''brief'', ''acceptance'']"
  shows "\<exists>gs. generated_gates (tf_compiler_update f (flow_sample_flow [])) (Some r) = Inr gs \<and> list_all rg_passed gs"
  by (simp add: generated_gates_def assms Let_def fresh_confirmed_def confirmed_brief_def current_brief_def
      flow_brief_def acceptance_check_def trace_check_def snapshot_refs_def refs_in_def ids_of_def pget_def
      artifact_gate_def artifact_complete_def make_gate_def unresolved_high_risk_questions_def
      dispatch_confirmed_def flow_sample_defs string_eval)

lemma flow_sample_authorized:
  "\<exists>t. authorize_dispatch flow_sample_env (Some ''d'') ''w'' (flow_sample_flow []) p = Inr (t, flow_sample_decision [])"
proof -
  obtain u r where u: "assess_complexity flow_sample_env (flow_sample_flow []) p = Inr (u, r)"
      "cer_required_artifacts r = [''brief'', ''acceptance'']"
    using flow_sample_assessed by blast
  obtain f where f: "u = tf_compiler_update f (flow_sample_flow [])" using assess_updates[OF u(1)] by blast
  obtain gs where gs: "generated_gates u (Some r) = Inr gs" "list_all rg_passed gs"
    using flow_sample_gates[OF u(2)] unfolding f by blast
  have "gates_computed (tf_compiler u)"
    using assess_keeps[OF u(1)] by (simp add: gates_computed_def flow_sample_flow_def)
  then obtain t where t: "refresh_readiness u (Some r) = Inr t" "failed_dispatch_gates t = []"
      "tcs_dispatch_readiness_score (tf_compiler t) = 100"
    using all_gates_pass gs by blast
  have "confirmed_dispatch_decision (flow_sample_flow []) ''d'' ''w'' = Inr (flow_sample_decision [])"
    by (simp add: confirmed_dispatch_decision_def dispatch_decision_def flow_sample_defs pget_def)
  moreover have "assert_current (flow_sample_flow []) = Inr ()"
    by (simp add: assert_current_def flow_sample_flow_def pget_def)
  ultimately show ?thesis
    by (simp add: authorize_dispatch_def refresh_derived_state_def u t)
qed

lemma flow_sample_dispatched:
  "\<exists>run. snd (dispatch_task_run flow_sample_env ''t'' ''w'' (Some ''d'') None None ''agent'' (flow_sample_service [])) =
    Inr run"
proof -
  define c where "c = hd (pd_work_item_candidates flow_sample_plan)"
  have c: "compiled_work_item flow_sample_plan p ''w'' = Inr c" for p
    by (simp add: compiled_work_item_def c_def flow_sample_plan_def)
  obtain r0 where r0: "pending_run flow_sample_env ''t'' flow_sample_plan c (flow_sample_decision []) None ''agent'' = Inr r0"
    using task_run_executor_enum.of_val[of TExec_AGENT] by (simp add: pending_run_def)
  have run: "dispatched_run flow_sample_env None None r0 = Inr (r0, [])"
    by (simp add: dispatched_run_def flow_sample_env_def)
  obtain links where links: "run_links flow_sample_env flow_sample_plan c (flow_sample_decision []) r0 [] = Inr links"
    by (simp add: run_links_def Let_def c_def flow_sample_plan_def acceptance_of_def texts_in_def iterated_def pget_def)
  have plan: "dict_get (fs_plans (flow_sample_service [])) ''t'' = Some flow_sample_plan"
    by (simp add: flow_sample_service_def)
  show ?thesis
    using dispatch_goes_through[OF flow_sample_read flow_sample_authorized plan c r0 run links] by blast
qed

section \<open>Dispatching a run\<close>

lemma read_flow_ok:
  assumes "service_ok S" "get_taskflow_state env k S = Inr s"
  shows "flow_ok s"
proof -
  obtain s0 where "dict_get (fs_flows S) (tfm_taskflow_id (tf_meta s)) = Some s0" "advances s0 s"
    using loaded_advance(1)[OF assms] by (auto simp: stored_advance_def)
  then show ?thesis using service_ok_get[OF assms(1)] by (auto simp: advances_def)
qed

text \<open>C17. A run is dispatched only under a confirmed decision: whenever the service returns a task run, the
  stored taskflow holds the named decision, confirmed and not stale, made for the work item and for the
  brief that is both the current and a confirmed one; a plan has been compiled, no high-risk question is
  open, and the run carries that work item and that decision.\<close>

theorem dispatch_needs_authority:
  assumes "service_ok S" "snd (dispatch_task_run env k w i hint md ex S) = Inr run"
  shows "\<exists>s d b. get_taskflow_state env k S = Inr s \<and> i = Some (dd_id d) \<and>
    d \<in> set (tfo_dispatch_decisions (tf_outputs s)) \<and> dd_status d = DDec_CONFIRMED \<and> \<not> decision_stale d \<and>
    w \<in> set (dd_work_item_ids d) \<and> b \<in> set (tfo_brief_versions (tf_outputs s)) \<and>
    bv_status b = Brief_CONFIRMED \<and> bv_version b = dd_brief_version d \<and>
    tfo_current_brief_version (tf_outputs s) = Some (bv_version b) \<and>
    unresolved_high_risk_questions s = [] \<and> tfo_plan_drafts (tf_outputs s) \<noteq> [] \<and>
    trn_work_item_id run = w \<and> trn_dispatch_ref_id run = i"
proof -
  obtain s p t d where s: "get_taskflow_state env k S = Inr s"
    and auth: "authorize_dispatch env i w s p = Inr (t, d)"
    and run: "trn_work_item_id run = w" "trn_dispatch_ref_id run = Some (dd_id d)"
    by (rule dispatch_authorized[OF assms(2)])
  note d = authorize_facts[OF auth]
  have ready: "fresh_confirmed s" "unresolved_high_risk_questions s = []" "tfo_plan_drafts (tf_outputs s) \<noteq> []"
    using refreshed_dispatchable[OF read_flow_ok[OF assms(1) s] d(8,9)] by simp_all
  obtain b where b: "b \<in> set (tfo_brief_versions (tf_outputs s))" "bv_status b = Brief_CONFIRMED"
      "bv_version b = dd_brief_version d" "tfo_current_brief_version (tf_outputs s) = Some (dd_brief_version d)"
    using fresh_confirmed_brief[OF ready(1) d(5)] by blast
  show ?thesis
    by (rule exI[of _ s], rule exI[of _ d], rule exI[of _ b]) (use s d ready b run find_SomeD[OF d(2)] in simp)
qed

theorem dispatch_needs_authority_witness:
  "\<exists>run s d b. snd (dispatch_task_run flow_sample_env ''t'' ''w'' (Some ''d'') None None ''agent''
      (flow_sample_service [])) = Inr run \<and>
    get_taskflow_state flow_sample_env ''t'' (flow_sample_service []) = Inr s \<and>
    d \<in> set (tfo_dispatch_decisions (tf_outputs s)) \<and> \<not> decision_stale d \<and>
    b \<in> set (tfo_brief_versions (tf_outputs s)) \<and> bv_version b = dd_brief_version d \<and>
    trn_dispatch_ref_id run = Some ''d''"
proof -
  obtain run where run: "snd (dispatch_task_run flow_sample_env ''t'' ''w'' (Some ''d'') None None ''agent''
      (flow_sample_service [])) = Inr run"
    using flow_sample_dispatched by blast
  show ?thesis
    using run dispatch_needs_authority[OF flow_sample_ok run] by blast
qed

section \<open>Stale decisions\<close>

lemma grown_find:
  assumes "grown_decisions ds ds'" "List.find (\<lambda>d. dd_id d = i) ds = Some d"
  shows "\<exists>d'. List.find (\<lambda>d. dd_id d = i) ds' = Some d' \<and> decision_advances d d'"
proof -
  obtain es fs where ds': "ds' = es @ fs" "list_all2 decision_advances ds es"
    using assms(1) by (auto simp: grown_decisions_def)
  have "\<exists>d'. List.find (\<lambda>d. dd_id d = i) es = Some d' \<and> decision_advances d d'"
    using ds'(2) assms(2)
  proof (induction rule: list_all2_induct)
    case (Cons x xs y ys)
    then show ?case by (auto simp: decision_advances_def split: if_splits)
  qed simp
  then show ?thesis by (auto simp: ds'(1) find_in_append)
qed

text \<open>C19. A stale dispatch decision stays without force: whatever calls follow, as long as none of them starts
  the taskflow anew under its identifier, a dispatch under that decision is refused.\<close>

theorem stale_decision_blocked:
  assumes "service_ok S" "dict_get (fs_flows S) k = Some s"
    and "List.find (\<lambda>d. dd_id d = i) (tfo_dispatch_decisions (tf_outputs s)) = Some d" "decision_stale d"
    and "list_all (\<lambda>(env, c). starts env c \<noteq> Some k) cs"
  shows "\<exists>e. snd (dispatch_task_run env k w (Some i) hint md ex (flow_run cs S)) = Inl e"
proof (cases "snd (dispatch_task_run env k w (Some i) hint md ex (flow_run cs S))")
  case (Inr run)
  obtain t p u d' where t: "get_taskflow_state env k (flow_run cs S) = Inr t"
    and auth: "authorize_dispatch env (Some i) w t p = Inr (u, d')"
    by (rule dispatch_authorized[OF Inr])
  obtain s1 where s1: "dict_get (fs_flows (flow_run cs S)) k = Some s1" "advances s s1"
    using flow_run_keeps[OF assms(1,5,2)] by blast
  have "advances s1 t" using t s1(1) copied_advances by (simp add: get_taskflow_state_def)
  then have "grown_decisions (tfo_dispatch_decisions (tf_outputs s)) (tfo_dispatch_decisions (tf_outputs t))"
    using adv.trans[OF s1(2)] by (simp add: advances_def)
  from grown_find[OF this assms(3)] obtain d1
    where "List.find (\<lambda>d. dd_id d = i) (tfo_dispatch_decisions (tf_outputs t)) = Some d1" "decision_stale d1"
    using assms(4) by (auto simp: decision_advances_def)
  then have False using authorize_facts(2,4)[OF auth] by simp
  then show ?thesis ..
qed simp

theorem stale_decision_blocked_witness:
  "\<exists>e. snd (dispatch_task_run flow_sample_env ''t'' ''w'' (Some ''d'') None None ''agent''
      (flow_run [(flow_sample_env, Confirm_dispatch ''t'' ''d'' ''u'')]
        (flow_sample_service [(''stale'', PBool True)]))) = Inl e"
  by (rule stale_decision_blocked[OF flow_sample_ok[of "[(''stale'', PBool True)]"], of "''t''" "flow_sample_flow [(''stale'', PBool True)]" "''d''"
        "flow_sample_decision [(''stale'', PBool True)]"])
    (simp_all add: flow_sample_service_def flow_sample_flow_def flow_sample_decision_def decision_stale_def
      pget_def starts_def)

end
