(* ===== verification/FlowOutcomes.thy ===== *)
theory FlowOutcomes
  imports FlowProofs
begin

text \<open>
  Further properties of the taskflow service: what applying a memory patch does to the taskflows of its
  project, the growth of the ledger, the numbering of the briefs, the bounds of the scores, what the store
  gives back, the traces of a compiled plan and the item that comes to depend on itself.
\<close>

section \<open>Memory patches\<close>

definition all_stale :: "taskflow_state \<Rightarrow> bool" where
  "all_stale s \<longleftrightarrow> list_all decision_stale (tfo_dispatch_decisions (tf_outputs s))"

lemma all_stale_marked [simp]: "all_stale (mark_taskflow_stale env reason source refs s)"
  by (simp add: all_stale_def list_all_iff stale_marks_all)

lemma all_stale_touch [simp]: "all_stale (flow_touch env s) \<longleftrightarrow> all_stale s"
  by (simp add: all_stale_def flow_touch_def)

lemma all_stale_advanced:
  "list_all2 decision_advances ds es \<Longrightarrow> list_all decision_stale ds \<Longrightarrow> list_all decision_stale es"
  by (induction rule: list_all2_induct) (auto simp: decision_advances_def)

lemma all_stale_copied: "copied_flow env s = Inr c \<Longrightarrow> all_stale s \<Longrightarrow> all_stale c"
  using all_stale_advanced outputs_copied(4)[OF copied_parts(3)] unfolding all_stale_def by blast

lemma copied_ids:
  "copied_flow env s = Inr c \<Longrightarrow>
   tfm_taskflow_id (tf_meta c) = tfm_taskflow_id (tf_meta s) \<and> tfm_project_id (tf_meta c) = tfm_project_id (tf_meta s)"
  using meta_copied[OF copied_parts(1)] by blast

lemma touched_ids [simp]:
  "tfm_taskflow_id (tf_meta (flow_touch env s)) = tfm_taskflow_id (tf_meta s)"
  "tfm_project_id (tf_meta (flow_touch env s)) = tfm_project_id (tf_meta s)"
  by (simp_all add: flow_touch_def)

lemma stale_ids [simp]:
  "tfm_taskflow_id (tf_meta (mark_taskflow_stale env reason source refs s)) = tfm_taskflow_id (tf_meta s)"
  "tfm_project_id (tf_meta (mark_taskflow_stale env reason source refs s)) = tfm_project_id (tf_meta s)"
  by (simp_all add: mark_taskflow_stale_def set_flow_status_def Let_def)

lemma saved_copy:
  "\<exists>c. save_taskflow_state env s S = (S\<lparr>fs_flows := dict_set (tfm_taskflow_id (tf_meta s)) c (fs_flows S)\<rparr>, Inr ()) \<and>
    copied_flow env (flow_touch env s) = Inr c"
  using copied_flow_ok[of env "flow_touch env s"]
  by (auto simp: save_taskflow_state_def store_taskflow_state_def is_ok_iff)

lemma save_stale_effect:
  "snd (save_stale env cur reason source refs ss S) = Inr () \<and>
   dict_get (fs_flows (fst (save_stale env cur reason source refs ss S))) j =
     (if j \<noteq> cur \<and> j \<in> (\<lambda>s. tfm_taskflow_id (tf_meta s)) ` set ss
      then dict_get (fs_flows (fst (save_stale env cur reason source refs ss S))) j
      else dict_get (fs_flows S) j) \<and>
   (j \<noteq> cur \<and> j \<in> (\<lambda>s. tfm_taskflow_id (tf_meta s)) ` set ss \<longrightarrow>
      (\<exists>t. dict_get (fs_flows (fst (save_stale env cur reason source refs ss S))) j = Some t \<and> all_stale t))"
proof (induction ss arbitrary: S)
  case (Cons s ss)
  show ?case
  proof (cases "tfm_taskflow_id (tf_meta s) = cur")
    case True
    then show ?thesis using Cons.IH[of S] by auto
  next
    case False
    obtain c where c: "save_taskflow_state env (mark_taskflow_stale env reason source refs s) S =
        (S\<lparr>fs_flows := dict_set (tfm_taskflow_id (tf_meta s)) c (fs_flows S)\<rparr>, Inr ())"
      "copied_flow env (flow_touch env (mark_taskflow_stale env reason source refs s)) = Inr c"
      using saved_copy[of env "mark_taskflow_stale env reason source refs s" S] by auto
    have "all_stale c" by (rule all_stale_copied[OF c(2)]) simp
    then show ?thesis
      using False Cons.IH[of "S\<lparr>fs_flows := dict_set (tfm_taskflow_id (tf_meta s)) c (fs_flows S)\<rparr>"]
      by (auto simp: c(1) dict_get_set split: if_splits)
  qed
qed simp

lemma res_map_contains:
  "res_map f xs = Inr ys \<Longrightarrow> x \<in> set xs \<Longrightarrow> \<exists>y \<in> set ys. f x = Inr y"
  by (induction xs arbitrary: ys) (auto simp: res_bind_Inr_iff)

lemma listed_flow:
  assumes "list_taskflow_states env pid S = Inr ss" "dict_get (fs_flows S) j = Some s"
    "tfm_project_id (tf_meta s) = pid" "tfm_taskflow_id (tf_meta s) = j"
  shows "j \<in> (\<lambda>s. tfm_taskflow_id (tf_meta s)) ` set ss"
proof -
  have "s \<in> snd ` set (fs_flows S)" using dict_get_in_set[OF assms(2)] by (rule image_eqI[rotated]) simp
  then have "s \<in> set (filter (\<lambda>s. tfm_project_id (tf_meta s) = pid) (dict_values (fs_flows S)))"
    using assms(3) by (simp add: dict_values_def)
  then obtain c where "c \<in> set ss" "copied_flow env s = Inr c"
    using res_map_contains[OF assms(1)[unfolded list_taskflow_states_def]] by blast
  then show ?thesis using copied_ids[of env s c] assms(4) by (intro rev_image_eqI[of c]) simp_all
qed

lemma apply_patch_marks:
  "apply_patch env pid actor reason source ops s p = Inr (t, q, out) \<Longrightarrow>
   all_stale t \<and> tfm_taskflow_id (tf_meta t) = tfm_taskflow_id (tf_meta s) \<and>
   tfm_project_id (tf_meta t) = tfm_project_id (tf_meta s)"
  by (auto simp: apply_patch_def Let_def res_bind_Inr_iff append_taskflow_event_def split: if_splits option.splits)

lemma flow_bind_step:
  "m = (T, Inr x) \<Longrightarrow> flow_bind m f = f T x"
  by (simp add: flow_bind_def)

text \<open>The stores before and after an applied patch.\<close>

lemma apply_patch_cases:
  assumes "service_ok S" "snd (apply_project_memory_patch env k pid actor reason source ops S) = Inr out"
  obtains s t T refs c where "get_taskflow_state env k S = Inr s" "all_stale t"
    "tfm_taskflow_id (tf_meta t) = k" "tfm_project_id (tf_meta t) = tfm_project_id (tf_meta s)"
    "fs_flows T = fs_flows S"
    "snd (mark_related_stale env t ''Project Memory changed'' ''project_memory_patch'' refs T) = Inr ()"
    "copied_flow env (flow_touch env t) = Inr c"
    "fs_flows (fst (apply_project_memory_patch env k pid actor reason source ops S)) = dict_set k c
      (fs_flows (fst (mark_related_stale env t ''Project Memory changed'' ''project_memory_patch'' refs T)))"
proof -
  obtain T0 s p t q proposal T U V s2 where load: "load_flow env k S = (T0, Inr (s, p))"
    and patch: "apply_patch env pid actor reason source ops s p = Inr (t, q, proposal)"
    and proj: "save_project_state env q T0 = (T, Inr ())"
    and mark: "mark_related_stale env t ''Project Memory changed'' ''project_memory_patch''
      [py_str (pget proposal ''id'')] T = (U, Inr ())"
    and save: "save_taskflow_state env t U = (V, Inr ())" and get: "get_taskflow_state env k V = Inr s2"
    using assms(2) unfolding apply_project_memory_patch_def flow_bind_Inr by (auto simp: flow_bind_Inr)
  have s: "get_taskflow_state env k S = Inr s" by (rule load_flow_stored[of env k S s p]) (simp add: load)
  have t: "all_stale t" "tfm_taskflow_id (tf_meta t) = k" "tfm_project_id (tf_meta t) = tfm_project_id (tf_meta s)"
    using apply_patch_marks[OF patch] loaded_advance(2)[OF assms(1) s] by simp_all
  have flows: "fs_flows T = fs_flows S"
    using load_flow_flows[of env k S] save_project_flows[of env q T0] by (simp add: load proj)
  obtain c where c: "V = U\<lparr>fs_flows := dict_set k c (fs_flows U)\<rparr>" "copied_flow env (flow_touch env t) = Inr c"
    using saved_copy[of env t U] save t(2) by auto
  have "fst (apply_project_memory_patch env k pid actor reason source ops S) = V"
    by (simp add: apply_project_memory_patch_def load patch proj mark save get)
  then show thesis
    by (intro that[of s t T "[py_str (pget proposal ''id'')]" c] s t flows c(2)) (simp_all add: mark c(1))
qed

lemma marked_related:
  assumes "service_ok T" "snd (mark_related_stale env s reason source refs T) = Inr ()"
    "dict_get (fs_flows (fst (mark_related_stale env s reason source refs T))) j = Some t"
    "j \<noteq> tfm_taskflow_id (tf_meta s)" "tfm_project_id (tf_meta t) = tfm_project_id (tf_meta s)"
  shows "all_stale t"
proof -
  obtain ss where ss: "list_taskflow_states env (tfm_project_id (tf_meta s)) T = Inr ss"
    using assms(2) by (auto simp: mark_related_stale_def flow_bind_Inr)
  note eff = save_stale_effect[of env "tfm_taskflow_id (tf_meta s)" reason source refs ss T j]
  have t: "dict_get (fs_flows (fst (save_stale env (tfm_taskflow_id (tf_meta s)) reason source refs ss T))) j = Some t"
    using assms(3) ss by (simp add: mark_related_stale_def)
  show ?thesis
  proof (cases "j \<in> (\<lambda>s. tfm_taskflow_id (tf_meta s)) ` set ss")
    case True
    then show ?thesis using eff t assms(4) by auto
  next
    case False
    then have "dict_get (fs_flows T) j = Some t" using eff t by simp
    then show ?thesis
      using listed_flow[OF ss _ assms(5)] service_ok_get[OF assms(1)] False by blast
  qed
qed

text \<open>C18. Applying a patch to the memory of a project leaves no dispatch decision of the project in force: in
  every taskflow of that project, the one it was applied through and all others, every decision is stale
  afterwards.\<close>

theorem memory_patch_stales_project:
  assumes "service_ok S" "dict_get (fs_flows S) k = Some s"
    and "snd (apply_project_memory_patch env k pid actor reason source ops S) = Inr out"
  shows "list_all (\<lambda>(j, t). list_all decision_stale (tfo_dispatch_decisions (tf_outputs t)))
    (filter (\<lambda>(j, t). tfm_project_id (tf_meta t) = tfm_project_id (tf_meta s))
      (fs_flows (fst (apply_project_memory_patch env k pid actor reason source ops S))))"
proof -
  let ?S' = "fst (apply_project_memory_patch env k pid actor reason source ops S)"
  obtain r t T refs c where r: "get_taskflow_state env k S = Inr r"
    and t: "all_stale t" "tfm_taskflow_id (tf_meta t) = k" "tfm_project_id (tf_meta t) = tfm_project_id (tf_meta r)"
    and T: "fs_flows T = fs_flows S"
    and mark: "snd (mark_related_stale env t ''Project Memory changed'' ''project_memory_patch'' refs T) = Inr ()"
    and c: "copied_flow env (flow_touch env t) = Inr c"
    and S': "fs_flows ?S' = dict_set k c
      (fs_flows (fst (mark_related_stale env t ''Project Memory changed'' ''project_memory_patch'' refs T)))"
    by (rule apply_patch_cases[OF assms(1,3)])
  have same: "tfm_project_id (tf_meta t) = tfm_project_id (tf_meta s)"
    using r assms(2) copied_ids t(3) by (simp add: get_taskflow_state_def)
  have ok: "service_ok T" using assms(1) service_ok_same[OF T] by simp
  have "service_ok ?S'"
    using apply_patch_le[of S env k pid actor reason source ops] assms(1) by (simp add: service_le_def)
  then have wf: "dict_wf (fs_flows ?S')" by (simp add: service_ok_def)
  have "all_stale u" if "(j, u) \<in> set (fs_flows ?S')" "tfm_project_id (tf_meta u) = tfm_project_id (tf_meta s)" for j u
  proof -
    have u: "dict_get (fs_flows ?S') j = Some u" using dict_wf_get[OF wf that(1)] .
    show ?thesis
    proof (cases "j = k")
      case True
      then show ?thesis using u all_stale_copied[OF c] t(1) by (simp add: S' dict_get_set)
    next
      case False
      then show ?thesis
        using u marked_related[OF ok mark, of j u] t(2) that(2) same by (simp add: S' dict_get_set)
    qed
  qed
  then show ?thesis by (auto simp: list_all_iff all_stale_def)
qed

text \<open>A patch whose operations apply goes through.\<close>

lemma list_states_ok: "is_ok (list_taskflow_states env pid S)"
proof -
  have "is_ok (res_map (copied_flow env) xs)" for xs
  proof (induction xs)
    case (Cons s xs)
    obtain c where "copied_flow env s = Inr c" using copied_flow_ok[of env s] by (auto simp: is_ok_iff)
    then show ?case using Cons.IH by (auto simp: is_ok_iff)
  qed (simp add: is_ok_iff)
  then show ?thesis by (simp add: list_taskflow_states_def)
qed

lemma mark_related_ok: "snd (mark_related_stale env s reason source refs T) = Inr ()"
  using list_states_ok[of env "tfm_project_id (tf_meta s)" T] save_stale_effect
  by (auto simp: mark_related_stale_def is_ok_iff)

lemma patch_goes_through:
  assumes "service_ok S" "get_taskflow_state env k S = Inr s"
    and "\<And>p. is_ok (apply_patch env pid actor reason source ops s p)"
  shows "\<exists>out. snd (apply_project_memory_patch env k pid actor reason source ops S) = Inr out"
proof -
  have "dict_has (fs_flows S) k" using get_flow_ok[of env k S] assms(2) by simp
  then have "is_ok (snd (load_flow env k S))" by (simp add: load_ok)
  then obtain T0 s' p where load: "load_flow env k S = (T0, Inr (s', p))"
    by (cases "load_flow env k S") (auto simp: is_ok_iff)
  have "s' = s" using load_flow_stored[of env k S s' p] load assms(2) by simp
  obtain w where w: "apply_patch env pid actor reason source ops s p = Inr w"
    using assms(3)[of p] by (auto simp: is_ok_iff)
  obtain t q proposal where patch: "apply_patch env pid actor reason source ops s p = Inr (t, q, proposal)"
    using w by (cases w) simp
  obtain T where proj: "save_project_state env q T0 = (T, Inr ())"
    using save_project_ok[of env q T0] by (cases "save_project_state env q T0") simp
  let ?refs = "[py_str (pget proposal ''id'')]"
  obtain U where mark: "mark_related_stale env t ''Project Memory changed'' ''project_memory_patch'' ?refs T = (U, Inr ())"
    using mark_related_ok[of env t "''Project Memory changed''" "''project_memory_patch''" ?refs T]
    by (cases "mark_related_stale env t ''Project Memory changed'' ''project_memory_patch'' ?refs T") simp
  obtain c where save: "save_taskflow_state env t U = (U\<lparr>fs_flows := dict_set (tfm_taskflow_id (tf_meta t)) c (fs_flows U)\<rparr>, Inr ())"
    using saved_copy[of env t U] by blast
  have "tfm_taskflow_id (tf_meta t) = k"
    using apply_patch_marks[OF patch] loaded_advance(2)[OF assms(1,2)] by simp
  then have "is_ok (get_taskflow_state env k (U\<lparr>fs_flows := dict_set (tfm_taskflow_id (tf_meta t)) c (fs_flows U)\<rparr>))"
    by (simp add: get_flow_ok dict_has_iff dict_get_set)
  then show ?thesis
    using load \<open>s' = s\<close> by (auto simp: apply_project_memory_patch_def patch proj mark save is_ok_iff)
qed

definition flow_sample_operation :: pyobj where
  "flow_sample_operation = [(''type'', PStr ''upsert_term''), (''term'', PStr ''x''), (''definition'', PStr ''y'')]"

lemma flow_sample_patch: "is_ok (apply_patch env None ''u'' ''r'' ''m'' [flow_sample_operation] s p)"
proof -
  have op: "apply_patch_operations env [flow_sample_operation] q =
      Inr (on_terms (dict_set ''x'' ''y'') q, [patch_diff ''upsert_term'' ''terms.x'' (term_before q ''x'') (PStr ''y'')])" for q
    by (simp add: flow_sample_operation_def apply_patch_operation_def upsert_term_def op_text_def pget_def py_or_def
        string_eval)
  have valid: "validate_patch ''u'' ''r'' ''m'' [flow_sample_operation] = Inr ()"
    by (simp add: validate_patch_def string_eval)
  obtain c where "project_state_from_dict (fe_now env) (project_state_to_dict p) = Inr c"
    using copied_project_ok[of env p] by (auto simp: copied_project_def is_ok_iff)
  then show ?thesis
    by (simp add: apply_patch_def preview_patch_def patch_text_def Let_def valid op
        del: apply_patch_operations.simps)
qed

theorem memory_patch_stales_project_witness:
  "\<exists>out. snd (apply_project_memory_patch flow_sample_env ''t'' None ''u'' ''r'' ''m'' [flow_sample_operation]
      (flow_sample_service [])) = Inr out \<and>
    list_all (\<lambda>(j, t). list_all decision_stale (tfo_dispatch_decisions (tf_outputs t)))
      (filter (\<lambda>(j, t). tfm_project_id (tf_meta t) = ''p'')
        (fs_flows (fst (apply_project_memory_patch flow_sample_env ''t'' None ''u'' ''r'' ''m'' [flow_sample_operation]
          (flow_sample_service [])))))"
proof -
  have stored: "dict_get (fs_flows (flow_sample_service [])) ''t'' = Some (flow_sample_flow [])"
    by (simp add: flow_sample_service_def)
  have project: "tfm_project_id (tf_meta (flow_sample_flow [])) = ''p''" by (simp add: flow_sample_flow_def)
  obtain out where "snd (apply_project_memory_patch flow_sample_env ''t'' None ''u'' ''r'' ''m'' [flow_sample_operation]
      (flow_sample_service [])) = Inr out"
    using patch_goes_through[OF flow_sample_ok flow_sample_read flow_sample_patch] by blast
  from memory_patch_stales_project[OF flow_sample_ok stored this] this show ?thesis
    unfolding project by blast
qed

section \<open>The ledger and the numbering of the briefs\<close>

text \<open>C27. The ledger of a taskflow only grows: whatever calls are made, as long as none starts the taskflow anew,
  the events recorded so far stay, in their order, with everything they record but their time: identifier,
  type, owners, actor, payload and metadata.\<close>

theorem flow_ledger_append_only:
  assumes "service_ok S" "dict_get (fs_flows S) k = Some s"
    and "list_all (\<lambda>(env, c). starts env c \<noteq> Some k) cs"
  shows "\<exists>t. dict_get (fs_flows (flow_run cs S)) k = Some t \<and>
    prefix (map event_view (tf_events s)) (map event_view (tf_events t))"
  using flow_run_keeps[OF assms(1,3,2)] by (auto simp: advances_def)

theorem flow_ledger_append_only_witness:
  "\<exists>t. dict_get (fs_flows (flow_run [(flow_sample_env, Mark_ready ''t'' None ''u'')] (flow_sample_service []))) ''t'' =
      Some t \<and> prefix [(''f'', TEvt_BRIEF_CONFIRMED, ''t'', ''p'', ''g'', ''u'', [], [])] (map event_view (tf_events t))"
  using flow_ledger_append_only[OF flow_sample_ok[of "[]"], of "''t''" "flow_sample_flow []"
      "[(flow_sample_env, Mark_ready ''t'' None ''u'')]"]
  by (simp add: flow_sample_service_def flow_sample_flow_def event_view_def starts_def)

text \<open>C20. In every state that calls can reach from an empty service, every taskflow is stored under its identifier
  and its briefs are numbered 1, 2, 3, ..., the current version is the last and the confirmed version, if there
  is one, is one of them.\<close>

theorem briefs_stay_numbered:
  "list_all (\<lambda>(k, s). tfm_taskflow_id (tf_meta s) = k \<and> briefs_numbered (tf_outputs s))
     (fs_flows (flow_run cs empty_flow_service))"
  using run_ok[OF empty_service_ok, of cs] by (auto simp: service_ok_def flow_ok_def list_all_iff)

section \<open>Scores\<close>

text \<open>C29. The readiness scores lie between 0 and 100, the overall score is the smaller of the two, and a score is
  100 exactly when no gate of its phase fails; so the threshold of 70 never decides once no gate fails.\<close>

theorem readiness_scores:
  "result_all (\<lambda>t. 0 \<le> tcs_readiness_score (tf_compiler t) \<and> tcs_readiness_score (tf_compiler t) \<le> 100 \<and>
     tcs_readiness_score (tf_compiler t) =
       min (tcs_compile_readiness_score (tf_compiler t)) (tcs_dispatch_readiness_score (tf_compiler t)) \<and>
     (tcs_compile_readiness_score (tf_compiler t) = 100) = (failed_compile_gates t = []) \<and>
     (tcs_dispatch_readiness_score (tf_compiler t) = 100) = (failed_dispatch_gates t = []))
   (refresh_derived_state env s p)"
  unfolding refresh_derived_state_def refresh_readiness_def Let_def
  by (auto intro!: result_all_any split: prod.split
      simp: gate_score_bounds gate_score_full failed_compile_gates_def failed_dispatch_gates_def min_def)

text \<open>The complexity score of any evidence lies between 0 and 33 and no dimension counts more than 3; the level is at least
  the floor of every piece of evidence and is the level of the score or a floor; the score alone reaches the
  highest level only when all eleven dimensions are at their maximum.\<close>

theorem complexity_bounds:
  "0 \<le> est_score (estimate_complexity env evidence) \<and> est_score (estimate_complexity env evidence) \<le> 33 \<and>
   list_all (\<lambda>x. level_rank (floor_for_evidence x) \<le> level_rank (est_level (estimate_complexity env evidence))) evidence \<and>
   level_rank (est_level (estimate_complexity env evidence)) =
     max (level_rank (level_for_score (est_score (estimate_complexity env evidence)))) (level_rank (evidence_floor evidence)) \<and>
   (level_for_score (est_score (estimate_complexity env evidence)) = Level_L4) =
     list_all (\<lambda>dim. dimension_score evidence dim = 3) complexity_dimensions"
proof -
  have top: "(level_for_score (est_score (estimate_complexity env evidence)) = Level_L4) =
      (est_score (estimate_complexity env evidence) = 33)"
    using estimate_score_bounds[of env evidence] by (auto simp: level_for_score_def)
  have full: "(sum_list (map snd (map (\<lambda>dim. (dim, dimension_score evidence dim)) ds)) = 3 * int (length ds)) =
      list_all (\<lambda>dim. dimension_score evidence dim = 3) ds \<and>
      sum_list (map snd (map (\<lambda>dim. (dim, dimension_score evidence dim)) ds)) \<le> 3 * int (length ds)" for ds
  proof (induction ds)
    case (Cons d ds)
    have "dimension_score evidence d \<le> 3" using cap_score_bounds by (simp add: dimension_score_def)
    then show ?case using Cons by auto
  qed simp
  have "(est_score (estimate_complexity env evidence) = 33) =
      list_all (\<lambda>dim. dimension_score evidence dim = 3) complexity_dimensions"
    using full[of complexity_dimensions]
    by (simp add: estimate_complexity_def Let_def dimension_scores_def complexity_dimensions_def)
  then show ?thesis
    using estimate_score_bounds[of env evidence] estimate_level_floor[of _ evidence env]
    by (simp add: top list_all_iff) (simp add: estimate_complexity_def Let_def max_level_rank)
qed

section \<open>The store\<close>

text \<open>C28. What is saved is read back: a well-formed taskflow comes back from the store exactly as it was saved,
  with its version counted up.\<close>

theorem saved_flow_reads_back:
  assumes "taskflow_state_wf (flow_touch env s)"
  shows "snd (save_taskflow_state env s S) = Inr () \<and>
    get_taskflow_state env' (tfm_taskflow_id (tf_meta s)) (fst (save_taskflow_state env s S)) =
      Inr (flow_touch env s)"
  using taskflow_state_roundtrip[OF assms]
  by (simp add: save_taskflow_state_def store_taskflow_state_def get_taskflow_state_def copied_flow_def)

theorem saved_flow_reads_back_witness:
  "get_taskflow_state flow_sample_env ''t'' (fst (save_taskflow_state flow_sample_env (flow_sample_flow []) empty_flow_service)) =
    Inr (flow_touch flow_sample_env (flow_sample_flow []))"
proof -
  have "taskflow_state_wf (flow_touch flow_sample_env (flow_sample_flow []))"
    using flow_sample_wf[of "[]"]
    by (simp add: taskflow_state_wf_def flow_touch_def taskflow_meta_wf_def flow_sample_env_def)
      (simp add: flow_sample_flow_def)
  from saved_flow_reads_back[OF this, of empty_flow_service flow_sample_env] show ?thesis
    by (simp add: flow_sample_flow_def)
qed

text \<open>No document blocks the service: whatever a taskflow or a project holds, saving it succeeds, and every taskflow
  and project that is stored can be loaded.\<close>

theorem stored_documents_load:
  "snd (save_taskflow_state env s S) = Inr () \<and> snd (save_project_state env p S) = Inr () \<and>
   is_ok (snd (load_flow env k S)) = dict_has (fs_flows S) k \<and> is_ok (snd (get_or_create_project_state env i S))"
  by (simp add: save_flow_ok save_project_ok load_ok project_ok)

end
