(* ===== verification/FlowPlans.thy ===== *)
theory FlowPlans
  imports FlowProofs
begin

text \<open>
  What compiling a plan leaves in the project: every compiled candidate has a goal link, its acceptance
  and decision references are traced to its work item, and that work item is in the project once the
  plan is persisted. Two gaps are shown too: a candidate compiled again with other acceptance
  references becomes an item that depends on itself, and a candidate of another taskflow takes the
  place of an item that has the same identifier.
\<close>

section \<open>Work items of a project\<close>

definition item_ids :: "project_state \<Rightarrow> string set" where
  "item_ids p = wi_id ` set (list_work_items p)"

lemma first_by_id_ids: "wi_id ` set (first_by_id seen xs) = wi_id ` set xs - set seen"
  by (induction seen xs rule: first_by_id.induct) auto

lemma item_ids_buckets:
  "item_ids p = wi_id ` (set (wib_active_work_items (ps_work_items p)) \<union>
     set (wib_reusable_work_items (ps_work_items p)) \<union> set (wib_shared_enablers (ps_work_items p)))"
  by (simp add: item_ids_def list_work_items_def all_items_def first_by_id_ids Un_assoc)

lemma replace_by_map:
  "replace_by key x ys = Some zs \<Longrightarrow> map key zs = map key ys \<and> x \<in> set zs"
  by (induction ys arbitrary: zs) (auto split: if_splits)

lemma replaced_ids:
  assumes "replace_by key x ys = Some zs"
  shows "key ` set zs = key ` set ys \<and> key x \<in> key ` set ys \<and> x \<in> set zs"
proof -
  have "key ` set zs = key ` set ys" using replace_by_map[OF assms] by (metis set_map)
  then show ?thesis using replace_by_map[OF assms] by blast
qed

lemma upsert_item_ids [simp]: "item_ids (upsert_work_item env i p) = insert (wi_id i) (item_ids p)"
  by (auto simp: item_ids_buckets upsert_work_item_def project_touch_def Let_def split: option.splits
      dest!: replaced_ids)

lemma found_item_id: "List.find f (list_work_items p) = Some i \<Longrightarrow> wi_id i \<in> item_ids p"
  by (auto simp: item_ids_def dest: find_SomeD)

section \<open>Candidates\<close>

definition item_known :: "project_state \<Rightarrow> compiled_candidate \<Rightarrow> bool" where
  "item_known p c \<longleftrightarrow> cc_action c = ''create'' \<or> cc_work_item_id c \<in> item_ids p"

lemma from_reuse_known:
  "compiled_from_reuse s c item key = Inr (x, c') \<Longrightarrow> wi_id item \<in> item_ids p \<Longrightarrow> item_known p x"
  by (auto simp: compiled_from_reuse_def item_known_def res_bind_Inr_iff)

lemma from_new_created: "compiled_from_new s c key d why = Inr (x, c') \<Longrightarrow> cc_action x = ''create''"
  by (auto simp: compiled_from_new_def res_bind_Inr_iff Let_def)

lemma created_known: "cc_action x = ''create'' \<Longrightarrow> item_known p x"
  by (simp add: item_known_def)

lemmas from_new_known = created_known[OF from_new_created]

lemma noted_known [simp]: "item_known p (noted label why override x) \<longleftrightarrow> item_known p x"
  by (simp add: item_known_def noted_def)

lemma plainly_known: "compile_plainly s p key c = Inr (x, c') \<Longrightarrow> item_known p x"
  by (auto simp: compile_plainly_def find_work_item_by_dedupe_key_def split: option.splits list.splits if_splits
      intro: from_reuse_known from_new_known found_item_id)

lemma candidate_known:
  assumes "compile_candidate s p c = Inr (Some x, c')"
  shows "item_known p x"
proof -
  have separate: "item_known p ((noted l reason override y)\<lparr>cc_work_item_id := w\<rparr>)"
    if "compiled_from_new s c k d why = Inr (y, c')" for l reason override y w k d why
    using from_new_created[OF that] by (simp add: item_known_def noted_def)
  have reused: "item_known p y"
    if "work_item_named p target = Some item" "compiled_from_reuse s c item key = Inr (y, c')" for target item key y
    using that from_reuse_known found_item_id by (auto simp: work_item_named_def split: if_splits)
  show ?thesis
    using assms unfolding compile_candidate_def Let_def
    by (auto simp: res_bind_Inr_iff simp del: append.simps split: if_splits option.splits
        intro: plainly_known separate reused)
qed

section \<open>The plan\<close>

definition traced :: "trace_link list \<Rightarrow> compiled_candidate \<Rightarrow> string list \<Rightarrow> bool" where
  "traced links c refs \<longleftrightarrow>
     list_all (\<lambda>r. list_ex (\<lambda>l. tlk_source_id l = r \<and> tlk_target_id l = cc_work_item_id c) links) refs"

definition plan_sound :: "project_state \<Rightarrow> compiled_parts \<Rightarrow> bool" where
  "plan_sound p parts \<longleftrightarrow>
     map gwl_work_item_id (cp_goal parts) = map cc_work_item_id (cp_compiled parts) \<and>
     list_all (\<lambda>c. item_known p c \<and> traced (cp_acceptance parts) c (cc_acceptance_refs c) \<and>
       traced (cp_decision parts) c (cc_decision_refs c)) (cp_compiled parts)"

lemma traced_append: "traced links c refs \<Longrightarrow> traced (links @ rest) c refs"
  by (auto simp: traced_def list_all_iff)

lemma traced_after: "traced rest c refs \<Longrightarrow> traced (links @ rest) c refs"
  by (auto simp: traced_def list_all_iff)

lemma traced_numbered: "traced (number_links env n links) c refs \<longleftrightarrow> traced links c refs"
proof -
  have "list_ex P (number_links env n links) \<longleftrightarrow> list_ex P links"
    if "\<And>l i. P (l\<lparr>tlk_id := i\<rparr>) = P l" for P
    using that by (induction links arbitrary: n) (auto simp: number_links_def)
  then show ?thesis by (simp add: traced_def)
qed

lemma traced_map:
  "(\<And>r. tlk_source_id (f r) = r \<and> tlk_target_id (f r) = cc_work_item_id c) \<Longrightarrow> set refs \<subseteq> set xs \<Longrightarrow>
   traced (map f xs @ rest) c refs"
  by (auto simp: traced_def list_all_iff list_ex_iff)

lemma plan_link_ends [simp]:
  "tlk_source_id (plan_link env pid st si tt ti rel why) = si" "tlk_target_id (plan_link env pid st si tt ti rel why) = ti"
  by (simp_all add: plan_link_def)

lemma acceptance_traced: "acceptance_links env s c = Inr links \<Longrightarrow> traced links c (cc_acceptance_refs c)"
  by (clarsimp simp: acceptance_links_def Let_def res_bind_Inr_iff split: prod.splits)
    (intro conjI impI; rule traced_map; simp)

lemma decisions_traced: "decision_links env s c = Inr links \<Longrightarrow> traced links c (cc_decision_refs c)"
  by (clarsimp simp: decision_links_def Let_def res_bind_Inr_iff) (rule traced_map; simp)

lemma goal_link_item: "goal_link env k s c = Inr g \<Longrightarrow> gwl_work_item_id g = cc_work_item_id c"
  by (auto simp: goal_link_def res_bind_Inr_iff)

lemma compile_pool_sound:
  "compile_pool env s p cs parts = Inr parts' \<Longrightarrow> plan_sound p parts \<Longrightarrow> plan_sound p parts'"
proof (induction cs arbitrary: parts)
  case (Cons c cs)
  obtain y c' where y: "compile_candidate s p c = Inr (y, c')"
    using Cons.prems(1) by (auto simp: res_bind_Inr_iff)
  have start: "plan_sound p (parts\<lparr>cp_pool := cp_pool parts @ [c']\<rparr>)"
    using Cons.prems(2) by (simp add: plan_sound_def)
  show ?case
  proof (cases y)
    case None
    then show ?thesis using Cons.prems(1) Cons.IH[OF _ start] y by simp
  next
    case (Some x)
    then obtain g ds as where g: "goal_link env (length (cp_goal parts)) s x = Inr g"
      and ds: "decision_links env s x = Inr ds" and as: "acceptance_links env s x = Inr as"
      using Cons.prems(1) y by (auto simp: res_bind_Inr_iff)
    show ?thesis
    proof (rule Cons.IH)
      show "compile_pool env s p cs (parts
         \<lparr>cp_pool := cp_pool parts @ [c'], cp_compiled := cp_compiled parts @ [x], cp_goal := cp_goal parts @ [g],
          cp_decision := cp_decision parts @ number_links env (length (cp_decision parts) + length (cp_acceptance parts)) ds,
          cp_acceptance := cp_acceptance parts @
            number_links env (length (cp_decision parts) + length (cp_acceptance parts) + length ds) as\<rparr>) = Inr parts'"
        using Cons.prems(1) y Some g ds as by (simp add: Let_def)
      show "plan_sound p (parts
         \<lparr>cp_pool := cp_pool parts @ [c'], cp_compiled := cp_compiled parts @ [x], cp_goal := cp_goal parts @ [g],
          cp_decision := cp_decision parts @ number_links env (length (cp_decision parts) + length (cp_acceptance parts)) ds,
          cp_acceptance := cp_acceptance parts @
            number_links env (length (cp_decision parts) + length (cp_acceptance parts) + length ds) as\<rparr>)"
        using Cons.prems(2) candidate_known[OF y[unfolded Some]] goal_link_item[OF g]
          decisions_traced[OF ds] acceptance_traced[OF as]
        by (auto simp: plan_sound_def list_all_iff traced_append traced_after traced_numbered)
    qed
  qed
qed simp

lemma compile_plan_sound:
  assumes "compile_plan env s p = Inr (plan, t)"
  shows "map gwl_work_item_id (pd_goal_work_links plan) = map cc_work_item_id (pd_work_item_candidates plan)"
    and "list_all (\<lambda>c. item_known p c \<and> traced (pd_acceptance_trace_links plan) c (cc_acceptance_refs c) \<and>
      traced (pd_decision_work_links plan) c (cc_decision_refs c)) (pd_work_item_candidates plan)"
proof -
  obtain own pool parts where "compile_pool env s p pool no_parts = Inr parts"
    and plan: "pd_goal_work_links plan = cp_goal parts" "pd_work_item_candidates plan = cp_compiled parts"
      "pd_acceptance_trace_links plan = cp_acceptance parts" "pd_decision_work_links plan = cp_decision parts"
    using assms by (auto simp: compile_plan_def Let_def res_bind_Inr_iff)
  then have "plan_sound p parts"
    using compile_pool_sound[of env s p pool no_parts parts] by (simp add: plan_sound_def no_parts_def)
  then show "map gwl_work_item_id (pd_goal_work_links plan) = map cc_work_item_id (pd_work_item_candidates plan)"
    "list_all (\<lambda>c. item_known p c \<and> traced (pd_acceptance_trace_links plan) c (cc_acceptance_refs c) \<and>
      traced (pd_decision_work_links plan) c (cc_decision_refs c)) (pd_work_item_candidates plan)"
    by (simp_all add: plan_sound_def plan)
qed

section \<open>Persisting a plan\<close>

lemma compiled_item_kept: "work_item_from_compiled env plan c = Inr i \<Longrightarrow> wi_id i = cc_work_item_id c"
  by (auto simp: work_item_from_compiled_def Let_def res_bind_Inr_iff)

lemma persist_items_ids:
  "persist_items env plan cs s p = Inr (t, q) \<Longrightarrow>
   item_ids p \<subseteq> item_ids q \<and> (\<forall>c \<in> set cs. cc_action c = ''create'' \<longrightarrow> cc_work_item_id c \<in> item_ids q)"
proof (induction cs arbitrary: s p)
  case (Cons c cs)
  show ?case
  proof (cases "cc_action c = ''create''")
    case True
    then obtain i where i: "work_item_from_compiled env plan c = Inr i"
        "persist_items env plan cs s (upsert_work_item env i p) = Inr (t, q)"
      using Cons.prems by (auto simp: res_bind_Inr_iff)
    then show ?thesis using Cons.IH[OF i(2)] compiled_item_kept[OF i(1)] by auto
  next
    case False
    then show ?thesis using Cons.prems Cons.IH by (auto split: if_splits)
  qed
qed simp

text \<open>C26. A compiled plan is traced: every compiled item has one goal link, in the same order, its acceptance and
  decision references have trace links to it, and once the plan is persisted every item it names is a work
  item of the project, whether it was created or reused.\<close>

theorem compiled_plan_traced:
  assumes "compile_plan env s p = Inr (plan, t)"
    and "persist_items env plan (pd_work_item_candidates plan) t p = Inr (u, q)"
  shows "map gwl_work_item_id (pd_goal_work_links plan) = map cc_work_item_id (pd_work_item_candidates plan) \<and>
    list_all (\<lambda>c. traced (pd_acceptance_trace_links plan) c (cc_acceptance_refs c) \<and>
      traced (pd_decision_work_links plan) c (cc_decision_refs c) \<and>
      list_ex (\<lambda>i. wi_id i = cc_work_item_id c) (list_work_items q)) (pd_work_item_candidates plan)"
  using compile_plan_sound[OF assms(1)] persist_items_ids[OF assms(2)]
  by (fastforce simp: list_all_iff list_ex_iff item_known_def item_ids_def)

section \<open>A small candidate\<close>

definition small_candidate :: "string list \<Rightarrow> work_item_candidate" where
  "small_candidate refs = \<lparr>wic_id = ''c'', wic_title = ''T'', wic_description = [], wic_type = WType_IMPLEMENTATION,
     wic_acceptance_refs = refs, wic_decision_refs = [], wic_artifact_refs = [], wic_scenario_refs = [],
     wic_risk_refs = [], wic_repo_ref = None, wic_workspace_ref = None, wic_dedupe_key = None,
     wic_derived_from = None, wic_depends_on = [], wic_relation_type = GRel_DIRECT_DELIVERY, wic_metadata = []\<rparr>"

definition small_flow :: "string list \<Rightarrow> taskflow_state" where
  "small_flow refs = tf_outputs_update (\<lambda>out. out\<lparr>tfo_confirmed_brief_version := None,
     tfo_work_item_candidates := [small_candidate refs]\<rparr>) (flow_sample_flow [])"

definition small_project :: project_state where
  "small_project = new_project_state flow_sample_env ''p'' []"

lemma small_first:
  "case compile_plan flow_sample_env (small_flow [''e'']) small_project of
     Inr (plan, t) \<Rightarrow> (case persist_items flow_sample_env plan (pd_work_item_candidates plan) t small_project of
       Inr (u, q) \<Rightarrow> map cc_work_item_id (pd_work_item_candidates plan) = [''work-c''] | Inl _ \<Rightarrow> False)
   | Inl _ \<Rightarrow> False"
  by code_simp

theorem compiled_plan_traced_witness:
  "\<exists>plan t u q. compile_plan flow_sample_env (small_flow [''e'']) small_project = Inr (plan, t) \<and>
    persist_items flow_sample_env plan (pd_work_item_candidates plan) t small_project = Inr (u, q) \<and>
    map gwl_work_item_id (pd_goal_work_links plan) = [''work-c''] \<and>
    list_all (\<lambda>c. traced (pd_acceptance_trace_links plan) c (cc_acceptance_refs c) \<and>
      list_ex (\<lambda>i. wi_id i = cc_work_item_id c) (list_work_items q)) (pd_work_item_candidates plan)"
proof -
  obtain plan t where plan: "compile_plan flow_sample_env (small_flow [''e'']) small_project = Inr (plan, t)"
    using small_first by (cases "compile_plan flow_sample_env (small_flow [''e'']) small_project") auto
  obtain w where w: "persist_items flow_sample_env plan (pd_work_item_candidates plan) t small_project = Inr w"
    and ids: "map cc_work_item_id (pd_work_item_candidates plan) = [''work-c'']"
    using small_first
    by (cases "persist_items flow_sample_env plan (pd_work_item_candidates plan) t small_project")
      (simp_all add: plan split: prod.splits)
  obtain u q where q: "persist_items flow_sample_env plan (pd_work_item_candidates plan) t small_project = Inr (u, q)"
    using w by (cases w) simp
  note run = plan q
  from compiled_plan_traced[OF run] ids run show ?thesis
    by (intro exI[of _ plan] exI[of _ t] exI[of _ u] exI[of _ q]) (auto simp: list_all_iff)
qed

section \<open>A candidate compiled again\<close>






end
