(* ===== verification/Spec2Isabelle.thy ===== *)
theory Spec2Isabelle
  imports RunRequests RelayProofs SessionBranchProofs FileMutationProofs RedactionProofs ClaimProofs
    CancelProofs AuthGuesses AuthRelay ShellPolicy FlowOutcomes FlowPlans
begin

text \<open>
  Verification of the core of Labrastro: the server that schedules agent runs on workers, the relay
  host its peers connect to, its accounts and sessions, the gateway that permits the tools of an agent,
  the taskflow that turns a goal into confirmed and dispatched work, the tree of session branches, and
  the service that applies patches to files. The program is written in Python; every definition below is translated from one function,
  method or class, keeps its name where Isabelle allows, and computes.

  \<^bold>\<open>How the parts work together.\<close> A client submits a run (\<open>AgentRunControlPlane.submit_agent_run\<close>): the
  request is completed from the runtime snapshot, checked against the runtime policy and stored as a
  queued run with its first activation. A worker claims a run; the claim holds a lease that
  heartbeats renew and that expires otherwise, which puts the run back into the queue. The worker
  sends executor events and finally a result, which decides the outcome of the run; the runs that own
  it receive feedback and may be continued with a next activation. Runs can be steered while they
  execute, stopped, failed, or cancelled with everything they own. Peers authenticate at the relay
  host with a bootstrap token and keep their session alive with heartbeats. The messages of a session
  form a tree of branches from which the transcript of a branch is composed. Agents change files
  through patches that are planned, checked and applied as one transaction. Users log in with a
  password and get a device with access and refresh tokens (\<open>AuthService\<close>); a user with the scope may ask
  for the bootstrap token of a peer, which carries the account to the relay host. Before a tool of an
  agent runs, \<open>PermissionGateway\<close> passes the request through hard policies, the boundary of the agent, its
  mode, its capabilities, lifecycle hooks and the approval rules. A goal is clarified in a taskflow
  (\<open>TaskflowService\<close>): turns of discovery are recorded, briefs are drafted and confirmed, the confirmed brief
  is compiled into work items of the project, and a confirmed dispatch decision lets task runs go out.

  \<^bold>\<open>Theories.\<close> Paths are relative to \<open>src/\<close>.
  \<^item> \<open>Prelude\<close>: results (\<open>error + 'a\<close>), dictionaries that keep their insertion order
    (\<open>pydict\<close>, an association list), texts; the laws of those that everything else uses.
    \<open>PyValue\<close>: the values of JSON documents with truth, \<open>str\<close>, \<open>int\<close>, \<open>or\<close> and lookup.
  \<^item> \<open>RuntimeEnums\<close>, \<open>Coercions\<close>, \<open>ConfigModels\<close>, \<open>AgentConfigs\<close>, \<open>RunRecords\<close>: the data model of
    \<open>reuleauxcoder/domain/agent_runtime/models.py\<close> with its parsers and validation.
  \<^item> \<open>RuntimePolicy\<close>, \<open>Scheduling\<close>, \<open>ExecutorMessages\<close>, \<open>EnvironmentEvents\<close>, \<open>RuntimeStore\<close>,
    \<open>PromptRenderer\<close>, \<open>RedactionProofs\<close>: the files \<open>runtime_policy\<close>, \<open>scheduler\<close>, \<open>lifecycle\<close>,
    \<open>policy\<close>, \<open>executor_backend\<close>, \<open>environment_events\<close>, \<open>permission_events\<close>, \<open>runtime_store\<close> and
    \<open>prompt_renderer\<close> of \<open>labrastro_server/services/agent_runtime\<close>.
  \<^item> \<open>RunFunctions\<close>, \<open>RunViews\<close>, \<open>RunRequests\<close>: the functions of \<open>control_plane.py\<close> there that do not
    touch the state.
  \<^item> \<open>ControlState\<close>, \<open>ControlSubmit\<close>, \<open>ControlClaim\<close>, \<open>ControlBindings\<close>, \<open>ControlFeedback\<close>,
    \<open>ControlCancel\<close>, \<open>ControlRun\<close>, \<open>ControlComplete\<close>: the class \<open>AgentRunControlPlane\<close>. The record
    \<open>control_plane\<close> has a field for each dictionary of the class; an operation maps a state to a state
    and a value or an exception, and what was done before an exception stays done.
    \<open>ControlFrame\<close>, \<open>ControlProofs\<close>, \<open>ClaimProofs\<close>, \<open>CancelProofs\<close>: its laws.
  \<^item> \<open>TokenManager\<close>, \<open>PeerRegistry\<close>, \<open>RelayServer\<close>, \<open>RelayProofs\<close>: \<open>labrastro_server/relay\<close> and the
    messages of \<open>interfaces/http/remote/protocol\<close> that it handles.
  \<^item> \<open>SessionBranchTree\<close>, \<open>SessionBranchProofs\<close>: \<open>session_branch_tree.py\<close>.
  \<^item> \<open>PatchGrammar\<close>, \<open>PatchProofs\<close>, \<open>FileMutation\<close>, \<open>FileMutationProofs\<close>: \<open>file_mutation_service.py\<close> and
    \<open>apply_patch_contract.py\<close> of \<open>reuleauxcoder/domain/files\<close>.
  \<^item> \<open>AuthCrypto\<close>, \<open>AuthModels\<close>, \<open>AuthStore\<close>, \<open>AuthService\<close>: \<open>labrastro_server/services/auth\<close> with its
    in-memory store; \<open>AuthSteps\<close> and \<open>AuthRuns\<close> give the requests and the runs of a server, \<open>AuthProofs\<close>,
    \<open>AuthGuesses\<close> and \<open>AuthRelay\<close> the properties, the second the limit on password guesses, the last those
    that reach into the relay host.
  \<^item> \<open>RegexSearch\<close>, \<open>ApprovalEngine\<close>, \<open>PermissionGateway\<close>, \<open>PermissionProofs\<close>, \<open>ShellPolicy\<close>: the permission
    gateway, the approval rules, the effective capabilities and the policy on shell commands with its
    regular expressions.
  \<^item> \<open>DocumentFields\<close>, \<open>ProjectRefs\<close>, \<open>ProjectDocuments\<close>, \<open>FlowDocuments\<close>, \<open>FlowState\<close>: the two documents of
    \<open>labrastro_server/taskflow/domain\<close> (\<open>project_state.py\<close>, \<open>taskflow_state.py\<close>) with their dictionary forms.
    \<open>FlowEvents\<close>: the ledger, the marks of staleness and the methods of the documents. \<open>FlowBriefs\<close>,
    \<open>FlowReadiness\<close>, \<open>FlowComplexity\<close>, \<open>FlowReview\<close>, \<open>FlowDecisions\<close>: the services of \<open>taskflow/application\<close>
    and the review cards. \<open>FlowCompiler\<close>: \<open>compiler/plan_compiler.py\<close>. \<open>FlowService\<close>: \<open>TaskflowService\<close> on the
    in-memory stores, one function per operation; \<open>flow_call\<close> and \<open>flow_run\<close> are its calls and their runs.
    \<open>FlowGrowth\<close>, \<open>FlowRuns\<close>, \<open>FlowReach\<close>, \<open>FlowCopies\<close>, \<open>FlowProofs\<close>, \<open>FlowOutcomes\<close>, \<open>FlowPlans\<close>: its laws.

  \<^bold>\<open>What the lemmas show.\<close> For the control plane: \<open>cp_reachable\<close> is the set of states that calls lead
  to, failed calls included. The locale \<open>lifecycle_invariant\<close> names the elementary changes that the
  operations are made of; \<open>control_invariant\<close> and \<open>submission_invariant\<close> extend it until every call is
  covered. Each interpretation gives one law of all calls: the event log is contiguous and only
  grows, claims and leases agree, a run stays what it is, steering messages are not lost, relations
  stay. \<open>ClaimProofs\<close> shows which run a claim takes, that it never overbooks a slot, that a worker
  without the lease changes nothing, and what recovery does. \<open>CancelProofs\<close> shows that cancelling
  returns. For the relay host: tokens are used once, sessions belong to registered peers and live as
  long as heartbeats come. For files: a failed patch is rolled back, a completed one has the effect of
  its planned operations, nothing outside the workspace changes, and the parser inverts printing. For
  session trees: the transcript of a branch extends that of its parent, and parents come first.
  For accounts: which tokens still authenticate after which requests, by invariants over all runs of a
  server, and how many passwords can be guessed, with any other requests in between. For permissions: an allowed request has passed every
  gate but the hard policies behind one that warns, and the first hard policy that is not silent decides. For
  taskflows: the locale \<open>growth\<close> is a preorder with the laws by which an
  operation is put together from others that grow; it is interpreted for \<open>advances\<close> (the ledger and the
  decisions of one taskflow only grow, stale decisions stay stale, \<open>flow_ok\<close> is kept) and for \<open>service_le\<close>
  (every stored taskflow advances, \<open>service_ok\<close> is kept), so every operation is one line. \<open>FlowCopies\<close> shows
  that a stored document can always be read; \<open>FlowProofs\<close> what a dispatch needs and that a stale decision
  stays without force; \<open>FlowOutcomes\<close> that a memory patch makes all decisions of its project stale, the
  ledger, the numbering of briefs, scores and the store; \<open>FlowPlans\<close> what a compiled plan leaves behind.
  Documents: the round trips of the dictionary forms, normal forms and policies as exact conditions.

  \<^bold>\<open>Bounds.\<close> Loops are structural recursion, or have a termination proof with a measure: the loops over
  the descendants of a run visit each identifier once, redaction shortens the text, and so on. Two
  recursions of the program are limited by the recursion limit of Python and take what is left of it as an
  argument \<open>depth\<close>; at 0 they raise RecursionError. For \<open>walk\<close> over the items of a branch, which takes one
  frame per item, \<open>descendants_total\<close> and \<open>long_line_exhausts_recursion\<close> say when it is enough. For
  cancelling, \<open>depth\<close> counts the frames of the functions that take part in the nesting
  (\<open>_cancel_task_locked\<close>, \<open>_cleanup_bindings_for_terminal_task_locked\<close>,
  \<open>_set_agent_thread_binding_status_locked\<close> and the operations that lead to them, \<open>in_frame\<close>); the frames
  that their other calls need, a number that does not depend on the nesting, are set aside.
  \<open>cancellation_returns\<close> shows that three frames for each ACTIVE thread binding and three more are enough.

  \<^bold>\<open>Parameters.\<close> What the code gets from outside is an argument: the time and its ISO form (one reading
  per call), fresh identifiers (\<open>env_uuid\<close> enumerates them), random tokens, the outcome of the git
  commands that remove a worktree, the derivation of keys and the codes of tokens in \<open>auth_env\<close>, the
  digest, the dispatcher, the signal extractor and the computations with fractions in \<open>flow_env\<close>, the parser of time stamps (\<open>fromiso\<close>), hashes and diffs of texts (\<open>sha\<close>, \<open>udiff\<close>), and the faults of the file system
  (\<open>io_faults\<close>) and its symbolic links (\<open>ms_links\<close>). That fresh identifiers differ and that different
  tokens have different codes is the hypothesis \<open>no_collisions\<close> of the properties of accounts: an
  idealisation of uuid4 and HMAC. Characters are those of HOL (code points below 256); numbers of seconds are integers.

  \<^bold>\<open>Not modelled.\<close> Of the control plane: the delegation to a persistent store, the sandbox provider,
  \<open>branch_agent_run\<close> (it creates a git worktree), waiting and notification, and threads: each call is one
  step, as the lock makes it. Of the relay host: its event loop thread. Of files: changes
  by others in between, encodings (no text with characters below 256 fails to encode), elapsed times. Whole subsystems: the PostgreSQL stores, the HTTP routes and streams, the
  projection of session events, the display projections of a taskflow, its signal extractor and its
  analysis of a repository, administration, GitHub, capability packages, model providers, hooks, memory, the interactive agent loop with its tools and terminal, and the
  Go agent. They are mostly input and output, or build on parts that are modelled here and come next.
\<close>

end
